(* ===== verification/Prelude.thy ===== *)
theory Prelude
  imports Main "HOL-Library.Multiset"
begin

text \<open>
  Shared vocabulary of the development: the error classes of
  \<open>backend/app/core/exceptions.py\<close>, the result type that every service and repository
  operation returns, list-based database tables with their primary-key operations, and the two
  interfaces (locales) that the components share.

  \<^item> \<open>keyed_table\<close> is what a repository relies on when it reads and writes a table by
    primary key.
  \<^item> \<open>guarded_machine\<close> is what a family of request handlers promises: a step that returns keeps
    the invariant, a step that raises is rolled back.
\<close>

named_theorems repo_defs \<open>definitions of repository operations\<close>
named_theorems svc_defs \<open>definitions of service operations\<close>

section \<open>Identifiers, text and errors\<close>

text \<open>A \<open>uuid.UUID\<close> is a 128-bit number; only equality of identifiers is ever used.\<close>

type_synonym uuid = nat

text \<open>
  User-visible text is the list of its Unicode code points, so that \<open>length\<close> is Python's
  \<open>len\<close>. ASCII identifiers (status values, error codes, keys) are Isabelle strings.
\<close>

type_synonym pystr = "nat list"

definition ascii :: "string \<Rightarrow> pystr" where
  "ascii s = map of_char s"

definition hex_digit :: "nat \<Rightarrow> nat" where
  "hex_digit n = (if n < 10 then 48 + n else 87 + n)"

text \<open>\<open>UUID.hex\<close>.\<close>

definition uuid_hex :: "nat \<Rightarrow> pystr" where
  "uuid_hex u = map (\<lambda>k. hex_digit (u div 16 ^ (31 - k) mod 16)) [0..<32]"

datatype err_class =
    BaseDomainError | NotFoundError | ConflictError | PermissionDeniedError | AuthError
  | ExternalServiceError | RateLimitedError | NotConfiguredError

text \<open>
  Everything an operation can raise: a \<open>DomainError\<close> subclass with its code, the two
  plain exceptions of the challenge service, FastAPI's own \<open>HTTPException\<close> with its status, and what the database driver, the ORM and the
  standard library raise, and an exception of a client library that nothing maps (\<open>LibraryError\<close>).
\<close>

datatype error =
    DomainError err_class string
  | AlreadyJoinedError
  | ChallengeEndedError
  | IntegrityError
  | DataError
  | MultipleResultsFound
  | NoResultFound
  | ValueError
  | OverflowError
  | RuntimeError
  | ZeroDivisionError
  | AssertionError
  | TypeError
  | KeyError
  | AttributeError
  | ProgrammingError
  | LibraryError
  | HTTPException nat
  | HandlerError

type_synonym 'a result = "error + 'a"

fun class_status :: "err_class \<Rightarrow> nat" where
  "class_status BaseDomainError = 500"
| "class_status NotFoundError = 404"
| "class_status ConflictError = 409"
| "class_status PermissionDeniedError = 403"
| "class_status AuthError = 401"
| "class_status ExternalServiceError = 502"
| "class_status RateLimitedError = 429"
| "class_status NotConfiguredError = 503"

text \<open>
  The registered handler translates \<open>DomainError\<close> and its subclasses, FastAPI an
  \<open>HTTPException\<close>; any other exception reaches the server's own error middleware and becomes a 500.
\<close>

fun http_status :: "error \<Rightarrow> nat" where
  "http_status (DomainError c _) = class_status c"
| "http_status (HTTPException n) = n"
| "http_status _ = 500"

section \<open>Results\<close>

definition bindE :: "'e + 'a \<Rightarrow> ('a \<Rightarrow> 'e + 'b) \<Rightarrow> 'e + 'b" where
  "bindE m f = (case m of Inl e \<Rightarrow> Inl e | Inr x \<Rightarrow> f x)"

lemma bindE_simps [simp]:
  "bindE (Inl e) f = Inl e"
  "bindE (Inr x) f = f x"
  by (simp_all add: bindE_def)

lemma bindE_Inr_iff [simp]: "bindE m f = Inr y \<longleftrightarrow> (\<exists>x. m = Inr x \<and> f x = Inr y)"
  by (cases m) simp_all

lemma bindE_Inl_iff: "bindE m f = Inl e \<longleftrightarrow> m = Inl e \<or> (\<exists>x. m = Inr x \<and> f x = Inl e)"
  by (cases m) simp_all

lemma bindE_assoc: "bindE (bindE m f) g = bindE m (\<lambda>x. bindE (f x) g)"
  by (cases m) simp_all

definition guardE :: "bool \<Rightarrow> 'e \<Rightarrow> 'e + unit" where
  "guardE b e = (if b then Inr () else Inl e)"

lemma guardE_Inr_iff [simp]: "guardE b e = Inr u \<longleftrightarrow> b"
  by (simp add: guardE_def)

lemma guardE_Inl_iff [simp]: "guardE b e = Inl e' \<longleftrightarrow> \<not> b \<and> e' = e"
  by (auto simp: guardE_def)

lemma guardE_simps [simp]:
  "guardE True e = Inr ()"
  "guardE False e = Inl e"
  by (simp_all add: guardE_def)

definition required :: "'e \<Rightarrow> 'a option \<Rightarrow> 'e + 'a" where
  "required e x = (case x of None \<Rightarrow> Inl e | Some y \<Rightarrow> Inr y)"

lemma required_simps [simp]:
  "required e None = Inl e"
  "required e (Some y) = Inr y"
  by (simp_all add: required_def)

lemma required_Inr_iff [simp]: "required e x = Inr y \<longleftrightarrow> x = Some y"
  by (cases x) simp_all

lemma required_Inl_iff [simp]: "required e x = Inl e' \<longleftrightarrow> x = None \<and> e' = e"
  by (cases x) auto

text \<open>\<open>Result.scalar_one_or_none()\<close> of SQLAlchemy: more than one row is an error.\<close>

fun scalar_one_or_none :: "'r list \<Rightarrow> 'r option result" where
  "scalar_one_or_none [] = Inr None"
| "scalar_one_or_none [r] = Inr (Some r)"
| "scalar_one_or_none (_ # _ # _) = Inl MultipleResultsFound"

lemma scalar_one_or_none_Some:
  "scalar_one_or_none rows = Inr (Some r) \<longleftrightarrow> rows = [r]"
  by (cases rows rule: scalar_one_or_none.cases) auto

lemma scalar_one_or_none_None:
  "scalar_one_or_none rows = Inr None \<longleftrightarrow> rows = []"
  by (cases rows rule: scalar_one_or_none.cases) auto

lemma scalar_one_or_none_total: "length rows \<le> 1 \<Longrightarrow> \<exists>x. scalar_one_or_none rows = Inr x"
  by (cases rows rule: scalar_one_or_none.cases) auto

text \<open>A loop whose body can raise.\<close>

fun foldE :: "('a \<Rightarrow> 's \<Rightarrow> 'e + 's) \<Rightarrow> 'a list \<Rightarrow> 's \<Rightarrow> 'e + 's" where
  "foldE f [] s = Inr s"
| "foldE f (x # xs) s = bindE (f x s) (foldE f xs)"

lemma foldE_inv:
  assumes "foldE f xs s = Inr s'" "P s" "\<And>x s s'. x \<in> set xs \<Longrightarrow> P s \<Longrightarrow> f x s = Inr s' \<Longrightarrow> P s'"
  shows "P s'"
  using assms
proof (induction xs arbitrary: s)
  case (Cons x xs)
  then obtain s1 where "f x s = Inr s1" "foldE f xs s1 = Inr s'" by auto
  with Cons show ?case by (metis list.set_intros)
qed simp

section \<open>Tables\<close>

text \<open>
  A table is the list of its rows in insertion order. \<open>fetch\<close> is \<open>session.get\<close>,
  \<open>amend\<close> an update of the row with a given key, \<open>discard\<close> a \<open>DELETE ... WHERE\<close>, and
  \<open>insert_row\<close> an \<open>INSERT\<close> that checks the primary key and the table's other
  constraints.
\<close>

definition fetch :: "('r \<Rightarrow> 'k) \<Rightarrow> 'k \<Rightarrow> 'r list \<Rightarrow> 'r option" where
  "fetch key k rows = List.find (\<lambda>r. key r = k) rows"

definition amend :: "('r \<Rightarrow> 'k) \<Rightarrow> 'k \<Rightarrow> ('r \<Rightarrow> 'r) \<Rightarrow> 'r list \<Rightarrow> 'r list" where
  "amend key k f rows = map (\<lambda>r. if key r = k then f r else r) rows"

definition discard :: "('r \<Rightarrow> bool) \<Rightarrow> 'r list \<Rightarrow> 'r list" where
  "discard P rows = filter (\<lambda>r. \<not> P r) rows"

definition insert_row :: "('r \<Rightarrow> 'k) \<Rightarrow> bool \<Rightarrow> 'r \<Rightarrow> 'r list \<Rightarrow> 'r list result" where
  "insert_row key ok r rows =
     (if fetch key (key r) rows = None \<and> ok then Inr (rows @ [r]) else Inl IntegrityError)"

definition order_asc :: "('r \<Rightarrow> int) \<Rightarrow> 'r list \<Rightarrow> 'r list" where
  "order_asc f rows = sort_key f rows"

definition order_desc :: "('r \<Rightarrow> int) \<Rightarrow> 'r list \<Rightarrow> 'r list" where
  "order_desc f rows = sort_key (\<lambda>r. - f r) rows"

lemma fetch_simps [simp]:
  "fetch key k [] = None"
  "fetch key k (r # rows) = (if key r = k then Some r else fetch key k rows)"
  by (simp_all add: fetch_def)

lemma fetch_None_iff: "fetch key k rows = None \<longleftrightarrow> k \<notin> key ` set rows"
  by (induction rows) auto

lemma fetch_Some_key: "fetch key k rows = Some r \<Longrightarrow> key r = k"
  by (induction rows) (auto split: if_splits)

lemma fetch_Some_mem: "fetch key k rows = Some r \<Longrightarrow> r \<in> set rows"
  by (induction rows) (auto split: if_splits)

lemma fetch_SomeD: "fetch key k rows = Some r \<Longrightarrow> r \<in> set rows \<and> key r = k"
  by (blast intro: fetch_Some_mem fetch_Some_key)

lemma fetch_map_key:
  assumes "\<And>r. key (f r) = key r"
  shows "fetch key k (map f rows) = map_option f (fetch key k rows)"
  using assms by (induction rows) auto

lemma fetch_distinct: "distinct (map key rows) \<Longrightarrow> r \<in> set rows \<Longrightarrow> fetch key (key r) rows = Some r"
  by (induction rows) force+

lemma fetch_append:
  "fetch key k (xs @ ys) = (case fetch key k xs of None \<Rightarrow> fetch key k ys | Some r \<Rightarrow> Some r)"
  by (induction xs) auto

lemma set_amend: "set (amend key k f rows) = (\<lambda>r. if key r = k then f r else r) ` set rows"
  by (simp add: amend_def)

lemma map_key_amend:
  assumes "\<And>r. key (f r) = key r"
  shows "map key (amend key k f rows) = map key rows"
  using assms by (simp add: amend_def)

lemma map_amend_eq:
  assumes "\<And>r. g (f r) = g r"
  shows "map g (amend key k f rows) = map g rows"
  using assms by (auto simp: amend_def)

lemma fetch_amend:
  assumes "\<And>r. key (f r) = key r"
  shows "fetch key j (amend key k f rows) =
    (if j = k then map_option f (fetch key j rows) else fetch key j rows)"
  using assms by (induction rows) (auto simp: amend_def)

lemma set_discard [simp]: "set (discard P rows) = {r \<in> set rows. \<not> P r}"
  by (simp add: discard_def)

lemma distinct_map_discard: "distinct (map key rows) \<Longrightarrow> distinct (map key (discard P rows))"
  by (simp add: discard_def distinct_map_filter)

lemma fetch_discard_key:
  "fetch key j (discard (\<lambda>r. key r = k) rows) = (if j = k then None else fetch key j rows)"
  by (induction rows) (auto simp: discard_def)

lemma insert_row_Inr_iff:
  "insert_row key ok r rows = Inr rows' \<longleftrightarrow>
     key r \<notin> key ` set rows \<and> ok \<and> rows' = rows @ [r]"
  by (auto simp: insert_row_def fetch_None_iff)

lemma insert_row_Inl_iff:
  "insert_row key ok r rows = Inl e \<longleftrightarrow>
     \<not> (key r \<notin> key ` set rows \<and> ok) \<and> e = IntegrityError"
  by (auto simp: insert_row_def fetch_None_iff)

lemma set_order_asc [simp]: "set (order_asc f rows) = set rows"
  by (simp add: order_asc_def)

lemma set_order_desc [simp]: "set (order_desc f rows) = set rows"
  by (simp add: order_desc_def)

lemma length_order_asc [simp]: "length (order_asc f rows) = length rows"
  by (simp add: order_asc_def)

lemma length_order_desc [simp]: "length (order_desc f rows) = length rows"
  by (simp add: order_desc_def)

lemma sorted_order_asc: "sorted (map f (order_asc f rows))"
  by (simp add: order_asc_def)

lemma sorted_order_desc: "sorted_wrt (\<lambda>x y. f y \<le> f x) (order_desc f rows)"
proof -
  have "sorted (map (\<lambda>r. - f r) (order_desc f rows))"
    by (simp add: order_desc_def)
  then show ?thesis by (simp add: sorted_map)
qed

lemma distinct_map_order_asc:
  "distinct (map key (order_asc f rows)) \<longleftrightarrow> distinct (map key rows)"
proof -
  have "mset (map key (order_asc f rows)) = mset (map key rows)"
    by (simp add: order_asc_def)
  then show ?thesis by (metis mset_eq_imp_distinct_iff)
qed

text \<open>Queries by key, and \<open>filter\<close> with a result.\<close>

lemma filter_key:
  assumes "distinct (map key rows)"
  shows "filter (\<lambda>r. key r = k) rows = (case fetch key k rows of None \<Rightarrow> [] | Some r \<Rightarrow> [r])"
  using assms
proof (induction rows)
  case (Cons a rows)
  have "filter (\<lambda>r. key r = k) rows = []" if "key a = k"
    unfolding filter_empty_conv using Cons.prems that by (auto simp: image_iff)
  then show ?case using Cons by auto
qed simp

lemma scalar_key:
  assumes "distinct (map key rows)"
  shows "scalar_one_or_none (filter (\<lambda>r. key r = k) rows) = Inr (fetch key k rows)"
  by (simp add: filter_key [OF assms] split: option.splits)

lemma mem_map_filter: "y \<in> set (List.map_filter f xs) \<longleftrightarrow> (\<exists>x \<in> set xs. f x = Some y)"
  by (force simp: List.map_filter_def)

lemma map_filter_Cons: "List.map_filter f (x # xs) = (case f x of None \<Rightarrow> [] | Some y \<Rightarrow> [y]) @ List.map_filter f xs"
  by (simp add: List.map_filter_def split: option.splits)

text \<open>Sums over the rows of a table.\<close>

definition tsum :: "('r \<Rightarrow> int) \<Rightarrow> 'r list \<Rightarrow> int" where
  "tsum g rows = sum_list (map g rows)"

lemma tsum_simps [simp]:
  "tsum g [] = 0"
  "tsum g (r # rows) = g r + tsum g rows"
  "tsum g (xs @ ys) = tsum g xs + tsum g ys"
  by (simp_all add: tsum_def)

lemma sum_list_one:
  fixes c :: int
  assumes "distinct ks"
  shows "sum_list (map (\<lambda>k. if x = k then c else 0) ks) = (if x \<in> set ks then c else 0)"
  using assms by (induction ks) auto

lemma tsum_split_by:
  assumes "distinct ks" and "\<And>r. r \<in> set rows \<Longrightarrow> P r \<Longrightarrow> key r \<in> set ks"
  shows "sum_list (map (\<lambda>k. tsum g (filter (\<lambda>r. P r \<and> key r = k) rows)) ks) = tsum g (filter P rows)"
  using assms(2)
proof (induction rows)
  case (Cons r rows)
  have "sum_list (map (\<lambda>k. tsum g (filter (\<lambda>x. P x \<and> key x = k) (r # rows))) ks) =
      sum_list (map (\<lambda>k. (if P r \<and> key r = k then g r else 0) + tsum g (filter (\<lambda>x. P x \<and> key x = k) rows)) ks)"
    by (intro arg_cong [where f = sum_list] map_cong refl) simp
  also have "\<dots> = sum_list (map (\<lambda>k. if P r \<and> key r = k then g r else 0) ks) + tsum g (filter P rows)"
    using Cons by (simp add: sum_list_addf)
  also have "sum_list (map (\<lambda>k. if P r \<and> key r = k then g r else 0) ks) = (if P r then g r else 0)"
    using Cons.prems [of r] sum_list_one [OF assms(1), of "key r" "g r"] by (cases "P r") auto
  finally show ?case by simp
qed (simp add: sum_list_0)

lemma amend_absent: "k \<notin> key ` set rows \<Longrightarrow> amend key k f rows = rows"
  unfolding amend_def by (rule map_idI) auto

lemma amend_simps [simp]:
  "amend key k f [] = []"
  "amend key k f (r # rows) = (if key r = k then f r else r) # amend key k f rows"
  by (simp_all add: amend_def)

lemma tsum_amend:
  assumes "distinct (map key rows)" "fetch key k rows = Some r"
  shows "tsum g (amend key k f rows) = tsum g rows - g r + g (f r)"
  using assms by (induction rows) (auto simp: amend_absent split: if_splits)

lemma tsum_amend_same:
  assumes "\<And>r. key r = k \<Longrightarrow> g (f r) = g r"
  shows "tsum g (amend key k f rows) = tsum g rows"
  using assms by (induction rows) auto

lemma tsum_nonneg: "(\<And>r. r \<in> set rows \<Longrightarrow> 0 \<le> g r) \<Longrightarrow> 0 \<le> tsum g rows"
  unfolding tsum_def by (rule sum_list_nonneg) auto

lemma distinct_map_filter_amend:
  assumes "\<And>r. key (f r) = key r" "distinct (map h (filter P rows))"
    and "\<And>r. r \<in> set rows \<Longrightarrow> key r = k \<Longrightarrow> P (f r) \<Longrightarrow> P r \<and> h (f r) = h r"
  shows "distinct (map h (filter P (amend key k f rows)))"
  using assms(2,3)
proof (induction rows)
  case (Cons a rows)
  have sub: "h ` set (filter P (amend key k f rows)) \<subseteq> h ` set (filter P rows)"
    using Cons.prems(2) by (auto simp: set_amend)
  show ?case using Cons sub by (auto split: if_splits)
qed simp

section \<open>The interface of a table with a primary key\<close>

locale keyed_table =
  fixes key :: "'r \<Rightarrow> 'k"
    and get :: "'k \<Rightarrow> 't \<Rightarrow> 'r option"
    and put :: "'r \<Rightarrow> 't \<Rightarrow> 't"
    and modify :: "'k \<Rightarrow> ('r \<Rightarrow> 'r) \<Rightarrow> 't \<Rightarrow> 't"
    and del :: "'k \<Rightarrow> 't \<Rightarrow> 't"
    and rows :: "'t \<Rightarrow> 'r set"
    and wf :: "'t \<Rightarrow> bool"
  assumes get_key: "get k t = Some r \<Longrightarrow> key r = k"
    and get_rows: "get k t = Some r \<Longrightarrow> r \<in> rows t"
    and rows_get: "wf t \<Longrightarrow> r \<in> rows t \<Longrightarrow> get (key r) t = Some r"
    and get_put: "get (key r) t = None \<Longrightarrow> get k (put r t) = (if k = key r then Some r else get k t)"
    and get_modify:
      "(\<And>r. key (f r) = key r) \<Longrightarrow>
        get j (modify k f t) = (if j = k then map_option f (get j t) else get j t)"
    and get_del: "get j (del k t) = (if j = k then None else get j t)"
    and wf_put: "wf t \<Longrightarrow> get (key r) t = None \<Longrightarrow> wf (put r t)"
    and wf_modify: "(\<And>r. key (f r) = key r) \<Longrightarrow> wf t \<Longrightarrow> wf (modify k f t)"
    and wf_del: "wf t \<Longrightarrow> wf (del k t)"
begin

lemma get_iff: "wf t \<Longrightarrow> get k t = Some r \<longleftrightarrow> r \<in> rows t \<and> key r = k"
  using get_key get_rows rows_get by blast

lemma row_unique: "wf t \<Longrightarrow> r \<in> rows t \<Longrightarrow> r' \<in> rows t \<Longrightarrow> key r = key r' \<Longrightarrow> r = r'"
  using rows_get by (metis option.inject)

text \<open>An update of one row leaves every field it does not write, in every row, as it was.\<close>

lemma modify_field:
  assumes "\<And>r. key (f r) = key r" and "\<And>r. field (f r) = field r"
  shows "map_option field (get j (modify k f t)) = map_option field (get j t)"
  using assms by (simp add: get_modify option.map_comp o_def)

lemma put_del:
  assumes "get (key r) t = None"
  shows "get j (del (key r) (put r t)) = get j t"
  using assms by (simp add: get_put get_del)

lemma modify_same_row:
  assumes "\<And>r. key (f r) = key r" and "get k t = Some r"
  shows "get k (modify k f t) = Some (f r)"
  using assms by (simp add: get_modify)

lemma modify_other_row:
  assumes "\<And>r. key (f r) = key r" and "j \<noteq> k"
  shows "get j (modify k f t) = get j t"
  using assms by (simp add: get_modify)

end

lemma distinct_key_snoc:
  "distinct (map key t) \<Longrightarrow> fetch key (key r) t = None \<Longrightarrow> distinct (map key (t @ [r]))"
  by (auto simp: fetch_None_iff)

lemma fetch_snoc:
  "fetch key (key r) t = None \<Longrightarrow>
    fetch key k (t @ [r]) = (if k = key r then Some r else fetch key k t)"
  by (auto simp: fetch_append split: option.splits)

lemma keyed_table_list:
  "keyed_table key (fetch key) (\<lambda>r t. t @ [r]) (amend key) (\<lambda>k. discard (\<lambda>r. key r = k)) set
     (\<lambda>t. distinct (map key t))"
  by (rule keyed_table.intro;
      (rule fetch_Some_key fetch_Some_mem fetch_distinct fetch_snoc fetch_amend fetch_discard_key
        distinct_key_snoc distinct_map_discard | simp only: map_key_amend); assumption?)

section \<open>Request handlers with a guard\<close>

text \<open>
  A list of requests, each run in its own transaction: a handler that raises leaves the
  state as it was (the rollback of \<open>get_session\<close> in \<open>backend/app/core/db.py\<close>), a handler
  that returns commits its new state.
\<close>

fun run :: "('op \<Rightarrow> 's \<Rightarrow> 'e + 's) \<Rightarrow> 's \<Rightarrow> 'op list \<Rightarrow> 's" where
  "run step s [] = s"
| "run step s (x # xs) = (case step x s of Inl _ \<Rightarrow> run step s xs | Inr s' \<Rightarrow> run step s' xs)"

inductive reach :: "('op \<Rightarrow> 's \<Rightarrow> 'e + 's) \<Rightarrow> 's \<Rightarrow> 's \<Rightarrow> bool" for step s0 where
  reach_init: "reach step s0 s0"
| reach_step: "reach step s0 s \<Longrightarrow> step x s = Inr s' \<Longrightarrow> reach step s0 s'"

lemma reach_trans: "reach step s1 s2 \<Longrightarrow> reach step s0 s1 \<Longrightarrow> reach step s0 s2"
  by (induction rule: reach.induct) (auto intro: reach.intros)

lemma reach_run: "reach step s0 (run step s0 xs)"
proof (induction xs arbitrary: s0)
  case Nil
  then show ?case by (simp add: reach_init)
next
  case (Cons x xs)
  show ?case
  proof (cases "step x s0")
    case (Inl e)
    with Cons show ?thesis by simp
  next
    case (Inr s')
    from reach_init Inr have "reach step s0 s'" by (rule reach_step)
    with Cons Inr show ?thesis by (auto intro: reach_trans)
  qed
qed

locale guarded_machine =
  fixes step :: "'op \<Rightarrow> 's \<Rightarrow> 'e + 's"
    and inv :: "'s \<Rightarrow> bool"
  assumes step_inv: "inv s \<Longrightarrow> step x s = Inr s' \<Longrightarrow> inv s'"
begin

lemma reach_inv: "reach step s0 s \<Longrightarrow> inv s0 \<Longrightarrow> inv s"
  by (induction rule: reach.induct) (auto intro: step_inv)

lemma run_inv: "inv s \<Longrightarrow> inv (run step s xs)"
  by (rule reach_inv [OF reach_run])

lemma run_append: "run step s (xs @ ys) = run step (run step s xs) ys"
  by (induction xs arbitrary: s) (auto split: sum.splits)

end

text \<open>
  A machine with a quantity that no step lowers: the abstract form of every "once done, never
  undone" property (a published agenda, a closed session, an achieved challenge).
\<close>

locale monotone_machine = guarded_machine step inv
  for step :: "'op \<Rightarrow> 's \<Rightarrow> 'e + 's" and inv +
  fixes rank :: "'s \<Rightarrow> 'm::preorder"
  assumes step_rank: "inv s \<Longrightarrow> step x s = Inr s' \<Longrightarrow> rank s \<le> rank s'"
begin

lemma reach_rank: "reach step s0 s \<Longrightarrow> inv s0 \<Longrightarrow> rank s0 \<le> rank s"
proof (induction rule: reach.induct)
  case reach_init
  then show ?case by simp
next
  case (reach_step s x s')
  then have le: "rank s0 \<le> rank s" and "inv s" by (auto intro: reach_inv)
  from \<open>inv s\<close> reach_step.hyps(2) have "rank s \<le> rank s'" by (rule step_rank)
  with le show ?case by (rule order_trans)
qed

lemma run_rank: "inv s \<Longrightarrow> rank s \<le> rank (run step s xs)"
  by (rule reach_rank [OF reach_run])

end

text \<open>
  A machine that implements an abstract one: each step is, seen through \<open>abs\<close>, one of the abstract
  moves. What the abstract moves keep then holds of every state the machine reaches.
\<close>

locale refinement = guarded_machine step inv
  for step :: "'op \<Rightarrow> 's \<Rightarrow> 'e + 's" and inv +
  fixes abs :: "'s \<Rightarrow> 'a"
    and move :: "'a \<Rightarrow> 'a \<Rightarrow> bool"
  assumes step_move: "inv s \<Longrightarrow> step x s = Inr s' \<Longrightarrow> move (abs s) (abs s')"
begin

lemma reach_moves: "reach step s0 s \<Longrightarrow> inv s0 \<Longrightarrow> move\<^sup>*\<^sup>* (abs s0) (abs s)"
proof (induction rule: reach.induct)
  case (reach_step s x s')
  then have "inv s" by (auto intro: reach_inv)
  with reach_step show ?case by (auto intro: step_move rtranclp.rtrancl_into_rtrancl)
qed simp

lemma run_moves: "inv s \<Longrightarrow> move\<^sup>*\<^sup>* (abs s) (abs (run step s xs))"
  by (rule reach_moves [OF reach_run])

lemma run_keeps:
  assumes "\<And>a b. I a \<Longrightarrow> move a b \<Longrightarrow> I b" and "inv s" and "I (abs s)"
  shows "I (abs (run step s xs))"
  using run_moves [OF assms(2), of xs] assms(3) by (induction rule: rtranclp_induct) (auto intro: assms(1))

end

end
