(* ===== verification/Calendar.thy ===== *)
theory Calendar
  imports Prelude
begin

text \<open>
  Python's \<open>date\<close> and \<open>datetime\<close> as the program uses them. A date is its proleptic
  Gregorian ordinal (\<open>date(1, 1, 1).toordinal() = 1\<close>); an aware datetime is the number of
  microseconds since 1970-01-01T00:00Z. \<open>mk_date\<close> and \<open>add_days\<close> raise exactly where
  the constructors do. The lemmas relate \<open>year_of\<close>/\<open>month_of\<close> (computed as CPython computes
  them) to the first day of a year or month.
\<close>

type_synonym date = int
type_synonym datetime = int

definition max_ordinal :: date where
  "max_ordinal = 3652059"

definition is_leap :: "int \<Rightarrow> bool" where
  "is_leap y \<longleftrightarrow> y mod 4 = 0 \<and> (y mod 100 \<noteq> 0 \<or> y mod 400 = 0)"

definition days_before_year :: "int \<Rightarrow> int" where
  "days_before_year y = (y - 1) * 365 + (y - 1) div 4 - (y - 1) div 100 + (y - 1) div 400"

definition days_in_month :: "int \<Rightarrow> int \<Rightarrow> int" where
  "days_in_month y m =
     (if m = 2 then (if is_leap y then 29 else 28)
      else if m \<in> {4, 6, 9, 11} then 30 else 31)"

definition days_before_month :: "int \<Rightarrow> int \<Rightarrow> int" where
  "days_before_month y m = sum_list (map (days_in_month y) [1..m - 1])"

definition ymd2ord :: "int \<Rightarrow> int \<Rightarrow> int \<Rightarrow> date" where
  "ymd2ord y m d = days_before_year y + days_before_month y m + d"

definition mk_date :: "int \<Rightarrow> int \<Rightarrow> int \<Rightarrow> date result" where
  "mk_date y m d =
     (if 1 \<le> y \<and> y \<le> 9999 \<and> 1 \<le> m \<and> m \<le> 12 \<and> 1 \<le> d \<and> d \<le> days_in_month y m
      then Inr (ymd2ord y m d) else Inl ValueError)"

definition add_days :: "date \<Rightarrow> int \<Rightarrow> date result" where
  "add_days n k = (if 1 \<le> n + k \<and> n + k \<le> max_ordinal then Inr (n + k) else Inl OverflowError)"

definition year_of :: "date \<Rightarrow> int" where
  "year_of n =
     (let e = (n - 1) div 146097; r = (n - 1) mod 146097;
          c = min 3 (r div 36524); r2 = r - c * 36524;
          q = r2 div 1461; r3 = r2 mod 1461; a = min 3 (r3 div 365)
      in 400 * e + 100 * c + 4 * q + a + 1)"

text \<open>The last month of the year that starts no later than \<open>n\<close>.\<close>

fun find_month :: "int \<Rightarrow> date \<Rightarrow> nat \<Rightarrow> int" where
  "find_month y n 0 = 1"
| "find_month y n (Suc k) =
     (if ymd2ord y (int k + 2) 1 \<le> n then int k + 2 else find_month y n k)"

definition month_of :: "date \<Rightarrow> int" where
  "month_of n = find_month (year_of n) n 11"

definition day_of :: "date \<Rightarrow> int" where
  "day_of n = n - ymd2ord (year_of n) (month_of n) 1 + 1"

text \<open>\<open>date.weekday()\<close>: Monday is 0.\<close>

definition weekday :: "date \<Rightarrow> int" where
  "weekday n = (n + 6) mod 7"

definition day_us :: int where
  "day_us = 86400000000"

definition sec_us :: int where
  "sec_us = 1000000"

text \<open>\<open>.date()\<close> of a UTC datetime, and the cast \<open>::date\<close> of a \<open>timestamptz\<close> in a UTC session.\<close>

definition utc_date :: "datetime \<Rightarrow> date" where
  "utc_date t = t div day_us + 719163"

text \<open>The first instant of a date in UTC.\<close>

definition midnight :: "date \<Rightarrow> datetime" where
  "midnight n = (n - 719163) * day_us"

lemma utc_date_midnight [simp]: "utc_date (midnight n) = n"
  by (simp add: utc_date_def midnight_def day_us_def)

lemma midnight_le_iff: "midnight n \<le> t \<longleftrightarrow> n \<le> utc_date t"
proof -
  have "(n - 719163) * day_us \<le> t \<longleftrightarrow> n - 719163 \<le> t div day_us"
  proof
    assume "(n - 719163) * day_us \<le> t"
    then have "((n - 719163) * day_us) div day_us \<le> t div day_us"
      by (rule zdiv_mono1) (simp add: day_us_def)
    then show "n - 719163 \<le> t div day_us" by (simp add: day_us_def)
  next
    assume "n - 719163 \<le> t div day_us"
    then have "(n - 719163) * day_us \<le> t div day_us * day_us"
      by (rule mult_right_mono) (simp add: day_us_def)
    also have "\<dots> \<le> t"
      using div_mult_mod_eq [of t day_us] pos_mod_sign [of day_us t] by (simp add: day_us_def)
    finally show "(n - 719163) * day_us \<le> t" .
  qed
  then show ?thesis by (auto simp: midnight_def utc_date_def)
qed

lemma less_midnight_iff: "t < midnight n \<longleftrightarrow> utc_date t < n"
  using midnight_le_iff [of n t] by linarith

section \<open>Years\<close>

lemma div_pred:
  fixes y k :: int
  assumes k: "1 < k"
  shows "y div k = (y - 1) div k + (if y mod k = 0 then 1 else 0)"
proof -
  have y: "y = k * (y div k) + y mod k" by simp
  show ?thesis
  proof (cases "y mod k = 0")
    case True
    then have "y - 1 = k * (y div k - 1) + (k - 1)" using y by (simp add: algebra_simps)
    then have "(y - 1) div k = y div k - 1" by (rule int_div_pos_eq) (use k in auto)
    then show ?thesis using True by simp
  next
    case False
    have m: "0 \<le> y mod k" "y mod k < k" using k by simp_all
    have "y - 1 = k * (y div k) + (y mod k - 1)" using y by simp
    then have "(y - 1) div k = y div k" by (rule int_div_pos_eq) (use m False in auto)
    then show ?thesis using False by simp
  qed
qed

lemma days_before_year_Suc: "days_before_year (y + 1) = days_before_year y + (if is_leap y then 366 else 365)"
proof -
  have 4: "y div 4 = (y - 1) div 4 + (if y mod 4 = 0 then 1 else 0)" by (rule div_pred) simp
  have 100: "y div 100 = (y - 1) div 100 + (if y mod 100 = 0 then 1 else 0)" by (rule div_pred) simp
  have 400: "y div 400 = (y - 1) div 400 + (if y mod 400 = 0 then 1 else 0)" by (rule div_pred) simp
  have d: "100 dvd y \<Longrightarrow> 4 dvd y" "400 dvd y \<Longrightarrow> 100 dvd y"
    by (erule dvd_trans [rotated]; simp)+
  have "y * 365 = (y - 1) * 365 + 365" by simp
  then show ?thesis
    using d unfolding days_before_year_def is_leap_def add_diff_cancel_right' 4 100 400
    unfolding mod_eq_0_iff_dvd by (cases "4 dvd y"; cases "100 dvd y"; cases "400 dvd y"; simp only: if_True if_False simp_thms)
qed

lemma days_before_year_less: "x < y \<Longrightarrow> days_before_year x + 365 \<le> days_before_year y"
proof (induction rule: int_gr_induct [of x y "\<lambda>y. days_before_year x + 365 \<le> days_before_year y"])
  case base
  then show ?case by (simp add: days_before_year_Suc)
next
  case (step i)
  then show ?case by (simp add: days_before_year_Suc split: if_splits)
qed

lemma leap_last:
  assumes y: "y = 400 * e + 100 * c + 4 * q + 4" and c: "0 \<le> c" "c \<le> 3" and q: "0 \<le> q" "q \<le> 24"
  shows "is_leap y \<longleftrightarrow> q < 24 \<or> c = 3"
proof -
  have "y = 4 * (100 * e + 25 * c + q + 1) + 0" by (simp add: y)
  then have 4: "y mod 4 = 0" by (rule int_mod_pos_eq) auto
  show ?thesis
  proof (cases "q < 24")
    case True
    have "y = 100 * (4 * e + c) + (4 * q + 4)" by (simp add: y)
    then have "y mod 100 = 4 * q + 4" by (rule int_mod_pos_eq) (use q True in auto)
    then show ?thesis using True q 4 by (simp add: is_leap_def)
  next
    case False
    with q have "q = 24" by simp
    then have "y = 100 * (4 * e + c + 1) + 0" by (simp add: y)
    then have 100: "y mod 100 = 0" by (rule int_mod_pos_eq) auto
    show ?thesis
    proof (cases "c = 3")
      case True
      have "y = 400 * (e + 1) + 0" using \<open>q = 24\<close> True by (simp add: y)
      then have "y mod 400 = 0" by (rule int_mod_pos_eq) auto
      then show ?thesis using True 4 by (simp add: is_leap_def)
    next
      case c3: False
      have "y = 400 * e + 100 * (c + 1)" using \<open>q = 24\<close> by (simp add: y)
      then have "y mod 400 = 100 * (c + 1)" by (rule int_mod_pos_eq) (use c c3 in auto)
      then show ?thesis using c c3 False 4 100 by (simp add: is_leap_def)
    qed
  qed
qed

lemma year_bounds: "days_before_year (year_of n) < n" "n \<le> days_before_year (year_of n + 1)"
proof -
  define e r where "e = (n - 1) div 146097" and "r = (n - 1) mod 146097"
  define c where "c = min 3 (r div 36524)"
  define q r3 where "q = (r - c * 36524) div 1461" and "r3 = (r - c * 36524) mod 1461"
  define a where "a = min 3 (r3 div 365)"
  have y: "year_of n = 400 * e + 100 * c + 4 * q + a + 1"
    by (simp add: year_of_def Let_def e_def r_def c_def q_def r3_def a_def)
  have n: "n = 146097 * e + r + 1" "0 \<le> r" "r < 146097"
    by (simp_all add: e_def r_def)
  have c: "0 \<le> c" "c \<le> 3" "c * 36524 \<le> r" "c < 3 \<Longrightarrow> r < (c + 1) * 36524"
    using n unfolding c_def by (auto simp: min_def pos_imp_zdiv_nonneg_iff split: if_splits)
  have q: "r = c * 36524 + 1461 * q + r3" "0 \<le> r3" "r3 < 1461"
    by (simp_all add: q_def r3_def)
  have q0: "0 \<le> q" "q \<le> 24"
    using c q n by (cases "c < 3"; simp; linarith)+
  have a: "0 \<le> a" "a \<le> 3" "a * 365 \<le> r3" "a < 3 \<Longrightarrow> r3 < (a + 1) * 365"
    using q unfolding a_def by (auto simp: min_def pos_imp_zdiv_nonneg_iff split: if_splits)
  define b where "b = 400 * e + 100 * c + 4 * q + a"
  have d: "b div 4 = 100 * e + 25 * c + q" "b div 100 = 4 * e + c" "b div 400 = e"
    by (rule int_div_pos_eq [of _ _ _ a] int_div_pos_eq [of _ _ _ "4 * q + a"]
        int_div_pos_eq [of _ _ _ "100 * c + 4 * q + a"]; use c(1,2) q0 a(1,2) in \<open>simp add: b_def\<close>)+
  have dby: "days_before_year (year_of n) = 146097 * e + 36524 * c + 1461 * q + 365 * a"
    using d by (simp add: days_before_year_def y b_def [symmetric]) (simp add: b_def)
  show "days_before_year (year_of n) < n" using dby n q a by simp
  show "n \<le> days_before_year (year_of n + 1)"
  proof (cases "a < 3")
    case True
    then show ?thesis using a(4) dby n q by (simp add: days_before_year_Suc)
  next
    case False
    with a have a3: "a = 3" by simp
    have "is_leap (year_of n) \<longleftrightarrow> q < 24 \<or> c = 3"
      by (rule leap_last [OF _ c(1,2) q0]) (simp add: y a3)
    moreover have "r3 < 365 * 3 + 365" if "\<not> (q < 24 \<or> c = 3)" using that q0 c q by auto
    ultimately show ?thesis using dby n(1) q by (cases "q < 24 \<or> c = 3") (simp_all add: days_before_year_Suc a3)
  qed
qed

lemma year_of_unique:
  assumes "days_before_year y < n" "n \<le> days_before_year (y + 1)"
  shows "year_of n = y"
proof (rule ccontr)
  assume "year_of n \<noteq> y"
  then consider "year_of n + 1 = y \<or> year_of n + 1 < y" | "y + 1 = year_of n \<or> y + 1 < year_of n"
    by linarith
  then show False
    by cases (use year_bounds [of n] assms days_before_year_less [of "y + 1" "year_of n"]
        days_before_year_less [of "year_of n + 1" y] in auto)
qed

section \<open>Months\<close>

lemma month_next:
  assumes "1 \<le> m" "m \<le> 12"
  shows "ymd2ord y m 1 + days_in_month y m =
    (if m = 12 then ymd2ord (y + 1) 1 1 else ymd2ord y (m + 1) 1)"
proof (cases "m = 12")
  case True
  have "days_before_month y 12 = (if is_leap y then 335 else 334)"
    by (simp add: days_before_month_def days_in_month_def upto.simps)
  moreover have "days_before_month (y + 1) 1 = 0" by (simp add: days_before_month_def)
  ultimately show ?thesis using True
    by (simp add: ymd2ord_def days_before_year_Suc days_in_month_def)
next
  case False
  have "[1..m] = [1..m - 1] @ [m]" using assms by (simp add: upto_rec2)
  then show ?thesis using False by (simp add: ymd2ord_def days_before_month_def)
qed

lemma days_in_month_pos: "28 \<le> days_in_month y m"
  by (auto simp: days_in_month_def)

lemma ymd2ord_first: "ymd2ord y 1 1 = days_before_year y + 1"
  by (simp add: ymd2ord_def days_before_month_def)

lemma ymd2ord_day: "ymd2ord y m d = ymd2ord y m 1 + d - 1"
  by (simp add: ymd2ord_def)

lemma month_start_mono:
  assumes "1 \<le> j" "j < k" "k \<le> 12"
  shows "ymd2ord y j 1 + days_in_month y j \<le> ymd2ord y k 1"
  using assms(2,1,3)
proof (induction k rule: int_gr_induct)
  case base
  then show ?case using month_next [of j y] by simp
next
  case (step i)
  then have "ymd2ord y j 1 + days_in_month y j \<le> ymd2ord y i 1" by simp
  moreover have "ymd2ord y i 1 \<le> ymd2ord y (i + 1) 1"
    using month_next [of i y] days_in_month_pos [of y i] step by simp
  ultimately show ?case by simp
qed

lemma year_end_ord: "ymd2ord y 12 31 = days_before_year (y + 1)"
  using month_next [of 12 y] by (simp add: ymd2ord_first ymd2ord_day [of y 12 31] days_in_month_def)

lemma ymd_in_year:
  assumes "1 \<le> m" "m \<le> 12" "1 \<le> d" "d \<le> days_in_month y m"
  shows "year_of (ymd2ord y m d) = y"
proof (rule year_of_unique)
  have "ymd2ord y 1 1 \<le> ymd2ord y m 1"
    using month_start_mono [of 1 m y] days_in_month_pos [of y 1] assms by (cases "m = 1") auto
  then show "days_before_year y < ymd2ord y m d"
    using assms by (simp add: ymd2ord_first ymd2ord_day [of y m d])
  have "ymd2ord y m 1 + days_in_month y m \<le> ymd2ord y 12 1 + days_in_month y 12"
    using month_start_mono [of m 12 y] days_in_month_pos [of y 12] assms by (cases "m = 12") auto
  then show "ymd2ord y m d \<le> days_before_year (y + 1)"
    using assms month_next [of 12 y] by (simp add: ymd2ord_first ymd2ord_day [of y m d])
qed

lemma find_month_range: "1 \<le> find_month y n k \<and> find_month y n k \<le> int k + 1"
  by (induction k) auto

lemma find_month_start:
  "ymd2ord y 1 1 \<le> n \<Longrightarrow> ymd2ord y (find_month y n k) 1 \<le> n"
  by (induction k) auto

lemma find_month_last:
  "find_month y n k < j \<Longrightarrow> j \<le> int k + 1 \<Longrightarrow> n < ymd2ord y j 1"
proof (induction k)
  case (Suc k)
  show ?case
  proof (cases "j = int k + 2")
    case True
    with Suc.prems show ?thesis by (auto split: if_splits)
  next
    case False
    with Suc show ?thesis by (auto split: if_splits)
  qed
qed simp

lemma month_of_range: "1 \<le> month_of n" "month_of n \<le> 12"
  using find_month_range [of "year_of n" n 11] by (simp_all add: month_of_def)

lemma month_of_bounds:
  "ymd2ord (year_of n) (month_of n) 1 \<le> n"
  "n < ymd2ord (year_of n) (month_of n) 1 + days_in_month (year_of n) (month_of n)"
proof -
  show "ymd2ord (year_of n) (month_of n) 1 \<le> n"
    unfolding month_of_def using year_bounds(1) [of n] by (intro find_month_start) (simp add: ymd2ord_first)
  show "n < ymd2ord (year_of n) (month_of n) 1 + days_in_month (year_of n) (month_of n)"
  proof (cases "month_of n = 12")
    case True
    then show ?thesis using month_next [of 12 "year_of n"] year_bounds(2) [of n]
      by (simp add: ymd2ord_first)
  next
    case False
    then have "n < ymd2ord (year_of n) (month_of n + 1) 1"
      using month_of_range [of n] unfolding month_of_def by (intro find_month_last [where k = 11]) auto
    then show ?thesis using month_next [of "month_of n" "year_of n"] month_of_range [of n] False by simp
  qed
qed

lemma month_of_unique:
  assumes "year_of n = y" "1 \<le> m" "m \<le> 12" "ymd2ord y m 1 \<le> n" "n < ymd2ord y m 1 + days_in_month y m"
  shows "month_of n = m"
proof (rule ccontr)
  assume "month_of n \<noteq> m"
  then consider "month_of n < m" | "m < month_of n" by linarith
  then show False
    by cases (use month_of_bounds [of n] month_of_range [of n] assms
        month_start_mono [of "month_of n" m y] month_start_mono [of m "month_of n" y] in auto)
qed

lemma month_of_ymd:
  assumes "1 \<le> m" "m \<le> 12" "1 \<le> d" "d \<le> days_in_month y m"
  shows "month_of (ymd2ord y m d) = m"
  using assms by (intro month_of_unique [OF ymd_in_year]) (simp_all add: ymd2ord_day [of y m d])

lemma day_of_ymd:
  assumes "1 \<le> m" "m \<le> 12" "1 \<le> d" "d \<le> days_in_month y m"
  shows "day_of (ymd2ord y m d) = d"
  using month_of_ymd [OF assms] ymd_in_year [OF assms] by (simp add: day_of_def ymd2ord_day [of y m d])

lemma weekday_range: "0 \<le> weekday n" "weekday n \<le> 6"
  using pos_mod_bound [of 7 "n + 6"] by (simp_all add: weekday_def)

lemma weekday_monday: "weekday (n - weekday n) = 0"
proof -
  have "(n + 6) mod 7 = n + 6 - 7 * ((n + 6) div 7)" by (simp add: minus_mult_div_eq_mod)
  then have "n - weekday n + 6 = 7 * ((n + 6) div 7)" by (simp add: weekday_def)
  then show ?thesis by (simp add: weekday_def [of "n - weekday n"])
qed

end
