(* ===== verification/GradePolicy.thy ===== *)
theory GradePolicy
  imports Prelude
begin

text \<open>
  \<open>backend/app/domains/reading/grade_policy.py\<close>: the ladder of grades and tiers. A row is
  reached when both its book and its seconds requirement are met; the last reached row wins.

  The locale \<open>and_ladder\<close> is the interface of such a ladder: rows whose two requirements grow
  from row to row, so that the reached rows are an initial segment. It is interpreted on
  \<open>TIER_THRESHOLDS\<close> and on \<open>GRADE_THRESHOLDS\<close>.
\<close>

type_synonym tier_row = "int \<times> int \<times> int \<times> int"

definition TIER_THRESHOLDS :: "tier_row list" where
  "TIER_THRESHOLDS =
    [(1, 1, 0, 0),
     (1, 2, 1, 2 * 3600),
     (1, 3, 2, 6 * 3600),
     (2, 1, 3, 10 * 3600),
     (2, 2, 5, 20 * 3600),
     (2, 3, 7, 35 * 3600),
     (3, 1, 10, 50 * 3600),
     (3, 2, 17, 83 * 3600),
     (3, 3, 23, 117 * 3600),
     (4, 1, 30, 150 * 3600),
     (4, 2, 53, 250 * 3600),
     (4, 3, 77, 375 * 3600),
     (5, 1, 100, 500 * 3600)]"

definition GRADE_THRESHOLDS :: "(int \<times> int \<times> int) list" where
  "GRADE_THRESHOLDS = [(g, b, s). (g, t, b, s) \<leftarrow> TIER_THRESHOLDS, t = 1]"

definition calculate_grade_tier :: "int \<Rightarrow> int \<Rightarrow> int \<times> int" where
  "calculate_grade_tier total_books total_seconds =
     foldl (\<lambda>gt (g, t, b, s). if b \<le> total_books \<and> s \<le> total_seconds then (g, t) else gt)
       (1, 1) TIER_THRESHOLDS"

definition calculate_grade :: "int \<Rightarrow> int \<Rightarrow> int" where
  "calculate_grade total_books total_seconds =
     (let (grade, _) = calculate_grade_tier total_books total_seconds in grade)"

text \<open>The loop over \<open>enumerate(TIER_THRESHOLDS)\<close>: the row after the first matching one.\<close>

fun scan_tier :: "int \<Rightarrow> int \<Rightarrow> tier_row list \<Rightarrow> (int \<times> int) option" where
  "scan_tier cg ct [] = None"
| "scan_tier cg ct ((g, t, b, s) # rows) =
     (if g = cg \<and> t = ct
      then (case rows of [] \<Rightarrow> None | (_, _, nb, ns) # _ \<Rightarrow> Some (nb, ns))
      else scan_tier cg ct rows)"

definition next_tier_threshold :: "int \<Rightarrow> int \<Rightarrow> (int \<times> int) option" where
  "next_tier_threshold current_grade current_tier = scan_tier current_grade current_tier TIER_THRESHOLDS"

definition next_threshold :: "int \<Rightarrow> (int \<times> int) option" where
  "next_threshold current_grade =
     (let max_grade = fst (last GRADE_THRESHOLDS)
      in if max_grade \<le> current_grade then None
         else map_option snd (List.find (\<lambda>(g, b, s). g = current_grade + 1) GRADE_THRESHOLDS))"

section \<open>Ladders with two growing requirements\<close>

text \<open>Does a row's requirement hold? Rows are given by their two requirement projections.\<close>

locale and_ladder =
  fixes need_books need_seconds :: "'r \<Rightarrow> int"
    and rows :: "'r list"
  assumes books_grow: "sorted (map need_books rows)"
    and seconds_grow: "sorted (map need_seconds rows)"
begin

definition reached :: "int \<Rightarrow> int \<Rightarrow> 'r \<Rightarrow> bool" where
  "reached b s r \<longleftrightarrow> need_books r \<le> b \<and> need_seconds r \<le> s"

definition level :: "int \<Rightarrow> int \<Rightarrow> nat" where
  "level b s = length (filter (reached b s) rows)"

lemma reached_down:
  assumes "i \<le> j" "j < length rows" "reached b s (rows ! j)"
  shows "reached b s (rows ! i)"
proof -
  have "need_books (rows ! i) \<le> need_books (rows ! j)"
    using sorted_nth_mono [OF books_grow, of i j] assms by simp
  moreover have "need_seconds (rows ! i) \<le> need_seconds (rows ! j)"
    using sorted_nth_mono [OF seconds_grow, of i j] assms by simp
  ultimately show ?thesis using assms by (simp add: reached_def)
qed

lemma reached_initial: "filter (reached b s) rows = takeWhile (reached b s) rows"
proof -
  have "filter P xs = takeWhile P xs"
    if "\<And>i j. i \<le> j \<Longrightarrow> j < length xs \<Longrightarrow> P (xs ! j) \<Longrightarrow> P (xs ! i)" for P and xs :: "'r list"
    using that
  proof (induction xs)
    case (Cons x xs)
    have tl: "P (xs ! i)" if "i \<le> j" "j < length xs" "P (xs ! j)" for i j
      using Cons.prems [of "Suc i" "Suc j"] that by simp
    show ?case
    proof (cases "P x")
      case True
      then show ?thesis using Cons.IH tl by simp
    next
      case False
      have "\<not> P y" if "y \<in> set xs" for y
      proof -
        from that obtain j where "j < length xs" "xs ! j = y" by (auto simp: in_set_conv_nth)
        with Cons.prems [of 0 "Suc j"] False show ?thesis by auto
      qed
      then show ?thesis using False by (simp add: filter_empty_conv)
    qed
  qed simp
  then show ?thesis using reached_down by blast
qed

lemma level_iff: "i < length rows \<Longrightarrow> i < level b s \<longleftrightarrow> reached b s (rows ! i)"
proof -
  assume i: "i < length rows"
  have tw: "level b s = length (takeWhile (reached b s) rows)"
    by (simp add: level_def reached_initial)
  show ?thesis
  proof
    assume "i < level b s"
    then show "reached b s (rows ! i)"
      using tw by (metis nth_mem set_takeWhileD takeWhile_nth)
  next
    assume r: "reached b s (rows ! i)"
    show "i < level b s"
    proof (rule ccontr)
      assume "\<not> i < level b s"
      then have "level b s \<le> i" and "level b s < length rows" using i by auto
      then show False
        using r reached_down [of "level b s" i b s] i nth_length_takeWhile [of "reached b s" rows] tw
        by auto
    qed
  qed
qed

lemma level_mono: "b \<le> b' \<Longrightarrow> s \<le> s' \<Longrightarrow> level b s \<le> level b' s'"
  unfolding level_def length_filter_conv_card
  by (rule card_mono) (auto simp: reached_def)

lemma level_le: "level b s \<le> length rows"
  by (simp add: level_def)

text \<open>A scan that keeps the last reached row ends on row \<open>level - 1\<close>.\<close>

lemma scan_last:
  assumes "rows \<noteq> []" "reached b s (hd rows)"
  shows "foldl (\<lambda>acc r. if reached b s r then f r else acc) z rows = f (rows ! (level b s - 1))"
proof -
  have fold: "foldl (\<lambda>acc r. if P r then f r else acc) z xs =
      (if filter P xs = [] then z else f (last (filter P xs)))" for P xs z
    by (induction xs arbitrary: z) auto
  have ne: "filter (reached b s) rows \<noteq> []"
    using assms by (cases rows) auto
  then have pos: "0 < level b s" by (simp add: level_def)
  have "last (filter (reached b s) rows) = rows ! (level b s - 1)"
    using ne pos by (simp add: last_conv_nth level_def reached_initial takeWhile_nth)
  then show ?thesis using ne by (simp add: fold)
qed

end

interpretation tiers: and_ladder "\<lambda>(g, t, b, s). b" "\<lambda>(g, t, b, s). s" TIER_THRESHOLDS
  by unfold_locales (simp_all add: TIER_THRESHOLDS_def)

interpretation grades: and_ladder "\<lambda>(g, b, s). b" "\<lambda>(g, b, s). s" GRADE_THRESHOLDS
  by unfold_locales (simp_all add: GRADE_THRESHOLDS_def TIER_THRESHOLDS_def)

section \<open>The ladder of the program\<close>

definition row_of :: "nat \<Rightarrow> int \<times> int" where
  "row_of i = (fst (TIER_THRESHOLDS ! i), fst (snd (TIER_THRESHOLDS ! i)))"

lemma tiers_reached [simp]: "tiers.reached tb ts (g, t, b, s) \<longleftrightarrow> b \<le> tb \<and> s \<le> ts"
  by (simp add: tiers.reached_def)

lemma tier_fold:
  assumes "0 \<le> tb" "0 \<le> ts"
  shows "calculate_grade_tier tb ts = row_of (tiers.level tb ts - 1)"
proof -
  have "(\<lambda>gt (g, t, b, s). if b \<le> tb \<and> s \<le> ts then (g, t) else gt) =
      (\<lambda>acc r. if tiers.reached tb ts r then (fst r, fst (snd r)) else acc)"
    by (intro ext) (auto simp: split_beta)
  then show ?thesis
    unfolding calculate_grade_tier_def row_of_def
    using tiers.scan_last [of tb ts "\<lambda>r. (fst r, fst (snd r))" "(1, 1)"] assms
    by (simp add: TIER_THRESHOLDS_def)
qed

text \<open>A later row is a higher (grade, tier) in the order the program compares them in.\<close>

definition tier_le :: "int \<times> int \<Rightarrow> int \<times> int \<Rightarrow> bool" where
  "tier_le x y \<longleftrightarrow> fst x < fst y \<or> fst x = fst y \<and> snd x \<le> snd y"

lemma rows_sorted:
  "sorted_wrt (\<lambda>x y. (fst x, fst (snd x)) \<noteq> (fst y, fst (snd y)) \<and>
     tier_le (fst x, fst (snd x)) (fst y, fst (snd y))) TIER_THRESHOLDS"
  by (simp add: TIER_THRESHOLDS_def tier_le_def)

lemma row_of_less:
  assumes "i < j" "j < length TIER_THRESHOLDS"
  shows "row_of i \<noteq> row_of j" "tier_le (row_of i) (row_of j)"
  using sorted_wrt_nth_less [OF rows_sorted assms] by (simp_all add: row_of_def)

lemma row_of_le:
  assumes "i \<le> j" "j < length TIER_THRESHOLDS"
  shows "tier_le (row_of i) (row_of j)"
proof (cases "i = j")
  case True
  then show ?thesis by (simp add: tier_le_def)
next
  case False
  with assms row_of_less [of i j] show ?thesis by simp
qed

lemma length_tiers: "length TIER_THRESHOLDS = 13"
  by (simp add: TIER_THRESHOLDS_def)

lemma level_pos: "0 \<le> tb \<Longrightarrow> 0 \<le> ts \<Longrightarrow> 0 < tiers.level tb ts"
  using tiers.level_iff [of 0 tb ts] by (simp add: TIER_THRESHOLDS_def)

lemma level_bound: "tiers.level tb ts \<le> 13"
  using tiers.level_le [of tb ts] by (simp add: length_tiers)

lemma row_of_range:
  assumes "i < 13"
  shows "1 \<le> fst (row_of i) \<and> fst (row_of i) \<le> 5 \<and> 1 \<le> snd (row_of i) \<and> snd (row_of i) \<le> 3"
proof -
  have "\<forall>r\<in>set TIER_THRESHOLDS. 1 \<le> fst r \<and> fst r \<le> 5 \<and> 1 \<le> fst (snd r) \<and> fst (snd r) \<le> 3"
    by (simp add: TIER_THRESHOLDS_def)
  then show ?thesis using assms nth_mem [of i TIER_THRESHOLDS] by (simp add: row_of_def length_tiers)
qed

lemma grade_range:
  assumes "0 \<le> tb" "0 \<le> ts" "calculate_grade_tier tb ts = (g, t)"
  shows "1 \<le> g \<and> g \<le> 5 \<and> 1 \<le> t \<and> t \<le> 3"
proof -
  have "tiers.level tb ts - 1 < 13" using level_bound [of tb ts] by simp
  then show ?thesis using row_of_range tier_fold [OF assms(1,2)] assms(3) by (metis fst_conv snd_conv)
qed

lemma scan_tier_row:
  assumes "distinct (map (\<lambda>r. (fst r, fst (snd r))) rows)" "i < length rows"
    and "(fst (rows ! i), fst (snd (rows ! i))) = (g, t)"
  shows "scan_tier g t rows = (if Suc i < length rows then Some (snd (snd (rows ! Suc i))) else None)"
  using assms
proof (induction rows arbitrary: i)
  case (Cons r rows)
  obtain g' t' b s where r: "r = (g', t', b, s)" by (cases r)
  show ?case
  proof (cases i)
    case 0
    then show ?thesis using Cons.prems r by (auto split: list.splits)
  next
    case (Suc k)
    then have "(g, t) \<in> (\<lambda>r. (fst r, fst (snd r))) ` set rows"
      using Cons.prems nth_mem [of k rows] by force
    moreover have "(g', t') \<notin> (\<lambda>r. (fst r, fst (snd r))) ` set rows" using Cons.prems r by simp
    ultimately have ne: "\<not> (g' = g \<and> t' = t)" by metis
    have "scan_tier g t (r # rows) = scan_tier g t rows" using ne r by auto
    then show ?thesis using Cons.IH [of k] Cons.prems Suc by simp
  qed
qed simp

lemma rows_distinct: "distinct (map (\<lambda>r. (fst r, fst (snd r))) TIER_THRESHOLDS)"
  by (simp add: TIER_THRESHOLDS_def)

lemma next_tier_row:
  assumes "i < 13"
  shows "next_tier_threshold (fst (row_of i)) (snd (row_of i)) =
    (if i < 12 then Some (snd (snd (TIER_THRESHOLDS ! Suc i))) else None)"
  unfolding next_tier_threshold_def
  using assms by (subst scan_tier_row [OF rows_distinct, of i]) (auto simp: row_of_def length_tiers)

section \<open>Properties\<close>

text \<open>
  The grade and tier of a user are those of the highest row of the ladder both of whose
  requirements the user meets: some row i is met, no later row is, and the pair is row i's.
\<close>

theorem calculate_grade_tier_highest:
  assumes "0 \<le> total_books" "0 \<le> total_seconds"
  shows "\<exists>i < length TIER_THRESHOLDS. \<exists>b s.
     TIER_THRESHOLDS ! i = (fst (calculate_grade_tier total_books total_seconds),
       snd (calculate_grade_tier total_books total_seconds), b, s) \<and>
     b \<le> total_books \<and> s \<le> total_seconds \<and>
     (\<forall>(g', t', b', s') \<in> set (drop (Suc i) TIER_THRESHOLDS). \<not> (b' \<le> total_books \<and> s' \<le> total_seconds))"
proof -
  let ?l = "tiers.level total_books total_seconds"
  have i: "?l - 1 < length TIER_THRESHOLDS" "?l - 1 < ?l"
    using level_pos [OF assms] level_bound [of total_books total_seconds] by (simp_all add: length_tiers)
  obtain g t b s where r: "TIER_THRESHOLDS ! (?l - 1) = (g, t, b, s)"
    by (cases "TIER_THRESHOLDS ! (?l - 1)")
  have c: "calculate_grade_tier total_books total_seconds = (g, t)"
    unfolding tier_fold [OF assms] row_of_def r by simp
  have later: "\<not> (b' \<le> total_books \<and> s' \<le> total_seconds)"
    if m: "(g', t', b', s') \<in> set (drop (Suc (?l - 1)) TIER_THRESHOLDS)" for g' t' b' s'
  proof -
    have sl: "Suc (?l - 1) = ?l" using level_pos [OF assms] by simp
    obtain k where k: "k < length (drop ?l TIER_THRESHOLDS)" "drop ?l TIER_THRESHOLDS ! k = (g', t', b', s')"
      using m unfolding sl in_set_conv_nth by blast
    then have "?l + k < length TIER_THRESHOLDS" "TIER_THRESHOLDS ! (?l + k) = (g', t', b', s')" by auto
    then show ?thesis using tiers.level_iff [of "?l + k" total_books total_seconds] by simp
  qed
  have "tiers.reached total_books total_seconds (g, t, b, s)"
    using tiers.level_iff [of "?l - 1" total_books total_seconds] i r by simp
  then show ?thesis
    using i(1) r c later by (intro exI [of _ "?l - 1"] conjI exI [of _ b] exI [of _ s]) auto
qed

lemma calculate_grade_tier_highest_witness:
  "\<exists>i < length TIER_THRESHOLDS. \<exists>b s.
     TIER_THRESHOLDS ! i = (fst (calculate_grade_tier 6 400000), snd (calculate_grade_tier 6 400000), b, s) \<and>
     b \<le> 6 \<and> s \<le> 400000"
  using calculate_grade_tier_highest [of 6 400000] by auto

text \<open>
  Reading more never costs a grade: the (grade, tier) pair is monotone in the completed
  books and in the seconds read.
\<close>

theorem calculate_grade_tier_mono:
  assumes "0 \<le> b" "b \<le> b'" "0 \<le> s" "s \<le> s'"
  shows "tier_le (calculate_grade_tier b s) (calculate_grade_tier b' s')"
proof -
  have "tiers.level b s - 1 \<le> tiers.level b' s' - 1" using tiers.level_mono assms by (simp add: diff_le_mono)
  then show ?thesis
    using assms level_bound [of b' s'] by (simp add: tier_fold row_of_le length_tiers)
qed

lemma calculate_grade_tier_mono_witness:
  "tier_le (calculate_grade_tier 3 36000) (calculate_grade_tier 30 600000)"
  by (rule calculate_grade_tier_mono) simp_all

text \<open>
  What the client shows as the next tier's requirements is right: the user does not meet
  them yet, and as soon as both are met the tier goes up; only (5, 1) has no next tier.
\<close>

theorem next_tier_threshold_next:
  assumes "0 \<le> tb" "0 \<le> ts" "calculate_grade_tier tb ts = (g, t)"
  shows "case next_tier_threshold g t of
      None \<Rightarrow> (g, t) = (5, 1)
    | Some (nb, ns) \<Rightarrow> \<not> (nb \<le> tb \<and> ns \<le> ts) \<and>
        (\<forall>tb' ts'. nb \<le> tb' \<and> ns \<le> ts' \<longrightarrow>
           calculate_grade_tier tb' ts' \<noteq> (g, t) \<and> tier_le (g, t) (calculate_grade_tier tb' ts'))"
proof -
  define i where "i = tiers.level tb ts - 1"
  have i: "i < 13" "Suc i = tiers.level tb ts"
    using level_pos [OF assms(1,2)] level_bound [of tb ts] by (simp_all add: i_def)
  have gt: "row_of i = (g, t)" using assms by (simp add: tier_fold i_def)
  then have nt: "next_tier_threshold g t = (if i < 12 then Some (snd (snd (TIER_THRESHOLDS ! Suc i))) else None)"
    using next_tier_row [OF i(1)] by simp
  show ?thesis
  proof (cases "i < 12")
    case False
    with i have "i = 12" by simp
    then have "row_of i = (5, 1)" by (simp add: row_of_def TIER_THRESHOLDS_def)
    then show ?thesis using gt nt False by simp
  next
    case True
    obtain g' t' nb ns where n: "TIER_THRESHOLDS ! Suc i = (g', t', nb, ns)"
      by (cases "TIER_THRESHOLDS ! Suc i")
    have "\<not> (nb \<le> tb \<and> ns \<le> ts)"
      using tiers.level_iff [of "Suc i" tb ts] n i True by (simp add: length_tiers)
    moreover have "calculate_grade_tier tb' ts' \<noteq> (g, t) \<and> tier_le (g, t) (calculate_grade_tier tb' ts')"
      if le: "nb \<le> tb'" "ns \<le> ts'" for tb' ts'
    proof -
      have "\<forall>r\<in>set TIER_THRESHOLDS. 0 \<le> fst (snd (snd r)) \<and> 0 \<le> snd (snd (snd r))"
        by (simp add: TIER_THRESHOLDS_def)
      then have "0 \<le> tb'" "0 \<le> ts'"
        using le n True nth_mem [of "Suc i" TIER_THRESHOLDS] by (force simp: length_tiers)+
      moreover have "Suc i < tiers.level tb' ts'"
        using tiers.level_iff [of "Suc i" tb' ts'] n le True by (simp add: length_tiers)
      ultimately show ?thesis
        using row_of_less [OF less_diff_conv [THEN iffD2], of i 1 "tiers.level tb' ts'"]
          gt level_bound [of tb' ts'] tier_fold [of tb' ts']
        by (simp add: length_tiers eq_commute)
    qed
    ultimately show ?thesis using nt n True by simp
  qed
qed

lemma next_tier_threshold_next_witness:
  "next_tier_threshold 2 2 = Some (7, 126000) \<and> \<not> (7 \<le> (6 :: int)) \<and>
    calculate_grade_tier 7 400000 \<noteq> (2, 2) \<and> tier_le (2, 2) (calculate_grade_tier 7 400000)"
proof -
  have n: "next_tier_threshold 2 2 = Some (7, 126000)"
    by (simp add: next_tier_threshold_def TIER_THRESHOLDS_def)
  have "calculate_grade_tier 6 400000 = (2, 2)"
    by (simp add: calculate_grade_tier_def TIER_THRESHOLDS_def)
  then show ?thesis using next_tier_threshold_next [of 6 400000 2 2] n by simp
qed

end
