(* ===== verification/StreakPolicy.thy ===== *)
theory StreakPolicy
  imports Calendar
begin

text \<open>
  \<open>backend/app/domains/reading/streak_policy.py\<close> and the shield rule
  \<open>_apply_streak_with_shield\<close> of \<open>backend/app/domains/reading/service.py\<close>. The date
  arithmetic \<open>previous_last_date + timedelta(days=1)\<close> can overflow, so both return a result.
\<close>

definition update_streak :: "date option \<Rightarrow> int \<Rightarrow> int \<Rightarrow> date \<Rightarrow> (int \<times> int \<times> date) result" where
  "update_streak previous_last_date previous_streak_days longest_streak session_date =
     (case previous_last_date of
        None \<Rightarrow> Inr (1, max longest_streak 1, session_date)
      | Some pd \<Rightarrow>
          if session_date < pd then Inr (previous_streak_days, longest_streak, pd)
          else if session_date = pd then Inr (previous_streak_days, longest_streak, pd)
          else bindE (add_days pd 1) (\<lambda>next_day.
            if session_date = next_day
            then let new_streak = previous_streak_days + 1
                 in Inr (new_streak, max longest_streak new_streak, session_date)
            else Inr (1, longest_streak, session_date)))"

definition MAX_STREAK_SHIELDS :: int where
  "MAX_STREAK_SHIELDS = 3"

definition SHIELD_AWARD_INTERVAL :: int where
  "SHIELD_AWARD_INTERVAL = 7"

definition apply_streak_with_shield ::
    "date option \<Rightarrow> int \<Rightarrow> int \<Rightarrow> int \<Rightarrow> date \<Rightarrow> (int \<times> int \<times> date \<times> int) result" where
  "apply_streak_with_shield previous_last_date previous_streak_days longest_streak streak_shields session_date =
     bindE (case previous_last_date of
              None \<Rightarrow> Inr False
            | Some pd \<Rightarrow> bindE (add_days pd 1) (\<lambda>next_day. Inr (next_day < session_date)))
       (\<lambda>gap_reset.
         let shield_consumed = gap_reset \<and> 0 < streak_shields
         in bindE (if shield_consumed
                   then Inr (previous_streak_days, longest_streak, session_date)
                   else update_streak previous_last_date previous_streak_days longest_streak session_date)
              (\<lambda>(streak_days, new_longest, last_date).
                let new_shields = (if shield_consumed then streak_shields - 1 else streak_shields)
                in Inr (streak_days, new_longest, last_date,
                     if \<not> shield_consumed \<and> 0 < streak_days \<and> streak_days mod SHIELD_AWARD_INTERVAL = 0
                     then min MAX_STREAK_SHIELDS (new_shields + 1) else new_shields)))"

section \<open>What one session does to a streak\<close>

lemma update_streak_Inr:
  "update_streak prev n longest d = Inr (n', longest', d') \<Longrightarrow>
     (n', longest', d') = (1, max longest 1, d) \<and> prev = None
   \<or> (\<exists>pd. prev = Some pd \<and> d \<le> pd \<and> (n', longest', d') = (n, longest, pd))
   \<or> (\<exists>pd. prev = Some pd \<and> d = pd + 1 \<and> (n', longest', d') = (n + 1, max longest (n + 1), d))
   \<or> (\<exists>pd. prev = Some pd \<and> pd + 1 < d \<and> (n', longest', d') = (1, longest, d))"
  by (auto simp: update_streak_def add_days_def Let_def split: option.splits if_splits)

text \<open>The cases of \<open>apply_streak_with_shield\<close>, before the award.\<close>

definition awarded :: "int \<Rightarrow> int \<Rightarrow> int" where
  "awarded streak shields =
     (if 0 < streak \<and> streak mod SHIELD_AWARD_INTERVAL = 0
      then min MAX_STREAK_SHIELDS (shields + 1) else shields)"

lemma shield_cases:
  assumes "apply_streak_with_shield prev n longest shields d = Inr (n', longest', d', shields')"
  obtains
    (first) "prev = None" "n' = 1" "longest' = max longest 1" "d' = d" "shields' = awarded 1 shields"
  | (repeat) pd where "prev = Some pd" "d \<le> pd" "n' = n" "longest' = longest" "d' = pd"
      "shields' = awarded n shields"
  | (next_day) pd where "prev = Some pd" "d = pd + 1" "n' = n + 1" "longest' = max longest (n + 1)"
      "d' = d" "shields' = awarded (n + 1) shields"
  | (absorbed) pd where "prev = Some pd" "pd + 1 < d" "0 < shields" "n' = n" "longest' = longest"
      "d' = d" "shields' = shields - 1"
  | (reset) pd where "prev = Some pd" "pd + 1 < d" "shields \<le> 0" "n' = 1" "longest' = longest"
      "d' = d" "shields' = awarded 1 shields"
proof (cases prev)
  case None
  with assms show ?thesis
    by (intro first) (auto simp: apply_streak_with_shield_def update_streak_def awarded_def Let_def split: if_splits)
next
  case (Some pd)
  with assms have ov: "add_days pd 1 = Inr (pd + 1)"
    by (auto simp: apply_streak_with_shield_def add_days_def split: if_splits)
  consider "d \<le> pd" | "d = pd + 1" | "pd + 1 < d" "0 < shields" | "pd + 1 < d" "shields \<le> 0"
    by linarith
  then show ?thesis
  proof cases
    case 1
    then show ?thesis using assms Some ov
      by (intro repeat [of pd]) (auto simp: apply_streak_with_shield_def update_streak_def awarded_def Let_def split: if_splits)
  next
    case 2
    then show ?thesis using assms Some ov
      by (intro next_day [of pd]) (auto simp: apply_streak_with_shield_def update_streak_def awarded_def Let_def split: if_splits)
  next
    case 3
    then show ?thesis using assms Some ov
      by (intro absorbed [of pd]) (auto simp: apply_streak_with_shield_def update_streak_def awarded_def Let_def split: if_splits)
  next
    case 4
    then show ?thesis using assms Some ov
      by (intro reset [of pd]) (auto simp: apply_streak_with_shield_def update_streak_def awarded_def Let_def split: if_splits)
  qed
qed

lemma awarded_bounds: "0 \<le> shields \<Longrightarrow> shields \<le> 3 \<Longrightarrow> 0 \<le> awarded n shields \<and> awarded n shields \<le> 3"
  by (simp add: awarded_def MAX_STREAK_SHIELDS_def)

text \<open>What the program keeps about a streak: it never exceeds the longest one, and is positive
  once there is an anchor date; shields stay in their range.\<close>

definition streak_ok :: "date option \<Rightarrow> int \<Rightarrow> int \<Rightarrow> bool" where
  "streak_ok prev n longest \<longleftrightarrow> 0 \<le> n \<and> n \<le> longest \<and> (prev \<noteq> None \<longrightarrow> 1 \<le> n)"

lemma shield_streak_ok:
  assumes "apply_streak_with_shield prev n longest shields d = Inr (n', longest', d', shields')"
    and "streak_ok prev n longest"
  shows "streak_ok (Some d') n' longest'"
  using assms(1) by (cases rule: shield_cases) (use assms(2) in \<open>auto simp: streak_ok_def\<close>)

lemma shield_range:
  assumes "apply_streak_with_shield prev n longest shields d = Inr (n', longest', d', shields')"
    and "0 \<le> shields" "shields \<le> 3"
  shows "0 \<le> shields' \<and> shields' \<le> 3"
  using assms(1) by (cases rule: shield_cases) (use assms(2,3) awarded_bounds in auto)

end
