(* ===== verification/PyNum.thy ===== *)
theory PyNum
  imports Prelude "HOL-Library.Log_Nat" Complex_Main
begin

text \<open>
  The Python numbers the program computes with. \<open>int\<close> is unbounded. A \<open>float\<close> is an IEEE
  binary64 number; every value the program rounds lies far inside the normal range, so a float is
  modelled as the rational it denotes and \<open>fl\<close> rounds a rational to the nearest number with 53
  significant bits, ties to even (no overflow, no subnormals). \<open>true_div\<close> is \<open>/\<close> on ints,
  which Python rounds correctly once; \<open>py_round\<close> is \<open>round(x, n)\<close>.

  The lemmas say when the rounding does not matter: integers up to $2^{53}$ are exact, rounding
  is monotone, and \<open>floor\<close>/\<open>ceil\<close> of a quotient are those of the exact quotient.
\<close>

section \<open>Rounding to an integer\<close>

definition rne :: "rat \<Rightarrow> int" where
  "rne x = (let f = \<lfloor>x\<rfloor>; r = x - of_int f
            in if r < 1/2 then f else if 1/2 < r then f + 1 else if even f then f else f + 1)"

lemma rne_cases: "rne x = \<lfloor>x\<rfloor> \<and> x - of_int \<lfloor>x\<rfloor> \<le> 1/2 \<or> rne x = \<lfloor>x\<rfloor> + 1 \<and> 1/2 \<le> x - of_int \<lfloor>x\<rfloor>"
  by (auto simp: rne_def Let_def)

lemma rne_error: "\<bar>of_int (rne x) - x\<bar> \<le> 1/2"
  using rne_cases [of x] floor_correct [of x] by (auto simp: abs_le_iff)

lemma rne_of_int [simp]: "rne (of_int n) = n"
  by (simp add: rne_def)

lemma rne_mono:
  assumes "x \<le> y"
  shows "rne x \<le> rne y"
proof (cases "\<lfloor>x\<rfloor> = \<lfloor>y\<rfloor>")
  case True
  then show ?thesis using assms by (auto simp: rne_def Let_def)
next
  case False
  with assms have "\<lfloor>x\<rfloor> + 1 \<le> \<lfloor>y\<rfloor>" using floor_mono [of x y] by linarith
  then show ?thesis using rne_cases [of x] rne_cases [of y] by linarith
qed

lemma rne_le_int: "x \<le> of_int n \<Longrightarrow> rne x \<le> n"
  using rne_mono [of x "of_int n"] by (simp only: rne_of_int)

lemma int_le_rne: "of_int n \<le> x \<Longrightarrow> n \<le> rne x"
  using rne_mono [of "of_int n" x] by (simp only: rne_of_int)

section \<open>Rounding to 53 bits\<close>

definition expo :: "rat \<Rightarrow> int" where
  "expo q = (let (n, d) = quotient_of \<bar>q\<bar>; l = bitlen n - bitlen d
             in if 2 powi l \<le> \<bar>q\<bar> then l else l - 1)"

definition fl :: "rat \<Rightarrow> rat" where
  "fl q = (if q = 0 then 0
           else let u = 2 powi (expo q - 52) in of_int (rne (q / u)) * u)"

definition true_div :: "int \<Rightarrow> int \<Rightarrow> rat" where
  "true_div a b = fl (of_int a / of_int b)"

definition py_round :: "rat \<Rightarrow> nat \<Rightarrow> rat" where
  "py_round x n = fl (of_int (rne (x * 10 ^ n)) / 10 ^ n)"

definition py_trunc :: "rat \<Rightarrow> int" where
  "py_trunc x = (if 0 \<le> x then \<lfloor>x\<rfloor> else \<lceil>x\<rceil>)"

lemma bitlen_powi:
  assumes "0 < n"
  shows "(2::rat) powi (bitlen n - 1) \<le> of_int n" "of_int n < (2::rat) powi (bitlen n)"
proof -
  have "bitlen n \<noteq> 0" using assms by (simp add: bitlen_eq_zero_iff)
  then have pos: "0 < bitlen n" using bitlen_nonneg [of n] by linarith
  have b: "2 ^ nat (bitlen n - 1) \<le> n" "n < 2 ^ nat (bitlen n)"
    using bitlen_bounds [OF assms] by auto
  have "(of_int (2 ^ nat (bitlen n - 1)) :: rat) \<le> of_int n" using b(1) by (subst of_int_le_iff)
  then show "(2::rat) powi (bitlen n - 1) \<le> of_int n" using pos by (simp add: power_int_def)
  have "(of_int n :: rat) < of_int (2 ^ nat (bitlen n))" using b(2) by (subst of_int_less_iff)
  then show "of_int n < (2::rat) powi (bitlen n)" using pos by (simp add: power_int_def)
qed

lemma expo_bounds:
  assumes "q \<noteq> 0"
  shows "2 powi expo q \<le> \<bar>q\<bar>" "\<bar>q\<bar> < 2 powi (expo q + 1)"
proof -
  obtain n d where nd: "quotient_of \<bar>q\<bar> = (n, d)" by fastforce
  have d: "0 < d" using quotient_of_denom_pos [OF nd] .
  have q: "\<bar>q\<bar> = of_int n / of_int d" using quotient_of_div [OF nd] .
  with assms d have n: "0 < n" by (simp add: zero_less_divide_iff flip: zero_less_abs_iff)
  define l where "l = bitlen n - bitlen d"
  have N: "2 powi (bitlen n - 1) \<le> (of_int n :: rat)" "(of_int n :: rat) < 2 powi bitlen n"
    and D: "2 powi (bitlen d - 1) \<le> (of_int d :: rat)" "(of_int d :: rat) < 2 powi bitlen d"
    using bitlen_powi [OF n] bitlen_powi [OF d] by auto
  have "\<bar>q\<bar> < 2 powi bitlen n / 2 powi (bitlen d - 1)"
    unfolding q using N D d n by (intro frac_less) auto
  also have "\<dots> = 2 powi (l + 1)" by (simp add: l_def power_int_diff power_int_add)
  finally have up: "\<bar>q\<bar> < 2 powi (l + 1)" .
  have "2 powi (l - 1) = 2 powi (bitlen n - 1) / (2::rat) powi bitlen d"
    by (simp add: l_def power_int_diff)
  also have "\<dots> \<le> \<bar>q\<bar>" unfolding q using N D d n by (intro frac_le) auto
  finally have lo: "2 powi (l - 1) \<le> \<bar>q\<bar>" .
  have e: "expo q = (if 2 powi l \<le> \<bar>q\<bar> then l else l - 1)"
    by (simp add: expo_def nd l_def Let_def)
  show "2 powi expo q \<le> \<bar>q\<bar>" using lo by (simp add: e)
  show "\<bar>q\<bar> < 2 powi (expo q + 1)" using up by (simp add: e)
qed

lemma expo_mono:
  assumes "0 < x" "x \<le> y"
  shows "expo x \<le> expo y"
proof (rule ccontr)
  assume "\<not> expo x \<le> expo y"
  then have "(2::rat) powi (expo y + 1) \<le> 2 powi expo x" by (intro power_int_increasing) auto
  moreover have "2 powi expo x \<le> x" using expo_bounds(1) [of x] assms by simp
  moreover have "y < 2 powi (expo y + 1)" using expo_bounds(2) [of y] assms by simp
  ultimately show False using assms by linarith
qed

lemma fl_0 [simp]: "fl 0 = 0"
  by (simp add: fl_def)

lemma fl_error: "\<bar>fl q - q\<bar> \<le> \<bar>q\<bar> / 2 ^ 53"
proof (cases "q = 0")
  case False
  define u :: rat where "u = 2 powi (expo q - 52)"
  have u: "0 < u" by (simp add: u_def)
  have "fl q - q = (of_int (rne (q / u)) - q / u) * u"
    using False u by (simp add: fl_def Let_def u_def left_diff_distrib)
  then have "\<bar>fl q - q\<bar> = \<bar>of_int (rne (q / u)) - q / u\<bar> * u" using u by (simp add: abs_mult)
  also have "\<dots> \<le> 1/2 * u" using rne_error [of "q / u"] u by (intro mult_right_mono) auto
  also have "\<dots> = 2 powi expo q / 2 ^ 53" by (simp add: u_def power_int_diff)
  also have "\<dots> \<le> \<bar>q\<bar> / 2 ^ 53" using expo_bounds(1) [OF False] by (simp add: divide_right_mono)
  finally show ?thesis .
qed simp

lemma fl_nonneg: "0 \<le> q \<Longrightarrow> 0 \<le> fl q"
proof -
  assume q: "0 \<le> q"
  then have "q / 2 ^ 53 \<le> q" by (simp add: divide_le_eq mult_left_le)
  then show "0 \<le> fl q" using fl_error [of q] q by linarith
qed

lemma fl_nonpos: "q \<le> 0 \<Longrightarrow> fl q \<le> 0"
proof -
  assume q: "q \<le> 0"
  then have "- q / 2 ^ 53 \<le> - q" by (simp add: divide_le_eq mult_left_le)
  moreover from fl_error [of q] have "\<bar>fl q - q\<bar> \<le> - q / 2 ^ 53" by (simp only: abs_of_nonpos [OF q])
  ultimately show "fl q \<le> 0" using q by linarith
qed

lemma fl_mono:
  assumes "0 \<le> x" "x \<le> y"
  shows "fl x \<le> fl y"
proof (cases "x = 0")
  case True
  then show ?thesis using fl_nonneg [of y] assms by simp
next
  case False
  with assms have xy: "0 < x" "0 < y" by auto
  define ux uy :: rat where "ux = 2 powi (expo x - 52)" and "uy = 2 powi (expo y - 52)"
  have pos: "0 < ux" "0 < uy" by (simp_all add: ux_def uy_def)
  have fx: "fl x = of_int (rne (x / ux)) * ux" and fy: "fl y = of_int (rne (y / uy)) * uy"
    using xy by (simp_all add: fl_def ux_def uy_def Let_def)
  show ?thesis
  proof (cases "expo x = expo y")
    case True
    then have "ux = uy" by (simp add: ux_def uy_def)
    moreover have "rne (x / uy) \<le> rne (y / uy)" using assms pos by (intro rne_mono divide_right_mono) auto
    ultimately show ?thesis unfolding fx fy using pos by (simp add: mult_right_mono)
  next
    case False
    with expo_mono [OF xy(1) assms(2)] have lt: "expo x + 1 \<le> expo y" by simp
    have "x / ux \<le> of_int (2 ^ 53)"
    proof -
      have "x < 2 powi (expo x + 1)" using expo_bounds(2) [of x] xy by simp
      also have "\<dots> = of_int (2 ^ 53) * ux" by (simp add: ux_def power_int_diff power_int_add)
      finally show ?thesis using pos by (simp add: divide_le_eq)
    qed
    then have "rne (x / ux) \<le> 2 ^ 53" by (rule rne_le_int)
    then have "(of_int (rne (x / ux)) :: rat) \<le> of_int (2 ^ 53)" by (subst of_int_le_iff)
    then have "fl x \<le> of_int (2 ^ 53) * ux" unfolding fx using pos by (intro mult_right_mono) auto
    also have "\<dots> = 2 powi (expo x + 1)" by (simp add: ux_def power_int_diff power_int_add)
    also have "\<dots> \<le> 2 powi expo y" using lt by (intro power_int_increasing) auto
    also have "\<dots> = of_int (2 ^ 52) * uy" by (simp add: uy_def power_int_diff)
    also have "\<dots> \<le> fl y"
    proof -
      have "2 powi expo y \<le> y" using expo_bounds(1) [of y] xy by simp
      then have "of_int (2 ^ 52) \<le> y / uy"
        using pos by (simp add: le_divide_eq) (simp add: uy_def power_int_diff)
      then have "2 ^ 52 \<le> rne (y / uy)" by (rule int_le_rne)
      then have "(of_int (2 ^ 52) :: rat) \<le> of_int (rne (y / uy))" by (subst of_int_le_iff)
      then show ?thesis unfolding fy using pos by (intro mult_right_mono) auto
    qed
    finally show ?thesis .
  qed
qed

lemma fl_scaled_less:
  assumes "0 < r" "r < 2 ^ 53"
  shows "fl (of_int r * 2 powi k) = of_int r * 2 powi k"
proof -
  let ?q = "of_int r * 2 powi k :: rat"
  have q: "0 < ?q" using assms by simp
  have "2 powi expo ?q \<le> ?q" using expo_bounds(1) [OF less_imp_neq [OF q, symmetric]]
    by (simp only: abs_of_pos [OF q])
  also have "\<dots> < of_int (2 ^ 53) * 2 powi k"
  proof (rule mult_strict_right_mono)
    show "of_int r < (of_int (2 ^ 53) :: rat)" using assms(2) by (simp only: of_int_less_iff)
  qed simp
  also have "\<dots> = 2 powi (53 + k)" by (simp add: power_int_add)
  finally have "expo ?q < 53 + k"
    using power_int_increasing [of "53 + k" "expo ?q" "2::rat"] by (cases "53 + k \<le> expo ?q") auto
  then have n: "k - (expo ?q - 52) = int (nat (k - (expo ?q - 52)))" by simp
  have "?q / 2 powi (expo ?q - 52) = of_int r * 2 powi (k - (expo ?q - 52))"
    by (simp add: power_int_diff)
  also have "\<dots> = of_int (r * 2 ^ nat (k - (expo ?q - 52)))"
    by (subst n) (simp only: power_int_of_nat of_int_mult of_int_power of_int_numeral)
  finally have "rne (?q / 2 powi (expo ?q - 52)) = r * 2 ^ nat (k - (expo ?q - 52))"
    and e: "of_int (r * 2 ^ nat (k - (expo ?q - 52))) = ?q / 2 powi (expo ?q - 52)"
    by (simp_all only: rne_of_int)
  then have "fl ?q = ?q / 2 powi (expo ?q - 52) * 2 powi (expo ?q - 52)"
    unfolding fl_def Let_def by (simp only: e if_not_P [OF less_imp_neq [OF q, symmetric]])
  then show ?thesis by simp
qed

lemma fl_scaled:
  assumes "0 \<le> r" "r \<le> 2 ^ 53"
  shows "fl (of_int r * 2 powi k) = of_int r * 2 powi k"
proof (cases "r = 0 \<or> r < 2 ^ 53")
  case True
  then show ?thesis using assms fl_scaled_less [of r k] by (cases "r = 0") simp_all
next
  case False
  with assms have "r = 2 ^ 53" by simp
  then have "of_int r * 2 powi k = of_int (2 ^ 52) * (2 :: rat) powi (k + 1)"
    by (simp add: power_int_add)
  then show ?thesis using fl_scaled_less [of "2 ^ 52" "k + 1"] by simp
qed

lemma fl_of_int:
  assumes "0 \<le> n" "n \<le> 2 ^ 53"
  shows "fl (of_int n) = of_int n"
  using fl_scaled [OF assms, of 0] by simp

lemma fl_idem:
  assumes "0 \<le> q"
  shows "fl (fl q) = fl q"
proof (cases "q = 0")
  case False
  define u :: rat where "u = 2 powi (expo q - 52)"
  have u: "0 < u" by (simp add: u_def)
  have fq: "fl q = of_int (rne (q / u)) * u" using False by (simp add: fl_def Let_def u_def)
  have "q < 2 powi (expo q + 1)" using expo_bounds(2) [OF False] assms by simp
  also have "\<dots> = of_int (2 ^ 53) * u" by (simp add: u_def power_int_diff power_int_add)
  finally have "q / u \<le> of_int (2 ^ 53)" using u by (simp add: divide_le_eq)
  then have "rne (q / u) \<le> 2 ^ 53" by (rule rne_le_int)
  moreover have "0 \<le> rne (q / u)" using assms u by (intro int_le_rne) simp
  ultimately show ?thesis unfolding fq u_def by (intro fl_scaled)
qed simp

lemma fl_1 [simp]: "fl 1 = 1"
  using fl_of_int [of 1] by simp

lemma fl_unit: "0 \<le> q \<Longrightarrow> q \<le> 1 \<Longrightarrow> 0 \<le> fl q \<and> fl q \<le> 1"
  using fl_mono [of q 1] fl_nonneg [of q] by simp

section \<open>Quotients of integers\<close>

lemma true_div_error:
  assumes "0 \<le> a" "a < 2 ^ 53" "0 < b"
  shows "\<bar>true_div a b - of_int a / of_int b\<bar> < 1 / of_int b"
proof -
  have "\<bar>true_div a b - of_int a / of_int b\<bar> \<le> \<bar>of_int a / of_int b\<bar> / 2 ^ 53"
    unfolding true_div_def by (rule fl_error)
  also have "\<dots> = of_int a / 2 ^ 53 / of_int b" using assms by simp
  also have "\<dots> < 1 / of_int b"
  proof (rule divide_strict_right_mono)
    have "(of_int a :: rat) < of_int (2 ^ 53)" using assms(2) by (subst of_int_less_iff)
    then show "of_int a / 2 ^ 53 < (1::rat)" by simp
  qed (use assms in simp)
  finally show ?thesis .
qed

lemma div_pos_bounds:
  fixes a b :: int
  assumes "0 < b"
  shows "a div b * b \<le> a" "a + 1 \<le> (a div b + 1) * b"
proof -
  have e: "a div b * b + a mod b = a" by (rule div_mult_mod_eq)
  have "0 \<le> a mod b" "a mod b < b" using assms by simp_all
  then show "a div b * b \<le> a" "a + 1 \<le> (a div b + 1) * b"
    using e by (simp_all only: distrib_right mult_1)
qed

lemma floor_true_div:
  assumes a: "0 \<le> a" "a < 2 ^ 53" and b: "0 < b"
  shows "\<lfloor>true_div a b\<rfloor> = a div b"
proof -
  let ?q = "of_int a / of_int b :: rat"
  have k0: "0 \<le> a div b" using a b by (simp add: pos_imp_zdiv_nonneg_iff)
  have "a div b * 1 \<le> a div b * b" using k0 b by (intro mult_left_mono) auto
  with k0 div_pos_bounds(1) [OF b, of a] have k: "0 \<le> a div b" "a div b \<le> a" by auto
  have "a div b * b \<le> a" "a + 1 \<le> (a div b + 1) * b" using div_pos_bounds [OF b] by auto
  then have r: "of_int (a div b) * of_int b \<le> (of_int a :: rat)"
      "of_int a + 1 \<le> (of_int (a div b) + 1) * (of_int b :: rat)"
    by (metis of_int_le_iff of_int_mult, metis of_int_le_iff of_int_mult of_int_add of_int_1)
  have "of_int (a div b) \<le> ?q" using r(1) b by (simp add: le_divide_eq)
  then have "fl (of_int (a div b)) \<le> true_div a b" unfolding true_div_def using k by (intro fl_mono) auto
  then have lo: "of_int (a div b) \<le> true_div a b" using fl_of_int [of "a div b"] k a by simp
  have "?q \<le> of_int (a div b) + 1 - 1 / of_int b" using r(2) b by (simp add: field_simps)
  then have "true_div a b < of_int (a div b) + 1" using true_div_error [OF a b] by linarith
  with lo show ?thesis by (simp add: floor_eq_iff)
qed

lemma ceil_true_div:
  assumes a: "0 \<le> a" "a < 2 ^ 53" and b: "0 < b"
  shows "\<lceil>true_div a b\<rceil> = (a + b - 1) div b"
proof -
  let ?q = "of_int a / of_int b :: rat" and ?c = "(a + b - 1) div b"
  have c: "a \<le> ?c * b" "(?c - 1) * b + 1 \<le> a"
    using div_pos_bounds [OF b, of "a + b - 1"] by (simp_all only: distrib_right left_diff_distrib mult_1)
  have c0: "0 \<le> ?c" using a b by (simp add: pos_imp_zdiv_nonneg_iff)
  have "?c \<le> 2 ^ 53"
  proof (rule ccontr)
    assume "\<not> ?c \<le> 2 ^ 53"
    then have "2 ^ 53 * 1 \<le> (?c - 1) * b" using b by (intro mult_mono) auto
    then show False using c(2) a by linarith
  qed
  then have flc: "fl (of_int ?c) = of_int ?c" using c0 by (intro fl_of_int)
  have r: "(of_int a :: rat) \<le> of_int ?c * of_int b" "(of_int ?c - 1) * of_int b + 1 \<le> (of_int a :: rat)"
    using c by (metis of_int_le_iff of_int_mult, metis of_int_le_iff of_int_mult of_int_add of_int_1 of_int_diff)
  have "?q \<le> of_int ?c" using r(1) b by (simp add: divide_le_eq)
  moreover have "0 \<le> ?q" using a b by simp
  ultimately have up: "true_div a b \<le> of_int ?c" unfolding true_div_def using fl_mono [of ?q "of_int ?c"] flc by simp
  have "of_int ?c - 1 + 1 / of_int b = ((of_int ?c - 1) * of_int b + 1) / (of_int b :: rat)"
    using b by (simp add: add_divide_distrib)
  also have "\<dots> \<le> ?q" using r(2) b by (intro divide_right_mono) auto
  finally have "of_int ?c - 1 + 1 / of_int b \<le> ?q" .
  then have "of_int ?c - 1 < true_div a b" using true_div_error [OF a b] by linarith
  with up show ?thesis by (simp add: ceiling_eq_iff)
qed

lemma true_div_unit: "0 \<le> a \<Longrightarrow> a \<le> b \<Longrightarrow> 0 < b \<Longrightarrow> 0 \<le> true_div a b \<and> true_div a b \<le> 1"
  unfolding true_div_def by (rule fl_unit) (simp_all add: divide_le_eq)

lemma true_div_nonneg: "0 \<le> a \<Longrightarrow> 0 < b \<Longrightarrow> 0 \<le> true_div a b"
  unfolding true_div_def by (rule fl_nonneg) simp

lemma py_round_unit:
  assumes "0 \<le> x" "x \<le> 1"
  shows "0 \<le> py_round x n \<and> py_round x n \<le> 1"
proof -
  have "x * 10 ^ n \<le> of_int (10 ^ n)" using assms by simp
  then have "rne (x * 10 ^ n) \<le> 10 ^ n" by (rule rne_le_int)
  moreover have "0 \<le> rne (x * 10 ^ n)" using assms by (intro int_le_rne) simp
  ultimately have "0 \<le> (of_int (rne (x * 10 ^ n)) / 10 ^ n :: rat)"
    "(of_int (rne (x * 10 ^ n)) / 10 ^ n :: rat) \<le> 1"
    by (simp_all add: divide_le_eq)
  then show ?thesis unfolding py_round_def by (intro fl_unit)
qed

end
