(* ===== verification/ReadingHelpers.thy ===== *)
theory ReadingHelpers
  imports GradePolicy StreakPolicy PyNum
begin

text \<open>
  The pure helpers at the end of \<open>backend/app/domains/reading/service.py\<close>: the server-side
  reconciliation of a session's duration, the progress of a goal, the window of a goal, and the
  parser of a recap period. Floats are those of \<open>PyNum\<close>; strings the parser works on are
  ASCII strings.
\<close>

datatype goal_period = WEEKLY | MONTHLY | YEARLY

section \<open>Durations\<close>

text \<open>
  Both datetimes are instants in microseconds. \<open>total_seconds()\<close> is one correctly rounded
  division, \<open>paused_ms / 1000.0\<close> converts and divides, the subtraction rounds once more.
\<close>

definition total_seconds :: "int \<Rightarrow> rat" where
  "total_seconds us = true_div us sec_us"

definition reconcile_duration :: "datetime \<Rightarrow> datetime \<Rightarrow> int \<Rightarrow> int" where
  "reconcile_duration started_at ended_at paused_ms =
     (let elapsed = total_seconds (ended_at - started_at);
          adjusted = fl (elapsed - fl (fl (of_int paused_ms) / 1000))
      in max 0 (py_trunc (min elapsed adjusted)))"

section \<open>Goals\<close>

definition goal_ratio :: "int \<Rightarrow> int \<Rightarrow> rat" where
  "goal_ratio done_v target_v = (if target_v \<le> 0 then 1 else min 1 (true_div done_v target_v))"

definition progress_percent :: "int \<Rightarrow> int \<Rightarrow> int \<Rightarrow> int \<Rightarrow> rat" where
  "progress_percent books_done seconds_done target_books target_seconds =
     py_round (fl (fl (goal_ratio books_done target_books + goal_ratio seconds_done target_seconds) / 2)) 4"

definition compute_window :: "goal_period \<Rightarrow> date \<Rightarrow> (date \<times> date) result" where
  "compute_window period anchor =
     (case period of
        WEEKLY \<Rightarrow>
          bindE (add_days anchor (- weekday anchor)) (\<lambda>monday.
          bindE (add_days monday 6) (\<lambda>sunday. Inr (monday, sunday)))
      | MONTHLY \<Rightarrow>
          bindE (mk_date (year_of anchor) (month_of anchor) 1) (\<lambda>first.
          bindE (if month_of anchor = 12 then mk_date (year_of anchor + 1) 1 1
                 else mk_date (year_of anchor) (month_of anchor + 1) 1) (\<lambda>next_first.
          bindE (add_days next_first (- 1)) (\<lambda>last_day. Inr (first, last_day))))
      | YEARLY \<Rightarrow>
          bindE (mk_date (year_of anchor) 1 1) (\<lambda>first.
          bindE (mk_date (year_of anchor) 12 31) (\<lambda>last_day. Inr (first, last_day))))"

section \<open>Recap periods\<close>

definition is_digit :: "char \<Rightarrow> bool" where
  "is_digit c \<longleftrightarrow> 48 \<le> (of_char c :: nat) \<and> (of_char c :: nat) \<le> 57"

definition is_space :: "char \<Rightarrow> bool" where
  "is_space c \<longleftrightarrow> (of_char c :: nat) \<in> {9, 10, 11, 12, 13, 28, 29, 30, 31, 32}"

definition strip :: "string \<Rightarrow> string" where
  "strip s = rev (dropWhile is_space (rev (dropWhile is_space s)))"

text \<open>Decimal digits, with single underscores between digits, as \<open>int()\<close> reads them.\<close>

fun digits_val :: "int \<Rightarrow> string \<Rightarrow> int option" where
  "digits_val acc [] = Some acc"
| "digits_val acc (c # cs) =
     (if is_digit c then digits_val (10 * acc + (of_char c - 48)) cs
      else if c = CHR ''_'' \<and> cs \<noteq> [] \<and> is_digit (hd cs) then digits_val acc cs
      else None)"

definition py_int :: "string \<Rightarrow> int result" where
  "py_int s =
     (let t = strip s;
          neg = (t \<noteq> [] \<and> hd t = CHR ''-'');
          u = (if t \<noteq> [] \<and> (hd t = CHR ''-'' \<or> hd t = CHR ''+'') then tl t else t)
      in if u \<noteq> [] \<and> is_digit (hd u)
         then (case digits_val 0 u of None \<Rightarrow> Inl ValueError | Some n \<Rightarrow> Inr (if neg then - n else n))
         else Inl ValueError)"

text \<open>\<open>str.split("-H")\<close>; the separator is in the string when there is more than one part.\<close>

fun split_dash_H :: "string \<Rightarrow> string list" where
  "split_dash_H [] = [[]]"
| "split_dash_H (c # cs) =
     (if c = CHR ''-'' \<and> cs \<noteq> [] \<and> hd cs = CHR ''H'' then [] # split_dash_H (tl cs)
      else (case split_dash_H cs of [] \<Rightarrow> [[c]] | p # ps \<Rightarrow> (c # p) # ps))"

definition date_pair :: "int \<Rightarrow> int \<Rightarrow> int \<Rightarrow> int \<Rightarrow> int \<Rightarrow> (date \<times> date) result" where
  "date_pair y m1 d1 m2 d2 =
     bindE (mk_date y m1 d1) (\<lambda>a. bindE (mk_date y m2 d2) (\<lambda>b. Inr (a, b)))"

definition parse_recap_period :: "string \<Rightarrow> (date \<times> date) result" where
  "parse_recap_period period0 =
     (let period = strip period0; parts = split_dash_H period
      in if 1 < length parts
         then if length parts \<noteq> 2 then Inl ValueError
              else bindE (py_int (parts ! 0)) (\<lambda>year.
                   bindE (py_int (parts ! 1)) (\<lambda>half.
                     if half = 1 then date_pair year 1 1 6 30
                     else if half = 2 then date_pair year 7 1 12 31
                     else Inl ValueError))
         else bindE (py_int period) (\<lambda>year. date_pair year 1 1 12 31))"

text \<open>\<open>str(n)\<close> of an int.\<close>

fun dec :: "nat \<Rightarrow> string" where
  "dec n = (if n < 10 then [char_of (48 + n)] else dec (n div 10) @ [char_of (48 + n mod 10)])"

declare dec.simps [simp del]

definition py_str :: "int \<Rightarrow> string" where
  "py_str n = (if n < 0 then CHR ''-'' # dec (nat (- n)) else dec (nat n))"

section \<open>Durations: bounds\<close>

lemma py_trunc_mono: "x \<le> y \<Longrightarrow> py_trunc x \<le> py_trunc y"
proof -
  assume le: "x \<le> y"
  show ?thesis
  proof (cases "0 \<le> x \<or> y < 0")
    case True
    then show ?thesis using le by (auto simp: py_trunc_def floor_mono ceiling_mono)
  next
    case False
    then have "\<lceil>x\<rceil> \<le> 0" "0 \<le> \<lfloor>y\<rfloor>" by auto
    moreover have "py_trunc x = \<lceil>x\<rceil>" "py_trunc y = \<lfloor>y\<rfloor>" using False by (auto simp: py_trunc_def)
    ultimately show ?thesis by linarith
  qed
qed

lemma total_seconds_nonpos: "us \<le> 0 \<Longrightarrow> total_seconds us \<le> 0"
  unfolding total_seconds_def true_div_def by (rule fl_nonpos) (simp add: sec_us_def)

lemma total_seconds_nonneg: "0 \<le> us \<Longrightarrow> 0 \<le> total_seconds us"
  unfolding total_seconds_def by (rule true_div_nonneg) (simp_all add: sec_us_def)

lemma trunc_total_seconds:
  assumes "0 \<le> us" "us < 2 ^ 53"
  shows "py_trunc (total_seconds us) = us div sec_us"
  using floor_true_div [of us sec_us] total_seconds_nonneg [of us] assms
  by (simp add: total_seconds_def py_trunc_def sec_us_def)

lemma fl_pause_mono:
  assumes "0 \<le> p" "p \<le> p'"
  shows "fl (fl (of_int p) / 1000) \<le> fl (fl (of_int p') / 1000)"
proof -
  have "0 \<le> fl (of_int p)" using assms by (intro fl_nonneg) simp
  moreover have "fl (of_int p) \<le> fl (of_int p')" using assms by (intro fl_mono) simp_all
  ultimately show ?thesis by (intro fl_mono) simp_all
qed

lemma reconcile_mono:
  assumes "0 \<le> p" "p \<le> p'"
  shows "reconcile_duration s e p' \<le> reconcile_duration s e p"
proof -
  define x where "x = total_seconds (e - s)"
  define a a' where "a = x - fl (fl (of_int p) / 1000)" and "a' = x - fl (fl (of_int p') / 1000)"
  have "a' \<le> a" using fl_pause_mono [OF assms] by (simp add: a_def a'_def)
  have d: "reconcile_duration s e p = max 0 (py_trunc (min x (fl a)))"
    "reconcile_duration s e p' = max 0 (py_trunc (min x (fl a')))"
    by (simp_all add: reconcile_duration_def Let_def x_def a_def a'_def)
  show ?thesis
  proof (cases "a' \<le> 0")
    case True
    then have "min x (fl a') \<le> 0" using fl_nonpos by (simp add: min.coboundedI2)
    then have "py_trunc (min x (fl a')) \<le> py_trunc 0" by (rule py_trunc_mono)
    then show ?thesis unfolding d by (simp add: py_trunc_def)
  next
    case False
    then have "fl a' \<le> fl a" using \<open>a' \<le> a\<close> by (intro fl_mono) simp_all
    then have "py_trunc (min x (fl a')) \<le> py_trunc (min x (fl a))" by (intro py_trunc_mono) simp
    then show ?thesis unfolding d by (rule max.mono [OF order_refl])
  qed
qed

lemma reconcile_no_pause:
  assumes "\<bar>e - s\<bar> < 2 ^ 53"
  shows "reconcile_duration s e 0 = max 0 ((e - s) div sec_us)"
proof (cases "0 \<le> e - s")
  case True
  have "fl (total_seconds (e - s)) = total_seconds (e - s)"
    unfolding total_seconds_def true_div_def using True by (intro fl_idem) (simp add: sec_us_def)
  then have "reconcile_duration s e 0 = max 0 (py_trunc (total_seconds (e - s)))"
    by (simp add: reconcile_duration_def Let_def)
  then show ?thesis using True assms trunc_total_seconds [of "e - s"] by simp
next
  case False
  then have "min (total_seconds (e - s)) x \<le> 0" for x
    using total_seconds_nonpos [of "e - s"] by (simp add: min.coboundedI1)
  then have "py_trunc (min (total_seconds (e - s)) x) \<le> 0" for x
    using py_trunc_mono [of "min (total_seconds (e - s)) x" 0] by (simp add: py_trunc_def)
  moreover have "(e - s) div sec_us \<le> 0" using False by (simp add: sec_us_def)
  ultimately show ?thesis by (simp add: reconcile_duration_def Let_def)
qed

lemma reconcile_le_elapsed:
  assumes "\<bar>e - s\<bar> < 2 ^ 53"
  shows "reconcile_duration s e p \<le> max 0 ((e - s) div sec_us)"
proof -
  let ?x = "total_seconds (e - s)"
  have "py_trunc (min ?x y) \<le> py_trunc ?x" for y by (rule py_trunc_mono) simp
  moreover have "py_trunc ?x \<le> max 0 ((e - s) div sec_us)"
  proof (cases "0 \<le> e - s")
    case True
    then show ?thesis using assms trunc_total_seconds [of "e - s"] by simp
  next
    case False
    then have "py_trunc ?x \<le> py_trunc 0" by (intro py_trunc_mono total_seconds_nonpos) simp
    then show ?thesis by (simp add: py_trunc_def)
  qed
  ultimately have "py_trunc (min ?x y) \<le> max 0 ((e - s) div sec_us)" for y by (rule order_trans)
  then show ?thesis by (simp add: reconcile_duration_def Let_def)
qed

text \<open>
  A client cannot inflate its reading time: whatever pause it reports, the credited seconds
  are between zero and the whole seconds the server saw elapse; without a pause they are exactly
  those; and a longer pause never credits more.
\<close>

theorem reconcile_duration_sound:
  assumes "\<bar>ended_at - started_at\<bar> < 2 ^ 53"
  shows "0 \<le> reconcile_duration started_at ended_at p \<and>
    reconcile_duration started_at ended_at p \<le> max 0 ((ended_at - started_at) div sec_us) \<and>
    reconcile_duration started_at ended_at 0 = max 0 ((ended_at - started_at) div sec_us) \<and>
    (0 \<le> p \<and> p \<le> p' \<longrightarrow>
      reconcile_duration started_at ended_at p' \<le> reconcile_duration started_at ended_at p)"
  using assms reconcile_le_elapsed reconcile_no_pause reconcile_mono
  by (simp add: reconcile_duration_def Let_def)

lemma reconcile_duration_sound_witness:
  "0 \<le> reconcile_duration 1000000 62500000 30000 \<and>
    reconcile_duration 1000000 62500000 30000 \<le> max 0 ((62500000 - 1000000) div sec_us) \<and>
    reconcile_duration 1000000 62500000 0 = max 0 ((62500000 - 1000000) div sec_us) \<and>
    reconcile_duration 1000000 62500000 31000 \<le> reconcile_duration 1000000 62500000 30000"
  using reconcile_duration_sound [of 62500000 1000000 30000 31000] by simp

section \<open>Goals: progress and windows\<close>

lemma goal_ratio_unit: "0 \<le> d \<Longrightarrow> 0 \<le> goal_ratio d t \<and> goal_ratio d t \<le> 1"
  using true_div_nonneg [of d t] by (simp add: goal_ratio_def)

lemma goal_ratio_reached:
  assumes "0 \<le> d" "t \<le> d"
  shows "goal_ratio d t = 1"
proof (cases "t \<le> 0")
  case False
  then have "fl 1 \<le> true_div d t" unfolding true_div_def using assms by (intro fl_mono) simp_all
  then show ?thesis using False by (simp add: goal_ratio_def)
qed (simp add: goal_ratio_def)

lemma fl_2: "fl 2 = 2"
  using fl_of_int [of 2] by simp

lemma percent_sum:
  assumes "0 \<le> a" "a \<le> 1" "0 \<le> b" "b \<le> 1"
  shows "0 \<le> fl (fl (a + b) / 2) \<and> fl (fl (a + b) / 2) \<le> 1"
proof (rule fl_unit)
  show "0 \<le> fl (a + b) / 2" using assms fl_nonneg [of "a + b"] by simp
  have "fl (a + b) \<le> fl 2" using assms by (intro fl_mono) simp_all
  then show "fl (a + b) / 2 \<le> 1" by (simp add: fl_2)
qed

text \<open>
  A goal's progress is a fraction between 0 and 1, and it is 1 when both targets are
  reached, however far they are exceeded.
\<close>

theorem progress_percent_unit:
  assumes "0 \<le> books_done" "0 \<le> seconds_done"
  shows "0 \<le> progress_percent books_done seconds_done target_books target_seconds \<and>
    progress_percent books_done seconds_done target_books target_seconds \<le> 1 \<and>
    (target_books \<le> books_done \<and> target_seconds \<le> seconds_done \<longrightarrow>
      progress_percent books_done seconds_done target_books target_seconds = 1)"
proof -
  have r: "0 \<le> goal_ratio books_done target_books" "goal_ratio books_done target_books \<le> 1"
    "0 \<le> goal_ratio seconds_done target_seconds" "goal_ratio seconds_done target_seconds \<le> 1"
    using goal_ratio_unit assms by auto
  have one: "py_round 1 4 = 1" by code_simp
  have "progress_percent books_done seconds_done target_books target_seconds = 1"
    if "target_books \<le> books_done" "target_seconds \<le> seconds_done"
    using goal_ratio_reached that assms by (simp add: progress_percent_def fl_2 one)
  then show ?thesis
    using py_round_unit [of _ 4] percent_sum [OF r] by (simp add: progress_percent_def)
qed

lemma progress_percent_unit_witness:
  "0 \<le> progress_percent 3 5000 12 36000 \<and> progress_percent 3 5000 12 36000 \<le> 1 \<and>
    progress_percent 13 36000 12 36000 = 1"
  using progress_percent_unit [of 3 5000 12 36000] progress_percent_unit [of 13 36000 12 36000] by simp

text \<open>The rounding to four digits lets an unfinished goal show as 100 percent.\<close>

lemma progress_percent_early: "progress_percent 1 99999 1 100000 = 1"
  by code_simp

fun same_period :: "goal_period \<Rightarrow> date \<Rightarrow> date \<Rightarrow> bool" where
  "same_period WEEKLY d e \<longleftrightarrow> d - weekday d = e - weekday e"
| "same_period MONTHLY d e \<longleftrightarrow> year_of d = year_of e \<and> month_of d = month_of e"
| "same_period YEARLY d e \<longleftrightarrow> year_of d = year_of e"

lemma week_interval:
  assumes "a = e - weekday e"
  shows "a \<le> d \<and> d \<le> a + 6 \<longleftrightarrow> d - weekday d = a"
proof
  assume d: "a \<le> d \<and> d \<le> a + 6"
  have "(a + 6) mod 7 = 0" using weekday_monday [of e] assms by (simp add: weekday_def)
  then obtain k where "a + 6 = 7 * k" by (auto simp: mod_eq_0_iff_dvd)
  then have "d + 6 = 7 * k + (d - a)" by simp
  then have "weekday d = d - a" unfolding weekday_def by (rule int_mod_pos_eq) (use d in auto)
  then show "d - weekday d = a" by simp
next
  assume "d - weekday d = a"
  then show "a \<le> d \<and> d \<le> a + 6" using weekday_range [of d] by linarith
qed

lemma month_interval:
  assumes "1 \<le> m" "m \<le> 12"
  shows "ymd2ord y m 1 \<le> d \<and> d < ymd2ord y m 1 + days_in_month y m \<longleftrightarrow> year_of d = y \<and> month_of d = m"
proof
  assume d: "ymd2ord y m 1 \<le> d \<and> d < ymd2ord y m 1 + days_in_month y m"
  have "d = ymd2ord y m (d - ymd2ord y m 1 + 1)" by (simp add: ymd2ord_day [of y m "d - ymd2ord y m 1 + 1"])
  then show "year_of d = y \<and> month_of d = m"
    using d ymd_in_year [OF assms] month_of_ymd [OF assms] by (metis add.commute add_le_cancel_left
        diff_ge_0_iff_ge add_increasing2 zle_add1_eq_le diff_less_eq diff_add_cancel linorder_not_le
        add1_zle_eq le_add_same_cancel2)
next
  assume "year_of d = y \<and> month_of d = m"
  then show "ymd2ord y m 1 \<le> d \<and> d < ymd2ord y m 1 + days_in_month y m"
    using month_of_bounds [of d] by auto
qed

lemma year_interval: "ymd2ord y 1 1 \<le> d \<and> d \<le> ymd2ord y 12 31 \<longleftrightarrow> year_of d = y"
  using year_bounds [of d] year_of_unique [of y d] by (auto simp: ymd2ord_first year_end_ord)

lemma year_of_valid:
  assumes "1 \<le> d" "d \<le> max_ordinal"
  shows "1 \<le> year_of d" "year_of d \<le> 9999"
proof -
  have b: "days_before_year 1 = 0" "days_before_year 10000 = max_ordinal"
    by (simp_all add: days_before_year_def max_ordinal_def)
  show "1 \<le> year_of d"
    using year_bounds(2) [of d] days_before_year_less [of "year_of d + 1" 1] assms b
    by (cases "year_of d = 0"; cases "year_of d < 0") auto
  show "year_of d \<le> 9999"
    using year_bounds(1) [of d] days_before_year_less [of 10000 "year_of d"] assms b
    by (cases "year_of d = 10000"; cases "10000 < year_of d") auto
qed

text \<open>
  The window of a goal is exactly the set of days in the same ISO week, calendar month or
  calendar year as the anchor day, for every anchor up to 30 November 9999.
\<close>

theorem compute_window_exact:
  assumes "1 \<le> anchor" "anchor \<le> max_ordinal - 31"
  shows "\<exists>a b. compute_window period anchor = Inr (a, b) \<and>
    (\<forall>d. a \<le> d \<and> d \<le> b \<longleftrightarrow> same_period period d anchor)"
proof (cases period)
  case WEEKLY
  let ?a = "anchor - weekday anchor"
  have "1 \<le> ?a"
  proof (rule ccontr)
    assume "\<not> 1 \<le> ?a"
    moreover obtain k where "?a + 6 = 7 * k" using weekday_monday [of anchor]
      by (auto simp: weekday_def mod_eq_0_iff_dvd)
    ultimately have "1 \<le> 7 * k" "7 * k \<le> 6" using weekday_range [of anchor] assms by linarith+
    then show False by presburger
  qed
  then have "compute_window WEEKLY anchor = Inr (?a, ?a + 6)"
    using assms weekday_range [of anchor] by (simp add: compute_window_def add_days_def)
  then show ?thesis using week_interval [of ?a anchor] WEEKLY by auto
next
  case MONTHLY
  let ?y = "year_of anchor" and ?m = "month_of anchor"
  let ?f = "ymd2ord ?y ?m 1"
  have y: "1 \<le> ?y" "?y \<le> 9999" using year_of_valid assms by simp_all
  have m: "1 \<le> ?m" "?m \<le> 12" using month_of_range by auto
  have nx: "?f + days_in_month ?y ?m = (if ?m = 12 then ymd2ord (?y + 1) 1 1 else ymd2ord ?y (?m + 1) 1)"
    using month_next [OF m] .
  have y12: "?m = 12 \<Longrightarrow> ?y < 9999"
  proof (rule ccontr)
    assume "?m = 12" "\<not> ?y < 9999"
    then have "ymd2ord 9999 12 1 \<le> anchor" using month_of_bounds(1) [of anchor] y by simp
    moreover have "ymd2ord 9999 12 1 = max_ordinal - 30"
      by (simp add: ymd2ord_def days_before_year_def days_before_month_def days_in_month_def
          is_leap_def upto.simps max_ordinal_def)
    ultimately show False using assms by simp
  qed
  have f: "1 \<le> ?f" "?f \<le> anchor" "?f + days_in_month ?y ?m \<le> anchor + 31" "28 \<le> days_in_month ?y ?m"
  proof -
    have "ymd2ord ?y 1 1 \<le> ?f"
      using month_start_mono [of 1 ?m ?y] days_in_month_pos [of ?y 1] m by (cases "?m = 1") auto
    moreover have "days_before_year 1 \<le> days_before_year ?y"
      using days_before_year_less [of 1 ?y] y by (cases "?y = 1") auto
    ultimately show "1 \<le> ?f" by (simp add: ymd2ord_first days_before_year_def [of 1])
    show "?f \<le> anchor" by (rule month_of_bounds)
    have "days_in_month ?y ?m \<le> 31" by (simp add: days_in_month_def)
    then show "?f + days_in_month ?y ?m \<le> anchor + 31" using month_of_bounds [of anchor] by simp
  qed (rule days_in_month_pos)
  have first: "mk_date ?y ?m 1 = Inr ?f"
    using y m days_in_month_pos [of ?y ?m] by (simp add: mk_date_def)
  have nxt: "(if ?m = 12 then mk_date (?y + 1) 1 1 else mk_date ?y (?m + 1) 1) =
      Inr (?f + days_in_month ?y ?m)"
    using y m y12 nx days_in_month_pos [of "?y + 1" 1] days_in_month_pos [of ?y "?m + 1"]
    by (auto simp: mk_date_def)
  have "compute_window MONTHLY anchor = Inr (?f, ?f + days_in_month ?y ?m - 1)"
    unfolding compute_window_def using first nxt f assms by (simp add: add_days_def)
  then show ?thesis using month_interval [OF m, of ?y] MONTHLY by auto
next
  case YEARLY
  let ?y = "year_of anchor"
  have y: "1 \<le> ?y" "?y \<le> 9999" using year_of_valid assms by simp_all
  have "compute_window YEARLY anchor = Inr (ymd2ord ?y 1 1, ymd2ord ?y 12 31)"
    using y by (simp add: compute_window_def mk_date_def days_in_month_def)
  then show ?thesis using year_interval [of ?y] YEARLY by auto
qed

lemma compute_window_exact_witness:
  "\<exists>a b. compute_window MONTHLY 738580 = Inr (a, b) \<and>
    (\<forall>d. a \<le> d \<and> d \<le> b \<longleftrightarrow> same_period MONTHLY d 738580)"
  by (rule compute_window_exact) (simp_all add: max_ordinal_def)

section \<open>Recap periods: round trip\<close>

definition digit_char :: "nat \<Rightarrow> char" where
  "digit_char k = char_of (48 + k)"

lemma digit_char_val:
  assumes "k < 10"
  shows "of_char (digit_char k) = (48 + int k)" "is_digit (digit_char k)"
proof -
  have n: "(of_char (digit_char k) :: nat) = 48 + k" using assms by (simp add: digit_char_def)
  then show "is_digit (digit_char k)" using assms by (simp add: is_digit_def)
  have "(of_char (digit_char k) :: int) = int (of_char (digit_char k) :: nat)"
    by (simp add: of_char_def)
  then show "of_char (digit_char k) = (48 + int k)" by (simp only: n of_nat_add of_nat_numeral)
qed

lemma dec_step: "dec n = (if n < 10 then [digit_char n] else dec (n div 10) @ [digit_char (n mod 10)])"
  by (subst dec.simps) (simp add: digit_char_def)

lemma dec_ne: "dec n \<noteq> []"
  by (subst dec_step) simp

lemma dec_digits: "c \<in> set (dec n) \<Longrightarrow> is_digit c"
proof (induction n rule: less_induct)
  case (less n)
  show ?case
  proof (cases "n < 10")
    case True
    then show ?thesis using less.prems digit_char_val(2) by (simp add: dec_step [of n])
  next
    case False
    then have lt: "n div 10 < n" by simp
    show ?thesis using False less.prems less.IH [OF lt] digit_char_val(2) [of "n mod 10"]
      by (auto simp: dec_step [of n])
  qed
qed

lemma dec_ends: "is_digit (hd (dec n))" "is_digit (last (dec n))"
  using dec_digits [OF hd_in_set [OF dec_ne]] dec_digits [OF last_in_set [OF dec_ne]] by blast+

lemma digits_val_snoc:
  assumes "\<forall>c\<in>set xs. is_digit c" "is_digit c"
  shows "digits_val acc (xs @ [c]) = map_option (\<lambda>v. 10 * v + (of_char c - 48)) (digits_val acc xs)"
  using assms by (induction xs arbitrary: acc) auto

lemma digits_val_dec: "digits_val 0 (dec n) = Some (int n)"
proof (induction n rule: less_induct)
  case (less n)
  show ?case
  proof (cases "n < 10")
    case True
    then show ?thesis using digit_char_val [of n] by (simp add: dec_step [of n])
  next
    case False
    have m: "n mod 10 < 10" by simp
    have "10 * int (n div 10) + int (n mod 10) = int n"
      by (metis mult_div_mod_eq of_nat_add of_nat_mult of_nat_numeral)
    then show ?thesis
      using False less.IH [of "n div 10"] digit_char_val [OF m] dec_digits
      by (simp add: dec_step [of n] digits_val_snoc)
  qed
qed

lemma digit_not_special: "is_digit c \<Longrightarrow> \<not> is_space c \<and> c \<noteq> CHR ''-'' \<and> c \<noteq> CHR ''+''"
  by (auto simp: is_digit_def is_space_def)

lemma strip_id: "s \<noteq> [] \<Longrightarrow> \<not> is_space (hd s) \<Longrightarrow> \<not> is_space (last s) \<Longrightarrow> strip s = s"
proof -
  assume a: "s \<noteq> []" "\<not> is_space (hd s)" "\<not> is_space (last s)"
  then have "dropWhile is_space s = s" by (cases s) auto
  moreover have "dropWhile is_space (rev s) = rev s" using a by (cases s rule: rev_cases) auto
  ultimately show ?thesis by (simp add: strip_def)
qed

lemma py_int_dec: "py_int (dec n) = Inr (int n)"
proof -
  have d: "is_digit (hd (dec n))" "is_digit (last (dec n))"
    by (rule dec_ends)+
  then have "strip (dec n) = dec n" using dec_ne digit_not_special by (intro strip_id) auto
  then show ?thesis
    using d dec_ne digit_not_special [OF d(1)] digits_val_dec [of n] by (simp add: py_int_def Let_def)
qed

lemma split_none: "CHR ''-'' \<notin> set s \<Longrightarrow> split_dash_H s = [s]"
  by (induction s) auto

lemma split_two:
  assumes "CHR ''-'' \<notin> set s" "CHR ''-'' \<notin> set t"
  shows "split_dash_H (s @ ''-H'' @ t) = [s, t]"
  using assms(1) split_none [OF assms(2)] by (induction s) auto

lemma dec_no_dash: "CHR ''-'' \<notin> set (dec n)"
  using dec_digits digit_not_special by blast

datatype half = Whole | H1 | H2

definition period_string :: "int \<Rightarrow> half \<Rightarrow> string" where
  "period_string y h = py_str y @ (case h of Whole \<Rightarrow> [] | H1 \<Rightarrow> ''-H1'' | H2 \<Rightarrow> ''-H2'')"

lemma py_int_12: "py_int ''1'' = Inr 1" "py_int ''2'' = Inr 2"
  by code_simp+

text \<open>
  Every period a client can name (a year, or one of its halves) is parsed to the first and
  last day of that period.
\<close>

theorem parse_recap_period_roundtrip:
  assumes "1 \<le> y" "y \<le> 9999"
  shows "parse_recap_period (period_string y h) = (case h of
      Whole \<Rightarrow> Inr (ymd2ord y 1 1, ymd2ord y 12 31)
    | H1 \<Rightarrow> Inr (ymd2ord y 1 1, ymd2ord y 6 30)
    | H2 \<Rightarrow> Inr (ymd2ord y 7 1, ymd2ord y 12 31))"
proof -
  obtain n where n: "y = int n" using assms nonneg_int_cases [of y] by auto
  have s: "py_str (int n) = dec n" by (simp add: py_str_def)
  have d: "is_digit (hd (dec n))" "is_digit (last (dec n))" by (rule dec_ends)+
  have sp: "strip (dec n) = dec n" "strip (dec n @ ''-H1'') = dec n @ ''-H1''" "strip (dec n @ ''-H2'') = dec n @ ''-H2''"
    using d dec_ne digit_not_special by (auto intro!: strip_id simp: is_space_def)
  have split: "split_dash_H (dec n) = [dec n]" "split_dash_H (dec n @ ''-H1'') = [dec n, ''1'']"
    "split_dash_H (dec n @ ''-H2'') = [dec n, ''2'']"
    using split_none [OF dec_no_dash] split_two [OF dec_no_dash, of "''1''"] split_two [OF dec_no_dash, of "''2''"]
    by simp_all
  have "date_pair y 1 1 12 31 = Inr (ymd2ord y 1 1, ymd2ord y 12 31)"
    "date_pair y 1 1 6 30 = Inr (ymd2ord y 1 1, ymd2ord y 6 30)"
    "date_pair y 7 1 12 31 = Inr (ymd2ord y 7 1, ymd2ord y 12 31)"
    using assms by (simp_all add: date_pair_def mk_date_def days_in_month_def)
  then show ?thesis
    using n by (cases h) (simp_all add: parse_recap_period_def period_string_def s sp split py_int_dec py_int_12 Let_def)
qed

lemma parse_recap_period_roundtrip_witness:
  "parse_recap_period (period_string 2024 H1) = (case H1 of
      Whole \<Rightarrow> Inr (ymd2ord 2024 1 1, ymd2ord 2024 12 31)
    | H1 \<Rightarrow> Inr (ymd2ord 2024 1 1, ymd2ord 2024 6 30)
    | H2 \<Rightarrow> Inr (ymd2ord 2024 7 1, ymd2ord 2024 12 31))"
  by (rule parse_recap_period_roundtrip) simp_all

end
