(* ===== verification/Schema.thy ===== *)
theory Schema
  imports Calendar ReadingHelpers
begin

text \<open>
  The tables the modelled operations read and write, one record per ORM class of
  \<open>backend/app/domains/*/models.py\<close> with its columns in order (left out: \<open>updated_at\<close>, and
  the reserved monetization columns of clubs and club sessions, which nothing reads; of
  \<open>PostHighlight\<close> only the columns the modelled operations read are kept), and
  the state \<open>sess\<close> of one database session: every table, the queue of staged events
  (\<open>session.info[_EVENT_QUEUE_KEY]\<close>) and the background tasks scheduled so far.

  Tables are lists of rows in insertion order. Foreign keys, unique constraints and checks are
  predicates on the session that the repositories test when they insert.
\<close>

section \<open>Users, books, libraries\<close>

datatype auth_provider = KAKAO_PROVIDER | APPLE_PROVIDER

datatype profile_theme = CLASSIC | SEPIA | MIDNIGHT | FOREST | SUNSET | OCEAN

record user =
  us_id :: uuid
  us_provider :: auth_provider
  us_provider_sub :: pystr
  us_email :: "pystr option"
  us_nickname :: pystr
  us_profile_image_url :: "pystr option"
  us_bio :: "pystr option"
  us_referral_code :: "pystr option"
  us_cover_image_url :: "pystr option"
  us_theme :: "profile_theme option"
  us_featured_book_id :: "uuid option"
  us_featured_quote :: "pystr option"
  us_is_active :: bool
  us_is_admin :: bool
  us_is_pro :: bool
  us_pro_expires_at :: "datetime option"
  us_pro_product_id :: "string option"
  us_trial_started_at :: "datetime option"
  us_trial_ends_at :: "datetime option"
  us_created_at :: datetime
  us_last_login_at :: "datetime option"
  us_last_active_at :: "datetime option"
  us_deleted_at :: "datetime option"

datatype book_source = NAVER | KAKAO | MANUAL_SOURCE

record book =
  bk_id :: uuid
  bk_isbn13 :: string
  bk_title :: pystr
  bk_author :: pystr
  bk_publisher :: "pystr option"
  bk_cover_url :: "pystr option"
  bk_description :: "pystr option"
  bk_page_count :: "int option"
  bk_source :: book_source
  bk_created_at :: datetime

datatype user_book_status = READING | COMPLETED | PAUSED | DROPPED | WISHLIST

record user_book =
  ub_id :: uuid
  ub_user_id :: uuid
  ub_book_id :: uuid
  ub_status :: user_book_status
  ub_started_at :: "datetime option"
  ub_finished_at :: "datetime option"
  ub_rating :: "int option"
  ub_one_line_review :: "pystr option"
  ub_progress :: int
  ub_current_chapter :: int
  ub_created_at :: datetime

section \<open>Reading\<close>

datatype session_source = TIMER | MANUAL

record reading_session =
  rs_id :: uuid
  rs_user_id :: uuid
  rs_user_book_id :: uuid
  rs_started_at :: datetime
  rs_ended_at :: "datetime option"
  rs_duration_sec :: "int option"
  rs_source :: session_source
  rs_device :: "pystr option"
  rs_note :: "pystr option"
  rs_created_at :: datetime

record daily_stat =
  ds_user_id :: uuid
  ds_date :: date
  ds_total_seconds :: int
  ds_session_count :: int

definition ds_key :: "daily_stat \<Rightarrow> uuid \<times> date" where
  "ds_key r = (ds_user_id r, ds_date r)"

record user_grade =
  ug_user_id :: uuid
  ug_grade :: int
  ug_tier :: int
  ug_total_books :: int
  ug_total_seconds :: int
  ug_streak_days :: int
  ug_longest_streak :: int
  ug_streak_last_date :: "date option"
  ug_streak_shields :: int

record goal =
  go_id :: uuid
  go_user_id :: uuid
  go_period :: goal_period
  go_target_books :: int
  go_target_seconds :: int
  go_start_date :: date
  go_end_date :: date
  go_created_at :: datetime

record bookmark =
  bm_id :: uuid
  bm_user_book_id :: uuid
  bm_user_id :: uuid
  bm_page :: int
  bm_note :: "pystr option"
  bm_created_at :: datetime

record post_highlight =
  ph_id :: uuid
  ph_user_id :: uuid
  ph_user_book_id :: uuid
  ph_quote_text :: pystr
  ph_page_number :: "int option"
  ph_note_text :: "pystr option"
  ph_visibility :: string
  ph_shared_at :: "datetime option"
  ph_deleted_at :: "datetime option"
  ph_created_at :: datetime

section \<open>Activity feed, shields, retention\<close>

datatype json = JStr string | JText pystr | JUuid uuid | JInt int | JNum rat | JNull

record feed_event =
  fe_id :: uuid
  fe_user_id :: uuid
  fe_event_type :: string
  fe_metadata :: "(string \<times> json) list"
  fe_created_at :: datetime

record shield_purchase =
  sp_id :: uuid
  sp_user_id :: uuid
  sp_product_id :: string
  sp_shields_granted :: int
  sp_receipt_data :: pystr
  sp_purchased_at :: datetime
  sp_refunded_at :: "datetime option"

record push_log =
  pl_id :: uuid
  pl_user_id :: uuid
  pl_push_type :: string
  pl_sent_at :: datetime

record recovery_log =
  rl_id :: uuid
  rl_user_id :: uuid
  rl_recovered_at :: datetime
  rl_days_recovered :: int

section \<open>Clubs\<close>

datatype club_role = OWNER | MEMBER

datatype attendee_status = GOING | MAYBE | NOT_GOING

datatype session_status = DRAFT | OPEN | CLOSED

datatype agenda_status = AGENDA_DRAFT | PUBLISHED

record reading_club =
  rc_id :: uuid
  rc_name :: pystr
  rc_description :: "pystr option"
  rc_owner_id :: uuid
  rc_book_id :: "uuid option"
  rc_invite_code :: string
  rc_max_members :: int
  rc_is_public :: bool
  rc_category :: "pystr option"
  rc_created_at :: datetime

record club_tag =
  ct_id :: uuid
  ct_club_id :: uuid
  ct_tag :: pystr

record club_member =
  cm_club_id :: uuid
  cm_user_id :: uuid
  cm_role :: club_role
  cm_joined_at :: datetime
  cm_current_page :: int
  cm_last_page_updated_at :: "datetime option"

definition cm_key :: "club_member \<Rightarrow> uuid \<times> uuid" where
  "cm_key r = (cm_club_id r, cm_user_id r)"

record reading_plan =
  rp_id :: uuid
  rp_club_id :: uuid
  rp_book_id :: uuid
  rp_start_date :: date
  rp_end_date :: date
  rp_weekly_pages :: int
  rp_created_by :: uuid
  rp_created_at :: datetime

record club_event =
  ce_id :: uuid
  ce_club_id :: uuid
  ce_title :: pystr
  ce_description :: "pystr option"
  ce_location :: "pystr option"
  ce_event_at :: datetime
  ce_max_attendees :: "int option"
  ce_created_by :: uuid
  ce_created_at :: datetime

record event_attendee =
  ea_event_id :: uuid
  ea_user_id :: uuid
  ea_status :: attendee_status
  ea_responded_at :: datetime

definition ea_key :: "event_attendee \<Rightarrow> uuid \<times> uuid" where
  "ea_key r = (ea_event_id r, ea_user_id r)"

record club_room =
  cr_id :: uuid
  cr_club_id :: uuid
  cr_name :: pystr
  cr_progress_gate :: int
  cr_created_by :: uuid
  cr_created_at :: datetime

record club_message =
  ms_id :: uuid
  ms_club_id :: uuid
  ms_room_id :: "uuid option"
  ms_user_id :: uuid
  ms_content :: pystr
  ms_media_url :: "pystr option"
  ms_created_at :: datetime
  ms_edited_at :: "datetime option"
  ms_deleted_at :: "datetime option"

record message_read =
  mr_message_id :: uuid
  mr_user_id :: uuid
  mr_read_at :: datetime

definition mr_key :: "message_read \<Rightarrow> uuid \<times> uuid" where
  "mr_key r = (mr_message_id r, mr_user_id r)"

record club_session =
  cs_id :: uuid
  cs_club_id :: uuid
  cs_book_id :: uuid
  cs_title :: pystr
  cs_scope :: "pystr option"
  cs_presenter_id :: "uuid option"
  cs_scheduled_at :: "datetime option"
  cs_status :: session_status
  cs_created_by :: uuid
  cs_created_at :: datetime

record session_agenda =
  ag_id :: uuid
  ag_session_id :: uuid
  ag_author_id :: uuid
  ag_body :: pystr
  ag_status :: agenda_status
  ag_published_at :: "datetime option"
  ag_created_at :: datetime

record agenda_topic =
  tp_id :: uuid
  tp_agenda_id :: uuid
  tp_position :: int
  tp_prompt :: pystr
  tp_created_at :: datetime

record topic_comment =
  tc_id :: uuid
  tc_topic_id :: uuid
  tc_author_id :: uuid
  tc_parent_comment_id :: "uuid option"
  tc_body :: pystr
  tc_created_at :: datetime
  tc_edited_at :: "datetime option"

section \<open>Challenges\<close>

datatype badge_category = READING_BADGE | CHALLENGE_BADGE | SOCIAL_BADGE

datatype challenge_type = BOOKS_COUNT | READING_TIME | STREAK | GENRE

record badge =
  bg_id :: uuid
  bg_name :: pystr
  bg_description :: pystr
  bg_category :: badge_category
  bg_icon_key :: string
  bg_created_at :: datetime

record challenge =
  ch_id :: uuid
  ch_title :: pystr
  ch_description :: "pystr option"
  ch_challenge_type :: challenge_type
  ch_target_value :: int
  ch_genre_filter :: "pystr option"
  ch_starts_at :: datetime
  ch_ends_at :: datetime
  ch_badge_id :: "uuid option"
  ch_is_limited :: bool
  ch_ends_at_exclusive :: "datetime option"
  ch_badge_id_exclusive :: "uuid option"
  ch_created_at :: datetime

record participant =
  pt_challenge_id :: uuid
  pt_user_id :: uuid
  pt_current_value :: int
  pt_achieved_at :: "datetime option"
  pt_joined_at :: datetime

definition pt_key :: "participant \<Rightarrow> uuid \<times> uuid" where
  "pt_key r = (pt_challenge_id r, pt_user_id r)"

record user_badge =
  ubg_user_id :: uuid
  ubg_badge_id :: uuid
  ubg_earned_at :: datetime
  ubg_pin_order :: int

definition ubg_key :: "user_badge \<Rightarrow> uuid \<times> uuid" where
  "ubg_key r = (ubg_user_id r, ubg_badge_id r)"

section \<open>Posts and the social side of the feed\<close>

datatype post_type = HIGHLIGHT | THOUGHT | QUESTION | DISCUSSION

datatype reaction_type = IDEA | FIRE | THINK | CLAP | HEART

record post =
  po_id :: uuid
  po_book_id :: uuid
  po_user_id :: uuid
  po_post_type :: post_type
  po_content :: pystr
  po_image_keys :: "pystr list"
  po_created_at :: datetime
  po_deleted_at :: "datetime option"

record reaction =
  rx_id :: uuid
  rx_post_id :: uuid
  rx_user_id :: uuid
  rx_reaction_type :: reaction_type
  rx_created_at :: datetime

definition rx_key :: "reaction \<Rightarrow> uuid \<times> uuid \<times> reaction_type" where
  "rx_key r = (rx_post_id r, rx_user_id r, rx_reaction_type r)"

record post_comment =
  pc_id :: uuid
  pc_post_id :: uuid
  pc_user_id :: uuid
  pc_parent_id :: "uuid option"
  pc_content :: pystr
  pc_created_at :: datetime
  pc_deleted_at :: "datetime option"

record event_reaction =
  er_id :: uuid
  er_feed_event_id :: uuid
  er_user_id :: uuid
  er_emoji :: pystr
  er_created_at :: datetime

definition er_key :: "event_reaction \<Rightarrow> uuid \<times> uuid \<times> pystr" where
  "er_key r = (er_feed_event_id r, er_user_id r, er_emoji r)"

record feed_comment =
  fc_id :: uuid
  fc_feed_event_id :: uuid
  fc_user_id :: uuid
  fc_parent_id :: "uuid option"
  fc_body :: pystr
  fc_created_at :: datetime

section \<open>The social graph\<close>

record follow =
  fo_id :: uuid
  fo_follower_id :: uuid
  fo_followee_id :: uuid
  fo_created_at :: datetime

definition fo_key :: "follow \<Rightarrow> uuid \<times> uuid" where
  "fo_key r = (fo_follower_id r, fo_followee_id r)"

record user_block =
  bl_id :: uuid
  bl_blocker_id :: uuid
  bl_blocked_id :: uuid
  bl_created_at :: datetime

definition bl_key :: "user_block \<Rightarrow> uuid \<times> uuid" where
  "bl_key r = (bl_blocker_id r, bl_blocked_id r)"

record abuse_report =
  ar_id :: uuid
  ar_reporter_id :: uuid
  ar_target_type :: string
  ar_target_id :: uuid
  ar_reason :: pystr
  ar_created_at :: datetime

section \<open>Notifications\<close>

text \<open>The enum \<open>NotificationType\<close>; the column holds its value.\<close>

datatype notification_type =
    N_REACTION | N_COMMENT | N_GRADE_UP | N_WEEKLY_REPORT | N_FOLLOW_RECEIVED | N_BADGE_EARNED
  | N_STREAK_WARNING | N_SUBSCRIPTION_REMINDER | N_AGENDA_PUBLISHED | N_DISCUSSION_COMMENTED

record notification =
  nt_id :: uuid
  nt_user_id :: uuid
  nt_ntype :: string
  nt_title :: pystr
  nt_body :: pystr
  nt_data :: "(string \<times> json) list"
  nt_read_at :: "datetime option"
  nt_created_at :: datetime

record weekly_report =
  wr_id :: uuid
  wr_user_id :: uuid
  wr_week_start :: date
  wr_total_seconds :: int
  wr_session_count :: int
  wr_best_day :: "date option"
  wr_longest_session_sec :: int
  wr_push_sent_at :: "datetime option"

definition wr_key :: "weekly_report \<Rightarrow> uuid \<times> date" where
  "wr_key r = (wr_user_id r, wr_week_start r)"

record notification_preference =
  np_user_id :: uuid
  np_overrides :: "string \<rightharpoonup> bool"

datatype device_platform = IOS | AOS

record device_token =
  dv_id :: uuid
  dv_user_id :: uuid
  dv_token :: string
  dv_platform :: device_platform
  dv_created_at :: datetime
  dv_last_seen_at :: datetime

section \<open>Subscriptions\<close>

record promo =
  pm_id :: uuid
  pm_promo_code :: string
  pm_discount_pct :: int
  pm_valid_from :: datetime
  pm_valid_until :: datetime
  pm_is_active :: bool
  pm_created_at :: datetime

record coupon =
  cp_code :: pystr
  cp_discount_pct :: int
  cp_valid_days :: int
  cp_used_by :: "uuid option"
  cp_used_at :: "datetime option"
  cp_created_at :: datetime

section \<open>Invitations, teams, reviews, curation, meetups, experiments, reminders, shares, video calls\<close>

record referral =
  rf_id :: uuid
  rf_referrer_id :: uuid
  rf_referee_id :: "uuid option"
  rf_code :: pystr
  rf_created_at :: datetime
  rf_completed_at :: "datetime option"

record share_event =
  sv_id :: uuid
  sv_user_id :: uuid
  sv_card_type :: string
  sv_platform :: "string option"
  sv_referral_code :: "pystr option"
  sv_created_at :: datetime

record team =
  tm_id :: uuid
  tm_team_name :: pystr
  tm_admin_user_id :: uuid
  tm_seat_count :: int
  tm_plan_type :: string
  tm_valid_from :: datetime
  tm_valid_until :: datetime
  tm_created_at :: datetime

record team_member =
  tb_id :: uuid
  tb_team_id :: uuid
  tb_user_id :: uuid
  tb_joined_at :: datetime

definition tb_key :: "team_member \<Rightarrow> uuid \<times> uuid" where
  "tb_key r = (tb_team_id r, tb_user_id r)"

text \<open>A \<open>Numeric(2, 1)\<close> rating is the number of its tenths.\<close>

record book_review =
  rv_id :: uuid
  rv_user_id :: uuid
  rv_book_id :: uuid
  rv_rating :: int
  rv_body :: "pystr option"
  rv_report_count :: int
  rv_hidden_at :: "datetime option"
  rv_created_at :: datetime
  rv_updated_at :: datetime

definition rv_key :: "book_review \<Rightarrow> uuid \<times> uuid" where
  "rv_key r = (rv_user_id r, rv_book_id r)"

record curation_card =
  cc_id :: uuid
  cc_book_id :: uuid
  cc_card_type :: string
  cc_title :: pystr
  cc_body :: pystr
  cc_order_index :: int
  cc_created_at :: datetime

record curation_feedback =
  cf_id :: uuid
  cf_user_id :: uuid
  cf_card_id :: uuid
  cf_action :: string
  cf_created_at :: datetime

definition cf_key :: "curation_feedback \<Rightarrow> uuid \<times> uuid" where
  "cf_key r = (cf_user_id r, cf_card_id r)"

record meetup =
  mu_id :: uuid
  mu_creator_id :: uuid
  mu_club_id :: "uuid option"
  mu_book_id :: "uuid option"
  mu_title :: pystr
  mu_description :: "pystr option"
  mu_address :: "pystr option"
  mu_lat :: "rat option"
  mu_lng :: "rat option"
  mu_category :: "pystr option"
  mu_event_at :: datetime
  mu_max_attendees :: "int option"
  mu_is_public :: bool
  mu_deleted_at :: "datetime option"
  mu_created_at :: datetime

record waitlist_entry =
  wl_id :: uuid
  wl_event_id :: uuid
  wl_user_id :: uuid
  wl_queued_at :: datetime

definition wl_key :: "waitlist_entry \<Rightarrow> uuid \<times> uuid" where
  "wl_key r = (wl_event_id r, wl_user_id r)"

record meetup_review =
  evr_id :: uuid
  evr_event_id :: uuid
  evr_reviewer_id :: uuid
  evr_rating :: int
  evr_body :: "pystr option"
  evr_created_at :: datetime

definition evr_key :: "meetup_review \<Rightarrow> uuid \<times> uuid" where
  "evr_key r = (evr_event_id r, evr_reviewer_id r)"

record ab_experiment =
  xp_id :: uuid
  xp_experiment_key :: string
  xp_description :: "pystr option"
  xp_variants :: "string list"
  xp_is_active :: bool
  xp_created_at :: datetime

record user_experiment =
  ux_id :: uuid
  ux_user_id :: uuid
  ux_experiment_key :: string
  ux_variant :: string
  ux_assigned_at :: datetime
  ux_converted_at :: "datetime option"

definition ux_key :: "user_experiment \<Rightarrow> uuid \<times> string" where
  "ux_key r = (ux_user_id r, ux_experiment_key r)"

text \<open>A time of day is its seconds since midnight.\<close>

record reminder =
  rm_id :: uuid
  rm_user_id :: uuid
  rm_days_of_week :: "int list"
  rm_remind_at :: nat
  rm_is_active :: bool
  rm_created_at :: datetime

record video_session =
  vs_id :: uuid
  vs_club_id :: uuid
  vs_host_id :: uuid
  vs_agora_channel :: pystr
  vs_agora_uid :: "int option"
  vs_agora_token :: "pystr option"
  vs_started_at :: datetime
  vs_ended_at :: "datetime option"
  vs_max_participants :: int

section \<open>Assistant, tastes and monetisation\<close>

text \<open>A nested JSON document, as the guides write it: texts, integers, arrays and objects.\<close>

datatype document = DText pystr | DInt int | DArray "document list" | DObject "(string \<times> document) list"

record reflection_guide =
  rg_id :: uuid
  rg_user_id :: uuid
  rg_book_id :: uuid
  rg_content :: document
  rg_tokens_used :: int
  rg_created_at :: datetime

record ai_preference =
  aq_user_id :: uuid
  aq_card_style :: string
  aq_updated_at :: datetime

record usage_log =
  ul_id :: uuid
  ul_user_id :: uuid
  ul_feature :: string
  ul_book_id :: "uuid option"
  ul_tokens_used :: int
  ul_created_at :: datetime

text \<open>A frequency vector is a JSON object: its entries in the order of their first insertion.\<close>

record taste_profile =
  ta_user_id :: uuid
  ta_genre_vector :: "(pystr \<times> int) list"
  ta_author_vector :: "(pystr \<times> int) list"
  ta_updated_at :: datetime

record onboarding_interest =
  oi_id :: uuid
  oi_user_id :: uuid
  oi_category :: string
  oi_value :: pystr

text \<open>The revenue, a \<open>Numeric(12, 2)\<close>, is a number of hundredths.\<close>

record subscription_event =
  sb_id :: uuid
  sb_user_id :: uuid
  sb_event_type :: string
  sb_product_id :: "string option"
  sb_revenue_amount :: int
  sb_created_at :: datetime

section \<open>Events and background work\<close>

text \<open>The event classes of \<open>domains/{reading,book,challenge,feed,social}/events.py\<close>.\<close>

datatype event =
    ReadingSessionCompleted (ev_user: uuid) (ev_user_book: uuid) (ev_session: uuid) (ev_date: date)
      (ev_duration: int) (ev_source: session_source)
  | UserGradeRecomputed (ev_user: uuid) (ev_old_grade: int) (ev_old_tier: int) (ev_new_grade: int)
      (ev_new_tier: int) (ev_streak_days: int)
  | UserBookCompleted (ev_user: uuid) (ev_user_book: uuid) (ev_book: uuid)
  | BadgeEarned (ev_user: uuid) (ev_badge: uuid) (ev_badge_name: pystr)
  | PostCreated (ev_post: uuid) (ev_book: uuid) (ev_author: uuid)
  | ReactionAdded (ev_post: uuid) (ev_reactor: uuid) (ev_post_author: uuid) (ev_reaction: reaction_type)
  | CommentAdded (ev_comment: uuid) (ev_post: uuid) (ev_commenter: uuid) (ev_post_author: uuid)
      (ev_parent_author: "uuid option")
  | FollowReceived (ev_follower: uuid) (ev_followee: uuid)

datatype task = TasteRecompute uuid

section \<open>The session state\<close>

record library_tables =
  t_users :: "user list"
  t_books :: "book list"
  t_user_books :: "user_book list"

record reading_tables = library_tables +
  t_reading_sessions :: "reading_session list"
  t_daily_stats :: "daily_stat list"
  t_user_grades :: "user_grade list"
  t_goals :: "goal list"
  t_bookmarks :: "bookmark list"
  t_post_highlights :: "post_highlight list"
  t_feed_events :: "feed_event list"
  t_shield_purchases :: "shield_purchase list"
  t_push_logs :: "push_log list"
  t_recovery_logs :: "recovery_log list"

record club_tables = reading_tables +
  t_clubs :: "reading_club list"
  t_club_tags :: "club_tag list"
  t_club_members :: "club_member list"
  t_reading_plans :: "reading_plan list"
  t_club_events :: "club_event list"
  t_event_attendees :: "event_attendee list"
  t_club_rooms :: "club_room list"
  t_club_messages :: "club_message list"
  t_message_reads :: "message_read list"
  t_club_sessions :: "club_session list"
  t_session_agendas :: "session_agenda list"
  t_agenda_topics :: "agenda_topic list"
  t_topic_comments :: "topic_comment list"

record challenge_tables = club_tables +
  t_badges :: "badge list"
  t_challenges :: "challenge list"
  t_participants :: "participant list"
  t_user_badges :: "user_badge list"

record community_tables = challenge_tables +
  t_posts :: "post list"
  t_reactions :: "reaction list"
  t_post_comments :: "post_comment list"
  t_event_reactions :: "event_reaction list"
  t_feed_comments :: "feed_comment list"
  t_follows :: "follow list"
  t_blocks :: "user_block list"
  t_reports :: "abuse_report list"
  t_notifications :: "notification list"
  t_weekly_reports :: "weekly_report list"
  t_notification_preferences :: "notification_preference list"
  t_device_tokens :: "device_token list"
  t_promos :: "promo list"
  t_coupons :: "coupon list"

record growth_tables = community_tables +
  t_referrals :: "referral list"
  t_share_events :: "share_event list"
  t_teams :: "team list"
  t_team_members :: "team_member list"
  t_book_reviews :: "book_review list"
  t_curation_cards :: "curation_card list"
  t_curation_feedback :: "curation_feedback list"
  t_meetups :: "meetup list"
  t_waitlist :: "waitlist_entry list"
  t_meetup_reviews :: "meetup_review list"
  t_experiments :: "ab_experiment list"
  t_user_experiments :: "user_experiment list"
  t_reminders :: "reminder list"
  t_video_sessions :: "video_session list"
  t_reflection_guides :: "reflection_guide list"
  t_ai_preferences :: "ai_preference list"
  t_usage_logs :: "usage_log list"
  t_taste_profiles :: "taste_profile list"
  t_interests :: "onboarding_interest list"
  t_subscription_events :: "subscription_event list"

record sess = growth_tables +
  sq_events :: "event list"
  sq_tasks :: "task list"

definition empty_sess :: sess where
  "empty_sess =
    \<lparr>t_users = [], t_books = [], t_user_books = [],
     t_reading_sessions = [], t_daily_stats = [], t_user_grades = [], t_goals = [], t_bookmarks = [],
     t_post_highlights = [], t_feed_events = [], t_shield_purchases = [], t_push_logs = [],
     t_recovery_logs = [],
     t_clubs = [], t_club_tags = [], t_club_members = [], t_reading_plans = [], t_club_events = [],
     t_event_attendees = [], t_club_rooms = [], t_club_messages = [], t_message_reads = [],
     t_club_sessions = [], t_session_agendas = [], t_agenda_topics = [], t_topic_comments = [],
     t_badges = [], t_challenges = [], t_participants = [], t_user_badges = [],
     t_posts = [], t_reactions = [], t_post_comments = [], t_event_reactions = [], t_feed_comments = [],
     t_follows = [], t_blocks = [], t_reports = [], t_notifications = [], t_weekly_reports = [],
     t_notification_preferences = [], t_device_tokens = [], t_promos = [], t_coupons = [],
     t_referrals = [], t_share_events = [], t_teams = [], t_team_members = [], t_book_reviews = [], t_curation_cards = [],
     t_curation_feedback = [], t_meetups = [], t_waitlist = [], t_meetup_reviews = [], t_experiments = [], t_user_experiments = [],
     t_reminders = [], t_video_sessions = [], t_reflection_guides = [], t_ai_preferences = [], t_usage_logs = [],
     t_taste_profiles = [], t_interests = [], t_subscription_events = [],
     sq_events = [], sq_tasks = []\<rparr>"

text \<open>The state an operation returns: an exception, or its value and the session after it.\<close>

type_synonym 'a outcome = "error + 'a \<times> sess"

text \<open>Foreign keys to the shared tables.\<close>

definition user_exists :: "uuid \<Rightarrow> sess \<Rightarrow> bool" where
  "user_exists u s \<longleftrightarrow> fetch us_id u (t_users s) \<noteq> None"

definition book_exists :: "uuid \<Rightarrow> sess \<Rightarrow> bool" where
  "book_exists b s \<longleftrightarrow> fetch bk_id b (t_books s) \<noteq> None"

definition user_book_exists :: "uuid \<Rightarrow> sess \<Rightarrow> bool" where
  "user_book_exists ub s \<longleftrightarrow> fetch ub_id ub (t_user_books s) \<noteq> None"

text \<open>The range of an \<open>INTEGER\<close> column; a value outside it is refused by the driver or the server.\<close>

definition int4 :: "int \<Rightarrow> bool" where
  "int4 n \<longleftrightarrow> - (2 ^ 31) \<le> n \<and> n < 2 ^ 31"

definition stage_event :: "event \<Rightarrow> sess \<Rightarrow> sess" where
  "stage_event e s = s\<lparr>sq_events := sq_events s @ [e]\<rparr>"

definition schedule :: "task \<Rightarrow> sess \<Rightarrow> sess" where
  "schedule t s = s\<lparr>sq_tasks := sq_tasks s @ [t]\<rparr>"

end
