(* ===== verification/ReadingRepo.thy ===== *)
theory ReadingRepo
  imports Schema
begin

text \<open>
  The write side of \<open>backend/app/domains/reading/repository.py\<close>: sessions, daily statistics,
  grade snapshots, goals and bookmarks. A repository method takes the session state and the
  values the database would supply (a fresh identifier, the transaction's time) and returns an
  exception or its row with the new state. The interpretations at the end give each table's
  primary-key laws.
\<close>

section \<open>Reading sessions\<close>

definition active_rows :: "uuid \<Rightarrow> sess \<Rightarrow> reading_session list" where
  "active_rows user_id s =
     filter (\<lambda>r. rs_user_id r = user_id \<and> rs_ended_at r = None) (t_reading_sessions s)"

definition get_active_session :: "uuid \<Rightarrow> sess \<Rightarrow> reading_session option result" where
  "get_active_session user_id s = scalar_one_or_none (active_rows user_id s)"

text \<open>
  Any \<open>IntegrityError\<close> of the insert (the partial unique index, but also a dangling foreign
  key) is reported as an active session.
\<close>

definition create_started ::
    "uuid \<Rightarrow> datetime \<Rightarrow> uuid \<Rightarrow> uuid \<Rightarrow> datetime \<Rightarrow> pystr option \<Rightarrow> sess \<Rightarrow> reading_session outcome" where
  "create_started new_id now user_id user_book_id started_at device s =
     (let row = \<lparr>rs_id = new_id, rs_user_id = user_id, rs_user_book_id = user_book_id,
                 rs_started_at = started_at, rs_ended_at = None, rs_duration_sec = None,
                 rs_source = TIMER, rs_device = device, rs_note = None, rs_created_at = now\<rparr>;
          ok = user_exists user_id s \<and> user_book_exists user_book_id s \<and> active_rows user_id s = []
      in case insert_row rs_id ok row (t_reading_sessions s) of
           Inl _ \<Rightarrow> Inl (DomainError ConflictError ''ACTIVE_SESSION_EXISTS'')
         | Inr rows \<Rightarrow> Inr (row, s\<lparr>t_reading_sessions := rows\<rparr>))"

definition repo_end_session ::
    "uuid \<Rightarrow> datetime \<Rightarrow> int \<Rightarrow> sess \<Rightarrow> reading_session outcome" where
  "repo_end_session session_id ended_at duration_sec s =
     (case fetch rs_id session_id (t_reading_sessions s) of
        None \<Rightarrow> Inl (DomainError NotFoundError ''SESSION_NOT_FOUND'')
      | Some row \<Rightarrow>
          if rs_ended_at row \<noteq> None then Inr (row, s)
          else if \<not> int4 duration_sec then Inl DataError
          else let f = (\<lambda>r. r\<lparr>rs_ended_at := Some ended_at, rs_duration_sec := Some duration_sec\<rparr>)
               in Inr (f row, s\<lparr>t_reading_sessions := amend rs_id session_id f (t_reading_sessions s)\<rparr>))"

definition create_manual ::
    "uuid \<Rightarrow> datetime \<Rightarrow> uuid \<Rightarrow> uuid \<Rightarrow> datetime \<Rightarrow> datetime \<Rightarrow> int \<Rightarrow> pystr option \<Rightarrow> sess
      \<Rightarrow> reading_session outcome" where
  "create_manual new_id now user_id user_book_id started_at ended_at duration_sec note s =
     (let row = \<lparr>rs_id = new_id, rs_user_id = user_id, rs_user_book_id = user_book_id,
                 rs_started_at = started_at, rs_ended_at = Some ended_at,
                 rs_duration_sec = Some duration_sec, rs_source = MANUAL, rs_device = None,
                 rs_note = note, rs_created_at = now\<rparr>;
          ok = user_exists user_id s \<and> user_book_exists user_book_id s
      in if \<not> int4 duration_sec then Inl DataError
         else bindE (insert_row rs_id ok row (t_reading_sessions s))
                (\<lambda>rows. Inr (row, s\<lparr>t_reading_sessions := rows\<rparr>)))"

definition session_by_id :: "uuid \<Rightarrow> sess \<Rightarrow> reading_session option" where
  "session_by_id session_id s = fetch rs_id session_id (t_reading_sessions s)"

section \<open>Daily statistics\<close>

definition daily_upsert :: "uuid \<Rightarrow> date \<Rightarrow> int \<Rightarrow> int \<Rightarrow> sess \<Rightarrow> unit outcome" where
  "daily_upsert user_id d add_seconds add_sessions s =
     (case fetch ds_key (user_id, d) (t_daily_stats s) of
        None \<Rightarrow>
          if \<not> (int4 add_seconds \<and> int4 add_sessions) then Inl DataError
          else Inr ((), s\<lparr>t_daily_stats := t_daily_stats s @
                 [\<lparr>ds_user_id = user_id, ds_date = d, ds_total_seconds = add_seconds,
                   ds_session_count = add_sessions\<rparr>]\<rparr>)
      | Some row \<Rightarrow>
          if \<not> (int4 (ds_total_seconds row + add_seconds) \<and> int4 (ds_session_count row + add_sessions))
          then Inl DataError
          else Inr ((), s\<lparr>t_daily_stats := amend ds_key (user_id, d)
                 (\<lambda>r. r\<lparr>ds_total_seconds := ds_total_seconds r + add_seconds,
                        ds_session_count := ds_session_count r + add_sessions\<rparr>) (t_daily_stats s)\<rparr>))"

definition daily_range :: "uuid \<Rightarrow> date \<Rightarrow> date \<Rightarrow> sess \<Rightarrow> daily_stat list" where
  "daily_range user_id from_date to_date s =
     order_asc ds_date
       (filter (\<lambda>r. ds_user_id r = user_id \<and> from_date \<le> ds_date r \<and> ds_date r \<le> to_date)
         (t_daily_stats s))"

section \<open>Grade snapshots\<close>

definition init_grade :: "uuid \<Rightarrow> user_grade" where
  "init_grade user_id =
     \<lparr>ug_user_id = user_id, ug_grade = 1, ug_tier = 1, ug_total_books = 0, ug_total_seconds = 0,
      ug_streak_days = 0, ug_longest_streak = 0, ug_streak_last_date = None, ug_streak_shields = 0\<rparr>"

definition get_or_init :: "uuid \<Rightarrow> sess \<Rightarrow> user_grade outcome" where
  "get_or_init user_id s =
     (case fetch ug_user_id user_id (t_user_grades s) of
        Some row \<Rightarrow> Inr (row, s)
      | None \<Rightarrow>
          bindE (insert_row ug_user_id (user_exists user_id s) (init_grade user_id) (t_user_grades s))
            (\<lambda>rows. Inr (init_grade user_id, s\<lparr>t_user_grades := rows\<rparr>)))"

text \<open>The columns a row of \<open>user_grades\<close> accepts.\<close>

definition grade_check :: "user_grade \<Rightarrow> bool" where
  "grade_check r \<longleftrightarrow> 1 \<le> ug_grade r \<and> ug_grade r \<le> 5 \<and> 1 \<le> ug_tier r \<and> ug_tier r \<le> 3"

definition grade_fits :: "user_grade \<Rightarrow> bool" where
  "grade_fits r \<longleftrightarrow> int4 (ug_total_books r) \<and> int4 (ug_total_seconds r) \<and> int4 (ug_streak_days r) \<and>
     int4 (ug_longest_streak r) \<and> int4 (ug_streak_shields r)"

definition write_grade :: "uuid \<Rightarrow> (user_grade \<Rightarrow> user_grade) \<Rightarrow> sess \<Rightarrow> user_grade outcome" where
  "write_grade user_id f s =
     bindE (get_or_init user_id s) (\<lambda>(row, s1).
       if \<not> grade_fits (f row) then Inl DataError
       else if \<not> grade_check (f row) then Inl IntegrityError
       else Inr (f row, s1\<lparr>t_user_grades := amend ug_user_id user_id f (t_user_grades s1)\<rparr>))"

definition set_opt :: "'a option \<Rightarrow> 'a \<Rightarrow> 'a" where
  "set_opt new old = (case new of None \<Rightarrow> old | Some v \<Rightarrow> v)"

definition update_snapshot ::
    "uuid \<Rightarrow> int option \<Rightarrow> int option \<Rightarrow> int option \<Rightarrow> int option \<Rightarrow> int option \<Rightarrow> int option \<Rightarrow>
     date option \<Rightarrow> int option \<Rightarrow> sess \<Rightarrow> user_grade outcome" where
  "update_snapshot user_id total_books total_seconds_delta grade tier streak_days longest_streak
       streak_last_date streak_shields s =
     write_grade user_id (\<lambda>r. r\<lparr>
         ug_total_books := set_opt total_books (ug_total_books r),
         ug_total_seconds := (case total_seconds_delta of None \<Rightarrow> ug_total_seconds r
                              | Some d \<Rightarrow> ug_total_seconds r + d),
         ug_grade := set_opt grade (ug_grade r),
         ug_tier := set_opt tier (ug_tier r),
         ug_streak_days := set_opt streak_days (ug_streak_days r),
         ug_longest_streak := set_opt longest_streak (ug_longest_streak r),
         ug_streak_last_date := (case streak_last_date of None \<Rightarrow> ug_streak_last_date r | Some d \<Rightarrow> Some d),
         ug_streak_shields := set_opt streak_shields (ug_streak_shields r)\<rparr>) s"

definition update_streak_shields :: "uuid \<Rightarrow> int \<Rightarrow> sess \<Rightarrow> user_grade outcome" where
  "update_streak_shields user_id shields s =
     write_grade user_id (\<lambda>r. r\<lparr>ug_streak_shields := shields\<rparr>) s"

section \<open>Goals\<close>

definition goal_check :: "goal \<Rightarrow> bool" where
  "goal_check g \<longleftrightarrow> 0 \<le> go_target_books g \<and> 0 \<le> go_target_seconds g \<and> go_start_date g \<le> go_end_date g"

definition repo_create_goal ::
    "uuid \<Rightarrow> datetime \<Rightarrow> uuid \<Rightarrow> goal_period \<Rightarrow> int \<Rightarrow> int \<Rightarrow> date \<Rightarrow> date \<Rightarrow> sess \<Rightarrow> goal outcome" where
  "repo_create_goal new_id now user_id period target_books target_seconds start_date end_date s =
     (let row = \<lparr>go_id = new_id, go_user_id = user_id, go_period = period, go_target_books = target_books,
                 go_target_seconds = target_seconds, go_start_date = start_date, go_end_date = end_date,
                 go_created_at = now\<rparr>
      in if \<not> (int4 target_books \<and> int4 target_seconds) then Inl DataError
         else bindE (insert_row go_id (user_exists user_id s \<and> goal_check row) row (t_goals s))
                (\<lambda>rows. Inr (row, s\<lparr>t_goals := rows\<rparr>)))"

text \<open>\<open>ORDER BY created_at DESC, id DESC\<close>.\<close>

definition newest_goals :: "goal list \<Rightarrow> goal list" where
  "newest_goals rows = order_desc go_created_at (order_desc (\<lambda>g. int (go_id g)) rows)"

definition goal_active_for :: "uuid \<Rightarrow> goal_period \<Rightarrow> date \<Rightarrow> sess \<Rightarrow> goal option" where
  "goal_active_for user_id period on_date s =
     (case newest_goals (filter (\<lambda>g. go_user_id g = user_id \<and> go_period g = period \<and>
                                   go_start_date g \<le> on_date \<and> on_date \<le> go_end_date g) (t_goals s)) of
        [] \<Rightarrow> None | g # _ \<Rightarrow> Some g)"

fun first_per_period :: "goal_period list \<Rightarrow> goal list \<Rightarrow> goal list" where
  "first_per_period seen [] = []"
| "first_per_period seen (g # gs) =
     (if go_period g \<in> set seen then first_per_period seen gs
      else g # first_per_period (go_period g # seen) gs)"

definition goal_list_active :: "uuid \<Rightarrow> date \<Rightarrow> sess \<Rightarrow> goal list" where
  "goal_list_active user_id on_date s =
     first_per_period [] (newest_goals (filter (\<lambda>g. go_user_id g = user_id \<and>
        go_start_date g \<le> on_date \<and> on_date \<le> go_end_date g) (t_goals s)))"

section \<open>Bookmarks\<close>

definition repo_create_bookmark ::
    "uuid \<Rightarrow> datetime \<Rightarrow> uuid \<Rightarrow> uuid \<Rightarrow> int \<Rightarrow> pystr option \<Rightarrow> sess \<Rightarrow> bookmark outcome" where
  "repo_create_bookmark new_id now user_id user_book_id page note s =
     (let row = \<lparr>bm_id = new_id, bm_user_book_id = user_book_id, bm_user_id = user_id, bm_page = page,
                 bm_note = note, bm_created_at = now\<rparr>
      in if \<not> int4 page then Inl DataError
         else bindE (insert_row bm_id (user_exists user_id s \<and> user_book_exists user_book_id s) row (t_bookmarks s))
                (\<lambda>rows. Inr (row, s\<lparr>t_bookmarks := rows\<rparr>)))"

definition latest_bookmark :: "uuid \<Rightarrow> sess \<Rightarrow> bookmark option" where
  "latest_bookmark user_book_id s =
     (case order_desc bm_created_at (filter (\<lambda>b. bm_user_book_id b = user_book_id) (t_bookmarks s)) of
        [] \<Rightarrow> None | b # _ \<Rightarrow> Some b)"

end
