(* ===== verification/FeedEvents.thy ===== *)
theory FeedEvents
  imports Schema
begin

text \<open>
  The activity stream other components write to: \<open>FeedEventRepository.create_event\<close> and the
  \<open>record_*\<close> methods of \<open>backend/app/domains/feed/service.py\<close>. \<open>wired\<close> is
  \<open>self.feed_events is not None\<close>. The row identifier and the transaction time are parameters.
\<close>

definition create_event :: "uuid \<Rightarrow> datetime \<Rightarrow> uuid \<Rightarrow> string \<Rightarrow> (string \<times> json) list \<Rightarrow> sess \<Rightarrow> feed_event outcome" where
  "create_event new_id now user_id event_type metadata s =
     (let row = \<lparr>fe_id = new_id, fe_user_id = user_id, fe_event_type = event_type,
                 fe_metadata = metadata, fe_created_at = now\<rparr>
      in bindE (insert_row fe_id (user_exists user_id s) row (t_feed_events s))
           (\<lambda>rows. Inr (row, s\<lparr>t_feed_events := rows\<rparr>)))"

definition record_event :: "bool \<Rightarrow> uuid \<Rightarrow> datetime \<Rightarrow> uuid \<Rightarrow> string \<Rightarrow> (string \<times> json) list \<Rightarrow> sess \<Rightarrow> unit outcome" where
  "record_event wired new_id now user_id event_type metadata s =
     (if \<not> wired then Inr ((), s)
      else bindE (create_event new_id now user_id event_type metadata s) (\<lambda>(_, s'). Inr ((), s')))"

definition record_chapter_milestone :: "bool \<Rightarrow> uuid \<Rightarrow> datetime \<Rightarrow> uuid \<Rightarrow> uuid \<Rightarrow> int \<Rightarrow> sess \<Rightarrow> unit outcome" where
  "record_chapter_milestone wired new_id now user_id book_id chapter s =
     (if chapter mod 5 \<noteq> 0 then Inr ((), s)
      else record_event wired new_id now user_id ''CHAPTER_MILESTONE''
             [(''book_id'', JUuid book_id), (''chapter'', JInt chapter)] s)"

definition STREAK_MILESTONES :: "int list" where
  "STREAK_MILESTONES = [3, 7, 14, 30, 60, 100]"

definition record_streak_milestone :: "bool \<Rightarrow> uuid \<Rightarrow> datetime \<Rightarrow> uuid \<Rightarrow> int \<Rightarrow> sess \<Rightarrow> unit outcome" where
  "record_streak_milestone wired new_id now user_id streak_days s =
     (if streak_days \<notin> set STREAK_MILESTONES then Inr ((), s)
      else record_event wired new_id now user_id ''STREAK_MILESTONE'' [(''streak_days'', JInt streak_days)] s)"

definition record_book_completed :: "bool \<Rightarrow> uuid \<Rightarrow> datetime \<Rightarrow> uuid \<Rightarrow> uuid \<Rightarrow> sess \<Rightarrow> unit outcome" where
  "record_book_completed wired new_id now user_id book_id s =
     record_event wired new_id now user_id ''BOOK_COMPLETED'' [(''book_id'', JUuid book_id)] s"

definition record_club_joined :: "bool \<Rightarrow> uuid \<Rightarrow> datetime \<Rightarrow> uuid \<Rightarrow> uuid \<Rightarrow> sess \<Rightarrow> unit outcome" where
  "record_club_joined wired new_id now user_id club_id s =
     record_event wired new_id now user_id ''CLUB_JOINED'' [(''club_id'', JUuid club_id)] s"

definition record_session_opened :: "bool \<Rightarrow> uuid \<Rightarrow> datetime \<Rightarrow> uuid \<Rightarrow> uuid \<Rightarrow> uuid \<Rightarrow> uuid \<Rightarrow> sess \<Rightarrow> unit outcome" where
  "record_session_opened wired new_id now user_id club_id session_id book_id s =
     record_event wired new_id now user_id ''session_opened''
       [(''club_id'', JUuid club_id), (''session_id'', JUuid session_id), (''book_id'', JUuid book_id)] s"

definition record_agenda_published :: "bool \<Rightarrow> uuid \<Rightarrow> datetime \<Rightarrow> uuid \<Rightarrow> uuid \<Rightarrow> uuid \<Rightarrow> uuid \<Rightarrow> sess \<Rightarrow> unit outcome" where
  "record_agenda_published wired new_id now user_id club_id session_id agenda_id s =
     record_event wired new_id now user_id ''agenda_published''
       [(''club_id'', JUuid club_id), (''session_id'', JUuid session_id), (''agenda_id'', JUuid agenda_id)] s"

definition record_discussion_commented ::
    "bool \<Rightarrow> uuid \<Rightarrow> datetime \<Rightarrow> uuid \<Rightarrow> uuid \<Rightarrow> uuid \<Rightarrow> uuid \<Rightarrow> uuid \<Rightarrow> uuid \<Rightarrow> uuid option \<Rightarrow> sess \<Rightarrow> unit outcome" where
  "record_discussion_commented wired new_id now user_id club_id session_id agenda_id topic_id comment_id
       parent_comment_id s =
     record_event wired new_id now user_id ''discussion_commented''
       [(''club_id'', JUuid club_id), (''session_id'', JUuid session_id), (''agenda_id'', JUuid agenda_id),
        (''topic_id'', JUuid topic_id), (''comment_id'', JUuid comment_id),
        (''parent_comment_id'', case parent_comment_id of Some p \<Rightarrow> JUuid p | None \<Rightarrow> JNull)] s"

section \<open>Recording touches the stream only\<close>

text \<open>What every recording leaves of the state: only rows added at the end of the stream.\<close>

definition stream_extends :: "sess \<Rightarrow> sess \<Rightarrow> bool" where
  "stream_extends s s' \<longleftrightarrow> (\<exists>new. s' = s\<lparr>t_feed_events := t_feed_events s @ new\<rparr>)"

lemma stream_refl [intro]: "stream_extends s s"
  unfolding stream_extends_def by (rule exI [of _ "[]"]) simp

lemma record_event_extends:
  assumes "record_event wired i now u ty m s = Inr ((), s')"
  shows "stream_extends s s'"
proof (cases wired)
  case True
  with assms show ?thesis
    by (auto simp: record_event_def create_event_def insert_row_Inr_iff Let_def stream_extends_def)
next
  case False
  with assms show ?thesis by (auto simp: record_event_def)
qed

lemmas record_defs = record_chapter_milestone_def record_streak_milestone_def record_book_completed_def
  record_club_joined_def record_session_opened_def record_agenda_published_def
  record_discussion_commented_def

lemma record_extends:
  "record_chapter_milestone w i now u b c s = Inr ((), s') \<Longrightarrow> stream_extends s s'"
  "record_streak_milestone w i now u n s = Inr ((), s') \<Longrightarrow> stream_extends s s'"
  "record_book_completed w i now u b s = Inr ((), s') \<Longrightarrow> stream_extends s s'"
  "record_club_joined w i now u b s = Inr ((), s') \<Longrightarrow> stream_extends s s'"
  "record_session_opened w i now u b c d s = Inr ((), s') \<Longrightarrow> stream_extends s s'"
  "record_agenda_published w i now u b c d s = Inr ((), s') \<Longrightarrow> stream_extends s s'"
  "record_discussion_commented w i now u b c d e f g s = Inr ((), s') \<Longrightarrow> stream_extends s s'"
  unfolding record_defs by (auto elim: record_event_extends split: if_splits)

lemma record_event_ok:
  assumes "user_exists u s" "fetch fe_id i (t_feed_events s) = None"
  shows "\<exists>s'. record_event w i now u ty m s = Inr ((), s')"
  using assms by (simp add: record_event_def create_event_def insert_row_def Let_def)

lemma stream_fields:
  assumes "stream_extends s s'"
  shows "t_users s' = t_users s" "t_books s' = t_books s" "t_user_books s' = t_user_books s"
    "t_reading_sessions s' = t_reading_sessions s" "t_daily_stats s' = t_daily_stats s"
    "t_user_grades s' = t_user_grades s" "t_goals s' = t_goals s" "t_bookmarks s' = t_bookmarks s"
    "sq_events s' = sq_events s" "sq_tasks s' = sq_tasks s"
  using assms by (auto simp: stream_extends_def)

end
