(* ===== verification/BookLibrary.thy ===== *)
theory BookLibrary
  imports FeedEvents
begin

text \<open>
  The book domain: \<open>backend/app/domains/book/repository.py\<close>, \<open>service.py\<close>, and the adapter
  \<open>BookQueryAdapter\<close> of \<open>backend/app/domains/reading/providers.py\<close> through which the
  reading domain reads it. The external search provider is a parameter: the page it returns.
  Cursors are the datetimes they encode.
\<close>

section \<open>Repositories\<close>

record external_book =
  xb_isbn13 :: string
  xb_title :: pystr
  xb_author :: pystr
  xb_publisher :: "pystr option"
  xb_cover_url :: "pystr option"
  xb_description :: "pystr option"
  xb_page_count :: "int option"
  xb_source :: book_source

definition upsert_by_isbn :: "uuid \<Rightarrow> datetime \<Rightarrow> external_book \<Rightarrow> sess \<Rightarrow> book outcome" where
  "upsert_by_isbn new_id now x s =
     (case fetch bk_isbn13 (xb_isbn13 x) (t_books s) of
        None \<Rightarrow>
          (let row = \<lparr>bk_id = new_id, bk_isbn13 = xb_isbn13 x, bk_title = xb_title x, bk_author = xb_author x,
                      bk_publisher = xb_publisher x, bk_cover_url = xb_cover_url x,
                      bk_description = xb_description x, bk_page_count = xb_page_count x,
                      bk_source = xb_source x, bk_created_at = now\<rparr>
           in bindE (insert_row bk_id True row (t_books s)) (\<lambda>rows. Inr (row, s\<lparr>t_books := rows\<rparr>)))
      | Some old \<Rightarrow>
          let f = (\<lambda>b. b\<lparr>bk_title := xb_title x, bk_author := xb_author x, bk_publisher := xb_publisher x,
                        bk_cover_url := xb_cover_url x, bk_description := xb_description x,
                        bk_page_count := (case xb_page_count x of Some p \<Rightarrow> Some p | None \<Rightarrow> bk_page_count b),
                        bk_source := xb_source x\<rparr>)
          in Inr (f old, s\<lparr>t_books := amend bk_isbn13 (xb_isbn13 x) f (t_books s)\<rparr>))"

definition book_by_id :: "uuid \<Rightarrow> sess \<Rightarrow> book option" where
  "book_by_id book_id s = fetch bk_id book_id (t_books s)"

definition book_by_isbn :: "string \<Rightarrow> sess \<Rightarrow> book option result" where
  "book_by_isbn isbn13 s = scalar_one_or_none (filter (\<lambda>b. bk_isbn13 b = isbn13) (t_books s))"

definition create_user_book :: "uuid \<Rightarrow> datetime \<Rightarrow> uuid \<Rightarrow> uuid \<Rightarrow> user_book_status \<Rightarrow> sess \<Rightarrow> user_book outcome" where
  "create_user_book new_id now user_id book_id status s =
     (let row = \<lparr>ub_id = new_id, ub_user_id = user_id, ub_book_id = book_id, ub_status = status,
                 ub_started_at = Some now, ub_finished_at = None, ub_rating = None,
                 ub_one_line_review = None, ub_progress = 0, ub_current_chapter = 0, ub_created_at = now\<rparr>;
          ok = user_exists user_id s \<and> book_exists book_id s \<and>
               filter (\<lambda>r. ub_user_id r = user_id \<and> ub_book_id r = book_id) (t_user_books s) = []
      in case insert_row ub_id ok row (t_user_books s) of
           Inl _ \<Rightarrow> Inl (DomainError ConflictError ''BOOK_ALREADY_IN_LIBRARY'')
         | Inr rows \<Rightarrow> Inr (row, s\<lparr>t_user_books := rows\<rparr>))"

definition user_book_by_id :: "uuid \<Rightarrow> sess \<Rightarrow> user_book option" where
  "user_book_by_id user_book_id s = fetch ub_id user_book_id (t_user_books s)"

definition repo_update_status :: "uuid \<Rightarrow> user_book_status \<Rightarrow> sess \<Rightarrow> user_book outcome" where
  "repo_update_status user_book_id status s =
     (case user_book_by_id user_book_id s of
        None \<Rightarrow> Inl (DomainError NotFoundError ''USER_BOOK_NOT_FOUND'')
      | Some ub \<Rightarrow>
          Inr (ub\<lparr>ub_status := status\<rparr>,
            s\<lparr>t_user_books := amend ub_id user_book_id (\<lambda>r. r\<lparr>ub_status := status\<rparr>) (t_user_books s)\<rparr>))"

definition int2 :: "int \<Rightarrow> bool" where
  "int2 n \<longleftrightarrow> - (2 ^ 15) \<le> n \<and> n < 2 ^ 15"

definition repo_update_chapter :: "uuid \<Rightarrow> int \<Rightarrow> sess \<Rightarrow> user_book outcome" where
  "repo_update_chapter user_book_id current_chapter s =
     (if \<not> int2 current_chapter then Inl DataError
      else case user_book_by_id user_book_id s of
        None \<Rightarrow> Inl NoResultFound
      | Some ub \<Rightarrow>
          Inr (ub\<lparr>ub_current_chapter := current_chapter\<rparr>,
            s\<lparr>t_user_books := amend ub_id user_book_id (\<lambda>r. r\<lparr>ub_current_chapter := current_chapter\<rparr>)
                (t_user_books s)\<rparr>))"

text \<open>Deleting a library entry cascades to its sessions, bookmarks and highlights.\<close>

definition repo_delete_user_book :: "uuid \<Rightarrow> sess \<Rightarrow> unit outcome" where
  "repo_delete_user_book user_book_id s =
     (case user_book_by_id user_book_id s of
        None \<Rightarrow> Inl (DomainError NotFoundError ''USER_BOOK_NOT_FOUND'')
      | Some _ \<Rightarrow>
          Inr ((), s\<lparr>t_user_books := discard (\<lambda>r. ub_id r = user_book_id) (t_user_books s),
                t_reading_sessions := discard (\<lambda>r. rs_user_book_id r = user_book_id) (t_reading_sessions s),
                t_bookmarks := discard (\<lambda>r. bm_user_book_id r = user_book_id) (t_bookmarks s),
                t_post_highlights := discard (\<lambda>r. ph_user_book_id r = user_book_id) (t_post_highlights s)\<rparr>))"

text \<open>\<open>ORDER BY started_at DESC NULLS LAST, id DESC\<close>.\<close>

definition library_order :: "user_book list \<Rightarrow> user_book list" where
  "library_order rows =
     (let by_id = order_desc (\<lambda>r. int (ub_id r)) rows
      in order_desc (\<lambda>r. the (ub_started_at r)) (filter (\<lambda>r. ub_started_at r \<noteq> None) by_id) @
         filter (\<lambda>r. ub_started_at r = None) by_id)"

definition list_for_user ::
    "uuid \<Rightarrow> user_book_status option \<Rightarrow> datetime option \<Rightarrow> nat \<Rightarrow> sess \<Rightarrow> user_book list" where
  "list_for_user user_id status cursor limit s =
     take limit (library_order (filter
       (\<lambda>r. ub_user_id r = user_id \<and>
            (case status of None \<Rightarrow> True | Some st \<Rightarrow> ub_status r = st) \<and>
            (case cursor of None \<Rightarrow> True
             | Some c \<Rightarrow> (case ub_started_at r of None \<Rightarrow> True | Some t \<Rightarrow> t < c)))
       (t_user_books s)))"

definition count_for_user :: "uuid \<Rightarrow> user_book_status option \<Rightarrow> sess \<Rightarrow> nat" where
  "count_for_user user_id status s =
     length (filter (\<lambda>r. ub_user_id r = user_id \<and>
       (case status of None \<Rightarrow> True | Some st \<Rightarrow> ub_status r = st)) (t_user_books s))"

section \<open>The port of the reading domain\<close>

definition user_book_belongs_to_user :: "uuid \<Rightarrow> uuid \<Rightarrow> sess \<Rightarrow> bool" where
  "user_book_belongs_to_user user_id user_book_id s =
     (case user_book_by_id user_book_id s of None \<Rightarrow> False | Some ub \<Rightarrow> ub_user_id ub = user_id)"

text \<open>
  A date bound is compared with \<open>finished_at\<close> as midnight UTC; \<open>NULL\<close> compares to nothing.
  The upper bound is made inclusive by adding a day.
\<close>

definition count_completed_books :: "uuid \<Rightarrow> date option \<Rightarrow> date option \<Rightarrow> sess \<Rightarrow> int result" where
  "count_completed_books user_id from_date to_date s =
     bindE (case to_date of None \<Rightarrow> Inr None | Some d \<Rightarrow> bindE (add_days d 1) (\<lambda>d'. Inr (Some d')))
       (\<lambda>upper. Inr (int (length (filter (\<lambda>r.
          ub_user_id r = user_id \<and> ub_status r = COMPLETED \<and>
          (case from_date of None \<Rightarrow> True
           | Some d \<Rightarrow> (case ub_finished_at r of None \<Rightarrow> False | Some t \<Rightarrow> midnight d \<le> t)) \<and>
          (case upper of None \<Rightarrow> True
           | Some d \<Rightarrow> (case ub_finished_at r of None \<Rightarrow> False | Some t \<Rightarrow> t < midnight d)))
          (t_user_books s)))))"

section \<open>The service\<close>

text \<open>\<open>ids k\<close> is the identifier the k-th insert of the page would get.\<close>

fun persist_items :: "(nat \<Rightarrow> uuid) \<Rightarrow> datetime \<Rightarrow> external_book list \<Rightarrow> sess \<Rightarrow> book list outcome" where
  "persist_items ids now [] s = Inr ([], s)"
| "persist_items ids now (x # xs) s =
     bindE (upsert_by_isbn (ids 0) now x s) (\<lambda>(b, s1).
     bindE (persist_items (\<lambda>k. ids (Suc k)) now xs s1) (\<lambda>(bs, s2). Inr (b # bs, s2)))"

definition search_books ::
    "(nat \<Rightarrow> uuid) \<Rightarrow> datetime \<Rightarrow> external_book list \<Rightarrow> int \<Rightarrow> int \<Rightarrow> int \<Rightarrow> sess \<Rightarrow> (book list \<times> bool) outcome" where
  "search_books ids now items total_hits page page_size s =
     bindE (persist_items ids now items s) (\<lambda>(persisted, s').
       Inr ((persisted, page_size \<le> int (length items) \<and> page * page_size < total_hits), s'))"

definition get_book :: "uuid \<Rightarrow> sess \<Rightarrow> book result" where
  "get_book book_id s = required (DomainError NotFoundError ''BOOK_NOT_FOUND'') (book_by_id book_id s)"

definition add_to_library :: "uuid \<Rightarrow> datetime \<Rightarrow> uuid \<Rightarrow> uuid \<Rightarrow> user_book_status \<Rightarrow> sess \<Rightarrow> user_book outcome" where
  "add_to_library new_id now user_id book_id status s =
     (case book_by_id book_id s of
        None \<Rightarrow> Inl (DomainError NotFoundError ''BOOK_NOT_FOUND'')
      | Some _ \<Rightarrow> create_user_book new_id now user_id book_id status s)"

definition add_external_to_library ::
    "uuid \<Rightarrow> datetime \<Rightarrow> uuid \<Rightarrow> string \<Rightarrow> user_book_status \<Rightarrow> sess \<Rightarrow> user_book outcome" where
  "add_external_to_library new_id now user_id external_isbn13 status s =
     bindE (book_by_isbn external_isbn13 s) (\<lambda>b. case b of
        None \<Rightarrow> Inl (DomainError NotFoundError ''BOOK_NOT_FOUND'')
      | Some book \<Rightarrow> create_user_book new_id now user_id (bk_id book) status s)"

text \<open>\<open>fid\<close> and \<open>fnow\<close> are the identifier and time of a feed event the request may record.\<close>

definition update_status ::
    "bool \<Rightarrow> uuid \<Rightarrow> datetime \<Rightarrow> uuid \<Rightarrow> uuid \<Rightarrow> user_book_status \<Rightarrow> sess \<Rightarrow> user_book outcome" where
  "update_status feed fid fnow user_id user_book_id status s =
     (case user_book_by_id user_book_id s of
        None \<Rightarrow> Inl (DomainError NotFoundError ''USER_BOOK_NOT_FOUND'')
      | Some ub \<Rightarrow>
          if ub_user_id ub \<noteq> user_id then Inl (DomainError NotFoundError ''USER_BOOK_NOT_FOUND'')
          else bindE (repo_update_status user_book_id status s) (\<lambda>(updated, s1).
            if status = COMPLETED
            then bindE (record_book_completed feed fid fnow user_id (ub_book_id ub)
                     (stage_event (UserBookCompleted user_id user_book_id (ub_book_id ub)) s1))
                   (\<lambda>(_, s2). Inr (updated, s2))
            else Inr (updated, s1)))"

text \<open>
  \<open>update_chapter\<close> commits inside the repository call: what follows the commit can still
  raise, but no longer undo the chapter. The second component is the state left behind.
\<close>

definition update_chapter ::
    "bool \<Rightarrow> uuid \<Rightarrow> datetime \<Rightarrow> uuid \<Rightarrow> uuid \<Rightarrow> int \<Rightarrow> sess \<Rightarrow> user_book result \<times> sess" where
  "update_chapter feed fid fnow user_id user_book_id current_chapter s =
     (case user_book_by_id user_book_id s of
        None \<Rightarrow> (Inl (DomainError NotFoundError ''USER_BOOK_NOT_FOUND''), s)
      | Some ub \<Rightarrow>
          if ub_user_id ub \<noteq> user_id then (Inl (DomainError NotFoundError ''USER_BOOK_NOT_FOUND''), s)
          else (case repo_update_chapter user_book_id current_chapter s of
                  Inl e \<Rightarrow> (Inl e, s)
                | Inr (result, s1) \<Rightarrow>
                    (case record_chapter_milestone feed fid fnow user_id (ub_book_id ub) current_chapter s1 of
                       Inl e \<Rightarrow> (Inl e, s1)
                     | Inr (_, s2) \<Rightarrow> (Inr result, s2))))"

definition remove_from_library :: "uuid \<Rightarrow> uuid \<Rightarrow> sess \<Rightarrow> unit outcome" where
  "remove_from_library user_id user_book_id s =
     (case user_book_by_id user_book_id s of
        None \<Rightarrow> Inl (DomainError NotFoundError ''USER_BOOK_NOT_FOUND'')
      | Some ub \<Rightarrow>
          if ub_user_id ub \<noteq> user_id then Inl (DomainError NotFoundError ''USER_BOOK_NOT_FOUND'')
          else repo_delete_user_book user_book_id s)"

definition MAX_LIBRARY_PAGE :: int where "MAX_LIBRARY_PAGE = 50"

definition MIN_LIBRARY_PAGE :: int where "MIN_LIBRARY_PAGE = 1"

definition list_library ::
    "uuid \<Rightarrow> user_book_status option \<Rightarrow> datetime option \<Rightarrow> int \<Rightarrow> sess \<Rightarrow> user_book list \<times> datetime option" where
  "list_library user_id status cursor limit s =
     (let clamped = max MIN_LIBRARY_PAGE (min limit MAX_LIBRARY_PAGE);
          rows = list_for_user user_id status cursor (nat clamped) s
      in (rows, if int (length rows) = clamped then ub_started_at (last rows) else None))"

definition count_library :: "uuid \<Rightarrow> user_book_status option \<Rightarrow> sess \<Rightarrow> nat" where
  "count_library user_id status s = count_for_user user_id status s"

end
