(* ===== verification/ReadingService.thy ===== *)
theory ReadingService
  imports ReadingRepo BookLibrary
begin

text \<open>
  The use cases of \<open>ReadingService\<close> (\<open>backend/app/domains/reading/service.py\<close>) that write:
  the session timer, the manual log, goals and bookmarks, with the grade snapshot and the staged
  events of a completed session. \<open>config\<close> says which optional ports are wired. A handler takes
  one clock reading and the identifiers the database would generate.
\<close>

record config =
  feed_service :: bool
  taste_profile_service :: bool
  subscription_query :: bool

record grade_summary =
  gs_grade :: int
  gs_tier :: int
  gs_total_books :: int
  gs_total_seconds :: int
  gs_streak_days :: int
  gs_longest_streak :: int
  gs_streak_shields :: int
  gs_next :: "(int \<times> int) option"

record completion =
  cp_session :: reading_session
  cp_grade :: grade_summary
  cp_grade_up :: bool

definition start_session ::
    "uuid \<Rightarrow> datetime \<Rightarrow> uuid \<Rightarrow> uuid \<Rightarrow> pystr option \<Rightarrow> sess \<Rightarrow> reading_session outcome" where
  "start_session new_id now user_id user_book_id device s =
     (if \<not> user_book_belongs_to_user user_id user_book_id s
      then Inl (DomainError NotFoundError ''USER_BOOK_NOT_FOUND'')
      else bindE (get_active_session user_id s) (\<lambda>existing.
        if existing \<noteq> None then Inl (DomainError ConflictError ''ACTIVE_SESSION_EXISTS'')
        else create_started new_id now user_id user_book_id now device s))"

definition grade_summary_of :: "user_grade \<Rightarrow> grade_summary" where
  "grade_summary_of row =
     \<lparr>gs_grade = ug_grade row, gs_tier = ug_tier row, gs_total_books = ug_total_books row,
      gs_total_seconds = ug_total_seconds row, gs_streak_days = ug_streak_days row,
      gs_longest_streak = ug_longest_streak row, gs_streak_shields = ug_streak_shields row,
      gs_next = next_threshold (ug_grade row)\<rparr>"

definition get_grade :: "uuid \<Rightarrow> sess \<Rightarrow> grade_summary outcome" where
  "get_grade user_id s = bindE (get_or_init user_id s) (\<lambda>(row, s'). Inr (grade_summary_of row, s'))"

definition apply_session_completion :: "uuid \<Rightarrow> int \<Rightarrow> date \<Rightarrow> sess \<Rightarrow> grade_summary outcome" where
  "apply_session_completion user_id duration_sec session_date s =
     bindE (daily_upsert user_id session_date duration_sec 1 s) (\<lambda>(_, s1).
     bindE (get_or_init user_id s1) (\<lambda>(current, s2).
     bindE (count_completed_books user_id None None s2) (\<lambda>total_books.
     let total_secs = ug_total_seconds current + duration_sec;
         (grade, tier) = calculate_grade_tier total_books total_secs
     in bindE (apply_streak_with_shield (ug_streak_last_date current) (ug_streak_days current)
                 (ug_longest_streak current) (ug_streak_shields current) session_date)
          (\<lambda>(streak_days, longest_streak, last_date, new_shields).
        bindE (update_snapshot user_id (Some total_books) (Some duration_sec) (Some grade) (Some tier)
                 (Some streak_days) (Some longest_streak) (Some last_date) (Some new_shields) s2)
          (\<lambda>(_, s3).
        Inr (\<lparr>gs_grade = grade, gs_tier = tier, gs_total_books = total_books,
              gs_total_seconds = total_secs, gs_streak_days = streak_days,
              gs_longest_streak = longest_streak, gs_streak_shields = new_shields,
              gs_next = next_threshold grade\<rparr>, s3))))))"

definition MIN_TIMER_DURATION_SEC :: int where "MIN_TIMER_DURATION_SEC = 1"

definition MANUAL_MIN_SEC :: int where "MANUAL_MIN_SEC = 60"

definition MANUAL_MAX_SEC :: int where "MANUAL_MAX_SEC = 4 * 60 * 60"

text \<open>
  The client's \<open>ended_at\<close> is an instant with a UTC offset; \<open>ended_at.date()\<close> is the date on
  the client's clock.
\<close>

definition local_date :: "datetime \<Rightarrow> int \<Rightarrow> date" where
  "local_date t utc_offset = utc_date (t + utc_offset)"

definition end_session ::
    "config \<Rightarrow> uuid \<Rightarrow> datetime \<Rightarrow> uuid \<Rightarrow> uuid \<Rightarrow> datetime \<Rightarrow> int \<Rightarrow> int \<Rightarrow> sess \<Rightarrow> completion outcome" where
  "end_session cfg fid fnow user_id session_id ended_at utc_offset paused_ms s =
     (case session_by_id session_id s of
        None \<Rightarrow> Inl (DomainError NotFoundError ''SESSION_NOT_FOUND'')
      | Some session \<Rightarrow>
        if rs_user_id session \<noteq> user_id then Inl (DomainError NotFoundError ''SESSION_NOT_FOUND'')
        else if rs_ended_at session \<noteq> None then Inl (DomainError ConflictError ''SESSION_ALREADY_ENDED'')
        else let duration_sec = reconcile_duration (rs_started_at session) ended_at paused_ms;
                 session_date = local_date ended_at utc_offset
        in if duration_sec < MIN_TIMER_DURATION_SEC
           then Inl (DomainError ConflictError ''SESSION_TOO_SHORT'')
           else
             bindE (repo_end_session session_id ended_at duration_sec s) (\<lambda>(updated, s1).
             bindE (get_or_init user_id s1) (\<lambda>(before, s2).
             bindE (apply_session_completion user_id duration_sec session_date s2) (\<lambda>(after, s3).
             let s4 = stage_event (ReadingSessionCompleted user_id (rs_user_book_id updated) (rs_id updated)
                        session_date duration_sec TIMER) s3;
                 s5 = (if (gs_grade after, gs_tier after) \<noteq> (ug_grade before, ug_tier before)
                       then stage_event (UserGradeRecomputed user_id (ug_grade before) (ug_tier before)
                              (gs_grade after) (gs_tier after) (gs_streak_days after)) s4
                       else s4)
             in bindE (record_streak_milestone (feed_service cfg) fid fnow user_id (gs_streak_days after) s5)
                  (\<lambda>(_, s6).
                let s7 = (if taste_profile_service cfg then schedule (TasteRecompute user_id) s6 else s6)
                in Inr (\<lparr>cp_session = updated, cp_grade = after,
                         cp_grade_up = (ug_grade before < gs_grade after)\<rparr>, s7))))))"

definition log_manual_session ::
    "uuid \<Rightarrow> datetime \<Rightarrow> uuid \<Rightarrow> uuid \<Rightarrow> datetime \<Rightarrow> datetime \<Rightarrow> pystr option \<Rightarrow> sess \<Rightarrow> reading_session outcome" where
  "log_manual_session new_id now user_id user_book_id started_at ended_at note s =
     (if \<not> user_book_belongs_to_user user_id user_book_id s
      then Inl (DomainError NotFoundError ''USER_BOOK_NOT_FOUND'')
      else if ended_at \<le> started_at
      then Inl (DomainError ConflictError ''MANUAL_SESSION_OUT_OF_RANGE'')
      else let duration_sec = py_trunc (total_seconds (ended_at - started_at))
           in if \<not> (MANUAL_MIN_SEC \<le> duration_sec \<and> duration_sec \<le> MANUAL_MAX_SEC)
              then Inl (DomainError ConflictError ''MANUAL_SESSION_OUT_OF_RANGE'')
              else create_manual new_id now user_id user_book_id started_at ended_at duration_sec note s)"

definition create_goal ::
    "uuid \<Rightarrow> datetime \<Rightarrow> uuid \<Rightarrow> goal_period \<Rightarrow> int \<Rightarrow> int \<Rightarrow> date option \<Rightarrow> sess \<Rightarrow> goal outcome" where
  "create_goal new_id now user_id period target_books target_seconds on_date s =
     (let anchor = (case on_date of None \<Rightarrow> utc_date now | Some d \<Rightarrow> d)
      in bindE (compute_window period anchor) (\<lambda>(start_date, end_date).
           repo_create_goal new_id now user_id period target_books target_seconds start_date end_date s))"

definition add_bookmark ::
    "uuid \<Rightarrow> datetime \<Rightarrow> uuid \<Rightarrow> uuid \<Rightarrow> int \<Rightarrow> pystr option \<Rightarrow> sess \<Rightarrow> bookmark outcome" where
  "add_bookmark new_id now user_id user_book_id page note s =
     (if \<not> user_book_belongs_to_user user_id user_book_id s
      then Inl (DomainError NotFoundError ''USER_BOOK_NOT_FOUND'')
      else repo_create_bookmark new_id now user_id user_book_id page note s)"

definition get_latest_bookmark :: "uuid \<Rightarrow> uuid \<Rightarrow> sess \<Rightarrow> bookmark option result" where
  "get_latest_bookmark user_id user_book_id s =
     (if \<not> user_book_belongs_to_user user_id user_book_id s
      then Inl (DomainError NotFoundError ''USER_BOOK_NOT_FOUND'')
      else Inr (latest_bookmark user_book_id s))"

end
