(* ===== verification/ReadingQueries.thy ===== *)
theory ReadingQueries
  imports ReadingService
begin

text \<open>
  The read side of the reading domain: heatmap, year statistics, current goals, the sessions of
  a day, recaps, monthly statistics and milestones (\<open>ReadingService\<close>, \<open>ReadingStatsRepository\<close>
  and \<open>BookQueryAdapter\<close>). A SQL query is the list function it denotes; where \<open>ORDER BY\<close> leaves
  ties open, rows keep their insertion order. Averages that PostgreSQL computes in \<open>numeric\<close> are
  not modelled.
\<close>

section \<open>Heatmap, year, goals\<close>

definition MAX_HEATMAP_DAYS :: int where "MAX_HEATMAP_DAYS = 366"

definition get_heatmap :: "uuid \<Rightarrow> date \<Rightarrow> date \<Rightarrow> sess \<Rightarrow> (date \<times> int \<times> int) list result" where
  "get_heatmap user_id from_date to_date s =
     (if to_date < from_date then Inl (DomainError ConflictError ''HEATMAP_RANGE_INVALID'')
      else bindE (if MAX_HEATMAP_DAYS < to_date - from_date then add_days to_date (- MAX_HEATMAP_DAYS)
                  else Inr from_date)
             (\<lambda>from_date'. Inr (map (\<lambda>r. (ds_date r, ds_total_seconds r, ds_session_count r))
                             (daily_range user_id from_date' to_date s))))"

text \<open>\<open>max(rows, key=...)\<close>: the first row with the largest key.\<close>

fun first_max :: "('r \<Rightarrow> int) \<Rightarrow> 'r list \<Rightarrow> 'r option" where
  "first_max f [] = None"
| "first_max f (r # rs) =
     (case first_max f rs of None \<Rightarrow> Some r | Some m \<Rightarrow> if f r < f m then Some m else Some r)"

record year_stats =
  ys_year :: int
  ys_year_books :: int
  ys_year_seconds :: int
  ys_best_date :: "date option"
  ys_best_seconds :: "int option"
  ys_grade :: grade_summary

definition get_year_stats :: "uuid \<Rightarrow> int \<Rightarrow> sess \<Rightarrow> year_stats outcome" where
  "get_year_stats user_id year s =
     bindE (mk_date year 1 1) (\<lambda>year_start.
     bindE (mk_date year 12 31) (\<lambda>year_end.
     bindE (count_completed_books user_id (Some year_start) (Some year_end) s) (\<lambda>year_books.
     let daily_rows = daily_range user_id year_start year_end s;
         best = first_max ds_total_seconds daily_rows
     in bindE (get_grade user_id s) (\<lambda>(g, s').
        Inr (\<lparr>ys_year = year, ys_year_books = year_books,
              ys_year_seconds = sum_list (map ds_total_seconds daily_rows),
              ys_best_date = map_option ds_date best,
              ys_best_seconds = map_option ds_total_seconds best, ys_grade = g\<rparr>, s')))))"

record goal_progress =
  gp_goal :: goal
  gp_books_done :: int
  gp_seconds_done :: int
  gp_percent :: rat

definition progress_of :: "uuid \<Rightarrow> date \<Rightarrow> sess \<Rightarrow> goal \<Rightarrow> goal_progress result" where
  "progress_of user_id on_date s g =
     bindE (count_completed_books user_id (Some (go_start_date g)) (Some (go_end_date g)) s) (\<lambda>books_done.
     let stats = daily_range user_id (go_start_date g) (min (go_end_date g) on_date) s;
         seconds_done = sum_list (map ds_total_seconds stats)
     in Inr \<lparr>gp_goal = g, gp_books_done = books_done, gp_seconds_done = seconds_done,
             gp_percent = progress_percent books_done seconds_done (go_target_books g) (go_target_seconds g)\<rparr>)"

fun mapE :: "('a \<Rightarrow> 'e + 'b) \<Rightarrow> 'a list \<Rightarrow> 'e + 'b list" where
  "mapE f [] = Inr []"
| "mapE f (x # xs) = bindE (f x) (\<lambda>y. bindE (mapE f xs) (\<lambda>ys. Inr (y # ys)))"

definition get_current_goals :: "uuid \<Rightarrow> date \<Rightarrow> sess \<Rightarrow> goal_progress list result" where
  "get_current_goals user_id on_date s = mapE (progress_of user_id on_date s) (goal_list_active user_id on_date s)"

section \<open>The sessions of a day\<close>

record daily_session =
  dy_session_id :: uuid
  dy_started_at :: datetime
  dy_ended_at :: datetime
  dy_duration_sec :: "int option"
  dy_source :: session_source
  dy_book_id :: uuid
  dy_book_title :: pystr
  dy_book_author :: pystr
  dy_book_cover_url :: "pystr option"

text \<open>The inner joins: the library entry and the book of a session.\<close>

definition joined_book :: "uuid \<Rightarrow> sess \<Rightarrow> book option" where
  "joined_book user_book_id s =
     (case fetch ub_id user_book_id (t_user_books s) of None \<Rightarrow> None
      | Some ub \<Rightarrow> fetch bk_id (ub_book_id ub) (t_books s))"

definition get_daily_sessions :: "uuid \<Rightarrow> date \<Rightarrow> sess \<Rightarrow> daily_session list" where
  "get_daily_sessions user_id target_date s =
     List.map_filter (\<lambda>r. case (rs_ended_at r, joined_book (rs_user_book_id r) s) of
         (Some e, Some b) \<Rightarrow> Some \<lparr>dy_session_id = rs_id r, dy_started_at = rs_started_at r, dy_ended_at = e,
             dy_duration_sec = rs_duration_sec r, dy_source = rs_source r, dy_book_id = bk_id b,
             dy_book_title = bk_title b, dy_book_author = bk_author b, dy_book_cover_url = bk_cover_url b\<rparr>
       | _ \<Rightarrow> None)
       (order_asc rs_started_at (filter (\<lambda>r. rs_user_id r = user_id \<and>
          (case rs_ended_at r of None \<Rightarrow> False | Some e \<Rightarrow> utc_date e = target_date)) (t_reading_sessions s)))"

section \<open>The longest streak, recomputed\<close>

fun streak_loop :: "int \<Rightarrow> int \<Rightarrow> date list \<Rightarrow> int" where
  "streak_loop longest run_len (prev # cur # ds) =
     (if cur = prev + 1 then streak_loop (max longest (run_len + 1)) (run_len + 1) (cur # ds)
      else streak_loop longest 1 (cur # ds))"
| "streak_loop longest run_len _ = longest"

definition longest_run :: "date list \<Rightarrow> int" where
  "longest_run days = (if days = [] then 0 else streak_loop 1 1 days)"

definition get_longest_streak :: "uuid \<Rightarrow> sess \<Rightarrow> int" where
  "get_longest_streak user_id s =
     longest_run (sort (remdups (List.map_filter
       (\<lambda>r. if rs_user_id r = user_id then map_option utc_date (rs_ended_at r) else None)
       (t_reading_sessions s))))"

section \<open>Recaps\<close>

record recap_row =
  rr_title :: pystr
  rr_cover_url :: "pystr option"
  rr_author :: pystr
  rr_stat_int :: "int option"
  rr_stat_date :: "date option"

text \<open>\<open>str(x) if x else None\<close>: an empty string counts as missing.\<close>

definition truthy :: "pystr option \<Rightarrow> pystr option" where
  "truthy x = (case x of None \<Rightarrow> None | Some t \<Rightarrow> if t = [] then None else Some t)"

text \<open>The user's finished library entries of a window, with their books.\<close>

definition finished_in :: "uuid \<Rightarrow> date \<Rightarrow> date \<Rightarrow> user_book \<Rightarrow> bool" where
  "finished_in user_id from_date to_date ub \<longleftrightarrow> ub_user_id ub = user_id \<and> ub_status ub = COMPLETED \<and>
     (case ub_finished_at ub of None \<Rightarrow> False | Some t \<Rightarrow> from_date \<le> utc_date t \<and> utc_date t \<le> to_date)"

definition finished_books :: "uuid \<Rightarrow> date \<Rightarrow> date \<Rightarrow> sess \<Rightarrow> (user_book \<times> book) list" where
  "finished_books user_id from_date to_date s =
     List.map_filter (\<lambda>ub. map_option (Pair ub) (fetch bk_id (ub_book_id ub) (t_books s)))
       (filter (finished_in user_id from_date to_date) (t_user_books s))"

text \<open>\<open>GROUP BY key\<close> with an aggregate over the values of each group; only non-empty groups appear.\<close>

definition group_agg :: "(int list \<Rightarrow> int) \<Rightarrow> ('k \<times> int) list \<Rightarrow> ('k \<times> int) list" where
  "group_agg agg kvs = map (\<lambda>k. (k, agg (map snd (filter (\<lambda>kv. fst kv = k) kvs)))) (remdups (map fst kvs))"

definition book_key :: "user_book \<times> book \<Rightarrow> pystr \<times> pystr option \<times> pystr \<times> datetime" where
  "book_key p = (bk_title (snd p), bk_cover_url (snd p), bk_author (snd p), the (ub_finished_at (fst p)))"

text \<open>\<open>ORDER BY value DESC, finished_at DESC LIMIT 1\<close> over the groups.\<close>

definition best_group :: "((pystr \<times> pystr option \<times> pystr \<times> datetime) \<times> int) list \<Rightarrow> recap_row option" where
  "best_group gs =
     (case order_desc snd (order_desc (\<lambda>((_, _, _, t), _). t) gs) of
        [] \<Rightarrow> None
      | ((title, cover, author, _), v) # _ \<Rightarrow>
          Some \<lparr>rr_title = title, rr_cover_url = truthy cover, rr_author = author,
                rr_stat_int = Some v, rr_stat_date = None\<rparr>)"

definition timer_secs :: "uuid \<Rightarrow> sess \<Rightarrow> int list" where
  "timer_secs user_book_id s = List.map_filter (\<lambda>r.
     if rs_user_book_id r = user_book_id \<and> rs_ended_at r \<noteq> None \<and> rs_source r = TIMER
     then rs_duration_sec r else None) (t_reading_sessions s)"

definition recap_most_time :: "uuid \<Rightarrow> date \<Rightarrow> date \<Rightarrow> sess \<Rightarrow> recap_row option" where
  "recap_most_time user_id from_date to_date s =
     best_group (group_agg sum_list
       [(book_key p, d). p \<leftarrow> finished_books user_id from_date to_date s, d \<leftarrow> timer_secs (ub_id (fst p)) s])"

definition recap_first_completed :: "uuid \<Rightarrow> date \<Rightarrow> date \<Rightarrow> sess \<Rightarrow> recap_row option" where
  "recap_first_completed user_id from_date to_date s =
     (case order_asc (\<lambda>p. the (ub_finished_at (fst p))) (finished_books user_id from_date to_date s) of
        [] \<Rightarrow> None
      | (ub, b) # _ \<Rightarrow>
          Some \<lparr>rr_title = bk_title b, rr_cover_url = truthy (bk_cover_url b), rr_author = bk_author b,
                rr_stat_int = None, rr_stat_date = map_option utc_date (ub_finished_at ub)\<rparr>)"

definition recap_thickest :: "uuid \<Rightarrow> date \<Rightarrow> date \<Rightarrow> sess \<Rightarrow> recap_row option" where
  "recap_thickest user_id from_date to_date s =
     best_group (group_agg (\<lambda>xs. foldr max xs (hd xs))
       [(book_key p, bm_page b). p \<leftarrow> finished_books user_id from_date to_date s,
          b \<leftarrow> t_bookmarks s, bm_user_book_id b = ub_id (fst p)])"

definition recap_most_highlighted :: "uuid \<Rightarrow> date \<Rightarrow> date \<Rightarrow> sess \<Rightarrow> recap_row option" where
  "recap_most_highlighted user_id from_date to_date s =
     best_group (group_agg (\<lambda>xs. int (length xs))
       [(book_key p, 1). p \<leftarrow> finished_books user_id from_date to_date s,
          h \<leftarrow> t_post_highlights s, ph_user_book_id h = ub_id (fst p)])"

text \<open>
  The aggregate of a recap: completed entries of the window, and the seconds of every finished
  session (of either source) of the user's library that ended in the window.
\<close>

definition recap_aggregate_stats :: "uuid \<Rightarrow> date \<Rightarrow> date \<Rightarrow> sess \<Rightarrow> int \<times> int" where
  "recap_aggregate_stats user_id from_date to_date s =
     (int (length (filter (finished_in user_id from_date to_date) (t_user_books s))),
      sum_list [d. ub \<leftarrow> t_user_books s, ub_user_id ub = user_id,
                   r \<leftarrow> t_reading_sessions s, rs_user_book_id r = ub_id ub,
                   d \<leftarrow> (case (rs_ended_at r, rs_duration_sec r) of
                          (Some e, Some d) \<Rightarrow> if from_date \<le> utc_date e \<and> utc_date e \<le> to_date then [d] else []
                        | _ \<Rightarrow> [])])"

definition recap_top_books :: "uuid \<Rightarrow> date \<Rightarrow> date \<Rightarrow> nat \<Rightarrow> sess \<Rightarrow> recap_row list" where
  "recap_top_books user_id from_date to_date limit s =
     map (\<lambda>((title, cover, author), v). \<lparr>rr_title = title, rr_cover_url = truthy cover, rr_author = author,
            rr_stat_int = Some v, rr_stat_date = None\<rparr>)
       (take limit (order_desc snd (group_agg sum_list
          [((bk_title (snd p), bk_cover_url (snd p), bk_author (snd p)), d).
             p \<leftarrow> finished_books user_id from_date to_date s, d \<leftarrow> timer_secs (ub_id (fst p)) s])))"

text \<open>The text of a card; the Korean words are given as code points.\<close>

definition format_recap_stat :: "string \<Rightarrow> recap_row \<Rightarrow> pystr" where
  "format_recap_stat card_type row =
     (let n = (case rr_stat_int row of None \<Rightarrow> 0 | Some k \<Rightarrow> k)
      in if card_type = ''most_time''
         then [0xCD1D, 0x20] @ ascii (py_str (n div 3600)) @ [0xC2DC, 0xAC04]
         else if card_type = ''first_completed''
         then (case rr_stat_date row of
                 Some d \<Rightarrow> ascii (py_str (month_of d)) @ [0xC6D4, 0x20] @ ascii (py_str (day_of d)) @ [0xC77C]
               | None \<Rightarrow> [0x2014])
         else if card_type = ''thickest''
         then ascii (py_str n) @ [0xD398, 0xC774, 0xC9C0]
         else if card_type = ''most_highlighted''
         then [0xD558, 0xC774, 0xB77C, 0xC774, 0xD2B8, 0x20] @ ascii (py_str n) @ [0xAC1C]
         else [0x2014])"

record recap_card =
  ca_card_type :: string
  ca_title :: pystr
  ca_cover_url :: "pystr option"
  ca_author :: pystr
  ca_stat_value :: pystr

record recap_top_book =
  rb_title :: pystr
  rb_cover_url :: "pystr option"
  rb_author :: pystr
  rb_read_seconds :: int

record reading_recap =
  re_period :: string
  re_cards :: "recap_card list"
  re_total_books :: int
  re_total_seconds :: int
  re_longest_streak_days :: int
  re_top_books :: "recap_top_book list"

definition recap_card_of :: "string \<times> recap_row option \<Rightarrow> recap_card option" where
  "recap_card_of p = (case p of (card_type, row) \<Rightarrow> map_option (\<lambda>r. \<lparr>ca_card_type = card_type,
     ca_title = rr_title r, ca_cover_url = rr_cover_url r, ca_author = rr_author r,
     ca_stat_value = format_recap_stat card_type r\<rparr>) row)"

definition get_reading_recap :: "uuid \<Rightarrow> string \<Rightarrow> sess \<Rightarrow> reading_recap outcome" where
  "get_reading_recap user_id period s =
     bindE (parse_recap_period period) (\<lambda>(from_date, to_date).
     let rows = [(''most_time'', recap_most_time user_id from_date to_date s),
                 (''first_completed'', recap_first_completed user_id from_date to_date s),
                 (''thickest'', recap_thickest user_id from_date to_date s),
                 (''most_highlighted'', recap_most_highlighted user_id from_date to_date s)];
         cards = List.map_filter recap_card_of rows;
         (total_books, total_secs) = recap_aggregate_stats user_id from_date to_date s;
         top_books = map (\<lambda>r. \<lparr>rb_title = rr_title r, rb_cover_url = rr_cover_url r, rb_author = rr_author r,
             rb_read_seconds = (case rr_stat_int r of None \<Rightarrow> 0 | Some k \<Rightarrow> k)\<rparr>)
             (recap_top_books user_id from_date to_date 3 s)
     in bindE (get_or_init user_id s) (\<lambda>(grade, s').
          Inr (\<lparr>re_period = period, re_cards = cards, re_total_books = total_books,
                re_total_seconds = total_secs, re_longest_streak_days = ug_longest_streak grade,
                re_top_books = top_books\<rparr>, s')))"

section \<open>A calendar month\<close>

definition MISC_GENRE :: pystr where
  "MISC_GENRE = [0xAE30, 0xD0C0]"

definition genre_of :: "user_book \<times> book \<Rightarrow> pystr" where
  "genre_of p = (case bk_publisher (snd p) of None \<Rightarrow> MISC_GENRE | Some g \<Rightarrow> g)"

definition genre_counts :: "(user_book \<times> book) list \<Rightarrow> (pystr \<times> int) list" where
  "genre_counts ps = order_desc snd (group_agg (\<lambda>xs. int (length xs)) (map (\<lambda>p. (genre_of p, 1)) ps))"

record monthly_stats =
  mo_books_completed :: int
  mo_total_seconds :: int
  mo_days_read :: int
  mo_longest_streak :: int
  mo_top_genre :: "pystr option"
  mo_prev_month_seconds :: int

definition seconds_between :: "uuid \<Rightarrow> date \<Rightarrow> date \<Rightarrow> sess \<Rightarrow> int" where
  "seconds_between user_id a b s = sum_list (map ds_total_seconds (daily_range user_id a b s))"

definition get_monthly_stats :: "uuid \<Rightarrow> int \<Rightarrow> int \<Rightarrow> sess \<Rightarrow> monthly_stats result" where
  "get_monthly_stats user_id year month s =
     bindE (mk_date year month 1) (\<lambda>month_start.
     bindE (mk_date year month (days_in_month year month)) (\<lambda>month_end.
     let books_completed = int (length (filter (finished_in user_id month_start month_end) (t_user_books s)));
         longest_streak = (case fetch ug_user_id user_id (t_user_grades s) of
                             None \<Rightarrow> 0 | Some g \<Rightarrow> ug_longest_streak g);
         top_genre = (case genre_counts (finished_books user_id month_start month_end s) of
                        [] \<Rightarrow> None | (g, _) # _ \<Rightarrow> Some g);
         (prev_year, prev_month) = (if month = 1 then (year - 1, 12) else (year, month - 1))
     in bindE (mk_date prev_year prev_month 1) (\<lambda>prev_start.
        bindE (mk_date prev_year prev_month (days_in_month prev_year prev_month)) (\<lambda>prev_end.
          Inr \<lparr>mo_books_completed = books_completed,
               mo_total_seconds = seconds_between user_id month_start month_end s,
               mo_days_read = int (length (daily_range user_id month_start month_end s)),
               mo_longest_streak = longest_streak, mo_top_genre = top_genre,
               mo_prev_month_seconds = seconds_between user_id prev_start prev_end s\<rparr>))))"

record monthly_recap =
  mc_year :: int
  mc_month :: int
  mc_books_completed :: int
  mc_total_hours :: rat
  mc_avg_daily_minutes :: rat
  mc_longest_streak :: int
  mc_top_genre :: "pystr option"
  mc_prev_month_hours :: "rat option"

definition get_monthly_recap :: "uuid \<Rightarrow> int \<Rightarrow> int \<Rightarrow> sess \<Rightarrow> monthly_recap result" where
  "get_monthly_recap user_id year month s =
     bindE (get_monthly_stats user_id year month s) (\<lambda>st.
     let hours = (\<lambda>n. py_round (fl (fl (of_int n) / 3600)) 2);
         avg_daily_minutes = (if 0 < mo_days_read st
            then fl (fl (fl (of_int (mo_total_seconds st)) / 60) / of_int (mo_days_read st)) else 0)
     in Inr \<lparr>mc_year = year, mc_month = month, mc_books_completed = mo_books_completed st,
             mc_total_hours = hours (mo_total_seconds st),
             mc_avg_daily_minutes = py_round avg_daily_minutes 1,
             mc_longest_streak = mo_longest_streak st, mc_top_genre = truthy (mo_top_genre st),
             mc_prev_month_hours = (if 0 < mo_prev_month_seconds st
                then Some (hours (mo_prev_month_seconds st)) else None)\<rparr>)"

section \<open>Milestones\<close>

text \<open>The first day on which the running total reaches a number of seconds.\<close>

fun first_crossing :: "int \<Rightarrow> int \<Rightarrow> daily_stat list \<Rightarrow> date option" where
  "first_crossing goal_sec acc [] = None"
| "first_crossing goal_sec acc (r # rs) =
     (if goal_sec \<le> acc + ds_total_seconds r then Some (ds_date r)
      else first_crossing goal_sec (acc + ds_total_seconds r) rs)"

definition get_achieved_milestones :: "datetime \<Rightarrow> uuid \<Rightarrow> sess \<Rightarrow> (string \<times> datetime \<times> int) list" where
  "get_achieved_milestones now user_id s =
     (let finished = sort (List.map_filter (\<lambda>ub. if ub_user_id ub = user_id \<and> ub_status ub = COMPLETED
                        then ub_finished_at ub else None) (t_user_books s));
          days = order_asc ds_date (filter (\<lambda>r. ds_user_id r = user_id) (t_daily_stats s))
      in [(label, finished ! (n - 1), int n).
            (n, label) \<leftarrow> [(5, ''BOOKS_5''), (10, ''BOOKS_10''), (20, ''BOOKS_20''), (50, ''BOOKS_50'')],
            n \<le> length finished] @
         [(label, midnight d, h).
            (h, label) \<leftarrow> [(10, ''HOURS_10''), (50, ''HOURS_50''), (100, ''HOURS_100'')],
            d \<leftarrow> (case first_crossing (h * 3600) 0 days of None \<Rightarrow> [] | Some d \<Rightarrow> [d])] @
         (case fetch ug_user_id user_id (t_user_grades s) of
            None \<Rightarrow> []
          | Some g \<Rightarrow> [(label, now, n). (n, label) \<leftarrow> [(7, ''STREAK_7''), (30, ''STREAK_30'')],
                         n \<le> ug_longest_streak g]))"

section \<open>Genres and the Pro statistics\<close>

definition completed_books :: "uuid \<Rightarrow> sess \<Rightarrow> (user_book \<times> book) list" where
  "completed_books user_id s =
     List.map_filter (\<lambda>ub. map_option (Pair ub) (fetch bk_id (ub_book_id ub) (t_books s)))
       (filter (\<lambda>ub. ub_user_id ub = user_id \<and> ub_status ub = COMPLETED) (t_user_books s))"

definition format_breakdown :: "uuid \<Rightarrow> sess \<Rightarrow> int \<times> int \<times> int" where
  "format_breakdown user_id s =
     (int (length (filter (\<lambda>ub. ub_user_id ub = user_id \<and> ub_status ub = COMPLETED) (t_user_books s))), 0, 0)"

definition genre_breakdown :: "uuid \<Rightarrow> nat \<Rightarrow> sess \<Rightarrow> (pystr \<times> int) list" where
  "genre_breakdown user_id top_n s = take top_n (genre_counts (completed_books user_id s))"

definition get_genre_distribution :: "uuid \<Rightarrow> sess \<Rightarrow> (pystr \<times> int \<times> rat) list" where
  "get_genre_distribution user_id s =
     (let rows = genre_counts (completed_books user_id s); total_n = sum_list (map snd rows)
      in if total_n = 0 then [] else map (\<lambda>(g, c). (g, c, fl (true_div c total_n * 100))) rows)"

definition get_yearly_reading_count :: "uuid \<Rightarrow> int \<Rightarrow> sess \<Rightarrow> int" where
  "get_yearly_reading_count user_id year s =
     int (length (filter (\<lambda>ub. ub_user_id ub = user_id \<and> ub_status ub = COMPLETED \<and>
       (case ub_finished_at ub of None \<Rightarrow> False | Some t \<Rightarrow> year_of (utc_date t) = year)) (t_user_books s)))"

text \<open>The Pro flag, ignored once its period has lapsed.\<close>

definition is_pro :: "datetime \<Rightarrow> uuid \<Rightarrow> sess \<Rightarrow> bool result" where
  "is_pro now user_id s =
     (case fetch us_id user_id (t_users s) of
        None \<Rightarrow> Inl (DomainError NotFoundError ''USER_NOT_FOUND'')
      | Some u \<Rightarrow>
          (case us_pro_expires_at u of
             Some e \<Rightarrow> Inr (us_is_pro u \<and> \<not> e < now)
           | None \<Rightarrow> Inr (us_is_pro u)))"

record advanced_stats =
  av_speed_trend :: "(date \<times> rat) list"
  av_genre_distribution :: "(pystr \<times> int \<times> rat) list"
  av_yearly_comparison :: "(string \<times> int) list"
  av_longest_streak_days :: int

text \<open>\<open>speed_rows\<close> are the weekly averages that PostgreSQL returns for \<open>get_speed_trend\<close>.\<close>

definition get_advanced_stats ::
    "config \<Rightarrow> (date \<times> rat) list \<Rightarrow> datetime \<Rightarrow> uuid \<Rightarrow> sess \<Rightarrow> advanced_stats result" where
  "get_advanced_stats cfg speed_rows now user_id s =
     bindE (if subscription_query cfg then is_pro now user_id s else Inr False) (\<lambda>pro.
       if \<not> pro then Inl (DomainError PermissionDeniedError ''PRO_REQUIRED'')
       else let current_year = year_of (utc_date now); prev_year = current_year - 1
            in Inr \<lparr>av_speed_trend = map (\<lambda>(w, m). (w, py_round m 2)) speed_rows,
                    av_genre_distribution = map (\<lambda>(g, c, p). (g, c, py_round p 2)) (get_genre_distribution user_id s),
                    av_yearly_comparison = [(py_str current_year, get_yearly_reading_count user_id current_year s),
                                            (py_str prev_year, get_yearly_reading_count user_id prev_year s)],
                    av_longest_streak_days = get_longest_streak user_id s\<rparr>)"

section \<open>The incremental streak is the recomputed one\<close>

text \<open>The streak policy applied to one session date after another, from a new snapshot.\<close>

fun streak_over :: "date list \<Rightarrow> date option \<times> int \<times> int \<Rightarrow> (date option \<times> int \<times> int) result" where
  "streak_over [] st = Inr st"
| "streak_over (d # ds) (prev, n, longest) =
     bindE (update_streak prev n longest d) (\<lambda>(n', longest', prev'). streak_over ds (Some prev', n', longest'))"

lemma remdups_adj_head: "\<exists>xs. remdups_adj (d # ds) = d # xs"
  by (induction ds arbitrary: d) auto

lemma distinct_remdups_adj: "sorted (xs :: int list) \<Longrightarrow> distinct (remdups_adj xs)"
proof (induction xs rule: remdups_adj.induct)
  case (3 x y xs)
  show ?case
  proof (cases "x = y")
    case True
    then show ?thesis using 3 by simp
  next
    case False
    then have "\<forall>z\<in>set (y # xs). x < z" using 3(3) by auto
    then show ?thesis using 3 False by auto
  qed
qed simp_all

lemma streak_over_loop:
  assumes "sorted (p # ds)" "\<forall>d\<in>set ds. d \<le> max_ordinal" "1 \<le> p" "1 \<le> n" "n \<le> longest"
  shows "\<exists>n'. streak_over ds (Some p, n, longest) =
    Inr (Some (last (p # ds)), n', streak_loop longest n (remdups_adj (p # ds)))"
  using assms
proof (induction ds arbitrary: p n longest)
  case (Cons d ds)
  have pd: "p \<le> d" and srt: "sorted (d # ds)" and d: "d \<le> max_ordinal" using Cons.prems by auto
  show ?case
  proof (cases "d = p")
    case True
    then show ?thesis using Cons.IH [of p n longest] Cons.prems by (simp add: update_streak_def)
  next
    case False
    with pd have lt: "p < d" by simp
    then have next_day: "add_days p 1 = Inr (p + 1)" using d Cons.prems by (simp add: add_days_def)
    show ?thesis
    proof (cases "d = p + 1")
      case True
      have us: "update_streak (Some p) n longest d = Inr (n + 1, max longest (n + 1), d)"
        using True lt next_day by (simp add: update_streak_def Let_def)
      have adj: "remdups_adj (p # d # ds) = p # remdups_adj (d # ds)" using False by simp
      obtain xs where xs: "remdups_adj (d # ds) = d # xs" using remdups_adj_head [of d ds] by blast
      show ?thesis
        using Cons.IH [of d "n + 1" "max longest (n + 1)"] Cons.prems srt True us adj xs by simp
    next
      case gap: False
      have us: "update_streak (Some p) n longest d = Inr (1, longest, d)"
        using gap False lt next_day by (simp add: update_streak_def Let_def)
      have adj: "remdups_adj (p # d # ds) = p # remdups_adj (d # ds)" using False by simp
      obtain xs where xs: "remdups_adj (d # ds) = d # xs" using remdups_adj_head [of d ds] by blast
      show ?thesis
        using Cons.IH [of d 1 longest] Cons.prems srt lt us adj xs gap by simp
    qed
  qed
qed simp

text \<open>
  C39. Served in date order, the streak policy's longest streak is the one that
  \<open>get_longest_streak\<close> recomputes from the distinct days, however many sessions a day has.
\<close>

theorem streak_incremental:
  assumes "sorted days" "days \<noteq> []" "\<forall>d\<in>set days. 1 \<le> d \<and> d \<le> max_ordinal"
  shows "\<exists>n. streak_over days (None, 0, 0) = Inr (Some (last days), n, longest_run (sort (remdups days)))"
proof (cases days)
  case (Cons d ds)
  have uniq: "sort (remdups days) = remdups_adj days"
  proof (rule sorted_distinct_set_unique)
    show "sorted (remdups_adj days)" using assms(1) by (simp add: sorted_remdups_adj)
    show "distinct (remdups_adj days)" using assms(1) by (rule distinct_remdups_adj)
  qed simp_all
  have "update_streak None 0 0 d = Inr (1, 1, d)" by (simp add: update_streak_def)
  moreover have "remdups_adj days \<noteq> []" using Cons by simp
  ultimately show ?thesis
    using streak_over_loop [of d ds 1 1] assms Cons uniq by (simp add: longest_run_def)
qed (use assms in simp)

end
