(* ===== verification/ReadingLedger.thy ===== *)
theory ReadingLedger
  imports ReadingService
begin

text \<open>
  The abstract view of the reading tables, and what each repository operation does to it.

  \<^item> \<open>grade_of u s\<close> is the snapshot of a user; the row is created lazily, so a missing row is the
    initial snapshot and creating it is invisible.
  \<^item> \<open>day_seconds\<close>/\<open>day_sessions\<close> are the heatmap buckets of a user.
  \<^item> \<open>timer_total\<close> is the sum of the durations of a user's finished timer sessions.

  \<open>reading_ok\<close> is the invariant of these tables, and \<open>ledger\<close> the agreement of the three sums.
\<close>

section \<open>Primary keys\<close>

interpretation sessions_tbl: keyed_table rs_id "fetch rs_id" "\<lambda>r t. t @ [r]" "amend rs_id"
  "\<lambda>k. discard (\<lambda>r. rs_id r = k)" set "\<lambda>t. distinct (map rs_id t)"
  by (rule keyed_table_list)

interpretation grades_tbl: keyed_table ug_user_id "fetch ug_user_id" "\<lambda>r t. t @ [r]" "amend ug_user_id"
  "\<lambda>k. discard (\<lambda>r. ug_user_id r = k)" set "\<lambda>t. distinct (map ug_user_id t)"
  by (rule keyed_table_list)

interpretation days_tbl: keyed_table ds_key "fetch ds_key" "\<lambda>r t. t @ [r]" "amend ds_key"
  "\<lambda>k. discard (\<lambda>r. ds_key r = k)" set "\<lambda>t. distinct (map ds_key t)"
  by (rule keyed_table_list)

section \<open>Abstractions\<close>

definition grade_of :: "uuid \<Rightarrow> sess \<Rightarrow> user_grade" where
  "grade_of u s = (case fetch ug_user_id u (t_user_grades s) of None \<Rightarrow> init_grade u | Some r \<Rightarrow> r)"

definition day_seconds :: "uuid \<Rightarrow> date \<Rightarrow> sess \<Rightarrow> int" where
  "day_seconds u d s = (case fetch ds_key (u, d) (t_daily_stats s) of None \<Rightarrow> 0 | Some r \<Rightarrow> ds_total_seconds r)"

definition day_sessions :: "uuid \<Rightarrow> date \<Rightarrow> sess \<Rightarrow> int" where
  "day_sessions u d s = (case fetch ds_key (u, d) (t_daily_stats s) of None \<Rightarrow> 0 | Some r \<Rightarrow> ds_session_count r)"

definition daily_total :: "uuid \<Rightarrow> sess \<Rightarrow> int" where
  "daily_total u s = tsum (\<lambda>r. if ds_user_id r = u then ds_total_seconds r else 0) (t_daily_stats s)"

definition daily_count :: "uuid \<Rightarrow> sess \<Rightarrow> int" where
  "daily_count u s = tsum (\<lambda>r. if ds_user_id r = u then ds_session_count r else 0) (t_daily_stats s)"

definition credited :: "uuid \<Rightarrow> reading_session \<Rightarrow> int" where
  "credited u r = (if rs_user_id r = u \<and> rs_source r = TIMER
     then (case rs_duration_sec r of None \<Rightarrow> 0 | Some d \<Rightarrow> d) else 0)"

definition timer_total :: "uuid \<Rightarrow> sess \<Rightarrow> int" where
  "timer_total u s = tsum (credited u) (t_reading_sessions s)"

definition timer_count :: "uuid \<Rightarrow> sess \<Rightarrow> int" where
  "timer_count u s = tsum (\<lambda>r. if rs_user_id r = u \<and> rs_source r = TIMER \<and> rs_ended_at r \<noteq> None then 1 else 0)
     (t_reading_sessions s)"

text \<open>The three ledgers of reading time agree, and so do the two counts of sessions.\<close>

definition ledger :: "sess \<Rightarrow> bool" where
  "ledger s \<longleftrightarrow> (\<forall>u. daily_total u s = timer_total u s \<and> ug_total_seconds (grade_of u s) = timer_total u s \<and>
     daily_count u s = timer_count u s)"

definition session_ok :: "reading_session \<Rightarrow> bool" where
  "session_ok r \<longleftrightarrow> (case rs_ended_at r of
       None \<Rightarrow> rs_duration_sec r = None \<and> rs_source r = TIMER
     | Some _ \<Rightarrow> (case rs_duration_sec r of None \<Rightarrow> False
         | Some d \<Rightarrow> if rs_source r = TIMER then 1 \<le> d else 60 \<le> d \<and> d \<le> 14400))"

text \<open>The snapshot carries the grade that its own totals earn, and a sane streak.\<close>

definition snapshot_ok :: "user_grade \<Rightarrow> bool" where
  "snapshot_ok g \<longleftrightarrow> 0 \<le> ug_total_books g \<and> 0 \<le> ug_total_seconds g \<and>
     (ug_grade g, ug_tier g) = calculate_grade_tier (ug_total_books g) (ug_total_seconds g) \<and>
     streak_ok (ug_streak_last_date g) (ug_streak_days g) (ug_longest_streak g) \<and>
     0 \<le> ug_streak_shields g \<and> ug_streak_shields g \<le> 3"

definition reading_ok :: "sess \<Rightarrow> bool" where
  "reading_ok s \<longleftrightarrow> distinct (map rs_id (t_reading_sessions s)) \<and>
     distinct (map rs_user_id (filter (\<lambda>r. rs_ended_at r = None) (t_reading_sessions s))) \<and>
     (\<forall>r\<in>set (t_reading_sessions s). session_ok r) \<and>
     distinct (map ds_key (t_daily_stats s)) \<and>
     (\<forall>r\<in>set (t_daily_stats s). 1 \<le> ds_total_seconds r \<and> 1 \<le> ds_session_count r) \<and>
     distinct (map ug_user_id (t_user_grades s)) \<and>
     (\<forall>g\<in>set (t_user_grades s). snapshot_ok g)"

section \<open>Grade snapshots\<close>

lemma init_grade_ok: "snapshot_ok (init_grade u)"
  by (simp add: snapshot_ok_def init_grade_def streak_ok_def calculate_grade_tier_def TIER_THRESHOLDS_def)

lemma grade_of_user: "ug_user_id (grade_of u s) = u"
  by (auto simp: grade_of_def init_grade_def dest: fetch_Some_key split: option.splits)

lemma grade_of_ok: "\<forall>g\<in>set (t_user_grades s). snapshot_ok g \<Longrightarrow> snapshot_ok (grade_of u s)"
  by (auto simp: grade_of_def init_grade_ok dest: fetch_Some_mem split: option.splits)

lemma get_or_init_Inr:
  assumes "get_or_init u s = Inr (row, s1)"
  shows "row = grade_of u s" "fetch ug_user_id u (t_user_grades s1) = Some row"
    "\<exists>new. s1 = s\<lparr>t_user_grades := t_user_grades s @ new\<rparr> \<and> set new \<subseteq> {init_grade u}"
    "grade_of v s1 = grade_of v s"
    "distinct (map ug_user_id (t_user_grades s)) \<Longrightarrow> distinct (map ug_user_id (t_user_grades s1))"
proof -
  consider (old) "fetch ug_user_id u (t_user_grades s) = Some row" "s1 = s"
    | (new) "fetch ug_user_id u (t_user_grades s) = None" "row = init_grade u"
        "s1 = s\<lparr>t_user_grades := t_user_grades s @ [init_grade u]\<rparr>"
    using assms by (auto simp: get_or_init_def insert_row_def split: option.splits if_splits)
  note cases = this
  have uid: "ug_user_id (init_grade u) = u" by (simp add: init_grade_def)
  show "row = grade_of u s" by (cases rule: cases) (simp_all add: grade_of_def)
  show "fetch ug_user_id u (t_user_grades s1) = Some row"
    by (cases rule: cases) (simp_all add: fetch_append uid)
  show "\<exists>new. s1 = s\<lparr>t_user_grades := t_user_grades s @ new\<rparr> \<and> set new \<subseteq> {init_grade u}"
  proof (cases rule: cases)
    case old
    then show ?thesis by (intro exI [of _ "[]"]) simp
  next
    case new
    then show ?thesis by (intro exI [of _ "[init_grade u]"]) simp
  qed
  show "grade_of v s1 = grade_of v s"
    by (cases rule: cases) (auto simp: grade_of_def fetch_append uid split: option.splits)
  show "distinct (map ug_user_id (t_user_grades s1))" if "distinct (map ug_user_id (t_user_grades s))"
    by (cases rule: cases) (use that uid in \<open>simp_all add: fetch_None_iff\<close>)
qed

lemma write_grade_Inr:
  assumes "write_grade u f s = Inr (row, s')" "\<And>r. ug_user_id (f r) = ug_user_id r"
  shows "row = f (grade_of u s)" "grade_check row"
    "\<exists>rows. s' = s\<lparr>t_user_grades := rows\<rparr> \<and> (distinct (map ug_user_id (t_user_grades s)) \<longrightarrow>
       distinct (map ug_user_id rows) \<and> set rows \<subseteq> insert (f (grade_of u s)) (set (t_user_grades s)))"
    "grade_of v s' = (if v = u then f (grade_of u s) else grade_of v s)"
proof -
  obtain s1 where s1: "get_or_init u s = Inr (grade_of u s, s1)"
    and s': "row = f (grade_of u s)" "grade_check row"
      "s' = s1\<lparr>t_user_grades := amend ug_user_id u f (t_user_grades s1)\<rparr>"
    using assms(1) by (auto simp: write_grade_def dest: get_or_init_Inr(1) split: if_splits)
  note g = get_or_init_Inr [OF s1]
  show "row = f (grade_of u s)" "grade_check row" by fact+
  have same: "f r = f (grade_of u s)" if "r \<in> set (t_user_grades s1)" "ug_user_id r = u"
    "distinct (map ug_user_id (t_user_grades s1))" for r
    using fetch_distinct [OF that(3,1)] that(2) g(2) by simp
  from g(3) obtain new where new: "s1 = s\<lparr>t_user_grades := t_user_grades s @ new\<rparr>" "set new \<subseteq> {init_grade u}" by blast
  show "grade_of v s' = (if v = u then f (grade_of u s) else grade_of v s)"
    using g(2) g(4) [of v] by (auto simp: s'(3) grade_of_def fetch_amend assms(2) split: option.splits)
  have sub: "set (amend ug_user_id u f (t_user_grades s1)) \<subseteq> insert (f (grade_of u s)) (set (t_user_grades s))"
    if d: "distinct (map ug_user_id (t_user_grades s))"
  proof -
    have "f r = f (grade_of u s)" if "r \<in> set (t_user_grades s1)" "ug_user_id r = u" for r
      using same [OF that] g(5) d by blast
    moreover have "r \<in> set (t_user_grades s)" if "r \<in> set (t_user_grades s1)" "ug_user_id r \<noteq> u" for r
      using that new by (auto simp: init_grade_def)
    ultimately show ?thesis by (auto simp: set_amend)
  qed
  show "\<exists>rows. s' = s\<lparr>t_user_grades := rows\<rparr> \<and> (distinct (map ug_user_id (t_user_grades s)) \<longrightarrow>
       distinct (map ug_user_id rows) \<and> set rows \<subseteq> insert (f (grade_of u s)) (set (t_user_grades s)))"
    using g(5) sub by (intro exI [of _ "amend ug_user_id u f (t_user_grades s1)"])
      (auto simp: s'(3) new(1) map_key_amend assms(2))
qed

section \<open>Heatmap buckets\<close>

lemma daily_upsert_Inr:
  assumes "daily_upsert u d secs n s = Inr (x, s')"
  shows "\<exists>rows. s' = s\<lparr>t_daily_stats := rows\<rparr>"
    "day_seconds v e s' = day_seconds v e s + (if (v, e) = (u, d) then secs else 0)"
    "day_sessions v e s' = day_sessions v e s + (if (v, e) = (u, d) then n else 0)"
  using assms
  by (auto simp: daily_upsert_def day_seconds_def day_sessions_def fetch_amend fetch_append ds_key_def
      split: option.splits if_splits)

lemma daily_upsert_ok:
  assumes "daily_upsert u d secs n s = Inr (x, s')" "distinct (map ds_key (t_daily_stats s))"
    "\<forall>r\<in>set (t_daily_stats s). 1 \<le> ds_total_seconds r \<and> 1 \<le> ds_session_count r" "1 \<le> secs" "1 \<le> n"
  shows "distinct (map ds_key (t_daily_stats s'))"
    "\<forall>r\<in>set (t_daily_stats s'). 1 \<le> ds_total_seconds r \<and> 1 \<le> ds_session_count r"
    "daily_total v s' = daily_total v s + (if v = u then secs else 0)"
    "daily_count v s' = daily_count v s + (if v = u then n else 0)"
proof -
  have k: "ds_key (r\<lparr>ds_total_seconds := a, ds_session_count := b\<rparr>) = ds_key r" for r a b
    by (simp add: ds_key_def)
  consider (new) "fetch ds_key (u, d) (t_daily_stats s) = None"
      "s' = s\<lparr>t_daily_stats := t_daily_stats s @
         [\<lparr>ds_user_id = u, ds_date = d, ds_total_seconds = secs, ds_session_count = n\<rparr>]\<rparr>"
    | (old) row where "fetch ds_key (u, d) (t_daily_stats s) = Some row"
      "s' = s\<lparr>t_daily_stats := amend ds_key (u, d) (\<lambda>r. r\<lparr>ds_total_seconds := ds_total_seconds r + secs,
                        ds_session_count := ds_session_count r + n\<rparr>) (t_daily_stats s)\<rparr>"
    using assms(1) by (auto simp: daily_upsert_def split: option.splits if_splits)
  note cases = this
  show "distinct (map ds_key (t_daily_stats s'))"
    by (cases rule: cases) (use assms(2) k in \<open>auto simp: map_key_amend fetch_None_iff ds_key_def\<close>)
  show "\<forall>r\<in>set (t_daily_stats s'). 1 \<le> ds_total_seconds r \<and> 1 \<le> ds_session_count r"
    by (cases rule: cases) (use assms(3-5) in \<open>force simp: set_amend\<close>)+
  show "daily_total v s' = daily_total v s + (if v = u then secs else 0)"
  proof (cases rule: cases)
    case new
    then show ?thesis by (simp add: daily_total_def)
  next
    case old
    have "ds_user_id row = u" using fetch_Some_key [OF old(1)] by (simp add: ds_key_def)
    then show ?thesis using tsum_amend [OF assms(2) old(1)] by (simp add: daily_total_def old(2))
  qed
  show "daily_count v s' = daily_count v s + (if v = u then n else 0)"
  proof (cases rule: cases)
    case new
    then show ?thesis by (simp add: daily_count_def)
  next
    case old
    have "ds_user_id row = u" using fetch_Some_key [OF old(1)] by (simp add: ds_key_def)
    then show ?thesis using tsum_amend [OF assms(2) old(1)] by (simp add: daily_count_def old(2))
  qed
qed

section \<open>A completed session\<close>

definition completed_count :: "uuid \<Rightarrow> sess \<Rightarrow> int" where
  "completed_count u s = int (length (filter (\<lambda>r. ub_user_id r = u \<and> ub_status r = COMPLETED) (t_user_books s)))"

lemma count_completed_all [simp]: "count_completed_books u None None s = Inr (completed_count u s)"
  by (simp add: count_completed_books_def completed_count_def)

text \<open>The snapshot after a session, in terms of the one before and of the streak policy's answer.\<close>

definition graded_after :: "user_grade \<Rightarrow> int \<Rightarrow> int \<Rightarrow> int \<times> int \<times> date \<times> int \<Rightarrow> user_grade" where
  "graded_after g tb secs st =
     (case st of (n, longest, ld, shields) \<Rightarrow>
       g\<lparr>ug_total_books := tb, ug_total_seconds := ug_total_seconds g + secs,
         ug_grade := fst (calculate_grade_tier tb (ug_total_seconds g + secs)),
         ug_tier := snd (calculate_grade_tier tb (ug_total_seconds g + secs)),
         ug_streak_days := n, ug_longest_streak := longest, ug_streak_last_date := Some ld,
         ug_streak_shields := shields\<rparr>)"

lemma graded_after_user [simp]: "ug_user_id (graded_after g tb secs st) = ug_user_id g"
  by (simp add: graded_after_def split: prod.splits)

lemma apply_completion_Inr:
  assumes "apply_session_completion u secs d s = Inr (sm, s')"
  obtains s1 st rows where
    "daily_upsert u d secs 1 s = Inr ((), s1)"
    "apply_streak_with_shield (ug_streak_last_date (grade_of u s)) (ug_streak_days (grade_of u s))
       (ug_longest_streak (grade_of u s)) (ug_streak_shields (grade_of u s)) d = Inr st"
    "s' = s1\<lparr>t_user_grades := rows\<rparr>"
    "distinct (map ug_user_id (t_user_grades s)) \<Longrightarrow> distinct (map ug_user_id rows) \<and>
       set rows \<subseteq> insert (init_grade u) (insert (graded_after (grade_of u s) (completed_count u s) secs st) (set (t_user_grades s)))"
    "\<And>v. grade_of v s' = (if v = u then graded_after (grade_of u s) (completed_count u s) secs st else grade_of v s)"
    "sm = grade_summary_of (graded_after (grade_of u s) (completed_count u s) secs st)"
proof -
  obtain s1 where s1: "daily_upsert u d secs 1 s = Inr ((), s1)"
    using assms by (auto simp: apply_session_completion_def)
  obtain cur s2 where s2: "get_or_init u s1 = Inr (cur, s2)"
    using assms s1 by (auto simp: apply_session_completion_def)
  obtain ds where ds: "s1 = s\<lparr>t_daily_stats := ds\<rparr>" using daily_upsert_Inr(1) [OF s1] by blast
  have g1: "grade_of v s1 = grade_of v s" for v by (simp add: ds grade_of_def)
  have c1: "completed_count v s1 = completed_count v s" for v by (simp add: ds completed_count_def)
  note g2 = get_or_init_Inr [OF s2]
  have cur: "cur = grade_of u s" using g2(1) g1 by simp
  obtain new where new: "s2 = s1\<lparr>t_user_grades := t_user_grades s1 @ new\<rparr>" "set new \<subseteq> {init_grade u}" using g2(3) by blast
  have c2: "completed_count v s2 = completed_count v s" for v using c1 by (simp add: new(1) completed_count_def)
  obtain n longest ld sh where st: "apply_streak_with_shield (ug_streak_last_date cur) (ug_streak_days cur)
       (ug_longest_streak cur) (ug_streak_shields cur) d = Inr (n, longest, ld, sh)"
    using assms s1 s2 by (auto simp: apply_session_completion_def Let_def split: prod.splits)
  let ?gt = "calculate_grade_tier (completed_count u s) (ug_total_seconds cur + secs)"
  let ?f = "\<lambda>r. r\<lparr>ug_total_books := completed_count u s, ug_total_seconds := ug_total_seconds r + secs,
     ug_grade := fst ?gt, ug_tier := snd ?gt, ug_streak_days := n, ug_longest_streak := longest,
     ug_streak_last_date := Some ld, ug_streak_shields := sh\<rparr>"
  have w: "\<exists>row. write_grade u ?f s2 = Inr (row, s')"
    using assms s1 s2 st c2
    by (auto simp: apply_session_completion_def update_snapshot_def set_opt_def Let_def split: prod.splits)
  then obtain row where w: "write_grade u ?f s2 = Inr (row, s')" by blast
  note wr = write_grade_Inr [OF w]
  have f: "?f (grade_of u s) = graded_after (grade_of u s) (completed_count u s) secs (n, longest, ld, sh)"
    by (simp add: graded_after_def cur)
  have g12: "grade_of v s2 = grade_of v s" for v using g2(4) g1 by simp
  obtain rows where rows: "s' = s2\<lparr>t_user_grades := rows\<rparr>"
    "distinct (map ug_user_id (t_user_grades s2)) \<longrightarrow> distinct (map ug_user_id rows) \<and>
       set rows \<subseteq> insert (?f (grade_of u s)) (set (t_user_grades s2))"
    using wr(3) by (auto simp: g12)
  have sm: "sm = grade_summary_of (graded_after (grade_of u s) (completed_count u s) secs (n, longest, ld, sh))"
    using assms s1 s2 st c2 cur
    by (auto simp: apply_session_completion_def grade_summary_of_def graded_after_def Let_def split: prod.splits)
  show thesis
  proof (rule that [OF s1])
    show "apply_streak_with_shield (ug_streak_last_date (grade_of u s)) (ug_streak_days (grade_of u s))
       (ug_longest_streak (grade_of u s)) (ug_streak_shields (grade_of u s)) d = Inr (n, longest, ld, sh)"
      using st cur by simp
    show "s' = s1\<lparr>t_user_grades := rows\<rparr>" using rows(1) new(1) by simp
    show "distinct (map ug_user_id rows) \<and> set rows \<subseteq> insert (init_grade u) (insert
        (graded_after (grade_of u s) (completed_count u s) secs (n, longest, ld, sh)) (set (t_user_grades s)))"
      if d: "distinct (map ug_user_id (t_user_grades s))"
      using rows(2) g2(5) d f new ds by auto
    show "grade_of v s' = (if v = u then graded_after (grade_of u s) (completed_count u s) secs (n, longest, ld, sh)
        else grade_of v s)" for v
      using wr(4) [of v] f g12 by simp
  qed (rule sm)
qed

lemma graded_after_ok:
  assumes "snapshot_ok g" "0 \<le> tb" "0 \<le> secs"
    and "apply_streak_with_shield (ug_streak_last_date g) (ug_streak_days g) (ug_longest_streak g) (ug_streak_shields g) d = Inr st"
  shows "snapshot_ok (graded_after g tb secs st)"
proof -
  obtain n longest ld sh where st: "st = (n, longest, ld, sh)" by (cases st)
  show ?thesis
    using assms shield_streak_ok [OF assms(4) [unfolded st]] shield_range [OF assms(4) [unfolded st]]
    by (simp add: snapshot_ok_def graded_after_def st)
qed

definition ended_row :: "datetime \<Rightarrow> int \<Rightarrow> reading_session \<Rightarrow> reading_session" where
  "ended_row t d r = r\<lparr>rs_ended_at := Some t, rs_duration_sec := Some d\<rparr>"

lemma ended_row_simps [simp]:
  "rs_id (ended_row t d r) = rs_id r"
  "rs_user_id (ended_row t d r) = rs_user_id r"
  "rs_source (ended_row t d r) = rs_source r"
  "rs_ended_at (ended_row t d r) = Some t"
  "rs_duration_sec (ended_row t d r) = Some d"
  "rs_user_book_id (ended_row t d r) = rs_user_book_id r"
  by (simp_all add: ended_row_def)

text \<open>The events a completed session stages, from the snapshots before and after it.\<close>

definition completion_events :: "uuid \<Rightarrow> reading_session \<Rightarrow> date \<Rightarrow> int \<Rightarrow> user_grade \<Rightarrow> user_grade \<Rightarrow> event list" where
  "completion_events u row d secs before after =
     ReadingSessionCompleted u (rs_user_book_id row) (rs_id row) d secs TIMER #
     (if (ug_grade after, ug_tier after) \<noteq> (ug_grade before, ug_tier before)
      then [UserGradeRecomputed u (ug_grade before) (ug_tier before) (ug_grade after) (ug_tier after)
              (ug_streak_days after)]
      else [])"

lemma end_session_Inr:
  assumes "end_session cfg fid fnow u sid e off p s = Inr (c, s')"
  obtains row st after sd gr new tasks where
    "session_by_id sid s = Some row" "rs_user_id row = u" "rs_ended_at row = None"
    "1 \<le> reconcile_duration (rs_started_at row) e p"
    "apply_streak_with_shield (ug_streak_last_date (grade_of u s)) (ug_streak_days (grade_of u s))
       (ug_longest_streak (grade_of u s)) (ug_streak_shields (grade_of u s)) (local_date e off) = Inr st"
    "after = graded_after (grade_of u s) (completed_count u s) (reconcile_duration (rs_started_at row) e p) st"
    "daily_upsert u (local_date e off) (reconcile_duration (rs_started_at row) e p) 1 s = Inr ((), sd)"
    "s' = s\<lparr>t_reading_sessions := amend rs_id sid (ended_row e (reconcile_duration (rs_started_at row) e p)) (t_reading_sessions s),
        t_daily_stats := t_daily_stats sd, t_user_grades := gr, t_feed_events := t_feed_events s @ new,
        sq_events := sq_events s @ completion_events u row (local_date e off) (reconcile_duration (rs_started_at row) e p) (grade_of u s) after,
        sq_tasks := sq_tasks s @ tasks\<rparr>"
    "distinct (map ug_user_id (t_user_grades s)) \<Longrightarrow> distinct (map ug_user_id gr) \<and>
       set gr \<subseteq> insert (init_grade u) (insert after (set (t_user_grades s)))"
    "\<And>v. grade_of v s' = (if v = u then after else grade_of v s)"
    "c = \<lparr>cp_session = ended_row e (reconcile_duration (rs_started_at row) e p) row,
       cp_grade = grade_summary_of after, cp_grade_up = (ug_grade (grade_of u s) < ug_grade after)\<rparr>"
proof -
  obtain row where row: "session_by_id sid s = Some row" "rs_user_id row = u" "rs_ended_at row = None"
    using assms by (auto simp: end_session_def split: option.splits if_splits)
  define d where "d = reconcile_duration (rs_started_at row) e p"
  define date where "date = local_date e off"
  have d1: "1 \<le> d" using assms row by (auto simp: end_session_def MIN_TIMER_DURATION_SEC_def d_def Let_def split: if_splits)
  define s1 where "s1 = s\<lparr>t_reading_sessions := amend rs_id sid (ended_row e d) (t_reading_sessions s)\<rparr>"
  have er: "ended_row e d = (\<lambda>r. r\<lparr>rs_ended_at := Some e, rs_duration_sec := Some d\<rparr>)"
    by (rule ext) (simp add: ended_row_def)
  have upd: "repo_end_session sid e d s = Inr (ended_row e d row, s1)"
    using assms row d1
    by (auto simp: end_session_def repo_end_session_def session_by_id_def s1_def er MIN_TIMER_DURATION_SEC_def Let_def
        simp flip: d_def split: if_splits)
  have eq: "end_session cfg fid fnow u sid e off p s = bindE (get_or_init u s1) (\<lambda>(before, s2).
     bindE (apply_session_completion u d date s2) (\<lambda>(after, s3).
       let s4 = stage_event (ReadingSessionCompleted u (rs_user_book_id (ended_row e d row))
                (rs_id (ended_row e d row)) date d TIMER) s3;
           s5 = (if (gs_grade after, gs_tier after) \<noteq> (ug_grade before, ug_tier before)
                 then stage_event (UserGradeRecomputed u (ug_grade before) (ug_tier before)
                        (gs_grade after) (gs_tier after) (gs_streak_days after)) s4
                 else s4)
       in bindE (record_streak_milestone (feed_service cfg) fid fnow u (gs_streak_days after) s5)
            (\<lambda>(_, s6).
          let s7 = (if taste_profile_service cfg then schedule (TasteRecompute u) s6 else s6)
          in Inr (\<lparr>cp_session = ended_row e d row, cp_grade = after,
                   cp_grade_up = (ug_grade before < gs_grade after)\<rparr>, s7))))"
    using row d1 upd by (simp add: end_session_def MIN_TIMER_DURATION_SEC_def Let_def del: ended_row_simps flip: d_def date_def)
  note main = assms [unfolded eq]
  obtain before s2 where s2: "get_or_init u s1 = Inr (before, s2)" using main by auto
  obtain sm s3 where s3: "apply_session_completion u d date s2 = Inr (sm, s3)" using main s2 by auto
  note g2 = get_or_init_Inr [OF s2]
  have gs1: "grade_of v s1 = grade_of v s" for v by (simp add: s1_def grade_of_def)
  have gs2: "grade_of v s2 = grade_of v s" for v using g2(4) gs1 by simp
  have before: "before = grade_of u s" using g2(1) gs1 by simp
  obtain gn where gn: "s2 = s1\<lparr>t_user_grades := t_user_grades s1 @ gn\<rparr>" "set gn \<subseteq> {init_grade u}" using g2(3) by blast
  have cc: "completed_count u s2 = completed_count u s" by (simp add: gn(1) s1_def completed_count_def)
  from s3 obtain d1s st gr where A:
    "daily_upsert u date d 1 s2 = Inr ((), d1s)"
    "apply_streak_with_shield (ug_streak_last_date (grade_of u s)) (ug_streak_days (grade_of u s))
       (ug_longest_streak (grade_of u s)) (ug_streak_shields (grade_of u s)) date = Inr st"
    "s3 = d1s\<lparr>t_user_grades := gr\<rparr>"
    "distinct (map ug_user_id (t_user_grades s2)) \<Longrightarrow> distinct (map ug_user_id gr) \<and>
       set gr \<subseteq> insert (init_grade u) (insert (graded_after (grade_of u s) (completed_count u s) d st) (set (t_user_grades s2)))"
    "\<And>v. grade_of v s3 = (if v = u then graded_after (grade_of u s) (completed_count u s) d st else grade_of v s)"
    "sm = grade_summary_of (graded_after (grade_of u s) (completed_count u s) d st)"
    by (rule apply_completion_Inr) (simp add: gs2 cc)
  define after where "after = graded_after (grade_of u s) (completed_count u s) d st"
  have up: "daily_upsert u date d 1 s = Inr ((), s\<lparr>t_daily_stats := t_daily_stats d1s\<rparr>)"
    using A(1) by (auto simp: daily_upsert_def gn(1) s1_def split: option.splits if_splits)
  obtain dss where dss: "d1s = s2\<lparr>t_daily_stats := dss\<rparr>" using daily_upsert_Inr(1) [OF A(1)] by blast
  define s5 where "s5 = s3\<lparr>sq_events := sq_events s3 @ completion_events u row date d (grade_of u s) after\<rparr>"
  have s5: "(if (gs_grade sm, gs_tier sm) \<noteq> (ug_grade before, ug_tier before)
                 then stage_event (UserGradeRecomputed u (ug_grade before) (ug_tier before)
                        (gs_grade sm) (gs_tier sm) (gs_streak_days sm))
                        (stage_event (ReadingSessionCompleted u (rs_user_book_id row) (rs_id row) date d TIMER) s3)
                 else stage_event (ReadingSessionCompleted u (rs_user_book_id row) (rs_id row) date d TIMER) s3) = s5"
    by (simp add: s5_def completion_events_def A(6) grade_summary_of_def stage_event_def before flip: after_def)
  obtain s6 where s6: "record_streak_milestone (feed_service cfg) fid fnow u (gs_streak_days sm) s5 = Inr ((), s6)"
    and fin: "s' = (if taste_profile_service cfg then schedule (TasteRecompute u) s6 else s6)"
      "c = \<lparr>cp_session = ended_row e d row, cp_grade = sm, cp_grade_up = (ug_grade before < gs_grade sm)\<rparr>"
    using main by (simp only: s2 s3 bindE_simps prod.case Let_def ended_row_simps s5) auto
  obtain new where new: "s6 = s5\<lparr>t_feed_events := t_feed_events s5 @ new\<rparr>"
    using record_extends(2) [OF s6] by (auto simp: stream_extends_def)
  define tasks where "tasks = (if taste_profile_service cfg then [TasteRecompute u] else [])"
  show thesis
  proof (rule that [where row = row and st = st and after = after and gr = gr and new = new and tasks = tasks
      and sd = "s\<lparr>t_daily_stats := t_daily_stats d1s\<rparr>"])
    show "s' = s\<lparr>t_reading_sessions := amend rs_id sid (ended_row e (reconcile_duration (rs_started_at row) e p)) (t_reading_sessions s),
        t_daily_stats := t_daily_stats (s\<lparr>t_daily_stats := t_daily_stats d1s\<rparr>), t_user_grades := gr, t_feed_events := t_feed_events s @ new,
        sq_events := sq_events s @ completion_events u row (local_date e off) (reconcile_duration (rs_started_at row) e p) (grade_of u s) after,
        sq_tasks := sq_tasks s @ tasks\<rparr>"
      by (simp add: fin(1) new s5_def A(3) dss gn(1) s1_def tasks_def schedule_def flip: d_def date_def)
    show "distinct (map ug_user_id gr) \<and> set gr \<subseteq> insert (init_grade u) (insert after (set (t_user_grades s)))"
      if "distinct (map ug_user_id (t_user_grades s))"
      using A(4) g2(5) that gn by (auto simp: s1_def after_def)
    have "grade_of v s' = grade_of v s3" for v
      by (simp add: fin(1) new s5_def schedule_def grade_of_def)
    then show "grade_of v s' = (if v = u then after else grade_of v s)" for v
      using A(5) [of v] by (simp add: after_def)
    show "c = \<lparr>cp_session = ended_row e (reconcile_duration (rs_started_at row) e p) row,
       cp_grade = grade_summary_of after, cp_grade_up = (ug_grade (grade_of u s) < ug_grade after)\<rparr>"
      by (simp add: fin(2) A(6) before after_def grade_summary_of_def flip: d_def)
  qed (use row d1 A(2) up in \<open>simp_all add: after_def d_def date_def\<close>)
qed

end
