(* ===== verification/ReadingMachine.thy ===== *)
theory ReadingMachine
  imports ReadingLedger
begin

text \<open>
  The reading service as a machine whose steps are HTTP requests, and its invariant: at most
  one running timer per user, well-formed sessions, coherent grade snapshots, and agreement of
  the three ledgers of reading time. Removing a library entry deletes its sessions and is the
  one request of the two services that is not a step here.
\<close>

datatype reading_op =
    StartSession uuid datetime uuid uuid "pystr option"
  | EndSession config uuid datetime uuid uuid datetime int int
  | LogManual uuid datetime uuid uuid datetime datetime "pystr option"
  | CreateGoal uuid datetime uuid goal_period int int "date option"
  | AddBookmark uuid datetime uuid uuid int "pystr option"
  | GetGrade uuid
  | AddToLibrary uuid datetime uuid uuid user_book_status
  | UpdateStatus bool uuid datetime uuid uuid user_book_status

definition ret :: "'a outcome \<Rightarrow> error + sess" where
  "ret m = bindE m (\<lambda>(_, s). Inr s)"

lemma ret_Inr [simp]: "ret m = Inr s' \<longleftrightarrow> (\<exists>x. m = Inr (x, s'))"
  by (auto simp: ret_def)

fun reading_step :: "reading_op \<Rightarrow> sess \<Rightarrow> error + sess" where
  "reading_step (StartSession i now u ub dev) s = ret (start_session i now u ub dev s)"
| "reading_step (EndSession cfg fid fnow u sid e off p) s = ret (end_session cfg fid fnow u sid e off p s)"
| "reading_step (LogManual i now u ub a b nt) s = ret (log_manual_session i now u ub a b nt s)"
| "reading_step (CreateGoal i now u per tb ts d) s = ret (create_goal i now u per tb ts d s)"
| "reading_step (AddBookmark i now u ub pg nt) s = ret (add_bookmark i now u ub pg nt s)"
| "reading_step (GetGrade u) s = ret (get_grade u s)"
| "reading_step (AddToLibrary i now u b st) s = ret (add_to_library i now u b st s)"
| "reading_step (UpdateStatus w fid fnow u ub st) s = ret (update_status w fid fnow u ub st s)"

definition reading_inv :: "sess \<Rightarrow> bool" where
  "reading_inv s \<longleftrightarrow> reading_ok s \<and> ledger s"

section \<open>What the three tables decide\<close>

lemma reading_inv_cong:
  assumes "t_reading_sessions s' = t_reading_sessions s" "t_daily_stats s' = t_daily_stats s"
    "t_user_grades s' = t_user_grades s"
  shows "reading_inv s' \<longleftrightarrow> reading_inv s"
  using assms by (simp add: reading_inv_def reading_ok_def ledger_def daily_total_def daily_count_def
      timer_total_def timer_count_def grade_of_def)

lemma reading_inv_grades:
  assumes "reading_inv s" "s' = s\<lparr>t_user_grades := gr\<rparr>"
    "distinct (map ug_user_id gr)" "\<forall>g\<in>set gr. snapshot_ok g" "\<And>v. grade_of v s' = grade_of v s"
  shows "reading_inv s'"
  using assms(1,3-5) unfolding assms(2)
  by (simp add: reading_inv_def reading_ok_def ledger_def daily_total_def daily_count_def
      timer_total_def timer_count_def)

text \<open>Appending a session that adds nothing to the timer ledger.\<close>

lemma reading_inv_append:
  assumes "reading_inv s" "s' = s\<lparr>t_reading_sessions := t_reading_sessions s @ [r]\<rparr>"
    "rs_id r \<notin> rs_id ` set (t_reading_sessions s)" "session_ok r"
    "rs_source r = MANUAL \<or> rs_ended_at r = None \<and> active_rows (rs_user_id r) s = []"
  shows "reading_inv s'"
proof -
  have src: "rs_ended_at r = None \<Longrightarrow> rs_source r = TIMER \<and> rs_duration_sec r = None"
    using assms(4) by (simp add: session_ok_def)
  have act: "rs_ended_at r = None \<Longrightarrow>
      rs_user_id r \<notin> rs_user_id ` set (filter (\<lambda>r. rs_ended_at r = None) (t_reading_sessions s))"
    using assms(5) src by (auto simp: active_rows_def filter_empty_conv)
  have "credited u r = 0" for u using assms(5) src by (auto simp: credited_def)
  moreover have "rs_source r = TIMER \<Longrightarrow> rs_ended_at r = None" using assms(5) by auto
  ultimately show ?thesis
    using assms(1,3,4) act unfolding assms(2)
    by (auto simp: reading_inv_def reading_ok_def ledger_def daily_total_def daily_count_def
        timer_total_def timer_count_def grade_of_def)
qed

section \<open>Every request keeps the invariant\<close>

lemma start_session_Inr:
  assumes "start_session i now u ub dev s = Inr (r, s')"
  shows "user_book_belongs_to_user u ub s" "active_rows u s = []" "user_exists u s"
    "rs_id r \<notin> rs_id ` set (t_reading_sessions s)"
    "r = \<lparr>rs_id = i, rs_user_id = u, rs_user_book_id = ub, rs_started_at = now, rs_ended_at = None,
          rs_duration_sec = None, rs_source = TIMER, rs_device = dev, rs_note = None, rs_created_at = now\<rparr>"
    "s' = s\<lparr>t_reading_sessions := t_reading_sessions s @ [r]\<rparr>"
  using assms by (auto simp: start_session_def create_started_def insert_row_def fetch_None_iff Let_def
      split: if_splits)

lemma start_session_inv:
  assumes "reading_inv s" "start_session i now u ub dev s = Inr (r, s')"
  shows "reading_inv s'"
  using start_session_Inr [OF assms(2)] by (intro reading_inv_append [OF assms(1), where r = r]) (simp_all add: session_ok_def)

lemma log_manual_Inr:
  assumes "log_manual_session i now u ub a b note s = Inr (r, s')"
  shows "rs_id r \<notin> rs_id ` set (t_reading_sessions s)" "rs_source r = MANUAL" "rs_user_id r = u"
    "rs_duration_sec r = Some (py_trunc (total_seconds (b - a)))"
    "60 \<le> py_trunc (total_seconds (b - a))" "py_trunc (total_seconds (b - a)) \<le> 14400" "session_ok r"
    "s' = s\<lparr>t_reading_sessions := t_reading_sessions s @ [r]\<rparr>"
  using assms by (auto simp: log_manual_session_def create_manual_def insert_row_def fetch_None_iff Let_def
      MANUAL_MIN_SEC_def MANUAL_MAX_SEC_def session_ok_def split: if_splits)

lemma log_manual_inv: "reading_inv s \<Longrightarrow> log_manual_session i now u ub a b note s = Inr (r, s') \<Longrightarrow> reading_inv s'"
  by (rule reading_inv_append, assumption, erule log_manual_Inr, erule log_manual_Inr)
    (auto dest: log_manual_Inr)

lemma get_grade_inv: "reading_inv s \<Longrightarrow> get_grade u s = Inr (g, s') \<Longrightarrow> reading_inv s'"
proof -
  assume inv: "reading_inv s" and g: "get_grade u s = Inr (g, s')"
  then obtain row where r: "get_or_init u s = Inr (row, s')" by (auto simp: get_grade_def)
  obtain new where new: "s' = s\<lparr>t_user_grades := t_user_grades s @ new\<rparr>" "set new \<subseteq> {init_grade u}"
    using get_or_init_Inr(3) [OF r] by blast
  show ?thesis
  proof (rule reading_inv_grades [OF inv new(1)])
    show "distinct (map ug_user_id (t_user_grades s @ new))"
      using get_or_init_Inr(5) [OF r] inv new(1) by (simp add: reading_inv_def reading_ok_def)
    show "\<forall>g\<in>set (t_user_grades s @ new). snapshot_ok g"
      using inv new(2) init_grade_ok by (auto simp: reading_inv_def reading_ok_def)
  qed (rule get_or_init_Inr(4) [OF r])
qed

lemma other_tables:
  "create_goal i now u per tb ts d s = Inr (g, s') \<Longrightarrow> \<exists>rows. s' = s\<lparr>t_goals := rows\<rparr>"
  "add_bookmark i now u ub pg note s = Inr (b, s') \<Longrightarrow> \<exists>rows. s' = s\<lparr>t_bookmarks := rows\<rparr>"
  "add_to_library i now u bk st s = Inr (r, s') \<Longrightarrow> \<exists>rows. s' = s\<lparr>t_user_books := rows\<rparr>"
  by (auto simp: create_goal_def repo_create_goal_def add_bookmark_def repo_create_bookmark_def
      add_to_library_def create_user_book_def Let_def split: if_splits option.splits sum.splits)

lemma end_session_inv:
  assumes inv: "reading_inv s" and es: "end_session cfg fid fnow u sid e off p s = Inr (c, s')"
  shows "reading_inv s'"
  using es
proof (cases rule: end_session_Inr)
  case (1 row st after sd gr new tasks)
  define d where "d = reconcile_duration (rs_started_at row) e p"
  note E = 1 [folded d_def]
  have ok: "distinct (map rs_id (t_reading_sessions s))"
      "distinct (map rs_user_id (filter (\<lambda>r. rs_ended_at r = None) (t_reading_sessions s)))"
      "\<forall>r\<in>set (t_reading_sessions s). session_ok r" "distinct (map ds_key (t_daily_stats s))"
      "\<forall>r\<in>set (t_daily_stats s). 1 \<le> ds_total_seconds r \<and> 1 \<le> ds_session_count r"
      "distinct (map ug_user_id (t_user_grades s))" "\<forall>g\<in>set (t_user_grades s). snapshot_ok g"
    and led: "\<And>v. daily_total v s = timer_total v s" "\<And>v. ug_total_seconds (grade_of v s) = timer_total v s"
      "\<And>v. daily_count v s = timer_count v s"
    using inv by (auto simp: reading_inv_def reading_ok_def ledger_def)
  have row: "fetch rs_id sid (t_reading_sessions s) = Some row" using E(1) by (simp add: session_by_id_def)
  have ro: "rs_duration_sec row = None" "rs_source row = TIMER"
    using bspec [OF ok(3) fetch_Some_mem [OF row]] E(3) by (auto simp: session_ok_def)
  note up = daily_upsert_ok [OF E(7) ok(4,5) E(4), simplified]
  have after: "snapshot_ok after"
    unfolding E(6) by (rule graded_after_ok [OF grade_of_ok [OF ok(7)] _ _ E(5)])
      (use E(4) in \<open>simp_all add: completed_count_def\<close>)
  have ssn: "t_reading_sessions s' = amend rs_id sid (ended_row e d) (t_reading_sessions s)"
    "t_daily_stats s' = t_daily_stats sd" "t_user_grades s' = gr"
    using E(8) by simp_all
  have "\<forall>r\<in>set (amend rs_id sid (ended_row e d) (t_reading_sessions s)). session_ok r"
  proof -
    have "r = row" if "r \<in> set (t_reading_sessions s)" "rs_id r = sid" for r
      using fetch_distinct [OF ok(1) that(1)] that(2) row by simp
    moreover have "session_ok (ended_row e d row)" using E(4) ro by (simp add: session_ok_def)
    ultimately show ?thesis using ok(3) by (auto simp: set_amend)
  qed
  moreover have "distinct (map rs_user_id (filter (\<lambda>r. rs_ended_at r = None)
      (amend rs_id sid (ended_row e d) (t_reading_sessions s))))"
    by (rule distinct_map_filter_amend [OF _ ok(2)]) simp_all
  moreover have "snapshot_ok g" if "g \<in> set gr" for g
    using that E(9) [OF ok(6)] ok(7) after init_grade_ok by auto
  ultimately have "reading_ok s'"
    using ok(1) up E(9) [OF ok(6)] by (simp add: reading_ok_def ssn map_key_amend)
  moreover have "ledger s'"
  proof -
    have tt: "timer_total v s' = timer_total v s + (if v = u then d else 0)" for v
      using tsum_amend [OF ok(1) row, of "credited v" "ended_row e d"] E(2) ro
      by (simp add: timer_total_def ssn(1) credited_def)
    have tc: "timer_count v s' = timer_count v s + (if v = u then 1 else 0)" for v
      using tsum_amend [OF ok(1) row, of _ "ended_row e d"] E(2,3) ro by (simp add: timer_count_def ssn(1))
    have dt: "daily_total v s' = daily_total v sd" "daily_count v s' = daily_count v sd" for v
      by (simp_all add: daily_total_def daily_count_def ssn(2))
    have "ug_total_seconds (grade_of v s') = ug_total_seconds (grade_of v s) + (if v = u then d else 0)" for v
      using E(10) [of v] by (simp add: E(6) graded_after_def split: prod.splits)
    then show ?thesis using tt tc dt up led by (simp add: ledger_def)
  qed
  ultimately show ?thesis by (simp add: reading_inv_def)
qed

lemma update_status_tables:
  assumes "update_status w fid fnow u ub st s = Inr (r, s')"
  shows "t_reading_sessions s' = t_reading_sessions s" "t_daily_stats s' = t_daily_stats s"
    "t_user_grades s' = t_user_grades s"
proof -
  obtain s1 where s1: "repo_update_status ub st s = Inr (r, s1)"
    and fin: "s' = s1 \<or> (\<exists>b. record_book_completed w fid fnow u b (stage_event (UserBookCompleted u ub b) s1) = Inr ((), s'))"
    using assms by (auto simp: update_status_def split: option.splits if_splits)
  have "t_reading_sessions s1 = t_reading_sessions s \<and> t_daily_stats s1 = t_daily_stats s \<and> t_user_grades s1 = t_user_grades s"
    using s1 by (auto simp: repo_update_status_def split: option.splits)
  moreover have "t_reading_sessions s' = t_reading_sessions s1 \<and> t_daily_stats s' = t_daily_stats s1 \<and> t_user_grades s' = t_user_grades s1"
    using fin by (auto dest!: record_extends(3) simp: stream_extends_def stage_event_def)
  ultimately show "t_reading_sessions s' = t_reading_sessions s" "t_daily_stats s' = t_daily_stats s"
    "t_user_grades s' = t_user_grades s" by auto
qed

lemma reading_step_inv:
  assumes "reading_inv s" "reading_step x s = Inr s'"
  shows "reading_inv s'"
proof (cases x)
  case (StartSession i now u ub dev)
  then show ?thesis using assms by (auto intro: start_session_inv)
next
  case (EndSession cfg fid fnow u sid e off p)
  then show ?thesis using assms by (auto intro: end_session_inv)
next
  case (LogManual i now u ub a b nt)
  then show ?thesis using assms by (auto intro: log_manual_inv)
next
  case (CreateGoal i now u per tb ts d)
  then obtain rows where "s' = s\<lparr>t_goals := rows\<rparr>" using assms(2) by (auto dest: other_tables)
  then show ?thesis using assms(1) reading_inv_cong [of s' s] by simp
next
  case (AddBookmark i now u ub pg nt)
  then obtain rows where "s' = s\<lparr>t_bookmarks := rows\<rparr>" using assms(2) by (auto dest: other_tables)
  then show ?thesis using assms(1) reading_inv_cong [of s' s] by simp
next
  case (GetGrade u)
  then show ?thesis using assms by (auto intro: get_grade_inv)
next
  case (AddToLibrary i now u b st)
  then obtain rows where "s' = s\<lparr>t_user_books := rows\<rparr>" using assms(2) by (auto dest: other_tables)
  then show ?thesis using assms(1) reading_inv_cong [of s' s] by simp
next
  case (UpdateStatus w fid fnow u ub st)
  then obtain r where "update_status w fid fnow u ub st s = Inr (r, s')" using assms(2) by auto
  then show ?thesis using assms(1) reading_inv_cong [of s' s] update_status_tables by simp
qed

interpretation reading: guarded_machine reading_step reading_inv
  by unfold_locales (rule reading_step_inv)

end
