(* ===== verification/Demo.thy ===== *)
theory Demo
  imports Schema
begin

text \<open>
  A small concrete state the witnesses of the properties are evaluated on: two users, one book,
  and that book in the first user's library. 1700000000000000 is 14 November 2023, 22:13:20 UTC.
\<close>

definition t0 :: datetime where
  "t0 = 1700000000000000"

definition demo_user :: "uuid \<Rightarrow> user" where
  "demo_user u = \<lparr>us_id = u, us_provider = KAKAO_PROVIDER, us_provider_sub = [u], us_email = None, us_nickname = ascii ''reader'',
     us_profile_image_url = None, us_bio = None, us_referral_code = None, us_cover_image_url = None, us_theme = None,
     us_featured_book_id = None, us_featured_quote = None, us_is_active = True, us_is_admin = False, us_is_pro = False,
     us_pro_expires_at = None, us_pro_product_id = None, us_trial_started_at = None, us_trial_ends_at = None,
     us_created_at = t0, us_last_login_at = None, us_last_active_at = None, us_deleted_at = None\<rparr>"

definition demo_book :: book where
  "demo_book = \<lparr>bk_id = 10, bk_isbn13 = ''9788936434267'', bk_title = ascii ''A Book'', bk_author = ascii ''An Author'',
     bk_publisher = None, bk_cover_url = None, bk_description = None, bk_page_count = Some 300,
     bk_source = NAVER, bk_created_at = t0\<rparr>"

definition demo_user_book :: user_book where
  "demo_user_book = \<lparr>ub_id = 100, ub_user_id = 1, ub_book_id = 10, ub_status = READING,
     ub_started_at = Some t0, ub_finished_at = None, ub_rating = None, ub_one_line_review = None,
     ub_progress = 0, ub_current_chapter = 0, ub_created_at = t0\<rparr>"

definition demo :: sess where
  "demo = empty_sess\<lparr>t_users := [demo_user 1, demo_user 2, demo_user 3], t_books := [demo_book], t_user_books := [demo_user_book]\<rparr>"

lemmas demo_defs = demo_def empty_sess_def demo_user_def demo_book_def demo_user_book_def t0_def

lemma demo_tables [simp]:
  "t_reading_sessions demo = []" "t_daily_stats demo = []" "t_user_grades demo = []" "t_goals demo = []"
  "t_bookmarks demo = []" "t_feed_events demo = []" "t_books demo = [demo_book]"
  "t_user_books demo = [demo_user_book]" "t_users demo = [demo_user 1, demo_user 2, demo_user 3]"
  "sq_events demo = []" "sq_tasks demo = []"
  by (simp_all add: demo_def empty_sess_def)

lemma demo_keys [simp]:
  "us_id (demo_user u) = u" "bk_id demo_book = 10" "bk_isbn13 demo_book = ''9788936434267''"
  "ub_id demo_user_book = 100" "ub_user_id demo_user_book = 1" "ub_book_id demo_user_book = 10"
  "ub_status demo_user_book = READING" "ub_finished_at demo_user_book = None"
  by (simp_all add: demo_user_def demo_book_def demo_user_book_def)

end
