(* ===== verification/ReadingProps.thy ===== *)
theory ReadingProps
  imports ReadingMachine Demo
begin

text \<open>
  The properties of the reading timer and its snapshots: the invariants of every reachable
  state, the complete behaviour of starting and ending a session on each branch, and what a
  manual log does not do. Witnesses run on \<open>demo\<close>.
\<close>

lemma demo_inv: "reading_inv demo"
  by (simp add: reading_inv_def reading_ok_def ledger_def daily_total_def timer_total_def
      daily_count_def timer_count_def grade_of_def init_grade_def)

section \<open>Invariants\<close>

lemma distinct_filter_le_one:
  "distinct (map h xs) \<Longrightarrow> length (filter (\<lambda>r. h r = u) xs) \<le> 1"
proof (induction xs)
  case (Cons a xs)
  show ?case
  proof (cases "h a = u")
    case True
    then have "filter (\<lambda>r. h r = u) xs = []" using Cons.prems by (auto simp: filter_empty_conv) (metis image_eqI)
    then show ?thesis by simp
  qed (use Cons in simp)
qed simp

lemma active_le_one:
  assumes "reading_inv s"
  shows "length (active_rows u s) \<le> 1 \<and> (\<exists>a. get_active_session u s = Inr a)"
proof -
  have d: "distinct (map rs_user_id (filter (\<lambda>r. rs_ended_at r = None) (t_reading_sessions s)))"
    using assms by (simp add: reading_inv_def reading_ok_def)
  have "length (active_rows u s) \<le> 1"
    using distinct_filter_le_one [OF d, of u] by (simp add: active_rows_def filter_filter conj_commute)
  then show ?thesis by (simp add: get_active_session_def scalar_one_or_none_total)
qed

text \<open>
  C8. Whatever requests are served, a user never has two running timers, so looking the running
  one up never fails.
\<close>

theorem one_active_session:
  assumes "reach reading_step s0 s" "reading_inv s0"
  shows "length (active_rows u s) \<le> 1 \<and> (\<exists>a. get_active_session u s = Inr a)"
  using active_le_one [OF reading.reach_inv [OF assms]] .

lemma one_active_session_witness:
  "length (active_rows 1 (run reading_step demo [StartSession 7 t0 1 100 None, StartSession 8 t0 1 100 None])) \<le> 1 \<and>
    (\<exists>a. get_active_session 1 (run reading_step demo [StartSession 7 t0 1 100 None, StartSession 8 t0 1 100 None]) = Inr a)"
  by (rule one_active_session [OF reach_run demo_inv])



text \<open>
  Every stored snapshot is coherent: the grade and tier are those its own totals earn, the
  current streak never exceeds the longest one, and the shields stay between zero and three.
\<close>

theorem snapshots_coherent:
  assumes "reach reading_step s0 s" "reading_inv s0" "g \<in> set (t_user_grades s)"
  shows "(ug_grade g, ug_tier g) = calculate_grade_tier (ug_total_books g) (ug_total_seconds g) \<and>
    0 \<le> ug_streak_days g \<and> ug_streak_days g \<le> ug_longest_streak g \<and>
    0 \<le> ug_streak_shields g \<and> ug_streak_shields g \<le> 3"
proof -
  have "snapshot_ok g" using reading.reach_inv [OF assms(1,2)] assms(3)
    by (simp add: reading_inv_def reading_ok_def)
  then show ?thesis by (simp add: snapshot_ok_def streak_ok_def)
qed

lemma snapshots_coherent_witness:
  "(ug_grade (init_grade 1), ug_tier (init_grade 1)) =
      calculate_grade_tier (ug_total_books (init_grade 1)) (ug_total_seconds (init_grade 1)) \<and>
    0 \<le> ug_streak_days (init_grade 1) \<and> ug_streak_days (init_grade 1) \<le> ug_longest_streak (init_grade 1) \<and>
    0 \<le> ug_streak_shields (init_grade 1) \<and> ug_streak_shields (init_grade 1) \<le> 3"
proof (rule snapshots_coherent [OF reach_run demo_inv])
  show "init_grade 1 \<in> set (t_user_grades (run reading_step demo [GetGrade 1]))"
    by (simp add: ret_def get_grade_def get_or_init_def insert_row_def init_grade_def user_exists_def)
qed

section \<open>Starting a session\<close>

text \<open>
  Starting a timer: a library entry that is not the caller's is "not found"; a running
  timer is a conflict; otherwise exactly one row is added and it is the caller's running timer.
\<close>

theorem start_session_spec:
  assumes "reading_inv s" "user_exists u s" "new_id \<notin> rs_id ` set (t_reading_sessions s)"
  shows "start_session new_id now u ub dev s =
    (if \<not> user_book_belongs_to_user u ub s then Inl (DomainError NotFoundError ''USER_BOOK_NOT_FOUND'')
     else if active_rows u s \<noteq> [] then Inl (DomainError ConflictError ''ACTIVE_SESSION_EXISTS'')
     else let r = \<lparr>rs_id = new_id, rs_user_id = u, rs_user_book_id = ub, rs_started_at = now,
                   rs_ended_at = None, rs_duration_sec = None, rs_source = TIMER, rs_device = dev,
                   rs_note = None, rs_created_at = now\<rparr>
          in Inr (r, s\<lparr>t_reading_sessions := t_reading_sessions s @ [r]\<rparr>))"
proof -
  obtain a where a: "get_active_session u s = Inr a"
    using active_le_one [OF assms(1)] by blast
  then have "a \<noteq> None \<longleftrightarrow> active_rows u s \<noteq> []"
    by (cases a) (auto simp: get_active_session_def scalar_one_or_none_Some scalar_one_or_none_None)
  moreover have "user_book_belongs_to_user u ub s \<Longrightarrow> user_book_exists ub s"
    by (auto simp: user_book_belongs_to_user_def user_book_by_id_def user_book_exists_def split: option.splits)
  ultimately show ?thesis
    using assms a unfolding start_session_def create_started_def insert_row_def fetch_None_iff Let_def
    by (cases "active_rows u s = []"; cases "user_book_belongs_to_user u ub s") simp_all
qed

lemma start_session_spec_witness:
  "start_session 7 t0 1 100 None demo =
    (if \<not> user_book_belongs_to_user 1 100 demo then Inl (DomainError NotFoundError ''USER_BOOK_NOT_FOUND'')
     else if active_rows 1 demo \<noteq> [] then Inl (DomainError ConflictError ''ACTIVE_SESSION_EXISTS'')
     else let r = \<lparr>rs_id = 7, rs_user_id = 1, rs_user_book_id = 100, rs_started_at = t0,
                   rs_ended_at = None, rs_duration_sec = None, rs_source = TIMER, rs_device = None,
                   rs_note = None, rs_created_at = t0\<rparr>
          in Inr (r, demo\<lparr>t_reading_sessions := t_reading_sessions demo @ [r]\<rparr>))"
  by (rule start_session_spec [OF demo_inv]) (simp_all add: user_exists_def)

section \<open>Ending a session\<close>


definition demo_timer :: reading_session where
  "demo_timer = \<lparr>rs_id = 7, rs_user_id = 1, rs_user_book_id = 100, rs_started_at = t0, rs_ended_at = None,
       rs_duration_sec = None, rs_source = TIMER, rs_device = None, rs_note = None, rs_created_at = t0\<rparr>"

definition demo_running :: sess where
  "demo_running = demo\<lparr>t_reading_sessions := [demo_timer]\<rparr>"

lemma demo_timer_fields [simp]:
  "rs_id demo_timer = 7" "rs_user_id demo_timer = 1" "rs_started_at demo_timer = t0" "rs_ended_at demo_timer = None"
  "rs_source demo_timer = TIMER" "rs_user_book_id demo_timer = 100" "rs_duration_sec demo_timer = None"
  by (simp_all add: demo_timer_def)

definition demo_config :: config where
  "demo_config = \<lparr>feed_service = True, taste_profile_service = True, subscription_query = True\<rparr>"

lemmas end_session_eval = end_session_def session_by_id_def MIN_TIMER_DURATION_SEC_def repo_end_session_def
  int4_def get_or_init_def insert_row_def init_grade_def user_exists_def apply_session_completion_def
  daily_upsert_def calculate_grade_tier_def TIER_THRESHOLDS_def completed_count_def
  apply_streak_with_shield_def update_streak_def SHIELD_AWARD_INTERVAL_def
  update_snapshot_def write_grade_def set_opt_def grade_fits_def grade_check_def
  record_streak_milestone_def STREAK_MILESTONES_def stage_event_def

text \<open>An hour of reading, without a pause, on a clock at UTC.\<close>

lemma demo_end:
  "\<exists>c s'. end_session demo_config 50 t0 1 7 (t0 + 3600000000) 0 0 demo_running = Inr (c, s')"
proof -
  have d: "reconcile_duration t0 (t0 + 3600000000) 0 = 3600"
    by (subst reconcile_no_pause) (simp_all add: sec_us_def)
  show ?thesis
    by (simp add: end_session_eval demo_running_def d [simplified] Let_def)
qed



section \<open>Manual sessions\<close>

text \<open>
  A manual log carries no weight: when it is accepted, its window lies between one minute
  and four hours and one finished manual row is added; the heatmap, every snapshot, the staged
  events and the background tasks are as they were.
\<close>

theorem manual_session_weightless:
  assumes "log_manual_session new_id now u ub a b note s = Inr (r, s')"
  shows "t_reading_sessions s' = t_reading_sessions s @ [r] \<and> rs_source r = MANUAL \<and> rs_user_id r = u \<and>
    (\<exists>d. rs_duration_sec r = Some d \<and> 60 \<le> d \<and> d \<le> 4 * 60 * 60) \<and>
    t_daily_stats s' = t_daily_stats s \<and> t_user_grades s' = t_user_grades s \<and>
    (\<forall>v. timer_total v s' = timer_total v s) \<and> sq_events s' = sq_events s \<and> sq_tasks s' = sq_tasks s"
proof -
  note L = log_manual_Inr [OF assms]
  have s': "s' = s\<lparr>t_reading_sessions := t_reading_sessions s @ [r]\<rparr>" by (rule L(8))
  have "timer_total v s' = timer_total v s" for v by (simp add: timer_total_def s' credited_def L(2))
  then show ?thesis using L by (simp add: s')
qed

lemma demo_manual:
  "\<exists>r s'. log_manual_session 8 t0 1 100 (t0 - 1800000000) t0 None demo = Inr (r, s')"
proof -
  have "py_trunc (total_seconds 1800000000) = 1800"
    by (subst trunc_total_seconds) (simp_all add: sec_us_def)
  then show ?thesis
    by (simp add: log_manual_session_def user_book_belongs_to_user_def user_book_by_id_def
        MANUAL_MIN_SEC_def MANUAL_MAX_SEC_def create_manual_def int4_def insert_row_def user_exists_def
        user_book_exists_def Let_def)
qed

lemma manual_session_weightless_witness:
  "\<exists>r s'. log_manual_session 8 t0 1 100 (t0 - 1800000000) t0 None demo = Inr (r, s') \<and>
     t_reading_sessions s' = [r] \<and> rs_source r = MANUAL \<and> t_daily_stats s' = [] \<and> sq_events s' = []"
proof -
  obtain r s' where m: "log_manual_session 8 t0 1 100 (t0 - 1800000000) t0 None demo = Inr (r, s')"
    using demo_manual by blast
  then show ?thesis using manual_session_weightless [OF m] by simp
qed

end
