(* ===== verification/QueryProps.thy ===== *)
theory QueryProps
  imports ReadingQueries ReadingProps
begin

text \<open>
  Properties of the reading queries: the heatmap of a window, the goals of the current-goals
  screen, the Pro gate, and what the recap's aggregate really adds up; with the statistics that
  PostgreSQL averages (\<open>ReadingStatsRepository\<close>, \<open>get_reading_stats\<close>).
\<close>

lemma streak_incremental_witness:
  "\<exists>n. streak_over [738000, 738001, 738001, 738005] (None, 0, 0) =
    Inr (Some 738005, n, longest_run (sort (remdups [738000, 738001, 738001, 738005])))"
  using streak_incremental [of "[738000, 738001, 738001, 738005]"] by (simp add: max_ordinal_def)

section \<open>Heatmap\<close>

lemma daily_range_sorted:
  assumes "distinct (map ds_key (t_daily_stats s))"
  shows "sorted_wrt (<) (map ds_date (daily_range u a b s))"
proof -
  let ?P = "\<lambda>r. ds_user_id r = u \<and> a \<le> ds_date r \<and> ds_date r \<le> b"
  have "distinct (map ds_key (filter ?P (t_daily_stats s)))" using assms by (rule distinct_map_filter)
  then have "distinct (map ds_date (filter ?P (t_daily_stats s)))"
    by (simp add: distinct_map inj_on_def ds_key_def)
  then have "distinct (map ds_date (daily_range u a b s))"
    by (simp add: daily_range_def distinct_map_order_asc)
  moreover have "sorted (map ds_date (daily_range u a b s))"
    by (simp add: daily_range_def sorted_order_asc)
  ultimately show ?thesis by (simp add: strict_sorted_iff)
qed

lemma strict_sorted_length:
  assumes "sorted_wrt (<) xs" "\<forall>x\<in>set xs. a \<le> x \<and> x \<le> (b :: int)"
  shows "int (length xs) \<le> max 0 (b - a + 1)"
proof -
  have "length xs = card (set xs)" using assms(1) by (simp add: strict_sorted_iff distinct_card)
  also have "\<dots> \<le> card {a..b}" using assms(2) by (intro card_mono) auto
  finally show ?thesis by simp
qed

text \<open>
  A heatmap answer lists, once each and in date order, exactly the caller's non-empty buckets
  of the window (shortened to its last 366 days when it is longer), at most 367 of them; only a
  window whose ends are swapped, or whose shortened start would precede year 1, is refused.
\<close>

theorem heatmap_exact:
  assumes "reading_ok s" "from_date \<le> to_date" "367 \<le> to_date" "to_date \<le> max_ordinal"
  shows "\<exists>rows. get_heatmap u from_date to_date s = Inr rows \<and> sorted_wrt (<) (map fst rows) \<and>
    (\<forall>d x n. (d, x, n) \<in> set rows \<longleftrightarrow> max from_date (to_date - 366) \<le> d \<and> d \<le> to_date \<and>
       day_seconds u d s = x \<and> day_sessions u d s = n \<and> 1 \<le> n) \<and> length rows \<le> 367"
proof -
  define f where "f = max from_date (to_date - 366)"
  define rows where "rows = map (\<lambda>r. (ds_date r, ds_total_seconds r, ds_session_count r)) (daily_range u f to_date s)"
  have dist: "distinct (map ds_key (t_daily_stats s))"
    and pos: "\<forall>r\<in>set (t_daily_stats s). 1 \<le> ds_session_count r"
    using assms(1) by (auto simp: reading_ok_def)
  have fe: "f = (if 366 < to_date - from_date then to_date - 366 else from_date)" by (simp add: f_def max_def)
  have "get_heatmap u from_date to_date s = Inr rows"
    using assms(2-4) unfolding get_heatmap_def rows_def fe by (simp add: MAX_HEATMAP_DAYS_def add_days_def)
  moreover have dates: "map fst rows = map ds_date (daily_range u f to_date s)" by (simp add: rows_def)
  have srt: "sorted_wrt (<) (map fst rows)" unfolding dates by (rule daily_range_sorted [OF dist])
  moreover have "(d, x, n) \<in> set rows \<longleftrightarrow> f \<le> d \<and> d \<le> to_date \<and> day_seconds u d s = x \<and> day_sessions u d s = n \<and> 1 \<le> n"
    for d x n
  proof -
    have "(d, x, n) \<in> set rows \<longleftrightarrow> f \<le> d \<and> d \<le> to_date \<and>
        (\<exists>r. fetch ds_key (u, d) (t_daily_stats s) = Some r \<and> ds_total_seconds r = x \<and> ds_session_count r = n)"
      by (auto simp: rows_def daily_range_def days_tbl.get_iff [OF dist] ds_key_def)
    also have "\<dots> \<longleftrightarrow> f \<le> d \<and> d \<le> to_date \<and> day_seconds u d s = x \<and> day_sessions u d s = n \<and> 1 \<le> n"
      using pos by (auto simp: day_seconds_def day_sessions_def dest: fetch_Some_mem split: option.splits)
    finally show ?thesis .
  qed
  moreover have "int (length (map fst rows)) \<le> max 0 (to_date - f + 1)"
  proof (rule strict_sorted_length [OF srt])
    show "\<forall>x\<in>set (map fst rows). f \<le> x \<and> x \<le> to_date" by (auto simp: rows_def daily_range_def)
  qed
  then have "length rows \<le> 367" by (simp add: f_def max_def split: if_splits)
  ultimately show ?thesis unfolding f_def by blast
qed

lemma demo_ok: "reading_ok demo"
  using demo_inv by (simp add: reading_inv_def)

lemma heatmap_exact_witness:
  "\<exists>rows. get_heatmap 1 738000 738900 demo = Inr rows \<and> sorted_wrt (<) (map fst rows) \<and> length rows \<le> 367"
  using heatmap_exact [OF demo_ok, of 738000 738900 1] by (auto simp: max_ordinal_def)

text \<open>
  The clamp is one day off the documented one: a full window has 367 days.
\<close>

lemma heatmap_clamp_367:
  assumes "add_days b (- MAX_HEATMAP_DAYS) = Inr a"
  shows "b - a + 1 = 367"
  using assms by (simp add: MAX_HEATMAP_DAYS_def add_days_def split: if_splits)

section \<open>Current goals\<close>

lemma filter_newest: "filter P (newest_goals gs) = newest_goals (filter P gs)"
  by (simp add: newest_goals_def order_desc_def filter_sort)

lemma set_newest [simp]: "set (newest_goals gs) = set gs"
  by (simp add: newest_goals_def)

lemma first_per_period_set: "set (first_per_period seen gs) \<subseteq> set gs"
  by (induction seen gs rule: first_per_period.induct) auto

lemma first_per_period_fresh: "g \<in> set (first_per_period seen gs) \<Longrightarrow> go_period g \<notin> set seen"
  by (induction seen gs rule: first_per_period.induct) (auto split: if_splits)

lemma first_per_period_distinct: "distinct (map go_period (first_per_period seen gs))"
  by (induction seen gs rule: first_per_period.induct) (auto dest: first_per_period_fresh)

lemma first_per_period_find:
  "List.find (\<lambda>g. go_period g = per) (first_per_period seen gs) =
     (if per \<in> set seen then None
      else case filter (\<lambda>g. go_period g = per) gs of [] \<Rightarrow> None | g # _ \<Rightarrow> Some g)"
  by (induction seen gs rule: first_per_period.induct) (auto split: list.splits)

text \<open>
  The current-goals screen shows at most one goal per period, each one active on the day, and
  for every period it is the very goal that \<open>active_for\<close> (the newest active one) selects.
\<close>

theorem current_goals_newest:
  "distinct (map go_period (goal_list_active u d s)) \<and>
   (\<forall>g \<in> set (goal_list_active u d s). g \<in> set (t_goals s) \<and> go_user_id g = u \<and> go_start_date g \<le> d \<and> d \<le> go_end_date g) \<and>
   List.find (\<lambda>g. go_period g = per) (goal_list_active u d s) = goal_active_for u per d s"
proof -
  have "filter (\<lambda>g. go_period g = per) (newest_goals (filter (\<lambda>g. go_user_id g = u \<and> go_start_date g \<le> d \<and> d \<le> go_end_date g) (t_goals s))) =
      newest_goals (filter (\<lambda>g. go_user_id g = u \<and> go_period g = per \<and> go_start_date g \<le> d \<and> d \<le> go_end_date g) (t_goals s))"
    unfolding filter_newest filter_filter by (intro arg_cong [where f = newest_goals] filter_cong) auto
  then have fnd: "List.find (\<lambda>g. go_period g = per) (goal_list_active u d s) = goal_active_for u per d s"
    by (simp add: goal_list_active_def goal_active_for_def first_per_period_find)
  have "\<forall>g \<in> set (goal_list_active u d s). g \<in> set (t_goals s) \<and> go_user_id g = u \<and> go_start_date g \<le> d \<and> d \<le> go_end_date g"
    unfolding goal_list_active_def by (auto dest!: subsetD [OF first_per_period_set])
  moreover have "distinct (map go_period (goal_list_active u d s))"
    by (simp add: goal_list_active_def first_per_period_distinct)
  ultimately show ?thesis using fnd by (intro conjI)
qed

lemma current_goals_newest_witness:
  "distinct (map go_period (goal_list_active 1 738000 demo)) \<and>
   List.find (\<lambda>g. go_period g = WEEKLY) (goal_list_active 1 738000 demo) = goal_active_for 1 WEEKLY 738000 demo"
  using current_goals_newest [of 1 738000 demo WEEKLY] by blast

section \<open>The Pro gate\<close>

text \<open>
  The advanced statistics are served exactly to users whose Pro flag is set and whose period,
  if it has an end, has not passed it; with no subscription port wired, to nobody.
\<close>

theorem advanced_stats_gate:
  "(\<exists>r. get_advanced_stats cfg rows now u s = Inr r) \<longleftrightarrow>
     subscription_query cfg \<and> (\<exists>usr. fetch us_id u (t_users s) = Some usr \<and> us_is_pro usr \<and>
       (case us_pro_expires_at usr of None \<Rightarrow> True | Some e \<Rightarrow> now \<le> e))"
proof -
  let ?m = "if subscription_query cfg then is_pro now u s else Inr False"
  have "(\<exists>r. get_advanced_stats cfg rows now u s = Inr r) \<longleftrightarrow> ?m = Inr True"
    unfolding get_advanced_stats_def by (cases ?m) (simp_all only: bindE_simps, simp_all add: Let_def)
  also have "\<dots> \<longleftrightarrow> subscription_query cfg \<and> (\<exists>usr. fetch us_id u (t_users s) = Some usr \<and> us_is_pro usr \<and>
       (case us_pro_expires_at usr of None \<Rightarrow> True | Some e \<Rightarrow> now \<le> e))"
    by (auto simp: is_pro_def split: option.splits)
  finally show ?thesis .
qed

section \<open>What the recap adds up\<close>

text \<open>
  The aggregate is documented as timer seconds; a manual session counts all the same.
\<close>

lemma recap_counts_manual:
  "recap_aggregate_stats 1 719163 3652059
     (demo\<lparr>t_reading_sessions := [\<lparr>rs_id = 9, rs_user_id = 1, rs_user_book_id = 100, rs_started_at = t0,
        rs_ended_at = Some (t0 + 600000000), rs_duration_sec = Some 600, rs_source = MANUAL,
        rs_device = None, rs_note = None, rs_created_at = t0\<rparr>]\<rparr>) = (0, 600)"
  by (simp add: recap_aggregate_stats_def finished_in_def utc_date_def day_us_def t0_def)

section \<open>Windowed counts of completed books\<close>

text \<open>
  No request of the library stamps \<open>finished_at\<close>: entries are created without it and no update
  writes it. A windowed count of completed books (year statistics, goals) is then zero, however
  many books are completed.
\<close>

definition never_finished :: "sess \<Rightarrow> bool" where
  "never_finished s \<longleftrightarrow> (\<forall>ub\<in>set (t_user_books s). ub_finished_at ub = None)"

lemma windowed_count_zero:
  assumes "never_finished s" "count_completed_books u (Some a) b s = Inr n"
  shows "n = 0"
  using assms by (auto simp: count_completed_books_def never_finished_def filter_empty_conv split: option.splits)

lemma update_status_Inr:
  assumes "update_status w fid fnow u ub st s = Inr (r, s')"
  shows "t_user_books s' = amend ub_id ub (\<lambda>r. r\<lparr>ub_status := st\<rparr>) (t_user_books s)"
proof -
  obtain s1 where s1: "repo_update_status ub st s = Inr (r, s1)"
    and fin: "s' = s1 \<or> (\<exists>b. record_book_completed w fid fnow u b (stage_event (UserBookCompleted u ub b) s1) = Inr ((), s'))"
    using assms by (auto simp: update_status_def split: option.splits if_splits)
  have "t_user_books s' = t_user_books s1"
    using fin by (auto dest!: record_extends(3) simp: stream_extends_def stage_event_def)
  then show ?thesis using s1 by (auto simp: repo_update_status_def split: option.splits)
qed

lemma reading_step_user_books:
  assumes "reading_step x s = Inr s'"
  shows "t_user_books s' = t_user_books s \<or>
    (\<exists>r. t_user_books s' = t_user_books s @ [r] \<and> ub_finished_at r = None) \<or>
    (\<exists>ub st. t_user_books s' = amend ub_id ub (\<lambda>r. r\<lparr>ub_status := st\<rparr>) (t_user_books s))"
proof (cases x)
  case (StartSession i now u ub dev)
  then show ?thesis using assms by (auto dest: start_session_Inr(6))
next
  case (EndSession cfg fid fnow u sid e off p)
  then obtain c where "end_session cfg fid fnow u sid e off p s = Inr (c, s')" using assms by auto
  then show ?thesis by (rule end_session_Inr) simp
next
  case (LogManual i now u ub a b nt)
  then show ?thesis using assms by (auto dest: log_manual_Inr(8))
next
  case (CreateGoal i now u per tb ts d)
  then show ?thesis using assms by (auto dest: other_tables)
next
  case (AddBookmark i now u ub pg nt)
  then show ?thesis using assms by (auto dest: other_tables)
next
  case (GetGrade u)
  then show ?thesis using assms by (auto simp: get_grade_def dest: get_or_init_Inr(3))
next
  case (AddToLibrary i now u b st)
  then show ?thesis using assms
    by (auto simp: add_to_library_def create_user_book_def insert_row_def Let_def split: option.splits if_splits)
next
  case (UpdateStatus w fid fnow u ub st)
  then show ?thesis using assms by (auto dest: update_status_Inr)
qed

interpretation finished: guarded_machine reading_step never_finished
proof
  fix s x s'
  assume "never_finished s" "reading_step x s = Inr s'"
  then show "never_finished s'"
    using reading_step_user_books [of x s s'] by (auto simp: never_finished_def set_amend)
qed

text \<open>
  Whatever the users do, a count of completed books restricted to a window (year statistics,
  the books axis of a goal) stays zero: completing a book never stamps \<open>finished_at\<close>.
\<close>

theorem windowed_books_stay_zero:
  assumes "reach reading_step s0 s" "never_finished s0" "count_completed_books u (Some a) b s = Inr n"
  shows "n = 0"
  using windowed_count_zero [OF finished.reach_inv [OF assms(1,2)] assms(3)] .

lemma windowed_books_stay_zero_witness:
  "\<exists>n. count_completed_books 1 (Some 738000) (Some 739000)
     (run reading_step demo [UpdateStatus True 60 t0 1 100 COMPLETED]) = Inr n \<and> n = 0"
proof -
  let ?s = "run reading_step demo [UpdateStatus True 60 t0 1 100 COMPLETED]"
  obtain n where n: "count_completed_books 1 (Some 738000) (Some 739000) ?s = Inr n"
    by (simp add: count_completed_books_def add_days_def max_ordinal_def)
  have "never_finished demo" by (simp add: never_finished_def)
  then show ?thesis using windowed_books_stay_zero [OF reach_run _ n] n by blast
qed

section \<open>Averages\<close>

text \<open>
  The reading statistics that PostgreSQL averages over exact numerics. A quotient of numerics is rounded
  to a scale the server chooses: \<open>quot\<close> is a parameter. Python reads the result as the nearest float.
\<close>

definition numeric_avg :: "(rat \<Rightarrow> rat \<Rightarrow> rat) \<Rightarrow> rat list \<Rightarrow> rat option" where
  "numeric_avg quot xs = (if xs = [] then None else Some (quot (sum_list xs) (of_nat (length xs))))"

text \<open>
  The timer sessions with bookmarks on different pages within their time: when they ended, how long they
  took and how many pages lie between the bookmarks.
\<close>

definition bookmarked_pages :: "uuid \<Rightarrow> reading_session \<Rightarrow> datetime \<Rightarrow> sess \<Rightarrow> int list" where
  "bookmarked_pages user_id rs ended_at s =
     map bm_page (filter (\<lambda>bm. bm_user_book_id bm = rs_user_book_id rs \<and> bm_user_id bm = user_id \<and>
       rs_started_at rs \<le> bm_created_at bm \<and> bm_created_at bm \<le> ended_at) (t_bookmarks s))"

definition session_row :: "uuid \<Rightarrow> sess \<Rightarrow> reading_session \<Rightarrow> (datetime \<times> int \<times> int) option" where
  "session_row user_id s rs =
     (if rs_user_id rs \<noteq> user_id \<or> rs_source rs \<noteq> TIMER then None
      else case rs_ended_at rs of None \<Rightarrow> None
      | Some ended_at \<Rightarrow> case rs_duration_sec rs of None \<Rightarrow> None
      | Some duration \<Rightarrow>
          let pages = bookmarked_pages user_id rs ended_at s
          in if 0 < duration \<and> pages \<noteq> [] \<and> Min (set pages) < Max (set pages)
             then Some (ended_at, duration, Max (set pages) - Min (set pages)) else None)"

definition session_pages :: "uuid \<Rightarrow> sess \<Rightarrow> (datetime \<times> int \<times> int) list" where
  "session_pages user_id s = List.map_filter (session_row user_id s) (t_reading_sessions s)"

definition minutes_per_page :: "(rat \<Rightarrow> rat \<Rightarrow> rat) \<Rightarrow> int \<times> int \<Rightarrow> rat" where
  "minutes_per_page quot row = (case row of (duration, page_delta) \<Rightarrow> quot (quot (of_int duration) 60) (of_int page_delta))"

definition pages_per_hour :: "(rat \<Rightarrow> rat \<Rightarrow> rat) \<Rightarrow> int \<times> int \<Rightarrow> rat" where
  "pages_per_hour quot row = (case row of (duration, page_delta) \<Rightarrow> quot (of_int page_delta) (quot (of_int duration) 3600))"

definition avg_speed :: "(rat \<Rightarrow> rat \<Rightarrow> rat) \<Rightarrow> uuid \<Rightarrow> sess \<Rightarrow> rat option \<times> rat option" where
  "avg_speed quot user_id s =
     (let rows = map snd (session_pages user_id s)
      in (map_option fl (numeric_avg quot (map (minutes_per_page quot) rows)),
          map_option fl (numeric_avg quot (map (pages_per_hour quot) rows))))"

text \<open>Months are counted from the year 0; a window of months begins on the first of a month.\<close>

definition month_index :: "date \<Rightarrow> int" where
  "month_index d = 12 * year_of d + month_of d - 1"

definition window_buckets :: "datetime \<Rightarrow> uuid \<Rightarrow> int \<Rightarrow> sess \<Rightarrow> daily_stat list" where
  "window_buckets now user_id months s =
     (let first = month_index (utc_date now) - (months - 1)
      in filter (\<lambda>r. ds_user_id r = user_id \<and> ymd2ord (first div 12) (first mod 12 + 1) 1 \<le> ds_date r) (t_daily_stats s))"

definition month_seconds :: "daily_stat list \<Rightarrow> (int \<times> int) list" where
  "month_seconds rows = order_asc fst (group_agg sum_list (map (\<lambda>r. (month_index (ds_date r), ds_total_seconds r)) rows))"

definition monthly_hours :: "(rat \<Rightarrow> rat \<Rightarrow> rat) \<Rightarrow> datetime \<Rightarrow> uuid \<Rightarrow> int \<Rightarrow> sess \<Rightarrow> ((int \<times> int) \<times> rat) list" where
  "monthly_hours quot now user_id months s =
     map (\<lambda>(m, secs). ((m div 12, m mod 12 + 1), fl (quot (of_int secs) 3600)))
       (month_seconds (window_buckets now user_id months s))"

definition avg_completion_days :: "(rat \<Rightarrow> rat \<Rightarrow> rat) \<Rightarrow> uuid \<Rightarrow> sess \<Rightarrow> rat option" where
  "avg_completion_days quot user_id s =
     map_option fl (numeric_avg quot (List.map_filter (\<lambda>ub.
         if ub_user_id ub = user_id \<and> ub_status ub = COMPLETED then
           (case (ub_started_at ub, ub_finished_at ub) of
              (Some a, Some b) \<Rightarrow> if a < b then Some (quot (of_int (b - a) / 1000000) 86400) else None
            | _ \<Rightarrow> None)
         else None) (t_user_books s)))"

definition week_of :: "datetime \<Rightarrow> date" where
  "week_of t = utc_date t - weekday (utc_date t)"

definition get_speed_trend :: "(rat \<Rightarrow> rat \<Rightarrow> rat) \<Rightarrow> datetime \<Rightarrow> uuid \<Rightarrow> int \<Rightarrow> sess \<Rightarrow> (date \<times> rat) list" where
  "get_speed_trend quot now user_id weeks s =
     (let rows = filter (\<lambda>(ended_at, _). midnight (week_of now) - 7 * day_us * (weeks - 1) \<le> ended_at) (session_pages user_id s);
          week_starts = remdups (map (week_of \<circ> fst) rows)
      in map (\<lambda>w. (w, fl (the (numeric_avg quot (map (minutes_per_page quot \<circ> snd) (filter (\<lambda>r. week_of (fst r) = w) rows))))))
           (sort week_starts))"

record reading_stats =
  rt_speed :: "rat option \<times> rat option"
  rt_format_breakdown :: "int \<times> int \<times> int"
  rt_monthly_hours :: "((int \<times> int) \<times> rat) list"
  rt_genre_breakdown :: "(pystr \<times> int) list"
  rt_avg_completion_days :: "rat option"

definition get_reading_stats :: "(rat \<Rightarrow> rat \<Rightarrow> rat) \<Rightarrow> datetime \<Rightarrow> uuid \<Rightarrow> sess \<Rightarrow> reading_stats" where
  "get_reading_stats quot now user_id s =
     \<lparr>rt_speed = avg_speed quot user_id s, rt_format_breakdown = format_breakdown user_id s,
      rt_monthly_hours = monthly_hours quot now user_id 12 s, rt_genre_breakdown = genre_breakdown user_id 5 s,
      rt_avg_completion_days = avg_completion_days quot user_id s\<rparr>"

definition get_advanced_stats_now :: "(rat \<Rightarrow> rat \<Rightarrow> rat) \<Rightarrow> config \<Rightarrow> datetime \<Rightarrow> uuid \<Rightarrow> sess \<Rightarrow> advanced_stats result" where
  "get_advanced_stats_now quot cfg now user_id s = get_advanced_stats cfg (get_speed_trend quot now user_id 4 s) now user_id s"

text \<open>A mean of positive numbers times the mean of their inverses is at least one.\<close>

lemma mean_inverse:
  assumes "\<forall>x \<in> set xs. 0 < (x :: rat)"
  shows "of_nat (length xs) * of_nat (length xs) \<le> sum_list xs * sum_list (map (\<lambda>x. 1 / x) xs)"
  using assms
proof (induction xs)
  case (Cons x xs)
  let ?n = "of_nat (length xs) :: rat" and ?S = "sum_list xs" and ?T = "sum_list (map (\<lambda>x. 1 / x) xs)"
  have x: "0 < x" using Cons.prems by simp
  have st: "0 \<le> ?S" "0 \<le> ?T" using Cons.prems by (auto intro!: sum_list_nonneg simp: order_less_imp_le)
  have "?n * ?n \<le> ?S * ?T" using Cons by simp
  moreover have "(?S / x - x * ?T)\<^sup>2 \<ge> 0" by simp
  then have "4 * (?S * ?T) \<le> (?S / x + x * ?T)\<^sup>2" using x by (simp add: power2_eq_square field_simps)
  ultimately have "(2 * ?n)\<^sup>2 \<le> (?S / x + x * ?T)\<^sup>2" by (simp add: power2_eq_square)
  then have "2 * ?n \<le> ?S / x + x * ?T" by (rule power2_le_imp_le) (use st x in simp)
  moreover have "(x + ?S) * (1 / x + ?T) = 1 + (?S / x + x * ?T) + ?S * ?T" using x by (simp add: field_simps)
  ultimately show ?case using \<open>?n * ?n \<le> ?S * ?T\<close> by (simp add: algebra_simps)
qed simp

lemma session_row_positive: "session_row u s rs = Some (e, d, p) \<Longrightarrow> 0 < d \<and> 0 < p"
  by (auto simp: session_row_def Let_def split: if_splits option.splits)

lemma session_pages_positive: "(e, d, p) \<in> set (session_pages u s) \<Longrightarrow> 0 < d \<and> 0 < p"
  unfolding session_pages_def mem_map_filter by (blast dest: session_row_positive)

lemma sum_list_scaled: "(\<Sum>x\<leftarrow>xs. (c :: rat) * f x) = c * (\<Sum>x\<leftarrow>xs. f x)"
  by (induction xs) (simp_all add: distrib_left)

text \<open>
  The two speeds are shown together or not at all, and they are not inverses of each other: their
  product (before Python rounds) is at least sixty minutes an hour, as a mean of inverses is at least the
  inverse of the mean.
\<close>
theorem speeds_are_not_inverse:
  "let rows = map snd (session_pages u s);
       minutes = sum_list (map (minutes_per_page (/)) rows) / of_nat (length rows);
       pages = sum_list (map (pages_per_hour (/)) rows) / of_nat (length rows)
   in avg_speed (/) u s = (if rows = [] then (None, None) else (Some (fl minutes), Some (fl pages))) \<and>
      (rows = [] \<or> 60 \<le> minutes * pages)"
proof -
  define rows where "rows = map snd (session_pages u s)"
  let ?xs = "map (minutes_per_page (/)) rows" and ?n = "of_nat (length rows) :: rat"
  have a: "avg_speed (/) u s = (if rows = [] then (None, None) else
      (Some (fl (sum_list ?xs / ?n)), Some (fl (sum_list (map (pages_per_hour (/)) rows) / ?n))))"
    by (simp add: avg_speed_def numeric_avg_def rows_def Let_def)
  have "60 \<le> sum_list ?xs / ?n * (sum_list (map (pages_per_hour (/)) rows) / ?n)" if "rows \<noteq> []"
  proof -
    have pos: "0 < d \<and> 0 < p" if "(d, p) \<in> set rows" for d p using that session_pages_positive by (auto simp: rows_def)
    have "pages_per_hour (/) r = 60 * (1 / minutes_per_page (/) r)" if "r \<in> set rows" for r
      using pos [of "fst r" "snd r"] that by (cases r) (simp add: minutes_per_page_def pages_per_hour_def field_simps)
    then have "sum_list (map (pages_per_hour (/)) rows) = sum_list (map (\<lambda>r. 60 * (1 / minutes_per_page (/) r)) rows)"
      by (intro arg_cong [of _ _ sum_list] map_cong) auto
    also have "\<dots> = 60 * sum_list (map (\<lambda>x. 1 / x) ?xs)" by (simp only: sum_list_scaled map_map comp_def)
    finally have p: "sum_list (map (pages_per_hour (/)) rows) = 60 * sum_list (map (\<lambda>x. 1 / x) ?xs)" .
    have "\<forall>x \<in> set ?xs. 0 < x" using pos by (force simp: minutes_per_page_def)
    then have "?n * ?n \<le> sum_list ?xs * sum_list (map (\<lambda>x. 1 / x) ?xs)" using mean_inverse [of ?xs] by simp
    moreover have "0 < ?n * ?n" using that by simp
    ultimately have "60 \<le> 60 * (sum_list ?xs * sum_list (map (\<lambda>x. 1 / x) ?xs)) / (?n * ?n)" by (simp only: le_divide_eq) simp
    also have "\<dots> = sum_list ?xs / ?n * (60 * sum_list (map (\<lambda>x. 1 / x) ?xs) / ?n)" by (simp add: ac_simps)
    finally show ?thesis unfolding p .
  qed
  then show ?thesis unfolding Let_def rows_def [symmetric] using a by blast
qed

text \<open>
  The monthly hours cover their window: months ascend, and their seconds add up to the heatmap buckets of
  the reader from the first day of the window on. Completing a book never records when, so the average
  of days to completion stays unknown.
\<close>

lemma sum_list_group: "sum_list (map snd (group_agg sum_list kvs)) = sum_list (map snd (kvs :: ('k \<times> int) list))"
  using tsum_split_by [of "remdups (map fst kvs)" kvs "\<lambda>_. True" fst snd] by (simp add: group_agg_def comp_def tsum_def)

lemma month_seconds_sum: "sum_list (map snd (month_seconds rows)) = sum_list (map ds_total_seconds rows)"
proof -
  have "sum_list (map snd (order_asc fst kvs)) = sum_list (map snd kvs)" for kvs :: "(int \<times> int) list"
    unfolding order_asc_def by (metis mset_map mset_sort sum_mset_sum_list)
  then show ?thesis by (simp add: month_seconds_def sum_list_group comp_def)
qed

lemma month_seconds_ascend: "sorted_wrt (<) (map fst (month_seconds rows))"
proof -
  have "distinct (map fst (group_agg sum_list kvs))" for kvs :: "(int \<times> int) list"
    by (simp add: group_agg_def comp_def)
  then have "distinct (map fst (month_seconds rows))" unfolding month_seconds_def by (simp add: distinct_map_order_asc)
  moreover have "sorted (map fst (month_seconds rows))" unfolding month_seconds_def by (rule sorted_order_asc)
  ultimately show ?thesis by (simp add: strict_sorted_iff)
qed

theorem monthly_hours_cover_window:
  "monthly_hours quot now u months s =
     map (\<lambda>(m, secs). ((m div 12, m mod 12 + 1), fl (quot (of_int secs) 3600))) (month_seconds (window_buckets now u months s)) \<and>
   sorted_wrt (<) (map fst (month_seconds (window_buckets now u months s))) \<and>
   sum_list (map snd (month_seconds (window_buckets now u months s))) = sum_list (map ds_total_seconds (window_buckets now u months s))"
  by (simp add: monthly_hours_def month_seconds_ascend month_seconds_sum)

text \<open>Completing a book never records when, so the average of days to completion stays unknown.\<close>

theorem completion_days_unknown:
  assumes "reach reading_step s0 s" "never_finished s0"
  shows "avg_completion_days quot u s = None"
proof -
  have n: "never_finished s" by (rule finished.reach_inv [OF assms])
  have "List.map_filter f xs = []" if "\<forall>x \<in> set xs. f x = None" for f :: "user_book \<Rightarrow> rat option" and xs
    using that by (induction xs) (simp_all add: map_filter_Cons)
  then show ?thesis using n unfolding avg_completion_days_def numeric_avg_def never_finished_def by (auto split: option.split)
qed

lemma completion_days_unknown_witness:
  "avg_completion_days (/) 1 (run reading_step demo [UpdateStatus True 60 t0 1 100 COMPLETED]) = None"
proof -
  have "never_finished demo" by (simp add: never_finished_def)
  then show ?thesis by (rule completion_days_unknown [OF reach_run])
qed

end
