(* ===== verification/Challenge.thy ===== *)
theory Challenge
  imports Schema
begin

text \<open>
  The challenge domain: \<open>backend/app/domains/challenge/repository.py\<close> and \<open>service.py\<close> with
  the view models of \<open>schemas.py\<close>. Reads of the database clock and of the process clock within
  one operation are one parameter \<open>now\<close>. The cursor of the list endpoint is the datetime it
  parses to (\<open>None\<close> when the text is not a datetime, which the service ignores), and the base
  address of icons is the parameter \<open>base\<close>.
\<close>

section \<open>Repository: challenges\<close>

definition list_status :: "datetime \<Rightarrow> bool \<Rightarrow> string option \<Rightarrow> challenge \<Rightarrow> bool" where
  "list_status now exclude_expired_limited status ch =
     (if status = Some ''active''
      then ch_starts_at ch \<le> now \<and> now \<le> ch_ends_at ch \<and>
           (exclude_expired_limited \<longrightarrow>
              \<not> ch_is_limited ch \<or> (case ch_ends_at_exclusive ch of None \<Rightarrow> False | Some d \<Rightarrow> now \<le> d))
      else if status = Some ''upcoming'' then now < ch_starts_at ch
      else if status = Some ''ended'' then ch_ends_at ch < now
      else True)"

definition repo_list_challenges ::
    "datetime \<Rightarrow> string option \<Rightarrow> nat \<Rightarrow> datetime option \<Rightarrow> bool \<Rightarrow> sess \<Rightarrow> challenge list" where
  "repo_list_challenges now status limit cursor_at exclude_expired_limited s =
     take limit (order_asc ch_ends_at (filter
       (\<lambda>ch. list_status now exclude_expired_limited status ch \<and>
             (case cursor_at of None \<Rightarrow> True | Some c \<Rightarrow> c < ch_ends_at ch)) (t_challenges s)))"

definition get_challenge :: "uuid \<Rightarrow> sess \<Rightarrow> challenge option result" where
  "get_challenge challenge_id s = scalar_one_or_none (filter (\<lambda>ch. ch_id ch = challenge_id) (t_challenges s))"

section \<open>Repository: participation\<close>

definition get_participant :: "uuid \<Rightarrow> uuid \<Rightarrow> sess \<Rightarrow> participant option result" where
  "get_participant challenge_id user_id s =
     scalar_one_or_none (filter (\<lambda>p. pt_challenge_id p = challenge_id \<and> pt_user_id p = user_id) (t_participants s))"

definition repo_join :: "datetime \<Rightarrow> uuid \<Rightarrow> uuid \<Rightarrow> sess \<Rightarrow> participant outcome" where
  "repo_join now challenge_id user_id s =
     (let row = \<lparr>pt_challenge_id = challenge_id, pt_user_id = user_id, pt_current_value = 0,
                 pt_achieved_at = None, pt_joined_at = now\<rparr>;
          ok = fetch ch_id challenge_id (t_challenges s) \<noteq> None \<and> user_exists user_id s
      in bindE (insert_row pt_key ok row (t_participants s)) (\<lambda>rows. Inr (row, s\<lparr>t_participants := rows\<rparr>)))"

definition repo_leave :: "uuid \<Rightarrow> uuid \<Rightarrow> sess \<Rightarrow> sess" where
  "repo_leave challenge_id user_id s =
     s\<lparr>t_participants := discard (\<lambda>p. pt_challenge_id p = challenge_id \<and> pt_user_id p = user_id) (t_participants s)\<rparr>"

definition repo_leaderboard :: "uuid \<Rightarrow> nat \<Rightarrow> sess \<Rightarrow> (participant \<times> user) list" where
  "repo_leaderboard challenge_id limit s =
     take limit (order_desc (\<lambda>(p, _). pt_current_value p)
       (List.map_filter (\<lambda>p. case fetch us_id (pt_user_id p) (t_users s) of None \<Rightarrow> None
          | Some u \<Rightarrow> if pt_challenge_id p = challenge_id \<and> us_deleted_at u = None then Some (p, u) else None)
        (t_participants s)))"

definition repo_my_challenges :: "uuid \<Rightarrow> nat \<Rightarrow> sess \<Rightarrow> (challenge \<times> participant) list" where
  "repo_my_challenges user_id limit s =
     take limit (order_desc (\<lambda>(_, p). pt_joined_at p)
       (List.map_filter (\<lambda>p. if pt_user_id p = user_id
          then map_option (\<lambda>ch. (ch, p)) (fetch ch_id (pt_challenge_id p) (t_challenges s)) else None)
        (t_participants s)))"

definition participant_count :: "uuid \<Rightarrow> sess \<Rightarrow> nat" where
  "participant_count challenge_id s = length (filter (\<lambda>p. pt_challenge_id p = challenge_id) (t_participants s))"

text \<open>The batch reads answer a dict; here, the function from the requested ids.\<close>

definition batch_get_participants :: "uuid list \<Rightarrow> uuid \<Rightarrow> sess \<Rightarrow> uuid \<Rightarrow> participant option" where
  "batch_get_participants challenge_ids user_id s cid =
     (if cid \<in> set challenge_ids
      then List.find (\<lambda>p. pt_challenge_id p = cid)
             (rev (filter (\<lambda>p. pt_challenge_id p \<in> set challenge_ids \<and> pt_user_id p = user_id) (t_participants s)))
      else None)"

definition batch_participant_counts :: "uuid list \<Rightarrow> sess \<Rightarrow> uuid \<Rightarrow> nat" where
  "batch_participant_counts challenge_ids s cid =
     (if cid \<in> set challenge_ids then participant_count cid s else 0)"

definition list_user_active_challenges ::
    "datetime \<Rightarrow> uuid \<Rightarrow> challenge_type \<Rightarrow> sess \<Rightarrow> (challenge \<times> participant) list" where
  "list_user_active_challenges now user_id ctype s =
     List.map_filter (\<lambda>p. case fetch ch_id (pt_challenge_id p) (t_challenges s) of None \<Rightarrow> None
        | Some ch \<Rightarrow> if pt_user_id p = user_id \<and> ch_challenge_type ch = ctype \<and> ch_starts_at ch \<le> now \<and>
                         now \<le> ch_ends_at ch \<and> pt_achieved_at p = None
                     then Some (ch, p) else None)
       (t_participants s)"

definition update_progress :: "uuid \<Rightarrow> uuid \<Rightarrow> int \<Rightarrow> datetime option \<Rightarrow> sess \<Rightarrow> sess result" where
  "update_progress challenge_id user_id val achieved_at s =
     (if int4 val
      then Inr (s\<lparr>t_participants := amend pt_key (challenge_id, user_id)
             (\<lambda>p. p\<lparr>pt_current_value := val, pt_achieved_at := achieved_at\<rparr>) (t_participants s)\<rparr>)
      else Inl DataError)"

section \<open>Repository: badges\<close>

definition get_limited_challenge_by_exclusive_badge :: "uuid \<Rightarrow> sess \<Rightarrow> challenge option result" where
  "get_limited_challenge_by_exclusive_badge badge_id s =
     scalar_one_or_none (filter (\<lambda>ch. ch_is_limited ch \<and> ch_badge_id_exclusive ch = Some badge_id) (t_challenges s))"

definition get_badge :: "uuid \<Rightarrow> sess \<Rightarrow> badge option result" where
  "get_badge badge_id s = scalar_one_or_none (filter (\<lambda>b. bg_id b = badge_id) (t_badges s))"

definition has_badge :: "uuid \<Rightarrow> uuid \<Rightarrow> sess \<Rightarrow> bool result" where
  "has_badge user_id badge_id s =
     bindE (scalar_one_or_none (filter (\<lambda>r. ubg_user_id r = user_id \<and> ubg_badge_id r = badge_id) (t_user_badges s)))
       (\<lambda>r. Inr (r \<noteq> None))"

definition repo_award_badge :: "datetime \<Rightarrow> uuid \<Rightarrow> uuid \<Rightarrow> sess \<Rightarrow> sess result" where
  "repo_award_badge now user_id badge_id s =
     (let row = \<lparr>ubg_user_id = user_id, ubg_badge_id = badge_id, ubg_earned_at = now, ubg_pin_order = 0\<rparr>;
          ok = user_exists user_id s \<and> fetch bg_id badge_id (t_badges s) \<noteq> None
      in bindE (insert_row ubg_key ok row (t_user_badges s)) (\<lambda>rows. Inr (s\<lparr>t_user_badges := rows\<rparr>)))"

fun badge_category_of :: "string \<Rightarrow> badge_category result" where
  "badge_category_of c =
     (if c = ''reading'' then Inr READING_BADGE
      else if c = ''challenge'' then Inr CHALLENGE_BADGE
      else if c = ''social'' then Inr SOCIAL_BADGE
      else Inl ValueError)"

definition repo_list_badges :: "string option \<Rightarrow> sess \<Rightarrow> badge list result" where
  "repo_list_badges category s =
     bindE (case category of None \<Rightarrow> Inr None | Some c \<Rightarrow> bindE (badge_category_of c) (\<lambda>k. Inr (Some k)))
       (\<lambda>k. Inr (order_asc bg_created_at
          (filter (\<lambda>b. case k of None \<Rightarrow> True | Some c \<Rightarrow> bg_category b = c) (t_badges s))))"

definition repo_my_badges :: "uuid \<Rightarrow> sess \<Rightarrow> (badge \<times> user_badge) list" where
  "repo_my_badges user_id s =
     order_desc (\<lambda>(_, ub). ubg_earned_at ub)
       (List.map_filter (\<lambda>ub. if ubg_user_id ub = user_id
          then map_option (\<lambda>b. (b, ub)) (fetch bg_id (ubg_badge_id ub) (t_badges s)) else None)
        (t_user_badges s))"

definition set_pins :: "uuid \<Rightarrow> (nat \<times> uuid) list \<Rightarrow> user_badge list \<Rightarrow> user_badge list" where
  "set_pins user_id numbered rows =
     foldl (\<lambda>rows (i, badge_id). amend ubg_key (user_id, badge_id) (\<lambda>r. r\<lparr>ubg_pin_order := int i\<rparr>) rows) rows numbered"

definition repo_reorder_pinned_badges :: "uuid \<Rightarrow> uuid list \<Rightarrow> sess \<Rightarrow> sess" where
  "repo_reorder_pinned_badges user_id ordered_badge_ids s =
     s\<lparr>t_user_badges := set_pins user_id (enumerate 0 ordered_badge_ids)
         (map (\<lambda>r. if ubg_user_id r = user_id then r\<lparr>ubg_pin_order := 0\<rparr> else r) (t_user_badges s))\<rparr>"

definition badge_earner_count :: "uuid \<Rightarrow> sess \<Rightarrow> nat" where
  "badge_earner_count badge_id s = length (filter (\<lambda>r. ubg_badge_id r = badge_id) (t_user_badges s))"

text \<open>\<open>String(n)\<close> columns refuse longer values; the request models refuse them first.\<close>

definition create_badge ::
    "uuid \<Rightarrow> datetime \<Rightarrow> pystr \<Rightarrow> pystr \<Rightarrow> string \<Rightarrow> string \<Rightarrow> sess \<Rightarrow> badge outcome" where
  "create_badge new_id now nam description category icon_key s =
     bindE (badge_category_of category) (\<lambda>c.
     if 100 < length nam \<or> 500 < length icon_key then Inl DataError
     else let row = \<lparr>bg_id = new_id, bg_name = nam, bg_description = description, bg_category = c,
                     bg_icon_key = icon_key, bg_created_at = now\<rparr>
          in bindE (insert_row bg_id True row (t_badges s)) (\<lambda>rows. Inr (row, s\<lparr>t_badges := rows\<rparr>)))"

fun challenge_type_of :: "string \<Rightarrow> challenge_type result" where
  "challenge_type_of c =
     (if c = ''books_count'' then Inr BOOKS_COUNT
      else if c = ''reading_time'' then Inr READING_TIME
      else if c = ''streak'' then Inr STREAK
      else if c = ''genre'' then Inr GENRE
      else Inl ValueError)"

definition badge_fk :: "uuid option \<Rightarrow> sess \<Rightarrow> bool" where
  "badge_fk b s = (case b of None \<Rightarrow> True | Some i \<Rightarrow> fetch bg_id i (t_badges s) \<noteq> None)"

definition create_challenge ::
    "uuid \<Rightarrow> datetime \<Rightarrow> pystr \<Rightarrow> pystr option \<Rightarrow> string \<Rightarrow> int \<Rightarrow> pystr option \<Rightarrow> datetime \<Rightarrow> datetime \<Rightarrow>
     uuid option \<Rightarrow> bool \<Rightarrow> datetime option \<Rightarrow> uuid option \<Rightarrow> sess \<Rightarrow> challenge outcome" where
  "create_challenge new_id now title description ctype target_value genre_filter starts_at ends_at
       badge_id is_limited ends_at_exclusive badge_id_exclusive s =
     bindE (challenge_type_of ctype) (\<lambda>t.
     if 100 < length title \<or> \<not> int4 target_value \<or> (case genre_filter of None \<Rightarrow> False | Some g \<Rightarrow> 50 < length g)
     then Inl DataError
     else let row = \<lparr>ch_id = new_id, ch_title = title, ch_description = description, ch_challenge_type = t,
                     ch_target_value = target_value, ch_genre_filter = genre_filter, ch_starts_at = starts_at,
                     ch_ends_at = ends_at, ch_badge_id = badge_id, ch_is_limited = is_limited,
                     ch_ends_at_exclusive = ends_at_exclusive, ch_badge_id_exclusive = badge_id_exclusive,
                     ch_created_at = now\<rparr>;
              ok = badge_fk badge_id s \<and> badge_fk badge_id_exclusive s
          in bindE (insert_row ch_id ok row (t_challenges s)) (\<lambda>rows. Inr (row, s\<lparr>t_challenges := rows\<rparr>)))"

end
