(* ===== verification/ChallengeService.thy ===== *)
theory ChallengeService
  imports Challenge
begin

text \<open>
  \<open>ChallengeService\<close> of \<open>backend/app/domains/challenge/service.py\<close> and the two admin endpoints of
  \<open>backend/app/api/admin.py\<close>. \<open>stage\<close> is true in the modes where \<open>self.stage_event\<close> is set.
\<close>

section \<open>Views\<close>

definition icon_url :: "string \<Rightarrow> string \<Rightarrow> string" where
  "icon_url base icon_key =
     (let b = rev (dropWhile (\<lambda>c. c = CHR ''/'') (rev base))
      in if b = [] then icon_key else b @ ''/'' @ icon_key)"

record badge_view =
  bv_id :: uuid
  bv_name :: pystr
  bv_description :: pystr
  bv_category :: badge_category
  bv_icon_url :: string

definition badge_view_of :: "string \<Rightarrow> badge \<Rightarrow> badge_view" where
  "badge_view_of base b = \<lparr>bv_id = bg_id b, bv_name = bg_name b, bv_description = bg_description b,
     bv_category = bg_category b, bv_icon_url = icon_url base (bg_icon_key b)\<rparr>"

record challenge_public =
  cp_challenge :: challenge
  cp_participant_count :: nat
  cp_is_joined :: bool
  cp_my_progress :: "int option"
  cp_achieved_at :: "datetime option"
  cp_badge :: "badge_view option"
  cp_days_remaining :: "int option"

definition compute_days_remaining :: "datetime \<Rightarrow> challenge \<Rightarrow> int option" where
  "compute_days_remaining now ch =
     map_option (\<lambda>deadline. max ((deadline - now) div day_us) 0) (ch_ends_at_exclusive ch)"

definition public_view :: "datetime \<Rightarrow> challenge \<Rightarrow> nat \<Rightarrow> participant option \<Rightarrow> badge_view option \<Rightarrow> challenge_public" where
  "public_view now ch cnt p b =
     \<lparr>cp_challenge = ch, cp_participant_count = cnt, cp_is_joined = (p \<noteq> None),
      cp_my_progress = map_option pt_current_value p, cp_achieved_at = Option.bind p pt_achieved_at,
      cp_badge = b, cp_days_remaining = compute_days_remaining now ch\<rparr>"

section \<open>Requests\<close>

definition list_challenges ::
    "datetime \<Rightarrow> uuid \<Rightarrow> string option \<Rightarrow> int \<Rightarrow> datetime option \<Rightarrow> sess \<Rightarrow> challenge_public list \<times> datetime option" where
  "list_challenges now viewer_id status limit cursor s =
     (let clamped = max 1 (min limit 50);
          challenges = repo_list_challenges now status (nat clamped) cursor True s;
          ids = map ch_id challenges;
          participants = batch_get_participants ids viewer_id s;
          counts = batch_participant_counts ids s;
          items = map (\<lambda>ch. public_view now ch (counts (ch_id ch)) (participants (ch_id ch)) None) challenges
      in (items, if int (length challenges) = clamped then Some (ch_ends_at (last challenges)) else None))"

definition get_challenge_detail ::
    "datetime \<Rightarrow> string \<Rightarrow> uuid \<Rightarrow> uuid \<Rightarrow> sess \<Rightarrow> challenge_public result" where
  "get_challenge_detail now base challenge_id viewer_id s =
     bindE (get_challenge challenge_id s) (\<lambda>c.
     bindE (required (DomainError NotFoundError ''CHALLENGE_NOT_FOUND'') c) (\<lambda>ch.
     bindE (get_participant challenge_id viewer_id s) (\<lambda>p.
     bindE (case ch_badge_id ch of None \<Rightarrow> Inr None
        | Some b \<Rightarrow> bindE (repo_list_badges None s) (\<lambda>badges.
            Inr (map_option (badge_view_of base) (List.find (\<lambda>x. bg_id x = b) badges)))) (\<lambda>badge_view.
     Inr (public_view now ch (participant_count challenge_id s) p badge_view)))))"

definition join :: "datetime \<Rightarrow> uuid \<Rightarrow> uuid \<Rightarrow> sess \<Rightarrow> participant outcome" where
  "join now challenge_id user_id s =
     bindE (get_challenge challenge_id s) (\<lambda>c.
     bindE (required (DomainError NotFoundError ''CHALLENGE_NOT_FOUND'') c) (\<lambda>ch.
     if ch_ends_at ch < now then Inl ChallengeEndedError
     else bindE (get_participant challenge_id user_id s) (\<lambda>existing.
       if existing \<noteq> None then Inl AlreadyJoinedError
       else repo_join now challenge_id user_id s)))"

definition leave :: "uuid \<Rightarrow> uuid \<Rightarrow> sess \<Rightarrow> unit outcome" where
  "leave challenge_id user_id s =
     bindE (get_participant challenge_id user_id s) (\<lambda>existing.
       if existing = None then Inl (DomainError NotFoundError ''NOT_PARTICIPANT'')
       else Inr ((), repo_leave challenge_id user_id s))"

record leaderboard_entry =
  le_rank :: nat
  le_user_id :: uuid
  le_nickname :: pystr
  le_profile_image_url :: "pystr option"
  le_current_value :: int
  le_achieved_at :: "datetime option"

definition leaderboard :: "uuid \<Rightarrow> int \<Rightarrow> sess \<Rightarrow> leaderboard_entry list result" where
  "leaderboard challenge_id limit s =
     bindE (get_challenge challenge_id s) (\<lambda>c.
     bindE (required (DomainError NotFoundError ''CHALLENGE_NOT_FOUND'') c) (\<lambda>ch.
     Inr (map (\<lambda>(i, p, u). \<lparr>le_rank = i, le_user_id = pt_user_id p, le_nickname = us_nickname u,
             le_profile_image_url = us_profile_image_url u, le_current_value = pt_current_value p,
             le_achieved_at = pt_achieved_at p\<rparr>)
       (enumerate 1 (repo_leaderboard challenge_id (nat (max 1 (min limit 100))) s)))))"

definition my_challenges :: "uuid \<Rightarrow> sess \<Rightarrow> (challenge \<times> participant) list" where
  "my_challenges user_id s = repo_my_challenges user_id 20 s"

definition list_badges :: "string \<Rightarrow> string option \<Rightarrow> sess \<Rightarrow> badge_view list result" where
  "list_badges base category s = bindE (repo_list_badges category s) (\<lambda>bs. Inr (map (badge_view_of base) bs))"

definition my_badges :: "string \<Rightarrow> uuid \<Rightarrow> sess \<Rightarrow> (badge_view \<times> datetime) list" where
  "my_badges base user_id s = map (\<lambda>(b, ub). (badge_view_of base b, ubg_earned_at ub)) (repo_my_badges user_id s)"

definition reorder_pinned_badges :: "uuid \<Rightarrow> uuid list \<Rightarrow> sess \<Rightarrow> unit outcome" where
  "reorder_pinned_badges user_id badge_ids s =
     (if badge_ids \<noteq> [] \<and>
         filter (\<lambda>b. b \<notin> set (map (\<lambda>(_, ub). ubg_badge_id ub) (repo_my_badges user_id s))) badge_ids \<noteq> []
      then Inl (DomainError NotFoundError ''BADGE_NOT_OWNED'')
      else Inr ((), repo_reorder_pinned_badges user_id badge_ids s))"

definition guard_exclusive_badge_deadline :: "datetime \<Rightarrow> uuid \<Rightarrow> sess \<Rightarrow> unit result" where
  "guard_exclusive_badge_deadline now badge_id s =
     bindE (get_limited_challenge_by_exclusive_badge badge_id s) (\<lambda>c. case c of
        None \<Rightarrow> Inr ()
      | Some ch \<Rightarrow> (case ch_ends_at_exclusive ch of
            None \<Rightarrow> Inr ()
          | Some deadline \<Rightarrow> if deadline < now then Inl (DomainError ConflictError ''CHALLENGE_EXPIRED'') else Inr ()))"

definition award_badge :: "datetime \<Rightarrow> bool \<Rightarrow> uuid \<Rightarrow> uuid \<Rightarrow> sess \<Rightarrow> unit outcome" where
  "award_badge now stage user_id badge_id s =
     bindE (repo_list_badges None s) (\<lambda>badges.
     bindE (required (DomainError NotFoundError ''BADGE_NOT_FOUND'') (List.find (\<lambda>b. bg_id b = badge_id) badges)) (\<lambda>badge.
     bindE (guard_exclusive_badge_deadline now badge_id s) (\<lambda>_.
     bindE (has_badge user_id badge_id s) (\<lambda>owned.
     if owned then Inr ((), s)
     else bindE (repo_award_badge now user_id badge_id s) (\<lambda>s1.
       Inr ((), if stage then stage_event (BadgeEarned user_id badge_id (bg_name badge)) s1 else s1))))))"

section \<open>Event handlers\<close>

datatype progress_mode = MODE_ADD | MODE_MAX

text \<open>The award of one reward, which \<open>_advance_challenges\<close> writes out for each of the two badges.\<close>

definition award_reward :: "datetime \<Rightarrow> uuid \<Rightarrow> uuid \<Rightarrow> sess \<Rightarrow> sess result" where
  "award_reward now user_id badge_id s =
     bindE (get_badge badge_id s) (\<lambda>b. case b of
        None \<Rightarrow> Inr s
      | Some badge \<Rightarrow>
          bindE (has_badge user_id badge_id s) (\<lambda>owned.
          if owned then Inr s
          else bindE (repo_award_badge now user_id badge_id s) (\<lambda>s1.
            Inr (stage_event (BadgeEarned user_id badge_id (bg_name badge)) s1))))"

definition advanced_value :: "progress_mode \<Rightarrow> int \<Rightarrow> int \<Rightarrow> int" where
  "advanced_value mode delta current = (if mode = MODE_ADD then current + delta else max current delta)"

definition exclusive_open :: "datetime \<Rightarrow> challenge \<Rightarrow> uuid option" where
  "exclusive_open now ch =
     (if ch_is_limited ch
      then (case (ch_badge_id_exclusive ch, ch_ends_at_exclusive ch) of
              (Some b, Some deadline) \<Rightarrow> if now \<le> deadline then Some b else None
            | _ \<Rightarrow> None)
      else None)"

definition advance_one ::
    "datetime \<Rightarrow> uuid \<Rightarrow> int \<Rightarrow> progress_mode \<Rightarrow> challenge \<times> participant \<Rightarrow> sess \<Rightarrow> sess result" where
  "advance_one now user_id delta mode row s =
     (let (ch, p) = row;
          new_value = advanced_value mode delta (pt_current_value p);
          achieved_at = (if ch_target_value ch \<le> new_value then Some now else None)
      in bindE (update_progress (ch_id ch) user_id new_value achieved_at s) (\<lambda>s1.
         if achieved_at = None then Inr s1
         else bindE (case ch_badge_id ch of None \<Rightarrow> Inr s1 | Some b \<Rightarrow> award_reward now user_id b s1) (\<lambda>s2.
              case exclusive_open now ch of None \<Rightarrow> Inr s2 | Some b \<Rightarrow> award_reward now user_id b s2)))"

definition advance_challenges ::
    "datetime \<Rightarrow> uuid \<Rightarrow> challenge_type \<Rightarrow> int \<Rightarrow> progress_mode \<Rightarrow> sess \<Rightarrow> sess result" where
  "advance_challenges now user_id ctype delta mode s =
     foldE (advance_one now user_id delta mode) (list_user_active_challenges now user_id ctype s) s"

text \<open>
  The handler opens a session of its own, so its event queue starts empty; what it stages is
  in the queue of the session it returns.
\<close>

definition handle_progress_event ::
    "datetime \<Rightarrow> uuid \<Rightarrow> challenge_type \<Rightarrow> int \<Rightarrow> progress_mode \<Rightarrow> sess \<Rightarrow> sess result" where
  "handle_progress_event now user_id ctype delta mode s =
     advance_challenges now user_id ctype delta mode (s\<lparr>sq_events := []\<rparr>)"

definition on_reading_session_completed :: "datetime \<Rightarrow> event \<Rightarrow> sess \<Rightarrow> sess result" where
  "on_reading_session_completed now event s =
     (case event of
        ReadingSessionCompleted user_id _ _ _ duration_sec _ \<Rightarrow>
          handle_progress_event now user_id READING_TIME duration_sec MODE_ADD s
      | _ \<Rightarrow> Inr s)"

definition on_user_book_completed :: "datetime \<Rightarrow> event \<Rightarrow> sess \<Rightarrow> sess result" where
  "on_user_book_completed now event s =
     (case event of
        UserBookCompleted user_id _ _ \<Rightarrow> handle_progress_event now user_id BOOKS_COUNT 1 MODE_ADD s
      | _ \<Rightarrow> Inr s)"

definition on_grade_recomputed :: "datetime \<Rightarrow> event \<Rightarrow> sess \<Rightarrow> sess result" where
  "on_grade_recomputed now event s =
     (case event of
        UserGradeRecomputed user_id _ _ _ _ streak_days \<Rightarrow>
          handle_progress_event now user_id STREAK streak_days MODE_MAX s
      | _ \<Rightarrow> Inr s)"

section \<open>Administration\<close>

text \<open>The request model of \<open>POST /admin/challenges\<close> requires a positive target (422 otherwise).\<close>

definition admin_create_challenge ::
    "uuid \<Rightarrow> datetime \<Rightarrow> pystr \<Rightarrow> pystr option \<Rightarrow> string \<Rightarrow> int \<Rightarrow> pystr option \<Rightarrow> datetime \<Rightarrow> datetime \<Rightarrow>
     uuid option \<Rightarrow> bool \<Rightarrow> datetime option \<Rightarrow> uuid option \<Rightarrow> sess \<Rightarrow> challenge outcome" where
  "admin_create_challenge new_id now title description ctype target_value genre_filter starts_at ends_at
       badge_id is_limited ends_at_exclusive badge_id_exclusive s =
     (if 0 < target_value
      then create_challenge new_id now title description ctype target_value genre_filter starts_at ends_at
             badge_id is_limited ends_at_exclusive badge_id_exclusive s
      else Inl ValueError)"

end
