(* ===== verification/ChallengeLaws.thy ===== *)
theory ChallengeLaws
  imports ChallengeService
begin

text \<open>
  The invariant of the challenge tables, and what an advance of a user's challenges does to
  them: participants change row by row, and every new badge row has its event.
\<close>

section \<open>Primary keys and the invariant\<close>

interpretation participants_tbl: keyed_table pt_key "fetch pt_key" "\<lambda>r t. t @ [r]" "amend pt_key"
  "\<lambda>k. discard (\<lambda>r. pt_key r = k)" set "\<lambda>t. distinct (map pt_key t)"
  by (rule keyed_table_list)

interpretation user_badges_tbl: keyed_table ubg_key "fetch ubg_key" "\<lambda>r t. t @ [r]" "amend ubg_key"
  "\<lambda>k. discard (\<lambda>r. ubg_key r = k)" set "\<lambda>t. distinct (map ubg_key t)"
  by (rule keyed_table_list)

text \<open>A participant has an achievement date exactly when the target is reached.\<close>

definition participant_ok :: "challenge list \<Rightarrow> participant \<Rightarrow> bool" where
  "participant_ok chs p \<longleftrightarrow> (case fetch ch_id (pt_challenge_id p) chs of None \<Rightarrow> False
     | Some ch \<Rightarrow> pt_achieved_at p \<noteq> None \<longleftrightarrow> ch_target_value ch \<le> pt_current_value p)"

definition challenge_ok :: "sess \<Rightarrow> bool" where
  "challenge_ok s \<longleftrightarrow> distinct (map bg_id (t_badges s)) \<and> distinct (map ch_id (t_challenges s)) \<and>
     distinct (map pt_key (t_participants s)) \<and> distinct (map ubg_key (t_user_badges s)) \<and>
     (\<forall>ch \<in> set (t_challenges s). 0 < ch_target_value ch) \<and>
     (\<forall>p \<in> set (t_participants s). participant_ok (t_challenges s) p) \<and>
     (\<forall>r \<in> set (t_user_badges s). fetch bg_id (ubg_badge_id r) (t_badges s) \<noteq> None)"

definition owned_badges :: "sess \<Rightarrow> (uuid \<times> uuid) set" where
  "owned_badges s = ubg_key ` set (t_user_badges s)"

section \<open>Reads through a key\<close>

lemma get_challenge_eq: "distinct (map ch_id (t_challenges s)) \<Longrightarrow> get_challenge c s = Inr (fetch ch_id c (t_challenges s))"
  unfolding get_challenge_def by (rule scalar_key)

lemma get_badge_eq: "distinct (map bg_id (t_badges s)) \<Longrightarrow> get_badge b s = Inr (fetch bg_id b (t_badges s))"
  unfolding get_badge_def by (rule scalar_key)

lemma get_participant_eq:
  assumes "distinct (map pt_key (t_participants s))"
  shows "get_participant c u s = Inr (fetch pt_key (c, u) (t_participants s))"
proof -
  have "(\<lambda>p. pt_challenge_id p = c \<and> pt_user_id p = u) = (\<lambda>p. pt_key p = (c, u))" by (simp add: pt_key_def)
  then show ?thesis unfolding get_participant_def by (simp only: scalar_key [OF assms])
qed

lemma has_badge_eq:
  assumes "distinct (map ubg_key (t_user_badges s))"
  shows "has_badge u b s = Inr ((u, b) \<in> owned_badges s)"
proof -
  have "(\<lambda>r. ubg_user_id r = u \<and> ubg_badge_id r = b) = (\<lambda>r. ubg_key r = (u, b))" by (simp add: ubg_key_def)
  then show ?thesis unfolding has_badge_def owned_badges_def
    by (simp add: scalar_key [OF assms] fetch_None_iff del: not_None_eq)
qed

section \<open>One reward\<close>

text \<open>The event a new badge row is announced with.\<close>

definition announces :: "sess \<Rightarrow> user_badge \<Rightarrow> event" where
  "announces s r = BadgeEarned (ubg_user_id r) (ubg_badge_id r)
     (bg_name (the (fetch bg_id (ubg_badge_id r) (t_badges s))))"

text \<open>\<open>new\<close> are badge rows added to a table that did not have them, each of an existing badge.\<close>

definition fresh_badges :: "datetime \<Rightarrow> uuid \<Rightarrow> sess \<Rightarrow> user_badge list \<Rightarrow> bool" where
  "fresh_badges now u s new \<longleftrightarrow> distinct (map ubg_key (t_user_badges s @ new)) \<and>
     (\<forall>r \<in> set new. ubg_user_id r = u \<and> ubg_earned_at r = now \<and> ubg_pin_order r = 0 \<and>
        fetch bg_id (ubg_badge_id r) (t_badges s) \<noteq> None)"

definition granted :: "user_badge list \<Rightarrow> sess \<Rightarrow> sess" where
  "granted new s = s\<lparr>t_user_badges := t_user_badges s @ new, sq_events := sq_events s @ map (announces s) new\<rparr>"

lemma granted_fields [simp]:
  "t_users (granted new s) = t_users s" "t_badges (granted new s) = t_badges s"
  "t_challenges (granted new s) = t_challenges s" "t_participants (granted new s) = t_participants s"
  "t_user_badges (granted new s) = t_user_badges s @ new"
  "sq_events (granted new s) = sq_events s @ map (announces s) new"
  by (simp_all add: granted_def)

lemma announces_granted: "announces (granted new s) = announces s"
  by (simp add: announces_def fun_eq_iff)

lemma granted_granted: "granted b (granted a s) = granted (a @ b) s"
  unfolding granted_def by (simp add: announces_def)

lemma granted_Nil [simp]: "granted [] s = s"
  by (simp add: granted_def)

lemma fresh_Nil: "distinct (map ubg_key (t_user_badges s)) \<Longrightarrow> fresh_badges now u s []"
  by (simp add: fresh_badges_def)

lemma fresh_append: "fresh_badges now u s a \<Longrightarrow> fresh_badges now u (granted a s) b \<Longrightarrow> fresh_badges now u s (a @ b)"
  by (auto simp: fresh_badges_def)

lemma award_reward_Inr:
  assumes "award_reward now u b s = Inr s'" "distinct (map bg_id (t_badges s))" "distinct (map ubg_key (t_user_badges s))"
  obtains new where "s' = granted new s" "fresh_badges now u s new" "ubg_badge_id ` set new \<subseteq> {b}"
    "fetch bg_id b (t_badges s) \<noteq> None \<longrightarrow> (u, b) \<in> owned_badges s'"
proof (cases "fetch bg_id b (t_badges s) = None \<or> (u, b) \<in> owned_badges s")
  case True
  then have "s' = s"
    using assms(1) by (auto simp: award_reward_def get_badge_eq assms has_badge_eq split: option.splits)
  moreover have "fetch bg_id b (t_badges s) \<noteq> None \<longrightarrow> (u, b) \<in> owned_badges s'"
    using True \<open>s' = s\<close> by auto
  ultimately show ?thesis using that [of "[]"] assms(3) by (simp only: granted_Nil fresh_Nil) simp
next
  case False
  define r where "r = \<lparr>ubg_user_id = u, ubg_badge_id = b, ubg_earned_at = now, ubg_pin_order = 0\<rparr>"
  obtain badge where badge: "fetch bg_id b (t_badges s) = Some badge" using False by auto
  have k: "ubg_key r = (u, b)" "ubg_user_id r = u" "ubg_badge_id r = b" by (simp_all add: r_def ubg_key_def)
  have new: "(u, b) \<notin> ubg_key ` set (t_user_badges s)" using False by (simp add: owned_badges_def)
  have "s' = granted [r] s"
    using assms(1) False badge new k
    by (simp add: award_reward_def get_badge_eq assms has_badge_eq repo_award_badge_def Let_def
        insert_row_Inr_iff granted_def announces_def stage_event_def flip: r_def)
  moreover have "fresh_badges now u s [r]"
    using assms(3) new k by (simp add: fresh_badges_def badge r_def [THEN arg_cong [of _ _ ubg_earned_at]]
        r_def [THEN arg_cong [of _ _ ubg_pin_order]])
  ultimately show ?thesis using that [of "[r]"] k by (simp add: owned_badges_def)
qed

lemma award_reward_total:
  assumes "distinct (map bg_id (t_badges s))" "distinct (map ubg_key (t_user_badges s))" "user_exists u s"
  shows "\<exists>s'. award_reward now u b s = Inr s'"
proof (cases "fetch bg_id b (t_badges s)")
  case None
  then show ?thesis using assms(1) by (simp add: award_reward_def get_badge_eq)
next
  case (Some badge)
  have "fetch ubg_key (u, b) (t_user_badges s) = None" if "(u, b) \<notin> owned_badges s"
    using that by (simp add: owned_badges_def fetch_None_iff)
  with Some assms show ?thesis
    by (auto simp: award_reward_def get_badge_eq has_badge_eq repo_award_badge_def Let_def insert_row_def ubg_key_def)
qed

section \<open>One challenge\<close>

definition progressed :: "datetime \<Rightarrow> int \<Rightarrow> progress_mode \<Rightarrow> challenge \<Rightarrow> participant \<Rightarrow> participant" where
  "progressed now delta mode ch p =
     (let v = advanced_value mode delta (pt_current_value p)
      in p\<lparr>pt_current_value := v, pt_achieved_at := (if ch_target_value ch \<le> v then Some now else None)\<rparr>)"

definition rewards :: "datetime \<Rightarrow> int \<Rightarrow> progress_mode \<Rightarrow> challenge \<times> participant \<Rightarrow> uuid set" where
  "rewards now delta mode row = (case row of (ch, p) \<Rightarrow>
     if ch_target_value ch \<le> advanced_value mode delta (pt_current_value p)
     then set_option (ch_badge_id ch) \<union> set_option (exclusive_open now ch) else {})"

definition with_participants :: "participant list \<Rightarrow> sess \<Rightarrow> sess" where
  "with_participants ps s = s\<lparr>t_participants := ps\<rparr>"

lemma with_participants_fields [simp]:
  "t_users (with_participants ps s) = t_users s" "t_badges (with_participants ps s) = t_badges s"
  "t_challenges (with_participants ps s) = t_challenges s" "t_participants (with_participants ps s) = ps"
  "t_user_badges (with_participants ps s) = t_user_badges s" "sq_events (with_participants ps s) = sq_events s"
  by (simp_all add: with_participants_def)

lemma with_participants_granted:
  "with_participants ps (granted new s) = granted new (with_participants ps s)"
  "with_participants qs (with_participants ps s) = with_participants qs s"
  by (simp_all add: with_participants_def granted_def announces_def)

lemma fresh_with_participants [simp]: "fresh_badges now u (with_participants ps s) new = fresh_badges now u s new"
  by (simp add: fresh_badges_def)

lemma owned_with_participants [simp]: "owned_badges (with_participants ps s) = owned_badges s"
  by (simp add: owned_badges_def)

definition overwrite :: "datetime \<Rightarrow> uuid \<Rightarrow> int \<Rightarrow> progress_mode \<Rightarrow> challenge \<times> participant \<Rightarrow> participant list \<Rightarrow> participant list" where
  "overwrite now u delta mode row ps = (case row of (ch, p) \<Rightarrow>
     amend pt_key (ch_id ch, u) (\<lambda>q. q\<lparr>pt_current_value := pt_current_value (progressed now delta mode ch p),
       pt_achieved_at := pt_achieved_at (progressed now delta mode ch p)\<rparr>) ps)"

lemma map_key_overwrite: "map pt_key (overwrite now u delta mode row ps) = map pt_key ps"
  unfolding overwrite_def by (cases row) (simp add: map_key_amend pt_key_def)

lemma advance_one_Inr:
  assumes "advance_one now u delta mode row s = Inr s'"
    and "distinct (map bg_id (t_badges s))" "distinct (map ubg_key (t_user_badges s))"
  obtains new where "s' = granted new (with_participants (overwrite now u delta mode row (t_participants s)) s)"
    "fresh_badges now u s new" "ubg_badge_id ` set new \<subseteq> rewards now delta mode row"
    "\<forall>b \<in> rewards now delta mode row. fetch bg_id b (t_badges s) \<noteq> None \<longrightarrow> (u, b) \<in> owned_badges s'"
proof -
  obtain ch p where row: "row = (ch, p)" by fastforce
  define v where "v = advanced_value mode delta (pt_current_value p)"
  define s1 where "s1 = with_participants (overwrite now u delta mode row (t_participants s)) s"
  have u1: "update_progress (ch_id ch) u v (if ch_target_value ch \<le> v then Some now else None) s = Inr s1"
    using assms(1) by (auto simp: advance_one_def row Let_def update_progress_def s1_def overwrite_def
        with_participants_def progressed_def simp flip: v_def split: if_splits)
  note d1 = assms(2,3)
  show ?thesis
  proof (cases "ch_target_value ch \<le> v")
    case False
    then have "s' = s1" "rewards now delta mode row = {}"
      using assms(1) u1 by (simp_all add: advance_one_def row Let_def rewards_def flip: v_def)
    then show ?thesis using that [of "[]"] d1 by (simp add: s1_def fresh_Nil)
  next
    case True
    then have rw: "rewards now delta mode row = set_option (ch_badge_id ch) \<union> set_option (exclusive_open now ch)"
      by (simp add: rewards_def row flip: v_def)
    obtain s2 where s2: "(case ch_badge_id ch of None \<Rightarrow> Inr s1 | Some b \<Rightarrow> award_reward now u b s1) = Inr s2"
      and s3: "(case exclusive_open now ch of None \<Rightarrow> Inr s2 | Some b \<Rightarrow> award_reward now u b s2) = Inr s'"
      using assms(1) u1 True by (auto simp: advance_one_def row Let_def simp flip: v_def)
    have opt: "\<exists>new. t' = granted new t \<and> fresh_badges now u t new \<and> ubg_badge_id ` set new \<subseteq> set_option o1 \<and>
        (\<forall>b \<in> set_option o1. fetch bg_id b (t_badges t) \<noteq> None \<longrightarrow> (u, b) \<in> owned_badges t')"
      if "(case o1 of None \<Rightarrow> Inr t | Some b \<Rightarrow> award_reward now u b t) = Inr t'"
        "distinct (map bg_id (t_badges t))" "distinct (map ubg_key (t_user_badges t))" for o1 and t t' :: sess
      using that by (cases o1) (auto intro: fresh_Nil elim!: award_reward_Inr exI [of _ "[]"])
    obtain n1 where n1: "s2 = granted n1 s1" "fresh_badges now u s1 n1" "ubg_badge_id ` set n1 \<subseteq> set_option (ch_badge_id ch)"
        "\<forall>b \<in> set_option (ch_badge_id ch). fetch bg_id b (t_badges s1) \<noteq> None \<longrightarrow> (u, b) \<in> owned_badges s2"
      using opt [OF s2] d1 by (auto simp: s1_def)
    obtain n2 where n2: "s' = granted n2 s2" "fresh_badges now u s2 n2" "ubg_badge_id ` set n2 \<subseteq> set_option (exclusive_open now ch)"
        "\<forall>b \<in> set_option (exclusive_open now ch). fetch bg_id b (t_badges s2) \<noteq> None \<longrightarrow> (u, b) \<in> owned_badges s'"
      using opt [OF s3] d1 n1(1,2) by (auto simp: s1_def fresh_badges_def)
    have own: "owned_badges s2 \<subseteq> owned_badges s'" by (auto simp: n2(1) owned_badges_def)
    show ?thesis
    proof (rule that [of "n1 @ n2"])
      show "s' = granted (n1 @ n2) (with_participants (overwrite now u delta mode row (t_participants s)) s)"
        by (simp add: n2(1) n1(1) granted_granted s1_def)
      show "fresh_badges now u s (n1 @ n2)"
        using fresh_append [of now u s1 n1 n2] n1(1,2) n2(2) by (simp add: s1_def)
      show "ubg_badge_id ` set (n1 @ n2) \<subseteq> rewards now delta mode row" using n1(3) n2(3) rw by auto
      show "\<forall>b \<in> rewards now delta mode row. fetch bg_id b (t_badges s) \<noteq> None \<longrightarrow> (u, b) \<in> owned_badges s'"
        using n1(4) n2(4) own by (auto simp: rw n1(1) s1_def)
    qed
  qed
qed

section \<open>All active challenges\<close>

definition overwrite_all :: "datetime \<Rightarrow> uuid \<Rightarrow> int \<Rightarrow> progress_mode \<Rightarrow> (challenge \<times> participant) list \<Rightarrow> participant list \<Rightarrow> participant list" where
  "overwrite_all now u delta mode rows ps = foldl (\<lambda>ps row. overwrite now u delta mode row ps) ps rows"

lemma foldE_advance:
  assumes "foldE (advance_one now u delta mode) rows s = Inr s'"
    and "distinct (map bg_id (t_badges s))" "distinct (map ubg_key (t_user_badges s))"
  shows "\<exists>new. s' = granted new (with_participants (overwrite_all now u delta mode rows (t_participants s)) s) \<and>
    fresh_badges now u s new \<and> ubg_badge_id ` set new \<subseteq> (\<Union>row \<in> set rows. rewards now delta mode row) \<and>
    (\<forall>row \<in> set rows. \<forall>b \<in> rewards now delta mode row. fetch bg_id b (t_badges s) \<noteq> None \<longrightarrow> (u, b) \<in> owned_badges s')"
  using assms
proof (induction rows arbitrary: s)
  case Nil
  have same: "with_participants (t_participants s) s = s" by (simp add: with_participants_def)
  have "s' = s" using Nil.prems(1) by simp
  with Nil.prems(3) same show ?case by (intro exI [of _ "[]"]) (simp add: fresh_Nil overwrite_all_def)
next
  case (Cons row rows)
  obtain s1 where s1: "advance_one now u delta mode row s = Inr s1"
    and s2: "foldE (advance_one now u delta mode) rows s1 = Inr s'" using Cons.prems(1) by auto
  let ?ps = "overwrite now u delta mode row (t_participants s)"
  from s1 Cons.prems(2,3) show ?case
  proof (cases rule: advance_one_Inr)
    case (1 n1)
    then have d: "distinct (map bg_id (t_badges s1))" "distinct (map ubg_key (t_user_badges s1))"
      using Cons.prems(2) by (auto simp: fresh_badges_def)
    obtain n2 where n2: "s' = granted n2 (with_participants (overwrite_all now u delta mode rows (t_participants s1)) s1)"
      "fresh_badges now u s1 n2" "ubg_badge_id ` set n2 \<subseteq> (\<Union>row \<in> set rows. rewards now delta mode row)"
      "\<forall>row \<in> set rows. \<forall>b \<in> rewards now delta mode row. fetch bg_id b (t_badges s1) \<noteq> None \<longrightarrow> (u, b) \<in> owned_badges s'"
      using Cons.IH [OF s2 d] by blast
    have "s' = granted (n1 @ n2) (with_participants (overwrite_all now u delta mode (row # rows) (t_participants s)) s)"
      by (simp add: n2(1) 1(1) with_participants_granted granted_granted overwrite_all_def)
    moreover have "fresh_badges now u s (n1 @ n2)"
      by (rule fresh_append [OF 1(2)]) (use n2(2) in \<open>simp add: fresh_badges_def 1(1)\<close>)
    moreover have "ubg_badge_id ` set (n1 @ n2) \<subseteq> (\<Union>r \<in> set (row # rows). rewards now delta mode r)"
      using 1(3) n2(3) by auto
    moreover have "owned_badges s1 \<subseteq> owned_badges s'" by (auto simp: n2(1) owned_badges_def)
    ultimately show ?thesis using 1(1,4) n2(4) by (intro exI [of _ "n1 @ n2"]) auto
  qed
qed

lemma overwrite_all_append:
  "overwrite_all now u delta mode (xs @ ys) ps = overwrite_all now u delta mode ys (overwrite_all now u delta mode xs ps)"
  by (simp add: overwrite_all_def)

text \<open>Overwriting the selected rows one after the other is one pass over the table.\<close>

lemma overwrite_all_map:
  assumes "distinct (map pt_key (pre @ ps))"
    and "\<And>p row. p \<in> set ps \<Longrightarrow> f p = Some row \<Longrightarrow> snd row = p \<and> (ch_id (fst row), u) = pt_key p"
  shows "overwrite_all now u delta mode (List.map_filter f ps) (pre @ ps) =
    pre @ map (\<lambda>p. case f p of None \<Rightarrow> p | Some row \<Rightarrow> progressed now delta mode (fst row) p) ps"
  using assms
proof (induction ps arbitrary: pre)
  case Nil
  then show ?case by (simp add: overwrite_all_def List.map_filter_def)
next
  case (Cons p ps)
  define q where "q = (case f p of None \<Rightarrow> p | Some row \<Rightarrow> progressed now delta mode (fst row) p)"
  have qk: "pt_key q = pt_key p" by (simp add: q_def progressed_def pt_key_def Let_def split: option.splits)
  have step: "overwrite_all now u delta mode (case f p of None \<Rightarrow> [] | Some y \<Rightarrow> [y]) (pre @ p # ps) = pre @ q # ps"
  proof (cases "f p")
    case None
    then show ?thesis by (simp add: overwrite_all_def q_def)
  next
    case (Some row)
    then have r: "snd row = p" "(ch_id (fst row), u) = pt_key p" using Cons.prems(2) by auto
    have out: "pt_key p \<notin> pt_key ` set pre" "pt_key p \<notin> pt_key ` set ps" using Cons.prems(1) by auto
    have "amend pt_key (pt_key p) h (pre @ p # ps) = pre @ h p # ps" for h
      using amend_absent [OF out(1), of h] amend_absent [OF out(2), of h] by (simp add: amend_def)
    moreover obtain ch where "row = (ch, p)" using r(1) by (cases row) simp
    ultimately show ?thesis using r Some
      by (simp add: overwrite_all_def overwrite_def q_def progressed_def Let_def)
  qed
  have "overwrite_all now u delta mode (List.map_filter f (p # ps)) (pre @ p # ps) =
      overwrite_all now u delta mode (List.map_filter f ps) ((pre @ [q]) @ ps)"
    unfolding map_filter_Cons overwrite_all_append step by simp
  also have "\<dots> = (pre @ [q]) @ map (\<lambda>p. case f p of None \<Rightarrow> p | Some row \<Rightarrow> progressed now delta mode (fst row) p) ps"
    by (rule Cons.IH) (use Cons.prems qk in \<open>auto\<close>)
  finally show ?case by (simp add: q_def)
qed

text \<open>What an event does to one participant row.\<close>

definition counts_for :: "datetime \<Rightarrow> uuid \<Rightarrow> challenge_type \<Rightarrow> participant \<Rightarrow> challenge \<Rightarrow> bool" where
  "counts_for now u ctype p ch \<longleftrightarrow> pt_user_id p = u \<and> ch_challenge_type ch = ctype \<and> ch_starts_at ch \<le> now \<and>
     now \<le> ch_ends_at ch \<and> pt_achieved_at p = None"

definition advance_row ::
    "datetime \<Rightarrow> uuid \<Rightarrow> challenge_type \<Rightarrow> int \<Rightarrow> progress_mode \<Rightarrow> challenge list \<Rightarrow> participant \<Rightarrow> participant" where
  "advance_row now u ctype delta mode chs p = (case fetch ch_id (pt_challenge_id p) chs of None \<Rightarrow> p
     | Some ch \<Rightarrow> if counts_for now u ctype p ch then progressed now delta mode ch p else p)"

text \<open>The badges an event can earn a user: those of the challenges it completes.\<close>

definition earned_by ::
    "datetime \<Rightarrow> uuid \<Rightarrow> challenge_type \<Rightarrow> int \<Rightarrow> progress_mode \<Rightarrow> sess \<Rightarrow> uuid set" where
  "earned_by now u ctype delta mode s = {b. \<exists>p \<in> set (t_participants s). \<exists>ch.
     fetch ch_id (pt_challenge_id p) (t_challenges s) = Some ch \<and> counts_for now u ctype p ch \<and>
     b \<in> rewards now delta mode (ch, p)}"

lemma advance_challenges_Inr:
  assumes "advance_challenges now u ctype delta mode s = Inr s'" "challenge_ok s"
  obtains new where
    "s' = granted new (with_participants (map (advance_row now u ctype delta mode (t_challenges s)) (t_participants s)) s)"
    "fresh_badges now u s new" "ubg_badge_id ` set new \<subseteq> earned_by now u ctype delta mode s"
    "\<forall>b \<in> earned_by now u ctype delta mode s. fetch bg_id b (t_badges s) \<noteq> None \<longrightarrow> (u, b) \<in> owned_badges s'"
proof -
  define f where "f = (\<lambda>p. case fetch ch_id (pt_challenge_id p) (t_challenges s) of None \<Rightarrow> None
     | Some ch \<Rightarrow> if counts_for now u ctype p ch then Some (ch, p) else None)"
  have rows: "list_user_active_challenges now u ctype s = List.map_filter f (t_participants s)"
    unfolding list_user_active_challenges_def f_def counts_for_def ..
  have f: "snd row = p \<and> (ch_id (fst row), u) = pt_key p" if "f p = Some row" for p row
    using that by (auto simp: f_def counts_for_def pt_key_def dest: fetch_Some_key split: option.splits if_splits)
  have "overwrite_all now u delta mode (List.map_filter f (t_participants s)) ([] @ t_participants s) =
      [] @ map (\<lambda>p. case f p of None \<Rightarrow> p | Some row \<Rightarrow> progressed now delta mode (fst row) p) (t_participants s)"
    by (rule overwrite_all_map) (use assms(2) f in \<open>auto simp: challenge_ok_def\<close>)
  also have "(\<lambda>p. case f p of None \<Rightarrow> p | Some row \<Rightarrow> progressed now delta mode (fst row) p) =
      advance_row now u ctype delta mode (t_challenges s)"
    by (simp add: fun_eq_iff f_def advance_row_def split: option.splits)
  finally have ps: "overwrite_all now u delta mode (List.map_filter f (t_participants s)) (t_participants s) =
      map (advance_row now u ctype delta mode (t_challenges s)) (t_participants s)" by simp
  have rw: "(\<Union>row \<in> set (List.map_filter f (t_participants s)). rewards now delta mode row) = earned_by now u ctype delta mode s"
    by (fastforce simp: earned_by_def mem_map_filter f_def split: option.splits if_splits)
  show ?thesis
    using foldE_advance [of now u delta mode "List.map_filter f (t_participants s)" s s'] assms that
    unfolding advance_challenges_def rows ps by (auto simp: challenge_ok_def rw [symmetric])
qed

end
