(* ===== verification/ChallengeMachine.thy ===== *)
theory ChallengeMachine
  imports ChallengeLaws Demo
begin

text \<open>
  The challenge service as a machine: the requests of a user, the two admin endpoints, and the
  three event handlers. No step breaks the invariant of the tables, and no step takes a badge
  away: the set of earned badges is the rank of a monotone machine.
\<close>

datatype challenge_op =
    Join datetime uuid uuid
  | Leave uuid uuid
  | ReorderBadges uuid "uuid list"
  | AwardBadge datetime bool uuid uuid
  | CreateBadge uuid datetime pystr pystr string string
  | CreateChallenge uuid datetime pystr "pystr option" string int "pystr option" datetime datetime
      "uuid option" bool "datetime option" "uuid option"
  | OnReadingSession datetime event
  | OnUserBook datetime event
  | OnGrade datetime event

definition value_of :: "'a outcome \<Rightarrow> sess result" where
  "value_of m = bindE m (\<lambda>(_, s). Inr s)"

lemma value_of_Inr [simp]: "value_of m = Inr s' \<longleftrightarrow> (\<exists>x. m = Inr (x, s'))"
  by (auto simp: value_of_def)

fun challenge_step :: "challenge_op \<Rightarrow> sess \<Rightarrow> sess result" where
  "challenge_step (Join now c u) s = value_of (join now c u s)"
| "challenge_step (Leave c u) s = value_of (leave c u s)"
| "challenge_step (ReorderBadges u bs) s = value_of (reorder_pinned_badges u bs s)"
| "challenge_step (AwardBadge now st u b) s = value_of (award_badge now st u b s)"
| "challenge_step (CreateBadge i now n d c k) s = value_of (create_badge i now n d c k s)"
| "challenge_step (CreateChallenge i now t d c v g a e b l x y) s =
     value_of (admin_create_challenge i now t d c v g a e b l x y s)"
| "challenge_step (OnReadingSession now ev) s = on_reading_session_completed now ev s"
| "challenge_step (OnUserBook now ev) s = on_user_book_completed now ev s"
| "challenge_step (OnGrade now ev) s = on_grade_recomputed now ev s"

section \<open>Each operation, inverted\<close>

lemma join_Inr:
  assumes "join now c u s = Inr (p, s')"
  shows "\<exists>ch. fetch ch_id c (t_challenges s) = Some ch" "pt_key p \<notin> pt_key ` set (t_participants s)"
    "p = \<lparr>pt_challenge_id = c, pt_user_id = u, pt_current_value = 0, pt_achieved_at = None, pt_joined_at = now\<rparr>"
    "s' = s\<lparr>t_participants := t_participants s @ [p]\<rparr>"
  using assms by (auto simp: join_def repo_join_def Let_def insert_row_Inr_iff split: if_splits)

lemma leave_Inr:
  assumes "leave c u s = Inr (x, s')"
  shows "s' = s\<lparr>t_participants := discard (\<lambda>p. pt_key p = (c, u)) (t_participants s)\<rparr>"
  using assms by (auto simp: leave_def repo_leave_def pt_key_def split: if_splits)

lemma set_pins_snoc:
  "set_pins u (xs @ [(i, b)]) rows = amend ubg_key (u, b) (\<lambda>r. r\<lparr>ubg_pin_order := int i\<rparr>) (set_pins u xs rows)"
  by (simp add: set_pins_def)

lemma set_pins_map:
  assumes "\<And>r v. g (r\<lparr>ubg_pin_order := v\<rparr>) = g r"
  shows "map g (set_pins u xs rows) = map g rows"
proof (induction xs rule: rev_induct)
  case Nil
  then show ?case by (simp add: set_pins_def)
next
  case (snoc x xs)
  obtain i b where x: "x = (i, b)" by fastforce
  show ?case unfolding x set_pins_snoc by (simp add: map_amend_eq assms snoc)
qed

lemma repo_reorder_keys:
  "map ubg_key (t_user_badges (repo_reorder_pinned_badges u bs s)) = map ubg_key (t_user_badges s)"
  "map ubg_badge_id (t_user_badges (repo_reorder_pinned_badges u bs s)) = map ubg_badge_id (t_user_badges s)"
  by (simp_all add: repo_reorder_pinned_badges_def set_pins_map ubg_key_def)

lemma reorder_Inr: "reorder_pinned_badges u bs s = Inr (x, s') \<Longrightarrow> s' = repo_reorder_pinned_badges u bs s"
  by (auto simp: reorder_pinned_badges_def split: if_splits)

lemma find_order_asc:
  assumes "distinct (map key rows)"
  shows "List.find (\<lambda>b. key b = k) (order_asc f rows) = fetch key k rows"
proof -
  have dist: "distinct (map key (order_asc f rows))" using assms by (simp add: distinct_map_order_asc)
  have "fetch key k (order_asc f rows) = fetch key k rows"
  proof (cases "fetch key k rows")
    case None
    then have "k \<notin> key ` set (order_asc f rows)" by (simp add: fetch_None_iff)
    then have "fetch key k (order_asc f rows) = None" by (rule fetch_None_iff [THEN iffD2])
    with None show ?thesis by simp
  next
    case (Some r)
    then have r: "r \<in> set (order_asc f rows)" "key r = k" using fetch_SomeD [OF Some] by simp_all
    show ?thesis using fetch_distinct [OF dist r(1)] by (simp only: r(2) Some)
  qed
  then show ?thesis by (simp add: fetch_def)
qed

lemma award_badge_Inr:
  assumes "award_badge now st u b s = Inr (x, s')" "distinct (map bg_id (t_badges s))" "distinct (map ubg_key (t_user_badges s))"
  obtains (owned) "(u, b) \<in> owned_badges s" "s' = s"
  | (new) r where "fresh_badges now u s [r]" "ubg_badge_id r = b" "s' = (if st then granted [r] s else s\<lparr>t_user_badges := t_user_badges s @ [r]\<rparr>)"
proof -
  define r where "r = \<lparr>ubg_user_id = u, ubg_badge_id = b, ubg_earned_at = now, ubg_pin_order = 0\<rparr>"
  have k: "ubg_key r = (u, b)" "ubg_user_id r = u" "ubg_badge_id r = b" "ubg_earned_at r = now" "ubg_pin_order r = 0"
    by (simp_all add: r_def ubg_key_def)
  obtain badge where badge: "fetch bg_id b (t_badges s) = Some badge"
    and rest: "bindE (has_badge u b s) (\<lambda>owned. if owned then Inr ((), s)
     else bindE (repo_award_badge now u b s) (\<lambda>s1.
       Inr ((), if st then stage_event (BadgeEarned u b (bg_name badge)) s1 else s1))) = Inr (x, s')"
    using assms(1) by (auto simp: award_badge_def repo_list_badges_def find_order_asc [OF assms(2)])
  show ?thesis
  proof (cases "(u, b) \<in> owned_badges s")
    case True
    then have "s' = s" using rest by (simp add: has_badge_eq [OF assms(3)])
    with True show ?thesis by (rule owned)
  next
    case False
    then have "s' = (if st then granted [r] s else s\<lparr>t_user_badges := t_user_badges s @ [r]\<rparr>)"
      using rest badge k by (auto simp: has_badge_eq [OF assms(3)] repo_award_badge_def Let_def insert_row_Inr_iff
          granted_def announces_def stage_event_def simp flip: r_def)
    moreover have "fresh_badges now u s [r]"
      using assms(3) False k badge by (simp add: fresh_badges_def owned_badges_def)
    ultimately show ?thesis using new k by blast
  qed
qed

lemma create_badge_Inr:
  assumes "create_badge i now n d c k s = Inr (b, s')"
  shows "bg_id b \<notin> bg_id ` set (t_badges s)" "s' = s\<lparr>t_badges := t_badges s @ [b]\<rparr>"
  using assms by (auto simp: create_badge_def Let_def insert_row_Inr_iff split: if_splits)

lemma admin_create_challenge_Inr:
  assumes "admin_create_challenge i now t d c v g a e b l x y s = Inr (ch, s')"
  shows "ch_id ch \<notin> ch_id ` set (t_challenges s)" "0 < ch_target_value ch" "s' = s\<lparr>t_challenges := t_challenges s @ [ch]\<rparr>"
  using assms by (auto simp: admin_create_challenge_def create_challenge_def Let_def insert_row_Inr_iff split: if_splits)

section \<open>Each operation keeps the invariant\<close>

lemma challenge_ok_granted:
  assumes "challenge_ok s" "fresh_badges now u s new"
  shows "challenge_ok (granted new s)"
  using assms by (auto simp: challenge_ok_def fresh_badges_def)

lemma challenge_ok_cong:
  assumes "t_badges s' = t_badges s" "t_challenges s' = t_challenges s" "t_participants s' = t_participants s"
    "t_user_badges s' = t_user_badges s"
  shows "challenge_ok s' \<longleftrightarrow> challenge_ok s"
  using assms by (simp add: challenge_ok_def)

lemma challenge_ok_participants:
  assumes "challenge_ok s" "distinct (map pt_key ps)" "\<And>p. p \<in> set ps \<Longrightarrow> participant_ok (t_challenges s) p"
  shows "challenge_ok (s\<lparr>t_participants := ps\<rparr>)"
  using assms by (simp add: challenge_ok_def)

lemma advance_row_fields:
  "pt_key (advance_row now u ctype delta mode chs p) = pt_key p"
  "pt_challenge_id (advance_row now u ctype delta mode chs p) = pt_challenge_id p"
  by (simp_all add: advance_row_def progressed_def pt_key_def Let_def split: option.splits)

lemma advance_row_ok:
  assumes "participant_ok chs p"
  shows "participant_ok chs (advance_row now u ctype delta mode chs p)"
  using assms advance_row_fields(2) [of now u ctype delta mode chs p]
  by (auto simp: participant_ok_def advance_row_def progressed_def Let_def split: option.splits)

lemma handle_progress_event_Inr:
  assumes "handle_progress_event now u ctype delta mode s = Inr s'" "challenge_ok s"
  obtains new where
    "s' = granted new (s\<lparr>sq_events := [], t_participants := map (advance_row now u ctype delta mode (t_challenges s)) (t_participants s)\<rparr>)"
    "fresh_badges now u s new" "ubg_badge_id ` set new \<subseteq> earned_by now u ctype delta mode s"
    "\<forall>b \<in> earned_by now u ctype delta mode s. fetch bg_id b (t_badges s) \<noteq> None \<longrightarrow> (u, b) \<in> owned_badges s'"
proof -
  have ok: "challenge_ok (s\<lparr>sq_events := []\<rparr>)" using assms(2) by (simp add: challenge_ok_def)
  have eb: "earned_by now u ctype delta mode (s\<lparr>sq_events := []\<rparr>) = earned_by now u ctype delta mode s"
    by (simp add: earned_by_def)
  from assms(1) have "advance_challenges now u ctype delta mode (s\<lparr>sq_events := []\<rparr>) = Inr s'"
    by (simp add: handle_progress_event_def)
  from this ok show ?thesis
    by (cases rule: advance_challenges_Inr) (rule that, simp_all add: eb with_participants_def fresh_badges_def)
qed

lemma handle_progress_event_ok:
  assumes "challenge_ok s" "handle_progress_event now u ctype delta mode s = Inr s'"
  shows "challenge_ok s' \<and> owned_badges s \<subseteq> owned_badges s'"
proof -
  obtain new where s': "s' = granted new (s\<lparr>sq_events := [], t_participants := map (advance_row now u ctype delta mode (t_challenges s)) (t_participants s)\<rparr>)"
    and new: "fresh_badges now u s new"
    using assms(2,1) by (rule handle_progress_event_Inr)
  have "challenge_ok (s\<lparr>sq_events := []\<rparr>)" using assms(1) by (simp add: challenge_ok_def)
  then have "challenge_ok (s\<lparr>sq_events := [], t_participants := map (advance_row now u ctype delta mode (t_challenges s)) (t_participants s)\<rparr>)"
    by (rule challenge_ok_participants)
      (use assms(1) in \<open>auto simp: challenge_ok_def advance_row_fields advance_row_ok o_def\<close>)
  then show ?thesis unfolding s'
    using new by (auto intro!: challenge_ok_granted [where now = now and u = u] simp: fresh_badges_def owned_badges_def)
qed

lemma challenge_step_ok:
  assumes ok: "challenge_ok s" and step: "challenge_step x s = Inr s'"
  shows "challenge_ok s' \<and> owned_badges s \<subseteq> owned_badges s'"
proof (cases x)
  case (Join now c u)
  then obtain p where j: "join now c u s = Inr (p, s')" using step by auto
  obtain ch where ch: "fetch ch_id c (t_challenges s) = Some ch" using join_Inr(1) [OF j] by blast
  have "0 < ch_target_value ch" using ok ch by (auto simp: challenge_ok_def dest: fetch_Some_mem)
  with ch have "participant_ok (t_challenges s) p" using join_Inr(3) [OF j] by (simp add: participant_ok_def)
  then show ?thesis unfolding join_Inr(4) [OF j]
    using ok join_Inr(2) [OF j] by (auto intro!: challenge_ok_participants simp: challenge_ok_def owned_badges_def)
next
  case (Leave c u)
  then obtain y where l: "leave c u s = Inr (y, s')" using step by auto
  show ?thesis unfolding leave_Inr [OF l] using ok
    by (auto intro!: challenge_ok_participants distinct_map_discard simp: challenge_ok_def owned_badges_def)
next
  case (ReorderBadges u bs)
  then have s': "s' = repo_reorder_pinned_badges u bs s" using step reorder_Inr by auto
  have k: "ubg_key ` set (t_user_badges s') = ubg_key ` set (t_user_badges s)"
      "ubg_badge_id ` set (t_user_badges s') = ubg_badge_id ` set (t_user_badges s)"
    using repo_reorder_keys [of u bs s, THEN arg_cong [of _ _ set]] by (simp_all add: s')
  have "t_badges s' = t_badges s \<and> t_challenges s' = t_challenges s \<and> t_participants s' = t_participants s"
    by (simp add: s' repo_reorder_pinned_badges_def)
  moreover have "fetch bg_id (ubg_badge_id r) (t_badges s) \<noteq> None" if "r \<in> set (t_user_badges s')" for r
  proof -
    have "ubg_badge_id r \<in> ubg_badge_id ` set (t_user_badges s)" using that k(2) by blast
    then show ?thesis using ok by (auto simp: challenge_ok_def)
  qed
  ultimately show ?thesis using ok k(1) repo_reorder_keys(1) [of u bs s]
    by (simp add: challenge_ok_def owned_badges_def flip: s')
next
  case (AwardBadge now st u b)
  then obtain y where aw: "award_badge now st u b s = Inr (y, s')" using step by auto
  have "distinct (map bg_id (t_badges s))" "distinct (map ubg_key (t_user_badges s))" using ok by (simp_all add: challenge_ok_def)
  with aw show ?thesis
  proof (cases rule: award_badge_Inr)
    case owned
    then show ?thesis using ok by simp
  next
    case (new r)
    have "challenge_ok (granted [r] s)" using ok new(1) by (rule challenge_ok_granted)
    moreover have "challenge_ok (s\<lparr>t_user_badges := t_user_badges s @ [r]\<rparr>) = challenge_ok (granted [r] s)"
      by (rule challenge_ok_cong) simp_all
    ultimately show ?thesis using new(3) by (auto simp: owned_badges_def)
  qed
next
  case (CreateBadge i now n d c k)
  then obtain b where cb: "create_badge i now n d c k s = Inr (b, s')" using step by auto
  have "fetch bg_id j (t_badges s) \<noteq> None \<Longrightarrow> fetch bg_id j (t_badges s @ [b]) \<noteq> None" for j
    by (auto simp: fetch_append)
  then show ?thesis unfolding create_badge_Inr(2) [OF cb]
    using ok create_badge_Inr(1) [OF cb] by (simp add: challenge_ok_def owned_badges_def)
next
  case (CreateChallenge i now t d c v g a e b l x y)
  then obtain ch where cc: "admin_create_challenge i now t d c v g a e b l x y s = Inr (ch, s')" using step by auto
  have "participant_ok (t_challenges s @ [ch]) p" if "participant_ok (t_challenges s) p" for p
    using that by (auto simp: participant_ok_def fetch_append split: option.splits)
  then show ?thesis unfolding admin_create_challenge_Inr(3) [OF cc]
    using ok admin_create_challenge_Inr(1,2) [OF cc] by (auto simp: challenge_ok_def owned_badges_def)
next
  case (OnReadingSession now ev)
  then show ?thesis using step ok handle_progress_event_ok
    by (cases ev) (auto simp: on_reading_session_completed_def)
next
  case (OnUserBook now ev)
  then show ?thesis using step ok handle_progress_event_ok
    by (cases ev) (auto simp: on_user_book_completed_def)
next
  case (OnGrade now ev)
  then show ?thesis using step ok handle_progress_event_ok
    by (cases ev) (auto simp: on_grade_recomputed_def)
qed

interpretation challenges: monotone_machine challenge_step challenge_ok owned_badges
  by unfold_locales (auto dest: challenge_step_ok)

end
