(* ===== verification/Paging.thy ===== *)
theory Paging
  imports Prelude
begin

text \<open>
  Cursor pagination, as the list endpoints do it: a page holds the first \<open>n\<close> rows strictly beyond
  the cursor in the order of a sort key, and answers the key of its last row as the next cursor
  when it is full. \<open>walk\<close> is the client that follows the cursors. The interface \<open>cursor_pages\<close> is
  what an endpoint promises about its pages; the lemma proved in it is that the walk sees
  everything once, provided that no two rows have the same key.
\<close>

fun walk :: "nat \<Rightarrow> ('c option \<Rightarrow> 'r list \<times> 'c option) \<Rightarrow> 'c option \<Rightarrow> 'r list" where
  "walk 0 page c = []"
| "walk (Suc fuel) page c =
     (case page c of (rows, next_cursor) \<Rightarrow>
        rows @ (case next_cursor of None \<Rightarrow> [] | Some c' \<Rightarrow> walk fuel page (Some c')))"

definition beyond :: "('r \<Rightarrow> int) \<Rightarrow> ('c \<Rightarrow> int) \<Rightarrow> 'c option \<Rightarrow> 'r \<Rightarrow> bool" where
  "beyond key pos c r \<longleftrightarrow> (case c of None \<Rightarrow> True | Some k \<Rightarrow> pos k < key r)"

locale cursor_pages =
  fixes page :: "'c option \<Rightarrow> 'r list \<times> 'c option"
    and rows :: "'r list"
    and key :: "'r \<Rightarrow> int"
    and pos :: "'c \<Rightarrow> int"
    and n :: nat
  assumes page_rows: "fst (page c) = take n (filter (beyond key pos c) rows)"
    and page_next: "snd (page c) = None \<longleftrightarrow> length (fst (page c)) < n"
    and page_cursor: "snd (page c) = Some c' \<Longrightarrow> pos c' = key (last (fst (page c)))"
    and rows_sorted: "sorted (map key rows)"
    and page_size: "0 < n"
begin

lemma beyond_last:
  assumes "distinct (map key rows)" "pre @ post = filter (beyond key pos c) rows" "pre \<noteq> []" "pos c' = key (last pre)"
  shows "filter (beyond key pos (Some c')) rows = post"
proof -
  let ?l = "key (last pre)"
  have "sorted_wrt (<) (map key rows)" using rows_sorted assms(1) by (simp add: strict_sorted_iff)
  then have srt: "sorted_wrt (\<lambda>x y. key x < key y) rows" by (simp add: sorted_wrt_map)
  have fs: "sorted_wrt (\<lambda>x y. key x < key y) (pre @ post)"
    unfolding assms(2) by (rule sorted_wrt_filter [OF srt])
  have post: "\<forall>r \<in> set post. ?l < key r" using fs assms(3) by (auto simp: sorted_wrt_append)
  have pre: "\<forall>r \<in> set pre. key r \<le> ?l"
  proof
    fix r assume r: "r \<in> set pre"
    obtain ys where ys: "pre = ys @ [last pre]" using assms(3) by (metis append_butlast_last_id)
    then have "r = last pre \<or> r \<in> set ys" using r by (metis Un_iff empty_iff empty_set insert_iff list.simps(15) set_append)
    moreover have "sorted_wrt (\<lambda>x y. key x < key y) (ys @ [last pre])" using fs ys by (simp add: sorted_wrt_append)
    ultimately show "key r \<le> ?l" by (auto simp: sorted_wrt_append)
  qed
  have last_in: "beyond key pos c (last pre)"
  proof -
    have "last pre \<in> set (pre @ post)" using assms(3) by simp
    then show ?thesis unfolding assms(2) by simp
  qed
  have "filter (beyond key pos (Some c')) rows = filter (\<lambda>r. ?l < key r) (filter (beyond key pos c) rows)"
    unfolding filter_filter using last_in assms(4) by (intro filter_cong) (auto simp: beyond_def split: option.splits)
  also have "\<dots> = filter (\<lambda>r. ?l < key r) pre @ filter (\<lambda>r. ?l < key r) post"
    unfolding assms(2) [symmetric] by simp
  also have "filter (\<lambda>r. ?l < key r) pre = []" using pre by (auto simp: filter_empty_conv)
  also have "filter (\<lambda>r. ?l < key r) post = post" using post by (auto simp: filter_id_conv)
  finally show ?thesis by simp
qed

lemma walk_from:
  assumes "distinct (map key rows)" "length (filter (beyond key pos c) rows) < fuel"
  shows "walk fuel page c = filter (beyond key pos c) rows"
  using assms(2)
proof (induction fuel arbitrary: c)
  case (Suc fuel)
  let ?rest = "filter (beyond key pos c) rows"
  obtain rs nxt where page: "page c = (rs, nxt)" by fastforce
  have rs: "rs = take n ?rest" using page_rows [of c] page by simp
  show ?case
  proof (cases nxt)
    case None
    then have "length rs < n" using page_next [of c] page by simp
    then show ?thesis using page None rs by (simp add: min_def split: if_splits)
  next
    case (Some c')
    then have len: "n \<le> length rs" using page_next [of c] page by auto
    then have ne: "rs \<noteq> []" using page_size by auto
    have "filter (beyond key pos (Some c')) rows = drop n ?rest"
      by (rule beyond_last [OF assms(1), of rs]) (use ne rs page_cursor [of c c'] page Some in auto)
    moreover have "length (drop n ?rest) < fuel"
      using Suc.prems page_size len rs by simp
    ultimately have "walk fuel page (Some c') = drop n ?rest" using Suc.IH [of "Some c'"] by simp
    then show ?thesis using page Some rs by simp
  qed
qed simp

lemma walk_all:
  assumes "distinct (map key rows)" "length rows < fuel"
  shows "walk fuel page None = rows"
  using walk_from [of None fuel] assms by (simp add: beyond_def [abs_def])

end

end
