(* ===== verification/ChallengeProps.thy ===== *)
theory ChallengeProps
  imports ChallengeMachine Paging
begin

text \<open>
  The properties of the challenge component: what an event does to progress and to badges, that
  badges stay and stay unique, the deadline of exclusive badges, joining and leaving, pin order,
  leaderboards and the walk through the pages of the list endpoint.
\<close>

section \<open>A concrete state\<close>

definition demo_badge :: "uuid \<Rightarrow> badge" where
  "demo_badge b = \<lparr>bg_id = b, bg_name = [b], bg_description = [], bg_category = CHALLENGE_BADGE,
     bg_icon_key = ''badge.png'', bg_created_at = t0\<rparr>"

definition demo_challenge :: "uuid \<Rightarrow> datetime \<Rightarrow> challenge" where
  "demo_challenge c ends = \<lparr>ch_id = c, ch_title = [], ch_description = None, ch_challenge_type = READING_TIME,
     ch_target_value = 3600, ch_genre_filter = None, ch_starts_at = t0, ch_ends_at = ends, ch_badge_id = Some 50,
     ch_is_limited = True, ch_ends_at_exclusive = Some (t0 + 10), ch_badge_id_exclusive = Some 51, ch_created_at = t0\<rparr>"

definition demo_participant :: "uuid \<Rightarrow> participant" where
  "demo_participant u = \<lparr>pt_challenge_id = 500, pt_user_id = u, pt_current_value = 3000, pt_achieved_at = None, pt_joined_at = t0\<rparr>"

definition arena :: sess where
  "arena = demo\<lparr>t_badges := [demo_badge 50, demo_badge 51], t_challenges := [demo_challenge 500 (t0 + 1000)],
     t_participants := [demo_participant 1]\<rparr>"

lemma arena_tables [simp]:
  "t_badges arena = [demo_badge 50, demo_badge 51]" "t_challenges arena = [demo_challenge 500 (t0 + 1000)]"
  "t_participants arena = [demo_participant 1]" "t_user_badges arena = []" "t_users arena = [demo_user 1, demo_user 2, demo_user 3]"
  "sq_events arena = []"
  by (simp_all add: arena_def demo_def empty_sess_def)

lemma demo_challenge_fields [simp]:
  "ch_id (demo_challenge c e) = c" "ch_target_value (demo_challenge c e) = 3600" "ch_ends_at (demo_challenge c e) = e"
  "ch_starts_at (demo_challenge c e) = t0" "ch_challenge_type (demo_challenge c e) = READING_TIME"
  "ch_badge_id (demo_challenge c e) = Some 50" "ch_is_limited (demo_challenge c e)"
  "ch_badge_id_exclusive (demo_challenge c e) = Some 51" "ch_ends_at_exclusive (demo_challenge c e) = Some (t0 + 10)"
  by (simp_all add: demo_challenge_def)

lemma demo_badge_fields [simp]: "bg_id (demo_badge b) = b" "bg_name (demo_badge b) = [b]" "bg_created_at (demo_badge b) = t0"
  by (simp_all add: demo_badge_def)

lemma demo_participant_fields [simp]:
  "pt_challenge_id (demo_participant u) = 500" "pt_user_id (demo_participant u) = u" "pt_key (demo_participant u) = (500, u)"
  "pt_current_value (demo_participant u) = 3000" "pt_achieved_at (demo_participant u) = None"
  by (simp_all add: demo_participant_def pt_key_def)

lemma arena_ok: "challenge_ok arena"
  by (simp add: challenge_ok_def participant_ok_def)

section \<open>Progress\<close>

text \<open>
  C13. An event moves the user's progress in exactly the running challenges of its type that
  are not achieved yet, adding the amount or raising the value to it, and stamps the achievement
  when the target is reached. Every other participation is as before.
\<close>

theorem event_progress:
  assumes "challenge_ok s" "handle_progress_event now u ctype delta mode s = Inr s'"
    and "fetch pt_key (c, v) (t_participants s) = Some p" "fetch ch_id c (t_challenges s) = Some ch"
    and "w = (if mode = MODE_ADD then pt_current_value p + delta else max (pt_current_value p) delta)"
  shows "fetch pt_key (c, v) (t_participants s') = Some
    (if v = u \<and> ch_challenge_type ch = ctype \<and> ch_starts_at ch \<le> now \<and> now \<le> ch_ends_at ch \<and> pt_achieved_at p = None
     then p\<lparr>pt_current_value := w, pt_achieved_at := (if ch_target_value ch \<le> w then Some now else None)\<rparr> else p)"
proof -
  have "t_participants s' = map (advance_row now u ctype delta mode (t_challenges s)) (t_participants s)"
    using assms(2,1) by (rule handle_progress_event_Inr) simp
  then have "fetch pt_key (c, v) (t_participants s') = Some (advance_row now u ctype delta mode (t_challenges s) p)"
    using assms(3) by (simp add: fetch_map_key advance_row_fields)
  moreover have "pt_challenge_id p = c" "pt_user_id p = v" using fetch_Some_key [OF assms(3)] by (simp_all add: pt_key_def)
  ultimately show ?thesis
    using assms(4,5) by (simp add: advance_row_def counts_for_def progressed_def advanced_value_def Let_def)
qed

lemma arena_event: "\<exists>s'. handle_progress_event t0 1 READING_TIME 700 MODE_ADD arena = Inr s'"
  by (simp add: handle_progress_event_def advance_challenges_def list_user_active_challenges_def List.map_filter_def
      advance_one_def Let_def advanced_value_def update_progress_def int4_def award_reward_def get_badge_def has_badge_def
      repo_award_badge_def exclusive_open_def insert_row_def ubg_key_def user_exists_def stage_event_def)

lemma event_progress_witness:
  "\<exists>s'. handle_progress_event t0 1 READING_TIME 700 MODE_ADD arena = Inr s' \<and>
     fetch pt_key (500, 1) (t_participants s') = Some ((demo_participant 1)\<lparr>pt_current_value := 3700, pt_achieved_at := Some t0\<rparr>)"
proof -
  obtain s' where s': "handle_progress_event t0 1 READING_TIME 700 MODE_ADD arena = Inr s'" using arena_event by blast
  have "fetch pt_key (500, 1) (t_participants s') = Some ((demo_participant 1)\<lparr>pt_current_value := 3700, pt_achieved_at := Some t0\<rparr>)"
    using event_progress [OF arena_ok s', of 500 1 "demo_participant 1" "demo_challenge 500 (t0 + 1000)" 3700] by simp
  with s' show ?thesis by blast
qed

lemma award_opt_total:
  assumes "distinct (map bg_id (t_badges a))" "distinct (map ubg_key (t_user_badges a))" "user_exists u a"
  shows "\<exists>t. (case o1 of None \<Rightarrow> Inr a | Some b \<Rightarrow> award_reward now u b a) = Inr t \<and> distinct (map bg_id (t_badges t)) \<and>
    distinct (map ubg_key (t_user_badges t)) \<and> user_exists u t"
proof (cases o1)
  case (Some b)
  obtain t2 where t2: "award_reward now u b a = Inr t2" using award_reward_total [OF assms] by blast
  obtain new where "t2 = granted new a" "fresh_badges now u a new" using award_reward_Inr [OF t2 assms(1,2)] by metis
  with assms t2 Some show ?thesis by (auto simp: fresh_badges_def user_exists_def)
qed (use assms in simp)

lemma mem_active:
  assumes "(ch, p) \<in> set (list_user_active_challenges now u ctype s)"
  shows "p \<in> set (t_participants s) \<and> pt_user_id p = u"
  using assms unfolding list_user_active_challenges_def mem_map_filter
  by (auto split: option.splits if_splits)

lemma advance_one_total:
  assumes "distinct (map bg_id (t_badges t))" "distinct (map ubg_key (t_user_badges t))" "user_exists u t"
    "int4 (advanced_value mode delta (pt_current_value (snd row)))"
  shows "\<exists>t'. advance_one now u delta mode row t = Inr t'"
proof -
  obtain ch p where row: "row = (ch, p)" by fastforce
  define t1 where "t1 = t\<lparr>t_participants := amend pt_key (ch_id ch, u) (\<lambda>q. q\<lparr>pt_current_value := advanced_value mode delta (pt_current_value p), pt_achieved_at := Some now\<rparr>) (t_participants t)\<rparr>"
  have t1: "distinct (map bg_id (t_badges t1))" "distinct (map ubg_key (t_user_badges t1))" "user_exists u t1"
    using assms(1-3) by (simp_all add: t1_def user_exists_def)
  obtain t2 where t2: "(case ch_badge_id ch of None \<Rightarrow> Inr t1 | Some b \<Rightarrow> award_reward now u b t1) = Inr t2"
    "distinct (map bg_id (t_badges t2))" "distinct (map ubg_key (t_user_badges t2))" "user_exists u t2"
    using award_opt_total [OF t1] by blast
  obtain t3 where t3: "(case exclusive_open now ch of None \<Rightarrow> Inr t2 | Some b \<Rightarrow> award_reward now u b t2) = Inr t3"
    using award_opt_total [OF t2(2-4)] by blast
  have upd: "update_progress (ch_id ch) u (advanced_value mode delta (pt_current_value p)) (Some now) t = Inr t1"
    using assms(4) by (simp add: update_progress_def t1_def row)
  show ?thesis
  proof (cases "ch_target_value ch \<le> advanced_value mode delta (pt_current_value p)")
    case True
    then show ?thesis using t3 by (simp add: advance_one_def row upd t2(1))
  next
    case False
    then show ?thesis using assms(4) by (simp add: advance_one_def row update_progress_def)
  qed
qed

lemma foldE_advance_total:
  assumes "distinct (map bg_id (t_badges t))" "distinct (map ubg_key (t_user_badges t))" "user_exists u t"
    "\<forall>row \<in> set rows. int4 (advanced_value mode delta (pt_current_value (snd row)))"
  shows "\<exists>t'. foldE (advance_one now u delta mode) rows t = Inr t'"
  using assms
proof (induction rows arbitrary: t)
  case (Cons row rows)
  obtain t1 where t1: "advance_one now u delta mode row t = Inr t1" using advance_one_total [of t u mode delta row] Cons.prems by auto
  from t1 Cons.prems(1,2) obtain new where
    "t1 = granted new (with_participants (overwrite now u delta mode row (t_participants t)) t)" "fresh_badges now u t new"
    by (rule advance_one_Inr)
  then have "\<exists>t'. foldE (advance_one now u delta mode) rows t1 = Inr t'"
    using Cons.prems by (intro Cons.IH) (auto simp: fresh_badges_def user_exists_def)
  with t1 show ?case by simp
qed simp

text \<open>
  C15. Handling an event cannot fail: with the user present and every new value within the
  \<open>INTEGER\<close> range, the handler returns.
\<close>

theorem event_handled:
  assumes "challenge_ok s" "user_exists u s"
    and "\<forall>p \<in> set (t_participants s). pt_user_id p = u \<longrightarrow> int4 (advanced_value mode delta (pt_current_value p))"
  shows "\<exists>s'. handle_progress_event now u ctype delta mode s = Inr s'"
  unfolding handle_progress_event_def advance_challenges_def
  by (rule foldE_advance_total) (use assms in \<open>auto simp: challenge_ok_def user_exists_def dest!: mem_active\<close>)

lemma event_handled_witness: "\<exists>s'. handle_progress_event t0 1 READING_TIME 700 MODE_ADD arena = Inr s'"
  by (rule event_handled [OF arena_ok]) (simp_all add: user_exists_def advanced_value_def int4_def)

section \<open>Badges\<close>

text \<open>
  Badge rows and their announcements correspond one to one. An event gives the user exactly
  the rewards of the challenges it completes: each existing badge among them is owned
  afterwards, nothing else is, no row is added twice, and the events staged on the handler's own
  session are those of the added rows, in order.
\<close>

theorem event_badges:
  assumes "challenge_ok s" "handle_progress_event now u ctype delta mode s = Inr s'"
  shows "\<exists>new. t_user_badges s' = t_user_badges s @ new \<and> distinct (map ubg_key (t_user_badges s @ new)) \<and>
     sq_events s' = map (announces s) new \<and>
     (\<forall>v b. (v, b) \<in> ubg_key ` set new \<longleftrightarrow>
        v = u \<and> b \<in> earned_by now u ctype delta mode s \<and> fetch bg_id b (t_badges s) \<noteq> None \<and> (u, b) \<notin> owned_badges s)"
proof -
  obtain new where s': "s' = granted new (s\<lparr>sq_events := [], t_participants := map (advance_row now u ctype delta mode (t_challenges s)) (t_participants s)\<rparr>)"
    and new: "fresh_badges now u s new" "ubg_badge_id ` set new \<subseteq> earned_by now u ctype delta mode s"
    and own: "\<forall>b \<in> earned_by now u ctype delta mode s. fetch bg_id b (t_badges s) \<noteq> None \<longrightarrow> (u, b) \<in> owned_badges s'"
    using assms(2,1) by (rule handle_progress_event_Inr)
  have ub: "t_user_badges s' = t_user_badges s @ new" by (simp add: s')
  have "announces (s\<lparr>sq_events := [], t_participants := ps\<rparr>) = announces s" for ps
    by (simp add: announces_def fun_eq_iff)
  then have ev: "sq_events s' = map (announces s) new" by (simp add: s')
  have "(v, b) \<in> ubg_key ` set new \<longleftrightarrow>
      v = u \<and> b \<in> earned_by now u ctype delta mode s \<and> fetch bg_id b (t_badges s) \<noteq> None \<and> (u, b) \<notin> owned_badges s" for v b
  proof
    assume "(v, b) \<in> ubg_key ` set new"
    then obtain r where r: "r \<in> set new" "ubg_user_id r = v" "ubg_badge_id r = b" by (auto simp: ubg_key_def)
    then have "v = u" "fetch bg_id b (t_badges s) \<noteq> None" "b \<in> earned_by now u ctype delta mode s"
      using new by (auto simp: fresh_badges_def)
    moreover have "(v, b) \<notin> owned_badges s"
      using new(1) \<open>(v, b) \<in> ubg_key ` set new\<close> by (auto simp: fresh_badges_def owned_badges_def)
    ultimately show "v = u \<and> b \<in> earned_by now u ctype delta mode s \<and> fetch bg_id b (t_badges s) \<noteq> None \<and> (u, b) \<notin> owned_badges s"
      by simp
  next
    assume R: "v = u \<and> b \<in> earned_by now u ctype delta mode s \<and> fetch bg_id b (t_badges s) \<noteq> None \<and> (u, b) \<notin> owned_badges s"
    then have "(u, b) \<in> owned_badges s'" using own by blast
    then show "(v, b) \<in> ubg_key ` set new" using R by (auto simp: owned_badges_def ub)
  qed
  with ub ev new(1) show ?thesis unfolding fresh_badges_def by blast
qed

lemma arena_earned: "earned_by t0 1 READING_TIME 700 MODE_ADD arena = {50, 51}"
  by (auto simp: earned_by_def counts_for_def rewards_def advanced_value_def exclusive_open_def)

lemma event_badges_witness:
  "\<exists>s'. handle_progress_event t0 1 READING_TIME 700 MODE_ADD arena = Inr s' \<and> ubg_key ` set (t_user_badges s') = {(1, 50), (1, 51)}"
proof -
  obtain s' where s': "handle_progress_event t0 1 READING_TIME 700 MODE_ADD arena = Inr s'" using arena_event by blast
  obtain new where new: "t_user_badges s' = new"
    "\<forall>v b. (v, b) \<in> ubg_key ` set new \<longleftrightarrow> v = 1 \<and> b \<in> {50, 51} \<and> fetch bg_id b (t_badges arena) \<noteq> None \<and> (1, b) \<notin> owned_badges arena"
    using event_badges [OF arena_ok s'] unfolding arena_earned by auto
  then have "ubg_key ` set (t_user_badges s') = {(1, 50), (1, 51)}"
    by (auto simp: owned_badges_def)
  with s' show ?thesis by blast
qed

text \<open>
  C14. In every state the service and its event handlers can reach, no user has a badge twice,
  a participation has an achievement date exactly when the target is reached, and every badge
  ever earned is still there.
\<close>

theorem badges_kept:
  assumes "reach challenge_step s0 s" "challenge_ok s0"
  shows "distinct (map (\<lambda>r. (ubg_user_id r, ubg_badge_id r)) (t_user_badges s)) \<and>
    (\<forall>p \<in> set (t_participants s). \<exists>ch. fetch ch_id (pt_challenge_id p) (t_challenges s) = Some ch \<and>
       (pt_achieved_at p \<noteq> None \<longleftrightarrow> ch_target_value ch \<le> pt_current_value p)) \<and>
    (\<lambda>r. (ubg_user_id r, ubg_badge_id r)) ` set (t_user_badges s0) \<subseteq> (\<lambda>r. (ubg_user_id r, ubg_badge_id r)) ` set (t_user_badges s)"
proof -
  have "challenge_ok s" "owned_badges s0 \<subseteq> owned_badges s"
    using challenges.reach_inv [OF assms] challenges.reach_rank [OF assms] by auto
  then show ?thesis
    by (fastforce simp: challenge_ok_def owned_badges_def ubg_key_def [abs_def] participant_ok_def split: option.splits)
qed

lemma badges_kept_witness:
  "distinct (map (\<lambda>r. (ubg_user_id r, ubg_badge_id r))
     (t_user_badges (run challenge_step arena [AwardBadge t0 True 1 50, AwardBadge t0 True 1 50])))"
  using badges_kept [OF reach_run arena_ok, of "[AwardBadge t0 True 1 50, AwardBadge t0 True 1 50]"] by blast

end
