(* ===== verification/ChallengeViews.thy ===== *)
theory ChallengeViews
  imports ChallengeProps
begin

text \<open>
  Membership, the deadline of exclusive badges, pin order, the leaderboard, and the pages of the
  list endpoint as an instance of \<open>cursor_pages\<close>.
\<close>

section \<open>Membership\<close>

text \<open>
  Joining adds one participation that starts at zero, joining again is refused, and leaving
  afterwards restores the tables exactly; leaving once more is refused.
\<close>

theorem join_leave_roundtrip:
  assumes "challenge_ok s" "join now c u s = Inr (p, s1)"
  shows "t_participants s1 = t_participants s @ [p] \<and> pt_current_value p = 0 \<and> pt_achieved_at p = None \<and>
    join now c u s1 = Inl AlreadyJoinedError \<and> leave c u s1 = Inr ((), s) \<and>
    leave c u s = Inl (DomainError NotFoundError ''NOT_PARTICIPANT'')"
proof -
  note j = join_Inr [OF assms(2)]
  have p: "pt_key p = (c, u)" "pt_current_value p = 0" "pt_achieved_at p = None" using j(3) by (simp_all add: pt_key_def)
  obtain ch where ch: "get_challenge c s = Inr (Some ch)" "\<not> ch_ends_at ch < now"
    using assms(2) by (auto simp: join_def split: if_splits)
  have g1: "get_challenge c s1 = Inr (Some ch)" using ch(1) by (simp add: get_challenge_def j(4))
  have d: "distinct (map pt_key (t_participants s))" "distinct (map pt_key (t_participants s1))"
    using assms(1) j(2) by (auto simp: challenge_ok_def j(4))
  have absent: "fetch pt_key (c, u) (t_participants s) = None" using j(2) p(1) by (simp add: fetch_None_iff)
  have here: "fetch pt_key (c, u) (t_participants s1) = Some p" using absent p(1) by (simp add: j(4) fetch_append)
  have "discard (\<lambda>q. pt_challenge_id q = c \<and> pt_user_id q = u) (t_participants s @ [p]) = t_participants s"
    using absent p(1) by (auto simp: discard_def filter_id_conv fetch_None_iff pt_key_def image_iff)
  then have "repo_leave c u s1 = s" by (simp add: repo_leave_def j(4))
  then have "leave c u s1 = Inr ((), s)" by (simp add: leave_def get_participant_eq [OF d(2)] here)
  moreover have "join now c u s1 = Inl AlreadyJoinedError"
    using ch(2) by (simp add: join_def g1 get_participant_eq [OF d(2)] here)
  moreover have "leave c u s = Inl (DomainError NotFoundError ''NOT_PARTICIPANT'')"
    by (simp add: leave_def get_participant_eq [OF d(1)] absent)
  ultimately show ?thesis using p j(4) by simp
qed

lemma join_leave_roundtrip_witness:
  "\<exists>p s1. join t0 500 2 arena = Inr (p, s1) \<and> leave 500 2 s1 = Inr ((), arena)"
proof -
  have "\<exists>p s1. join t0 500 2 arena = Inr (p, s1)"
    by (simp add: join_def get_challenge_def get_participant_def repo_join_def insert_row_def pt_key_def user_exists_def Let_def)
  then show ?thesis using join_leave_roundtrip [OF arena_ok, of t0 500 2] by blast
qed

text \<open>Both refusals of \<open>join\<close> are plain exceptions without a registered handler.\<close>

lemma join_refusals_are_500: "http_status AlreadyJoinedError = 500" "http_status ChallengeEndedError = 500"
  by simp_all

section \<open>The deadline of an exclusive badge\<close>

text \<open>The clock reading of a step that can give a badge.\<close>

fun step_time :: "challenge_op \<Rightarrow> datetime option" where
  "step_time (AwardBadge now _ _ _) = Some now"
| "step_time (OnReadingSession now _) = Some now"
| "step_time (OnUserBook now _) = Some now"
| "step_time (OnGrade now _) = Some now"
| "step_time _ = None"

lemma handler_exclusive:
  assumes "challenge_ok s" "handle_progress_event now u ctype delta mode s = Inr s'"
    and "\<forall>c \<in> set (t_challenges s). ch_badge_id c \<noteq> Some b \<and> (ch_badge_id_exclusive c = Some b \<longrightarrow> ch_ends_at_exclusive c = Some d)"
    and "d < now"
  shows "(v, b) \<in> owned_badges s' \<longleftrightarrow> (v, b) \<in> owned_badges s"
proof -
  obtain new where s': "s' = granted new (s\<lparr>sq_events := [], t_participants := map (advance_row now u ctype delta mode (t_challenges s)) (t_participants s)\<rparr>)"
    and new: "ubg_badge_id ` set new \<subseteq> earned_by now u ctype delta mode s"
    using assms(2,1) by (rule handle_progress_event_Inr)
  have "b \<notin> earned_by now u ctype delta mode s"
    using assms(3,4) by (fastforce simp: earned_by_def rewards_def exclusive_open_def dest: fetch_Some_mem
        split: if_splits option.splits)
  then show ?thesis using new by (auto simp: s' owned_badges_def ubg_key_def)
qed



section \<open>Pin order\<close>

lemma fetch_set_pins:
  assumes "distinct bs"
  shows "fetch ubg_key (v, b) (set_pins u (enumerate k bs) rows) =
    map_option (\<lambda>r. if v = u \<and> b \<in> set bs then r\<lparr>ubg_pin_order := int (k + length (takeWhile (\<lambda>x. x \<noteq> b) bs))\<rparr> else r)
      (fetch ubg_key (v, b) rows)"
  using assms
proof (induction bs arbitrary: k rows)
  case Nil
  then show ?case by (simp add: set_pins_def option.map_ident)
next
  case (Cons a bs)
  let ?rows = "amend ubg_key (u, a) (\<lambda>r. r\<lparr>ubg_pin_order := int k\<rparr>) rows"
  have "set_pins u (enumerate k (a # bs)) rows = set_pins u (enumerate (Suc k) bs) ?rows" by (simp add: set_pins_def)
  moreover have "fetch ubg_key (v, b) ?rows = (if (v, b) = (u, a) then map_option (\<lambda>r. r\<lparr>ubg_pin_order := int k\<rparr>) (fetch ubg_key (v, b) rows)
      else fetch ubg_key (v, b) rows)" by (rule fetch_amend) (simp add: ubg_key_def)
  ultimately show ?case using Cons.prems
    by (auto simp: Cons.IH option.map_comp o_def option.map_ident intro!: option.map_cong)
qed

lemma mem_my_badges:
  "(bd, r) \<in> set (repo_my_badges u s) \<longleftrightarrow> r \<in> set (t_user_badges s) \<and> ubg_user_id r = u \<and>
     fetch bg_id (ubg_badge_id r) (t_badges s) = Some bd"
proof -
  have f: "(if ubg_user_id q = u then map_option (\<lambda>b. (b, q)) (fetch bg_id (ubg_badge_id q) (t_badges s)) else None) = Some (bd, r) \<longleftrightarrow>
      q = r \<and> ubg_user_id r = u \<and> fetch bg_id (ubg_badge_id r) (t_badges s) = Some bd" for q
    by auto
  show ?thesis unfolding repo_my_badges_def set_order_desc mem_map_filter f by blast
qed

text \<open>
  Reordering is refused exactly when a listed badge is not the user's own. Otherwise the
  badges listed get their position in the list, the user's other badges get 0, and no other row
  changes.
\<close>

theorem reorder_pins:
  assumes "challenge_ok s" "distinct bs"
  shows "case reorder_pinned_badges u bs s of
      Inl e \<Rightarrow> e = DomainError NotFoundError ''BADGE_NOT_OWNED'' \<and> (\<exists>b \<in> set bs. (u, b) \<notin> owned_badges s)
    | Inr (_, s') \<Rightarrow> (\<forall>b \<in> set bs. (u, b) \<in> owned_badges s) \<and>
        fetch ubg_key (v, b) (t_user_badges s') = map_option (\<lambda>r. if v \<noteq> u then r
          else r\<lparr>ubg_pin_order := (if b \<in> set bs then int (length (takeWhile (\<lambda>x. x \<noteq> b) bs)) else 0)\<rparr>)
        (fetch ubg_key (v, b) (t_user_badges s))"
proof -
  have own: "b \<in> set (map (\<lambda>(_, ub). ubg_badge_id ub) (repo_my_badges u s)) \<longleftrightarrow> (u, b) \<in> owned_badges s" for b
  proof
    assume "b \<in> set (map (\<lambda>(_, ub). ubg_badge_id ub) (repo_my_badges u s))"
    then obtain bd r where "(bd, r) \<in> set (repo_my_badges u s)" "b = ubg_badge_id r" by auto
    then have "r \<in> set (t_user_badges s)" "ubg_key r = (u, b)" by (simp_all add: mem_my_badges ubg_key_def)
    then show "(u, b) \<in> owned_badges s" unfolding owned_badges_def by (metis imageI)
  next
    assume "(u, b) \<in> owned_badges s"
    then obtain r where r: "r \<in> set (t_user_badges s)" "ubg_user_id r = u" "ubg_badge_id r = b"
      by (auto simp: owned_badges_def ubg_key_def)
    then obtain bd where "fetch bg_id (ubg_badge_id r) (t_badges s) = Some bd"
      using assms(1) by (auto simp: challenge_ok_def)
    with r have "(bd, r) \<in> set (repo_my_badges u s)" by (simp add: mem_my_badges)
    with r(3) show "b \<in> set (map (\<lambda>(_, ub). ubg_badge_id ub) (repo_my_badges u s))" by force
  qed
  have reset: "fetch ubg_key (v, b) (map (\<lambda>r. if ubg_user_id r = u then r\<lparr>ubg_pin_order := 0\<rparr> else r) rows) =
      map_option (\<lambda>r. if v = u then r\<lparr>ubg_pin_order := 0\<rparr> else r) (fetch ubg_key (v, b) rows)" for rows
    by (induction rows) (auto simp: ubg_key_def)
  have "fetch ubg_key (v, b) (t_user_badges (repo_reorder_pinned_badges u bs s)) = map_option (\<lambda>r. if v \<noteq> u then r
        else r\<lparr>ubg_pin_order := (if b \<in> set bs then int (length (takeWhile (\<lambda>x. x \<noteq> b) bs)) else 0)\<rparr>)
      (fetch ubg_key (v, b) (t_user_badges s))"
    by (simp add: repo_reorder_pinned_badges_def fetch_set_pins [OF assms(2)] reset)
      (cases "fetch ubg_key (v, b) (t_user_badges s)", simp_all)
  then show ?thesis
    by (cases "\<forall>b \<in> set bs. (u, b) \<in> owned_badges s")
      (auto simp: reorder_pinned_badges_def own filter_empty_conv simp del: set_map)
qed

definition decorated :: sess where
  "decorated = arena\<lparr>t_user_badges := [\<lparr>ubg_user_id = 1, ubg_badge_id = 50, ubg_earned_at = t0, ubg_pin_order = 0\<rparr>,
     \<lparr>ubg_user_id = 1, ubg_badge_id = 51, ubg_earned_at = t0, ubg_pin_order = 0\<rparr>]\<rparr>"

lemma reorder_pins_witness:
  "\<exists>s'. reorder_pinned_badges 1 [51, 50] decorated = Inr ((), s') \<and>
     map_option ubg_pin_order (fetch ubg_key (1, 50) (t_user_badges s')) = Some 1"
proof -
  have ok: "challenge_ok decorated" using arena_ok by (simp add: challenge_ok_def decorated_def ubg_key_def)
  have "\<forall>b \<in> set [51, 50]. (1, b) \<in> owned_badges decorated" by (simp add: decorated_def owned_badges_def ubg_key_def)
  moreover have spec: "case reorder_pinned_badges 1 [51, 50] decorated of
      Inl e \<Rightarrow> e = DomainError NotFoundError ''BADGE_NOT_OWNED'' \<and> (\<exists>b \<in> set [51, 50]. (1, b) \<notin> owned_badges decorated)
    | Inr (_, s') \<Rightarrow> (\<forall>b \<in> set [51, 50]. (1, b) \<in> owned_badges decorated) \<and>
        fetch ubg_key (1, 50) (t_user_badges s') = map_option (\<lambda>r. if 1 \<noteq> (1 :: uuid) then r
          else r\<lparr>ubg_pin_order := (if 50 \<in> set [51, 50 :: uuid] then int (length (takeWhile (\<lambda>x. x \<noteq> 50) [51, 50 :: uuid])) else 0)\<rparr>)
        (fetch ubg_key (1, 50) (t_user_badges decorated))"
    by (rule reorder_pins [OF ok]) simp
  ultimately obtain y where y: "reorder_pinned_badges 1 [51, 50] decorated = Inr y"
    by (cases "reorder_pinned_badges 1 [51, 50] decorated") auto
  obtain s' where "y = ((), s')" by (cases y) auto
  with y spec show ?thesis by (simp add: decorated_def ubg_key_def)
qed

section \<open>The leaderboard\<close>

definition entry_of :: "nat \<Rightarrow> participant \<times> user \<Rightarrow> leaderboard_entry" where
  "entry_of i row = \<lparr>le_rank = i, le_user_id = pt_user_id (fst row), le_nickname = us_nickname (snd row),
     le_profile_image_url = us_profile_image_url (snd row), le_current_value = pt_current_value (fst row),
     le_achieved_at = pt_achieved_at (fst row)\<rparr>"

lemma leaderboard_rows:
  assumes "leaderboard c limit s = Inr es" "rows = repo_leaderboard c (nat (max 1 (min limit 100))) s"
  shows "length es = length rows" "i < length rows \<Longrightarrow> es ! i = entry_of (i + 1) (rows ! i)"
proof -
  have es: "es = map (\<lambda>(i, p, u). \<lparr>le_rank = i, le_user_id = pt_user_id p, le_nickname = us_nickname u,
             le_profile_image_url = us_profile_image_url u, le_current_value = pt_current_value p,
             le_achieved_at = pt_achieved_at p\<rparr>) (enumerate 1 rows)"
    using assms(1) unfolding leaderboard_def bindE_Inr_iff assms(2) by blast
  show "length es = length rows" by (simp add: es)
  show "i < length rows \<Longrightarrow> es ! i = entry_of (i + 1) (rows ! i)"
    by (simp add: es entry_of_def nth_enumerate_eq case_prod_beta)
qed

definition live_participants :: "uuid \<Rightarrow> sess \<Rightarrow> (participant \<times> user) set" where
  "live_participants c s = {(p, usr). p \<in> set (t_participants s) \<and> pt_challenge_id p = c \<and>
     fetch us_id (pt_user_id p) (t_users s) = Some usr \<and> us_deleted_at usr = None}"

lemma repo_leaderboard_top:
  assumes rows_def: "rows = repo_leaderboard c n s"
  shows "length rows \<le> n" "set rows \<subseteq> live_participants c s"
    "sorted_wrt (\<lambda>x y. pt_current_value (fst y) \<le> pt_current_value (fst x)) rows"
    "x \<in> live_participants c s \<Longrightarrow> x \<notin> set rows \<Longrightarrow>
       length rows = n \<and> (\<forall>y \<in> set rows. pt_current_value (fst x) \<le> pt_current_value (fst y))"
proof -
  define full where "full = order_desc (\<lambda>(p, _). pt_current_value p)
       (List.map_filter (\<lambda>p. case fetch us_id (pt_user_id p) (t_users s) of None \<Rightarrow> None
          | Some u \<Rightarrow> if pt_challenge_id p = c \<and> us_deleted_at u = None then Some (p, u) else None)
        (t_participants s))"
  have rows: "rows = take n full" by (simp add: rows_def repo_leaderboard_def full_def)
  have f: "(case fetch us_id (pt_user_id q) (t_users s) of None \<Rightarrow> None
          | Some u \<Rightarrow> if pt_challenge_id q = c \<and> us_deleted_at u = None then Some (q, u) else None) = Some (p, usr) \<longleftrightarrow>
      q = p \<and> pt_challenge_id p = c \<and> fetch us_id (pt_user_id p) (t_users s) = Some usr \<and> us_deleted_at usr = None"
    for p q usr by (cases "fetch us_id (pt_user_id q) (t_users s)") auto
  have full: "set full = live_participants c s"
  proof (rule set_eqI)
    fix x :: "participant \<times> user"
    obtain p usr where x: "x = (p, usr)" by fastforce
    show "x \<in> set full \<longleftrightarrow> x \<in> live_participants c s"
      unfolding full_def set_order_desc live_participants_def x mem_map_filter f by blast
  qed
  have srt: "sorted_wrt (\<lambda>x y. pt_current_value (fst y) \<le> pt_current_value (fst x)) (take n full @ drop n full)"
    using sorted_order_desc [of "\<lambda>(p, _). pt_current_value p"] by (simp add: full_def case_prod_beta)
  show "length rows \<le> n" by (simp add: rows)
  show "set rows \<subseteq> live_participants c s" by (metis rows full set_take_subset)
  show "sorted_wrt (\<lambda>x y. pt_current_value (fst y) \<le> pt_current_value (fst x)) rows"
    using srt unfolding sorted_wrt_append rows by blast
  assume x: "x \<in> live_participants c s" "x \<notin> set rows"
  then have "x \<in> set (drop n full)" using full rows by (metis Un_iff append_take_drop_id set_append)
  moreover from this have "length rows = n" by (cases "length full \<le> n") (simp_all add: rows)
  ultimately show "length rows = n \<and> (\<forall>y \<in> set rows. pt_current_value (fst x) \<le> pt_current_value (fst y))"
    using srt unfolding sorted_wrt_append rows by blast
qed

text \<open>
  A leaderboard ranks from 1 without gaps, in descending order of progress, at most 100
  entries, each a live participant of the challenge; and a live participant who is missing from
  it has no more progress than anyone on it, and is missing only because it is full.
\<close>

theorem leaderboard_top:
  assumes "leaderboard c limit s = Inr es"
  shows "map le_rank es = [1..<length es + 1] \<and> int (length es) \<le> max 1 (min limit 100) \<and>
    sorted_wrt (\<lambda>x y. le_current_value y \<le> le_current_value x) es \<and>
    (\<forall>e \<in> set es. \<exists>(p, usr) \<in> live_participants c s. pt_user_id p = le_user_id e \<and> pt_current_value p = le_current_value e) \<and>
    (\<forall>(p, usr) \<in> live_participants c s. pt_user_id p \<notin> le_user_id ` set es \<longrightarrow>
       int (length es) = max 1 (min limit 100) \<and> (\<forall>e \<in> set es. pt_current_value p \<le> le_current_value e))"
proof -
  define rows where "rows = repo_leaderboard c (nat (max 1 (min limit 100))) s"
  note es = leaderboard_rows [OF assms rows_def]
  note top = repo_leaderboard_top [OF rows_def]
  have len: "length es = length rows" by (rule es(1))
  have mem: "\<exists>row \<in> set rows. le_user_id e = pt_user_id (fst row) \<and> le_current_value e = pt_current_value (fst row)" if "e \<in> set es" for e
  proof -
    obtain i where "i < length rows" "e = es ! i" using \<open>e \<in> set es\<close> es(1) by (auto simp: in_set_conv_nth)
    with es(2) [of i] show ?thesis by (intro bexI [of _ "rows ! i"]) (simp_all add: entry_of_def)
  qed
  have listed: "\<exists>e \<in> set es. le_user_id e = pt_user_id (fst row)" if "row \<in> set rows" for row
  proof -
    obtain i where "i < length rows" "row = rows ! i" using \<open>row \<in> set rows\<close> by (auto simp: in_set_conv_nth)
    then have "es ! i \<in> set es" "le_user_id (es ! i) = pt_user_id (fst row)"
      using es(1) es(2) [of i] nth_mem [of i es] by (simp_all add: entry_of_def del: nth_mem)
    then show ?thesis by blast
  qed
  have "map le_rank es = [1..<length es + 1]"
    by (rule nth_equalityI) (use es in \<open>simp_all add: entry_of_def nth_append del: upt_Suc\<close>)
  moreover have "int (length es) \<le> max 1 (min limit 100)" using top(1) len by linarith
  moreover have "sorted_wrt (\<lambda>x y. le_current_value y \<le> le_current_value x) es"
    using top(3) es by (simp add: sorted_wrt_iff_nth_less entry_of_def)
  moreover have "\<exists>(p, usr) \<in> live_participants c s. pt_user_id p = le_user_id e \<and> pt_current_value p = le_current_value e"
    if "e \<in> set es" for e
    using mem [OF that] top(2) by fastforce
  moreover have "int (length es) = max 1 (min limit 100) \<and> (\<forall>e \<in> set es. pt_current_value p \<le> le_current_value e)"
    if "(p, usr) \<in> live_participants c s" "pt_user_id p \<notin> le_user_id ` set es" for p usr
  proof -
    have "(p, usr) \<notin> set rows" using listed that(2) by force
    then have "length rows = nat (max 1 (min limit 100)) \<and> (\<forall>y \<in> set rows. pt_current_value p \<le> pt_current_value (fst y))"
      using top(4) [OF that(1)] by simp
    then show ?thesis using mem len by fastforce
  qed
  ultimately show ?thesis by blast
qed

lemma leaderboard_top_witness: "\<exists>es. leaderboard 500 10 arena = Inr es \<and> map le_rank es = [1..<length es + 1]"
proof -
  have "\<exists>es. leaderboard 500 10 arena = Inr es" by (simp add: leaderboard_def get_challenge_def)
  then show ?thesis using leaderboard_top [of 500 10 arena] by blast
qed

section \<open>Pages of the list endpoint\<close>

definition matching :: "datetime \<Rightarrow> string option \<Rightarrow> sess \<Rightarrow> challenge list" where
  "matching now status s = order_asc ch_ends_at (filter (list_status now True status) (t_challenges s))"

definition challenge_page ::
    "datetime \<Rightarrow> uuid \<Rightarrow> string option \<Rightarrow> int \<Rightarrow> sess \<Rightarrow> datetime option \<Rightarrow> challenge list \<times> datetime option" where
  "challenge_page now viewer status limit s cursor =
     (case list_challenges now viewer status limit cursor s of (items, nxt) \<Rightarrow> (map cp_challenge items, nxt))"

lemma challenge_page_eq:
  fixes limit :: int
  defines "n \<equiv> nat (max 1 (min limit 50))"
  shows "challenge_page now viewer status limit s c =
    (let rows = take n (filter (beyond ch_ends_at (\<lambda>d. d) c) (matching now status s))
     in (rows, if length rows = n then Some (ch_ends_at (last rows)) else None))"
proof -
  have "filter (\<lambda>ch. list_status now True status ch \<and> (case c of None \<Rightarrow> True | Some k \<Rightarrow> k < ch_ends_at ch)) (t_challenges s) =
      filter (beyond ch_ends_at (\<lambda>d. d) c) (filter (list_status now True status) (t_challenges s))"
    unfolding filter_filter by (intro filter_cong) (auto simp: beyond_def)
  then have rows: "repo_list_challenges now status n c True s = take n (filter (beyond ch_ends_at (\<lambda>d. d) c) (matching now status s))"
    by (simp add: repo_list_challenges_def matching_def order_asc_def filter_sort)
  have len: "int k = max 1 (min limit 50) \<longleftrightarrow> k = n" for k by (auto simp: n_def)
  show ?thesis
    unfolding challenge_page_def list_challenges_def Let_def n_def [symmetric] rows
    by (simp add: len o_def public_view_def)
qed

interpretation challenge_pages: cursor_pages "challenge_page now viewer status limit s" "matching now status s"
  ch_ends_at "\<lambda>d. d" "nat (max 1 (min limit 50))"
  for now viewer status limit s
  by unfold_locales
    (auto simp: challenge_page_eq Let_def matching_def sorted_order_asc min_def split: if_splits)

text \<open>
  Following the cursors of the list endpoint from the first page yields every challenge of
  the requested status exactly once, in order of its end, when no two of them end at the same
  instant.
\<close>

theorem challenge_walk_complete:
  assumes "distinct (map ch_ends_at (filter (list_status now True status) (t_challenges s)))"
    and "length (t_challenges s) < fuel"
  shows "walk fuel (\<lambda>c. case list_challenges now viewer status limit c s of (items, nxt) \<Rightarrow> (map cp_challenge items, nxt)) None =
    order_asc ch_ends_at (filter (list_status now True status) (t_challenges s))"
proof -
  have "length (matching now status s) < fuel"
    using le_less_trans [OF length_filter_le assms(2)] by (simp add: matching_def)
  moreover have "distinct (map ch_ends_at (matching now status s))"
    using assms(1) by (simp add: matching_def distinct_map_order_asc)
  ultimately show ?thesis
    using challenge_pages.walk_all [of now status s fuel viewer limit]
    unfolding matching_def challenge_page_def [abs_def] by simp
qed

lemma challenge_walk_complete_witness:
  "walk 3 (\<lambda>c. case list_challenges t0 1 (Some ''active'') 1 c arena of (items, nxt) \<Rightarrow> (map cp_challenge items, nxt)) None =
     [demo_challenge 500 (t0 + 1000)]"
  using challenge_walk_complete [of t0 "Some ''active''" arena 3 1 1]
  by (simp add: list_status_def order_asc_def)

text \<open>Two challenges that end together: a page boundary between them loses the second.\<close>

lemma challenge_walk_loses_tie:
  "walk 9 (challenge_page t0 1 None 1 (arena\<lparr>t_challenges := [demo_challenge 500 (t0 + 1000), demo_challenge 501 (t0 + 1000)]\<rparr>)) None =
     [demo_challenge 500 (t0 + 1000)]"
  by (simp add: eval_nat_numeral challenge_page_eq matching_def list_status_def order_asc_def beyond_def Let_def)

end
