(* ===== verification/ClubRepo.thy ===== *)
theory ClubRepo
  imports BookLibrary
begin

text \<open>
  \<open>ClubRepository\<close> of \<open>backend/app/domains/club/repository.py\<close>: clubs, tags and members, events
  and answers, chat messages and read marks, rooms, and reading plans. Row identifiers, the
  generated invite code and the clock are parameters. Lengths that the request models bound
  before a repository is reached are not checked again; what they leave open (tags, pages) is.
\<close>

section \<open>Clubs\<close>

fun insert_tags :: "(nat \<Rightarrow> uuid) \<Rightarrow> uuid \<Rightarrow> pystr list \<Rightarrow> club_tag list \<Rightarrow> club_tag list result" where
  "insert_tags ids club_id [] rows = Inr rows"
| "insert_tags ids club_id (tag # tags) rows =
     (if 32 < length tag then Inl DataError
      else bindE (insert_row ct_id (filter (\<lambda>r. ct_club_id r = club_id \<and> ct_tag r = tag) rows = [])
              \<lparr>ct_id = ids 0, ct_club_id = club_id, ct_tag = tag\<rparr> rows)
            (insert_tags (\<lambda>k. ids (Suc k)) club_id tags))"

definition repo_create_club ::
    "uuid \<Rightarrow> (nat \<Rightarrow> uuid) \<Rightarrow> string \<Rightarrow> datetime \<Rightarrow> uuid \<Rightarrow> pystr \<Rightarrow> pystr option \<Rightarrow> uuid option \<Rightarrow> int \<Rightarrow> bool \<Rightarrow>
     pystr option \<Rightarrow> pystr list \<Rightarrow> sess \<Rightarrow> reading_club outcome" where
  "repo_create_club new_id tag_ids invite_code now owner_id nam description book_id max_members is_public category tags s =
     (let club = \<lparr>rc_id = new_id, rc_name = nam, rc_description = description, rc_owner_id = owner_id,
                  rc_book_id = book_id, rc_invite_code = invite_code, rc_max_members = max_members,
                  rc_is_public = is_public, rc_category = category, rc_created_at = now\<rparr>;
          member = \<lparr>cm_club_id = new_id, cm_user_id = owner_id, cm_role = OWNER, cm_joined_at = now,
                    cm_current_page = 0, cm_last_page_updated_at = None\<rparr>;
          ok = user_exists owner_id s \<and> (case book_id of None \<Rightarrow> True | Some b \<Rightarrow> book_exists b s) \<and>
               filter (\<lambda>c. rc_invite_code c = invite_code) (t_clubs s) = []
      in bindE (insert_row rc_id ok club (t_clubs s)) (\<lambda>clubs.
         bindE (insert_row cm_key True member (t_club_members s)) (\<lambda>members.
         bindE (insert_tags tag_ids new_id tags (t_club_tags s)) (\<lambda>tag_rows.
         Inr (club, s\<lparr>t_clubs := clubs, t_club_members := members, t_club_tags := tag_rows\<rparr>)))))"

definition club_by_id :: "uuid \<Rightarrow> sess \<Rightarrow> reading_club option" where
  "club_by_id club_id s = fetch rc_id club_id (t_clubs s)"

definition club_by_invite_code :: "string \<Rightarrow> sess \<Rightarrow> reading_club option result" where
  "club_by_invite_code code s = scalar_one_or_none (filter (\<lambda>c. rc_invite_code c = code) (t_clubs s))"

definition clubs_of_user :: "uuid \<Rightarrow> sess \<Rightarrow> reading_club list" where
  "clubs_of_user user_id s =
     order_desc rc_created_at (filter (\<lambda>c. \<exists>m \<in> set (t_club_members s). cm_club_id m = rc_id c \<and> cm_user_id m = user_id)
       (t_clubs s))"

definition member_count :: "uuid \<Rightarrow> sess \<Rightarrow> nat" where
  "member_count club_id s = length (filter (\<lambda>m. cm_club_id m = club_id) (t_club_members s))"

text \<open>\<open>ORDER BY member_count DESC, created_at DESC\<close>.\<close>

definition popular_first :: "sess \<Rightarrow> reading_club list \<Rightarrow> reading_club list" where
  "popular_first s clubs = order_desc (\<lambda>c. int (member_count (rc_id c) s)) (order_desc rc_created_at clubs)"

definition before_cursor :: "datetime option \<Rightarrow> datetime \<Rightarrow> bool" where
  "before_cursor cursor t = (case cursor of None \<Rightarrow> True | Some c \<Rightarrow> t < c)"

text \<open>\<open>ilike pattern text\<close> is the server's case-insensitive match; \<open>%\<close> is code point 37.\<close>

definition list_public ::
    "(pystr \<Rightarrow> pystr \<Rightarrow> bool) \<Rightarrow> pystr option \<Rightarrow> string \<Rightarrow> datetime option \<Rightarrow> nat \<Rightarrow> sess \<Rightarrow> reading_club list" where
  "list_public ilike search sort_by cursor limit s =
     (let title = (\<lambda>c. case rc_book_id c of None \<Rightarrow> None | Some b \<Rightarrow> map_option bk_title (fetch bk_id b (t_books s)));
          hit = (\<lambda>c. case search of None \<Rightarrow> True
                 | Some q \<Rightarrow> q = [] \<or> ilike ([37] @ q @ [37]) (rc_name c) \<or>
                     (case title c of None \<Rightarrow> False | Some t \<Rightarrow> ilike ([37] @ q @ [37]) t));
          found = filter (\<lambda>c. rc_is_public c \<and> hit c \<and> before_cursor cursor (rc_created_at c)) (t_clubs s)
      in take limit (if sort_by = ''popular'' then popular_first s found else order_desc rc_created_at found))"

definition repo_list_public_clubs ::
    "pystr option \<Rightarrow> pystr option \<Rightarrow> string \<Rightarrow> nat \<Rightarrow> datetime option \<Rightarrow> sess \<Rightarrow> reading_club list" where
  "repo_list_public_clubs category tag sort_by limit cursor s =
     (let found = filter (\<lambda>c. rc_is_public c \<and>
              (case category of None \<Rightarrow> True | Some k \<Rightarrow> rc_category c = Some k) \<and>
              (case tag of None \<Rightarrow> True | Some t \<Rightarrow> \<exists>r \<in> set (t_club_tags s). ct_club_id r = rc_id c \<and> ct_tag r = t) \<and>
              before_cursor cursor (rc_created_at c)) (t_clubs s)
      in take limit (if sort_by = ''popular'' then popular_first s found else order_desc rc_created_at found))"

text \<open>
  The taste profile lives in the discovery domain: here it is the list of its genres with their
  weights, \<open>None\<close> when there is no profile. \<open>sorted(..., reverse=True)\<close> is stable.
\<close>

definition recommended_clubs :: "(pystr \<times> int) list option \<Rightarrow> nat \<Rightarrow> sess \<Rightarrow> reading_club list" where
  "recommended_clubs genre_vector limit s =
     (let pub = filter rc_is_public (t_clubs s)
      in if genre_vector = None \<or> genre_vector = Some [] then take limit (popular_first s pub)
         else let top = map fst (take 2 (order_desc snd (the genre_vector)));
                  clubs = take limit (popular_first s (filter (\<lambda>c. case rc_category c of None \<Rightarrow> False | Some k \<Rightarrow> k \<in> set top) pub))
              in if length clubs < limit
                 then take limit (clubs @ take (limit - length clubs)
                        (popular_first s (filter (\<lambda>c. rc_id c \<notin> set (map rc_id clubs)) pub)))
                 else take limit clubs)"

definition set_club_tags :: "(nat \<Rightarrow> uuid) \<Rightarrow> uuid \<Rightarrow> pystr list \<Rightarrow> sess \<Rightarrow> sess result" where
  "set_club_tags ids club_id tags s =
     (if tags \<noteq> [] \<and> club_by_id club_id s = None then Inl IntegrityError
      else bindE (insert_tags ids club_id tags (discard (\<lambda>r. ct_club_id r = club_id) (t_club_tags s)))
             (\<lambda>rows. Inr (s\<lparr>t_club_tags := rows\<rparr>)))"

definition get_club_tags :: "uuid \<Rightarrow> sess \<Rightarrow> pystr list" where
  "get_club_tags club_id s = map ct_tag (filter (\<lambda>r. ct_club_id r = club_id) (t_club_tags s))"

definition is_member :: "uuid \<Rightarrow> uuid \<Rightarrow> sess \<Rightarrow> bool result" where
  "is_member club_id user_id s =
     bindE (scalar_one_or_none (filter (\<lambda>m. cm_club_id m = club_id \<and> cm_user_id m = user_id) (t_club_members s)))
       (\<lambda>r. Inr (r \<noteq> None))"

definition get_member_role :: "uuid \<Rightarrow> uuid \<Rightarrow> sess \<Rightarrow> club_role option result" where
  "get_member_role club_id user_id s =
     bindE (scalar_one_or_none (filter (\<lambda>m. cm_club_id m = club_id \<and> cm_user_id m = user_id) (t_club_members s)))
       (\<lambda>r. Inr (map_option cm_role r))"

text \<open>\<open>set_book\<close> commits inside the repository call.\<close>

definition repo_set_book :: "uuid \<Rightarrow> uuid option \<Rightarrow> sess \<Rightarrow> reading_club outcome" where
  "repo_set_book club_id book_id s =
     (if (case book_id of None \<Rightarrow> True | Some b \<Rightarrow> book_exists b s)
      then let f = (\<lambda>c. c\<lparr>rc_book_id := book_id\<rparr>) in
        (case club_by_id club_id s of
           None \<Rightarrow> Inl NoResultFound
         | Some c \<Rightarrow> Inr (f c, s\<lparr>t_clubs := amend rc_id club_id f (t_clubs s)\<rparr>))
      else Inl IntegrityError)"

definition repo_club_join :: "datetime \<Rightarrow> uuid \<Rightarrow> uuid \<Rightarrow> sess \<Rightarrow> sess result" where
  "repo_club_join now club_id user_id s =
     (let row = \<lparr>cm_club_id = club_id, cm_user_id = user_id, cm_role = MEMBER, cm_joined_at = now,
                 cm_current_page = 0, cm_last_page_updated_at = None\<rparr>
      in bindE (insert_row cm_key (club_by_id club_id s \<noteq> None \<and> user_exists user_id s) row (t_club_members s))
           (\<lambda>rows. Inr (s\<lparr>t_club_members := rows\<rparr>)))"

definition repo_club_leave :: "uuid \<Rightarrow> uuid \<Rightarrow> sess \<Rightarrow> sess" where
  "repo_club_leave club_id user_id s =
     s\<lparr>t_club_members := discard (\<lambda>m. cm_club_id m = club_id \<and> cm_user_id m = user_id) (t_club_members s)\<rparr>"

section \<open>Events\<close>

definition repo_create_event ::
    "uuid \<Rightarrow> datetime \<Rightarrow> uuid \<Rightarrow> uuid \<Rightarrow> pystr \<Rightarrow> pystr option \<Rightarrow> datetime \<Rightarrow> pystr option \<Rightarrow> int option \<Rightarrow> sess \<Rightarrow> club_event outcome" where
  "repo_create_event new_id now club_id created_by title description event_at location max_attendees s =
     (let row = \<lparr>ce_id = new_id, ce_club_id = club_id, ce_title = title, ce_description = description,
                 ce_location = location, ce_event_at = event_at, ce_max_attendees = max_attendees,
                 ce_created_by = created_by, ce_created_at = now\<rparr>
      in bindE (insert_row ce_id (club_by_id club_id s \<noteq> None \<and> user_exists created_by s) row (t_club_events s))
           (\<lambda>rows. Inr (row, s\<lparr>t_club_events := rows\<rparr>)))"

definition get_events :: "datetime \<Rightarrow> uuid \<Rightarrow> bool \<Rightarrow> sess \<Rightarrow> club_event list" where
  "get_events now club_id upcoming_only s =
     order_asc ce_event_at (filter (\<lambda>e. ce_club_id e = club_id \<and> (upcoming_only \<longrightarrow> now \<le> ce_event_at e)) (t_club_events s))"

definition event_by_id :: "uuid \<Rightarrow> sess \<Rightarrow> club_event option" where
  "event_by_id event_id s = fetch ce_id event_id (t_club_events s)"

definition given :: "'a option \<Rightarrow> 'a \<Rightarrow> 'a" where
  "given new old = (case new of None \<Rightarrow> old | Some x \<Rightarrow> x)"

definition given_opt :: "'a option \<Rightarrow> 'a option \<Rightarrow> 'a option" where
  "given_opt new old = (case new of None \<Rightarrow> old | Some x \<Rightarrow> Some x)"

definition repo_update_event ::
    "uuid \<Rightarrow> pystr option \<Rightarrow> pystr option \<Rightarrow> datetime option \<Rightarrow> pystr option \<Rightarrow> int option \<Rightarrow> sess \<Rightarrow> club_event option \<times> sess" where
  "repo_update_event event_id title description event_at location max_attendees s =
     (let f = (\<lambda>e. e\<lparr>ce_title := given title (ce_title e), ce_description := given_opt description (ce_description e),
                     ce_event_at := given event_at (ce_event_at e), ce_location := given_opt location (ce_location e),
                     ce_max_attendees := given_opt max_attendees (ce_max_attendees e)\<rparr>)
      in (map_option f (event_by_id event_id s), s\<lparr>t_club_events := amend ce_id event_id f (t_club_events s)\<rparr>))"

text \<open>Deleting an event cascades to its answers.\<close>

definition repo_delete_event :: "uuid \<Rightarrow> sess \<Rightarrow> sess" where
  "repo_delete_event event_id s =
     s\<lparr>t_club_events := discard (\<lambda>e. ce_id e = event_id) (t_club_events s),
       t_event_attendees := discard (\<lambda>a. ea_event_id a = event_id) (t_event_attendees s)\<rparr>"

definition upsert_rsvp :: "datetime \<Rightarrow> uuid \<Rightarrow> uuid \<Rightarrow> attendee_status \<Rightarrow> sess \<Rightarrow> event_attendee outcome" where
  "upsert_rsvp now event_id user_id status s =
     (case fetch ea_key (event_id, user_id) (t_event_attendees s) of
        Some old \<Rightarrow>
          (let f = (\<lambda>a. a\<lparr>ea_status := status, ea_responded_at := now\<rparr>)
           in Inr (f old, s\<lparr>t_event_attendees := amend ea_key (event_id, user_id) f (t_event_attendees s)\<rparr>))
      | None \<Rightarrow>
          (let row = \<lparr>ea_event_id = event_id, ea_user_id = user_id, ea_status = status, ea_responded_at = now\<rparr>
           in bindE (insert_row ea_key (event_by_id event_id s \<noteq> None \<and> user_exists user_id s) row (t_event_attendees s))
                (\<lambda>rows. Inr (row, s\<lparr>t_event_attendees := rows\<rparr>))))"

record attendee_public =
  ap_user_id :: uuid
  ap_nickname :: pystr
  ap_status :: attendee_status
  ap_responded_at :: datetime

definition repo_get_attendees :: "uuid \<Rightarrow> sess \<Rightarrow> attendee_public list" where
  "repo_get_attendees event_id s =
     List.map_filter (\<lambda>a. map_option (\<lambda>u. \<lparr>ap_user_id = ea_user_id a, ap_nickname = us_nickname u, ap_status = ea_status a,
          ap_responded_at = ea_responded_at a\<rparr>) (fetch us_id (ea_user_id a) (t_users s)))
       (order_asc ea_responded_at (filter (\<lambda>a. ea_event_id a = event_id) (t_event_attendees s)))"

record attendee_count =
  ac_going :: nat
  ac_maybe :: nat
  ac_not_going :: nat

definition get_attendee_counts :: "uuid \<Rightarrow> sess \<Rightarrow> attendee_count" where
  "get_attendee_counts event_id s =
     (let cnt = (\<lambda>st. length (filter (\<lambda>a. ea_event_id a = event_id \<and> ea_status a = st) (t_event_attendees s)))
      in \<lparr>ac_going = cnt GOING, ac_maybe = cnt MAYBE, ac_not_going = cnt NOT_GOING\<rparr>)"

definition get_my_rsvp_status :: "uuid \<Rightarrow> uuid \<Rightarrow> sess \<Rightarrow> attendee_status option" where
  "get_my_rsvp_status event_id user_id s = map_option ea_status (fetch ea_key (event_id, user_id) (t_event_attendees s))"

section \<open>Messages\<close>

definition create_message ::
    "uuid \<Rightarrow> datetime \<Rightarrow> uuid \<Rightarrow> uuid \<Rightarrow> pystr \<Rightarrow> pystr option \<Rightarrow> uuid option \<Rightarrow> sess \<Rightarrow> club_message outcome" where
  "create_message new_id now club_id user_id content media_url room_id s =
     (let row = \<lparr>ms_id = new_id, ms_club_id = club_id, ms_room_id = room_id, ms_user_id = user_id, ms_content = content,
                 ms_media_url = media_url, ms_created_at = now, ms_edited_at = None, ms_deleted_at = None\<rparr>;
          ok = club_by_id club_id s \<noteq> None \<and> user_exists user_id s \<and>
               (case room_id of None \<Rightarrow> True | Some r \<Rightarrow> fetch cr_id r (t_club_rooms s) \<noteq> None)
      in bindE (insert_row ms_id ok row (t_club_messages s)) (\<lambda>rows. Inr (row, s\<lparr>t_club_messages := rows\<rparr>)))"

definition read_count :: "uuid \<Rightarrow> sess \<Rightarrow> nat" where
  "read_count message_id s = length (filter (\<lambda>r. mr_message_id r = message_id) (t_message_reads s))"

definition repo_list_messages ::
    "uuid \<Rightarrow> datetime option \<Rightarrow> nat \<Rightarrow> uuid option \<Rightarrow> sess \<Rightarrow> (club_message \<times> pystr \<times> nat) list" where
  "repo_list_messages club_id cursor limit room_id s =
     take limit (List.map_filter
       (\<lambda>m. map_option (\<lambda>u. (m, us_nickname u, read_count (ms_id m) s)) (fetch us_id (ms_user_id m) (t_users s)))
       (order_desc ms_created_at (filter (\<lambda>m. ms_club_id m = club_id \<and> ms_deleted_at m = None \<and> ms_room_id m = room_id \<and>
          before_cursor cursor (ms_created_at m)) (t_club_messages s))))"

definition message_by_id :: "uuid \<Rightarrow> sess \<Rightarrow> club_message option" where
  "message_by_id message_id s = fetch ms_id message_id (t_club_messages s)"

definition update_message_content :: "uuid \<Rightarrow> pystr \<Rightarrow> datetime \<Rightarrow> sess \<Rightarrow> sess" where
  "update_message_content message_id content edited_at s =
     s\<lparr>t_club_messages := amend ms_id message_id (\<lambda>m. m\<lparr>ms_content := content, ms_edited_at := Some edited_at\<rparr>) (t_club_messages s)\<rparr>"

definition soft_delete_message :: "uuid \<Rightarrow> datetime \<Rightarrow> sess \<Rightarrow> sess" where
  "soft_delete_message message_id deleted_at s =
     s\<lparr>t_club_messages := amend ms_id message_id (\<lambda>m. m\<lparr>ms_deleted_at := Some deleted_at\<rparr>) (t_club_messages s)\<rparr>"

definition upsert_message_read :: "datetime \<Rightarrow> uuid \<Rightarrow> uuid \<Rightarrow> sess \<Rightarrow> sess result" where
  "upsert_message_read now message_id user_id s =
     (case fetch mr_key (message_id, user_id) (t_message_reads s) of
        Some _ \<Rightarrow> Inr s
      | None \<Rightarrow>
          (let row = \<lparr>mr_message_id = message_id, mr_user_id = user_id, mr_read_at = now\<rparr>
           in bindE (insert_row mr_key (message_by_id message_id s \<noteq> None \<and> user_exists user_id s) row (t_message_reads s))
                (\<lambda>rows. Inr (s\<lparr>t_message_reads := rows\<rparr>))))"

section \<open>Rooms\<close>

definition repo_create_room :: "uuid \<Rightarrow> datetime \<Rightarrow> uuid \<Rightarrow> pystr \<Rightarrow> int \<Rightarrow> uuid \<Rightarrow> sess \<Rightarrow> club_room outcome" where
  "repo_create_room new_id now club_id nam progress_gate created_by s =
     (let row = \<lparr>cr_id = new_id, cr_club_id = club_id, cr_name = nam, cr_progress_gate = progress_gate,
                 cr_created_by = created_by, cr_created_at = now\<rparr>
      in bindE (insert_row cr_id (club_by_id club_id s \<noteq> None \<and> user_exists created_by s) row (t_club_rooms s))
           (\<lambda>rows. Inr (row, s\<lparr>t_club_rooms := rows\<rparr>)))"

definition get_rooms :: "uuid \<Rightarrow> sess \<Rightarrow> club_room list" where
  "get_rooms club_id s =
     order_asc cr_progress_gate (order_asc cr_created_at (filter (\<lambda>r. cr_club_id r = club_id) (t_club_rooms s)))"

definition room_by_id :: "uuid \<Rightarrow> sess \<Rightarrow> club_room option" where
  "room_by_id room_id s = fetch cr_id room_id (t_club_rooms s)"

text \<open>The messages of a deleted room lose their room (\<open>ON DELETE SET NULL\<close>).\<close>

definition repo_delete_room :: "uuid \<Rightarrow> sess \<Rightarrow> sess" where
  "repo_delete_room room_id s =
     s\<lparr>t_club_rooms := discard (\<lambda>r. cr_id r = room_id) (t_club_rooms s),
       t_club_messages := map (\<lambda>m. if ms_room_id m = Some room_id then m\<lparr>ms_room_id := None\<rparr> else m) (t_club_messages s)\<rparr>"

definition get_user_chapter_for_club :: "uuid \<Rightarrow> uuid \<Rightarrow> sess \<Rightarrow> int result" where
  "get_user_chapter_for_club user_id club_id s =
     (case Option.bind (club_by_id club_id s) rc_book_id of
        None \<Rightarrow> Inr 0
      | Some b \<Rightarrow> bindE (scalar_one_or_none (filter (\<lambda>r. ub_user_id r = user_id \<and> ub_book_id r = b) (t_user_books s)))
          (\<lambda>r. Inr (case r of None \<Rightarrow> 0 | Some ub \<Rightarrow> ub_current_chapter ub)))"

section \<open>Reading plans\<close>

definition get_user_is_pro :: "uuid \<Rightarrow> sess \<Rightarrow> bool result" where
  "get_user_is_pro user_id s =
     bindE (scalar_one_or_none (filter (\<lambda>u. us_id u = user_id) (t_users s)))
       (\<lambda>u. Inr (case u of None \<Rightarrow> False | Some usr \<Rightarrow> us_is_pro usr))"

definition get_book_page_count :: "uuid \<Rightarrow> sess \<Rightarrow> int option" where
  "get_book_page_count book_id s = Option.bind (fetch bk_id book_id (t_books s)) bk_page_count"

definition repo_create_reading_plan ::
    "uuid \<Rightarrow> datetime \<Rightarrow> uuid \<Rightarrow> uuid \<Rightarrow> date \<Rightarrow> date \<Rightarrow> int \<Rightarrow> uuid \<Rightarrow> sess \<Rightarrow> reading_plan outcome" where
  "repo_create_reading_plan new_id now club_id book_id start_date end_date weekly_pages created_by s =
     (if \<not> int4 weekly_pages then Inl DataError
      else let row = \<lparr>rp_id = new_id, rp_club_id = club_id, rp_book_id = book_id, rp_start_date = start_date,
                      rp_end_date = end_date, rp_weekly_pages = weekly_pages, rp_created_by = created_by, rp_created_at = now\<rparr>;
               ok = club_by_id club_id s \<noteq> None \<and> book_exists book_id s \<and> user_exists created_by s
           in bindE (insert_row rp_id ok row (t_reading_plans s)) (\<lambda>rows. Inr (row, s\<lparr>t_reading_plans := rows\<rparr>)))"

definition get_active_reading_plan :: "uuid \<Rightarrow> sess \<Rightarrow> reading_plan option" where
  "get_active_reading_plan club_id s =
     (case order_desc rp_created_at (filter (\<lambda>p. rp_club_id p = club_id) (t_reading_plans s)) of [] \<Rightarrow> None | p # _ \<Rightarrow> Some p)"

definition repo_update_member_progress :: "datetime \<Rightarrow> uuid \<Rightarrow> uuid \<Rightarrow> int \<Rightarrow> sess \<Rightarrow> club_member option outcome" where
  "repo_update_member_progress now club_id user_id current_page s =
     (case fetch cm_key (club_id, user_id) (t_club_members s) of
        None \<Rightarrow> Inr (None, s)
      | Some m \<Rightarrow>
          if int4 current_page
          then let f = (\<lambda>m. m\<lparr>cm_current_page := current_page, cm_last_page_updated_at := Some now\<rparr>)
               in Inr (Some (f m), s\<lparr>t_club_members := amend cm_key (club_id, user_id) f (t_club_members s)\<rparr>)
          else Inl DataError)"

definition get_members_with_progress :: "uuid \<Rightarrow> sess \<Rightarrow> (club_member \<times> pystr) list" where
  "get_members_with_progress club_id s =
     List.map_filter (\<lambda>m. map_option (\<lambda>u. (m, us_nickname u)) (fetch us_id (cm_user_id m) (t_users s)))
       (order_asc cm_joined_at (filter (\<lambda>m. cm_club_id m = club_id) (t_club_members s)))"

definition get_member_ids :: "uuid \<Rightarrow> sess \<Rightarrow> uuid list" where
  "get_member_ids club_id s = map cm_user_id (filter (\<lambda>m. cm_club_id m = club_id) (t_club_members s))"

end
