(* ===== verification/ClubService.thy ===== *)
theory ClubService
  imports ClubRepo PyNum
begin

text \<open>
  \<open>ClubService\<close> of \<open>backend/app/domains/club/service.py\<close>, first part: clubs and membership,
  events, chat, rooms, and reading plans; with the two checks of
  \<open>backend/app/domains/club/ws_router.py\<close> that decide who may connect to a room and who is told
  of a message. \<open>feed\<close> says whether the feed service is wired. What an operation sends to open
  sockets is part of its value. The column \<open>role\<close> only ever holds the two values of \<open>ClubRole\<close>,
  so the third value \<open>manager\<close> that some guards accept does not occur.
\<close>

definition not_member :: error where "not_member = DomainError PermissionDeniedError ''NOT_MEMBER''"

definition denied :: error where "denied = DomainError PermissionDeniedError ''PERMISSION_DENIED''"

definition club_missing :: error where "club_missing = DomainError NotFoundError ''CLUB_NOT_FOUND''"

definition require_member :: "uuid \<Rightarrow> uuid \<Rightarrow> sess \<Rightarrow> unit result" where
  "require_member club_id user_id s = bindE (is_member club_id user_id s) (\<lambda>m. guardE m not_member)"

section \<open>Clubs and membership\<close>

definition create_club ::
    "uuid \<Rightarrow> (nat \<Rightarrow> uuid) \<Rightarrow> string \<Rightarrow> datetime \<Rightarrow> uuid \<Rightarrow> pystr \<Rightarrow> pystr option \<Rightarrow> uuid option \<Rightarrow> int \<Rightarrow> bool \<Rightarrow>
     pystr option \<Rightarrow> pystr list \<Rightarrow> sess \<Rightarrow> reading_club outcome" where
  "create_club new_id tag_ids invite_code now user_id nam description book_id max_members is_public category tags s =
     repo_create_club new_id tag_ids invite_code now user_id nam description book_id max_members is_public category tags s"

text \<open>The bounds of the request model \<open>CreateClubRequest\<close>; a violation is a 422 before the handler.\<close>

definition create_club_request_ok :: "pystr \<Rightarrow> pystr option \<Rightarrow> int \<Rightarrow> pystr option \<Rightarrow> bool" where
  "create_club_request_ok nam description max_members category \<longleftrightarrow>
     1 \<le> length nam \<and> length nam \<le> 100 \<and> (case description of None \<Rightarrow> True | Some d \<Rightarrow> length d \<le> 500) \<and>
     2 \<le> max_members \<and> max_members \<le> 50 \<and> (case category of None \<Rightarrow> True | Some c \<Rightarrow> length c \<le> 32)"

definition post_club ::
    "uuid \<Rightarrow> (nat \<Rightarrow> uuid) \<Rightarrow> string \<Rightarrow> datetime \<Rightarrow> uuid \<Rightarrow> pystr \<Rightarrow> pystr option \<Rightarrow> uuid option \<Rightarrow> int \<Rightarrow> bool \<Rightarrow>
     pystr option \<Rightarrow> pystr list \<Rightarrow> sess \<Rightarrow> reading_club outcome" where
  "post_club new_id tag_ids invite_code now user_id nam description book_id max_members is_public category tags s =
     (if create_club_request_ok nam description max_members category
      then create_club new_id tag_ids invite_code now user_id nam description book_id max_members is_public category tags s
      else Inl ValueError)"

definition get_club :: "uuid \<Rightarrow> sess \<Rightarrow> reading_club result" where
  "get_club club_id s = required club_missing (club_by_id club_id s)"

definition list_my_clubs :: "uuid \<Rightarrow> sess \<Rightarrow> reading_club list" where
  "list_my_clubs user_id s = clubs_of_user user_id s"

definition upper :: "string \<Rightarrow> string" where
  "upper = map (\<lambda>c. let n = of_char c :: nat in if 97 \<le> n \<and> n \<le> 122 then char_of (n - 32) else c)"

definition join_by_code :: "datetime \<Rightarrow> uuid \<Rightarrow> string \<Rightarrow> sess \<Rightarrow> reading_club outcome" where
  "join_by_code now user_id invite_code s =
     bindE (club_by_invite_code (upper invite_code) s) (\<lambda>c.
     bindE (required club_missing c) (\<lambda>club.
     if rc_max_members club \<le> int (member_count (rc_id club) s) then Inl (DomainError ConflictError ''CLUB_FULL'')
     else bindE (is_member (rc_id club) user_id s) (\<lambda>m.
       if m then Inr (club, s)
       else bindE (repo_club_join now (rc_id club) user_id s) (\<lambda>s1. Inr (club, s1)))))"

definition list_public_clubs ::
    "(pystr \<Rightarrow> pystr \<Rightarrow> bool) \<Rightarrow> pystr option \<Rightarrow> string \<Rightarrow> datetime option \<Rightarrow> nat \<Rightarrow> pystr option \<Rightarrow> pystr option \<Rightarrow> sess \<Rightarrow>
     reading_club list" where
  "list_public_clubs ilike search sort_by cursor limit category tag s =
     (if category \<noteq> None \<or> tag \<noteq> None then repo_list_public_clubs category tag sort_by limit cursor s
      else list_public ilike search sort_by cursor limit s)"

text \<open>
  The Redis cache: \<open>None\<close> when no client is wired, else what it answers for the key (\<open>None\<close>
  for a miss; a failing client counts as a miss). The second component is what is stored.
\<close>

definition get_recommended_clubs ::
    "uuid list option option \<Rightarrow> (pystr \<times> int) list option \<Rightarrow> nat \<Rightarrow> sess \<Rightarrow> reading_club list \<times> uuid list option" where
  "get_recommended_clubs redis genre_vector limit s =
     (case redis of
        Some (Some ids) \<Rightarrow> (List.map_filter (\<lambda>i. club_by_id i s) ids, None)
      | _ \<Rightarrow> let clubs = recommended_clubs genre_vector limit s
             in (clubs, if redis = None then None else Some (map rc_id clubs)))"

definition join_public :: "bool \<Rightarrow> uuid \<Rightarrow> datetime \<Rightarrow> uuid \<Rightarrow> uuid \<Rightarrow> sess \<Rightarrow> reading_club outcome" where
  "join_public feed fid now club_id user_id s =
     bindE (required club_missing (club_by_id club_id s)) (\<lambda>club.
     if \<not> rc_is_public club then Inl (DomainError PermissionDeniedError ''CLUB_NOT_PUBLIC'')
     else if rc_max_members club \<le> int (member_count club_id s) then Inl (DomainError ConflictError ''CLUB_FULL'')
     else bindE (is_member club_id user_id s) (\<lambda>m.
       if m then Inr (club, s)
       else bindE (repo_club_join now club_id user_id s) (\<lambda>s1.
            bindE (record_club_joined feed fid now user_id club_id s1) (\<lambda>(_, s2). Inr (club, s2)))))"

definition leave_club :: "uuid \<Rightarrow> uuid \<Rightarrow> sess \<Rightarrow> unit outcome" where
  "leave_club user_id club_id s =
     bindE (required club_missing (club_by_id club_id s)) (\<lambda>club.
     if rc_owner_id club = user_id then Inl (DomainError ConflictError ''OWNER_CANNOT_LEAVE'')
     else Inr ((), repo_club_leave club_id user_id s))"

definition set_book :: "uuid \<Rightarrow> uuid \<Rightarrow> uuid option \<Rightarrow> sess \<Rightarrow> reading_club outcome" where
  "set_book club_id user_id book_id s =
     bindE (required club_missing (club_by_id club_id s)) (\<lambda>club.
     if rc_owner_id club \<noteq> user_id then Inl denied else repo_set_book club_id book_id s)"

definition is_owner_or_manager :: "uuid \<Rightarrow> uuid \<Rightarrow> sess \<Rightarrow> bool result" where
  "is_owner_or_manager club_id user_id s =
     (case club_by_id club_id s of
        None \<Rightarrow> Inr False
      | Some club \<Rightarrow>
          if rc_owner_id club = user_id then Inr True
          else bindE (get_member_role club_id user_id s) (\<lambda>role. Inr (role = Some OWNER)))"

definition require_manager :: "uuid \<Rightarrow> uuid \<Rightarrow> sess \<Rightarrow> unit result" where
  "require_manager club_id user_id s = bindE (is_owner_or_manager club_id user_id s) (\<lambda>m. guardE m denied)"

section \<open>Events\<close>

record club_event_public =
  ep_event :: club_event
  ep_attendee_counts :: attendee_count
  ep_my_status :: "attendee_status option"

definition event_missing :: error where "event_missing = DomainError NotFoundError ''EVENT_NOT_FOUND''"

definition event_view :: "uuid \<Rightarrow> sess \<Rightarrow> club_event \<Rightarrow> club_event_public" where
  "event_view caller s e = \<lparr>ep_event = e, ep_attendee_counts = get_attendee_counts (ce_id e) s,
     ep_my_status = get_my_rsvp_status (ce_id e) caller s\<rparr>"

definition create_club_event ::
    "uuid \<Rightarrow> datetime \<Rightarrow> uuid \<Rightarrow> uuid \<Rightarrow> pystr \<Rightarrow> pystr option \<Rightarrow> datetime \<Rightarrow> pystr option \<Rightarrow> int option \<Rightarrow> sess \<Rightarrow> club_event_public outcome" where
  "create_club_event new_id now user_id club_id title description event_at location max_attendees s =
     bindE (require_manager club_id user_id s) (\<lambda>_.
     bindE (repo_create_event new_id now club_id user_id title description event_at location max_attendees s) (\<lambda>(e, s1).
     Inr (\<lparr>ep_event = e, ep_attendee_counts = \<lparr>ac_going = 0, ac_maybe = 0, ac_not_going = 0\<rparr>, ep_my_status = None\<rparr>, s1)))"

definition list_events :: "datetime \<Rightarrow> uuid \<Rightarrow> uuid \<Rightarrow> bool \<Rightarrow> sess \<Rightarrow> club_event_public list result" where
  "list_events now club_id caller_user_id upcoming_only s =
     bindE (require_member club_id caller_user_id s) (\<lambda>_.
     Inr (map (event_view caller_user_id s) (get_events now club_id upcoming_only s)))"

definition get_event :: "uuid \<Rightarrow> uuid \<Rightarrow> sess \<Rightarrow> club_event_public result" where
  "get_event event_id caller_user_id s =
     bindE (required event_missing (event_by_id event_id s)) (\<lambda>e.
     bindE (require_member (ce_club_id e) caller_user_id s) (\<lambda>_.
     Inr (event_view caller_user_id s e)))"

definition update_event ::
    "uuid \<Rightarrow> uuid \<Rightarrow> pystr option \<Rightarrow> pystr option \<Rightarrow> datetime option \<Rightarrow> pystr option \<Rightarrow> int option \<Rightarrow> sess \<Rightarrow> club_event_public outcome" where
  "update_event event_id user_id title description event_at location max_attendees s =
     bindE (required event_missing (event_by_id event_id s)) (\<lambda>e.
     bindE (require_manager (ce_club_id e) user_id s) (\<lambda>_.
     let (updated, s1) = repo_update_event event_id title description event_at location max_attendees s
     in bindE (required event_missing updated) (\<lambda>e1. Inr (event_view user_id s1 e1, s1))))"

definition delete_event :: "uuid \<Rightarrow> uuid \<Rightarrow> sess \<Rightarrow> unit outcome" where
  "delete_event event_id user_id s =
     bindE (required event_missing (event_by_id event_id s)) (\<lambda>e.
     bindE (require_manager (ce_club_id e) user_id s) (\<lambda>_.
     Inr ((), repo_delete_event event_id s)))"

definition rsvp :: "datetime \<Rightarrow> uuid \<Rightarrow> uuid \<Rightarrow> attendee_status \<Rightarrow> sess \<Rightarrow> unit outcome" where
  "rsvp now user_id event_id status s =
     bindE (required event_missing (event_by_id event_id s)) (\<lambda>e.
     bindE (require_member (ce_club_id e) user_id s) (\<lambda>_.
     bindE (upsert_rsvp now event_id user_id status s) (\<lambda>(_, s1). Inr ((), s1))))"

definition get_attendees :: "uuid \<Rightarrow> uuid \<Rightarrow> sess \<Rightarrow> attendee_public list result" where
  "get_attendees event_id caller_user_id s =
     bindE (required event_missing (event_by_id event_id s)) (\<lambda>e.
     bindE (require_member (ce_club_id e) caller_user_id s) (\<lambda>_.
     Inr (repo_get_attendees event_id s)))"

section \<open>Chat\<close>

record club_message_public =
  mp_id :: uuid
  mp_club_id :: uuid
  mp_user_id :: uuid
  mp_author_nickname :: pystr
  mp_content :: pystr
  mp_media_url :: "pystr option"
  mp_created_at :: datetime
  mp_read_count :: nat

definition message_view :: "club_message \<Rightarrow> pystr \<Rightarrow> nat \<Rightarrow> club_message_public" where
  "message_view m nickname n = \<lparr>mp_id = ms_id m, mp_club_id = ms_club_id m, mp_user_id = ms_user_id m,
     mp_author_nickname = nickname, mp_content = ms_content m, mp_media_url = ms_media_url m,
     mp_created_at = ms_created_at m, mp_read_count = n\<rparr>"

definition send_message ::
    "uuid \<Rightarrow> datetime \<Rightarrow> uuid \<Rightarrow> uuid \<Rightarrow> pystr \<Rightarrow> pystr option \<Rightarrow> sess \<Rightarrow> club_message_public outcome" where
  "send_message new_id now club_id user_id content media_url s =
     bindE (require_member club_id user_id s) (\<lambda>_.
     bindE (create_message new_id now club_id user_id content media_url None s) (\<lambda>(msg, s1).
     let author = (case repo_list_messages club_id None 1 None s1 of [] \<Rightarrow> [] | (_, nickname, _) # _ \<Rightarrow> nickname)
     in Inr (message_view msg author 0, s1)))"

definition list_messages ::
    "uuid \<Rightarrow> uuid \<Rightarrow> datetime option \<Rightarrow> nat \<Rightarrow> sess \<Rightarrow> (club_message_public list \<times> datetime option) result" where
  "list_messages club_id user_id cursor limit s =
     bindE (require_member club_id user_id s) (\<lambda>_.
     let rows = repo_list_messages club_id cursor (limit + 1) None s;
         has_more = limit < length rows;
         page = take limit rows
     in Inr (map (\<lambda>(m, nickname, n). message_view m nickname n) page,
             if has_more then Some (ms_created_at (fst (last page))) else None))"

definition message_missing :: error where "message_missing = DomainError NotFoundError ''MESSAGE_NOT_FOUND''"

definition mark_read :: "datetime \<Rightarrow> uuid \<Rightarrow> uuid \<Rightarrow> uuid \<Rightarrow> sess \<Rightarrow> unit outcome" where
  "mark_read now club_id user_id message_id s =
     bindE (required message_missing (message_by_id message_id s)) (\<lambda>m.
     if ms_club_id m \<noteq> club_id then Inl message_missing
     else bindE (require_member club_id user_id s) (\<lambda>_.
          bindE (upsert_message_read now message_id user_id s) (\<lambda>s1. Inr ((), s1))))"

datatype club_frame =
    MessageEdited (frame_club: uuid) uuid pystr datetime
  | MessageDeleted (frame_club: uuid) uuid datetime

definition own_message :: "uuid \<Rightarrow> uuid \<Rightarrow> uuid \<Rightarrow> sess \<Rightarrow> unit result" where
  "own_message club_id user_id message_id s =
     (case message_by_id message_id s of
        None \<Rightarrow> Inl message_missing
      | Some m \<Rightarrow>
          if ms_club_id m \<noteq> club_id \<or> ms_deleted_at m \<noteq> None then Inl message_missing
          else if ms_user_id m \<noteq> user_id then Inl denied
          else Inr ())"

definition edit_message :: "datetime \<Rightarrow> uuid \<Rightarrow> uuid \<Rightarrow> uuid \<Rightarrow> pystr \<Rightarrow> sess \<Rightarrow> club_frame outcome" where
  "edit_message now club_id user_id message_id content s =
     bindE (own_message club_id user_id message_id s) (\<lambda>_.
     Inr (MessageEdited club_id message_id content now, update_message_content message_id content now s))"

definition delete_message :: "datetime \<Rightarrow> uuid \<Rightarrow> uuid \<Rightarrow> uuid \<Rightarrow> sess \<Rightarrow> club_frame outcome" where
  "delete_message now club_id user_id message_id s =
     bindE (own_message club_id user_id message_id s) (\<lambda>_.
     Inr (MessageDeleted club_id message_id now, soft_delete_message message_id now s))"

section \<open>Rooms\<close>

record club_room_public =
  rv_room :: club_room
  rv_can_enter :: bool

definition create_room :: "uuid \<Rightarrow> datetime \<Rightarrow> uuid \<Rightarrow> uuid \<Rightarrow> pystr \<Rightarrow> int \<Rightarrow> sess \<Rightarrow> club_room_public outcome" where
  "create_room new_id now club_id user_id nam progress_gate s =
     bindE (require_manager club_id user_id s) (\<lambda>_.
     bindE (repo_create_room new_id now club_id nam progress_gate user_id s) (\<lambda>(room, s1).
     bindE (get_user_chapter_for_club user_id club_id s1) (\<lambda>chapter.
     Inr (\<lparr>rv_room = room, rv_can_enter = (cr_progress_gate room \<le> chapter)\<rparr>, s1))))"

definition list_rooms :: "uuid \<Rightarrow> uuid \<Rightarrow> sess \<Rightarrow> club_room_public list result" where
  "list_rooms club_id caller_user_id s =
     bindE (require_member club_id caller_user_id s) (\<lambda>_.
     bindE (get_user_chapter_for_club caller_user_id club_id s) (\<lambda>chapter.
     Inr (map (\<lambda>r. \<lparr>rv_room = r, rv_can_enter = (cr_progress_gate r \<le> chapter)\<rparr>) (get_rooms club_id s))))"

definition delete_room :: "uuid \<Rightarrow> uuid \<Rightarrow> uuid \<Rightarrow> sess \<Rightarrow> unit outcome" where
  "delete_room club_id room_id user_id s =
     (case room_by_id room_id s of
        None \<Rightarrow> Inl (DomainError NotFoundError ''ROOM_NOT_FOUND'')
      | Some room \<Rightarrow>
          if cr_club_id room \<noteq> club_id then Inl (DomainError NotFoundError ''ROOM_NOT_FOUND'')
          else bindE (require_manager club_id user_id s) (\<lambda>_. Inr ((), repo_delete_room room_id s)))"

text \<open>Connecting to a room's stream: \<open>None\<close> accepts, otherwise the reason of the close 4003.\<close>

datatype close_reason = NotClubMember | RoomNotFound | BelowGate int int

definition room_connect :: "uuid \<Rightarrow> uuid \<Rightarrow> uuid \<Rightarrow> sess \<Rightarrow> close_reason option result" where
  "room_connect club_id room_id user_id s =
     bindE (is_member club_id user_id s) (\<lambda>m.
     if \<not> m then Inr (Some NotClubMember)
     else case room_by_id room_id s of
            None \<Rightarrow> Inr (Some RoomNotFound)
          | Some room \<Rightarrow>
              if cr_club_id room \<noteq> club_id then Inr (Some RoomNotFound)
              else if 0 < cr_progress_gate room
              then bindE (get_user_chapter_for_club user_id club_id s) (\<lambda>chapter.
                     Inr (if chapter < cr_progress_gate room then Some (BelowGate chapter (cr_progress_gate room)) else None))
              else Inr None)"

text \<open>
  One message received on a room's stream: it is persisted and committed, then sent to the
  sockets of the room. Refusals become an error frame to the sender.
\<close>

definition room_message ::
    "uuid \<Rightarrow> datetime \<Rightarrow> uuid \<Rightarrow> uuid \<Rightarrow> uuid \<Rightarrow> pystr \<Rightarrow> pystr option \<Rightarrow> sess \<Rightarrow> (uuid \<times> club_message_public) outcome" where
  "room_message new_id now club_id room_id user_id content media_url s =
     bindE (send_message new_id now club_id user_id content media_url s) (\<lambda>(msg, s1). Inr ((room_id, msg), s1))"

text \<open>The personal streams told of a chat message: members who are neither in the room nor the sender.\<close>

definition offline_members :: "uuid \<Rightarrow> uuid \<Rightarrow> uuid list \<Rightarrow> sess \<Rightarrow> uuid set" where
  "offline_members club_id sender in_room s = set (get_member_ids club_id s) - set in_room - {sender}"

section \<open>Reading plans\<close>

definition DEFAULT_PAGE_COUNT :: int where "DEFAULT_PAGE_COUNT = 200"

definition plan_weeks :: "date \<Rightarrow> date \<Rightarrow> int" where
  "plan_weeks start_date end_date = max 1 \<lceil>true_div (end_date - start_date + 1) 7\<rceil>"

definition elapsed_weeks :: "date \<Rightarrow> reading_plan \<Rightarrow> int" where
  "elapsed_weeks today plan =
     min (max 1 \<lceil>true_div (today - rp_start_date plan + 1) 7\<rceil>) (plan_weeks (rp_start_date plan) (rp_end_date plan))"

definition progress_pct :: "int \<Rightarrow> int \<Rightarrow> int \<Rightarrow> rat" where
  "progress_pct current_page weekly_pages weeks =
     (let expected = weekly_pages * weeks
      in if expected \<le> 0 then 0 else max 0 (min 100 (fl (true_div current_page expected * 100))))"

definition create_reading_plan ::
    "uuid \<Rightarrow> datetime \<Rightarrow> uuid \<Rightarrow> uuid \<Rightarrow> uuid \<Rightarrow> date \<Rightarrow> date \<Rightarrow> sess \<Rightarrow> reading_plan outcome" where
  "create_reading_plan new_id now club_id created_by book_id start_date end_date s =
     bindE (required club_missing (club_by_id club_id s)) (\<lambda>club.
     if rc_owner_id club \<noteq> created_by then Inl denied
     else bindE (get_user_is_pro created_by s) (\<lambda>pro.
       if \<not> pro then Inl (DomainError ConflictError ''PRO_REQUIRED'')
       else let total_pages = (case get_book_page_count book_id s of None \<Rightarrow> DEFAULT_PAGE_COUNT
                               | Some n \<Rightarrow> if n = 0 then DEFAULT_PAGE_COUNT else n);
                weekly_pages = \<lceil>true_div total_pages (plan_weeks start_date end_date)\<rceil>
            in repo_create_reading_plan new_id now club_id book_id start_date end_date weekly_pages created_by s))"

text \<open>The members a new plan is announced to; what becomes of the pushes does not matter to the request.\<close>

definition plan_push_targets :: "uuid \<Rightarrow> uuid \<Rightarrow> sess \<Rightarrow> uuid list" where
  "plan_push_targets club_id exclude_user_id s = filter (\<lambda>u. u \<noteq> exclude_user_id) (get_member_ids club_id s)"

definition update_member_progress :: "datetime \<Rightarrow> uuid \<Rightarrow> uuid \<Rightarrow> int \<Rightarrow> sess \<Rightarrow> club_member outcome" where
  "update_member_progress now club_id user_id current_page s =
     bindE (repo_update_member_progress now club_id user_id current_page s) (\<lambda>(m, s1).
     bindE (required not_member m) (\<lambda>row. Inr (row, s1)))"

record member_progress_item =
  mi_user_id :: uuid
  mi_nickname :: pystr
  mi_current_page :: int
  mi_last_page_updated_at :: "datetime option"
  mi_progress_pct :: rat

definition get_club_progress ::
    "date \<Rightarrow> uuid \<Rightarrow> uuid \<Rightarrow> sess \<Rightarrow> (reading_plan option \<times> member_progress_item list) result" where
  "get_club_progress today club_id requester_id s =
     bindE (require_member club_id requester_id s) (\<lambda>_.
     let plan = get_active_reading_plan club_id s
     in Inr (plan, map (\<lambda>(m, nickname). \<lparr>mi_user_id = cm_user_id m, mi_nickname = nickname,
            mi_current_page = cm_current_page m, mi_last_page_updated_at = cm_last_page_updated_at m,
            mi_progress_pct = (case plan of None \<Rightarrow> 0
              | Some p \<Rightarrow> progress_pct (cm_current_page m) (rp_weekly_pages p) (elapsed_weeks today p))\<rparr>)
          (get_members_with_progress club_id s)))"

end
