(* ===== verification/Cascade.thy ===== *)
theory Cascade
  imports Prelude
begin

text \<open>
  \<open>ON DELETE CASCADE\<close> on a parent link of a table to itself: which rows go with a deleted one.
  \<open>key\<close> and \<open>parent\<close> are the columns of the identifier and of the link.
\<close>

text \<open>
  \<open>cascade n ids\<close> are the rows within \<open>n\<close> parent links of \<open>ids\<close>. No chain is longer than
  the table, so its length is enough fuel.
\<close>

fun cascade :: "('r \<Rightarrow> uuid) \<Rightarrow> ('r \<Rightarrow> uuid option) \<Rightarrow> nat \<Rightarrow> 'r list \<Rightarrow> uuid list \<Rightarrow> uuid list" where
  "cascade key parent 0 rows ids = ids"
| "cascade key parent (Suc n) rows ids =
     cascade key parent n rows (ids @ map key (filter (\<lambda>c. key c \<notin> set ids \<and>
        (case parent c of None \<Rightarrow> False | Some p \<Rightarrow> p \<in> set ids)) rows))"

section \<open>The rounds reach the whole thread\<close>

definition reply_of :: "('r \<Rightarrow> uuid) \<Rightarrow> ('r \<Rightarrow> uuid option) \<Rightarrow> 'r list \<Rightarrow> uuid \<Rightarrow> uuid \<Rightarrow> bool" where
  "reply_of key parent rows p i \<longleftrightarrow> (\<exists>c \<in> set rows. key c = i \<and> parent c = Some p)"

definition in_thread :: "('r \<Rightarrow> uuid) \<Rightarrow> ('r \<Rightarrow> uuid option) \<Rightarrow> 'r list \<Rightarrow> uuid \<Rightarrow> uuid \<Rightarrow> bool" where
  "in_thread key parent rows i j \<longleftrightarrow> (reply_of key parent rows)\<^sup>*\<^sup>* i j"

definition cascade_step :: "('r \<Rightarrow> uuid) \<Rightarrow> ('r \<Rightarrow> uuid option) \<Rightarrow> 'r list \<Rightarrow> uuid list \<Rightarrow> uuid list" where
  "cascade_step key parent rows ids = ids @ map key (filter (\<lambda>c. key c \<notin> set ids \<and>
     (case parent c of None \<Rightarrow> False | Some p \<Rightarrow> p \<in> set ids)) rows)"

lemma cascade_Suc: "cascade key parent (Suc n) rows ids = cascade key parent n rows (cascade_step key parent rows ids)"
  by (simp add: cascade_step_def)

lemma set_cascade_step: "set (cascade_step key parent rows ids) = set ids \<union> {i. \<exists>p \<in> set ids. reply_of key parent rows p i}"
  by (force simp: cascade_step_def reply_of_def split: option.splits)

lemma cascade_sound: "j \<in> set (cascade key parent n rows ids) \<Longrightarrow> \<exists>i \<in> set ids. in_thread key parent rows i j"
proof (induction n arbitrary: ids)
  case 0
  then show ?case by (auto simp: in_thread_def)
next
  case (Suc n)
  then obtain i where i: "i \<in> set (cascade_step key parent rows ids)" "in_thread key parent rows i j" unfolding cascade_Suc by blast
  then show ?case
    by (auto simp: set_cascade_step in_thread_def intro: converse_rtranclp_into_rtranclp)
qed

lemma cascade_start: "i \<in> set ids \<Longrightarrow> i \<in> set (cascade key parent n rows ids)"
proof (induction n arbitrary: ids)
  case (Suc n)
  show ?case unfolding cascade_Suc by (rule Suc.IH) (simp add: set_cascade_step Suc.prems)
qed simp

lemma cascade_fixed: "set (cascade_step key parent rows ids) = set ids \<Longrightarrow> set (cascade key parent n rows ids) = set ids"
proof (induction n arbitrary: ids)
  case (Suc n)
  have "set (cascade_step key parent rows (cascade_step key parent rows ids)) = set (cascade_step key parent rows ids)"
    using Suc.prems by (auto simp: set_cascade_step)
  then show ?case using Suc.IH Suc.prems unfolding cascade_Suc by simp
qed simp

text \<open>Each round that is not the last one reaches a row not reached before.\<close>

lemma cascade_closed:
  assumes "card (key ` set rows - set ids) \<le> n" "p \<in> set (cascade key parent n rows ids)" "reply_of key parent rows p j"
  shows "j \<in> set (cascade key parent n rows ids)"
  using assms
proof (induction n arbitrary: ids)
  case 0
  then have "key ` set rows \<subseteq> set ids" by simp
  then show ?case using 0 by (auto simp: reply_of_def)
next
  case (Suc n)
  let ?ids = "cascade_step key parent rows ids"
  show ?case
  proof (cases "set ?ids = set ids")
    case True
    then have "set (cascade key parent (Suc n) rows ids) = set ids" by (rule cascade_fixed)
    then show ?thesis using True Suc.prems by (auto simp: set_cascade_step)
  next
    case False
    then obtain i where "i \<in> set ?ids - set ids" by (auto simp: set_cascade_step)
    moreover then have "i \<in> key ` set rows" by (auto simp: set_cascade_step reply_of_def)
    ultimately have "key ` set rows - set ?ids \<subset> key ` set rows - set ids" by (auto simp: set_cascade_step)
    then have "card (key ` set rows - set ?ids) < card (key ` set rows - set ids)" by (rule psubset_card_mono [rotated]) simp
    then show ?thesis using Suc.prems unfolding cascade_Suc by (intro Suc.IH) simp_all
  qed
qed

lemma cascade_exact:
  "i \<in> set (cascade key parent (length rows) rows [c0]) \<longleftrightarrow> in_thread key parent rows c0 i"
proof
  assume "i \<in> set (cascade key parent (length rows) rows [c0])"
  from cascade_sound [OF this] show "in_thread key parent rows c0 i" by simp
next
  assume "in_thread key parent rows c0 i"
  have "card (key ` set rows - set [c0]) \<le> length rows"
    by (metis Diff_subset List.finite_set card_image_le card_length card_mono finite_imageI order_trans)
  note closed = cascade_closed [OF this]
  from \<open>in_thread key parent rows c0 i\<close> show "i \<in> set (cascade key parent (length rows) rows [c0])"
    unfolding in_thread_def
  proof (induction rule: rtranclp_induct)
    case base
    show ?case by (simp add: cascade_start)
  next
    case (step y z)
    then show ?case by (blast intro: closed)
  qed
qed

section \<open>Replies one level deep\<close>

text \<open>A reply answers a row of the same topic that is not a reply itself.\<close>

definition depth_one :: "('r \<Rightarrow> uuid) \<Rightarrow> ('r \<Rightarrow> uuid option) \<Rightarrow> ('r \<Rightarrow> 't) \<Rightarrow> 'r list \<Rightarrow> bool" where
  "depth_one key parent topic rows \<longleftrightarrow> (\<forall>c \<in> set rows. \<forall>p. parent c = Some p \<longrightarrow>
     (\<exists>r \<in> set rows. key r = p \<and> topic r = topic c \<and> parent r = None))"

lemma depth_oneD:
  "depth_one key parent topic rows \<Longrightarrow> c \<in> set rows \<Longrightarrow> parent c = Some p \<Longrightarrow>
     \<exists>r \<in> set rows. key r = p \<and> topic r = topic c \<and> parent r = None"
  by (simp add: depth_one_def)

lemma depth_one_Nil [simp]: "depth_one key parent topic []"
  by (simp add: depth_one_def)

lemma depth_one_snoc:
  assumes "depth_one key parent topic rows"
    and "\<And>p. parent r = Some p \<Longrightarrow> \<exists>q \<in> set rows. key q = p \<and> topic q = topic r \<and> parent q = None"
  shows "depth_one key parent topic (rows @ [r])"
  unfolding depth_one_def
proof (intro ballI allI impI)
  fix c p assume c: "c \<in> set (rows @ [r])" "parent c = Some p"
  then have "\<exists>q \<in> set rows. key q = p \<and> topic q = topic c \<and> parent q = None"
    using depth_oneD [OF assms(1), of c p] assms(2) [of p] by auto
  then show "\<exists>q \<in> set (rows @ [r]). key q = p \<and> topic q = topic c \<and> parent q = None" by auto
qed

lemma depth_one_filter:
  assumes "depth_one key parent topic rows"
    and "\<And>c r. c \<in> set rows \<Longrightarrow> r \<in> set rows \<Longrightarrow> K c \<Longrightarrow> parent c = Some (key r) \<Longrightarrow> topic r = topic c \<Longrightarrow> K r"
  shows "depth_one key parent topic (filter K rows)"
  unfolding depth_one_def
proof (intro ballI allI impI)
  fix c p assume "c \<in> set (filter K rows)" "parent c = Some p"
  then have c: "c \<in> set rows" "K c" "parent c = Some p" by simp_all
  obtain r where r: "r \<in> set rows" "key r = p" "topic r = topic c" "parent r = None" using depth_oneD [OF assms(1) c(1,3)] by blast
  have "K r" using assms(2) [OF c(1) r(1) c(2)] c(3) r(2,3) by simp
  then show "\<exists>r \<in> set (filter K rows). key r = p \<and> topic r = topic c \<and> parent r = None" using r by auto
qed

lemma depth_one_amend:
  assumes "depth_one key parent topic rows"
    and "\<And>r. key (f r) = key r" "\<And>r. parent (f r) = parent r" "\<And>r. topic (f r) = topic r"
  shows "depth_one key parent topic (amend key k f rows)"
  unfolding depth_one_def
proof (intro ballI allI impI)
  fix c p assume c: "c \<in> set (amend key k f rows)" "parent c = Some p"
  obtain d where d: "d \<in> set rows" "parent d = Some p" "topic d = topic c"
    using c assms(3,4) by (auto simp: set_amend split: if_splits)
  obtain r where r: "r \<in> set rows" "key r = p" "topic r = topic c" "parent r = None" using depth_oneD [OF assms(1) d(1,2)] d(3) by auto
  have "(if key r = k then f r else r) \<in> set (amend key k f rows)" using r(1) by (auto simp: set_amend)
  then show "\<exists>r \<in> set (amend key k f rows). key r = p \<and> topic r = topic c \<and> parent r = None"
    using r assms(2-4) by (intro bexI [of _ "if key r = k then f r else r"]) auto
qed

text \<open>What survives a cascade is closed towards the parents.\<close>

lemma survivor_parent:
  assumes "c \<in> set rows" "\<not> in_thread key parent rows k (key c)" "parent c = Some (key r)"
  shows "\<not> in_thread key parent rows k (key r)"
proof -
  have "reply_of key parent rows (key r) (key c)" using assms(1,3) by (auto simp: reply_of_def)
  with assms(2) show ?thesis unfolding in_thread_def by (blast intro: rtranclp.rtrancl_into_rtrancl)
qed

end
