(* ===== verification/ClubSessionRepo.thy ===== *)
theory ClubSessionRepo
  imports ClubRepo Cascade
begin

text \<open>
  The rest of \<open>ClubRepository\<close>: meeting sessions, agendas, topics and their comments.
\<close>

section \<open>Sessions\<close>

definition repo_create_session ::
    "uuid \<Rightarrow> datetime \<Rightarrow> uuid \<Rightarrow> uuid \<Rightarrow> pystr \<Rightarrow> pystr option \<Rightarrow> uuid option \<Rightarrow> datetime option \<Rightarrow> uuid \<Rightarrow> sess \<Rightarrow> club_session outcome" where
  "repo_create_session new_id now club_id book_id title scope presenter_id scheduled_at created_by s =
     (let row = \<lparr>cs_id = new_id, cs_club_id = club_id, cs_book_id = book_id, cs_title = title, cs_scope = scope,
                 cs_presenter_id = presenter_id, cs_scheduled_at = scheduled_at, cs_status = DRAFT,
                 cs_created_by = created_by, cs_created_at = now\<rparr>;
          ok = club_by_id club_id s \<noteq> None \<and> book_exists book_id s \<and> user_exists created_by s \<and>
               (case presenter_id of None \<Rightarrow> True | Some u \<Rightarrow> user_exists u s)
      in bindE (insert_row cs_id ok row (t_club_sessions s)) (\<lambda>rows. Inr (row, s\<lparr>t_club_sessions := rows\<rparr>)))"

definition club_session_by_id :: "uuid \<Rightarrow> sess \<Rightarrow> club_session option" where
  "club_session_by_id session_id s = fetch cs_id session_id (t_club_sessions s)"

text \<open>\<open>ORDER BY book_id, created_at DESC\<close>.\<close>

definition repo_list_sessions :: "uuid \<Rightarrow> uuid option \<Rightarrow> sess \<Rightarrow> club_session list" where
  "repo_list_sessions club_id book_id s =
     order_asc (\<lambda>r. int (cs_book_id r)) (order_desc cs_created_at (filter (\<lambda>r. cs_club_id r = club_id \<and>
       (case book_id of None \<Rightarrow> True | Some b \<Rightarrow> cs_book_id r = b)) (t_club_sessions s)))"

definition update_session_status :: "uuid \<Rightarrow> session_status \<Rightarrow> sess \<Rightarrow> club_session option \<times> sess" where
  "update_session_status session_id status s =
     (let f = (\<lambda>r. r\<lparr>cs_status := status\<rparr>)
      in (map_option f (club_session_by_id session_id s), s\<lparr>t_club_sessions := amend cs_id session_id f (t_club_sessions s)\<rparr>))"

definition update_session_presenter :: "uuid \<Rightarrow> uuid option \<Rightarrow> sess \<Rightarrow> club_session option outcome" where
  "update_session_presenter session_id presenter_id s =
     (let f = (\<lambda>r. r\<lparr>cs_presenter_id := presenter_id\<rparr>)
      in if (case presenter_id of None \<Rightarrow> True | Some u \<Rightarrow> user_exists u s) \<or> club_session_by_id session_id s = None
         then Inr (map_option f (club_session_by_id session_id s),
                s\<lparr>t_club_sessions := amend cs_id session_id f (t_club_sessions s)\<rparr>)
         else Inl IntegrityError)"

section \<open>Agendas\<close>

definition repo_create_agenda :: "uuid \<Rightarrow> datetime \<Rightarrow> uuid \<Rightarrow> uuid \<Rightarrow> pystr \<Rightarrow> sess \<Rightarrow> session_agenda outcome" where
  "repo_create_agenda new_id now session_id author_id body s =
     (let row = \<lparr>ag_id = new_id, ag_session_id = session_id, ag_author_id = author_id, ag_body = body,
                 ag_status = AGENDA_DRAFT, ag_published_at = None, ag_created_at = now\<rparr>
      in bindE (insert_row ag_id (club_session_by_id session_id s \<noteq> None \<and> user_exists author_id s) row (t_session_agendas s))
           (\<lambda>rows. Inr (row, s\<lparr>t_session_agendas := rows\<rparr>)))"

definition agenda_by_id :: "uuid \<Rightarrow> sess \<Rightarrow> session_agenda option" where
  "agenda_by_id agenda_id s = fetch ag_id agenda_id (t_session_agendas s)"

definition list_topics_by_agenda :: "uuid \<Rightarrow> sess \<Rightarrow> agenda_topic list" where
  "list_topics_by_agenda agenda_id s = order_asc tp_position (filter (\<lambda>t. tp_agenda_id t = agenda_id) (t_agenda_topics s))"

definition agenda_with_topics :: "uuid \<Rightarrow> sess \<Rightarrow> (session_agenda \<times> agenda_topic list) option result" where
  "agenda_with_topics agenda_id s =
     bindE (scalar_one_or_none (filter (\<lambda>a. ag_id a = agenda_id) (t_session_agendas s)))
       (\<lambda>a. Inr (map_option (\<lambda>a. (a, list_topics_by_agenda agenda_id s)) a))"

definition list_agendas_by_session :: "uuid \<Rightarrow> sess \<Rightarrow> (session_agenda \<times> agenda_topic list) list" where
  "list_agendas_by_session session_id s =
     map (\<lambda>a. (a, list_topics_by_agenda (ag_id a) s))
       (order_asc ag_created_at (filter (\<lambda>a. ag_session_id a = session_id) (t_session_agendas s)))"

record agenda_with_context =
  ax_agenda :: session_agenda
  ax_club_id :: uuid
  ax_club_name :: pystr
  ax_session_title :: pystr

definition list_agendas_by_author :: "uuid \<Rightarrow> nat \<Rightarrow> nat \<Rightarrow> sess \<Rightarrow> agenda_with_context list" where
  "list_agendas_by_author user_id limit offset s =
     take limit (drop offset (List.map_filter
       (\<lambda>a. case club_session_by_id (ag_session_id a) s of None \<Rightarrow> None
          | Some cs \<Rightarrow> map_option (\<lambda>c. \<lparr>ax_agenda = a, ax_club_id = rc_id c, ax_club_name = rc_name c,
              ax_session_title = cs_title cs\<rparr>) (club_by_id (cs_club_id cs) s))
       (order_desc ag_created_at (filter (\<lambda>a. ag_author_id a = user_id) (t_session_agendas s)))))"

definition count_agendas_by_author :: "uuid \<Rightarrow> sess \<Rightarrow> nat" where
  "count_agendas_by_author user_id s = length (filter (\<lambda>a. ag_author_id a = user_id) (t_session_agendas s))"

definition update_agenda_body :: "uuid \<Rightarrow> pystr \<Rightarrow> sess \<Rightarrow> session_agenda option \<times> sess" where
  "update_agenda_body agenda_id body s =
     (let f = (\<lambda>a. a\<lparr>ag_body := body\<rparr>)
      in (map_option f (agenda_by_id agenda_id s), s\<lparr>t_session_agendas := amend ag_id agenda_id f (t_session_agendas s)\<rparr>))"

definition repo_publish_agenda :: "uuid \<Rightarrow> datetime \<Rightarrow> sess \<Rightarrow> session_agenda option \<times> sess" where
  "repo_publish_agenda agenda_id published_at s =
     (let f = (\<lambda>a. a\<lparr>ag_status := PUBLISHED, ag_published_at := Some published_at\<rparr>)
      in (map_option f (agenda_by_id agenda_id s), s\<lparr>t_session_agendas := amend ag_id agenda_id f (t_session_agendas s)\<rparr>))"

section \<open>Topics\<close>

definition create_topic :: "uuid \<Rightarrow> datetime \<Rightarrow> uuid \<Rightarrow> int \<Rightarrow> pystr \<Rightarrow> sess \<Rightarrow> agenda_topic outcome" where
  "create_topic new_id now agenda_id pos prompt s =
     (let row = \<lparr>tp_id = new_id, tp_agenda_id = agenda_id, tp_position = pos, tp_prompt = prompt, tp_created_at = now\<rparr>
      in if \<not> int4 pos then Inl DataError
         else bindE (insert_row tp_id (agenda_by_id agenda_id s \<noteq> None) row (t_agenda_topics s))
                (\<lambda>rows. Inr (row, s\<lparr>t_agenda_topics := rows\<rparr>)))"

definition topic_by_id :: "uuid \<Rightarrow> sess \<Rightarrow> agenda_topic option" where
  "topic_by_id topic_id s = fetch tp_id topic_id (t_agenda_topics s)"

definition get_next_topic_position :: "uuid \<Rightarrow> sess \<Rightarrow> int" where
  "get_next_topic_position agenda_id s =
     (case map tp_position (filter (\<lambda>t. tp_agenda_id t = agenda_id) (t_agenda_topics s)) of
        [] \<Rightarrow> 0
      | p # ps \<Rightarrow> foldl max p ps + 1)"

definition update_topic_prompt :: "uuid \<Rightarrow> pystr \<Rightarrow> sess \<Rightarrow> agenda_topic option \<times> sess" where
  "update_topic_prompt topic_id prompt s =
     (let f = (\<lambda>t. t\<lparr>tp_prompt := prompt\<rparr>)
      in (map_option f (topic_by_id topic_id s), s\<lparr>t_agenda_topics := amend tp_id topic_id f (t_agenda_topics s)\<rparr>))"

text \<open>Deleting a topic cascades to its comments.\<close>

definition repo_delete_topic :: "uuid \<Rightarrow> sess \<Rightarrow> sess" where
  "repo_delete_topic topic_id s =
     s\<lparr>t_agenda_topics := discard (\<lambda>t. tp_id t = topic_id) (t_agenda_topics s),
       t_topic_comments := discard (\<lambda>c. tc_topic_id c = topic_id) (t_topic_comments s)\<rparr>"

fun assign_positions :: "(uuid \<Rightarrow> bool) \<Rightarrow> int \<Rightarrow> uuid list \<Rightarrow> agenda_topic list \<Rightarrow> agenda_topic list" where
  "assign_positions known k [] rows = rows"
| "assign_positions known k (i # is) rows =
     assign_positions known (k + 1) is
       (if known i then amend tp_id i (\<lambda>t. t\<lparr>tp_position := k\<rparr>) rows else rows)"

definition repo_reorder_topics :: "uuid \<Rightarrow> uuid list \<Rightarrow> sess \<Rightarrow> agenda_topic list \<times> sess" where
  "repo_reorder_topics agenda_id topic_id_order s =
     (let known = (\<lambda>i. i \<in> set (map tp_id (list_topics_by_agenda agenda_id s)));
          s' = s\<lparr>t_agenda_topics := assign_positions known 0 topic_id_order (t_agenda_topics s)\<rparr>
      in (list_topics_by_agenda agenda_id s', s'))"

section \<open>Comments\<close>

definition comment_by_id :: "uuid \<Rightarrow> sess \<Rightarrow> topic_comment option" where
  "comment_by_id comment_id s = fetch tc_id comment_id (t_topic_comments s)"

definition create_comment ::
    "uuid \<Rightarrow> datetime \<Rightarrow> uuid \<Rightarrow> uuid \<Rightarrow> uuid option \<Rightarrow> pystr \<Rightarrow> sess \<Rightarrow> topic_comment outcome" where
  "create_comment new_id now topic_id author_id parent_comment_id body s =
     (let row = \<lparr>tc_id = new_id, tc_topic_id = topic_id, tc_author_id = author_id,
                 tc_parent_comment_id = parent_comment_id, tc_body = body, tc_created_at = now, tc_edited_at = None\<rparr>;
          ok = topic_by_id topic_id s \<noteq> None \<and> user_exists author_id s \<and>
               (case parent_comment_id of None \<Rightarrow> True | Some p \<Rightarrow> comment_by_id p s \<noteq> None)
      in bindE (insert_row tc_id ok row (t_topic_comments s)) (\<lambda>rows. Inr (row, s\<lparr>t_topic_comments := rows\<rparr>)))"

definition list_comments_by_topic :: "uuid \<Rightarrow> sess \<Rightarrow> topic_comment list" where
  "list_comments_by_topic topic_id s = order_asc tc_created_at (filter (\<lambda>c. tc_topic_id c = topic_id) (t_topic_comments s))"

definition update_comment_body :: "uuid \<Rightarrow> pystr \<Rightarrow> datetime \<Rightarrow> sess \<Rightarrow> topic_comment option \<times> sess" where
  "update_comment_body comment_id body edited_at s =
     (let f = (\<lambda>c. c\<lparr>tc_body := body, tc_edited_at := Some edited_at\<rparr>)
      in (map_option f (comment_by_id comment_id s), s\<lparr>t_topic_comments := amend tc_id comment_id f (t_topic_comments s)\<rparr>))"

text \<open>A deleted comment takes its replies along, and theirs.\<close>

definition repo_delete_comment :: "uuid \<Rightarrow> sess \<Rightarrow> sess" where
  "repo_delete_comment comment_id s =
     s\<lparr>t_topic_comments := discard (\<lambda>c. tc_id c \<in> set (cascade tc_id tc_parent_comment_id (length (t_topic_comments s)) (t_topic_comments s) [comment_id]))
        (t_topic_comments s)\<rparr>"

end
