(* ===== verification/ClubSessionService.thy ===== *)
theory ClubSessionService
  imports ClubService ClubSessionRepo
begin

text \<open>
  \<open>ClubService\<close>, second part: meeting sessions, agendas, topics and comments. The recipients of
  a push are part of the value of the operation that computes them (\<open>None\<close> when no notification
  service is called); delivering the push happens in sessions of its own and swallows failures.
\<close>

definition session_missing :: error where "session_missing = DomainError NotFoundError ''SESSION_NOT_FOUND''"
definition agenda_missing :: error where "agenda_missing = DomainError NotFoundError ''AGENDA_NOT_FOUND''"
definition topic_missing :: error where "topic_missing = DomainError NotFoundError ''TOPIC_NOT_FOUND''"
definition comment_missing :: error where "comment_missing = DomainError NotFoundError ''COMMENT_NOT_FOUND''"

section \<open>Guards\<close>

definition assert_host :: "uuid \<Rightarrow> uuid \<Rightarrow> sess \<Rightarrow> reading_club result" where
  "assert_host club_id user_id s =
     bindE (required club_missing (club_by_id club_id s)) (\<lambda>club.
     bindE (get_member_role club_id user_id s) (\<lambda>role.
     if role \<noteq> Some OWNER then Inl denied else Inr club))"

definition assert_can_view_club :: "uuid \<Rightarrow> uuid \<Rightarrow> sess \<Rightarrow> reading_club result" where
  "assert_can_view_club club_id user_id s =
     bindE (required club_missing (club_by_id club_id s)) (\<lambda>club.
     if rc_is_public club then Inr club
     else bindE (require_member club_id user_id s) (\<lambda>_. Inr club))"

definition assert_presenter_is_member :: "uuid \<Rightarrow> uuid option \<Rightarrow> sess \<Rightarrow> unit result" where
  "assert_presenter_is_member club_id presenter_id s =
     (case presenter_id of
        None \<Rightarrow> Inr ()
      | Some p \<Rightarrow> bindE (is_member club_id p s) (\<lambda>m. guardE m (DomainError ConflictError ''PRESENTER_NOT_MEMBER'')))"

definition get_session_in_club :: "uuid \<Rightarrow> uuid \<Rightarrow> sess \<Rightarrow> club_session result" where
  "get_session_in_club club_id session_id s =
     (case club_session_by_id session_id s of
        None \<Rightarrow> Inl session_missing
      | Some r \<Rightarrow> if cs_club_id r \<noteq> club_id then Inl session_missing else Inr r)"

definition SESSION_STATUS_ORDER :: "string list" where
  "SESSION_STATUS_ORDER = [''draft'', ''open'', ''closed'']"

fun status_name :: "session_status \<Rightarrow> string" where
  "status_name DRAFT = ''draft''"
| "status_name OPEN = ''open''"
| "status_name CLOSED = ''closed''"

text \<open>\<open>tuple.index\<close>: the position of the first equal element, or a \<open>ValueError\<close>.\<close>

fun index_of :: "'a \<Rightarrow> 'a list \<Rightarrow> nat option" where
  "index_of x [] = None"
| "index_of x (y # ys) = (if x = y then Some 0 else map_option Suc (index_of x ys))"

definition validate_status_transition :: "string \<Rightarrow> string \<Rightarrow> unit result" where
  "validate_status_transition current target =
     (case (index_of current SESSION_STATUS_ORDER, index_of target SESSION_STATUS_ORDER) of
        (Some cur_idx, Some tgt_idx) \<Rightarrow>
          if tgt_idx \<noteq> cur_idx + 1 then Inl (DomainError ConflictError ''INVALID_STATUS_TRANSITION'') else Inr ()
      | _ \<Rightarrow> Inl (DomainError ConflictError ''INVALID_SESSION_STATUS''))"

definition status_of_name :: "string \<Rightarrow> session_status" where
  "status_of_name st = (if st = ''open'' then OPEN else if st = ''closed'' then CLOSED else DRAFT)"

definition assert_host_or_presenter :: "uuid \<Rightarrow> uuid \<Rightarrow> uuid \<Rightarrow> sess \<Rightarrow> club_session result" where
  "assert_host_or_presenter club_id session_id user_id s =
     bindE (required club_missing (club_by_id club_id s)) (\<lambda>club.
     bindE (get_session_in_club club_id session_id s) (\<lambda>r.
     if rc_owner_id club = user_id \<or> cs_presenter_id r = Some user_id then Inr r else Inl denied))"

definition get_agenda_in_session :: "uuid \<Rightarrow> uuid \<Rightarrow> sess \<Rightarrow> session_agenda result" where
  "get_agenda_in_session session_id agenda_id s =
     (case agenda_by_id agenda_id s of
        None \<Rightarrow> Inl agenda_missing
      | Some a \<Rightarrow> if ag_session_id a \<noteq> session_id then Inl agenda_missing else Inr a)"

definition get_agenda_with_topics_in_session :: "uuid \<Rightarrow> uuid \<Rightarrow> sess \<Rightarrow> (session_agenda \<times> agenda_topic list) result" where
  "get_agenda_with_topics_in_session session_id agenda_id s =
     bindE (agenda_with_topics agenda_id s) (\<lambda>r. case r of
        None \<Rightarrow> Inl agenda_missing
      | Some (a, ts) \<Rightarrow> if ag_session_id a \<noteq> session_id then Inl agenda_missing else Inr (a, ts))"

definition get_topic_in_agenda :: "uuid \<Rightarrow> uuid \<Rightarrow> sess \<Rightarrow> agenda_topic result" where
  "get_topic_in_agenda agenda_id topic_id s =
     (case topic_by_id topic_id s of
        None \<Rightarrow> Inl topic_missing
      | Some t \<Rightarrow> if tp_agenda_id t \<noteq> agenda_id then Inl topic_missing else Inr t)"

definition assert_agenda_author :: "session_agenda \<Rightarrow> uuid \<Rightarrow> unit result" where
  "assert_agenda_author agenda user_id = guardE (ag_author_id agenda = user_id) denied"

definition get_comment_in_topic :: "uuid \<Rightarrow> uuid \<Rightarrow> sess \<Rightarrow> topic_comment result" where
  "get_comment_in_topic topic_id comment_id s =
     (case comment_by_id comment_id s of
        None \<Rightarrow> Inl comment_missing
      | Some c \<Rightarrow> if tc_topic_id c \<noteq> topic_id then Inl comment_missing else Inr c)"

definition assert_comment_author_or_host :: "reading_club \<Rightarrow> topic_comment \<Rightarrow> uuid \<Rightarrow> unit result" where
  "assert_comment_author_or_host club comment user_id =
     guardE (tc_author_id comment = user_id \<or> rc_owner_id club = user_id) denied"

section \<open>Sessions\<close>

definition create_session ::
    "uuid \<Rightarrow> datetime \<Rightarrow> uuid \<Rightarrow> uuid \<Rightarrow> uuid \<Rightarrow> pystr \<Rightarrow> pystr option \<Rightarrow> uuid option \<Rightarrow> datetime option \<Rightarrow> sess \<Rightarrow> club_session outcome" where
  "create_session new_id now club_id user_id book_id title scope presenter_id scheduled_at s =
     bindE (assert_host club_id user_id s) (\<lambda>_.
     bindE (assert_presenter_is_member club_id presenter_id s) (\<lambda>_.
     repo_create_session new_id now club_id book_id title scope presenter_id scheduled_at user_id s))"

definition list_sessions :: "uuid \<Rightarrow> uuid \<Rightarrow> uuid option \<Rightarrow> sess \<Rightarrow> club_session list result" where
  "list_sessions club_id caller_user_id book_id s =
     bindE (assert_can_view_club club_id caller_user_id s) (\<lambda>_. Inr (repo_list_sessions club_id book_id s))"

definition get_session :: "uuid \<Rightarrow> uuid \<Rightarrow> uuid \<Rightarrow> sess \<Rightarrow> club_session result" where
  "get_session club_id session_id caller_user_id s =
     bindE (assert_can_view_club club_id caller_user_id s) (\<lambda>_. get_session_in_club club_id session_id s)"

definition set_session_presenter :: "uuid \<Rightarrow> uuid \<Rightarrow> uuid \<Rightarrow> uuid option \<Rightarrow> sess \<Rightarrow> club_session outcome" where
  "set_session_presenter club_id session_id user_id presenter_id s =
     bindE (assert_host club_id user_id s) (\<lambda>_.
     bindE (get_session_in_club club_id session_id s) (\<lambda>_.
     bindE (assert_presenter_is_member club_id presenter_id s) (\<lambda>_.
     bindE (update_session_presenter session_id presenter_id s) (\<lambda>(updated, s1).
     bindE (required session_missing updated) (\<lambda>r. Inr (r, s1))))))"

definition transition_session_status ::
    "bool \<Rightarrow> uuid \<Rightarrow> datetime \<Rightarrow> uuid \<Rightarrow> uuid \<Rightarrow> uuid \<Rightarrow> string \<Rightarrow> sess \<Rightarrow> club_session outcome" where
  "transition_session_status feed fid fnow club_id session_id user_id status s =
     bindE (assert_host club_id user_id s) (\<lambda>_.
     bindE (get_session_in_club club_id session_id s) (\<lambda>row.
     bindE (validate_status_transition (status_name (cs_status row)) status) (\<lambda>_.
     let (updated, s1) = update_session_status session_id (status_of_name status) s
     in bindE (required session_missing updated) (\<lambda>r.
        if status = ''open''
        then bindE (record_session_opened feed fid fnow user_id club_id session_id (cs_book_id r) s1) (\<lambda>(_, s2). Inr (r, s2))
        else Inr (r, s1)))))"

section \<open>Agendas\<close>

definition create_agenda :: "uuid \<Rightarrow> datetime \<Rightarrow> uuid \<Rightarrow> uuid \<Rightarrow> uuid \<Rightarrow> pystr \<Rightarrow> sess \<Rightarrow> session_agenda outcome" where
  "create_agenda new_id now club_id session_id user_id body s =
     bindE (assert_host_or_presenter club_id session_id user_id s) (\<lambda>_.
     repo_create_agenda new_id now session_id user_id body s)"

definition update_agenda ::
    "uuid \<Rightarrow> uuid \<Rightarrow> uuid \<Rightarrow> uuid \<Rightarrow> pystr \<Rightarrow> sess \<Rightarrow> (session_agenda \<times> agenda_topic list) outcome" where
  "update_agenda club_id session_id agenda_id user_id body s =
     bindE (assert_host_or_presenter club_id session_id user_id s) (\<lambda>_.
     bindE (get_agenda_in_session session_id agenda_id s) (\<lambda>agenda.
     let (updated, s1) = update_agenda_body (ag_id agenda) body s
     in bindE (required agenda_missing updated) (\<lambda>a. Inr ((a, list_topics_by_agenda (ag_id a) s1), s1))))"

definition publish_agenda ::
    "bool \<Rightarrow> bool \<Rightarrow> uuid \<Rightarrow> datetime \<Rightarrow> uuid \<Rightarrow> uuid \<Rightarrow> uuid \<Rightarrow> uuid \<Rightarrow> sess \<Rightarrow>
     (session_agenda \<times> agenda_topic list \<times> uuid list option) outcome" where
  "publish_agenda feed notify fid now club_id session_id agenda_id user_id s =
     bindE (assert_host_or_presenter club_id session_id user_id s) (\<lambda>_.
     bindE (get_agenda_in_session session_id agenda_id s) (\<lambda>agenda.
     if ag_status agenda = PUBLISHED then Inl (DomainError ConflictError ''ALREADY_PUBLISHED'')
     else let (updated, s1) = repo_publish_agenda (ag_id agenda) now s
     in bindE (required agenda_missing updated) (\<lambda>a.
        bindE (record_agenda_published feed fid now user_id club_id session_id agenda_id s1) (\<lambda>(_, s2).
        let recipients = filter (\<lambda>u. u \<noteq> user_id) (get_member_ids club_id s2)
        in Inr ((a, list_topics_by_agenda (ag_id a) s2, if notify \<and> recipients \<noteq> [] then Some recipients else None), s2)))))"

definition list_agendas :: "uuid \<Rightarrow> uuid \<Rightarrow> uuid \<Rightarrow> sess \<Rightarrow> (session_agenda \<times> agenda_topic list) list result" where
  "list_agendas club_id session_id caller_user_id s =
     bindE (assert_can_view_club club_id caller_user_id s) (\<lambda>_.
     bindE (get_session_in_club club_id session_id s) (\<lambda>_.
     Inr (list_agendas_by_session session_id s)))"

definition get_agenda :: "uuid \<Rightarrow> uuid \<Rightarrow> uuid \<Rightarrow> uuid \<Rightarrow> sess \<Rightarrow> (session_agenda \<times> agenda_topic list) result" where
  "get_agenda club_id session_id agenda_id caller_user_id s =
     bindE (assert_can_view_club club_id caller_user_id s) (\<lambda>_.
     bindE (get_session_in_club club_id session_id s) (\<lambda>_.
     get_agenda_with_topics_in_session session_id agenda_id s))"

definition list_my_agendas :: "uuid \<Rightarrow> int \<Rightarrow> int \<Rightarrow> sess \<Rightarrow> nat \<times> agenda_with_context list" where
  "list_my_agendas user_id limit offset s =
     (count_agendas_by_author user_id s,
      list_agendas_by_author user_id (nat (max 1 (min limit 50))) (nat (max 0 offset)) s)"

section \<open>Topics\<close>

text \<open>What every topic operation checks first: session, agenda, author.\<close>

definition authored_agenda :: "uuid \<Rightarrow> uuid \<Rightarrow> uuid \<Rightarrow> uuid \<Rightarrow> sess \<Rightarrow> session_agenda result" where
  "authored_agenda club_id session_id agenda_id user_id s =
     bindE (get_session_in_club club_id session_id s) (\<lambda>_.
     bindE (get_agenda_in_session session_id agenda_id s) (\<lambda>agenda.
     bindE (assert_agenda_author agenda user_id) (\<lambda>_. Inr agenda)))"

definition add_topic :: "uuid \<Rightarrow> datetime \<Rightarrow> uuid \<Rightarrow> uuid \<Rightarrow> uuid \<Rightarrow> uuid \<Rightarrow> pystr \<Rightarrow> sess \<Rightarrow> agenda_topic outcome" where
  "add_topic new_id now club_id session_id agenda_id user_id prompt s =
     bindE (authored_agenda club_id session_id agenda_id user_id s) (\<lambda>agenda.
     create_topic new_id now (ag_id agenda) (get_next_topic_position (ag_id agenda) s) prompt s)"

definition update_topic :: "uuid \<Rightarrow> uuid \<Rightarrow> uuid \<Rightarrow> uuid \<Rightarrow> uuid \<Rightarrow> pystr \<Rightarrow> sess \<Rightarrow> agenda_topic outcome" where
  "update_topic club_id session_id agenda_id topic_id user_id prompt s =
     bindE (authored_agenda club_id session_id agenda_id user_id s) (\<lambda>agenda.
     bindE (get_topic_in_agenda (ag_id agenda) topic_id s) (\<lambda>_.
     let (updated, s1) = update_topic_prompt topic_id prompt s
     in bindE (required topic_missing updated) (\<lambda>t. Inr (t, s1))))"

definition delete_topic :: "uuid \<Rightarrow> uuid \<Rightarrow> uuid \<Rightarrow> uuid \<Rightarrow> uuid \<Rightarrow> sess \<Rightarrow> unit outcome" where
  "delete_topic club_id session_id agenda_id topic_id user_id s =
     bindE (authored_agenda club_id session_id agenda_id user_id s) (\<lambda>agenda.
     bindE (get_topic_in_agenda (ag_id agenda) topic_id s) (\<lambda>_.
     Inr ((), repo_delete_topic topic_id s)))"

definition reorder_topics :: "uuid \<Rightarrow> uuid \<Rightarrow> uuid \<Rightarrow> uuid \<Rightarrow> uuid list \<Rightarrow> sess \<Rightarrow> agenda_topic list outcome" where
  "reorder_topics club_id session_id agenda_id user_id topic_ids s =
     bindE (authored_agenda club_id session_id agenda_id user_id s) (\<lambda>agenda.
     if set topic_ids \<noteq> set (map tp_id (list_topics_by_agenda (ag_id agenda) s))
     then Inl (DomainError ConflictError ''INVALID_TOPIC_SET'')
     else Inr (repo_reorder_topics (ag_id agenda) topic_ids s))"

text \<open>\<open>agenda_ai\<close> is the port to the AI assistant, \<open>None\<close> when it is not wired.\<close>

definition recommend_topic_drafts ::
    "(uuid \<Rightarrow> uuid \<Rightarrow> pystr \<Rightarrow> pystr list result) option \<Rightarrow> uuid \<Rightarrow> uuid \<Rightarrow> uuid \<Rightarrow> uuid \<Rightarrow> uuid \<Rightarrow> pystr \<Rightarrow> sess \<Rightarrow> pystr list result" where
  "recommend_topic_drafts agenda_ai club_id session_id agenda_id user_id book_id scope s =
     bindE (authored_agenda club_id session_id agenda_id user_id s) (\<lambda>_.
     case agenda_ai of
       None \<Rightarrow> Inl (DomainError NotConfiguredError ''AGENDA_AI_UNAVAILABLE'')
     | Some generate \<Rightarrow> generate user_id book_id scope)"

section \<open>Comments\<close>

definition add_comment ::
    "bool \<Rightarrow> bool \<Rightarrow> uuid \<Rightarrow> uuid \<Rightarrow> datetime \<Rightarrow> uuid \<Rightarrow> uuid \<Rightarrow> uuid \<Rightarrow> uuid \<Rightarrow> uuid \<Rightarrow> uuid option \<Rightarrow> pystr \<Rightarrow> sess \<Rightarrow>
     (topic_comment \<times> uuid list option) outcome" where
  "add_comment feed notify new_id fid now club_id session_id agenda_id topic_id user_id parent_id body s =
     bindE (required club_missing (club_by_id club_id s)) (\<lambda>_.
     bindE (get_session_in_club club_id session_id s) (\<lambda>_.
     bindE (get_agenda_in_session session_id agenda_id s) (\<lambda>agenda.
     bindE (get_topic_in_agenda (ag_id agenda) topic_id s) (\<lambda>topic.
     bindE (require_member club_id user_id s) (\<lambda>_.
     bindE (case parent_id of
          None \<Rightarrow> Inr None
        | Some p \<Rightarrow> bindE (get_comment_in_topic (tp_id topic) p s) (\<lambda>parent.
            if tc_parent_comment_id parent \<noteq> None then Inl (DomainError ConflictError ''MAX_REPLY_DEPTH_EXCEEDED'')
            else Inr (Some (tc_author_id parent)))) (\<lambda>parent_author.
     bindE (create_comment new_id now (tp_id topic) user_id parent_id body s) (\<lambda>(comment, s1).
     bindE (record_discussion_commented feed fid now user_id club_id session_id agenda_id (tp_id topic) (tc_id comment) parent_id s1) (\<lambda>(_, s2).
     let recipients = remdups (filter (\<lambda>u. u \<noteq> user_id)
           (ag_author_id agenda # (case parent_author of None \<Rightarrow> [] | Some a \<Rightarrow> [a])))
     in Inr ((comment, if notify \<and> recipients \<noteq> [] then Some recipients else None), s2)))))))))"

text \<open>What editing and deleting check first; the club and the comment they go on with.\<close>

definition located_comment :: "uuid \<Rightarrow> uuid \<Rightarrow> uuid \<Rightarrow> uuid \<Rightarrow> uuid \<Rightarrow> uuid \<Rightarrow> sess \<Rightarrow> topic_comment result" where
  "located_comment club_id session_id agenda_id topic_id comment_id user_id s =
     bindE (required club_missing (club_by_id club_id s)) (\<lambda>club.
     bindE (get_session_in_club club_id session_id s) (\<lambda>_.
     bindE (get_agenda_in_session session_id agenda_id s) (\<lambda>agenda.
     bindE (get_topic_in_agenda (ag_id agenda) topic_id s) (\<lambda>topic.
     bindE (get_comment_in_topic (tp_id topic) comment_id s) (\<lambda>comment.
     bindE (assert_comment_author_or_host club comment user_id) (\<lambda>_. Inr comment))))))"

definition update_comment ::
    "datetime \<Rightarrow> uuid \<Rightarrow> uuid \<Rightarrow> uuid \<Rightarrow> uuid \<Rightarrow> uuid \<Rightarrow> uuid \<Rightarrow> pystr \<Rightarrow> sess \<Rightarrow> topic_comment outcome" where
  "update_comment now club_id session_id agenda_id topic_id comment_id user_id body s =
     bindE (located_comment club_id session_id agenda_id topic_id comment_id user_id s) (\<lambda>comment.
     let (updated, s1) = update_comment_body (tc_id comment) body now s
     in bindE (required comment_missing updated) (\<lambda>c. Inr (c, s1)))"

definition delete_comment :: "uuid \<Rightarrow> uuid \<Rightarrow> uuid \<Rightarrow> uuid \<Rightarrow> uuid \<Rightarrow> uuid \<Rightarrow> sess \<Rightarrow> unit outcome" where
  "delete_comment club_id session_id agenda_id topic_id comment_id user_id s =
     bindE (located_comment club_id session_id agenda_id topic_id comment_id user_id s) (\<lambda>comment.
     Inr ((), repo_delete_comment (tc_id comment) s))"

record comment_thread =
  th_root :: topic_comment
  th_replies :: "topic_comment list"

text \<open>One pass over the flat list fills a dict of replies and the list of roots.\<close>

definition group_comment ::
    "topic_comment list \<times> (uuid \<rightharpoonup> topic_comment list) \<Rightarrow> topic_comment \<Rightarrow> topic_comment list \<times> (uuid \<rightharpoonup> topic_comment list)" where
  "group_comment acc c = (case acc of (roots, replies) \<Rightarrow>
     (case tc_parent_comment_id c of
        None \<Rightarrow> (roots @ [c], replies)
      | Some p \<Rightarrow> (roots, replies(p \<mapsto> (case replies p of None \<Rightarrow> [] | Some cs \<Rightarrow> cs) @ [c]))))"

definition build_comment_threads :: "topic_comment list \<Rightarrow> comment_thread list" where
  "build_comment_threads comments =
     (case foldl group_comment ([], Map.empty) comments of (roots, replies) \<Rightarrow>
        map (\<lambda>root. \<lparr>th_root = root, th_replies = (case replies (tc_id root) of None \<Rightarrow> [] | Some cs \<Rightarrow> cs)\<rparr>) roots)"

definition list_comments :: "uuid \<Rightarrow> uuid \<Rightarrow> uuid \<Rightarrow> uuid \<Rightarrow> uuid \<Rightarrow> sess \<Rightarrow> comment_thread list result" where
  "list_comments club_id session_id agenda_id topic_id caller_user_id s =
     bindE (assert_can_view_club club_id caller_user_id s) (\<lambda>_.
     bindE (get_session_in_club club_id session_id s) (\<lambda>_.
     bindE (get_agenda_in_session session_id agenda_id s) (\<lambda>agenda.
     bindE (get_topic_in_agenda (ag_id agenda) topic_id s) (\<lambda>topic.
     Inr (build_comment_threads (list_comments_by_topic (tp_id topic) s))))))"

end
