(* ===== verification/ClubRoster.thy ===== *)
theory ClubRoster
  imports ClubSessionService
begin

text \<open>
  The roster of a club: the invariant of the tables \<open>reading_clubs\<close> and \<open>club_members\<close>, what
  each operation does to them, and the abstract roster they represent.
\<close>

section \<open>Primary keys\<close>

lemma length_filter_filter: "length (filter P (filter Q xs)) \<le> length (filter P xs)"
  by (induction xs) auto

interpretation clubs_tbl: keyed_table rc_id "fetch rc_id" "\<lambda>r t. t @ [r]" "amend rc_id"
  "\<lambda>k. discard (\<lambda>r. rc_id r = k)" set "\<lambda>t. distinct (map rc_id t)"
  by (rule keyed_table_list)

interpretation club_members_tbl: keyed_table cm_key "fetch cm_key" "\<lambda>r t. t @ [r]" "amend cm_key"
  "\<lambda>k. discard (\<lambda>r. cm_key r = k)" set "\<lambda>t. distinct (map cm_key t)"
  by (rule keyed_table_list)

section \<open>The invariant\<close>

text \<open>
  Every club has its owner among its members, the owner is the one member with the role
  \<open>OWNER\<close>, no club has more members than it admits, and nobody is a member twice.
\<close>

definition roster_ok :: "sess \<Rightarrow> bool" where
  "roster_ok s \<longleftrightarrow> distinct (map rc_id (t_clubs s)) \<and> distinct (map rc_invite_code (t_clubs s)) \<and>
     distinct (map cm_key (t_club_members s)) \<and>
     (\<forall>m \<in> set (t_club_members s). \<exists>c. club_by_id (cm_club_id m) s = Some c \<and> (cm_role m = OWNER \<longleftrightarrow> cm_user_id m = rc_owner_id c)) \<and>
     (\<forall>c \<in> set (t_clubs s). (rc_id c, rc_owner_id c) \<in> cm_key ` set (t_club_members s) \<and>
        int (member_count (rc_id c) s) \<le> rc_max_members c)"

definition roster_same :: "sess \<Rightarrow> sess \<Rightarrow> bool" where
  "roster_same s s' \<longleftrightarrow> t_clubs s' = t_clubs s \<and> t_club_members s' = t_club_members s"

lemma roster_member_club:
  "roster_ok s \<Longrightarrow> m \<in> set (t_club_members s) \<Longrightarrow>
     \<exists>c. club_by_id (cm_club_id m) s = Some c \<and> (cm_role m = OWNER \<longleftrightarrow> cm_user_id m = rc_owner_id c)"
  by (simp add: roster_ok_def)

lemma roster_same_ok: "roster_same s s' \<Longrightarrow> roster_ok s' \<longleftrightarrow> roster_ok s"
  by (simp add: roster_same_def roster_ok_def club_by_id_def member_count_def)

lemma roster_same_refl [simp]: "roster_same s s"
  by (simp add: roster_same_def)

lemma roster_same_trans: "roster_same a b \<Longrightarrow> roster_same b c \<Longrightarrow> roster_same a c"
  by (simp add: roster_same_def)

lemma stream_roster: "stream_extends s s' \<Longrightarrow> roster_same s s'"
  by (auto simp: stream_extends_def roster_same_def)

definition members :: "uuid \<Rightarrow> sess \<Rightarrow> uuid set" where
  "members club_id s = {u. (club_id, u) \<in> cm_key ` set (t_club_members s)}"

lemma members_get_member_ids: "set (get_member_ids c s) = members c s"
  by (force simp: get_member_ids_def members_def cm_key_def)

section \<open>Reads\<close>

lemma filter_member:
  assumes "distinct (map cm_key (t_club_members s))"
  shows "scalar_one_or_none (filter (\<lambda>m. cm_club_id m = c \<and> cm_user_id m = u) (t_club_members s)) =
    Inr (fetch cm_key (c, u) (t_club_members s))"
proof -
  have "(\<lambda>m. cm_club_id m = c \<and> cm_user_id m = u) = (\<lambda>m. cm_key m = (c, u))" by (simp add: cm_key_def)
  then show ?thesis by (simp only: scalar_key [OF assms])
qed

lemma is_member_eq:
  assumes "distinct (map cm_key (t_club_members s))"
  shows "is_member c u s = Inr (u \<in> members c s)"
  by (simp add: is_member_def filter_member [OF assms] members_def fetch_None_iff del: not_None_eq)

lemma get_member_role_eq:
  assumes "distinct (map cm_key (t_club_members s))"
  shows "get_member_role c u s = Inr (map_option cm_role (fetch cm_key (c, u) (t_club_members s)))"
  by (simp add: get_member_role_def filter_member [OF assms])

lemma require_member_Inr:
  assumes "roster_ok s"
  shows "require_member c u s = Inr x \<longleftrightarrow> u \<in> members c s"
    and "require_member c u s = Inl e \<longleftrightarrow> u \<notin> members c s \<and> e = not_member"
  using assms by (auto simp: require_member_def is_member_eq roster_ok_def bindE_Inl_iff)

text \<open>The host check by role and the one by owner column agree.\<close>

lemma role_owner:
  assumes "roster_ok s" "club_by_id c s = Some club"
  shows "get_member_role c u s = Inr (Some OWNER) \<longleftrightarrow> rc_owner_id club = u"
proof -
  have d: "distinct (map cm_key (t_club_members s))" using assms(1) by (simp add: roster_ok_def)
  have club: "club \<in> set (t_clubs s)" "rc_id club = c" using fetch_SomeD [of rc_id c "t_clubs s" club] assms(2) by (simp_all add: club_by_id_def)
  have role: "cm_role m = OWNER \<longleftrightarrow> u = rc_owner_id club" if "fetch cm_key (c, u) (t_club_members s) = Some m" for m
  proof -
    have "m \<in> set (t_club_members s)" "cm_club_id m = c" "cm_user_id m = u"
      using fetch_SomeD [OF that] by (simp_all add: cm_key_def)
    with assms show ?thesis by (auto simp: roster_ok_def)
  qed
  have "fetch cm_key (c, rc_owner_id club) (t_club_members s) \<noteq> None"
    using assms(1) club by (auto simp: roster_ok_def fetch_None_iff)
  with role show ?thesis by (auto simp: get_member_role_eq [OF d])
qed

lemma is_owner_or_manager_eq:
  assumes "roster_ok s"
  shows "is_owner_or_manager c u s = Inr (\<exists>club. club_by_id c s = Some club \<and> rc_owner_id club = u)"
proof (cases "club_by_id c s")
  case None
  then show ?thesis by (simp add: is_owner_or_manager_def)
next
  case (Some club)
  have d: "distinct (map cm_key (t_club_members s))" using assms by (simp add: roster_ok_def)
  show ?thesis
    using role_owner [OF assms Some, of u] Some
    by (auto simp: is_owner_or_manager_def get_member_role_eq [OF d])
qed

section \<open>Each operation on the roster\<close>

lemma member_count_append:
  "t_club_members s' = t_club_members s @ [m] \<Longrightarrow>
     member_count c s' = member_count c s + (if cm_club_id m = c then 1 else 0)"
  by (simp add: member_count_def)

lemma repo_create_club_Inr:
  assumes "repo_create_club i ids code now u nam d b mx pub cat tags s = Inr (club, s')"
  shows "rc_id club = i" "rc_owner_id club = u" "rc_max_members club = mx" "rc_invite_code club = code"
    "i \<notin> rc_id ` set (t_clubs s)" "code \<notin> rc_invite_code ` set (t_clubs s)" "user_exists u s"
    "\<exists>m tg. cm_key m = (i, u) \<and> cm_role m = OWNER \<and> cm_club_id m = i \<and> cm_user_id m = u \<and>
       s' = s\<lparr>t_clubs := t_clubs s @ [club], t_club_members := t_club_members s @ [m], t_club_tags := tg\<rparr>"
proof -
  note defs = repo_create_club_def Let_def insert_row_Inr_iff filter_empty_conv
  show "rc_id club = i" "rc_owner_id club = u" "rc_max_members club = mx" "rc_invite_code club = code"
    "i \<notin> rc_id ` set (t_clubs s)" "user_exists u s" using assms by (simp_all add: defs; auto)+
  show "code \<notin> rc_invite_code ` set (t_clubs s)" using assms by (auto simp: defs)
  let ?m = "\<lparr>cm_club_id = i, cm_user_id = u, cm_role = OWNER, cm_joined_at = now, cm_current_page = 0, cm_last_page_updated_at = None\<rparr>"
  show "\<exists>m tg. cm_key m = (i, u) \<and> cm_role m = OWNER \<and> cm_club_id m = i \<and> cm_user_id m = u \<and>
       s' = s\<lparr>t_clubs := t_clubs s @ [club], t_club_members := t_club_members s @ [m], t_club_tags := tg\<rparr>"
    by (rule exI [of _ ?m]) (use assms in \<open>auto simp: defs cm_key_def\<close>)
qed

lemma repo_club_join_Inr:
  assumes "repo_club_join now c u s = Inr s'"
  shows "(c, u) \<notin> cm_key ` set (t_club_members s)" "club_by_id c s \<noteq> None" "user_exists u s"
    "\<exists>m. cm_key m = (c, u) \<and> cm_role m = MEMBER \<and> cm_club_id m = c \<and> cm_user_id m = u \<and>
       s' = s\<lparr>t_club_members := t_club_members s @ [m]\<rparr>"
proof -
  note defs = repo_club_join_def Let_def insert_row_Inr_iff
  show "(c, u) \<notin> cm_key ` set (t_club_members s)" "club_by_id c s \<noteq> None" "user_exists u s"
    using assms by (auto simp: defs cm_key_def)
  let ?m = "\<lparr>cm_club_id = c, cm_user_id = u, cm_role = MEMBER, cm_joined_at = now, cm_current_page = 0, cm_last_page_updated_at = None\<rparr>"
  show "\<exists>m. cm_key m = (c, u) \<and> cm_role m = MEMBER \<and> cm_club_id m = c \<and> cm_user_id m = u \<and>
       s' = s\<lparr>t_club_members := t_club_members s @ [m]\<rparr>"
    by (rule exI [of _ ?m]) (use assms in \<open>auto simp: defs cm_key_def\<close>)
qed

lemma roster_ok_create:
  assumes ok: "roster_ok s" and cc: "repo_create_club i ids code now u nam d b mx pub cat tags s = Inr (club, s')" and mx: "1 \<le> mx"
  shows "roster_ok s'"
proof -
  note c = repo_create_club_Inr [OF cc]
  obtain m tg where m: "cm_key m = (i, u)" "cm_role m = OWNER" "cm_club_id m = i" "cm_user_id m = u"
    and s': "s' = s\<lparr>t_clubs := t_clubs s @ [club], t_club_members := t_club_members s @ [m], t_club_tags := tg\<rparr>" using c(8) by blast
  have foreign: "cm_club_id r \<noteq> i" if r: "r \<in> set (t_club_members s)" for r
  proof -
    obtain k where "club_by_id (cm_club_id r) s = Some k" using roster_member_club [OF ok r] by blast
    then show ?thesis using c(5) fetch_SomeD [of rc_id "cm_club_id r" "t_clubs s" k] by (metis club_by_id_def imageI)
  qed
  then have zero: "member_count i s = 0" by (simp add: member_count_def filter_empty_conv)
  have cnt: "member_count k s' = member_count k s + (if i = k then 1 else 0)" for k
    using member_count_append [of s' s m k] m(3) by (simp add: s')
  have find: "club_by_id k s' = (if k = i then Some club else club_by_id k s)" for k
    using clubs_tbl.get_put [of club "t_clubs s" k] c(1,5) by (simp add: s' club_by_id_def fetch_None_iff)
  have "cm_key m \<notin> cm_key ` set (t_club_members s)" using foreign m(1) by (force simp: cm_key_def)
  then have "distinct (map cm_key (t_club_members s'))" using ok by (auto simp: s' roster_ok_def)
  moreover have "\<forall>r \<in> set (t_club_members s'). \<exists>k. club_by_id (cm_club_id r) s' = Some k \<and> (cm_role r = OWNER \<longleftrightarrow> cm_user_id r = rc_owner_id k)"
    using ok foreign m c(2) by (auto simp: s' find [unfolded s'] roster_ok_def)
  moreover have "\<forall>k \<in> set (t_clubs s'). (rc_id k, rc_owner_id k) \<in> cm_key ` set (t_club_members s') \<and> int (member_count (rc_id k) s') \<le> rc_max_members k"
  proof
    fix k assume "k \<in> set (t_clubs s')"
    then consider "k = club" | "k \<in> set (t_clubs s)" "rc_id k \<noteq> i" using c(5) by (auto simp: s')
    then show "(rc_id k, rc_owner_id k) \<in> cm_key ` set (t_club_members s') \<and> int (member_count (rc_id k) s') \<le> rc_max_members k"
    proof cases
      case 1
      then show ?thesis using c(1,2,3) m(1) mx zero cnt [of i] by (auto simp: s' image_iff)
    next
      case 2
      then show ?thesis using ok cnt [of "rc_id k"] by (auto simp: s' roster_ok_def)
    qed
  qed
  ultimately show ?thesis using ok c(1,4,5,6) by (auto simp: roster_ok_def s')
qed

lemma roster_ok_join:
  assumes ok: "roster_ok s" and j: "repo_club_join now c u s = Inr s'" and club: "club_by_id c s = Some club"
    and room: "int (member_count c s) < rc_max_members club"
  shows "roster_ok s'"
proof -
  note J = repo_club_join_Inr [OF j]
  obtain m where m: "cm_key m = (c, u)" "cm_role m = MEMBER" "cm_club_id m = c" "cm_user_id m = u"
    and s': "s' = s\<lparr>t_club_members := t_club_members s @ [m]\<rparr>" using J(4) by blast
  have cl: "club \<in> set (t_clubs s)" "rc_id club = c" using fetch_SomeD [of rc_id c "t_clubs s" club] club by (simp_all add: club_by_id_def)
  have "u \<noteq> rc_owner_id club" using ok cl J(1) by (auto simp: roster_ok_def)
  moreover have cnt: "member_count k s' = member_count k s + (if c = k then 1 else 0)" for k
    using member_count_append [of s' s m k] m(3) by (simp add: s')
  moreover have "k = club" if "k \<in> set (t_clubs s)" "rc_id k = c" for k
  proof -
    have "distinct (map rc_id (t_clubs s))" using ok by (simp add: roster_ok_def)
    from fetch_distinct [OF this that(1)] that(2) club show ?thesis by (simp add: club_by_id_def)
  qed
  moreover have "club_by_id k s' = club_by_id k s" for k by (simp add: s' club_by_id_def)
  ultimately show ?thesis
    using ok m J(1) club room by (auto simp: roster_ok_def s')
qed

lemma roster_ok_leave:
  assumes ok: "roster_ok s" and club: "club_by_id c s = Some club" and u: "rc_owner_id club \<noteq> u"
  shows "roster_ok (repo_club_leave c u s)"
proof -
  let ?s = "repo_club_leave c u s"
  have rows: "t_club_members ?s = filter (\<lambda>m. \<not> (cm_club_id m = c \<and> cm_user_id m = u)) (t_club_members s)" "t_clubs ?s = t_clubs s"
    by (simp_all add: repo_club_leave_def discard_def)
  have find: "club_by_id k ?s = club_by_id k s" for k by (simp add: club_by_id_def rows)
  have "member_count k ?s \<le> member_count k s" for k
    unfolding member_count_def rows by (rule length_filter_filter)
  moreover have "(rc_id k, rc_owner_id k) \<in> cm_key ` set (t_club_members ?s)" if k: "k \<in> set (t_clubs s)" for k
  proof -
    have "(rc_id k, rc_owner_id k) \<in> cm_key ` set (t_club_members s)" using ok k by (simp add: roster_ok_def)
    then obtain m where m: "m \<in> set (t_club_members s)" "cm_key m = (rc_id k, rc_owner_id k)" by auto
    have "\<not> (cm_club_id m = c \<and> cm_user_id m = u)"
    proof
      assume mu: "cm_club_id m = c \<and> cm_user_id m = u"
      then have "rc_id k = c" "rc_owner_id k = u" using m(2) by (auto simp: cm_key_def)
      moreover have "distinct (map rc_id (t_clubs s))" using ok by (simp add: roster_ok_def)
      ultimately have "k = club" using fetch_distinct [of rc_id "t_clubs s" k] k club by (simp add: club_by_id_def)
      then show False using \<open>rc_owner_id k = u\<close> u by simp
    qed
    then have "m \<in> set (t_club_members ?s)" using m(1) by (simp add: rows)
    then show ?thesis using m(2) by (metis imageI)
  qed
  ultimately show ?thesis
    using ok by (fastforce simp: roster_ok_def rows(2) find distinct_map_filter rows(1) intro: order_trans [of _ "int (member_count _ s)"])
qed

section \<open>The abstract roster\<close>

record roster_entry =
  re_owner :: uuid
  re_capacity :: int
  re_members :: "uuid set"

definition roster :: "sess \<Rightarrow> uuid \<rightharpoonup> roster_entry" where
  "roster s = (\<lambda>c. map_option (\<lambda>club. \<lparr>re_owner = rc_owner_id club, re_capacity = rc_max_members club,
     re_members = members c s\<rparr>) (club_by_id c s))"

inductive roster_move :: "(uuid \<rightharpoonup> roster_entry) \<Rightarrow> (uuid \<rightharpoonup> roster_entry) \<Rightarrow> bool" where
  stay: "roster_move A A"
| found: "A c = None \<Longrightarrow> 2 \<le> cap \<Longrightarrow> roster_move A (A(c \<mapsto> \<lparr>re_owner = u, re_capacity = cap, re_members = {u}\<rparr>))"
| enter: "A c = Some e \<Longrightarrow> u \<notin> re_members e \<Longrightarrow> int (card (re_members e)) < re_capacity e \<Longrightarrow>
    roster_move A (A(c \<mapsto> e\<lparr>re_members := insert u (re_members e)\<rparr>))"
| quit: "A c = Some e \<Longrightarrow> u \<noteq> re_owner e \<Longrightarrow> roster_move A (A(c \<mapsto> e\<lparr>re_members := re_members e - {u}\<rparr>))"

definition roster_legal :: "(uuid \<rightharpoonup> roster_entry) \<Rightarrow> bool" where
  "roster_legal A \<longleftrightarrow> (\<forall>c e. A c = Some e \<longrightarrow> finite (re_members e) \<and> re_owner e \<in> re_members e \<and>
     int (card (re_members e)) \<le> re_capacity e)"

lemma roster_legal_move:
  assumes "roster_legal A" "roster_move A B"
  shows "roster_legal B"
  using assms(2,1)
proof (induction rule: roster_move.induct)
  case (quit A c e u)
  have "card (re_members e - {u}) \<le> card (re_members e)" by (metis card_Diff1_le card_eq_0_iff card.infinite le0 finite_Diff2 finite.emptyI finite_insert)
  then show ?case using quit by (fastforce simp: roster_legal_def split: if_splits)
qed (auto simp: roster_legal_def split: if_splits)

lemma distinct_member_ids:
  assumes "distinct (map cm_key (t_club_members s))"
  shows "distinct (get_member_ids c s)"
proof -
  let ?rows = "filter (\<lambda>m. cm_club_id m = c) (t_club_members s)"
  have "distinct (map cm_key ?rows)" using assms by (rule distinct_map_filter)
  then have "inj_on cm_key (set ?rows)" "distinct ?rows" by (simp_all only: distinct_map)
  then have "inj_on cm_user_id (set ?rows)" by (auto simp: inj_on_def cm_key_def)
  with \<open>distinct ?rows\<close> show ?thesis by (simp only: get_member_ids_def distinct_map)
qed

lemma member_count_card:
  assumes "distinct (map cm_key (t_club_members s))"
  shows "member_count c s = card (members c s)"
proof -
  from distinct_card [OF distinct_member_ids [OF assms]] show ?thesis by (simp only: members_get_member_ids) (simp add: get_member_ids_def member_count_def)
qed

lemma finite_members [simp]: "finite (members c s)"
  by (simp flip: members_get_member_ids)

lemma roster_same_roster: "roster_same s s' \<Longrightarrow> roster s' = roster s"
  by (simp add: roster_same_def roster_def club_by_id_def members_def)

lemma roster_legal_ok:
  assumes "roster_ok s"
  shows "roster_legal (roster s)"
  unfolding roster_legal_def
proof (intro allI impI)
  fix c e assume e: "roster s c = Some e"
  then obtain club where club: "club_by_id c s = Some club" by (auto simp: roster_def)
  then have mem: "club \<in> set (t_clubs s)" "rc_id club = c" using fetch_SomeD [of rc_id c "t_clubs s" club] by (simp_all add: club_by_id_def)
  have "distinct (map cm_key (t_club_members s))" using assms by (simp add: roster_ok_def)
  from member_count_card [OF this, of c] show "finite (re_members e) \<and> re_owner e \<in> re_members e \<and> int (card (re_members e)) \<le> re_capacity e"
    using assms mem e club by (auto simp: roster_def roster_ok_def) (auto simp: members_def)
qed

section \<open>The operations of the service on the roster\<close>

definition roster_effect :: "sess \<Rightarrow> sess \<Rightarrow> bool" where
  "roster_effect s s' \<longleftrightarrow> (roster_ok s \<longrightarrow> roster_ok s' \<and> roster_move (roster s) (roster s'))"

lemma roster_same_effect: "roster_same s s' \<Longrightarrow> roster_effect s s'"
  by (simp add: roster_effect_def roster_same_ok roster_same_roster roster_move.stay)

lemma roster_effect_same: "roster_effect s s1 \<Longrightarrow> roster_same s1 s' \<Longrightarrow> roster_effect s s'"
  by (simp add: roster_effect_def roster_same_ok roster_same_roster)

lemma club_by_id_mem:
  assumes "roster_ok s" "club \<in> set (t_clubs s)"
  shows "club_by_id (rc_id club) s = Some club"
  using assms by (simp add: roster_ok_def club_by_id_def fetch_distinct)

lemma repo_club_join_effect:
  assumes j: "repo_club_join now c u s = Inr s'" and club: "club_by_id c s = Some club"
    and room: "int (member_count c s) < rc_max_members club"
  shows "roster_effect s s'"
  unfolding roster_effect_def
proof
  assume ok: "roster_ok s"
  note J = repo_club_join_Inr [OF j]
  obtain m where m: "cm_key m = (c, u)" and s': "s' = s\<lparr>t_club_members := t_club_members s @ [m]\<rparr>" using J(4) by blast
  have mem: "members k s' = (if k = c then insert u (members k s) else members k s)" for k
    using m by (auto simp: members_def s')
  have find: "club_by_id k s' = club_by_id k s" for k by (simp add: s' club_by_id_def)
  let ?e = "\<lparr>re_owner = rc_owner_id club, re_capacity = rc_max_members club, re_members = members c s\<rparr>"
  have e: "roster s c = Some ?e" by (simp add: roster_def club)
  have "roster s' = (roster s)(c \<mapsto> ?e\<lparr>re_members := insert u (re_members ?e)\<rparr>)"
    using club by (auto simp: roster_def find mem fun_eq_iff)
  moreover have "u \<notin> members c s" using J(1) by (simp add: members_def)
  moreover have "int (card (members c s)) < rc_max_members club"
    using room ok by (simp add: member_count_card roster_ok_def)
  ultimately have "roster_move (roster s) (roster s')" using roster_move.enter [of "roster s" c ?e u] e by simp
  with roster_ok_join [OF ok j club room] show "roster_ok s' \<and> roster_move (roster s) (roster s')" by simp
qed

lemma join_by_code_effect:
  assumes "join_by_code now u code s = Inr (club, s')"
  shows "roster_effect s s'"
proof -
  from assms have found: "filter (\<lambda>k. rc_invite_code k = upper code) (t_clubs s) = [club]"
    and room: "int (member_count (rc_id club) s) < rc_max_members club"
    and j: "s' = s \<or> repo_club_join now (rc_id club) u s = Inr s'"
    by (auto simp: join_by_code_def club_by_invite_code_def scalar_one_or_none_Some split: if_splits)
  have "club \<in> set (filter (\<lambda>k. rc_invite_code k = upper code) (t_clubs s))" by (simp only: found list.set) simp
  then have mem: "club \<in> set (t_clubs s)" by simp
  from j show ?thesis
  proof
    assume "s' = s" then show ?thesis by (simp add: roster_same_effect)
  next
    assume j: "repo_club_join now (rc_id club) u s = Inr s'"
    show ?thesis
    proof (cases "roster_ok s")
      case True
      from repo_club_join_effect [OF j club_by_id_mem [OF True mem] room] show ?thesis .
    qed (simp add: roster_effect_def)
  qed
qed

lemma join_public_effect:
  assumes "join_public feed fid now c u s = Inr (club, s')"
  shows "roster_effect s s'"
proof -
  from assms have "s' = s \<or> (\<exists>s1. repo_club_join now c u s = Inr s1 \<and> club_by_id c s = Some club \<and>
      int (member_count c s) < rc_max_members club \<and> roster_same s1 s')"
    by (auto simp: join_public_def not_le split: if_splits dest: record_extends stream_roster)
  then show ?thesis by (auto intro: roster_same_effect repo_club_join_effect roster_effect_same)
qed

lemma leave_club_effect:
  assumes "leave_club u c s = Inr (x, s')"
  shows "roster_effect s s'"
  unfolding roster_effect_def
proof
  assume ok: "roster_ok s"
  from assms obtain club where club: "club_by_id c s = Some club" and u: "rc_owner_id club \<noteq> u" and s': "s' = repo_club_leave c u s"
    by (auto simp: leave_club_def split: if_splits)
  have mem: "members k s' = (if k = c then members k s - {u} else members k s)" for k
    by (force simp: members_def s' repo_club_leave_def cm_key_def)
  have find: "club_by_id k s' = club_by_id k s" for k by (simp add: s' club_by_id_def repo_club_leave_def)
  let ?e = "\<lparr>re_owner = rc_owner_id club, re_capacity = rc_max_members club, re_members = members c s\<rparr>"
  have e: "roster s c = Some ?e" by (simp add: roster_def club)
  have "roster s' = (roster s)(c \<mapsto> ?e\<lparr>re_members := re_members ?e - {u}\<rparr>)"
    using club by (auto simp: roster_def find mem fun_eq_iff)
  then have "roster_move (roster s) (roster s')" using roster_move.quit [of "roster s" c ?e u] e u by simp
  with roster_ok_leave [OF ok club u] show "roster_ok s' \<and> roster_move (roster s) (roster s')" by (simp add: s')
qed

lemma post_club_effect:
  assumes "post_club i ids code now u nam d b mx pub cat tags s = Inr (club, s')"
  shows "roster_effect s s'"
  unfolding roster_effect_def
proof
  assume ok: "roster_ok s"
  from assms have mx: "2 \<le> mx" and cc: "repo_create_club i ids code now u nam d b mx pub cat tags s = Inr (club, s')"
    by (auto simp: post_club_def create_club_def create_club_request_ok_def split: if_splits)
  note c = repo_create_club_Inr [OF cc]
  obtain m tg where m: "cm_key m = (i, u)" "cm_club_id m = i"
    and s': "s' = s\<lparr>t_clubs := t_clubs s @ [club], t_club_members := t_club_members s @ [m], t_club_tags := tg\<rparr>" using c(8) by blast
  have none: "club_by_id i s = None" using c(5) by (simp add: club_by_id_def fetch_None_iff)
  have empty: "members i s = {}" using roster_member_club [OF ok] none by (force simp: members_def cm_key_def)
  have mem: "members k s' = (if k = i then {u} else members k s)" for k
    using m empty by (auto simp: members_def s')
  have find: "club_by_id k s' = (if k = i then Some club else club_by_id k s)" for k
    using clubs_tbl.get_put [of club "t_clubs s" k] c(1,5) by (simp add: s' club_by_id_def fetch_None_iff)
  have "roster s' = (roster s)(i \<mapsto> \<lparr>re_owner = u, re_capacity = mx, re_members = {u}\<rparr>)"
    using c(2,3) by (auto simp: roster_def find mem fun_eq_iff)
  moreover have "roster s i = None" by (simp add: roster_def none)
  ultimately have "roster_move (roster s) (roster s')" using roster_move.found [of "roster s" i mx u] mx by simp
  with roster_ok_create [OF ok cc] mx show "roster_ok s' \<and> roster_move (roster s) (roster s')" by simp
qed

lemma set_book_effect:
  assumes "set_book c u b s = Inr (club, s')"
  shows "roster_effect s s'"
proof -
  let ?f = "\<lambda>k. k\<lparr>rc_book_id := b\<rparr>"
  from assms have s': "s' = s\<lparr>t_clubs := amend rc_id c ?f (t_clubs s)\<rparr>"
    by (auto simp: set_book_def repo_set_book_def Let_def split: if_splits option.splits)
  have find: "club_by_id k s' = map_option (if k = c then ?f else id) (club_by_id k s)" for k
    by (simp add: s' club_by_id_def fetch_amend option.map_id)
  have mem: "members k s' = members k s" for k by (simp add: members_def s')
  have "roster s' = roster s"
    unfolding roster_def find using mem by (auto simp: option.map_comp o_def fun_eq_iff intro!: option.map_cong)
  moreover have "roster_ok s'" if ok: "roster_ok s"
  proof -
    have "\<exists>k. club_by_id (cm_club_id m) s' = Some k \<and> (cm_role m = OWNER \<longleftrightarrow> cm_user_id m = rc_owner_id k)"
      if m: "m \<in> set (t_club_members s')" for m
    proof -
      have "m \<in> set (t_club_members s)" using m by (simp add: s')
      from roster_member_club [OF ok this] show ?thesis by (auto simp: find)
    qed
    moreover have "(rc_id k, rc_owner_id k) \<in> cm_key ` set (t_club_members s') \<and> int (member_count (rc_id k) s') \<le> rc_max_members k"
      if "k \<in> set (t_clubs s')" for k
      using ok that by (auto simp: roster_ok_def s' set_amend member_count_def)
    ultimately show ?thesis using ok by (auto simp: roster_ok_def s' map_amend_eq)
  qed
  ultimately show ?thesis by (simp add: roster_effect_def roster_move.stay)
qed

lemma update_member_progress_effect:
  assumes "update_member_progress now c u p s = Inr (row, s')"
  shows "roster_effect s s'"
proof -
  from assms obtain f where s': "s' = s\<lparr>t_club_members := amend cm_key (c, u) f (t_club_members s)\<rparr>"
    and f: "cm_key (f m) = cm_key m" "cm_role (f m) = cm_role m" "cm_club_id (f m) = cm_club_id m" "cm_user_id (f m) = cm_user_id m" for m
    by (auto simp: update_member_progress_def repo_update_member_progress_def Let_def cm_key_def split: option.splits if_splits)
  have keys: "map cm_key (t_club_members s') = map cm_key (t_club_members s)"
    and clubs: "map cm_club_id (t_club_members s') = map cm_club_id (t_club_members s)"
    unfolding s' using f by (simp_all add: map_amend_eq)
  have "cm_key ` set (t_club_members s') = cm_key ` set (t_club_members s)" using keys by (metis list.set_map)
  then have mem: "members k s' = members k s" for k by (simp add: members_def)
  have "length (filter (\<lambda>m. cm_club_id m = k) rows) = length (filter (\<lambda>x. x = k) (map cm_club_id rows))" for k rows
    by (simp add: filter_map o_def)
  then have cnt: "member_count k s' = member_count k s" for k unfolding member_count_def by (metis clubs)
  have find: "club_by_id k s' = club_by_id k s" for k by (simp add: s' club_by_id_def)
  have "roster s' = roster s" by (simp add: roster_def find mem)
  moreover have "roster_ok s'" if ok: "roster_ok s"
  proof -
    have "\<exists>k. club_by_id (cm_club_id m) s' = Some k \<and> (cm_role m = OWNER \<longleftrightarrow> cm_user_id m = rc_owner_id k)"
      if m: "m \<in> set (t_club_members s')" for m
    proof -
      obtain x where x: "x \<in> set (t_club_members s)" "cm_role m = cm_role x" "cm_club_id m = cm_club_id x" "cm_user_id m = cm_user_id x"
        using m f by (auto simp: s' set_amend)
      from roster_member_club [OF ok x(1)] show ?thesis by (simp only: find x(2-))
    qed
    moreover have "(rc_id k, rc_owner_id k) \<in> cm_key ` set (t_club_members s')" if "k \<in> set (t_clubs s')" for k
      using ok that \<open>cm_key ` set (t_club_members s') = _\<close> by (simp add: roster_ok_def s')
    ultimately show ?thesis using ok by (simp add: roster_ok_def keys cnt) (simp add: s')
  qed
  ultimately show ?thesis by (simp add: roster_effect_def roster_move.stay)
qed

end
