(* ===== verification/ClubDiscussion.thy ===== *)
theory ClubDiscussion
  imports ClubSessionService
begin

text \<open>
  What the discussion of a meeting relies on: deleting a comment takes exactly its thread along
  (and the fuel of the cascade is enough), the grouping of a flat list into threads agrees with
  its specification, and reordering topics lists them in the order asked for.
\<close>

section \<open>The cascade of a deleted comment\<close>

lemma repo_delete_comment_rows:
  "t_topic_comments (repo_delete_comment i s) =
     filter (\<lambda>c. \<not> in_thread tc_id tc_parent_comment_id (t_topic_comments s) i (tc_id c)) (t_topic_comments s)"
  by (simp add: repo_delete_comment_def discard_def cascade_exact)

section \<open>Threads\<close>

definition replies_to :: "topic_comment list \<Rightarrow> uuid \<Rightarrow> topic_comment list" where
  "replies_to cs i = filter (\<lambda>c. tc_parent_comment_id c = Some i) cs"

definition thread_spec :: "topic_comment list \<Rightarrow> comment_thread list" where
  "thread_spec cs = map (\<lambda>r. \<lparr>th_root = r, th_replies = replies_to cs (tc_id r)\<rparr>)
     (filter (\<lambda>c. tc_parent_comment_id c = None) cs)"

lemma group_comments:
  "foldl group_comment ([], Map.empty) cs =
     (filter (\<lambda>c. tc_parent_comment_id c = None) cs, \<lambda>i. if replies_to cs i = [] then None else Some (replies_to cs i))"
proof (induction cs rule: rev_induct)
  case Nil
  then show ?case by (simp add: replies_to_def)
next
  case (snoc c cs)
  show ?case
    unfolding foldl_append foldl.simps snoc
    by (auto simp: group_comment_def replies_to_def fun_eq_iff split: option.splits)
qed

lemma build_comment_threads_eq: "build_comment_threads cs = thread_spec cs"
  by (auto simp: build_comment_threads_def group_comments thread_spec_def)

text \<open>With replies one level deep, every comment is shown exactly once.\<close>

definition shown :: "comment_thread list \<Rightarrow> topic_comment list" where
  "shown ths = concat (map (\<lambda>t. th_root t # th_replies t) ths)"

lemma mset_replies:
  assumes "distinct (map tc_id roots)" "\<forall>c \<in> set cs. \<exists>r \<in> set roots. tc_parent_comment_id c = Some (tc_id r)"
  shows "mset (concat (map (\<lambda>r. replies_to cs (tc_id r)) roots)) = mset cs"
  using assms
proof (induction roots arbitrary: cs)
  case Nil
  then show ?case by (auto simp: neq_Nil_conv)
next
  case (Cons r roots)
  let ?rest = "filter (\<lambda>c. tc_parent_comment_id c \<noteq> Some (tc_id r)) cs"
  have "replies_to ?rest (tc_id q) = replies_to cs (tc_id q)" if "q \<in> set roots" for q
    unfolding replies_to_def filter_filter by (rule filter_cong) (use Cons.prems(1) that in auto)
  then have same: "map (\<lambda>q. replies_to ?rest (tc_id q)) roots = map (\<lambda>q. replies_to cs (tc_id q)) roots" by simp
  have "mset (concat (map (\<lambda>q. replies_to ?rest (tc_id q)) roots)) = mset ?rest"
    by (rule Cons.IH) (use Cons.prems in auto)
  then show ?case by (simp add: same) (simp add: replies_to_def)
qed

lemma mset_shown:
  assumes "distinct (map tc_id cs)"
    and "\<And>c p. c \<in> set cs \<Longrightarrow> tc_parent_comment_id c = Some p \<Longrightarrow>
           \<exists>r \<in> set cs. tc_id r = p \<and> tc_parent_comment_id r = None"
  shows "mset (shown (thread_spec cs)) = mset cs"
proof -
  let ?roots = "filter (\<lambda>c. tc_parent_comment_id c = None) cs"
  let ?rest = "filter (\<lambda>c. tc_parent_comment_id c \<noteq> None) cs"
  have split: "mset (concat (map (\<lambda>r. r # f r) xs)) = mset xs + mset (concat (map f xs))" for f :: "topic_comment \<Rightarrow> topic_comment list" and xs
    by (induction xs) simp_all
  have "replies_to ?rest i = replies_to cs i" for i
    unfolding replies_to_def filter_filter by (rule filter_cong) auto
  moreover have "mset (concat (map (\<lambda>r. replies_to ?rest (tc_id r)) ?roots)) = mset ?rest"
  proof (rule mset_replies)
    show "distinct (map tc_id ?roots)" using assms(1) by (rule distinct_map_filter)
    show "\<forall>c \<in> set ?rest. \<exists>r \<in> set ?roots. tc_parent_comment_id c = Some (tc_id r)" using assms(2) by fastforce
  qed
  ultimately show ?thesis
    by (simp add: shown_def thread_spec_def o_def split)
qed

section \<open>The order of topics\<close>

fun place :: "uuid list \<Rightarrow> uuid \<Rightarrow> int" where
  "place [] i = 0"
| "place (x # xs) i = (if x = i then 0 else place xs i + 1)"

lemma place_nonneg: "0 \<le> place xs i"
  by (induction xs) auto

lemma place_pos: "0 < place xs i + 1"
  using place_nonneg [of xs i] by simp

lemma place_inj: "i \<in> set xs \<Longrightarrow> place xs i = place xs j \<Longrightarrow> i = j"
proof (induction xs)
  case (Cons x xs)
  then show ?case using place_pos [of xs i] place_pos [of xs j] by (auto split: if_splits)
qed simp

lemma place_sorted: "distinct xs \<Longrightarrow> sorted (map (place xs) xs)"
proof (induction xs)
  case (Cons x xs)
  have shift: "map (place (x # xs)) xs = map (\<lambda>i. i + 1) (map (place xs) xs)" using Cons.prems by auto
  have "sorted (map (\<lambda>i. i + 1) (map (place xs) xs))" using Cons by (simp add: sorted_map)
  moreover have "place (x # xs) x \<le> y" if "y \<in> set (map (place (x # xs)) xs)" for y
    using that place_nonneg [of "x # xs"] by (auto simp del: place.simps) simp
  ultimately show ?case unfolding list.map sorted_simps shift by blast
qed simp

lemma assign_positions_fields:
  assumes "\<And>t v. g (t\<lparr>tp_position := v\<rparr>) = g t"
  shows "map g (assign_positions known k ids rows) = map g rows"
  using assms by (induction known k ids rows rule: assign_positions.induct) (simp_all add: map_amend_eq)

lemma assign_positions_place:
  assumes "distinct ids"
  shows "assign_positions (\<lambda>i. i \<in> K) k ids rows =
    map (\<lambda>t. if tp_id t \<in> set ids \<inter> K then t\<lparr>tp_position := k + place ids (tp_id t)\<rparr> else t) rows"
  using assms
proof (induction ids arbitrary: k rows)
  case (Cons i ids)
  show ?case
    unfolding assign_positions.simps using Cons.prems
    by (subst Cons.IH) (auto simp: amend_def intro!: map_cong)
qed simp

lemma reorder_rows:
  assumes keys: "distinct (map tp_id (t_agenda_topics s))" and ids: "distinct ids"
    and exact: "set ids = set (map tp_id (list_topics_by_agenda a s))"
  shows "map tp_id (fst (repo_reorder_topics a ids s)) = ids"
proof -
  let ?rows = "filter (\<lambda>t. tp_agenda_id t = a) (t_agenda_topics (snd (repo_reorder_topics a ids s)))"
  let ?old = "filter (\<lambda>t. tp_agenda_id t = a) (t_agenda_topics s)"
  let ?g = "\<lambda>t. t\<lparr>tp_position := place ids (tp_id t)\<rparr>"
  have ids_old: "set ids = tp_id ` set ?old" using exact by (simp add: list_topics_by_agenda_def)
  have new: "?rows = map ?g ?old"
  proof -
    have t: "t_agenda_topics (snd (repo_reorder_topics a ids s)) =
        map (\<lambda>t. if tp_id t \<in> set ids then ?g t else t) (t_agenda_topics s)"
      using assign_positions_place [OF ids, of "set ids" 0 "t_agenda_topics s"] exact by (simp add: repo_reorder_topics_def Let_def)
    have "?rows = map (\<lambda>t. if tp_id t \<in> set ids then ?g t else t) ?old"
      unfolding t filter_map o_def by (intro arg_cong [where f = "map _"] filter_cong) auto
    also have "\<dots> = map ?g ?old" using ids_old by auto
    finally show ?thesis .
  qed
  have dist: "distinct (map tp_id ?old)" using keys by (rule distinct_map_filter)
  define row where "row i = the (fetch tp_id i (map ?g ?old))" for i
  have row: "row (tp_id t) = ?g t" if "t \<in> set ?old" for t
    using fetch_distinct [of tp_id "map ?g ?old" "?g t"] dist that by (simp add: row_def o_def)
  have "mset ids = mset (map tp_id ?old)"
    using set_eq_iff_mset_eq_distinct [OF ids dist, THEN iffD1] ids_old by (simp only: list.set_map)
  then have "mset (map row ids) = mset (map row (map tp_id ?old))" by (simp only: mset_map)
  also have "map row (map tp_id ?old) = map ?g ?old" using row by simp
  finally have mset: "mset (map row ids) = mset (map ?g ?old)" .
  have pos: "tp_position (row i) = place ids i" "tp_id (row i) = i" if "i \<in> set ids" for i
    using that ids_old row by force+
  have "order_asc tp_position (map ?g ?old) = map row ids"
    unfolding order_asc_def
  proof (rule sort_key_inj_key_eq)
    show "mset (map ?g ?old) = mset (map row ids)" by (simp only: mset)
    have rows: "set (map ?g ?old) = row ` set ids" using mset_eq_setD [OF mset] by (simp only: list.set_map)
    have "inj_on tp_position (row ` set ids)"
    proof (rule inj_onI)
      fix x y assume "x \<in> row ` set ids" "y \<in> row ` set ids" and eq: "tp_position x = tp_position y"
      then obtain i j where ij: "i \<in> set ids" "j \<in> set ids" "x = row i" "y = row j" by blast
      then have "place ids i = place ids j" using eq pos(1) by simp
      from place_inj [OF ij(1) this] show "x = y" using ij by simp
    qed
    then show "inj_on tp_position (set (map ?g ?old))" by (simp only: rows)
    have "map tp_position (map row ids) = map (place ids) ids" using pos by simp
    then show "sorted (map tp_position (map row ids))" using place_sorted [OF ids] by (simp only:)
  qed
  then have "list_topics_by_agenda a (snd (repo_reorder_topics a ids s)) = map row ids"
    by (simp add: list_topics_by_agenda_def new)
  then show ?thesis using pos by (simp add: repo_reorder_topics_def Let_def map_idI)
qed

text \<open>Distinct positions within an agenda: what the reordering and the next free position keep.\<close>

lemma foldl_max_above: "y = p \<or> y \<in> set ps \<Longrightarrow> y \<le> foldl max p ps" for y :: int
proof (induction ps arbitrary: y p)
  case (Cons q ps)
  from Cons.prems consider "y \<le> max p q" | "y \<in> set ps" by auto
  then show ?case
  proof cases
    case 1
    moreover have "max p q \<le> foldl max (max p q) ps" by (rule Cons.IH) simp
    ultimately show ?thesis unfolding foldl.simps by (rule order_trans)
  qed (simp add: Cons.IH)
qed simp

lemma get_next_topic_position_above:
  assumes "t \<in> set (t_agenda_topics s)" "tp_agenda_id t = a"
  shows "tp_position t < get_next_topic_position a s"
proof -
  obtain p ps where ps: "map tp_position (filter (\<lambda>t. tp_agenda_id t = a) (t_agenda_topics s)) = p # ps"
    using assms by (cases "map tp_position (filter (\<lambda>t. tp_agenda_id t = a) (t_agenda_topics s))") (auto simp: filter_empty_conv)
  have "tp_position t \<in> set (p # ps)" unfolding ps [symmetric] using assms by auto
  then have "tp_position t \<le> foldl max p ps" by (intro foldl_max_above) auto
  then show ?thesis by (simp add: get_next_topic_position_def ps)
qed

end
