(* ===== verification/ClubMeetings.thy ===== *)
theory ClubMeetings
  imports ClubRoster ClubDiscussion
begin

text \<open>
  The invariant of the tables of a club's meetings (sessions, agendas, topics, comments), the
  stage a meeting or an agenda has reached, and what each operation does to both.
\<close>

section \<open>Primary keys\<close>

interpretation topics_tbl: keyed_table tp_id "fetch tp_id" "\<lambda>r t. t @ [r]" "amend tp_id"
  "\<lambda>k. discard (\<lambda>r. tp_id r = k)" set "\<lambda>t. distinct (map tp_id t)"
  by (rule keyed_table_list)

interpretation comments_tbl: keyed_table tc_id "fetch tc_id" "\<lambda>r t. t @ [r]" "amend tc_id"
  "\<lambda>k. discard (\<lambda>r. tc_id r = k)" set "\<lambda>t. distinct (map tc_id t)"
  by (rule keyed_table_list)

section \<open>The meetings of a club\<close>

definition meeting_same :: "sess \<Rightarrow> sess \<Rightarrow> bool" where
  "meeting_same s s' \<longleftrightarrow> t_club_sessions s' = t_club_sessions s \<and> t_session_agendas s' = t_session_agendas s \<and>
     t_agenda_topics s' = t_agenda_topics s \<and> t_topic_comments s' = t_topic_comments s"

text \<open>
  Keys are unique and references resolve; an agenda has a publication time exactly when it is
  published; two topics of an agenda have different positions; and a reply answers a comment of
  the same topic that is not a reply itself.
\<close>

definition agendas_ok :: "sess \<Rightarrow> bool" where
  "agendas_ok s \<longleftrightarrow> distinct (map cs_id (t_club_sessions s)) \<and> distinct (map ag_id (t_session_agendas s)) \<and>
     (\<forall>a \<in> set (t_session_agendas s). club_session_by_id (ag_session_id a) s \<noteq> None \<and>
        (ag_status a = PUBLISHED \<longleftrightarrow> ag_published_at a \<noteq> None))"

definition topics_ok :: "sess \<Rightarrow> bool" where
  "topics_ok s \<longleftrightarrow> distinct (map tp_id (t_agenda_topics s)) \<and>
     distinct (map (\<lambda>t. (tp_agenda_id t, tp_position t)) (t_agenda_topics s)) \<and>
     (\<forall>t \<in> set (t_agenda_topics s). agenda_by_id (tp_agenda_id t) s \<noteq> None)"

definition comments_ok :: "sess \<Rightarrow> bool" where
  "comments_ok s \<longleftrightarrow> distinct (map tc_id (t_topic_comments s)) \<and>
     (\<forall>c \<in> set (t_topic_comments s). topic_by_id (tc_topic_id c) s \<noteq> None) \<and>
     depth_one tc_id tc_parent_comment_id tc_topic_id (t_topic_comments s)"

definition meetings_ok :: "sess \<Rightarrow> bool" where
  "meetings_ok s \<longleftrightarrow> agendas_ok s \<and> topics_ok s \<and> comments_ok s"

definition club_ok :: "sess \<Rightarrow> bool" where
  "club_ok s \<longleftrightarrow> roster_ok s \<and> meetings_ok s"

definition how_far :: "sess \<Rightarrow> uuid + uuid \<Rightarrow> nat" where
  "how_far s k = (case k of
      Inl m \<Rightarrow> (case club_session_by_id m s of None \<Rightarrow> 0
        | Some r \<Rightarrow> (case cs_status r of DRAFT \<Rightarrow> 1 | OPEN \<Rightarrow> 2 | CLOSED \<Rightarrow> 3))
    | Inr a \<Rightarrow> (case agenda_by_id a s of None \<Rightarrow> 0 | Some r \<Rightarrow> if ag_status r = PUBLISHED then 2 else 1))"

lemma meeting_same_refl [simp]: "meeting_same s s"
  by (simp add: meeting_same_def)

lemma meeting_same_trans: "meeting_same a b \<Longrightarrow> meeting_same b c \<Longrightarrow> meeting_same a c"
  by (simp add: meeting_same_def)

lemma stream_meeting: "stream_extends s s' \<Longrightarrow> meeting_same s s'"
  by (auto simp: stream_extends_def meeting_same_def)

lemma meeting_same_ok:
  assumes "meeting_same s s'"
  shows "agendas_ok s' = agendas_ok s" "topics_ok s' = topics_ok s" "comments_ok s' = comments_ok s"
  using assms by (simp_all add: meeting_same_def agendas_ok_def topics_ok_def comments_ok_def
      club_session_by_id_def agenda_by_id_def topic_by_id_def)

lemma meeting_same_stage:
  assumes "meeting_same s s'"
  shows "how_far s' = how_far s"
proof -
  have "club_session_by_id m s' = club_session_by_id m s" "agenda_by_id a s' = agenda_by_id a s" for m a
    using assms by (simp_all add: meeting_same_def club_session_by_id_def agenda_by_id_def)
  then show ?thesis unfolding how_far_def [abs_def] by (simp only:)
qed

section \<open>Operations that leave roster and meetings alone\<close>

definition frame_same :: "sess \<Rightarrow> sess \<Rightarrow> bool" where
  "frame_same s s' \<longleftrightarrow> roster_same s s' \<and> meeting_same s s'"

lemmas frame_defs = frame_same_def roster_same_def meeting_same_def

lemma repo_frames:
  "repo_create_event i now c u t d tm l n s = Inr (e, s') \<Longrightarrow> frame_same s s'"
  "upsert_rsvp now ev u st s = Inr (a, s') \<Longrightarrow> frame_same s s'"
  "create_message i now c u x m r s = Inr (msg, s') \<Longrightarrow> frame_same s s'"
  "upsert_message_read now mi u s = Inr s' \<Longrightarrow> frame_same s s'"
  "repo_create_room i now c x g u s = Inr (room, s') \<Longrightarrow> frame_same s s'"
  "repo_create_reading_plan i now c b d1 d2 w u s = Inr (plan, s') \<Longrightarrow> frame_same s s'"
  "stream_extends s s' \<Longrightarrow> frame_same s s'"
  by (auto simp: repo_create_event_def upsert_rsvp_def create_message_def upsert_message_read_def
      repo_create_room_def repo_create_reading_plan_def stream_extends_def frame_defs Let_def
      split: if_splits option.splits)

lemma event_frames:
  "create_club_event i now u c t d tm l n s = Inr (e, s') \<Longrightarrow> frame_same s s'"
  "update_event ev u t' d' tm' l' n' s = Inr (e, s') \<Longrightarrow> frame_same s s'"
  "delete_event ev u s = Inr (x, s') \<Longrightarrow> frame_same s s'"
  "rsvp now u ev st s = Inr (x, s') \<Longrightarrow> frame_same s s'"
  by (auto simp: create_club_event_def update_event_def delete_event_def rsvp_def repo_update_event_def
      repo_delete_event_def Let_def dest!: repo_frames split: prod.splits)
    (simp_all add: frame_defs)

lemma chat_frames:
  "send_message i now c u x m s = Inr (v, s') \<Longrightarrow> frame_same s s'"
  "room_message i now c r u x m s = Inr (w, s') \<Longrightarrow> frame_same s s'"
  "mark_read now c u mi s = Inr (y, s') \<Longrightarrow> frame_same s s'"
  "edit_message now c u mi x s = Inr (fr, s') \<Longrightarrow> frame_same s s'"
  "delete_message now c u mi s = Inr (fr, s') \<Longrightarrow> frame_same s s'"
  "create_room i now c u x g s = Inr (rv, s') \<Longrightarrow> frame_same s s'"
  "delete_room c r u s = Inr (y, s') \<Longrightarrow> frame_same s s'"
  "create_reading_plan i now c u b d1 d2 s = Inr (plan, s') \<Longrightarrow> frame_same s s'"
  by (auto simp: send_message_def room_message_def mark_read_def edit_message_def delete_message_def create_room_def
      delete_room_def create_reading_plan_def Let_def update_message_content_def soft_delete_message_def repo_delete_room_def
      dest: repo_frames split: if_splits option.splits) (simp_all add: frame_defs)

section \<open>Operations on meetings\<close>

definition meeting_effect :: "sess \<Rightarrow> sess \<Rightarrow> bool" where
  "meeting_effect s s' \<longleftrightarrow> (meetings_ok s \<longrightarrow> meetings_ok s' \<and> how_far s \<le> how_far s')"

lemma meeting_same_effect: "meeting_same s s' \<Longrightarrow> meeting_effect s s'"
  by (simp add: meeting_effect_def meetings_ok_def meeting_same_ok meeting_same_stage)

lemma meeting_effect_same: "meeting_effect s s1 \<Longrightarrow> meeting_same s1 s' \<Longrightarrow> meeting_effect s s'"
  by (simp add: meeting_effect_def meetings_ok_def meeting_same_ok meeting_same_stage)

lemma meetings_ok_keys:
  assumes "meetings_ok s"
  shows "distinct (map cs_id (t_club_sessions s))" "distinct (map ag_id (t_session_agendas s))"
    "distinct (map tp_id (t_agenda_topics s))" "distinct (map tc_id (t_topic_comments s))"
  using assms by (simp_all add: meetings_ok_def agendas_ok_def topics_ok_def comments_ok_def)

lemma how_far_le:
  assumes "\<And>m. how_far s (Inl m) \<le> how_far s' (Inl m)" "\<And>a. how_far s (Inr a) \<le> how_far s' (Inr a)"
  shows "how_far s \<le> how_far s'"
proof (rule le_funI)
  fix k show "how_far s k \<le> how_far s' k" using assms by (cases k) simp_all
qed

text \<open>What validates a transition: the next status, and nothing else.\<close>

lemma index_of_status:
  "index_of (status_name st) SESSION_STATUS_ORDER = Some (case st of DRAFT \<Rightarrow> 0 | OPEN \<Rightarrow> 1 | CLOSED \<Rightarrow> 2)"
  by (cases st) (simp_all add: SESSION_STATUS_ORDER_def)

lemma index_of_target:
  "index_of t SESSION_STATUS_ORDER = (if t = ''draft'' then Some 0 else if t = ''open'' then Some 1 else if t = ''closed'' then Some 2 else None)"
  by (simp add: SESSION_STATUS_ORDER_def)

lemma validate_iff:
  "validate_status_transition (status_name st) t = Inr x \<longleftrightarrow>
     (st = DRAFT \<and> t = ''open'' \<or> st = OPEN \<and> t = ''closed'')"
  by (cases st) (auto simp: validate_status_transition_def index_of_status index_of_target)

lemma create_session_effect:
  assumes "create_session i now c u b t sc p tm s = Inr (row, s')"
  shows "meeting_effect s s' \<and> roster_same s s'"
proof -
  from assms have new: "cs_id row = i" "cs_status row = DRAFT" "i \<notin> cs_id ` set (t_club_sessions s)"
    and s': "s' = s\<lparr>t_club_sessions := t_club_sessions s @ [row]\<rparr>"
    by (auto simp: create_session_def repo_create_session_def Let_def insert_row_Inr_iff)
  have none: "club_session_by_id i s = None" using new by (simp add: club_session_by_id_def fetch_None_iff)
  have find: "club_session_by_id k s' = (if k = i then Some row else club_session_by_id k s)" for k
    using none new(1) by (simp add: s' club_session_by_id_def fetch_append split: option.splits)
  have rest: "agenda_by_id a s' = agenda_by_id a s" "topic_by_id k s' = topic_by_id k s" for a k
    by (simp_all add: s' agenda_by_id_def topic_by_id_def)
  have "how_far s \<le> how_far s'" by (rule how_far_le) (auto simp: how_far_def find rest none new)
  moreover have "meetings_ok s'" if "meetings_ok s"
    using that new by (auto simp: meetings_ok_def agendas_ok_def topics_ok_def comments_ok_def find rest) (simp_all add: s')
  ultimately show ?thesis by (simp add: meeting_effect_def roster_same_def s')
qed

text \<open>An update of one session, of one agenda.\<close>

lemma amend_session_effect:
  assumes s': "s' = s\<lparr>t_club_sessions := amend cs_id m f (t_club_sessions s)\<rparr>"
    and f: "\<And>r. cs_id (f r) = cs_id r"
    and up: "\<And>r. club_session_by_id m s = Some r \<Longrightarrow> how_far s (Inl m) \<le> (case cs_status (f r) of DRAFT \<Rightarrow> 1 | OPEN \<Rightarrow> 2 | CLOSED \<Rightarrow> 3)"
  shows "meeting_effect s s' \<and> roster_same s s'"
proof -
  have find: "club_session_by_id k s' = map_option (if k = m then f else id) (club_session_by_id k s)" for k
    using f by (simp add: s' club_session_by_id_def fetch_amend option.map_id)
  have rest: "agenda_by_id a s' = agenda_by_id a s" "topic_by_id k s' = topic_by_id k s" for a k
    by (simp_all add: s' agenda_by_id_def topic_by_id_def)
  have "how_far s \<le> how_far s'"
  proof (rule how_far_le)
    fix k show "how_far s (Inl k) \<le> how_far s' (Inl k)"
      using up by (cases "club_session_by_id k s") (auto simp: how_far_def find)
  qed (simp add: how_far_def rest)
  moreover have "meetings_ok s'" if "meetings_ok s"
    using that f by (auto simp: meetings_ok_def agendas_ok_def topics_ok_def comments_ok_def find rest) (simp_all add: s' map_key_amend)
  ultimately show ?thesis by (simp add: meeting_effect_def roster_same_def s')
qed

lemma amend_agenda_effect:
  assumes s': "s' = s\<lparr>t_session_agendas := amend ag_id a f (t_session_agendas s)\<rparr>"
    and f: "\<And>r. ag_id (f r) = ag_id r" "\<And>r. ag_session_id (f r) = ag_session_id r"
    and pub: "\<And>r. (ag_status r = PUBLISHED \<longleftrightarrow> ag_published_at r \<noteq> None) \<Longrightarrow>
      (ag_status (f r) = PUBLISHED \<longleftrightarrow> ag_published_at (f r) \<noteq> None) \<and> (ag_status r = PUBLISHED \<longrightarrow> ag_status (f r) = PUBLISHED)"
  shows "meeting_effect s s' \<and> roster_same s s'"
proof -
  have find: "agenda_by_id k s' = map_option (if k = a then f else id) (agenda_by_id k s)" for k
    using f(1) by (simp add: s' agenda_by_id_def fetch_amend option.map_id)
  have rest: "club_session_by_id m s' = club_session_by_id m s" "topic_by_id k s' = topic_by_id k s" for m k
    by (simp_all add: s' club_session_by_id_def topic_by_id_def)
  have "how_far s \<le> how_far s'" if ok: "meetings_ok s"
  proof (rule how_far_le)
    fix k
    have "ag_status r = PUBLISHED \<longrightarrow> ag_status (f r) = PUBLISHED" if "agenda_by_id k s = Some r" for r
      using ok pub [of r] fetch_Some_mem [of ag_id k "t_session_agendas s" r] that
      by (auto simp: meetings_ok_def agendas_ok_def agenda_by_id_def)
    then show "how_far s (Inr k) \<le> how_far s' (Inr k)" by (cases "agenda_by_id k s") (auto simp: how_far_def find)
  qed (simp add: how_far_def rest)
  moreover have "meetings_ok s'" if ok: "meetings_ok s"
  proof -
    have "club_session_by_id (ag_session_id r) s' \<noteq> None \<and> (ag_status r = PUBLISHED \<longleftrightarrow> ag_published_at r \<noteq> None)"
      if r: "r \<in> set (t_session_agendas s')" for r
    proof -
      obtain q where q: "q \<in> set (t_session_agendas s)" "r = q \<or> r = f q" using r by (auto simp: s' set_amend)
      with ok have "club_session_by_id (ag_session_id q) s \<noteq> None" "ag_status q = PUBLISHED \<longleftrightarrow> ag_published_at q \<noteq> None"
        by (simp_all add: meetings_ok_def agendas_ok_def)
      with q(2) pub [of q] f(2) show ?thesis by (auto simp: rest)
    qed
    moreover have "topics_ok s'" "comments_ok s'" using ok
      by (auto simp: meetings_ok_def topics_ok_def comments_ok_def find rest) (simp_all add: s')
    ultimately show ?thesis using ok f(1) by (auto simp: meetings_ok_def agendas_ok_def) (simp_all add: s' map_key_amend)
  qed
  ultimately show ?thesis by (simp add: meeting_effect_def roster_same_def s')
qed

lemma set_session_presenter_effect:
  assumes "set_session_presenter c m u p s = Inr (row, s')"
  shows "meeting_effect s s' \<and> roster_same s s'"
proof -
  from assms have "s' = s\<lparr>t_club_sessions := amend cs_id m (\<lambda>r. r\<lparr>cs_presenter_id := p\<rparr>) (t_club_sessions s)\<rparr>"
    by (auto simp: set_session_presenter_def update_session_presenter_def Let_def split: if_splits)
  then show ?thesis by (rule amend_session_effect) (auto simp: how_far_def)
qed

lemma transition_effect:
  assumes "transition_session_status feed fid now c m u t s = Inr (row, s')"
  shows "meeting_effect s s' \<and> roster_same s s'"
proof -
  from assms obtain r where r: "club_session_by_id m s = Some r"
    and v: "cs_status r = DRAFT \<and> t = ''open'' \<or> cs_status r = OPEN \<and> t = ''closed''"
    and s': "\<exists>s1. s1 = s\<lparr>t_club_sessions := amend cs_id m (\<lambda>r. r\<lparr>cs_status := status_of_name t\<rparr>) (t_club_sessions s)\<rparr> \<and> stream_extends s1 s'"
    by (auto simp: transition_session_status_def get_session_in_club_def update_session_status_def validate_iff Let_def
        split: option.splits if_splits dest: record_extends)
  then obtain s1 where s1: "s1 = s\<lparr>t_club_sessions := amend cs_id m (\<lambda>r. r\<lparr>cs_status := status_of_name t\<rparr>) (t_club_sessions s)\<rparr>"
    and st: "stream_extends s1 s'" by blast
  have "meeting_effect s s1 \<and> roster_same s s1"
    by (rule amend_session_effect [OF s1]) (use r v in \<open>auto simp: how_far_def status_of_name_def\<close>)
  then show ?thesis using st by (auto intro: meeting_effect_same roster_same_trans stream_meeting stream_roster)
qed

lemma create_agenda_effect:
  assumes "create_agenda i now c m u x s = Inr (row, s')"
  shows "meeting_effect s s' \<and> roster_same s s'"
proof -
  from assms have new: "ag_id row = i" "ag_status row = AGENDA_DRAFT" "ag_published_at row = None" "i \<notin> ag_id ` set (t_session_agendas s)"
      "ag_session_id row = m" "club_session_by_id m s \<noteq> None"
    and s': "s' = s\<lparr>t_session_agendas := t_session_agendas s @ [row]\<rparr>"
    by (auto simp: create_agenda_def repo_create_agenda_def Let_def insert_row_Inr_iff)
  have none: "agenda_by_id i s = None" using new by (simp add: agenda_by_id_def fetch_None_iff)
  have find: "agenda_by_id k s' = (if k = i then Some row else agenda_by_id k s)" for k
    using none new(1) by (simp add: s' agenda_by_id_def fetch_append split: option.splits)
  have rest: "club_session_by_id m s' = club_session_by_id m s" "topic_by_id k s' = topic_by_id k s" for m k
    by (simp_all add: s' club_session_by_id_def topic_by_id_def)
  have "how_far s \<le> how_far s'" by (rule how_far_le) (auto simp: how_far_def find rest none new)
  moreover have "meetings_ok s'" if ok: "meetings_ok s"
  proof -
    have "\<forall>a \<in> set (t_session_agendas s'). club_session_by_id (ag_session_id a) s' \<noteq> None \<and> (ag_status a = PUBLISHED \<longleftrightarrow> ag_published_at a \<noteq> None)"
      unfolding rest using ok new by (auto simp: meetings_ok_def agendas_ok_def s')
    then show ?thesis
      using ok new by (auto simp: meetings_ok_def agendas_ok_def topics_ok_def comments_ok_def find rest) (simp_all add: s')
  qed
  ultimately show ?thesis by (simp add: meeting_effect_def roster_same_def s')
qed

lemma update_agenda_effect:
  assumes "update_agenda c m a u x s = Inr (row, s')"
  shows "meeting_effect s s' \<and> roster_same s s'"
proof -
  from assms obtain k where "s' = s\<lparr>t_session_agendas := amend ag_id k (\<lambda>r. r\<lparr>ag_body := x\<rparr>) (t_session_agendas s)\<rparr>"
    by (auto simp: update_agenda_def update_agenda_body_def Let_def)
  then show ?thesis by (rule amend_agenda_effect) simp_all
qed

lemma publish_agenda_effect:
  assumes "publish_agenda feed notify fid now c m a u s = Inr (row, s')"
  shows "meeting_effect s s' \<and> roster_same s s'"
proof -
  from assms obtain k s1 where s1: "s1 = s\<lparr>t_session_agendas := amend ag_id k (\<lambda>r. r\<lparr>ag_status := PUBLISHED, ag_published_at := Some now\<rparr>) (t_session_agendas s)\<rparr>"
    and st: "stream_extends s1 s'"
    by (auto simp: publish_agenda_def repo_publish_agenda_def Let_def split: if_splits dest: record_extends)
  have "meeting_effect s s1 \<and> roster_same s s1" by (rule amend_agenda_effect [OF s1]) simp_all
  then show ?thesis using st by (auto intro: meeting_effect_same roster_same_trans stream_meeting stream_roster)
qed

text \<open>Topics: sessions and agendas stay, so only topics and comments are at stake.\<close>

lemma topic_tables_effect:
  assumes "t_club_sessions s' = t_club_sessions s" "t_session_agendas s' = t_session_agendas s" "roster_same s s'"
    and "meetings_ok s \<Longrightarrow> topics_ok s' \<and> comments_ok s'"
  shows "meeting_effect s s' \<and> roster_same s s'"
proof -
  have find: "club_session_by_id m s' = club_session_by_id m s" "agenda_by_id a s' = agenda_by_id a s" for m a
    using assms by (simp_all add: club_session_by_id_def agenda_by_id_def)
  then have "how_far s' = how_far s" unfolding how_far_def [abs_def] by (simp only:)
  moreover have "agendas_ok s' = agendas_ok s" using assms find by (simp add: agendas_ok_def)
  ultimately show ?thesis using assms by (simp add: meeting_effect_def meetings_ok_def)
qed

lemma comments_ok_filter:
  assumes ok: "comments_ok s" and rows: "t_topic_comments s' = filter K (t_topic_comments s)"
    and topics: "\<And>c. c \<in> set (t_topic_comments s) \<Longrightarrow> K c \<Longrightarrow> topic_by_id (tc_topic_id c) s' \<noteq> None"
    and up: "\<And>c r. c \<in> set (t_topic_comments s) \<Longrightarrow> r \<in> set (t_topic_comments s) \<Longrightarrow> K c \<Longrightarrow>
      tc_parent_comment_id c = Some (tc_id r) \<Longrightarrow> tc_topic_id r = tc_topic_id c \<Longrightarrow> K r"
  shows "comments_ok s'"
proof -
  have "depth_one tc_id tc_parent_comment_id tc_topic_id (t_topic_comments s')"
    unfolding rows
  proof (rule depth_one_filter)
    show "depth_one tc_id tc_parent_comment_id tc_topic_id (t_topic_comments s)" using ok by (simp add: comments_ok_def)
  qed (rule up)
  moreover have "distinct (map tc_id (t_topic_comments s'))"
    using ok by (simp add: comments_ok_def rows distinct_map_filter)
  moreover have "topic_by_id (tc_topic_id c) s' \<noteq> None" if "c \<in> set (t_topic_comments s')" for c
    using that topics by (simp add: rows)
  ultimately show ?thesis by (simp add: comments_ok_def)
qed

lemma authored_agenda_Inr:
  "authored_agenda c m a u s = Inr g \<Longrightarrow> agenda_by_id a s = Some g \<and> ag_id g = a \<and> ag_author_id g = u \<and> ag_session_id g = m"
  by (auto simp: authored_agenda_def get_agenda_in_session_def assert_agenda_author_def agenda_by_id_def
      dest: fetch_Some_key split: option.splits if_splits)

lemma add_topic_effect:
  assumes "add_topic i now c m a u x s = Inr (row, s')"
  shows "meeting_effect s s' \<and> roster_same s s'"
proof -
  from assms have new: "tp_id row = i" "i \<notin> tp_id ` set (t_agenda_topics s)" "agenda_by_id a s \<noteq> None" "tp_agenda_id row = a"
      "tp_position row = get_next_topic_position a s"
    and s': "s' = s\<lparr>t_agenda_topics := t_agenda_topics s @ [row]\<rparr>"
    by (auto simp: add_topic_def create_topic_def Let_def insert_row_Inr_iff dest!: authored_agenda_Inr split: if_splits)
  have find: "topic_by_id k s' = (if k = i then Some row else topic_by_id k s)" for k
    using topics_tbl.get_put [of row "t_agenda_topics s" k] new(1,2) by (simp add: s' topic_by_id_def fetch_None_iff)
  have rest: "agenda_by_id a s' = agenda_by_id a s" for a by (simp add: s' agenda_by_id_def)
  have fresh: "(a, tp_position row) \<noteq> (tp_agenda_id t, tp_position t)" if "t \<in> set (t_agenda_topics s)" for t
    using get_next_topic_position_above [OF that, of a] new(5) by auto
  show ?thesis
  proof (rule topic_tables_effect)
    assume ok: "meetings_ok s"
    have "topics_ok s'"
      using ok new fresh by (auto simp: meetings_ok_def topics_ok_def rest) (auto simp: s')
    moreover have "comments_ok s'" using ok by (auto simp: meetings_ok_def comments_ok_def find) (simp_all add: s')
    ultimately show "topics_ok s' \<and> comments_ok s'" ..
  qed (simp_all add: s' roster_same_def)
qed

lemma update_topic_effect:
  assumes "update_topic c m a t u x s = Inr (row, s')"
  shows "meeting_effect s s' \<and> roster_same s s'"
proof -
  let ?f = "\<lambda>t. t\<lparr>tp_prompt := x\<rparr>"
  from assms have s': "s' = s\<lparr>t_agenda_topics := amend tp_id t ?f (t_agenda_topics s)\<rparr>"
    by (auto simp: update_topic_def update_topic_prompt_def Let_def)
  have find: "topic_by_id k s' = map_option (if k = t then ?f else id) (topic_by_id k s)" for k
    by (simp add: s' topic_by_id_def fetch_amend option.map_id)
  have rest: "agenda_by_id a s' = agenda_by_id a s" for a by (simp add: s' agenda_by_id_def)
  show ?thesis
  proof (rule topic_tables_effect)
    assume ok: "meetings_ok s"
    have "topics_ok s'" using ok by (auto simp: meetings_ok_def topics_ok_def rest) (auto simp: s' map_amend_eq set_amend)
    moreover have "comments_ok s'" using ok by (auto simp: meetings_ok_def comments_ok_def find) (simp_all add: s')
    ultimately show "topics_ok s' \<and> comments_ok s'" ..
  qed (simp_all add: s' roster_same_def)
qed

lemma delete_topic_effect:
  assumes "delete_topic c m a t u s = Inr (y, s')"
  shows "meeting_effect s s' \<and> roster_same s s'"
proof -
  from assms have s': "s' = repo_delete_topic t s" by (auto simp: delete_topic_def)
  have find: "topic_by_id k s' = (if k = t then None else topic_by_id k s)" for k
    by (simp add: s' repo_delete_topic_def topic_by_id_def fetch_discard_key)
  have rest: "agenda_by_id a s' = agenda_by_id a s" for a by (simp add: s' agenda_by_id_def repo_delete_topic_def)
  have rows: "t_agenda_topics s' = discard (\<lambda>k. tp_id k = t) (t_agenda_topics s)"
    "t_topic_comments s' = discard (\<lambda>k. tc_topic_id k = t) (t_topic_comments s)" by (simp_all add: s' repo_delete_topic_def)
  show ?thesis
  proof (rule topic_tables_effect)
    assume ok: "meetings_ok s"
    have "topics_ok s'" using ok by (auto simp: meetings_ok_def topics_ok_def rest rows distinct_map_discard)
    moreover have "comments_ok s'"
    proof (rule comments_ok_filter)
      show "comments_ok s" using ok by (simp add: meetings_ok_def)
      then show "topic_by_id (tc_topic_id k) s' \<noteq> None" if "k \<in> set (t_topic_comments s)" "tc_topic_id k \<noteq> t" for k
        using that by (simp add: comments_ok_def find)
    qed (simp_all add: rows discard_def)
    ultimately show "topics_ok s' \<and> comments_ok s'" ..
  qed (simp_all add: s' roster_same_def repo_delete_topic_def)
qed

text \<open>
  Reordering accepts any list that names exactly the topics of the agenda, repetitions included:
  a topic ends up at the last index it is named at, so positions stay distinct.
\<close>

lemma assign_positions_append:
  "assign_positions known k (xs @ [i]) rows =
     (if known i then amend tp_id i (\<lambda>t. t\<lparr>tp_position := k + int (length xs)\<rparr>) (assign_positions known k xs rows)
      else assign_positions known k xs rows)"
  by (induction known k xs rows rule: assign_positions.induct) (auto simp: algebra_simps)

definition last_place :: "uuid list \<Rightarrow> uuid \<Rightarrow> int" where
  "last_place xs i = int (length xs) - 1 - place (rev xs) i"

lemma last_place_snoc: "last_place (xs @ [j]) i = (if j = i then int (length xs) else last_place xs i)"
  by (simp add: last_place_def)

lemma assign_positions_last:
  "assign_positions (\<lambda>i. i \<in> K) k xs rows =
     map (\<lambda>t. if tp_id t \<in> set xs \<inter> K then t\<lparr>tp_position := k + last_place xs (tp_id t)\<rparr> else t) rows"
proof (induction xs rule: rev_induct)
  case (snoc j xs)
  show ?case unfolding assign_positions_append snoc
    by (auto simp: amend_def last_place_snoc)
qed simp

lemma last_place_inj: "i \<in> set xs \<Longrightarrow> last_place xs i = last_place xs j \<Longrightarrow> i = j"
  using place_inj [of i "rev xs" j] by (simp add: last_place_def)

lemma reorder_topics_effect:
  assumes "reorder_topics c m a u ids s = Inr (ts, s')"
  shows "meeting_effect s s' \<and> roster_same s s'"
proof -
  let ?K = "set (map tp_id (list_topics_by_agenda a s))"
  let ?f = "\<lambda>t. if tp_id t \<in> ?K then t\<lparr>tp_position := last_place ids (tp_id t)\<rparr> else t"
  from assms have K: "set ids = ?K" and s': "s' = s\<lparr>t_agenda_topics := assign_positions (\<lambda>i. i \<in> ?K) 0 ids (t_agenda_topics s)\<rparr>"
    by (auto simp: reorder_topics_def repo_reorder_topics_def Let_def dest!: authored_agenda_Inr split: if_splits)
  have rows: "t_agenda_topics s' = map ?f (t_agenda_topics s)"
    using K by (simp add: s' assign_positions_last)
  have kept: "tp_id (?f t) = tp_id t" "tp_agenda_id (?f t) = tp_agenda_id t" for t by simp_all
  have "fetch tp_id k (map ?f rows) = map_option ?f (fetch tp_id k rows)" for k rows
    by (induction rows) simp_all
  then have find: "topic_by_id k s' = map_option ?f (topic_by_id k s)" for k by (simp only: topic_by_id_def rows)
  have rest: "agenda_by_id k s' = agenda_by_id k s" for k by (simp add: s' agenda_by_id_def)
  show ?thesis
  proof (rule topic_tables_effect)
    assume ok: "meetings_ok s"
    have keys: "distinct (map tp_id (t_agenda_topics s))" using meetings_ok_keys [OF ok] by simp
    have inK: "tp_id t \<in> ?K \<longleftrightarrow> tp_agenda_id t = a" if t: "t \<in> set (t_agenda_topics s)" for t
    proof
      assume "tp_id t \<in> ?K"
      then obtain q where "q \<in> set (t_agenda_topics s)" "tp_id q = tp_id t" "tp_agenda_id q = a"
        by (auto simp: list_topics_by_agenda_def)
      then show "tp_agenda_id t = a" using topics_tbl.row_unique [OF keys _ t, of q] by simp
    qed (use t in \<open>auto simp: list_topics_by_agenda_def\<close>)
    have "inj_on (\<lambda>t. (tp_agenda_id t, tp_position t)) (set (t_agenda_topics s))"
      "distinct (t_agenda_topics s)" using ok by (simp_all add: meetings_ok_def topics_ok_def distinct_map)
    have "inj_on (\<lambda>t. (tp_agenda_id (?f t), tp_position (?f t))) (set (t_agenda_topics s))"
    proof (rule inj_onI)
      fix t q assume t: "t \<in> set (t_agenda_topics s)" and q: "q \<in> set (t_agenda_topics s)"
        and eq: "(tp_agenda_id (?f t), tp_position (?f t)) = (tp_agenda_id (?f q), tp_position (?f q))"
      have ag: "tp_agenda_id t = tp_agenda_id q" using eq unfolding prod.inject by (simp only: kept)
      show "t = q"
      proof (cases "tp_agenda_id t = a")
        case True
        then have "tp_id t \<in> ?K" "tp_id q \<in> ?K" using ag inK t q by simp_all
        then have "tp_id t = tp_id q" using eq K last_place_inj [of "tp_id t" ids "tp_id q"] by simp
        then show ?thesis by (rule topics_tbl.row_unique [OF keys t q])
      next
        case False
        then have "tp_position t = tp_position q" using eq ag inK t q by simp
        with ag show ?thesis using \<open>inj_on (\<lambda>t. (tp_agenda_id t, tp_position t)) _\<close> t q by (simp add: inj_on_def)
      qed
    qed
    then have "distinct (map (\<lambda>t. (tp_agenda_id t, tp_position t)) (t_agenda_topics s'))"
      using \<open>distinct (t_agenda_topics s)\<close> by (simp add: rows distinct_map o_def)
    moreover have "map tp_id (t_agenda_topics s') = map tp_id (t_agenda_topics s)" by (simp add: rows)
    moreover have "\<forall>t \<in> set (t_agenda_topics s'). agenda_by_id (tp_agenda_id t) s' \<noteq> None"
      using ok by (auto simp: rows rest meetings_ok_def topics_ok_def)
    ultimately have "topics_ok s'" using keys by (simp only: topics_ok_def)
    moreover have "comments_ok s'" using ok by (auto simp: meetings_ok_def comments_ok_def find) (simp_all add: s')
    ultimately show "topics_ok s' \<and> comments_ok s'" ..
  qed (simp_all add: s' roster_same_def)
qed

section \<open>Operations on comments\<close>

lemma located_comment_Inr:
  "located_comment c m a t k u s = Inr q \<Longrightarrow> comment_by_id k s = Some q \<and> tc_id q = k \<and> tc_topic_id q = t"
  by (auto simp: located_comment_def get_comment_in_topic_def get_topic_in_agenda_def comment_by_id_def topic_by_id_def
      dest: fetch_Some_key split: option.splits if_splits)

lemma get_topic_in_agenda_Inr:
  "get_topic_in_agenda a t s = Inr q \<Longrightarrow> topic_by_id t s = Some q \<and> tp_id q = t \<and> tp_agenda_id q = a"
  by (auto simp: get_topic_in_agenda_def topic_by_id_def dest: fetch_Some_key split: option.splits if_splits)

lemma get_comment_in_topic_Inr:
  "get_comment_in_topic t k s = Inr q \<longleftrightarrow> comment_by_id k s = Some q \<and> tc_topic_id q = t"
  by (auto simp: get_comment_in_topic_def split: option.splits)

lemma add_comment_Inr:
  assumes "add_comment feed notify i fid now c m a t u p x s = Inr (row, s')"
  shows "\<exists>agenda q s1. create_comment i now t u p x s = Inr (q, s1) \<and> stream_extends s1 s' \<and> fst row = q \<and>
    get_agenda_in_session m a s = Inr agenda \<and>
    (p = None \<or> (\<exists>r. comment_by_id (the p) s = Some r \<and> tc_topic_id r = t \<and> tc_parent_comment_id r = None))"
proof -
  from assms obtain agenda topic pa q s1 where agenda: "get_agenda_in_session m a s = Inr agenda"
    and topic: "get_topic_in_agenda (ag_id agenda) t s = Inr topic"
    and par: "(case p of None \<Rightarrow> Inr None
        | Some k \<Rightarrow> bindE (get_comment_in_topic (tp_id topic) k s) (\<lambda>parent.
            if tc_parent_comment_id parent \<noteq> None then Inl (DomainError ConflictError ''MAX_REPLY_DEPTH_EXCEEDED'')
            else Inr (Some (tc_author_id parent)))) = Inr pa"
    and cc: "create_comment i now (tp_id topic) u p x s = Inr (q, s1)"
    and rest: "record_discussion_commented feed fid now u c m a (tp_id topic) (tc_id q) p s1 = Inr ((), s')" "fst row = q"
    by (auto simp: add_comment_def Let_def)
  have t: "tp_id topic = t" using get_topic_in_agenda_Inr [OF topic] by simp
  have "p = None \<or> (\<exists>r. comment_by_id (the p) s = Some r \<and> tc_topic_id r = t \<and> tc_parent_comment_id r = None)"
    using par unfolding t by (auto simp: get_comment_in_topic_Inr split: option.splits if_splits)
  then show ?thesis using agenda cc rest record_extends(7) [OF rest(1)] unfolding t by blast
qed

lemma add_comment_effect:
  assumes "add_comment feed notify i fid now c m a t u p x s = Inr (row, s')"
  shows "meeting_effect s s' \<and> roster_same s s'"
proof -
  note C = add_comment_Inr [OF assms]
  obtain agenda q s1 where st: "stream_extends s1 s'"
    and cc: "create_comment i now t u p x s = Inr (q, s1)"
    and par: "p = None \<or> (\<exists>r. comment_by_id (the p) s = Some r \<and> tc_topic_id r = t \<and> tc_parent_comment_id r = None)"
    using C by blast
  from cc have new: "tc_id q = i" "tc_topic_id q = t" "tc_parent_comment_id q = p" "i \<notin> tc_id ` set (t_topic_comments s)"
      "topic_by_id t s \<noteq> None" and s1: "s1 = s\<lparr>t_topic_comments := t_topic_comments s @ [q]\<rparr>"
    by (auto simp: create_comment_def Let_def insert_row_Inr_iff)
  have find: "topic_by_id k s1 = topic_by_id k s" "agenda_by_id k s1 = agenda_by_id k s" for k
    by (simp_all add: s1 topic_by_id_def agenda_by_id_def)
  have "meeting_effect s s1 \<and> roster_same s s1"
  proof (rule topic_tables_effect)
    assume ok: "meetings_ok s"
    have "depth_one tc_id tc_parent_comment_id tc_topic_id (t_topic_comments s1)"
      unfolding s1 sess.simps
    proof -
      have "\<exists>r \<in> set (t_topic_comments s). tc_id r = k \<and> tc_topic_id r = tc_topic_id q \<and> tc_parent_comment_id r = None"
        if link: "tc_parent_comment_id q = Some k" for k
      proof -
        obtain r where "comment_by_id k s = Some r" "tc_topic_id r = t" "tc_parent_comment_id r = None"
          using par new link by auto
        then show ?thesis using new fetch_SomeD [of tc_id k "t_topic_comments s" r] by (auto simp: comment_by_id_def)
      qed
      then show "depth_one tc_id tc_parent_comment_id tc_topic_id (t_topic_comments (s\<lparr>t_topic_comments := t_topic_comments s @ [q]\<rparr>))"
        using ok depth_one_snoc [of tc_id tc_parent_comment_id tc_topic_id "t_topic_comments s" q]
        by (simp add: meetings_ok_def comments_ok_def)
    qed
    moreover have "distinct (map tc_id (t_topic_comments s1))" using ok new by (auto simp: meetings_ok_def comments_ok_def s1)
    moreover have "topic_by_id (tc_topic_id w) s1 \<noteq> None" if "w \<in> set (t_topic_comments s1)" for w
      unfolding find using ok new that by (auto simp: meetings_ok_def comments_ok_def s1)
    ultimately have "comments_ok s1" by (simp add: comments_ok_def)
    moreover have "topics_ok s1" using ok by (auto simp: meetings_ok_def topics_ok_def find) (simp_all add: s1)
    ultimately show "topics_ok s1 \<and> comments_ok s1" by simp
  qed (simp_all add: s1 roster_same_def)
  then show ?thesis using st by (auto intro: meeting_effect_same roster_same_trans stream_meeting stream_roster)
qed

lemma update_comment_effect:
  assumes "update_comment now c m a t k u x s = Inr (row, s')"
  shows "meeting_effect s s' \<and> roster_same s s'"
proof -
  let ?f = "\<lambda>r. r\<lparr>tc_body := x, tc_edited_at := Some now\<rparr>"
  from assms have s': "s' = s\<lparr>t_topic_comments := amend tc_id k ?f (t_topic_comments s)\<rparr>"
    by (auto simp: update_comment_def update_comment_body_def Let_def dest!: located_comment_Inr)
  have find: "topic_by_id j s' = topic_by_id j s" "agenda_by_id j s' = agenda_by_id j s" for j
    by (simp_all add: s' topic_by_id_def agenda_by_id_def)
  show ?thesis
  proof (rule topic_tables_effect)
    assume ok: "meetings_ok s"
    have "depth_one tc_id tc_parent_comment_id tc_topic_id (t_topic_comments s')"
      using ok by (simp add: meetings_ok_def comments_ok_def s' depth_one_amend)
    moreover have "topic_by_id (tc_topic_id w) s' \<noteq> None" if "w \<in> set (t_topic_comments s')" for w
      unfolding find using ok that by (auto simp: meetings_ok_def comments_ok_def s' set_amend split: if_splits)
    moreover have "distinct (map tc_id (t_topic_comments s'))" using ok by (simp add: meetings_ok_def comments_ok_def s' map_amend_eq)
    ultimately have "comments_ok s'" by (simp add: comments_ok_def)
    moreover have "topics_ok s'" using ok by (auto simp: meetings_ok_def topics_ok_def find) (simp_all add: s')
    ultimately show "topics_ok s' \<and> comments_ok s'" by simp
  qed (simp_all add: s' roster_same_def)
qed

lemma delete_comment_effect:
  assumes "delete_comment c m a t k u s = Inr (y, s')"
  shows "meeting_effect s s' \<and> roster_same s s'"
proof -
  from assms have s': "s' = repo_delete_comment k s" by (auto simp: delete_comment_def dest!: located_comment_Inr)
  have rows: "t_topic_comments s' = filter (\<lambda>c. \<not> in_thread tc_id tc_parent_comment_id (t_topic_comments s) k (tc_id c)) (t_topic_comments s)"
    by (simp add: s' repo_delete_comment_rows)
  have rest: "t_club_sessions s' = t_club_sessions s" "t_session_agendas s' = t_session_agendas s"
      "t_agenda_topics s' = t_agenda_topics s" "roster_same s s'"
    by (simp_all add: s' repo_delete_comment_def roster_same_def)
  then have find: "topic_by_id j s' = topic_by_id j s" "agenda_by_id j s' = agenda_by_id j s" for j
    by (simp_all add: topic_by_id_def agenda_by_id_def)
  show ?thesis
  proof (rule topic_tables_effect [OF rest(1,2,4)])
    assume ok: "meetings_ok s"
    have "comments_ok s'"
    proof (rule comments_ok_filter [OF _ rows])
      show "comments_ok s" using ok by (simp add: meetings_ok_def)
      then show "topic_by_id (tc_topic_id c) s' \<noteq> None" if "c \<in> set (t_topic_comments s)" for c
        using that by (simp add: comments_ok_def find)
    qed (rule survivor_parent; simp)
    moreover have "topics_ok s'" using ok by (simp add: meetings_ok_def topics_ok_def find rest)
    ultimately show "topics_ok s' \<and> comments_ok s'" by simp
  qed
qed

section \<open>Operations on the roster alone\<close>

lemma roster_ops_meetings:
  "post_club i ids code now u nam d b mx pub cat tags s = Inr (club, s') \<Longrightarrow> meeting_same s s'"
  "join_by_code now u code s = Inr (club, s') \<Longrightarrow> meeting_same s s'"
  "join_public feed fid now c u s = Inr (club, s') \<Longrightarrow> meeting_same s s'"
  "leave_club u c s = Inr (x, s') \<Longrightarrow> meeting_same s s'"
  "set_book c u b s = Inr (club, s') \<Longrightarrow> meeting_same s s'"
  "update_member_progress now c u p s = Inr (row, s') \<Longrightarrow> meeting_same s s'"
proof -
  have join: "meeting_same s s1" if "repo_club_join now c u s = Inr s1" for c s1
    using that by (auto simp: repo_club_join_def Let_def meeting_same_def)
  show "post_club i ids code now u nam d b mx pub cat tags s = Inr (club, s') \<Longrightarrow> meeting_same s s'"
    by (auto simp: post_club_def create_club_def repo_create_club_def Let_def meeting_same_def split: if_splits)
  show "join_by_code now u code s = Inr (club, s') \<Longrightarrow> meeting_same s s'"
    by (auto simp: join_by_code_def dest: join split: if_splits)
  show "join_public feed fid now c u s = Inr (club, s') \<Longrightarrow> meeting_same s s'"
    by (auto simp: join_public_def split: if_splits dest!: join record_extends stream_meeting intro: meeting_same_trans)
  show "leave_club u c s = Inr (x, s') \<Longrightarrow> meeting_same s s'"
    by (auto simp: leave_club_def repo_club_leave_def meeting_same_def split: if_splits)
  show "set_book c u b s = Inr (club, s') \<Longrightarrow> meeting_same s s'"
    by (auto simp: set_book_def repo_set_book_def Let_def meeting_same_def split: if_splits option.splits)
  show "update_member_progress now c u p s = Inr (row, s') \<Longrightarrow> meeting_same s s'"
    by (auto simp: update_member_progress_def repo_update_member_progress_def Let_def meeting_same_def split: if_splits option.splits)
qed

end
