(* ===== verification/ClubMachine.thy ===== *)
theory ClubMachine
  imports ClubRoster ClubMeetings ChallengeMachine
begin

text \<open>
  The club service as a machine: every operation of \<open>ClubService\<close> that changes state is a step.
  No step breaks the invariants of the roster and of the meetings, no step takes a meeting or an
  agenda back to an earlier stage, and what the steps do to the roster is one of the four moves
  of an abstract roster.
\<close>

section \<open>The steps\<close>

datatype roster_op =
    CreateClub uuid "nat \<Rightarrow> uuid" string datetime uuid pystr "pystr option" "uuid option" int bool "pystr option" "pystr list"
  | JoinByCode datetime uuid string
  | JoinPublic bool uuid datetime uuid uuid
  | LeaveClub uuid uuid
  | SetBook uuid uuid "uuid option"
  | UpdateProgress datetime uuid uuid int

datatype chat_op =
    CreateEvent uuid datetime uuid uuid pystr "pystr option" datetime "pystr option" "int option"
  | UpdateEvent uuid uuid "pystr option" "pystr option" "datetime option" "pystr option" "int option"
  | DeleteEvent uuid uuid
  | Rsvp datetime uuid uuid attendee_status
  | SendMessage uuid datetime uuid uuid pystr "pystr option"
  | MarkRead datetime uuid uuid uuid
  | EditMessage datetime uuid uuid uuid pystr
  | DeleteMessage datetime uuid uuid uuid
  | CreateRoom uuid datetime uuid uuid pystr int
  | DeleteRoom uuid uuid uuid
  | RoomMessage uuid datetime uuid uuid uuid pystr "pystr option"
  | CreatePlan uuid datetime uuid uuid uuid date date

datatype meeting_op =
    CreateSession uuid datetime uuid uuid uuid pystr "pystr option" "uuid option" "datetime option"
  | SetPresenter uuid uuid uuid "uuid option"
  | Transition bool uuid datetime uuid uuid uuid string
  | CreateAgenda uuid datetime uuid uuid uuid pystr
  | UpdateAgenda uuid uuid uuid uuid pystr
  | PublishAgenda bool bool uuid datetime uuid uuid uuid uuid
  | AddTopic uuid datetime uuid uuid uuid uuid pystr
  | UpdateTopic uuid uuid uuid uuid uuid pystr
  | DeleteTopic uuid uuid uuid uuid uuid
  | ReorderTopics uuid uuid uuid uuid "uuid list"
  | AddComment bool bool uuid uuid datetime uuid uuid uuid uuid uuid "uuid option" pystr
  | UpdateComment datetime uuid uuid uuid uuid uuid uuid pystr
  | DeleteComment uuid uuid uuid uuid uuid uuid

datatype club_op = Roster roster_op | Chat chat_op | Meeting meeting_op

primrec roster_step :: "roster_op \<Rightarrow> sess \<Rightarrow> sess result" where
  "roster_step (CreateClub i ids code now u nam d b mx pub cat tags) s = value_of (post_club i ids code now u nam d b mx pub cat tags s)"
| "roster_step (JoinByCode now u code) s = value_of (join_by_code now u code s)"
| "roster_step (JoinPublic feed fid now c u) s = value_of (join_public feed fid now c u s)"
| "roster_step (LeaveClub u c) s = value_of (leave_club u c s)"
| "roster_step (SetBook c u b) s = value_of (set_book c u b s)"
| "roster_step (UpdateProgress now c u p) s = value_of (update_member_progress now c u p s)"

primrec chat_step :: "chat_op \<Rightarrow> sess \<Rightarrow> sess result" where
  "chat_step (CreateEvent i now u c t d tm l n) s = value_of (create_club_event i now u c t d tm l n s)"
| "chat_step (UpdateEvent e u t d tm l n) s = value_of (update_event e u t d tm l n s)"
| "chat_step (DeleteEvent e u) s = value_of (delete_event e u s)"
| "chat_step (Rsvp now u e st) s = value_of (rsvp now u e st s)"
| "chat_step (SendMessage i now c u x m) s = value_of (send_message i now c u x m s)"
| "chat_step (MarkRead now c u m) s = value_of (mark_read now c u m s)"
| "chat_step (EditMessage now c u m x) s = value_of (edit_message now c u m x s)"
| "chat_step (DeleteMessage now c u m) s = value_of (delete_message now c u m s)"
| "chat_step (CreateRoom i now c u x g) s = value_of (create_room i now c u x g s)"
| "chat_step (DeleteRoom c r u) s = value_of (delete_room c r u s)"
| "chat_step (RoomMessage i now c r u x m) s = value_of (room_message i now c r u x m s)"
| "chat_step (CreatePlan i now c u b d1 d2) s = value_of (create_reading_plan i now c u b d1 d2 s)"

primrec meeting_step :: "meeting_op \<Rightarrow> sess \<Rightarrow> sess result" where
  "meeting_step (CreateSession i now c u b t sc p tm) s = value_of (create_session i now c u b t sc p tm s)"
| "meeting_step (SetPresenter c m u p) s = value_of (set_session_presenter c m u p s)"
| "meeting_step (Transition feed fid now c m u st) s = value_of (transition_session_status feed fid now c m u st s)"
| "meeting_step (CreateAgenda i now c m u x) s = value_of (create_agenda i now c m u x s)"
| "meeting_step (UpdateAgenda c m a u x) s = value_of (update_agenda c m a u x s)"
| "meeting_step (PublishAgenda feed notify fid now c m a u) s = value_of (publish_agenda feed notify fid now c m a u s)"
| "meeting_step (AddTopic i now c m a u x) s = value_of (add_topic i now c m a u x s)"
| "meeting_step (UpdateTopic c m a t u x) s = value_of (update_topic c m a t u x s)"
| "meeting_step (DeleteTopic c m a t u) s = value_of (delete_topic c m a t u s)"
| "meeting_step (ReorderTopics c m a u ts) s = value_of (reorder_topics c m a u ts s)"
| "meeting_step (AddComment feed notify i fid now c m a t u p x) s = value_of (add_comment feed notify i fid now c m a t u p x s)"
| "meeting_step (UpdateComment now c m a t k u x) s = value_of (update_comment now c m a t k u x s)"
| "meeting_step (DeleteComment c m a t k u) s = value_of (delete_comment c m a t k u s)"

primrec club_step :: "club_op \<Rightarrow> sess \<Rightarrow> sess result" where
  "club_step (Roster x) s = roster_step x s"
| "club_step (Chat x) s = chat_step x s"
| "club_step (Meeting x) s = meeting_step x s"

section \<open>Every step\<close>

definition club_effect :: "sess \<Rightarrow> sess \<Rightarrow> bool" where
  "club_effect s s' \<longleftrightarrow> roster_effect s s' \<and> meeting_effect s s'"

lemma frame_effect: "frame_same s s' \<Longrightarrow> club_effect s s'"
  by (simp add: frame_same_def club_effect_def roster_same_effect meeting_same_effect)

lemma meeting_op_effect: "meeting_effect s s' \<and> roster_same s s' \<Longrightarrow> club_effect s s'"
  by (simp add: club_effect_def roster_same_effect)

lemma roster_op_effect: "roster_effect s s' \<Longrightarrow> meeting_same s s' \<Longrightarrow> club_effect s s'"
  by (simp add: club_effect_def meeting_same_effect)

lemmas meeting_ops = create_session_effect set_session_presenter_effect transition_effect create_agenda_effect
  update_agenda_effect publish_agenda_effect add_topic_effect update_topic_effect delete_topic_effect
  reorder_topics_effect add_comment_effect update_comment_effect delete_comment_effect

lemmas roster_ops = post_club_effect [THEN roster_op_effect] join_by_code_effect [THEN roster_op_effect]
  join_public_effect [THEN roster_op_effect] leave_club_effect [THEN roster_op_effect]
  set_book_effect [THEN roster_op_effect] update_member_progress_effect [THEN roster_op_effect]

lemmas club_effects = event_frames [THEN frame_effect] chat_frames [THEN frame_effect] meeting_ops [THEN meeting_op_effect]

lemma roster_step_effect: "roster_step x s = Inr s' \<Longrightarrow> club_effect s s'"
  by (cases x; simp only: roster_step.simps value_of_Inr; elim exE; rule roster_ops, assumption, rule roster_ops_meetings, assumption)

lemma chat_step_effect: "chat_step x s = Inr s' \<Longrightarrow> club_effect s s'"
  by (cases x; simp only: chat_step.simps value_of_Inr; elim exE; rule club_effects, assumption)

lemma meeting_step_effect: "meeting_step x s = Inr s' \<Longrightarrow> club_effect s s'"
  by (cases x; simp only: meeting_step.simps value_of_Inr; elim exE; rule club_effects, assumption)

lemma club_step_effect: "club_step x s = Inr s' \<Longrightarrow> club_effect s s'"
  by (cases x) (simp_all add: roster_step_effect chat_step_effect meeting_step_effect)

interpretation clubs: monotone_machine club_step club_ok how_far
proof
  fix s x s' assume "club_ok s" "club_step x s = Inr s'"
  with club_step_effect [of x s s'] show "club_ok s'" "how_far s \<le> how_far s'"
    by (simp_all add: club_ok_def club_effect_def roster_effect_def meeting_effect_def)
qed

interpretation club_roster: refinement club_step club_ok roster roster_move
proof
  fix s x s' assume "club_ok s" "club_step x s = Inr s'"
  with club_step_effect [of x s s'] show "roster_move (roster s) (roster s')"
    by (simp add: club_ok_def club_effect_def roster_effect_def)
qed

end
