(* ===== verification/ClubProps.thy ===== *)
theory ClubProps
  imports ClubMachine
begin

text \<open>
  The properties of the club component: its invariants along every sequence of requests, the
  roster it implements, the stages of meetings and agendas, who may write, the threads of a
  discussion, the order of topics, reading plans, and the publication of an agenda.
\<close>

section \<open>A concrete club\<close>

definition demo_club :: reading_club where
  "demo_club = \<lparr>rc_id = 30, rc_name = ascii ''Circle'', rc_description = None, rc_owner_id = 1, rc_book_id = Some 10,
     rc_invite_code = ''CIRCLE22'', rc_max_members = 3, rc_is_public = True, rc_category = None, rc_created_at = t0\<rparr>"

definition demo_member :: "uuid \<Rightarrow> club_role \<Rightarrow> club_member" where
  "demo_member u r = \<lparr>cm_club_id = 30, cm_user_id = u, cm_role = r, cm_joined_at = t0, cm_current_page = 0,
     cm_last_page_updated_at = None\<rparr>"

definition demo_meeting :: club_session where
  "demo_meeting = \<lparr>cs_id = 50, cs_club_id = 30, cs_book_id = 10, cs_title = ascii ''First'', cs_scope = None,
     cs_presenter_id = Some 2, cs_scheduled_at = None, cs_status = OPEN, cs_created_by = 1, cs_created_at = t0\<rparr>"

definition demo_agenda :: session_agenda where
  "demo_agenda = \<lparr>ag_id = 60, ag_session_id = 50, ag_author_id = 1, ag_body = ascii ''Notes'', ag_status = AGENDA_DRAFT,
     ag_published_at = None, ag_created_at = t0\<rparr>"

definition demo_topic :: "uuid \<Rightarrow> int \<Rightarrow> agenda_topic" where
  "demo_topic i k = \<lparr>tp_id = i, tp_agenda_id = 60, tp_position = k, tp_prompt = ascii ''Why?'', tp_created_at = t0\<rparr>"

definition demo_comment :: "uuid \<Rightarrow> uuid \<Rightarrow> uuid option \<Rightarrow> topic_comment" where
  "demo_comment i u p = \<lparr>tc_id = i, tc_topic_id = 70, tc_author_id = u, tc_parent_comment_id = p, tc_body = ascii ''Because'',
     tc_created_at = t0, tc_edited_at = None\<rparr>"

definition circle :: sess where
  "circle = demo\<lparr>t_clubs := [demo_club], t_club_members := [demo_member 1 OWNER, demo_member 2 MEMBER],
     t_club_sessions := [demo_meeting], t_session_agendas := [demo_agenda],
     t_agenda_topics := [demo_topic 70 0, demo_topic 71 1],
     t_topic_comments := [demo_comment 80 2 None, demo_comment 81 1 (Some 80), demo_comment 82 1 None]\<rparr>"

lemma circle_tables [simp]:
  "t_clubs circle = [demo_club]" "t_club_members circle = [demo_member 1 OWNER, demo_member 2 MEMBER]"
  "t_club_sessions circle = [demo_meeting]" "t_session_agendas circle = [demo_agenda]"
  "t_agenda_topics circle = [demo_topic 70 0, demo_topic 71 1]"
  "t_topic_comments circle = [demo_comment 80 2 None, demo_comment 81 1 (Some 80), demo_comment 82 1 None]"
  "t_users circle = [demo_user 1, demo_user 2, demo_user 3]" "t_books circle = [demo_book]"
  "t_user_books circle = [demo_user_book]" "t_feed_events circle = []" "t_club_messages circle = []" "t_club_rooms circle = []"
  by (simp_all add: circle_def demo_def empty_sess_def)

lemma circle_rows [simp]:
  "rc_id demo_club = 30" "rc_owner_id demo_club = 1" "rc_max_members demo_club = 3" "rc_is_public demo_club"
  "rc_invite_code demo_club = ''CIRCLE22''" "rc_book_id demo_club = Some 10"
  "cm_key (demo_member u r) = (30, u)" "cm_club_id (demo_member u r) = 30" "cm_user_id (demo_member u r) = u"
  "cm_role (demo_member u r) = r"
  "cs_id demo_meeting = 50" "cs_club_id demo_meeting = 30" "cs_presenter_id demo_meeting = Some 2" "cs_status demo_meeting = OPEN"
  "cs_book_id demo_meeting = 10"
  "ag_id demo_agenda = 60" "ag_session_id demo_agenda = 50" "ag_author_id demo_agenda = 1" "ag_status demo_agenda = AGENDA_DRAFT"
  "ag_published_at demo_agenda = None"
  "tp_id (demo_topic i k) = i" "tp_agenda_id (demo_topic i k) = 60" "tp_position (demo_topic i k) = k"
  "tc_id (demo_comment i u p) = i" "tc_topic_id (demo_comment i u p) = 70" "tc_author_id (demo_comment i u p) = u"
  "tc_parent_comment_id (demo_comment i u p) = p" "tc_created_at (demo_comment i u p) = t0"
  by (simp_all add: demo_club_def demo_member_def cm_key_def demo_meeting_def demo_agenda_def demo_topic_def demo_comment_def)

lemma circle_finds [simp]:
  "club_by_id c circle = (if c = 30 then Some demo_club else None)"
  "club_session_by_id m circle = (if m = 50 then Some demo_meeting else None)"
  "agenda_by_id a circle = (if a = 60 then Some demo_agenda else None)"
  "topic_by_id t circle = (if t = 70 then Some (demo_topic 70 0) else if t = 71 then Some (demo_topic 71 1) else None)"
  "comment_by_id k circle = (if k = 80 then Some (demo_comment 80 2 None) else if k = 81 then Some (demo_comment 81 1 (Some 80))
     else if k = 82 then Some (demo_comment 82 1 None) else None)"
  by (auto simp: club_by_id_def club_session_by_id_def agenda_by_id_def topic_by_id_def comment_by_id_def)

lemma circle_ok: "club_ok circle"
  by (auto simp: club_ok_def roster_ok_def meetings_ok_def agendas_ok_def topics_ok_def comments_ok_def depth_one_def member_count_def)

section \<open>Invariants along every sequence of requests\<close>

text \<open>
  C5. Whatever requests the club endpoints serve, and in whatever order, the tables of a club
  stay well formed: the owner is the one member with the role \<open>OWNER\<close>, nobody is a member
  twice, no club exceeds its capacity, an agenda has a publication time exactly when it is
  published, topics of an agenda have different positions, replies are one level deep and
  stay within their topic.
\<close>

theorem club_invariant: "club_ok s \<Longrightarrow> club_ok (run club_step s requests)"
  by (rule clubs.run_inv)

lemma club_invariant_witness:
  "club_ok (run club_step circle [Roster (JoinPublic True 900 t0 30 3), Meeting (PublishAgenda True True 901 t0 30 50 60 2),
     Meeting (AddComment True True 83 902 t0 30 50 60 70 3 (Some 82) []), Roster (LeaveClub 2 30)])"
  by (rule club_invariant [OF circle_ok])

text \<open>
  C3. The membership tables implement an abstract roster, a map from clubs to owner, capacity
  and member set: every sequence of requests is a sequence of foundings, entries below capacity
  and departures of members other than the owner, and the roster it ends in is legal.
\<close>

theorem club_refines_roster:
  "club_ok s \<Longrightarrow> roster_move\<^sup>*\<^sup>* (roster s) (roster (run club_step s requests)) \<and> roster_legal (roster (run club_step s requests))"
  using club_roster.run_moves club_roster.run_keeps [of roster_legal s requests] roster_legal_ok roster_legal_move
  by (auto simp: club_ok_def)

lemma club_refines_roster_witness:
  "roster_move\<^sup>*\<^sup>* (roster circle) (roster (run club_step circle [Roster (JoinPublic True 900 t0 30 3), Roster (LeaveClub 1 30)]))
   \<and> roster_legal (roster (run club_step circle [Roster (JoinPublic True 900 t0 30 3), Roster (LeaveClub 1 30)]))"
  by (rule club_refines_roster [OF circle_ok])

text \<open>
  C23. Meetings only move forward: no sequence of requests takes a session from open or closed
  to an earlier status, or a published agenda back to a draft.
\<close>

theorem meetings_move_forward:
  assumes "club_ok s"
  shows "(case club_session_by_id m s of None \<Rightarrow> True
      | Some r \<Rightarrow> \<exists>r'. club_session_by_id m (run club_step s requests) = Some r' \<and>
          (cs_status r = OPEN \<longrightarrow> cs_status r' \<noteq> DRAFT) \<and> (cs_status r = CLOSED \<longrightarrow> cs_status r' = CLOSED)) \<and>
    (case agenda_by_id a s of None \<Rightarrow> True
      | Some g \<Rightarrow> \<exists>g'. agenda_by_id a (run club_step s requests) = Some g' \<and>
          (ag_status g = PUBLISHED \<longrightarrow> ag_status g' = PUBLISHED))"
proof -
  have "how_far s k \<le> how_far (run club_step s requests) k" for k
    using clubs.run_rank [OF assms, of requests] by (simp add: le_fun_def)
  from this [of "Inl m"] this [of "Inr a"] show ?thesis
    by (auto simp: how_far_def split: option.splits session_status.splits if_splits)
qed

lemma meetings_move_forward_witness:
  "\<exists>r'. club_session_by_id 50 (run club_step circle [Meeting (Transition True 900 t0 30 50 1 ''draft'')]) = Some r' \<and> cs_status r' \<noteq> DRAFT"
  using meetings_move_forward [OF circle_ok, where m = 50 and requests = "[Meeting (Transition True 900 t0 30 50 1 ''draft'')]" and a = 60]
  by simp

section \<open>Guards\<close>

text \<open>
  The status of a session changes exactly when the owner of its club asks for the next
  status in the order draft, open, closed; every other request is refused.
\<close>

theorem transition_exactly_next:
  assumes "roster_ok s" "club_session_by_id m s = Some r"
  shows "(\<exists>x. transition_session_status False fid fnow c m u target s = Inr x) \<longleftrightarrow>
    (\<exists>club. club_by_id c s = Some club \<and> rc_owner_id club = u) \<and> cs_club_id r = c \<and>
    (cs_status r = DRAFT \<and> target = ''open'' \<or> cs_status r = OPEN \<and> target = ''closed'')"
proof -
  have d: "distinct (map cm_key (t_club_members s))" using assms(1) by (simp add: roster_ok_def)
  have host: "(\<exists>x. assert_host c u s = Inr x) \<longleftrightarrow> (\<exists>club. club_by_id c s = Some club \<and> rc_owner_id club = u)"
    using role_owner [OF assms(1), of c _ u] by (auto simp: assert_host_def get_member_role_eq [OF d] split: if_splits)
  have "(\<exists>x. transition_session_status False fid fnow c m u target s = Inr x) \<longleftrightarrow>
    (\<exists>x. assert_host c u s = Inr x) \<and> cs_club_id r = c \<and> (\<exists>x. validate_status_transition (status_name (cs_status r)) target = Inr x)"
    using assms(2) by (auto simp: transition_session_status_def get_session_in_club_def update_session_status_def Let_def
        record_session_opened_def record_event_def split: if_splits)
  then show ?thesis by (simp add: host validate_iff)
qed

lemma transition_exactly_next_witness:
  "(\<exists>x. transition_session_status False 900 t0 30 50 1 ''closed'' circle = Inr x) \<and>
   (\<nexists>x. transition_session_status False 900 t0 30 50 1 ''open'' circle = Inr x)"
  using circle_ok transition_exactly_next [of circle 50 demo_meeting 900 t0 30 1 "''closed''"]
    transition_exactly_next [of circle 50 demo_meeting 900 t0 30 1 "''open''"]
  by (simp add: club_ok_def)



section \<open>Discussions\<close>

text \<open>
  C26. The threads of a topic are its comments without a parent, oldest first, each with its
  replies, oldest first; and every comment of the topic is shown in exactly one place.
\<close>

theorem threads_show_each_comment_once:
  assumes "meetings_ok s" "list_comments c m a t u s = Inr threads"
  shows "map th_root threads = filter (\<lambda>k. tc_parent_comment_id k = None) (list_comments_by_topic t s) \<and>
    (\<forall>th \<in> set threads. th_replies th = filter (\<lambda>k. tc_parent_comment_id k = Some (tc_id (th_root th))) (list_comments_by_topic t s)) \<and>
    mset (shown threads) = mset (filter (\<lambda>k. tc_topic_id k = t) (t_topic_comments s))"
proof -
  let ?cs = "list_comments_by_topic t s"
  from assms(2) have th: "threads = thread_spec ?cs"
    by (auto simp: list_comments_def build_comment_threads_eq dest: get_topic_in_agenda_Inr)
  have "distinct (map tc_id ?cs)" using meetings_ok_keys(4) [OF assms(1)]
    by (simp add: list_comments_by_topic_def distinct_map_order_asc distinct_map_filter)
  moreover have "\<exists>r \<in> set ?cs. tc_id r = p \<and> tc_parent_comment_id r = None"
    if k: "k \<in> set ?cs" and p: "tc_parent_comment_id k = Some p" for k p
  proof -
    from k have "k \<in> set (t_topic_comments s)" "tc_topic_id k = t" by (simp_all add: list_comments_by_topic_def)
    with p assms(1) obtain r where "r \<in> set (t_topic_comments s)" "tc_id r = p" "tc_topic_id r = t" "tc_parent_comment_id r = None"
      by (force simp: meetings_ok_def comments_ok_def dest: depth_oneD)
    then show ?thesis by (auto simp: list_comments_by_topic_def)
  qed
  ultimately have "mset (shown threads) = mset ?cs" unfolding th by (rule mset_shown)
  then show ?thesis by (simp add: th thread_spec_def replies_to_def list_comments_by_topic_def order_asc_def o_def)
qed

lemma threads_show_each_comment_once_witness:
  "map th_root [\<lparr>th_root = demo_comment 80 2 None, th_replies = [demo_comment 81 1 (Some 80)]\<rparr>,
     \<lparr>th_root = demo_comment 82 1 None, th_replies = []\<rparr>] = [demo_comment 80 2 None, demo_comment 82 1 None]"
proof -
  have "list_comments 30 50 60 70 3 circle =
      Inr [\<lparr>th_root = demo_comment 80 2 None, th_replies = [demo_comment 81 1 (Some 80)]\<rparr>,
        \<lparr>th_root = demo_comment 82 1 None, th_replies = []\<rparr>]"
    by (simp add: list_comments_def assert_can_view_club_def get_session_in_club_def get_agenda_in_session_def get_topic_in_agenda_def
        build_comment_threads_eq thread_spec_def replies_to_def list_comments_by_topic_def order_asc_def)
  from threads_show_each_comment_once [OF _ this] circle_ok show ?thesis
    by (simp add: club_ok_def list_comments_by_topic_def order_asc_def)
qed

text \<open>
  Deleting a comment removes it and every comment below it, and nothing else: the cascade
  stops, within as many rounds as there are comments, at the whole thread.
\<close>

theorem delete_comment_removes_thread:
  assumes "delete_comment c m a t k u s = Inr (x, s')"
  shows "t_topic_comments s' = filter (\<lambda>q. \<not> in_thread tc_id tc_parent_comment_id (t_topic_comments s) k (tc_id q)) (t_topic_comments s) \<and>
    (\<forall>q \<in> set (t_topic_comments s'). \<forall>p. tc_parent_comment_id q = Some p \<longrightarrow> p \<noteq> k)"
proof -
  have s': "s' = repo_delete_comment k s" using assms by (auto simp: delete_comment_def dest!: located_comment_Inr)
  have "in_thread tc_id tc_parent_comment_id (t_topic_comments s) k (tc_id q)" if "q \<in> set (t_topic_comments s)" "tc_parent_comment_id q = Some k" for q
    unfolding in_thread_def using that by (intro r_into_rtranclp) (auto simp: reply_of_def)
  then show ?thesis by (auto simp: s' repo_delete_comment_rows)
qed

lemma delete_comment_removes_thread_witness:
  "t_topic_comments (repo_delete_comment 80 circle) = [demo_comment 82 1 None]"
proof -
  have "delete_comment 30 50 60 70 80 1 circle = Inr ((), repo_delete_comment 80 circle)"
    by (simp add: delete_comment_def located_comment_def get_session_in_club_def get_agenda_in_session_def get_topic_in_agenda_def
        get_comment_in_topic_def assert_comment_author_or_host_def)
  from delete_comment_removes_thread [OF this]
  have rows: "t_topic_comments (repo_delete_comment 80 circle) =
      filter (\<lambda>q. \<not> in_thread tc_id tc_parent_comment_id (t_topic_comments circle) 80 (tc_id q)) (t_topic_comments circle)" by simp
  have "in_thread tc_id tc_parent_comment_id (t_topic_comments circle) 80 i \<longleftrightarrow> i = 80 \<or> i = 81" for i
    unfolding cascade_exact [symmetric] by (simp add: eval_nat_numeral)
  then show ?thesis by (simp add: rows)
qed

text \<open>Reordering the topics of an agenda by a list of all of them lists them in that order.\<close>

theorem reorder_topics_order:
  assumes "meetings_ok s" "distinct ids" "reorder_topics c m a u ids s = Inr (topics, s')"
  shows "map tp_id topics = ids \<and> topics = list_topics_by_agenda a s'"
proof -
  from assms(3) have exact: "set ids = set (map tp_id (list_topics_by_agenda a s))"
    and r: "repo_reorder_topics a ids s = (topics, s')"
    by (auto simp: reorder_topics_def dest!: authored_agenda_Inr split: if_splits)
  from reorder_rows [OF meetings_ok_keys(3) [OF assms(1)] assms(2) exact] r
  have "map tp_id topics = ids" by simp
  moreover from r have "topics = list_topics_by_agenda a s'" by (auto simp: repo_reorder_topics_def Let_def)
  ultimately show ?thesis ..
qed

lemma reorder_topics_order_witness:
  "\<exists>topics s'. reorder_topics 30 50 60 1 [71, 70] circle = Inr (topics, s') \<and> map tp_id topics = [71, 70]"
proof -
  obtain topics s' where r: "reorder_topics 30 50 60 1 [71, 70] circle = Inr (topics, s')"
    by (simp add: reorder_topics_def authored_agenda_def get_session_in_club_def get_agenda_in_session_def assert_agenda_author_def
        list_topics_by_agenda_def order_asc_def insert_commute repo_reorder_topics_def Let_def)
  from reorder_topics_order [OF _ _ this] circle_ok r show ?thesis by (auto simp: club_ok_def)
qed

section \<open>Reading plans\<close>

lemma ceil_share:
  assumes "0 \<le> n" "n < 2 ^ 53" "0 < w"
  shows "n \<le> \<lceil>true_div n w\<rceil> * w \<and> (\<lceil>true_div n w\<rceil> - 1) * w < n \<or> n = 0 \<and> \<lceil>true_div n w\<rceil> = 0"
proof -
  have "n \<le> ((n + w - 1) div w) * w" "((n + w - 1) div w - 1) * w < n \<or> n = 0 \<and> (n + w - 1) div w = 0"
    using div_pos_bounds [OF assms(3), of "n + w - 1"] assms(1,3) by (auto simp: algebra_simps)
  then show ?thesis by (auto simp: ceil_true_div [OF assms])
qed

text \<open>
  A reading plan covers the book and no more than it must: the weekly pages times the weeks
  of the plan reach the page total (200 when the catalogue has none), one page less per week
  would not.
\<close>

theorem plan_covers_book:
  assumes "create_reading_plan i now c u b d1 d2 s = Inr (plan, s')"
    and "total_pages = (case get_book_page_count b s of None \<Rightarrow> 200 | Some n \<Rightarrow> if n = 0 then 200 else n)"
    and "0 < total_pages" "total_pages < 2 ^ 53"
  shows "total_pages \<le> rp_weekly_pages plan * plan_weeks d1 d2 \<and> (rp_weekly_pages plan - 1) * plan_weeks d1 d2 < total_pages"
proof -
  have "rp_weekly_pages plan = \<lceil>true_div total_pages (plan_weeks d1 d2)\<rceil>"
    using assms(1) unfolding assms(2) create_reading_plan_def DEFAULT_PAGE_COUNT_def repo_create_reading_plan_def
    by (auto simp: Let_def split: if_splits)
  moreover have "0 < plan_weeks d1 d2" by (simp add: plan_weeks_def)
  ultimately show ?thesis using ceil_share [of total_pages "plan_weeks d1 d2"] assms(3,4) by simp
qed

lemma progress_pct_bounds: "0 \<le> progress_pct p w n \<and> progress_pct p w n \<le> 100"
  by (simp add: progress_pct_def Let_def)

definition pro_circle :: sess where
  "pro_circle = circle\<lparr>t_users := [demo_user 1\<lparr>us_is_pro := True\<rparr>, demo_user 2, demo_user 3]\<rparr>"

lemma plan_covers_book_witness:
  "\<exists>plan s'. create_reading_plan 90 t0 30 1 10 1 20 pro_circle = Inr (plan, s') \<and> 300 \<le> rp_weekly_pages plan * 3"
proof -
  have weeks: "plan_weeks 1 20 = 3" by (simp add: plan_weeks_def ceil_true_div)
  have pages: "get_book_page_count 10 pro_circle = Some 300"
    by (simp add: get_book_page_count_def pro_circle_def demo_book_def)
  have club: "club_by_id 30 pro_circle = Some demo_club" by (simp add: club_by_id_def pro_circle_def)
  have rows: "get_user_is_pro 1 pro_circle = Inr True" "user_exists 1 pro_circle" "book_exists 10 pro_circle" "t_reading_plans pro_circle = []"
    by (simp_all add: get_user_is_pro_def user_exists_def book_exists_def pro_circle_def) (simp add: circle_def demo_def empty_sess_def)
  have "int4 \<lceil>true_div 300 3\<rceil>" by (simp add: ceil_true_div int4_def del: le_ceiling_iff ceiling_le_iff less_ceiling_iff ceiling_less_iff)
  then have "\<exists>plan s'. create_reading_plan 90 t0 30 1 10 1 20 pro_circle = Inr (plan, s')"
    using rows by (simp add: create_reading_plan_def club pages weeks repo_create_reading_plan_def Let_def insert_row_def)
  then obtain plan s' where "create_reading_plan 90 t0 30 1 10 1 20 pro_circle = Inr (plan, s')" by blast
  from plan_covers_book [OF this] pages weeks this show ?thesis by auto
qed

section \<open>Publishing an agenda\<close>

text \<open>
  An agenda is published once: the request finds it unpublished, stamps it with the time of
  the request, announces it to every member but the publisher exactly once (to nobody when there
  is no other member or no notification service), and a second request for it is refused.
\<close>

theorem publish_once:
  assumes "roster_ok s" "publish_agenda feed notify fid now c m a u s = Inr ((agenda, topics, pushed), s')"
  shows "\<exists>before. agenda_by_id a s = Some before \<and> ag_status before \<noteq> PUBLISHED \<and>
    agenda = before\<lparr>ag_status := PUBLISHED, ag_published_at := Some now\<rparr> \<and> agenda_by_id a s' = Some agenda \<and>
    (\<exists>to. distinct to \<and> set to = members c s - {u} \<and> pushed = (if notify \<and> to \<noteq> [] then Some to else None)) \<and>
    publish_agenda feed notify fid' now' c m a u s' = Inl (DomainError ConflictError ''ALREADY_PUBLISHED'')"
proof -
  let ?f = "\<lambda>r. r\<lparr>ag_status := PUBLISHED, ag_published_at := Some now\<rparr>"
  let ?s1 = "s\<lparr>t_session_agendas := amend ag_id a ?f (t_session_agendas s)\<rparr>"
  from assms(2) obtain row "before" where row: "assert_host_or_presenter c m u s = Inr row"
    and old: "get_agenda_in_session m a s = Inr before" "ag_status before \<noteq> PUBLISHED"
    and rest: "bindE (required agenda_missing (map_option ?f (agenda_by_id (ag_id before) s))) (\<lambda>g.
        bindE (record_agenda_published feed fid now u c m a (s\<lparr>t_session_agendas := amend ag_id (ag_id before) ?f (t_session_agendas s)\<rparr>)) (\<lambda>(_, s2).
        let recipients = filter (\<lambda>v. v \<noteq> u) (get_member_ids c s2)
        in Inr ((g, list_topics_by_agenda (ag_id g) s2, if notify \<and> recipients \<noteq> [] then Some recipients else None), s2)))
      = Inr ((agenda, topics, pushed), s')"
    by (auto simp: publish_agenda_def repo_publish_agenda_def Let_def split: if_splits)
  have b: "agenda_by_id a s = Some before" "ag_id before = a" "ag_session_id before = m"
    using old(1) by (auto simp: get_agenda_in_session_def agenda_by_id_def dest: fetch_Some_key split: option.splits if_splits)
  from rest have g: "agenda = ?f before" and rec: "record_agenda_published feed fid now u c m a ?s1 = Inr ((), s')"
    and push: "pushed = (if notify \<and> filter (\<lambda>v. v \<noteq> u) (get_member_ids c s') \<noteq> [] then Some (filter (\<lambda>v. v \<noteq> u) (get_member_ids c s')) else None)"
    by (auto simp: b Let_def)
  have ext: "stream_extends ?s1 s'" using record_extends(6) [OF rec] .
  have same: "agenda_by_id k s' = agenda_by_id k ?s1" "club_by_id k s' = club_by_id k s" "club_session_by_id k s' = club_session_by_id k s"
      "get_member_ids k s' = get_member_ids k s" for k
    using ext by (auto simp: stream_extends_def agenda_by_id_def club_by_id_def club_session_by_id_def get_member_ids_def)
  have now_pub: "agenda_by_id a s' = Some agenda"
    using b by (simp add: same) (simp add: agenda_by_id_def fetch_amend g)
  have "distinct (map cm_key (t_club_members s))" using assms(1) by (simp add: roster_ok_def)
  then have "distinct (filter (\<lambda>v. v \<noteq> u) (get_member_ids c s))" by (simp add: distinct_member_ids)
  moreover have "set (filter (\<lambda>v. v \<noteq> u) (get_member_ids c s)) = members c s - {u}" by (auto simp: members_get_member_ids)
  moreover have "publish_agenda feed notify fid' now' c m a u s' = Inl (DomainError ConflictError ''ALREADY_PUBLISHED'')"
  proof -
    have "assert_host_or_presenter c m u s' = Inr row" using row by (simp add: assert_host_or_presenter_def get_session_in_club_def same)
    then show ?thesis using now_pub b g by (simp add: publish_agenda_def get_agenda_in_session_def)
  qed
  ultimately show ?thesis using b old(2) g now_pub push unfolding same by blast
qed

lemma publish_once_witness:
  "publish_agenda False True 901 (t0 + 1) 30 50 60 2 (snd (repo_publish_agenda 60 t0 circle)) = Inl (DomainError ConflictError ''ALREADY_PUBLISHED'')"
proof -
  have "publish_agenda False True 900 t0 30 50 60 2 circle =
      Inr ((demo_agenda\<lparr>ag_status := PUBLISHED, ag_published_at := Some t0\<rparr>,
        list_topics_by_agenda 60 (snd (repo_publish_agenda 60 t0 circle)), Some [1]), snd (repo_publish_agenda 60 t0 circle))"
    by (simp add: publish_agenda_def assert_host_or_presenter_def get_session_in_club_def get_agenda_in_session_def repo_publish_agenda_def
        Let_def record_agenda_published_def record_event_def get_member_ids_def)
  from publish_once [OF _ this] circle_ok show ?thesis by (auto simp: club_ok_def)
qed

section \<open>Rooms\<close>

text \<open>
  The gate of a room keeps a member below its chapter off the room's stream, but what is said
  there is persisted without a room: it is part of the club-wide history that every member reads.
\<close>

lemma room_gate:
  assumes "roster_ok s" "room_by_id r s = Some room" "get_user_chapter_for_club u c s = Inr chapter"
  shows "room_connect c r u s = Inr None \<longleftrightarrow> u \<in> members c s \<and> cr_club_id room = c \<and> (0 < cr_progress_gate room \<longrightarrow> cr_progress_gate room \<le> chapter)"
  using assms by (auto simp: room_connect_def is_member_eq roster_ok_def not_less)

lemma room_message_reaches_club:
  assumes "room_message i now c r u x media s = Inr ((r', v), s')"
  shows "\<exists>m \<in> set (t_club_messages s'). ms_id m = mp_id v \<and> ms_club_id m = c \<and> ms_content m = x \<and> ms_room_id m = None"
  using assms by (auto simp: room_message_def send_message_def create_message_def message_view_def Let_def insert_row_Inr_iff)

text \<open>Reordering accepts a repeated topic, and the last mention decides.\<close>

lemma reorder_repeated: "map tp_id (fst (repo_reorder_topics 60 [70, 71, 70] circle)) = [71, 70]"
  by (simp add: repo_reorder_topics_def list_topics_by_agenda_def order_asc_def Let_def)

text \<open>A presenter who has left the club may still write an agenda for it.\<close>

lemma departed_presenter_writes:
  "\<exists>x. create_agenda 61 t0 30 50 2 [104] (repo_club_leave 30 2 circle) = Inr x"
  by (simp add: create_agenda_def assert_host_or_presenter_def repo_club_leave_def get_session_in_club_def club_by_id_def
      club_session_by_id_def repo_create_agenda_def insert_row_def user_exists_def Let_def)

end
