(* ===== verification/FeedRepo.thy ===== *)
theory FeedRepo
  imports FeedEvents Cascade
begin

text \<open>
  \<open>backend/app/domains/feed/repository.py\<close>: posts with reactions and comments, highlights, and
  the reactions and comments of the activity stream. A cursor is the instant it decodes to
  (\<open>None\<close> for none or a malformed one). \<open>updated_at\<close> columns are not read and not modelled.
\<close>

definition before :: "datetime option \<Rightarrow> datetime \<Rightarrow> bool" where
  "before cursor t = (case cursor of None \<Rightarrow> True | Some c \<Rightarrow> t < c)"

definition after :: "datetime option \<Rightarrow> datetime \<Rightarrow> bool" where
  "after cursor t = (case cursor of None \<Rightarrow> True | Some c \<Rightarrow> c < t)"

text \<open>\<open>ORDER BY created_at DESC, id DESC\<close>, and both ascending.\<close>

definition newest_first :: "('r \<Rightarrow> datetime) \<Rightarrow> ('r \<Rightarrow> uuid) \<Rightarrow> 'r list \<Rightarrow> 'r list" where
  "newest_first created key rows = order_desc created (order_desc (\<lambda>r. int (key r)) rows)"

definition oldest_first :: "('r \<Rightarrow> datetime) \<Rightarrow> ('r \<Rightarrow> uuid) \<Rightarrow> 'r list \<Rightarrow> 'r list" where
  "oldest_first created key rows = order_asc created (order_asc (\<lambda>r. int (key r)) rows)"

section \<open>Posts\<close>

definition repo_create_post ::
    "uuid \<Rightarrow> datetime \<Rightarrow> uuid \<Rightarrow> uuid \<Rightarrow> post_type \<Rightarrow> pystr \<Rightarrow> pystr list \<Rightarrow> sess \<Rightarrow> post outcome" where
  "repo_create_post new_id now user_id book_id ptype content image_keys s =
     (let row = \<lparr>po_id = new_id, po_book_id = book_id, po_user_id = user_id, po_post_type = ptype, po_content = content,
                 po_image_keys = image_keys, po_created_at = now, po_deleted_at = None\<rparr>
      in bindE (insert_row po_id (book_exists book_id s \<and> user_exists user_id s) row (t_posts s))
           (\<lambda>rows. Inr (row, s\<lparr>t_posts := rows\<rparr>)))"

definition post_by_id :: "uuid \<Rightarrow> sess \<Rightarrow> post option" where
  "post_by_id post_id s =
     (case fetch po_id post_id (t_posts s) of
        None \<Rightarrow> None
      | Some row \<Rightarrow> if po_deleted_at row \<noteq> None then None else Some row)"

definition list_by_book :: "uuid \<Rightarrow> datetime option \<Rightarrow> nat \<Rightarrow> sess \<Rightarrow> post list" where
  "list_by_book book_id cursor limit s =
     take limit (newest_first po_created_at po_id (filter (\<lambda>p. po_book_id p = book_id \<and> po_deleted_at p = None \<and>
       before cursor (po_created_at p)) (t_posts s)))"

definition post_soft_delete :: "uuid \<Rightarrow> datetime \<Rightarrow> sess \<Rightarrow> sess" where
  "post_soft_delete post_id t s = s\<lparr>t_posts := amend po_id post_id (\<lambda>p. p\<lparr>po_deleted_at := Some t\<rparr>) (t_posts s)\<rparr>"

definition comment_counts_for :: "uuid list \<Rightarrow> sess \<Rightarrow> uuid \<rightharpoonup> nat" where
  "comment_counts_for post_ids s = (\<lambda>p. if p \<in> set post_ids
     then Some (length (filter (\<lambda>c. pc_post_id c = p \<and> pc_deleted_at c = None) (t_post_comments s))) else None)"

section \<open>Reactions\<close>

text \<open>
  \<open>INSERT ... ON CONFLICT DO NOTHING\<close> on the unique triple, then the row is read back; the
  foreign keys are checked only when a row is inserted.
\<close>

definition reaction_add :: "uuid \<Rightarrow> datetime \<Rightarrow> uuid \<Rightarrow> uuid \<Rightarrow> reaction_type \<Rightarrow> sess \<Rightarrow> reaction outcome" where
  "reaction_add new_id now post_id user_id rtype s =
     (let row = \<lparr>rx_id = new_id, rx_post_id = post_id, rx_user_id = user_id, rx_reaction_type = rtype, rx_created_at = now\<rparr>;
          inserted = (if fetch rx_key (rx_key row) (t_reactions s) \<noteq> None then Inr (t_reactions s)
                      else insert_row rx_id (fetch po_id post_id (t_posts s) \<noteq> None \<and> user_exists user_id s) row (t_reactions s))
      in bindE inserted (\<lambda>rows.
         bindE (scalar_one_or_none (filter (\<lambda>r. rx_post_id r = post_id \<and> rx_user_id r = user_id \<and> rx_reaction_type r = rtype) rows))
           (\<lambda>existing. bindE (required RuntimeError existing) (\<lambda>r. Inr (r, s\<lparr>t_reactions := rows\<rparr>)))))"

definition reaction_remove :: "uuid \<Rightarrow> uuid \<Rightarrow> reaction_type \<Rightarrow> sess \<Rightarrow> nat outcome" where
  "reaction_remove post_id user_id rtype s =
     bindE (scalar_one_or_none (filter (\<lambda>r. rx_post_id r = post_id \<and> rx_user_id r = user_id \<and> rx_reaction_type r = rtype) (t_reactions s)))
       (\<lambda>existing. case existing of
          None \<Rightarrow> Inr (0, s)
        | Some e \<Rightarrow> Inr (1, s\<lparr>t_reactions := discard (\<lambda>r. rx_id r = rx_id e) (t_reactions s)\<rparr>))"

text \<open>\<open>SELECT reaction_type, count(id) ... GROUP BY reaction_type\<close>: no entry for an absent type.\<close>

definition aggregate_for_post :: "uuid \<Rightarrow> sess \<Rightarrow> reaction_type \<rightharpoonup> nat" where
  "aggregate_for_post post_id s = (\<lambda>t.
     let n = length (filter (\<lambda>r. rx_post_id r = post_id \<and> rx_reaction_type r = t) (t_reactions s)) in if n = 0 then None else Some n)"

definition reactions_by_user :: "uuid \<Rightarrow> uuid \<Rightarrow> sess \<Rightarrow> reaction_type set" where
  "reactions_by_user post_id user_id s =
     set (map rx_reaction_type (filter (\<lambda>r. rx_post_id r = post_id \<and> rx_user_id r = user_id) (t_reactions s)))"

definition aggregates_for_posts :: "uuid list \<Rightarrow> sess \<Rightarrow> uuid \<rightharpoonup> (reaction_type \<rightharpoonup> nat)" where
  "aggregates_for_posts post_ids s = (\<lambda>p. if p \<in> set post_ids then Some (aggregate_for_post p s) else None)"

definition my_reactions_for_posts :: "uuid list \<Rightarrow> uuid \<Rightarrow> sess \<Rightarrow> uuid \<rightharpoonup> reaction_type set" where
  "my_reactions_for_posts post_ids user_id s = (\<lambda>p. if p \<in> set post_ids then Some (reactions_by_user p user_id s) else None)"

section \<open>Comments on posts\<close>

definition post_comment_create ::
    "uuid \<Rightarrow> datetime \<Rightarrow> uuid \<Rightarrow> uuid \<Rightarrow> uuid option \<Rightarrow> pystr \<Rightarrow> sess \<Rightarrow> post_comment outcome" where
  "post_comment_create new_id now user_id post_id parent_id content s =
     (let row = \<lparr>pc_id = new_id, pc_post_id = post_id, pc_user_id = user_id, pc_parent_id = parent_id, pc_content = content,
                 pc_created_at = now, pc_deleted_at = None\<rparr>;
          ok = fetch po_id post_id (t_posts s) \<noteq> None \<and> user_exists user_id s \<and>
               (case parent_id of None \<Rightarrow> True | Some p \<Rightarrow> fetch pc_id p (t_post_comments s) \<noteq> None)
      in bindE (insert_row pc_id ok row (t_post_comments s)) (\<lambda>rows. Inr (row, s\<lparr>t_post_comments := rows\<rparr>)))"

definition post_comment_by_id :: "uuid \<Rightarrow> sess \<Rightarrow> post_comment option" where
  "post_comment_by_id comment_id s =
     (case fetch pc_id comment_id (t_post_comments s) of
        None \<Rightarrow> None
      | Some row \<Rightarrow> if pc_deleted_at row \<noteq> None then None else Some row)"

definition list_by_post :: "uuid \<Rightarrow> datetime option \<Rightarrow> nat \<Rightarrow> sess \<Rightarrow> post_comment list" where
  "list_by_post post_id cursor limit s =
     take limit (oldest_first pc_created_at pc_id (filter (\<lambda>c. pc_post_id c = post_id \<and> pc_deleted_at c = None \<and>
       after cursor (pc_created_at c)) (t_post_comments s)))"

definition post_comment_soft_delete :: "uuid \<Rightarrow> datetime \<Rightarrow> sess \<Rightarrow> sess" where
  "post_comment_soft_delete comment_id t s =
     s\<lparr>t_post_comments := amend pc_id comment_id (\<lambda>c. c\<lparr>pc_deleted_at := Some t\<rparr>) (t_post_comments s)\<rparr>"

section \<open>Highlights\<close>

definition repo_create_highlight ::
    "uuid \<Rightarrow> datetime \<Rightarrow> uuid \<Rightarrow> uuid \<Rightarrow> pystr \<Rightarrow> int option \<Rightarrow> pystr option \<Rightarrow> sess \<Rightarrow> post_highlight outcome" where
  "repo_create_highlight new_id now user_id user_book_id quote_text page_number note_text s =
     (if \<not> (case page_number of None \<Rightarrow> True | Some p \<Rightarrow> int4 p) then Inl DataError
      else let row = \<lparr>ph_id = new_id, ph_user_id = user_id, ph_user_book_id = user_book_id, ph_quote_text = quote_text,
                      ph_page_number = page_number, ph_note_text = note_text, ph_visibility = ''private'',
                      ph_shared_at = None, ph_deleted_at = None, ph_created_at = now\<rparr>
           in bindE (insert_row ph_id (user_exists user_id s \<and> user_book_exists user_book_id s) row (t_post_highlights s))
                (\<lambda>rows. Inr (row, s\<lparr>t_post_highlights := rows\<rparr>)))"

definition highlight_by_id :: "uuid \<Rightarrow> sess \<Rightarrow> post_highlight option" where
  "highlight_by_id highlight_id s = fetch ph_id highlight_id (t_post_highlights s)"

definition list_by_user_book :: "uuid \<Rightarrow> uuid \<Rightarrow> datetime option \<Rightarrow> nat \<Rightarrow> sess \<Rightarrow> post_highlight list" where
  "list_by_user_book user_book_id user_id cursor limit s =
     take limit (newest_first ph_created_at ph_id (filter (\<lambda>h. ph_user_book_id h = user_book_id \<and> ph_user_id h = user_id \<and>
       before cursor (ph_created_at h)) (t_post_highlights s)))"

definition repo_delete_highlight :: "uuid \<Rightarrow> sess \<Rightarrow> sess" where
  "repo_delete_highlight highlight_id s = s\<lparr>t_post_highlights := discard (\<lambda>h. ph_id h = highlight_id) (t_post_highlights s)\<rparr>"

definition list_all_for_user :: "uuid \<Rightarrow> sess \<Rightarrow> (post_highlight \<times> uuid) list" where
  "list_all_for_user user_id s =
     order_asc (\<lambda>(_, b). int b) (order_desc (\<lambda>(h, _). ph_created_at h)
       (List.map_filter (\<lambda>h. map_option (\<lambda>ub. (h, ub_book_id ub)) (fetch ub_id (ph_user_book_id h) (t_user_books s)))
         (filter (\<lambda>h. ph_user_id h = user_id) (t_post_highlights s))))"

definition set_visibility :: "uuid \<Rightarrow> string \<Rightarrow> sess \<Rightarrow> sess" where
  "set_visibility highlight_id visibility s =
     s\<lparr>t_post_highlights := amend ph_id highlight_id (\<lambda>h. h\<lparr>ph_visibility := visibility\<rparr>) (t_post_highlights s)\<rparr>"

definition mark_shared :: "uuid \<Rightarrow> datetime \<Rightarrow> sess \<Rightarrow> sess" where
  "mark_shared highlight_id shared_at s =
     s\<lparr>t_post_highlights := amend ph_id highlight_id
        (\<lambda>h. h\<lparr>ph_shared_at := Some shared_at, ph_visibility := ''public''\<rparr>) (t_post_highlights s)\<rparr>"

text \<open>\<open>metadata->>'highlight_id' = id::text\<close>.\<close>

definition shares :: "uuid \<Rightarrow> feed_event \<Rightarrow> bool" where
  "shares highlight_id e \<longleftrightarrow> fe_event_type e = ''highlight_shared'' \<and> map_of (fe_metadata e) ''highlight_id'' = Some (JUuid highlight_id)"

record explore_highlight =
  xh_highlight :: post_highlight
  xh_book_id :: uuid
  xh_book_title :: pystr
  xh_book_cover_url :: "pystr option"
  xh_reaction_count :: nat

definition share_reactions :: "uuid \<Rightarrow> sess \<Rightarrow> nat" where
  "share_reactions highlight_id s =
     length [r. e \<leftarrow> t_feed_events s, shares highlight_id e, r \<leftarrow> t_event_reactions s, er_feed_event_id r = fe_id e]"

text \<open>The inner joins of a highlight with its library entry and its book.\<close>

definition explore_row :: "sess \<Rightarrow> post_highlight \<Rightarrow> explore_highlight option" where
  "explore_row s h =
     (case fetch ub_id (ph_user_book_id h) (t_user_books s) of
        None \<Rightarrow> None
      | Some ub \<Rightarrow> map_option (\<lambda>b. \<lparr>xh_highlight = h, xh_book_id = ub_book_id ub, xh_book_title = bk_title b,
          xh_book_cover_url = bk_cover_url b, xh_reaction_count = share_reactions (ph_id h) s\<rparr>) (fetch bk_id (ub_book_id ub) (t_books s)))"

definition repo_list_public :: "nat \<Rightarrow> string \<Rightarrow> sess \<Rightarrow> explore_highlight list" where
  "repo_list_public limit sort_by s =
     (let rows = List.map_filter (explore_row s) (filter (\<lambda>h. ph_visibility h = ''public'' \<and> ph_deleted_at h = None) (t_post_highlights s));
          recent = order_desc (\<lambda>x. ph_created_at (xh_highlight x)) rows
      in take limit (if sort_by = ''popular'' then order_desc (\<lambda>x. int (xh_reaction_count x)) recent else recent))"

definition list_recent_for_user :: "uuid \<Rightarrow> nat \<Rightarrow> nat \<Rightarrow> sess \<Rightarrow> (post_highlight \<times> uuid \<times> pystr \<times> pystr option) list" where
  "list_recent_for_user user_id limit offset s =
     take limit (drop offset (List.map_filter
       (\<lambda>h. map_option (\<lambda>x. (h, xh_book_id x, xh_book_title x, xh_book_cover_url x)) (explore_row s h))
       (newest_first ph_created_at ph_id (filter (\<lambda>h. ph_user_id h = user_id \<and> ph_deleted_at h = None) (t_post_highlights s)))))"

definition count_by_user :: "uuid \<Rightarrow> sess \<Rightarrow> nat" where
  "count_by_user user_id s = length (filter (\<lambda>h. ph_user_id h = user_id \<and> ph_deleted_at h = None) (t_post_highlights s))"

section \<open>The activity stream\<close>

definition feed_event_by_id :: "uuid \<Rightarrow> sess \<Rightarrow> feed_event option" where
  "feed_event_by_id event_id s = fetch fe_id event_id (t_feed_events s)"

definition list_global :: "datetime option \<Rightarrow> nat \<Rightarrow> sess \<Rightarrow> feed_event list" where
  "list_global cursor limit s =
     take limit (newest_first fe_created_at fe_id (filter (\<lambda>e. before cursor (fe_created_at e)) (t_feed_events s)))"

definition feed_list_following :: "uuid \<Rightarrow> datetime option \<Rightarrow> nat \<Rightarrow> sess \<Rightarrow> feed_event list" where
  "feed_list_following user_id cursor limit s =
     (let followees = set (map fo_followee_id (filter (\<lambda>f. fo_follower_id f = user_id) (t_follows s)))
      in take limit (newest_first fe_created_at fe_id (filter (\<lambda>e. fe_user_id e \<in> followees \<and> before cursor (fe_created_at e)) (t_feed_events s))))"

definition comment_counts_for_events :: "uuid list \<Rightarrow> sess \<Rightarrow> uuid \<rightharpoonup> nat" where
  "comment_counts_for_events event_ids s = (\<lambda>e. if e \<in> set event_ids
     then Some (length (filter (\<lambda>c. fc_feed_event_id c = e) (t_feed_comments s))) else None)"

definition find_highlight_share :: "uuid \<Rightarrow> sess \<Rightarrow> feed_event option" where
  "find_highlight_share highlight_id s =
     (case order_asc fe_created_at (filter (shares highlight_id) (t_feed_events s)) of [] \<Rightarrow> None | e # _ \<Rightarrow> Some e)"

definition event_reaction_add :: "uuid \<Rightarrow> datetime \<Rightarrow> uuid \<Rightarrow> uuid \<Rightarrow> pystr \<Rightarrow> sess \<Rightarrow> event_reaction outcome" where
  "event_reaction_add new_id now event_id user_id emoji s =
     (let row = \<lparr>er_id = new_id, er_feed_event_id = event_id, er_user_id = user_id, er_emoji = emoji, er_created_at = now\<rparr>;
          inserted = (if fetch er_key (er_key row) (t_event_reactions s) \<noteq> None then Inr (t_event_reactions s)
                      else insert_row er_id (feed_event_by_id event_id s \<noteq> None \<and> user_exists user_id s) row (t_event_reactions s))
      in bindE inserted (\<lambda>rows.
         bindE (scalar_one_or_none (filter (\<lambda>r. er_feed_event_id r = event_id \<and> er_user_id r = user_id \<and> er_emoji r = emoji) rows))
           (\<lambda>existing. bindE (required RuntimeError existing) (\<lambda>r. Inr (r, s\<lparr>t_event_reactions := rows\<rparr>)))))"

definition event_reaction_remove :: "uuid \<Rightarrow> uuid \<Rightarrow> pystr \<Rightarrow> sess \<Rightarrow> bool outcome" where
  "event_reaction_remove event_id user_id emoji s =
     bindE (scalar_one_or_none (filter (\<lambda>r. er_feed_event_id r = event_id \<and> er_user_id r = user_id \<and> er_emoji r = emoji) (t_event_reactions s)))
       (\<lambda>existing. case existing of
          None \<Rightarrow> Inr (False, s)
        | Some e \<Rightarrow> Inr (True, s\<lparr>t_event_reactions := discard (\<lambda>r. er_id r = er_id e) (t_event_reactions s)\<rparr>))"

definition get_for_event :: "uuid \<Rightarrow> sess \<Rightarrow> event_reaction list" where
  "get_for_event event_id s = filter (\<lambda>r. er_feed_event_id r = event_id) (t_event_reactions s)"

definition get_for_events :: "uuid list \<Rightarrow> sess \<Rightarrow> uuid \<rightharpoonup> event_reaction list" where
  "get_for_events event_ids s = (\<lambda>e. if e \<in> set event_ids then Some (get_for_event e s) else None)"

definition has_reacted :: "uuid \<Rightarrow> uuid \<Rightarrow> pystr \<Rightarrow> sess \<Rightarrow> bool result" where
  "has_reacted event_id user_id emoji s =
     bindE (scalar_one_or_none (filter (\<lambda>r. er_feed_event_id r = event_id \<and> er_user_id r = user_id \<and> er_emoji r = emoji) (t_event_reactions s)))
       (\<lambda>r. Inr (r \<noteq> None))"

definition feed_comment_create :: "uuid \<Rightarrow> datetime \<Rightarrow> uuid \<Rightarrow> uuid \<Rightarrow> uuid option \<Rightarrow> pystr \<Rightarrow> sess \<Rightarrow> feed_comment outcome" where
  "feed_comment_create new_id now event_id user_id parent_id body s =
     (let row = \<lparr>fc_id = new_id, fc_feed_event_id = event_id, fc_user_id = user_id, fc_parent_id = parent_id, fc_body = body,
                 fc_created_at = now\<rparr>;
          ok = feed_event_by_id event_id s \<noteq> None \<and> user_exists user_id s \<and>
               (case parent_id of None \<Rightarrow> True | Some p \<Rightarrow> fetch fc_id p (t_feed_comments s) \<noteq> None)
      in bindE (insert_row fc_id ok row (t_feed_comments s)) (\<lambda>rows. Inr (row, s\<lparr>t_feed_comments := rows\<rparr>)))"

definition feed_comment_by_id :: "uuid \<Rightarrow> sess \<Rightarrow> feed_comment option" where
  "feed_comment_by_id comment_id s = fetch fc_id comment_id (t_feed_comments s)"

definition list_for_event :: "uuid \<Rightarrow> sess \<Rightarrow> feed_comment list" where
  "list_for_event event_id s = oldest_first fc_created_at fc_id (filter (\<lambda>c. fc_feed_event_id c = event_id) (t_feed_comments s))"

text \<open>A hard delete: the replies go with the comment.\<close>

definition feed_comment_delete :: "uuid \<Rightarrow> uuid \<Rightarrow> sess \<Rightarrow> bool \<times> sess" where
  "feed_comment_delete comment_id user_id s =
     (case feed_comment_by_id comment_id s of
        None \<Rightarrow> (False, s)
      | Some row \<Rightarrow>
          if fc_user_id row \<noteq> user_id then (False, s)
          else (True, s\<lparr>t_feed_comments := discard (\<lambda>c. fc_id c \<in> set (cascade fc_id fc_parent_id (length (t_feed_comments s))
                  (t_feed_comments s) [comment_id])) (t_feed_comments s)\<rparr>))"

end
