(* ===== verification/Social.thy ===== *)
theory Social
  imports FeedRepo
begin

text \<open>
  \<open>backend/app/domains/social\<close>: follow and block edges, abuse reports, the lists over them and
  the weekly leaderboard (\<open>repository.py\<close>, \<open>service.py\<close>). A cursor is the instant it decodes to.
  \<open>ILIKE\<close> compares lower-cased text; the server's lower-casing is the parameter \<open>lower\<close>. \<open>today\<close>
  is \<open>CURRENT_DATE\<close> of the database session.
\<close>

section \<open>The repository\<close>

subsection \<open>Edges\<close>

definition repo_follow :: "uuid \<Rightarrow> datetime \<Rightarrow> uuid \<Rightarrow> uuid \<Rightarrow> sess \<Rightarrow> follow outcome" where
  "repo_follow new_id now follower_id followee_id s =
     (let row = \<lparr>fo_id = new_id, fo_follower_id = follower_id, fo_followee_id = followee_id, fo_created_at = now\<rparr>;
          ok = user_exists follower_id s \<and> user_exists followee_id s \<and> follower_id \<noteq> followee_id \<and>
               fetch fo_key (fo_key row) (t_follows s) = None
      in case insert_row fo_id ok row (t_follows s) of
           Inl _ \<Rightarrow> Inl (DomainError ConflictError ''FOLLOW_ALREADY_EXISTS'')
         | Inr rows \<Rightarrow> Inr (row, s\<lparr>t_follows := rows\<rparr>))"

definition repo_unfollow :: "uuid \<Rightarrow> uuid \<Rightarrow> sess \<Rightarrow> sess" where
  "repo_unfollow follower_id followee_id s =
     s\<lparr>t_follows := discard (\<lambda>r. fo_follower_id r = follower_id \<and> fo_followee_id r = followee_id) (t_follows s)\<rparr>"

definition is_following :: "uuid \<Rightarrow> uuid \<Rightarrow> sess \<Rightarrow> bool result" where
  "is_following follower_id followee_id s =
     bindE (scalar_one_or_none (filter (\<lambda>r. fo_follower_id r = follower_id \<and> fo_followee_id r = followee_id) (t_follows s)))
       (\<lambda>r. Inr (r \<noteq> None))"

definition get_follow_counts :: "uuid \<Rightarrow> sess \<Rightarrow> nat \<times> nat" where
  "get_follow_counts user_id s =
     (length (filter (\<lambda>r. fo_followee_id r = user_id) (t_follows s)), length (filter (\<lambda>r. fo_follower_id r = user_id) (t_follows s)))"

definition repo_block :: "uuid \<Rightarrow> datetime \<Rightarrow> uuid \<Rightarrow> uuid \<Rightarrow> sess \<Rightarrow> user_block outcome" where
  "repo_block new_id now blocker_id blocked_id s =
     (let row = \<lparr>bl_id = new_id, bl_blocker_id = blocker_id, bl_blocked_id = blocked_id, bl_created_at = now\<rparr>;
          ok = user_exists blocker_id s \<and> user_exists blocked_id s \<and> blocker_id \<noteq> blocked_id \<and>
               fetch bl_key (bl_key row) (t_blocks s) = None
      in case insert_row bl_id ok row (t_blocks s) of
           Inl _ \<Rightarrow> Inl (DomainError ConflictError ''BLOCK_ALREADY_EXISTS'')
         | Inr rows \<Rightarrow> Inr (row, s\<lparr>t_blocks := rows\<rparr>))"

definition repo_unblock :: "uuid \<Rightarrow> uuid \<Rightarrow> sess \<Rightarrow> sess" where
  "repo_unblock blocker_id blocked_id s =
     s\<lparr>t_blocks := discard (\<lambda>r. bl_blocker_id r = blocker_id \<and> bl_blocked_id r = blocked_id) (t_blocks s)\<rparr>"

definition is_blocked :: "uuid \<Rightarrow> uuid \<Rightarrow> sess \<Rightarrow> bool result" where
  "is_blocked blocker_id blocked_id s =
     bindE (scalar_one_or_none (filter (\<lambda>r. bl_blocker_id r = blocker_id \<and> bl_blocked_id r = blocked_id) (t_blocks s)))
       (\<lambda>r. Inr (r \<noteq> None))"

subsection \<open>Lists of users\<close>

text \<open>The users at one end of the edges \<open>rows\<close>, by the age of the edge.\<close>

definition edge_users :: "('e \<Rightarrow> datetime) \<Rightarrow> ('e \<Rightarrow> uuid) \<Rightarrow> datetime option \<Rightarrow> nat \<Rightarrow> 'e list \<Rightarrow> sess \<Rightarrow> user list" where
  "edge_users created end_of cursor limit rows s =
     take limit (List.map_filter
       (\<lambda>r. case fetch us_id (end_of r) (t_users s) of
              None \<Rightarrow> None
            | Some u \<Rightarrow> if us_deleted_at u = None then Some u else None)
       (order_desc created (filter (\<lambda>r. before cursor (created r)) rows)))"

definition list_followers :: "uuid \<Rightarrow> datetime option \<Rightarrow> nat \<Rightarrow> sess \<Rightarrow> (user list \<times> datetime option) result" where
  "list_followers user_id cursor limit s =
     (let users = edge_users fo_created_at fo_follower_id cursor limit (filter (\<lambda>r. fo_followee_id r = user_id) (t_follows s)) s
      in if length users = limit \<and> users \<noteq> []
         then bindE (scalar_one_or_none (filter (\<lambda>r. fo_followee_id r = user_id \<and> fo_follower_id r = us_id (last users)) (t_follows s)))
                (\<lambda>edge. Inr (users, map_option fo_created_at edge))
         else Inr (users, None))"

definition list_following :: "uuid \<Rightarrow> datetime option \<Rightarrow> nat \<Rightarrow> sess \<Rightarrow> (user list \<times> datetime option) result" where
  "list_following user_id cursor limit s =
     (let users = edge_users fo_created_at fo_followee_id cursor limit (filter (\<lambda>r. fo_follower_id r = user_id) (t_follows s)) s
      in if length users = limit \<and> users \<noteq> []
         then bindE (scalar_one_or_none (filter (\<lambda>r. fo_follower_id r = user_id \<and> fo_followee_id r = us_id (last users)) (t_follows s)))
                (\<lambda>edge. Inr (users, map_option fo_created_at edge))
         else Inr (users, None))"

definition list_blocks :: "uuid \<Rightarrow> datetime option \<Rightarrow> nat \<Rightarrow> sess \<Rightarrow> (user list \<times> datetime option) result" where
  "list_blocks blocker_id cursor limit s =
     (let users = edge_users bl_created_at bl_blocked_id cursor limit (filter (\<lambda>r. bl_blocker_id r = blocker_id) (t_blocks s)) s
      in if length users = limit \<and> users \<noteq> []
         then bindE (scalar_one_or_none (filter (\<lambda>r. bl_blocker_id r = blocker_id \<and> bl_blocked_id r = us_id (last users)) (t_blocks s)))
                (\<lambda>edge. Inr (users, map_option bl_created_at edge))
         else Inr (users, None))"

text \<open>
  \<open>LIKE\<close>: 37 is \<open>%\<close>, 95 is \<open>_\<close>, 92 the escape character (the patterns sent end with \<open>%\<close>, so
  something always follows it).
\<close>

fun like :: "pystr \<Rightarrow> pystr \<Rightarrow> bool" where
  "like [] cs \<longleftrightarrow> cs = []"
| "like (p # ps) cs \<longleftrightarrow>
     (if p = 37 then like ps cs \<or> (case cs of [] \<Rightarrow> False | _ # cs' \<Rightarrow> like (p # ps) cs')
      else if p = 92 then (case (ps, cs) of (q # qs, c # cs') \<Rightarrow> q = c \<and> like qs cs' | _ \<Rightarrow> False)
      else (case cs of [] \<Rightarrow> False | c # cs' \<Rightarrow> (p = 95 \<or> p = c) \<and> like ps cs'))"

definition repo_search_users ::
    "(pystr \<Rightarrow> pystr) \<Rightarrow> uuid \<Rightarrow> pystr \<Rightarrow> datetime option \<Rightarrow> nat \<Rightarrow> sess \<Rightarrow> user list \<times> datetime option" where
  "repo_search_users lower actor_id q cursor limit s =
     (let blockers = set (map bl_blocker_id (filter (\<lambda>r. bl_blocked_id r = actor_id) (t_blocks s)));
          users = take limit (order_desc us_created_at (filter (\<lambda>u. us_id u \<noteq> actor_id \<and> us_deleted_at u = None \<and>
            like (lower ([37] @ q @ [37])) (lower (us_nickname u)) \<and> us_id u \<notin> blockers \<and> before cursor (us_created_at u)) (t_users s)))
      in (users, if length users = limit \<and> users \<noteq> [] then Some (us_created_at (last users)) else None))"

subsection \<open>Reports\<close>

definition repo_report :: "uuid \<Rightarrow> datetime \<Rightarrow> uuid \<Rightarrow> string \<Rightarrow> uuid \<Rightarrow> pystr \<Rightarrow> sess \<Rightarrow> abuse_report outcome" where
  "repo_report new_id now reporter_id target_type target_id reason s =
     (if 16 < length target_type \<or> 500 < length reason then Inl DataError
      else let row = \<lparr>ar_id = new_id, ar_reporter_id = reporter_id, ar_target_type = target_type, ar_target_id = target_id,
                      ar_reason = reason, ar_created_at = now\<rparr>
           in bindE (insert_row ar_id (user_exists reporter_id s) row (t_reports s)) (\<lambda>rows. Inr (row, s\<lparr>t_reports := rows\<rparr>)))"

definition has_reported :: "uuid \<Rightarrow> string \<Rightarrow> uuid \<Rightarrow> sess \<Rightarrow> bool result" where
  "has_reported reporter_id target_type target_id s =
     bindE (scalar_one_or_none (filter (\<lambda>r. ar_reporter_id r = reporter_id \<and> ar_target_type r = target_type \<and> ar_target_id r = target_id)
       (t_reports s))) (\<lambda>r. Inr (r \<noteq> None))"

subsection \<open>The weekly totals\<close>

record leaderboard_row =
  lr_user_id :: uuid
  lr_nickname :: pystr
  lr_profile_image_url :: "pystr option"
  lr_grade :: "int option"
  lr_tier :: "int option"
  lr_weekly_minutes :: int

text \<open>Integer division of the server truncates towards zero; \<open>::int\<close> refuses what does not fit.\<close>

definition sql_div :: "int \<Rightarrow> int \<Rightarrow> int" where
  "sql_div a b = sgn a * sgn b * (abs a div abs b)"

definition leaderboard_candidates :: "uuid \<Rightarrow> sess \<Rightarrow> uuid list" where
  "leaderboard_candidates user_id s = remdups (user_id # map fo_followee_id (filter (\<lambda>r. fo_follower_id r = user_id) (t_follows s)))"

definition weekly_seconds :: "date \<Rightarrow> uuid \<Rightarrow> sess \<Rightarrow> int" where
  "weekly_seconds today user_id s = tsum ds_total_seconds (filter (\<lambda>r. ds_user_id r = user_id \<and> today - 6 \<le> ds_date r) (t_daily_stats s))"

definition leaderboard_row_of :: "date \<Rightarrow> sess \<Rightarrow> uuid \<Rightarrow> leaderboard_row option" where
  "leaderboard_row_of today s i =
     (case fetch us_id i (t_users s) of
        None \<Rightarrow> None
      | Some u \<Rightarrow>
          if us_deleted_at u \<noteq> None then None
          else let g = fetch ug_user_id i (t_user_grades s)
               in Some \<lparr>lr_user_id = i, lr_nickname = us_nickname u,
                    lr_profile_image_url = (case us_profile_image_url u of Some [] \<Rightarrow> None | x \<Rightarrow> x),
                    lr_grade = map_option ug_grade g, lr_tier = map_option ug_tier g,
                    lr_weekly_minutes = sql_div (weekly_seconds today i s) 60\<rparr>)"

definition repo_weekly_leaderboard :: "date \<Rightarrow> uuid \<Rightarrow> sess \<Rightarrow> leaderboard_row list result" where
  "repo_weekly_leaderboard today user_id s =
     (let rows = List.map_filter (leaderboard_row_of today s) (leaderboard_candidates user_id s)
      in if list_all (\<lambda>r. int4 (lr_weekly_minutes r)) rows
         then Inr (order_desc lr_weekly_minutes (order_asc (\<lambda>r. int (lr_user_id r)) rows))
         else Inl DataError)"

section \<open>The service\<close>

definition follow_user :: "bool \<Rightarrow> uuid \<Rightarrow> datetime \<Rightarrow> uuid \<Rightarrow> uuid \<Rightarrow> sess \<Rightarrow> unit outcome" where
  "follow_user staged new_id now actor_id target_id s =
     (if actor_id = target_id then Inl (DomainError ConflictError ''FOLLOW_SELF'')
      else bindE (is_blocked target_id actor_id s) (\<lambda>blocked.
           if blocked then Inl (DomainError ConflictError ''FOLLOW_BLOCKED'')
           else bindE (is_blocked actor_id target_id s) (\<lambda>blocking.
             let s1 = if blocking then repo_unblock actor_id target_id s else s
             in bindE (repo_follow new_id now actor_id target_id s1) (\<lambda>(_, s2).
                  Inr ((), if staged then stage_event (FollowReceived actor_id target_id) s2 else s2)))))"

definition unfollow_user :: "uuid \<Rightarrow> uuid \<Rightarrow> sess \<Rightarrow> unit outcome" where
  "unfollow_user actor_id target_id s = Inr ((), repo_unfollow actor_id target_id s)"

definition block_user :: "uuid \<Rightarrow> datetime \<Rightarrow> uuid \<Rightarrow> uuid \<Rightarrow> sess \<Rightarrow> unit outcome" where
  "block_user new_id now actor_id target_id s =
     (if actor_id = target_id then Inl (DomainError ConflictError ''BLOCK_SELF'')
      else let s1 = repo_unfollow actor_id target_id s;
               s2 = repo_unfollow target_id actor_id s1
           in bindE (repo_block new_id now actor_id target_id s2) (\<lambda>(_, s3). Inr ((), s3)))"

definition unblock_user :: "uuid \<Rightarrow> uuid \<Rightarrow> sess \<Rightarrow> unit outcome" where
  "unblock_user actor_id target_id s = Inr ((), repo_unblock actor_id target_id s)"

definition report :: "uuid \<Rightarrow> datetime \<Rightarrow> uuid \<Rightarrow> string \<Rightarrow> uuid \<Rightarrow> pystr \<Rightarrow> sess \<Rightarrow> unit outcome" where
  "report new_id now actor_id target_type target_id reason s =
     bindE (has_reported actor_id target_type target_id s) (\<lambda>dup.
       if dup then Inl (DomainError ConflictError ''REPORT_DUPLICATE'')
       else bindE (repo_report new_id now actor_id target_type target_id reason s) (\<lambda>(_, s1). Inr ((), s1)))"

record user_summary =
  um_id :: uuid
  um_nickname :: pystr
  um_profile_image_url :: "pystr option"
  um_bio :: "pystr option"
  um_is_following :: bool

definition summary_of :: "bool \<Rightarrow> user \<Rightarrow> user_summary" where
  "summary_of following u = \<lparr>um_id = us_id u, um_nickname = us_nickname u, um_profile_image_url = us_profile_image_url u,
     um_bio = us_bio u, um_is_following = following\<rparr>"

text \<open>The loop that asks, for each user, whether the actor follows them.\<close>

fun summaries :: "uuid \<Rightarrow> sess \<Rightarrow> user list \<Rightarrow> user_summary list result" where
  "summaries actor_id s [] = Inr []"
| "summaries actor_id s (u # us) =
     bindE (is_following actor_id (us_id u) s) (\<lambda>following.
     bindE (summaries actor_id s us) (\<lambda>rest. Inr (summary_of following u # rest)))"

definition page_size :: "int \<Rightarrow> nat" where
  "page_size limit = nat (max 1 (min limit 50))"

definition get_followers :: "uuid \<Rightarrow> uuid \<Rightarrow> datetime option \<Rightarrow> int \<Rightarrow> sess \<Rightarrow> (user_summary list \<times> datetime option) result" where
  "get_followers actor_id user_id cursor limit s =
     bindE (list_followers user_id cursor (page_size limit) s) (\<lambda>(users, nxt).
     bindE (summaries actor_id s users) (\<lambda>items. Inr (items, nxt)))"

definition get_following :: "uuid \<Rightarrow> uuid \<Rightarrow> datetime option \<Rightarrow> int \<Rightarrow> sess \<Rightarrow> (user_summary list \<times> datetime option) result" where
  "get_following actor_id user_id cursor limit s =
     bindE (list_following user_id cursor (page_size limit) s) (\<lambda>(users, nxt).
     bindE (summaries actor_id s users) (\<lambda>items. Inr (items, nxt)))"

text \<open>The code points \<open>str.strip()\<close> removes.\<close>

definition py_space :: "nat \<Rightarrow> bool" where
  "py_space c \<longleftrightarrow> 9 \<le> c \<and> c \<le> 13 \<or> 28 \<le> c \<and> c \<le> 32 \<or> c \<in> {133, 160, 5760, 8232, 8233, 8239, 8287, 12288} \<or> 8192 \<le> c \<and> c \<le> 8202"

definition py_strip :: "pystr \<Rightarrow> pystr" where
  "py_strip q = rev (dropWhile py_space (rev (dropWhile py_space q)))"

definition search_users ::
    "(pystr \<Rightarrow> pystr) \<Rightarrow> uuid \<Rightarrow> pystr \<Rightarrow> datetime option \<Rightarrow> int \<Rightarrow> sess \<Rightarrow> (user_summary list \<times> datetime option) result" where
  "search_users lower actor_id q0 cursor limit s =
     (let q = py_strip q0 in
      if q = [] then Inr ([], None)
      else case repo_search_users lower actor_id q cursor (page_size limit) s of (users, nxt) \<Rightarrow>
           bindE (summaries actor_id s users) (\<lambda>items. Inr (items, nxt)))"

definition get_blocks :: "uuid \<Rightarrow> datetime option \<Rightarrow> int \<Rightarrow> sess \<Rightarrow> (user_summary list \<times> datetime option) result" where
  "get_blocks actor_id cursor limit s =
     bindE (list_blocks actor_id cursor (page_size limit) s) (\<lambda>(users, nxt). Inr (map (summary_of False) users, nxt))"

subsection \<open>The leaderboard\<close>

definition GRADE_NAMES :: "(int \<times> string) list" where
  "GRADE_NAMES = [(1, ''Bronze''), (2, ''Silver''), (3, ''Gold''), (4, ''Platinum''), (5, ''Diamond'')]"

definition TIER_NAMES :: "(int \<times> string) list" where
  "TIER_NAMES = [(1, ''I''), (2, ''II''), (3, ''III'')]"

definition grade_tier_label :: "int option \<Rightarrow> int option \<Rightarrow> string option" where
  "grade_tier_label grade tier =
     (case (grade, tier) of
        (Some g, Some t) \<Rightarrow> (case (map_of GRADE_NAMES g, map_of TIER_NAMES t) of
            (Some n, Some r) \<Rightarrow> Some (n @ '' '' @ r)
          | _ \<Rightarrow> None)
      | _ \<Rightarrow> None)"

record weekly_entry =
  we_rank :: nat
  we_user_id :: uuid
  we_nickname :: pystr
  we_profile_image_url :: "pystr option"
  we_grade_tier :: "string option"
  we_weekly_minutes :: int
  we_is_me :: bool

text \<open>The loop over the rows: \<open>i\<close> is the index, \<open>current\<close> the rank, \<open>prev\<close> the minutes of the row before.\<close>

fun ranked_from :: "uuid \<Rightarrow> nat \<Rightarrow> nat \<Rightarrow> int option \<Rightarrow> leaderboard_row list \<Rightarrow> weekly_entry list" where
  "ranked_from me i current prev [] = []"
| "ranked_from me i current prev (row # rows) =
     (let rank = if Some (lr_weekly_minutes row) \<noteq> prev then i + 1 else current
      in \<lparr>we_rank = rank, we_user_id = lr_user_id row, we_nickname = lr_nickname row,
          we_profile_image_url = lr_profile_image_url row, we_grade_tier = grade_tier_label (lr_grade row) (lr_tier row),
          we_weekly_minutes = lr_weekly_minutes row, we_is_me = (lr_user_id row = me)\<rparr>
         # ranked_from me (i + 1) rank (Some (lr_weekly_minutes row)) rows)"

definition get_weekly_leaderboard :: "date \<Rightarrow> datetime \<Rightarrow> uuid \<Rightarrow> sess \<Rightarrow> (weekly_entry list \<times> date \<times> datetime) result" where
  "get_weekly_leaderboard today now user_id s =
     bindE (repo_weekly_leaderboard today user_id s) (\<lambda>rows.
     Inr (ranked_from user_id 0 0 None rows, utc_date (now - 6 * day_us), now))"

end
