(* ===== verification/FeedService.thy ===== *)
theory FeedService
  imports FeedRepo
begin

text \<open>
  \<open>FeedService\<close> of \<open>backend/app/domains/feed/service.py\<close>: image uploads, posts with reactions and
  comments, highlights, and the social side of the activity stream. The object store is a
  parameter (\<open>presign\<close>, \<open>public_url\<close>); whom a push goes to is part of the value, its delivery is
  fire-and-forget. \<open>staged\<close> says whether \<open>stage_event\<close> is wired, \<open>wired\<close> whether the repositories
  of the stream are.
\<close>

section \<open>Limits\<close>

definition CONTENT_MAX :: nat where "CONTENT_MAX = 2000"
definition COMMENT_MAX :: nat where "COMMENT_MAX = 1000"
definition IMAGES_MAX :: nat where "IMAGES_MAX = 4"
definition QUOTE_MAX :: nat where "QUOTE_MAX = 500"
definition FEED_COMMENT_MAX :: nat where "FEED_COMMENT_MAX = 500"

definition clamp :: "int \<Rightarrow> int \<Rightarrow> nat" where
  "clamp limit hi = nat (max 1 (min limit hi))"

definition ALLOWED_FEED_EMOJIS :: "pystr list" where
  "ALLOWED_FEED_EMOJIS = [[10084, 65039], [128293], [128079], [128218], [128170]]"

definition HIGHLIGHT_VISIBILITIES :: "string list" where
  "HIGHLIGHT_VISIBILITIES = [''private'', ''followers'', ''public'']"

definition EXPLORE_SORTS :: "string list" where
  "EXPLORE_SORTS = [''recent'', ''popular'']"

section \<open>Image uploads\<close>

text \<open>\<open>str(UUID)\<close>: 32 hexadecimal digits in groups of 8, 4, 4, 4 and 12.\<close>

definition uuid_str :: "uuid \<Rightarrow> pystr" where
  "uuid_str u =
     (let h = map (\<lambda>k. hex_digit (u div 16 ^ (31 - k) mod 16)) [0..<32]
      in take 8 h @ [45] @ take 4 (drop 8 h) @ [45] @ take 4 (drop 12 h) @ [45] @ take 4 (drop 16 h) @ [45] @ drop 20 h)"

definition ALLOWED_CONTENT_TYPES :: "(string \<times> string) list" where
  "ALLOWED_CONTENT_TYPES = [(''image/jpeg'', ''jpg''), (''image/png'', ''png''), (''image/webp'', ''webp'')]"

definition user_prefix :: "uuid \<Rightarrow> pystr" where
  "user_prefix user_id = ascii ''feed/'' @ uuid_str user_id @ ascii ''/''"

definition starts_with :: "pystr \<Rightarrow> pystr \<Rightarrow> bool" where
  "starts_with p k \<longleftrightarrow> take (length p) k = p"

definition request_image_upload :: "(pystr \<Rightarrow> string \<Rightarrow> 'u result) \<Rightarrow> uuid \<Rightarrow> uuid \<Rightarrow> string \<Rightarrow> 'u result" where
  "request_image_upload presign fresh user_id content_type =
     (case map_of ALLOWED_CONTENT_TYPES content_type of
        None \<Rightarrow> Inl (DomainError ConflictError ''UNSUPPORTED_CONTENT_TYPE'')
      | Some ext \<Rightarrow> presign (user_prefix user_id @ uuid_str fresh @ ascii ''.'' @ ascii ext) content_type)"

section \<open>Posts\<close>

definition post_missing :: error where "post_missing = DomainError NotFoundError ''POST_NOT_FOUND''"
definition feed_comment_missing :: error where "feed_comment_missing = DomainError NotFoundError ''COMMENT_NOT_FOUND''"
definition highlight_missing :: error where "highlight_missing = DomainError NotFoundError ''HIGHLIGHT_NOT_FOUND''"
definition feed_event_missing :: error where "feed_event_missing = DomainError NotFoundError ''FEED_EVENT_NOT_FOUND''"

definition create_post ::
    "bool \<Rightarrow> uuid \<Rightarrow> datetime \<Rightarrow> uuid \<Rightarrow> uuid \<Rightarrow> post_type \<Rightarrow> pystr \<Rightarrow> pystr list \<Rightarrow> sess \<Rightarrow> post outcome" where
  "create_post staged new_id now user_id book_id ptype content image_keys s =
     (if content = [] then Inl (DomainError ConflictError ''CONTENT_EMPTY'')
      else if CONTENT_MAX < length content then Inl (DomainError ConflictError ''CONTENT_TOO_LONG'')
      else if IMAGES_MAX < length image_keys then Inl (DomainError ConflictError ''TOO_MANY_IMAGES'')
      else if \<not> list_all (starts_with (user_prefix user_id)) image_keys then Inl (DomainError ConflictError ''IMAGE_KEY_FORBIDDEN'')
      else if \<not> book_exists book_id s then Inl (DomainError NotFoundError ''BOOK_NOT_FOUND'')
      else bindE (repo_create_post new_id now user_id book_id ptype content image_keys s) (\<lambda>(post, s1).
           Inr (post, if staged then stage_event (PostCreated (po_id post) book_id user_id) s1 else s1)))"

record post_feed_item =
  pi_post :: post
  pi_reactions :: "reaction_type \<rightharpoonup> nat"
  pi_my_reactions :: "reaction_type set"
  pi_comment_count :: nat
  pi_image_urls :: "pystr list"

definition list_posts_by_book ::
    "(pystr \<Rightarrow> pystr) \<Rightarrow> uuid \<Rightarrow> uuid \<Rightarrow> datetime option \<Rightarrow> int \<Rightarrow> sess \<Rightarrow> post_feed_item list \<times> datetime option" where
  "list_posts_by_book public_url book_id viewer_id cursor limit s =
     (let clamped = clamp limit 50;
          rows = list_by_book book_id cursor clamped s
      in if rows = [] then ([], None)
         else let post_ids = map po_id rows;
                  aggs = aggregates_for_posts post_ids s;
                  my = my_reactions_for_posts post_ids viewer_id s;
                  counts = comment_counts_for post_ids s
              in (map (\<lambda>row. \<lparr>pi_post = row,
                     pi_reactions = (case aggs (po_id row) of None \<Rightarrow> Map.empty | Some m \<Rightarrow> m),
                     pi_my_reactions = (case my (po_id row) of None \<Rightarrow> {} | Some ts \<Rightarrow> ts),
                     pi_comment_count = (case counts (po_id row) of None \<Rightarrow> 0 | Some n \<Rightarrow> n),
                     pi_image_urls = map public_url (po_image_keys row)\<rparr>) rows,
                  if length rows = clamped then Some (po_created_at (last rows)) else None))"

definition delete_post :: "datetime \<Rightarrow> uuid \<Rightarrow> uuid \<Rightarrow> sess \<Rightarrow> unit outcome" where
  "delete_post now user_id post_id s =
     (case post_by_id post_id s of
        None \<Rightarrow> Inl post_missing
      | Some post \<Rightarrow> if po_user_id post \<noteq> user_id then Inl post_missing else Inr ((), post_soft_delete post_id now s))"

datatype toggle_state = Added | Removed

definition toggle_reaction ::
    "bool \<Rightarrow> uuid \<Rightarrow> datetime \<Rightarrow> uuid \<Rightarrow> uuid \<Rightarrow> reaction_type \<Rightarrow> sess \<Rightarrow> (toggle_state \<times> (reaction_type \<rightharpoonup> nat)) outcome" where
  "toggle_reaction staged new_id now user_id post_id rtype s =
     bindE (required post_missing (post_by_id post_id s)) (\<lambda>post.
     bindE (if rtype \<in> reactions_by_user post_id user_id s
            then bindE (reaction_remove post_id user_id rtype s) (\<lambda>(_, s1). Inr (Removed, s1))
            else bindE (reaction_add new_id now post_id user_id rtype s) (\<lambda>(_, s1).
                 Inr (Added, if staged then stage_event (ReactionAdded post_id user_id (po_user_id post) rtype) s1 else s1)))
       (\<lambda>(state, s1). Inr ((state, aggregate_for_post post_id s1), s1)))"

definition post_add_comment ::
    "bool \<Rightarrow> uuid \<Rightarrow> datetime \<Rightarrow> uuid \<Rightarrow> uuid \<Rightarrow> uuid option \<Rightarrow> pystr \<Rightarrow> sess \<Rightarrow> post_comment outcome" where
  "post_add_comment staged new_id now user_id post_id parent_id content s =
     (if content = [] then Inl (DomainError ConflictError ''CONTENT_EMPTY'')
      else if COMMENT_MAX < length content then Inl (DomainError ConflictError ''CONTENT_TOO_LONG'')
      else bindE (required post_missing (post_by_id post_id s)) (\<lambda>post.
           bindE (case parent_id of
               None \<Rightarrow> Inr None
             | Some p \<Rightarrow> (case post_comment_by_id p s of
                   None \<Rightarrow> Inl feed_comment_missing
                 | Some parent \<Rightarrow>
                     if pc_post_id parent \<noteq> post_id then Inl feed_comment_missing
                     else if pc_parent_id parent \<noteq> None then Inl (DomainError ConflictError ''COMMENT_DEPTH_EXCEEDED'')
                     else Inr (Some (pc_user_id parent)))) (\<lambda>parent_author.
           bindE (post_comment_create new_id now user_id post_id parent_id content s) (\<lambda>(comment, s1).
           Inr (comment, if staged then stage_event (CommentAdded (pc_id comment) post_id user_id (po_user_id post) parent_author) s1 else s1)))))"

definition post_list_comments :: "uuid \<Rightarrow> datetime option \<Rightarrow> int \<Rightarrow> sess \<Rightarrow> post_comment list \<times> datetime option" where
  "post_list_comments post_id cursor limit s =
     (let clamped = clamp limit 100;
          rows = list_by_post post_id cursor clamped s
      in (rows, if length rows = clamped then Some (pc_created_at (last rows)) else None))"

definition post_delete_comment :: "datetime \<Rightarrow> uuid \<Rightarrow> uuid \<Rightarrow> sess \<Rightarrow> unit outcome" where
  "post_delete_comment now user_id comment_id s =
     (case post_comment_by_id comment_id s of
        None \<Rightarrow> Inl feed_comment_missing
      | Some c \<Rightarrow> if pc_user_id c \<noteq> user_id then Inl feed_comment_missing else Inr ((), post_comment_soft_delete comment_id now s))"

section \<open>Highlights\<close>

definition create_highlight ::
    "uuid \<Rightarrow> datetime \<Rightarrow> uuid \<Rightarrow> uuid \<Rightarrow> pystr \<Rightarrow> int option \<Rightarrow> pystr option \<Rightarrow> sess \<Rightarrow> post_highlight outcome" where
  "create_highlight new_id now user_id user_book_id quote_text page_number note_text s =
     (if quote_text = [] then Inl (DomainError ConflictError ''QUOTE_EMPTY'')
      else if QUOTE_MAX < length quote_text then Inl (DomainError ConflictError ''QUOTE_TOO_LONG'')
      else repo_create_highlight new_id now user_id user_book_id quote_text page_number note_text s)"

definition list_highlights :: "uuid \<Rightarrow> uuid \<Rightarrow> datetime option \<Rightarrow> int \<Rightarrow> sess \<Rightarrow> post_highlight list \<times> datetime option" where
  "list_highlights user_id user_book_id cursor limit s =
     (let clamped = clamp limit 50;
          rows = list_by_user_book user_book_id user_id cursor clamped s
      in (rows, if length rows = clamped then Some (ph_created_at (last rows)) else None))"

definition own_highlight :: "uuid \<Rightarrow> uuid \<Rightarrow> sess \<Rightarrow> post_highlight result" where
  "own_highlight user_id highlight_id s =
     (case highlight_by_id highlight_id s of
        None \<Rightarrow> Inl highlight_missing
      | Some row \<Rightarrow> if ph_user_id row \<noteq> user_id then Inl highlight_missing else Inr row)"

definition delete_highlight :: "uuid \<Rightarrow> uuid \<Rightarrow> sess \<Rightarrow> unit outcome" where
  "delete_highlight user_id highlight_id s =
     bindE (own_highlight user_id highlight_id s) (\<lambda>_. Inr ((), repo_delete_highlight highlight_id s))"

definition update_highlight_visibility :: "uuid \<Rightarrow> uuid \<Rightarrow> string \<Rightarrow> sess \<Rightarrow> post_highlight outcome" where
  "update_highlight_visibility user_id highlight_id visibility s =
     (if visibility \<notin> set HIGHLIGHT_VISIBILITIES then Inl (DomainError ConflictError ''UNSUPPORTED_VISIBILITY'')
      else bindE (own_highlight user_id highlight_id s) (\<lambda>row.
           Inr (row\<lparr>ph_visibility := visibility\<rparr>, set_visibility highlight_id visibility s)))"

definition share_highlight_to_feed :: "bool \<Rightarrow> uuid \<Rightarrow> datetime \<Rightarrow> uuid \<Rightarrow> uuid \<Rightarrow> sess \<Rightarrow> feed_event outcome" where
  "share_highlight_to_feed wired new_id now user_id highlight_id s =
     (if \<not> wired then Inl feed_event_missing
      else bindE (own_highlight user_id highlight_id s) (\<lambda>row.
        case (if ph_shared_at row \<noteq> None then find_highlight_share highlight_id s else None) of
          Some existing \<Rightarrow> Inr (existing, s)
        | None \<Rightarrow> create_event new_id now user_id ''highlight_shared''
            [(''highlight_id'', JUuid highlight_id), (''user_book_id'', JUuid (ph_user_book_id row)), (''quote_text'', JText (ph_quote_text row))]
            (mark_shared highlight_id now s)))"

definition get_explore_highlights :: "int \<Rightarrow> string \<Rightarrow> sess \<Rightarrow> explore_highlight list" where
  "get_explore_highlights limit sort_by s =
     repo_list_public (clamp limit 50) (if sort_by \<in> set EXPLORE_SORTS then sort_by else ''recent'') s"

record book_highlight_group =
  hg_user_book_id :: uuid
  hg_book_id :: uuid
  hg_book_title :: "pystr option"
  hg_book_cover_url :: "pystr option option"
  hg_highlights :: "post_highlight list"

text \<open>The two dicts filled in one pass: groups in order of first appearance, and the last book of each.\<close>

fun group_highlights :: "(post_highlight \<times> uuid) list \<Rightarrow> (uuid \<times> uuid \<times> post_highlight list) list" where
  "group_highlights [] = []"
| "group_highlights ((h, b) # items) =
     (let same = filter (\<lambda>(k, _). ph_user_book_id k = ph_user_book_id h) items;
          others = filter (\<lambda>(k, _). ph_user_book_id k \<noteq> ph_user_book_id h) items
      in (ph_user_book_id h, snd (last ((h, b) # same)), h # map fst same) # group_highlights others)"

definition list_all_highlights :: "uuid \<Rightarrow> sess \<Rightarrow> book_highlight_group list" where
  "list_all_highlights user_id s =
     map (\<lambda>(ub, b, hs). let snap = fetch bk_id b (t_books s) in
        \<lparr>hg_user_book_id = ub, hg_book_id = b, hg_book_title = map_option bk_title snap,
         hg_book_cover_url = map_option bk_cover_url snap, hg_highlights = hs\<rparr>)
       (group_highlights (list_all_for_user user_id s))"

definition list_my_highlights ::
    "uuid \<Rightarrow> int \<Rightarrow> int \<Rightarrow> sess \<Rightarrow> (post_highlight \<times> uuid \<times> pystr \<times> pystr option) list \<times> nat \<times> bool" where
  "list_my_highlights user_id limit offset s =
     (let safe_offset = nat (max 0 offset);
          total_rows = count_by_user user_id s;
          items = list_recent_for_user user_id (clamp limit 50) safe_offset s
      in (items, total_rows, safe_offset + length items < total_rows))"

section \<open>The stream\<close>

record feed_event_item =
  fi_event :: feed_event
  fi_reactions :: "event_reaction list"
  fi_comment_count :: nat

definition enrich_events :: "feed_event list \<Rightarrow> sess \<Rightarrow> feed_event_item list" where
  "enrich_events events s =
     (let ids = map fe_id events;
          reactions = get_for_events ids s;
          counts = comment_counts_for_events ids s
      in map (\<lambda>e. \<lparr>fi_event = e, fi_reactions = (case reactions (fe_id e) of None \<Rightarrow> [] | Some rs \<Rightarrow> rs),
            fi_comment_count = (case counts (fe_id e) of None \<Rightarrow> 0 | Some n \<Rightarrow> n)\<rparr>) events)"

definition get_global_feed :: "bool \<Rightarrow> datetime option \<Rightarrow> int \<Rightarrow> sess \<Rightarrow> feed_event_item list" where
  "get_global_feed wired cursor limit s = (if wired then enrich_events (list_global cursor (clamp limit 50) s) s else [])"

definition get_following_feed :: "bool \<Rightarrow> uuid \<Rightarrow> datetime option \<Rightarrow> int \<Rightarrow> sess \<Rightarrow> feed_event_item list" where
  "get_following_feed wired user_id cursor limit s =
     (if wired then enrich_events (feed_list_following user_id cursor (clamp limit 50) s) s else [])"

definition toggle_feed_reaction ::
    "bool \<Rightarrow> uuid \<Rightarrow> datetime \<Rightarrow> uuid \<Rightarrow> uuid \<Rightarrow> pystr \<Rightarrow> sess \<Rightarrow> (toggle_state \<times> event_reaction list \<times> uuid option) outcome" where
  "toggle_feed_reaction wired new_id now event_id user_id emoji s =
     (if emoji \<notin> set ALLOWED_FEED_EMOJIS then Inl (DomainError ConflictError ''UNSUPPORTED_EMOJI'')
      else if \<not> wired then Inl feed_event_missing
      else bindE (required feed_event_missing (feed_event_by_id event_id s)) (\<lambda>event.
           bindE (has_reacted event_id user_id emoji s) (\<lambda>already.
           bindE (if already
                  then bindE (event_reaction_remove event_id user_id emoji s) (\<lambda>(_, s1). Inr (Removed, None, s1))
                  else bindE (event_reaction_add new_id now event_id user_id emoji s) (\<lambda>(_, s1).
                       Inr (Added, if user_id \<noteq> fe_user_id event then Some (fe_user_id event) else None, s1)))
             (\<lambda>(state, push, s1). Inr ((state, get_for_event event_id s1, push), s1)))))"

definition add_feed_comment ::
    "bool \<Rightarrow> uuid \<Rightarrow> datetime \<Rightarrow> uuid \<Rightarrow> uuid \<Rightarrow> uuid option \<Rightarrow> pystr \<Rightarrow> sess \<Rightarrow> (feed_comment \<times> uuid option) outcome" where
  "add_feed_comment wired new_id now event_id user_id parent_id body s =
     (if body = [] then Inl (DomainError ConflictError ''BODY_EMPTY'')
      else if FEED_COMMENT_MAX < length body then Inl (DomainError ConflictError ''BODY_TOO_LONG'')
      else if \<not> wired then Inl feed_event_missing
      else bindE (required feed_event_missing (feed_event_by_id event_id s)) (\<lambda>event.
           bindE (case parent_id of
               None \<Rightarrow> Inr ()
             | Some p \<Rightarrow> (case feed_comment_by_id p s of
                   None \<Rightarrow> Inl feed_comment_missing
                 | Some parent \<Rightarrow>
                     if fc_feed_event_id parent \<noteq> event_id then Inl feed_comment_missing
                     else guardE (fc_parent_id parent = None) (DomainError ConflictError ''COMMENT_DEPTH_EXCEEDED''))) (\<lambda>_.
           bindE (feed_comment_create new_id now event_id user_id parent_id body s) (\<lambda>(comment, s1).
           Inr ((comment, if user_id \<noteq> fe_user_id event then Some (fe_user_id event) else None), s1)))))"

definition get_feed_comments :: "bool \<Rightarrow> uuid \<Rightarrow> sess \<Rightarrow> feed_comment list" where
  "get_feed_comments wired event_id s = (if wired then list_for_event event_id s else [])"

definition delete_feed_comment :: "bool \<Rightarrow> uuid \<Rightarrow> uuid \<Rightarrow> sess \<Rightarrow> unit outcome" where
  "delete_feed_comment wired comment_id user_id s =
     (if \<not> wired then Inl feed_comment_missing
      else case feed_comment_delete comment_id user_id s of (deleted, s1) \<Rightarrow>
             if deleted then Inr ((), s1) else Inl feed_comment_missing)"

end
