(* ===== verification/FeedLaws.thy ===== *)
theory FeedLaws
  imports FeedService ChallengeMachine
begin

text \<open>
  The laws of the feed. A reaction, on a post or on an event of the stream, is a mark a reader sets
  and takes back: the interface \<open>marks\<close> holds for both tables. The feed service is a machine that
  keeps its tables well formed: every identifier once, every reader's mark once, comments one
  level deep.
\<close>

section \<open>Marks that are toggled\<close>

locale marks =
  fixes wf :: "'s \<Rightarrow> bool"
    and marked :: "'k \<Rightarrow> 's \<Rightarrow> bool"
    and mark :: "uuid \<Rightarrow> datetime \<Rightarrow> 'k \<Rightarrow> 's \<Rightarrow> 'e + 's"
    and unmark :: "'k \<Rightarrow> 's \<Rightarrow> 'e + 's"
  assumes mark_new: "wf s \<Longrightarrow> \<not> marked k s \<Longrightarrow> mark i now k s = Inr s' \<Longrightarrow> wf s' \<and> (marked j s' \<longleftrightarrow> j = k \<or> marked j s)"
    and unmark_some: "wf s \<Longrightarrow> marked k s \<Longrightarrow> \<exists>s'. unmark k s = Inr s'"
    and unmark_gone: "wf s \<Longrightarrow> marked k s \<Longrightarrow> unmark k s = Inr s' \<Longrightarrow> wf s' \<and> (marked j s' \<longleftrightarrow> j \<noteq> k \<and> marked j s)"
    and unmark_mark: "wf s \<Longrightarrow> \<not> marked k s \<Longrightarrow> mark i now k s = Inr s' \<Longrightarrow> unmark k s' = Inr s"
begin

definition toggle :: "uuid \<Rightarrow> datetime \<Rightarrow> 'k \<Rightarrow> 's \<Rightarrow> 'e + 's" where
  "toggle i now k s = (if marked k s then unmark k s else mark i now k s)"

lemma toggle_cases:
  assumes "wf s" "toggle i now k s = Inr s'"
  shows "wf s' \<and> (marked j s' \<longleftrightarrow> (if j = k then \<not> marked k s else marked j s))"
proof (cases "marked k s")
  case True
  with assms(2) have "unmark k s = Inr s'" by (simp add: toggle_def)
  from unmark_gone [OF assms(1) True this, of j] True show ?thesis by simp
next
  case False
  with assms(2) have "mark i now k s = Inr s'" by (simp add: toggle_def)
  from mark_new [OF assms(1) False this, of j] False show ?thesis by simp
qed

lemma toggle_wf: "wf s \<Longrightarrow> toggle i now k s = Inr s' \<Longrightarrow> wf s'"
  by (drule (1) toggle_cases) (rule conjunct1)

lemma toggle_marked: "wf s \<Longrightarrow> toggle i now k s = Inr s' \<Longrightarrow> marked j s' \<longleftrightarrow> (if j = k then \<not> marked k s else marked j s)"
  by (drule (1) toggle_cases) (rule conjunct2)

lemma toggle_back:
  assumes "wf s" "toggle i now k s = Inr s1" "toggle i' now' k s1 = Inr s2"
  shows "marked j s2 \<longleftrightarrow> marked j s"
  using toggle_marked [OF toggle_wf [OF assms(1,2)] assms(3)] toggle_marked [OF assms(1,2)] by simp

lemma set_and_taken_back:
  assumes "wf s" "\<not> marked k s" "toggle i now k s = Inr s1"
  shows "toggle i' now' k s1 = Inr s"
proof -
  have "mark i now k s = Inr s1" using assms by (simp add: toggle_def)
  moreover have "marked k s1" using toggle_marked [OF assms(1,3), of k] assms(2) by simp
  ultimately show ?thesis using unmark_mark [OF assms(1,2)] by (simp add: toggle_def)
qed

end

text \<open>A table of marks: rows with an identifier and a unique key.\<close>

lemma filter_unique_key:
  assumes "distinct (map key rows)" "\<And>r. P r \<longleftrightarrow> key r = k"
  shows "filter P rows = (case fetch key k rows of None \<Rightarrow> [] | Some r \<Rightarrow> [r])"
proof -
  have "P = (\<lambda>r. key r = k)" using assms(2) by auto
  then show ?thesis using filter_key [OF assms(1), of k] by simp
qed

lemma discard_snoc:
  assumes "key r \<notin> key ` set rows"
  shows "discard (\<lambda>x. key x = key r) (rows @ [r]) = rows"
proof -
  have "filter (\<lambda>x. key x \<noteq> key r) rows = rows" unfolding filter_id_conv using assms by (metis imageI)
  then show ?thesis by (simp add: discard_def)
qed

lemma option_same: "m = Some x \<Longrightarrow> m = Some y \<Longrightarrow> x = y"
  by simp

lemma keys_after_discard:
  assumes "distinct (map pk rows)" "r \<in> set rows" "distinct (map key rows)"
  shows "key ` set (discard (\<lambda>x. pk x = pk r) rows) = key ` set rows - {key r}"
proof -
  have "x = r" if "x \<in> set rows" "pk x = pk r" for x
    using fetch_distinct [OF assms(1) that(1)] fetch_distinct [OF assms(1,2)] unfolding that(2) by (rule option_same)
  then have "set (discard (\<lambda>x. pk x = pk r) rows) = set rows - {r}" unfolding set_discard by blast
  moreover have "inj_on key (set rows)" using assms(3) by (simp add: distinct_map)
  ultimately show ?thesis using assms(2) by (simp add: inj_on_image_set_diff [of key "set rows"])
qed

definition marks_ok :: "('r \<Rightarrow> uuid) \<Rightarrow> ('r \<Rightarrow> 'k) \<Rightarrow> 'r list \<Rightarrow> bool" where
  "marks_ok pk key rows \<longleftrightarrow> distinct (map pk rows) \<and> distinct (map key rows)"

lemma mark_rows:
  assumes "marks_ok pk key rows" "pk r \<notin> pk ` set rows" "key r \<notin> key ` set rows"
  shows "marks_ok pk key (rows @ [r])" "fetch key (key r) (rows @ [r]) = Some r" "discard (\<lambda>x. pk x = pk r) (rows @ [r]) = rows"
  using assms fetch_snoc [of key r rows] by (simp_all add: marks_ok_def discard_snoc fetch_None_iff)

lemma unmark_rows:
  assumes "marks_ok pk key rows" "fetch key k rows = Some r"
  shows "marks_ok pk key (discard (\<lambda>x. pk x = pk r) rows)" "key ` set (discard (\<lambda>x. pk x = pk r) rows) = key ` set rows - {k}"
  using assms fetch_SomeD [OF assms(2)] keys_after_discard [of pk rows r key] by (auto simp: marks_ok_def intro: distinct_map_discard)

lemma marked_row: "k \<in> key ` set rows \<Longrightarrow> \<exists>r. fetch key k rows = Some r"
  using fetch_None_iff [of key k rows] by fastforce

subsection \<open>Reactions to posts\<close>

definition reactions_ok :: "sess \<Rightarrow> bool" where
  "reactions_ok s \<longleftrightarrow> marks_ok rx_id rx_key (t_reactions s)"

definition reacted :: "uuid \<times> uuid \<times> reaction_type \<Rightarrow> sess \<Rightarrow> bool" where
  "reacted k s \<longleftrightarrow> k \<in> rx_key ` set (t_reactions s)"

definition mark_post :: "uuid \<Rightarrow> datetime \<Rightarrow> uuid \<times> uuid \<times> reaction_type \<Rightarrow> sess \<Rightarrow> sess result" where
  "mark_post i now k s = (case k of (p, u, ty) \<Rightarrow> value_of (reaction_add i now p u ty s))"

definition unmark_post :: "uuid \<times> uuid \<times> reaction_type \<Rightarrow> sess \<Rightarrow> sess result" where
  "unmark_post k s = (case k of (p, u, ty) \<Rightarrow> value_of (reaction_remove p u ty s))"

lemma reacted_alt: "rtype \<in> reactions_by_user post_id user_id s \<longleftrightarrow> reacted (post_id, user_id, rtype) s"
  by (auto simp: reactions_by_user_def reacted_def rx_key_def)

lemma reactions_at_key:
  "reactions_ok s \<Longrightarrow> filter (\<lambda>r. rx_post_id r = p \<and> rx_user_id r = u \<and> rx_reaction_type r = ty) (t_reactions s) =
     (case fetch rx_key (p, u, ty) (t_reactions s) of None \<Rightarrow> [] | Some r \<Rightarrow> [r])"
  by (rule filter_unique_key) (auto simp: reactions_ok_def marks_ok_def rx_key_def)

lemma reaction_add_Inr:
  assumes "reactions_ok s" "\<not> reacted (p, u, ty) s" "reaction_add i now p u ty s = Inr (r, s')"
  shows "s' = s\<lparr>t_reactions := t_reactions s @ [r]\<rparr> \<and> rx_key r = (p, u, ty) \<and> rx_id r \<notin> rx_id ` set (t_reactions s)"
proof -
  have none: "fetch rx_key (p, u, ty) (t_reactions s) = None" using assms(2) by (simp add: reacted_def fetch_None_iff)
  then have "filter (\<lambda>r. rx_post_id r = p \<and> rx_user_id r = u \<and> rx_reaction_type r = ty) (t_reactions s) = []"
    by (simp add: reactions_at_key [OF assms(1)])
  with assms(3) none show ?thesis by (auto simp: reaction_add_def Let_def rx_key_def insert_row_Inr_iff)
qed

lemma reaction_remove_eq:
  assumes "reactions_ok s" "fetch rx_key (p, u, ty) (t_reactions s) = Some r"
  shows "reaction_remove p u ty s = Inr (1, s\<lparr>t_reactions := discard (\<lambda>x. rx_id x = rx_id r) (t_reactions s)\<rparr>)"
  using assms by (simp add: reaction_remove_def reactions_at_key)

lemma unmark_post_eq:
  assumes "reactions_ok s" "fetch rx_key k (t_reactions s) = Some r"
  shows "unmark_post k s = Inr (s\<lparr>t_reactions := discard (\<lambda>x. rx_id x = rx_id r) (t_reactions s)\<rparr>)"
  using assms by (cases k) (simp add: unmark_post_def reaction_remove_eq value_of_def)

lemma mark_post_Inr:
  assumes "reactions_ok s" "\<not> reacted k s" "mark_post i now k s = Inr s'"
  obtains r where "s' = s\<lparr>t_reactions := t_reactions s @ [r]\<rparr>" "rx_key r = k" "rx_id r \<notin> rx_id ` set (t_reactions s)"
  using assms reaction_add_Inr by (cases k) (fastforce simp: mark_post_def)

interpretation post_marks: marks reactions_ok reacted mark_post unmark_post
proof
  fix s s' k j i now
  assume ok: "reactions_ok s" and new: "\<not> reacted k s" and "mark_post i now k s = Inr s'"
  then obtain r where s': "s' = s\<lparr>t_reactions := t_reactions s @ [r]\<rparr>" and k: "rx_key r = k" "rx_id r \<notin> rx_id ` set (t_reactions s)"
    by (rule mark_post_Inr)
  note M = mark_rows [of rx_id rx_key "t_reactions s" r]
  have old: "marks_ok rx_id rx_key (t_reactions s)" "rx_key r \<notin> rx_key ` set (t_reactions s)"
    using ok new k by (simp_all add: reactions_ok_def reacted_def)
  show "reactions_ok s' \<and> (reacted j s' \<longleftrightarrow> j = k \<or> reacted j s)"
    using M(1) old k unfolding s' by (simp add: reactions_ok_def reacted_def)
  show "unmark_post k s' = Inr s"
    using unmark_post_eq [of s' k r] M old k unfolding s' by (simp add: reactions_ok_def)
next
  fix s k
  assume ok: "reactions_ok s" and old: "reacted k s"
  then obtain r where r: "fetch rx_key k (t_reactions s) = Some r" using marked_row [OF old [unfolded reacted_def]] by blast
  note gone = unmark_post_eq [OF ok r]
  then show "\<exists>s'. unmark_post k s = Inr s'" by simp
  fix s' j
  assume "unmark_post k s = Inr s'"
  then have s': "s' = s\<lparr>t_reactions := discard (\<lambda>x. rx_id x = rx_id r) (t_reactions s)\<rparr>" using gone by simp
  show "reactions_ok s' \<and> (reacted j s' \<longleftrightarrow> j \<noteq> k \<and> reacted j s)"
    using unmark_rows [OF _ r, of rx_id] ok unfolding s' by (auto simp: reactions_ok_def reacted_def)
qed

subsection \<open>Reactions to events of the stream\<close>

definition event_reactions_ok :: "sess \<Rightarrow> bool" where
  "event_reactions_ok s \<longleftrightarrow> marks_ok er_id er_key (t_event_reactions s)"

definition cheered :: "uuid \<times> uuid \<times> pystr \<Rightarrow> sess \<Rightarrow> bool" where
  "cheered k s \<longleftrightarrow> k \<in> er_key ` set (t_event_reactions s)"

definition mark_event :: "uuid \<Rightarrow> datetime \<Rightarrow> uuid \<times> uuid \<times> pystr \<Rightarrow> sess \<Rightarrow> sess result" where
  "mark_event i now k s = (case k of (e, u, x) \<Rightarrow> value_of (event_reaction_add i now e u x s))"

definition unmark_event :: "uuid \<times> uuid \<times> pystr \<Rightarrow> sess \<Rightarrow> sess result" where
  "unmark_event k s = (case k of (e, u, x) \<Rightarrow> value_of (event_reaction_remove e u x s))"

lemma cheers_at_key:
  "event_reactions_ok s \<Longrightarrow> filter (\<lambda>r. er_feed_event_id r = e \<and> er_user_id r = u \<and> er_emoji r = x) (t_event_reactions s) =
     (case fetch er_key (e, u, x) (t_event_reactions s) of None \<Rightarrow> [] | Some r \<Rightarrow> [r])"
  by (rule filter_unique_key) (auto simp: event_reactions_ok_def marks_ok_def er_key_def)

lemma has_reacted_eq: "event_reactions_ok s \<Longrightarrow> has_reacted e u x s = Inr (cheered (e, u, x) s)"
  using fetch_None_iff [of er_key "(e, u, x)" "t_event_reactions s"]
  by (cases "fetch er_key (e, u, x) (t_event_reactions s)") (simp_all add: has_reacted_def cheers_at_key cheered_def)

lemma event_reaction_add_Inr:
  assumes "event_reactions_ok s" "\<not> cheered (e, u, x) s" "event_reaction_add i now e u x s = Inr (r, s')"
  shows "s' = s\<lparr>t_event_reactions := t_event_reactions s @ [r]\<rparr> \<and> er_key r = (e, u, x) \<and> er_id r \<notin> er_id ` set (t_event_reactions s)"
proof -
  have none: "fetch er_key (e, u, x) (t_event_reactions s) = None" using assms(2) by (simp add: cheered_def fetch_None_iff)
  then have "filter (\<lambda>r. er_feed_event_id r = e \<and> er_user_id r = u \<and> er_emoji r = x) (t_event_reactions s) = []"
    by (simp add: cheers_at_key [OF assms(1)])
  with assms(3) none show ?thesis by (auto simp: event_reaction_add_def Let_def er_key_def insert_row_Inr_iff)
qed

lemma unmark_event_eq:
  assumes "event_reactions_ok s" "fetch er_key k (t_event_reactions s) = Some r"
  shows "unmark_event k s = Inr (s\<lparr>t_event_reactions := discard (\<lambda>x. er_id x = er_id r) (t_event_reactions s)\<rparr>)"
  using assms by (cases k) (simp add: unmark_event_def event_reaction_remove_def cheers_at_key value_of_def)

lemma mark_event_Inr:
  assumes "event_reactions_ok s" "\<not> cheered k s" "mark_event i now k s = Inr s'"
  obtains r where "s' = s\<lparr>t_event_reactions := t_event_reactions s @ [r]\<rparr>" "er_key r = k" "er_id r \<notin> er_id ` set (t_event_reactions s)"
  using assms event_reaction_add_Inr by (cases k) (fastforce simp: mark_event_def)

interpretation event_marks: marks event_reactions_ok cheered mark_event unmark_event
proof
  fix s s' k j i now
  assume ok: "event_reactions_ok s" and new: "\<not> cheered k s" and "mark_event i now k s = Inr s'"
  then obtain r where s': "s' = s\<lparr>t_event_reactions := t_event_reactions s @ [r]\<rparr>" and k: "er_key r = k" "er_id r \<notin> er_id ` set (t_event_reactions s)"
    by (rule mark_event_Inr)
  note M = mark_rows [of er_id er_key "t_event_reactions s" r]
  have old: "marks_ok er_id er_key (t_event_reactions s)" "er_key r \<notin> er_key ` set (t_event_reactions s)"
    using ok new k by (simp_all add: event_reactions_ok_def cheered_def)
  show "event_reactions_ok s' \<and> (cheered j s' \<longleftrightarrow> j = k \<or> cheered j s)"
    using M(1) old k unfolding s' by (simp add: event_reactions_ok_def cheered_def)
  show "unmark_event k s' = Inr s"
    using unmark_event_eq [of s' k r] M old k unfolding s' by (simp add: event_reactions_ok_def)
next
  fix s k
  assume ok: "event_reactions_ok s" and old: "cheered k s"
  then obtain r where r: "fetch er_key k (t_event_reactions s) = Some r" using marked_row [OF old [unfolded cheered_def]] by blast
  note gone = unmark_event_eq [OF ok r]
  then show "\<exists>s'. unmark_event k s = Inr s'" by simp
  fix s' j
  assume "unmark_event k s = Inr s'"
  then have s': "s' = s\<lparr>t_event_reactions := discard (\<lambda>x. er_id x = er_id r) (t_event_reactions s)\<rparr>" using gone by simp
  show "event_reactions_ok s' \<and> (cheered j s' \<longleftrightarrow> j \<noteq> k \<and> cheered j s)"
    using unmark_rows [OF _ r, of er_id] ok unfolding s' by (auto simp: event_reactions_ok_def cheered_def)
qed

section \<open>The invariant of the feed\<close>

text \<open>Identifiers are unique, replies answer a comment of the same thread that is no reply, marks are unique.\<close>

definition thread_ok :: "('r \<Rightarrow> uuid) \<Rightarrow> ('r \<Rightarrow> uuid option) \<Rightarrow> ('r \<Rightarrow> uuid) \<Rightarrow> 'r list \<Rightarrow> bool" where
  "thread_ok key parent topic rows \<longleftrightarrow> distinct (map key rows) \<and> depth_one key parent topic rows"

definition feed_ok :: "sess \<Rightarrow> bool" where
  "feed_ok s \<longleftrightarrow> distinct (map po_id (t_posts s)) \<and> distinct (map ph_id (t_post_highlights s)) \<and>
     distinct (map fe_id (t_feed_events s)) \<and> reactions_ok s \<and> event_reactions_ok s \<and>
     thread_ok pc_id pc_parent_id pc_post_id (t_post_comments s) \<and>
     thread_ok fc_id fc_parent_id fc_feed_event_id (t_feed_comments s)"

definition removed_posts :: "sess \<Rightarrow> uuid set" where
  "removed_posts s = {i. \<exists>p. fetch po_id i (t_posts s) = Some p \<and> po_deleted_at p \<noteq> None}"

text \<open>What a request may do to the feed: keep the invariant, and bring no deleted post back.\<close>

definition feed_effect :: "sess \<Rightarrow> sess \<Rightarrow> bool" where
  "feed_effect s s' \<longleftrightarrow> (feed_ok s \<longrightarrow> feed_ok s' \<and> removed_posts s \<subseteq> removed_posts s')"

lemma feed_effectI:
  assumes "feed_ok s \<Longrightarrow> feed_ok s'" "t_posts s' = t_posts s"
  shows "feed_effect s s'"
  using assms by (simp add: feed_effect_def removed_posts_def)

lemma feed_ok_stage [simp]: "feed_ok (stage_event e s) = feed_ok s"
  by (simp add: feed_ok_def reactions_ok_def event_reactions_ok_def stage_event_def)

lemma removed_stage [simp]: "removed_posts (stage_event e s) = removed_posts s"
  by (simp add: removed_posts_def stage_event_def)

lemma feed_effect_stage [simp]: "feed_effect s (if b then stage_event e s' else s') = feed_effect s s'"
  by (simp add: feed_effect_def)

lemma thread_snoc:
  assumes "thread_ok key parent topic rows" "key r \<notin> key ` set rows"
    and "\<And>p. parent r = Some p \<Longrightarrow> \<exists>q. fetch key p rows = Some q \<and> topic q = topic r \<and> parent q = None"
  shows "thread_ok key parent topic (rows @ [r])"
  unfolding thread_ok_def
proof (intro conjI)
  show "distinct (map key (rows @ [r]))" using assms(1,2) by (simp add: thread_ok_def)
  show "depth_one key parent topic (rows @ [r])"
  proof (rule depth_one_snoc)
    show "depth_one key parent topic rows" using assms(1) by (simp add: thread_ok_def)
    fix p assume "parent r = Some p"
    from assms(3) [OF this] show "\<exists>q \<in> set rows. key q = p \<and> topic q = topic r \<and> parent q = None"
      by (blast dest: fetch_SomeD)
  qed
qed

lemma thread_amend:
  assumes "thread_ok key parent topic rows"
    and "\<And>r. key (f r) = key r" "\<And>r. parent (f r) = parent r" "\<And>r. topic (f r) = topic r"
  shows "thread_ok key parent topic (amend key k f rows)"
  using assms by (simp add: thread_ok_def map_key_amend depth_one_amend)

text \<open>A hard delete takes the replies along, and leaves a well-formed thread.\<close>

lemma thread_cascade:
  assumes "thread_ok key parent topic rows"
  shows "thread_ok key parent topic (discard (\<lambda>c. key c \<in> set (cascade key parent (length rows) rows [k])) rows)"
  unfolding thread_ok_def
proof (intro conjI)
  show "distinct (map key (discard (\<lambda>c. key c \<in> set (cascade key parent (length rows) rows [k])) rows))"
    using assms by (auto simp: thread_ok_def intro: distinct_map_discard)
  show "depth_one key parent topic (discard (\<lambda>c. key c \<in> set (cascade key parent (length rows) rows [k])) rows)"
    unfolding discard_def cascade_exact
  proof (rule depth_one_filter)
    show "depth_one key parent topic rows" using assms by (simp add: thread_ok_def)
  qed (rule survivor_parent)
qed

section \<open>Every operation\<close>

lemma create_post_Inr:
  assumes "create_post st i now u b ty x ks s = Inr (r, s')"
  shows "s' = (if st then stage_event (PostCreated (po_id r) b u) (s\<lparr>t_posts := t_posts s @ [r]\<rparr>) else s\<lparr>t_posts := t_posts s @ [r]\<rparr>)"
    "po_id r \<notin> po_id ` set (t_posts s)"
  using assms by (auto simp: create_post_def repo_create_post_def Let_def insert_row_Inr_iff split: if_splits)

lemma create_post_effect:
  assumes "create_post st i now u b ty x ks s = Inr (r, s')"
  shows "feed_effect s s'"
proof -
  note C = create_post_Inr [OF assms]
  have old: "fetch po_id j (t_posts s @ [r]) = Some p" if "fetch po_id j (t_posts s) = Some p" for j p
    using that by (simp add: fetch_append)
  have "feed_effect s (s\<lparr>t_posts := t_posts s @ [r]\<rparr>)"
    using C(2) old by (auto simp: feed_effect_def feed_ok_def reactions_ok_def event_reactions_ok_def removed_posts_def)
  then show ?thesis unfolding C(1) by simp
qed

lemma delete_post_Inr:
  assumes "delete_post now u p s = Inr (x, s')"
  shows "s' = post_soft_delete p now s" "\<exists>r. post_by_id p s = Some r \<and> po_user_id r = u"
  using assms by (auto simp: delete_post_def split: option.splits if_splits)

lemma delete_post_effect:
  assumes "delete_post now u p s = Inr (x, s')"
  shows "feed_effect s s'"
  unfolding delete_post_Inr(1) [OF assms]
  by (auto simp: feed_effect_def feed_ok_def reactions_ok_def event_reactions_ok_def removed_posts_def post_soft_delete_def
      map_key_amend fetch_amend)

lemma toggle_reaction_Inr:
  assumes "feed_ok s" "toggle_reaction st i now u p ty s = Inr ((a, counts), s')"
  shows "\<exists>post s1. post_by_id p s = Some post \<and> post_marks.toggle i now (p, u, ty) s = Inr s1 \<and>
      a = (if reacted (p, u, ty) s then Removed else Added) \<and> counts = aggregate_for_post p s' \<and>
      s' = (if st \<and> a = Added then stage_event (ReactionAdded p u (po_user_id post) ty) s1 else s1)"
proof -
  obtain post where post: "post_by_id p s = Some post" using assms(2) by (auto simp: toggle_reaction_def)
  show ?thesis
  proof (cases "reacted (p, u, ty) s")
    case True
    then obtain n s1 where "reaction_remove p u ty s = Inr (n, s1)" "a = Removed" "s' = s1" "counts = aggregate_for_post p s'"
      using assms(2) post by (auto simp: toggle_reaction_def reacted_alt)
    then show ?thesis using True post by (simp add: post_marks.toggle_def unmark_post_def)
  next
    case False
    then obtain r s1 where "reaction_add i now p u ty s = Inr (r, s1)" "a = Added" "counts = aggregate_for_post p s'"
        "s' = (if st then stage_event (ReactionAdded p u (po_user_id post) ty) s1 else s1)"
      using assms(2) post by (auto simp: toggle_reaction_def reacted_alt)
    then show ?thesis using False post by (simp add: post_marks.toggle_def mark_post_def)
  qed
qed

lemma toggle_tables:
  assumes "reactions_ok s" "post_marks.toggle i now k s = Inr s'"
  shows "\<exists>rows. s' = s\<lparr>t_reactions := rows\<rparr> \<and> reactions_ok s'"
proof -
  have "reactions_ok s'" using assms by (rule post_marks.toggle_wf)
  moreover have "\<exists>rows. s' = s\<lparr>t_reactions := rows\<rparr>"
  proof (cases "reacted k s")
    case True
    then obtain r where "fetch rx_key k (t_reactions s) = Some r" using marked_row [OF True [unfolded reacted_def]] by blast
    then show ?thesis using assms True unmark_post_eq [of s k r] by (auto simp: post_marks.toggle_def)
  next
    case False
    then show ?thesis using assms by (auto simp: post_marks.toggle_def elim: mark_post_Inr)
  qed
  ultimately show ?thesis by blast
qed

lemma toggle_reaction_effect:
  assumes "toggle_reaction st i now u p ty s = Inr (x, s')"
  shows "feed_effect s s'"
  unfolding feed_effect_def
proof
  assume ok: "feed_ok s"
  obtain a c where x: "x = (a, c)" by (cases x)
  obtain post s1 where "post_by_id p s = Some post" and s1: "post_marks.toggle i now (p, u, ty) s = Inr s1"
      and s': "s' = (if st \<and> a = Added then stage_event (ReactionAdded p u (po_user_id post) ty) s1 else s1)"
    using toggle_reaction_Inr [OF ok assms [unfolded x]] by blast
  obtain rows where rows: "s1 = s\<lparr>t_reactions := rows\<rparr>" "reactions_ok s1"
    using toggle_tables [OF _ s1] ok by (auto simp: feed_ok_def)
  have "feed_ok s1 \<and> removed_posts s \<subseteq> removed_posts s1"
    using ok rows(2) unfolding rows(1) by (simp add: feed_ok_def event_reactions_ok_def removed_posts_def)
  then show "feed_ok s' \<and> removed_posts s \<subseteq> removed_posts s'" unfolding s' by simp
qed

lemma post_add_comment_Inr:
  assumes "post_add_comment st i now u p q x s = Inr (r, s')"
  shows "pc_post_id r = p \<and> pc_parent_id r = q \<and> pc_user_id r = u \<and> pc_id r \<notin> pc_id ` set (t_post_comments s) \<and>
    (\<forall>k. q = Some k \<longrightarrow> (\<exists>c. post_comment_by_id k s = Some c \<and> pc_post_id c = p \<and> pc_parent_id c = None)) \<and>
    (\<exists>post parent_author. post_by_id p s = Some post \<and>
       s' = (if st then stage_event (CommentAdded (pc_id r) p u (po_user_id post) parent_author) (s\<lparr>t_post_comments := t_post_comments s @ [r]\<rparr>)
             else s\<lparr>t_post_comments := t_post_comments s @ [r]\<rparr>))"
  using assms
  by (cases st) (auto simp: post_add_comment_def post_comment_create_def Let_def insert_row_Inr_iff split: if_splits option.splits)

lemma live_comment: "post_comment_by_id k s = Some c \<Longrightarrow> fetch pc_id k (t_post_comments s) = Some c"
  by (auto simp: post_comment_by_id_def split: option.splits if_splits)

lemma post_add_comment_effect:
  assumes "post_add_comment st i now u p q x s = Inr (r, s')"
  shows "feed_effect s s'"
proof -
  note C = post_add_comment_Inr [OF assms]
  have "feed_effect s (s\<lparr>t_post_comments := t_post_comments s @ [r]\<rparr>)"
  proof (rule feed_effectI)
    assume ok: "feed_ok s"
    have "thread_ok pc_id pc_parent_id pc_post_id (t_post_comments s @ [r])"
    proof (rule thread_snoc)
      show "thread_ok pc_id pc_parent_id pc_post_id (t_post_comments s)" using ok by (simp add: feed_ok_def)
      fix k assume "pc_parent_id r = Some k"
      then obtain c where c: "post_comment_by_id k s = Some c" "pc_post_id c = p" "pc_parent_id c = None" using C by blast
      have "fetch pc_id k (t_post_comments s) = Some c" by (rule live_comment [OF c(1)])
      then show "\<exists>q. fetch pc_id k (t_post_comments s) = Some q \<and> pc_post_id q = pc_post_id r \<and> pc_parent_id q = None"
        using c C by simp
    qed (use C in simp)
    then show "feed_ok (s\<lparr>t_post_comments := t_post_comments s @ [r]\<rparr>)"
      using ok by (simp add: feed_ok_def reactions_ok_def event_reactions_ok_def)
  qed simp
  then show ?thesis using C by auto
qed

lemma post_delete_comment_effect:
  assumes "post_delete_comment now u k s = Inr (x, s')"
  shows "feed_effect s s'"
proof -
  have s': "s' = post_comment_soft_delete k now s" using assms by (auto simp: post_delete_comment_def split: option.splits if_splits)
  show ?thesis unfolding s'
    by (rule feed_effectI)
      (simp_all add: feed_ok_def reactions_ok_def event_reactions_ok_def post_comment_soft_delete_def thread_amend)
qed

lemma highlights_effect:
  assumes "s' = s\<lparr>t_post_highlights := rows\<rparr>" "distinct (map ph_id (t_post_highlights s)) \<Longrightarrow> distinct (map ph_id rows)"
  shows "feed_effect s s'"
  using assms(2) unfolding assms(1)
  by (intro feed_effectI) (simp_all add: feed_ok_def reactions_ok_def event_reactions_ok_def)

lemma create_highlight_effect:
  assumes "create_highlight i now u ub q pg n s = Inr (r, s')"
  shows "feed_effect s s'"
proof (rule highlights_effect)
  show "s' = s\<lparr>t_post_highlights := t_post_highlights s @ [r]\<rparr>"
    using assms by (auto simp: create_highlight_def repo_create_highlight_def Let_def insert_row_Inr_iff split: if_splits)
  show "distinct (map ph_id (t_post_highlights s @ [r]))" if "distinct (map ph_id (t_post_highlights s))"
    using assms that by (auto simp: create_highlight_def repo_create_highlight_def Let_def insert_row_Inr_iff split: if_splits)
qed

lemma own_highlight_Inr: "own_highlight u h s = Inr r \<longleftrightarrow> highlight_by_id h s = Some r \<and> ph_user_id r = u"
  by (auto simp: own_highlight_def split: option.splits)

lemma delete_highlight_effect:
  assumes "delete_highlight u h s = Inr (x, s')"
  shows "feed_effect s s'"
  using assms by (auto simp: delete_highlight_def repo_delete_highlight_def intro!: highlights_effect [OF refl] distinct_map_discard)

lemma update_highlight_visibility_effect:
  assumes "update_highlight_visibility u h v s = Inr (x, s')"
  shows "feed_effect s s'"
  using assms
  by (auto simp: update_highlight_visibility_def set_visibility_def map_key_amend intro!: highlights_effect [OF refl] split: if_splits)

lemma share_Inr:
  assumes "share_highlight_to_feed w i now u h s = Inr (e, s')"
  shows "\<exists>row. highlight_by_id h s = Some row \<and> ph_user_id row = u \<and>
    (ph_shared_at row \<noteq> None \<and> find_highlight_share h s = Some e \<and> s' = s \<or>
     (ph_shared_at row = None \<or> find_highlight_share h s = None) \<and> shares h e \<and> fe_id e \<notin> fe_id ` set (t_feed_events s) \<and>
       s' = mark_shared h now s\<lparr>t_feed_events := t_feed_events s @ [e]\<rparr>)"
  using assms
  by (auto simp: share_highlight_to_feed_def own_highlight_Inr create_event_def Let_def insert_row_Inr_iff mark_shared_def shares_def
      split: if_splits option.splits)

lemma share_effect:
  assumes "share_highlight_to_feed w i now u h s = Inr (e, s')"
  shows "feed_effect s s'"
  using share_Inr [OF assms]
  by (auto simp: feed_effect_def feed_ok_def reactions_ok_def event_reactions_ok_def removed_posts_def mark_shared_def map_key_amend)

section \<open>The social side of the stream\<close>

lemma toggle_feed_reaction_Inr:
  assumes "feed_ok s" "toggle_feed_reaction w i now e u x s = Inr ((a, shown, push), s')"
  shows "\<exists>ev. feed_event_by_id e s = Some ev \<and> event_marks.toggle i now (e, u, x) s = Inr s' \<and>
      a = (if cheered (e, u, x) s then Removed else Added) \<and> shown = get_for_event e s' \<and>
      push = (if a = Added \<and> u \<noteq> fe_user_id ev then Some (fe_user_id ev) else None)"
proof -
  have has: "has_reacted e u x s = Inr (cheered (e, u, x) s)" using assms(1) by (simp add: has_reacted_eq feed_ok_def)
  obtain ev where ev: "feed_event_by_id e s = Some ev" using assms(2) by (auto simp: toggle_feed_reaction_def split: if_splits)
  show ?thesis
  proof (cases "cheered (e, u, x) s")
    case True
    then show ?thesis using assms(2) ev has
      by (auto simp: toggle_feed_reaction_def event_marks.toggle_def unmark_event_def value_of_def split: if_splits)
  next
    case False
    then show ?thesis using assms(2) ev has
      by (auto simp: toggle_feed_reaction_def event_marks.toggle_def mark_event_def value_of_def split: if_splits)
  qed
qed

lemma event_toggle_tables:
  assumes "event_reactions_ok s" "event_marks.toggle i now k s = Inr s'"
  shows "\<exists>rows. s' = s\<lparr>t_event_reactions := rows\<rparr> \<and> event_reactions_ok s'"
proof -
  have "event_reactions_ok s'" using assms by (rule event_marks.toggle_wf)
  moreover have "\<exists>rows. s' = s\<lparr>t_event_reactions := rows\<rparr>"
  proof (cases "cheered k s")
    case True
    then obtain r where "fetch er_key k (t_event_reactions s) = Some r" using marked_row [OF True [unfolded cheered_def]] by blast
    then show ?thesis using assms True unmark_event_eq [of s k r] by (auto simp: event_marks.toggle_def)
  next
    case False
    then show ?thesis using assms by (auto simp: event_marks.toggle_def elim: mark_event_Inr)
  qed
  ultimately show ?thesis by blast
qed

lemma toggle_feed_reaction_effect:
  assumes "toggle_feed_reaction w i now e u x s = Inr (v, s')"
  shows "feed_effect s s'"
  unfolding feed_effect_def
proof
  assume ok: "feed_ok s"
  obtain a m q where v: "v = (a, m, q)" by (cases v)
  have t: "event_marks.toggle i now (e, u, x) s = Inr s'" using toggle_feed_reaction_Inr [OF ok assms [unfolded v]] by blast
  obtain rows where rows: "s' = s\<lparr>t_event_reactions := rows\<rparr>" "event_reactions_ok s'"
    using event_toggle_tables [OF _ t] ok by (auto simp: feed_ok_def)
  show "feed_ok s' \<and> removed_posts s \<subseteq> removed_posts s'"
    using ok rows(2) unfolding rows(1) by (simp add: feed_ok_def reactions_ok_def removed_posts_def)
qed

lemma add_feed_comment_Inr:
  assumes "add_feed_comment w i now e u q x s = Inr ((r, push), s')"
  shows "fc_feed_event_id r = e \<and> fc_parent_id r = q \<and> fc_user_id r = u \<and> fc_id r \<notin> fc_id ` set (t_feed_comments s) \<and>
    (\<forall>k. q = Some k \<longrightarrow> (\<exists>c. feed_comment_by_id k s = Some c \<and> fc_feed_event_id c = e \<and> fc_parent_id c = None)) \<and>
    s' = s\<lparr>t_feed_comments := t_feed_comments s @ [r]\<rparr>"
  using assms
  by (auto simp: add_feed_comment_def feed_comment_create_def Let_def insert_row_Inr_iff split: if_splits option.splits)

lemma add_feed_comment_effect:
  assumes "add_feed_comment w i now e u q x s = Inr (v, s')"
  shows "feed_effect s s'"
proof -
  obtain r push where v: "v = (r, push)" by (cases v)
  note C = add_feed_comment_Inr [OF assms [unfolded v]]
  have s': "s' = s\<lparr>t_feed_comments := t_feed_comments s @ [r]\<rparr>" using C by blast
  show ?thesis
  proof (rule feed_effectI)
    assume ok: "feed_ok s"
    have "thread_ok fc_id fc_parent_id fc_feed_event_id (t_feed_comments s @ [r])"
    proof (rule thread_snoc)
      show "thread_ok fc_id fc_parent_id fc_feed_event_id (t_feed_comments s)" using ok by (simp add: feed_ok_def)
      fix k assume "fc_parent_id r = Some k"
      then obtain c where "feed_comment_by_id k s = Some c" "fc_feed_event_id c = e" "fc_parent_id c = None" using C by blast
      then show "\<exists>q. fetch fc_id k (t_feed_comments s) = Some q \<and> fc_feed_event_id q = fc_feed_event_id r \<and> fc_parent_id q = None"
        using C by (simp add: feed_comment_by_id_def)
    qed (use C in simp)
    then show "feed_ok s'" using ok unfolding s' by (simp add: feed_ok_def reactions_ok_def event_reactions_ok_def)
  qed (simp add: s')
qed

lemma delete_feed_comment_Inr:
  assumes "delete_feed_comment w k u s = Inr (x, s')"
  shows "s' = s\<lparr>t_feed_comments := discard (\<lambda>c. fc_id c \<in> set (cascade fc_id fc_parent_id (length (t_feed_comments s))
      (t_feed_comments s) [k])) (t_feed_comments s)\<rparr>"
  using assms by (auto simp: delete_feed_comment_def feed_comment_delete_def split: if_splits option.splits)

lemma delete_feed_comment_effect:
  assumes "delete_feed_comment w k u s = Inr (x, s')"
  shows "feed_effect s s'"
  unfolding delete_feed_comment_Inr [OF assms]
  by (rule feed_effectI) (simp_all add: feed_ok_def reactions_ok_def event_reactions_ok_def thread_cascade)

section \<open>The machine\<close>

datatype feed_op =
    NewPost bool uuid datetime uuid uuid post_type pystr "pystr list"
  | DropPost datetime uuid uuid
  | React bool uuid datetime uuid uuid reaction_type
  | CommentPost bool uuid datetime uuid uuid "uuid option" pystr
  | DropComment datetime uuid uuid
  | NewHighlight uuid datetime uuid uuid pystr "int option" "pystr option"
  | DropHighlight uuid uuid
  | SetVisibility uuid uuid string
  | Share bool uuid datetime uuid uuid
  | Cheer bool uuid datetime uuid uuid pystr
  | CommentEvent bool uuid datetime uuid uuid "uuid option" pystr
  | DropEventComment bool uuid uuid

primrec feed_step :: "feed_op \<Rightarrow> sess \<Rightarrow> sess result" where
  "feed_step (NewPost st i now u b ty x ks) s = value_of (create_post st i now u b ty x ks s)"
| "feed_step (DropPost now u p) s = value_of (delete_post now u p s)"
| "feed_step (React st i now u p ty) s = value_of (toggle_reaction st i now u p ty s)"
| "feed_step (CommentPost st i now u p q x) s = value_of (post_add_comment st i now u p q x s)"
| "feed_step (DropComment now u k) s = value_of (post_delete_comment now u k s)"
| "feed_step (NewHighlight i now u ub q pg n) s = value_of (create_highlight i now u ub q pg n s)"
| "feed_step (DropHighlight u h) s = value_of (delete_highlight u h s)"
| "feed_step (SetVisibility u h v) s = value_of (update_highlight_visibility u h v s)"
| "feed_step (Share w i now u h) s = value_of (share_highlight_to_feed w i now u h s)"
| "feed_step (Cheer w i now e u x) s = value_of (toggle_feed_reaction w i now e u x s)"
| "feed_step (CommentEvent w i now e u q x) s = value_of (add_feed_comment w i now e u q x s)"
| "feed_step (DropEventComment w k u) s = value_of (delete_feed_comment w k u s)"

lemmas feed_ops = create_post_effect delete_post_effect toggle_reaction_effect post_add_comment_effect
  post_delete_comment_effect create_highlight_effect delete_highlight_effect update_highlight_visibility_effect
  share_effect toggle_feed_reaction_effect add_feed_comment_effect delete_feed_comment_effect

lemma feed_step_effect: "feed_step x s = Inr s' \<Longrightarrow> feed_effect s s'"
  by (cases x; simp only: feed_step.simps value_of_Inr; elim exE; rule feed_ops, assumption)

interpretation feed: monotone_machine feed_step feed_ok removed_posts
proof
  fix s x s' assume "feed_ok s" "feed_step x s = Inr s'"
  with feed_step_effect [of x s s'] show "feed_ok s'" "removed_posts s \<subseteq> removed_posts s'"
    by (simp_all add: feed_effect_def)
qed

end
