(* ===== verification/FeedProps.thy ===== *)
theory FeedProps
  imports FeedLaws Paging
begin

text \<open>
  Properties of the feed, on any state whose tables are well formed (\<open>feed_ok\<close>), with the small
  feed \<open>wall\<close> for the witnesses.
\<close>

section \<open>A small feed\<close>

definition demo_post :: post where
  "demo_post = \<lparr>po_id = 900, po_book_id = 10, po_user_id = 1, po_post_type = THOUGHT, po_content = ascii ''hello'',
     po_image_keys = [], po_created_at = t0, po_deleted_at = None\<rparr>"

definition demo_highlight :: post_highlight where
  "demo_highlight = \<lparr>ph_id = 910, ph_user_id = 1, ph_user_book_id = 100, ph_quote_text = ascii ''quote'', ph_page_number = None,
     ph_note_text = None, ph_visibility = ''private'', ph_shared_at = None, ph_deleted_at = None, ph_created_at = t0\<rparr>"

definition demo_event :: feed_event where
  "demo_event = \<lparr>fe_id = 920, fe_user_id = 1, fe_event_type = ''BOOK_COMPLETED'', fe_metadata = [(''book_id'', JUuid 10)], fe_created_at = t0\<rparr>"

definition wall :: sess where
  "wall = demo\<lparr>t_posts := [demo_post], t_post_highlights := [demo_highlight], t_feed_events := [demo_event]\<rparr>"

lemma wall_tables [simp]:
  "t_posts wall = [demo_post]" "t_post_highlights wall = [demo_highlight]" "t_feed_events wall = [demo_event]" "t_reactions wall = []"
  "t_post_comments wall = []" "t_event_reactions wall = []" "t_feed_comments wall = []" "t_users wall = [demo_user 1, demo_user 2, demo_user 3]"
  "t_books wall = [demo_book]" "t_user_books wall = [demo_user_book]"
  by (simp_all add: wall_def demo_def empty_sess_def)

lemma demo_feed_fields [simp]:
  "po_id demo_post = 900" "po_deleted_at demo_post = None" "po_user_id demo_post = 1" "ph_id demo_highlight = 910" "ph_user_id demo_highlight = 1"
  "po_created_at demo_post = t0" "po_book_id demo_post = 10"
  "ph_shared_at demo_highlight = None" "fe_id demo_event = 920" "fe_user_id demo_event = 1" "shares h demo_event = False" "fe_created_at demo_event = t0"
  by (simp_all add: demo_post_def demo_highlight_def demo_event_def shares_def)

lemma wall_ok: "feed_ok wall"
  by (simp add: feed_ok_def reactions_ok_def event_reactions_ok_def marks_ok_def thread_ok_def)

section \<open>Reactions\<close>

text \<open>How many readers gave a reaction, from the keys of the table alone.\<close>

lemma aggregate_card:
  assumes "reactions_ok s"
  shows "length (filter (\<lambda>r. rx_post_id r = p \<and> rx_reaction_type r = ty) (t_reactions s)) = card {u. reacted (p, u, ty) s}"
proof -
  let ?rows = "filter (\<lambda>r. rx_post_id r = p \<and> rx_reaction_type r = ty) (t_reactions s)"
  have "distinct (map rx_key ?rows)" using assms by (simp add: reactions_ok_def marks_ok_def distinct_map_filter)
  moreover have "map rx_key ?rows = map (\<lambda>u. (p, u, ty)) (map rx_user_id ?rows)" by (simp add: rx_key_def)
  ultimately have "distinct (map (\<lambda>u. (p, u, ty)) (map rx_user_id ?rows))" by (simp only:)
  then have "distinct (map rx_user_id ?rows)" unfolding distinct_map [of _ "map rx_user_id ?rows"] by (rule conjunct1)
  then have "length ?rows = card (set (map rx_user_id ?rows))" by (simp only: distinct_card length_map)
  also have "set (map rx_user_id ?rows) = {u. reacted (p, u, ty) s}" by (auto simp: reacted_def rx_key_def image_iff)
  finally show ?thesis .
qed

lemma aggregate_cong:
  assumes "reactions_ok s" "reactions_ok s'" "\<And>u ty. reacted (p, u, ty) s' \<longleftrightarrow> reacted (p, u, ty) s"
  shows "aggregate_for_post p s' = aggregate_for_post p s"
  using assms by (intro ext) (simp add: aggregate_for_post_def aggregate_card)

lemma toggle_reaction_marks:
  assumes "feed_ok s" "toggle_reaction st i now u p ty s = Inr ((a, counts), s')"
  shows "feed_ok s' \<and> counts = aggregate_for_post p s' \<and> (a = Removed \<longleftrightarrow> reacted (p, u, ty) s) \<and>
    (\<forall>j. reacted j s' \<longleftrightarrow> (if j = (p, u, ty) then \<not> reacted j s else reacted j s))"
proof -
  have ok: "reactions_ok s" using assms(1) by (simp add: feed_ok_def)
  obtain post s1 where post: "post_by_id p s = Some post" and t: "post_marks.toggle i now (p, u, ty) s = Inr s1"
      and a: "a = (if reacted (p, u, ty) s then Removed else Added)" "counts = aggregate_for_post p s'"
      and s': "s' = (if st \<and> a = Added then stage_event (ReactionAdded p u (po_user_id post) ty) s1 else s1)"
    using toggle_reaction_Inr [OF assms] by blast
  have "reacted j s' \<longleftrightarrow> reacted j s1" for j by (simp add: s' reacted_def stage_event_def)
  moreover have "feed_ok s'" using feed.step_inv [of s "React st i now u p ty" s'] assms by (simp add: value_of_def)
  ultimately show ?thesis using post_marks.toggle_marked [OF ok t] a by simp
qed

text \<open>
  A reaction is a switch: asking for the same reaction twice is answered once with added and
  once with removed, and leaves the counts of every reaction to the post and the reader's own
  reactions as they were.
\<close>

theorem reaction_toggles_back:
  assumes "feed_ok s" "toggle_reaction st i now u p ty s = Inr ((a, c1), s1)" "toggle_reaction st j now' u p ty s1 = Inr ((b, c2), s2)"
  shows "a \<noteq> b \<and> c2 = aggregate_for_post p s \<and> reactions_by_user p u s2 = reactions_by_user p u s"
proof -
  note A = toggle_reaction_marks [OF assms(1,2)]
  have ok1: "feed_ok s1" using A by blast
  note B = toggle_reaction_marks [OF ok1 assms(3)]
  have "reacted k s1 \<longleftrightarrow> (if k = (p, u, ty) then \<not> reacted k s else reacted k s)"
      "reacted k s2 \<longleftrightarrow> (if k = (p, u, ty) then \<not> reacted k s1 else reacted k s1)" for k using A B by blast+
  then have same: "reacted k s2 \<longleftrightarrow> reacted k s" for k by simp
  have "c2 = aggregate_for_post p s"
    using B aggregate_cong [of s s2 p] same assms(1) by (simp add: feed_ok_def)
  moreover have "reactions_by_user p u s2 = reactions_by_user p u s" using same by (auto simp: set_eq_iff reacted_alt)
  moreover have "a \<noteq> b" using A B by (cases a; cases b) auto
  ultimately show ?thesis by blast
qed

lemma wall_toggles:
  "\<exists>c1 s1 c2 s2. toggle_reaction True 930 t0 2 900 FIRE wall = Inr ((Added, c1), s1) \<and> toggle_reaction True 931 t0 2 900 FIRE s1 = Inr ((Removed, c2), s2)"
  by (simp add: toggle_reaction_def post_by_id_def reacted_alt reacted_def reaction_add_def reaction_remove_def insert_row_def rx_key_def user_exists_def
      stage_event_def Let_def)

lemma reaction_toggles_back_witness:
  "\<exists>c1 s1 c2 s2. toggle_reaction True 930 t0 2 900 FIRE wall = Inr ((Added, c1), s1) \<and> toggle_reaction True 931 t0 2 900 FIRE s1 = Inr ((Removed, c2), s2) \<and>
     c2 = aggregate_for_post 900 wall"
  using wall_toggles reaction_toggles_back [OF wall_ok, of True 930 t0 2 900 FIRE] by blast

section \<open>Sharing a highlight\<close>

lemma mark_shared_at: "highlight_by_id h (mark_shared h now s) =
    map_option (\<lambda>r. r\<lparr>ph_shared_at := Some now, ph_visibility := ''public''\<rparr>) (highlight_by_id h s)"
  by (simp add: highlight_by_id_def mark_shared_def fetch_amend)

text \<open>
  A highlight has one card in the stream: sharing it again answers the same event and changes
  nothing, so a client may retry. (The hypothesis says that a highlight that was never shared has
  no card, and one that was shared has at most one.)
\<close>

theorem share_once:
  assumes "share_highlight_to_feed True i now u h s = Inr (e, s1)"
    and "highlight_by_id h s = Some row"
    and "filter (shares h) (t_feed_events s) = (if ph_shared_at row = None then [] else cards)" "length cards \<le> 1"
  shows "share_highlight_to_feed True j later u h s1 = Inr (e, s1) \<and> filter (shares h) (t_feed_events s1) = [e]"
proof -
  have u: "ph_user_id row = u" and cases: "ph_shared_at row \<noteq> None \<and> find_highlight_share h s = Some e \<and> s1 = s \<or>
     (ph_shared_at row = None \<or> find_highlight_share h s = None) \<and> shares h e \<and> s1 = mark_shared h now s\<lparr>t_feed_events := t_feed_events s @ [e]\<rparr>"
    using share_Inr [OF assms(1)] assms(2) by auto
  from cases show ?thesis
  proof
    assume old: "ph_shared_at row \<noteq> None \<and> find_highlight_share h s = Some e \<and> s1 = s"
    then have "filter (shares h) (t_feed_events s) = [e]"
      using assms(3,4) by (cases cards) (auto simp: find_highlight_share_def order_asc_def)
    then show ?thesis using old assms(2) u by (simp add: share_highlight_to_feed_def own_highlight_def)
  next
    assume new: "(ph_shared_at row = None \<or> find_highlight_share h s = None) \<and> shares h e \<and>
       s1 = mark_shared h now s\<lparr>t_feed_events := t_feed_events s @ [e]\<rparr>"
    have none: "filter (shares h) (t_feed_events s) = []"
    proof (cases "ph_shared_at row = None")
      case True
      then show ?thesis using assms(3) by simp
    next
      case False
      then have "order_asc fe_created_at (filter (shares h) (t_feed_events s)) = []"
        using new by (auto simp: find_highlight_share_def split: list.splits)
      then show ?thesis by (metis length_0_conv length_order_asc)
    qed
    have ev: "t_feed_events s1 = t_feed_events s @ [e]" and ph: "highlight_by_id h s1 = highlight_by_id h (mark_shared h now s)"
      using new by (simp_all add: highlight_by_id_def)
    have one: "filter (shares h) (t_feed_events s1) = [e]" unfolding ev using none new by simp
    then have "find_highlight_share h s1 = Some e" by (simp add: find_highlight_share_def order_asc_def)
    then show ?thesis
      using one ph assms(2) u by (simp add: share_highlight_to_feed_def own_highlight_def mark_shared_at)
  qed
qed

lemma wall_share: "\<exists>e s1. share_highlight_to_feed True 940 t0 1 910 wall = Inr (e, s1)"
  by (simp add: share_highlight_to_feed_def own_highlight_def highlight_by_id_def create_event_def insert_row_def mark_shared_def
      user_exists_def Let_def)

lemma share_once_witness:
  "\<exists>e s1. share_highlight_to_feed True 940 t0 1 910 wall = Inr (e, s1) \<and> share_highlight_to_feed True 941 t0 1 910 s1 = Inr (e, s1)"
  using wall_share share_once [of 940 t0 1 910 wall _ _ demo_highlight "[]" 941 t0] by (auto simp: highlight_by_id_def)

text \<open>
  Taking a shared highlight back leaves its card, with the quote, in the stream; sharing it once
  more answers the old card and does not make the highlight public again.
\<close>

lemma unshared_card_stays:
  "\<exists>e s1 s2 r. share_highlight_to_feed True 940 t0 1 910 wall = Inr (e, s1) \<and>
     update_highlight_visibility 1 910 ''private'' s1 = Inr (r, s2) \<and>
     e \<in> set (t_feed_events s2) \<and> map_of (fe_metadata e) ''quote_text'' = Some (JText (ascii ''quote'')) \<and>
     share_highlight_to_feed True 941 (t0 + 1) 1 910 s2 = Inr (e, s2) \<and>
     map_option ph_visibility (highlight_by_id 910 s2) = Some ''private''"
  by (simp add: share_highlight_to_feed_def own_highlight_def highlight_by_id_def create_event_def insert_row_def mark_shared_def
      user_exists_def Let_def update_highlight_visibility_def HIGHLIGHT_VISIBILITIES_def set_visibility_def find_highlight_share_def
      order_asc_def shares_def demo_highlight_def demo_event_def)

section \<open>Threads and deleted posts\<close>

lemma set_oldest_first [simp]: "set (oldest_first f g rows) = set rows"
  by (simp add: oldest_first_def)

lemma set_newest_first [simp]: "set (newest_first f g rows) = set rows"
  by (simp add: newest_first_def)

text \<open>
  C6. Whatever requests the feed has served, the comments shown under an event form whole threads
  one level deep: every reply shown answers a comment that is shown with it and is not itself a
  reply. Deleting a comment takes its replies along, and a reply to a reply is refused.
\<close>

theorem threads_stay_whole:
  assumes "feed_ok s" "c \<in> set (get_feed_comments True e (run feed_step s xs))" "fc_parent_id c = Some p"
  shows "\<exists>r \<in> set (get_feed_comments True e (run feed_step s xs)). fc_id r = p \<and> fc_parent_id r = None"
proof -
  let ?s = "run feed_step s xs"
  have "feed_ok ?s" using assms(1) by (rule feed.run_inv)
  then have "depth_one fc_id fc_parent_id fc_feed_event_id (t_feed_comments ?s)" by (simp add: feed_ok_def thread_ok_def)
  from depth_oneD [OF this _ assms(3)] assms(2) show ?thesis
    by (fastforce simp: get_feed_comments_def list_for_event_def)
qed

lemma wall_thread:
  "\<exists>c \<in> set (get_feed_comments True 920 (run feed_step wall
       [CommentEvent True 950 t0 920 2 None [97], CommentEvent True 951 t0 920 3 (Some 950) [98], CommentEvent True 952 t0 920 1 (Some 951) [99]])).
     fc_id c = 951 \<and> fc_parent_id c = Some 950"
  by (simp add: value_of_def add_feed_comment_def feed_event_by_id_def feed_comment_by_id_def feed_comment_create_def insert_row_def user_exists_def
      FEED_COMMENT_MAX_def get_feed_comments_def list_for_event_def Let_def)

lemma threads_stay_whole_witness:
  "\<exists>r \<in> set (get_feed_comments True 920 (run feed_step wall
       [CommentEvent True 950 t0 920 2 None [97], CommentEvent True 951 t0 920 3 (Some 950) [98], CommentEvent True 952 t0 920 1 (Some 951) [99]])).
     fc_id r = 950 \<and> fc_parent_id r = None"
  using wall_thread threads_stay_whole [OF wall_ok] by blast

text \<open>
  A deleted post is gone for good: after any further requests no timeline shows it, and
  reactions to it, comments on it and another deletion are all refused with 404.
\<close>

theorem deleted_post_is_gone:
  assumes "feed_ok s" "delete_post now u p s = Inr ((), s1)" and s': "s' = run feed_step s1 xs"
  shows "p \<notin> (\<lambda>i. po_id (pi_post i)) ` set (fst (list_posts_by_book url b v cursor limit s')) \<and>
    toggle_reaction st i later w p ty s' = Inl post_missing \<and>
    (x \<noteq> [] \<and> length x \<le> COMMENT_MAX \<longrightarrow> post_add_comment st i later w p q x s' = Inl post_missing) \<and>
    delete_post later w p s' = Inl post_missing"
proof -
  have ok1: "feed_ok s1" using feed.step_inv [of s "DropPost now u p" s1] assms(1,2) by (simp add: value_of_def)
  have ok: "feed_ok s'" unfolding s' by (rule feed.run_inv [OF ok1])
  obtain r where r: "post_by_id p s = Some r" and s1: "s1 = post_soft_delete p now s" using delete_post_Inr [OF assms(2)] by blast
  have "fetch po_id p (t_posts s) = Some r" using r by (auto simp: post_by_id_def split: option.splits if_splits)
  then have "p \<in> removed_posts s1" by (simp add: removed_posts_def s1 post_soft_delete_def fetch_amend)
  then have "p \<in> removed_posts s'" using feed.run_rank [OF ok1, of xs] unfolding s' by blast
  then obtain d where d: "fetch po_id p (t_posts s') = Some d" "po_deleted_at d \<noteq> None" by (auto simp: removed_posts_def)
  then have none: "post_by_id p s' = None" by (simp add: post_by_id_def)
  have gone: "po_id k \<noteq> p" if "k \<in> set (list_by_book b cursor n s')" for k n
  proof
    assume k: "po_id k = p"
    have "k \<in> set (t_posts s')" "po_deleted_at k = None" using that by (auto simp: list_by_book_def dest!: in_set_takeD)
    then show False using d fetch_distinct [of po_id "t_posts s'" k] ok k by (simp add: feed_ok_def)
  qed
  have "p \<notin> (\<lambda>i. po_id (pi_post i)) ` set (fst (list_posts_by_book url b v cursor limit s'))"
    by (auto simp: list_posts_by_book_def Let_def dest: gone)
  then show ?thesis using none by (auto simp: toggle_reaction_def post_add_comment_def delete_post_def)
qed

lemma deleted_post_is_gone_witness:
  "\<exists>s1. delete_post t0 1 900 wall = Inr ((), s1) \<and> delete_post (t0 + 1) 1 900 (run feed_step s1 [React True 930 t0 2 900 FIRE]) = Inl post_missing"
proof -
  have "delete_post t0 1 900 wall = Inr ((), post_soft_delete 900 t0 wall)" by (simp add: delete_post_def post_by_id_def)
  with deleted_post_is_gone [OF wall_ok this refl] show ?thesis by blast
qed

section \<open>What the stream shows\<close>

lemma newest_sorted: "sorted_wrt (\<lambda>x y. f y \<le> f x) (newest_first f g rows)"
  unfolding newest_first_def by (rule sorted_order_desc)

text \<open>
  Each item of the global feed carries exactly the reactions of its event and as many
  comments as the comment endpoint lists for it; at most 50 items are shown, newest first, and
  each is older than the cursor.
\<close>

theorem global_feed_items:
  "length (get_global_feed True cursor limit s) \<le> 50 \<and>
   sorted_wrt (\<lambda>x y. fe_created_at (fi_event y) \<le> fe_created_at (fi_event x)) (get_global_feed True cursor limit s) \<and>
   (\<forall>it \<in> set (get_global_feed True cursor limit s).
     fi_reactions it = filter (\<lambda>r. er_feed_event_id r = fe_id (fi_event it)) (t_event_reactions s) \<and>
     fi_comment_count it = length (get_feed_comments True (fe_id (fi_event it)) s) \<and>
     before cursor (fe_created_at (fi_event it)))"
proof (intro conjI)
  have len: "length (oldest_first f g rows) = length rows" for f g and rows :: "feed_comment list" by (simp add: oldest_first_def)
  have "clamp limit 50 \<le> 50" by (simp add: clamp_def)
  moreover have "length (list_global cursor (clamp limit 50) s) \<le> clamp limit 50" by (simp add: list_global_def)
  ultimately show "length (get_global_feed True cursor limit s) \<le> 50" by (simp add: get_global_feed_def enrich_events_def Let_def)
  have "sorted_wrt (\<lambda>x y. fe_created_at y \<le> fe_created_at x) (list_global cursor (clamp limit 50) s)"
    unfolding list_global_def by (intro sorted_wrt_take newest_sorted)
  then show "sorted_wrt (\<lambda>x y. fe_created_at (fi_event y) \<le> fe_created_at (fi_event x)) (get_global_feed True cursor limit s)"
    by (simp add: get_global_feed_def enrich_events_def Let_def sorted_wrt_map)
  show "\<forall>it \<in> set (get_global_feed True cursor limit s).
     fi_reactions it = filter (\<lambda>r. er_feed_event_id r = fe_id (fi_event it)) (t_event_reactions s) \<and>
     fi_comment_count it = length (get_feed_comments True (fe_id (fi_event it)) s) \<and>
     before cursor (fe_created_at (fi_event it))"
    by (auto simp: get_global_feed_def enrich_events_def Let_def get_for_events_def get_for_event_def comment_counts_for_events_def
        get_feed_comments_def list_for_event_def len list_global_def dest!: in_set_takeD)
qed

lemma global_feed_items_witness:
  "length (get_global_feed True (Some (t0 + 1)) 10 wall) \<le> 50 \<and> get_global_feed True (Some t0) 10 wall = []"
  using global_feed_items [of "Some (t0 + 1)" 10 wall]
  by (simp add: get_global_feed_def enrich_events_def list_global_def before_def newest_first_def order_desc_def)

section \<open>Walking a timeline\<close>

definition timeline :: "uuid \<Rightarrow> sess \<Rightarrow> post list" where
  "timeline book_id s = newest_first po_created_at po_id (filter (\<lambda>p. po_book_id p = book_id \<and> po_deleted_at p = None) (t_posts s))"

definition timeline_page :: "(pystr \<Rightarrow> pystr) \<Rightarrow> uuid \<Rightarrow> uuid \<Rightarrow> int \<Rightarrow> sess \<Rightarrow> datetime option \<Rightarrow> post list \<times> datetime option" where
  "timeline_page url book_id viewer limit s c = (case list_posts_by_book url book_id viewer c limit s of (items, nxt) \<Rightarrow> (map pi_post items, nxt))"

lemma timeline_page_eq:
  "timeline_page url b v limit s c =
     (let rows = take (clamp limit 50) (filter (beyond (\<lambda>p. - po_created_at p) uminus c) (timeline b s))
      in (rows, if rows \<noteq> [] \<and> length rows = clamp limit 50 then Some (po_created_at (last rows)) else None))"
proof -
  have "filter (\<lambda>p. po_book_id p = b \<and> po_deleted_at p = None \<and> before c (po_created_at p)) (t_posts s) =
      filter (beyond (\<lambda>p. - po_created_at p) uminus c) (filter (\<lambda>p. po_book_id p = b \<and> po_deleted_at p = None) (t_posts s))"
    unfolding filter_filter by (intro filter_cong) (auto simp: beyond_def before_def split: option.splits)
  then have rows: "list_by_book b c n s = take n (filter (beyond (\<lambda>p. - po_created_at p) uminus c) (timeline b s))" for n
    by (simp add: list_by_book_def timeline_def newest_first_def order_desc_def filter_sort)
  show ?thesis unfolding timeline_page_def list_posts_by_book_def rows by (simp add: Let_def o_def)
qed

lemma timeline_sorted: "sorted (map (\<lambda>p. - po_created_at p) (timeline b s))"
  by (simp add: timeline_def newest_first_def order_desc_def)

lemma clamp_pos: "0 < clamp limit hi"
  by (simp add: clamp_def)

interpretation timeline_pages: cursor_pages "timeline_page url b v limit s" "timeline b s" "\<lambda>p. - po_created_at p" uminus "clamp limit 50"
  for url b v limit s
  by unfold_locales (auto simp: timeline_page_eq Let_def timeline_sorted clamp_pos split: if_splits)

text \<open>
  A reader who follows the cursors of a book's timeline sees every live post about the book
  exactly once, newest first, when no two of them were written at the same instant.
\<close>

theorem timeline_walk_complete:
  assumes "distinct (map po_created_at (filter (\<lambda>p. po_book_id p = b \<and> po_deleted_at p = None) (t_posts s)))"
    and "length (t_posts s) < fuel"
  shows "walk fuel (\<lambda>c. case list_posts_by_book url b v c limit s of (items, nxt) \<Rightarrow> (map pi_post items, nxt)) None =
    newest_first po_created_at po_id (filter (\<lambda>p. po_book_id p = b \<and> po_deleted_at p = None) (t_posts s))"
proof -
  have "length (timeline b s) < fuel"
    using le_less_trans [OF length_filter_le assms(2)] by (simp add: timeline_def newest_first_def)
  moreover have "distinct (map (\<lambda>p. - po_created_at p) (timeline b s))"
  proof -
    have "mset (map po_created_at (timeline b s)) = mset (map po_created_at (filter (\<lambda>p. po_book_id p = b \<and> po_deleted_at p = None) (t_posts s)))"
      by (simp add: timeline_def newest_first_def order_desc_def)
    then have "distinct (map po_created_at (timeline b s))" using assms(1) mset_eq_imp_distinct_iff by blast
    then show ?thesis by (simp add: distinct_map inj_on_def)
  qed
  ultimately show ?thesis
    using timeline_pages.walk_all [of b s fuel url v limit] unfolding timeline_page_def [abs_def] timeline_def by simp
qed

lemma timeline_walk_complete_witness:
  "walk 2 (\<lambda>c. case list_posts_by_book (\<lambda>k. k) 10 2 c 1 wall of (items, nxt) \<Rightarrow> (map pi_post items, nxt)) None = [demo_post]"
  using timeline_walk_complete [of 10 wall 2 "\<lambda>k. k" 2 1] by (simp add: newest_first_def order_desc_def)

end
