(* ===== verification/SocialProps.thy ===== *)
theory SocialProps
  imports Social FeedProps
begin

text \<open>
  The social graph. Its abstract form is a pair of relations; every request is one of five moves
  on them, and the moves keep the two relations apart: who is blocked neither follows nor is
  followed by the blocker. The theory then states what lists, the following feed and the
  leaderboard show.
\<close>

section \<open>The abstract graph\<close>

type_synonym social_graph = "(uuid \<times> uuid) set \<times> (uuid \<times> uuid) set"

inductive graph_move :: "social_graph \<Rightarrow> social_graph \<Rightarrow> bool" where
  rest: "graph_move G G"
| follows: "a \<noteq> b \<Longrightarrow> (b, a) \<notin> B \<Longrightarrow> (a, b) \<notin> F \<Longrightarrow> graph_move (F, B) (insert (a, b) F, B - {(a, b)})"
| unfollows: "graph_move (F, B) (F - {(a, b)}, B)"
| blocks: "a \<noteq> b \<Longrightarrow> (a, b) \<notin> B \<Longrightarrow> graph_move (F, B) (F - {(a, b), (b, a)}, insert (a, b) B)"
| unblocks: "graph_move (F, B) (F, B - {(a, b)})"

definition graph_legal :: "social_graph \<Rightarrow> bool" where
  "graph_legal G \<longleftrightarrow> (\<forall>a b. (a, b) \<in> snd G \<longrightarrow> a \<noteq> b \<and> (a, b) \<notin> fst G \<and> (b, a) \<notin> fst G) \<and> (\<forall>a. (a, a) \<notin> fst G)"

lemma graph_legal_move:
  assumes "graph_move G H" "graph_legal G"
  shows "graph_legal H"
  using assms by (induction rule: graph_move.induct) (auto simp: graph_legal_def)

section \<open>The tables\<close>

definition graph :: "sess \<Rightarrow> social_graph" where
  "graph s = (fo_key ` set (t_follows s), bl_key ` set (t_blocks s))"

definition ar_key :: "abuse_report \<Rightarrow> uuid \<times> string \<times> uuid" where
  "ar_key r = (ar_reporter_id r, ar_target_type r, ar_target_id r)"

definition social_ok :: "sess \<Rightarrow> bool" where
  "social_ok s \<longleftrightarrow> marks_ok fo_id fo_key (t_follows s) \<and> marks_ok bl_id bl_key (t_blocks s) \<and>
     marks_ok ar_id ar_key (t_reports s) \<and> graph_legal (graph s)"

lemma follows_at_key:
  "social_ok s \<Longrightarrow> filter (\<lambda>r. fo_follower_id r = a \<and> fo_followee_id r = b) (t_follows s) =
     (case fetch fo_key (a, b) (t_follows s) of None \<Rightarrow> [] | Some r \<Rightarrow> [r])"
  by (rule filter_unique_key) (auto simp: social_ok_def marks_ok_def fo_key_def)

lemma blocks_at_key:
  "social_ok s \<Longrightarrow> filter (\<lambda>r. bl_blocker_id r = a \<and> bl_blocked_id r = b) (t_blocks s) =
     (case fetch bl_key (a, b) (t_blocks s) of None \<Rightarrow> [] | Some r \<Rightarrow> [r])"
  by (rule filter_unique_key) (auto simp: social_ok_def marks_ok_def bl_key_def)

lemma reports_at_key:
  "social_ok s \<Longrightarrow> filter (\<lambda>r. ar_reporter_id r = a \<and> ar_target_type r = t \<and> ar_target_id r = b) (t_reports s) =
     (case fetch ar_key (a, t, b) (t_reports s) of None \<Rightarrow> [] | Some r \<Rightarrow> [r])"
  by (rule filter_unique_key) (auto simp: social_ok_def marks_ok_def ar_key_def)

lemma fetch_some_iff: "(fetch key k rows \<noteq> None) = (k \<in> key ` set rows)"
  by (simp add: fetch_None_iff)

lemma one_row: "bindE (scalar_one_or_none (case m of None \<Rightarrow> [] | Some r \<Rightarrow> [r])) (\<lambda>r. Inr (r \<noteq> None)) = Inr (m \<noteq> None)"
  by (cases m) simp_all

lemma is_following_eq: "social_ok s \<Longrightarrow> is_following a b s = Inr ((a, b) \<in> fst (graph s))"
  unfolding is_following_def follows_at_key one_row fetch_some_iff by (simp add: graph_def)

lemma is_blocked_eq: "social_ok s \<Longrightarrow> is_blocked a b s = Inr ((a, b) \<in> snd (graph s))"
  unfolding is_blocked_def blocks_at_key one_row fetch_some_iff by (simp add: graph_def)

lemma has_reported_eq: "social_ok s \<Longrightarrow> has_reported a t b s = Inr ((a, t, b) \<in> ar_key ` set (t_reports s))"
  unfolding has_reported_def reports_at_key one_row fetch_some_iff by simp

text \<open>Deleting an edge removes it from the relation.\<close>

lemma discard_pair:
  assumes "\<And>r. P r \<longleftrightarrow> key r = k"
  shows "key ` set (discard P rows) = key ` set rows - {k}"
  using assms by (auto simp: image_iff)

lemma graph_unfollow: "graph (repo_unfollow a b s) = (fst (graph s) - {(a, b)}, snd (graph s))"
  unfolding graph_def repo_unfollow_def using discard_pair [of _ fo_key "(a, b)" "t_follows s"] by (simp add: fo_key_def)

lemma graph_unblock: "graph (repo_unblock a b s) = (fst (graph s), snd (graph s) - {(a, b)})"
  unfolding graph_def repo_unblock_def using discard_pair [of _ bl_key "(a, b)" "t_blocks s"] by (simp add: bl_key_def)

lemma marks_ok_discard: "marks_ok pk key rows \<Longrightarrow> marks_ok pk key (discard P rows)"
  by (simp add: marks_ok_def distinct_map_discard)

text \<open>What every request does: one move of the graph, on tables that stay well formed.\<close>

definition social_effect :: "sess \<Rightarrow> sess \<Rightarrow> bool" where
  "social_effect s s' \<longleftrightarrow> (social_ok s \<longrightarrow> social_ok s' \<and> graph_move (graph s) (graph s'))"

lemma social_effectI:
  assumes "social_ok s \<Longrightarrow> marks_ok fo_id fo_key (t_follows s')" "social_ok s \<Longrightarrow> marks_ok bl_id bl_key (t_blocks s')"
    "social_ok s \<Longrightarrow> marks_ok ar_id ar_key (t_reports s')" "social_ok s \<Longrightarrow> graph_move (graph s) (graph s')"
  shows "social_effect s s'"
proof -
  have "graph_legal (graph s')" if "social_ok s"
    using graph_legal_move [OF assms(4) [OF that]] that by (simp add: social_ok_def)
  then show ?thesis using assms by (simp add: social_effect_def social_ok_def)
qed

lemma unfollow_effect:
  assumes "unfollow_user a b s = Inr (x, s')"
  shows "social_effect s s'"
proof -
  have s': "s' = repo_unfollow a b s" using assms by (simp add: unfollow_user_def)
  have "graph_move (graph s) (graph s')" unfolding s' graph_unfollow using unfollows [of "fst (graph s)" "snd (graph s)" a b] by simp
  then show ?thesis unfolding s'
    by (intro social_effectI) (simp_all add: repo_unfollow_def social_ok_def marks_ok_discard)
qed

lemma unblock_effect:
  assumes "unblock_user a b s = Inr (x, s')"
  shows "social_effect s s'"
proof -
  have s': "s' = repo_unblock a b s" using assms by (simp add: unblock_user_def)
  have "graph_move (graph s) (graph s')" unfolding s' graph_unblock using unblocks [of "fst (graph s)" "snd (graph s)" a b] by simp
  then show ?thesis unfolding s'
    by (intro social_effectI) (simp_all add: repo_unblock_def social_ok_def marks_ok_discard)
qed

lemma repo_follow_Inr:
  assumes "repo_follow i now a b s = Inr (r, s')"
  shows "s' = s\<lparr>t_follows := t_follows s @ [r]\<rparr> \<and> fo_key r = (a, b) \<and> fo_created_at r = now \<and> a \<noteq> b \<and> fo_id r \<notin> fo_id ` set (t_follows s) \<and>
    (a, b) \<notin> fo_key ` set (t_follows s)"
  using assms by (auto simp: repo_follow_def Let_def insert_row_Inr_iff fo_key_def fetch_None_iff split: sum.splits)

lemma repo_block_Inr:
  assumes "repo_block i now a b s = Inr (r, s')"
  shows "s' = s\<lparr>t_blocks := t_blocks s @ [r]\<rparr> \<and> bl_key r = (a, b) \<and> a \<noteq> b \<and> bl_id r \<notin> bl_id ` set (t_blocks s) \<and>
    (a, b) \<notin> bl_key ` set (t_blocks s)"
  using assms by (auto simp: repo_block_def Let_def insert_row_Inr_iff bl_key_def fetch_None_iff split: sum.splits)

lemma follow_Inr:
  assumes "social_ok s" "follow_user st i now a b s = Inr (x, s')"
  shows "\<exists>r. fo_key r = (a, b) \<and> fo_id r \<notin> fo_id ` set (t_follows s) \<and> (a, b) \<notin> fst (graph s) \<and> (b, a) \<notin> snd (graph s) \<and> a \<noteq> b \<and>
    s' = (let s1 = (if (a, b) \<in> snd (graph s) then repo_unblock a b s else s);
              s2 = s1\<lparr>t_follows := t_follows s @ [r]\<rparr> in if st then stage_event (FollowReceived a b) s2 else s2)"
proof -
  let ?s1 = "if (a, b) \<in> snd (graph s) then repo_unblock a b s else s"
  have "(b, a) \<notin> snd (graph s)" "a \<noteq> b"
    using assms by (auto simp: follow_user_def is_blocked_eq split: if_splits)
  moreover obtain r s2 where f: "repo_follow i now a b ?s1 = Inr (r, s2)" "s' = (if st then stage_event (FollowReceived a b) s2 else s2)"
    using assms by (cases st) (auto simp: follow_user_def is_blocked_eq Let_def split: if_splits)
  moreover have "t_follows ?s1 = t_follows s" by (simp add: repo_unblock_def)
  ultimately show ?thesis using repo_follow_Inr [OF f(1)]
    by (intro exI [of _ r]) (simp add: graph_def Let_def)
qed

lemma follow_effect:
  assumes "follow_user st i now a b s = Inr (x, s')"
  shows "social_effect s s'"
proof (cases "social_ok s")
  case True
  obtain r where r: "fo_key r = (a, b)" "fo_id r \<notin> fo_id ` set (t_follows s)" "(a, b) \<notin> fst (graph s)" "(b, a) \<notin> snd (graph s)" "a \<noteq> b"
    and s': "s' = (let s1 = (if (a, b) \<in> snd (graph s) then repo_unblock a b s else s);
              s2 = s1\<lparr>t_follows := t_follows s @ [r]\<rparr> in if st then stage_event (FollowReceived a b) s2 else s2)"
    using follow_Inr [OF True assms] by blast
  have tabs: "t_follows s' = t_follows s @ [r]" "t_reports s' = t_reports s"
    "t_blocks s' = (if (a, b) \<in> snd (graph s) then t_blocks (repo_unblock a b s) else t_blocks s)"
    by (simp_all add: s' Let_def stage_event_def repo_unblock_def)
  have "graph s' = (insert (a, b) (fst (graph s)), snd (graph s) - {(a, b)})"
    using graph_unblock [of a b s] r(1) by (auto simp: graph_def tabs)
  then have "graph_move (graph s) (graph s')"
    using follows [OF r(5,4,3)] by simp
  moreover have "marks_ok fo_id fo_key (t_follows s')"
    unfolding tabs by (rule mark_rows(1)) (use True r in \<open>simp_all add: social_ok_def graph_def\<close>)
  ultimately show ?thesis using True
    by (intro social_effectI) (simp_all add: tabs social_ok_def repo_unblock_def marks_ok_discard)
qed (simp add: social_effect_def)

lemma block_effect:
  assumes "block_user i now a b s = Inr (x, s')"
  shows "social_effect s s'"
proof -
  let ?s2 = "repo_unfollow b a (repo_unfollow a b s)"
  obtain r where "repo_block i now a b ?s2 = Inr (r, s')" using assms by (auto simp: block_user_def Let_def split: if_splits)
  from repo_block_Inr [OF this] have s': "s' = ?s2\<lparr>t_blocks := t_blocks ?s2 @ [r]\<rparr>" and r: "bl_key r = (a, b)" "a \<noteq> b"
      "bl_id r \<notin> bl_id ` set (t_blocks s)" "(a, b) \<notin> bl_key ` set (t_blocks s)"
    by (simp_all add: repo_unfollow_def)
  have "graph s' = (fst (graph s) - {(a, b), (b, a)}, insert (a, b) (snd (graph s)))"
    using graph_unfollow [of b a "repo_unfollow a b s"] graph_unfollow [of a b s] r(1)
    by (auto simp: s' graph_def repo_unfollow_def)
  then have "graph_move (graph s) (graph s')"
    using blocks [OF r(2), of "snd (graph s)" "fst (graph s)"] r(4) by (simp add: graph_def)
  moreover have "marks_ok bl_id bl_key (t_blocks s')" if "social_ok s"
    unfolding s' using mark_rows(1) [of bl_id bl_key "t_blocks s" r] that r by (simp add: social_ok_def repo_unfollow_def)
  ultimately show ?thesis
    by (intro social_effectI) (simp_all add: s' social_ok_def repo_unfollow_def marks_ok_discard)
qed

lemma report_Inr:
  assumes "social_ok s" "report i now a t b x s = Inr (v, s')"
  shows "\<exists>r. s' = s\<lparr>t_reports := t_reports s @ [r]\<rparr> \<and> ar_key r = (a, t, b) \<and> ar_id r \<notin> ar_id ` set (t_reports s) \<and>
     (a, t, b) \<notin> ar_key ` set (t_reports s)"
  using assms by (auto simp: report_def has_reported_eq repo_report_def Let_def insert_row_Inr_iff ar_key_def split: if_splits)

lemma report_effect:
  assumes "report i now a t b x s = Inr (v, s')"
  shows "social_effect s s'"
proof (cases "social_ok s")
  case True
  then obtain r where s': "s' = s\<lparr>t_reports := t_reports s @ [r]\<rparr>" and r: "ar_key r = (a, t, b)" "ar_id r \<notin> ar_id ` set (t_reports s)"
     "(a, t, b) \<notin> ar_key ` set (t_reports s)" using report_Inr [OF _ assms] by blast
  have "marks_ok ar_id ar_key (t_reports s')" unfolding s' using mark_rows(1) [of ar_id ar_key "t_reports s" r] True r by (simp add: social_ok_def)
  moreover have "graph s' = graph s" by (simp add: graph_def s')
  ultimately show ?thesis using True by (intro social_effectI) (simp_all add: s' social_ok_def rest)
qed (simp add: social_effect_def)

section \<open>The machine\<close>

datatype social_op =
    Follow bool uuid datetime uuid uuid
  | Unfollow uuid uuid
  | Block uuid datetime uuid uuid
  | Unblock uuid uuid
  | Report uuid datetime uuid string uuid pystr

primrec social_step :: "social_op \<Rightarrow> sess \<Rightarrow> sess result" where
  "social_step (Follow st i now a b) s = value_of (follow_user st i now a b s)"
| "social_step (Unfollow a b) s = value_of (unfollow_user a b s)"
| "social_step (Block i now a b) s = value_of (block_user i now a b s)"
| "social_step (Unblock a b) s = value_of (unblock_user a b s)"
| "social_step (Report i now a t b x) s = value_of (report i now a t b x s)"

lemmas social_ops = follow_effect unfollow_effect block_effect unblock_effect report_effect

lemma social_step_effect: "social_step x s = Inr s' \<Longrightarrow> social_effect s s'"
  by (cases x; simp only: social_step.simps value_of_Inr; elim exE; rule social_ops, assumption)

interpretation social: refinement social_step social_ok graph graph_move
proof
  fix s x s' assume "social_ok s" "social_step x s = Inr s'"
  with social_step_effect [of x s s'] show "social_ok s'" "graph_move (graph s) (graph s')"
    by (simp_all add: social_effect_def)
qed

section \<open>A small graph\<close>

text \<open>Reader 1 follows 2, reader 2 follows 1, reader 3 blocks 2.\<close>

definition town :: sess where
  "town = wall\<lparr>t_follows := [\<lparr>fo_id = 960, fo_follower_id = 1, fo_followee_id = 2, fo_created_at = t0\<rparr>,
                          \<lparr>fo_id = 961, fo_follower_id = 2, fo_followee_id = 1, fo_created_at = t0 + 1\<rparr>],
     t_blocks := [\<lparr>bl_id = 970, bl_blocker_id = 3, bl_blocked_id = 2, bl_created_at = t0\<rparr>]\<rparr>"

lemma town_tables [simp]:
  "t_follows town = [\<lparr>fo_id = 960, fo_follower_id = 1, fo_followee_id = 2, fo_created_at = t0\<rparr>,
      \<lparr>fo_id = 961, fo_follower_id = 2, fo_followee_id = 1, fo_created_at = t0 + 1\<rparr>]"
  "t_blocks town = [\<lparr>bl_id = 970, bl_blocker_id = 3, bl_blocked_id = 2, bl_created_at = t0\<rparr>]"
  "t_reports town = []" "t_users town = [demo_user 1, demo_user 2, demo_user 3]" "t_feed_events town = [demo_event]"
  "t_daily_stats town = []" "t_user_grades town = []"
  by (simp_all add: town_def wall_def demo_def empty_sess_def)

lemma town_ok: "social_ok town"
  by (simp add: social_ok_def marks_ok_def graph_legal_def graph_def fo_key_def bl_key_def)

section \<open>The properties\<close>

text \<open>
  C4. Refinement: whatever requests the social service has served, the follow and block tables have
  changed along moves of the abstract graph, in which nobody follows or blocks themselves and no
  follow edge, in either direction, joins a user to someone they block.
\<close>

theorem social_refines_graph:
  assumes "social_ok s"
  shows "graph_move\<^sup>*\<^sup>* (graph s) (graph (run social_step s xs)) \<and> graph_legal (graph (run social_step s xs))"
proof
  show "graph_move\<^sup>*\<^sup>* (graph s) (graph (run social_step s xs))" using assms by (rule social.run_moves)
  have "graph_legal (graph s)" using assms by (simp add: social_ok_def)
  with assms show "graph_legal (graph (run social_step s xs))"
    by (intro social.run_keeps [where I = graph_legal]) (auto intro: graph_legal_move)
qed

lemma social_refines_graph_witness:
  "graph_legal (graph (run social_step town [Block 971 t0 1 2, Follow True 962 t0 2 1, Follow True 963 t0 1 2, Unblock 3 2]))"
  using social_refines_graph [OF town_ok] by blast

text \<open>
  C29. A block shuts both directions: after any further requests that leave the block in place,
  neither reader's following feed shows an event of the other, neither is told to be following
  the other, and the blocked reader cannot follow back.
\<close>

theorem block_separates:
  assumes "social_ok s" and s': "s' = run social_step s xs" and "(a, b) \<in> snd (graph s')"
  shows "(\<forall>it \<in> set (get_following_feed True a cursor limit s'). fe_user_id (fi_event it) \<noteq> b) \<and>
    (\<forall>it \<in> set (get_following_feed True b cursor limit s'). fe_user_id (fi_event it) \<noteq> a) \<and>
    is_following a b s' = Inr False \<and> is_following b a s' = Inr False \<and>
    follow_user st i now b a s' = Inl (DomainError ConflictError ''FOLLOW_BLOCKED'')"
proof -
  have ok: "social_ok s'" unfolding s' by (rule social.run_inv [OF assms(1)])
  then have no: "(a, b) \<notin> fst (graph s')" "(b, a) \<notin> fst (graph s')" "a \<noteq> b"
    using assms(3) by (auto simp: social_ok_def graph_legal_def)
  have quiet: "fe_user_id (fi_event it) \<noteq> v" if "it \<in> set (get_following_feed True u cursor limit s')" "(u, v) \<notin> fst (graph s')" for it u v
  proof -
    have "fe_user_id (fi_event it) \<in> fo_followee_id ` set (filter (\<lambda>f. fo_follower_id f = u) (t_follows s'))"
      using that(1) by (auto simp: get_following_feed_def enrich_events_def feed_list_following_def Let_def dest!: in_set_takeD)
    then show ?thesis using that(2) by (auto simp: graph_def fo_key_def image_iff)
  qed
  have "follow_user st i now b a s' = Inl (DomainError ConflictError ''FOLLOW_BLOCKED'')"
    using no(3) assms(3) by (simp add: follow_user_def is_blocked_eq [OF ok])
  then show ?thesis using quiet no is_following_eq [OF ok] by simp
qed

lemma block_separates_witness:
  "is_following 2 1 (run social_step town [Block 971 t0 1 2]) = Inr False \<and>
   follow_user True 962 t0 2 1 (run social_step town [Block 971 t0 1 2]) = Inl (DomainError ConflictError ''FOLLOW_BLOCKED'')"
proof -
  have "(1, 2) \<in> snd (graph (run social_step town [Block 971 t0 1 2]))"
    by (simp add: value_of_def block_user_def repo_block_def insert_row_def user_exists_def bl_key_def repo_unfollow_def graph_def Let_def)
  from block_separates [OF town_ok refl this, of None 1 True 962 t0] show ?thesis by blast
qed

text \<open>
  Following someone new and unfollowing them again restores the tables exactly, unless the
  follow lifted a block; following twice is refused, unfollowing is idempotent.
\<close>

theorem follow_unfollow_roundtrip:
  assumes "social_ok s" "follow_user False i now a b s = Inr ((), s1)"
  shows "unfollow_user a b s1 = Inr ((), repo_unblock a b s) \<and> is_following a b s1 = Inr True \<and>
    follow_user st j later a b s1 = Inl (DomainError ConflictError ''FOLLOW_ALREADY_EXISTS'') \<and>
    unfollow_user a b (repo_unblock a b s) = Inr ((), repo_unblock a b s)"
proof -
  have ok1: "social_ok s1" using social.step_inv [of s "Follow False i now a b" s1] assms by (simp add: value_of_def)
  obtain r where r: "fo_key r = (a, b)" "fo_id r \<notin> fo_id ` set (t_follows s)" "(a, b) \<notin> fst (graph s)" "(b, a) \<notin> snd (graph s)" "a \<noteq> b"
    and s1: "s1 = (let s1 = (if (a, b) \<in> snd (graph s) then repo_unblock a b s else s); s2 = s1\<lparr>t_follows := t_follows s @ [r]\<rparr> in s2)"
    using follow_Inr [OF assms] by auto
  have unb: "repo_unblock a b s = s" if "(a, b) \<notin> snd (graph s)"
  proof -
    have "discard (\<lambda>r. bl_blocker_id r = a \<and> bl_blocked_id r = b) (t_blocks s) = t_blocks s"
      using that by (auto simp: discard_def filter_id_conv graph_def bl_key_def image_iff)
    then show ?thesis by (simp add: repo_unblock_def)
  qed
  then have s1': "s1 = repo_unblock a b s\<lparr>t_follows := t_follows s @ [r]\<rparr>" by (simp add: s1 Let_def)
  have gone: "discard (\<lambda>r. fo_follower_id r = a \<and> fo_followee_id r = b) (t_follows s) = t_follows s"
    using r(3) by (auto simp: discard_def filter_id_conv graph_def fo_key_def image_iff)
  then have "discard (\<lambda>r. fo_follower_id r = a \<and> fo_followee_id r = b) (t_follows s @ [r]) = t_follows s"
    using r(1) by (simp add: discard_def fo_key_def)
  then have "unfollow_user a b s1 = Inr ((), repo_unblock a b s)"
    by (simp add: unfollow_user_def repo_unfollow_def s1' repo_unblock_def)
  moreover have "unfollow_user a b (repo_unblock a b s) = Inr ((), repo_unblock a b s)"
    using gone by (simp add: unfollow_user_def repo_unfollow_def repo_unblock_def)
  moreover have in1: "(a, b) \<in> fst (graph s1)" using r(1) by (auto simp: graph_def s1')
  moreover have "follow_user st j later a b s1 = Inl (DomainError ConflictError ''FOLLOW_ALREADY_EXISTS'')"
  proof -
    have "repo_follow j later a b t = Inl (DomainError ConflictError ''FOLLOW_ALREADY_EXISTS'')" if "t_follows t = t_follows s1" for t
      using in1 that by (simp add: repo_follow_def insert_row_def fo_key_def [of "\<lparr>fo_id = j, fo_follower_id = a, fo_followee_id = b, fo_created_at = later\<rparr>"]
          graph_def fetch_None_iff Let_def)
    moreover have "(b, a) \<notin> snd (graph s1)" using r(4) by (auto simp: s1 graph_def repo_unblock_def Let_def split: if_splits)
    ultimately show ?thesis using r(5) by (simp add: follow_user_def is_blocked_eq [OF ok1] repo_unblock_def Let_def)
  qed
  ultimately show ?thesis by (simp add: is_following_eq [OF ok1])
qed

lemma town_follow: "\<exists>s1. follow_user False 962 t0 1 3 town = Inr ((), s1)"
  by (simp add: follow_user_def is_blocked_def repo_follow_def insert_row_def user_exists_def fo_key_def Let_def)

lemma follow_unfollow_roundtrip_witness:
  "\<exists>s1. follow_user False 962 t0 1 3 town = Inr ((), s1) \<and> unfollow_user 1 3 s1 = Inr ((), repo_unblock 1 3 town)"
  using town_follow follow_unfollow_roundtrip [OF town_ok, of 962 t0 1 3] by blast

section \<open>The leaderboard\<close>

definition weekly_entry_of :: "uuid \<Rightarrow> nat \<Rightarrow> leaderboard_row \<Rightarrow> weekly_entry" where
  "weekly_entry_of me rank row = \<lparr>we_rank = rank, we_user_id = lr_user_id row, we_nickname = lr_nickname row,
     we_profile_image_url = lr_profile_image_url row, we_grade_tier = grade_tier_label (lr_grade row) (lr_tier row),
     we_weekly_minutes = lr_weekly_minutes row, we_is_me = (lr_user_id row = me)\<rparr>"

definition better :: "leaderboard_row list \<Rightarrow> int \<Rightarrow> nat" where
  "better rows m = length (filter (\<lambda>x. m < lr_weekly_minutes x) rows)"

lemma better_fresh:
  assumes "sorted_wrt (\<lambda>x y. lr_weekly_minutes y \<le> lr_weekly_minutes x) (pre @ row # rows)"
    and "pre = [] \<or> lr_weekly_minutes (last pre) \<noteq> lr_weekly_minutes row"
  shows "better (pre @ row # rows) (lr_weekly_minutes row) = length pre"
proof -
  have "\<forall>x \<in> set pre. lr_weekly_minutes row < lr_weekly_minutes x"
  proof (cases pre rule: rev_cases)
    case (snoc ys y)
    then have "lr_weekly_minutes row < lr_weekly_minutes y" "\<forall>x \<in> set ys. lr_weekly_minutes y \<le> lr_weekly_minutes x"
      using assms by (auto simp: sorted_wrt_append)
    then show ?thesis using snoc by auto
  qed simp
  then have "filter (\<lambda>x. lr_weekly_minutes row < lr_weekly_minutes x) pre = pre" by (simp add: filter_id_conv)
  moreover have "filter (\<lambda>x. lr_weekly_minutes row < lr_weekly_minutes x) (row # rows) = []"
    using assms(1) by (auto simp: sorted_wrt_append filter_empty_conv)
  ultimately show ?thesis by (simp add: better_def)
qed

lemma ranked_from_eq:
  assumes "sorted_wrt (\<lambda>x y. lr_weekly_minutes y \<le> lr_weekly_minutes x) (pre @ rows)"
    and "pre = [] \<Longrightarrow> prev = None"
    and "pre \<noteq> [] \<Longrightarrow> prev = Some (lr_weekly_minutes (last pre)) \<and> current = Suc (better (pre @ rows) (lr_weekly_minutes (last pre)))"
  shows "ranked_from me (length pre) current prev rows =
    map (\<lambda>r. weekly_entry_of me (Suc (better (pre @ rows) (lr_weekly_minutes r))) r) rows"
  using assms
proof (induction rows arbitrary: pre current prev)
  case (Cons row rows)
  let ?rank = "if Some (lr_weekly_minutes row) \<noteq> prev then length pre + 1 else current"
  have rank: "?rank = Suc (better (pre @ row # rows) (lr_weekly_minutes row))"
  proof (cases "pre = [] \<or> lr_weekly_minutes (last pre) \<noteq> lr_weekly_minutes row")
    case True
    then have "Some (lr_weekly_minutes row) \<noteq> prev" using Cons.prems(2,3) by (cases "pre = []") simp_all
    then show ?thesis using better_fresh [OF Cons.prems(1) True] by simp
  next
    case False
    then show ?thesis using Cons.prems(3) by simp
  qed
  have "ranked_from me (length (pre @ [row])) ?rank (Some (lr_weekly_minutes row)) rows =
      map (\<lambda>r. weekly_entry_of me (Suc (better ((pre @ [row]) @ rows) (lr_weekly_minutes r))) r) rows"
    by (rule Cons.IH) (use Cons.prems(1) rank in simp_all)
  then show ?case using rank by (simp add: weekly_entry_of_def Let_def)
qed simp

lemma leaderboard_row_fields:
  assumes "leaderboard_row_of today s i = Some r"
  shows "lr_user_id r = i \<and> lr_weekly_minutes r = sql_div (weekly_seconds today i s) 60"
proof -
  obtain x where "fetch us_id i (t_users s) = Some x" "us_deleted_at x = None"
    using assms unfolding leaderboard_row_of_def by (cases "fetch us_id i (t_users s)") (simp_all split: if_splits)
  with assms show ?thesis by (auto simp: leaderboard_row_of_def Let_def)
qed

lemma leaderboard_row_ids: "leaderboard_row_of today s i = Some r \<Longrightarrow> lr_user_id r = i"
  by (simp add: leaderboard_row_fields)

lemma map_filter_ids:
  assumes "\<And>i r. f i = Some r \<Longrightarrow> g r = i"
  shows "g ` set (List.map_filter f xs) = {i \<in> set xs. \<exists>r. f i = Some r}"
proof -
  have "g ` set (List.map_filter f xs) = g ` {r. \<exists>i \<in> set xs. f i = Some r}"
    by (rule arg_cong [of _ _ "image g"]) (rule set_eqI, simp add: mem_map_filter)
  also have "\<dots> = {i \<in> set xs. \<exists>r. f i = Some r}"
  proof (rule set_eqI, rule iffI)
    fix i assume "i \<in> {i \<in> set xs. \<exists>r. f i = Some r}"
    then obtain r where "i \<in> set xs" "f i = Some r" by blast
    with assms [of i r] show "i \<in> g ` {r. \<exists>i \<in> set xs. f i = Some r}" by blast
  qed (auto dest: assms)
  finally show ?thesis .
qed

lemma distinct_map_filter_ids:
  assumes "distinct is" "\<And>i r. f i = Some r \<Longrightarrow> g r = i"
  shows "distinct (map g (List.map_filter f is))"
  using assms(1)
proof (induction "is")
  case (Cons i js)
  have "i \<notin> g ` set (List.map_filter f js)"
  proof
    assume "i \<in> g ` set (List.map_filter f js)"
    then obtain r j where "g r = i" "j \<in> set js" "f j = Some r" by (auto simp: mem_map_filter)
    then show False using assms(2) [of j r] Cons.prems by simp
  qed
  with Cons assms(2) [of i] show ?case by (auto simp: map_filter_Cons split: option.splits)
qed (simp add: List.map_filter_def)

text \<open>
  The weekly leaderboard lists the reader and everyone they follow, each live account once, by
  minutes read in the last seven days; the rank of an entry is one more than the number of
  entries with strictly more minutes (so ranks after a tie are skipped).
\<close>

theorem leaderboard_ranks:
  assumes "get_weekly_leaderboard today now u s = Inr (entries, week_start, made)"
  shows "distinct (map we_user_id entries) \<and>
    sorted_wrt (\<lambda>x y. we_weekly_minutes y \<le> we_weekly_minutes x) entries \<and>
    we_user_id ` set entries = {i. (i = u \<or> (u, i) \<in> fst (graph s)) \<and> (\<exists>r. fetch us_id i (t_users s) = Some r \<and> us_deleted_at r = None)} \<and>
    (\<forall>e \<in> set entries. we_rank e = Suc (length (filter (\<lambda>x. we_weekly_minutes e < we_weekly_minutes x) entries)) \<and>
       we_weekly_minutes e = sql_div (weekly_seconds today (we_user_id e) s) 60 \<and> (we_is_me e \<longleftrightarrow> we_user_id e = u))"
proof -
  let ?base = "List.map_filter (leaderboard_row_of today s) (leaderboard_candidates u s)"
  let ?rows = "order_desc lr_weekly_minutes (order_asc (\<lambda>r. int (lr_user_id r)) ?base)"
  have "repo_weekly_leaderboard today u s = Inr ?rows" and "entries = ranked_from u 0 0 None ?rows"
    using assms by (auto simp: get_weekly_leaderboard_def repo_weekly_leaderboard_def Let_def split: if_splits)
  moreover have srt: "sorted_wrt (\<lambda>x y. lr_weekly_minutes y \<le> lr_weekly_minutes x) ?rows" by (rule sorted_order_desc)
  ultimately have E: "entries = map (\<lambda>r. weekly_entry_of u (Suc (better ?rows (lr_weekly_minutes r))) r) ?rows"
    using ranked_from_eq [of "[]" ?rows None 0 u] by simp
  have ids: "map we_user_id entries = map lr_user_id ?rows" by (simp add: E weekly_entry_of_def)
  have "distinct (map lr_user_id ?rows) \<longleftrightarrow> distinct (map lr_user_id ?base)"
    by (rule mset_eq_imp_distinct_iff) (simp add: order_desc_def order_asc_def)
  moreover have "distinct (map lr_user_id ?base)"
    by (rule distinct_map_filter_ids) (auto simp: leaderboard_candidates_def dest: leaderboard_row_ids)
  ultimately have "distinct (map lr_user_id ?rows)" by (rule iffD2)
  then have d: "distinct (map we_user_id entries)" by (simp only: ids)
  have row: "(\<exists>r. leaderboard_row_of today s i = Some r) \<longleftrightarrow> (\<exists>r. fetch us_id i (t_users s) = Some r \<and> us_deleted_at r = None)" for i
    by (auto simp: leaderboard_row_of_def Let_def split: option.splits)
  have cand: "i \<in> set (leaderboard_candidates u s) \<longleftrightarrow> i = u \<or> (u, i) \<in> fst (graph s)" for i
  proof -
    have "i \<in> fo_followee_id ` set (filter (\<lambda>r. fo_follower_id r = u) (t_follows s)) \<longleftrightarrow> (u, i) \<in> fst (graph s)"
      by (auto simp: graph_def fo_key_def image_iff)
    then show ?thesis by (simp only: leaderboard_candidates_def set_remdups list.set set_map insert_iff)
  qed
  have "we_user_id ` set entries = lr_user_id ` set ?base" using arg_cong [OF ids, of set] by simp
  also have "\<dots> = {i. (i = u \<or> (u, i) \<in> fst (graph s)) \<and> (\<exists>r. leaderboard_row_of today s i = Some r)}"
    unfolding cand [symmetric] by (rule map_filter_ids [OF leaderboard_row_ids])
  finally have users: "we_user_id ` set entries = {i. (i = u \<or> (u, i) \<in> fst (graph s)) \<and> (\<exists>r. fetch us_id i (t_users s) = Some r \<and> us_deleted_at r = None)}"
    unfolding row .
  have minutes: "we_weekly_minutes (weekly_entry_of u n r) = lr_weekly_minutes r" for n r by (simp add: weekly_entry_of_def)
  have "length (filter (\<lambda>x. m < we_weekly_minutes x) entries) = better ?rows m" for m
    by (simp add: E filter_map o_def minutes better_def)
  moreover have "lr_weekly_minutes r = sql_div (weekly_seconds today (lr_user_id r) s) 60" if "r \<in> set ?rows" for r
    using that leaderboard_row_fields [of today s] unfolding set_order_desc set_order_asc mem_map_filter by metis
  ultimately have "\<forall>e \<in> set entries. we_rank e = Suc (length (filter (\<lambda>x. we_weekly_minutes e < we_weekly_minutes x) entries)) \<and>
       we_weekly_minutes e = sql_div (weekly_seconds today (we_user_id e) s) 60 \<and> (we_is_me e \<longleftrightarrow> we_user_id e = u)"
    by (auto simp: E weekly_entry_of_def)
  moreover have "sorted_wrt (\<lambda>x y. we_weekly_minutes y \<le> we_weekly_minutes x) entries"
    unfolding E using srt by (simp add: sorted_wrt_map minutes)
  ultimately show ?thesis using d users by blast
qed

lemma town_board: "\<exists>entries ws made. get_weekly_leaderboard 738838 t0 1 town = Inr (entries, ws, made)"
  by (simp add: get_weekly_leaderboard_def repo_weekly_leaderboard_def leaderboard_candidates_def map_filter_Cons List.map_filter_def
      leaderboard_row_of_def weekly_seconds_def sql_div_def int4_def demo_user_def Let_def)

lemma leaderboard_ranks_witness:
  "\<exists>entries ws made. get_weekly_leaderboard 738838 t0 1 town = Inr (entries, ws, made) \<and>
     we_user_id ` set entries = {i. (i = 1 \<or> (1, i) \<in> fst (graph town)) \<and> (\<exists>r. fetch us_id i (t_users town) = Some r \<and> us_deleted_at r = None)}"
  using town_board leaderboard_ranks [of 738838 t0 1 town] by blast

text \<open>Two readers tied at the top: the next one is third, not second.\<close>

lemma ranks_skip_after_tie:
  fixes row :: "uuid \<Rightarrow> int \<Rightarrow> leaderboard_row"
  defines "row i m \<equiv> \<lparr>lr_user_id = i, lr_nickname = [], lr_profile_image_url = None, lr_grade = None, lr_tier = None, lr_weekly_minutes = m\<rparr>"
  shows "map we_rank (ranked_from 1 0 0 None [row 1 30, row 2 30, row 3 10]) = [1, 1, 3]"
  by (simp add: row_def)

section \<open>Search\<close>

definition plain :: "pystr \<Rightarrow> bool" where
  "plain q \<longleftrightarrow> 37 \<notin> set q \<and> 95 \<notin> set q \<and> 92 \<notin> set q"

lemma like_prefix: "plain q \<Longrightarrow> like (q @ [37]) n \<longleftrightarrow> (\<exists>post. n = q @ post)"
proof (induction q arbitrary: n)
  case Nil
  have "like [37] n" by (induction n) simp_all
  then show ?case by simp
next
  case (Cons c q)
  then show ?case by (cases n) (auto simp: plain_def)
qed

lemma like_contains: "plain q \<Longrightarrow> like ([37] @ q @ [37]) n \<longleftrightarrow> (\<exists>pre post. n = pre @ q @ post)"
proof (induction n)
  case Nil
  then show ?case using like_prefix [of q "[]"] by auto
next
  case (Cons c n)
  have "like ([37] @ q @ [37]) (c # n) \<longleftrightarrow> (\<exists>post. c # n = q @ post) \<or> (\<exists>pre post. n = pre @ q @ post)"
    using Cons like_prefix [of q "c # n"] by simp
  also have "\<dots> \<longleftrightarrow> (\<exists>pre post. c # n = pre @ q @ post)"
    by (metis append_Cons append_Nil list.exhaust list.inject)
  finally show ?case .
qed

lemma summaries_Inr:
  assumes "social_ok s" "summaries a s us = Inr items"
  shows "items = map (\<lambda>u. summary_of ((a, us_id u) \<in> fst (graph s)) u) us"
  using assms(2)
proof (induction us arbitrary: items)
  case (Cons u us)
  then show ?case by (auto simp: is_following_eq [OF assms(1)])
qed simp

text \<open>
  A search for a plain text (no pattern character in it) finds only live accounts whose
  lower-cased nickname contains the lower-cased text, never the searcher and never someone who
  blocks the searcher, and says of each rightly whether the searcher follows them. (The server's
  lower-casing is a parameter; it works character by character and leaves the percent sign.)
\<close>

theorem search_finds:
  assumes "social_ok s" "search_users lower a q cursor limit s = Inr (items, nxt)"
    and "\<And>t. lower ([37] @ t @ [37]) = [37] @ lower t @ [37]" "plain (lower (py_strip q))"
  shows "length items \<le> 50 \<and> (\<forall>it \<in> set items. um_id it \<noteq> a \<and> (um_id it, a) \<notin> snd (graph s) \<and>
    (um_is_following it \<longleftrightarrow> (a, um_id it) \<in> fst (graph s)) \<and> (\<exists>pre post. lower (um_nickname it) = pre @ lower (py_strip q) @ post))"
proof (cases "py_strip q = []")
  case True
  then show ?thesis using assms(2) by (simp add: search_users_def)
next
  case False
  obtain users where users: "repo_search_users lower a (py_strip q) cursor (page_size limit) s = (users, nxt)"
    and items: "summaries a s users = Inr items"
    using assms(2) False by (cases "repo_search_users lower a (py_strip q) cursor (page_size limit) s") (auto simp: search_users_def Let_def)
  note I = summaries_Inr [OF assms(1) items]
  have "length users \<le> page_size limit" using users by (auto simp: repo_search_users_def Let_def)
  then have "length items \<le> 50" by (simp add: I page_size_def)
  moreover have "us_id v \<noteq> a \<and> (us_id v, a) \<notin> snd (graph s) \<and> (\<exists>pre post. lower (us_nickname v) = pre @ lower (py_strip q) @ post)"
    if "v \<in> set users" for v
  proof -
    have "us_id v \<noteq> a" "us_id v \<notin> bl_blocker_id ` set (filter (\<lambda>r. bl_blocked_id r = a) (t_blocks s))"
      and l: "like (lower ([37] @ py_strip q @ [37])) (lower (us_nickname v))"
      using users that unfolding repo_search_users_def Let_def by (auto dest!: in_set_takeD)
    moreover have "(us_id v, a) \<notin> snd (graph s)" using calculation(2) by (auto simp: graph_def bl_key_def image_iff)
    ultimately show ?thesis using l unfolding assms(3) like_contains [OF assms(4)] by blast
  qed
  ultimately show ?thesis by (auto simp: I summary_of_def)
qed

lemma summaries_total: "social_ok s \<Longrightarrow> \<exists>items. summaries a s us = Inr items"
  by (induction us) (auto simp: is_following_eq)

lemma town_search: "\<exists>items nxt. search_users (\<lambda>t. t) 1 [32, 114, 101] None 10 town = Inr (items, nxt)"
proof -
  have q: "py_strip [32, 114, 101] = [114, 101]" by (simp add: py_strip_def py_space_def)
  obtain us nxt where us: "repo_search_users (\<lambda>t. t) 1 [114, 101] None (page_size 10) town = (us, nxt)" by fastforce
  obtain items where "summaries 1 town us = Inr items" using summaries_total [OF town_ok] by blast
  with us q show ?thesis by (simp add: search_users_def)
qed

lemma search_finds_witness:
  "\<exists>items nxt. search_users (\<lambda>t. t) 1 [32, 114, 101] None 10 town = Inr (items, nxt) \<and>
     (\<forall>it \<in> set items. (1, um_id it) \<in> fst (graph town) \<longleftrightarrow> um_is_following it)"
proof -
  have "plain (py_strip [32, 114, 101])" by (simp add: plain_def py_strip_def py_space_def)
  then show ?thesis using town_search search_finds [OF town_ok, of "\<lambda>t. t" 1 "[32, 114, 101]" None 10] by fastforce
qed

end
