(* ===== verification/Notification.thy ===== *)
theory Notification
  imports FeedRepo
begin

text \<open>
  \<open>backend/app/domains/notification\<close>: the inbox, the preferences, the weekly reports
  (\<open>repository.py\<close>), the reads and writes of the router (\<open>service_router.py\<close>), and
  \<open>NotificationService\<close> (\<open>service.py\<close>): event handlers, fan-outs and batches. A handler runs
  after the request that caused it, in a session of its own; what it leaves is the database, the
  messages handed to the push gateway or to a reader's socket, and whether it raised. Korean texts
  are their code points. New identifiers and clock readings are parameters.
\<close>

section \<open>Types and preferences\<close>

fun ntype_value :: "notification_type \<Rightarrow> string" where
  "ntype_value N_REACTION = ''reaction''"
| "ntype_value N_COMMENT = ''comment''"
| "ntype_value N_GRADE_UP = ''grade_up''"
| "ntype_value N_WEEKLY_REPORT = ''weekly_report''"
| "ntype_value N_FOLLOW_RECEIVED = ''follow_received''"
| "ntype_value N_BADGE_EARNED = ''badge_earned''"
| "ntype_value N_STREAK_WARNING = ''streak_warning''"
| "ntype_value N_SUBSCRIPTION_REMINDER = ''subscription_reminder''"
| "ntype_value N_AGENDA_PUBLISHED = ''agenda_published''"
| "ntype_value N_DISCUSSION_COMMENTED = ''discussion_commented''"

definition ALL_TYPES :: "notification_type list" where
  "ALL_TYPES = [N_REACTION, N_COMMENT, N_GRADE_UP, N_WEEKLY_REPORT, N_FOLLOW_RECEIVED, N_BADGE_EARNED, N_STREAK_WARNING,
     N_SUBSCRIPTION_REMINDER, N_AGENDA_PUBLISHED, N_DISCUSSION_COMMENTED]"

definition REQUIRED_NOTIFICATION_TYPES :: "notification_type list" where
  "REQUIRED_NOTIFICATION_TYPES = [N_SUBSCRIPTION_REMINDER]"

definition TOGGLEABLE_NOTIFICATION_TYPES :: "notification_type list" where
  "TOGGLEABLE_NOTIFICATION_TYPES = filter (\<lambda>t. t \<notin> set REQUIRED_NOTIFICATION_TYPES) ALL_TYPES"

section \<open>The repositories\<close>

definition create_notification ::
    "uuid \<Rightarrow> datetime \<Rightarrow> uuid \<Rightarrow> string \<Rightarrow> pystr \<Rightarrow> pystr \<Rightarrow> (string \<times> json) list \<Rightarrow> sess \<Rightarrow> notification outcome" where
  "create_notification new_id now user_id ntype title body data s =
     (if 32 < length ntype \<or> 256 < length title \<or> 512 < length body then Inl DataError
      else let row = \<lparr>nt_id = new_id, nt_user_id = user_id, nt_ntype = ntype, nt_title = title, nt_body = body, nt_data = data,
                      nt_read_at = None, nt_created_at = now\<rparr>
           in bindE (insert_row nt_id (user_exists user_id s) row (t_notifications s)) (\<lambda>rows. Inr (row, s\<lparr>t_notifications := rows\<rparr>)))"

definition notifications_for_user :: "uuid \<Rightarrow> datetime option \<Rightarrow> nat \<Rightarrow> sess \<Rightarrow> notification list" where
  "notifications_for_user user_id cursor limit s =
     take limit (order_desc nt_created_at (filter (\<lambda>n. nt_user_id n = user_id \<and> before cursor (nt_created_at n)) (t_notifications s)))"

definition stamp_read :: "datetime \<Rightarrow> (notification \<Rightarrow> bool) \<Rightarrow> sess \<Rightarrow> sess" where
  "stamp_read now P s = s\<lparr>t_notifications :=
     map (\<lambda>n. if P n \<and> nt_read_at n = None then n\<lparr>nt_read_at := Some now\<rparr> else n) (t_notifications s)\<rparr>"

definition mark_read_one :: "datetime \<Rightarrow> uuid \<Rightarrow> uuid \<Rightarrow> sess \<Rightarrow> sess" where
  "mark_read_one now notification_id user_id s = stamp_read now (\<lambda>n. nt_id n = notification_id \<and> nt_user_id n = user_id) s"

definition mark_read_all :: "datetime \<Rightarrow> uuid \<Rightarrow> sess \<Rightarrow> sess" where
  "mark_read_all now user_id s = stamp_read now (\<lambda>n. nt_user_id n = user_id) s"

definition unread_count :: "uuid \<Rightarrow> sess \<Rightarrow> nat" where
  "unread_count user_id s = length (filter (\<lambda>n. nt_user_id n = user_id \<and> nt_read_at n = None) (t_notifications s))"

definition get_overrides :: "uuid \<Rightarrow> sess \<Rightarrow> string \<rightharpoonup> bool" where
  "get_overrides user_id s = (case fetch np_user_id user_id (t_notification_preferences s) of None \<Rightarrow> Map.empty | Some r \<Rightarrow> np_overrides r)"

definition upsert_overrides :: "uuid \<Rightarrow> (string \<rightharpoonup> bool) \<Rightarrow> sess \<Rightarrow> (string \<rightharpoonup> bool) outcome" where
  "upsert_overrides user_id overrides s =
     (if fetch np_user_id user_id (t_notification_preferences s) \<noteq> None
      then Inr (overrides, s\<lparr>t_notification_preferences :=
             amend np_user_id user_id (\<lambda>r. r\<lparr>np_overrides := overrides\<rparr>) (t_notification_preferences s)\<rparr>)
      else bindE (insert_row np_user_id (user_exists user_id s) \<lparr>np_user_id = user_id, np_overrides = overrides\<rparr> (t_notification_preferences s))
             (\<lambda>rows. Inr (overrides, s\<lparr>t_notification_preferences := rows\<rparr>)))"

text \<open>\<open>ON CONFLICT\<close> on the user and the week replaces the figures and keeps \<open>push_sent_at\<close>.\<close>

definition report_upsert :: "uuid \<Rightarrow> uuid \<Rightarrow> date \<Rightarrow> int \<Rightarrow> int \<Rightarrow> date option \<Rightarrow> int \<Rightarrow> sess \<Rightarrow> weekly_report outcome" where
  "report_upsert new_id user_id week_start seconds session_count best_day longest s =
     (if \<not> (int4 seconds \<and> int4 session_count \<and> int4 longest) then Inl DataError
      else let f = (\<lambda>r. r\<lparr>wr_total_seconds := seconds, wr_session_count := session_count, wr_best_day := best_day,
                        wr_longest_session_sec := longest\<rparr>)
           in case fetch wr_key (user_id, week_start) (t_weekly_reports s) of
                Some r \<Rightarrow> Inr (f r, s\<lparr>t_weekly_reports := amend wr_key (user_id, week_start) f (t_weekly_reports s)\<rparr>)
              | None \<Rightarrow>
                  let row = \<lparr>wr_id = new_id, wr_user_id = user_id, wr_week_start = week_start, wr_total_seconds = seconds,
                             wr_session_count = session_count, wr_best_day = best_day, wr_longest_session_sec = longest,
                             wr_push_sent_at = None\<rparr>
                  in bindE (insert_row wr_id (user_exists user_id s) row (t_weekly_reports s))
                       (\<lambda>rows. Inr (row, s\<lparr>t_weekly_reports := rows\<rparr>)))"

definition get_for_user_and_week :: "uuid \<Rightarrow> date \<Rightarrow> sess \<Rightarrow> weekly_report option result" where
  "get_for_user_and_week user_id week_start s =
     scalar_one_or_none (filter (\<lambda>r. wr_user_id r = user_id \<and> wr_week_start r = week_start) (t_weekly_reports s))"

definition mark_push_sent :: "uuid \<Rightarrow> datetime \<Rightarrow> sess \<Rightarrow> sess" where
  "mark_push_sent report_id sent_at s = s\<lparr>t_weekly_reports := amend wr_id report_id (\<lambda>r. r\<lparr>wr_push_sent_at := Some sent_at\<rparr>) (t_weekly_reports s)\<rparr>"

section \<open>The router's service\<close>

definition list_notifications :: "uuid \<Rightarrow> datetime option \<Rightarrow> nat \<Rightarrow> sess \<Rightarrow> notification list \<times> datetime option \<times> nat" where
  "list_notifications user_id cursor limit s =
     (let items = notifications_for_user user_id cursor limit s
      in (items, if length items = limit \<and> items \<noteq> [] then Some (nt_created_at (last items)) else None, unread_count user_id s))"

definition get_latest_report :: "uuid \<Rightarrow> sess \<Rightarrow> weekly_report option" where
  "get_latest_report user_id s =
     (case order_desc wr_week_start (filter (\<lambda>r. wr_user_id r = user_id) (t_weekly_reports s)) of [] \<Rightarrow> None | r # _ \<Rightarrow> Some r)"

definition get_weekly_report :: "uuid \<Rightarrow> date option \<Rightarrow> sess \<Rightarrow> weekly_report option result" where
  "get_weekly_report user_id week_start s =
     (case week_start of None \<Rightarrow> Inr (get_latest_report user_id s) | Some w \<Rightarrow> get_for_user_and_week user_id w s)"

definition merge_with_defaults :: "(string \<rightharpoonup> bool) \<Rightarrow> string \<rightharpoonup> bool" where
  "merge_with_defaults overrides =
     map_of (map (\<lambda>t. (ntype_value t, case overrides (ntype_value t) of None \<Rightarrow> True | Some b \<Rightarrow> b)) TOGGLEABLE_NOTIFICATION_TYPES)"

definition get_notification_preferences :: "uuid \<Rightarrow> sess \<Rightarrow> string \<rightharpoonup> bool" where
  "get_notification_preferences user_id s = merge_with_defaults (get_overrides user_id s)"

definition update_notification_preferences :: "uuid \<Rightarrow> (string \<rightharpoonup> bool) \<Rightarrow> sess \<Rightarrow> (string \<rightharpoonup> bool) outcome" where
  "update_notification_preferences user_id updates s =
     (let filtered = updates |` (ntype_value ` set TOGGLEABLE_NOTIFICATION_TYPES);
          merged = get_overrides user_id s ++ filtered
      in bindE (upsert_overrides user_id merged s) (\<lambda>(saved, s1). Inr (merge_with_defaults saved, s1)))"

section \<open>Delivery\<close>

definition is_type_enabled :: "uuid \<Rightarrow> notification_type \<Rightarrow> sess \<Rightarrow> bool" where
  "is_type_enabled user_id ntype s =
     (if ntype \<in> set REQUIRED_NOTIFICATION_TYPES then True
      else case get_overrides user_id s (ntype_value ntype) of None \<Rightarrow> True | Some b \<Rightarrow> b)"

definition get_active_tokens :: "uuid \<Rightarrow> sess \<Rightarrow> string list" where
  "get_active_tokens user_id s = map dv_token (filter (\<lambda>d. dv_user_id d = user_id) (t_device_tokens s))"

datatype message =
    Push (mg_tokens: "string list") (mg_title: pystr) (mg_body: pystr) (mg_data: "(string \<times> json) list")
  | Socket (mg_user: uuid) (mg_payload: "(string \<times> json) list")

definition push_to :: "string list \<Rightarrow> pystr \<Rightarrow> pystr \<Rightarrow> (string \<times> json) list \<Rightarrow> message list" where
  "push_to tokens title body data = (if tokens = [] then [] else [Push tokens title body data])"

text \<open>
  The body every handler shares: nothing for a type the reader turned off; otherwise the inbox row,
  committed, and a push to the reader's devices.
\<close>

definition notify_one ::
    "uuid \<Rightarrow> datetime \<Rightarrow> uuid \<Rightarrow> notification_type \<Rightarrow> pystr \<Rightarrow> pystr \<Rightarrow> (string \<times> json) list \<Rightarrow> (string \<times> json) list \<Rightarrow>
     sess \<Rightarrow> (notification option \<times> message list) outcome" where
  "notify_one new_id now user_id ntype title body data push_data s =
     (if \<not> is_type_enabled user_id ntype s then Inr ((None, []), s)
      else bindE (create_notification new_id now user_id (ntype_value ntype) title body data s) (\<lambda>(notif, s1).
           Inr ((Some notif, push_to (get_active_tokens user_id s1) (nt_title notif) (nt_body notif) push_data), s1)))"

text \<open>What a handler leaves behind: the database, the messages sent, and the exception it let out.\<close>

type_synonym handled = "sess \<times> message list \<times> error option"

definition settle :: "sess \<Rightarrow> (notification option \<times> message list) outcome \<Rightarrow> handled" where
  "settle s m = (case m of Inl e \<Rightarrow> (s, [], Some e) | Inr ((_, out), s1) \<Rightarrow> (s1, out, None))"

section \<open>Event handlers\<close>

definition on_reaction_added :: "uuid \<Rightarrow> datetime \<Rightarrow> event \<Rightarrow> sess \<Rightarrow> handled" where
  "on_reaction_added new_id now event s =
     (case event of
        ReactionAdded post_id reactor post_author _ \<Rightarrow>
          if reactor = post_author then (s, [], None)
          else settle s (notify_one new_id now post_author N_REACTION
                 [49352, 32, 48152, 51025, 51060, 32, 45804, 47160, 50612, 50836]
                 [54924, 50896, 45784, 51032, 32, 44544, 50640, 32, 48152, 51025, 51060, 32, 45804, 47160, 49845, 45768, 45796, 46]
                 [(''post_id'', JUuid post_id)] [(''post_id'', JUuid post_id)] s)
      | _ \<Rightarrow> (s, [], None))"

text \<open>The recipients are a Python set; the order here, author first, is one of the two it may take.\<close>

definition comment_recipients :: "uuid \<Rightarrow> uuid \<Rightarrow> uuid option \<Rightarrow> uuid list" where
  "comment_recipients commenter post_author parent_author =
     (if commenter \<noteq> post_author then [post_author] else []) @
     (case parent_author of None \<Rightarrow> [] | Some p \<Rightarrow> if p \<noteq> commenter \<and> p \<noteq> post_author then [p] else [])"

definition notify_comment_recipient :: "uuid \<Rightarrow> datetime \<Rightarrow> uuid \<Rightarrow> uuid \<Rightarrow> uuid \<Rightarrow> sess \<Rightarrow> handled" where
  "notify_comment_recipient new_id now post_id comment_id uid s =
     settle s (notify_one new_id now uid N_COMMENT
       [49352, 32, 45843, 44544, 51060, 32, 45804, 47160, 50612, 50836]
       [54924, 50896, 45784, 51032, 32, 44544, 50640, 32, 45843, 44544, 51060, 32, 45804, 47160, 49845, 45768, 45796, 46]
       [(''post_id'', JUuid post_id), (''comment_id'', JUuid comment_id)] [(''comment_id'', JUuid comment_id)] s)"

text \<open>One session per recipient; an exception stops the loop, and what was committed stays.\<close>

fun each_recipient :: "(uuid \<Rightarrow> sess \<Rightarrow> handled) \<Rightarrow> uuid list \<Rightarrow> sess \<Rightarrow> handled" where
  "each_recipient f [] s = (s, [], None)"
| "each_recipient f (u # us) s =
     (case f u s of (s1, out, err) \<Rightarrow>
        if err \<noteq> None then (s1, out, err)
        else (case each_recipient f us s1 of (s2, out2, err2) \<Rightarrow> (s2, out @ out2, err2)))"

definition on_comment_added :: "(uuid \<Rightarrow> uuid) \<Rightarrow> datetime \<Rightarrow> event \<Rightarrow> sess \<Rightarrow> handled" where
  "on_comment_added new_id now event s =
     (case event of
        CommentAdded comment_id post_id commenter post_author parent_author \<Rightarrow>
          each_recipient (\<lambda>u. notify_comment_recipient (new_id u) now post_id comment_id u)
            (comment_recipients commenter post_author parent_author) s
      | _ \<Rightarrow> (s, [], None))"

definition on_follow_received :: "uuid \<Rightarrow> datetime \<Rightarrow> event \<Rightarrow> sess \<Rightarrow> handled" where
  "on_follow_received new_id now event s =
     (case event of
        FollowReceived follower followee \<Rightarrow>
          (case notify_one new_id now followee N_FOLLOW_RECEIVED
                 [49352, 32, 54036, 47196, 50892, 44032, 32, 49373, 44220, 50612, 50836]
                 [54924, 50896, 45784, 51012, 32, 54036, 47196, 50864, 54620, 32, 49324, 46988, 51060, 32, 51080, 49845, 45768, 45796, 46]
                 [(''follower_id'', JUuid follower)] [(''follower_id'', JUuid follower)] s of
             Inl e \<Rightarrow> (s, [], Some e)
           | Inr ((None, _), s1) \<Rightarrow> (s1, [], None)
           | Inr ((Some notif, out), s1) \<Rightarrow>
               (s1, Socket followee [(''type'', JStr ''notification.follow_received''), (''follower_id'', JUuid follower),
                                     (''notification_id'', JUuid (nt_id notif))] # out, None))
      | _ \<Rightarrow> (s, [], None))"

definition on_badge_earned :: "uuid \<Rightarrow> datetime \<Rightarrow> event \<Rightarrow> sess \<Rightarrow> handled" where
  "on_badge_earned new_id now event s =
     (case event of
        BadgeEarned user_id badge_id badge_name \<Rightarrow>
          settle s (notify_one new_id now user_id N_BADGE_EARNED
            [49352, 32, 48176, 51648, 47484, 32, 54925, 46301, 54664, 50612, 50836, 33]
            ([39] @ badge_name @ [39] @
             [32, 48176, 51648, 47484, 32, 54925, 46301, 54664, 49845, 45768, 45796, 46, 32, 52629, 54616, 54644, 50836, 33])
            [(''badge_id'', JUuid badge_id), (''badge_name'', JText badge_name)] [(''badge_id'', JUuid badge_id)] s)
      | _ \<Rightarrow> (s, [], None))"

definition GRADE_LABELS :: "(int \<times> pystr) list" where
  "GRADE_LABELS = [(1, [49352, 49913]), (2, [53456, 46021, 51088]), (3, [50528, 46021, 51088]), (4, [50676, 54792, 32, 46021, 51088]), (5, [49436, 51116, 32, 47560, 49828, 53552])]"

definition TIER_ROMAN :: "(int \<times> pystr) list" where
  "TIER_ROMAN = [(1, ascii ''I''), (2, ascii ''II''), (3, ascii ''III'')]"

text \<open>
  \<open>f"{name} {tier}".strip()\<close>: names and numerals hold no blank at their ends, so what is stripped is
  the blank before a missing numeral.
\<close>

definition grade_label :: "int \<Rightarrow> int \<Rightarrow> pystr" where
  "grade_label grade tier =
     (let name = (case map_of GRADE_LABELS grade of None \<Rightarrow> [47560, 49828, 53552] | Some n \<Rightarrow> n)
      in case map_of TIER_ROMAN tier of None \<Rightarrow> name | Some r \<Rightarrow> name @ [32] @ r)"

definition on_grade_up :: "uuid \<Rightarrow> datetime \<Rightarrow> event \<Rightarrow> sess \<Rightarrow> handled" where
  "on_grade_up new_id now event s =
     (case event of
        UserGradeRecomputed user_id old_grade old_tier new_grade new_tier _ \<Rightarrow>
          if new_grade < old_grade \<or> new_grade = old_grade \<and> new_tier \<le> old_tier then (s, [], None)
          else let label = grade_label new_grade new_tier
               in settle s (notify_one new_id now user_id N_GRADE_UP
                    ([46321, 44553, 32, 49345, 49849, 33, 32] @ label @ [51060, 32, 46096, 50612, 50836])
                    ([46021, 49436, 32, 49892, 47141, 51060, 32, 54693, 49345, 46104, 50612, 32] @ label @
                     [32, 46321, 44553, 50640, 32, 46020, 45804, 54664, 49845, 45768, 45796, 46])
                    [(''new_grade'', JStr (py_str new_grade)), (''new_tier'', JStr (py_str new_tier))]
                    [(''grade'', JStr (py_str new_grade)), (''tier'', JStr (py_str new_tier))] s)
      | _ \<Rightarrow> (s, [], None))"

section \<open>Fan-outs to a club\<close>

text \<open>A failure for one recipient is logged and skipped.\<close>

fun skip_failures :: "(uuid \<Rightarrow> sess \<Rightarrow> handled) \<Rightarrow> uuid list \<Rightarrow> sess \<Rightarrow> sess \<times> message list" where
  "skip_failures f [] s = (s, [])"
| "skip_failures f (u # us) s =
     (case f u s of (s1, out, _) \<Rightarrow> case skip_failures f us s1 of (s2, out2) \<Rightarrow> (s2, out @ out2))"

definition fan_out_club_push ::
    "(uuid \<Rightarrow> uuid) \<Rightarrow> datetime \<Rightarrow> uuid list \<Rightarrow> notification_type \<Rightarrow> pystr \<Rightarrow> pystr \<Rightarrow> (string \<times> json) list \<Rightarrow> sess \<Rightarrow> sess \<times> message list" where
  "fan_out_club_push new_id now recipient_ids ntype title body data s =
     skip_failures (\<lambda>u s. settle s (notify_one (new_id u) now u ntype title body data data s)) recipient_ids s"

definition notify_agenda_published ::
    "(uuid \<Rightarrow> uuid) \<Rightarrow> datetime \<Rightarrow> uuid \<Rightarrow> uuid \<Rightarrow> uuid \<Rightarrow> uuid list \<Rightarrow> sess \<Rightarrow> sess \<times> message list" where
  "notify_agenda_published new_id now club_id session_id agenda_id recipient_ids s =
     fan_out_club_push new_id now recipient_ids N_AGENDA_PUBLISHED
       [49352, 32, 48156, 51228, 47928, 51060, 32, 50732, 46972, 50772, 50612, 50836]
       [47784, 51076, 50640, 32, 49352, 47196, 50868, 32, 48156, 51228, 47928, 51060, 32, 44172, 49884, 46096, 50612, 50836, 46, 32, 51648, 44552, 32, 54869, 51064, 54644, 48372, 49464, 50836, 46]
       [(''type'', JStr ''agenda_published''), (''club_id'', JUuid club_id), (''session_id'', JUuid session_id), (''agenda_id'', JUuid agenda_id)] s"

definition notify_topic_comment_added ::
    "(uuid \<Rightarrow> uuid) \<Rightarrow> datetime \<Rightarrow> uuid \<Rightarrow> uuid \<Rightarrow> uuid \<Rightarrow> uuid \<Rightarrow> uuid \<Rightarrow> uuid list \<Rightarrow> sess \<Rightarrow> sess \<times> message list" where
  "notify_topic_comment_added new_id now club_id session_id agenda_id topic_id comment_id recipient_ids s =
     fan_out_club_push new_id now recipient_ids N_DISCUSSION_COMMENTED
       [45436, 51228, 50640, 32, 45813, 44544, 51060, 32, 45804, 47160, 50612, 50836]
       [54924, 50896, 45784, 51032, 32, 48156, 51228, 47928, 47, 45813, 44544, 50640, 32, 49352, 32, 45813, 44544, 51060, 32, 45804, 47160, 49845, 45768, 45796, 46]
       [(''type'', JStr ''discussion_commented''), (''club_id'', JUuid club_id), (''session_id'', JUuid session_id), (''agenda_id'', JUuid agenda_id),
        (''topic_id'', JUuid topic_id), (''comment_id'', JUuid comment_id)] s"

end
