(* ===== verification/Subscription.thy ===== *)
theory Subscription
  imports ReadingRepo
begin

text \<open>
  \<open>backend/app/domains/subscription\<close> and \<open>backend/app/domains/shield\<close>: Pro subscriptions, promotions,
  discount coupons, and the purchase of streak shields. The purchase verifier is the parameter
  \<open>verify\<close> (platform, receipt, product), the experiment service \<open>convert\<close>; both are code the two
  services only call. \<open>gift\<close> says whether the shield grant is wired.
\<close>

section \<open>Repositories\<close>

definition get_subscription_status :: "uuid \<Rightarrow> sess \<Rightarrow> (bool \<times> datetime option \<times> string option) result" where
  "get_subscription_status user_id s =
     (case fetch us_id user_id (t_users s) of
        None \<Rightarrow> Inl (DomainError NotFoundError ''USER_NOT_FOUND'')
      | Some u \<Rightarrow> Inr (us_is_pro u, us_pro_expires_at u, us_pro_product_id u))"

definition update_subscription :: "uuid \<Rightarrow> bool \<Rightarrow> datetime option \<Rightarrow> string option \<Rightarrow> sess \<Rightarrow> sess" where
  "update_subscription user_id is_pro expires_at product_id s =
     s\<lparr>t_users := amend us_id user_id
        (\<lambda>u. u\<lparr>us_is_pro := is_pro, us_pro_expires_at := expires_at, us_pro_product_id := product_id\<rparr>) (t_users s)\<rparr>"

definition repo_active_promo :: "datetime \<Rightarrow> sess \<Rightarrow> promo option" where
  "repo_active_promo now s =
     (case order_asc pm_valid_until (filter (\<lambda>p. pm_is_active p \<and> pm_valid_from p \<le> now \<and> now < pm_valid_until p) (t_promos s)) of
        [] \<Rightarrow> None | p # _ \<Rightarrow> Some p)"

definition coupon_by_code :: "pystr \<Rightarrow> sess \<Rightarrow> coupon option" where
  "coupon_by_code code s = fetch cp_code code (t_coupons s)"

definition repo_create_coupon :: "datetime \<Rightarrow> pystr \<Rightarrow> int \<Rightarrow> int \<Rightarrow> sess \<Rightarrow> coupon outcome" where
  "repo_create_coupon now code discount_pct valid_days s =
     (if 32 < length code \<or> \<not> int4 discount_pct \<or> \<not> int4 valid_days then Inl DataError
      else let row = \<lparr>cp_code = code, cp_discount_pct = discount_pct, cp_valid_days = valid_days, cp_used_by = None, cp_used_at = None,
                      cp_created_at = now\<rparr>
           in bindE (insert_row cp_code True row (t_coupons s)) (\<lambda>rows. Inr (row, s\<lparr>t_coupons := rows\<rparr>)))"

definition mark_used :: "pystr \<Rightarrow> uuid \<Rightarrow> datetime \<Rightarrow> sess \<Rightarrow> sess outcome" where
  "mark_used code user_id used_at s =
     (if coupon_by_code code s = None then Inr (s, s)
      else if \<not> user_exists user_id s then Inl IntegrityError
      else let s1 = s\<lparr>t_coupons := amend cp_code code (\<lambda>c. c\<lparr>cp_used_by := Some user_id, cp_used_at := Some used_at\<rparr>) (t_coupons s)\<rparr>
           in Inr (s1, s1))"

section \<open>Pro subscriptions\<close>

definition ANNUAL_PRO_PRODUCT_ID :: string where "ANNUAL_PRO_PRODUCT_ID = ''annual_pro_59000''"
definition ANNUAL_WELCOME_SHIELDS :: int where "ANNUAL_WELCOME_SHIELDS = 3"

record subscription_status =
  ss_is_pro :: bool
  ss_expires_at :: "datetime option"
  ss_product_id :: "string option"

definition get_status :: "datetime \<Rightarrow> uuid \<Rightarrow> sess \<Rightarrow> subscription_status outcome" where
  "get_status now user_id s =
     bindE (get_subscription_status user_id s) (\<lambda>(is_pro, expires_at, product_id).
       if is_pro \<and> (case expires_at of None \<Rightarrow> False | Some e \<Rightarrow> e < now)
       then Inr (\<lparr>ss_is_pro = False, ss_expires_at = None, ss_product_id = None\<rparr>, update_subscription user_id False None None s)
       else Inr (\<lparr>ss_is_pro = is_pro, ss_expires_at = expires_at, ss_product_id = product_id\<rparr>, s))"

record verification =
  vf_is_valid :: bool
  vf_product_id :: string
  vf_expires_at :: "datetime option"

definition verify_and_activate ::
    "(string \<Rightarrow> pystr \<Rightarrow> string \<Rightarrow> verification result) \<Rightarrow> (uuid \<Rightarrow> sess \<Rightarrow> unit outcome) option \<Rightarrow> uuid \<Rightarrow> string \<Rightarrow> pystr \<Rightarrow> string \<Rightarrow>
     sess \<Rightarrow> (bool \<times> datetime option) outcome" where
  "verify_and_activate verify convert user_id platform receipt_data product_id s =
     bindE (verify platform receipt_data product_id) (\<lambda>r.
       if \<not> vf_is_valid r then Inl (DomainError ConflictError ''RECEIPT_INVALID'')
       else let s1 = update_subscription user_id True (vf_expires_at r) (Some (vf_product_id r)) s
            in bindE (case convert of None \<Rightarrow> Inr ((), s1) | Some f \<Rightarrow> f user_id s1) (\<lambda>(_, s2). Inr ((True, vf_expires_at r), s2)))"

definition grant_shields :: "uuid \<Rightarrow> int \<Rightarrow> sess \<Rightarrow> unit outcome" where
  "grant_shields user_id n s =
     bindE (get_or_init user_id s) (\<lambda>(grade, s1).
     bindE (update_streak_shields user_id (ug_streak_shields grade + n) s1) (\<lambda>(_, s2). Inr ((), s2)))"

definition apply_webhook_event :: "bool \<Rightarrow> string \<Rightarrow> uuid \<Rightarrow> string \<Rightarrow> datetime option \<Rightarrow> sess \<Rightarrow> unit outcome" where
  "apply_webhook_event gift event_type user_id product_id expires_at s =
     (if event_type \<in> {''INITIAL_PURCHASE'', ''RENEWAL''}
      then let s1 = update_subscription user_id True expires_at (Some product_id) s
           in if event_type = ''INITIAL_PURCHASE'' \<and> product_id = ANNUAL_PRO_PRODUCT_ID \<and> gift
              then grant_shields user_id ANNUAL_WELCOME_SHIELDS s1
              else Inr ((), s1)
      else if event_type \<in> {''CANCELLATION'', ''EXPIRATION''}
      then Inr ((), update_subscription user_id False None (Some product_id) s)
      else Inr ((), s))"

section \<open>Promotions and coupons\<close>

definition get_active_promo :: "datetime \<Rightarrow> sess \<Rightarrow> (string \<times> int \<times> datetime) option" where
  "get_active_promo now s = map_option (\<lambda>p. (pm_promo_code p, pm_discount_pct p, pm_valid_until p)) (repo_active_promo now s)"

definition apply_coupon :: "datetime \<Rightarrow> uuid \<Rightarrow> pystr \<Rightarrow> sess \<Rightarrow> (int \<times> int) outcome" where
  "apply_coupon now user_id code s =
     (case coupon_by_code code s of
        None \<Rightarrow> Inl (DomainError NotFoundError ''COUPON_NOT_FOUND'')
      | Some c \<Rightarrow>
          if cp_used_by c \<noteq> None then Inl (DomainError ConflictError ''COUPON_ALREADY_USED'')
          else bindE (mark_used code user_id now s) (\<lambda>(_, s1). Inr ((cp_discount_pct c, cp_valid_days c), s1)))"

definition create_coupon :: "datetime \<Rightarrow> pystr \<Rightarrow> int \<Rightarrow> int \<Rightarrow> sess \<Rightarrow> (pystr \<times> int \<times> int) outcome" where
  "create_coupon now code discount_pct valid_days s =
     (if coupon_by_code code s \<noteq> None then Inl (DomainError ConflictError ''COUPON_EXISTS'')
      else bindE (repo_create_coupon now code discount_pct valid_days s) (\<lambda>(c, s1).
           Inr ((cp_code c, cp_discount_pct c, cp_valid_days c), s1)))"

section \<open>Streak shields\<close>

definition SHIELD_PRODUCTS :: "(string \<times> int) list" where
  "SHIELD_PRODUCTS = [(''shield_1'', 1), (''shield_3'', 3)]"

definition shield_create :: "uuid \<Rightarrow> datetime \<Rightarrow> uuid \<Rightarrow> string \<Rightarrow> int \<Rightarrow> pystr \<Rightarrow> sess \<Rightarrow> shield_purchase outcome" where
  "shield_create new_id now user_id product_id shields_granted receipt_data s =
     (if 64 < length product_id \<or> \<not> int4 shields_granted then Inl DataError
      else let row = \<lparr>sp_id = new_id, sp_user_id = user_id, sp_product_id = product_id, sp_shields_granted = shields_granted,
                      sp_receipt_data = receipt_data, sp_purchased_at = now, sp_refunded_at = None\<rparr>
           in bindE (insert_row sp_id (user_exists user_id s) row (t_shield_purchases s)) (\<lambda>rows. Inr (row, s\<lparr>t_shield_purchases := rows\<rparr>)))"

definition purchase_by_id :: "uuid \<Rightarrow> sess \<Rightarrow> shield_purchase option" where
  "purchase_by_id purchase_id s = fetch sp_id purchase_id (t_shield_purchases s)"

definition shield_refund :: "datetime \<Rightarrow> uuid \<Rightarrow> sess \<Rightarrow> unit outcome" where
  "shield_refund now purchase_id s =
     (if purchase_by_id purchase_id s = None then Inl (DomainError NotFoundError ''PURCHASE_NOT_FOUND'')
      else Inr ((), s\<lparr>t_shield_purchases := amend sp_id purchase_id (\<lambda>p. p\<lparr>sp_refunded_at := Some now\<rparr>) (t_shield_purchases s)\<rparr>))"

definition purchases_by_user :: "uuid \<Rightarrow> sess \<Rightarrow> shield_purchase list" where
  "purchases_by_user user_id s = order_desc sp_purchased_at (filter (\<lambda>p. sp_user_id p = user_id) (t_shield_purchases s))"

definition purchase_shields ::
    "(string \<Rightarrow> pystr \<Rightarrow> string \<Rightarrow> verification result) \<Rightarrow> uuid \<Rightarrow> datetime \<Rightarrow> uuid \<Rightarrow> string \<Rightarrow> pystr \<Rightarrow> sess \<Rightarrow> (int \<times> int) outcome" where
  "purchase_shields verify new_id now user_id product_id receipt_data s =
     (case map_of SHIELD_PRODUCTS product_id of
        None \<Rightarrow> Inl (DomainError ConflictError ''INVALID_PRODUCT'')
      | Some shields_granted \<Rightarrow>
          bindE (verify ''ios'' receipt_data product_id) (\<lambda>r.
            if \<not> vf_is_valid r then Inl (DomainError ConflictError ''INVALID_RECEIPT'')
            else bindE (shield_create new_id now user_id product_id shields_granted receipt_data s) (\<lambda>(_, s1).
                 bindE (get_or_init user_id s1) (\<lambda>(grade, s2).
                 let new_balance = ug_streak_shields grade + shields_granted
                 in bindE (update_streak_shields user_id new_balance s2) (\<lambda>(_, s3). Inr ((shields_granted, new_balance), s3))))))"

definition handle_refund_webhook :: "datetime \<Rightarrow> uuid \<Rightarrow> sess \<Rightarrow> unit outcome" where
  "handle_refund_webhook now purchase_id s =
     (case purchase_by_id purchase_id s of
        None \<Rightarrow> Inl (DomainError NotFoundError ''PURCHASE_NOT_FOUND'')
      | Some purchase \<Rightarrow>
          bindE (shield_refund now purchase_id s) (\<lambda>(_, s1).
          bindE (get_or_init (sp_user_id purchase) s1) (\<lambda>(grade, s2).
          bindE (update_streak_shields (sp_user_id purchase) (max 0 (ug_streak_shields grade - sp_shields_granted purchase)) s2)
            (\<lambda>(_, s3). Inr ((), s3)))))"

end
