(* ===== verification/NotificationBatch.thy ===== *)
theory NotificationBatch
  imports Notification FeedService Subscription
begin

text \<open>
  The scheduled side of \<open>NotificationService\<close> (\<open>backend/app/domains/notification/service.py\<close>) with the
  queries of \<open>providers.py\<close> behind its ports, and the retention service that uses it
  (\<open>backend/app/domains/retention\<close>). \<open>day_of_instant\<close> is the server's \<open>date()\<close> of an instant.
\<close>

section \<open>Dates and instants as text\<close>

definition pad :: "nat \<Rightarrow> int \<Rightarrow> string" where
  "pad n k = (let d = py_str k in replicate (n - length d) (CHR ''0'') @ d)"

definition iso_date :: "date \<Rightarrow> string" where
  "iso_date d = pad 4 (year_of d) @ ''-'' @ pad 2 (month_of d) @ ''-'' @ pad 2 (day_of d)"

text \<open>\<open>datetime.isoformat()\<close> of an instant in UTC: microseconds only when there are some.\<close>

definition iso_datetime :: "datetime \<Rightarrow> string" where
  "iso_datetime t =
     (let us = t mod day_us; secs = us div 1000000; frac = us mod 1000000
      in iso_date (utc_date t) @ ''T'' @ pad 2 (secs div 3600) @ '':'' @ pad 2 (secs div 60 mod 60) @ '':'' @ pad 2 (secs mod 60) @
         (if frac = 0 then [] else ''.'' @ pad 6 frac) @ ''+00:00'')"

section \<open>The queries\<close>

definition get_all_active_user_ids :: "sess \<Rightarrow> uuid list" where
  "get_all_active_user_ids s = map us_id (filter (\<lambda>u. us_deleted_at u = None) (t_users s))"

definition get_stats_for_week :: "uuid \<Rightarrow> date \<Rightarrow> date \<Rightarrow> sess \<Rightarrow> (date \<times> int) list" where
  "get_stats_for_week user_id week_start week_end s =
     map (\<lambda>r. (ds_date r, ds_total_seconds r)) (order_asc ds_date
       (filter (\<lambda>r. ds_user_id r = user_id \<and> week_start \<le> ds_date r \<and> ds_date r \<le> week_end) (t_daily_stats s)))"

definition get_longest_in_range :: "(datetime \<Rightarrow> date) \<Rightarrow> uuid \<Rightarrow> date \<Rightarrow> date \<Rightarrow> sess \<Rightarrow> int" where
  "get_longest_in_range day_of_instant user_id from_date to_date s =
     (let rows = filter (\<lambda>r. rs_user_id r = user_id \<and> rs_source r = TIMER \<and> rs_ended_at r \<noteq> None \<and>
            from_date \<le> day_of_instant (rs_started_at r) \<and> day_of_instant (rs_started_at r) \<le> to_date) (t_reading_sessions s);
          durations = List.map_filter rs_duration_sec rows
      in if durations = [] then 0 else foldl max (hd durations) (tl durations))"

definition trial_ending_within :: "datetime \<Rightarrow> int \<Rightarrow> sess \<Rightarrow> (uuid \<times> datetime) list" where
  "trial_ending_within now hours s =
     List.map_filter (\<lambda>u. case us_trial_ends_at u of
         None \<Rightarrow> None
       | Some t \<Rightarrow> if us_deleted_at u = None \<and> \<not> us_is_pro u \<and> now < t \<and> t \<le> now + hours * 3600000000 then Some (us_id u, t) else None)
       (t_users s)"

definition trial_expired_around :: "datetime \<Rightarrow> int \<Rightarrow> sess \<Rightarrow> uuid list" where
  "trial_expired_around now days_ago s =
     map us_id (filter (\<lambda>u. us_deleted_at u = None \<and> \<not> us_is_pro u \<and>
       (case us_trial_ends_at u of None \<Rightarrow> False
        | Some t \<Rightarrow> now - days_ago * day_us - day_us \<le> t \<and> t < now - days_ago * day_us)) (t_users s))"

definition issue_coupon :: "datetime \<Rightarrow> pystr \<Rightarrow> int \<Rightarrow> int \<Rightarrow> sess \<Rightarrow> unit outcome" where
  "issue_coupon now code discount_pct valid_days s =
     (if coupon_by_code code s \<noteq> None then Inr ((), s)
      else bindE (repo_create_coupon now code discount_pct valid_days s) (\<lambda>(_, s1). Inr ((), s1)))"

section \<open>The weekly report\<close>

text \<open>\<open>max(stats, key=...)\<close>: the first day with the largest total.\<close>

fun best_of :: "date \<times> int \<Rightarrow> (date \<times> int) list \<Rightarrow> date \<times> int" where
  "best_of b [] = b"
| "best_of b (x # xs) = best_of (if snd b < snd x then x else b) xs"

definition generate_report_for_user ::
    "(datetime \<Rightarrow> date) \<Rightarrow> uuid \<Rightarrow> uuid \<Rightarrow> datetime \<Rightarrow> date \<Rightarrow> date \<Rightarrow> uuid \<Rightarrow> sess \<Rightarrow> handled" where
  "generate_report_for_user day_of_instant report_id notif_id now week_start week_end user_id s =
     (case get_stats_for_week user_id week_start week_end s of
        [] \<Rightarrow> (s, [], None)
      | st # sts \<Rightarrow>
          let total = sum_list (map snd (st # sts));
              longest = get_longest_in_range day_of_instant user_id week_start week_end s
          in settle s (bindE (report_upsert report_id user_id week_start total (int (length (st # sts))) (Some (fst (best_of st sts))) longest s)
               (\<lambda>(report, s1).
                 if \<not> is_type_enabled user_id N_WEEKLY_REPORT s1 then Inr ((None, []), s1)
                 else bindE (create_notification notif_id now user_id ''weekly_report''
                        [51060, 48264, 32, 51452, 32, 46021, 49436, 32, 47532, 54252, 53944, 44032, 32, 46020, 52265, 54664, 50612, 50836]
                        ([51648, 45212, 32, 54620, 32, 51452, 32, 46041, 50504, 32, 52509, 32] @ ascii (py_str (total div 60)) @
                         [48516, 32, 46021, 49436, 54664, 50612, 50836, 46])
                        [(''week_start'', JStr (iso_date week_start))] s1) (\<lambda>(notif, s2).
                      Inr ((Some notif, push_to (get_active_tokens user_id s2) (nt_title notif) (nt_body notif)
                              [(''week_start'', JStr (iso_date week_start))]),
                           mark_push_sent (wr_id report) now s2)))))"

definition run_weekly_report_batch ::
    "(datetime \<Rightarrow> date) \<Rightarrow> (uuid \<Rightarrow> uuid) \<Rightarrow> (uuid \<Rightarrow> uuid) \<Rightarrow> datetime \<Rightarrow> date \<Rightarrow> sess \<Rightarrow> sess \<times> message list" where
  "run_weekly_report_batch day_of_instant report_id notif_id now today s =
     (let last_monday = today - (weekday today + 7); last_sunday = last_monday + 6
      in skip_failures (\<lambda>u s. generate_report_for_user day_of_instant (report_id u) (notif_id u) now last_monday last_sunday u s)
           (get_all_active_user_ids s) s)"

section \<open>Reminders\<close>

definition send_streak_warning_push :: "uuid \<Rightarrow> datetime \<Rightarrow> uuid \<Rightarrow> int \<Rightarrow> string \<Rightarrow> sess \<Rightarrow> handled" where
  "send_streak_warning_push new_id now user_id streak_days device_token s =
     (if \<not> is_type_enabled user_id N_STREAK_WARNING s then (s, [], None)
      else let title = [49828, 53944, 47533, 51060, 32, 45130, 44600, 32, 50948, 54744, 51060, 50640, 50836, 33, 32, 128293];
               body = ascii (py_str streak_days) @
                 [51068, 32, 50672, 49549, 32, 46021, 49436, 32, 51473, 51060, 50640, 50836, 46, 32, 50724, 45720, 32, 46021, 49436, 47484, 32, 44592, 47197, 54644, 32, 48372, 49464, 50836, 46]
           in settle s (bindE (create_notification new_id now user_id ''streak_warning'' title body
                  [(''streak_days'', JStr (py_str streak_days))] s) (\<lambda>(notif, s1).
                Inr ((Some notif, [Push [device_token] title body [(''streak_days'', JStr (py_str streak_days))]]), s1))))"

definition reengagement_copy :: "string \<Rightarrow> pystr \<times> pystr" where
  "reengagement_copy push_type =
     (if push_type = ''day7_inactive'' then
        ([45796, 49884, 32, 46021, 49436, 47484, 32, 49884, 51089, 54644, 32, 48380, 44620, 50836, 63, 32, 128218],
         [55, 51068, 32, 46041, 50504, 32, 46021, 49436, 32, 44592, 47197, 51060, 32, 50630, 50612, 50836, 46, 32, 50724, 45720, 32, 51104, 44624, 51060, 46972, 46020, 32, 51069, 50612, 32, 48372, 49464, 50836, 33])
      else if push_type = ''streak_recovery'' then
        ([49828, 53944, 47533, 51012, 32, 46104, 52286, 50500, 32, 48372, 49464, 50836, 33, 32, 128293],
         [49828, 53944, 47533, 32, 48373, 44396, 44428, 51012, 32, 49324, 50857, 54644, 32, 46021, 49436, 32, 50672, 49549, 32, 44592, 47197, 51012, 32, 51060, 50612, 32, 44032, 49464, 50836, 46])
      else (ascii ''Book Club'', []))"

definition send_reengagement_push :: "uuid \<Rightarrow> datetime \<Rightarrow> uuid \<Rightarrow> string \<Rightarrow> sess \<Rightarrow> handled" where
  "send_reengagement_push new_id now user_id push_type s =
     (case reengagement_copy push_type of (title, body) \<Rightarrow>
        settle s (notify_one new_id now user_id N_STREAK_WARNING title body [(''push_type'', JStr push_type)] [(''push_type'', JStr push_type)] s))"

text \<open>Trial and billing notices are not gated.\<close>

definition notify_always ::
    "uuid \<Rightarrow> datetime \<Rightarrow> uuid \<Rightarrow> pystr \<Rightarrow> pystr \<Rightarrow> (string \<times> json) list \<Rightarrow> sess \<Rightarrow> handled" where
  "notify_always new_id now user_id title body data s =
     settle s (bindE (create_notification new_id now user_id ''subscription_reminder'' title body data s) (\<lambda>(notif, s1).
       Inr ((Some notif, push_to (get_active_tokens user_id s1) title body data), s1)))"

definition schedule_subscription_reminders :: "uuid \<Rightarrow> datetime \<Rightarrow> uuid \<Rightarrow> datetime \<Rightarrow> sess \<Rightarrow> handled" where
  "schedule_subscription_reminders new_id now user_id trial_ends_at s =
     notify_always new_id now user_id
       [45236, 51068, 32, 80, 114, 111, 32, 54812, 53469, 51060, 32, 51333, 47308, 46076, 50836]
       [51648, 44552, 32, 44396, 46021, 54616, 47732, 32, 51, 48, 37, 32, 54624, 51064, 32, 8212, 32, 52404, 54744, 32, 51473, 32, 45572, 47536, 32, 80, 114, 111, 32, 44592, 45733, 51012, 32, 44228, 49549, 32, 51060, 50612, 44032, 49464, 50836, 46]
       [(''trial_ends_at'', JStr (iso_datetime trial_ends_at))] s"

definition send_rejoin_push :: "uuid \<Rightarrow> datetime \<Rightarrow> uuid \<Rightarrow> pystr \<Rightarrow> sess \<Rightarrow> handled" where
  "send_rejoin_push new_id now user_id coupon_code s =
     notify_always new_id now user_id
       [45796, 49884, 32, 47564, 45208, 50836, 33, 32, 50, 48, 37, 32, 54624, 51064, 32, 53216, 54256, 51060, 32, 46020, 52265, 54664, 50612, 50836, 32, 127873]
       ([53216, 54256, 32] @ coupon_code @
        [32, 51004, 47196, 32, 80, 114, 111, 47484, 32, 50, 48, 37, 32, 54624, 51064, 44032, 50640, 32, 45796, 49884, 32, 49884, 51089, 54644, 32, 48372, 49464, 50836, 46, 32, 40, 51, 48, 51068, 32, 51060, 45236, 41])
       [(''coupon_code'', JText coupon_code)] s"

definition REENGAGE_AFTER_DAYS :: int where "REENGAGE_AFTER_DAYS = 7"
definition REENGAGE_DISCOUNT_PCT :: int where "REENGAGE_DISCOUNT_PCT = 20"
definition REENGAGE_VALID_DAYS :: int where "REENGAGE_VALID_DAYS = 30"

definition rejoin_code :: "uuid \<Rightarrow> pystr" where
  "rejoin_code user_id = ascii ''REJOIN_'' @ map (\<lambda>c. if 97 \<le> c \<and> c \<le> 122 then c - 32 else c) (take 8 (uuid_str user_id))"

text \<open>The coupon is committed in a session of its own before the push.\<close>

definition reengage_one :: "(uuid \<Rightarrow> uuid) \<Rightarrow> datetime \<Rightarrow> uuid \<Rightarrow> sess \<Rightarrow> handled" where
  "reengage_one new_id now user_id s =
     (case issue_coupon now (rejoin_code user_id) REENGAGE_DISCOUNT_PCT REENGAGE_VALID_DAYS s of
        Inl e \<Rightarrow> (s, [], Some e)
      | Inr (_, s1) \<Rightarrow> send_rejoin_push (new_id user_id) now user_id (rejoin_code user_id) s1)"

definition send_reengagement_coupons :: "bool \<Rightarrow> (uuid \<Rightarrow> uuid) \<Rightarrow> datetime \<Rightarrow> sess \<Rightarrow> sess \<times> message list" where
  "send_reengagement_coupons wired new_id now s =
     (if \<not> wired then (s, [])
      else skip_failures (reengage_one new_id now) (trial_expired_around now REENGAGE_AFTER_DAYS s) s)"

fun remind_all :: "(uuid \<Rightarrow> uuid) \<Rightarrow> datetime \<Rightarrow> (uuid \<times> datetime) list \<Rightarrow> sess \<Rightarrow> sess \<times> message list" where
  "remind_all new_id now [] s = (s, [])"
| "remind_all new_id now ((u, t) # us) s =
     (case schedule_subscription_reminders (new_id u) now u t s of (s1, out, _) \<Rightarrow>
      case remind_all new_id now us s1 of (s2, out2) \<Rightarrow> (s2, out @ out2))"

definition send_expiry_reminders :: "bool \<Rightarrow> bool \<Rightarrow> (uuid \<Rightarrow> uuid) \<Rightarrow> (uuid \<Rightarrow> uuid) \<Rightarrow> datetime \<Rightarrow> sess \<Rightarrow> sess \<times> message list" where
  "send_expiry_reminders trial_wired coupons_wired new_id new_id2 now s =
     (if \<not> trial_wired then (s, [])
      else case remind_all new_id now (trial_ending_within now 24 s) s of (s1, out) \<Rightarrow>
           case send_reengagement_coupons coupons_wired new_id2 now s1 of (s2, out2) \<Rightarrow> (s2, out @ out2))"

section \<open>Retention\<close>

definition get_inactive_users :: "datetime \<Rightarrow> int \<Rightarrow> nat \<Rightarrow> sess \<Rightarrow> user list" where
  "get_inactive_users now inactive_days limit s =
     take limit (order_asc (\<lambda>u. case us_last_active_at u of None \<Rightarrow> 0 | Some t \<Rightarrow> t)
       (filter (\<lambda>u. us_deleted_at u = None \<and> (case us_last_active_at u of None \<Rightarrow> False | Some t \<Rightarrow> t < now - inactive_days * day_us)) (t_users s)))"

definition has_push_today :: "datetime \<Rightarrow> uuid \<Rightarrow> string \<Rightarrow> sess \<Rightarrow> bool" where
  "has_push_today now user_id push_type s =
     (let today_start = midnight (utc_date now)
      in \<exists>r \<in> set (t_push_logs s). pl_user_id r = user_id \<and> pl_push_type r = push_type \<and> today_start \<le> pl_sent_at r \<and>
           pl_sent_at r < today_start + day_us)"

definition log_push :: "uuid \<Rightarrow> datetime \<Rightarrow> uuid \<Rightarrow> string \<Rightarrow> sess \<Rightarrow> push_log outcome" where
  "log_push new_id now user_id push_type s =
     (if 32 < length push_type then Inl DataError
      else let row = \<lparr>pl_id = new_id, pl_user_id = user_id, pl_push_type = push_type, pl_sent_at = now\<rparr>
           in bindE (insert_row pl_id (user_exists user_id s) row (t_push_logs s)) (\<lambda>rows. Inr (row, s\<lparr>t_push_logs := rows\<rparr>)))"

definition count_recoveries_last_30_days :: "datetime \<Rightarrow> uuid \<Rightarrow> sess \<Rightarrow> nat" where
  "count_recoveries_last_30_days now user_id s =
     length (filter (\<lambda>r. rl_user_id r = user_id \<and> now - 30 * day_us \<le> rl_recovered_at r) (t_recovery_logs s))"

definition log_recovery :: "uuid \<Rightarrow> datetime \<Rightarrow> uuid \<Rightarrow> int \<Rightarrow> sess \<Rightarrow> recovery_log outcome" where
  "log_recovery new_id now user_id days s =
     (let row = \<lparr>rl_id = new_id, rl_user_id = user_id, rl_recovered_at = now, rl_days_recovered = days\<rparr>
      in bindE (insert_row rl_id (user_exists user_id s) row (t_recovery_logs s)) (\<lambda>rows. Inr (row, s\<lparr>t_recovery_logs := rows\<rparr>)))"

text \<open>
  The campaign: a reader whose push or log entry raises is logged and skipped. The log entries live
  in the campaign's own session, the notifications in sessions of theirs.
\<close>

fun campaign :: "(uuid \<Rightarrow> uuid) \<Rightarrow> (uuid \<Rightarrow> uuid) \<Rightarrow> datetime \<Rightarrow> string \<Rightarrow> uuid list \<Rightarrow> sess \<Rightarrow> nat \<times> sess \<times> message list" where
  "campaign log_id notif_id now push_type [] s = (0, s, [])"
| "campaign log_id notif_id now push_type (u # us) s =
     (if has_push_today now u push_type s then campaign log_id notif_id now push_type us s
      else case send_reengagement_push (notif_id u) now u push_type s of (s1, out, err) \<Rightarrow>
        (if err \<noteq> None then (case campaign log_id notif_id now push_type us s1 of (n, s2, out2) \<Rightarrow> (n, s2, out @ out2))
         else case log_push (log_id u) now u push_type s1 of
             Inl _ \<Rightarrow> (case campaign log_id notif_id now push_type us s1 of (n, s2, out2) \<Rightarrow> (n, s2, out @ out2))
           | Inr (_, s2) \<Rightarrow> (case campaign log_id notif_id now push_type us s2 of (n, s3, out2) \<Rightarrow> (Suc n, s3, out @ out2))))"

definition run_reengagement_campaign :: "(uuid \<Rightarrow> uuid) \<Rightarrow> (uuid \<Rightarrow> uuid) \<Rightarrow> datetime \<Rightarrow> sess \<Rightarrow> nat \<times> sess \<times> message list" where
  "run_reengagement_campaign log_id notif_id now s =
     campaign log_id notif_id now ''day7_inactive'' (map us_id (get_inactive_users now 7 1000 s)) s"

definition RECOVERY_MONTHLY_LIMIT :: nat where "RECOVERY_MONTHLY_LIMIT = 2"

definition recover_streak :: "uuid \<Rightarrow> datetime \<Rightarrow> uuid \<Rightarrow> sess \<Rightarrow> (nat \<times> nat) outcome" where
  "recover_streak new_id now user_id s =
     (let used = count_recoveries_last_30_days now user_id s in
      if RECOVERY_MONTHLY_LIMIT \<le> used then Inl (DomainError ConflictError ''STREAK_RECOVERY_LIMIT'')
      else bindE (get_or_init user_id s) (\<lambda>(grade, s1).
           bindE (update_snapshot user_id None None None None (Some (ug_streak_days grade + 1)) None None None s1) (\<lambda>(_, s2).
           bindE (log_recovery new_id now user_id 1 s2) (\<lambda>(_, s3).
           Inr ((1, RECOVERY_MONTHLY_LIMIT - (used + 1)), s3)))))"

definition get_recovery_status :: "datetime \<Rightarrow> uuid \<Rightarrow> sess \<Rightarrow> nat \<times> nat" where
  "get_recovery_status now user_id s =
     (let used = count_recoveries_last_30_days now user_id s in (used, RECOVERY_MONTHLY_LIMIT - used))"

definition get_campaign_stats :: "datetime \<Rightarrow> sess \<Rightarrow> nat \<times> nat \<times> nat" where
  "get_campaign_stats now s =
     (length (filter (\<lambda>r. now - 7 * day_us \<le> pl_sent_at r) (t_push_logs s)),
      length (filter (\<lambda>r. now - 30 * day_us \<le> rl_recovered_at r) (t_recovery_logs s)),
      length (filter (\<lambda>u. us_deleted_at u = None \<and> (case us_last_active_at u of None \<Rightarrow> False | Some t \<Rightarrow> t < now - 7 * day_us)) (t_users s)))"

end
