(* ===== verification/SubscriptionProps.thy ===== *)
theory SubscriptionProps
  imports NotificationBatch ReadingLedger Demo
begin

text \<open>
  Properties of coupons, shields, subscriptions and streak recovery.
\<close>

section \<open>Coupons\<close>

text \<open>
  A coupon is redeemed once: what was created is what the first reader gets, and after that the
  coupon is refused to everyone and its code cannot be created again. (Its validity in days is
  answered, but never compared with the clock.)
\<close>

theorem coupon_single_use:
  assumes "create_coupon made code pct days s = Inr (c, s1)" "apply_coupon now u code s1 = Inr (r, s2)"
  shows "c = (code, pct, days) \<and> r = (pct, days) \<and>
    apply_coupon later v code s2 = Inl (DomainError ConflictError ''COUPON_ALREADY_USED'') \<and>
    create_coupon later code pct2 days2 s2 = Inl (DomainError ConflictError ''COUPON_EXISTS'') \<and>
    (\<forall>k. k \<noteq> code \<longrightarrow> coupon_by_code k s2 = coupon_by_code k s)"
proof -
  define row where "row = \<lparr>cp_code = code, cp_discount_pct = pct, cp_valid_days = days, cp_used_by = None, cp_used_at = None, cp_created_at = made\<rparr>"
  have row: "cp_code row = code" "cp_discount_pct row = pct" "cp_valid_days row = days" "cp_used_by row = None"
      "s1 = s\<lparr>t_coupons := t_coupons s @ [row]\<rparr>" "c = (code, pct, days)" "fetch cp_code code (t_coupons s) = None"
    using assms(1) by (auto simp: row_def create_coupon_def repo_create_coupon_def coupon_by_code_def Let_def insert_row_Inr_iff split: if_splits)
  have get: "fetch cp_code k (t_coupons s1) = (if k = code then Some row else fetch cp_code k (t_coupons s))" for k
    using fetch_snoc [of cp_code row "t_coupons s" k] row(1,5,7) by simp
  let ?f = "\<lambda>c. c\<lparr>cp_used_by := Some u, cp_used_at := Some now\<rparr>"
  have s2: "s2 = s1\<lparr>t_coupons := amend cp_code code ?f (t_coupons s1)\<rparr>" and r: "r = (pct, days)"
    using assms(2) row(2-4) get [of code] by (auto simp: apply_coupon_def mark_used_def coupon_by_code_def Let_def split: if_splits)
  have "coupon_by_code k s2 = (if k = code then Some (?f row) else coupon_by_code k s)" for k
    unfolding coupon_by_code_def s2 by (simp add: fetch_amend get)
  then show ?thesis using row(6) r by (simp add: apply_coupon_def create_coupon_def)
qed

lemma coupon_single_use_witness:
  "\<exists>c s1 r s2. create_coupon t0 [65] 20 30 demo = Inr (c, s1) \<and> apply_coupon t0 1 [65] s1 = Inr (r, s2) \<and> r = (20, 30) \<and>
     apply_coupon (t0 + 400 * day_us) 2 [65] s2 = Inl (DomainError ConflictError ''COUPON_ALREADY_USED'')"
proof -
  let ?row = "\<lparr>cp_code = [65], cp_discount_pct = 20, cp_valid_days = 30, cp_used_by = None, cp_used_at = None, cp_created_at = t0\<rparr>"
  let ?s1 = "demo\<lparr>t_coupons := [?row]\<rparr>"
  have "t_coupons demo = []" by (simp add: demo_def empty_sess_def)
  then have c: "create_coupon t0 [65] 20 30 demo = Inr (([65], 20, 30), ?s1)"
    by (simp add: create_coupon_def repo_create_coupon_def coupon_by_code_def int4_def insert_row_def Let_def)
  obtain r s2 where r: "apply_coupon t0 1 [65] ?s1 = Inr (r, s2)"
    by (simp add: apply_coupon_def mark_used_def coupon_by_code_def user_exists_def Let_def)
  from c r coupon_single_use [OF c r, of "t0 + 400 * day_us" 2] show ?thesis by blast
qed

section \<open>Shields\<close>

definition shields_of :: "uuid \<Rightarrow> sess \<Rightarrow> int" where
  "shields_of u s = ug_streak_shields (grade_of u s)"

lemma init_shield_write:
  assumes "get_or_init u s = Inr (g, s1)" "update_streak_shields u n s1 = Inr (x, s2)"
  shows "g = grade_of u s \<and> grade_of v s2 = (if v = u then (grade_of u s)\<lparr>ug_streak_shields := n\<rparr> else grade_of v s) \<and>
    t_shield_purchases s2 = t_shield_purchases s \<and> t_users s2 = t_users s"
proof -
  show ?thesis
  proof (cases "fetch ug_user_id u (t_user_grades s)")
    case None
    then have g: "g = init_grade u" "s1 = s\<lparr>t_user_grades := t_user_grades s @ [init_grade u]\<rparr>"
      using assms(1) by (auto simp: get_or_init_def insert_row_Inr_iff)
    have row: "fetch ug_user_id v (t_user_grades s1) = (if v = u then Some (init_grade u) else fetch ug_user_id v (t_user_grades s))" for v
      using fetch_snoc [of ug_user_id "init_grade u" "t_user_grades s" v] None by (simp add: g(2) init_grade_def)
    have "s2 = s1\<lparr>t_user_grades := amend ug_user_id u (\<lambda>r. r\<lparr>ug_streak_shields := n\<rparr>) (t_user_grades s1)\<rparr>"
      using assms(2) row [of u] by (auto simp: update_streak_shields_def write_grade_def get_or_init_def split: if_splits)
    then show ?thesis using None g row by (simp add: grade_of_def fetch_amend)
  next
    case (Some r)
    then have g: "g = r" "s1 = s" using assms(1) by (auto simp: get_or_init_def)
    have "s2 = s\<lparr>t_user_grades := amend ug_user_id u (\<lambda>r. r\<lparr>ug_streak_shields := n\<rparr>) (t_user_grades s)\<rparr>"
      using assms(2) Some g(2) by (auto simp: update_streak_shields_def write_grade_def get_or_init_def split: if_splits)
    then show ?thesis using Some g by (simp add: grade_of_def fetch_amend)
  qed
qed

text \<open>
  Buying shields adds exactly what the product grants to the buyer's balance and to nobody
  else's, and refunding the purchase takes it off again: the balance is what it was before, and a
  refund never leaves a negative one.
\<close>

theorem shields_bought_and_refunded:
  assumes "purchase_shields verify i now u product receipt s = Inr ((g, b), s1)" "handle_refund_webhook later i s1 = Inr ((), s2)"
    and "0 \<le> shields_of u s"
  shows "map_of SHIELD_PRODUCTS product = Some g \<and> b = shields_of u s + g \<and> shields_of u s1 = b \<and> shields_of u s2 = shields_of u s \<and>
    (\<forall>v. v \<noteq> u \<longrightarrow> grade_of v s1 = grade_of v s \<and> grade_of v s2 = grade_of v s)"
proof -
  define row where "row = \<lparr>sp_id = i, sp_user_id = u, sp_product_id = product, sp_shields_granted = g, sp_receipt_data = receipt,
    sp_purchased_at = now, sp_refunded_at = None\<rparr>"
  define t1 where "t1 = s\<lparr>t_shield_purchases := t_shield_purchases s @ [row]\<rparr>"
  obtain gr t2 x where g: "map_of SHIELD_PRODUCTS product = Some g" and new: "fetch sp_id i (t_shield_purchases s) = None"
    and init: "get_or_init u t1 = Inr (gr, t2)" and wr: "update_streak_shields u (ug_streak_shields gr + g) t2 = Inr (x, s1)"
    and b: "b = ug_streak_shields gr + g"
    using assms(1)
    by (auto simp: purchase_shields_def shield_create_def Let_def insert_row_Inr_iff fetch_None_iff row_def t1_def split: option.splits if_splits)
  have row: "sp_id row = i" "sp_user_id row = u" "sp_shields_granted row = g" by (simp_all add: row_def)
  have gpos: "0 < g" using g by (auto simp: SHIELD_PRODUCTS_def split: if_splits)
  have same: "grade_of v t1 = grade_of v s" for v by (simp add: t1_def grade_of_def)
  note W = init_shield_write [OF init wr]
  have bal: "b = shields_of u s + g" using W b same by (simp add: shields_of_def)
  have sh1: "shields_of u s1 = b" using W [of u] bal same by (simp add: shields_of_def)
  have p: "purchase_by_id i s1 = Some row"
    using W fetch_snoc [of sp_id row "t_shield_purchases s" i] row new by (simp add: purchase_by_id_def t1_def)
  obtain r1 gr2 r2 y where r1: "shield_refund later i s1 = Inr ((), r1)" and init2: "get_or_init u r1 = Inr (gr2, r2)"
    and wr2: "update_streak_shields u (max 0 (ug_streak_shields gr2 - g)) r2 = Inr (y, s2)"
    using assms(2) p row(2,3) by (auto simp: handle_refund_webhook_def)
  have same2: "grade_of v r1 = grade_of v s1" for v using r1 by (auto simp: shield_refund_def grade_of_def split: if_splits)
  note V = init_shield_write [OF init2 wr2]
  have "shields_of u s2 = max 0 (shields_of u s1 - g)" using V [of u] same2 by (simp add: shields_of_def)
  then have "shields_of u s2 = shields_of u s" using sh1 bal assms(3) by simp
  moreover have "grade_of v s1 = grade_of v s" "grade_of v s2 = grade_of v s" if "v \<noteq> u" for v
    using W [of v] V [of v] same same2 that by simp_all
  ultimately show ?thesis using g bal sh1 by blast
qed

definition stub_verify :: "string \<Rightarrow> pystr \<Rightarrow> string \<Rightarrow> verification result" where
  "stub_verify platform receipt product = Inr \<lparr>vf_is_valid = True, vf_product_id = product, vf_expires_at = None\<rparr>"

lemma demo_shields: "\<exists>s1 s2. purchase_shields stub_verify 995 t0 1 ''shield_3'' [] demo = Inr ((3, 3), s1) \<and> handle_refund_webhook t0 995 s1 = Inr ((), s2) \<and>
    handle_refund_webhook t0 995 s2 = Inr ((), s2)"
proof -
  have "t_shield_purchases demo = []" by (simp add: demo_def empty_sess_def)
  then show ?thesis
    by (simp add: purchase_shields_def SHIELD_PRODUCTS_def stub_verify_def shield_create_def int4_def insert_row_def user_exists_def
      get_or_init_def init_grade_def update_streak_shields_def write_grade_def grade_fits_def grade_check_def handle_refund_webhook_def
      purchase_by_id_def shield_refund_def Let_def)
qed

lemma shields_bought_and_refunded_witness:
  "\<exists>s1 s2. purchase_shields stub_verify 995 t0 1 ''shield_3'' [] demo = Inr ((3, 3), s1) \<and> handle_refund_webhook t0 995 s1 = Inr ((), s2) \<and>
     shields_of 1 s1 = 3 \<and> shields_of 1 s2 = shields_of 1 demo"
proof -
  obtain s1 s2 where a: "purchase_shields stub_verify 995 t0 1 ''shield_3'' [] demo = Inr ((3, 3), s1)" "handle_refund_webhook t0 995 s1 = Inr ((), s2)"
    using demo_shields by blast
  have "0 \<le> shields_of 1 demo" by (simp add: shields_of_def grade_of_def init_grade_def)
  from shields_bought_and_refunded [OF a this] a show ?thesis by auto
qed

text \<open>Nothing remembers that a purchase was refunded: the webhook delivered twice takes the shields twice.\<close>

lemma refund_replayed:
  assumes "purchase_by_id i s = Some p" "sp_user_id p = u" "handle_refund_webhook t i s = Inr ((), s1)"
  shows "shields_of u s1 = max 0 (shields_of u s - sp_shields_granted p) \<and>
    (\<exists>p'. purchase_by_id i s1 = Some p' \<and> sp_user_id p' = u \<and> sp_shields_granted p' = sp_shields_granted p)"
proof -
  obtain r1 g r2 y where r1: "shield_refund t i s = Inr ((), r1)" and init: "get_or_init u r1 = Inr (g, r2)"
    and wr: "update_streak_shields u (max 0 (ug_streak_shields g - sp_shields_granted p)) r2 = Inr (y, s1)"
    using assms by (auto simp: handle_refund_webhook_def)
  have same: "grade_of v r1 = grade_of v s" for v using r1 by (auto simp: shield_refund_def grade_of_def split: if_splits)
  have "purchase_by_id i r1 = Some (p\<lparr>sp_refunded_at := Some t\<rparr>)"
    using r1 assms(1) by (auto simp: shield_refund_def purchase_by_id_def fetch_amend)
  then show ?thesis using init_shield_write [OF init wr, of u] same assms(2) by (simp add: shields_of_def purchase_by_id_def)
qed

section \<open>Subscriptions\<close>

text \<open>
  The status a reader is shown is never stale: when it says Pro, the period has not passed, and
  once it answered that the period is over, the stored row says so too; asking again answers the
  same and changes nothing.
\<close>

theorem status_is_current:
  assumes "get_status now u s = Inr (st, s1)"
  shows "(ss_is_pro st \<longrightarrow> (case ss_expires_at st of None \<Rightarrow> True | Some e \<Rightarrow> now \<le> e)) \<and>
    get_subscription_status u s1 = Inr (ss_is_pro st, ss_expires_at st, ss_product_id st) \<and>
    get_status now u s1 = Inr (st, s1) \<and>
    (\<forall>v. v \<noteq> u \<longrightarrow> get_subscription_status v s1 = get_subscription_status v s)"
proof -
  obtain x where x: "fetch us_id u (t_users s) = Some x"
    using assms by (cases "fetch us_id u (t_users s)") (simp_all add: get_status_def get_subscription_status_def)
  show ?thesis
  proof (cases "us_is_pro x \<and> (case us_pro_expires_at x of None \<Rightarrow> False | Some e \<Rightarrow> e < now)")
    case True
    then have "st = \<lparr>ss_is_pro = False, ss_expires_at = None, ss_product_id = None\<rparr>" "s1 = update_subscription u False None None s"
      using assms x by (simp_all add: get_status_def get_subscription_status_def)
    then show ?thesis using x by (simp add: get_status_def get_subscription_status_def update_subscription_def fetch_amend)
  next
    case False
    then have st: "st = \<lparr>ss_is_pro = us_is_pro x, ss_expires_at = us_pro_expires_at x, ss_product_id = us_pro_product_id x\<rparr>" "s1 = s"
      using assms x by (auto simp: get_status_def get_subscription_status_def if_not_P [OF False] simp del: not_None_eq)
    then show ?thesis using x False assms by (auto simp: get_subscription_status_def split: option.splits if_splits)
  qed
qed

lemma status_is_current_witness:
  "\<exists>st s1. get_status t0 1 (update_subscription 1 True (Some (t0 - 1)) None demo) = Inr (st, s1) \<and> get_status t0 1 s1 = Inr (st, s1) \<and> \<not> ss_is_pro st"
proof -
  obtain st s1 where g: "get_status t0 1 (update_subscription 1 True (Some (t0 - 1)) None demo) = Inr (st, s1)" "\<not> ss_is_pro st"
    by (simp add: get_status_def get_subscription_status_def update_subscription_def)
  from status_is_current [OF g(1)] g show ?thesis by blast
qed

section \<open>Streak recovery\<close>

text \<open>
  A recovery adds a day to the streak and nothing else: the longest streak may be left behind, and
  since the last day of the streak stays, the next session after a gap starts again at one.
\<close>

lemma recovery_exceeds_longest:
  assumes "recover_streak i now u s = Inr (r, s')" "ug_streak_days (grade_of u s) = ug_longest_streak (grade_of u s)"
  shows "ug_longest_streak (grade_of u s') < ug_streak_days (grade_of u s') \<and> ug_streak_last_date (grade_of u s') = ug_streak_last_date (grade_of u s)"
proof -
  obtain g s1 x s2 l where init: "get_or_init u s = Inr (g, s1)"
    and up: "update_snapshot u None None None None (Some (ug_streak_days g + 1)) None None None s1 = Inr (x, s2)"
    and log: "log_recovery i now u 1 s2 = Inr (l, s')"
    using assms(1) by (auto simp: recover_streak_def Let_def split: if_splits)
  let ?f = "\<lambda>r. r\<lparr>ug_streak_days := ug_streak_days g + 1\<rparr>"
  have g: "fetch ug_user_id u (t_user_grades s1) = Some g" "grade_of u s = g"
    using init by (auto simp: get_or_init_def grade_of_def insert_row_def fetch_append init_grade_def split: option.splits if_splits)
  have "s2 = s1\<lparr>t_user_grades := amend ug_user_id u ?f (t_user_grades s1)\<rparr>"
    using up g(1) by (auto simp: update_snapshot_def write_grade_def get_or_init_def set_opt_def split: if_splits)
  then have "grade_of u s2 = ?f g" using g(1) by (simp add: grade_of_def fetch_amend)
  moreover have "grade_of u s' = grade_of u s2" using log by (auto simp: log_recovery_def Let_def insert_row_Inr_iff grade_of_def)
  ultimately show ?thesis using assms(2) g(2) by simp
qed

lemma recovered_streak_restarts:
  "update_streak (Some d) (days + 1) longest (d + 2) = Inr (1, longest, d + 2)" if "add_days d 1 = Inr (d + 1)"
  using that by (simp add: update_streak_def)

end
