(* ===== verification/EventBus.thy ===== *)
theory EventBus
  imports Schema
begin

text \<open>
  \<open>backend/app/shared/event_bus.py\<close>. \<open>LocalEventBus\<close> is the map from event classes to their
  handlers in subscription order; a handler takes the event and the state of the world (the
  database: every handler opens its own session) and raises or returns the new world.
  \<open>hooked\<close> is the part of one session that \<open>stage_event\<close> and \<open>commit_and_publish\<close> act on: the
  staged queue, the number of armed one-shot listeners, and the batches handed to background
  dispatch tasks.
\<close>

section \<open>The bus\<close>

datatype event_kind = KSessionCompleted | KGradeRecomputed | KBookCompleted | KBadgeEarned
  | KPostCreated | KReactionAdded | KCommentAdded | KFollowReceived

fun kind :: "event \<Rightarrow> event_kind" where
  "kind (ReadingSessionCompleted _ _ _ _ _ _) = KSessionCompleted"
| "kind (UserGradeRecomputed _ _ _ _ _ _) = KGradeRecomputed"
| "kind (UserBookCompleted _ _ _) = KBookCompleted"
| "kind (BadgeEarned _ _ _) = KBadgeEarned"
| "kind (PostCreated _ _ _) = KPostCreated"
| "kind (ReactionAdded _ _ _ _) = KReactionAdded"
| "kind (CommentAdded _ _ _ _ _) = KCommentAdded"
| "kind (FollowReceived _ _) = KFollowReceived"

type_synonym 'w handler = "event \<Rightarrow> 'w \<Rightarrow> error + 'w"

type_synonym 'w bus = "event_kind \<Rightarrow> 'w handler list"

definition empty_bus :: "'w bus" where
  "empty_bus = (\<lambda>_. [])"

definition subscribe :: "event_kind \<Rightarrow> 'w handler \<Rightarrow> 'w bus \<Rightarrow> 'w bus" where
  "subscribe k h b = b(k := b k @ [h])"

text \<open>A failing handler is logged and skipped: the world is as it was before it.\<close>

definition attempt :: "event \<Rightarrow> 'w handler \<Rightarrow> 'w \<Rightarrow> 'w" where
  "attempt e h w = (case h e w of Inl _ \<Rightarrow> w | Inr w' \<Rightarrow> w')"

definition publish :: "'w bus \<Rightarrow> event \<Rightarrow> 'w \<Rightarrow> 'w" where
  "publish b e w = foldl (\<lambda>w h. attempt e h w) w (b (kind e))"

definition dispatch :: "'w bus \<Rightarrow> event list \<Rightarrow> 'w \<Rightarrow> 'w" where
  "dispatch b es w = foldl (\<lambda>w e. publish b e w) w es"

section \<open>The session hooks\<close>

record hooked =
  hk_queue :: "event list"
  hk_commit_hooks :: nat
  hk_rollback_hooks :: nat
  hk_batches :: "event list list"

definition fresh_session :: hooked where
  "fresh_session = \<lparr>hk_queue = [], hk_commit_hooks = 0, hk_rollback_hooks = 0, hk_batches = []\<rparr>"

definition stage :: "event \<Rightarrow> hooked \<Rightarrow> hooked" where
  "stage e h = h\<lparr>hk_queue := hk_queue h @ [e]\<rparr>"

definition drain_queue :: "hooked \<Rightarrow> event list \<times> hooked" where
  "drain_queue h = (hk_queue h, h\<lparr>hk_queue := []\<rparr>)"

definition commit_and_publish :: "hooked \<Rightarrow> hooked" where
  "commit_and_publish h = h\<lparr>hk_commit_hooks := hk_commit_hooks h + 1, hk_rollback_hooks := hk_rollback_hooks h + 1\<rparr>"

definition on_commit :: "hooked \<Rightarrow> hooked" where
  "on_commit h = (case drain_queue h of (events, h') \<Rightarrow>
     if events = [] then h' else h'\<lparr>hk_batches := hk_batches h' @ [events]\<rparr>)"

definition on_rollback :: "hooked \<Rightarrow> hooked" where
  "on_rollback h = snd (drain_queue h)"

text \<open>The listeners are registered with \<open>once=True\<close>: a commit fires and removes them all.\<close>

definition do_commit :: "hooked \<Rightarrow> hooked" where
  "do_commit h = (on_commit ^^ hk_commit_hooks h) h\<lparr>hk_commit_hooks := 0\<rparr>"

definition do_rollback :: "hooked \<Rightarrow> hooked" where
  "do_rollback h = (on_rollback ^^ hk_rollback_hooks h) h\<lparr>hk_rollback_hooks := 0\<rparr>"

datatype hook_op = Register | Stage event | Commit | Rollback

fun hook_step :: "hook_op \<Rightarrow> hooked \<Rightarrow> hooked" where
  "hook_step Register h = commit_and_publish h"
| "hook_step (Stage e) h = stage e h"
| "hook_step Commit h = do_commit h"
| "hook_step Rollback h = do_rollback h"

definition hook_run :: "hook_op list \<Rightarrow> hooked \<Rightarrow> hooked" where
  "hook_run ops h = foldl (\<lambda>h x. hook_step x h) h ops"

lemma hook_run_simps [simp]:
  "hook_run [] h = h"
  "hook_run (x # xs) h = hook_run xs (hook_step x h)"
  "hook_run (xs @ ys) h = hook_run ys (hook_run xs h)"
  by (simp_all add: hook_run_def)

lemma on_commit_eq: "on_commit h = h\<lparr>hk_queue := [],
    hk_batches := hk_batches h @ (if hk_queue h = [] then [] else [hk_queue h])\<rparr>"
  by (simp add: on_commit_def drain_queue_def)

lemma commit_idle: "hk_queue h = [] \<Longrightarrow> (on_commit ^^ n) h = h"
proof (induction n)
  case (Suc n)
  then show ?case by (simp add: on_commit_eq)
qed simp

lemma commit_hooks: "(on_commit ^^ Suc n) h = on_commit h"
proof -
  have "hk_queue (on_commit h) = []" by (simp add: on_commit_eq)
  then show ?thesis by (simp only: funpow_Suc_right comp_apply commit_idle)
qed

lemma rollback_hooks: "(on_rollback ^^ Suc n) h = h\<lparr>hk_queue := []\<rparr>"
  by (induction n) (simp_all add: on_rollback_def drain_queue_def)

lemma do_commit_armed:
  assumes "0 < hk_commit_hooks h"
  shows "do_commit h = h\<lparr>hk_queue := [], hk_commit_hooks := 0,
    hk_batches := hk_batches h @ (if hk_queue h = [] then [] else [hk_queue h])\<rparr>"
proof -
  obtain n where n: "hk_commit_hooks h = Suc n" using assms gr0_conv_Suc by auto
  show ?thesis unfolding do_commit_def n commit_hooks by (simp add: on_commit_eq)
qed

lemma do_commit_idle: "hk_commit_hooks h = 0 \<Longrightarrow> do_commit h = h"
  by (simp add: do_commit_def)

lemma do_rollback_armed:
  assumes "0 < hk_rollback_hooks h"
  shows "do_rollback h = h\<lparr>hk_queue := [], hk_rollback_hooks := 0\<rparr>"
proof -
  obtain n where n: "hk_rollback_hooks h = Suc n" using assms gr0_conv_Suc by auto
  show ?thesis unfolding do_rollback_def n rollback_hooks by simp
qed

lemma stage_all: "hook_run (map Stage es) h = h\<lparr>hk_queue := hk_queue h @ es\<rparr>"
  by (induction es arbitrary: h) (simp_all add: stage_def)

lemma register_many: "hook_run (replicate n Register) h =
    h\<lparr>hk_commit_hooks := hk_commit_hooks h + n, hk_rollback_hooks := hk_rollback_hooks h + n\<rparr>"
  by (induction n arbitrary: h) (simp_all add: commit_and_publish_def)

section \<open>Properties\<close>

text \<open>
  C12. A request stages events and ends in a commit or a rollback. However many of its services
  registered the hooks, the commit hands exactly the staged events, in order and once, to one
  dispatch task, and a rollback hands over nothing and leaves nothing behind.
\<close>

theorem commit_coupled_delivery:
  "hk_batches (hook_run (replicate (Suc n) Register @ map Stage es @ [Commit]) fresh_session) =
     (if es = [] then [] else [es]) \<and>
   hk_batches (hook_run (replicate (Suc n) Register @ map Stage es @ [Rollback, Commit]) fresh_session) = [] \<and>
   hk_queue (hook_run (replicate (Suc n) Register @ map Stage es @ [Rollback]) fresh_session) = []"
proof -
  let ?h = "fresh_session\<lparr>hk_commit_hooks := Suc n, hk_rollback_hooks := Suc n, hk_queue := es\<rparr>"
  have h: "hook_run (map Stage es) (hook_run (replicate (Suc n) Register) fresh_session) = ?h"
    unfolding stage_all register_many by (simp add: fresh_session_def)
  show ?thesis
    unfolding hook_run_simps h by (simp add: do_commit_armed do_rollback_armed) (simp add: fresh_session_def)
qed

text \<open>
  The hooks are one-shot: what is staged after a commit inside the request is never delivered.
\<close>

lemma staged_after_commit_lost:
  "hk_batches (hook_run ([Register, Commit] @ map Stage es @ [Commit]) fresh_session) = [] \<and>
   hk_queue (hook_run ([Register, Commit] @ map Stage es @ [Commit]) fresh_session) = es"
  unfolding hook_run_simps stage_all
  by (simp add: commit_and_publish_def do_commit_armed do_commit_idle fresh_session_def)

lemma attempt_failing: "h e w = Inl err \<Longrightarrow> attempt e h w = w"
  by (simp add: attempt_def)

text \<open>
  One broken subscriber cannot take the others down: publishing to a list of handlers one of
  which raises has the same effect on the world as publishing to the list without it.
\<close>

theorem publish_isolates_failure:
  assumes "b (kind e) = hs @ h # hs'" "\<And>w. \<exists>err. h e w = Inl err"
  shows "publish b e w = publish (b(kind e := hs @ hs')) e w"
proof -
  have "attempt e h w = w" for w using assms(2) [of w] by (auto simp: attempt_failing)
  then show ?thesis using assms(1) by (simp add: publish_def)
qed

lemma publish_isolates_failure_witness:
  "publish (subscribe KBadgeEarned (\<lambda>_ n. Inr (n + 1)) (subscribe KBadgeEarned (\<lambda>_ _. Inl HandlerError) empty_bus))
     (BadgeEarned 1 2 []) (0 :: nat) =
   publish ((subscribe KBadgeEarned (\<lambda>_ n. Inr (n + 1)) (subscribe KBadgeEarned (\<lambda>_ _. Inl HandlerError) empty_bus))
     (kind (BadgeEarned 1 2 []) := [] @ [\<lambda>_ n. Inr (n + 1)])) (BadgeEarned 1 2 []) 0"
  by (rule publish_isolates_failure [where h = "\<lambda>_ _. Inl HandlerError"]) (simp_all add: subscribe_def empty_bus_def)

end
