(* ===== verification/NotificationProps.thy ===== *)
theory NotificationProps
  imports NotificationBatch FeedProps
begin

text \<open>
  Properties of the notification component: what a muted reader receives, who hears of a comment,
  the preferences, the inbox counters and the weekly report.
\<close>

section \<open>One delivery\<close>

definition inbox :: "uuid \<Rightarrow> notification_type \<Rightarrow> sess \<Rightarrow> notification list" where
  "inbox u ty s = filter (\<lambda>n. nt_user_id n = u \<and> nt_ntype n = ntype_value ty) (t_notifications s)"

lemma ntype_value_inj: "ntype_value a = ntype_value b \<Longrightarrow> a = b"
  by (cases a; cases b) simp_all

lemma create_notification_Inr:
  assumes "create_notification i now u ty title body data s = Inr (n, s')"
  shows "nt_user_id n = u \<and> nt_ntype n = ty \<and> nt_id n = i \<and> nt_title n = title \<and> nt_body n = body \<and> nt_data n = data \<and> nt_read_at n = None \<and>
    i \<notin> nt_id ` set (t_notifications s) \<and> s' = s\<lparr>t_notifications := t_notifications s @ [n]\<rparr>"
  using assms by (auto simp: create_notification_def Let_def insert_row_Inr_iff split: if_splits)

lemma create_notification_ok:
  assumes "length ty \<le> 32" "length title \<le> 256" "length body \<le> 512" "i \<notin> nt_id ` set (t_notifications s)" "user_exists u s"
  shows "\<exists>n s'. create_notification i now u ty title body data s = Inr (n, s')"
  using assms by (simp add: create_notification_def Let_def insert_row_def fetch_None_iff)

lemma notify_one_Inr:
  assumes "notify_one i now u ty title body data pd s = Inr ((n, out), s')"
  shows "(\<not> is_type_enabled u ty s \<and> n = None \<and> out = [] \<and> s' = s) \<or>
    (is_type_enabled u ty s \<and> (\<exists>r. n = Some r \<and> nt_user_id r = u \<and> nt_ntype r = ntype_value ty \<and> nt_read_at r = None \<and>
       s' = s\<lparr>t_notifications := t_notifications s @ [r]\<rparr> \<and> out = push_to (get_active_tokens u s) title body pd))"
proof (cases "is_type_enabled u ty s")
  case True
  then obtain r s1 where c: "create_notification i now u (ntype_value ty) title body data s = Inr (r, s1)"
      and r: "n = Some r" "s' = s1" "out = push_to (get_active_tokens u s1) (nt_title r) (nt_body r) pd"
    using assms by (auto simp: notify_one_def)
  from create_notification_Inr [OF c] show ?thesis using True r by (auto simp: get_active_tokens_def)
next
  case False
  then show ?thesis using assms by (simp add: notify_one_def)
qed

text \<open>What every handler is built of: it keeps the inbox of whoever muted the type.\<close>

definition heeds :: "handled \<Rightarrow> sess \<Rightarrow> bool" where
  "heeds h s \<longleftrightarrow> t_notification_preferences (fst h) = t_notification_preferences s \<and>
     (\<forall>u ty. \<not> is_type_enabled u ty s \<longrightarrow> inbox u ty (fst h) = inbox u ty s)"

lemma heeds_refl: "heeds (s, out, err) s"
  by (simp add: heeds_def)

lemma heeds_notify:
  "heeds (settle s (notify_one i now u ty title body data pd s)) s"
proof (cases "notify_one i now u ty title body data pd s")
  case (Inr v)
  obtain n out s' where v: "v = ((n, out), s')" by (metis prod.exhaust)
  have "inbox w t s' = inbox w t s" if "\<not> is_type_enabled w t s" for w t
    using notify_one_Inr [OF Inr [unfolded v]] that by (auto simp: inbox_def dest: ntype_value_inj)
  moreover have "t_notification_preferences s' = t_notification_preferences s"
    using notify_one_Inr [OF Inr [unfolded v]] by auto
  ultimately show ?thesis by (simp add: Inr v settle_def heeds_def)
qed (simp add: settle_def heeds_refl)

lemma enabled_cong: "t_notification_preferences s' = t_notification_preferences s \<Longrightarrow> is_type_enabled u ty s' = is_type_enabled u ty s"
  by (simp add: is_type_enabled_def get_overrides_def)

lemma heeds_trans:
  assumes "heeds (s1, out, err) s" "heeds (s2, out2, err2) s1"
  shows "heeds (s2, out3, err3) s"
  using assms enabled_cong [of s1 s] by (simp add: heeds_def)

lemma heeds_each:
  assumes "\<And>u s. heeds (f u s) s"
  shows "heeds (each_recipient f us s) s"
proof (induction us arbitrary: s)
  case (Cons u us)
  obtain s1 out err where f: "f u s = (s1, out, err)" by (metis prod.exhaust)
  obtain s2 out2 err2 where g: "each_recipient f us s1 = (s2, out2, err2)" by (metis prod.exhaust)
  have "heeds (s1, out, err) s" using assms [of u s] f by simp
  moreover have "heeds (s2, out2, err2) s1" using Cons.IH [of s1] g by simp
  ultimately show ?case using f g by (auto intro: heeds_trans)
qed (simp add: heeds_refl)

lemma heeds_skip:
  assumes "\<And>u s. heeds (f u s) s"
  shows "heeds (fst (skip_failures f us s), out, err) s"
proof (induction us arbitrary: s)
  case (Cons u us)
  obtain s1 o1 e1 where f: "f u s = (s1, o1, e1)" by (metis prod.exhaust)
  obtain s2 o2 where g: "skip_failures f us s1 = (s2, o2)" by (metis prod.exhaust)
  have "heeds (s1, o1, e1) s" using assms [of u s] f by simp
  moreover have "heeds (s2, out, err) s1" using Cons.IH [of s1] g by simp
  ultimately show ?case using f g by (auto intro: heeds_trans)
qed (simp add: heeds_refl)


text \<open>Reader 2 turned comments off and has one device; one unread notification waits for reader 1.\<close>

definition mailroom :: sess where
  "mailroom = wall\<lparr>t_notification_preferences := [\<lparr>np_user_id = 2, np_overrides = [''comment'' \<mapsto> False]\<rparr>],
     t_device_tokens := [\<lparr>dv_id = 90, dv_user_id = 2, dv_token = ''device'', dv_platform = IOS, dv_created_at = t0, dv_last_seen_at = t0\<rparr>],
     t_notifications := [\<lparr>nt_id = 980, nt_user_id = 1, nt_ntype = ''reaction'', nt_title = [], nt_body = [], nt_data = [],
       nt_read_at = None, nt_created_at = t0\<rparr>]\<rparr>"

lemma mailroom_tables [simp]:
  "t_notification_preferences mailroom = [\<lparr>np_user_id = 2, np_overrides = [''comment'' \<mapsto> False]\<rparr>]"
  "t_device_tokens mailroom = [\<lparr>dv_id = 90, dv_user_id = 2, dv_token = ''device'', dv_platform = IOS, dv_created_at = t0, dv_last_seen_at = t0\<rparr>]"
  "t_notifications mailroom = [\<lparr>nt_id = 980, nt_user_id = 1, nt_ntype = ''reaction'', nt_title = [], nt_body = [], nt_data = [],
       nt_read_at = None, nt_created_at = t0\<rparr>]"
  "t_users mailroom = [demo_user 1, demo_user 2, demo_user 3]" "t_weekly_reports mailroom = []" "t_daily_stats mailroom = []"
  by (simp_all add: mailroom_def wall_def demo_def empty_sess_def)

lemma mailroom_muted: "\<not> is_type_enabled 2 N_COMMENT mailroom"
  by (simp add: is_type_enabled_def REQUIRED_NOTIFICATION_TYPES_def get_overrides_def)


section \<open>Who hears of a comment\<close>

definition fresh_for :: "(uuid \<Rightarrow> uuid) \<Rightarrow> uuid list \<Rightarrow> sess \<Rightarrow> bool" where
  "fresh_for ids us s \<longleftrightarrow> distinct (map ids us) \<and> ids ` set us \<inter> nt_id ` set (t_notifications s) = {} \<and> (\<forall>u \<in> set us. user_exists u s)"

lemma comment_recipients_exact:
  "distinct (comment_recipients c a p) \<and> set (comment_recipients c a p) = ({a} \<union> set_option p) - {c}"
  by (cases p) (auto simp: comment_recipients_def)

lemma notify_comment_eq:
  assumes "is_type_enabled u N_COMMENT s" "i \<notin> nt_id ` set (t_notifications s)" "user_exists u s"
  shows "\<exists>r out. notify_comment_recipient i now p q u s = (s\<lparr>t_notifications := t_notifications s @ [r]\<rparr>, out, None) \<and>
    nt_user_id r = u \<and> nt_id r = i \<and> nt_ntype r = ''comment''"
proof -
  obtain r s1 where c: "create_notification i now u ''comment'' [49352, 32, 45843, 44544, 51060, 32, 45804, 47160, 50612, 50836]
      [54924, 50896, 45784, 51032, 32, 44544, 50640, 32, 45843, 44544, 51060, 32, 45804, 47160, 49845, 45768, 45796, 46]
      [(''post_id'', JUuid p), (''comment_id'', JUuid q)] s = Inr (r, s1)"
    using create_notification_ok [of "''comment''" _ _ i s u] assms(2,3) by fastforce
  with create_notification_Inr [OF c] assms(1) show ?thesis
    by (intro exI [of _ r]) (simp add: notify_comment_recipient_def notify_one_def settle_def)
qed

text \<open>
  A comment is announced to the author of the post and to the author of the comment it
  answers, never to the commenter, and to nobody twice. When both want such notifications and the
  writes succeed, each of them gets exactly one inbox row, and nobody else any.
\<close>

theorem comment_reaches_both:
  assumes "us = comment_recipients c a p" and "fresh_for ids us s" and "\<forall>u \<in> set us. is_type_enabled u N_COMMENT s"
  shows "\<exists>rows out. on_comment_added ids now (CommentAdded k post c a p) s = (s\<lparr>t_notifications := t_notifications s @ rows\<rparr>, out, None) \<and>
    map nt_user_id rows = us \<and> distinct us \<and> set us = ({a} \<union> set_option p) - {c} \<and> (\<forall>r \<in> set rows. nt_ntype r = ''comment'')"
proof -
  have "\<exists>rows out. each_recipient (\<lambda>u. notify_comment_recipient (ids u) now post k u) us s =
      (s\<lparr>t_notifications := t_notifications s @ rows\<rparr>, out, None) \<and> map nt_user_id rows = us \<and> (\<forall>r \<in> set rows. nt_ntype r = ''comment'')"
    using assms(2,3)
  proof (induction us arbitrary: s)
    case (Cons u us)
    then have u: "is_type_enabled u N_COMMENT s" "ids u \<notin> nt_id ` set (t_notifications s)" "user_exists u s" by (auto simp: fresh_for_def)
    obtain r out where r: "notify_comment_recipient (ids u) now post k u s = (s\<lparr>t_notifications := t_notifications s @ [r]\<rparr>, out, None)"
      "nt_user_id r = u" "nt_id r = ids u" "nt_ntype r = ''comment''" using notify_comment_eq [OF u] by blast
    let ?s1 = "s\<lparr>t_notifications := t_notifications s @ [r]\<rparr>"
    have "fresh_for ids us ?s1" using Cons.prems(1) r(3) by (auto simp: fresh_for_def user_exists_def)
    moreover have "\<forall>v \<in> set us. is_type_enabled v N_COMMENT ?s1" using Cons.prems(2) enabled_cong [of ?s1 s] by simp
    ultimately obtain rows out2 where "each_recipient (\<lambda>u. notify_comment_recipient (ids u) now post k u) us ?s1 =
        (?s1\<lparr>t_notifications := t_notifications ?s1 @ rows\<rparr>, out2, None)" "map nt_user_id rows = us" "\<forall>r \<in> set rows. nt_ntype r = ''comment''"
      using Cons.IH by blast
    then show ?case using r by (intro exI [of _ "r # rows"]) simp
  next
    case Nil
    show ?case by (intro exI [of _ "[]"]) simp
  qed
  then show ?thesis using comment_recipients_exact [of c a p] assms(1) by (auto simp: on_comment_added_def)
qed

lemma comment_reaches_both_witness:
  "\<exists>rows out. on_comment_added (\<lambda>u. 990 + u) t0 (CommentAdded 5 900 2 1 (Some 3)) mailroom = (mailroom\<lparr>t_notifications := t_notifications mailroom @ rows\<rparr>, out, None) \<and>
     map nt_user_id rows = [1, 3]"
proof -
  have a: "[1, 3] = comment_recipients 2 1 (Some 3)" by (simp add: comment_recipients_def)
  have b: "fresh_for (\<lambda>u. 990 + u) [1, 3] mailroom" by (simp add: fresh_for_def user_exists_def)
  have c: "\<forall>u \<in> set [1, 3]. is_type_enabled u N_COMMENT mailroom" by (simp add: is_type_enabled_def get_overrides_def)
  from comment_reaches_both [OF a b c, of t0 5 900] show ?thesis by (elim exE conjE) (intro exI conjI)
qed

section \<open>Preferences and counters\<close>

lemma overrides_after:
  assumes "upsert_overrides u m s = Inr (x, s')"
  shows "x = m \<and> get_overrides v s' = (if v = u then m else get_overrides v s) \<and> t_notifications s' = t_notifications s"
proof (cases "fetch np_user_id u (t_notification_preferences s)")
  case None
  with assms show ?thesis
    by (auto simp: upsert_overrides_def insert_row_Inr_iff get_overrides_def fetch_append split: option.splits)
next
  case (Some r)
  with assms show ?thesis
    by (auto simp: upsert_overrides_def get_overrides_def fetch_amend)
qed

lemma merged_at:
  "merge_with_defaults ov (ntype_value t) =
     (if t \<in> set TOGGLEABLE_NOTIFICATION_TYPES then Some (case ov (ntype_value t) of None \<Rightarrow> True | Some b \<Rightarrow> b) else None)"
  by (cases t) (simp_all add: merge_with_defaults_def TOGGLEABLE_NOTIFICATION_TYPES_def REQUIRED_NOTIFICATION_TYPES_def ALL_TYPES_def)

lemma toggleable_iff: "t \<in> set TOGGLEABLE_NOTIFICATION_TYPES \<longleftrightarrow> t \<notin> set REQUIRED_NOTIFICATION_TYPES"
  by (cases t) (simp_all add: TOGGLEABLE_NOTIFICATION_TYPES_def REQUIRED_NOTIFICATION_TYPES_def ALL_TYPES_def)

lemma enabled_merged: "is_type_enabled u t s = (case get_notification_preferences u s (ntype_value t) of None \<Rightarrow> True | Some b \<Rightarrow> b)"
  by (simp add: is_type_enabled_def get_notification_preferences_def merged_at toggleable_iff)

text \<open>
  After a partial update of the preferences every type that was named and can be switched has
  the value given, every other type keeps the one it had, the answer is what a later read answers
  and what the handlers obey, types that cannot be switched stay on, and no other reader is
  affected.
\<close>

theorem preferences_updated:
  assumes "update_notification_preferences u updates s = Inr (m, s')"
  shows "get_notification_preferences u s' = m \<and>
    (\<forall>t. is_type_enabled u t s' = (if t \<in> set REQUIRED_NOTIFICATION_TYPES then True
       else case updates (ntype_value t) of None \<Rightarrow> is_type_enabled u t s | Some b \<Rightarrow> b)) \<and>
    (\<forall>v t. v \<noteq> u \<longrightarrow> is_type_enabled v t s' = is_type_enabled v t s)"
proof -
  let ?m = "get_overrides u s ++ (updates |` (ntype_value ` set TOGGLEABLE_NOTIFICATION_TYPES))"
  obtain x where up: "upsert_overrides u ?m s = Inr (x, s')" and m: "m = merge_with_defaults x"
    using assms by (auto simp: update_notification_preferences_def Let_def)
  have ov: "get_overrides v s' = (if v = u then ?m else get_overrides v s)" "x = ?m" for v
    using overrides_after [OF up, of v] by auto
  have "get_notification_preferences u s' = m" using ov(1) [of u] by (simp add: m ov(2) get_notification_preferences_def)
  moreover have "is_type_enabled u t s' = (if t \<in> set REQUIRED_NOTIFICATION_TYPES then True
       else case updates (ntype_value t) of None \<Rightarrow> is_type_enabled u t s | Some b \<Rightarrow> b)" for t
    using ov(1) [of u] by (auto simp: is_type_enabled_def toggleable_iff map_add_def restrict_map_def split: option.splits)
  moreover have "is_type_enabled v t s' = is_type_enabled v t s" if "v \<noteq> u" for v t
    using ov(1) [of v] that by (simp add: is_type_enabled_def)
  ultimately show ?thesis by blast
qed

lemma preferences_updated_witness:
  "\<exists>m s'. update_notification_preferences 2 [''comment'' \<mapsto> True, ''subscription_reminder'' \<mapsto> False] mailroom = Inr (m, s') \<and>
     is_type_enabled 2 N_COMMENT s' \<and> is_type_enabled 2 N_SUBSCRIPTION_REMINDER s'"
proof -
  obtain m s' where up: "update_notification_preferences 2 [''comment'' \<mapsto> True, ''subscription_reminder'' \<mapsto> False] mailroom = Inr (m, s')"
    by (simp add: update_notification_preferences_def upsert_overrides_def)
  from preferences_updated [OF up] have "is_type_enabled 2 N_COMMENT s'" "is_type_enabled 2 N_SUBSCRIPTION_REMINDER s'"
    by (simp_all add: REQUIRED_NOTIFICATION_TYPES_def)
  with up show ?thesis by blast
qed

text \<open>
  Marking everything read empties the reader's unread count, leaves every other reader's count
  and every first reading time alone, and doing it again changes nothing.
\<close>

theorem mark_all_read:
  "unread_count u (mark_read_all now u s) = 0 \<and>
   (v \<noteq> u \<longrightarrow> unread_count v (mark_read_all now u s) = unread_count v s) \<and>
   mark_read_all later u (mark_read_all now u s) = mark_read_all now u s \<and>
   map nt_id (t_notifications (mark_read_all now u s)) = map nt_id (t_notifications s) \<and>
   (\<forall>n \<in> set (t_notifications s). nt_read_at n \<noteq> None \<longrightarrow> n \<in> set (t_notifications (mark_read_all now u s)))"
proof (intro conjI impI ballI)
  let ?f = "\<lambda>n. if nt_user_id n = u \<and> nt_read_at n = None then n\<lparr>nt_read_at := Some now\<rparr> else n"
  have eq: "t_notifications (mark_read_all now u s) = map ?f (t_notifications s)" by (simp add: mark_read_all_def stamp_read_def)
  show "unread_count u (mark_read_all now u s) = 0" unfolding unread_count_def eq by (auto simp: filter_empty_conv)
  show "map nt_id (t_notifications (mark_read_all now u s)) = map nt_id (t_notifications s)" unfolding eq by simp
  show "mark_read_all later u (mark_read_all now u s) = mark_read_all now u s"
    unfolding mark_read_all_def stamp_read_def by (simp add: o_def if_distrib cong: if_cong)
  show "n \<in> set (t_notifications (mark_read_all now u s))" if "n \<in> set (t_notifications s)" "nt_read_at n \<noteq> None" for n
  proof -
    have "?f n \<in> ?f ` set (t_notifications s)" using that(1) by (rule imageI)
    moreover have "?f n = n" using that(2) by simp
    ultimately show ?thesis unfolding eq set_map by (simp only:)
  qed
  show "unread_count v (mark_read_all now u s) = unread_count v s" if "v \<noteq> u"
  proof -
    have "filter (\<lambda>n. nt_user_id n = v \<and> nt_read_at n = None) (map ?f rows) =
        filter (\<lambda>n. nt_user_id n = v \<and> nt_read_at n = None) rows" for rows :: "notification list" using that by (induction rows) auto
    then show ?thesis unfolding unread_count_def eq by (simp only:)
  qed
qed

lemma mark_all_read_witness: "unread_count 1 mailroom = 1 \<and> unread_count 1 (mark_read_all (t0 + 5) 1 mailroom) = 0"
  using mark_all_read [of 1 "t0 + 5" mailroom] by (simp add: unread_count_def)

section \<open>The weekly report\<close>

lemma best_of_max: "best_of b xs \<in> set (b # xs) \<and> (\<forall>x \<in> set (b # xs). snd x \<le> snd (best_of b xs))"
proof (induction b xs rule: best_of.induct)
  case (2 b x xs)
  then show ?case by (cases "snd b < snd x") auto
qed simp

lemma report_upsert_Inr:
  assumes "report_upsert i u ws seconds n best longest s = Inr (r, s')" "distinct (map wr_key (t_weekly_reports s))"
  shows "fetch wr_key (u, ws) (t_weekly_reports s') = Some r \<and> wr_key r = (u, ws) \<and> wr_total_seconds r = seconds \<and> wr_session_count r = n \<and>
    wr_best_day r = best \<and> wr_longest_session_sec r = longest \<and> distinct (map wr_key (t_weekly_reports s')) \<and>
    (\<exists>rows. s' = s\<lparr>t_weekly_reports := rows\<rparr>)"
proof -
  let ?f = "\<lambda>r. r\<lparr>wr_total_seconds := seconds, wr_session_count := n, wr_best_day := best, wr_longest_session_sec := longest\<rparr>"
  have key: "wr_key (?f x) = wr_key x" for x :: weekly_report by (simp add: wr_key_def)
  show ?thesis
  proof (cases "fetch wr_key (u, ws) (t_weekly_reports s)")
    case None
    then have "r = \<lparr>wr_id = i, wr_user_id = u, wr_week_start = ws, wr_total_seconds = seconds, wr_session_count = n, wr_best_day = best,
        wr_longest_session_sec = longest, wr_push_sent_at = None\<rparr>" "s' = s\<lparr>t_weekly_reports := t_weekly_reports s @ [r]\<rparr>"
      using assms(1) by (auto simp: report_upsert_def insert_row_Inr_iff Let_def split: if_splits)
    then show ?thesis using None assms(2) fetch_snoc [of wr_key r "t_weekly_reports s"]
      by (auto simp: wr_key_def fetch_None_iff)
  next
    case (Some x)
    then have "r = ?f x" "s' = s\<lparr>t_weekly_reports := amend wr_key (u, ws) ?f (t_weekly_reports s)\<rparr>"
      using assms(1) by (auto simp: report_upsert_def Let_def split: if_splits)
    moreover have "wr_key x = (u, ws)" using Some by (rule fetch_Some_key)
    ultimately show ?thesis using Some assms(2) key by (auto simp: fetch_amend map_key_amend)
  qed
qed

definition week_rows :: "uuid \<Rightarrow> date \<Rightarrow> date \<Rightarrow> sess \<Rightarrow> daily_stat list" where
  "week_rows u ws we s = filter (\<lambda>r. ds_user_id r = u \<and> ws \<le> ds_date r \<and> ds_date r \<le> we) (t_daily_stats s)"

lemma week_stats:
  assumes "get_stats_for_week u ws we s = st # sts"
  shows "sum_list (map snd (st # sts)) = tsum ds_total_seconds (week_rows u ws we s)" "length (st # sts) = length (week_rows u ws we s)"
    "set (st # sts) = (\<lambda>r. (ds_date r, ds_total_seconds r)) ` set (week_rows u ws we s)"
proof -
  have eq: "st # sts = map (\<lambda>r. (ds_date r, ds_total_seconds r)) (order_asc ds_date (week_rows u ws we s))"
    using assms by (simp add: get_stats_for_week_def week_rows_def)
  have m: "mset (order_asc ds_date (week_rows u ws we s)) = mset (week_rows u ws we s)" by (simp add: order_asc_def)
  have "sum_list (map ds_total_seconds (order_asc ds_date (week_rows u ws we s))) = sum_list (map ds_total_seconds (week_rows u ws we s))"
    by (metis m mset_map sum_mset_sum_list)
  then show "sum_list (map snd (st # sts)) = tsum ds_total_seconds (week_rows u ws we s)" unfolding eq by (simp add: tsum_def o_def)
  show "length (st # sts) = length (week_rows u ws we s)" unfolding eq by simp
  show "set (st # sts) = (\<lambda>r. (ds_date r, ds_total_seconds r)) ` set (week_rows u ws we s)" unfolding eq by simp
qed

lemma weekly_effect:
  assumes "generate_report_for_user day i j now ws we u s = (s', out, None)" "week_rows u ws we s \<noteq> []"
    and "distinct (map wr_key (t_weekly_reports s))"
  shows "(\<exists>r. fetch wr_key (u, ws) (t_weekly_reports s') = Some r \<and>
      wr_total_seconds r = tsum ds_total_seconds (week_rows u ws we s) \<and> wr_session_count r = int (length (week_rows u ws we s)) \<and>
      (\<exists>b \<in> set (week_rows u ws we s). wr_best_day r = Some (ds_date b) \<and>
        (\<forall>x \<in> set (week_rows u ws we s). ds_total_seconds x \<le> ds_total_seconds b)) \<and>
      (is_type_enabled u N_WEEKLY_REPORT s \<longrightarrow> wr_push_sent_at r = Some now)) \<and>
    distinct (map wr_key (t_weekly_reports s')) \<and> week_rows u ws we s' = week_rows u ws we s \<and>
    t_notification_preferences s' = t_notification_preferences s \<and>
    length (inbox u N_WEEKLY_REPORT s') = length (inbox u N_WEEKLY_REPORT s) + (if is_type_enabled u N_WEEKLY_REPORT s then 1 else 0)"
proof -
  obtain st sts where st: "get_stats_for_week u ws we s = st # sts"
    using assms(2) by (cases "get_stats_for_week u ws we s") (auto simp: get_stats_for_week_def week_rows_def order_asc_def dest: arg_cong [of _ _ length])
  note W = week_stats [OF st]
  let ?longest = "get_longest_in_range day u ws we s"
  have best: "\<exists>b \<in> set (week_rows u ws we s). fst (best_of st sts) = ds_date b \<and> (\<forall>x \<in> set (week_rows u ws we s). ds_total_seconds x \<le> ds_total_seconds b)"
    using best_of_max [of st sts] unfolding W(3) by force
  have wid: "fetch wr_key (u, ws) (t_weekly_reports (mark_push_sent k now t)) =
      map_option (\<lambda>r. if wr_id r = k then r\<lparr>wr_push_sent_at := Some now\<rparr> else r) (fetch wr_key (u, ws) (t_weekly_reports t))" for k t
  proof -
    have "fetch wr_key (u, ws) (amend wr_id k (\<lambda>r. r\<lparr>wr_push_sent_at := Some now\<rparr>) rows) =
        map_option (\<lambda>r. if wr_id r = k then r\<lparr>wr_push_sent_at := Some now\<rparr> else r) (fetch wr_key (u, ws) rows)" for rows :: "weekly_report list"
      by (induction rows) (auto simp: wr_key_def)
    then show ?thesis by (simp add: mark_push_sent_def)
  qed
  have wd: "map wr_key (t_weekly_reports (mark_push_sent k now t)) = map wr_key (t_weekly_reports t)" for k t
    by (simp add: mark_push_sent_def wr_key_def map_amend_eq [of wr_key])
  obtain r s1 where up: "report_upsert i u ws (sum_list (map snd (st # sts))) (int (length (st # sts))) (Some (fst (best_of st sts))) ?longest s = Inr (r, s1)"
    using assms(1) st by (cases "report_upsert i u ws (sum_list (map snd (st # sts))) (int (length (st # sts))) (Some (fst (best_of st sts))) ?longest s")
      (auto simp: generate_report_for_user_def settle_def Let_def)
  note R = report_upsert_Inr [OF up assms(3), unfolded W]
  obtain rows where s1: "s1 = s\<lparr>t_weekly_reports := rows\<rparr>" using R by blast
  have en: "is_type_enabled u N_WEEKLY_REPORT s1 = is_type_enabled u N_WEEKLY_REPORT s" by (rule enabled_cong) (simp add: s1)
  show ?thesis
  proof (cases "is_type_enabled u N_WEEKLY_REPORT s")
    case False
    then have "s' = s1" using assms(1) st up en by (simp add: generate_report_for_user_def settle_def Let_def)
    moreover have "week_rows u ws we s1 = week_rows u ws we s" "inbox u N_WEEKLY_REPORT s1 = inbox u N_WEEKLY_REPORT s"
      by (simp_all add: s1 week_rows_def inbox_def)
    ultimately show ?thesis using R best False s1 by auto
  next
    case True
    then obtain n s2 where n: "nt_user_id n = u" "nt_ntype n = ''weekly_report''" "s2 = s1\<lparr>t_notifications := t_notifications s1 @ [n]\<rparr>"
        and s': "s' = mark_push_sent (wr_id r) now s2"
      using assms(1) st up en
      by (auto simp: generate_report_for_user_def settle_def Let_def bindE_def dest!: create_notification_Inr split: sum.splits)
    have "fetch wr_key (u, ws) (t_weekly_reports s') = Some (r\<lparr>wr_push_sent_at := Some now\<rparr>)"
      using R by (simp add: s' wid n(3))
    moreover have "distinct (map wr_key (t_weekly_reports s'))" using R by (simp add: s' wd n(3))
    moreover have "week_rows u ws we s' = week_rows u ws we s" "t_notification_preferences s' = t_notification_preferences s"
      "inbox u N_WEEKLY_REPORT s' = inbox u N_WEEKLY_REPORT s @ [n]"
      using n(1,2) by (simp_all add: s' n(3) s1 mark_push_sent_def week_rows_def inbox_def)
    ultimately show ?thesis using R best True by auto
  qed
qed

text \<open>
  The weekly report of a reader holds the seconds of the week's buckets, how many days had
  any (this is what the code stores as the number of sessions), and a day with the largest total;
  it exists once per reader and week, and the reader is told of it unless they turned it off.
\<close>

theorem weekly_report_exact:
  assumes "generate_report_for_user day i j now ws we u s = (s', out, None)" "week_rows u ws we s \<noteq> []"
    and "distinct (map wr_key (t_weekly_reports s))"
  shows "(\<exists>r. get_weekly_report u (Some ws) s' = Inr (Some r) \<and>
      wr_total_seconds r = tsum ds_total_seconds (week_rows u ws we s) \<and> wr_session_count r = int (length (week_rows u ws we s)) \<and>
      (\<exists>b \<in> set (week_rows u ws we s). wr_best_day r = Some (ds_date b) \<and>
        (\<forall>x \<in> set (week_rows u ws we s). ds_total_seconds x \<le> ds_total_seconds b))) \<and>
    length (inbox u N_WEEKLY_REPORT s') = length (inbox u N_WEEKLY_REPORT s) + (if is_type_enabled u N_WEEKLY_REPORT s then 1 else 0)"
proof -
  note E = weekly_effect [OF assms]
  have "get_weekly_report u (Some ws) s' = Inr (fetch wr_key (u, ws) (t_weekly_reports s'))"
  proof -
    have "filter (\<lambda>r. wr_user_id r = u \<and> wr_week_start r = ws) (t_weekly_reports s') =
        (case fetch wr_key (u, ws) (t_weekly_reports s') of None \<Rightarrow> [] | Some r \<Rightarrow> [r])"
      by (rule filter_unique_key) (use E in \<open>auto simp: wr_key_def\<close>)
    then show ?thesis by (simp add: get_weekly_report_def get_for_user_and_week_def split: option.splits)
  qed
  with E show ?thesis by auto
qed

definition busy_week :: sess where
  "busy_week = mailroom\<lparr>t_daily_stats := [\<lparr>ds_user_id = 2, ds_date = 738832, ds_total_seconds = 1200, ds_session_count = 3\<rparr>]\<rparr>"

lemma busy_week_tables [simp]:
  "t_daily_stats busy_week = [\<lparr>ds_user_id = 2, ds_date = 738832, ds_total_seconds = 1200, ds_session_count = 3\<rparr>]"
  "t_weekly_reports busy_week = []" "t_notification_preferences busy_week = [\<lparr>np_user_id = 2, np_overrides = [''comment'' \<mapsto> False]\<rparr>]"
  "t_notifications busy_week = t_notifications mailroom" "t_users busy_week = [demo_user 1, demo_user 2, demo_user 3]"
  "t_reading_sessions busy_week = []"
  by (simp_all add: busy_week_def mailroom_def wall_def demo_def empty_sess_def)

lemma busy_report:
  assumes "t_daily_stats s = t_daily_stats busy_week" "user_exists 2 s" "int4 (get_longest_in_range utc_date 2 738832 738838 s)"
    "j \<notin> nt_id ` set (t_notifications s)" "i \<notin> wr_id ` set (t_weekly_reports s)"
  shows "\<exists>s' out. generate_report_for_user utc_date i j t0 738832 738838 2 s = (s', out, None)"
proof -
  have st: "get_stats_for_week 2 738832 738838 s = [(738832, 1200)]"
    using assms(1) by (simp add: get_stats_for_week_def order_asc_def)
  have up: "\<exists>r s1. report_upsert i 2 738832 1200 1 (Some 738832) n s = Inr (r, s1) \<and> t_notifications s1 = t_notifications s \<and> user_exists 2 s1"
    if "int4 n" for n
    using assms(2,5) that by (auto simp: report_upsert_def int4_def Let_def insert_row_def fetch_None_iff user_exists_def split: option.splits)
  obtain r s1 where r: "report_upsert i 2 738832 1200 1 (Some 738832) (get_longest_in_range utc_date 2 738832 738838 s) s = Inr (r, s1)"
      "t_notifications s1 = t_notifications s" "user_exists 2 s1"
    using up [OF assms(3)] by blast
  have "py_str 20 = ''20''" by code_simp
  then have "\<exists>n s2. create_notification j t0 2 ''weekly_report'' [51060, 48264, 32, 51452, 32, 46021, 49436, 32, 47532, 54252, 53944, 44032, 32, 46020, 52265, 54664, 50612, 50836]
     ([51648, 45212, 32, 54620, 32, 51452, 32, 46041, 50504, 32, 52509, 32] @ ascii (py_str 20) @ [48516, 32, 46021, 49436, 54664, 50612, 50836, 46])
     [(''week_start'', JStr (iso_date 738832))] s1 = Inr (n, s2)"
    using assms(4) r by (intro create_notification_ok) (simp_all add: ascii_def)
  then show ?thesis using st r(1) by (auto simp: generate_report_for_user_def settle_def Let_def)
qed

lemma busy_rows: "week_rows 2 738832 738838 busy_week \<noteq> []"
  by (simp add: week_rows_def)

lemma weekly_report_exact_witness:
  "\<exists>s' out r. generate_report_for_user utc_date 991 992 t0 738832 738838 2 busy_week = (s', out, None) \<and>
     get_weekly_report 2 (Some 738832) s' = Inr (Some r) \<and> wr_session_count r = 1"
proof -
  obtain s' out where g: "generate_report_for_user utc_date 991 992 t0 738832 738838 2 busy_week = (s', out, None)"
    using busy_report [of busy_week 992 991] by (auto simp: get_longest_in_range_def int4_def user_exists_def)
  have "length (week_rows 2 738832 738838 busy_week) = 1" by (simp add: week_rows_def)
  with weekly_report_exact [OF g busy_rows] g show ?thesis by auto
qed

text \<open>Running the batch again for the same week replaces the report, but tells the reader again.\<close>

lemma weekly_rerun_tells_again:
  assumes "generate_report_for_user day i j now ws we u s = (s1, out1, None)" "generate_report_for_user day k l later ws we u s1 = (s2, out2, None)"
    and "week_rows u ws we s \<noteq> []" "distinct (map wr_key (t_weekly_reports s))" "is_type_enabled u N_WEEKLY_REPORT s"
  shows "length (inbox u N_WEEKLY_REPORT s2) = length (inbox u N_WEEKLY_REPORT s) + 2"
proof -
  note A = weekly_effect [OF assms(1,3,4)]
  have "week_rows u ws we s1 \<noteq> []" "distinct (map wr_key (t_weekly_reports s1))" "is_type_enabled u N_WEEKLY_REPORT s1"
    using A assms(3,5) enabled_cong [of s1 s] by auto
  from weekly_effect [OF assms(2) this(1,2)] this(3) A assms(5) show ?thesis by simp
qed

end
