(* ===== verification/System.thy ===== *)
theory System
  imports EventBus NotificationProps ChallengeProps ReadingProps
begin

text \<open>
  The running application (\<open>backend/app/main.py\<close>): the database, the messages sent to devices and
  sockets, and the batches of events that committed requests handed to the bus. \<open>lifespan\<close> subscribes
  the handlers of the notification and the challenge service; every handler opens a session of its own.
  \<open>fresh\<close> chooses the identifiers the handlers generate, from the database and the recipient.
\<close>

section \<open>The world and its handlers\<close>

record world =
  w_db :: sess
  w_out :: "message list"
  w_pending :: "event list"

text \<open>One request: its own queue of events, committed as a whole or rolled back.\<close>

definition request :: "(sess \<Rightarrow> 'a outcome) \<Rightarrow> world \<Rightarrow> 'a result \<times> world" where
  "request f w =
     (case f ((w_db w)\<lparr>sq_events := []\<rparr>) of
        Inl e \<Rightarrow> (Inl e, w)
      | Inr (x, s) \<Rightarrow> (Inr x, w\<lparr>w_db := s\<lparr>sq_events := []\<rparr>, w_pending := w_pending w @ sq_events s\<rparr>))"

text \<open>The notification handlers catch and log their exceptions: seen from the bus they never fail.\<close>

definition notifies :: "(event \<Rightarrow> sess \<Rightarrow> handled) \<Rightarrow> world handler" where
  "notifies h e w = (case h e (w_db w) of (s, out, _) \<Rightarrow> Inr (w\<lparr>w_db := s, w_out := w_out w @ out\<rparr>))"

definition challenges :: "(event \<Rightarrow> sess \<Rightarrow> sess result) \<Rightarrow> world handler" where
  "challenges h e w =
     (case h e (w_db w) of
        Inl err \<Rightarrow> Inl err
      | Inr s \<Rightarrow> Inr (w\<lparr>w_db := s\<lparr>sq_events := []\<rparr>, w_pending := w_pending w @ sq_events s\<rparr>))"

definition system_bus :: "(sess \<Rightarrow> uuid \<Rightarrow> uuid) \<Rightarrow> datetime \<Rightarrow> world bus" where
  "system_bus fresh now =
     subscribe KGradeRecomputed (challenges (on_grade_recomputed now))
    (subscribe KBookCompleted (challenges (on_user_book_completed now))
    (subscribe KSessionCompleted (challenges (on_reading_session_completed now))
    (subscribe KBadgeEarned (notifies (\<lambda>e s. on_badge_earned (fresh s 0) now e s))
    (subscribe KFollowReceived (notifies (\<lambda>e s. on_follow_received (fresh s 0) now e s))
    (subscribe KGradeRecomputed (notifies (\<lambda>e s. on_grade_up (fresh s 0) now e s))
    (subscribe KCommentAdded (notifies (\<lambda>e s. on_comment_added (fresh s) now e s))
    (subscribe KReactionAdded (notifies (\<lambda>e s. on_reaction_added (fresh s 0) now e s))
     empty_bus)))))))"

definition deliver_round :: "world bus \<Rightarrow> world \<Rightarrow> world" where
  "deliver_round b w = dispatch b (w_pending w) (w\<lparr>w_pending := []\<rparr>)"

definition deliver :: "world bus \<Rightarrow> nat \<Rightarrow> world \<Rightarrow> world" where
  "deliver b n w = (deliver_round b ^^ n) w"

section \<open>What the handlers touch\<close>

text \<open>The notification service only adds to the inboxes.\<close>

definition only_mail :: "sess \<Rightarrow> sess \<Rightarrow> bool" where
  "only_mail s s' \<longleftrightarrow> (\<exists>ns. s' = s\<lparr>t_notifications := t_notifications s @ ns\<rparr>)"

lemma only_mail_refl [simp]: "only_mail s s"
  unfolding only_mail_def by (rule exI [of _ "[]"]) simp

lemma only_mail_snoc: "only_mail s (s\<lparr>t_notifications := t_notifications s @ ns\<rparr>)"
  by (auto simp: only_mail_def)

lemma only_mail_trans: "only_mail s s1 \<Longrightarrow> only_mail s1 s2 \<Longrightarrow> only_mail s s2"
  by (auto simp: only_mail_def)

lemma only_mail_notify:
  assumes "notify_one i now u ty t b d p s = Inr (x, s')"
  shows "only_mail s s'"
  using assms notify_one_Inr [of i now u ty t b d p s "fst x" "snd x" s'] by (auto simp: only_mail_snoc)

lemma only_mail_settle: "only_mail s (fst (settle s (notify_one i now u ty t b d p s)))"
  by (cases "notify_one i now u ty t b d p s") (auto simp: settle_def dest: only_mail_notify)

lemma only_mail_each:
  assumes "\<And>u s. only_mail s (fst (f u s))"
  shows "only_mail s (fst (each_recipient f us s))"
proof (induction us arbitrary: s)
  case (Cons u us)
  obtain s1 o1 e1 where f: "f u s = (s1, o1, e1)" by (metis prod.exhaust)
  have "only_mail s s1" using assms [of s u] f by simp
  then show ?case using Cons.IH [of s1] f by (auto split: prod.splits intro: only_mail_trans)
qed simp

lemma only_mail_handlers:
  "only_mail s (fst (on_reaction_added i now e s))"
  "only_mail s (fst (on_comment_added g now e s))"
  "only_mail s (fst (on_follow_received i now e s))"
  "only_mail s (fst (on_badge_earned i now e s))"
  "only_mail s (fst (on_grade_up i now e s))"
proof -
  show "only_mail s (fst (on_comment_added g now e s))"
    by (simp add: on_comment_added_def only_mail_each notify_comment_recipient_def only_mail_settle split: event.split)
  show "only_mail s (fst (on_follow_received i now e s))"
    by (auto simp: on_follow_received_def split: event.split sum.split prod.split option.split dest: only_mail_notify)
qed (simp_all add: on_reaction_added_def on_badge_earned_def on_grade_up_def only_mail_settle Let_def split: event.split)

definition mail_step :: "world \<Rightarrow> world \<Rightarrow> bool" where
  "mail_step w w' \<longleftrightarrow> only_mail (w_db w) (w_db w') \<and> w_pending w' = w_pending w"

lemma attempt_notifies:
  assumes "\<And>e s. only_mail s (fst (h e s))"
  shows "mail_step w (attempt e (notifies h) w)"
  using assms [of "w_db w" e] by (auto simp: mail_step_def attempt_def notifies_def split: prod.split)

text \<open>What the challenge service announces are badges.\<close>

definition badges_only :: "event list \<Rightarrow> bool" where
  "badges_only es \<longleftrightarrow> (\<forall>e \<in> set es. kind e = KBadgeEarned)"

lemma badges_only_simps [simp]:
  "badges_only []" "badges_only (xs @ ys) \<longleftrightarrow> badges_only xs \<and> badges_only ys"
  "badges_only (x # xs) \<longleftrightarrow> kind x = KBadgeEarned \<and> badges_only xs"
  by (auto simp: badges_only_def)

lemma award_reward_events:
  assumes "award_reward now u b s = Inr s'" "badges_only (sq_events s)"
  shows "badges_only (sq_events s')"
  using assms by (auto simp: award_reward_def repo_award_badge_def Let_def stage_event_def split: option.splits if_splits)

lemma advance_one_events:
  assumes "advance_one now u delta mode row s = Inr s'" "badges_only (sq_events s)"
  shows "badges_only (sq_events s')"
  using assms
  by (auto simp: advance_one_def Let_def update_progress_def split: prod.splits option.splits if_splits dest!: award_reward_events)

lemma foldE_advance_events:
  "foldE (advance_one now u delta mode) rows s = Inr s' \<Longrightarrow> badges_only (sq_events s) \<Longrightarrow> badges_only (sq_events s')"
  by (induction rows arbitrary: s) (auto dest: advance_one_events)

lemma progress_events:
  assumes "handle_progress_event now u ctype delta mode s = Inr s'"
  shows "badges_only (sq_events s')"
  using assms by (auto simp: handle_progress_event_def advance_challenges_def dest: foldE_advance_events)

section \<open>Deliveries\<close>

lemma publish_badge:
  assumes "kind e = KBadgeEarned"
  shows "mail_step w (publish (system_bus fresh now) e w)"
  using attempt_notifies [of "\<lambda>e s. on_badge_earned (fresh s 0) now e s" w e] only_mail_handlers(4) assms
  by (simp add: publish_def system_bus_def subscribe_def empty_bus_def)

lemma attempt_challenges:
  assumes "\<And>s s'. h e s = Inr s' \<Longrightarrow> badges_only (sq_events s')"
  shows "\<exists>es. w_pending (attempt e (challenges h) w) = w_pending w @ es \<and> badges_only es"
proof (cases "h e (w_db w)")
  case (Inr s)
  then show ?thesis using assms [OF Inr] by (simp add: attempt_def challenges_def)
qed (simp add: attempt_def challenges_def)

lemma bus_cases:
  assumes "publish (system_bus fresh now) e w = w'"
  obtains (mail) "mail_step w w'" "kind e \<notin> {KSessionCompleted, KBookCompleted, KGradeRecomputed}"
  | (session) "w' = attempt e (challenges (on_reading_session_completed now)) w" "kind e = KSessionCompleted"
  | (book) "w' = attempt e (challenges (on_user_book_completed now)) w" "kind e = KBookCompleted"
  | (grade) w1 where "mail_step w w1" "w' = attempt e (challenges (on_grade_recomputed now)) w1" "kind e = KGradeRecomputed"
proof (cases "kind e")
  case KSessionCompleted
  then show ?thesis using assms session by (simp add: publish_def system_bus_def subscribe_def empty_bus_def)
next
  case KBookCompleted
  then show ?thesis using assms book by (simp add: publish_def system_bus_def subscribe_def empty_bus_def)
next
  case KGradeRecomputed
  let ?w1 = "attempt e (notifies (\<lambda>e s. on_grade_up (fresh s 0) now e s)) w"
  have "mail_step w ?w1" by (rule attempt_notifies) (rule only_mail_handlers)
  then show ?thesis
    using assms KGradeRecomputed grade [of ?w1] by (simp add: publish_def system_bus_def subscribe_def empty_bus_def)
next
  case KBadgeEarned
  then show ?thesis using publish_badge [of e w fresh now] assms mail by simp
next
  case KPostCreated
  then have "w' = w" using assms by (simp add: publish_def system_bus_def subscribe_def empty_bus_def)
  then show ?thesis using KPostCreated by (intro mail) (simp_all add: mail_step_def)
next
  case KReactionAdded
  have "mail_step w (attempt e (notifies (\<lambda>e s. on_reaction_added (fresh s 0) now e s)) w)"
    by (rule attempt_notifies) (rule only_mail_handlers)
  then show ?thesis
    using assms KReactionAdded by (intro mail) (simp_all add: publish_def system_bus_def subscribe_def empty_bus_def)
next
  case KCommentAdded
  have "mail_step w (attempt e (notifies (\<lambda>e s. on_comment_added (fresh s) now e s)) w)"
    by (rule attempt_notifies) (rule only_mail_handlers)
  then show ?thesis
    using assms KCommentAdded by (intro mail) (simp_all add: publish_def system_bus_def subscribe_def empty_bus_def)
next
  case KFollowReceived
  have "mail_step w (attempt e (notifies (\<lambda>e s. on_follow_received (fresh s 0) now e s)) w)"
    by (rule attempt_notifies) (rule only_mail_handlers)
  then show ?thesis
    using assms KFollowReceived by (intro mail) (simp_all add: publish_def system_bus_def subscribe_def empty_bus_def)
qed

lemma session_handler: "kind e = KSessionCompleted \<Longrightarrow>
    on_reading_session_completed now e s = handle_progress_event now (ev_user e) READING_TIME (ev_duration e) MODE_ADD s"
  by (cases e) (simp_all add: on_reading_session_completed_def)

lemma book_handler: "kind e = KBookCompleted \<Longrightarrow>
    on_user_book_completed now e s = handle_progress_event now (ev_user e) BOOKS_COUNT 1 MODE_ADD s"
  by (cases e) (simp_all add: on_user_book_completed_def)

lemma grade_handler: "kind e = KGradeRecomputed \<Longrightarrow>
    on_grade_recomputed now e s = handle_progress_event now (ev_user e) STREAK (ev_streak_days e) MODE_MAX s"
  by (cases e) (simp_all add: on_grade_recomputed_def)

lemma publish_pending:
  assumes "publish (system_bus fresh now) e w = w'"
  shows "\<exists>es. w_pending w' = w_pending w @ es \<and> badges_only es"
  using assms
proof (cases rule: bus_cases)
  case mail
  then show ?thesis by (simp add: mail_step_def)
next
  case session
  then show ?thesis using attempt_challenges [of "on_reading_session_completed now" e w] by (simp add: session_handler progress_events)
next
  case book
  then show ?thesis using attempt_challenges [of "on_user_book_completed now" e w] by (simp add: book_handler progress_events)
next
  case (grade w1)
  then show ?thesis
    using attempt_challenges [of "on_grade_recomputed now" e w1] by (simp add: grade_handler progress_events mail_step_def)
qed

lemma dispatch_simps [simp]: "dispatch b [] w = w" "dispatch b (e # es) w = dispatch b es (publish b e w)"
  by (simp_all add: dispatch_def)

lemma dispatch_pending: "badges_only (w_pending w) \<Longrightarrow> badges_only (w_pending (dispatch (system_bus fresh now) es w))"
proof (induction es arbitrary: w)
  case (Cons e es)
  then show ?case using publish_pending [OF refl, of fresh now e w] by auto
qed simp

lemma dispatch_badges:
  "badges_only es \<Longrightarrow> mail_step w (dispatch (system_bus fresh now) es w)"
proof (induction es arbitrary: w)
  case (Cons e es)
  then show ?case using publish_badge [of e w fresh now] by (auto simp: mail_step_def intro: only_mail_trans)
qed (simp add: mail_step_def)

lemma round_pending: "badges_only (w_pending (deliver_round (system_bus fresh now) w))"
  unfolding deliver_round_def by (rule dispatch_pending) simp

lemma round_again:
  assumes "w1 = deliver_round (system_bus fresh now) w" "w2 = deliver_round (system_bus fresh now) w1"
  shows "w_pending w2 = []" "only_mail (w_db w1) (w_db w2)"
proof -
  have "badges_only (w_pending w1)" unfolding assms(1) by (rule round_pending)
  moreover have "w2 = dispatch (system_bus fresh now) (w_pending w1) (w1\<lparr>w_pending := []\<rparr>)"
    by (simp only: assms(2) deliver_round_def [of _ w1])
  ultimately have "mail_step (w1\<lparr>w_pending := []\<rparr>) w2" using dispatch_badges by blast
  then show "w_pending w2 = []" "only_mail (w_db w1) (w_db w2)" by (simp_all add: mail_step_def)
qed

text \<open>
  C11. Deliveries come to rest: whatever events are waiting, two rounds of the bus leave none, and
  the second one sends messages only. An event can make the challenge service award badges, a badge
  is announced, and an announcement stages nothing.
\<close>

theorem deliveries_settle:
  "w_pending (deliver (system_bus fresh now) (Suc (Suc n)) w) = [] \<and>
   deliver (system_bus fresh now) (Suc (Suc n)) w = deliver (system_bus fresh now) 2 w \<and>
   only_mail (w_db (deliver (system_bus fresh now) 1 w)) (w_db (deliver (system_bus fresh now) 2 w))"
proof -
  let ?b = "system_bus fresh now"
  let ?w1 = "deliver_round ?b w" and ?w2 = "deliver_round ?b (deliver_round ?b w)"
  note two = round_again [OF refl refl, of fresh now w]
  have rest: "deliver_round ?b ?w2 = ?w2" using two(1) by (simp add: deliver_round_def [of _ ?w2])
  have more: "(deliver_round ?b ^^ n) ?w2 = ?w2" by (induction n) (simp_all add: rest)
  have "deliver ?b (Suc (Suc n)) w = ?w2" unfolding deliver_def by (simp only: funpow_Suc_right comp_apply more)
  then show ?thesis using two by (simp add: deliver_def numeral_2_eq_2)
qed

section \<open>A participation under deliveries\<close>

definition standing :: "uuid \<Rightarrow> uuid \<Rightarrow> participant \<Rightarrow> challenge \<Rightarrow> sess \<Rightarrow> bool" where
  "standing c u p ch s \<longleftrightarrow> challenge_ok s \<and> fetch pt_key (c, u) (t_participants s) = Some p \<and> fetch ch_id c (t_challenges s) = Some ch"

lemma standing_cong:
  assumes "t_badges s' = t_badges s" "t_challenges s' = t_challenges s" "t_participants s' = t_participants s" "t_user_badges s' = t_user_badges s"
  shows "standing c u p ch s' \<longleftrightarrow> standing c u p ch s"
  using assms challenge_ok_cong [OF assms] by (simp add: standing_def)

lemma standing_mail: "only_mail s s' \<Longrightarrow> standing c u p ch s' \<longleftrightarrow> standing c u p ch s"
  unfolding only_mail_def by (elim exE) (rule standing_cong, simp_all)

lemma standing_progress:
  assumes "handle_progress_event now v ctype delta mode s = Inr s'" "standing c u p ch s"
  shows "standing c u (advance_row now v ctype delta mode (t_challenges s) p) ch (s'\<lparr>sq_events := []\<rparr>)"
proof -
  have ok: "challenge_ok s" using assms(2) by (simp add: standing_def)
  have "t_participants s' = map (advance_row now v ctype delta mode (t_challenges s)) (t_participants s) \<and> t_challenges s' = t_challenges s"
    using assms(1) ok by (rule handle_progress_event_Inr) simp
  then show ?thesis
    using assms(2) handle_progress_event_ok [OF ok assms(1)] challenge_ok_cong [of "s'\<lparr>sq_events := []\<rparr>" s']
    by (simp add: standing_def fetch_map_key advance_row_fields)
qed

lemma advance_row_other:
  assumes "standing c u p ch s" "ch_challenge_type ch \<noteq> ctype"
  shows "advance_row now v ctype delta mode (t_challenges s) p = p"
proof -
  have "pt_challenge_id p = c" using assms(1) fetch_Some_key by (fastforce simp: standing_def pt_key_def)
  then show ?thesis using assms by (simp add: standing_def advance_row_def counts_for_def)
qed

lemma attempt_keeps:
  assumes "h e (w_db w) = handle_progress_event now v ctype delta mode (w_db w)" "standing c u p ch (w_db w)" "ch_challenge_type ch \<noteq> ctype"
  shows "standing c u p ch (w_db (attempt e (challenges h) w))"
proof (cases "h e (w_db w)")
  case (Inr s)
  then show ?thesis
    using standing_progress [of now v ctype delta mode "w_db w" s c u p ch] advance_row_other [OF assms(2,3)] assms(1,2)
    by (simp add: attempt_def challenges_def)
qed (use assms in \<open>simp add: attempt_def challenges_def\<close>)

lemma publish_keeps:
  assumes "publish (system_bus fresh now) e w = w'" "kind e \<noteq> KSessionCompleted"
    and "standing c u p ch (w_db w)" "ch_challenge_type ch = READING_TIME"
  shows "standing c u p ch (w_db w')"
  using assms(1)
proof (cases rule: bus_cases)
  case mail
  then show ?thesis using standing_mail assms(3) by (auto simp: mail_step_def)
next
  case session
  then show ?thesis using assms(2) by simp
next
  case book
  show ?thesis unfolding book(1) by (rule attempt_keeps, rule book_handler) (use book(2) assms in simp_all)
next
  case (grade w1)
  have st: "standing c u p ch (w_db w1)" using grade(1) standing_mail assms(3) by (auto simp: mail_step_def)
  show ?thesis unfolding grade(2) by (rule attempt_keeps, rule grade_handler) (use grade(3) st assms in simp_all)
qed

lemma dispatch_keeps:
  assumes "standing c u p ch (w_db w)" "ch_challenge_type ch = READING_TIME" "\<forall>e \<in> set es. kind e \<noteq> KSessionCompleted"
  shows "standing c u p ch (w_db (dispatch (system_bus fresh now) es w))"
  using assms
proof (induction es arbitrary: w)
  case (Cons e es)
  have "standing c u p ch (w_db (publish (system_bus fresh now) e w))"
    using publish_keeps [OF refl _ Cons.prems(1,2)] Cons.prems(3) by simp
  then show ?case using Cons.IH [of "publish (system_bus fresh now) e w"] Cons.prems by simp
qed simp

lemma end_session_stages:
  assumes "end_session cfg fid fnow u sid e off pause s = Inr (x, s')" "rs_duration_sec (cp_session x) = Some d" "sq_events s = []"
  obtains e1 es where "sq_events s' = e1 # es" "kind e1 = KSessionCompleted" "ev_user e1 = u" "ev_duration e1 = d"
    "\<forall>e \<in> set es. kind e \<noteq> KSessionCompleted" "t_badges s' = t_badges s" "t_challenges s' = t_challenges s"
    "t_participants s' = t_participants s" "t_user_badges s' = t_user_badges s" "t_users s' = t_users s"
  using assms(1)
proof (cases rule: end_session_Inr)
  case (1 row st after sd gr new tasks)
  have d: "reconcile_duration (rs_started_at row) e pause = d" using 1(11) assms(2) by (simp add: ended_row_def)
  show ?thesis
    by (rule that [OF trans [OF _ append_Nil]])
      (use 1(8) in \<open>auto simp: completion_events_def d assms(3) split: if_splits\<close>)
qed

text \<open>
  C1. Reading counts towards the reader's challenges, across the two services: when ending a timer
  succeeds and its events are delivered, a running, unfinished reading-time challenge the reader
  takes part in has gained exactly the credited seconds, and is achieved when they reach its
  target; nothing waits on the bus any more. The hypotheses are that the challenge tables are
  consistent, that the reader's account exists and that no value leaves the range of its column.
\<close>

theorem reading_counts_for_challenge:
  assumes "request (end_session cfg fid fnow u sid e off pause) w = (Inr done, w1)" "w_pending w = []"
    and "challenge_ok (w_db w)" "user_exists u (w_db w)"
    and "fetch pt_key (c, u) (t_participants (w_db w)) = Some p" "fetch ch_id c (t_challenges (w_db w)) = Some ch"
    and "ch_challenge_type ch = READING_TIME" "ch_starts_at ch \<le> now" "now \<le> ch_ends_at ch" "pt_achieved_at p = None"
    and "rs_duration_sec (cp_session done) = Some d"
    and "\<forall>q \<in> set (t_participants (w_db w)). pt_user_id q = u \<longrightarrow> int4 (pt_current_value q + d)"
    and "w2 = deliver (system_bus fresh now) 2 w1"
  shows "w_pending w2 = [] \<and> fetch pt_key (c, u) (t_participants (w_db w2)) = Some
    (p\<lparr>pt_current_value := pt_current_value p + d,
       pt_achieved_at := (if ch_target_value ch \<le> pt_current_value p + d then Some now else None)\<rparr>)"
proof -
  let ?b = "system_bus fresh now"
  let ?p = "p\<lparr>pt_current_value := pt_current_value p + d,
       pt_achieved_at := (if ch_target_value ch \<le> pt_current_value p + d then Some now else None)\<rparr>"
  obtain s' where e: "end_session cfg fid fnow u sid e off pause ((w_db w)\<lparr>sq_events := []\<rparr>) = Inr (done, s')"
    and w1: "w1 = w\<lparr>w_db := s'\<lparr>sq_events := []\<rparr>, w_pending := sq_events s'\<rparr>"
    using assms(1,2) by (auto simp: request_def split: sum.splits prod.splits)
  obtain e1 es where es: "sq_events s' = e1 # es" "kind e1 = KSessionCompleted" "ev_user e1 = u" "ev_duration e1 = d"
      "\<forall>e \<in> set es. kind e \<noteq> KSessionCompleted"
    and same: "t_badges s' = t_badges (w_db w)" "t_challenges s' = t_challenges (w_db w)" "t_participants s' = t_participants (w_db w)"
      "t_user_badges s' = t_user_badges (w_db w)" "t_users s' = t_users (w_db w)"
    by (rule end_session_stages [OF e assms(11)]) simp_all
  define wa where "wa = w1\<lparr>w_pending := []\<rparr>"
  have db: "w_db wa = s'\<lparr>sq_events := []\<rparr>" by (simp add: wa_def w1)
  have st: "standing c u p ch (w_db wa)"
    using assms(3,5,6) same challenge_ok_cong [of "s'\<lparr>sq_events := []\<rparr>" "w_db w"] by (simp add: standing_def db)
  have "\<exists>t. handle_progress_event now u READING_TIME d MODE_ADD (w_db wa) = Inr t"
    unfolding handle_progress_event_def advance_challenges_def
    by (rule foldE_advance_total)
      (use st assms(4,12) same in \<open>auto simp: db standing_def challenge_ok_def user_exists_def advanced_value_def dest!: mem_active\<close>)
  then obtain t where t: "handle_progress_event now u READING_TIME d MODE_ADD (w_db wa) = Inr t" by blast
  have key: "pt_challenge_id p = c" "pt_user_id p = u" using fetch_Some_key [OF assms(5)] by (simp_all add: pt_key_def)
  have "advance_row now u READING_TIME d MODE_ADD (t_challenges (w_db wa)) p = ?p"
    using assms(6-10) key same by (simp add: db advance_row_def counts_for_def progressed_def advanced_value_def Let_def)
  then have "standing c u ?p ch (t\<lparr>sq_events := []\<rparr>)" using standing_progress [OF t st] by simp
  then have "standing c u ?p ch (w_db (publish ?b e1 wa))"
    using t es(2-4) session_handler [OF es(2), of now "w_db wa"]
    by (simp add: publish_def system_bus_def subscribe_def empty_bus_def attempt_def challenges_def)
  then have "standing c u ?p ch (w_db (deliver_round ?b w1))"
    using dispatch_keeps [OF _ assms(7) es(5)] es(1) by (simp add: deliver_round_def w1 wa_def)
  then have "standing c u ?p ch (w_db (deliver_round ?b (deliver_round ?b w1)))"
    using standing_mail [OF round_again(2) [OF refl refl]] by blast
  moreover have "w_pending (deliver_round ?b (deliver_round ?b w1)) = []" by (rule round_again(1) [OF refl refl])
  ultimately show ?thesis by (simp add: assms(13) deliver_def numeral_2_eq_2 standing_def)
qed

text \<open>A running timer in the arena: the hour of reading completes the challenge.\<close>

definition race :: world where
  "race = \<lparr>w_db = arena\<lparr>t_reading_sessions := [demo_timer]\<rparr>, w_out = [], w_pending = []\<rparr>"

lemma race_db [simp]:
  "t_reading_sessions (w_db race) = [demo_timer]" "t_participants (w_db race) = [demo_participant 1]"
  "t_challenges (w_db race) = [demo_challenge 500 (t0 + 1000)]" "t_users (w_db race) = [demo_user 1, demo_user 2, demo_user 3]"
  "t_badges (w_db race) = [demo_badge 50, demo_badge 51]" "t_user_badges (w_db race) = []" "w_pending race = []"
  "t_user_grades (w_db race) = []" "t_daily_stats (w_db race) = []" "t_user_books (w_db race) = t_user_books demo"
  by (simp_all add: race_def arena_def demo_def empty_sess_def)

lemma race_end:
  "\<exists>x w1. request (end_session demo_config 50 t0 1 7 (t0 + 3600000000) 0 0) race = (Inr x, w1) \<and> rs_duration_sec (cp_session x) = Some 3600"
proof -
  have d: "reconcile_duration t0 (t0 + 3600000000) 0 = 3600"
    by (subst reconcile_no_pause) (simp_all add: sec_us_def)
  show ?thesis by (simp add: request_def end_session_eval d [simplified] Let_def)
qed

lemma reading_counts_for_challenge_witness:
  "\<exists>x w1. request (end_session demo_config 50 t0 1 7 (t0 + 3600000000) 0 0) race = (Inr x, w1) \<and>
     fetch pt_key (500, 1) (t_participants (w_db (deliver (system_bus (\<lambda>s u. 900 + u) t0) 2 w1))) =
       Some ((demo_participant 1)\<lparr>pt_current_value := 6600, pt_achieved_at := Some t0\<rparr>)"
proof -
  obtain x w1 where e: "request (end_session demo_config 50 t0 1 7 (t0 + 3600000000) 0 0) race = (Inr x, w1)"
    and d: "rs_duration_sec (cp_session x) = Some 3600" using race_end by blast
  have ok: "challenge_ok (w_db race)" using arena_ok challenge_ok_cong [of "w_db race" arena] by simp
  have "fetch pt_key (500, 1) (t_participants (w_db (deliver (system_bus (\<lambda>s u. 900 + u) t0) 2 w1))) =
       Some ((demo_participant 1)\<lparr>pt_current_value := 6600, pt_achieved_at := Some t0\<rparr>)"
    using reading_counts_for_challenge [OF e _ ok _ _ _ _ _ _ _ d _ refl, of 500 "demo_participant 1" "demo_challenge 500 (t0 + 1000)" t0 "\<lambda>s u. 900 + u"]
    by (simp add: user_exists_def int4_def)
  with e show ?thesis by blast
qed

end
