(* ===== verification/Invitations.thy ===== *)
theory Invitations
  imports ReadingService
begin

text \<open>
  Invitation codes, referrals and share cards: the repositories and services of
  \<open>backend/app/domains/referral\<close> and \<open>backend/app/domains/share\<close>, and the request that ends
  a timer session (\<open>end_session\<close> of \<open>backend/app/domains/reading/router.py\<close>), which completes a
  pending referral in the same transaction.
\<close>

section \<open>Invitation codes\<close>

definition CODE_CHARS :: pystr where
  "CODE_CHARS = [65..<91] @ [48..<58]"

definition CODE_LENGTH :: nat where
  "CODE_LENGTH = 6"

definition MAX_COLLISION_RETRIES :: nat where
  "MAX_COLLISION_RETRIES = 5"

text \<open>\<open>draw\<close> is what the random generator answers for each position.\<close>

definition random_code :: "(nat \<Rightarrow> nat) \<Rightarrow> pystr" where
  "random_code draw = map (\<lambda>k. CODE_CHARS ! (draw k mod length CODE_CHARS)) [0..<CODE_LENGTH]"

text \<open>The unique constraint on \<open>users.referral_code\<close>; an \<open>UPDATE\<close> that matches no row changes nothing.\<close>

definition code_taken :: "pystr \<Rightarrow> uuid \<Rightarrow> sess \<Rightarrow> bool" where
  "code_taken code user_id s \<longleftrightarrow>
     user_exists user_id s \<and> list_ex (\<lambda>r. us_referral_code r = Some code \<and> us_id r \<noteq> user_id) (t_users s)"

definition write_code :: "uuid \<Rightarrow> pystr \<Rightarrow> sess \<Rightarrow> sess" where
  "write_code user_id code s =
     s\<lparr>t_users := amend us_id user_id (us_referral_code_update (\<lambda>_. Some code)) (t_users s)\<rparr>"

text \<open>
  The retry loop. The statement that collides is the only one since the transaction began, so the
  rollback leaves the session as it was.
\<close>

primrec try_codes :: "(nat \<Rightarrow> nat \<Rightarrow> nat) \<Rightarrow> uuid \<Rightarrow> nat \<Rightarrow> nat \<Rightarrow> sess \<Rightarrow> pystr outcome" where
  "try_codes draws user_id i 0 s = Inl RuntimeError"
| "try_codes draws user_id i (Suc n) s =
     (let code = random_code (draws i)
      in if code_taken code user_id s then try_codes draws user_id (Suc i) n s
         else Inr (code, write_code user_id code s))"

definition get_or_create_code :: "(nat \<Rightarrow> nat \<Rightarrow> nat) \<Rightarrow> uuid \<Rightarrow> sess \<Rightarrow> pystr outcome" where
  "get_or_create_code draws user_id s =
     (case Option.bind (fetch us_id user_id (t_users s)) us_referral_code of
        Some existing \<Rightarrow> Inr (existing, s)
      | None \<Rightarrow> try_codes draws user_id 0 MAX_COLLISION_RETRIES s)"

section \<open>Referrals\<close>

definition referral_stats :: "uuid \<Rightarrow> sess \<Rightarrow> nat \<times> nat" where
  "referral_stats user_id s =
     (length (filter (\<lambda>r. rf_referrer_id r = user_id) (t_referrals s)),
      length (filter (\<lambda>r. rf_referrer_id r = user_id \<and> rf_completed_at r \<noteq> None) (t_referrals s)))"

definition repo_apply_referral :: "uuid \<Rightarrow> datetime \<Rightarrow> uuid \<Rightarrow> pystr \<Rightarrow> sess \<Rightarrow> unit outcome" where
  "repo_apply_referral new_id now referee_id code s =
     bindE (scalar_one_or_none (filter (\<lambda>u. us_referral_code u = Some code) (t_users s))) (\<lambda>referrer.
       case referrer of
         None \<Rightarrow> Inl (DomainError NotFoundError ''REFERRAL_CODE_NOT_FOUND'')
       | Some u \<Rightarrow>
         bindE (scalar_one_or_none (filter (\<lambda>r. rf_referee_id r = Some referee_id) (t_referrals s))) (\<lambda>existing.
           if existing \<noteq> None then Inr ((), s)
           else if 8 < length code then Inl DataError
           else
             bindE (insert_row rf_id (user_exists referee_id s)
               \<lparr>rf_id = new_id, rf_referrer_id = us_id u, rf_referee_id = Some referee_id, rf_code = code,
                rf_created_at = now, rf_completed_at = None\<rparr> (t_referrals s)) (\<lambda>rows.
             Inr ((), s\<lparr>t_referrals := rows\<rparr>))))"

definition complete_row :: "datetime \<Rightarrow> uuid \<Rightarrow> referral \<Rightarrow> referral" where
  "complete_row now referee_id r =
     (if rf_referee_id r = Some referee_id \<and> rf_completed_at r = None
      then r\<lparr>rf_completed_at := Some now\<rparr> else r)"

definition complete_referral :: "datetime \<Rightarrow> uuid \<Rightarrow> sess \<Rightarrow> sess" where
  "complete_referral now referee_id s = s\<lparr>t_referrals := map (complete_row now referee_id) (t_referrals s)\<rparr>"

record referral_stats_response =
  rr_code :: pystr
  rr_invited_count :: nat
  rr_completed_count :: nat

definition get_my_referral :: "(nat \<Rightarrow> nat \<Rightarrow> nat) \<Rightarrow> uuid \<Rightarrow> sess \<Rightarrow> referral_stats_response outcome" where
  "get_my_referral draws user_id s =
     bindE (get_or_create_code draws user_id s) (\<lambda>(code, s1).
       let (invited, completed) = referral_stats user_id s1
       in Inr (\<lparr>rr_code = code, rr_invited_count = invited, rr_completed_count = completed\<rparr>, s1))"

text \<open>
  \<open>str.upper\<close>: ASCII letters are mapped here; \<open>uni\<close> is the full upper-case mapping of Unicode for
  the other characters, one of which can become several.
\<close>

definition py_upper :: "(nat \<Rightarrow> pystr) \<Rightarrow> pystr \<Rightarrow> pystr" where
  "py_upper uni s = concat (map (\<lambda>c. if 97 \<le> c \<and> c \<le> 122 then [c - 32] else if c < 128 then [c] else uni c) s)"

text \<open>The request model \<open>ApplyReferralRequest\<close> refuses codes outside 6 to 8 characters.\<close>

definition apply_referral ::
    "(nat \<Rightarrow> pystr) \<Rightarrow> (nat \<Rightarrow> nat \<Rightarrow> nat) \<Rightarrow> uuid \<Rightarrow> datetime \<Rightarrow> uuid \<Rightarrow> pystr \<Rightarrow> sess \<Rightarrow> unit outcome" where
  "apply_referral uni draws new_id now referee_id code s =
     (let normalised = py_upper uni code
      in bindE (get_or_create_code draws referee_id s) (\<lambda>(own_code, s1).
           if own_code = normalised then Inl (DomainError ConflictError ''SELF_REFERRAL'')
           else repo_apply_referral new_id now referee_id normalised s1))"

definition post_apply_referral ::
    "(nat \<Rightarrow> pystr) \<Rightarrow> (nat \<Rightarrow> nat \<Rightarrow> nat) \<Rightarrow> uuid \<Rightarrow> datetime \<Rightarrow> uuid \<Rightarrow> pystr \<Rightarrow> sess \<Rightarrow> unit outcome" where
  "post_apply_referral uni draws new_id now user_id code s =
     bindE (guardE (6 \<le> length code \<and> length code \<le> 8) ValueError) (\<lambda>_.
       apply_referral uni draws new_id now user_id code s)"

definition MIN_ELIGIBLE_DURATION_SEC :: int where
  "MIN_ELIGIBLE_DURATION_SEC = 60"

definition complete_referral_if_eligible :: "datetime \<Rightarrow> uuid \<Rightarrow> int \<Rightarrow> sess \<Rightarrow> sess" where
  "complete_referral_if_eligible now user_id duration_sec s =
     (if duration_sec < MIN_ELIGIBLE_DURATION_SEC then s else complete_referral now user_id s)"

definition post_end_session ::
    "config \<Rightarrow> uuid \<Rightarrow> datetime \<Rightarrow> uuid \<Rightarrow> uuid \<Rightarrow> datetime \<Rightarrow> int \<Rightarrow> int \<Rightarrow> sess \<Rightarrow> completion outcome" where
  "post_end_session cfg fid now user_id session_id ended_at utc_offset paused_ms s =
     bindE (end_session cfg fid now user_id session_id ended_at utc_offset paused_ms s) (\<lambda>(completion, s1).
       let duration = (case rs_duration_sec (cp_session completion) of None \<Rightarrow> 0 | Some d \<Rightarrow> d)
       in Inr (completion, complete_referral_if_eligible now user_id duration s1))"

section \<open>Share cards\<close>

definition VALID_CARD_TYPES :: "string list" where
  "VALID_CARD_TYPES =
     [''book_completed'', ''reading_streak'', ''challenge_badge'', ''monthly_recap'', ''progress_checkin'']"

definition VALID_PLATFORMS :: "string list" where
  "VALID_PLATFORMS = [''instagram'', ''twitter'', ''kakaotalk'', ''copy'']"

text \<open>The Korean headline and caption of each template, as code points.\<close>

definition CARD_COPY :: "(string \<times> (pystr \<times> pystr)) list" where
  "CARD_COPY = [
     (''book_completed'',
       ([54620, 32, 44428, 32, 50756, 46021, 32, 127881],
        [48169, 44552, 32, 52293, 32, 54620, 32, 44428, 51012, 32, 50756, 46021, 54664, 50612,
        50836, 33, 32, 54632, 44760, 32, 51069, 50612, 50836, 32, 128218, 10, 35, 48513, 53364,
        47101, 32, 35, 50756, 46021, 32, 35, 52293, 49828, 53440, 44536, 47016])),
     (''reading_streak'',
       ([46021, 49436, 32, 49828, 53944, 47533, 32, 45804, 49457, 32, 128293],
        [44984, 51456, 54620, 32, 46021, 49436, 32, 49845, 44288, 44, 32, 50724, 45720, 46020,
        32, 51060, 50612, 44049, 45768, 45796, 32, 128293, 10, 35, 48513, 53364, 47101, 32, 35,
        46021, 49436, 49845, 44288, 32, 35, 52293, 49828, 53440, 44536, 47016])),
     (''challenge_badge'',
       ([52300, 47536, 51648, 32, 48176, 51648, 32, 54925, 46301, 32, 127941],
        [46021, 49436, 32, 52300, 47536, 51648, 32, 48176, 51648, 47484, 32, 46404, 50612,
        50836, 33, 32, 127941, 10, 35, 48513, 53364, 47101, 32, 35, 46021, 49436, 52300, 47536,
        51648, 32, 35, 52293, 49828, 53440, 44536, 47016])),
     (''monthly_recap'',
       ([51060, 45804, 51032, 32, 46021, 49436, 32, 44208, 49328, 32, 128214],
        [51060, 48264, 32, 45804, 32, 45208, 51032, 32, 46021, 49436, 32, 44592, 47197, 51012,
        32, 44277, 50976, 54644, 50836, 32, 128214, 10, 35, 48513, 53364, 47101, 32, 35, 50900,
        44036, 46021, 49436, 32, 35, 52293, 49828, 53440, 44536, 47016])),
     (''progress_checkin'',
       ([51069, 45716, 32, 51473, 32, 128213],
        [51648, 44552, 32, 51060, 32, 52293, 51012, 32, 51069, 44256, 32, 51080, 50612, 50836,
        46, 32, 44057, 51060, 32, 51069, 51012, 47000, 50836, 63, 32, 128213, 10, 35, 48513,
        53364, 47101, 32, 35, 46021, 49436, 51473, 32, 35, 52293, 49828, 53440, 44536, 47016]))]"

definition JOIN_URL_BASE :: pystr where
  "JOIN_URL_BASE = ascii ''https://bookclub.app/join''"

definition join_url :: "pystr \<Rightarrow> pystr" where
  "join_url referral_code = JOIN_URL_BASE @ ascii ''?ref='' @ referral_code"

record card_context =
  cx_nickname :: pystr
  cx_profile_image_url :: "pystr option"
  cx_referral_code :: pystr

definition get_card_context :: "(nat \<Rightarrow> nat \<Rightarrow> nat) \<Rightarrow> uuid \<Rightarrow> sess \<Rightarrow> card_context outcome" where
  "get_card_context draws user_id s =
     (case fetch us_id user_id (t_users s) of
        None \<Rightarrow> Inl (DomainError NotFoundError ''USER_NOT_FOUND'')
      | Some row \<Rightarrow>
        bindE (get_or_create_code draws user_id s) (\<lambda>(code, s1).
          Inr (\<lparr>cx_nickname = us_nickname row, cx_profile_image_url = us_profile_image_url row,
                cx_referral_code = code\<rparr>, s1)))"

record share_card_meta =
  sc_card_type :: string
  sc_nickname :: pystr
  sc_profile_image_url :: "pystr option"
  sc_referral_code :: pystr
  sc_join_url :: pystr
  sc_headline :: pystr
  sc_caption :: pystr

text \<open>A key missing from the table of texts would be a \<open>KeyError\<close>, here \<open>HandlerError\<close>.\<close>

definition get_card_meta :: "(nat \<Rightarrow> nat \<Rightarrow> nat) \<Rightarrow> uuid \<Rightarrow> string \<Rightarrow> sess \<Rightarrow> share_card_meta outcome" where
  "get_card_meta draws user_id card_type s =
     (if card_type \<notin> set VALID_CARD_TYPES then Inl (DomainError NotFoundError ''CARD_TYPE_NOT_FOUND'')
      else bindE (get_card_context draws user_id s) (\<lambda>(ctx, s1).
        bindE (required HandlerError (map_of CARD_COPY card_type)) (\<lambda>(headline, caption).
          Inr (\<lparr>sc_card_type = card_type, sc_nickname = cx_nickname ctx,
                sc_profile_image_url = cx_profile_image_url ctx, sc_referral_code = cx_referral_code ctx,
                sc_join_url = join_url (cx_referral_code ctx), sc_headline = headline,
                sc_caption = caption\<rparr>, s1))))"

definition repo_record_share ::
    "uuid \<Rightarrow> datetime \<Rightarrow> uuid \<Rightarrow> string \<Rightarrow> string option \<Rightarrow> pystr option \<Rightarrow> sess \<Rightarrow> share_event outcome" where
  "repo_record_share new_id now user_id card_type platform referral_code s =
     (let row = \<lparr>sv_id = new_id, sv_user_id = user_id, sv_card_type = card_type, sv_platform = platform,
                 sv_referral_code = referral_code, sv_created_at = now\<rparr>
      in if \<not> (length card_type \<le> 32 \<and> (\<forall>p\<in>set_option platform. length p \<le> 32)
                \<and> (\<forall>c\<in>set_option referral_code. length c \<le> 16))
         then Inl DataError
         else bindE (insert_row sv_id (user_exists user_id s) row (t_share_events s)) (\<lambda>rows.
           Inr (row, s\<lparr>t_share_events := rows\<rparr>)))"

definition record_share ::
    "uuid \<Rightarrow> datetime \<Rightarrow> uuid \<Rightarrow> string \<Rightarrow> string option \<Rightarrow> pystr option \<Rightarrow> sess \<Rightarrow> share_event outcome" where
  "record_share new_id now user_id card_type platform referral_code s =
     (if card_type \<notin> set VALID_CARD_TYPES then Inl (DomainError ConflictError ''CARD_TYPE_INVALID'')
      else if \<exists>p\<in>set_option platform. p \<notin> set VALID_PLATFORMS
      then Inl (DomainError ConflictError ''PLATFORM_INVALID'')
      else repo_record_share new_id now user_id card_type platform referral_code s)"

text \<open>The aggregation groups by template and platform (\<open>NULL\<close> is a group), busiest first.\<close>

definition share_bucket :: "share_event \<Rightarrow> string \<times> string option" where
  "share_bucket e = (sv_card_type e, sv_platform e)"

definition repo_share_stats :: "sess \<Rightarrow> ((string \<times> string option) \<times> nat) list" where
  "repo_share_stats s =
     order_desc (\<lambda>(_, n). int n)
       (map (\<lambda>b. (b, length (filter (\<lambda>e. share_bucket e = b) (t_share_events s))))
         (remdups (map share_bucket (t_share_events s))))"

definition get_share_stats :: "sess \<Rightarrow> nat \<times> ((string \<times> string option) \<times> nat) list" where
  "get_share_stats s = (let rows = repo_share_stats s in (sum_list (map snd rows), rows))"

end
