(* ===== verification/InvitationProps.thy ===== *)
theory InvitationProps
  imports Invitations ReadingMachine Demo
begin

text \<open>
  The requests of the referral and share routers as a machine: its invariant (codes are unique,
  nobody is invited twice or by themselves, a referral names the code of its referrer) and the
  facts it never takes back (a code handed out, an invitation, a conversion).
\<close>

definition code_of :: "uuid \<Rightarrow> sess \<Rightarrow> pystr option" where
  "code_of u s = Option.bind (fetch us_id u (t_users s)) us_referral_code"

datatype invite_op =
    GetMyReferral "nat \<Rightarrow> nat \<Rightarrow> nat" uuid
  | ApplyReferral "nat \<Rightarrow> pystr" "nat \<Rightarrow> nat \<Rightarrow> nat" uuid datetime uuid pystr
  | FinishSession config uuid datetime uuid uuid datetime int int
  | GetShareCard "nat \<Rightarrow> nat \<Rightarrow> nat" uuid string
  | RecordShare uuid datetime uuid string "string option" "pystr option"

fun invite_step :: "invite_op \<Rightarrow> sess \<Rightarrow> error + sess" where
  "invite_step (GetMyReferral draws u) s = ret (get_my_referral draws u s)"
| "invite_step (ApplyReferral uni draws i now u code) s = ret (post_apply_referral uni draws i now u code s)"
| "invite_step (FinishSession cfg fid now u sid e off p) s = ret (post_end_session cfg fid now u sid e off p s)"
| "invite_step (GetShareCard draws u ct) s = ret (get_card_meta draws u ct s)"
| "invite_step (RecordShare i now u ct pf rc) s = ret (record_share i now u ct pf rc s)"

definition codes_ok :: "sess \<Rightarrow> bool" where
  "codes_ok s \<longleftrightarrow> distinct (map us_id (t_users s)) \<and>
     (\<forall>u v c. code_of u s = Some c \<longrightarrow> code_of v s = Some c \<longrightarrow> u = v)"

definition referral_ok :: "sess \<Rightarrow> referral \<Rightarrow> bool" where
  "referral_ok s r \<longleftrightarrow> rf_referee_id r \<noteq> Some (rf_referrer_id r) \<and> code_of (rf_referrer_id r) s = Some (rf_code r)"

definition invite_inv :: "sess \<Rightarrow> bool" where
  "invite_inv s \<longleftrightarrow> codes_ok s \<and> distinct (map rf_id (t_referrals s)) \<and>
     distinct (List.map_filter rf_referee_id (t_referrals s)) \<and> (\<forall>r\<in>set (t_referrals s). referral_ok s r)"

text \<open>What is settled once it holds.\<close>

datatype invite_fact = HasCode uuid pystr | InvitedBy uuid uuid pystr | Converted uuid datetime

definition facts :: "sess \<Rightarrow> invite_fact set" where
  "facts s = {HasCode u c | u c. code_of u s = Some c}
     \<union> {InvitedBy e (rf_referrer_id r) (rf_code r) | r e. r \<in> set (t_referrals s) \<and> rf_referee_id r = Some e}
     \<union> {Converted e t | r e t. r \<in> set (t_referrals s) \<and> rf_referee_id r = Some e \<and> rf_completed_at r = Some t}"

lemma facts_iff:
  "HasCode u c \<in> facts s \<longleftrightarrow> code_of u s = Some c"
  "InvitedBy e u c \<in> facts s \<longleftrightarrow>
     (\<exists>r\<in>set (t_referrals s). rf_referee_id r = Some e \<and> rf_referrer_id r = u \<and> rf_code r = c)"
  "Converted e t \<in> facts s \<longleftrightarrow> (\<exists>r\<in>set (t_referrals s). rf_referee_id r = Some e \<and> rf_completed_at r = Some t)"
  by (auto simp: facts_def)

section \<open>Handing out a code\<close>

lemma code_of_write:
  "code_of v (write_code u c s) = (if v = u \<and> user_exists u s then Some c else code_of v s)"
  by (auto simp: code_of_def write_code_def fetch_amend user_exists_def split: option.splits)

lemma write_code_ids [simp]: "map us_id (t_users (write_code u c s)) = map us_id (t_users s)"
  by (simp add: write_code_def map_key_amend)

lemma not_taken:
  assumes "\<not> code_taken c u s" "user_exists u s" "code_of v s = Some c"
  shows "v = u"
proof -
  obtain r where r: "fetch us_id v (t_users s) = Some r" "us_referral_code r = Some c"
    using assms(3) by (auto simp: code_of_def bind_eq_Some_conv)
  from fetch_SomeD [OF r(1)] r(2) assms(1,2) show ?thesis by (auto simp: code_taken_def list_ex_iff)
qed

lemma try_codes_Inr:
  "try_codes draws u i n s = Inr (c, s') \<Longrightarrow>
    s' = write_code u c s \<and> \<not> code_taken c u s \<and> (\<exists>k. c = random_code (draws k))"
  by (induction n arbitrary: i) (auto simp: Let_def split: if_splits)

lemma get_or_create_Inr:
  assumes "get_or_create_code draws u s = Inr (c, s')"
  obtains "code_of u s = Some c" "s' = s"
  | "code_of u s = None" "s' = write_code u c s" "\<not> code_taken c u s" "\<exists>k. c = random_code (draws k)"
  using assms try_codes_Inr [of draws u 0 _ s c s'] that
  by (auto simp: get_or_create_code_def code_of_def split: option.splits)

lemma write_code_ok:
  assumes "codes_ok s" "\<not> code_taken c u s"
  shows "codes_ok (write_code u c s)"
  using assms not_taken [OF assms(2)] by (auto simp: codes_ok_def code_of_write)

lemma get_or_create_keeps:
  assumes "get_or_create_code draws u s = Inr (c, s')" "codes_ok s"
  shows "codes_ok s'" "code_of v s = Some d \<Longrightarrow> code_of v s' = Some d"
    "user_exists u s \<Longrightarrow> code_of u s' = Some c" "t_referrals s' = t_referrals s" "map us_id (t_users s') = map us_id (t_users s)"
  using assms(1)
  by (cases rule: get_or_create_Inr; use assms(2) write_code_ok in \<open>auto simp: code_of_write\<close>; simp add: write_code_def)+

lemma invite_inv_cong:
  "t_users s' = t_users s \<Longrightarrow> t_referrals s' = t_referrals s \<Longrightarrow> invite_inv s' = invite_inv s \<and> facts s' = facts s"
  by (auto simp: invite_inv_def codes_ok_def referral_ok_def code_of_def facts_def)

lemma get_or_create_inv:
  assumes "get_or_create_code draws u s = Inr (c, s')" "invite_inv s"
  shows "invite_inv s' \<and> facts s \<subseteq> facts s'"
proof -
  have ok: "codes_ok s" using assms(2) by (simp add: invite_inv_def)
  note k = get_or_create_keeps [OF assms(1) ok]
  show ?thesis using assms(2) k(1,2,4) by (auto simp: invite_inv_def referral_ok_def facts_def)
qed

section \<open>Every request\<close>

lemma card_context_Inr:
  "get_card_context draws u s = Inr (x, s') \<Longrightarrow> get_or_create_code draws u s = Inr (cx_referral_code x, s')"
  by (auto simp: get_card_context_def split: option.splits)

lemma scalar_code:
  assumes "scalar_one_or_none (filter (\<lambda>r. us_referral_code r = Some c) (t_users s)) = Inr (Some r)" "codes_ok s"
  shows "code_of (us_id r) s = Some c" "user_exists (us_id r) s"
proof -
  have "r \<in> set (t_users s)" "us_referral_code r = Some c"
    using assms(1) by (auto simp: scalar_one_or_none_Some dest: filter_eq_ConsD)
  with assms(2) show "code_of (us_id r) s = Some c" "user_exists (us_id r) s"
    by (auto simp: codes_ok_def code_of_def user_exists_def fetch_distinct)
qed

lemma map_filter_append: "List.map_filter f (xs @ ys) = List.map_filter f xs @ List.map_filter f ys"
  by (simp add: List.map_filter_def)

lemma apply_referral_inv:
  assumes "apply_referral uni draws i now u code s = Inr (x, s')" "invite_inv s"
  shows "invite_inv s' \<and> facts s \<subseteq> facts s'"
proof -
  let ?n = "py_upper uni code"
  obtain own s1 where own: "get_or_create_code draws u s = Inr (own, s1)" "own \<noteq> ?n"
    and ap: "repo_apply_referral i now u ?n s1 = Inr (x, s')"
    using assms(1) by (auto simp: apply_referral_def Let_def split: if_splits)
  have s1: "invite_inv s1" "facts s \<subseteq> facts s1" using get_or_create_inv [OF own(1) assms(2)] by auto
  then have ok: "codes_ok s1" by (simp add: invite_inv_def)
  have mine: "user_exists u s \<Longrightarrow> code_of u s1 = Some own" "map us_id (t_users s1) = map us_id (t_users s)"
    using get_or_create_keeps [OF own(1)] assms(2) by (auto simp: invite_inv_def)
  obtain r where r: "scalar_one_or_none (filter (\<lambda>u. us_referral_code u = Some ?n) (t_users s1)) = Inr (Some r)"
    using ap by (auto simp: repo_apply_referral_def split: option.splits)
  note code = scalar_code [OF r ok]
  have ne: "us_id r \<noteq> u"
  proof
    assume "us_id r = u"
    with code mine own(2) show False
      by (metis option.inject user_exists_def fetch_None_iff list.set_map)
  qed
  show ?thesis
  proof (cases "t_referrals s' = t_referrals s1 \<and> s' = s1")
    case False
    then have none: "filter (\<lambda>r. rf_referee_id r = Some u) (t_referrals s1) = []"
      and fresh: "i \<notin> rf_id ` set (t_referrals s1)"
      and s': "s' = s1\<lparr>t_referrals := t_referrals s1 @ [\<lparr>rf_id = i, rf_referrer_id = us_id r,
                rf_referee_id = Some u, rf_code = ?n, rf_created_at = now, rf_completed_at = None\<rparr>]\<rparr>"
      using ap r by (auto simp: repo_apply_referral_def insert_row_Inr_iff scalar_one_or_none_None split: if_splits)
    have co: "code_of v s' = code_of v s1" for v by (simp add: s' code_of_def)
    have "u \<notin> set (List.map_filter rf_referee_id (t_referrals s1))"
      using none by (auto simp: mem_map_filter filter_empty_conv)
    moreover have "codes_ok s'" using ok by (simp add: codes_ok_def co) (simp add: s')
    moreover have "map rf_id (t_referrals s') = map rf_id (t_referrals s1) @ [i]" by (simp add: s')
    ultimately have "invite_inv s'"
      using s1(1) ne code(1) fresh
      by (auto simp: invite_inv_def referral_ok_def co) (auto simp: s' map_filter_append map_filter_Cons List.map_filter_def)
    moreover have "facts s1 \<subseteq> facts s'" by (auto simp: facts_def co) (auto simp: s')
    ultimately show ?thesis using s1(2) by auto
  qed (use s1 in auto)
qed

lemma complete_row_fields [simp]:
  "rf_id (complete_row now u r) = rf_id r" "rf_referrer_id (complete_row now u r) = rf_referrer_id r"
  "rf_referee_id (complete_row now u r) = rf_referee_id r" "rf_code (complete_row now u r) = rf_code r"
  "rf_completed_at r = Some t \<Longrightarrow> rf_completed_at (complete_row now u r) = Some t"
  by (simp_all add: complete_row_def)

lemma complete_referral_inv:
  assumes "invite_inv s"
  shows "invite_inv (complete_referral now u s) \<and> facts s \<subseteq> facts (complete_referral now u s)"
proof -
  have co: "code_of v (complete_referral now u s) = code_of v s" for v by (simp add: complete_referral_def code_of_def)
  have mf: "List.map_filter rf_referee_id (map (complete_row now u) xs) = List.map_filter rf_referee_id xs" for xs
    by (simp add: List.map_filter_def comp_def filter_map)
  have "codes_ok (complete_referral now u s)" using assms by (simp add: invite_inv_def codes_ok_def co) (simp add: complete_referral_def)
  moreover have "facts s \<subseteq> facts (complete_referral now u s)"
  proof
    fix f assume "f \<in> facts s"
    then show "f \<in> facts (complete_referral now u s)"
      by (cases f) (simp_all add: facts_iff co, auto simp: complete_referral_def)
  qed
  ultimately show ?thesis using assms
    by (simp add: invite_inv_def referral_ok_def co) (simp add: complete_referral_def mf comp_def)
qed

lemma end_session_frame:
  "end_session cfg fid now u sid e off p s = Inr (c, s1) \<Longrightarrow> t_users s1 = t_users s \<and> t_referrals s1 = t_referrals s"
  by (erule end_session_Inr) simp

lemma invite_step_moves:
  assumes "invite_inv s" "invite_step x s = Inr s'"
  shows "invite_inv s' \<and> facts s \<subseteq> facts s'"
proof (cases x)
  case (GetMyReferral draws u)
  then obtain c where "get_or_create_code draws u s = Inr (c, s')"
    using assms(2) by (auto simp: get_my_referral_def Let_def split_beta)
  with assms(1) show ?thesis by (rule get_or_create_inv [rotated])
next
  case (ApplyReferral uni draws i now u code)
  then obtain y where "apply_referral uni draws i now u code s = Inr (y, s')"
    using assms(2) by (auto simp: post_apply_referral_def)
  with assms(1) show ?thesis by (rule apply_referral_inv [rotated])
next
  case (FinishSession cfg fid now u sid e off p)
  then obtain c s1 d where es: "end_session cfg fid now u sid e off p s = Inr (c, s1)"
    and s': "s' = complete_referral_if_eligible now u d s1"
    using assms(2) by (auto simp: post_end_session_def Let_def)
  have s1: "invite_inv s1" "facts s1 = facts s" using end_session_frame [OF es] invite_inv_cong [of s1 s] assms(1) by auto
  then show ?thesis using s' complete_referral_inv [OF s1(1), of now u]
    by (auto simp: complete_referral_if_eligible_def split: if_splits)
next
  case (GetShareCard draws u ct)
  then obtain y where "get_card_context draws u s = Inr (y, s')"
    using assms(2) by (auto simp: get_card_meta_def split: if_splits)
  from card_context_Inr [OF this] assms(1) show ?thesis by (rule get_or_create_inv)
next
  case (RecordShare i now u ct pf rc)
  then have "t_users s' = t_users s \<and> t_referrals s' = t_referrals s"
    using assms(2) by (auto simp: record_share_def repo_record_share_def Let_def split: if_splits)
  then show ?thesis using assms(1) invite_inv_cong [of s' s] by auto
qed

interpretation invites: monotone_machine invite_step invite_inv facts
  by unfold_locales (use invite_step_moves in blast)+

section \<open>Properties\<close>

lemma distinct_map_filter_unique:
  assumes "distinct (List.map_filter f xs)" "i < length xs" "j < length xs" "f (xs ! i) = Some y" "f (xs ! j) = Some y"
  shows "i = j"
  using assms
proof (induction xs arbitrary: i j)
  case (Cons x xs)
  have *: "y \<in> set (List.map_filter f xs)" if "k < length xs" "f (xs ! k) = Some y" for k
    using that by (auto simp: mem_map_filter)
  from Cons show ?case by (cases i; cases j) (auto simp: map_filter_Cons dest: * split: option.splits)
qed simp

text \<open>
  C21. Invitations never go back on themselves. Through any sequence of requests, in any order and
  whether they succeed or raise: two users never hold the same code; a user is invited at most
  once and never by themselves, and the invitation carries the code its sender still has; and
  nothing that was settled before (a code handed out, who invited whom, when the invitation was
  completed) is changed or lost.
\<close>

theorem invitations_settled:
  assumes "invite_inv s" "s' = run invite_step s ops"
  shows "(\<forall>u v c. code_of u s' = Some c \<longrightarrow> code_of v s' = Some c \<longrightarrow> u = v) \<and>
    (\<forall>i<length (t_referrals s'). \<forall>j<length (t_referrals s'). \<forall>e.
       rf_referee_id (t_referrals s' ! i) = Some e \<longrightarrow> rf_referee_id (t_referrals s' ! j) = Some e \<longrightarrow> i = j) \<and>
    (\<forall>r\<in>set (t_referrals s'). rf_referee_id r \<noteq> Some (rf_referrer_id r) \<and>
       code_of (rf_referrer_id r) s' = Some (rf_code r)) \<and>
    (\<forall>u c. code_of u s = Some c \<longrightarrow> code_of u s' = Some c) \<and>
    (\<forall>r\<in>set (t_referrals s). \<forall>e. rf_referee_id r = Some e \<longrightarrow>
       (\<exists>r'\<in>set (t_referrals s'). rf_referee_id r' = Some e \<and> rf_referrer_id r' = rf_referrer_id r \<and> rf_code r' = rf_code r) \<and>
       (\<forall>t. rf_completed_at r = Some t \<longrightarrow>
          (\<exists>r'\<in>set (t_referrals s'). rf_referee_id r' = Some e \<and> rf_completed_at r' = Some t)))"
proof -
  have inv: "invite_inv s'" and sub: "facts s \<subseteq> facts s'"
    using invites.run_inv [OF assms(1)] invites.run_rank [OF assms(1)] assms(2) by simp_all
  have once: "distinct (List.map_filter rf_referee_id (t_referrals s'))" using inv by (simp add: invite_inv_def)
  have kept: "f \<in> facts s \<Longrightarrow> f \<in> facts s'" for f using sub by blast
  show ?thesis
  proof (intro conjI ballI allI impI)
    fix r e assume "r \<in> set (t_referrals s)" "rf_referee_id r = Some e"
    then show "\<exists>r'\<in>set (t_referrals s'). rf_referee_id r' = Some e \<and> rf_referrer_id r' = rf_referrer_id r \<and> rf_code r' = rf_code r"
      using kept [of "InvitedBy e (rf_referrer_id r) (rf_code r)"] by (auto simp: facts_iff)
  next
    fix r e t assume "r \<in> set (t_referrals s)" "rf_referee_id r = Some e" "rf_completed_at r = Some t"
    then show "\<exists>r'\<in>set (t_referrals s'). rf_referee_id r' = Some e \<and> rf_completed_at r' = Some t"
      using kept [of "Converted e t"] by (auto simp: facts_iff)
  next
    fix u c assume "code_of u s = Some c"
    then show "code_of u s' = Some c" using kept [of "HasCode u c"] by (simp add: facts_iff)
  qed (use inv once in \<open>auto simp: invite_inv_def codes_ok_def referral_ok_def dest: distinct_map_filter_unique\<close>)
qed

definition demo_invited :: sess where
  "demo_invited = empty_sess\<lparr>t_users := [(demo_user 1)\<lparr>us_referral_code := Some (ascii ''AAAAAA'')\<rparr>, demo_user 2],
     t_referrals := [\<lparr>rf_id = 5, rf_referrer_id = 1, rf_referee_id = Some 2, rf_code = ascii ''AAAAAA'',
       rf_created_at = t0, rf_completed_at = None\<rparr>]\<rparr>"

lemma demo_invited_inv: "invite_inv demo_invited"
  by (auto simp: invite_inv_def demo_invited_def codes_ok_def referral_ok_def code_of_def empty_sess_def
      List.map_filter_def demo_user_def split: if_splits)

lemma invitations_settled_witness:
  "\<exists>r'\<in>set (t_referrals (run invite_step demo_invited
      [GetMyReferral (\<lambda>_ k. k) 2, ApplyReferral (\<lambda>c. [c]) (\<lambda>_ k. k) 6 t0 2 (ascii ''abcdef'')])).
    rf_referee_id r' = Some 2 \<and> rf_referrer_id r' = 1 \<and> rf_code r' = ascii ''AAAAAA''"
  using invitations_settled [OF demo_invited_inv refl, of
      "[GetMyReferral (\<lambda>_ k. k) 2, ApplyReferral (\<lambda>c. [c]) (\<lambda>_ k. k) 6 t0 2 (ascii ''abcdef'')]"]
  by (simp add: demo_invited_def)

text \<open>Ending a session of a minute or more completes the open invitation of the reader, and only that one.\<close>

lemma post_end_session_referrals:
  assumes "post_end_session cfg fid now u sid e off p s = Inr (c, s')"
  shows "t_referrals s' = (if 60 \<le> (case rs_duration_sec (cp_session c) of None \<Rightarrow> 0 | Some d \<Rightarrow> d)
      then map (complete_row now u) (t_referrals s) else t_referrals s)"
proof -
  obtain s1 where es: "end_session cfg fid now u sid e off p s = Inr (c, s1)"
    and s': "s' = complete_referral_if_eligible now u (case rs_duration_sec (cp_session c) of None \<Rightarrow> 0 | Some d \<Rightarrow> d) s1"
    using assms by (auto simp: post_end_session_def Let_def)
  show ?thesis using end_session_frame [OF es]
    by (auto simp: s' complete_referral_if_eligible_def MIN_ELIGIBLE_DURATION_SEC_def complete_referral_def)
qed

text \<open>Every template has its texts, so the lookup never fails.\<close>

lemma card_meta_Inl:
  "get_card_meta draws u ct s = Inl err \<Longrightarrow>
    err = DomainError NotFoundError ''CARD_TYPE_NOT_FOUND'' \<or> err = DomainError NotFoundError ''USER_NOT_FOUND'' \<or> err = RuntimeError"
proof -
  have t: "try_codes draws u i n s = Inl e \<Longrightarrow> e = RuntimeError" for i n e
    by (induction n arbitrary: i) (auto simp: Let_def split: if_splits)
  have c: "ct \<in> set VALID_CARD_TYPES \<Longrightarrow> \<exists>p. map_of CARD_COPY ct = Some p"
    by (auto simp: VALID_CARD_TYPES_def CARD_COPY_def)
  assume "get_card_meta draws u ct s = Inl err"
  then show ?thesis using c
    by (auto simp: get_card_meta_def get_card_context_def get_or_create_code_def bindE_Inl_iff
        dest: t split: if_splits option.splits)
qed

lemma count_buckets: "count (mset (map g xs)) b = length (filter (\<lambda>e. g e = b) xs)"
  by (induction xs) auto

text \<open>The buckets of the statistics add up to the number of shares.\<close>

lemma share_stats_total: "fst (get_share_stats s) = length (t_share_events s)"
proof -
  let ?n = "\<lambda>b. length (filter (\<lambda>e. share_bucket e = b) (t_share_events s))"
  have "mset (map snd (repo_share_stats s)) = mset (map ?n (remdups (map share_bucket (t_share_events s))))"
  proof -
    have perm: "mset (map snd (order_desc f xs)) = mset (map snd xs)" for f and xs :: "((string \<times> string option) \<times> nat) list"
      by (simp add: order_desc_def)
    show ?thesis unfolding repo_share_stats_def perm by (simp add: comp_def)
  qed
  then have "sum_list (map snd (repo_share_stats s)) = sum_list (map ?n (remdups (map share_bucket (t_share_events s))))"
    by (metis sum_mset_sum_list)
  also have "\<dots> = (\<Sum>b\<in>set_mset (mset (map share_bucket (t_share_events s))). count (mset (map share_bucket (t_share_events s))) b)"
    by (simp only: sum_list_distinct_conv_sum_set [OF distinct_remdups] count_buckets set_mset_mset set_remdups)
  also have "\<dots> = size (mset (map share_bucket (t_share_events s)))"
    by (rule size_multiset_overloaded_eq [symmetric])
  finally have "sum_list (map snd (repo_share_stats s)) = length (t_share_events s)" by simp
  then show ?thesis by (simp add: get_share_stats_def Let_def)
qed

end
