(* ===== verification/Teams.thy ===== *)
theory Teams
  imports Subscription
begin

text \<open>
  Team plans: \<open>TeamRepository\<close>, \<open>TeamService\<close>, its adapter onto the subscription repository and
  the four endpoints of \<open>backend/app/domains/team\<close>.
\<close>

section \<open>Repository\<close>

definition repo_create_team ::
    "uuid \<Rightarrow> datetime \<Rightarrow> pystr \<Rightarrow> uuid \<Rightarrow> int \<Rightarrow> string \<Rightarrow> datetime \<Rightarrow> datetime \<Rightarrow> sess \<Rightarrow> team outcome" where
  "repo_create_team new_id now team_name admin_user_id seat_count plan_type valid_from valid_until s =
     (let row = \<lparr>tm_id = new_id, tm_team_name = team_name, tm_admin_user_id = admin_user_id,
                 tm_seat_count = seat_count, tm_plan_type = plan_type, tm_valid_from = valid_from,
                 tm_valid_until = valid_until, tm_created_at = now\<rparr>
      in if 128 < length team_name \<or> \<not> int4 seat_count \<or> 32 < length plan_type then Inl DataError
         else bindE (insert_row tm_id (user_exists admin_user_id s) row (t_teams s)) (\<lambda>rows.
           Inr (row, s\<lparr>t_teams := rows\<rparr>)))"

definition team_by_id :: "uuid \<Rightarrow> sess \<Rightarrow> team option" where
  "team_by_id team_id s = fetch tm_id team_id (t_teams s)"

definition repo_add_team_member :: "uuid \<Rightarrow> datetime \<Rightarrow> uuid \<Rightarrow> uuid \<Rightarrow> sess \<Rightarrow> unit outcome" where
  "repo_add_team_member new_id now team_id user_id s =
     bindE (insert_row tb_id
         (team_by_id team_id s \<noteq> None \<and> user_exists user_id s
           \<and> fetch tb_key (team_id, user_id) (t_team_members s) = None)
         \<lparr>tb_id = new_id, tb_team_id = team_id, tb_user_id = user_id, tb_joined_at = now\<rparr> (t_team_members s)) (\<lambda>rows.
       Inr ((), s\<lparr>t_team_members := rows\<rparr>))"

definition repo_remove_team_member :: "uuid \<Rightarrow> uuid \<Rightarrow> sess \<Rightarrow> sess" where
  "repo_remove_team_member team_id user_id s =
     s\<lparr>t_team_members := discard (\<lambda>r. tb_key r = (team_id, user_id)) (t_team_members s)\<rparr>"

definition is_team_member :: "uuid \<Rightarrow> uuid \<Rightarrow> sess \<Rightarrow> bool" where
  "is_team_member team_id user_id s \<longleftrightarrow> list_ex (\<lambda>r. tb_team_id r = team_id \<and> tb_user_id r = user_id) (t_team_members s)"

definition count_team_members :: "uuid \<Rightarrow> sess \<Rightarrow> int" where
  "count_team_members team_id s = int (length (filter (\<lambda>r. tb_team_id r = team_id) (t_team_members s)))"

record team_member_info =
  ti_user_id :: uuid
  ti_nickname :: pystr
  ti_profile_image_url :: "pystr option"
  ti_joined_at :: datetime

definition list_team_members :: "uuid \<Rightarrow> sess \<Rightarrow> team_member_info list" where
  "list_team_members team_id s =
     List.map_filter
       (\<lambda>r. map_option (\<lambda>u. \<lparr>ti_user_id = tb_user_id r, ti_nickname = us_nickname u,
                              ti_profile_image_url = us_profile_image_url u, ti_joined_at = tb_joined_at r\<rparr>)
              (fetch us_id (tb_user_id r) (t_users s)))
       (order_asc tb_joined_at (filter (\<lambda>r. tb_team_id r = team_id) (t_team_members s)))"

section \<open>The Pro entitlement of a seat\<close>

definition TEAM_PLAN_PRODUCT_ID :: string where
  "TEAM_PLAN_PRODUCT_ID = ''annual_team''"

definition grant_pro :: "uuid \<Rightarrow> datetime \<Rightarrow> string \<Rightarrow> sess \<Rightarrow> sess" where
  "grant_pro user_id expires_at product_id s =
     update_subscription user_id True (Some expires_at) (Some product_id) s"

definition revoke_pro :: "uuid \<Rightarrow> sess \<Rightarrow> sess" where
  "revoke_pro user_id s = update_subscription user_id False None None s"

section \<open>Service\<close>

text \<open>
  \<open>_add_months\<close>: the day is clamped to the target month; a year past 9999 is a \<open>ValueError\<close> of
  \<open>datetime.replace\<close>.
\<close>

definition add_months :: "datetime \<Rightarrow> int \<Rightarrow> datetime result" where
  "add_months dt months =
     (let d = utc_date dt;
          zero_based = month_of d - 1 + months;
          year = year_of d + zero_based div 12;
          month = zero_based mod 12 + 1;
          day = min (day_of d) (days_in_month year month)
      in bindE (mk_date year month day) (\<lambda>n. Inr (midnight n + dt mod day_us)))"

record team_response =
  tr_team :: team
  tr_used_seats :: nat
  tr_members :: "team_member_info list"

definition team_response_of :: "team \<Rightarrow> sess \<Rightarrow> team_response" where
  "team_response_of team s =
     (let members = list_team_members (tm_id team) s
      in \<lparr>tr_team = team, tr_used_seats = length members, tr_members = members\<rparr>)"

definition require_team_admin :: "uuid \<Rightarrow> uuid \<Rightarrow> sess \<Rightarrow> team result" where
  "require_team_admin team_id admin_user_id s =
     bindE (required (DomainError NotFoundError ''TEAM_NOT_FOUND'') (team_by_id team_id s)) (\<lambda>team.
     bindE (guardE (tm_admin_user_id team = admin_user_id)
       (DomainError PermissionDeniedError ''PERMISSION_DENIED'')) (\<lambda>_.
     Inr team))"

definition create_team ::
    "uuid \<Rightarrow> uuid \<Rightarrow> datetime \<Rightarrow> uuid \<Rightarrow> pystr \<Rightarrow> int \<Rightarrow> int \<Rightarrow> sess \<Rightarrow> team_response outcome" where
  "create_team new_id seat_id now admin_user_id team_name seat_count valid_months s =
     bindE (add_months now valid_months) (\<lambda>valid_until.
     bindE (repo_create_team new_id now team_name admin_user_id seat_count TEAM_PLAN_PRODUCT_ID now valid_until s) (\<lambda>(team, s1).
     bindE (repo_add_team_member seat_id now (tm_id team) admin_user_id s1) (\<lambda>(_, s2).
     let s3 = grant_pro admin_user_id valid_until TEAM_PLAN_PRODUCT_ID s2
     in Inr (team_response_of team s3, s3))))"

definition add_team_member :: "uuid \<Rightarrow> datetime \<Rightarrow> uuid \<Rightarrow> uuid \<Rightarrow> uuid \<Rightarrow> sess \<Rightarrow> team_response outcome" where
  "add_team_member new_id now team_id admin_user_id user_id s =
     bindE (require_team_admin team_id admin_user_id s) (\<lambda>team.
       if is_team_member team_id user_id s then Inl (DomainError ConflictError ''ALREADY_MEMBER'')
       else if tm_seat_count team \<le> count_team_members team_id s
       then Inl (DomainError ConflictError ''SEAT_LIMIT_EXCEEDED'')
       else bindE (repo_add_team_member new_id now team_id user_id s) (\<lambda>(_, s1).
         let s2 = grant_pro user_id (tm_valid_until team) TEAM_PLAN_PRODUCT_ID s1
         in Inr (team_response_of team s2, s2)))"

definition remove_team_member :: "uuid \<Rightarrow> uuid \<Rightarrow> uuid \<Rightarrow> sess \<Rightarrow> team_response outcome" where
  "remove_team_member team_id admin_user_id user_id s =
     bindE (require_team_admin team_id admin_user_id s) (\<lambda>team.
       if user_id = tm_admin_user_id team then Inl (DomainError ConflictError ''CANNOT_REMOVE_ADMIN'')
       else if \<not> is_team_member team_id user_id s then Inl (DomainError NotFoundError ''MEMBER_NOT_FOUND'')
       else let s1 = revoke_pro user_id (repo_remove_team_member team_id user_id s)
            in Inr (team_response_of team s1, s1))"

definition get_team :: "uuid \<Rightarrow> uuid \<Rightarrow> sess \<Rightarrow> team_response result" where
  "get_team team_id user_id s =
     bindE (required (DomainError NotFoundError ''TEAM_NOT_FOUND'') (team_by_id team_id s)) (\<lambda>team.
       if tm_admin_user_id team \<noteq> user_id \<and> \<not> is_team_member team_id user_id s
       then Inl (DomainError PermissionDeniedError ''PERMISSION_DENIED'')
       else Inr (team_response_of team s))"

text \<open>\<open>POST /teams\<close>: the bounds of the request model come first.\<close>

definition post_create_team ::
    "uuid \<Rightarrow> uuid \<Rightarrow> datetime \<Rightarrow> uuid \<Rightarrow> pystr \<Rightarrow> int \<Rightarrow> int \<Rightarrow> sess \<Rightarrow> team_response outcome" where
  "post_create_team new_id seat_id now user_id team_name seat_count valid_months s =
     bindE (guardE (1 \<le> length team_name \<and> length team_name \<le> 128 \<and> 1 \<le> seat_count \<and> seat_count \<le> 500
         \<and> 1 \<le> valid_months \<and> valid_months \<le> 36) ValueError) (\<lambda>_.
       create_team new_id seat_id now user_id team_name seat_count valid_months s)"

end
