(* ===== verification/TeamProps.thy ===== *)
theory TeamProps
  imports Teams ReadingMachine Demo
begin

text \<open>
  The team requests refine an abstract roster: a finite set of seated users under a cap, with the
  admin always in it. The window of a contract is calendar arithmetic.
\<close>

section \<open>The abstract roster\<close>

type_synonym roster = "uuid \<rightharpoonup> uuid \<times> int \<times> uuid set"

inductive roster_move :: "roster \<Rightarrow> roster \<Rightarrow> bool" where
  Stay: "roster_move a a"
| Found: "a t = None \<Longrightarrow> 1 \<le> cap \<Longrightarrow> roster_move a (a(t \<mapsto> (adm, cap, {adm})))"
| Seat: "a t = Some (adm, cap, M) \<Longrightarrow> u \<notin> M \<Longrightarrow> int (card M) < cap \<Longrightarrow> roster_move a (a(t \<mapsto> (adm, cap, insert u M)))"
| Unseat: "a t = Some (adm, cap, M) \<Longrightarrow> u \<in> M \<Longrightarrow> u \<noteq> adm \<Longrightarrow> roster_move a (a(t \<mapsto> (adm, cap, M - {u})))"

definition roster_ok :: "roster \<Rightarrow> bool" where
  "roster_ok a \<longleftrightarrow> (\<forall>t adm cap M. a t = Some (adm, cap, M) \<longrightarrow> finite M \<and> adm \<in> M \<and> int (card M) \<le> cap)"

lemma roster_move_ok: "roster_ok a \<Longrightarrow> roster_move a b \<Longrightarrow> roster_ok b"
  by (erule roster_move.cases) (auto simp: roster_ok_def card_insert_if card_Diff_singleton_if split: if_splits, fastforce+)

section \<open>The requests\<close>

datatype team_op =
    CreateTeam uuid uuid datetime uuid pystr int int
  | AddTeamMember uuid datetime uuid uuid uuid
  | RemoveTeamMember uuid uuid uuid

fun team_step :: "team_op \<Rightarrow> sess \<Rightarrow> error + sess" where
  "team_step (CreateTeam i j now u nm seats months) s = ret (post_create_team i j now u nm seats months s)"
| "team_step (AddTeamMember i now t adm u) s = ret (add_team_member i now t adm u s)"
| "team_step (RemoveTeamMember t adm u) s = ret (remove_team_member t adm u s)"

definition seated :: "uuid \<Rightarrow> sess \<Rightarrow> uuid set" where
  "seated t s = tb_user_id ` set (filter (\<lambda>r. tb_team_id r = t) (t_team_members s))"

definition roster_of :: "sess \<Rightarrow> roster" where
  "roster_of s t = map_option (\<lambda>tm. (tm_admin_user_id tm, tm_seat_count tm, seated t s)) (team_by_id t s)"

definition team_inv :: "sess \<Rightarrow> bool" where
  "team_inv s \<longleftrightarrow> distinct (map tm_id (t_teams s)) \<and> distinct (map tb_key (t_team_members s)) \<and>
     (\<forall>r\<in>set (t_team_members s). team_by_id (tb_team_id r) s \<noteq> None)"

lemma pro_frame [simp]:
  "t_teams (grant_pro u e p s) = t_teams s" "t_team_members (grant_pro u e p s) = t_team_members s"
  "t_teams (revoke_pro u s) = t_teams s" "t_team_members (revoke_pro u s) = t_team_members s"
  by (simp_all add: grant_pro_def revoke_pro_def update_subscription_def)

lemma is_member_seated: "is_team_member t u s \<longleftrightarrow> u \<in> seated t s"
  by (auto simp: is_team_member_def list_ex_iff seated_def)

lemma count_seated:
  assumes "distinct (map tb_key (t_team_members s))"
  shows "count_team_members t s = int (card (seated t s))"
proof -
  have "distinct (map tb_user_id (filter (\<lambda>r. tb_team_id r = t) rows))" if "distinct (map tb_key rows)" for rows
    using that by (induction rows) (auto simp: tb_key_def image_iff)
  then have "card (set (map tb_user_id (filter (\<lambda>r. tb_team_id r = t) (t_team_members s)))) =
      length (filter (\<lambda>r. tb_team_id r = t) (t_team_members s))"
    using assms by (metis distinct_card length_map)
  moreover have "set (map tb_user_id (filter (\<lambda>r. tb_team_id r = t) (t_team_members s))) = seated t s"
    by (auto simp: seated_def)
  ultimately show ?thesis by (simp add: count_team_members_def)
qed

lemma require_admin_Inr:
  "require_team_admin t adm s = Inr tm \<longleftrightarrow> team_by_id t s = Some tm \<and> tm_admin_user_id tm = adm"
  by (auto simp: require_team_admin_def)

lemma repo_add_Inr:
  assumes "repo_add_team_member i now t u s = Inr (x, s')"
  shows "team_by_id t s \<noteq> None" "(t, u) \<notin> tb_key ` set (t_team_members s)"
    "s' = s\<lparr>t_team_members := t_team_members s @ [\<lparr>tb_id = i, tb_team_id = t, tb_user_id = u, tb_joined_at = now\<rparr>]\<rparr>"
  using assms by (auto simp: repo_add_team_member_def insert_row_Inr_iff simp flip: fetch_None_iff)

lemma repo_add_effect:
  assumes "repo_add_team_member i now t u s = Inr (x, s1)" "team_inv s" "t_teams s' = t_teams s"
    "t_team_members s' = t_team_members s1"
  shows "team_inv s' \<and> seated v s' = (if v = t then insert u (seated t s) else seated v s)"
  using repo_add_Inr [OF assms(1)] assms(2-4)
  by (auto simp: team_inv_def seated_def team_by_id_def tb_key_def)

lemma create_team_move:
  assumes "team_inv s" "post_create_team i j now u nm seats months s = Inr (x, s')"
  shows "team_inv s' \<and> roster_move (roster_of s) (roster_of s')"
proof -
  obtain e tm s1 s2 where cap: "1 \<le> seats"
    and c: "repo_create_team i now nm u seats TEAM_PLAN_PRODUCT_ID now e s = Inr (tm, s1)"
    and m: "repo_add_team_member j now (tm_id tm) u s1 = Inr ((), s2)"
    and s': "s' = grant_pro u e TEAM_PLAN_PRODUCT_ID s2"
    using assms(2) by (auto simp: post_create_team_def create_team_def Let_def)
  from c have fresh: "i \<notin> tm_id ` set (t_teams s)" and s1: "s1 = s\<lparr>t_teams := t_teams s @ [tm]\<rparr>"
    and tm: "tm_id tm = i" "tm_admin_user_id tm = u" "tm_seat_count tm = seats"
    by (auto simp: repo_create_team_def Let_def insert_row_Inr_iff split: if_splits)
  have none: "team_by_id i s = None" using fresh by (simp add: team_by_id_def fetch_None_iff)
  have by_id: "team_by_id v s1 = (if v = i then Some tm else team_by_id v s)" for v
    using none tm fetch_snoc [of tm_id tm "t_teams s" v] by (simp add: s1 team_by_id_def)
  have "team_inv s1" using assms(1) fresh none by (auto simp: team_inv_def by_id) (simp_all add: s1 tm)
  have empty: "seated i s = {}" using assms(1) none by (auto simp: seated_def team_inv_def)
  have tt: "t_teams s' = t_teams s1" "t_team_members s' = t_team_members s2"
    using repo_add_Inr(3) [OF m] by (simp_all add: s')
  note eff = repo_add_effect [OF m \<open>team_inv s1\<close> tt]
  have "roster_of s' = (roster_of s)(i \<mapsto> (u, seats, {u}))"
  proof
    fix v
    have "team_by_id v s' = (if v = i then Some tm else team_by_id v s)" using by_id [of v] tt(1) by (simp add: team_by_id_def)
    moreover have "seated v s1 = seated v s" by (simp add: s1 seated_def)
    ultimately show "roster_of s' v = ((roster_of s)(i \<mapsto> (u, seats, {u}))) v"
      using eff [of v] empty tm by (auto simp: roster_of_def)
  qed
  moreover have "roster_of s i = None" by (simp add: roster_of_def none)
  ultimately show ?thesis using eff Found [of "roster_of s" i seats u] cap by simp
qed

lemma add_member_move:
  assumes "team_inv s" "add_team_member i now t adm u s = Inr (x, s')"
  shows "team_inv s' \<and> roster_move (roster_of s) (roster_of s')"
proof -
  obtain tm s1 where tm: "team_by_id t s = Some tm" and room: "\<not> tm_seat_count tm \<le> count_team_members t s"
    and nm: "\<not> is_team_member t u s" and r: "repo_add_team_member i now t u s = Inr ((), s1)"
    and s': "s' = grant_pro u (tm_valid_until tm) TEAM_PLAN_PRODUCT_ID s1"
    using assms(2) by (auto simp: add_team_member_def require_admin_Inr Let_def split: if_splits)
  have tt: "t_teams s' = t_teams s" "t_team_members s' = t_team_members s1"
    using repo_add_Inr(3) [OF r] by (simp_all add: s')
  note eff = repo_add_effect [OF r assms(1) tt]
  have "roster_of s' = (roster_of s)(t \<mapsto> (tm_admin_user_id tm, tm_seat_count tm, insert u (seated t s)))"
    using eff tm tt(1) by (auto simp: roster_of_def team_by_id_def fun_eq_iff)
  moreover have "roster_of s t = Some (tm_admin_user_id tm, tm_seat_count tm, seated t s)"
    by (simp add: roster_of_def tm)
  moreover have "int (card (seated t s)) < tm_seat_count tm"
    using room count_seated assms(1) by (simp add: team_inv_def)
  ultimately show ?thesis using eff Seat nm by (simp add: is_member_seated)
qed

lemma remove_member_move:
  assumes "team_inv s" "remove_team_member t adm u s = Inr (x, s')"
  shows "team_inv s' \<and> roster_move (roster_of s) (roster_of s')"
proof -
  obtain tm where tm: "team_by_id t s = Some tm" and adm: "u \<noteq> tm_admin_user_id tm"
    and m: "is_team_member t u s" and s': "s' = revoke_pro u (repo_remove_team_member t u s)"
    using assms(2) by (auto simp: remove_team_member_def require_admin_Inr Let_def split: if_splits)
  have tt: "t_teams s' = t_teams s" "t_team_members s' = discard (\<lambda>r. tb_key r = (t, u)) (t_team_members s)"
    by (simp_all add: s' repo_remove_team_member_def)
  have "team_inv s'" using assms(1) by (auto simp: team_inv_def tt team_by_id_def distinct_map_discard)
  have "seated v s' = (if v = t then seated t s - {u} else seated v s)" for v
    by (auto simp: seated_def tt tb_key_def)
  then have "roster_of s' = (roster_of s)(t \<mapsto> (tm_admin_user_id tm, tm_seat_count tm, seated t s - {u}))"
    using tm by (auto simp: roster_of_def team_by_id_def tt(1) fun_eq_iff)
  moreover have "roster_of s t = Some (tm_admin_user_id tm, tm_seat_count tm, seated t s)"
    by (simp add: roster_of_def tm)
  ultimately show ?thesis using Unseat adm m \<open>team_inv s'\<close> by (simp add: is_member_seated)
qed

lemma team_step_move:
  assumes "team_inv s" "team_step x s = Inr s'"
  shows "team_inv s' \<and> roster_move (roster_of s) (roster_of s')"
proof (cases x)
  case (CreateTeam i j now u nm seats months)
  then obtain y where "post_create_team i j now u nm seats months s = Inr (y, s')" using assms(2) by auto
  from create_team_move [OF assms(1) this] show ?thesis .
next
  case (AddTeamMember i now t adm u)
  then obtain y where "add_team_member i now t adm u s = Inr (y, s')" using assms(2) by auto
  from add_member_move [OF assms(1) this] show ?thesis .
next
  case (RemoveTeamMember t adm u)
  then obtain y where "remove_team_member t adm u s = Inr (y, s')" using assms(2) by auto
  from remove_member_move [OF assms(1) this] show ?thesis .
qed

interpretation team_refines: refinement team_step team_inv roster_of roster_move
  by unfold_locales (use team_step_move in blast)+

text \<open>
  C18. The team endpoints refine a roster of seats: every sequence of requests is, seen through
  \<open>roster_of\<close>, a sequence of foundings, seatings under the cap and unseatings of anyone but the
  admin. So no team is ever over its seat count or without its admin, whoever calls and in
  whatever order.
\<close>

theorem teams_refine_roster:
  assumes "team_inv s" "s' = run team_step s ops"
  shows "roster_move\<^sup>*\<^sup>* (roster_of s) (roster_of s') \<and>
    (roster_ok (roster_of s) \<longrightarrow>
       (\<forall>t tm. team_by_id t s' = Some tm \<longrightarrow> is_team_member t (tm_admin_user_id tm) s' \<and>
          count_team_members t s' \<le> tm_seat_count tm))"
proof (intro conjI impI allI)
  show "roster_move\<^sup>*\<^sup>* (roster_of s) (roster_of s')" using team_refines.run_moves [OF assms(1)] assms(2) by simp
  fix t tm assume "roster_ok (roster_of s)" and tm: "team_by_id t s' = Some tm"
  then have "roster_ok (roster_of s')"
    using team_refines.run_keeps [of roster_ok, OF roster_move_ok assms(1)] assms(2) by simp
  moreover have "roster_of s' t = Some (tm_admin_user_id tm, tm_seat_count tm, seated t s')"
    using tm by (simp add: roster_of_def)
  ultimately have "tm_admin_user_id tm \<in> seated t s'" "int (card (seated t s')) \<le> tm_seat_count tm"
    unfolding roster_ok_def by blast+
  moreover have "team_inv s'" using team_refines.run_inv [OF assms(1)] assms(2) by simp
  ultimately show "is_team_member t (tm_admin_user_id tm) s'" "count_team_members t s' \<le> tm_seat_count tm"
    by (simp_all add: is_member_seated count_seated team_inv_def)
qed

definition demo_team :: team where
  "demo_team = \<lparr>tm_id = 400, tm_team_name = ascii ''Crew'', tm_admin_user_id = 1, tm_seat_count = 2,
     tm_plan_type = ''annual_team'', tm_valid_from = t0, tm_valid_until = t0 + 1, tm_created_at = t0\<rparr>"

definition demo_teams :: sess where
  "demo_teams = demo\<lparr>t_teams := [demo_team],
     t_team_members := [\<lparr>tb_id = 401, tb_team_id = 400, tb_user_id = 1, tb_joined_at = t0\<rparr>]\<rparr>"

lemma demo_teams_inv: "team_inv demo_teams" "roster_ok (roster_of demo_teams)"
  by (auto simp: team_inv_def roster_ok_def roster_of_def seated_def team_by_id_def demo_teams_def demo_team_def split: if_splits)

lemma teams_refine_roster_witness:
  "roster_move\<^sup>*\<^sup>* (roster_of demo_teams)
     (roster_of (run team_step demo_teams [AddTeamMember 402 t0 400 1 2, AddTeamMember 403 t0 400 1 3]))"
  using teams_refine_roster [OF demo_teams_inv(1) refl, of "[AddTeamMember 402 t0 400 1 2, AddTeamMember 403 t0 400 1 3]"]
  by (rule conjunct1)

section \<open>The contract window\<close>

lemma utc_date_plus: "0 \<le> r \<Longrightarrow> r < day_us \<Longrightarrow> utc_date (midnight n + r) = n"
  by (simp add: utc_date_def midnight_def day_us_def)

lemma midnight_mod: "0 \<le> r \<Longrightarrow> r < day_us \<Longrightarrow> (midnight n + r) mod day_us = r"
  by (simp add: midnight_def)

text \<open>
  Adding months moves the calendar month by exactly that many, keeps the time of day, and keeps the
  day of the month unless the target month is shorter, when it is that month's last day.
\<close>

theorem add_months_calendar:
  assumes "add_months dt k = Inr t"
  shows "12 * year_of (utc_date t) + month_of (utc_date t) = 12 * year_of (utc_date dt) + month_of (utc_date dt) + k \<and>
    day_of (utc_date t) = min (day_of (utc_date dt)) (days_in_month (year_of (utc_date t)) (month_of (utc_date t))) \<and>
    t mod day_us = dt mod day_us"
proof -
  define z where "z = month_of (utc_date dt) - 1 + k"
  define y where "y = year_of (utc_date dt) + z div 12"
  define d where "d = min (day_of (utc_date dt)) (days_in_month y (z mod 12 + 1))"
  have mk: "mk_date y (z mod 12 + 1) d = Inr (ymd2ord y (z mod 12 + 1) d)"
    and t: "t = midnight (ymd2ord y (z mod 12 + 1) d) + dt mod day_us"
    and r: "1 \<le> z mod 12 + 1" "z mod 12 + 1 \<le> 12" "1 \<le> d" "d \<le> days_in_month y (z mod 12 + 1)"
    using assms by (auto simp: add_months_def Let_def mk_date_def z_def y_def d_def split: if_splits)
  have u: "utc_date t = ymd2ord y (z mod 12 + 1) d"
    unfolding t by (rule utc_date_plus) (simp_all add: day_us_def)
  note c = ymd_in_year [OF r] month_of_ymd [OF r] day_of_ymd [OF r]
  have "t mod day_us = dt mod day_us" unfolding t by (rule midnight_mod) (simp_all add: day_us_def)
  moreover have "12 * y + (z mod 12 + 1) = 12 * year_of (utc_date dt) + month_of (utc_date dt) + k"
    using mult_div_mod_eq [of 12 z] by (simp add: y_def z_def algebra_simps)
  ultimately show ?thesis unfolding u c by (simp add: d_def)
qed

lemma add_months_calendar_witness:
  "\<exists>t. add_months (midnight (ymd2ord 2024 1 31)) 1 = Inr t \<and> day_of (utc_date t) = 29 \<and> month_of (utc_date t) = 2"
proof -
  have t: "add_months (midnight (ymd2ord 2024 1 31)) 1 = Inr (midnight (ymd2ord 2024 2 29))" by code_simp
  have d: "day_of (ymd2ord 2024 1 31) = 31" "month_of (ymd2ord 2024 2 29) = 2" "year_of (ymd2ord 2024 2 29) = 2024"
    by (rule day_of_ymd month_of_ymd ymd_in_year; simp add: days_in_month_def is_leap_def)+
  show ?thesis using t d add_months_calendar [OF t] by (simp add: days_in_month_def is_leap_def)
qed

end
