(* ===== verification/Reviews.thy ===== *)
theory Reviews
  imports FeedService PyNum
begin

text \<open>
  Book reviews: the repository, the service with its book and feed adapters, the request models
  and the router of \<open>backend/app/domains/review\<close>. A rating is a float on the wire (its rational
  value) and a \<open>Numeric(2, 1)\<close>, a number of tenths, in the table.
\<close>

section \<open>Ratings\<close>

text \<open>\<open>_validate_rating\<close>: both multiplications are exact on a float.\<close>

definition validate_rating :: "rat \<Rightarrow> rat result" where
  "validate_rating value =
     (if value < 1 \<or> 5 < value then Inl ValueError
      else if frac (value * 2) \<noteq> 0 then Inl ValueError
      else Inr value)"

definition REVIEW_MAX_BODY :: nat where
  "REVIEW_MAX_BODY = 500"

text \<open>
  The column rounds half away from zero and holds two digits. \<open>Decimal(str(rating))\<close> is exact on
  the half stars the request model lets through.
\<close>

definition numeric21 :: "rat \<Rightarrow> int result" where
  "numeric21 r =
     (let n = (if 0 \<le> r then \<lfloor>10 * r + 1/2\<rfloor> else - \<lfloor>1/2 - 10 * r\<rfloor>)
      in if \<bar>n\<bar> < 100 then Inr n else Inl DataError)"

definition rating_allowed :: "int \<Rightarrow> bool" where
  "rating_allowed n \<longleftrightarrow> 10 \<le> n \<and> n \<le> 50"

text \<open>\<open>float(rating)\<close>, and the key \<open>f"{float(rating):.1f}"\<close> of a rating of one digit before the point.\<close>

definition rating_float :: "int \<Rightarrow> rat" where
  "rating_float n = fl (of_int n / 10)"

definition rating_key :: "int \<Rightarrow> string" where
  "rating_key n = map (\<lambda>d. char_of (48 + nat d)) [n div 10] @ ''.'' @ map (\<lambda>d. char_of (48 + nat d)) [n mod 10]"

section \<open>Repository\<close>

definition REVIEW_EXISTS :: error where "REVIEW_EXISTS = DomainError ConflictError ''REVIEW_ALREADY_EXISTS''"
definition REVIEW_MISSING :: error where "REVIEW_MISSING = DomainError NotFoundError ''REVIEW_NOT_FOUND''"

text \<open>Any integrity error of the insert (a second review, an unknown book) is reported as a duplicate.\<close>

definition repo_create_review :: "uuid \<Rightarrow> datetime \<Rightarrow> uuid \<Rightarrow> uuid \<Rightarrow> rat \<Rightarrow> pystr option \<Rightarrow> sess \<Rightarrow> book_review outcome" where
  "repo_create_review new_id now user_id book_id rating body s =
     bindE (numeric21 rating) (\<lambda>n.
       let row = \<lparr>rv_id = new_id, rv_user_id = user_id, rv_book_id = book_id, rv_rating = n, rv_body = body,
                  rv_report_count = 0, rv_hidden_at = None, rv_created_at = now, rv_updated_at = now\<rparr>;
           ok = (user_exists user_id s \<and> book_exists book_id s \<and> rating_allowed n
                 \<and> fetch rv_key (user_id, book_id) (t_book_reviews s) = None)
       in case insert_row rv_id ok row (t_book_reviews s) of
            Inl _ \<Rightarrow> Inl REVIEW_EXISTS
          | Inr rows \<Rightarrow> Inr (row, s\<lparr>t_book_reviews := rows\<rparr>))"

definition review_by_id :: "uuid \<Rightarrow> sess \<Rightarrow> book_review option" where
  "review_by_id review_id s = fetch rv_id review_id (t_book_reviews s)"

definition review_by_user_book :: "uuid \<Rightarrow> uuid \<Rightarrow> sess \<Rightarrow> book_review option result" where
  "review_by_user_book user_id book_id s =
     scalar_one_or_none (filter (\<lambda>r. rv_user_id r = user_id \<and> rv_book_id r = book_id) (t_book_reviews s))"

definition store_review :: "book_review \<Rightarrow> sess \<Rightarrow> sess" where
  "store_review row s = s\<lparr>t_book_reviews := amend rv_id (rv_id row) (\<lambda>_. row) (t_book_reviews s)\<rparr>"

text \<open>\<open>updated_at\<close> moves only when a column changed, because only then an \<open>UPDATE\<close> is issued.\<close>

definition touch_review :: "datetime \<Rightarrow> book_review \<Rightarrow> book_review \<Rightarrow> book_review" where
  "touch_review now old new = (if new = old then old else new\<lparr>rv_updated_at := now\<rparr>)"

definition repo_update_review :: "datetime \<Rightarrow> uuid \<Rightarrow> rat option \<Rightarrow> pystr option \<Rightarrow> sess \<Rightarrow> book_review outcome" where
  "repo_update_review now review_id rating body s =
     bindE (required REVIEW_MISSING (review_by_id review_id s)) (\<lambda>review.
     bindE (case rating of None \<Rightarrow> Inr (rv_rating review) | Some r \<Rightarrow> numeric21 r) (\<lambda>n.
     bindE (guardE (rating_allowed n) IntegrityError) (\<lambda>_.
       let row = touch_review now review (review\<lparr>rv_rating := n, rv_body := body\<rparr>)
       in Inr (row, store_review row s))))"

definition repo_delete_review :: "uuid \<Rightarrow> sess \<Rightarrow> unit outcome" where
  "repo_delete_review review_id s =
     bindE (required REVIEW_MISSING (review_by_id review_id s)) (\<lambda>_.
       Inr ((), s\<lparr>t_book_reviews := discard (\<lambda>r. rv_id r = review_id) (t_book_reviews s)\<rparr>))"

definition increment_report :: "datetime \<Rightarrow> uuid \<Rightarrow> int \<Rightarrow> sess \<Rightarrow> book_review outcome" where
  "increment_report now review_id hide_threshold s =
     bindE (required REVIEW_MISSING (review_by_id review_id s)) (\<lambda>review.
       let reports = rv_report_count review + 1;
           hidden = (if hide_threshold \<le> reports \<and> rv_hidden_at review = None then Some now
                     else rv_hidden_at review);
           row = review\<lparr>rv_report_count := reports, rv_hidden_at := hidden, rv_updated_at := now\<rparr>
       in if \<not> int4 reports then Inl DataError else Inr (row, store_review row s))"

record review_row =
  rw_review :: book_review
  rw_author_nickname :: "pystr option"
  rw_author_profile_image_url :: "pystr option"

definition repo_list_book_reviews :: "uuid \<Rightarrow> nat \<Rightarrow> nat \<Rightarrow> sess \<Rightarrow> review_row list" where
  "repo_list_book_reviews book_id limit offset s =
     take limit (drop offset (List.map_filter
       (\<lambda>r. map_option (\<lambda>u. \<lparr>rw_review = r, rw_author_nickname = Some (us_nickname u),
                              rw_author_profile_image_url = us_profile_image_url u\<rparr>)
              (fetch us_id (rv_user_id r) (t_users s)))
       (order_desc rv_created_at (filter (\<lambda>r. rv_book_id r = book_id \<and> rv_hidden_at r = None) (t_book_reviews s)))))"

record review_aggregate =
  ra_average_rating :: rat
  ra_rating_count :: int
  ra_distribution :: "(string \<times> int) list"

text \<open>One row per rating; the sums are those of the loop, in the order the groups come back.\<close>

definition rating_groups :: "uuid \<Rightarrow> sess \<Rightarrow> (int \<times> int) list" where
  "rating_groups book_id s =
     (let ratings = map rv_rating (filter (\<lambda>r. rv_book_id r = book_id \<and> rv_hidden_at r = None) (t_book_reviews s))
      in map (\<lambda>n. (n, int (length (filter (\<lambda>m. m = n) ratings)))) (remdups ratings))"

fun weigh :: "(int \<times> int) list \<Rightarrow> int \<times> rat \<Rightarrow> int \<times> rat" where
  "weigh [] acc = acc"
| "weigh ((rating, n) # rows) (total_count, weighted_sum) =
     weigh rows (total_count + n,
       fl (weighted_sum + fl (rating_float rating * fl (of_int n))))"

definition get_book_summary :: "uuid \<Rightarrow> sess \<Rightarrow> review_aggregate" where
  "get_book_summary book_id s =
     (let rows = rating_groups book_id s;
          (total_count, weighted_sum) = weigh rows (0, 0)
      in \<lparr>ra_average_rating = (if total_count = 0 then 0
            else py_round (fl (weighted_sum / of_int total_count)) 2),
          ra_rating_count = total_count,
          ra_distribution = map (\<lambda>(n, c). (rating_key n, c)) rows\<rparr>)"

record my_review_row =
  my_review :: book_review
  my_book_title :: "pystr option"
  my_book_cover_url :: "pystr option"

definition repo_list_my_reviews :: "uuid \<Rightarrow> nat \<Rightarrow> nat \<Rightarrow> sess \<Rightarrow> my_review_row list" where
  "repo_list_my_reviews user_id limit offset s =
     take limit (drop offset (List.map_filter
       (\<lambda>r. map_option (\<lambda>b. \<lparr>my_review = r, my_book_title = Some (bk_title b), my_book_cover_url = bk_cover_url b\<rparr>)
              (fetch bk_id (rv_book_id r) (t_books s)))
       (order_desc rv_created_at (filter (\<lambda>r. rv_user_id r = user_id \<and> rv_hidden_at r = None) (t_book_reviews s)))))"

definition count_my_reviews :: "uuid \<Rightarrow> sess \<Rightarrow> int" where
  "count_my_reviews user_id s =
     int (length (filter (\<lambda>r. rv_user_id r = user_id \<and> rv_hidden_at r = None) (t_book_reviews s)))"

section \<open>Service\<close>

definition REPORT_HIDE_THRESHOLD :: int where "REPORT_HIDE_THRESHOLD = 5"
definition REVIEW_LIST_LIMIT_MAX :: int where "REVIEW_LIST_LIMIT_MAX = 50"

definition is_completed :: "uuid \<Rightarrow> uuid \<Rightarrow> sess \<Rightarrow> bool result" where
  "is_completed user_id book_id s =
     bindE (scalar_one_or_none (filter (\<lambda>r. ub_user_id r = user_id \<and> ub_book_id r = book_id) (t_user_books s))) (\<lambda>ub.
       Inr (case ub of None \<Rightarrow> False | Some r \<Rightarrow> ub_status r = COMPLETED))"

definition create_review ::
    "bool \<Rightarrow> uuid \<Rightarrow> uuid \<Rightarrow> datetime \<Rightarrow> uuid \<Rightarrow> uuid \<Rightarrow> rat \<Rightarrow> pystr option \<Rightarrow> sess \<Rightarrow> book_review outcome" where
  "create_review feed new_id feed_id now user_id book_id rating body s =
     bindE (is_completed user_id book_id s) (\<lambda>done.
     bindE (guardE done (DomainError ConflictError ''BOOK_NOT_COMPLETED'')) (\<lambda>_.
     bindE (review_by_user_book user_id book_id s) (\<lambda>existing.
     bindE (guardE (existing = None) REVIEW_EXISTS) (\<lambda>_.
     bindE (repo_create_review new_id now user_id book_id rating body s) (\<lambda>(review, s1).
     bindE (record_event feed feed_id now user_id ''BOOK_REVIEWED''
         [(''review_id'', JUuid (rv_id review)), (''book_id'', JUuid book_id), (''rating'', JNum rating)] s1) (\<lambda>(_, s2).
     Inr (review, s2)))))))"

definition load_owned_review :: "uuid \<Rightarrow> uuid \<Rightarrow> sess \<Rightarrow> book_review result" where
  "load_owned_review user_id review_id s =
     bindE (required REVIEW_MISSING (review_by_id review_id s)) (\<lambda>review.
     bindE (guardE (rv_user_id review = user_id) (DomainError PermissionDeniedError ''NOT_REVIEW_OWNER'')) (\<lambda>_.
     Inr review))"

definition update_review :: "datetime \<Rightarrow> uuid \<Rightarrow> uuid \<Rightarrow> rat option \<Rightarrow> pystr option \<Rightarrow> sess \<Rightarrow> book_review outcome" where
  "update_review now user_id review_id rating body s =
     bindE (load_owned_review user_id review_id s) (\<lambda>review. repo_update_review now (rv_id review) rating body s)"

definition delete_review :: "uuid \<Rightarrow> uuid \<Rightarrow> sess \<Rightarrow> unit outcome" where
  "delete_review user_id review_id s =
     bindE (load_owned_review user_id review_id s) (\<lambda>review. repo_delete_review (rv_id review) s)"

definition get_my_review :: "uuid \<Rightarrow> uuid \<Rightarrow> sess \<Rightarrow> book_review result" where
  "get_my_review user_id book_id s =
     bindE (review_by_user_book user_id book_id s) (\<lambda>review. required REVIEW_MISSING review)"

definition list_book_reviews :: "uuid \<Rightarrow> int \<Rightarrow> int \<Rightarrow> sess \<Rightarrow> review_aggregate \<times> review_row list" where
  "list_book_reviews book_id limit offset s =
     (get_book_summary book_id s,
      repo_list_book_reviews book_id (clamp limit REVIEW_LIST_LIMIT_MAX) (nat (max 0 offset)) s)"

definition list_my_reviews :: "uuid \<Rightarrow> int \<Rightarrow> int \<Rightarrow> sess \<Rightarrow> int \<times> my_review_row list" where
  "list_my_reviews user_id limit offset s =
     (count_my_reviews user_id s,
      repo_list_my_reviews user_id (clamp limit REVIEW_LIST_LIMIT_MAX) (nat (max 0 offset)) s)"

definition report_review :: "datetime \<Rightarrow> uuid \<Rightarrow> uuid \<Rightarrow> sess \<Rightarrow> book_review outcome" where
  "report_review now reporter_id review_id s =
     bindE (required REVIEW_MISSING (review_by_id review_id s)) (\<lambda>review.
     bindE (guardE (rv_user_id review \<noteq> reporter_id)
       (DomainError PermissionDeniedError ''CANNOT_REPORT_OWN_REVIEW'')) (\<lambda>_.
     increment_report now review_id REPORT_HIDE_THRESHOLD s))"

section \<open>Router\<close>

definition check_body :: "pystr option \<Rightarrow> unit result" where
  "check_body body = guardE (\<forall>b\<in>set_option body. length b \<le> REVIEW_MAX_BODY) ValueError"

definition post_review :: "uuid \<Rightarrow> uuid \<Rightarrow> datetime \<Rightarrow> uuid \<Rightarrow> uuid \<Rightarrow> rat \<Rightarrow> pystr option \<Rightarrow> sess \<Rightarrow> book_review outcome" where
  "post_review new_id feed_id now user_id book_id rating body s =
     bindE (validate_rating rating) (\<lambda>r. bindE (check_body body) (\<lambda>_.
       create_review True new_id feed_id now user_id book_id r body s))"

definition patch_my_review :: "datetime \<Rightarrow> uuid \<Rightarrow> uuid \<Rightarrow> rat option \<Rightarrow> pystr option \<Rightarrow> sess \<Rightarrow> book_review outcome" where
  "patch_my_review now user_id book_id rating body s =
     bindE (case rating of None \<Rightarrow> Inr None | Some r \<Rightarrow> bindE (validate_rating r) (\<lambda>v. Inr (Some v))) (\<lambda>rating.
     bindE (check_body body) (\<lambda>_.
     bindE (get_my_review user_id book_id s) (\<lambda>existing.
       update_review now user_id (rv_id existing) rating body s)))"

definition delete_my_review :: "uuid \<Rightarrow> uuid \<Rightarrow> sess \<Rightarrow> unit outcome" where
  "delete_my_review user_id book_id s =
     bindE (get_my_review user_id book_id s) (\<lambda>existing. delete_review user_id (rv_id existing) s)"

text \<open>\<open>GET /me/reviews\<close>, after the bounds on its query parameters: whether another page follows.\<close>

definition my_reviews_page :: "uuid \<Rightarrow> int \<Rightarrow> int \<Rightarrow> sess \<Rightarrow> (my_review_row list \<times> int \<times> bool) result" where
  "my_reviews_page user_id limit offset s =
     bindE (guardE (1 \<le> limit \<and> limit \<le> 50 \<and> 0 \<le> offset) ValueError) (\<lambda>_.
       let (number, rows) = list_my_reviews user_id limit offset s
       in Inr (rows, number, offset + int (length rows) < number))"

end
