(* ===== verification/ReviewProps.thy ===== *)
theory ReviewProps
  imports Reviews ReadingMachine Demo
begin

text \<open>
  Reviews as a machine: one review per user and book, half-star ratings, hidden exactly from the
  fifth report on. The rating summary, computed in floats, is the rounding of the exact mean.
\<close>

section \<open>The invariant\<close>

datatype review_op =
    PostReview uuid uuid datetime uuid uuid rat "pystr option"
  | PatchReview datetime uuid uuid "rat option" "pystr option"
  | DeleteReview uuid uuid
  | ReportReview datetime uuid uuid

fun review_step :: "review_op \<Rightarrow> sess \<Rightarrow> error + sess" where
  "review_step (PostReview i j now u b r t) s = ret (post_review i j now u b r t s)"
| "review_step (PatchReview now u b r t) s = ret (patch_my_review now u b r t s)"
| "review_step (DeleteReview u b) s = ret (delete_my_review u b s)"
| "review_step (ReportReview now u i) s = ret (report_review now u i s)"

definition half_star :: "int \<Rightarrow> bool" where
  "half_star n \<longleftrightarrow> 10 \<le> n \<and> n \<le> 50 \<and> n mod 5 = 0"

definition review_ok :: "book_review \<Rightarrow> bool" where
  "review_ok r \<longleftrightarrow> half_star (rv_rating r) \<and> 0 \<le> rv_report_count r
     \<and> (rv_hidden_at r \<noteq> None \<longleftrightarrow> REPORT_HIDE_THRESHOLD \<le> rv_report_count r)"

definition review_inv :: "sess \<Rightarrow> bool" where
  "review_inv s \<longleftrightarrow> distinct (map rv_id (t_book_reviews s)) \<and> distinct (map rv_key (t_book_reviews s))
     \<and> (\<forall>r\<in>set (t_book_reviews s). review_ok r)"

lemma validate_rating_Inr:
  assumes "validate_rating v = Inr w"
  shows "w = v" "\<exists>k. 2 \<le> k \<and> k \<le> 10 \<and> v = of_int k / 2"
proof -
  from assms have *: "w = v" "1 \<le> v" "v \<le> 5" "frac (v * 2) = 0"
    by (auto simp: validate_rating_def split: if_splits)
  then show "w = v" by simp
  from *(4) have f: "v * 2 = of_int \<lfloor>v * 2\<rfloor>" by (simp add: frac_def)
  then have "(2::rat) \<le> of_int \<lfloor>v * 2\<rfloor>" "of_int \<lfloor>v * 2\<rfloor> \<le> (10::rat)" using *(2,3) by linarith+
  then have "2 \<le> \<lfloor>v * 2\<rfloor>" "\<lfloor>v * 2\<rfloor> \<le> 10" by (simp_all add: le_floor_iff floor_le_iff)
  with f show "\<exists>k. 2 \<le> k \<and> k \<le> 10 \<and> v = of_int k / 2" by (metis nonzero_mult_div_cancel_right zero_neq_numeral)
qed

lemma half_star_stored:
  assumes "validate_rating v = Inr w" "numeric21 w = Inr n"
  shows "half_star n" "of_int n = 10 * v"
proof -
  obtain k where k: "2 \<le> k" "k \<le> 10" "v = of_int k / 2" "w = v" using validate_rating_Inr [OF assms(1)] by blast
  have "\<lfloor>10 * v + 1 / 2\<rfloor> = 5 * k" unfolding floor_eq_iff k(3) by simp
  then have "n = 5 * k" using assms(2) k by (auto simp: numeric21_def Let_def split: if_splits)
  with k show "half_star n" "of_int n = 10 * v" by (auto simp: half_star_def)
qed

lemma review_inv_cong: "t_book_reviews s' = t_book_reviews s \<Longrightarrow> review_inv s' = review_inv s"
  by (simp add: review_inv_def)

lemma store_review_inv:
  assumes "review_inv s" "review_by_id i s = Some old" "rv_id row = i" "rv_key row = rv_key old" "review_ok row"
  shows "review_inv (store_review row s)"
proof -
  have d: "distinct (map rv_id (t_book_reviews s))" using assms(1) by (simp add: review_inv_def)
  have old: "r = old" if "r \<in> set (t_book_reviews s)" "rv_id r = i" for r
    using fetch_distinct [OF d that(1)] that(2) assms(2) by (simp add: review_by_id_def)
  have "map rv_id (amend rv_id i (\<lambda>_. row) (t_book_reviews s)) = map rv_id (t_book_reviews s)"
    "map rv_key (amend rv_id i (\<lambda>_. row) (t_book_reviews s)) = map rv_key (t_book_reviews s)"
    using assms(3,4) old by (auto simp: amend_def)
  then show ?thesis using assms by (auto simp: review_inv_def store_review_def set_amend)
qed

lemma review_by_user_book_Inr:
  "review_by_user_book u b s = Inr x \<Longrightarrow> x = Some r \<Longrightarrow> r \<in> set (t_book_reviews s) \<and> rv_user_id r = u \<and> rv_book_id r = b"
  by (auto simp: review_by_user_book_def scalar_one_or_none_Some dest!: filter_eq_ConsD)

lemma record_reviews [dest]:
  "record_event w i now u ty m s = Inr ((), s') \<Longrightarrow> t_book_reviews s' = t_book_reviews s"
  by (drule record_event_extends) (auto simp: stream_extends_def)

lemma case_insert: "(case m of Inl a \<Rightarrow> Inl e | Inr r \<Rightarrow> Inr (f r)) = Inr y \<longleftrightarrow> (\<exists>r. m = Inr r \<and> f r = y)"
  by (cases m) auto

lemma repo_create_review_Inr:
  assumes "repo_create_review i now u b w t s = Inr (x, s')"
  shows "numeric21 w = Inr (rv_rating x)" "rv_report_count x = 0" "rv_hidden_at x = None"
    "rv_id x = i" "rv_key x = (u, b)" "i \<notin> rv_id ` set (t_book_reviews s)" "(u, b) \<notin> rv_key ` set (t_book_reviews s)"
    "t_book_reviews s' = t_book_reviews s @ [x]"
proof -
  show "rv_key x = (u, b)" using assms by (auto simp: repo_create_review_def Let_def case_insert rv_key_def)
qed (use assms in \<open>auto simp: repo_create_review_def Let_def case_insert insert_row_Inr_iff simp flip: fetch_None_iff\<close>)

lemma post_review_inv:
  assumes "review_inv s" "post_review i j now u b r t s = Inr (x, s')"
  shows "review_inv s'"
proof -
  obtain w s1 where v: "validate_rating r = Inr w" and c: "repo_create_review i now u b w t s = Inr (x, s1)"
    and e: "t_book_reviews s' = t_book_reviews s1"
    using assms(2) by (auto simp: post_review_def create_review_def)
  note x = repo_create_review_Inr [OF c]
  have "review_ok x" using half_star_stored(1) [OF v x(1)] x by (simp add: review_ok_def REPORT_HIDE_THRESHOLD_def)
  then show ?thesis using assms(1) x by (auto simp: review_inv_def e)
qed

lemma update_review_inv:
  assumes "review_inv s" "update_review now u i r t s = Inr (x, s')" "\<And>q. r = Some q \<Longrightarrow> \<exists>p. validate_rating p = Inr q"
  shows "review_inv s'"
proof -
  obtain old n where old: "review_by_id i s = Some old" "rv_id old = i"
    and n: "(case r of None \<Rightarrow> Inr (rv_rating old) | Some q \<Rightarrow> numeric21 q) = Inr n"
    and s': "s' = store_review (touch_review now old (old\<lparr>rv_rating := n, rv_body := t\<rparr>)) s"
  proof -
    obtain old where old: "review_by_id i s = Some old" and up: "repo_update_review now (rv_id old) r t s = Inr (x, s')"
      using assms(2) by (auto simp: update_review_def load_owned_review_def)
    have i: "rv_id old = i" using old by (auto simp: review_by_id_def dest: fetch_Some_key)
    obtain n where "(case r of None \<Rightarrow> Inr (rv_rating old) | Some q \<Rightarrow> numeric21 q) = Inr n"
      "s' = store_review (touch_review now old (old\<lparr>rv_rating := n, rv_body := t\<rparr>)) s"
      using up old i by (auto simp: repo_update_review_def Let_def)
    then show ?thesis by (rule that [OF old i])
  qed
  have ok: "review_ok old" using assms(1) old by (auto simp: review_inv_def review_by_id_def dest: fetch_Some_mem)
  have "half_star n"
  proof (cases r)
    case None
    then show ?thesis using n ok by (simp add: review_ok_def)
  next
    case (Some q)
    then obtain p where "validate_rating p = Inr q" using assms(3) by blast
    then show ?thesis using n Some half_star_stored(1) by simp
  qed
  then show ?thesis unfolding s' using ok
    by (intro store_review_inv [OF assms(1) old(1)]) (auto simp: touch_review_def old review_ok_def rv_key_def)
qed

lemma report_review_inv:
  assumes "review_inv s" "report_review now u i s = Inr (x, s')"
  shows "review_inv s'"
proof -
  obtain old where old: "review_by_id i s = Some old" and inc: "increment_report now i REPORT_HIDE_THRESHOLD s = Inr (x, s')"
    using assms(2) by (auto simp: report_review_def)
  define row where "row = old\<lparr>rv_report_count := rv_report_count old + 1,
      rv_hidden_at := (if REPORT_HIDE_THRESHOLD \<le> rv_report_count old + 1 \<and> rv_hidden_at old = None then Some now else rv_hidden_at old),
      rv_updated_at := now\<rparr>"
  have x: "x = row" and s': "s' = store_review row s"
    using inc unfolding increment_report_def old Let_def row_def by (auto split: if_split_asm)
  have ok: "review_ok old" "rv_id old = i"
    using assms(1) old by (auto simp: review_inv_def review_by_id_def dest: fetch_Some_mem fetch_Some_key)
  have "review_ok row" using ok(1) unfolding row_def review_ok_def by (cases "rv_hidden_at old") (auto simp: REPORT_HIDE_THRESHOLD_def)
  then show ?thesis unfolding s' using ok(2)
    by (intro store_review_inv [OF assms(1) old]) (simp_all add: row_def rv_key_def)
qed

lemma review_step_inv:
  assumes "review_inv s" "review_step x s = Inr s'"
  shows "review_inv s'"
proof (cases x)
  case (PostReview i j now u b r t)
  then show ?thesis using assms by (auto intro: post_review_inv)
next
  case (PatchReview now u b r t)
  then obtain y where "patch_my_review now u b r t s = Inr (y, s')" using assms(2) by auto
  then obtain q i where q: "(case r of None \<Rightarrow> Inr None | Some r \<Rightarrow> bindE (validate_rating r) (\<lambda>v. Inr (Some v))) = Inr q"
    and up: "update_review now u i q t s = Inr (y, s')"
    unfolding patch_my_review_def bindE_Inr_iff by (elim exE conjE) (rule that)
  show ?thesis using q by (intro update_review_inv [OF assms(1) up]) (auto split: option.splits)
next
  case (DeleteReview u b)
  then obtain i where "t_book_reviews s' = discard (\<lambda>r. rv_id r = i) (t_book_reviews s)"
    using assms(2) by (auto simp: delete_my_review_def delete_review_def repo_delete_review_def)
  then show ?thesis using assms(1) by (auto simp: review_inv_def distinct_map_discard)
next
  case (ReportReview now u i)
  then show ?thesis using assms by (auto intro: report_review_inv)
qed

interpretation reviews: guarded_machine review_step review_inv
  by unfold_locales (rule review_step_inv)

text \<open>
  C19. Through any sequence of postings, edits, deletions and reports, valid or refused: a user has at
  most one review of a book, every stored rating is a half star between 1.0 and 5.0, and a review
  is hidden exactly when it has collected five reports.
\<close>

theorem reviews_sound:
  assumes "review_inv s" "s' = run review_step s ops"
  shows "(\<forall>q\<in>set (t_book_reviews s'). \<forall>r\<in>set (t_book_reviews s').
      rv_user_id q = rv_user_id r \<longrightarrow> rv_book_id q = rv_book_id r \<longrightarrow> q = r) \<and>
    (\<forall>r\<in>set (t_book_reviews s'). half_star (rv_rating r) \<and> (rv_hidden_at r \<noteq> None \<longleftrightarrow> 5 \<le> rv_report_count r))"
proof -
  have inv: "review_inv s'" using reviews.run_inv [OF assms(1)] assms(2) by simp
  then have "q = r" if "q \<in> set (t_book_reviews s')" "r \<in> set (t_book_reviews s')" "rv_key q = rv_key r" for q r
    using that inj_onD [of rv_key "set (t_book_reviews s')" q r] by (simp add: review_inv_def distinct_map)
  then show ?thesis using inv by (auto simp: review_inv_def review_ok_def REPORT_HIDE_THRESHOLD_def rv_key_def)
qed

definition demo_review :: "uuid \<Rightarrow> uuid \<Rightarrow> int \<Rightarrow> book_review" where
  "demo_review i u n = \<lparr>rv_id = i, rv_user_id = u, rv_book_id = 10, rv_rating = n, rv_body = None, rv_report_count = 0,
     rv_hidden_at = None, rv_created_at = t0, rv_updated_at = t0\<rparr>"

definition demo_reviews :: sess where
  "demo_reviews = demo\<lparr>t_book_reviews := [demo_review 500 1 45, demo_review 501 2 30]\<rparr>"

lemma demo_reviews_inv: "review_inv demo_reviews"
  by (simp add: review_inv_def demo_reviews_def demo_review_def review_ok_def half_star_def rv_key_def REPORT_HIDE_THRESHOLD_def)

lemma reviews_sound_witness:
  "\<not> (\<exists>r\<in>set (t_book_reviews (run review_step demo_reviews (replicate 5 (ReportReview t0 2 500)))).
     rv_hidden_at r = None \<and> 5 \<le> rv_report_count r)"
  using reviews_sound [OF demo_reviews_inv refl, of "replicate 5 (ReportReview t0 2 500)"] by blast

section \<open>The summary of the ratings\<close>

definition visible_ratings :: "uuid \<Rightarrow> sess \<Rightarrow> int list" where
  "visible_ratings b s = map rv_rating (filter (\<lambda>r. rv_book_id r = b \<and> rv_hidden_at r = None) (t_book_reviews s))"

lemma groups_sum:
  "sum_list (map (\<lambda>n. g n * int (length (filter (\<lambda>m. m = n) xs))) (remdups xs)) = sum_list (map g xs)" for xs :: "int list"
proof -
  have c: "length (filter (\<lambda>m. m = n) xs) = count (mset xs) n" for n by (induction xs) auto
  have "sum_list (map (\<lambda>n. g n * int (length (filter (\<lambda>m. m = n) xs))) (remdups xs)) =
      (\<Sum>n\<in>set xs. g n * int (count (mset xs) n))"
    unfolding c by (simp add: sum_list_distinct_conv_sum_set)
  also have "\<dots> = sum_list (map g xs)"
  proof (induction xs)
    case (Cons x xs)
    have "(\<Sum>n\<in>set (x # xs). g n * int (count (mset (x # xs)) n)) =
        (\<Sum>n\<in>insert x (set xs). g n * int (count (mset xs) n)) + (\<Sum>n\<in>insert x (set xs). if n = x then g x else 0)"
      unfolding sum.distrib [symmetric] by (intro sum.cong) (auto simp: distrib_left)
    also have "(\<Sum>n\<in>insert x (set xs). g n * int (count (mset xs) n)) = (\<Sum>n\<in>set xs. g n * int (count (mset xs) n))"
      by (cases "x \<in> set xs") (simp_all add: insert_absorb count_eq_zero_iff)
    finally show ?case using Cons by simp
  qed simp
  finally show ?thesis .
qed

lemma half_exact:
  assumes "0 \<le> k" "k \<le> 2 ^ 53"
  shows "fl (of_int k / 2) = of_int k / 2"
proof -
  have e: "of_int k * 2 powi - 1 = (of_int k / 2 :: rat)" by (simp add: power_int_minus)
  show ?thesis using fl_scaled [OF assms, of "- 1"] unfolding e .
qed

text \<open>The loop computes exactly: a half star is a multiple of one half.\<close>

lemma weigh_exact:
  assumes "\<forall>(r, n)\<in>set rows. half_star r \<and> 0 \<le> n" "0 \<le> h"
    and "h + sum_list (map (\<lambda>(r, n). r div 5 * n) rows) \<le> 2 ^ 53"
  shows "weigh rows (c, of_int h / 2) =
    (c + sum_list (map snd rows), of_int (h + sum_list (map (\<lambda>(r, n). r div 5 * n) rows)) / 2)"
  using assms
proof (induction rows arbitrary: c h)
  case (Cons row rows)
  obtain r n where row: "row = (r, n)" by (cases row)
  have r: "r = 5 * (r div 5)" "2 \<le> r div 5" "0 \<le> n"
    using Cons.prems(1) by (auto simp: row half_star_def)
  have rest: "0 \<le> sum_list (map (\<lambda>(r, n). r div 5 * n) rows)"
    using Cons.prems(1) by (intro sum_list_nonneg) (auto simp: half_star_def pos_imp_zdiv_nonneg_iff)
  have m: "n \<le> r div 5 * n" "r div 5 \<le> 10" "0 \<le> r div 5 * n"
    using r Cons.prems(1) mult_right_mono [of 1 "r div 5" n] by (auto simp: row half_star_def)
  have le: "h + r div 5 * n \<le> 2 ^ 53" using Cons.prems(3) rest by (simp add: row)
  have "(of_int r :: rat) = 5 * of_int (r div 5)" using r(1) by (metis of_int_mult of_int_numeral)
  then have f: "rating_float r = of_int (r div 5) / 2"
    using half_exact [of "r div 5"] m(2) r(2) by (simp add: rating_float_def)
  have g: "fl (of_int n) = of_int n" using m le Cons.prems(2) r by (intro fl_of_int) auto
  have p: "fl (of_int (r div 5) / 2 * of_int n) = of_int (r div 5 * n) / 2"
    using half_exact [of "r div 5 * n"] m le Cons.prems(2) by (simp add: mult.commute)
  have q: "fl (of_int h / 2 + of_int (r div 5 * n) / 2) = of_int (h + r div 5 * n) / 2"
    using half_exact [of "h + r div 5 * n"] m le Cons.prems(2) by (simp add: add_divide_distrib)
  have "weigh (row # rows) (c, of_int h / 2) = weigh rows (c + n, of_int (h + r div 5 * n) / 2)"
    unfolding row weigh.simps f g p q ..
  also have "\<dots> = (c + n + sum_list (map snd rows),
      of_int (h + r div 5 * n + sum_list (map (\<lambda>(r, n). r div 5 * n) rows)) / 2)"
    using Cons.prems m by (intro Cons.IH) (auto simp: row)
  finally show ?case by (simp add: row add.assoc)
qed simp

lemma py_round_between:
  assumes "of_int a \<le> x" "x \<le> of_int b" "0 \<le> a" "b \<le> 2 ^ 53"
  shows "of_int a \<le> py_round x 2 \<and> py_round x 2 \<le> of_int b"
proof -
  have ab: "a \<le> b" using assms(1,2) by (metis of_int_le_iff order_trans)
  have "100 * a \<le> rne (x * 10 ^ 2)" "rne (x * 10 ^ 2) \<le> 100 * b"
    using assms by (auto intro!: int_le_rne rne_le_int)
  then have "(of_int (100 * a) :: rat) \<le> of_int (rne (x * 10 ^ 2))" "of_int (rne (x * 10 ^ 2)) \<le> (of_int (100 * b) :: rat)"
    by (simp_all only: of_int_le_iff)
  then have "of_int a \<le> (of_int (rne (x * 10 ^ 2)) / 10 ^ 2 :: rat)" "of_int (rne (x * 10 ^ 2)) / 10 ^ 2 \<le> (of_int b :: rat)"
    by (simp_all add: le_divide_eq divide_le_eq)
  then have "fl (of_int a) \<le> py_round x 2" "py_round x 2 \<le> fl (of_int b)"
    unfolding py_round_def using assms(3) by (auto intro: fl_mono order_trans)
  then show ?thesis using ab assms(3,4) by (simp add: fl_of_int)
qed

text \<open>
  The rating summary of a book is right although it is computed in floats and in whatever order
  the groups come back: the count and the distribution are those of the visible reviews, and the
  average is the exact mean of their ratings, divided once with correct rounding and then
  rounded to two digits; it is 0 for a book without visible reviews and otherwise between 1 and 5.
\<close>

theorem summary_is_mean:
  assumes "review_inv s" "length (t_book_reviews s) < 2 ^ 48"
  shows "(case visible_ratings b s of xs \<Rightarrow>
    ra_rating_count (get_book_summary b s) = int (length xs) \<and>
    sum_list (map snd (ra_distribution (get_book_summary b s))) = int (length xs) \<and>
    (if xs = [] then ra_average_rating (get_book_summary b s) = 0
     else ra_average_rating (get_book_summary b s) = py_round (true_div (sum_list xs) (10 * int (length xs))) 2 \<and>
       1 \<le> ra_average_rating (get_book_summary b s) \<and> ra_average_rating (get_book_summary b s) \<le> 5))"
proof -
  define xs where "xs = visible_ratings b s"
  define rows where "rows = rating_groups b s"
  have rows: "rows = map (\<lambda>n. (n, int (length (filter (\<lambda>m. m = n) xs)))) (remdups xs)"
    by (simp add: rows_def rating_groups_def xs_def visible_ratings_def Let_def)
  have stars: "\<forall>n\<in>set xs. half_star n" using assms(1) by (auto simp: xs_def visible_ratings_def review_inv_def review_ok_def)
  have len: "length xs < 2 ^ 48"
    unfolding xs_def visible_ratings_def length_map by (rule le_less_trans [OF length_filter_le assms(2)])
  have cnt: "sum_list (map snd rows) = int (length xs)"
    using groups_sum [of "\<lambda>_. 1" xs] by (simp add: rows comp_def sum_list_triv)
  have h: "sum_list (map (\<lambda>(r, n). r div 5 * n) rows) = sum_list (map (\<lambda>r. r div 5) xs)"
    using groups_sum [of "\<lambda>r. r div 5" xs] by (simp add: rows comp_def)
  have bounds: "10 * int (length ys) \<le> sum_list ys \<and> sum_list ys \<le> 50 * int (length ys)
      \<and> 5 * sum_list (map (\<lambda>r. r div 5) ys) = sum_list ys" if "\<forall>n\<in>set ys. half_star n" for ys
    using that by (induction ys) (auto simp: half_star_def)
  note B = bounds [OF stars]
  define H where "H = sum_list (map (\<lambda>r. r div 5) xs)"
  have H: "5 * H = sum_list xs" "H \<le> 2 ^ 53" using B len by (auto simp: H_def)
  have w: "weigh rows (0, 0) = (int (length xs), of_int H / 2)"
    using weigh_exact [of rows 0 0] stars cnt h H(2) by (simp add: H_def) (auto simp: rows)
  have avg: "ra_average_rating (get_book_summary b s) =
      (if xs = [] then 0 else py_round (fl (of_int H / 2 / of_int (int (length xs)))) 2)"
    and count: "ra_rating_count (get_book_summary b s) = int (length xs)"
    and dist: "sum_list (map snd (ra_distribution (get_book_summary b s))) = sum_list (map snd rows)"
    using w by (simp_all add: get_book_summary_def Let_def rows_def comp_def split_beta)
  have "1 \<le> py_round (true_div (sum_list xs) (10 * int (length xs))) 2 \<and>
      py_round (true_div (sum_list xs) (10 * int (length xs))) 2 \<le> 5" if "xs \<noteq> []"
  proof -
    have "(of_int (10 * int (length xs)) :: rat) \<le> of_int (sum_list xs)" "of_int (sum_list xs) \<le> (of_int (5 * (10 * int (length xs))) :: rat)"
      unfolding of_int_le_iff using B by auto
    moreover have "0 < (of_int (10 * int (length xs)) :: rat)" using that by simp
    ultimately have q1: "(1 :: rat) \<le> of_int (sum_list xs) / of_int (10 * int (length xs))"
        and q2: "of_int (sum_list xs) / of_int (10 * int (length xs)) \<le> (5 :: rat)"
      by (simp_all only: le_divide_eq divide_le_eq of_int_mult mult_1 of_int_numeral if_True)
    have "fl 1 \<le> true_div (sum_list xs) (10 * int (length xs))"
      unfolding true_div_def by (rule fl_mono [OF _ q1]) simp
    moreover have "true_div (sum_list xs) (10 * int (length xs)) \<le> fl 5"
      unfolding true_div_def by (rule fl_mono [OF _ q2]) (use q1 in linarith)
    ultimately show ?thesis using py_round_between [of 1 _ 5] fl_of_int [of 5] by simp
  qed
  moreover have "of_int H / 2 / of_int (int (length xs)) = (of_int (sum_list xs) / of_int (10 * int (length xs)) :: rat)"
    unfolding H(1) [symmetric] by simp
  ultimately show ?thesis unfolding xs_def [symmetric] avg count dist cnt by (simp add: true_div_def)
qed

lemma summary_is_mean_witness:
  "ra_average_rating (get_book_summary 10 demo_reviews) = py_round (true_div 75 20) 2"
  using summary_is_mean [OF demo_reviews_inv, of 10]
  by (simp add: visible_ratings_def demo_reviews_def demo_review_def)

end
