(* ===== verification/Auth.thy ===== *)
theory Auth
  imports FeedService ReadingHelpers
begin

text \<open>
  Accounts and sessions: the tokens of \<open>backend/app/core/security.py\<close>, the dependencies of
  \<open>backend/app/core/deps.py\<close> that resolve the caller, and the auth domain
  (\<open>backend/app/domains/auth\<close>: both repositories, the service and the dev-login and profile
  endpoints). The JWT library is a parameter (\<open>jwt\<close>: what it signs and what it answers at a
  given time), and so are the two OAuth adapters: the profile they return or the error they raise.
\<close>

section \<open>Tokens\<close>

text \<open>
  The claims the code reads. A claim that is missing or not a string is \<open>None\<close>; a token minted
  here has all of them.
\<close>

record claims =
  cl_sub :: "pystr option"
  cl_type :: "string option"
  cl_iat :: int
  cl_exp :: int

datatype jwt_error = ExpiredSignatureError | InvalidTokenError

record jwt =
  jwt_encode :: "claims \<Rightarrow> pystr"
  jwt_decode :: "datetime \<Rightarrow> pystr \<Rightarrow> jwt_error + claims"

definition create_token :: "jwt \<Rightarrow> datetime \<Rightarrow> pystr \<Rightarrow> string \<Rightarrow> int \<Rightarrow> pystr" where
  "create_token lib now user_id token_type ttl =
     jwt_encode lib \<lparr>cl_sub = Some user_id, cl_type = Some token_type,
       cl_iat = py_trunc (total_seconds now), cl_exp = py_trunc (total_seconds (now + ttl))\<rparr>"

record auth_settings =
  st_access_ttl_seconds :: int
  st_refresh_ttl_seconds :: int
  st_env :: string

definition create_access_token :: "jwt \<Rightarrow> auth_settings \<Rightarrow> datetime \<Rightarrow> pystr \<Rightarrow> pystr" where
  "create_access_token lib cfg now user_id =
     create_token lib now user_id ''access'' (st_access_ttl_seconds cfg * sec_us)"

definition create_refresh_token :: "jwt \<Rightarrow> auth_settings \<Rightarrow> datetime \<Rightarrow> pystr \<Rightarrow> pystr" where
  "create_refresh_token lib cfg now user_id =
     create_token lib now user_id ''refresh'' (st_refresh_ttl_seconds cfg * sec_us)"

definition decode_token :: "jwt \<Rightarrow> datetime \<Rightarrow> pystr \<Rightarrow> claims result" where
  "decode_token lib now token =
     (case jwt_decode lib now token of
        Inl ExpiredSignatureError \<Rightarrow> Inl (DomainError AuthError ''TOKEN_EXPIRED'')
      | Inl InvalidTokenError \<Rightarrow> Inl (DomainError AuthError ''TOKEN_INVALID'')
      | Inr payload \<Rightarrow> Inr payload)"

section \<open>Who is calling\<close>

definition ascii_lower :: "nat \<Rightarrow> nat" where
  "ascii_lower c = (if 65 \<le> c \<and> c \<le> 90 then c + 32 else c)"

text \<open>No character outside ASCII has a lower case that occurs in \<open>bearer\<close>.\<close>

definition extract_bearer :: "pystr option \<Rightarrow> pystr option" where
  "extract_bearer authorization =
     (case authorization of
        None \<Rightarrow> None
      | Some h \<Rightarrow>
          let scheme = takeWhile (\<lambda>c. c \<noteq> 32) h; token = drop (Suc (length scheme)) h
          in if map ascii_lower scheme \<noteq> ascii ''bearer'' \<or> token = [] then None else Some token)"

definition current_user_id_optional :: "jwt \<Rightarrow> datetime \<Rightarrow> pystr option \<Rightarrow> pystr option" where
  "current_user_id_optional lib now authorization =
     (case extract_bearer authorization of
        None \<Rightarrow> None
      | Some token \<Rightarrow>
        case decode_token lib now token of
          Inl _ \<Rightarrow> None
        | Inr payload \<Rightarrow> if cl_type payload \<noteq> Some ''access'' then None else cl_sub payload)"

definition current_user_id :: "jwt \<Rightarrow> datetime \<Rightarrow> pystr option \<Rightarrow> pystr result" where
  "current_user_id lib now authorization =
     bindE (required (DomainError AuthError ''MISSING_BEARER'') (extract_bearer authorization)) (\<lambda>token.
     bindE (decode_token lib now token) (\<lambda>payload.
     bindE (guardE (cl_type payload = Some ''access'') (DomainError AuthError ''TOKEN_TYPE_MISMATCH'')) (\<lambda>_.
     bindE (required (DomainError AuthError ''TOKEN_INVALID'') (cl_sub payload)) (\<lambda>sub.
     bindE (guardE (sub \<noteq> []) (DomainError AuthError ''TOKEN_INVALID'')) (\<lambda>_.
     Inr sub)))))"

text \<open>
  \<open>UUID(s)\<close>: hyphens are dropped and 32 hexadecimal digits remain. (The spellings with
  \<open>urn:uuid:\<close>, braces or the liberties of \<open>int(s, 16)\<close> never occur in a signed subject.)
\<close>

definition hex_value :: "nat \<Rightarrow> nat option" where
  "hex_value c =
     (if 48 \<le> c \<and> c \<le> 57 then Some (c - 48)
      else if 97 \<le> c \<and> c \<le> 102 then Some (c - 87)
      else if 65 \<le> c \<and> c \<le> 70 then Some (c - 55) else None)"

definition parse_uuid :: "pystr \<Rightarrow> uuid option" where
  "parse_uuid s =
     (let h = map hex_value (filter (\<lambda>c. c \<noteq> 45) s)
      in if length h = 32 \<and> None \<notin> set h then Some (foldl (\<lambda>n d. 16 * n + the d) 0 h) else None)"

definition get_user :: "uuid \<Rightarrow> sess \<Rightarrow> user option" where
  "get_user user_id s =
     (case fetch us_id user_id (t_users s) of
        None \<Rightarrow> None
      | Some u \<Rightarrow> if us_deleted_at u \<noteq> None then None else Some u)"

definition current_user :: "jwt \<Rightarrow> datetime \<Rightarrow> pystr option \<Rightarrow> sess \<Rightarrow> user result" where
  "current_user lib now authorization s =
     bindE (current_user_id lib now authorization) (\<lambda>user_id.
     bindE (required (DomainError AuthError ''TOKEN_INVALID'') (parse_uuid user_id)) (\<lambda>parsed.
     required (DomainError AuthError ''USER_GONE'') (get_user parsed s)))"

definition current_admin_id :: "jwt \<Rightarrow> datetime \<Rightarrow> pystr option \<Rightarrow> sess \<Rightarrow> pystr result" where
  "current_admin_id lib now authorization s =
     bindE (current_user_id lib now authorization) (\<lambda>user_id.
     bindE (required (DomainError AuthError ''TOKEN_INVALID'') (parse_uuid user_id)) (\<lambda>parsed.
     bindE (required (DomainError AuthError ''USER_GONE'') (get_user parsed s)) (\<lambda>user.
     bindE (guardE (us_is_admin user) (HTTPException 403)) (\<lambda>_.
     Inr user_id))))"

section \<open>Repositories\<close>

definition by_provider_sub :: "auth_provider \<Rightarrow> pystr \<Rightarrow> sess \<Rightarrow> user option result" where
  "by_provider_sub provider sub s =
     scalar_one_or_none (filter (\<lambda>u. us_provider u = provider \<and> us_provider_sub u = sub \<and> us_deleted_at u = None) (t_users s))"

definition us_identity :: "user \<Rightarrow> auth_provider \<times> pystr" where
  "us_identity u = (us_provider u, us_provider_sub u)"

definition repo_create_user ::
    "uuid \<Rightarrow> datetime \<Rightarrow> auth_provider \<Rightarrow> pystr \<Rightarrow> pystr option \<Rightarrow> pystr \<Rightarrow> pystr option \<Rightarrow> datetime option \<Rightarrow>
     datetime option \<Rightarrow> sess \<Rightarrow> user outcome" where
  "repo_create_user new_id now provider sub email nickname profile_image_url trial_started_at trial_ends_at s =
     (let row = \<lparr>us_id = new_id, us_provider = provider, us_provider_sub = sub, us_email = email,
                 us_nickname = nickname, us_profile_image_url = profile_image_url, us_bio = None,
                 us_referral_code = None, us_cover_image_url = None, us_theme = None,
                 us_featured_book_id = None, us_featured_quote = None, us_is_active = True,
                 us_is_admin = False, us_is_pro = False, us_pro_expires_at = None, us_pro_product_id = None,
                 us_trial_started_at = trial_started_at, us_trial_ends_at = trial_ends_at,
                 us_created_at = now, us_last_login_at = None, us_last_active_at = None, us_deleted_at = None\<rparr>
      in if 255 < length sub \<or> 64 < length nickname \<or> (\<exists>e\<in>set_option email. 320 < length e)
            \<or> (\<exists>p\<in>set_option profile_image_url. 1024 < length p)
         then Inl DataError
         else case insert_row us_id (fetch us_identity (provider, sub) (t_users s) = None) row (t_users s) of
           Inl _ \<Rightarrow> Inl (DomainError ConflictError ''USER_ALREADY_EXISTS'')
         | Inr rows \<Rightarrow> Inr (row, s\<lparr>t_users := rows\<rparr>))"

definition update_last_login :: "uuid \<Rightarrow> datetime \<Rightarrow> sess \<Rightarrow> sess" where
  "update_last_login user_id at_time s =
     s\<lparr>t_users := amend us_id user_id (us_last_login_at_update (\<lambda>_. Some at_time)) (t_users s)\<rparr>"

definition soft_delete_user :: "uuid \<Rightarrow> datetime \<Rightarrow> sess \<Rightarrow> sess" where
  "soft_delete_user user_id at_time s =
     s\<lparr>t_users := amend us_id user_id (us_deleted_at_update (\<lambda>_. Some at_time)) (t_users s)\<rparr>"

text \<open>\<open>UNSET\<close> leaves a column as it is; \<open>SET None\<close> clears it.\<close>

datatype 'a patch = UNSET | SET 'a

fun patched :: "'a patch \<Rightarrow> 'a \<Rightarrow> 'a" where
  "patched UNSET old = old"
| "patched (SET new) old = new"

definition apply_profile ::
    "pystr option \<Rightarrow> pystr option patch \<Rightarrow> pystr option patch \<Rightarrow> profile_theme option patch \<Rightarrow> uuid option patch \<Rightarrow>
     pystr option patch \<Rightarrow> user \<Rightarrow> user" where
  "apply_profile nickname bio cover theme book quote u =
     u\<lparr>us_nickname := (case nickname of None \<Rightarrow> us_nickname u | Some n \<Rightarrow> n),
       us_bio := patched bio (us_bio u),
       us_cover_image_url := patched cover (us_cover_image_url u),
       us_theme := patched theme (us_theme u),
       us_featured_book_id := patched book (us_featured_book_id u),
       us_featured_quote := patched quote (us_featured_quote u)\<rparr>"

definition profile_fits :: "user \<Rightarrow> bool" where
  "profile_fits u \<longleftrightarrow> length (us_nickname u) \<le> 64 \<and> (\<forall>b\<in>set_option (us_bio u). length b \<le> 200)
     \<and> (\<forall>c\<in>set_option (us_cover_image_url u). length c \<le> 1024)
     \<and> (\<forall>q\<in>set_option (us_featured_quote u). length q \<le> 300)"

definition repo_update_profile ::
    "uuid \<Rightarrow> pystr option \<Rightarrow> pystr option patch \<Rightarrow> pystr option patch \<Rightarrow> profile_theme option patch \<Rightarrow> uuid option patch \<Rightarrow>
     pystr option patch \<Rightarrow> sess \<Rightarrow> user outcome" where
  "repo_update_profile user_id nickname bio cover theme book quote s =
     bindE (required (DomainError NotFoundError ''USER_NOT_FOUND'') (get_user user_id s)) (\<lambda>u.
       let row = apply_profile nickname bio cover theme book quote u
       in if \<not> profile_fits row then Inl DataError
          else if \<exists>b\<in>set_option (us_featured_book_id row). \<not> book_exists b s
          then Inl (DomainError NotFoundError ''BOOK_NOT_FOUND'')
          else Inr (row, s\<lparr>t_users := amend us_id user_id (\<lambda>_. row) (t_users s)\<rparr>))"

definition device_by_token :: "string \<Rightarrow> sess \<Rightarrow> device_token option result" where
  "device_by_token token s = scalar_one_or_none (filter (\<lambda>d. dv_token d = token) (t_device_tokens s))"

definition upsert_device :: "uuid \<Rightarrow> datetime \<Rightarrow> uuid \<Rightarrow> string \<Rightarrow> device_platform \<Rightarrow> sess \<Rightarrow> device_token outcome" where
  "upsert_device new_id now user_id token platform s =
     bindE (device_by_token token s) (\<lambda>existing.
       case existing of
         Some d \<Rightarrow>
           if \<not> user_exists user_id s then Inl IntegrityError
           else let row = d\<lparr>dv_user_id := user_id, dv_platform := platform, dv_last_seen_at := now\<rparr>
                in Inr (row, s\<lparr>t_device_tokens := amend dv_id (dv_id d) (\<lambda>_. row) (t_device_tokens s)\<rparr>)
       | None \<Rightarrow>
           let row = \<lparr>dv_id = new_id, dv_user_id = user_id, dv_token = token, dv_platform = platform,
                      dv_created_at = now, dv_last_seen_at = now\<rparr>
           in if 512 < length token then Inl DataError
              else case insert_row dv_id (user_exists user_id s) row (t_device_tokens s) of
                Inl _ \<Rightarrow> Inl (DomainError ConflictError ''DEVICE_TOKEN_CONFLICT'')
              | Inr rows \<Rightarrow> Inr (row, s\<lparr>t_device_tokens := rows\<rparr>))"

definition active_devices :: "uuid \<Rightarrow> sess \<Rightarrow> device_token list" where
  "active_devices user_id s = order_desc dv_last_seen_at (filter (\<lambda>d. dv_user_id d = user_id) (t_device_tokens s))"

definition touch_device :: "datetime \<Rightarrow> string \<Rightarrow> sess \<Rightarrow> unit outcome" where
  "touch_device now token s =
     bindE (device_by_token token s) (\<lambda>existing.
       Inr ((), case existing of None \<Rightarrow> s
         | Some d \<Rightarrow> s\<lparr>t_device_tokens := amend dv_id (dv_id d) (dv_last_seen_at_update (\<lambda>_. now)) (t_device_tokens s)\<rparr>))"

section \<open>Service\<close>

definition TRIAL_DAYS :: int where "TRIAL_DAYS = 7"

definition APPLE_FALLBACK_NICKNAME :: pystr where
  "APPLE_FALLBACK_NICKNAME = [50528, 54540, 54924, 50896]"

definition new_trial_window :: "datetime \<Rightarrow> datetime \<times> datetime" where
  "new_trial_window now = (now, now + TRIAL_DAYS * day_us)"

record login_result =
  lg_access_token :: pystr
  lg_refresh_token :: pystr
  lg_user :: user
  lg_is_new_user :: bool

definition issue_tokens :: "jwt \<Rightarrow> auth_settings \<Rightarrow> datetime \<Rightarrow> user \<Rightarrow> bool \<Rightarrow> login_result" where
  "issue_tokens lib cfg now user is_new_user =
     \<lparr>lg_access_token = create_access_token lib cfg now (uuid_str (us_id user)),
      lg_refresh_token = create_refresh_token lib cfg now (uuid_str (us_id user)),
      lg_user = user, lg_is_new_user = is_new_user\<rparr>"

record external_profile =
  xp_sub :: pystr
  xp_email :: "pystr option"
  xp_nickname :: pystr
  xp_profile_image_url :: "pystr option"

text \<open>What the three logins share: find or create, stamp, issue.\<close>

definition login_with ::
    "jwt \<Rightarrow> auth_settings \<Rightarrow> uuid \<Rightarrow> datetime \<Rightarrow> auth_provider \<Rightarrow> external_profile \<Rightarrow> sess \<Rightarrow> login_result outcome" where
  "login_with lib cfg new_id now provider p s =
     bindE (by_provider_sub provider (xp_sub p) s) (\<lambda>existing.
     bindE (case existing of
         None \<Rightarrow> (let (trial_start, trial_end) = new_trial_window now
                  in repo_create_user new_id now provider (xp_sub p) (xp_email p) (xp_nickname p)
                       (xp_profile_image_url p) (Some trial_start) (Some trial_end) s)
       | Some u \<Rightarrow> Inr (u, s)) (\<lambda>(user, s1).
     Inr (issue_tokens lib cfg now (user\<lparr>us_last_login_at := Some now\<rparr>) (existing = None),
          update_last_login (us_id user) now s1)))"

definition login_with_kakao ::
    "jwt \<Rightarrow> auth_settings \<Rightarrow> external_profile result \<Rightarrow> uuid \<Rightarrow> datetime \<Rightarrow> sess \<Rightarrow> login_result outcome" where
  "login_with_kakao lib cfg kakao new_id now s =
     bindE kakao (\<lambda>profile. login_with lib cfg new_id now KAKAO_PROVIDER profile s)"

definition login_with_apple ::
    "jwt \<Rightarrow> auth_settings \<Rightarrow> (pystr \<times> pystr option) result \<Rightarrow> uuid \<Rightarrow> datetime \<Rightarrow> sess \<Rightarrow> login_result outcome" where
  "login_with_apple lib cfg apple new_id now s =
     bindE apple (\<lambda>(sub, email).
       login_with lib cfg new_id now APPLE_PROVIDER
         \<lparr>xp_sub = sub, xp_email = email, xp_nickname = APPLE_FALLBACK_NICKNAME, xp_profile_image_url = None\<rparr> s)"

definition login_dev ::
    "jwt \<Rightarrow> auth_settings \<Rightarrow> uuid \<Rightarrow> datetime \<Rightarrow> pystr \<Rightarrow> pystr option \<Rightarrow> sess \<Rightarrow> login_result outcome" where
  "login_dev lib cfg new_id now nickname email s =
     login_with lib cfg new_id now KAKAO_PROVIDER
       \<lparr>xp_sub = ascii ''dev:'' @ nickname, xp_email = email, xp_nickname = nickname, xp_profile_image_url = None\<rparr> s"

definition post_dev_login ::
    "jwt \<Rightarrow> auth_settings \<Rightarrow> uuid \<Rightarrow> datetime \<Rightarrow> pystr \<Rightarrow> pystr option \<Rightarrow> sess \<Rightarrow> login_result outcome" where
  "post_dev_login lib cfg new_id now nickname email s =
     (if st_env cfg \<noteq> ''dev'' then Inl (HTTPException 404) else login_dev lib cfg new_id now nickname email s)"

definition refresh :: "jwt \<Rightarrow> auth_settings \<Rightarrow> datetime \<Rightarrow> pystr \<Rightarrow> sess \<Rightarrow> (pystr \<times> pystr) result" where
  "refresh lib cfg now refresh_token s =
     bindE (decode_token lib now refresh_token) (\<lambda>payload.
     bindE (guardE (cl_type payload = Some ''refresh'') (DomainError AuthError ''TOKEN_TYPE_MISMATCH'')) (\<lambda>_.
     bindE (required (DomainError AuthError ''TOKEN_INVALID'') (cl_sub payload)) (\<lambda>sub.
     bindE (guardE (sub \<noteq> []) (DomainError AuthError ''TOKEN_INVALID'')) (\<lambda>_.
     bindE (required (DomainError AuthError ''TOKEN_INVALID'') (parse_uuid sub)) (\<lambda>user_id.
     bindE (required (DomainError AuthError ''USER_GONE'') (get_user user_id s)) (\<lambda>user.
     Inr (create_access_token lib cfg now (uuid_str (us_id user)),
          create_refresh_token lib cfg now (uuid_str (us_id user)))))))))"

definition register_device_token :: "uuid \<Rightarrow> datetime \<Rightarrow> uuid \<Rightarrow> string \<Rightarrow> device_platform \<Rightarrow> sess \<Rightarrow> unit outcome" where
  "register_device_token new_id now user_id token platform s =
     bindE (upsert_device new_id now user_id token platform s) (\<lambda>(_, s'). Inr ((), s'))"

definition get_me :: "uuid \<Rightarrow> sess \<Rightarrow> user result" where
  "get_me user_id s = required (DomainError NotFoundError ''USER_NOT_FOUND'') (get_user user_id s)"

record trial_status =
  ts_is_in_trial :: bool
  ts_trial_ends_at :: "datetime option"
  ts_days_remaining :: int

definition get_trial_status :: "datetime \<Rightarrow> uuid \<Rightarrow> sess \<Rightarrow> trial_status result" where
  "get_trial_status now user_id s =
     bindE (required (DomainError NotFoundError ''USER_NOT_FOUND'') (get_user user_id s)) (\<lambda>user.
       Inr (case us_trial_ends_at user of
          None \<Rightarrow> \<lparr>ts_is_in_trial = False, ts_trial_ends_at = None, ts_days_remaining = 0\<rparr>
        | Some ends_at \<Rightarrow>
            \<lparr>ts_is_in_trial = now < ends_at, ts_trial_ends_at = Some ends_at,
             ts_days_remaining = (if now < ends_at then max 0 \<lceil>fl (total_seconds (ends_at - now) / 86400)\<rceil> else 0)\<rparr>))"

definition update_profile ::
    "uuid \<Rightarrow> pystr option \<Rightarrow> pystr option patch \<Rightarrow> pystr option patch \<Rightarrow> profile_theme option patch \<Rightarrow> uuid option patch \<Rightarrow>
     pystr option patch \<Rightarrow> sess \<Rightarrow> user outcome" where
  "update_profile user_id nickname bio cover theme book quote s =
     bindE (case book of
        SET (Some b) \<Rightarrow> guardE (book_exists b s) (DomainError NotFoundError ''BOOK_NOT_FOUND'')
      | _ \<Rightarrow> Inr ()) (\<lambda>_. repo_update_profile user_id nickname bio cover theme book quote s)"

definition delete_account :: "datetime \<Rightarrow> uuid \<Rightarrow> sess \<Rightarrow> unit outcome" where
  "delete_account now user_id s = Inr ((), soft_delete_user user_id now s)"

end
