(* ===== verification/AuthProps.thy ===== *)
theory AuthProps
  imports Auth ReadingMachine Demo
begin

text \<open>
  What a token proves, and the accounts as a machine: one row per social identity, one row per
  device token, and a deleted account that no request brings back.
\<close>

section \<open>Identifiers in text\<close>

lemma hex_digit_value: "n < 16 \<Longrightarrow> hex_value (hex_digit n) = Some n"
  by (auto simp: hex_value_def hex_digit_def)

lemma hex_digit_dash: "n < 16 \<Longrightarrow> hex_digit n \<noteq> 45"
  by (auto simp: hex_digit_def)

lemma filter_digits:
  "filter (\<lambda>c. c \<noteq> 45) (map (\<lambda>k. hex_digit (u div 16 ^ (31 - k) mod 16)) ks) = map (\<lambda>k. hex_digit (u div 16 ^ (31 - k) mod 16)) ks"
  unfolding filter_map by (simp add: filter_id_conv hex_digit_dash)

lemma uuid_str_digits:
  "filter (\<lambda>c. c \<noteq> 45) (uuid_str u) = map (\<lambda>k. hex_digit (u div 16 ^ (31 - k) mod 16)) [0..<32]"
proof -
  define h where "h = map (\<lambda>k. hex_digit (u div 16 ^ (31 - k) mod 16)) [0..<32]"
  have f: "filter (\<lambda>c. c \<noteq> 45) h = h" unfolding h_def by (rule filter_digits)
  have t: "filter (\<lambda>c. c \<noteq> 45) (take n (drop m h)) = take n (drop m h)" for n m
    using f by (auto simp: filter_id_conv dest: in_set_takeD in_set_dropD)
  have d: "drop m h = take n (drop m h) @ drop (n + m) h" for n m by (metis append_take_drop_id drop_drop)
  have "h = take 8 h @ drop 8 h" by simp
  also have "drop 8 h = take 4 (drop 8 h) @ take 4 (drop 12 h) @ take 4 (drop 16 h) @ drop 20 h"
    using d [of 8 4] d [of 12 4] d [of 16 4] by simp
  finally have h: "h = take 8 h @ take 4 (drop 8 h) @ take 4 (drop 12 h) @ take 4 (drop 16 h) @ drop 20 h" .
  have last: "filter (\<lambda>c. c \<noteq> 45) (drop 20 h) = drop 20 h"
    using f by (auto simp: filter_id_conv dest: in_set_dropD)
  have "filter (\<lambda>c. c \<noteq> 45) (uuid_str u) = take 8 h @ take 4 (drop 8 h) @ take 4 (drop 12 h) @ take 4 (drop 16 h) @ drop 20 h"
    unfolding uuid_str_def Let_def h_def [symmetric] filter_append t [of 8 0, simplified] t last by simp
  also have "\<dots> = h" by (rule h [symmetric])
  finally show ?thesis unfolding h_def .
qed

lemma foldl_digits:
  "foldl (\<lambda>n d. 16 * n + d) 0 (map (\<lambda>k. u div 16 ^ (m - Suc k) mod 16) [0..<m]) = u mod 16 ^ m" for u :: nat
proof (induction m arbitrary: u)
  case (Suc m)
  have shift: "map (\<lambda>k. u div 16 ^ (Suc m - Suc k) mod 16) [0..<m] = map (\<lambda>k. (u div 16) div 16 ^ (m - Suc k) mod 16) [0..<m]"
    by (rule map_cong) (auto simp: div_mult2_eq [symmetric] Suc_diff_Suc power_Suc [symmetric] simp del: power_Suc)
  have "foldl (\<lambda>n d. 16 * n + d) 0 (map (\<lambda>k. u div 16 ^ (Suc m - Suc k) mod 16) [0..<Suc m]) = 16 * (u div 16 mod 16 ^ m) + u mod 16"
    by (simp only: upt_Suc_append [OF le0] map_append shift foldl_append Suc.IH) simp
  also have "\<dots> = u mod 16 ^ Suc m" unfolding power_Suc by (rule mod_mult2_eq [symmetric])
  finally show ?case .
qed simp

lemma parse_uuid_str:
  assumes "u < 2 ^ 128"
  shows "parse_uuid (uuid_str u) = Some u"
proof -
  have h: "map hex_value (filter (\<lambda>c. c \<noteq> 45) (uuid_str u)) = map (\<lambda>k. Some (u div 16 ^ (31 - k) mod 16)) [0..<32]"
    unfolding uuid_str_digits by (simp add: hex_digit_value comp_def)
  have "foldl (\<lambda>n d. 16 * n + the d) 0 (map (\<lambda>k. Some (u div 16 ^ (31 - k) mod 16)) [0..<32]) =
      foldl (\<lambda>n d. 16 * n + d) 0 (map (\<lambda>k. u div 16 ^ (32 - Suc k) mod 16) [0..<32])"
    by (simp only: foldl_map option.sel) simp
  also have "\<dots> = u" unfolding foldl_digits using assms by simp
  finally show ?thesis unfolding parse_uuid_def h Let_def by (simp only: length_map length_upt) auto
qed

lemma uuid_str_nonempty [simp]: "uuid_str u \<noteq> []"
  by (simp add: uuid_str_def Let_def)

section \<open>What a token proves\<close>

text \<open>
  What the code relies on of the JWT library: a token it minted decodes to the claims it was given,
  unless it is not yet valid or has expired (\<open>exp\<close> is compared with the current timestamp).
\<close>

definition signs :: "jwt \<Rightarrow> bool" where
  "signs lib \<longleftrightarrow> (\<forall>t p. jwt_encode lib p \<noteq> [] \<and> jwt_decode lib t (jwt_encode lib p) =
     (if total_seconds t < of_int (cl_iat p) then Inl InvalidTokenError
      else if of_int (cl_exp p) \<le> total_seconds t then Inl ExpiredSignatureError
      else Inr p))"

definition live :: "datetime \<Rightarrow> int \<Rightarrow> datetime \<Rightarrow> bool" where
  "live minted ttl t \<longleftrightarrow> t div sec_us < (minted + ttl) div sec_us"

lemma trunc_seconds: "0 \<le> t \<Longrightarrow> t < 2 ^ 53 \<Longrightarrow> py_trunc (total_seconds t) = t div sec_us"
  using floor_true_div [of t sec_us] true_div_nonneg [of t sec_us]
  by (simp add: py_trunc_def total_seconds_def sec_us_def)

lemma seconds_less: "0 \<le> t \<Longrightarrow> t < 2 ^ 53 \<Longrightarrow> total_seconds t < of_int n \<longleftrightarrow> t div sec_us < n"
  using floor_true_div [of t sec_us] floor_less_iff [of "true_div t sec_us" n]
  by (simp add: total_seconds_def sec_us_def)

lemma decode_created:
  assumes "signs lib" "0 \<le> minted" "minted \<le> t" "t < 2 ^ 53" "0 \<le> ttl" "minted + ttl < 2 ^ 53"
  shows "decode_token lib t (create_token lib minted u ty ttl) =
    (if live minted ttl t
     then Inr \<lparr>cl_sub = Some u, cl_type = Some ty, cl_iat = minted div sec_us, cl_exp = (minted + ttl) div sec_us\<rparr>
     else Inl (DomainError AuthError ''TOKEN_EXPIRED''))"
proof -
  have m: "py_trunc (total_seconds minted) = minted div sec_us" "py_trunc (total_seconds (minted + ttl)) = (minted + ttl) div sec_us"
    using assms by (simp_all add: trunc_seconds)
  have le: "minted div sec_us \<le> t div sec_us" using assms(3) by (simp add: sec_us_def zdiv_mono1)
  have "\<not> total_seconds t < of_int (minted div sec_us)" using assms le by (simp add: seconds_less)
  moreover have "of_int ((minted + ttl) div sec_us) \<le> total_seconds t \<longleftrightarrow> \<not> live minted ttl t"
    using assms seconds_less [of t "(minted + ttl) div sec_us"] by (simp add: live_def not_less [symmetric])
  ultimately show ?thesis using assms(1) by (simp add: decode_token_def create_token_def m signs_def)
qed

lemma bearer_header: "tok \<noteq> [] \<Longrightarrow> extract_bearer (Some (ascii ''Bearer '' @ tok)) = Some tok"
  by (simp add: extract_bearer_def ascii_def ascii_lower_def of_char_def Let_def)


text \<open>A library that signs: it writes the claims down.\<close>

definition put_int :: "int \<Rightarrow> nat list" where "put_int k = [if k < 0 then 1 else 0, nat \<bar>k\<bar>]"
definition get_int :: "nat \<Rightarrow> nat \<Rightarrow> int" where "get_int b n = (if b = 1 then - int n else int n)"

definition plain_encode :: "claims \<Rightarrow> pystr" where
  "plain_encode p = put_int (cl_iat p) @ put_int (cl_exp p)
     @ (case cl_type p of None \<Rightarrow> [0] | Some y \<Rightarrow> Suc (length y) # map of_char y)
     @ (case cl_sub p of None \<Rightarrow> [0] | Some x \<Rightarrow> 1 # x)"

fun plain_claims :: "nat list \<Rightarrow> claims option" where
  "plain_claims (a # b # c # d # n # rest) =
     Some \<lparr>cl_sub = (case drop (n - 1) rest of 0 # _ \<Rightarrow> None | _ # x \<Rightarrow> Some x | [] \<Rightarrow> None),
       cl_type = (if n = 0 then None else Some (map char_of (take (n - 1) rest))),
       cl_iat = get_int a b, cl_exp = get_int c d\<rparr>"
| "plain_claims _ = None"

definition plain_jwt :: jwt where
  "plain_jwt = \<lparr>jwt_encode = plain_encode, jwt_decode = (\<lambda>t tok. case plain_claims tok of
      None \<Rightarrow> Inl InvalidTokenError
    | Some p \<Rightarrow> if total_seconds t < of_int (cl_iat p) then Inl InvalidTokenError
        else if of_int (cl_exp p) \<le> total_seconds t then Inl ExpiredSignatureError else Inr p)\<rparr>"

lemma plain_claims_encode: "plain_claims (plain_encode p) = Some p"
  by (cases p) (auto simp: plain_encode_def put_int_def get_int_def comp_def split: option.splits)

lemma plain_signs: "signs plain_jwt"
  by (simp add: signs_def plain_jwt_def plain_claims_encode) (simp add: plain_encode_def put_int_def)


section \<open>Accounts\<close>

datatype auth_op =
    LoginKakao jwt auth_settings "external_profile result" uuid datetime
  | LoginApple jwt auth_settings "(pystr \<times> pystr option) result" uuid datetime
  | LoginDev jwt auth_settings uuid datetime pystr "pystr option"
  | RegisterDevice uuid datetime uuid string device_platform
  | UpdateProfile uuid "pystr option" "pystr option patch" "pystr option patch" "profile_theme option patch"
      "uuid option patch" "pystr option patch"
  | DeleteAccount datetime uuid

fun auth_step :: "auth_op \<Rightarrow> sess \<Rightarrow> error + sess" where
  "auth_step (LoginKakao lib cfg k i now) s = ret (login_with_kakao lib cfg k i now s)"
| "auth_step (LoginApple lib cfg a i now) s = ret (login_with_apple lib cfg a i now s)"
| "auth_step (LoginDev lib cfg i now n e) s = ret (post_dev_login lib cfg i now n e s)"
| "auth_step (RegisterDevice i now u tok pf) s = ret (register_device_token i now u tok pf s)"
| "auth_step (UpdateProfile u n b c t f q) s = ret (update_profile u n b c t f q s)"
| "auth_step (DeleteAccount now u) s = ret (delete_account now u s)"

definition auth_inv :: "sess \<Rightarrow> bool" where
  "auth_inv s \<longleftrightarrow> distinct (map us_id (t_users s)) \<and> distinct (map us_identity (t_users s))
     \<and> distinct (map dv_id (t_device_tokens s)) \<and> distinct (map dv_token (t_device_tokens s))"

text \<open>The deleted accounts, by identifier and social identity.\<close>

definition gone :: "sess \<Rightarrow> (uuid \<times> auth_provider \<times> pystr) set" where
  "gone s = {(us_id u, us_identity u) | u. u \<in> set (t_users s) \<and> us_deleted_at u \<noteq> None}"

lemma amend_users:
  assumes "auth_inv s" "s' = s\<lparr>t_users := amend us_id k f (t_users s)\<rparr>"
    and "\<And>u. u \<in> set (t_users s) \<Longrightarrow> us_id u = k \<Longrightarrow> us_id (f u) = k \<and> us_identity (f u) = us_identity u \<and> (us_deleted_at u \<noteq> None \<longrightarrow> us_deleted_at (f u) \<noteq> None)"
  shows "auth_inv s' \<and> gone s \<subseteq> gone s'"
proof -
  have "map us_id (amend us_id k f (t_users s)) = map us_id (t_users s)"
    "map us_identity (amend us_id k f (t_users s)) = map us_identity (t_users s)"
    using assms(3) by (auto simp: amend_def)
  moreover have "gone s \<subseteq> gone s'"
  proof
    fix x assume "x \<in> gone s"
    then obtain u where u: "x = (us_id u, us_identity u)" "u \<in> set (t_users s)" "us_deleted_at u \<noteq> None" by (auto simp: gone_def)
    define w where "w = (if us_id u = k then f u else u)"
    have "w \<in> set (t_users s')" using u(2) by (auto simp: assms(2) set_amend w_def)
    moreover have "x = (us_id w, us_identity w)" "us_deleted_at w \<noteq> None" using u assms(3) [of u] by (auto simp: w_def)
    ultimately show "x \<in> gone s'" by (auto simp: gone_def)
  qed
  ultimately show ?thesis using assms(1) by (simp add: auth_inv_def assms(2))
qed

lemma login_with_moves:
  assumes "auth_inv s" "login_with lib cfg i now pr p s = Inr (x, s')"
  shows "auth_inv s' \<and> gone s \<subseteq> gone s'"
proof -
  obtain e u s1 where e: "by_provider_sub pr (xp_sub p) s = Inr e"
    and u: "(case e of None \<Rightarrow> (let (a, b) = new_trial_window now
                  in repo_create_user i now pr (xp_sub p) (xp_email p) (xp_nickname p) (xp_profile_image_url p) (Some a) (Some b) s)
       | Some u \<Rightarrow> Inr (u, s)) = Inr (u, s1)"
    and s': "s' = update_last_login (us_id u) now s1"
    using assms(2) by (auto simp: login_with_def simp del: split_paired_Ex)
  have s1: "auth_inv s1 \<and> gone s \<subseteq> gone s1"
  proof (cases e)
    case None
    with u obtain a b where "repo_create_user i now pr (xp_sub p) (xp_email p) (xp_nickname p) (xp_profile_image_url p) a b s = Inr (u, s1)"
      by (auto simp: new_trial_window_def)
    then have "s1 = s\<lparr>t_users := t_users s @ [u]\<rparr>" "us_id u \<notin> us_id ` set (t_users s)" "us_identity u \<notin> us_identity ` set (t_users s)"
      by (auto simp: repo_create_user_def Let_def insert_row_Inr_iff us_identity_def simp flip: fetch_None_iff split: if_splits sum.splits)
        (simp_all add: fetch_None_iff image_iff us_identity_def)
    then show ?thesis using assms(1) by (auto simp: auth_inv_def gone_def)
  qed (use u assms(1) in auto)
  then have "auth_inv s' \<and> gone s1 \<subseteq> gone s'"
    by (intro amend_users [where k = "us_id u" and f = "us_last_login_at_update (\<lambda>_. Some now)"])
      (auto simp: s' update_last_login_def us_identity_def)
  with s1 show ?thesis by auto
qed

lemma upsert_device_inv:
  assumes "auth_inv s" "upsert_device i now u tok pf s = Inr (d, s')"
  shows "auth_inv s' \<and> gone s' = gone s"
proof -
  obtain e where e: "device_by_token tok s = Inr e" using assms(2) by (auto simp: upsert_device_def)
  have dd: "distinct (map dv_id (t_device_tokens s))" "distinct (map dv_token (t_device_tokens s))"
    using assms(1) by (simp_all add: auth_inv_def)
  have f: "fetch dv_token tok (t_device_tokens s) = e" using e scalar_key [OF dd(2), of tok] by (simp add: device_by_token_def)
  show ?thesis
  proof (cases e)
    case None
    then have "s' = s\<lparr>t_device_tokens := t_device_tokens s @ [d]\<rparr>" "dv_id d \<notin> dv_id ` set (t_device_tokens s)" "dv_token d = tok"
      using assms(2) e by (auto simp: upsert_device_def Let_def insert_row_Inr_iff split: if_splits sum.splits)
    then show ?thesis using assms(1) f None by (auto simp: auth_inv_def gone_def fetch_None_iff)
  next
    case (Some d0)
    then have s': "s' = s\<lparr>t_device_tokens := amend dv_id (dv_id d0) (\<lambda>_. d) (t_device_tokens s)\<rparr>"
      and d: "dv_id d = dv_id d0" "dv_token d = dv_token d0"
      using assms(2) unfolding upsert_device_def e Some Let_def by (auto split: if_split_asm)
    have d0: "d0 \<in> set (t_device_tokens s)" using f Some by (auto dest: fetch_Some_mem)
    have "r = d0" if "r \<in> set (t_device_tokens s)" "dv_id r = dv_id d0" for r
      using fetch_distinct [OF dd(1) that(1)] fetch_distinct [OF dd(1) d0] unfolding that(2) by (metis option.inject)
    then have "map dv_id (t_device_tokens s') = map dv_id (t_device_tokens s)" "map dv_token (t_device_tokens s') = map dv_token (t_device_tokens s)"
      using d by (auto simp: s' amend_def)
    moreover have "t_users s' = t_users s" by (simp add: s')
    ultimately show ?thesis using assms(1) by (simp add: auth_inv_def gone_def)
  qed
qed

lemma update_profile_moves:
  assumes "auth_inv s" "update_profile u n b c t f q s = Inr (x, s')"
  shows "auth_inv s' \<and> gone s \<subseteq> gone s'"
proof -
  have up: "repo_update_profile u n b c t f q s = Inr (x, s')" using assms(2) by (auto simp: update_profile_def)
  then obtain old where old: "get_user u s = Some old" by (auto simp: repo_update_profile_def)
  define row where "row = apply_profile n b c t f q old"
  have x: "x = row" and s': "s' = s\<lparr>t_users := amend us_id u (\<lambda>_. row) (t_users s)\<rparr>"
    using up unfolding repo_update_profile_def old row_def Let_def by (auto split: if_split_asm)
  have o: "fetch us_id u (t_users s) = Some old" "us_id old = u" using old
    by (auto simp: get_user_def dest: fetch_Some_key split: option.splits if_splits)
  have "w = old" if "w \<in> set (t_users s)" "us_id w = u" for w
    using assms(1) fetch_distinct [of us_id "t_users s" w] that o(1) by (simp add: auth_inv_def)
  then show ?thesis using o(2) by (intro amend_users [OF assms(1) s']) (auto simp: row_def apply_profile_def us_identity_def)
qed

lemma auth_step_moves:
  assumes "auth_inv s" "auth_step x s = Inr s'"
  shows "auth_inv s' \<and> gone s \<subseteq> gone s'"
proof (cases x)
  case (LoginKakao lib cfg k i now)
  then show ?thesis using assms by (auto simp: login_with_kakao_def dest: login_with_moves)
next
  case (LoginApple lib cfg a i now)
  then show ?thesis using assms by (auto simp: login_with_apple_def dest: login_with_moves)
next
  case (LoginDev lib cfg i now n e)
  then show ?thesis using assms by (auto simp: post_dev_login_def login_dev_def dest: login_with_moves split: if_splits)
next
  case (RegisterDevice i now u tok pf)
  then obtain d where "upsert_device i now u tok pf s = Inr (d, s')" using assms(2) by (auto simp: register_device_token_def)
  from upsert_device_inv [OF assms(1) this] show ?thesis by simp
next
  case (UpdateProfile u n b c t f q)
  then obtain y where "update_profile u n b c t f q s = Inr (y, s')" using assms(2) by auto
  from update_profile_moves [OF assms(1) this] show ?thesis .
next
  case (DeleteAccount now u)
  then have "s' = s\<lparr>t_users := amend us_id u (us_deleted_at_update (\<lambda>_. Some now)) (t_users s)\<rparr>"
    using assms(2) by (simp add: delete_account_def soft_delete_user_def)
  then show ?thesis by (intro amend_users [OF assms(1)]) (auto simp: us_identity_def)
qed

interpretation accounts: monotone_machine auth_step auth_inv gone
  by unfold_locales (use auth_step_moves in blast)+



end
