(* ===== verification/Curation.thy ===== *)
theory Curation
  imports Auth ReadingMachine Demo
begin

text \<open>
  Editorial cards of a book and the readers' feedback on them: both repositories, the service and
  the endpoints of \<open>backend/app/domains/curation\<close>, with the admin guard in front of two of them.
  The second half shows the cap per book, one vote per reader and card, and what the personalised
  first card is.
\<close>

section \<open>Repositories\<close>

definition CARD_TYPES :: "string list" where
  "CARD_TYPES = [''intro'', ''guide'', ''context'', ''quote'']"

definition FEEDBACK_ACTIONS :: "string list" where
  "FEEDBACK_ACTIONS = [''helpful'', ''skip'', ''dismiss'']"

definition cards_of_book :: "uuid \<Rightarrow> sess \<Rightarrow> curation_card list" where
  "cards_of_book book_id s =
     order_asc cc_order_index (order_asc cc_created_at (filter (\<lambda>c. cc_book_id c = book_id) (t_curation_cards s)))"

definition repo_create_card ::
    "uuid \<Rightarrow> datetime \<Rightarrow> uuid \<Rightarrow> string \<Rightarrow> pystr \<Rightarrow> pystr \<Rightarrow> int \<Rightarrow> sess \<Rightarrow> curation_card outcome" where
  "repo_create_card new_id now book_id card_type title body order_index s =
     (let row = \<lparr>cc_id = new_id, cc_book_id = book_id, cc_card_type = card_type, cc_title = title,
                 cc_body = body, cc_order_index = order_index, cc_created_at = now\<rparr>
      in if 16 < length card_type \<or> 100 < length title \<or> \<not> int4 order_index then Inl DataError
         else bindE (insert_row cc_id (book_exists book_id s \<and> card_type \<in> set CARD_TYPES) row (t_curation_cards s)) (\<lambda>rows.
           Inr (row, s\<lparr>t_curation_cards := rows\<rparr>)))"

definition card_by_id :: "uuid \<Rightarrow> sess \<Rightarrow> curation_card option" where
  "card_by_id card_id s = fetch cc_id card_id (t_curation_cards s)"

text \<open>Deleting a card cascades to the feedback on it.\<close>

definition repo_delete_card :: "uuid \<Rightarrow> sess \<Rightarrow> bool \<times> sess" where
  "repo_delete_card card_id s =
     (case card_by_id card_id s of
        None \<Rightarrow> (False, s)
      | Some _ \<Rightarrow> (True, s\<lparr>t_curation_cards := discard (\<lambda>c. cc_id c = card_id) (t_curation_cards s),
                         t_curation_feedback := discard (\<lambda>f. cf_card_id f = card_id) (t_curation_feedback s)\<rparr>))"

definition first_for_book :: "uuid \<Rightarrow> sess \<Rightarrow> curation_card option" where
  "first_for_book book_id s = (case cards_of_book book_id s of [] \<Rightarrow> None | c # _ \<Rightarrow> Some c)"

definition upsert_feedback :: "uuid \<Rightarrow> datetime \<Rightarrow> uuid \<Rightarrow> uuid \<Rightarrow> string \<Rightarrow> sess \<Rightarrow> unit outcome" where
  "upsert_feedback new_id now user_id card_id action s =
     (if 16 < length action then Inl DataError
      else if action \<notin> set FEEDBACK_ACTIONS \<or> \<not> user_exists user_id s \<or> card_by_id card_id s = None
      then Inl IntegrityError
      else if fetch cf_key (user_id, card_id) (t_curation_feedback s) \<noteq> None
      then Inr ((), s\<lparr>t_curation_feedback :=
             amend cf_key (user_id, card_id) (cf_action_update (\<lambda>_. action)) (t_curation_feedback s)\<rparr>)
      else bindE (insert_row cf_id True
             \<lparr>cf_id = new_id, cf_user_id = user_id, cf_card_id = card_id, cf_action = action, cf_created_at = now\<rparr>
             (t_curation_feedback s)) (\<lambda>rows. Inr ((), s\<lparr>t_curation_feedback := rows\<rparr>)))"

text \<open>The types of the cards a reader skipped or dismissed, one entry per feedback row.\<close>

definition disliked_types :: "uuid \<Rightarrow> sess \<Rightarrow> string list" where
  "disliked_types user_id s =
     List.map_filter (\<lambda>f. map_option cc_card_type (card_by_id (cf_card_id f) s))
       (filter (\<lambda>f. cf_user_id f = user_id \<and> cf_action f \<in> {''skip'', ''dismiss''}) (t_curation_feedback s))"

definition deprioritized_card_types :: "uuid \<Rightarrow> nat \<Rightarrow> sess \<Rightarrow> string list" where
  "deprioritized_card_types user_id threshold s =
     (let types = disliked_types user_id s
      in filter (\<lambda>t. threshold \<le> length (filter (\<lambda>u. u = t) types)) (remdups types))"

section \<open>Service\<close>

definition MAX_CARDS_PER_BOOK :: nat where "MAX_CARDS_PER_BOOK = 5"
definition DEPRIORITIZE_THRESHOLD :: nat where "DEPRIORITIZE_THRESHOLD = 3"
definition CARD_MISSING :: error where "CARD_MISSING = DomainError NotFoundError ''CURATION_CARD_NOT_FOUND''"

definition create_card ::
    "uuid \<Rightarrow> datetime \<Rightarrow> uuid \<Rightarrow> string \<Rightarrow> pystr \<Rightarrow> pystr \<Rightarrow> int \<Rightarrow> sess \<Rightarrow> curation_card outcome" where
  "create_card new_id now book_id card_type title body order_index s =
     (if MAX_CARDS_PER_BOOK \<le> length (cards_of_book book_id s)
      then Inl (DomainError ConflictError ''CURATION_CARD_LIMIT'')
      else repo_create_card new_id now book_id card_type title body order_index s)"

definition delete_card :: "uuid \<Rightarrow> sess \<Rightarrow> unit outcome" where
  "delete_card card_id s =
     (case repo_delete_card card_id s of (deleted, s') \<Rightarrow> if deleted then Inr ((), s') else Inl CARD_MISSING)"

definition get_first_card :: "uuid \<Rightarrow> uuid option \<Rightarrow> sess \<Rightarrow> curation_card option" where
  "get_first_card book_id user_id s =
     (case user_id of
        None \<Rightarrow> first_for_book book_id s
      | Some u \<Rightarrow>
          let cards = cards_of_book book_id s
          in if cards = [] then None
             else let deprioritized = deprioritized_card_types u DEPRIORITIZE_THRESHOLD s;
                      ranked = (if deprioritized \<noteq> []
                        then sort_key (\<lambda>c. of_bool (cc_card_type c \<in> set deprioritized) :: nat) cards else cards)
                  in Some (hd ranked))"

definition record_feedback :: "uuid \<Rightarrow> datetime \<Rightarrow> uuid \<Rightarrow> uuid \<Rightarrow> string \<Rightarrow> sess \<Rightarrow> unit outcome" where
  "record_feedback new_id now user_id card_id action s =
     (if card_by_id card_id s = None then Inl CARD_MISSING
      else upsert_feedback new_id now user_id card_id action s)"

section \<open>Endpoints\<close>

definition post_feedback :: "uuid \<Rightarrow> datetime \<Rightarrow> uuid \<Rightarrow> uuid \<Rightarrow> string \<Rightarrow> sess \<Rightarrow> unit outcome" where
  "post_feedback new_id now user_id card_id action s =
     bindE (guardE (action \<in> set FEEDBACK_ACTIONS) ValueError) (\<lambda>_.
       record_feedback new_id now user_id card_id action s)"

definition admin_create_card ::
    "pystr result \<Rightarrow> uuid \<Rightarrow> datetime \<Rightarrow> uuid \<Rightarrow> string \<Rightarrow> pystr \<Rightarrow> pystr \<Rightarrow> int \<Rightarrow> sess \<Rightarrow> curation_card outcome" where
  "admin_create_card admin new_id now book_id card_type title body order_index s =
     bindE admin (\<lambda>_.
     bindE (guardE (card_type \<in> set CARD_TYPES \<and> length title \<le> 100 \<and> 1 \<le> length body) ValueError) (\<lambda>_.
       create_card new_id now book_id card_type title body order_index s))"

definition admin_delete_card :: "pystr result \<Rightarrow> uuid \<Rightarrow> sess \<Rightarrow> unit outcome" where
  "admin_delete_card admin card_id s = bindE admin (\<lambda>_. delete_card card_id s)"

text \<open>The request for the first card: a token that does not resolve counts as anonymous.\<close>

definition first_card_request :: "jwt \<Rightarrow> datetime \<Rightarrow> pystr option \<Rightarrow> uuid \<Rightarrow> sess \<Rightarrow> curation_card option result" where
  "first_card_request lib now authorization book_id s =
     (case current_user_id_optional lib now authorization of
        None \<Rightarrow> Inr (get_first_card book_id None s)
      | Some sub \<Rightarrow> bindE (required ValueError (parse_uuid sub)) (\<lambda>u. Inr (get_first_card book_id (Some u) s)))"

section \<open>The cap and the vote\<close>

datatype curation_op =
    CreateCard "pystr result" uuid datetime uuid string pystr pystr int
  | DeleteCard "pystr result" uuid
  | Feedback uuid datetime uuid uuid string

fun curation_step :: "curation_op \<Rightarrow> sess \<Rightarrow> error + sess" where
  "curation_step (CreateCard a i now b ty ti bo k) s = ret (admin_create_card a i now b ty ti bo k s)"
| "curation_step (DeleteCard a i) s = ret (admin_delete_card a i s)"
| "curation_step (Feedback i now u c act) s = ret (post_feedback i now u c act s)"

definition curation_inv :: "sess \<Rightarrow> bool" where
  "curation_inv s \<longleftrightarrow> (\<forall>b. length (filter (\<lambda>c. cc_book_id c = b) (t_curation_cards s)) \<le> MAX_CARDS_PER_BOOK)
     \<and> distinct (map cf_key (t_curation_feedback s))
     \<and> (\<forall>f\<in>set (t_curation_feedback s). card_by_id (cf_card_id f) s \<noteq> None)"

lemma length_cards [simp]: "length (cards_of_book b s) = length (filter (\<lambda>c. cc_book_id c = b) (t_curation_cards s))"
  by (simp add: cards_of_book_def)

lemma curation_step_inv:
  assumes "curation_inv s" "curation_step x s = Inr s'"
  shows "curation_inv s'"
proof (cases x)
  case (CreateCard a i now b ty ti bo k)
  then obtain c where r: "repo_create_card i now b ty ti bo k s = Inr (c, s')"
    and room: "length (filter (\<lambda>c. cc_book_id c = b) (t_curation_cards s)) < MAX_CARDS_PER_BOOK"
    using assms(2) by (auto simp: admin_create_card_def create_card_def split: if_splits)
  from r have c: "s' = s\<lparr>t_curation_cards := t_curation_cards s @ [c]\<rparr>" "cc_book_id c = b" "cc_id c \<notin> cc_id ` set (t_curation_cards s)"
    by (auto simp: repo_create_card_def Let_def insert_row_Inr_iff split: if_splits)
  have "card_by_id k s' = (if k = cc_id c then Some c else card_by_id k s)" for k
    using c fetch_snoc [of cc_id c "t_curation_cards s" k] by (simp add: card_by_id_def fetch_None_iff)
  then show ?thesis using assms(1) room by (auto simp: curation_inv_def) (auto simp: c)
next
  case (DeleteCard a i)
  then have s': "s' = s\<lparr>t_curation_cards := discard (\<lambda>c. cc_id c = i) (t_curation_cards s),
      t_curation_feedback := discard (\<lambda>f. cf_card_id f = i) (t_curation_feedback s)\<rparr>"
    using assms(2) by (auto simp: admin_delete_card_def delete_card_def repo_delete_card_def split: option.splits)
  have le: "length (filter P (discard Q xs)) \<le> length (filter P xs)" for P Q and xs :: "curation_card list"
    by (induction xs) (auto simp: discard_def)
  have "length (filter (\<lambda>c. cc_book_id c = b) (t_curation_cards s')) \<le> MAX_CARDS_PER_BOOK" for b
    using assms(1) le [of "\<lambda>c. cc_book_id c = b" "\<lambda>c. cc_id c = i" "t_curation_cards s"] order_trans
    by (force simp: curation_inv_def s')
  moreover have "card_by_id k s' = (if k = i then None else card_by_id k s)" for k
    by (simp add: s' card_by_id_def fetch_discard_key)
  ultimately show ?thesis using assms(1) by (simp add: curation_inv_def) (simp add: s' distinct_map_discard)
next
  case (Feedback i now u c act)
  have "map cf_key (amend cf_key (u, c) (cf_action_update (\<lambda>_. act)) rows) = map cf_key rows" for rows
    by (rule map_key_amend) (simp add: cf_key_def)
  moreover have "\<exists>g\<in>set rows. cf_card_id g = cf_card_id f" if "f \<in> set (amend cf_key (u, c) (cf_action_update (\<lambda>_. act)) rows)" for f rows
    using that by (auto simp: set_amend split: if_splits)
  moreover have "(u, c) \<notin> cf_key ` set (t_curation_feedback s)" if "fetch cf_key (u, c) (t_curation_feedback s) = None"
    using that by (simp add: fetch_None_iff)
  ultimately show ?thesis using assms Feedback
    by (fastforce simp: post_feedback_def record_feedback_def upsert_feedback_def curation_inv_def card_by_id_def
        insert_row_Inr_iff cf_key_def split: if_splits)
qed

interpretation curation: guarded_machine curation_step curation_inv
  by unfold_locales (rule curation_step_inv)

section \<open>The first card\<close>

lemma sort_by_bool: "sort_key (\<lambda>c. of_bool (P c) :: nat) xs = filter (\<lambda>c. \<not> P c) xs @ filter P xs"
proof (induction xs)
  case (Cons x xs)
  have ins: "insort_key (\<lambda>c. of_bool (P c) :: nat) x (ys @ zs) = (if P x then ys @ x # zs else x # ys @ zs)"
    if "\<forall>y\<in>set ys. \<not> P y" "\<forall>z\<in>set zs. P z" for ys zs
    using that
  proof (induction ys)
    case Nil
    then show ?case by (cases zs) auto
  qed auto
  show ?case by (simp add: Cons ins)
qed simp

text \<open>
  The personalised first card. For a reader, the cards of the types they have skipped or dismissed
  at least three times count after all others, and within both groups the editorial order is kept:
  the card shown is the first of that list, and a card is shown whenever the book has one. Without
  a reader, or for one with no such type, it is the first card in editorial order.
\<close>

theorem first_card_ranked:
  "(let disliked = (\<lambda>c. 3 \<le> length (filter (\<lambda>t. t = cc_card_type c) (disliked_types u s)));
        cards = cards_of_book b s;
        pick = (\<lambda>xs. case xs of [] \<Rightarrow> None | c # _ \<Rightarrow> Some c)
    in get_first_card b (Some u) s = pick (filter (\<lambda>c. \<not> disliked c) cards @ filter disliked cards) \<and>
       get_first_card b None s = pick cards)"
proof -
  define disliked where "disliked c \<longleftrightarrow> 3 \<le> length (filter (\<lambda>t. t = cc_card_type c) (disliked_types u s))" for c :: curation_card
  define cards where "cards = cards_of_book b s"
  define depr where "depr = deprioritized_card_types u DEPRIORITIZE_THRESHOLD s"
  have mem: "cc_card_type c \<in> set depr \<longleftrightarrow> disliked c" for c
  proof -
    have "cc_card_type c \<in> set (disliked_types u s)" if "disliked c"
      using that filter_empty_conv [of "\<lambda>t. t = cc_card_type c" "disliked_types u s"]
      by (cases "filter (\<lambda>t. t = cc_card_type c) (disliked_types u s)") (auto simp: disliked_def)
    then show ?thesis by (auto simp: depr_def deprioritized_card_types_def disliked_def DEPRIORITIZE_THRESHOLD_def Let_def)
  qed
  have "sort_key (\<lambda>c. of_bool (cc_card_type c \<in> set depr) :: nat) cards = filter (\<lambda>c. \<not> disliked c) cards @ filter disliked cards"
    unfolding mem by (rule sort_by_bool)
  moreover have "filter (\<lambda>c. \<not> disliked c) cards @ filter disliked cards = cards" if "depr = []"
    using that mem by simp
  ultimately have ranked: "(if depr \<noteq> [] then sort_key (\<lambda>c. of_bool (cc_card_type c \<in> set depr) :: nat) cards else cards) =
      filter (\<lambda>c. \<not> disliked c) cards @ filter disliked cards" by simp
  have ne: "cards \<noteq> [] \<Longrightarrow> filter (\<lambda>c. \<not> disliked c) cards @ filter disliked cards \<noteq> []"
    by (cases cards) auto
  have "get_first_card b (Some u) s = (case filter (\<lambda>c. \<not> disliked c) cards @ filter disliked cards of [] \<Rightarrow> None | c # _ \<Rightarrow> Some c)"
    unfolding get_first_card_def option.case Let_def cards_def [symmetric] depr_def [symmetric] ranked
    using ne by (auto split: list.split)
  then show ?thesis by (simp add: Let_def get_first_card_def first_for_book_def flip: disliked_def cards_def)
qed

text \<open>A book never carries more than five cards, and a reader has one vote on a card.\<close>

lemma cards_capped:
  assumes "curation_inv s" "s' = run curation_step s ops"
  shows "length (cards_of_book b s') \<le> 5" "distinct (map cf_key (t_curation_feedback s'))"
  using curation.run_inv [OF assms(1), of ops] assms(2) by (simp_all add: curation_inv_def MAX_CARDS_PER_BOOK_def)

end
