(* ===== verification/Meetups.thy ===== *)
theory Meetups
  imports Reviews ReadingMachine Demo
begin

text \<open>
  Offline meetups: the repository and the service of \<open>backend/app/domains/event\<close>. The C library's
  functions behind Python's \<open>math\<close> are parameters (\<open>libm\<close>); the arithmetic around them is rounded
  float arithmetic. Coordinates are floats, as the rationals they denote.
\<close>

section \<open>Distance\<close>

record libm =
  lm_sin :: "rat \<Rightarrow> rat"
  lm_cos :: "rat \<Rightarrow> rat"
  lm_asin :: "rat \<Rightarrow> rat"
  lm_sqrt :: "rat \<Rightarrow> rat"
  lm_square :: "rat \<Rightarrow> rat"

text \<open>\<open>math.radians\<close> multiplies by the float nearest to the quotient of the float pi and 180.\<close>

definition radians :: "rat \<Rightarrow> rat" where
  "radians x = fl (x * (5030569068109113 / 288230376151711744))"

definition EARTH_RADIUS_KM :: rat where "EARTH_RADIUS_KM = 1751249564065805 / 274877906944"
definition KM_PER_DEG_LAT :: rat where "KM_PER_DEG_LAT = 111"
definition POLE_GUARD :: rat where "POLE_GUARD = fl (1 / 100)"
definition MEETUP_PAGE_SIZE :: nat where "MEETUP_PAGE_SIZE = 20"

text \<open>\<open>math.asin\<close> and \<open>math.sqrt\<close> raise outside their domain.\<close>

definition haversine_km :: "libm \<Rightarrow> rat \<Rightarrow> rat \<Rightarrow> rat \<Rightarrow> rat \<Rightarrow> rat result" where
  "haversine_km m lat1 lng1 lat2 lng2 =
     (let d_lat = radians (fl (lat2 - lat1));
          d_lng = radians (fl (lng2 - lng1));
          a = fl (lm_square m (lm_sin m (fl (d_lat / 2))) +
                  fl (fl (lm_cos m (radians lat1) * lm_cos m (radians lat2)) * lm_square m (lm_sin m (fl (d_lng / 2)))))
      in if a < 0 then Inl ValueError
         else let r = lm_sqrt m a
              in if 1 < r then Inl ValueError else Inr (fl (fl (2 * EARTH_RADIUS_KM) * lm_asin m r)))"

section \<open>Repository\<close>

record meetup_draft =
  md_club_id :: "uuid option"
  md_book_id :: "uuid option"
  md_title :: pystr
  md_description :: "pystr option"
  md_address :: "pystr option"
  md_lat :: "rat option"
  md_lng :: "rat option"
  md_category :: "pystr option"
  md_event_at :: datetime
  md_max_attendees :: "int option"
  md_is_public :: bool

definition repo_create_meetup :: "uuid \<Rightarrow> datetime \<Rightarrow> uuid \<Rightarrow> meetup_draft \<Rightarrow> sess \<Rightarrow> meetup outcome" where
  "repo_create_meetup new_id now creator_id d s =
     (let row = \<lparr>mu_id = new_id, mu_creator_id = creator_id, mu_club_id = md_club_id d, mu_book_id = md_book_id d,
                 mu_title = md_title d, mu_description = md_description d, mu_address = md_address d,
                 mu_lat = md_lat d, mu_lng = md_lng d, mu_category = md_category d, mu_event_at = md_event_at d,
                 mu_max_attendees = md_max_attendees d, mu_is_public = md_is_public d, mu_deleted_at = None,
                 mu_created_at = now\<rparr>;
          ok = (user_exists creator_id s \<and> (\<forall>c\<in>set_option (md_club_id d). fetch rc_id c (t_clubs s) \<noteq> None)
                \<and> (\<forall>b\<in>set_option (md_book_id d). book_exists b s))
      in if 200 < length (md_title d) \<or> (\<exists>c\<in>set_option (md_category d). 32 < length c)
            \<or> (\<exists>n\<in>set_option (md_max_attendees d). \<not> int4 n)
         then Inl DataError
         else bindE (insert_row mu_id ok row (t_meetups s)) (\<lambda>rows. Inr (row, s\<lparr>t_meetups := rows\<rparr>)))"

definition get_meetup :: "uuid \<Rightarrow> sess \<Rightarrow> meetup option result" where
  "get_meetup event_id s =
     scalar_one_or_none (filter (\<lambda>e. mu_id e = event_id \<and> mu_deleted_at e = None) (t_meetups s))"

definition soft_delete_meetup :: "datetime \<Rightarrow> uuid \<Rightarrow> sess \<Rightarrow> sess" where
  "soft_delete_meetup now event_id s =
     (case fetch mu_id event_id (t_meetups s) of
        None \<Rightarrow> s
      | Some e \<Rightarrow> if mu_deleted_at e \<noteq> None then s
          else s\<lparr>t_meetups := amend mu_id event_id (mu_deleted_at_update (\<lambda>_. Some now)) (t_meetups s)\<rparr>)"

definition queue_of :: "uuid \<Rightarrow> sess \<Rightarrow> waitlist_entry list" where
  "queue_of event_id s = filter (\<lambda>w. wl_event_id w = event_id) (t_waitlist s)"

definition joined_count :: "uuid \<Rightarrow> sess \<Rightarrow> int" where
  "joined_count event_id s = int (length (queue_of event_id s))"

definition between :: "rat \<Rightarrow> rat \<Rightarrow> rat option \<Rightarrow> bool" where
  "between lo hi x = (case x of None \<Rightarrow> False | Some v \<Rightarrow> lo \<le> v \<and> v \<le> hi)"

definition candidates_in_bbox ::
    "rat \<Rightarrow> rat \<Rightarrow> rat \<Rightarrow> rat \<Rightarrow> pystr option \<Rightarrow> datetime option \<Rightarrow> sess \<Rightarrow> (meetup \<times> int) list" where
  "candidates_in_bbox min_lat max_lat min_lng max_lng category since s =
     map (\<lambda>e. (e, joined_count (mu_id e) s))
       (filter (\<lambda>e. mu_deleted_at e = None \<and> mu_is_public e \<and> between min_lat max_lat (mu_lat e)
             \<and> between min_lng max_lng (mu_lng e) \<and> (category = None \<or> mu_category e = category)
             \<and> (\<forall>t\<in>set_option since. t \<le> mu_event_at e))
          (t_meetups s))"

definition is_on_waitlist :: "uuid \<Rightarrow> uuid \<Rightarrow> sess \<Rightarrow> bool" where
  "is_on_waitlist event_id user_id s \<longleftrightarrow> list_ex (\<lambda>w. wl_user_id w = user_id) (queue_of event_id s)"

definition add_to_waitlist :: "uuid \<Rightarrow> datetime \<Rightarrow> uuid \<Rightarrow> uuid \<Rightarrow> sess \<Rightarrow> unit outcome" where
  "add_to_waitlist new_id now event_id user_id s =
     bindE (insert_row wl_id
         (fetch mu_id event_id (t_meetups s) \<noteq> None \<and> user_exists user_id s
           \<and> fetch wl_key (event_id, user_id) (t_waitlist s) = None)
         \<lparr>wl_id = new_id, wl_event_id = event_id, wl_user_id = user_id, wl_queued_at = now\<rparr> (t_waitlist s)) (\<lambda>rows.
       Inr ((), s\<lparr>t_waitlist := rows\<rparr>))"

definition remove_from_waitlist :: "uuid \<Rightarrow> uuid \<Rightarrow> sess \<Rightarrow> bool \<times> sess" where
  "remove_from_waitlist event_id user_id s =
     (if \<not> is_on_waitlist event_id user_id s then (False, s)
      else (True, s\<lparr>t_waitlist := discard (\<lambda>w. wl_key w = (event_id, user_id)) (t_waitlist s)\<rparr>))"

definition has_meetup_review :: "uuid \<Rightarrow> uuid \<Rightarrow> sess \<Rightarrow> bool" where
  "has_meetup_review event_id reviewer_id s \<longleftrightarrow>
     list_ex (\<lambda>r. evr_event_id r = event_id \<and> evr_reviewer_id r = reviewer_id) (t_meetup_reviews s)"

text \<open>
  \<open>Decimal(str(x))\<close>: the decimal with the fewest digits since the point that is read back as the
  same float.
\<close>

definition py_decimal :: "rat \<Rightarrow> rat" where
  "py_decimal x =
     (case List.find (\<lambda>k. fl (of_int (rne (x * 10 ^ k)) / 10 ^ k) = x) [0..<18] of
        None \<Rightarrow> x | Some k \<Rightarrow> of_int (rne (x * 10 ^ k)) / 10 ^ k)"

text \<open>
  The row keeps the rating rounded to a tenth; the object returned to the caller is not read back
  and still holds the rating as it was sent.
\<close>

definition repo_create_meetup_review ::
    "uuid \<Rightarrow> datetime \<Rightarrow> uuid \<Rightarrow> uuid \<Rightarrow> rat \<Rightarrow> pystr option \<Rightarrow> sess \<Rightarrow> meetup_review outcome" where
  "repo_create_meetup_review new_id now event_id reviewer_id rating body s =
     bindE (numeric21 rating) (\<lambda>n.
       let row = \<lparr>evr_id = new_id, evr_event_id = event_id, evr_reviewer_id = reviewer_id, evr_rating = n,
                  evr_body = body, evr_created_at = now\<rparr>
       in bindE (insert_row evr_id
             (fetch mu_id event_id (t_meetups s) \<noteq> None \<and> user_exists reviewer_id s
               \<and> fetch evr_key (event_id, reviewer_id) (t_meetup_reviews s) = None)
             row (t_meetup_reviews s)) (\<lambda>rows.
          Inr (row, s\<lparr>t_meetup_reviews := rows\<rparr>)))"

definition list_meetup_reviews :: "uuid \<Rightarrow> sess \<Rightarrow> meetup_review list" where
  "list_meetup_reviews event_id s =
     order_desc evr_created_at (filter (\<lambda>r. evr_event_id r = event_id) (t_meetup_reviews s))"

section \<open>Service\<close>

definition EVENT_MISSING :: error where "EVENT_MISSING = DomainError NotFoundError ''EVENT_NOT_FOUND''"

definition require_meetup :: "uuid \<Rightarrow> sess \<Rightarrow> meetup result" where
  "require_meetup event_id s = bindE (get_meetup event_id s) (\<lambda>e. required EVENT_MISSING e)"

record meetup_response =
  mq_event :: meetup
  mq_joined_count :: int
  mq_distance_km :: "rat option"

definition meetup_response_of :: "meetup \<Rightarrow> int \<Rightarrow> rat option \<Rightarrow> meetup_response" where
  "meetup_response_of e joined distance =
     \<lparr>mq_event = e, mq_joined_count = joined, mq_distance_km = map_option (\<lambda>d. py_round d 1) distance\<rparr>"

text \<open>The candidates within the radius, with their distances, in the order they came.\<close>

primrec within_radius ::
    "libm \<Rightarrow> rat \<Rightarrow> rat \<Rightarrow> rat \<Rightarrow> (meetup \<times> int) list \<Rightarrow> (rat \<times> meetup_response) list result" where
  "within_radius m lat lng radius_km [] = Inr []"
| "within_radius m lat lng radius_km (c # cs) =
     (case (mu_lat (fst c), mu_lng (fst c)) of
        (Some elat, Some elng) \<Rightarrow>
          bindE (haversine_km m lat lng elat elng) (\<lambda>distance.
          bindE (within_radius m lat lng radius_km cs) (\<lambda>rest.
            Inr (if distance \<le> radius_km
                 then (distance, meetup_response_of (fst c) (snd c) (Some distance)) # rest else rest)))
      | _ \<Rightarrow> within_radius m lat lng radius_km cs)"

record nearby_response =
  nb_items :: "meetup_response list"
  nb_page :: int
  nb_has_more :: bool

definition nearby_all ::
    "libm \<Rightarrow> rat \<Rightarrow> rat \<Rightarrow> rat \<Rightarrow> pystr option \<Rightarrow> datetime option \<Rightarrow> sess \<Rightarrow> (rat \<times> meetup_response) list result" where
  "nearby_all m lat lng radius_km category since s =
     (let d_lat = fl (radius_km / KM_PER_DEG_LAT);
          d_lng = fl (radius_km / fl (KM_PER_DEG_LAT * max (lm_cos m (radians lat)) POLE_GUARD))
      in bindE (within_radius m lat lng radius_km
             (candidates_in_bbox (fl (lat - d_lat)) (fl (lat + d_lat)) (fl (lng - d_lng)) (fl (lng + d_lng))
                category since s)) (\<lambda>near.
           Inr (sort_key fst near)))"

definition get_nearby_events ::
    "libm \<Rightarrow> rat \<Rightarrow> rat \<Rightarrow> rat \<Rightarrow> int \<Rightarrow> pystr option \<Rightarrow> datetime option \<Rightarrow> sess \<Rightarrow> nearby_response result" where
  "get_nearby_events m lat lng radius_km page0 category since s =
     (let page = (if page0 < 1 then 1 else page0)
      in bindE (nearby_all m lat lng radius_km category since s) (\<lambda>near.
           let offset = nat (page - 1) * MEETUP_PAGE_SIZE
           in Inr \<lparr>nb_items = map snd (take MEETUP_PAGE_SIZE (drop offset near)), nb_page = page,
                   nb_has_more = offset + MEETUP_PAGE_SIZE < length near\<rparr>))"

definition create_meetup :: "uuid \<Rightarrow> datetime \<Rightarrow> uuid \<Rightarrow> meetup_draft \<Rightarrow> sess \<Rightarrow> meetup_response outcome" where
  "create_meetup new_id now creator_id d s =
     bindE (repo_create_meetup new_id now creator_id d s) (\<lambda>(e, s'). Inr (meetup_response_of e 0 None, s'))"

definition cancel_meetup :: "datetime \<Rightarrow> uuid \<Rightarrow> uuid \<Rightarrow> sess \<Rightarrow> unit outcome" where
  "cancel_meetup now user_id event_id s =
     bindE (require_meetup event_id s) (\<lambda>e.
     bindE (guardE (mu_creator_id e = user_id) (DomainError PermissionDeniedError ''PERMISSION_DENIED'')) (\<lambda>_.
     Inr ((), soft_delete_meetup now event_id s)))"

record waitlist_status =
  wt_event_id :: uuid
  wt_position :: int
  wt_confirmed :: bool

definition join_waitlist :: "uuid \<Rightarrow> datetime \<Rightarrow> uuid \<Rightarrow> uuid \<Rightarrow> sess \<Rightarrow> waitlist_status outcome" where
  "join_waitlist new_id now user_id event_id s =
     bindE (require_meetup event_id s) (\<lambda>e.
     bindE (guardE (\<not> is_on_waitlist event_id user_id s) (DomainError ConflictError ''ALREADY_JOINED'')) (\<lambda>_.
     bindE (add_to_waitlist new_id now event_id user_id s) (\<lambda>(_, s1).
       let position = joined_count event_id s1;
           confirmed = (case mu_max_attendees e of None \<Rightarrow> True | Some n \<Rightarrow> position \<le> n)
       in Inr (\<lparr>wt_event_id = event_id, wt_position = position, wt_confirmed = confirmed\<rparr>, s1))))"

definition leave_waitlist :: "uuid \<Rightarrow> uuid \<Rightarrow> sess \<Rightarrow> unit outcome" where
  "leave_waitlist user_id event_id s =
     bindE (require_meetup event_id s) (\<lambda>_.
       case remove_from_waitlist event_id user_id s of (removed, s') \<Rightarrow>
         if removed then Inr ((), s') else Inl (DomainError NotFoundError ''NOT_ON_WAITLIST''))"

definition create_meetup_review ::
    "uuid \<Rightarrow> datetime \<Rightarrow> uuid \<Rightarrow> uuid \<Rightarrow> rat \<Rightarrow> pystr option \<Rightarrow> sess \<Rightarrow> (meetup_review \<times> rat) outcome" where
  "create_meetup_review new_id now reviewer_id event_id rating body s =
     bindE (require_meetup event_id s) (\<lambda>e.
     bindE (guardE (mu_event_at e < now) (DomainError ConflictError ''REVIEW_TOO_EARLY'')) (\<lambda>_.
     bindE (guardE (\<not> has_meetup_review event_id reviewer_id s) (DomainError ConflictError ''ALREADY_REVIEWED'')) (\<lambda>_.
     bindE (repo_create_meetup_review new_id now event_id reviewer_id (py_decimal rating) body s) (\<lambda>(review, s').
       Inr ((review, rating), s')))))"

text \<open>The request model bounds the rating.\<close>

definition post_meetup_review ::
    "uuid \<Rightarrow> datetime \<Rightarrow> uuid \<Rightarrow> uuid \<Rightarrow> rat \<Rightarrow> pystr option \<Rightarrow> sess \<Rightarrow> (meetup_review \<times> rat) outcome" where
  "post_meetup_review new_id now user_id event_id rating body s =
     bindE (guardE (1/2 \<le> rating \<and> rating \<le> 5) ValueError) (\<lambda>_.
       create_meetup_review new_id now user_id event_id rating body s)"

text \<open>\<open>sum\<close> over floats keeps a compensation term (Python 3.12).\<close>

fun compensated :: "rat list \<Rightarrow> rat \<Rightarrow> rat \<Rightarrow> rat" where
  "compensated [] f c = (if c \<noteq> 0 then fl (f + c) else f)"
| "compensated (x # xs) f c =
     (let t = fl (f + x);
          d = (if \<bar>x\<bar> \<le> \<bar>f\<bar> then fl (fl (f - t) + x) else fl (fl (x - t) + f))
      in compensated xs t (fl (c + d)))"

definition py_float_sum :: "rat list \<Rightarrow> rat" where
  "py_float_sum xs = compensated xs 0 0"

record meetup_reviews =
  mv_items :: "meetup_review list"
  mv_average_rating :: "rat option"
  mv_count :: int

definition reviews_summary :: "uuid \<Rightarrow> sess \<Rightarrow> meetup_reviews" where
  "reviews_summary event_id s =
     (let items = list_meetup_reviews event_id s
      in \<lparr>mv_items = items,
          mv_average_rating = (if items = [] then None
            else Some (py_round (fl (py_float_sum (map (\<lambda>r. rating_float (evr_rating r)) items) / of_nat (length items))) 1)),
          mv_count = int (length items)\<rparr>)"

definition get_meetup_reviews :: "uuid \<Rightarrow> sess \<Rightarrow> meetup_reviews result" where
  "get_meetup_reviews event_id s = bindE (require_meetup event_id s) (\<lambda>_. Inr (reviews_summary event_id s))"

definition get_event_detail :: "uuid \<Rightarrow> sess \<Rightarrow> (meetup_response \<times> meetup_reviews) result" where
  "get_event_detail event_id s =
     bindE (require_meetup event_id s) (\<lambda>e.
       Inr (meetup_response_of e (joined_count event_id s) None, reviews_summary event_id s))"

end
