(* ===== verification/MeetupProps.thy ===== *)
theory MeetupProps
  imports Meetups
begin

text \<open>
  The waitlist refines one first-come queue per meetup, and the pages of a nearby search cut one
  sorted list.
\<close>

section \<open>The queue\<close>

type_synonym queues = "uuid \<Rightarrow> uuid list"

inductive queue_move :: "queues \<Rightarrow> queues \<Rightarrow> bool" where
  Quiet: "queue_move q q"
| Join: "u \<notin> set (q e) \<Longrightarrow> queue_move q (q(e := q e @ [u]))"
| Leave: "u \<in> set (q e) \<Longrightarrow> queue_move q (q(e := remove1 u (q e)))"

datatype meetup_op =
    CreateMeetup uuid datetime uuid meetup_draft
  | CancelMeetup datetime uuid uuid
  | JoinWaitlist uuid datetime uuid uuid
  | LeaveWaitlist uuid uuid
  | ReviewMeetup uuid datetime uuid uuid rat "pystr option"

fun meetup_step :: "meetup_op \<Rightarrow> sess \<Rightarrow> error + sess" where
  "meetup_step (CreateMeetup i now u d) s = ret (create_meetup i now u d s)"
| "meetup_step (CancelMeetup now u e) s = ret (cancel_meetup now u e s)"
| "meetup_step (JoinWaitlist i now u e) s = ret (join_waitlist i now u e s)"
| "meetup_step (LeaveWaitlist u e) s = ret (leave_waitlist u e s)"
| "meetup_step (ReviewMeetup i now u e r b) s = ret (post_meetup_review i now u e r b s)"

definition queues_of :: "sess \<Rightarrow> queues" where
  "queues_of s e = map wl_user_id (queue_of e s)"

definition waitlist_inv :: "sess \<Rightarrow> bool" where
  "waitlist_inv s \<longleftrightarrow> (\<forall>e. distinct (queues_of s e))"

lemma on_waitlist: "is_on_waitlist e u s \<longleftrightarrow> u \<in> set (queues_of s e)"
  by (auto simp: is_on_waitlist_def queues_of_def list_ex_iff)

lemma queues_cong: "t_waitlist s' = t_waitlist s \<Longrightarrow> queues_of s' = queues_of s"
  by (simp add: queues_of_def queue_of_def fun_eq_iff)

lemma join_waitlist_Inr:
  assumes "join_waitlist i now u e s = Inr (x, s')"
  obtains m where "require_meetup e s = Inr m" "u \<notin> set (queues_of s e)" "queues_of s' = (queues_of s)(e := queues_of s e @ [u])"
    "x = \<lparr>wt_event_id = e, wt_position = int (length (queues_of s' e)),
       wt_confirmed = (case mu_max_attendees m of None \<Rightarrow> True | Some n \<Rightarrow> int (length (queues_of s' e)) \<le> n)\<rparr>"
proof -
  obtain m where m: "require_meetup e s = Inr m" "\<not> is_on_waitlist e u s" "add_to_waitlist i now e u s = Inr ((), s')"
    and x: "x = \<lparr>wt_event_id = e, wt_position = joined_count e s',
       wt_confirmed = (case mu_max_attendees m of None \<Rightarrow> True | Some n \<Rightarrow> joined_count e s' \<le> n)\<rparr>"
    using assms by (auto simp: join_waitlist_def Let_def)
  have "t_waitlist s' = t_waitlist s @ [\<lparr>wl_id = i, wl_event_id = e, wl_user_id = u, wl_queued_at = now\<rparr>]"
    using m(3) by (auto simp: add_to_waitlist_def insert_row_Inr_iff)
  then have q: "queues_of s' = (queues_of s)(e := queues_of s e @ [u])"
    by (auto simp: queues_of_def queue_of_def fun_eq_iff)
  have jc: "joined_count e s' = int (length (queues_of s' e))" by (simp add: joined_count_def queues_of_def)
  from x have "x = \<lparr>wt_event_id = e, wt_position = int (length (queues_of s' e)),
       wt_confirmed = (case mu_max_attendees m of None \<Rightarrow> True | Some n \<Rightarrow> int (length (queues_of s' e)) \<le> n)\<rparr>" unfolding jc .
  then show ?thesis using that m(1,2) q by (simp add: on_waitlist)
qed

lemma discard_queue:
  assumes "distinct (map wl_user_id (filter (\<lambda>w. wl_event_id w = e) rows))"
  shows "map wl_user_id (filter (\<lambda>w. wl_event_id w = d) (discard (\<lambda>w. wl_key w = (e, u)) rows)) =
    (if d = e then remove1 u (map wl_user_id (filter (\<lambda>w. wl_event_id w = e) rows))
     else map wl_user_id (filter (\<lambda>w. wl_event_id w = d) rows))"
proof (cases "d = e")
  case True
  have "filter (\<lambda>w. wl_event_id w = e) (discard (\<lambda>w. wl_key w = (e, u)) rows) =
      filter (\<lambda>w. wl_user_id w \<noteq> u) (filter (\<lambda>w. wl_event_id w = e) rows)"
    by (auto simp: discard_def wl_key_def intro: filter_cong)
  then show ?thesis using True assms by (simp add: distinct_remove1_removeAll removeAll_filter_not_eq filter_map comp_def)
      (metis (mono_tags, lifting) filter_cong)
next
  case False
  then have "filter (\<lambda>w. wl_event_id w = d) (discard (\<lambda>w. wl_key w = (e, u)) rows) = filter (\<lambda>w. wl_event_id w = d) rows"
    by (auto simp: discard_def wl_key_def intro: filter_cong)
  with False show ?thesis by simp
qed

lemma meetup_step_move:
  assumes "waitlist_inv s" "meetup_step x s = Inr s'"
  shows "waitlist_inv s' \<and> queue_move (queues_of s) (queues_of s')"
proof -
  have quiet: "t_waitlist s' = t_waitlist s \<Longrightarrow> waitlist_inv s' \<and> queue_move (queues_of s) (queues_of s')"
    using queues_cong [of s' s] assms(1) by (simp add: waitlist_inv_def Quiet)
  show ?thesis
  proof (cases x)
    case (CreateMeetup i now u d)
    then show ?thesis using assms(2) quiet by (auto simp: create_meetup_def repo_create_meetup_def Let_def split: if_splits)
  next
    case (CancelMeetup now u e)
    then show ?thesis using assms(2) quiet by (auto simp: cancel_meetup_def soft_delete_meetup_def split: option.splits if_splits)
  next
    case (JoinWaitlist i now u e)
    then obtain y where j: "join_waitlist i now u e s = Inr (y, s')" using assms(2) by auto
    then show ?thesis
    proof (cases rule: join_waitlist_Inr)
      case (1 m)
      then show ?thesis using assms(1) Join [of u "queues_of s" e] by (simp add: waitlist_inv_def)
    qed
  next
    case (LeaveWaitlist u e)
    then have u: "u \<in> set (queues_of s e)" and s': "s' = s\<lparr>t_waitlist := discard (\<lambda>w. wl_key w = (e, u)) (t_waitlist s)\<rparr>"
      using assms(2) by (auto simp: leave_waitlist_def remove_from_waitlist_def simp flip: on_waitlist split: if_splits)
    have "distinct (map wl_user_id (filter (\<lambda>w. wl_event_id w = e) (t_waitlist s)))"
      using assms(1) by (simp add: waitlist_inv_def queues_of_def queue_of_def)
    then have "queues_of s' = (queues_of s)(e := remove1 u (queues_of s e))"
      by (auto simp: queues_of_def queue_of_def s' discard_queue fun_eq_iff)
    then show ?thesis using assms(1) u Leave [of u "queues_of s" e] by (simp add: waitlist_inv_def)
  next
    case (ReviewMeetup i now u e r b)
    then show ?thesis using assms(2) quiet
      by (auto simp: post_meetup_review_def create_meetup_review_def repo_create_meetup_review_def Let_def)
  qed
qed

interpretation waitlists: refinement meetup_step waitlist_inv queues_of queue_move
  by unfold_locales (use meetup_step_move in blast)+

text \<open>
  C20. The waitlist of every meetup is a first-come queue: through any sequence of requests its queue is
  only appended to, or loses one member, with everybody else keeping their order; nobody is in it
  twice. Whoever joins is told their place, which is the length of the queue with them at its end,
  and is confirmed exactly when that place is within the capacity.
\<close>

theorem waitlist_refines_queue:
  assumes "waitlist_inv s" "s' = run meetup_step s ops"
  shows "queue_move\<^sup>*\<^sup>* (queues_of s) (queues_of s') \<and> (\<forall>e. distinct (queues_of s' e)) \<and>
    (\<forall>i now u e x s''. join_waitlist i now u e s' = Inr (x, s'') \<longrightarrow>
       (\<exists>m. require_meetup e s' = Inr m \<and> queues_of s'' e = queues_of s' e @ [u] \<and>
          wt_position x = int (length (queues_of s' e)) + 1 \<and>
          (wt_confirmed x \<longleftrightarrow> (\<forall>n\<in>set_option (mu_max_attendees m). int (length (queues_of s' e)) < n))))"
proof (intro conjI allI impI)
  show "queue_move\<^sup>*\<^sup>* (queues_of s) (queues_of s')" using waitlists.run_moves [OF assms(1)] assms(2) by simp
  show "distinct (queues_of s' e)" for e using waitlists.run_inv [OF assms(1), of ops] assms(2) by (simp add: waitlist_inv_def)
  fix i now u e x s'' assume "join_waitlist i now u e s' = Inr (x, s'')"
  then show "\<exists>m. require_meetup e s' = Inr m \<and> queues_of s'' e = queues_of s' e @ [u] \<and>
      wt_position x = int (length (queues_of s' e)) + 1 \<and>
      (wt_confirmed x \<longleftrightarrow> (\<forall>n\<in>set_option (mu_max_attendees m). int (length (queues_of s' e)) < n))"
  proof (cases rule: join_waitlist_Inr)
    case (1 m)
    then show ?thesis by (intro exI [of _ m]) (auto split: option.splits)
  qed
qed

definition demo_meetup :: meetup where
  "demo_meetup = \<lparr>mu_id = 600, mu_creator_id = 1, mu_club_id = None, mu_book_id = None, mu_title = ascii ''Picnic'',
     mu_description = None, mu_address = None, mu_lat = Some 37, mu_lng = Some 127, mu_category = None, mu_event_at = t0,
     mu_max_attendees = Some 1, mu_is_public = True, mu_deleted_at = None, mu_created_at = t0\<rparr>"

definition demo_meetups :: sess where
  "demo_meetups = demo\<lparr>t_meetups := [demo_meetup]\<rparr>"

lemma demo_meetups_inv: "waitlist_inv demo_meetups"
  by (simp add: waitlist_inv_def queues_of_def queue_of_def demo_meetups_def demo_def empty_sess_def)

lemma waitlist_refines_queue_witness:
  "\<exists>x s''. join_waitlist 602 t0 2 600 (run meetup_step demo_meetups [JoinWaitlist 601 t0 1 600]) = Inr (x, s'') \<and>
     wt_position x = 2 \<and> \<not> wt_confirmed x"
proof -
  let ?s = "run meetup_step demo_meetups [JoinWaitlist 601 t0 1 600]"
  note ev = join_waitlist_def require_meetup_def get_meetup_def is_on_waitlist_def queue_of_def add_to_waitlist_def
    insert_row_def joined_count_def demo_meetups_def demo_meetup_def user_exists_def Let_def wl_key_def demo_def empty_sess_def ret_def
  have "\<exists>x s''. join_waitlist 602 t0 2 600 ?s = Inr (x, s'')" "queues_of ?s 600 = [1]" "require_meetup 600 ?s = Inr demo_meetup"
    by (simp_all add: ev queues_of_def)
  then obtain x s'' where j: "join_waitlist 602 t0 2 600 ?s = Inr (x, s'')" and q: "queues_of ?s 600 = [1]"
    and m: "require_meetup 600 ?s = Inr demo_meetup" by blast
  obtain m' where m': "require_meetup 600 ?s = Inr m'" and pos: "wt_position x = int (length (queues_of ?s 600)) + 1"
    and conf: "wt_confirmed x \<longleftrightarrow> (\<forall>n\<in>set_option (mu_max_attendees m'). int (length (queues_of ?s 600)) < n)"
    using conjunct2 [OF conjunct2 [OF waitlist_refines_queue [OF demo_meetups_inv refl, of "[JoinWaitlist 601 t0 1 600]"]],
        rule_format, OF j] by blast
  have "m' = demo_meetup" using m m' by (metis sum.inject(2))
  with pos conf have "wt_position x = 2" "\<not> wt_confirmed x" unfolding q by (simp_all add: demo_meetup_def)
  with j show ?thesis by blast
qed

section \<open>Nearby meetups\<close>

lemma pages_take: "concat (map (\<lambda>p. take n (drop (p * n) xs)) [0..<k]) = take (k * n) xs"
proof (induction k)
  case (Suc k)
  have "take (Suc k * n) xs = take (k * n) xs @ take n (drop (k * n) xs)"
    by (metis add.commute mult_Suc take_add)
  with Suc show ?case by simp
qed simp

definition in_reach :: "libm \<Rightarrow> rat \<Rightarrow> rat \<Rightarrow> rat \<Rightarrow> meetup \<times> int \<Rightarrow> rat \<Rightarrow> bool" where
  "in_reach m lat lng r c d \<longleftrightarrow> (\<exists>a b. mu_lat (fst c) = Some a \<and> mu_lng (fst c) = Some b \<and>
     haversine_km m lat lng a b = Inr d \<and> d \<le> r)"

lemma within_radius_Cons:
  assumes "within_radius m lat lng r (c # cs) = Inr near"
  obtains rest where "within_radius m lat lng r cs = Inr rest"
    "\<And>d x. (d, x) \<in> set near \<longleftrightarrow> (d, x) \<in> set rest \<or> in_reach m lat lng r c d \<and> x = meetup_response_of (fst c) (snd c) (Some d)"
    "near = rest \<or> (\<exists>d. near = (d, meetup_response_of (fst c) (snd c) (Some d)) # rest)"
proof (cases "\<exists>a b. mu_lat (fst c) = Some a \<and> mu_lng (fst c) = Some b")
  case True
  then obtain a b where ab: "mu_lat (fst c) = Some a" "mu_lng (fst c) = Some b" by blast
  with assms obtain d rest where "haversine_km m lat lng a b = Inr d" "within_radius m lat lng r cs = Inr rest"
    "near = (if d \<le> r then (d, meetup_response_of (fst c) (snd c) (Some d)) # rest else rest)" by auto
  then show ?thesis
    by (intro that [of rest]) (use ab in \<open>simp_all add: in_reach_def split: if_splits\<close>, blast+)
next
  case False
  then have "within_radius m lat lng r cs = Inr near" using assms by (auto split: option.splits)
  with False show ?thesis by (intro that [of near]) (auto simp: in_reach_def)
qed

lemma within_radius_mem:
  "within_radius m lat lng r cs = Inr near \<Longrightarrow> (d, x) \<in> set near \<longleftrightarrow>
    (\<exists>c\<in>set cs. in_reach m lat lng r c d \<and> x = meetup_response_of (fst c) (snd c) (Some d))"
proof (induction cs arbitrary: near)
  case (Cons c cs)
  show ?case
  proof (rule within_radius_Cons [OF Cons.prems])
    fix rest assume r: "within_radius m lat lng r cs = Inr rest"
      and mem: "\<And>d x. (d, x) \<in> set near \<longleftrightarrow> (d, x) \<in> set rest \<or> in_reach m lat lng r c d \<and> x = meetup_response_of (fst c) (snd c) (Some d)"
    show ?thesis unfolding mem Cons.IH [OF r] by simp blast
  qed
qed simp

lemma within_radius_ids:
  "within_radius m lat lng r cs = Inr near \<Longrightarrow> distinct (map (mu_id \<circ> fst) cs) \<Longrightarrow> distinct (map (\<lambda>(d, x). mu_id (mq_event x)) near)"
proof (induction cs arbitrary: near)
  case (Cons c cs)
  obtain rest where rest: "within_radius m lat lng r cs = Inr rest" "near = rest \<or>
      (\<exists>d. near = (d, meetup_response_of (fst c) (snd c) (Some d)) # rest)"
    by (rule within_radius_Cons [OF Cons.prems(1)]) (rule that)
  have mem: "mu_id (mq_event x) \<in> (mu_id \<circ> fst) ` set cs" if dx: "(d, x) \<in> set rest" for d x
  proof -
    obtain e where e: "e \<in> set cs" "x = meetup_response_of (fst e) (snd e) (Some d)"
      using dx within_radius_mem [OF rest(1)] by blast
    have "mu_id (mq_event x) = (mu_id \<circ> fst) e" by (simp add: e(2) meetup_response_of_def)
    with e(1) show ?thesis by blast
  qed
  have "mu_id (fst c) \<notin> (\<lambda>(d, x). mu_id (mq_event x)) ` set rest"
  proof
    assume "mu_id (fst c) \<in> (\<lambda>(d, x). mu_id (mq_event x)) ` set rest"
    then obtain d x where "(d, x) \<in> set rest" "mu_id (fst c) = mu_id (mq_event x)" by auto
    with mem [of d x] Cons.prems(2) show False by simp
  qed
  moreover have "distinct (map (\<lambda>(d, x). mu_id (mq_event x)) rest)" using Cons.IH [OF rest(1)] Cons.prems(2) by simp
  moreover have "mu_id (mq_event (meetup_response_of (fst c) (snd c) d)) = mu_id (fst c)" for d by (simp add: meetup_response_of_def)
  ultimately show ?case using rest(2) by (elim disjE exE) simp_all
qed simp

definition listed :: "pystr option \<Rightarrow> datetime option \<Rightarrow> meetup \<Rightarrow> bool" where
  "listed category since e \<longleftrightarrow> mu_deleted_at e = None \<and> mu_is_public e \<and> (category = None \<or> mu_category e = category)
     \<and> (\<forall>t\<in>set_option since. t \<le> mu_event_at e)"

lemma nearby_all_Inr:
  assumes "nearby_all m lat lng r cat since s = Inr near" "distinct (map mu_id (t_meetups s))"
  shows "sorted (map fst near)" "distinct (map (\<lambda>(d, x). mu_id (mq_event x)) near)"
    "(d, x) \<in> set near \<Longrightarrow> d \<le> r \<and> mq_distance_km x = Some (py_round d 1) \<and> mq_event x \<in> set (t_meetups s) \<and>
       listed cat since (mq_event x) \<and> mq_joined_count x = joined_count (mu_id (mq_event x)) s \<and>
       (\<exists>a b. mu_lat (mq_event x) = Some a \<and> mu_lng (mq_event x) = Some b \<and> haversine_km m lat lng a b = Inr d)"
proof -
  obtain a b c e w where w: "within_radius m lat lng r (candidates_in_bbox a b c e cat since s) = Inr w" and near: "near = sort_key fst w"
    using assms(1) by (auto simp: nearby_all_def Let_def)
  show "sorted (map fst near)" by (simp add: near)
  have "distinct (map (mu_id \<circ> fst) (candidates_in_bbox a b c e cat since s))"
    using assms(2) by (simp add: candidates_in_bbox_def comp_def distinct_map_filter)
  from within_radius_ids [OF w this] show "distinct (map (\<lambda>(d, x). mu_id (mq_event x)) near)"
    by (simp add: near) (metis (no_types, lifting) mset_eq_imp_distinct_iff mset_map mset_sort)
  assume "(d, x) \<in> set near"
  then have "(d, x) \<in> set w" by (simp add: near)
  then show "d \<le> r \<and> mq_distance_km x = Some (py_round d 1) \<and> mq_event x \<in> set (t_meetups s) \<and>
       listed cat since (mq_event x) \<and> mq_joined_count x = joined_count (mu_id (mq_event x)) s \<and>
       (\<exists>a b. mu_lat (mq_event x) = Some a \<and> mu_lng (mq_event x) = Some b \<and> haversine_km m lat lng a b = Inr d)"
    unfolding within_radius_mem [OF w] by (auto simp: candidates_in_bbox_def meetup_response_of_def listed_def in_reach_def)
qed

text \<open>
  The pages of a nearby search cut one list: the public meetups that are not cancelled, of the
  category asked for, within the radius, each once and nearest first. Reading the first \<open>k\<close> pages
  one after the other gives its first \<open>20 * k\<close> entries, none repeated and none skipped, and
  \<open>has_more\<close> says exactly whether entries are left.
\<close>

theorem nearby_pages_cut_one_list:
  assumes "distinct (map mu_id (t_meetups s))" "get_nearby_events m lat lng r 1 cat since s = Inr first"
  shows "\<exists>near. sorted (map fst near) \<and> distinct (map (\<lambda>(d, x). mu_id (mq_event x)) near) \<and>
    (\<forall>(d, x)\<in>set near. d \<le> r \<and> mq_distance_km x = Some (py_round d 1) \<and> mq_event x \<in> set (t_meetups s) \<and>
       listed cat since (mq_event x) \<and> mq_joined_count x = joined_count (mu_id (mq_event x)) s \<and>
       (\<exists>a b. mu_lat (mq_event x) = Some a \<and> mu_lng (mq_event x) = Some b \<and> haversine_km m lat lng a b = Inr d)) \<and>
    (\<forall>k. \<exists>pages. length pages = k \<and> concat (map nb_items pages) = take (20 * k) (map snd near) \<and>
       (\<forall>p<k. get_nearby_events m lat lng r (int p + 1) cat since s = Inr (pages ! p) \<and>
          (nb_has_more (pages ! p) \<longleftrightarrow> 20 * (p + 1) < length near)))"
proof -
  obtain near where near: "nearby_all m lat lng r cat since s = Inr near"
    using assms(2) by (auto simp: get_nearby_events_def Let_def)
  note N = nearby_all_Inr [OF near assms(1)]
  define page where "page p = \<lparr>nb_items = map snd (take 20 (drop (p * 20) near)), nb_page = int p + 1,
      nb_has_more = 20 * (p + 1) < length near\<rparr>" for p
  have get: "get_nearby_events m lat lng r (int p + 1) cat since s = Inr (page p)" for p
    by (simp add: get_nearby_events_def near page_def MEETUP_PAGE_SIZE_def Let_def add.commute mult.commute)
  have "concat (map nb_items (map page [0..<k])) = take (20 * k) (map snd near)" for k
    using pages_take [of 20 "map snd near" k] by (simp add: page_def comp_def take_map drop_map mult.commute)
  then have "\<exists>pages. length pages = k \<and> concat (map nb_items pages) = take (20 * k) (map snd near) \<and>
       (\<forall>p<k. get_nearby_events m lat lng r (int p + 1) cat since s = Inr (pages ! p) \<and>
          (nb_has_more (pages ! p) \<longleftrightarrow> 20 * (p + 1) < length near))" for k
    by (intro exI [of _ "map page [0..<k]"]) (simp add: get, simp add: page_def)
  then show ?thesis
    by (intro exI [of _ near] conjI N(1,2) allI) (clarify, erule N(3))
qed

definition flat_libm :: libm where
  "flat_libm = \<lparr>lm_sin = (\<lambda>x. x), lm_cos = (\<lambda>x. 1), lm_asin = (\<lambda>x. x), lm_sqrt = (\<lambda>x. 0), lm_square = (\<lambda>x. x * x)\<rparr>"

lemma flat_haversine: "haversine_km flat_libm a b c d = Inr 0"
proof -
  have "0 \<le> fl (x * x + fl (fl (1 * 1) * (y * y)))" for x y :: rat by (simp add: fl_nonneg)
  then show ?thesis by (simp add: haversine_km_def flat_libm_def Let_def not_less)
qed

lemma nearby_pages_cut_one_list_witness:
  "\<exists>near :: (rat \<times> meetup_response) list. sorted (map fst near) \<and> (\<forall>(d, x)\<in>set near. d \<le> 5 \<and> mq_event x \<in> set (t_meetups demo_meetups))"
proof -
  have "\<exists>near. within_radius flat_libm lat lng r cs = Inr near" for lat lng r cs
    by (induction cs) (auto simp: flat_haversine split: option.splits)
  then have "\<exists>first. get_nearby_events flat_libm 37 127 5 1 None None demo_meetups = Inr first"
    by (simp add: get_nearby_events_def nearby_all_def Let_def)
  then obtain first where f: "get_nearby_events flat_libm 37 127 5 1 None None demo_meetups = Inr first" by blast
  have "distinct (map mu_id (t_meetups demo_meetups))" by (simp add: demo_meetups_def)
  from nearby_pages_cut_one_list [OF this f] show ?thesis
  proof (elim exE conjE)
    fix near :: "(rat \<times> meetup_response) list" assume "sorted (map fst near)"
      and "\<forall>(d, x)\<in>set near. d \<le> 5 \<and> mq_distance_km x = Some (py_round d 1) \<and> mq_event x \<in> set (t_meetups demo_meetups) \<and>
         listed None None (mq_event x) \<and> mq_joined_count x = joined_count (mu_id (mq_event x)) demo_meetups \<and>
         (\<exists>a b. mu_lat (mq_event x) = Some a \<and> mu_lng (mq_event x) = Some b \<and> haversine_km flat_libm 37 127 a b = Inr d)"
    then show ?thesis by (intro exI [of _ near]) auto
  qed
qed

text \<open>
  The box does not wrap at the date line: from 100 degrees east on, nothing west of 100 degrees
  west is a candidate, however close it is across the line.
\<close>

lemma date_line_missed:
  assumes "100 \<le> lng" "0 < r" "r \<le> 100" "(e, n) \<in> set (candidates_in_bbox a b (fl (lng - d)) c cat since s)"
    and "mu_lng e = Some x" "d \<le> 100"
  shows "0 \<le> x"
  using assms fl_nonneg [of "lng - d"] by (auto simp: candidates_in_bbox_def between_def)

end
