(* ===== verification/Digest.thy ===== *)
theory Digest
  imports Prelude "HOL-Library.Word"
begin

text \<open>
  The parts of Python's \<open>hashlib\<close>, \<open>hmac\<close> and \<open>base64\<close> the application calls: SHA-256 on 32-bit
  words, \<open>hexdigest\<close>, HMAC-SHA256 and \<open>b64encode\<close>. Bytes are numbers below 256.
\<close>

unbundle bit_operations_syntax

section \<open>Bytes\<close>

type_synonym bytes = "nat list"

text \<open>\<open>str.encode()\<close>: UTF-8 (a lone surrogate, which cannot be encoded, does not come out of JSON here).\<close>

definition utf8_char :: "nat \<Rightarrow> bytes" where
  "utf8_char c =
     (if c < 128 then [c]
      else if c < 2048 then [192 + c div 64, 128 + c mod 64]
      else if c < 65536 then [224 + c div 4096, 128 + c div 64 mod 64, 128 + c mod 64]
      else [240 + c div 262144, 128 + c div 4096 mod 64, 128 + c div 64 mod 64, 128 + c mod 64])"

definition utf8 :: "pystr \<Rightarrow> bytes" where
  "utf8 p = concat (map utf8_char p)"

definition be_number :: "bytes \<Rightarrow> nat" where
  "be_number bs = foldl (\<lambda>n b. 256 * n + b) 0 bs"

definition be_bytes :: "nat \<Rightarrow> nat \<Rightarrow> bytes" where
  "be_bytes k n = map (\<lambda>i. n div 256 ^ (k - Suc i) mod 256) [0..<k]"

section \<open>SHA-256\<close>

text \<open>
  The round constants are the first 32 bits of the fractional parts of the cube roots of the first 64
  primes, the initial value those of the square roots of the first eight: \<open>root_floor k n\<close> is the
  integer part of the \<open>k\<close>-th root, found bit by bit.
\<close>

definition root_floor :: "nat \<Rightarrow> nat \<Rightarrow> nat" where
  "root_floor k n = foldl (\<lambda>r b. if (r + 2 ^ b) ^ k \<le> n then r + 2 ^ b else r) 0 (rev [0..<40])"

definition round_primes :: "nat list" where
  "round_primes =
    [2, 3, 5, 7, 11, 13, 17, 19, 23, 29, 31, 37, 41, 43, 47, 53, 59, 61, 67, 71, 73, 79,
     83, 89, 97, 101, 103, 107, 109, 113, 127, 131, 137, 139, 149, 151, 157, 163, 167, 173, 179, 181, 191, 193,
     197, 199, 211, 223, 227, 229, 233, 239, 241, 251, 257, 263, 269, 271, 277, 281, 283, 293, 307, 311]"

definition sha_K :: "32 word list" where
  "sha_K = map (\<lambda>p. of_nat (root_floor 3 (p * 2 ^ 96))) round_primes"

definition sha_init :: "32 word list" where
  "sha_init = map (\<lambda>p. of_nat (root_floor 2 (p * 2 ^ 64))) (take 8 round_primes)"

definition rotr :: "nat \<Rightarrow> 32 word \<Rightarrow> 32 word" where
  "rotr n w = drop_bit n w OR push_bit (32 - n) w"

fun extend_schedule :: "nat \<Rightarrow> 32 word list \<Rightarrow> 32 word list" where
  "extend_schedule 0 w = w"
| "extend_schedule (Suc k) w =
     (let n = length w; x = w ! (n - 15); y = w ! (n - 2);
          s0 = rotr 7 x XOR rotr 18 x XOR drop_bit 3 x;
          s1 = rotr 17 y XOR rotr 19 y XOR drop_bit 10 y
      in extend_schedule k (w @ [w ! (n - 16) + s0 + w ! (n - 7) + s1]))"

fun sha_round :: "32 word list \<Rightarrow> 32 word \<times> 32 word \<Rightarrow> 32 word list" where
  "sha_round [a, b, c, d, e, f, g, h] (k, w) =
     (let s1 = rotr 6 e XOR rotr 11 e XOR rotr 25 e;
          ch = (e AND f) XOR (NOT e AND g);
          t1 = h + s1 + ch + k + w;
          s0 = rotr 2 a XOR rotr 13 a XOR rotr 22 a;
          maj = (a AND b) XOR (a AND c) XOR (b AND c)
      in [t1 + (s0 + maj), a, b, c, d + t1, e, f, g])"
| "sha_round v _ = v"

fun chunks :: "nat \<Rightarrow> 'a list \<Rightarrow> 'a list list" where
  "chunks n [] = []"
| "chunks n (x # xs) = (x # take (n - 1) xs) # chunks n (drop (n - 1) xs)"

definition sha_block :: "32 word list \<Rightarrow> bytes \<Rightarrow> 32 word list" where
  "sha_block v block =
     (let w = extend_schedule 48 (map (\<lambda>q. of_nat (be_number q)) (chunks 4 block))
      in map2 (+) v (foldl sha_round v (zip sha_K w)))"

definition sha_pad :: "bytes \<Rightarrow> bytes" where
  "sha_pad m = m @ [128] @ replicate ((119 - length m mod 64) mod 64) 0 @ be_bytes 8 (8 * length m)"

definition sha256 :: "bytes \<Rightarrow> bytes" where
  "sha256 m = concat (map (\<lambda>w. be_bytes 4 (unat w)) (foldl sha_block sha_init (chunks 64 (sha_pad m))))"

section \<open>HMAC, hexadecimal and base64\<close>

definition hmac_key :: "bytes \<Rightarrow> bytes" where
  "hmac_key k = (let k' = (if 64 < length k then sha256 k else k) in k' @ replicate (64 - length k') 0)"

definition byte_xor :: "nat \<Rightarrow> nat \<Rightarrow> nat" where
  "byte_xor a b = a XOR b"

definition hmac_sha256 :: "bytes \<Rightarrow> bytes \<Rightarrow> bytes" where
  "hmac_sha256 k m =
     sha256 (map (byte_xor 92) (hmac_key k) @ sha256 (map (byte_xor 54) (hmac_key k) @ m))"

definition hexdigest :: "bytes \<Rightarrow> pystr" where
  "hexdigest bs = concat (map (\<lambda>b. [hex_digit (b div 16), hex_digit (b mod 16)]) bs)"

text \<open>\<open>int(hexdigest, 16)\<close> is the number the digest writes, first byte first.\<close>

definition hex_number :: "pystr \<Rightarrow> nat" where
  "hex_number h = foldl (\<lambda>n c. 16 * n + (if c < 58 then c - 48 else c - 87)) 0 h"

definition b64_char :: "nat \<Rightarrow> nat" where
  "b64_char d = (if d < 26 then 65 + d else if d < 52 then 71 + d else if d < 62 then d - 4 else if d = 62 then 43 else 47)"

fun b64encode :: "bytes \<Rightarrow> pystr" where
  "b64encode (a # b # c # bs) =
     [b64_char (a div 4), b64_char (a mod 4 * 16 + b div 16), b64_char (b mod 16 * 4 + c div 64), b64_char (c mod 64)] @ b64encode bs"
| "b64encode [a, b] = [b64_char (a div 4), b64_char (a mod 4 * 16 + b div 16), b64_char (b mod 16 * 4), 61]"
| "b64encode [a] = [b64_char (a div 4), b64_char (a mod 4 * 16), 61, 61]"
| "b64encode [] = []"

text \<open>\<open>str(n)\<close>.\<close>

fun nat_str :: "nat \<Rightarrow> pystr" where
  "nat_str n = (if n < 10 then [48 + n] else nat_str (n div 10) @ [48 + n mod 10])"

declare nat_str.simps [simp del]

definition int_str :: "int \<Rightarrow> pystr" where
  "int_str i = (if i < 0 then 45 # nat_str (nat (- i)) else nat_str (nat i))"

section \<open>Laws\<close>

lemma length_concat_bytes: "length (concat (map (\<lambda>w. be_bytes k (f w)) ws)) = k * length ws"
  by (induction ws) (simp_all add: be_bytes_def)

lemma length_sha_round [simp]: "length (sha_round v x) = length v"
  by (cases "(v, x)" rule: sha_round.cases) (simp_all add: Let_def)

lemma length_foldl_round [simp]: "length (foldl sha_round v xs) = length v"
  by (induction xs arbitrary: v) simp_all

lemma length_sha_block [simp]: "length (sha_block v b) = length v"
  by (simp add: sha_block_def Let_def)

lemma length_foldl_block [simp]: "length (foldl sha_block v bs) = length v"
  by (induction bs arbitrary: v) simp_all

lemma length_sha_init: "length sha_init = 8"
  by (simp add: sha_init_def round_primes_def)

lemma length_sha256 [simp]: "length (sha256 m) = 32"
  by (simp add: sha256_def length_concat_bytes length_sha_init)

lemma bytes_sha256: "b \<in> set (sha256 m) \<Longrightarrow> b < 256"
  by (auto simp: sha256_def be_bytes_def)

lemma length_hexdigest [simp]: "length (hexdigest bs) = 2 * length bs"
  unfolding hexdigest_def by (induction bs) simp_all

lemma hex_digit_of: "d < 16 \<Longrightarrow> (if hex_digit d < 58 then hex_digit d - 48 else hex_digit d - 87) = d"
  by (auto simp: hex_digit_def)

lemma hex_number_digest:
  assumes "\<forall>b\<in>set bs. b < 256"
  shows "hex_number (hexdigest bs) = be_number bs"
proof -
  have "foldl (\<lambda>n c. 16 * n + (if c < 58 then c - 48 else c - 87)) k (hexdigest bs) = foldl (\<lambda>n b. 256 * n + b) k bs" for k
    using assms
  proof (induction bs arbitrary: k)
    case (Cons b bs)
    have b: "b div 16 < 16" "b mod 16 < 16" using Cons.prems by auto
    have "16 * (16 * k + b div 16) + b mod 16 = 256 * k + b" using div_mult_mod_eq [of b 16] by (simp add: algebra_simps)
    then show ?case using Cons by (simp add: hexdigest_def hex_digit_of [OF b(1)] hex_digit_of [OF b(2)] add.commute)
  qed (simp add: hexdigest_def)
  then show ?thesis by (simp add: hex_number_def be_number_def)
qed

end
