(* ===== verification/Experiments.thy ===== *)
theory Experiments
  imports Digest Subscription Auth ReadingMachine Demo
begin

text \<open>
  A/B experiments: the repository, the service and the endpoints of
  \<open>backend/app/domains/experiment\<close>, and the activation of a subscription, which the container
  wires to record a conversion.
\<close>

section \<open>Repository\<close>

definition active_experiments :: "sess \<Rightarrow> ab_experiment list" where
  "active_experiments s = filter xp_is_active (t_experiments s)"

definition assignment_of :: "uuid \<Rightarrow> string \<Rightarrow> sess \<Rightarrow> user_experiment option" where
  "assignment_of user_id key s = fetch ux_key (user_id, key) (t_user_experiments s)"

definition bucket :: "uuid \<Rightarrow> string \<Rightarrow> string list \<Rightarrow> string" where
  "bucket user_id key variants =
     variants ! (hex_number (hexdigest (sha256 (utf8 (uuid_hex user_id @ ascii key)))) mod length variants)"

text \<open>
  An integrity error rolls the transaction back and looks for the row of a concurrent request;
  in a sequence of requests there is none (the user is unknown), and the assertion fails.
\<close>

definition get_or_assign_variant ::
    "uuid \<Rightarrow> datetime \<Rightarrow> uuid \<Rightarrow> string \<Rightarrow> string list \<Rightarrow> sess \<Rightarrow> user_experiment outcome" where
  "get_or_assign_variant new_id now user_id key variants s =
     (case assignment_of user_id key s of
        Some row \<Rightarrow> Inr (row, s)
      | None \<Rightarrow>
          if variants = [] then Inl ZeroDivisionError
          else
            let row = \<lparr>ux_id = new_id, ux_user_id = user_id, ux_experiment_key = key,
                       ux_variant = bucket user_id key variants, ux_assigned_at = now, ux_converted_at = None\<rparr>
            in if 64 < length key \<or> 64 < length (ux_variant row) then Inl DataError
               else case insert_row ux_id (user_exists user_id s) row (t_user_experiments s) of
                      Inl _ \<Rightarrow> Inl AssertionError
                    | Inr rows \<Rightarrow> Inr (row, s\<lparr>t_user_experiments := rows\<rparr>))"

definition get_assignments :: "uuid \<Rightarrow> sess \<Rightarrow> user_experiment list" where
  "get_assignments user_id s = filter (\<lambda>r. ux_user_id r = user_id) (t_user_experiments s)"

definition convert_row :: "datetime \<Rightarrow> uuid \<Rightarrow> string \<Rightarrow> user_experiment \<Rightarrow> user_experiment" where
  "convert_row now user_id key r =
     (if ux_user_id r = user_id \<and> ux_experiment_key r = key \<and> ux_converted_at r = None
      then r\<lparr>ux_converted_at := Some now\<rparr> else r)"

definition repo_record_conversion :: "datetime \<Rightarrow> uuid \<Rightarrow> string \<Rightarrow> sess \<Rightarrow> sess" where
  "repo_record_conversion now user_id key s =
     s\<lparr>t_user_experiments := map (convert_row now user_id key) (t_user_experiments s)\<rparr>"

record variant_stats =
  va_total :: int
  va_converted :: int
  va_conversion_rate :: rat

definition repo_experiment_stats :: "string \<Rightarrow> sess \<Rightarrow> (string \<times> variant_stats) list" where
  "repo_experiment_stats key s =
     (let rows = filter (\<lambda>r. ux_experiment_key r = key) (t_user_experiments s)
      in map (\<lambda>v.
           let number = int (length (filter (\<lambda>r. ux_variant r = v) rows));
               converted = int (length (filter (\<lambda>r. ux_variant r = v \<and> ux_converted_at r \<noteq> None) rows))
           in (v, \<lparr>va_total = number, va_converted = converted,
                   va_conversion_rate = py_round (if 0 < number then true_div converted number else 0) 4\<rparr>))
         (remdups (map ux_variant rows)))"

section \<open>Service and endpoints\<close>

text \<open>\<open>fresh k\<close> is the identifier of the row the \<open>k\<close>-th experiment may need.\<close>

primrec assign_all ::
    "(nat \<Rightarrow> uuid) \<Rightarrow> datetime \<Rightarrow> uuid \<Rightarrow> nat \<Rightarrow> ab_experiment list \<Rightarrow> sess \<Rightarrow> user_experiment list outcome" where
  "assign_all fresh now user_id k [] s = Inr ([], s)"
| "assign_all fresh now user_id k (x # xs) s =
     bindE (get_or_assign_variant (fresh k) now user_id (xp_experiment_key x) (xp_variants x) s) (\<lambda>(row, s1).
     bindE (assign_all fresh now user_id (Suc k) xs s1) (\<lambda>(rows, s2).
     Inr (row # rows, s2)))"

definition get_user_assignments ::
    "(nat \<Rightarrow> uuid) \<Rightarrow> datetime \<Rightarrow> uuid \<Rightarrow> sess \<Rightarrow> (string \<times> string \<times> datetime) list outcome" where
  "get_user_assignments fresh now user_id s =
     bindE (assign_all fresh now user_id 0 (active_experiments s) s) (\<lambda>(rows, s').
       Inr (map (\<lambda>r. (ux_experiment_key r, ux_variant r, ux_assigned_at r)) rows, s'))"

definition record_conversion :: "datetime \<Rightarrow> uuid \<Rightarrow> string \<Rightarrow> sess \<Rightarrow> unit outcome" where
  "record_conversion now user_id key s = Inr ((), repo_record_conversion now user_id key s)"

definition admin_experiment_stats :: "pystr result \<Rightarrow> string \<Rightarrow> sess \<Rightarrow> (string \<times> variant_stats) list result" where
  "admin_experiment_stats admin key s = bindE admin (\<lambda>_. Inr (repo_experiment_stats key s))"

text \<open>The subscription service as the container builds it.\<close>

definition post_verify_receipt ::
    "(string \<Rightarrow> pystr \<Rightarrow> string \<Rightarrow> verification result) \<Rightarrow> datetime \<Rightarrow> uuid \<Rightarrow> string \<Rightarrow> pystr \<Rightarrow> string \<Rightarrow> sess \<Rightarrow>
     (bool \<times> datetime option) outcome" where
  "post_verify_receipt verify now user_id platform receipt product s =
     verify_and_activate verify (Some (\<lambda>u. record_conversion now u ''paywall_entry_v1'')) user_id platform receipt product s"

section \<open>Assignments are deterministic and stay\<close>

datatype experiment_op =
    GetAssignments "nat \<Rightarrow> uuid" datetime uuid
  | Convert datetime uuid string
  | VerifyReceipt "string \<Rightarrow> pystr \<Rightarrow> string \<Rightarrow> verification result" datetime uuid string pystr string

fun experiment_step :: "experiment_op \<Rightarrow> sess \<Rightarrow> error + sess" where
  "experiment_step (GetAssignments fresh now u) s = ret (get_user_assignments fresh now u s)"
| "experiment_step (Convert now u k) s = ret (record_conversion now u k s)"
| "experiment_step (VerifyReceipt v now u pf r pr) s = ret (post_verify_receipt v now u pf r pr s)"

definition assigned_ok :: "sess \<Rightarrow> bool" where
  "assigned_ok s \<longleftrightarrow> distinct (map xp_experiment_key (t_experiments s)) \<and>
     distinct (map ux_key (t_user_experiments s)) \<and>
     (\<forall>r\<in>set (t_user_experiments s). \<exists>x\<in>set (t_experiments s). xp_experiment_key x = ux_experiment_key r \<and>
        xp_variants x \<noteq> [] \<and> ux_variant r = bucket (ux_user_id r) (ux_experiment_key r) (xp_variants x))"

definition trail :: "sess \<Rightarrow> (uuid \<times> string \<times> string \<times> datetime \<times> datetime option) set" where
  "trail s = {(ux_user_id r, ux_experiment_key r, ux_variant r, ux_assigned_at r, c) | r c.
     r \<in> set (t_user_experiments s) \<and> (c = None \<or> c = ux_converted_at r)}"

lemma trail_iff:
  "(u, k, v, t, c) \<in> trail s \<longleftrightarrow> (\<exists>r\<in>set (t_user_experiments s). ux_user_id r = u \<and> ux_experiment_key r = k \<and>
     ux_variant r = v \<and> ux_assigned_at r = t \<and> (c = None \<or> c = ux_converted_at r))"
  by (auto simp: trail_def)

lemma assign_moves:
  assumes "assigned_ok s" "get_or_assign_variant i now u (xp_experiment_key x) (xp_variants x) s = Inr (r, s')"
    "x \<in> set (t_experiments s)"
  shows "assigned_ok s' \<and> trail s \<subseteq> trail s' \<and> t_experiments s' = t_experiments s \<and>
    ux_experiment_key r = xp_experiment_key x \<and> ux_variant r = bucket u (xp_experiment_key x) (xp_variants x)"
proof (cases "assignment_of u (xp_experiment_key x) s")
  case None
  with assms(2) have r: "xp_variants x \<noteq> []" "ux_key r = (u, xp_experiment_key x)" "ux_user_id r = u" "ux_experiment_key r = xp_experiment_key x"
    "ux_variant r = bucket u (xp_experiment_key x) (xp_variants x)" "s' = s\<lparr>t_user_experiments := t_user_experiments s @ [r]\<rparr>"
    by (auto simp: get_or_assign_variant_def Let_def insert_row_Inr_iff ux_key_def split: if_splits sum.splits)
  have "(u, xp_experiment_key x) \<notin> ux_key ` set (t_user_experiments s)" using None by (simp add: assignment_of_def fetch_None_iff)
  then have "assigned_ok s'" using assms(1,3) r by (auto simp: assigned_ok_def)
  moreover have "trail s \<subseteq> trail s'" using r(6) by (auto simp: trail_def)
  ultimately show ?thesis using r by simp
next
  case (Some row)
  then have r: "r = row" "s' = s" using assms(2) by (simp_all add: get_or_assign_variant_def)
  have m: "row \<in> set (t_user_experiments s)" "ux_key row = (u, xp_experiment_key x)"
    using Some by (auto simp: assignment_of_def dest: fetch_SomeD)
  then obtain y where y: "y \<in> set (t_experiments s)" "xp_experiment_key y = xp_experiment_key x"
    "ux_variant row = bucket u (xp_experiment_key x) (xp_variants y)"
    using assms(1) by (auto simp: assigned_ok_def ux_key_def)
  have "y = x" using assms(1,3) y inj_onD [of xp_experiment_key "set (t_experiments s)" y x] by (simp add: assigned_ok_def distinct_map)
  then show ?thesis using r m y assms(1) by (simp add: ux_key_def)
qed

lemma assign_all_moves:
  "assigned_ok s \<Longrightarrow> set xs \<subseteq> set (t_experiments s) \<Longrightarrow> assign_all fresh now u k xs s = Inr (rows, s') \<Longrightarrow>
    assigned_ok s' \<and> trail s \<subseteq> trail s' \<and> t_experiments s' = t_experiments s \<and>
    map (\<lambda>r. (ux_experiment_key r, ux_variant r)) rows = map (\<lambda>x. (xp_experiment_key x, bucket u (xp_experiment_key x) (xp_variants x))) xs"
proof (induction xs arbitrary: k s rows)
  case (Cons x xs)
  then obtain r rs s1 where a: "get_or_assign_variant (fresh k) now u (xp_experiment_key x) (xp_variants x) s = Inr (r, s1)"
    and as: "assign_all fresh now u (Suc k) xs s1 = Inr (rs, s')" and rows: "rows = r # rs" by auto
  have x: "x \<in> set (t_experiments s)" using Cons.prems(2) by simp
  note s1 = assign_moves [OF Cons.prems(1) a x]
  have "set xs \<subseteq> set (t_experiments s1)" using Cons.prems(2) s1 by auto
  from Cons.IH [OF _ this as] s1 show ?case by (auto simp: rows)
qed auto

lemma convert_moves:
  assumes "assigned_ok s"
  shows "assigned_ok (repo_record_conversion now u k s) \<and> trail s \<subseteq> trail (repo_record_conversion now u k s)"
proof -
  have f: "ux_key (convert_row now u k r) = ux_key r" "ux_user_id (convert_row now u k r) = ux_user_id r"
    "ux_experiment_key (convert_row now u k r) = ux_experiment_key r" "ux_variant (convert_row now u k r) = ux_variant r"
    "ux_assigned_at (convert_row now u k r) = ux_assigned_at r"
    "ux_converted_at r = Some t \<Longrightarrow> ux_converted_at (convert_row now u k r) = Some t" for r t
    by (simp_all add: convert_row_def ux_key_def)
  have "trail s \<subseteq> trail (repo_record_conversion now u k s)"
  proof (clarify)
    fix a b c d e assume "(a, b, c, d, e) \<in> trail s"
    then obtain r where r: "r \<in> set (t_user_experiments s)" "ux_user_id r = a" "ux_experiment_key r = b"
      "ux_variant r = c" "ux_assigned_at r = d" "e = None \<or> e = ux_converted_at r" by (auto simp: trail_iff)
    have "convert_row now u k r \<in> set (t_user_experiments (repo_record_conversion now u k s))"
      using r(1) by (simp add: repo_record_conversion_def)
    moreover have "e = None \<or> e = ux_converted_at (convert_row now u k r)" using r(6) f(6) [of r] by (metis not_None_eq)
    ultimately show "(a, b, c, d, e) \<in> trail (repo_record_conversion now u k s)"
      unfolding trail_iff using r by (intro bexI [of _ "convert_row now u k r"]) (simp_all add: f)
  qed
  then show ?thesis using assms by (auto simp: assigned_ok_def repo_record_conversion_def f comp_def)
qed

lemma experiment_step_moves:
  assumes "assigned_ok s" "experiment_step x s = Inr s'"
  shows "assigned_ok s' \<and> trail s \<subseteq> trail s' \<and> t_experiments s' = t_experiments s"
proof (cases x)
  case (GetAssignments fresh now u)
  then obtain rows where "assign_all fresh now u 0 (active_experiments s) s = Inr (rows, s')"
    using assms(2) by (auto simp: get_user_assignments_def)
  from assign_all_moves [OF assms(1) _ this] show ?thesis by (auto simp: active_experiments_def)
next
  case (Convert now u k)
  then show ?thesis using assms convert_moves [OF assms(1), of now u k] by (auto simp: record_conversion_def) (simp_all add: repo_record_conversion_def)
next
  case (VerifyReceipt v now u pf r pr)
  then have "ret (post_verify_receipt v now u pf r pr s) = Inr s'" using assms(2) by simp
  then obtain xa where x: "v pf r pr = Inr xa"
    "s' = repo_record_conversion now u ''paywall_entry_v1'' (update_subscription u True (vf_expires_at xa) (Some (vf_product_id xa)) s)"
    by (auto simp: post_verify_receipt_def verify_and_activate_def record_conversion_def Let_def split: if_split_asm)
  define s1 where "s1 = update_subscription u True (vf_expires_at xa) (Some (vf_product_id xa)) s"
  have s1: "t_user_experiments s1 = t_user_experiments s" "t_experiments s1 = t_experiments s"
    by (simp_all add: s1_def update_subscription_def)
  have s': "s' = repo_record_conversion now u ''paywall_entry_v1'' s1" using x by (simp add: s1_def)
  have "assigned_ok s1" "trail s1 = trail s" using assms(1) s1 by (simp_all add: assigned_ok_def trail_def)
  then show ?thesis using convert_moves [of s1 now u] s' s1 by (auto simp: repo_record_conversion_def)
qed

interpretation experiments: monotone_machine experiment_step assigned_ok trail
  by unfold_locales (use experiment_step_moves in blast)+

lemma run_experiments_kept: "assigned_ok s \<Longrightarrow> t_experiments (run experiment_step s xs) = t_experiments s"
proof (induction xs arbitrary: s)
  case (Cons x xs)
  show ?case
  proof (cases "experiment_step x s")
    case (Inr s')
    with Cons experiment_step_moves [OF Cons.prems Inr] show ?thesis by simp
  qed (use Cons in simp)
qed simp

lemma trail_variant:
  assumes "assigned_ok s" "(u, k, v, t, c) \<in> trail s"
  shows "\<exists>x\<in>set (t_experiments s). xp_experiment_key x = k \<and> v = bucket u k (xp_variants x)"
  using assms by (fastforce simp: assigned_ok_def trail_iff)

text \<open>
  A/B assignment: when the user's experiments are answered, every active experiment has one
  row, whose variant is the deterministic bucket of the user, and however many requests follow -
  assignments for other users, conversions, subscriptions activated from a receipt - the row
  keeps its variant and its time of assignment, and a conversion once stamped keeps its time.
\<close>
theorem assignments_stay:
  assumes "assigned_ok s" "get_user_assignments fresh now u s = Inr (rows, s1)"
  shows "map (\<lambda>(k, v, _). (k, v)) rows =
      map (\<lambda>x. (xp_experiment_key x, bucket u (xp_experiment_key x) (xp_variants x))) (active_experiments s) \<and>
    trail s \<subseteq> trail s1 \<and> trail s1 \<subseteq> trail (run experiment_step s1 xs) \<and>
    (\<forall>k v t c. (u, k, v, t, c) \<in> trail (run experiment_step s1 xs) \<longrightarrow>
       (\<exists>x\<in>set (t_experiments s). xp_experiment_key x = k \<and> v = bucket u k (xp_variants x)))"
proof -
  obtain rs where r: "assign_all fresh now u 0 (active_experiments s) s = Inr (rs, s1)"
    and rows: "rows = map (\<lambda>r. (ux_experiment_key r, ux_variant r, ux_assigned_at r)) rs"
    using assms(2) by (auto simp: get_user_assignments_def)
  have "set (active_experiments s) \<subseteq> set (t_experiments s)" by (auto simp: active_experiments_def)
  note a = assign_all_moves [OF assms(1) this r]
  then have ok: "assigned_ok s1" by simp
  note kept = run_experiments_kept [OF ok, of xs]
  have e: "map (\<lambda>(k, v, _). (k, v)) rows = map (\<lambda>r. (ux_experiment_key r, ux_variant r)) rs" by (simp add: rows)
  show ?thesis using a experiments.run_rank [OF ok, of xs] trail_variant [OF experiments.run_inv [OF ok, of xs]] kept
    unfolding e by auto
qed

definition paywall_demo :: sess where
  "paywall_demo = demo\<lparr>t_experiments := [\<lparr>xp_id = 1, xp_experiment_key = ''paywall_entry_v1'', xp_description = None,
     xp_variants = [''control'', ''ring_popup''], xp_is_active = True, xp_created_at = t0\<rparr>]\<rparr>"

lemma bucket_mem: "variants \<noteq> [] \<Longrightarrow> bucket u k variants \<in> set variants"
  by (simp add: bucket_def)

lemma paywall_assigned:
  "get_user_assignments (\<lambda>k. k + 50) t0 2 paywall_demo =
    Inr ([(''paywall_entry_v1'', bucket 2 ''paywall_entry_v1'' [''control'', ''ring_popup''], t0)],
      paywall_demo\<lparr>t_user_experiments := [\<lparr>ux_id = 50, ux_user_id = 2, ux_experiment_key = ''paywall_entry_v1'',
        ux_variant = bucket 2 ''paywall_entry_v1'' [''control'', ''ring_popup''], ux_assigned_at = t0, ux_converted_at = None\<rparr>]\<rparr>)"
proof -
  have "bucket 2 ''paywall_entry_v1'' [''control'', ''ring_popup''] \<in> {''control'', ''ring_popup''}"
    using bucket_mem [of "[''control'', ''ring_popup'']" 2 "''paywall_entry_v1''"] by simp
  then have "length (bucket 2 ''paywall_entry_v1'' [''control'', ''ring_popup'']) \<le> 64"
    by auto
  then show ?thesis
    by (simp add: get_user_assignments_def active_experiments_def paywall_demo_def get_or_assign_variant_def assignment_of_def
        insert_row_def demo_defs user_exists_def fetch_def Let_def)
qed

theorem assignments_stay_witness:
  "trail (snd (projr (get_user_assignments (\<lambda>k. k + 50) t0 2 paywall_demo))) \<subseteq>
    trail (run experiment_step (snd (projr (get_user_assignments (\<lambda>k. k + 50) t0 2 paywall_demo)))
      [Convert (t0 + 1) 2 ''paywall_entry_v1'', Convert (t0 + 2) 2 ''paywall_entry_v1''])"
proof -
  have "assigned_ok paywall_demo" by (simp add: assigned_ok_def paywall_demo_def demo_defs)
  from assignments_stay [OF this paywall_assigned, of "[Convert (t0 + 1) 2 ''paywall_entry_v1'', Convert (t0 + 2) 2 ''paywall_entry_v1'']"]
  show ?thesis unfolding paywall_assigned sum.sel snd_conv by blast
qed

section \<open>Statistics\<close>

lemma variants_partition:
  "(\<Sum>v\<leftarrow>remdups (map f rows). length (filter (\<lambda>r. f r = v) rows)) = length rows"
proof -
  have "finite A \<Longrightarrow> f ` set rows \<subseteq> A \<Longrightarrow> (\<Sum>v\<in>A. length (filter (\<lambda>r. f r = v) rows)) = length rows" for A
  proof (induction rows)
    case (Cons r rows)
    have "(\<Sum>v\<in>A. length (filter (\<lambda>r. f r = v) (r # rows))) =
        (\<Sum>v\<in>A. (if f r = v then 1 else 0) + length (filter (\<lambda>r. f r = v) rows))"
      by (rule sum.cong) auto
    also have "\<dots> = (\<Sum>v\<in>A. if f r = v then 1 else 0) + (\<Sum>v\<in>A. length (filter (\<lambda>r. f r = v) rows))"
      by (rule sum.distrib)
    also have "\<dots> = Suc (length rows)" using Cons by simp
    finally show ?case by simp
  qed simp
  from this [of "set (map f rows)"] show ?thesis by (simp add: sum_list_distinct_conv_sum_set)
qed

lemma int_sum_list: "(\<Sum>v\<leftarrow>vs. int (f v)) = int (\<Sum>v\<leftarrow>vs. f v)"
  by (induction vs) simp_all

text \<open>
  The statistics of an experiment: one entry for each variant that has an assignment, whose totals
  add up to the assignments of the experiment, with no more conversions than assignments and a
  conversion rate - a rounded float division that never meets a zero total - between 0 and 1.
\<close>
theorem experiment_stats_partition:
  assumes "admin_experiment_stats admin key s = Inr stats"
  shows "distinct (map fst stats) \<and>
    (\<Sum>(v, a)\<leftarrow>stats. va_total a) = int (length (filter (\<lambda>r. ux_experiment_key r = key) (t_user_experiments s))) \<and>
    (\<forall>(v, a)\<in>set stats. 0 < va_total a \<and> 0 \<le> va_converted a \<and> va_converted a \<le> va_total a \<and>
       0 \<le> va_conversion_rate a \<and> va_conversion_rate a \<le> 1)"
proof -
  define rows where "rows = filter (\<lambda>r. ux_experiment_key r = key) (t_user_experiments s)"
  define number where "number v = int (length (filter (\<lambda>r. ux_variant r = v) rows))" for v
  define converted where "converted v = int (length (filter (\<lambda>r. ux_variant r = v \<and> ux_converted_at r \<noteq> None) rows))" for v
  define entry where "entry v = \<lparr>va_total = number v, va_converted = converted v,
    va_conversion_rate = py_round (if 0 < number v then true_div (converted v) (number v) else 0) 4\<rparr>" for v
  have stats: "stats = map (\<lambda>v. (v, entry v)) (remdups (map ux_variant rows))"
    using assms by (auto simp: admin_experiment_stats_def repo_experiment_stats_def rows_def entry_def number_def converted_def Let_def)
  have "converted v \<le> number v" for v
    unfolding converted_def number_def by (induction rows) auto
  moreover have "0 < number v" if "v \<in> ux_variant ` set rows" for v
    using that by (auto simp: number_def length_greater_0_conv filter_empty_conv)
  moreover have "0 \<le> converted v" for v by (simp add: converted_def)
  ultimately have "0 < number v \<and> 0 \<le> converted v \<and> converted v \<le> number v \<and>
      0 \<le> va_conversion_rate (entry v) \<and> va_conversion_rate (entry v) \<le> 1" if "v \<in> ux_variant ` set rows" for v
    using that py_round_unit [of "true_div (converted v) (number v)" 4] true_div_unit [of "converted v" "number v"]
    by (simp add: entry_def)
  moreover have "(\<Sum>v\<leftarrow>remdups (map ux_variant rows). number v) = int (length rows)"
    using variants_partition [of ux_variant rows] by (simp add: number_def int_sum_list)
  moreover have "va_total (entry v) = number v" "va_converted (entry v) = converted v" for v by (simp_all add: entry_def)
  ultimately show ?thesis by (simp add: stats comp_def case_prod_beta flip: rows_def)
qed

theorem experiment_stats_partition_witness:
  "\<exists>stats. admin_experiment_stats (Inr []) ''paywall_entry_v1'' paywall_demo = Inr stats \<and> distinct (map fst stats)"
proof -
  have "admin_experiment_stats (Inr []) ''paywall_entry_v1'' paywall_demo = Inr []"
    by (simp add: admin_experiment_stats_def repo_experiment_stats_def paywall_demo_def demo_def empty_sess_def)
  from experiment_stats_partition [OF this] this show ?thesis by blast
qed

end
