(* ===== verification/Reminders.thy ===== *)
theory Reminders
  imports ReadingMachine Demo
begin

text \<open>
  Reading reminders (\<open>backend/app/domains/reminder\<close>): the request model, the repository, the
  service and the endpoints, and the machine of their requests. A time of day is the number of its
  microseconds since midnight.
\<close>

section \<open>Request model\<close>

record reminder_create =
  rq_days_of_week :: "int list"
  rq_remind_at :: nat
  rq_is_active :: bool

text \<open>\<open>Field(min_length=1, max_length=7)\<close> measures the list as sent, before the validator.\<close>

definition validate_days :: "int list \<Rightarrow> int list result" where
  "validate_days v = (if \<not> list_all (\<lambda>d. 0 \<le> d \<and> d \<le> 6) v then Inl ValueError else Inr (sorted_list_of_set (set v)))"

definition parse_reminder :: "reminder_create \<Rightarrow> reminder_create result" where
  "parse_reminder body =
     bindE (guardE (1 \<le> length (rq_days_of_week body) \<and> length (rq_days_of_week body) \<le> 7) ValueError) (\<lambda>_.
     bindE (validate_days (rq_days_of_week body)) (\<lambda>days.
     Inr (body\<lparr>rq_days_of_week := days\<rparr>)))"

section \<open>Repository\<close>

definition reminders_by_user :: "uuid \<Rightarrow> sess \<Rightarrow> reminder list" where
  "reminders_by_user user_id s = order_asc rm_created_at (filter (\<lambda>r. rm_user_id r = user_id) (t_reminders s))"

definition reminder_by_id :: "uuid \<Rightarrow> sess \<Rightarrow> reminder option" where
  "reminder_by_id i s = fetch rm_id i (t_reminders s)"

definition repo_create_reminder :: "uuid \<Rightarrow> datetime \<Rightarrow> uuid \<Rightarrow> reminder_create \<Rightarrow> sess \<Rightarrow> reminder outcome" where
  "repo_create_reminder new_id now user_id d s =
     (let row = \<lparr>rm_id = new_id, rm_user_id = user_id, rm_days_of_week = rq_days_of_week d, rm_remind_at = rq_remind_at d,
                 rm_is_active = rq_is_active d, rm_created_at = now\<rparr>
      in bindE (insert_row rm_id (user_exists user_id s) row (t_reminders s)) (\<lambda>rows.
           Inr (row, s\<lparr>t_reminders := rows\<rparr>)))"

definition repo_update_reminder :: "uuid \<Rightarrow> reminder_create \<Rightarrow> sess \<Rightarrow> reminder option \<times> sess" where
  "repo_update_reminder i d s =
     (let s' = s\<lparr>t_reminders := amend rm_id i
            (\<lambda>r. r\<lparr>rm_days_of_week := rq_days_of_week d, rm_remind_at := rq_remind_at d, rm_is_active := rq_is_active d\<rparr>) (t_reminders s)\<rparr>
      in (reminder_by_id i s', s'))"

definition repo_delete_reminder :: "uuid \<Rightarrow> sess \<Rightarrow> sess" where
  "repo_delete_reminder i s = s\<lparr>t_reminders := discard (\<lambda>r. rm_id r = i) (t_reminders s)\<rparr>"

section \<open>Service\<close>

definition MAX_REMINDERS_PER_USER :: nat where
  "MAX_REMINDERS_PER_USER = 7"

definition REMINDER_NOT_FOUND :: error where
  "REMINDER_NOT_FOUND = DomainError NotFoundError ''REMINDER_NOT_FOUND''"

definition list_reminders :: "uuid \<Rightarrow> sess \<Rightarrow> reminder list" where
  "list_reminders user_id s = reminders_by_user user_id s"

definition create_reminder :: "uuid \<Rightarrow> datetime \<Rightarrow> uuid \<Rightarrow> reminder_create \<Rightarrow> sess \<Rightarrow> reminder outcome" where
  "create_reminder new_id now user_id d s =
     (if MAX_REMINDERS_PER_USER \<le> length (reminders_by_user user_id s)
      then Inl (DomainError ConflictError ''REMINDER_LIMIT_EXCEEDED'')
      else repo_create_reminder new_id now user_id d s)"

definition update_reminder :: "uuid \<Rightarrow> uuid \<Rightarrow> reminder_create \<Rightarrow> sess \<Rightarrow> reminder outcome" where
  "update_reminder user_id i d s =
     (case reminder_by_id i s of
        None \<Rightarrow> Inl REMINDER_NOT_FOUND
      | Some r \<Rightarrow>
          if rm_user_id r \<noteq> user_id then Inl REMINDER_NOT_FOUND
          else case repo_update_reminder i d s of
                 (None, _) \<Rightarrow> Inl REMINDER_NOT_FOUND
               | (Some r', s') \<Rightarrow> Inr (r', s'))"

definition delete_reminder :: "uuid \<Rightarrow> uuid \<Rightarrow> sess \<Rightarrow> unit outcome" where
  "delete_reminder user_id i s =
     (case reminder_by_id i s of
        None \<Rightarrow> Inl REMINDER_NOT_FOUND
      | Some r \<Rightarrow> if rm_user_id r \<noteq> user_id then Inl REMINDER_NOT_FOUND else Inr ((), repo_delete_reminder i s))"

section \<open>Endpoints\<close>

definition post_reminder :: "uuid \<Rightarrow> datetime \<Rightarrow> uuid \<Rightarrow> reminder_create \<Rightarrow> sess \<Rightarrow> reminder outcome" where
  "post_reminder new_id now user_id body s = bindE (parse_reminder body) (\<lambda>d. create_reminder new_id now user_id d s)"

definition put_reminder :: "uuid \<Rightarrow> uuid \<Rightarrow> reminder_create \<Rightarrow> sess \<Rightarrow> reminder outcome" where
  "put_reminder user_id i body s = bindE (parse_reminder body) (\<lambda>d. update_reminder user_id i d s)"

section \<open>The requests\<close>

datatype reminder_op =
    PostReminder uuid datetime uuid reminder_create
  | PutReminder uuid uuid reminder_create
  | DeleteReminder uuid uuid

fun reminder_step :: "reminder_op \<Rightarrow> sess \<Rightarrow> error + sess" where
  "reminder_step (PostReminder i now u b) s = ret (post_reminder i now u b s)"
| "reminder_step (PutReminder u i b) s = ret (put_reminder u i b s)"
| "reminder_step (DeleteReminder u i) s = ret (delete_reminder u i s)"

fun caller :: "reminder_op \<Rightarrow> uuid" where
  "caller (PostReminder i now u b) = u"
| "caller (PutReminder u i b) = u"
| "caller (DeleteReminder u i) = u"

definition days_ok :: "int list \<Rightarrow> bool" where
  "days_ok v \<longleftrightarrow> v \<noteq> [] \<and> sorted_wrt (<) v \<and> set v \<subseteq> {0..6}"

abbreviation owned :: "uuid \<Rightarrow> reminder list \<Rightarrow> reminder list" where
  "owned u rows \<equiv> filter (\<lambda>r. rm_user_id r = u) rows"

definition reminder_inv :: "sess \<Rightarrow> bool" where
  "reminder_inv s \<longleftrightarrow> distinct (map rm_id (t_reminders s)) \<and>
     (\<forall>r\<in>set (t_reminders s). days_ok (rm_days_of_week r)) \<and> (\<forall>u. length (owned u (t_reminders s)) \<le> 7)"

lemma parse_reminder_days: "parse_reminder b = Inr d \<Longrightarrow> days_ok (rq_days_of_week d)"
  by (auto simp: parse_reminder_def validate_days_def days_ok_def list_all_iff split: if_splits)

lemma length_by_user: "length (reminders_by_user u s) = length (owned u (t_reminders s))"
  by (simp add: reminders_by_user_def order_asc_def)

lemma owned_amend:
  assumes "\<And>r. rm_user_id (f r) = rm_user_id r"
  shows "length (owned u (amend rm_id i f rows)) = length (owned u rows)"
  using assms by (induction rows) auto

lemma owned_sub: "length (owned u (discard P rows)) \<le> length (owned u rows)"
  by (induction rows) (auto simp: discard_def)

lemma post_effect:
  assumes "post_reminder i now u b s = Inr (r, s')"
  shows "i \<notin> rm_id ` set (t_reminders s)" "length (owned u (t_reminders s)) < 7" "rm_id r = i" "rm_user_id r = u"
    "days_ok (rm_days_of_week r)" "s' = s\<lparr>t_reminders := t_reminders s @ [r]\<rparr>"
  using assms by (auto simp: post_reminder_def create_reminder_def repo_create_reminder_def MAX_REMINDERS_PER_USER_def
      length_by_user insert_row_Inr_iff fetch_None_iff Let_def dest: parse_reminder_days split: if_splits)

lemma put_effect:
  assumes "put_reminder u i b s = Inr (r, s')"
  shows "\<exists>(d :: reminder_create) q. reminder_by_id i s = Some q \<and> rm_user_id q = u \<and> days_ok (rq_days_of_week d) \<and>
    s' = s\<lparr>t_reminders := amend rm_id i (\<lambda>r. r\<lparr>rm_days_of_week := rq_days_of_week d, rm_remind_at := rq_remind_at d,
      rm_is_active := rq_is_active d\<rparr>) (t_reminders s)\<rparr>"
proof -
  obtain d :: reminder_create where d: "parse_reminder b = Inr d" and up: "update_reminder u i d s = Inr (r, s')"
    using assms by (auto simp: put_reminder_def)
  from up obtain q where q: "reminder_by_id i s = Some q" "rm_user_id q = u"
    by (auto simp: update_reminder_def split: option.splits if_splits)
  with up have "s' = snd (repo_update_reminder i d s)"
    by (auto simp: update_reminder_def split: option.splits prod.splits)
  then have "s' = s\<lparr>t_reminders := amend rm_id i (\<lambda>r. r\<lparr>rm_days_of_week := rq_days_of_week d, rm_remind_at := rq_remind_at d,
      rm_is_active := rq_is_active d\<rparr>) (t_reminders s)\<rparr>" by (simp add: repo_update_reminder_def Let_def)
  with q parse_reminder_days [OF d] show ?thesis by blast
qed

lemma delete_effect:
  assumes "delete_reminder u i s = Inr (x, s')"
  shows "\<exists>q. reminder_by_id i s = Some q \<and> rm_user_id q = u \<and> s' = s\<lparr>t_reminders := discard (\<lambda>r. rm_id r = i) (t_reminders s)\<rparr>"
  using assms by (auto simp: delete_reminder_def repo_delete_reminder_def split: option.splits if_splits)

lemma reminder_step_inv:
  assumes inv: "reminder_inv s" and st: "reminder_step x s = Inr s'"
  shows "reminder_inv s'"
proof (cases x)
  case (PostReminder i now u b)
  then obtain r where "post_reminder i now u b s = Inr (r, s')" using st by auto
  from post_effect [OF this] inv show ?thesis by (auto simp: reminder_inv_def)
next
  case (PutReminder u i b)
  then obtain r where "put_reminder u i b s = Inr (r, s')" using st by auto
  from put_effect [OF this] inv show ?thesis
    by (auto simp: reminder_inv_def owned_amend map_key_amend set_amend)
next
  case (DeleteReminder u i)
  then have "delete_reminder u i s = Inr ((), s')" using st by auto
  from delete_effect [OF this] inv show ?thesis
    by (auto simp: reminder_inv_def distinct_map_discard) (auto simp: discard_def intro: le_trans [OF owned_sub [unfolded discard_def filter_filter]])
qed

interpretation reminders: guarded_machine reminder_step reminder_inv
  by unfold_locales (rule reminder_step_inv)

lemma foreign_amend:
  assumes "\<And>r. rm_user_id (f r) = rm_user_id r" "distinct (map rm_id rows)" "fetch rm_id i rows = Some q" "rm_user_id q \<noteq> v"
  shows "owned v (amend rm_id i f rows) = owned v rows \<and> owned v (discard (\<lambda>r. rm_id r = i) rows) = owned v rows"
proof -
  have "rm_user_id r \<noteq> v" if "r \<in> set rows" "rm_id r = i" for r
    using that assms(2-4) by (metis fetch_distinct option.inject)
  then show ?thesis using assms(1) by (induction rows) (auto simp: discard_def)
qed

lemma foreign_step:
  assumes inv: "reminder_inv s" and st: "reminder_step x s = Inr s'" and "caller x \<noteq> v"
  shows "owned v (t_reminders s') = owned v (t_reminders s)"
proof -
  have d: "distinct (map rm_id (t_reminders s))" using inv by (simp add: reminder_inv_def)
  show ?thesis
  proof (cases x)
    case (PostReminder i now u b)
    then obtain r where "post_reminder i now u b s = Inr (r, s')" using st by auto
    from post_effect [OF this] assms(3) PostReminder show ?thesis by simp
  next
    case (PutReminder u i b)
    then obtain r where "put_reminder u i b s = Inr (r, s')" using st by auto
    from put_effect [OF this] obtain d :: reminder_create and q where q: "fetch rm_id i (t_reminders s) = Some q" "rm_user_id q = u"
      and s': "s' = s\<lparr>t_reminders := amend rm_id i (\<lambda>r. r\<lparr>rm_days_of_week := rq_days_of_week d, rm_remind_at := rq_remind_at d,
        rm_is_active := rq_is_active d\<rparr>) (t_reminders s)\<rparr>" by (auto simp: reminder_by_id_def)
    have "rm_user_id q \<noteq> v" using assms(3) PutReminder q by simp
    from foreign_amend [OF _ d q(1) this, of "\<lambda>r. r\<lparr>rm_days_of_week := rq_days_of_week d, rm_remind_at := rq_remind_at d,
        rm_is_active := rq_is_active d\<rparr>"] show ?thesis by (simp add: s')
  next
    case (DeleteReminder u i)
    then have "delete_reminder u i s = Inr ((), s')" using st by auto
    from delete_effect [OF this] obtain q where q: "fetch rm_id i (t_reminders s) = Some q" "rm_user_id q = u"
      and s': "s' = s\<lparr>t_reminders := discard (\<lambda>r. rm_id r = i) (t_reminders s)\<rparr>" by (auto simp: reminder_by_id_def)
    have "rm_user_id q \<noteq> v" using assms(3) DeleteReminder q by simp
    from foreign_amend [OF _ d q(1) this, of id] show ?thesis by (simp add: s')
  qed
qed

lemma foreign_run:
  assumes "reminder_inv s" "\<forall>x\<in>set xs. caller x \<noteq> v"
  shows "owned v (t_reminders (run reminder_step s xs)) = owned v (t_reminders s)"
  using assms
proof (induction xs arbitrary: s)
  case (Cons x xs)
  show ?case
  proof (cases "reminder_step x s")
    case (Inr s1)
    have "reminder_inv s1" using reminder_step_inv [OF Cons.prems(1) Inr] .
    with Cons Inr foreign_step [OF Cons.prems(1) Inr, of v] show ?thesis by simp
  qed (use Cons in simp)
qed simp

text \<open>
  Reading reminders: whatever requests arrive, a user has at most seven reminders, each on a
  nonempty, strictly increasing list of weekdays from 0 to 6 - however the client ordered or
  repeated them - and requests of other users leave a user's list exactly as it was.
\<close>
theorem reminders_capped_and_private:
  assumes "reminder_inv s"
  shows "length (list_reminders u (run reminder_step s xs)) \<le> 7 \<and>
    (\<forall>r\<in>set (list_reminders u (run reminder_step s xs)). rm_user_id r = u \<and> rm_days_of_week r \<noteq> [] \<and>
       sorted_wrt (<) (rm_days_of_week r) \<and> set (rm_days_of_week r) \<subseteq> {0..6}) \<and>
    ((\<forall>x\<in>set xs. caller x \<noteq> u) \<longrightarrow> list_reminders u (run reminder_step s xs) = list_reminders u s)"
proof -
  have "reminder_inv (run reminder_step s xs)" by (rule reminders.run_inv [OF assms])
  then have "length (list_reminders u (run reminder_step s xs)) \<le> 7 \<and>
    (\<forall>r\<in>set (list_reminders u (run reminder_step s xs)). rm_user_id r = u \<and> days_ok (rm_days_of_week r))"
    by (auto simp: list_reminders_def length_by_user reminder_inv_def) (auto simp: reminders_by_user_def)
  moreover have "list_reminders u (run reminder_step s xs) = list_reminders u s" if "\<forall>x\<in>set xs. caller x \<noteq> u"
    using foreign_run [OF assms that] by (simp add: list_reminders_def reminders_by_user_def)
  ultimately show ?thesis by (simp add: days_ok_def)
qed

theorem reminders_capped_and_private_witness:
  "length (list_reminders 2 (run reminder_step demo
     [PostReminder 60 t0 2 \<lparr>rq_days_of_week = [4, 0, 4], rq_remind_at = 0, rq_is_active = True\<rparr>])) \<le> 7 \<and>
   list_reminders 1 (run reminder_step demo
     [PostReminder 60 t0 2 \<lparr>rq_days_of_week = [4, 0, 4], rq_remind_at = 0, rq_is_active = True\<rparr>]) = list_reminders 1 demo"
proof -
  have "reminder_inv demo" by (simp add: reminder_inv_def demo_def empty_sess_def)
  note a = reminders_capped_and_private [OF this, of _ "[PostReminder 60 t0 2 \<lparr>rq_days_of_week = [4, 0, 4], rq_remind_at = 0, rq_is_active = True\<rparr>]"]
  show ?thesis using a [of 2] a [of 1] by simp
qed

end
