(* ===== verification/Video.thy ===== *)
theory Video
  imports Digest ClubMeetings ReadingMachine Demo
begin

text \<open>
  Video calls of clubs (\<open>backend/app/domains/video\<close>): the token adapters, the repository, the
  service and the endpoints. The channel and the tokens are written in ASCII.
\<close>

section \<open>Tokens\<close>

definition stub_token :: "pystr \<Rightarrow> int \<Rightarrow> pystr" where
  "stub_token channel uid = ascii ''stub_token_'' @ channel @ ascii ''_'' @ int_str uid"

text \<open>\<open>int(time.time())\<close> of a clock reading after the epoch.\<close>

definition agora_rtc_token :: "pystr \<Rightarrow> pystr \<Rightarrow> datetime \<Rightarrow> pystr \<Rightarrow> int \<Rightarrow> pystr" where
  "agora_rtc_token app_id app_certificate now channel uid =
     (if app_id = [] \<or> app_certificate = [] then stub_token channel uid
      else let expire_at = int_str (now div 1000000 + 3600);
               content = app_id @ ascii '':'' @ channel @ ascii '':'' @ int_str uid @ ascii '':'' @ expire_at;
               sig = hexdigest (hmac_sha256 (utf8 app_certificate) (utf8 content))
           in b64encode (utf8 (app_id @ ascii '':'' @ sig @ ascii '':'' @ expire_at)))"

text \<open>\<open>_token_provider\<close>: credentials that are unset are empty.\<close>

definition token_provider :: "pystr \<Rightarrow> pystr \<Rightarrow> datetime \<Rightarrow> pystr \<Rightarrow> int \<Rightarrow> pystr" where
  "token_provider app_id app_certificate =
     (if app_id \<noteq> [] \<and> app_certificate \<noteq> [] then agora_rtc_token app_id app_certificate else (\<lambda>now. stub_token))"

section \<open>Repository\<close>

definition active_video_session :: "uuid \<Rightarrow> sess \<Rightarrow> video_session option" where
  "active_video_session club_id s =
     (case order_desc vs_started_at (filter (\<lambda>v. vs_club_id v = club_id \<and> vs_ended_at v = None) (t_video_sessions s)) of
        [] \<Rightarrow> None | v # _ \<Rightarrow> Some v)"

definition video_session_by_id :: "uuid \<Rightarrow> sess \<Rightarrow> video_session option" where
  "video_session_by_id i s = fetch vs_id i (t_video_sessions s)"

definition repo_create_video_session ::
    "uuid \<Rightarrow> datetime \<Rightarrow> uuid \<Rightarrow> uuid \<Rightarrow> pystr \<Rightarrow> int \<Rightarrow> int \<Rightarrow> pystr \<Rightarrow> sess \<Rightarrow> video_session outcome" where
  "repo_create_video_session new_id now club_id host_id agora_channel max_participants agora_uid agora_token s =
     (let row = \<lparr>vs_id = new_id, vs_club_id = club_id, vs_host_id = host_id, vs_agora_channel = agora_channel,
                 vs_agora_uid = Some agora_uid, vs_agora_token = Some agora_token, vs_started_at = now, vs_ended_at = None,
                 vs_max_participants = max_participants\<rparr>
      in bindE (guardE (length agora_channel \<le> 64 \<and> int4 agora_uid \<and> int4 max_participants) DataError) (\<lambda>_.
         bindE (insert_row vs_id (club_by_id club_id s \<noteq> None \<and> user_exists host_id s) row (t_video_sessions s)) (\<lambda>rows.
         Inr (row, s\<lparr>t_video_sessions := rows\<rparr>))))"

definition repo_end_video_session :: "datetime \<Rightarrow> uuid \<Rightarrow> sess \<Rightarrow> video_session option \<times> sess" where
  "repo_end_video_session now i s =
     (case video_session_by_id i s of
        None \<Rightarrow> (None, s)
      | Some v \<Rightarrow>
          if vs_ended_at v = None
          then (Some (v\<lparr>vs_ended_at := Some now\<rparr>),
                s\<lparr>t_video_sessions := amend vs_id i (\<lambda>v. v\<lparr>vs_ended_at := Some now\<rparr>) (t_video_sessions s)\<rparr>)
          else (Some v, s))"

section \<open>Service\<close>

definition MAX_PARTICIPANTS :: int where
  "MAX_PARTICIPANTS = 10"

definition AGORA_UID_MAX :: nat where
  "AGORA_UID_MAX = 0xFFFFFFFF"

definition agora_uid :: "uuid \<Rightarrow> int" where
  "agora_uid user_id = int (user_id mod (AGORA_UID_MAX - 1)) + 1"

definition channel_name :: "uuid \<Rightarrow> pystr" where
  "channel_name club_id = ascii ''club-'' @ uuid_hex club_id"

definition require_pro_owner :: "uuid \<Rightarrow> uuid \<Rightarrow> sess \<Rightarrow> unit result" where
  "require_pro_owner club_id user_id s =
     (case club_by_id club_id s of
        None \<Rightarrow> Inl (DomainError NotFoundError ''CLUB_NOT_FOUND'')
      | Some c \<Rightarrow>
          if rc_owner_id c \<noteq> user_id then Inl (DomainError PermissionDeniedError ''PERMISSION_DENIED'')
          else bindE (get_user_is_pro user_id s) (\<lambda>pro.
               guardE pro (DomainError ConflictError ''PRO_REQUIRED'')))"

definition start_video_session ::
    "(datetime \<Rightarrow> pystr \<Rightarrow> int \<Rightarrow> pystr) \<Rightarrow> uuid \<Rightarrow> datetime \<Rightarrow> uuid \<Rightarrow> uuid \<Rightarrow> sess \<Rightarrow> (video_session \<times> pystr) outcome" where
  "start_video_session token new_id now club_id host_id s =
     bindE (require_pro_owner club_id host_id s) (\<lambda>_.
     bindE (case active_video_session club_id s of
              Some v \<Rightarrow> Inr (v, s)
            | None \<Rightarrow>
                let uid = agora_uid host_id; channel = channel_name club_id
                in repo_create_video_session new_id now club_id host_id channel MAX_PARTICIPANTS uid (token now channel uid) s) (\<lambda>(v, s').
     Inr ((v, token now (vs_agora_channel v) (case vs_agora_uid v of None \<Rightarrow> 0 | Some uid \<Rightarrow> uid)), s')))"

definition end_video_session :: "datetime \<Rightarrow> uuid \<Rightarrow> uuid \<Rightarrow> uuid \<Rightarrow> sess \<Rightarrow> unit outcome" where
  "end_video_session now club_id session_id user_id s =
     (case video_session_by_id session_id s of
        None \<Rightarrow> Inl (DomainError NotFoundError ''VIDEO_SESSION_NOT_FOUND'')
      | Some v \<Rightarrow>
          if vs_club_id v \<noteq> club_id then Inl (DomainError NotFoundError ''VIDEO_SESSION_NOT_FOUND'')
          else if vs_host_id v \<noteq> user_id then Inl (DomainError PermissionDeniedError ''PERMISSION_DENIED'')
          else Inr ((), snd (repo_end_video_session now session_id s)))"

definition get_active_video_session :: "uuid \<Rightarrow> sess \<Rightarrow> video_session result" where
  "get_active_video_session club_id s =
     required (DomainError NotFoundError ''NO_ACTIVE_VIDEO_SESSION'') (active_video_session club_id s)"

section \<open>The requests\<close>

datatype video_op =
    StartVideo uuid datetime uuid uuid
  | EndVideo datetime uuid uuid uuid

fun video_step :: "(datetime \<Rightarrow> pystr \<Rightarrow> int \<Rightarrow> pystr) \<Rightarrow> video_op \<Rightarrow> sess \<Rightarrow> error + sess" where
  "video_step token (StartVideo i now c u) s = ret (start_video_session token i now c u s)"
| "video_step token (EndVideo now c v u) s = ret (end_video_session now c v u s)"

abbreviation live :: "uuid \<Rightarrow> video_session list \<Rightarrow> video_session list" where
  "live c rows \<equiv> filter (\<lambda>v. vs_club_id v = c \<and> vs_ended_at v = None) rows"

definition video_inv :: "sess \<Rightarrow> bool" where
  "video_inv s \<longleftrightarrow> distinct (map vs_id (t_video_sessions s)) \<and> (\<forall>c. length (live c (t_video_sessions s)) \<le> 1) \<and>
     (\<forall>v\<in>set (t_video_sessions s). vs_agora_channel v = channel_name (vs_club_id v) \<and>
        vs_agora_uid v = Some (agora_uid (vs_host_id v)) \<and> agora_uid (vs_host_id v) < 2 ^ 31)"

text \<open>The abstract rooms: at most one call for each club, with its host.\<close>

type_synonym rooms = "uuid \<rightharpoonup> uuid \<times> uuid"

inductive room_move :: "rooms \<Rightarrow> rooms \<Rightarrow> bool" where
  Idle: "room_move a a"
| OpenCall: "a c = None \<Longrightarrow> room_move a (a(c \<mapsto> (v, h)))"
| EndCall: "a c = Some (v, h) \<Longrightarrow> room_move a (a(c := None))"

definition rooms_of :: "sess \<Rightarrow> rooms" where
  "rooms_of s c = map_option (\<lambda>v. (vs_id v, vs_host_id v)) (active_video_session c s)"

lemma agora_uid_bounds: "1 \<le> agora_uid u \<and> agora_uid u \<le> 4294967294"
proof -
  have "u mod 4294967294 < (4294967294 :: nat)" by simp
  then show ?thesis by (simp add: agora_uid_def AGORA_UID_MAX_def)
qed

lemma length_channel_name: "length (channel_name c) = 37"
  by (simp add: channel_name_def ascii_def uuid_hex_def)

lemma sort_Nil: "sort_key f rows = [] \<longleftrightarrow> rows = []"
  by (metis length_0_conv length_sort)

lemma active_None: "active_video_session c s = None \<longleftrightarrow> live c (t_video_sessions s) = []"
  using sort_Nil [of "\<lambda>r. - vs_started_at r" "live c (t_video_sessions s)"]
  by (cases "sort_key (\<lambda>r. - vs_started_at r) (live c (t_video_sessions s))") (simp_all add: active_video_session_def order_desc_def)

lemma active_Some:
  assumes "video_inv s"
  shows "active_video_session c s = Some v \<longleftrightarrow> live c (t_video_sessions s) = [v]"
proof -
  have "length (live c (t_video_sessions s)) \<le> 1" using assms by (simp add: video_inv_def)
  then show ?thesis
    by (cases "live c (t_video_sessions s)") (auto simp: active_video_session_def order_desc_def)
qed

lemma create_effect:
  assumes "repo_create_video_session i now c h ch m uid tok s = Inr (v, s')"
  shows "i \<notin> vs_id ` set (t_video_sessions s)" "vs_id v = i" "vs_club_id v = c" "vs_host_id v = h" "vs_agora_channel v = ch"
    "vs_agora_uid v = Some uid" "vs_ended_at v = None" "uid < 2 ^ 31" "s' = s\<lparr>t_video_sessions := t_video_sessions s @ [v]\<rparr>"
  using assms by (auto simp: repo_create_video_session_def insert_row_Inr_iff int4_def Let_def simp flip: fetch_None_iff)

lemma start_effect:
  assumes "video_inv s" "start_video_session token i now c u s = Inr ((v, tok), s')"
  shows "video_inv s' \<and> room_move (rooms_of s) (rooms_of s') \<and> active_video_session c s' = Some v \<and>
    tok = token now (channel_name c) (agora_uid (vs_host_id v)) \<and> (active_video_session c s \<noteq> None \<longrightarrow> s' = s)"
proof (cases "active_video_session c s")
  case (Some w)
  then have v: "v = w" "s' = s" using assms(2) by (auto simp: start_video_session_def)
  have "w \<in> set (live c (t_video_sessions s))" using active_Some [OF assms(1)] Some by simp
  then have "vs_agora_channel w = channel_name c" "vs_agora_uid w = Some (agora_uid (vs_host_id w))"
    using assms(1) by (auto simp: video_inv_def)
  then show ?thesis using assms Some v by (auto simp: start_video_session_def intro: Idle)
next
  case None
  then have "repo_create_video_session i now c u (channel_name c) MAX_PARTICIPANTS (agora_uid u)
      (token now (channel_name c) (agora_uid u)) s = Inr (v, s')"
    and tok: "tok = token now (vs_agora_channel v) (case vs_agora_uid v of None \<Rightarrow> 0 | Some uid \<Rightarrow> uid)"
    using assms(2) by (auto simp: start_video_session_def Let_def)
  note r = create_effect [OF this(1)]
  have empty: "live c (t_video_sessions s) = []" using None by (simp add: active_None)
  have inv: "video_inv s'" using assms(1) r empty by (auto simp: video_inv_def)
  have act: "active_video_session c s' = Some v" unfolding active_Some [OF inv] using empty r by simp
  have oth: "active_video_session d s' = active_video_session d s" if "d \<noteq> c" for d
    using that r by (simp add: active_video_session_def)
  have "rooms_of s' = (rooms_of s)(c \<mapsto> (i, u))" by (rule ext) (simp add: rooms_of_def act oth r(2,4))
  moreover have "rooms_of s c = None" using None by (simp add: rooms_of_def)
  ultimately have "room_move (rooms_of s) (rooms_of s')" by (simp add: OpenCall)
  then show ?thesis using inv act tok r None by simp
qed

lemma live_amend:
  "live d (amend vs_id i (\<lambda>v. v\<lparr>vs_ended_at := Some now\<rparr>) rows) = filter (\<lambda>w. vs_id w \<noteq> i) (live d rows)"
  by (induction rows) auto

lemma end_effect:
  assumes inv: "video_inv s" and e: "end_video_session now c i u s = Inr (x, s')"
  shows "video_inv s' \<and> room_move (rooms_of s) (rooms_of s')"
proof -
  obtain v where v: "fetch vs_id i (t_video_sessions s) = Some v" "vs_club_id v = c" "vs_host_id v = u"
    and s': "s' = snd (repo_end_video_session now i s)"
    using e by (auto simp: end_video_session_def video_session_by_id_def split: option.splits if_splits)
  show ?thesis
  proof (cases "vs_ended_at v")
    case (Some t)
    then have "s' = s" using v s' by (simp add: repo_end_video_session_def video_session_by_id_def)
    then show ?thesis using inv by (simp add: Idle)
  next
    case None
    have up: "t_video_sessions s' = amend vs_id i (\<lambda>v. v\<lparr>vs_ended_at := Some now\<rparr>) (t_video_sessions s)"
      using None v s' by (simp add: repo_end_video_session_def video_session_by_id_def)
    have d: "distinct (map vs_id (t_video_sessions s))" using inv by (simp add: video_inv_def)
    have liv: "live d (t_video_sessions s') = filter (\<lambda>w. vs_id w \<noteq> i) (live d (t_video_sessions s))" for d
      unfolding up by (rule live_amend)
    have "length (live d (t_video_sessions s')) \<le> length (live d (t_video_sessions s))" for d
      unfolding liv by (rule length_filter_le)
    then have inv': "video_inv s'" using inv unfolding video_inv_def
      by (auto simp: up map_key_amend set_amend intro: order_trans)
    have "v \<in> set (live c (t_video_sessions s))" using None v fetch_Some_mem [OF v(1)] by simp
    moreover have "length (live c (t_video_sessions s)) \<le> 1" using inv by (simp add: video_inv_def)
    ultimately have one: "live c (t_video_sessions s) = [v]" by (cases "live c (t_video_sessions s)") auto
    have i: "vs_id v = i" by (rule fetch_Some_key [OF v(1)])
    have "rooms_of s' = (rooms_of s)(c := None)"
    proof
      fix d
      show "rooms_of s' d = ((rooms_of s)(c := None)) d"
      proof (cases "d = c")
        case True
        have "live c (t_video_sessions s') = []" using liv [of c] one i by simp
        then show ?thesis using True by (simp add: rooms_of_def active_None)
      next
        case False
        have "w \<in> set (live d (t_video_sessions s)) \<Longrightarrow> vs_id w \<noteq> i" for w
          using False v d fetch_distinct [OF d, of w] by auto
        then have "live d (t_video_sessions s') = live d (t_video_sessions s)" unfolding liv by (intro filter_True) blast
        then show ?thesis using False by (simp add: rooms_of_def active_video_session_def)
      qed
    qed
    moreover have "rooms_of s c = Some (i, vs_host_id v)" using one i by (simp add: rooms_of_def active_Some [OF inv])
    ultimately show ?thesis using inv' by (auto intro: EndCall)
  qed
qed

interpretation calls: refinement "video_step token" video_inv rooms_of room_move for token
proof unfold_locales
  fix s x s' assume "video_inv s" "video_step token x s = Inr s'"
  then show "video_inv s'" "room_move (rooms_of s) (rooms_of s')"
    by (cases x; force dest: start_effect end_effect)+
qed

section \<open>What the calls promise\<close>

text \<open>
  Video calls refine one room for each club: every sequence of starts and ends, seen through the
  live calls, only opens a call where there is none or ends a call that is there, at most one call
  of a club is ever live, and a host who starts while a call is live gets that call back, unchanged,
  with a token for its channel and its host's uid.
\<close>
theorem calls_refine_rooms:
  assumes "video_inv s"
  shows "room_move\<^sup>*\<^sup>* (rooms_of s) (rooms_of (run (video_step token) s xs)) \<and>
    (\<forall>c. length (live c (t_video_sessions (run (video_step token) s xs))) \<le> 1) \<and>
    (\<forall>i now c u v tok s'. start_video_session token i now c u (run (video_step token) s xs) = Inr ((v, tok), s') \<longrightarrow>
       rooms_of s' c = Some (vs_id v, vs_host_id v) \<and> tok = token now (channel_name c) (agora_uid (vs_host_id v)) \<and>
       (rooms_of (run (video_step token) s xs) c \<noteq> None \<longrightarrow> s' = run (video_step token) s xs))"
proof -
  have inv: "video_inv (run (video_step token) s xs)" by (rule calls.run_inv [OF assms])
  show ?thesis
    using calls.run_moves [OF assms, of token xs] inv start_effect [OF inv]
    by (auto simp: video_inv_def rooms_of_def)
qed

theorem calls_refine_rooms_witness:
  "room_move\<^sup>*\<^sup>* (rooms_of demo) (rooms_of (run (video_step (\<lambda>now. stub_token)) demo [StartVideo 60 t0 30 2, EndVideo t0 30 60 2]))"
proof -
  have "video_inv demo" by (simp add: video_inv_def demo_def empty_sess_def)
  from calls_refine_rooms [OF this] show ?thesis by blast
qed

definition may_host :: "uuid \<Rightarrow> uuid \<Rightarrow> sess \<Rightarrow> bool" where
  "may_host c u s \<longleftrightarrow> (\<exists>club. club_by_id c s = Some club \<and> rc_owner_id club = u) \<and>
     (\<exists>usr. fetch us_id u (t_users s) = Some usr \<and> us_is_pro usr)"

text \<open>
  Who can start a call: exactly the owner of a Pro account, for a club that has no call, when the
  uid derived from the owner's id fits the signed column of the table. An owner whose uid is
  \<open>2 ^ 31\<close> or more - half of all ids - gets a server error at every first start.
\<close>
theorem first_call_iff:
  assumes "active_video_session c s = None" "i \<notin> vs_id ` set (t_video_sessions s)" "distinct (map us_id (t_users s))"
  shows "((\<exists>r. start_video_session token i now c u s = Inr r) \<longleftrightarrow> may_host c u s \<and> agora_uid u < 2 ^ 31) \<and>
    (may_host c u s \<and> 2 ^ 31 \<le> agora_uid u \<longrightarrow> start_video_session token i now c u s = Inl DataError)"
proof -
  have pro: "get_user_is_pro u s = Inr (case fetch us_id u (t_users s) of None \<Rightarrow> False | Some usr \<Rightarrow> us_is_pro usr)"
    using scalar_key [OF assms(3), of u] by (simp add: get_user_is_pro_def)
  have owner: "require_pro_owner c u s = Inr () \<longleftrightarrow> may_host c u s"
    by (auto simp: require_pro_owner_def pro may_host_def guardE_def split: option.splits)
  have len: "length (channel_name c) \<le> 64" by (simp add: length_channel_name)
  have lo: "- (2 ^ 31) \<le> agora_uid u" using agora_uid_bounds [of u] by simp
  have ten: "int4 MAX_PARTICIPANTS" by (simp add: int4_def MAX_PARTICIPANTS_def)
  show ?thesis
  proof (cases "may_host c u s")
    case False
    then show ?thesis using owner by (auto simp: start_video_session_def)
  next
    case True
    then have ok: "require_pro_owner c u s = Inr ()" using owner by simp
    have ex: "club_by_id c s \<noteq> None" "user_exists u s" using True by (auto simp: may_host_def user_exists_def)
    have free: "fetch vs_id i (t_video_sessions s) = None" using assms(2) by (simp add: fetch_None_iff)
    show ?thesis
    proof (cases "agora_uid u < 2 ^ 31")
      case fits: True
      then show ?thesis using True ok ex free assms(1) len lo ten
        by (simp add: start_video_session_def repo_create_video_session_def Let_def guardE_def insert_row_def int4_def)
    next
      case False
      then show ?thesis using True ok assms(1)
        by (simp add: start_video_session_def repo_create_video_session_def Let_def guardE_def int4_def)
    qed
  qed
qed

definition call_demo :: sess where
  "call_demo = demo\<lparr>t_users := [demo_user 2147483648\<lparr>us_is_pro := True\<rparr>],
     t_clubs := [\<lparr>rc_id = 30, rc_name = [], rc_description = None, rc_owner_id = 2147483648, rc_book_id = None,
       rc_invite_code = ''CIRCLE22'', rc_max_members = 3, rc_is_public = True, rc_category = None, rc_created_at = t0\<rparr>]\<rparr>"

theorem first_call_iff_witness:
  "start_video_session (\<lambda>now. stub_token) 60 t0 30 2147483648 call_demo = Inl DataError"
proof -
  have "active_video_session 30 call_demo = None" "60 \<notin> vs_id ` set (t_video_sessions call_demo)"
    "distinct (map us_id (t_users call_demo))"
    by (simp_all add: active_video_session_def call_demo_def demo_def empty_sess_def order_desc_def)
  from first_call_iff [OF this, of "\<lambda>now. stub_token" t0 2147483648] show ?thesis
    by (simp add: call_demo_def club_by_id_def agora_uid_def AGORA_UID_MAX_def demo_user_def may_host_def)
qed

end
