(* ===== verification/Coach.thy ===== *)
theory Coach
  imports Digest ClubMeetings ReadingMachine Demo
begin

text \<open>
  The reading coach (\<open>backend/app/domains/ai_assistant\<close>): the cache of prep cards, the repositories,
  the adapters that read other domains, and the service. The language model behind
  \<open>AIAssistantPort\<close> is a parameter. The cache is Redis: it is outside the transaction, so it is
  threaded beside the session and keeps what was written when the request fails; \<open>up\<close> says whether
  Redis can be reached.
\<close>

section \<open>What the model answers\<close>

record prep_card =
  pc_author_intro :: pystr
  pc_theme_keywords :: "pystr list"
  pc_prereading_questions :: "pystr list"
  pc_tokens_used :: int

record next_book =
  nb_title :: pystr
  nb_reason :: pystr

record reflection =
  rl_insights :: "pystr list"
  rl_action_point :: pystr
  rl_next_books :: "next_book list"
  rl_tokens_used :: int

record coach_ai =
  generate_prep_card :: "pystr \<Rightarrow> pystr \<Rightarrow> pystr option \<Rightarrow> string \<Rightarrow> prep_card result"
  generate_reflection :: "pystr \<Rightarrow> pystr \<Rightarrow> pystr list \<Rightarrow> int \<Rightarrow> reflection result"
  generate_club_topics :: "pystr \<Rightarrow> int \<Rightarrow> int \<Rightarrow> (pystr list \<times> int) result"
  generate_agenda_topics :: "pystr \<Rightarrow> pystr \<Rightarrow> pystr \<Rightarrow> (pystr list \<times> int) result"
  generate_audio_intro :: "pystr \<Rightarrow> pystr \<Rightarrow> pystr option \<Rightarrow> (pystr \<times> int) result"

section \<open>Documents\<close>

definition the_key :: "string \<Rightarrow> (string \<times> document) list \<Rightarrow> document result" where
  "the_key k kvs = required KeyError (map_of kvs k)"

text \<open>\<open>str(x)\<close> and \<open>int(x)\<close> of the texts and integers the rows hold; other shapes are never written.\<close>

fun doc_text :: "document \<Rightarrow> pystr result" where
  "doc_text (DText t) = Inr t"
| "doc_text (DInt i) = Inr (int_str i)"
| "doc_text _ = Inl TypeError"

fun doc_int :: "document \<Rightarrow> int result" where
  "doc_int (DInt i) = Inr i"
| "doc_int _ = Inl TypeError"

fun doc_items :: "document \<Rightarrow> document list result" where
  "doc_items (DArray xs) = Inr xs"
| "doc_items _ = Inl TypeError"

fun doc_object :: "document \<Rightarrow> (string \<times> document) list result" where
  "doc_object (DObject kvs) = Inr kvs"
| "doc_object _ = Inl TypeError"

primrec each :: "('a \<Rightarrow> 'b result) \<Rightarrow> 'a list \<Rightarrow> 'b list result" where
  "each f [] = Inr []"
| "each f (x # xs) = bindE (f x) (\<lambda>y. bindE (each f xs) (\<lambda>ys. Inr (y # ys)))"

definition content_to_json :: "reflection \<Rightarrow> document" where
  "content_to_json c = DObject
     [(''insights'', DArray (map DText (rl_insights c))), (''action_point'', DText (rl_action_point c)),
      (''next_books'', DArray (map (\<lambda>b. DObject [(''title'', DText (nb_title b)), (''reason'', DText (nb_reason b))]) (rl_next_books c))),
      (''tokens_used'', DInt (rl_tokens_used c))]"

definition next_book_from_row :: "document \<Rightarrow> next_book result" where
  "next_book_from_row d =
     bindE (doc_object d) (\<lambda>kvs.
     bindE (bindE (the_key ''title'' kvs) doc_text) (\<lambda>t.
     bindE (bindE (the_key ''reason'' kvs) doc_text) (\<lambda>r.
     Inr \<lparr>nb_title = t, nb_reason = r\<rparr>)))"

definition content_from_row :: "document \<Rightarrow> reflection result" where
  "content_from_row d =
     bindE (doc_object d) (\<lambda>kvs.
     bindE (bindE (bindE (the_key ''insights'' kvs) doc_items) (each doc_text)) (\<lambda>insights.
     bindE (bindE (the_key ''action_point'' kvs) doc_text) (\<lambda>action_point.
     bindE (case map_of kvs ''next_books'' of None \<Rightarrow> Inr [] | Some b \<Rightarrow> bindE (doc_items b) (each next_book_from_row)) (\<lambda>books.
     bindE (case map_of kvs ''tokens_used'' of None \<Rightarrow> Inr 0 | Some n \<Rightarrow> doc_int n) (\<lambda>tokens.
     Inr \<lparr>rl_insights = insights, rl_action_point = action_point, rl_next_books = books, rl_tokens_used = tokens\<rparr>)))))"

text \<open>The payload of a cached prep card.\<close>

definition prep_to_json :: "prep_card \<Rightarrow> document" where
  "prep_to_json c = DObject
     [(''author_intro'', DText (pc_author_intro c)), (''theme_keywords'', DArray (map DText (pc_theme_keywords c))),
      (''prereading_questions'', DArray (map DText (pc_prereading_questions c))), (''tokens_used'', DInt (pc_tokens_used c))]"

definition prep_from_json :: "document \<Rightarrow> prep_card result" where
  "prep_from_json d =
     bindE (doc_object d) (\<lambda>kvs.
     bindE (bindE (the_key ''author_intro'' kvs) doc_text) (\<lambda>intro.
     bindE (bindE (bindE (the_key ''theme_keywords'' kvs) doc_items) (each doc_text)) (\<lambda>themes.
     bindE (bindE (bindE (the_key ''prereading_questions'' kvs) doc_items) (each doc_text)) (\<lambda>questions.
     bindE (case map_of kvs ''tokens_used'' of None \<Rightarrow> Inr 0 | Some n \<Rightarrow> doc_int n) (\<lambda>tokens.
     Inr \<lparr>pc_author_intro = intro, pc_theme_keywords = themes, pc_prereading_questions = questions, pc_tokens_used = tokens\<rparr>)))))"

section \<open>The cache\<close>

text \<open>The keys \<open>ai_prep:{book_id}:{style}\<close>, each with its payload and the instant it expires.\<close>

type_synonym prep_cache = "uuid \<times> string \<rightharpoonup> document \<times> datetime"

definition PREP_CACHE_TTL :: int where
  "PREP_CACHE_TTL = 72 * 60 * 60 * sec_us"

definition get_prep :: "bool \<Rightarrow> datetime \<Rightarrow> uuid \<Rightarrow> string \<Rightarrow> prep_cache \<Rightarrow> prep_card option result" where
  "get_prep up now book_id style cache =
     (case cache (book_id, style) of
        Some (raw, expires) \<Rightarrow> if up \<and> now < expires then bindE (prep_from_json raw) (\<lambda>c. Inr (Some c)) else Inr None
      | None \<Rightarrow> Inr None)"

definition set_prep :: "bool \<Rightarrow> datetime \<Rightarrow> uuid \<Rightarrow> string \<Rightarrow> prep_card \<Rightarrow> prep_cache \<Rightarrow> prep_cache" where
  "set_prep up now book_id style content cache =
     (if up then cache((book_id, style) \<mapsto> (prep_to_json content, now + PREP_CACHE_TTL)) else cache)"

section \<open>Repositories and adapters\<close>

definition get_prefs :: "uuid \<Rightarrow> sess \<Rightarrow> string option" where
  "get_prefs user_id s = map_option aq_card_style (fetch aq_user_id user_id (t_ai_preferences s))"

definition upsert_prefs :: "datetime \<Rightarrow> uuid \<Rightarrow> string \<Rightarrow> sess \<Rightarrow> unit outcome" where
  "upsert_prefs now user_id style s =
     (if 32 < length style then Inl DataError
      else case fetch aq_user_id user_id (t_ai_preferences s) of
        Some _ \<Rightarrow> Inr ((), s\<lparr>t_ai_preferences := amend aq_user_id user_id
                    (\<lambda>p. p\<lparr>aq_card_style := style, aq_updated_at := now\<rparr>) (t_ai_preferences s)\<rparr>)
      | None \<Rightarrow> bindE (insert_row aq_user_id (user_exists user_id s)
                    \<lparr>aq_user_id = user_id, aq_card_style = style, aq_updated_at = now\<rparr> (t_ai_preferences s)) (\<lambda>rows.
                  Inr ((), s\<lparr>t_ai_preferences := rows\<rparr>)))"

definition rg_key :: "reflection_guide \<Rightarrow> uuid \<times> uuid" where
  "rg_key g = (rg_user_id g, rg_book_id g)"

definition get_reflection :: "uuid \<Rightarrow> uuid \<Rightarrow> sess \<Rightarrow> reflection option result" where
  "get_reflection user_id book_id s =
     (case fetch rg_key (user_id, book_id) (t_reflection_guides s) of
        None \<Rightarrow> Inr None
      | Some g \<Rightarrow> bindE (content_from_row (rg_content g)) (\<lambda>c. Inr (Some c)))"

definition repo_create_reflection :: "uuid \<Rightarrow> datetime \<Rightarrow> uuid \<Rightarrow> uuid \<Rightarrow> reflection \<Rightarrow> sess \<Rightarrow> reflection outcome" where
  "repo_create_reflection new_id now user_id book_id content s =
     (let row = \<lparr>rg_id = new_id, rg_user_id = user_id, rg_book_id = book_id, rg_content = content_to_json content,
                 rg_tokens_used = rl_tokens_used content, rg_created_at = now\<rparr>;
          ok = (user_exists user_id s \<and> book_exists book_id s \<and> fetch rg_key (user_id, book_id) (t_reflection_guides s) = None)
      in if \<not> int4 (rl_tokens_used content) then Inl DataError
         else bindE (insert_row rg_id ok row (t_reflection_guides s)) (\<lambda>rows.
              Inr (content, s\<lparr>t_reflection_guides := rows\<rparr>)))"

definition count_since :: "uuid \<Rightarrow> string \<Rightarrow> datetime \<Rightarrow> sess \<Rightarrow> nat" where
  "count_since user_id feature since s =
     length (filter (\<lambda>l. ul_user_id l = user_id \<and> ul_feature l = feature \<and> since \<le> ul_created_at l) (t_usage_logs s))"

definition record_usage :: "uuid \<Rightarrow> datetime \<Rightarrow> uuid \<Rightarrow> string \<Rightarrow> uuid option \<Rightarrow> int \<Rightarrow> sess \<Rightarrow> unit outcome" where
  "record_usage new_id now user_id feature book_id tokens_used s =
     (let row = \<lparr>ul_id = new_id, ul_user_id = user_id, ul_feature = feature, ul_book_id = book_id,
                 ul_tokens_used = tokens_used, ul_created_at = now\<rparr>;
          ok = (user_exists user_id s \<and> (case book_id of None \<Rightarrow> True | Some b \<Rightarrow> book_exists b s))
      in if 32 < length feature \<or> \<not> int4 tokens_used then Inl DataError
         else bindE (insert_row ul_id ok row (t_usage_logs s)) (\<lambda>rows. Inr ((), s\<lparr>t_usage_logs := rows\<rparr>)))"

record book_info =
  bi_title :: pystr
  bi_author :: pystr
  bi_description :: "pystr option"

definition get_book_info :: "uuid \<Rightarrow> sess \<Rightarrow> book_info option" where
  "get_book_info book_id s =
     map_option (\<lambda>b. \<lparr>bi_title = bk_title b, bi_author = bk_author b, bi_description = bk_description b\<rparr>)
       (fetch bk_id book_id (t_books s))"

definition coach_is_pro :: "uuid \<Rightarrow> sess \<Rightarrow> bool" where
  "coach_is_pro user_id s = (case fetch us_id user_id (t_users s) of None \<Rightarrow> False | Some u \<Rightarrow> us_is_pro u)"

definition MAX_HIGHLIGHTS :: nat where "MAX_HIGHLIGHTS = 10"

text \<open>\<open>timedelta.days\<close> rounds down.\<close>

definition reading_days :: "datetime \<Rightarrow> datetime option \<Rightarrow> datetime option \<Rightarrow> int" where
  "reading_days now started_at finished_at =
     (case started_at of
        None \<Rightarrow> 0
      | Some st \<Rightarrow> max 0 (((case finished_at of None \<Rightarrow> now | Some f \<Rightarrow> f) - st) div day_us))"

record reflection_input =
  ri_book_id :: uuid
  ri_title :: pystr
  ri_author :: pystr
  ri_highlights :: "pystr list"
  ri_reading_days :: int

definition get_reflection_input :: "datetime \<Rightarrow> uuid \<Rightarrow> uuid \<Rightarrow> sess \<Rightarrow> reflection_input option" where
  "get_reflection_input now user_id user_book_id s =
     (case fetch ub_id user_book_id (t_user_books s) of
        None \<Rightarrow> None
      | Some ub \<Rightarrow>
        if ub_user_id ub \<noteq> user_id then None
        else case fetch bk_id (ub_book_id ub) (t_books s) of
               None \<Rightarrow> None
             | Some b \<Rightarrow>
                 Some \<lparr>ri_book_id = bk_id b, ri_title = bk_title b, ri_author = bk_author b,
                   ri_highlights = take MAX_HIGHLIGHTS (List.map_filter bm_note
                     (order_asc bm_created_at (filter (\<lambda>m. bm_user_book_id m = user_book_id \<and> bm_note m \<noteq> None) (t_bookmarks s)))),
                   ri_reading_days = reading_days now (ub_started_at ub) (ub_finished_at ub)\<rparr>)"

definition get_club_book :: "uuid \<Rightarrow> sess \<Rightarrow> book_info option" where
  "get_club_book club_id s =
     (case club_by_id club_id s of
        None \<Rightarrow> None
      | Some c \<Rightarrow> case rc_book_id c of None \<Rightarrow> None | Some b \<Rightarrow> get_book_info b s)"

definition coach_is_owner :: "uuid \<Rightarrow> uuid \<Rightarrow> sess \<Rightarrow> bool" where
  "coach_is_owner club_id user_id s =
     (case club_by_id club_id s of None \<Rightarrow> False | Some c \<Rightarrow> rc_owner_id c = user_id)"

text \<open>The heading of the message, and a numbered line for each topic.\<close>

definition TOPICS_HEADING :: pystr where
  "TOPICS_HEADING = [128204, 32, 51060, 48264, 32, 51452, 32, 53664, 47200, 32, 51452, 51228]"

definition topics_message :: "pystr list \<Rightarrow> pystr" where
  "topics_message topics = TOPICS_HEADING @ concat (map (\<lambda>(i, t). [10] @ nat_str i @ ascii ''. '' @ t) (enumerate 1 topics))"

definition post_topics_message :: "uuid \<Rightarrow> datetime \<Rightarrow> uuid \<Rightarrow> uuid \<Rightarrow> pystr list \<Rightarrow> sess \<Rightarrow> unit outcome" where
  "post_topics_message new_id now club_id user_id topics s =
     bindE (send_message new_id now club_id user_id
              (if topics = [] then TOPICS_HEADING @ [10] else topics_message topics) None s) (\<lambda>(_, s'). Inr ((), s'))"

section \<open>Service\<close>

definition FEATURE_PREP :: string where "FEATURE_PREP = ''prep_card''"
definition FEATURE_REFLECTION :: string where "FEATURE_REFLECTION = ''reflection''"
definition FEATURE_TOPICS :: string where "FEATURE_TOPICS = ''club_topics''"
definition FEATURE_AGENDA_TOPICS :: string where "FEATURE_AGENDA_TOPICS = ''agenda_topics''"
definition FEATURE_AUDIO_INTRO :: string where "FEATURE_AUDIO_INTRO = ''audio_intro''"
definition PREP_DAILY_LIMIT :: nat where "PREP_DAILY_LIMIT = 5"
definition FREE_REFLECTION_MONTHLY_LIMIT :: nat where "FREE_REFLECTION_MONTHLY_LIMIT = 1"
definition AUDIO_INTRO_FREE_DAILY_LIMIT :: nat where "AUDIO_INTRO_FREE_DAILY_LIMIT = 1"

definition VALID_CARD_STYLES :: "string list" where
  "VALID_CARD_STYLES = [''motivational'', ''analytical'', ''reflective'']"

definition DEFAULT_CARD_STYLE :: string where "DEFAULT_CARD_STYLE = ''motivational''"

definition today_start :: "datetime \<Rightarrow> datetime" where
  "today_start now = midnight (utc_date now)"

definition month_start :: "datetime \<Rightarrow> datetime" where
  "month_start now = midnight (ymd2ord (year_of (utc_date now)) (month_of (utc_date now)) 1)"

abbreviation BOOK_MISSING :: error where
  "BOOK_MISSING \<equiv> DomainError NotFoundError ''BOOK_NOT_FOUND''"

definition generate_agenda_topic_drafts ::
    "coach_ai \<Rightarrow> uuid \<Rightarrow> datetime \<Rightarrow> uuid \<Rightarrow> uuid \<Rightarrow> pystr \<Rightarrow> sess \<Rightarrow> (pystr list \<times> int) outcome" where
  "generate_agenda_topic_drafts ai new_id now user_id book_id scope s =
     bindE (required BOOK_MISSING (get_book_info book_id s)) (\<lambda>info.
     bindE (generate_agenda_topics ai (bi_title info) (bi_author info) scope) (\<lambda>content.
     bindE (record_usage new_id now user_id FEATURE_AGENDA_TOPICS (Some book_id) (snd content) s) (\<lambda>(_, s').
     Inr (content, s'))))"

definition resolve_style :: "uuid \<Rightarrow> sess \<Rightarrow> string" where
  "resolve_style user_id s =
     (case get_prefs user_id s of
        Some stored \<Rightarrow> if stored \<in> set VALID_CARD_STYLES then stored else DEFAULT_CARD_STYLE
      | None \<Rightarrow> DEFAULT_CARD_STYLE)"

definition set_card_style :: "datetime \<Rightarrow> uuid \<Rightarrow> string \<Rightarrow> sess \<Rightarrow> string outcome" where
  "set_card_style now user_id style s =
     (if style \<notin> set VALID_CARD_STYLES then Inl (DomainError NotFoundError ''INVALID_CARD_STYLE'')
      else bindE (upsert_prefs now user_id style s) (\<lambda>(_, s'). Inr (style, s')))"

definition get_prep_card ::
    "coach_ai \<Rightarrow> bool \<Rightarrow> uuid \<Rightarrow> datetime \<Rightarrow> uuid \<Rightarrow> uuid \<Rightarrow> prep_cache \<Rightarrow> sess \<Rightarrow> prep_card outcome \<times> prep_cache" where
  "get_prep_card ai up new_id now user_id book_id cache s =
     (let style = resolve_style user_id s
      in case get_prep up now book_id style cache of
           Inl e \<Rightarrow> (Inl e, cache)
         | Inr (Some cached) \<Rightarrow> (Inr (cached, s), cache)
         | Inr None \<Rightarrow>
             if PREP_DAILY_LIMIT \<le> count_since user_id FEATURE_PREP (today_start now) s
             then (Inl (DomainError RateLimitedError ''PREP_DAILY_LIMIT''), cache)
             else case get_book_info book_id s of
                    None \<Rightarrow> (Inl BOOK_MISSING, cache)
                  | Some info \<Rightarrow>
                    case generate_prep_card ai (bi_title info) (bi_author info) (bi_description info) style of
                      Inl e \<Rightarrow> (Inl e, cache)
                    | Inr content \<Rightarrow>
                        (bindE (record_usage new_id now user_id FEATURE_PREP (Some book_id) (pc_tokens_used content) s)
                           (\<lambda>(_, s'). Inr (content, s')),
                         set_prep up now book_id style content cache))"

definition get_audio_intro :: "coach_ai \<Rightarrow> uuid \<Rightarrow> datetime \<Rightarrow> uuid \<Rightarrow> uuid \<Rightarrow> sess \<Rightarrow> (pystr \<times> int) outcome" where
  "get_audio_intro ai new_id now user_id book_id s =
     bindE (guardE (coach_is_pro user_id s \<or>
                    count_since user_id FEATURE_AUDIO_INTRO (today_start now) s < AUDIO_INTRO_FREE_DAILY_LIMIT)
              (DomainError RateLimitedError ''AUDIO_INTRO_DAILY_LIMIT'')) (\<lambda>_.
     bindE (required BOOK_MISSING (get_book_info book_id s)) (\<lambda>info.
     bindE (generate_audio_intro ai (bi_title info) (bi_author info) (bi_description info)) (\<lambda>content.
     bindE (record_usage new_id now user_id FEATURE_AUDIO_INTRO (Some book_id) (snd content) s) (\<lambda>(_, s').
     Inr (content, s')))))"

definition create_reflection ::
    "coach_ai \<Rightarrow> uuid \<Rightarrow> uuid \<Rightarrow> datetime \<Rightarrow> uuid \<Rightarrow> uuid \<Rightarrow> sess \<Rightarrow> reflection outcome" where
  "create_reflection ai new_id log_id now user_id user_book_id s =
     bindE (required (DomainError NotFoundError ''USER_BOOK_NOT_FOUND'') (get_reflection_input now user_id user_book_id s)) (\<lambda>info.
     bindE (get_reflection user_id (ri_book_id info) s) (\<lambda>existing.
     case existing of
       Some c \<Rightarrow> Inr (c, s)
     | None \<Rightarrow>
         bindE (guardE (coach_is_pro user_id s \<or>
                        count_since user_id FEATURE_REFLECTION (month_start now) s < FREE_REFLECTION_MONTHLY_LIMIT)
                  (DomainError PermissionDeniedError ''PRO_REQUIRED'')) (\<lambda>_.
         bindE (generate_reflection ai (ri_title info) (ri_author info) (ri_highlights info) (ri_reading_days info)) (\<lambda>content.
         bindE (repo_create_reflection new_id now user_id (ri_book_id info) content s) (\<lambda>(stored, s1).
         bindE (record_usage log_id now user_id FEATURE_REFLECTION (Some (ri_book_id info)) (rl_tokens_used content) s1) (\<lambda>(_, s2).
         Inr (stored, s2)))))))"

definition get_club_topics ::
    "coach_ai \<Rightarrow> uuid \<Rightarrow> uuid \<Rightarrow> datetime \<Rightarrow> uuid \<Rightarrow> uuid \<Rightarrow> int \<Rightarrow> int \<Rightarrow> sess \<Rightarrow> (pystr list \<times> int) outcome" where
  "get_club_topics ai new_id log_id now user_id club_id page_start page_end s =
     bindE (guardE (coach_is_pro user_id s) (DomainError PermissionDeniedError ''PRO_REQUIRED'')) (\<lambda>_.
     bindE (guardE (coach_is_owner club_id user_id s) (DomainError PermissionDeniedError ''NOT_CLUB_OWNER'')) (\<lambda>_.
     bindE (required (DomainError NotFoundError ''CLUB_BOOK_NOT_SET'') (get_club_book club_id s)) (\<lambda>info.
     bindE (generate_club_topics ai (bi_title info) page_start page_end) (\<lambda>content.
     bindE (post_topics_message new_id now club_id user_id (fst content) s) (\<lambda>(_, s1).
     bindE (record_usage log_id now user_id FEATURE_TOPICS None (snd content) s1) (\<lambda>(_, s2).
     Inr (content, s2)))))))"

record usage_summary =
  um_prep_card :: nat
  um_reflection :: nat
  um_club_topics :: nat

definition get_usage :: "datetime \<Rightarrow> uuid \<Rightarrow> sess \<Rightarrow> usage_summary" where
  "get_usage now user_id s =
     (let since = month_start now
      in \<lparr>um_prep_card = count_since user_id FEATURE_PREP since s,
          um_reflection = count_since user_id FEATURE_REFLECTION since s,
          um_club_topics = count_since user_id FEATURE_TOPICS since s\<rparr>)"

text \<open>The port of the club domain: recommendations for an agenda, through the function above.\<close>

definition agenda_topic_recommendations ::
    "coach_ai \<Rightarrow> uuid \<Rightarrow> datetime \<Rightarrow> uuid \<Rightarrow> uuid \<Rightarrow> uuid \<Rightarrow> uuid \<Rightarrow> uuid \<Rightarrow> pystr \<Rightarrow> sess \<Rightarrow> pystr list outcome" where
  "agenda_topic_recommendations ai new_id now club_id session_id agenda_id user_id book_id scope s =
     bindE (authored_agenda club_id session_id agenda_id user_id s) (\<lambda>_.
     bindE (generate_agenda_topic_drafts ai new_id now user_id book_id scope s) (\<lambda>(content, s').
     Inr (fst content, s')))"

end
