(* ===== verification/CoachProps.thy ===== *)
theory CoachProps
  imports Coach
begin

text \<open>
  The requests of the reading coach as a machine over the database and the cache, the quotas it
  keeps, and what is never generated twice.
\<close>

section \<open>Documents are read back\<close>

lemma each_text: "each doc_text (map DText ts) = Inr ts"
  by (induction ts) simp_all

lemma each_book:
  "each next_book_from_row (map (\<lambda>b. DObject [(''title'', DText (nb_title b)), (''reason'', DText (nb_reason b))]) bs) = Inr bs"
  by (induction bs) (simp_all add: next_book_from_row_def the_key_def)

lemma content_roundtrip: "content_from_row (content_to_json c) = Inr c"
  by (simp add: content_from_row_def content_to_json_def the_key_def each_text each_book)

lemma prep_roundtrip: "prep_from_json (prep_to_json c) = Inr c"
  by (simp add: prep_from_json_def prep_to_json_def the_key_def each_text)

section \<open>The requests\<close>

datatype coach_op =
    PrepCard coach_ai bool uuid datetime uuid uuid
  | CardStyle datetime uuid string
  | AudioIntro coach_ai uuid datetime uuid uuid
  | Reflect coach_ai uuid uuid datetime uuid uuid
  | ClubTopics coach_ai uuid uuid datetime uuid uuid int int
  | AgendaTopics coach_ai uuid datetime uuid uuid uuid uuid uuid pystr

text \<open>A request that fails rolls the session back; what it wrote to the cache stays.\<close>

definition settled :: "sess \<Rightarrow> 'a outcome \<times> prep_cache \<Rightarrow> error + sess \<times> prep_cache" where
  "settled s r = Inr (case fst r of Inl _ \<Rightarrow> s | Inr (_, s') \<Rightarrow> s', snd r)"

fun coach_step :: "coach_op \<Rightarrow> sess \<times> prep_cache \<Rightarrow> error + sess \<times> prep_cache" where
  "coach_step (PrepCard ai up i now u b) (s, c) = settled s (get_prep_card ai up i now u b c s)"
| "coach_step (CardStyle now u st) (s, c) = settled s (set_card_style now u st s, c)"
| "coach_step (AudioIntro ai i now u b) (s, c) = settled s (get_audio_intro ai i now u b s, c)"
| "coach_step (Reflect ai i l now u ub) (s, c) = settled s (create_reflection ai i l now u ub s, c)"
| "coach_step (ClubTopics ai i l now u k p q) (s, c) = settled s (get_club_topics ai i l now u k p q s, c)"
| "coach_step (AgendaTopics ai i now k v a u b sc) (s, c) = settled s (agenda_topic_recommendations ai i now k v a u b sc s, c)"

definition on_day :: "uuid \<Rightarrow> string \<Rightarrow> date \<Rightarrow> sess \<Rightarrow> nat" where
  "on_day u f d s = length (filter (\<lambda>l. ul_user_id l = u \<and> ul_feature l = f \<and> utc_date (ul_created_at l) = d) (t_usage_logs s))"

definition in_month :: "uuid \<Rightarrow> string \<Rightarrow> datetime \<Rightarrow> sess \<Rightarrow> nat" where
  "in_month u f m s = length (filter (\<lambda>l. ul_user_id l = u \<and> ul_feature l = f \<and> month_start (ul_created_at l) = m) (t_usage_logs s))"

definition quota_ok :: "sess \<times> prep_cache \<Rightarrow> bool" where
  "quota_ok = (\<lambda>(s, _). (\<forall>u d. on_day u FEATURE_PREP d s \<le> 5) \<and>
     (\<forall>u. coach_is_pro u s \<or> (\<forall>d. on_day u FEATURE_AUDIO_INTRO d s \<le> 1) \<and> (\<forall>m. in_month u FEATURE_REFLECTION m s \<le> 1)))"

lemmas features = FEATURE_PREP_def FEATURE_REFLECTION_def FEATURE_TOPICS_def FEATURE_AGENDA_TOPICS_def FEATURE_AUDIO_INTRO_def

lemma length_filter_weaken: "(\<And>x. P x \<Longrightarrow> Q x) \<Longrightarrow> length (filter P xs) \<le> length (filter Q xs)"
  by (induction xs) auto

lemma on_day_count: "on_day u f (utc_date now) s \<le> count_since u f (today_start now) s"
  unfolding on_day_def count_since_def today_start_def by (rule length_filter_weaken) (auto simp: midnight_le_iff)

lemma month_start_le: "month_start t \<le> t"
  unfolding month_start_def midnight_le_iff by (rule month_of_bounds(1))

lemma in_month_count: "in_month u f (month_start now) s \<le> count_since u f (month_start now) s"
  unfolding in_month_def count_since_def by (rule length_filter_weaken) (metis month_start_le)

section \<open>One step of the ledger\<close>

definition allowed :: "usage_log \<Rightarrow> sess \<Rightarrow> bool" where
  "allowed l s \<longleftrightarrow>
     (ul_feature l = FEATURE_PREP \<longrightarrow> count_since (ul_user_id l) FEATURE_PREP (today_start (ul_created_at l)) s < 5) \<and>
     (ul_feature l = FEATURE_AUDIO_INTRO \<longrightarrow> coach_is_pro (ul_user_id l) s \<or>
        count_since (ul_user_id l) FEATURE_AUDIO_INTRO (today_start (ul_created_at l)) s < 1) \<and>
     (ul_feature l = FEATURE_REFLECTION \<longrightarrow> coach_is_pro (ul_user_id l) s \<or>
        count_since (ul_user_id l) FEATURE_REFLECTION (month_start (ul_created_at l)) s < 1)"

definition metered :: "sess \<Rightarrow> sess \<Rightarrow> bool" where
  "metered s s' \<longleftrightarrow> t_users s' = t_users s \<and>
     (t_usage_logs s' = t_usage_logs s \<or> (\<exists>l. t_usage_logs s' = t_usage_logs s @ [l] \<and> allowed l s))"

lemma on_day_cong: "t_usage_logs s' = t_usage_logs s \<Longrightarrow> on_day u f d s' = on_day u f d s"
  and in_month_cong: "t_usage_logs s' = t_usage_logs s \<Longrightarrow> in_month u f d s' = in_month u f d s"
  and count_cong: "t_usage_logs s' = t_usage_logs s \<Longrightarrow> count_since u f m s' = count_since u f m s"
  and pro_cong: "t_users s' = t_users s \<Longrightarrow> coach_is_pro u s' = coach_is_pro u s"
  by (simp_all add: on_day_def in_month_def count_since_def coach_is_pro_def)

lemma on_day_snoc:
  assumes "t_usage_logs s' = t_usage_logs s @ [l]"
  shows "on_day u f d s' = on_day u f d s + (if ul_user_id l = u \<and> ul_feature l = f \<and> utc_date (ul_created_at l) = d then 1 else 0)"
    "in_month u f m s' = in_month u f m s + (if ul_user_id l = u \<and> ul_feature l = f \<and> month_start (ul_created_at l) = m then 1 else 0)"
  using assms by (simp_all add: on_day_def in_month_def)

lemma metered_quota:
  assumes q: "quota_ok (s, c)" and m: "metered s s'"
  shows "quota_ok (s', c')"
proof -
  have users: "t_users s' = t_users s" using m by (simp add: metered_def)
  consider "t_usage_logs s' = t_usage_logs s" | l where "t_usage_logs s' = t_usage_logs s @ [l]" "allowed l s"
    using m by (auto simp: metered_def)
  then show ?thesis
  proof cases
    case 1
    then show ?thesis using q by (simp add: quota_ok_def on_day_cong [OF 1] in_month_cong [OF 1] pro_cong [OF users])
  next
    case (2 l)
    note sn = on_day_snoc [OF 2(1)]
    have prep: "on_day u FEATURE_PREP d s' \<le> 5" for u d
    proof -
      have "on_day u FEATURE_PREP d s \<le> 5" using q by (simp add: quota_ok_def)
      moreover have "on_day u FEATURE_PREP d s < 5" if "ul_user_id l = u" "ul_feature l = FEATURE_PREP" "utc_date (ul_created_at l) = d"
        using 2(2) that on_day_count [of u FEATURE_PREP "ul_created_at l" s] by (auto simp: allowed_def)
      ultimately show ?thesis by (auto simp: sn Suc_le_eq)
    qed
    have free: "on_day u FEATURE_AUDIO_INTRO d s' \<le> 1 \<and> in_month u FEATURE_REFLECTION k s' \<le> 1" if "\<not> coach_is_pro u s'" for u d k
    proof -
      have np: "\<not> coach_is_pro u s" using that pro_cong [OF users] by simp
      then have le: "on_day u FEATURE_AUDIO_INTRO d s \<le> 1" "in_month u FEATURE_REFLECTION k s \<le> 1" using q by (auto simp: quota_ok_def)
      have "on_day u FEATURE_AUDIO_INTRO d s < 1"
        if "ul_user_id l = u" "ul_feature l = FEATURE_AUDIO_INTRO" "utc_date (ul_created_at l) = d"
        using 2(2) that np on_day_count [of u FEATURE_AUDIO_INTRO "ul_created_at l" s] by (auto simp: allowed_def)
      moreover have "in_month u FEATURE_REFLECTION k s < 1"
        if "ul_user_id l = u" "ul_feature l = FEATURE_REFLECTION" "month_start (ul_created_at l) = k"
        using 2(2) that np in_month_count [of u FEATURE_REFLECTION "ul_created_at l" s] by (auto simp: allowed_def)
      ultimately show ?thesis using le by (auto simp: sn)
    qed
    show ?thesis unfolding quota_ok_def using prep free by auto
  qed
qed

lemma record_usage_Inr:
  assumes "record_usage i now u f b n s = Inr (x, s')"
  shows "\<exists>l. s' = s\<lparr>t_usage_logs := t_usage_logs s @ [l]\<rparr> \<and> ul_user_id l = u \<and> ul_feature l = f \<and> ul_created_at l = now"
  using assms by (auto simp: record_usage_def insert_row_Inr_iff Let_def split: if_splits)

lemma record_usage_metered:
  assumes r: "record_usage i now u f b n s1 = Inr (x, s')" and "t_users s1 = t_users s" "t_usage_logs s1 = t_usage_logs s"
    and "\<And>l. ul_user_id l = u \<Longrightarrow> ul_feature l = f \<Longrightarrow> ul_created_at l = now \<Longrightarrow> allowed l s"
  shows "metered s s'"
  using record_usage_Inr [OF r] assms(2-4) by (auto simp: metered_def)

lemma metered_refl: "metered s s"
  by (simp add: metered_def)

lemma prep_metered:
  assumes "fst (get_prep_card ai up i now u b c s) = Inr (x, s')"
  shows "metered s s'"
proof (cases "get_prep up now b (resolve_style u s) c")
  case (Inr o')
  show ?thesis
  proof (cases o')
    case None
    then obtain info :: book_info and content :: prep_card and y where r: "record_usage i now u FEATURE_PREP (Some b) (pc_tokens_used content) s = Inr (y, s')"
      and lim: "count_since u FEATURE_PREP (today_start now) s < 5"
      using assms Inr by (auto simp: get_prep_card_def Let_def PREP_DAILY_LIMIT_def not_le split: if_splits option.splits sum.splits)
    show ?thesis by (rule record_usage_metered [OF r]) (use lim in \<open>auto simp: allowed_def features\<close>)
  qed (use assms Inr in \<open>auto simp: get_prep_card_def Let_def metered_refl\<close>)
qed (use assms in \<open>auto simp: get_prep_card_def Let_def\<close>)

lemma style_metered: "set_card_style now u st s = Inr (x, s') \<Longrightarrow> metered s s'"
  by (auto simp: set_card_style_def upsert_prefs_def metered_def split: if_splits option.splits)

lemma audio_metered:
  assumes "get_audio_intro ai i now u b s = Inr (x, s')"
  shows "metered s s'"
proof -
  obtain content y where r: "record_usage i now u FEATURE_AUDIO_INTRO (Some b) (snd content) s = Inr (y, s')"
    and lim: "coach_is_pro u s \<or> count_since u FEATURE_AUDIO_INTRO (today_start now) s < 1"
    using assms by (auto simp: get_audio_intro_def AUDIO_INTRO_FREE_DAILY_LIMIT_def)
  show ?thesis by (rule record_usage_metered [OF r]) (use lim in \<open>auto simp: allowed_def features\<close>)
qed

lemma create_reflection_Inr:
  assumes "repo_create_reflection i now u b content s = Inr (y, s1)"
  shows "y = content \<and> (\<exists>g. s1 = s\<lparr>t_reflection_guides := t_reflection_guides s @ [g]\<rparr> \<and> rg_key g = (u, b) \<and>
    rg_content g = content_to_json content \<and> fetch rg_key (u, b) (t_reflection_guides s) = None)"
  using assms by (auto simp: repo_create_reflection_def insert_row_Inr_iff rg_key_def Let_def split: if_splits)

lemma reflect_metered:
  assumes "create_reflection ai i l now u ub s = Inr (x, s')"
  shows "metered s s'"
proof -
  obtain info o' where o': "get_reflection u (ri_book_id info) s = Inr o'" "get_reflection_input now u ub s = Some info"
    using assms by (auto simp: create_reflection_def)
  show ?thesis
  proof (cases o')
    case None
    then obtain content y s1 z where c: "repo_create_reflection i now u (ri_book_id info) content s = Inr (y, s1)"
      and r: "record_usage l now u FEATURE_REFLECTION (Some (ri_book_id info)) (rl_tokens_used content) s1 = Inr (z, s')"
      and lim: "coach_is_pro u s \<or> count_since u FEATURE_REFLECTION (month_start now) s < 1"
      using assms o' by (auto simp: create_reflection_def FREE_REFLECTION_MONTHLY_LIMIT_def)
    show ?thesis by (rule record_usage_metered [OF r]) (use create_reflection_Inr [OF c] lim in \<open>auto simp: allowed_def features\<close>)
  qed (use assms o' in \<open>auto simp: create_reflection_def metered_refl\<close>)
qed

lemma send_message_frame:
  "send_message i now k u t m s = Inr (x, s') \<Longrightarrow> t_users s' = t_users s \<and> t_usage_logs s' = t_usage_logs s"
  by (auto simp: send_message_def create_message_def Let_def)

lemma topics_metered:
  assumes "get_club_topics ai i l now u k p q s = Inr (x, s')"
  shows "metered s s'"
proof -
  obtain content s1 y z where m: "post_topics_message i now k u (fst content) s = Inr (y, s1)"
    and r: "record_usage l now u FEATURE_TOPICS None (snd content) s1 = Inr (z, s')"
    using assms by (auto simp: get_club_topics_def)
  have "t_users s1 = t_users s" "t_usage_logs s1 = t_usage_logs s"
    using m send_message_frame by (auto simp: post_topics_message_def)
  from record_usage_metered [OF r this] show ?thesis by (auto simp: allowed_def features)
qed

lemma agenda_metered:
  assumes "agenda_topic_recommendations ai i now k v a u b sc s = Inr (x, s')"
  shows "metered s s'"
proof -
  obtain content y where "record_usage i now u FEATURE_AGENDA_TOPICS (Some b) (snd content) s = Inr (y, s')"
    using assms by (auto simp: agenda_topic_recommendations_def generate_agenda_topic_drafts_def)
  then show ?thesis by (rule record_usage_metered) (auto simp: allowed_def features)
qed

lemma coach_step_quota:
  assumes "quota_ok sc" "coach_step x sc = Inr sc'"
  shows "quota_ok sc'"
proof -
  obtain s c s' c' where sc: "sc = (s, c)" "sc' = (s', c')" by (cases sc, cases sc')
  have step: "s' = s \<or> metered s s'" using assms(2) unfolding sc
    by (cases x) (auto simp: settled_def split: sum.splits prod.splits
      intro: prep_metered style_metered audio_metered reflect_metered topics_metered agenda_metered)
  then show ?thesis using metered_quota assms(1) metered_refl unfolding sc by blast
qed

interpretation coach: guarded_machine coach_step quota_ok
  by unfold_locales (rule coach_step_quota)

section \<open>Properties\<close>

text \<open>
  C28. The quotas of the coach hold after any sequence of requests, in any order of the clock, whether
  they succeed or fail: no reader is charged for more than five prep cards on one day, and a reader
  without Pro for more than one audio introduction a day and one reflection guide a month.
\<close>
theorem coach_quotas:
  assumes "quota_ok (s, cache)" "run coach_step (s, cache) xs = (s', cache')"
  shows "(\<forall>u d. on_day u FEATURE_PREP d s' \<le> PREP_DAILY_LIMIT) \<and>
    (\<forall>u d m. coach_is_pro u s' \<or> on_day u FEATURE_AUDIO_INTRO d s' \<le> AUDIO_INTRO_FREE_DAILY_LIMIT \<and>
       in_month u FEATURE_REFLECTION m s' \<le> FREE_REFLECTION_MONTHLY_LIMIT)"
  using coach.run_inv [OF assms(1), of xs] assms(2)
  by (auto simp: quota_ok_def PREP_DAILY_LIMIT_def AUDIO_INTRO_FREE_DAILY_LIMIT_def FREE_REFLECTION_MONTHLY_LIMIT_def)

text \<open>A model that answers the same card whatever it is asked.\<close>

definition canned :: coach_ai where
  "canned = \<lparr>generate_prep_card = (\<lambda>t a d st. Inr \<lparr>pc_author_intro = a, pc_theme_keywords = [t], pc_prereading_questions = [], pc_tokens_used = 7\<rparr>),
     generate_reflection = (\<lambda>t a h n. Inr \<lparr>rl_insights = h, rl_action_point = t, rl_next_books = [], rl_tokens_used = 9\<rparr>),
     generate_club_topics = (\<lambda>t p q. Inr ([t], 3)), generate_agenda_topics = (\<lambda>t a sc. Inr ([t], 3)),
     generate_audio_intro = (\<lambda>t a d. Inr (t, 5))\<rparr>"

lemma demo_quota: "quota_ok (demo, Map.empty)"
  by (simp add: quota_ok_def on_day_def in_month_def demo_def empty_sess_def)

theorem coach_quotas_witness:
  "on_day 1 FEATURE_PREP (utc_date t0) (fst (run coach_step (demo, Map.empty) [PrepCard canned False 90 t0 1 10, PrepCard canned False 91 t0 1 10])) \<le> 5"
  using coach_quotas [OF demo_quota surjective_pairing, of "[PrepCard canned False 90 t0 1 10, PrepCard canned False 91 t0 1 10]"]
  by (simp add: PREP_DAILY_LIMIT_def del: run.simps)

text \<open>
  A prep card is generated once: when a card was generated for a reader, every reader of the same
  style who asks for the same book within 72 hours - at any quota and in any state of the
  tables - gets exactly that card, whatever the model would say now, and is not charged.
\<close>
theorem prep_card_shared:
  assumes "get_prep_card ai True i now u b cache s = (Inr (c, s1), cache1)"
    and "get_prep True now b (resolve_style u s) cache = Inr None"
    and "resolve_style v s2 = resolve_style u s" "now \<le> later" "later < now + PREP_CACHE_TTL"
  shows "get_prep_card ai' True j later v b cache1 s2 = (Inr (c, s2), cache1)"
proof -
  have "cache1 = set_prep True now b (resolve_style u s) c cache"
    using assms(1,2) by (auto simp: get_prep_card_def Let_def split: if_splits option.splits sum.splits)
  then have "get_prep True later b (resolve_style v s2) cache1 = Inr (Some c)"
    using assms(3,5) by (simp add: get_prep_def set_prep_def prep_roundtrip)
  then show ?thesis by (simp add: get_prep_card_def Let_def)
qed

theorem prep_card_shared_witness:
  "\<exists>c s1 cache1. get_prep_card canned True 90 t0 1 10 Map.empty demo = (Inr (c, s1), cache1) \<and>
     get_prep_card canned True 91 (t0 + 1) 2 10 cache1 demo = (Inr (c, demo), cache1)"
proof -
  obtain c s1 cache1 where g: "get_prep_card canned True 90 t0 1 10 Map.empty demo = (Inr (c, s1), cache1)"
    by (auto simp: get_prep_card_def get_prep_def count_since_def canned_def get_book_info_def record_usage_def insert_row_def
        resolve_style_def get_prefs_def PREP_DAILY_LIMIT_def FEATURE_PREP_def int4_def demo_defs user_exists_def book_exists_def Let_def)
  from prep_card_shared [OF g, of 2 demo "t0 + 1" canned 91] show ?thesis
    using g by (auto simp: get_prep_def resolve_style_def get_prefs_def demo_def empty_sess_def PREP_CACHE_TTL_def sec_us_def)
qed

text \<open>
  C33. A reflection guide is stored as JSON and read back: asking again for the same library item
  answers exactly the guide that was generated, without another generation, another charge or a
  Pro check, whatever the model would say now.
\<close>
theorem reflection_kept:
  assumes "create_reflection ai i l now u ub s = Inr (c, s1)"
  shows "create_reflection ai' i' l' later u ub s1 = Inr (c, s1)"
proof -
  obtain info o' where info: "get_reflection_input now u ub s = Some info" and o': "get_reflection u (ri_book_id info) s = Inr o'"
    using assms by (auto simp: create_reflection_def)
  have same: "\<exists>j. get_reflection_input later u ub s1 = Some j \<and> ri_book_id j = ri_book_id info"
    if "t_user_books s1 = t_user_books s" "t_books s1 = t_books s"
    using info that by (auto simp: get_reflection_input_def split: option.splits if_splits)
  show ?thesis
  proof (cases o')
    case (Some x)
    then have "x = c" "s1 = s" using assms info o' by (auto simp: create_reflection_def)
    then show ?thesis using same Some o' by (auto simp: create_reflection_def)
  next
    case None
    then obtain content :: reflection and y t z where r: "repo_create_reflection i now u (ri_book_id info) content s = Inr (y, t)"
      and us: "record_usage l now u FEATURE_REFLECTION (Some (ri_book_id info)) (rl_tokens_used content) t = Inr (z, s1)" and "c = y"
      using assms info o' by (auto simp: create_reflection_def)
    obtain g where g: "y = content" "t = s\<lparr>t_reflection_guides := t_reflection_guides s @ [g]\<rparr>" "rg_key g = (u, ri_book_id info)"
      "rg_content g = content_to_json content" "fetch rg_key (u, ri_book_id info) (t_reflection_guides s) = None"
      using create_reflection_Inr [OF r] by blast
    obtain lg where s1: "s1 = t\<lparr>t_usage_logs := t_usage_logs t @ [lg]\<rparr>" using record_usage_Inr [OF us] by blast
    have "get_reflection u (ri_book_id info) s1 = Inr (Some c)"
      using g \<open>c = y\<close> by (simp add: get_reflection_def s1 fetch_append content_roundtrip)
    moreover have "t_user_books s1 = t_user_books s" "t_books s1 = t_books s" by (simp_all add: s1 g(2))
    ultimately show ?thesis using same by (auto simp: create_reflection_def)
  qed
qed

theorem reflection_kept_witness:
  "\<exists>c s1. create_reflection canned 90 91 t0 1 100 demo = Inr (c, s1) \<and> create_reflection canned 92 93 (t0 + 5) 1 100 s1 = Inr (c, s1)"
proof -
  obtain c s1 where "create_reflection canned 90 91 t0 1 100 demo = Inr (c, s1)"
    by (auto simp: create_reflection_def get_reflection_input_def get_reflection_def count_since_def canned_def repo_create_reflection_def
        record_usage_def insert_row_def FREE_REFLECTION_MONTHLY_LIMIT_def FEATURE_REFLECTION_def int4_def demo_defs user_exists_def
        book_exists_def rg_key_def Let_def)
  from this reflection_kept [OF this, of canned 92 93 "t0 + 5"] show ?thesis by blast
qed

end
