(* ===== verification/Discovery.thy ===== *)
theory Discovery
  imports Digest Meetups Social ReadingMachine Demo
begin

text \<open>
  Book recommendations (\<open>backend/app/domains/discovery\<close>) with the taste profiles and onboarding
  interests of \<open>backend/app/domains/book/taste_profile_repository.py\<close> and the decorator
  \<open>cache_response\<close> of \<open>backend/app/core/cache.py\<close>. The recommender that suggests titles, the
  collaborative filter, the case-insensitive match of the server and the square root of the C library
  are parameters. A query that groups and counts answers ties in the order of the catalog. Limits are
  positive (\<open>ge=1\<close> in the router).
\<close>

section \<open>Strategies\<close>

datatype strategy = COLLABORATIVE | SIMILAR_READERS | TASTE_MATCH | COLD_START
datatype channel = CH_TASTE_MATCH | CH_TRENDING | CH_CLUB_PICKS | CH_AI_PICKS

type_synonym vector = "(pystr \<times> int) list"

definition sparse_dot :: "vector \<Rightarrow> vector \<Rightarrow> int" where
  "sparse_dot a b = (\<Sum>(k, n)\<leftarrow>b. (case map_of a k of None \<Rightarrow> 0 | Some m \<Rightarrow> m) * n)"

definition magnitude :: "libm \<Rightarrow> vector \<Rightarrow> rat" where
  "magnitude m v = lm_sqrt m (fl (of_int (\<Sum>(_, n)\<leftarrow>v. n * n)))"

definition cosine_similarity :: "libm \<Rightarrow> vector \<Rightarrow> vector \<Rightarrow> rat" where
  "cosine_similarity m a b =
     (if a = [] \<or> b = [] then 0
      else let mag_a = magnitude m a; mag_b = magnitude m b
           in if mag_a = 0 \<or> mag_b = 0 then 0
              else fl (fl (of_int (sparse_dot a b)) / fl (mag_a * mag_b)))"

section \<open>Taste profiles and interests\<close>

text \<open>A dict that counts: a new key goes to the end.\<close>

fun bump :: "pystr \<Rightarrow> vector \<Rightarrow> vector" where
  "bump k [] = [(k, 1)]"
| "bump k ((j, n) # v) = (if j = k then (j, n + 1) # v else (j, n) # bump k v)"

text \<open>\<open>JSONB\<close> keeps the keys of an object sorted: shorter ones first, then by their bytes.\<close>

fun bytes_less :: "bytes \<Rightarrow> bytes \<Rightarrow> bool" where
  "bytes_less [] ys = (ys \<noteq> [])"
| "bytes_less (x # xs) [] = False"
| "bytes_less (x # xs) (y # ys) = (x < y \<or> x = y \<and> bytes_less xs ys)"

definition key_before :: "pystr \<Rightarrow> pystr \<Rightarrow> bool" where
  "key_before a b \<longleftrightarrow> length (utf8 a) < length (utf8 b) \<or> length (utf8 a) = length (utf8 b) \<and> bytes_less (utf8 a) (utf8 b)"

fun jsonb_insert :: "pystr \<times> int \<Rightarrow> vector \<Rightarrow> vector" where
  "jsonb_insert e [] = [e]"
| "jsonb_insert e (f # v) = (if key_before (fst e) (fst f) then e # f # v else f # jsonb_insert e v)"

definition jsonb :: "vector \<Rightarrow> vector" where
  "jsonb v = fold jsonb_insert v []"

definition taste_of :: "uuid \<Rightarrow> sess \<Rightarrow> taste_profile option" where
  "taste_of user_id s = fetch ta_user_id user_id (t_taste_profiles s)"

definition upsert_taste :: "datetime \<Rightarrow> uuid \<Rightarrow> vector \<Rightarrow> vector \<Rightarrow> sess \<Rightarrow> taste_profile outcome" where
  "upsert_taste now user_id genre_vector author_vector s =
     (let row = \<lparr>ta_user_id = user_id, ta_genre_vector = jsonb genre_vector, ta_author_vector = jsonb author_vector, ta_updated_at = now\<rparr>
      in case taste_of user_id s of
           Some _ \<Rightarrow> Inr (row, s\<lparr>t_taste_profiles := amend ta_user_id user_id (\<lambda>_. row) (t_taste_profiles s)\<rparr>)
         | None \<Rightarrow> bindE (insert_row ta_user_id (user_exists user_id s) row (t_taste_profiles s)) (\<lambda>rows.
                     Inr (row, s\<lparr>t_taste_profiles := rows\<rparr>)))"

text \<open>\<open>re.split(r"[,|]", s)\<close>, each part stripped and the empty ones left out.\<close>

fun split_on :: "(nat \<Rightarrow> bool) \<Rightarrow> pystr \<Rightarrow> pystr list" where
  "split_on P [] = [[]]"
| "split_on P (c # cs) = (if P c then [] # split_on P cs
     else case split_on P cs of [] \<Rightarrow> [[c]] | w # ws \<Rightarrow> (c # w) # ws)"

definition split_authors :: "pystr \<Rightarrow> pystr list" where
  "split_authors author_str = filter (\<lambda>t. t \<noteq> []) (map py_strip (split_on (\<lambda>c. c = 44 \<or> c = 124) author_str))"

definition completed_rows :: "uuid \<Rightarrow> sess \<Rightarrow> book list" where
  "completed_rows user_id s =
     List.map_filter (\<lambda>ub. fetch bk_id (ub_book_id ub) (t_books s))
       (filter (\<lambda>ub. ub_user_id ub = user_id \<and> ub_status ub = COMPLETED) (t_user_books s))"

definition taste_vectors :: "book list \<Rightarrow> vector \<times> vector" where
  "taste_vectors rows =
     foldl (\<lambda>(genres, authors) b.
         (case bk_publisher b of
            None \<Rightarrow> genres
          | Some p \<Rightarrow> let pub = py_strip p in if pub \<noteq> [] \<and> length pub \<le> 12 then bump pub genres else genres,
          fold bump (split_authors (bk_author b)) authors)) ([], []) rows"

definition compute_and_upsert :: "datetime \<Rightarrow> uuid \<Rightarrow> sess \<Rightarrow> taste_profile outcome" where
  "compute_and_upsert now user_id s =
     (case taste_vectors (completed_rows user_id s) of (genre_vector, author_vector) \<Rightarrow>
        upsert_taste now user_id genre_vector author_vector s)"

definition VALID_CATEGORIES :: "string list" where
  "VALID_CATEGORIES = [''genre'', ''author'', ''keyword'']"

definition oi_key :: "onboarding_interest \<Rightarrow> uuid \<times> string \<times> pystr" where
  "oi_key i = (oi_user_id i, oi_category i, oi_value i)"

text \<open>\<open>fresh k\<close> is the identifier of the \<open>k\<close>-th new row.\<close>

definition interest_rows :: "(nat \<Rightarrow> uuid) \<Rightarrow> uuid \<Rightarrow> (string \<times> pystr) list \<Rightarrow> onboarding_interest list" where
  "interest_rows fresh user_id interests =
     map (\<lambda>(k, c, v). \<lparr>oi_id = fresh k, oi_user_id = user_id, oi_category = c, oi_value = v\<rparr>) (enumerate 0 interests)"

definition replace_all_interests :: "(nat \<Rightarrow> uuid) \<Rightarrow> uuid \<Rightarrow> (string \<times> pystr) list \<Rightarrow> sess \<Rightarrow> onboarding_interest list outcome" where
  "replace_all_interests fresh user_id interests s =
     (let others = discard (\<lambda>i. oi_user_id i = user_id) (t_interests s);
          rows = interest_rows fresh user_id interests
      in if list_ex (\<lambda>i. 32 < length (oi_category i) \<or> 64 < length (oi_value i)) rows then Inl DataError
         else if rows \<noteq> [] \<and> \<not> (user_exists user_id s \<and> distinct (map oi_key rows) \<and> distinct (map oi_id (others @ rows)))
         then Inl (DomainError ConflictError ''DUPLICATE_INTEREST'')
         else Inr (rows, s\<lparr>t_interests := others @ rows\<rparr>))"

definition interests_of :: "uuid \<Rightarrow> sess \<Rightarrow> onboarding_interest list" where
  "interests_of user_id s = filter (\<lambda>i. oi_user_id i = user_id) (t_interests s)"

definition replace_interests :: "(nat \<Rightarrow> uuid) \<Rightarrow> uuid \<Rightarrow> (string \<times> pystr) list \<Rightarrow> sess \<Rightarrow> onboarding_interest list outcome" where
  "replace_interests fresh user_id interests s =
     (if list_ex (\<lambda>(c, _). c \<notin> set VALID_CATEGORIES) interests
      then Inl (DomainError ConflictError ''INVALID_INTEREST_CATEGORY'')
      else replace_all_interests fresh user_id interests s)"

section \<open>Queries\<close>

definition my_books :: "uuid \<Rightarrow> sess \<Rightarrow> uuid set" where
  "my_books user_id s = ub_book_id ` set (filter (\<lambda>ub. ub_user_id ub = user_id) (t_user_books s))"

text \<open>The common shape: join and group by book, count, keep what is not in the library, largest first.\<close>

definition ranked_books :: "uuid \<Rightarrow> (book \<Rightarrow> nat) \<Rightarrow> nat \<Rightarrow> nat \<Rightarrow> sess \<Rightarrow> book list" where
  "ranked_books user_id cnt least limit s =
     take limit (order_desc (\<lambda>b. int (cnt b))
       (filter (\<lambda>b. least \<le> cnt b \<and> bk_id b \<notin> my_books user_id s) (t_books s)))"

definition community_popular :: "datetime \<Rightarrow> uuid \<Rightarrow> nat \<Rightarrow> sess \<Rightarrow> book list" where
  "community_popular now user_id limit s =
     ranked_books user_id
       (\<lambda>b. length (filter (\<lambda>p. po_book_id p = bk_id b \<and> now - 7 * day_us \<le> po_created_at p \<and> po_deleted_at p = None) (t_posts s)))
       1 limit s"

definition completed_by :: "uuid \<Rightarrow> sess \<Rightarrow> uuid list" where
  "completed_by user_id s = map ub_book_id (filter (\<lambda>ub. ub_user_id ub = user_id \<and> ub_status ub = COMPLETED) (t_user_books s))"

definition readers_in_common :: "uuid \<Rightarrow> nat \<Rightarrow> sess \<Rightarrow> uuid set" where
  "readers_in_common user_id min_common s =
     {u \<in> ub_user_id ` set (t_user_books s). u \<noteq> user_id \<and>
        min_common \<le> length (filter (\<lambda>b. b \<in> set (completed_by user_id s)) (completed_by u s))}"

definition completed_count :: "uuid set \<Rightarrow> book \<Rightarrow> sess \<Rightarrow> nat" where
  "completed_count readers b s =
     length (filter (\<lambda>ub. ub_book_id ub = bk_id b \<and> ub_user_id ub \<in> readers \<and> ub_status ub = COMPLETED) (t_user_books s))"

definition similar_readers_books :: "uuid \<Rightarrow> nat \<Rightarrow> sess \<Rightarrow> book list" where
  "similar_readers_books user_id limit s =
     ranked_books user_id (\<lambda>b. completed_count (readers_in_common user_id 2 s) b s) 1 limit s"

definition recently_added :: "datetime \<Rightarrow> uuid \<Rightarrow> nat \<Rightarrow> sess \<Rightarrow> book list" where
  "recently_added now user_id limit s =
     ranked_books user_id
       (\<lambda>b. length (filter (\<lambda>ub. ub_book_id ub = bk_id b \<and> ub_user_id ub \<noteq> user_id \<and>
               (case ub_started_at ub of None \<Rightarrow> False | Some t \<Rightarrow> now - 14 * day_us \<le> t)) (t_user_books s))) 2 limit s"

definition books_read_by_users :: "uuid list \<Rightarrow> uuid \<Rightarrow> nat \<Rightarrow> sess \<Rightarrow> book list" where
  "books_read_by_users similar user_id limit s =
     (if similar = [] then [] else ranked_books user_id (\<lambda>b. completed_count (set similar) b s) 1 limit s)"

definition books_of_publisher :: "uuid \<Rightarrow> pystr \<Rightarrow> nat \<Rightarrow> sess \<Rightarrow> book list" where
  "books_of_publisher user_id genre limit s =
     take limit (order_desc bk_created_at
       (filter (\<lambda>b. bk_publisher b = Some genre \<and> bk_id b \<notin> my_books user_id s) (t_books s)))"

fun genre_loop :: "uuid \<Rightarrow> nat \<Rightarrow> sess \<Rightarrow> pystr list \<Rightarrow> (book \<times> pystr) list \<Rightarrow> (book \<times> pystr) list" where
  "genre_loop user_id limit s [] results = results"
| "genre_loop user_id limit s (g # gs) results =
     (let results' = foldl (\<lambda>res b. if bk_id b \<in> (bk_id \<circ> fst) ` set res then res else res @ [(b, g)])
                       results (books_of_publisher user_id g limit s)
      in if limit \<le> length results' then results' else genre_loop user_id limit s gs results')"

definition books_by_genre_match :: "uuid \<Rightarrow> pystr list \<Rightarrow> nat \<Rightarrow> sess \<Rightarrow> (book \<times> pystr) list" where
  "books_by_genre_match user_id genre_keywords limit s = take limit (genre_loop user_id limit s genre_keywords [])"

definition count_completed_books_of :: "uuid \<Rightarrow> sess \<Rightarrow> nat" where
  "count_completed_books_of user_id s = length (completed_by user_id s)"

definition trending :: "datetime \<Rightarrow> uuid \<Rightarrow> nat \<Rightarrow> sess \<Rightarrow> book list" where
  "trending now user_id limit s =
     ranked_books user_id
       (\<lambda>b. length (filter (\<lambda>r. now - 7 * day_us \<le> rs_started_at r \<and>
               (case fetch ub_id (rs_user_book_id r) (t_user_books s) of None \<Rightarrow> False | Some ub \<Rightarrow> ub_book_id ub = bk_id b))
             (t_reading_sessions s))) 1 limit s"

definition club_size :: "uuid \<Rightarrow> sess \<Rightarrow> nat" where
  "club_size club_id s = length (filter (\<lambda>m. cm_club_id m = club_id) (t_club_members s))"

definition club_picks :: "uuid \<Rightarrow> nat \<Rightarrow> sess \<Rightarrow> book list" where
  "club_picks user_id limit s =
     ranked_books user_id
       (\<lambda>b. foldl max 0 (map (\<lambda>c. club_size (rc_id c) s)
              (filter (\<lambda>c. rc_book_id c = Some (bk_id b) \<and> (rc_id c, user_id) \<in> cm_key ` set (t_club_members s)) (t_clubs s))))
       1 limit s"

text \<open>
  The latest completed books: by \<open>finished_at\<close>, those without last, then by \<open>updated_at\<close>, which the
  model of a library row does not keep (\<open>touched\<close>).
\<close>

definition recent_completed_books :: "(uuid \<Rightarrow> datetime) \<Rightarrow> uuid \<Rightarrow> nat \<Rightarrow> sess \<Rightarrow> (pystr \<times> pystr) list" where
  "recent_completed_books touched user_id limit s =
     (let rows = order_desc (touched \<circ> ub_id) (filter (\<lambda>ub. ub_user_id ub = user_id \<and> ub_status ub = COMPLETED) (t_user_books s));
          dated = order_desc (\<lambda>ub. the (ub_finished_at ub)) (filter (\<lambda>ub. ub_finished_at ub \<noteq> None) rows)
      in take limit (List.map_filter (\<lambda>ub. map_option (\<lambda>b. (bk_title b, bk_author b)) (fetch bk_id (ub_book_id ub) (t_books s)))
           (dated @ filter (\<lambda>ub. ub_finished_at ub = None) rows)))"

definition find_book_by_title :: "(pystr \<Rightarrow> pystr \<Rightarrow> bool) \<Rightarrow> pystr \<Rightarrow> uuid \<Rightarrow> uuid set \<Rightarrow> sess \<Rightarrow> book option" where
  "find_book_by_title ilike title user_id exclude s =
     List.find (\<lambda>b. bk_id b \<notin> exclude)
       (take 5 (order_asc (\<lambda>b. int (length (bk_title b)))
          (filter (\<lambda>b. ilike ([37] @ title @ [37]) (bk_title b) \<and> bk_id b \<notin> my_books user_id s) (t_books s))))"

section \<open>Service\<close>

definition COLD_START_THRESHOLD :: nat where "COLD_START_THRESHOLD = 3"
definition SIMILAR_READERS_TOP_N :: nat where "SIMILAR_READERS_TOP_N = 5"
definition AI_PICKS_HISTORY :: nat where "AI_PICKS_HISTORY = 5"

text \<open>The reasons shown to the reader, as code points.\<close>

definition REASON_TRENDING :: pystr where
  "REASON_TRENDING = [52572, 44540, 32, 55, 51068, 44036, 32, 44032, 51109, 32, 47566, 51060, 32, 51069, 55176, 45716, 32, 52293]"

definition REASON_CLUB :: pystr where
  "REASON_CLUB = [45236, 44032, 32, 49549, 54620, 32, 53364, 47101, 50640, 49436, 32, 51069, 45716, 32, 52293]"

definition REASON_POPULAR :: pystr where
  "REASON_POPULAR = [52964, 48036, 45768, 54000, 50640, 49436, 32, 51064, 44592, 32, 51080, 45716, 32, 52293]"

definition REASON_SIMILAR :: pystr where
  "REASON_SIMILAR = [48708, 49847, 54620, 32, 52712, 54693, 51032, 32, 46021, 51088, 44032, 32, 51069, 51008, 32, 52293]"

definition REASON_RECENT :: pystr where
  "REASON_RECENT = [52572, 44540, 32, 47566, 51060, 32, 52628, 44032, 46108, 32, 52293]"

definition REASON_READERS :: pystr where
  "REASON_READERS = [48708, 49847, 54620, 32, 46021, 49436, 32, 54056, 53556, 51032, 32, 49324, 50857, 51088, 44032, 32, 51069, 51008, 32, 52293]"

definition REASON_TASTE :: pystr where
  "REASON_TASTE = [45817, 49888, 51032, 32, 52712, 54693, 32, 51109, 47476, 32, 39]"

definition REASON_INTEREST :: pystr where
  "REASON_INTEREST = [44288, 49900, 32, 51109, 47476, 32, 39]"

definition REASON_BASED :: pystr where
  "REASON_BASED = [39, 32, 44592, 48152, 32, 52628, 52380]"

definition REASON_NOW :: pystr where
  "REASON_NOW = [51648, 44552, 32, 44032, 51109, 32, 47566, 51060, 32, 51069, 55176, 45716, 32, 52293]"

record rec_item =
  rk_id :: uuid
  rk_title :: pystr
  rk_author :: pystr
  rk_cover_url :: "pystr option"
  rk_reason :: pystr
  rk_strategy :: strategy

definition item_of :: "pystr \<Rightarrow> strategy \<Rightarrow> book \<Rightarrow> rec_item" where
  "item_of reason strat b =
     \<lparr>rk_id = bk_id b, rk_title = bk_title b, rk_author = bk_author b, rk_cover_url = bk_cover_url b,
      rk_reason = reason, rk_strategy = strat\<rparr>"

definition add_unseen :: "pystr \<Rightarrow> book list \<Rightarrow> rec_item list \<Rightarrow> rec_item list" where
  "add_unseen reason books result =
     foldl (\<lambda>res b. if bk_id b \<in> rk_id ` set res then res else res @ [item_of reason COLLABORATIVE b]) result books"

definition rule_based :: "datetime \<Rightarrow> uuid \<Rightarrow> nat \<Rightarrow> sess \<Rightarrow> rec_item list" where
  "rule_based now user_id limit s =
     take limit (add_unseen REASON_RECENT (recently_added now user_id 6 s)
       (add_unseen REASON_SIMILAR (similar_readers_books user_id 6 s)
         (add_unseen REASON_POPULAR (community_popular now user_id 6 s) [])))"

definition cold_start :: "datetime \<Rightarrow> uuid \<Rightarrow> nat \<Rightarrow> sess \<Rightarrow> rec_item list" where
  "cold_start now user_id limit s =
     (let genre_interests = map oi_value (filter (\<lambda>i. oi_category i = ''genre'') (interests_of user_id s));
          books = (if genre_interests = [] then [] else books_by_genre_match user_id genre_interests limit s)
      in if books \<noteq> [] then map (\<lambda>(b, g). item_of (REASON_INTEREST @ g @ REASON_BASED) COLD_START b) books
         else map (item_of REASON_NOW COLD_START) (community_popular now user_id limit s))"

definition similar_users :: "libm \<Rightarrow> uuid \<Rightarrow> vector \<Rightarrow> sess \<Rightarrow> uuid list" where
  "similar_users m user_id mine s =
     (let scored = filter (\<lambda>(sim, _). 0 < sim)
            (map (\<lambda>p. (cosine_similarity m mine (ta_genre_vector p), ta_user_id p))
              (filter (\<lambda>p. ta_user_id p \<noteq> user_id) (t_taste_profiles s)))
      in take SIMILAR_READERS_TOP_N (map snd (sort_key (\<lambda>x. - fst x) scored)))"

definition similar_readers :: "libm \<Rightarrow> datetime \<Rightarrow> uuid \<Rightarrow> nat \<Rightarrow> sess \<Rightarrow> rec_item list" where
  "similar_readers m now user_id limit s =
     (case taste_of user_id s of
        None \<Rightarrow> cold_start now user_id limit s
      | Some mine \<Rightarrow> map (item_of REASON_READERS SIMILAR_READERS)
                       (books_read_by_users (similar_users m user_id (ta_genre_vector mine) s) user_id limit s))"

definition top_genres :: "vector \<Rightarrow> pystr list" where
  "top_genres v = map fst (take 3 (sort_key (\<lambda>kv. - snd kv) v))"

definition taste_match :: "datetime \<Rightarrow> uuid \<Rightarrow> nat \<Rightarrow> sess \<Rightarrow> rec_item list" where
  "taste_match now user_id limit s =
     (case taste_of user_id s of
        None \<Rightarrow> cold_start now user_id limit s
      | Some mine \<Rightarrow> map (\<lambda>(b, g). item_of (REASON_TASTE @ g @ REASON_BASED) TASTE_MATCH b)
                       (books_by_genre_match user_id (top_genres (ta_genre_vector mine)) limit s))"

text \<open>The body of \<open>get_recommendations\<close>, without its decorator.\<close>

definition recommend :: "libm \<Rightarrow> datetime \<Rightarrow> uuid \<Rightarrow> strategy \<Rightarrow> nat \<Rightarrow> sess \<Rightarrow> rec_item list" where
  "recommend m now user_id strat0 limit s =
     (let strat = (if count_completed_books_of user_id s < COLD_START_THRESHOLD \<and> strat0 \<notin> {COLD_START, COLLABORATIVE}
                   then COLD_START else strat0)
      in case strat of
           SIMILAR_READERS \<Rightarrow> similar_readers m now user_id limit s
         | TASTE_MATCH \<Rightarrow> taste_match now user_id limit s
         | COLD_START \<Rightarrow> cold_start now user_id limit s
         | COLLABORATIVE \<Rightarrow> rule_based now user_id limit s)"

text \<open>
  \<open>cache_response\<close>: the pattern \<open>recommendations:{user_id}\<close> names only the reader. The value is
  serialised and read back, which keeps a list of texts; Redis may be unreachable (\<open>up\<close>).
\<close>

type_synonym 'v redis = "uuid \<rightharpoonup> 'v \<times> datetime"

definition cache_response :: "bool \<Rightarrow> int \<Rightarrow> datetime \<Rightarrow> uuid \<Rightarrow> 'v \<Rightarrow> 'v redis \<Rightarrow> 'v \<times> 'v redis" where
  "cache_response up ttl now key call cache =
     (case (if up then cache key else None) of
        Some (v, expires) \<Rightarrow> if now < expires then (v, cache) else (call, cache(key \<mapsto> (call, now + ttl)))
      | None \<Rightarrow> (call, if up then cache(key \<mapsto> (call, now + ttl)) else cache))"

definition RECOMMENDATION_TTL :: int where
  "RECOMMENDATION_TTL = 3600 * sec_us"

definition get_recommendations ::
    "libm \<Rightarrow> bool \<Rightarrow> datetime \<Rightarrow> uuid \<Rightarrow> strategy \<Rightarrow> nat \<Rightarrow> rec_item list redis \<Rightarrow> sess \<Rightarrow> rec_item list \<times> rec_item list redis" where
  "get_recommendations m up now user_id strat limit cache s =
     cache_response up RECOMMENDATION_TTL now user_id (recommend m now user_id strat limit s) cache"

definition get_ml_recommendations ::
    "libm \<Rightarrow> bool \<Rightarrow> (uuid \<Rightarrow> rec_item list) option \<Rightarrow> datetime \<Rightarrow> uuid \<Rightarrow> rec_item list redis \<Rightarrow> sess \<Rightarrow>
     rec_item list \<times> rec_item list redis" where
  "get_ml_recommendations m up ml now user_id cache s =
     (let ml_results = (case ml of None \<Rightarrow> [] | Some f \<Rightarrow> f user_id)
      in if ml_results \<noteq> [] then (map (\<lambda>i. i\<lparr>rk_strategy := COLLABORATIVE\<rparr>) ml_results, cache)
         else get_recommendations m up now user_id COLLABORATIVE 10 cache s)"

section \<open>Channels\<close>

text \<open>An item of a channel has no strategy.\<close>

record channel_item =
  ci_id :: uuid
  ci_title :: pystr
  ci_author :: pystr
  ci_cover_url :: "pystr option"
  ci_reason :: pystr

definition channel_item_from :: "rec_item \<Rightarrow> channel_item" where
  "channel_item_from i =
     \<lparr>ci_id = rk_id i, ci_title = rk_title i, ci_author = rk_author i, ci_cover_url = rk_cover_url i, ci_reason = rk_reason i\<rparr>"

definition channel_item_of :: "pystr \<Rightarrow> book \<Rightarrow> channel_item" where
  "channel_item_of reason b =
     \<lparr>ci_id = bk_id b, ci_title = bk_title b, ci_author = bk_author b, ci_cover_url = bk_cover_url b, ci_reason = reason\<rparr>"

definition channel_trending :: "datetime \<Rightarrow> uuid \<Rightarrow> nat \<Rightarrow> sess \<Rightarrow> channel_item list" where
  "channel_trending now user_id limit s = map (channel_item_of REASON_TRENDING) (trending now user_id limit s)"

definition channel_club_picks :: "uuid \<Rightarrow> nat \<Rightarrow> sess \<Rightarrow> channel_item list" where
  "channel_club_picks user_id limit s = map (channel_item_of REASON_CLUB) (club_picks user_id limit s)"

text \<open>A suggestion is a title, an author and a reason.\<close>

fun pick_loop ::
    "(pystr \<Rightarrow> pystr \<Rightarrow> bool) \<Rightarrow> uuid \<Rightarrow> nat \<Rightarrow> sess \<Rightarrow> (pystr \<times> pystr \<times> pystr) list \<Rightarrow> uuid set \<Rightarrow> channel_item list \<Rightarrow> channel_item list" where
  "pick_loop ilike user_id limit s [] matched items = items"
| "pick_loop ilike user_id limit s ((title, author, reason) # rest) matched items =
     (case find_book_by_title ilike title user_id matched s of
        None \<Rightarrow> pick_loop ilike user_id limit s rest matched items
      | Some b \<Rightarrow>
          let items' = items @ [channel_item_of reason b]
          in if limit \<le> length items' then items'
             else pick_loop ilike user_id limit s rest (insert (bk_id b) matched) items')"

definition channel_ai_picks ::
    "((pystr \<times> pystr) list \<Rightarrow> (pystr \<times> pystr \<times> pystr) list result) option \<Rightarrow> (pystr \<Rightarrow> pystr \<Rightarrow> bool) \<Rightarrow> (uuid \<Rightarrow> datetime) \<Rightarrow>
     datetime \<Rightarrow> uuid \<Rightarrow> nat \<Rightarrow> sess \<Rightarrow> channel_item list result" where
  "channel_ai_picks ai ilike touched now user_id limit s =
     (let history = recent_completed_books touched user_id AI_PICKS_HISTORY s
      in case ai of
           None \<Rightarrow> Inr (channel_trending now user_id limit s)
         | Some suggest \<Rightarrow>
             if history = [] then Inr (channel_trending now user_id limit s)
             else bindE (suggest history) (\<lambda>suggestions.
                    let items = pick_loop ilike user_id limit s suggestions {} []
                    in Inr (if items = [] then channel_trending now user_id limit s else items)))"

definition channel_recommendations ::
    "((pystr \<times> pystr) list \<Rightarrow> (pystr \<times> pystr \<times> pystr) list result) option \<Rightarrow> (pystr \<Rightarrow> pystr \<Rightarrow> bool) \<Rightarrow> (uuid \<Rightarrow> datetime) \<Rightarrow>
     datetime \<Rightarrow> uuid \<Rightarrow> channel \<Rightarrow> nat \<Rightarrow> sess \<Rightarrow> channel_item list result" where
  "channel_recommendations ai ilike touched now user_id ch limit s =
     (case ch of
        CH_TASTE_MATCH \<Rightarrow> Inr (map channel_item_from (taste_match now user_id limit s))
      | CH_TRENDING \<Rightarrow> Inr (channel_trending now user_id limit s)
      | CH_CLUB_PICKS \<Rightarrow> Inr (channel_club_picks user_id limit s)
      | CH_AI_PICKS \<Rightarrow> channel_ai_picks ai ilike touched now user_id limit s)"

end
