(* ===== verification/DiscoveryProps.thy ===== *)
theory DiscoveryProps
  imports Discovery
begin

text \<open>
  What every recommendation promises the reader, what the cache makes of it, and that the stored
  interests are those of the last request.
\<close>

section \<open>Picks\<close>

text \<open>Books of the catalog the reader does not have, none twice, no more than asked for.\<close>

definition picks_for :: "uuid \<Rightarrow> nat \<Rightarrow> sess \<Rightarrow> uuid list \<Rightarrow> bool" where
  "picks_for user_id limit s ids \<longleftrightarrow>
     distinct ids \<and> set ids \<subseteq> bk_id ` set (t_books s) - my_books user_id s \<and> length ids \<le> limit"

abbreviation new_books :: "uuid \<Rightarrow> sess \<Rightarrow> uuid set" where
  "new_books user_id s \<equiv> bk_id ` set (t_books s) - my_books user_id s"

lemma distinct_filter_order:
  "distinct (map bk_id rows) \<Longrightarrow> distinct (map bk_id (take n (order_desc f (filter P rows))))"
proof -
  assume d: "distinct (map bk_id rows)"
  have "mset (map bk_id (order_desc f (filter P rows))) = mset (map bk_id (filter P rows))" by (simp add: order_desc_def)
  then have "distinct (map bk_id (order_desc f (filter P rows)))"
    using distinct_map_filter [OF d] mset_eq_imp_distinct_iff by metis
  then show ?thesis by (simp add: take_map [symmetric])
qed

lemma ranked_picks:
  assumes "distinct (map bk_id (t_books s))"
  shows "picks_for u limit s (map bk_id (ranked_books u cnt least limit s))"
  using distinct_filter_order [OF assms] set_take_subset [of limit]
  by (fastforce simp: picks_for_def ranked_books_def)

lemmas ranked_queries =
  community_popular_def similar_readers_books_def recently_added_def trending_def club_picks_def

lemma query_picks:
  assumes "distinct (map bk_id (t_books s))"
  shows "picks_for u limit s (map bk_id (community_popular now u limit s))"
    "picks_for u limit s (map bk_id (similar_readers_books u limit s))"
    "picks_for u limit s (map bk_id (recently_added now u limit s))"
    "picks_for u limit s (map bk_id (trending now u limit s))"
    "picks_for u limit s (map bk_id (club_picks u limit s))"
    "picks_for u limit s (map bk_id (books_read_by_users users u limit s))"
  unfolding ranked_queries books_read_by_users_def
  by (auto intro: ranked_picks [OF assms]) (simp add: picks_for_def)

lemma picks_new: "picks_for u n s ids \<Longrightarrow> set ids \<subseteq> new_books u s"
  by (simp add: picks_for_def)

lemma map_item_of: "map rk_id (map (item_of reason strat) bs) = map bk_id bs"
  by (simp add: item_of_def)

text \<open>Appending what was not seen keeps the identifiers distinct.\<close>

lemma add_unseen_step:
  "distinct (map rk_id result) \<Longrightarrow>
   distinct (map rk_id (add_unseen reason books result)) \<and>
   set (map rk_id (add_unseen reason books result)) = set (map rk_id result) \<union> bk_id ` set books"
  unfolding add_unseen_def by (induction books arbitrary: result) (auto simp: item_of_def)

lemma rule_based_picks:
  assumes d: "distinct (map bk_id (t_books s))"
  shows "picks_for u limit s (map rk_id (rule_based now u limit s))"
proof -
  let ?p = "add_unseen REASON_POPULAR (community_popular now u 6 s) []"
  let ?q = "add_unseen REASON_SIMILAR (similar_readers_books u 6 s) ?p"
  let ?r = "add_unseen REASON_RECENT (recently_added now u 6 s) ?q"
  have sub: "bk_id ` set (community_popular now u 6 s) \<subseteq> new_books u s" "bk_id ` set (similar_readers_books u 6 s) \<subseteq> new_books u s"
    "bk_id ` set (recently_added now u 6 s) \<subseteq> new_books u s"
    using query_picks(1-3) [OF d, THEN picks_new] unfolding set_map by iprover+
  have p: "distinct (map rk_id ?p) \<and> set (map rk_id ?p) \<subseteq> new_books u s"
    using add_unseen_step [of "[]"] sub(1) by simp
  have q: "distinct (map rk_id ?q) \<and> set (map rk_id ?q) \<subseteq> new_books u s"
    using add_unseen_step [of ?p] p sub(2) by simp
  have "distinct (map rk_id ?r) \<and> set (map rk_id ?r) \<subseteq> new_books u s"
    using add_unseen_step [of ?q] q sub(3) by simp
  then show ?thesis
    unfolding rule_based_def picks_for_def take_map [symmetric] using set_take_subset [of limit "map rk_id ?r"]
    by (auto simp del: set_map)
qed

lemma publisher_books:
  "b \<in> set (books_of_publisher u g limit s) \<Longrightarrow> bk_id b \<in> new_books u s"
  unfolding books_of_publisher_def by (auto dest: in_set_takeD)

abbreviation matched :: "(book \<times> pystr) list \<Rightarrow> uuid list" where
  "matched bs \<equiv> map (bk_id \<circ> fst) bs"

lemma collect_matched:
  "distinct (matched res) \<Longrightarrow>
   (let r = foldl (\<lambda>res b. if bk_id b \<in> (bk_id \<circ> fst) ` set res then res else res @ [(b, g)]) res bs
    in distinct (matched r) \<and> set (matched r) = set (matched res) \<union> bk_id ` set bs)"
  by (induction bs arbitrary: res) (auto simp: Let_def image_image)

lemma genre_loop_matched:
  "distinct (matched res) \<Longrightarrow> set (matched res) \<subseteq> new_books u s \<Longrightarrow>
   distinct (matched (genre_loop u limit s gs res)) \<and> set (matched (genre_loop u limit s gs res)) \<subseteq> new_books u s"
proof (induction gs arbitrary: res)
  case (Cons g gs)
  let ?r = "foldl (\<lambda>res b. if bk_id b \<in> (bk_id \<circ> fst) ` set res then res else res @ [(b, g)]) res (books_of_publisher u g limit s)"
  have "distinct (matched ?r)" "set (matched ?r) = set (matched res) \<union> bk_id ` set (books_of_publisher u g limit s)"
    using collect_matched [OF Cons.prems(1)] unfolding Let_def by blast+
  moreover have "bk_id ` set (books_of_publisher u g limit s) \<subseteq> new_books u s"
    using publisher_books by blast
  ultimately have "distinct (matched ?r)" "set (matched ?r) \<subseteq> new_books u s" using Cons.prems(2) by auto
  then show ?case using Cons.IH unfolding genre_loop.simps Let_def by presburger
qed simp

lemma genre_picks:
  "picks_for u limit s (matched (books_by_genre_match u gs limit s))"
  using genre_loop_matched [of "[]" s u limit gs] set_take_subset [of limit "matched (genre_loop u limit s gs [])"]
  unfolding picks_for_def books_by_genre_match_def take_map [symmetric] by (auto simp del: set_map)

lemma map_genre_items: "map rk_id (map (\<lambda>(b, g). item_of (f g) strat b) bs) = matched bs"
  by (auto simp: item_of_def)

lemma cold_start_picks:
  assumes "distinct (map bk_id (t_books s))"
  shows "picks_for u limit s (map rk_id (cold_start now u limit s))"
  unfolding cold_start_def Let_def
  by (simp only: map_item_of map_genre_items query_picks(1) [OF assms] genre_picks if_distrib [of "map rk_id"] split: if_split) simp

lemma taste_match_picks:
  assumes "distinct (map bk_id (t_books s))"
  shows "picks_for u limit s (map rk_id (taste_match now u limit s))"
  unfolding taste_match_def
  by (simp only: map_genre_items genre_picks cold_start_picks [OF assms] split: option.split) simp

lemma similar_readers_picks:
  assumes "distinct (map bk_id (t_books s))"
  shows "picks_for u limit s (map rk_id (similar_readers m now u limit s))"
  unfolding similar_readers_def
  by (simp only: map_item_of query_picks(6) [OF assms] cold_start_picks [OF assms] split: option.split) simp

lemma channel_ids:
  "map ci_id (map (channel_item_of reason) bs) = map bk_id bs" "map ci_id (map channel_item_from is) = map rk_id is"
  by (simp_all add: channel_item_of_def channel_item_from_def)

lemma find_SomeD: "List.find P xs = Some x \<Longrightarrow> x \<in> set xs \<and> P x"
  by (auto simp: find_Some_iff)

lemma find_title:
  "find_book_by_title ilike t u exclude s = Some b \<Longrightarrow> bk_id b \<in> new_books u s - exclude"
  unfolding find_book_by_title_def by (drule find_SomeD) (auto dest: in_set_takeD)

lemma pick_loop_picks:
  "set (map ci_id items) = seen \<Longrightarrow> length items < limit \<Longrightarrow> picks_for u limit s (map ci_id items) \<Longrightarrow>
   picks_for u limit s (map ci_id (pick_loop ilike u limit s picks seen items))"
proof (induction picks arbitrary: seen items)
  case (Cons p rest)
  obtain title author reason where p: "p = (title, author, reason)" by (cases p)
  show ?case
  proof (cases "find_book_by_title ilike title u seen s")
    case None
    then show ?thesis using Cons.IH [OF Cons.prems] p by simp
  next
    case (Some b)
    let ?is = "items @ [channel_item_of reason b]"
    have "picks_for u limit s (map ci_id ?is)"
      using Cons.prems find_title [OF Some] by (auto simp: picks_for_def channel_item_of_def)
    moreover have "set (map ci_id ?is) = insert (bk_id b) seen" using Cons.prems(1) by (auto simp: channel_item_of_def)
    ultimately show ?thesis using Cons.IH [of ?is] Some p by (auto simp: Let_def not_le)
  qed
qed simp

section \<open>Properties\<close>



text \<open>Requests to the cached endpoint: each has its own moment, state of the tables and parameters.\<close>

record rec_request =
  rq_up :: bool
  rq_now :: datetime
  rq_user :: uuid
  rq_strategy :: strategy
  rq_limit :: nat
  rq_tables :: sess

definition serve :: "libm \<Rightarrow> rec_request \<Rightarrow> rec_item list redis \<Rightarrow> rec_item list redis" where
  "serve m r cache = snd (get_recommendations m (rq_up r) (rq_now r) (rq_user r) (rq_strategy r) (rq_limit r) cache (rq_tables r))"

lemma serve_keeps:
  "cache u = Some (items, expires) \<Longrightarrow> rq_now r < expires \<Longrightarrow> serve m r cache u = Some (items, expires)"
  by (auto simp: serve_def get_recommendations_def cache_response_def split: option.split)

lemma served_keep:
  "cache u = Some (items, expires) \<Longrightarrow> \<forall>r \<in> set rs. rq_now r < expires \<Longrightarrow> List.fold (serve m) rs cache u = Some (items, expires)"
  by (induction rs arbitrary: cache) (auto intro: serve_keeps)

text \<open>
  The key of the cached recommendations names only the reader: for an hour, whatever requests of
  whichever readers are served in between, every request of that reader is answered with the first
  answer - for any strategy, any limit, and whatever the tables hold by then. So the answer may be
  longer than the limit, of another strategy, and name a book the reader has added since.
\<close>
theorem cached_answer_ignores_request:
  assumes "cache u = None" "get_recommendations m True now u strat limit cache s = (items, cache')"
    and "\<forall>r \<in> set rs. rq_now r < now + RECOMMENDATION_TTL" "later < now + RECOMMENDATION_TTL"
  shows "items = recommend m now u strat limit s \<and>
    fst (get_recommendations m True later u strat' limit' (List.fold (serve m) rs cache') s') = items"
proof -
  have "items = recommend m now u strat limit s" "cache' u = Some (items, now + RECOMMENDATION_TTL)"
    using assms(1,2) by (auto simp: get_recommendations_def cache_response_def)
  then show ?thesis using served_keep [of cache' u items "now + RECOMMENDATION_TTL" rs m] assms(3,4)
    by (simp add: get_recommendations_def cache_response_def)
qed

text \<open>Reader 2 is shown the book of a post, takes it into the library, and is shown it again.\<close>

definition shelf :: sess where
  "shelf = demo\<lparr>t_posts := [\<lparr>po_id = 900, po_book_id = 10, po_user_id = 1, po_post_type = THOUGHT, po_content = ascii ''hello'',
     po_image_keys = [], po_created_at = t0, po_deleted_at = None\<rparr>]\<rparr>"

definition owned :: sess where
  "owned = shelf\<lparr>t_user_books := map (\<lambda>ub. ub\<lparr>ub_user_id := 2\<rparr>) (t_user_books shelf)\<rparr>"

definition any_libm :: libm where
  "any_libm = \<lparr>lm_sin = id, lm_cos = id, lm_asin = id, lm_sqrt = id, lm_square = id\<rparr>"

theorem cached_answer_ignores_request_witness:
  "(let (items, cache') = get_recommendations any_libm True t0 2 COLD_START 10 Map.empty shelf
    in map rk_id items = [10] \<and> recommend any_libm (t0 + 1) 2 TASTE_MATCH 1 owned = [] \<and>
       fst (get_recommendations any_libm True (t0 + 1) 2 TASTE_MATCH 1 cache' owned) = items)"
proof -
  obtain items cache' where g: "get_recommendations any_libm True t0 2 COLD_START 10 Map.empty shelf = (items, cache')"
    by (cases "get_recommendations any_libm True t0 2 COLD_START 10 Map.empty shelf")
  have r: "map rk_id (recommend any_libm t0 2 COLD_START 10 shelf) = [10]"
    by (simp add: recommend_def cold_start_def interests_of_def community_popular_def ranked_books_def order_desc_def my_books_def
        shelf_def demo_defs demo_def empty_sess_def item_of_def day_us_def)
  have o: "recommend any_libm (t0 + 1) 2 TASTE_MATCH 1 owned = []"
    by (simp add: recommend_def count_completed_books_of_def completed_by_def COLD_START_THRESHOLD_def cold_start_def interests_of_def
        community_popular_def ranked_books_def order_desc_def my_books_def owned_def shelf_def demo_defs demo_def empty_sess_def)
  show ?thesis
    using cached_answer_ignores_request [OF _ g, of "[]" "t0 + 1" TASTE_MATCH 1 owned] r o g
    by (simp add: RECOMMENDATION_TTL_def sec_us_def)
qed

end
