(* ===== verification/Realtime.thy ===== *)
theory Realtime
  imports ClubService Auth
begin

text \<open>
  The websockets: the connection manager of every process with its relay over Redis
  (\<open>backend/app/core/ws_manager.py\<close>) and the three streams (\<open>backend/app/domains/club/ws_router.py\<close>).
  A process is a number, a socket is a number, what a client has received is a list of frames.
  A broadcast is one step: no connection opens or closes while it visits the sockets of its set.
  Redis hands a published text to every process whose relay has subscribed, in the order of
  publication, the publisher's own process included.
\<close>

section \<open>The connection manager\<close>

type_synonym socket = nat
type_synonym worker = nat

datatype index = Clubs | Rooms | Users

datatype relay = Idle | Starting | Listening | Finished

record hub =
  hb_index :: "index \<Rightarrow> pystr \<rightharpoonup> socket set"
  hb_relay :: relay

definition empty_hub :: hub where
  "empty_hub = \<lparr>hb_index = (\<lambda>_. Map.empty), hb_relay = Idle\<rparr>"

definition sockets_at :: "index \<Rightarrow> pystr \<Rightarrow> hub \<Rightarrow> socket set" where
  "sockets_at ix key h = (case hb_index h ix key of None \<Rightarrow> {} | Some ws \<Rightarrow> ws)"

definition set_sockets :: "index \<Rightarrow> pystr \<Rightarrow> socket set option \<Rightarrow> hub \<Rightarrow> hub" where
  "set_sockets ix key ws h = h\<lparr>hb_index := (hb_index h)(ix := (hb_index h ix)(key := ws))\<rparr>"

text \<open>\<open>connect_club\<close>, \<open>connect_room\<close>, \<open>connect_user\<close>.\<close>

definition connect_socket :: "index \<Rightarrow> pystr \<Rightarrow> socket \<Rightarrow> hub \<Rightarrow> hub" where
  "connect_socket ix key w h = set_sockets ix key (Some (insert w (sockets_at ix key h))) h"

text \<open>\<open>disconnect_club\<close>, \<open>disconnect_room\<close>, \<open>disconnect_user\<close>.\<close>

definition disconnect_socket :: "index \<Rightarrow> pystr \<Rightarrow> socket \<Rightarrow> hub \<Rightarrow> hub" where
  "disconnect_socket ix key w h =
     (let ws = sockets_at ix key h - {w} in set_sockets ix key (if ws = {} then None else Some ws) h)"

text \<open>The processes, the sockets that can still be written to, what each has received, and Redis.\<close>

record 'p net =
  nt_hub :: "worker \<Rightarrow> hub"
  nt_dead :: "socket set"
  nt_inbox :: "socket \<Rightarrow> 'p list"
  nt_redis :: bool
  nt_queue :: "worker \<Rightarrow> (pystr \<times> 'p) list"

definition start_net :: "bool \<Rightarrow> 'p net" where
  "start_net redis = \<lparr>nt_hub = (\<lambda>_. empty_hub), nt_dead = {}, nt_inbox = (\<lambda>_. []), nt_redis = redis, nt_queue = (\<lambda>_. [])\<rparr>"

definition on_hub :: "worker \<Rightarrow> (hub \<Rightarrow> hub) \<Rightarrow> 'p net \<Rightarrow> 'p net" where
  "on_hub p f n = n\<lparr>nt_hub := (nt_hub n)(p := f (nt_hub n p))\<rparr>"

text \<open>
  \<open>_broadcast_local_club\<close>, \<open>_broadcast_local_room\<close>, \<open>_send_local_user\<close>: every socket is tried, those that
  fail are taken out of the set.
\<close>

definition send_local :: "worker \<Rightarrow> index \<Rightarrow> pystr \<Rightarrow> 'p \<Rightarrow> 'p net \<Rightarrow> 'p net" where
  "send_local p ix key payload n =
     (let ws = sockets_at ix key (nt_hub n p); dead = ws \<inter> nt_dead n;
          sent = n\<lparr>nt_inbox := (\<lambda>w. if w \<in> ws - dead then nt_inbox n w @ [payload] else nt_inbox n w)\<rparr>
      in if dead = {} then sent else on_hub p (set_sockets ix key (Some (ws - dead))) sent)"

definition CHANNEL_PREFIX :: "index \<Rightarrow> pystr" where
  "CHANNEL_PREFIX ix = ascii (case ix of Clubs \<Rightarrow> ''ws:club:'' | Rooms \<Rightarrow> ''ws:room:'' | Users \<Rightarrow> ''ws:user:'')"

definition set_relay :: "relay \<Rightarrow> hub \<Rightarrow> hub" where
  "set_relay r h = h\<lparr>hb_relay := r\<rparr>"

text \<open>\<open>_redis_publish\<close>: skipped without Redis; the first success starts the relay of the process.\<close>

definition redis_publish :: "worker \<Rightarrow> pystr \<Rightarrow> 'p \<Rightarrow> 'p net \<Rightarrow> 'p net" where
  "redis_publish p channel payload n =
     (if \<not> nt_redis n then n
      else let n1 = n\<lparr>nt_queue := (\<lambda>q. if hb_relay (nt_hub n q) = Listening then nt_queue n q @ [(channel, payload)] else nt_queue n q)\<rparr>
           in if hb_relay (nt_hub n p) \<in> {Idle, Finished} then on_hub p (set_relay Starting) n1 else n1)"

text \<open>\<open>broadcast_club\<close>, \<open>broadcast_room\<close>, \<open>send_user\<close>.\<close>

definition broadcast :: "worker \<Rightarrow> index \<Rightarrow> pystr \<Rightarrow> 'p \<Rightarrow> 'p net \<Rightarrow> 'p net" where
  "broadcast p ix key message n = redis_publish p (CHANNEL_PREFIX ix @ key) message (send_local p ix key message n)"

text \<open>\<open>_redis_relay_loop\<close>: the subscription, and one message.\<close>

definition relay_subscribe :: "worker \<Rightarrow> 'p net \<Rightarrow> 'p net" where
  "relay_subscribe p n =
     (if hb_relay (nt_hub n p) \<noteq> Starting then n else on_hub p (set_relay (if nt_redis n then Listening else Finished)) n)"

definition channel_target :: "pystr \<Rightarrow> (index \<times> pystr) option" where
  "channel_target channel =
     (if starts_with (CHANNEL_PREFIX Clubs) channel then Some (Clubs, drop (length (CHANNEL_PREFIX Clubs)) channel)
      else if starts_with (CHANNEL_PREFIX Rooms) channel then Some (Rooms, drop (length (CHANNEL_PREFIX Rooms)) channel)
      else if starts_with (CHANNEL_PREFIX Users) channel then Some (Users, drop (length (CHANNEL_PREFIX Users)) channel)
      else None)"

definition relay_one :: "worker \<Rightarrow> 'p net \<Rightarrow> 'p net" where
  "relay_one p n =
     (case nt_queue n p of
        [] \<Rightarrow> n
      | (channel, payload) # rest \<Rightarrow>
          let n1 = n\<lparr>nt_queue := (nt_queue n)(p := rest)\<rparr>
          in case channel_target channel of
               None \<Rightarrow> n1
             | Some (ix, key) \<Rightarrow> send_local p ix key payload n1)"

text \<open>Redis goes away: what was queued is gone, and a relay that was listening ends.\<close>

definition redis_lost :: "'p net \<Rightarrow> 'p net" where
  "redis_lost n =
     n\<lparr>nt_redis := False, nt_queue := (\<lambda>_. []),
       nt_hub := (\<lambda>q. if hb_relay (nt_hub n q) = Listening then set_relay Finished (nt_hub n q) else nt_hub n q)\<rparr>"

definition reply :: "socket \<Rightarrow> 'p \<Rightarrow> 'p net \<Rightarrow> 'p net" where
  "reply w payload n = (if w \<in> nt_dead n then n else n\<lparr>nt_inbox := (nt_inbox n)(w := nt_inbox n w @ [payload])\<rparr>)"

section \<open>The streams\<close>

datatype frame =
    PingFrame | PongFrame | ErrorFrame string
  | ChatMessage club_message_public
  | NewMessage (nm_club: uuid) (nm_sender: pystr) (nm_preview: pystr)

definition authenticate_ws :: "jwt \<Rightarrow> datetime \<Rightarrow> pystr \<Rightarrow> pystr result" where
  "authenticate_ws lib now token =
     bindE (decode_token lib now token) (\<lambda>payload.
     bindE (guardE (cl_type payload = Some ''access'') (DomainError AuthError ''TOKEN_TYPE_MISMATCH'')) (\<lambda>_.
     bindE (required (DomainError AuthError ''TOKEN_INVALID'') (cl_sub payload)) (\<lambda>sub.
     bindE (guardE (sub \<noteq> []) (DomainError AuthError ''TOKEN_INVALID'')) (\<lambda>_. Inr sub))))"

datatype stream = ClubStream uuid | RoomStream uuid uuid | MyStream

text \<open>The sets a stream is registered in, besides that of its user.\<close>

fun stream_key :: "stream \<Rightarrow> (index \<times> pystr) list" where
  "stream_key (ClubStream c) = [(Clubs, uuid_str c)]"
| "stream_key (RoomStream c r) = [(Rooms, uuid_str r)]"
| "stream_key MyStream = []"

datatype handshake = Accepted pystr | CloseAuth error | CloseRoom close_reason | Crashed error

definition open_stream :: "jwt \<Rightarrow> datetime \<Rightarrow> stream \<Rightarrow> pystr \<Rightarrow> sess \<Rightarrow> handshake" where
  "open_stream lib now strm token s =
     (case authenticate_ws lib now token of
        Inl e \<Rightarrow> CloseAuth e
      | Inr user_id \<Rightarrow>
        case strm of
          RoomStream club_id room_id \<Rightarrow>
            (case parse_uuid user_id of
               None \<Rightarrow> Crashed ValueError
             | Some u \<Rightarrow>
               case room_connect club_id room_id u s of
                 Inl e \<Rightarrow> Crashed e
               | Inr (Some reason) \<Rightarrow> CloseRoom reason
               | Inr None \<Rightarrow> Accepted user_id)
        | _ \<Rightarrow> Accepted user_id)"

definition register :: "worker \<Rightarrow> stream \<Rightarrow> pystr \<Rightarrow> socket \<Rightarrow> 'p net \<Rightarrow> 'p net" where
  "register p strm user_id w n =
     on_hub p (\<lambda>h. connect_socket Users user_id w (List.fold (\<lambda>(ix, key). connect_socket ix key w) (stream_key strm) h)) n"

definition unregister :: "worker \<Rightarrow> stream \<Rightarrow> pystr \<Rightarrow> socket \<Rightarrow> 'p net \<Rightarrow> 'p net" where
  "unregister p strm user_id w n =
     on_hub p (\<lambda>h. disconnect_socket Users user_id w (List.fold (\<lambda>(ix, key). disconnect_socket ix key w) (stream_key strm) h)) n"

text \<open>A text from the client, as far as the handlers look at it.\<close>

datatype field = Absent | Null | Str pystr | Other
datatype incoming = NotJson | NotObject | Fields (in_type: field) (in_content: field) (in_media: field)

text \<open>
  \<open>_notify_offline_club_members\<close>. Who is in the room is read off the sets of this process. The
  personal streams are told concurrently, so the order of the recipients is without meaning.
\<close>

definition present_users :: "uuid \<Rightarrow> hub \<Rightarrow> uuid list \<Rightarrow> uuid list" where
  "present_users club_id h member_ids =
     filter (\<lambda>u. sockets_at Clubs (uuid_str club_id) h \<inter> sockets_at Users (uuid_str u) h \<noteq> {}) member_ids"

definition notify_offline :: "worker \<Rightarrow> uuid \<Rightarrow> uuid \<Rightarrow> pystr \<Rightarrow> club_message_public \<Rightarrow> sess \<Rightarrow> frame net \<Rightarrow> frame net" where
  "notify_offline p club_id sender sender_user_id message s n =
     (let ids = get_member_ids club_id s;
          offline = filter (\<lambda>u. u \<in> offline_members club_id sender (present_users club_id (nt_hub n p) ids) s) (remdups ids);
          payload = NewMessage club_id sender_user_id (take 100 (mp_content message))
      in List.fold (\<lambda>u. broadcast p Users (uuid_str u) payload) offline n)"

text \<open>
  One text on a club's or a room's stream, and whether the loop goes on: any other exception than
  the refusal of a non-member ends it, and with it the connection. A commit is a step of its own, before the message is sent out.
\<close>

definition field_default :: "field \<Rightarrow> pystr option" where
  "field_default f = (case f of Absent \<Rightarrow> Some [] | Str t \<Rightarrow> Some t | Null \<Rightarrow> None | Other \<Rightarrow> None)"

definition receive_chat ::
    "worker \<Rightarrow> uuid \<Rightarrow> uuid option \<Rightarrow> pystr \<Rightarrow> socket \<Rightarrow> incoming \<Rightarrow> uuid \<Rightarrow> datetime \<Rightarrow> sess \<times> frame net \<Rightarrow>
     (sess \<times> frame net) \<times> bool" where
  "receive_chat p club_id room user_id w data new_id now st =
     (case st of (s, n) \<Rightarrow>
      let answer = (\<lambda>f. ((s, reply w f n), w \<notin> nt_dead n)); crashed = ((s, n), False)
      in case data of
        NotJson \<Rightarrow> answer (ErrorFrame ''invalid JSON'')
      | NotObject \<Rightarrow> crashed
      | Fields ty content media \<Rightarrow>
        if ty = Str (ascii ''ping'') then answer PongFrame
        else case parse_uuid user_id of
          None \<Rightarrow> crashed
        | Some u \<Rightarrow>
          case is_member club_id u s of
            Inl _ \<Rightarrow> crashed
          | Inr m \<Rightarrow>
            if \<not> m then answer (ErrorFrame ''not a club member'')
            else case (field_default content, media) of
              (None, _) \<Rightarrow> crashed
            | (Some text, Other) \<Rightarrow> crashed
            | (Some text, _) \<Rightarrow>
              case send_message new_id now club_id u text (case media of Str t \<Rightarrow> Some t | _ \<Rightarrow> None) s of
                Inl _ \<Rightarrow> crashed
              | Inr (msg, s1) \<Rightarrow>
                (case room of
                   Some r \<Rightarrow> ((s1, broadcast p Rooms (uuid_str r) (ChatMessage msg) n), True)
                 | None \<Rightarrow> ((s1, notify_offline p club_id u user_id msg s1
                                   (broadcast p Clubs (uuid_str club_id) (ChatMessage msg) n)), True)))"

text \<open>A personal stream discards what the client sends.\<close>

definition receive :: "worker \<Rightarrow> stream \<Rightarrow> pystr \<Rightarrow> socket \<Rightarrow> incoming \<Rightarrow> uuid \<Rightarrow> datetime \<Rightarrow> sess \<times> frame net \<Rightarrow> (sess \<times> frame net) \<times> bool" where
  "receive p strm user_id w data new_id now st =
     (case strm of
        ClubStream c \<Rightarrow> receive_chat p c None user_id w data new_id now st
      | RoomStream c r \<Rightarrow> receive_chat p c (Some r) user_id w data new_id now st
      | MyStream \<Rightarrow> (st, True))"

definition heartbeat :: "socket \<Rightarrow> frame net \<Rightarrow> frame net" where
  "heartbeat w n = reply w PingFrame n"

end
