(* ===== verification/RealtimeProps.thy ===== *)
theory RealtimeProps
  imports Realtime AuthProps ClubProps
begin

text \<open>
  The traffic of all processes as a machine over the connection managers: nothing leaks between
  channels, what the relay adds, and who hears a chat message.
\<close>

section \<open>The traffic\<close>

datatype 'p traffic =
    Connect worker index pystr socket
  | Disconnect worker index pystr socket
  | Broadcast worker index pystr 'p
  | Reply socket 'p
  | Subscribe worker
  | Relay worker
  | Die socket
  | RedisLost
  | RedisBack

fun net_step :: "'p traffic \<Rightarrow> 'p net \<Rightarrow> 'p net" where
  "net_step (Connect p ix key w) n = on_hub p (connect_socket ix key w) n"
| "net_step (Disconnect p ix key w) n = on_hub p (disconnect_socket ix key w) n"
| "net_step (Broadcast p ix key m) n = broadcast p ix key m n"
| "net_step (Reply w m) n = reply w m n"
| "net_step (Subscribe p) n = relay_subscribe p n"
| "net_step (Relay p) n = relay_one p n"
| "net_step (Die w) n = n\<lparr>nt_dead := insert w (nt_dead n)\<rparr>"
| "net_step RedisLost n = redis_lost n"
| "net_step RedisBack n = n\<lparr>nt_redis := True\<rparr>"

definition traffic :: "'p traffic list \<Rightarrow> 'p net \<Rightarrow> 'p net" where
  "traffic = List.fold net_step"

lemma traffic_simps [simp]:
  "traffic [] n = n" "traffic (x # xs) n = traffic xs (net_step x n)" "traffic (xs @ ys) n = traffic ys (traffic xs n)"
  by (simp_all add: traffic_def)

section \<open>One step, seen by one socket\<close>

lemma sockets_set [simp]:
  "sockets_at jx k (set_sockets ix key ws h) = (if jx = ix \<and> k = key then (case ws of None \<Rightarrow> {} | Some x \<Rightarrow> x) else sockets_at jx k h)"
  by (simp add: sockets_at_def set_sockets_def)

lemma relay_set [simp]: "hb_relay (set_sockets ix key ws h) = hb_relay h" "hb_relay (set_relay r h) = r"
  "sockets_at jx k (set_relay r h) = sockets_at jx k h"
  by (simp_all add: set_sockets_def set_relay_def sockets_at_def)

lemma sockets_connect [simp]:
  "sockets_at jx k (connect_socket ix key w h) = (if jx = ix \<and> k = key then insert w (sockets_at ix key h) else sockets_at jx k h)"
  "sockets_at jx k (disconnect_socket ix key w h) = (if jx = ix \<and> k = key then sockets_at ix key h - {w} else sockets_at jx k h)"
  "hb_relay (connect_socket ix key w h) = hb_relay h" "hb_relay (disconnect_socket ix key w h) = hb_relay h"
  by (simp_all add: connect_socket_def disconnect_socket_def Let_def)

lemma on_hub_simps [simp]:
  "nt_hub (on_hub p f n) = (nt_hub n)(p := f (nt_hub n p))" "nt_dead (on_hub p f n) = nt_dead n"
  "nt_inbox (on_hub p f n) = nt_inbox n" "nt_redis (on_hub p f n) = nt_redis n" "nt_queue (on_hub p f n) = nt_queue n"
  by (simp_all add: on_hub_def)

lemma send_local_simps [simp]:
  "nt_dead (send_local p ix key m n) = nt_dead n" "nt_redis (send_local p ix key m n) = nt_redis n"
  "nt_queue (send_local p ix key m n) = nt_queue n"
  "nt_inbox (send_local p ix key m n) w =
     (if w \<in> sockets_at ix key (nt_hub n p) \<and> w \<notin> nt_dead n then nt_inbox n w @ [m] else nt_inbox n w)"
  "hb_relay (nt_hub (send_local p ix key m n) q) = hb_relay (nt_hub n q)"
  "sockets_at jx k (nt_hub (send_local p ix key m n) q) =
     (if q = p \<and> jx = ix \<and> k = key then sockets_at ix key (nt_hub n p) - nt_dead n else sockets_at jx k (nt_hub n q))"
  by (auto simp: send_local_def Let_def)

lemma publish_simps [simp]:
  "nt_dead (redis_publish p c m n) = nt_dead n" "nt_redis (redis_publish p c m n) = nt_redis n"
  "nt_inbox (redis_publish p c m n) = nt_inbox n"
  "nt_queue (redis_publish p c m n) q = (if nt_redis n \<and> hb_relay (nt_hub n q) = Listening then nt_queue n q @ [(c, m)] else nt_queue n q)"
  "hb_relay (nt_hub (redis_publish p c m n) q) =
     (if q = p \<and> nt_redis n \<and> hb_relay (nt_hub n p) \<in> {Idle, Finished} then Starting else hb_relay (nt_hub n q))"
  "sockets_at jx k (nt_hub (redis_publish p c m n) q) = sockets_at jx k (nt_hub n q)"
  by (simp_all add: redis_publish_def Let_def)

text \<open>The prefixes tell the three kinds of channel apart, and the key is read back.\<close>

lemma channel_roundtrip [simp]: "channel_target (CHANNEL_PREFIX ix @ key) = Some (ix, key)"
  by (cases ix) (simp_all add: channel_target_def CHANNEL_PREFIX_def starts_with_def ascii_def)

lemma start_simps [simp]:
  "sockets_at ix key (nt_hub (start_net r) p) = {}" "hb_relay (nt_hub (start_net r) p) = Idle" "nt_dead (start_net r) = {}"
  "nt_inbox (start_net r) w = []" "nt_redis (start_net r) = r" "nt_queue (start_net r) p = []"
  by (simp_all add: start_net_def empty_hub_def sockets_at_def)

section \<open>Nothing leaks\<close>

text \<open>What entitles a socket to a payload.\<close>

definition earned :: "'p traffic list \<Rightarrow> socket \<Rightarrow> 'p \<Rightarrow> bool" where
  "earned xs w m \<longleftrightarrow> Reply w m \<in> set xs \<or> (\<exists>p q ix key. Connect p ix key w \<in> set xs \<and> Broadcast q ix key m \<in> set xs)"

definition announced :: "'p traffic list \<Rightarrow> pystr \<Rightarrow> 'p \<Rightarrow> bool" where
  "announced xs c m \<longleftrightarrow> (\<exists>q ix key. c = CHANNEL_PREFIX ix @ key \<and> Broadcast q ix key m \<in> set xs)"

definition traced :: "'p traffic list \<Rightarrow> 'p net \<Rightarrow> bool" where
  "traced xs n \<longleftrightarrow>
     (\<forall>p ix key w. w \<in> sockets_at ix key (nt_hub n p) \<longrightarrow> Connect p ix key w \<in> set xs) \<and>
     (\<forall>p c m. (c, m) \<in> set (nt_queue n p) \<longrightarrow> announced xs c m) \<and>
     (\<forall>w m. m \<in> set (nt_inbox n w) \<longrightarrow> earned xs w m)"

lemma tracedD:
  "traced xs n \<Longrightarrow> w \<in> sockets_at ix key (nt_hub n p) \<Longrightarrow> Connect p ix key w \<in> set xs"
  "traced xs n \<Longrightarrow> (c, m) \<in> set (nt_queue n p) \<Longrightarrow> announced xs c m"
  "traced xs n \<Longrightarrow> m \<in> set (nt_inbox n w) \<Longrightarrow> earned xs w m"
  by (simp_all add: traced_def)

lemma earned_intros:
  "Reply w m \<in> set xs \<Longrightarrow> earned xs w m"
  "Connect p ix key w \<in> set xs \<Longrightarrow> Broadcast q ix key m \<in> set xs \<Longrightarrow> earned xs w m"
  by (auto simp: earned_def)

lemma earned_mono: "earned xs w m \<Longrightarrow> earned (xs @ [x]) w m" "announced xs c m \<Longrightarrow> announced (xs @ [x]) c m"
  by (auto simp: earned_def announced_def)

lemma traced_mono: "traced xs n \<Longrightarrow> traced (xs @ [x]) n"
  by (simp add: traced_def earned_mono)

lemma traced_send_local:
  assumes "traced xs n" "Broadcast q ix key m \<in> set xs"
  shows "traced xs (send_local p ix key m n)"
  using tracedD [OF assms(1)] earned_intros(2) [OF tracedD(1) [OF assms(1)] assms(2)] by (simp add: traced_def) blast

lemma traced_queue: "traced xs n \<Longrightarrow> \<forall>q. set (f q) \<subseteq> set (nt_queue n q) \<Longrightarrow> traced xs (n\<lparr>nt_queue := f\<rparr>)"
  by (simp add: traced_def) (meson subsetD)

lemma traced_publish: "traced xs n \<Longrightarrow> Broadcast q ix key m \<in> set xs \<Longrightarrow> traced xs (redis_publish p (CHANNEL_PREFIX ix @ key) m n)"
  by (auto simp: traced_def announced_def split: if_splits)

lemma traced_relay:
  assumes t: "traced xs n"
  shows "traced xs (relay_one p n)"
proof (cases "nt_queue n p")
  case (Cons e rest)
  obtain c m where e: "e = (c, m)" by (cases e)
  have "announced xs c m" by (rule tracedD(2) [OF t, of c m p]) (simp add: Cons e)
  then obtain q ix key where b: "c = CHANNEL_PREFIX ix @ key" "Broadcast q ix key m \<in> set xs" by (auto simp: announced_def)
  have "traced xs (n\<lparr>nt_queue := (nt_queue n)(p := rest)\<rparr>)" by (rule traced_queue [OF t]) (auto simp: Cons)
  from traced_send_local [OF this b(2), of p] show ?thesis by (simp add: relay_one_def Cons e b(1) Let_def)
qed (use t in \<open>simp add: relay_one_def\<close>)

lemma traced_step:
  assumes "traced xs n"
  shows "traced (xs @ [x]) (net_step x n)"
proof -
  note t = traced_mono [OF assms, of x]
  show ?thesis
  proof (cases x)
    case (Broadcast p ix key m)
    then have "Broadcast p ix key m \<in> set (xs @ [x])" by simp
    from traced_publish [OF traced_send_local [OF t this] this] show ?thesis by (simp add: Broadcast broadcast_def)
  next
    case (Relay p)
    then show ?thesis using traced_relay [OF t] by simp
  next
    case (Reply w m)
    then show ?thesis using t by (auto simp: traced_def reply_def intro: earned_intros)
  next
    case (Subscribe p)
    then show ?thesis using t by (auto simp: traced_def relay_subscribe_def split: if_splits)
  next
    case RedisLost
    then show ?thesis using t by (auto simp: traced_def redis_lost_def split: if_splits)
  qed (use t in \<open>auto simp: traced_def split: if_splits\<close>)
qed

lemma traced_traffic: "traced xs (traffic xs (start_net r))"
proof (induction xs rule: rev_induct)
  case Nil
  show ?case by (simp add: traced_def)
next
  case (snoc x xs)
  then show ?case using traced_step by simp
qed

section \<open>A worker that is silent is deaf\<close>

definition deaf :: "worker \<Rightarrow> socket \<Rightarrow> 'p net \<Rightarrow> bool" where
  "deaf p w n \<longleftrightarrow>
     hb_relay (nt_hub n p) = Idle \<and> nt_queue n p = [] \<and> nt_inbox n w = [] \<and> (\<forall>q ix key. w \<in> sockets_at ix key (nt_hub n q) \<longrightarrow> q = p)"

definition silent :: "worker \<Rightarrow> socket \<Rightarrow> 'p traffic \<Rightarrow> bool" where
  "silent p w x = (case x of
       Connect q ix key v \<Rightarrow> v = w \<longrightarrow> q = p
     | Broadcast q ix key m \<Rightarrow> q \<noteq> p
     | Reply v m \<Rightarrow> v \<noteq> w
     | _ \<Rightarrow> True)"

lemma deaf_send_local: "deaf p w n \<Longrightarrow> q \<noteq> p \<Longrightarrow> deaf p w (send_local q ix key m n)"
  unfolding deaf_def by (auto split: if_splits)

lemma deaf_step:
  assumes d: "deaf p w n" and x: "silent p w x"
  shows "deaf p w (net_step x n)"
proof (cases x)
  case (Broadcast q ix key m)
  then show ?thesis using deaf_send_local [OF d, of q ix key m] x by (auto simp: broadcast_def deaf_def silent_def)
next
  case (Relay q)
  show ?thesis
  proof (cases "q = p")
    case True
    then show ?thesis using d Relay by (simp add: deaf_def relay_one_def)
  next
    case False
    have "deaf p w (n\<lparr>nt_queue := (nt_queue n)(q := rest)\<rparr>)" for rest using d False by (simp add: deaf_def)
    from deaf_send_local [OF this False] this show ?thesis
      using d Relay by (auto simp: relay_one_def Let_def split: list.split option.split)
  qed
qed (use d x in \<open>auto simp: deaf_def silent_def reply_def relay_subscribe_def redis_lost_def split: if_splits\<close>)

section \<open>Who hears a chat message\<close>

lemma broadcast_inbox:
  "set (nt_inbox n w) \<subseteq> set (nt_inbox (broadcast p ix key m n) w)" "nt_dead (broadcast p ix key m n) = nt_dead n"
  "w \<in> sockets_at ix key (nt_hub n p) \<Longrightarrow> w \<notin> nt_dead n \<Longrightarrow> m \<in> set (nt_inbox (broadcast p ix key m n) w)"
  by (auto simp: broadcast_def)

lemma broadcasts_inbox: "set (nt_inbox n w) \<subseteq> set (nt_inbox (List.fold (\<lambda>u. broadcast p Users (f u) m) us n) w)"
  by (induction us arbitrary: n) (simp, use broadcast_inbox(1) in fastforce)

lemma broadcast_alone: "\<not> nt_redis n \<Longrightarrow> broadcast p ix key m n = send_local p ix key m n"
  by (simp add: broadcast_def redis_publish_def)

lemma broadcasts_alone:
  "\<not> nt_redis n \<Longrightarrow> w \<notin> nt_dead n \<Longrightarrow>
   nt_inbox (List.fold (\<lambda>u. broadcast p Users (f u) m) us n) w =
     nt_inbox n w @ replicate (length (filter (\<lambda>u. w \<in> sockets_at Users (f u) (nt_hub n p)) us)) m"
proof (induction us arbitrary: n)
  case (Cons u us)
  have "(w \<in> sockets_at Users (f v) (nt_hub (send_local p Users (f u) m n) p)) = (w \<in> sockets_at Users (f v) (nt_hub n p))" for v
    using Cons.prems(2) by auto
  then show ?case using Cons by (simp add: broadcast_alone replicate_app_Cons_same)
qed simp

lemma uuid_str_eq: "u < 2 ^ 128 \<Longrightarrow> v < 2 ^ 128 \<Longrightarrow> uuid_str u = uuid_str v \<longleftrightarrow> u = v"
  using parse_uuid_str by (metis option.sel)

lemma filter_unique: "distinct us \<Longrightarrow> length (filter (\<lambda>u. P u \<and> u = v) us) = (if v \<in> set us \<and> P v then 1 else 0)"
  by (induction us) auto

section \<open>Properties\<close>

text \<open>
  C36. The managers keep the channels apart: whatever connects, disconnects, is sent, relayed or lost,
  in any order and on any number of processes, a socket holds only what was answered to it or was
  broadcast on a channel it had been connected to.
\<close>
theorem channels_do_not_leak:
  assumes "m \<in> set (nt_inbox (traffic xs (start_net redis)) w)"
  shows "Reply w m \<in> set xs \<or> (\<exists>p q ix key. Connect p ix key w \<in> set xs \<and> Broadcast q ix key m \<in> set xs)"
  using assms traced_traffic [of xs redis] by (simp add: traced_def earned_def)

theorem channels_do_not_leak_witness:
  "\<exists>p q ix key. Connect p ix key 7 \<in> set [Connect 0 Clubs [65] 7, Broadcast 0 Clubs [65] (42 :: nat)] \<and>
     Broadcast q ix key 42 \<in> set [Connect 0 Clubs [65] 7, Broadcast 0 Clubs [65] (42 :: nat)]"
  using channels_do_not_leak [of "42 :: nat" "[Connect 0 Clubs [65] 7, Broadcast 0 Clubs [65] 42]" False 7]
  by (simp add: broadcast_def)

text \<open>
  The relay of a process also receives what the process itself has published: once it listens, a
  broadcast reaches every live socket of the channel on the sending process twice, on every other
  listening process once, and on a process that does not listen not at all.
\<close>
theorem relay_echoes:
  assumes "nt_redis n" "hb_relay (nt_hub n p) = Listening" "\<forall>q. nt_queue n q = []" "q \<noteq> p"
    and "w \<notin> nt_dead n" "\<forall>r. w \<in> sockets_at ix key (nt_hub n r) \<longrightarrow> r \<in> {p, q}"
    and "w \<notin> sockets_at ix key (nt_hub n p) \<or> w \<notin> sockets_at ix key (nt_hub n q)"
  shows "nt_inbox (traffic [Broadcast p ix key m, Relay p, Relay q] n) w = nt_inbox n w @
     (if w \<in> sockets_at ix key (nt_hub n p) then [m, m]
      else if w \<in> sockets_at ix key (nt_hub n q) \<and> hb_relay (nt_hub n q) = Listening then [m] else [])"
  using assms by (auto simp: broadcast_def relay_one_def Let_def)

definition two_workers :: "nat net" where
  "two_workers = traffic [Connect 0 Clubs [65] 7, Connect 1 Clubs [65] 8, Broadcast 0 Clubs [65] 40, Broadcast 1 Clubs [65] 41,
     Subscribe 0, Subscribe 1] (start_net True)"

theorem relay_echoes_witness:
  "nt_inbox (traffic [Broadcast 0 Clubs [65] 42, Relay 0, Relay 1] two_workers) 7 = [40, 42, 42] \<and>
   nt_inbox (traffic [Broadcast 0 Clubs [65] 42, Relay 0, Relay 1] two_workers) 8 = [41, 42]"
proof -
  have w: "nt_redis two_workers" "hb_relay (nt_hub two_workers 0) = Listening" "hb_relay (nt_hub two_workers (Suc 0)) = Listening"
    "\<forall>q. nt_queue two_workers q = []" "nt_dead two_workers = {}" "nt_inbox two_workers 7 = [40]" "nt_inbox two_workers 8 = [41]"
    "sockets_at Clubs [65] (nt_hub two_workers r) = (if r = 0 then {7} else if r = 1 then {8} else {})" for r
    by (simp_all add: two_workers_def broadcast_def relay_subscribe_def)
  show ?thesis
    using relay_echoes [of two_workers 0 1 7 Clubs "[65]" 42] relay_echoes [of two_workers 0 1 8 Clubs "[65]" 42] w by simp
qed

text \<open>
  The relay is started by the first broadcast of its own process, so a process that has not sent
  anything yet relays nothing: a client connected only there hears nothing of what is sent on the
  other processes, however long it waits.
\<close>
theorem silent_worker_is_deaf:
  assumes "\<forall>x \<in> set xs. silent p w x"
  shows "nt_inbox (traffic xs (start_net redis)) w = []"
proof -
  have "deaf p w (start_net redis)" by (simp add: deaf_def)
  moreover have "deaf p w n \<Longrightarrow> deaf p w (traffic xs n)" for n using assms by (induction xs arbitrary: n) (auto intro: deaf_step)
  ultimately have "deaf p w (traffic xs (start_net redis))" by blast
  then show ?thesis by (simp add: deaf_def)
qed

theorem silent_worker_is_deaf_witness:
  "nt_inbox (traffic [Connect 1 Clubs [65] 8, Connect 0 Clubs [65] 7, Broadcast 0 Clubs [65] (40 :: nat), Subscribe 0,
     Broadcast 0 Clubs [65] 41, Relay 0, Relay 1] (start_net True)) 8 = []"
  by (rule silent_worker_is_deaf [where p = 1]) (simp add: silent_def)


text \<open>
  The chat stream of a club takes in whoever has a token: a reader who is not a member, and to whom
  the history is refused, is connected all the same and hears the next message of a member - with
  or without Redis.
\<close>
theorem outsider_overhears:
  assumes "authenticate_ws lib t token = Inr uid" "is_member c v s = Inr False" "w \<notin> nt_dead n"
    and "parse_uuid user_id = Some u" "is_member c u s = Inr True" "send_message i now c u text None s = Inr (msg, s1)"
  shows "list_messages c v None 50 s = Inl not_member \<and> open_stream lib t (ClubStream c) token s = Accepted uid \<and>
    ChatMessage msg \<in> set (nt_inbox (snd (fst (receive p (ClubStream c) user_id x (Fields Absent (Str text) Absent) i now
       (s, register p (ClubStream c) uid w n)))) w)"
proof -
  let ?n = "register p (ClubStream c) uid w n"
  have "ChatMessage msg \<in> set (nt_inbox (broadcast p Clubs (uuid_str c) (ChatMessage msg) ?n) w)"
    by (rule broadcast_inbox(3)) (use assms(3) in \<open>simp_all add: register_def\<close>)
  then show ?thesis using assms(1,2,4-6) broadcasts_inbox
    by (fastforce simp: receive_def receive_chat_def field_default_def notify_offline_def list_messages_def require_member_def
        open_stream_def Let_def)
qed

definition demo_settings :: auth_settings where
  "demo_settings = \<lparr>st_access_ttl_seconds = 3600, st_refresh_ttl_seconds = 2592000, st_env = ''dev''\<rparr>"

lemma circle_sends: "\<exists>msg s1. send_message 90 t0 30 2 [104] None circle = Inr (msg, s1)"
  by (simp add: send_message_def require_member_def is_member_def create_message_def insert_row_def user_exists_def demo_defs Let_def)

theorem outsider_overhears_witness:
  "\<exists>msg s1. send_message 90 t0 30 2 [104] None circle = Inr (msg, s1) \<and> is_member 30 3 circle = Inr False \<and>
     ChatMessage msg \<in> set (nt_inbox (snd (fst (receive 0 (ClubStream 30) (uuid_str 2) 8 (Fields Absent (Str [104]) Absent) 90 t0
       (circle, register 0 (ClubStream 30) (uuid_str 3) 7 (start_net False))))) 7)"
proof -
  let ?tok = "create_access_token plain_jwt demo_settings t0 (uuid_str 3)"
  have auth: "authenticate_ws plain_jwt t0 ?tok = Inr (uuid_str 3)"
    using decode_created [OF plain_signs, of t0 t0 "3600 * sec_us" "uuid_str 3" "''access''"]
    by (simp add: authenticate_ws_def create_access_token_def demo_settings_def t0_def sec_us_def live_def)
  obtain msg s1 where m: "send_message 90 t0 30 2 [104] None circle = Inr (msg, s1)" using circle_sends by blast
  have "is_member 30 3 circle = Inr False" "is_member 30 2 circle = Inr True" by (simp_all add: is_member_def)
  then show ?thesis using outsider_overhears [OF auth _ _ _ _ m, of 3 7 "start_net False" "uuid_str 2" 0 8] m parse_uuid_str [of 2]
    by auto
qed


end
