(* ===== verification/Community.thy ===== *)
theory Community
  imports FeedService ReadingRepo Reviews Social Challenge ClubSessionRepo BookLibrary Auth
begin

text \<open>
  The community domain (\<open>backend/app/domains/community\<close>): feeds of posts, the profile of a user, and
  the summary of one's own activity. The object store (\<open>public_url\<close>) is a parameter. Limits are between
  1 and 50 in the router; the service clamps them again.
\<close>

section \<open>Repository\<close>

definition newest_posts :: "(post \<Rightarrow> bool) \<Rightarrow> datetime option \<Rightarrow> nat \<Rightarrow> sess \<Rightarrow> post list" where
  "newest_posts P cursor limit s =
     take limit (newest_first po_created_at po_id
       (filter (\<lambda>p. P p \<and> po_deleted_at p = None \<and> before cursor (po_created_at p)) (t_posts s)))"

definition followees_of :: "uuid \<Rightarrow> sess \<Rightarrow> uuid set" where
  "followees_of user_id s = fo_followee_id ` set (filter (\<lambda>f. fo_follower_id f = user_id) (t_follows s))"

definition blocked_by :: "uuid \<Rightarrow> sess \<Rightarrow> uuid set" where
  "blocked_by viewer_id s = bl_blocked_id ` set (filter (\<lambda>b. bl_blocker_id b = viewer_id) (t_blocks s))"

definition of_type :: "post_type option \<Rightarrow> post \<Rightarrow> bool" where
  "of_type ty p = (case ty of None \<Rightarrow> True | Some t \<Rightarrow> po_post_type p = t)"

definition repo_following_feed :: "uuid \<Rightarrow> datetime option \<Rightarrow> nat \<Rightarrow> sess \<Rightarrow> post list" where
  "repo_following_feed user_id cursor limit s =
     newest_posts (\<lambda>p. po_user_id p \<in> followees_of user_id s) cursor limit s"

definition repo_explore_latest :: "uuid \<Rightarrow> datetime option \<Rightarrow> post_type option \<Rightarrow> nat \<Rightarrow> sess \<Rightarrow> post list" where
  "repo_explore_latest viewer_id cursor ty limit s =
     newest_posts (\<lambda>p. po_user_id p \<notin> blocked_by viewer_id s \<and> of_type ty p) cursor limit s"

definition reaction_count :: "post \<Rightarrow> sess \<Rightarrow> int" where
  "reaction_count p s = int (length (filter (\<lambda>r. rx_post_id r = po_id p) (t_reactions s)))"

definition repo_explore_popular :: "uuid \<Rightarrow> datetime \<Rightarrow> post_type option \<Rightarrow> nat \<Rightarrow> sess \<Rightarrow> post list" where
  "repo_explore_popular viewer_id since ty limit s =
     take limit (order_desc (\<lambda>p. reaction_count p s) (order_desc (\<lambda>p. int (po_id p))
       (filter (\<lambda>p. po_deleted_at p = None \<and> po_user_id p \<notin> blocked_by viewer_id s \<and> since \<le> po_created_at p \<and> of_type ty p)
         (t_posts s))))"

definition repo_user_posts :: "uuid \<Rightarrow> datetime option \<Rightarrow> nat \<Rightarrow> sess \<Rightarrow> post list" where
  "repo_user_posts user_id cursor limit s = newest_posts (\<lambda>p. po_user_id p = user_id) cursor limit s"

definition follow_counts :: "uuid \<Rightarrow> sess \<Rightarrow> nat \<times> nat" where
  "follow_counts user_id s =
     (length (filter (\<lambda>f. fo_followee_id f = user_id) (t_follows s)),
      length (filter (\<lambda>f. fo_follower_id f = user_id) (t_follows s)))"

definition viewer_follows :: "uuid \<Rightarrow> uuid \<Rightarrow> sess \<Rightarrow> bool result" where
  "viewer_follows follower_id followee_id s =
     bindE (scalar_one_or_none (filter (\<lambda>f. fo_follower_id f = follower_id \<and> fo_followee_id f = followee_id) (t_follows s)))
       (\<lambda>r. Inr (r \<noteq> None))"

section \<open>Adapters\<close>

record grade_stats =
  gt_grade :: int
  gt_tier :: int
  gt_total_books :: int
  gt_total_seconds :: int
  gt_streak_days :: int

definition get_grade_stats :: "uuid \<Rightarrow> sess \<Rightarrow> grade_stats outcome" where
  "get_grade_stats user_id s =
     bindE (get_or_init user_id s) (\<lambda>(row, s').
     Inr (\<lparr>gt_grade = ug_grade row, gt_tier = ug_tier row, gt_total_books = ug_total_books row,
           gt_total_seconds = ug_total_seconds row, gt_streak_days = ug_streak_days row\<rparr>, s'))"

record badge_summary =
  bs_id :: uuid
  bs_name :: pystr
  bs_icon_url :: pystr
  bs_category :: badge_category
  bs_earned_at :: datetime

definition get_user_badges :: "(string \<Rightarrow> pystr) \<Rightarrow> uuid \<Rightarrow> nat \<Rightarrow> sess \<Rightarrow> badge_summary list" where
  "get_user_badges icon user_id limit s =
     map (\<lambda>(b, ub). \<lparr>bs_id = bg_id b, bs_name = bg_name b, bs_icon_url = icon (bg_icon_key b),
                      bs_category = bg_category b, bs_earned_at = ubg_earned_at ub\<rparr>)
       (take limit (repo_my_badges user_id s))"

record highlight_summary =
  hs_id :: uuid
  hs_quote_text :: pystr
  hs_book_title :: pystr
  hs_created_at :: datetime

definition highlight_book :: "post_highlight \<Rightarrow> sess \<Rightarrow> book option" where
  "highlight_book h s =
     Option.bind (fetch ub_id (ph_user_book_id h) (t_user_books s)) (\<lambda>ub. fetch bk_id (ub_book_id ub) (t_books s))"

definition get_recent_highlights :: "uuid \<Rightarrow> nat \<Rightarrow> sess \<Rightarrow> highlight_summary list" where
  "get_recent_highlights user_id limit s =
     take limit (List.map_filter
       (\<lambda>h. map_option (\<lambda>b. \<lparr>hs_id = ph_id h, hs_quote_text = ph_quote_text h, hs_book_title = bk_title b, hs_created_at = ph_created_at h\<rparr>)
              (highlight_book h s))
       (order_desc ph_created_at (filter (\<lambda>h. ph_user_id h = user_id) (t_post_highlights s))))"

record activity_review =
  ay_id :: uuid
  ay_book_id :: uuid
  ay_book_title :: "pystr option"
  ay_book_cover_url :: "pystr option"
  ay_rating :: rat
  ay_body :: "pystr option"
  ay_created_at :: datetime

definition preview_reviews :: "uuid \<Rightarrow> nat \<Rightarrow> sess \<Rightarrow> int \<times> activity_review list" where
  "preview_reviews user_id limit s =
     (count_my_reviews user_id s,
      map (\<lambda>row. \<lparr>ay_id = rv_id (my_review row), ay_book_id = rv_book_id (my_review row), ay_book_title = my_book_title row,
                   ay_book_cover_url = my_book_cover_url row, ay_rating = rating_float (rv_rating (my_review row)),
                   ay_body = rv_body (my_review row), ay_created_at = rv_created_at (my_review row)\<rparr>)
        (repo_list_my_reviews user_id limit 0 s))"

record activity_highlight =
  ah_id :: uuid
  ah_book_id :: uuid
  ah_book_title :: pystr
  ah_book_cover_url :: "pystr option"
  ah_quote_text :: pystr
  ah_created_at :: datetime

definition preview_highlights :: "uuid \<Rightarrow> nat \<Rightarrow> sess \<Rightarrow> nat \<times> activity_highlight list" where
  "preview_highlights user_id limit s =
     (count_by_user user_id s,
      map (\<lambda>(h, book_id, title, cover). \<lparr>ah_id = ph_id h, ah_book_id = book_id, ah_book_title = title, ah_book_cover_url = cover,
             ah_quote_text = ph_quote_text h, ah_created_at = ph_created_at h\<rparr>)
        (list_recent_for_user user_id limit 0 s))"

definition preview_agendas :: "uuid \<Rightarrow> nat \<Rightarrow> sess \<Rightarrow> nat \<times> agenda_with_context list" where
  "preview_agendas user_id limit s = (count_agendas_by_author user_id s, list_agendas_by_author user_id limit 0 s)"

record activity_club =
  ac_id :: uuid
  ac_name :: pystr
  ac_created_at :: datetime

definition preview_clubs :: "uuid \<Rightarrow> nat \<Rightarrow> sess \<Rightarrow> nat \<times> activity_club list" where
  "preview_clubs user_id limit s =
     (let clubs = clubs_of_user user_id s
      in (length clubs, map (\<lambda>c. \<lparr>ac_id = rc_id c, ac_name = rc_name c, ac_created_at = rc_created_at c\<rparr>) (take limit clubs)))"

record activity_book =
  ab_user_book_id :: uuid
  ab_book_id :: uuid
  ab_title :: pystr
  ab_cover_url :: "pystr option"
  ab_current_chapter :: int
  ab_started_at :: "datetime option"

definition preview_library :: "uuid \<Rightarrow> nat \<Rightarrow> sess \<Rightarrow> nat \<times> activity_book list" where
  "preview_library user_id limit s =
     (count_for_user user_id (Some READING) s,
      List.map_filter (\<lambda>ub. map_option
          (\<lambda>b. \<lparr>ab_user_book_id = ub_id ub, ab_book_id = ub_book_id ub, ab_title = bk_title b, ab_cover_url = bk_cover_url b,
                 ab_current_chapter = ub_current_chapter ub, ab_started_at = ub_started_at ub\<rparr>)
          (fetch bk_id (ub_book_id ub) (t_books s)))
        (list_for_user user_id (Some READING) None limit s))"

section \<open>Service\<close>

definition FEED_PAGE_MAX :: int where "FEED_PAGE_MAX = 50"
definition POPULAR_DAYS :: int where "POPULAR_DAYS = 30"
definition ACTIVITY_PREVIEW_SIZE :: nat where "ACTIVITY_PREVIEW_SIZE = 5"

type_synonym feed_page = "post_feed_item list \<times> datetime option"

definition build_page :: "(pystr \<Rightarrow> pystr) \<Rightarrow> post list \<Rightarrow> uuid \<Rightarrow> nat \<Rightarrow> sess \<Rightarrow> feed_page" where
  "build_page public_url posts viewer_id limit s =
     (if posts = [] then ([], None)
      else let post_ids = map po_id posts;
               aggs = aggregates_for_posts post_ids s;
               my = my_reactions_for_posts post_ids viewer_id s;
               comment_counts = comment_counts_for post_ids s
           in (map (\<lambda>p. \<lparr>pi_post = p,
                  pi_reactions = (case aggs (po_id p) of None \<Rightarrow> Map.empty | Some m \<Rightarrow> m),
                  pi_my_reactions = (case my (po_id p) of None \<Rightarrow> {} | Some ts \<Rightarrow> ts),
                  pi_comment_count = (case comment_counts (po_id p) of None \<Rightarrow> 0 | Some n \<Rightarrow> n),
                  pi_image_urls = map public_url (po_image_keys p)\<rparr>) posts,
               if length posts = limit then Some (po_created_at (last posts)) else None))"

definition get_following_posts :: "(pystr \<Rightarrow> pystr) \<Rightarrow> uuid \<Rightarrow> datetime option \<Rightarrow> int \<Rightarrow> sess \<Rightarrow> feed_page" where
  "get_following_posts public_url user_id cursor limit s =
     (let clamped = clamp limit FEED_PAGE_MAX
      in build_page public_url (repo_following_feed user_id cursor clamped s) user_id clamped s)"

fun parse_post_type :: "string \<Rightarrow> post_type option" where
  "parse_post_type t =
     (if t = ''highlight'' then Some HIGHLIGHT else if t = ''thought'' then Some THOUGHT
      else if t = ''question'' then Some QUESTION else if t = ''discussion'' then Some DISCUSSION else None)"

definition get_explore_posts ::
    "(pystr \<Rightarrow> pystr) \<Rightarrow> datetime \<Rightarrow> uuid \<Rightarrow> string \<Rightarrow> string option \<Rightarrow> datetime option \<Rightarrow> int \<Rightarrow> sess \<Rightarrow> feed_page" where
  "get_explore_posts public_url now viewer_id sort_by post_type cursor limit s =
     (let clamped = clamp limit FEED_PAGE_MAX;
          parsed = Option.bind post_type parse_post_type;
          posts = (if sort_by = ''popular'' then repo_explore_popular viewer_id (now - POPULAR_DAYS * day_us) parsed clamped s
                   else repo_explore_latest viewer_id cursor parsed clamped s)
      in build_page public_url posts viewer_id clamped s)"

definition get_user_posts :: "(pystr \<Rightarrow> pystr) \<Rightarrow> uuid \<Rightarrow> uuid \<Rightarrow> datetime option \<Rightarrow> int \<Rightarrow> sess \<Rightarrow> feed_page" where
  "get_user_posts public_url user_id viewer_id cursor limit s =
     (let clamped = clamp limit FEED_PAGE_MAX
      in build_page public_url (repo_user_posts user_id cursor clamped s) viewer_id clamped s)"

record profile_view =
  pv_user :: user
  pv_follower_count :: nat
  pv_following_count :: nat
  pv_is_following :: bool
  pv_is_me :: bool
  pv_grade_stats :: grade_stats
  pv_badges :: "badge_summary list"
  pv_recent_highlights :: "highlight_summary list"

text \<open>Reading the grade of someone who has none yet inserts it.\<close>

definition get_user_profile :: "(string \<Rightarrow> pystr) \<Rightarrow> uuid \<Rightarrow> uuid \<Rightarrow> sess \<Rightarrow> profile_view outcome" where
  "get_user_profile icon user_id viewer_id s =
     bindE (required (DomainError NotFoundError ''USER_NOT_FOUND'') (get_user user_id s)) (\<lambda>user.
     case follow_counts user_id s of (follower_count, following_count) \<Rightarrow>
     bindE (if viewer_id \<noteq> user_id then viewer_follows viewer_id user_id s else Inr False) (\<lambda>is_following.
     bindE (get_grade_stats user_id s) (\<lambda>(grade_stats, s').
     Inr (\<lparr>pv_user = user, pv_follower_count = follower_count, pv_following_count = following_count,
           pv_is_following = is_following, pv_is_me = (viewer_id = user_id), pv_grade_stats = grade_stats,
           pv_badges = get_user_badges icon user_id 6 s', pv_recent_highlights = get_recent_highlights user_id 3 s'\<rparr>, s'))))"

record activity_summary =
  as_reviews :: "int \<times> activity_review list"
  as_highlights :: "nat \<times> activity_highlight list"
  as_agendas :: "nat \<times> agenda_with_context list"
  as_clubs :: "nat \<times> activity_club list"
  as_reading_books :: "nat \<times> activity_book list"

definition get_my_activity :: "uuid \<Rightarrow> sess \<Rightarrow> activity_summary" where
  "get_my_activity user_id s =
     \<lparr>as_reviews = preview_reviews user_id ACTIVITY_PREVIEW_SIZE s,
      as_highlights = preview_highlights user_id ACTIVITY_PREVIEW_SIZE s,
      as_agendas = preview_agendas user_id ACTIVITY_PREVIEW_SIZE s,
      as_clubs = preview_clubs user_id ACTIVITY_PREVIEW_SIZE s,
      as_reading_books = preview_library user_id ACTIVITY_PREVIEW_SIZE s\<rparr>"

section \<open>Responses\<close>

record author_view =
  av_id :: uuid
  av_nickname :: "pystr option"
  av_profile_image_url :: "pystr option"

definition get_authors :: "uuid list \<Rightarrow> sess \<Rightarrow> uuid \<rightharpoonup> author_view" where
  "get_authors user_ids s =
     foldl (\<lambda>out uid. case get_user uid s of
              None \<Rightarrow> out
            | Some u \<Rightarrow> out(uid \<mapsto> \<lparr>av_id = us_id u, av_nickname = Some (us_nickname u), av_profile_image_url = us_profile_image_url u\<rparr>))
       Map.empty user_ids"

definition author_from_view :: "author_view option \<Rightarrow> uuid \<Rightarrow> author_view" where
  "author_from_view view fallback_id =
     (case view of None \<Rightarrow> \<lparr>av_id = fallback_id, av_nickname = None, av_profile_image_url = None\<rparr> | Some v \<Rightarrow> v)"

text \<open>One snapshot for each book that a highlight on the page is about: title and cover.\<close>

definition book_snapshots_for_highlights :: "post_feed_item list \<Rightarrow> sess \<Rightarrow> uuid \<rightharpoonup> pystr \<times> pystr option" where
  "book_snapshots_for_highlights items s =
     (\<lambda>b. if b \<in> po_book_id ` set (filter (\<lambda>p. po_post_type p = HIGHLIGHT) (map pi_post items))
          then map_option (\<lambda>r. (bk_title r, bk_cover_url r)) (fetch bk_id b (t_books s)) else None)"

record post_public =
  pp_item :: post_feed_item
  pp_author :: author_view
  pp_book_title :: "pystr option"
  pp_book_cover_url :: "pystr option"

definition from_feed_item :: "post_feed_item \<Rightarrow> author_view \<Rightarrow> (pystr \<times> pystr option) option \<Rightarrow> post_public" where
  "from_feed_item item author snapshot =
     \<lparr>pp_item = item, pp_author = author, pp_book_title = map_option fst snapshot,
      pp_book_cover_url = Option.bind snapshot snd\<rparr>"

definition feed_response :: "feed_page \<Rightarrow> sess \<Rightarrow> post_public list \<times> datetime option" where
  "feed_response page s =
     (let items = fst page;
          authors = get_authors (map (po_user_id \<circ> pi_post) items) s;
          book_snaps = book_snapshots_for_highlights items s
      in (map (\<lambda>i. from_feed_item i (author_from_view (authors (po_user_id (pi_post i))) (po_user_id (pi_post i)))
                 (book_snaps (po_book_id (pi_post i)))) items, snd page))"

end
