(* ===== verification/CommunityProps.thy ===== *)
theory CommunityProps
  imports Community Paging FeedProps
begin

text \<open>
  The feeds of posts walked by their cursors, the feed that cannot be walked, what a profile shows
  of a reader's highlights, and the counts of one's own activity.
\<close>

section \<open>Walking the feeds\<close>

definition live_posts :: "(post \<Rightarrow> bool) \<Rightarrow> sess \<Rightarrow> post list" where
  "live_posts P s = newest_first po_created_at po_id (filter (\<lambda>p. P p \<and> po_deleted_at p = None) (t_posts s))"

definition posts_of :: "feed_page \<Rightarrow> post list \<times> datetime option" where
  "posts_of page = (map pi_post (fst page), snd page)"

lemma posts_of_build:
  "posts_of (build_page url posts v n s) = (posts, if posts \<noteq> [] \<and> length posts = n then Some (po_created_at (last posts)) else None)"
  by (simp add: posts_of_def build_page_def Let_def o_def)

lemma newest_posts_eq: "newest_posts P c n s = take n (filter (beyond (\<lambda>p. - po_created_at p) uminus c) (live_posts P s))"
proof -
  have "filter (\<lambda>p. P p \<and> po_deleted_at p = None \<and> before c (po_created_at p)) (t_posts s) =
      filter (beyond (\<lambda>p. - po_created_at p) uminus c) (filter (\<lambda>p. P p \<and> po_deleted_at p = None) (t_posts s))"
    unfolding filter_filter by (intro filter_cong) (auto simp: beyond_def before_def split: option.splits)
  then show ?thesis by (simp add: newest_posts_def live_posts_def newest_first_def order_desc_def filter_sort)
qed

lemma live_posts_sorted: "sorted (map (\<lambda>p. - po_created_at p) (live_posts P s))"
  by (simp add: live_posts_def newest_first_def order_desc_def)

interpretation newest_pages: cursor_pages "\<lambda>c. posts_of (build_page url (newest_posts P c (clamp limit hi) s) v (clamp limit hi) s)"
    "live_posts P s" "\<lambda>p. - po_created_at p" uminus "clamp limit hi"
  for url P limit hi s v
  by unfold_locales
    (auto simp: posts_of_build newest_posts_eq clamp_pos live_posts_sorted split: if_splits)

lemma live_posts_walk:
  assumes "distinct (map po_created_at (filter (\<lambda>p. po_deleted_at p = None) (t_posts s)))" "length (t_posts s) < fuel"
  shows "walk fuel (\<lambda>c. posts_of (build_page url (newest_posts P c (clamp limit hi) s) v (clamp limit hi) s)) None = live_posts P s"
proof (rule newest_pages.walk_all)
  let ?live = "filter (\<lambda>p. po_deleted_at p = None) (t_posts s)"
  have "distinct (map po_created_at (filter P ?live))" by (rule distinct_map_filter [OF assms(1)])
  moreover have "mset (map po_created_at (live_posts P s)) = mset (map po_created_at (filter P ?live))"
    by (simp add: live_posts_def newest_first_def order_desc_def conj_commute)
  ultimately have "distinct (map po_created_at (live_posts P s))" using mset_eq_imp_distinct_iff by blast
  then show "distinct (map (\<lambda>p. - po_created_at p) (live_posts P s))" by (simp add: distinct_map inj_on_def)
  show "length (live_posts P s) < fuel"
    using le_less_trans [OF length_filter_le assms(2)] by (simp add: live_posts_def newest_first_def)
qed

section \<open>Previews\<close>

lemma length_all_found: "\<forall>x \<in> set xs. f x \<noteq> None \<Longrightarrow> length (List.map_filter f xs) = length xs"
  by (induction xs) (auto simp: map_filter_Cons)

lemma explore_row_found: "explore_row s h = None \<longleftrightarrow> highlight_book h s = None"
  by (simp add: explore_row_def highlight_book_def split: option.split)

lemma length_library: "length (library_order rows) = length rows"
proof -
  have "length (filter P xs) + length (filter (\<lambda>x. \<not> P x) xs) = length xs" for P and xs :: "user_book list"
    by (rule sum_length_filter_compl)
  from this [of "\<lambda>r. ub_started_at r \<noteq> None"] show ?thesis by (simp add: library_order_def Let_def)
qed

section \<open>Properties\<close>

text \<open>
  Following the cursors of the following feed, of the latest posts and of the posts of a user shows
  every post the feed is about exactly once, newest first: those of the users one follows, those of
  everyone one has not blocked (of the asked type), those of the user; never a deleted one.
\<close>
theorem feeds_walk_complete:
  assumes "distinct (map po_created_at (filter (\<lambda>p. po_deleted_at p = None) (t_posts s)))" "length (t_posts s) < fuel"
    and "sort_by \<noteq> ''popular''"
  shows "walk fuel (\<lambda>c. posts_of (get_following_posts url v c limit s)) None =
      live_posts (\<lambda>p. po_user_id p \<in> followees_of v s) s \<and>
    walk fuel (\<lambda>c. posts_of (get_explore_posts url now v sort_by ty c limit s)) None =
      live_posts (\<lambda>p. po_user_id p \<notin> blocked_by v s \<and> of_type (Option.bind ty parse_post_type) p) s \<and>
    walk fuel (\<lambda>c. posts_of (get_user_posts url u v c limit s)) None = live_posts (\<lambda>p. po_user_id p = u) s"
  using live_posts_walk [OF assms(1,2)] assms(3)
  by (simp add: get_following_posts_def get_explore_posts_def get_user_posts_def repo_following_feed_def repo_explore_latest_def
      repo_user_posts_def Let_def)

theorem feeds_walk_complete_witness:
  "walk 2 (\<lambda>c. posts_of (get_user_posts id 1 2 c 1 wall)) None = live_posts (\<lambda>p. po_user_id p = 1) wall"
  using feeds_walk_complete [of wall 2 "''latest''" id 2 1 t0 None 1] by simp

text \<open>
  The popular feed takes no notice of the cursor it hands out: when its page is full, following the
  cursors shows the first page again and again, and no post behind it is ever reached.
\<close>
theorem popular_feed_repeats:
  assumes "length (repo_explore_popular v (now - POPULAR_DAYS * day_us) (Option.bind ty parse_post_type) (clamp limit 50) s) = clamp limit 50"
  shows "walk fuel (\<lambda>c. posts_of (get_explore_posts url now v ''popular'' ty c limit s)) cursor =
    concat (replicate fuel (repo_explore_popular v (now - POPULAR_DAYS * day_us) (Option.bind ty parse_post_type) (clamp limit 50) s))"
proof -
  let ?p = "repo_explore_popular v (now - POPULAR_DAYS * day_us) (Option.bind ty parse_post_type) (clamp limit 50) s"
  have ne: "?p \<noteq> []" using assms by (auto simp: clamp_def)
  have "posts_of (get_explore_posts url now v ''popular'' ty c limit s) = (?p, Some (po_created_at (last ?p)))" for c
    using assms ne by (simp add: get_explore_posts_def FEED_PAGE_MAX_def posts_of_build Let_def)
  then show ?thesis by (induction fuel arbitrary: cursor) simp_all
qed

theorem popular_feed_repeats_witness:
  "walk 3 (\<lambda>c. posts_of (get_explore_posts id t0 2 ''popular'' None c 1 wall)) None = [demo_post, demo_post, demo_post]"
proof -
  have p: "repo_explore_popular 2 (t0 - POPULAR_DAYS * day_us) None (clamp 1 50) wall = [demo_post]"
    by (simp add: repo_explore_popular_def blocked_by_def of_type_def order_desc_def clamp_def POPULAR_DAYS_def day_us_def wall_def demo_def
        empty_sess_def)
  then show ?thesis using popular_feed_repeats [of 2 t0 None 1 wall 3 id None] by (simp add: clamp_def numeral_3_eq_3)
qed


definition secret :: post_highlight where
  "secret = \<lparr>ph_id = 911, ph_user_id = 1, ph_user_book_id = 100, ph_quote_text = ascii ''secret'', ph_page_number = None, ph_note_text = None,
     ph_visibility = ''private'', ph_shared_at = None, ph_deleted_at = Some t0, ph_created_at = t0\<rparr>"


text \<open>
  The counts of one's activity agree with the previews: each preview holds as many items as are
  counted, and five when there are more - when what the rows refer to exists.
\<close>
theorem activity_counts_match:
  assumes "\<forall>r \<in> set (t_book_reviews s). fetch bk_id (rv_book_id r) (t_books s) \<noteq> None"
    and "\<forall>h \<in> set (t_post_highlights s). highlight_book h s \<noteq> None"
    and "\<forall>a \<in> set (t_session_agendas s). \<exists>cs. club_session_by_id (ag_session_id a) s = Some cs \<and> club_by_id (cs_club_id cs) s \<noteq> None"
    and "\<forall>ub \<in> set (t_user_books s). fetch bk_id (ub_book_id ub) (t_books s) \<noteq> None"
  shows "(case get_my_activity u s of a \<Rightarrow>
     int (length (snd (as_reviews a))) = min 5 (fst (as_reviews a)) \<and>
     length (snd (as_highlights a)) = min 5 (fst (as_highlights a)) \<and>
     length (snd (as_agendas a)) = min 5 (fst (as_agendas a)) \<and>
     length (snd (as_clubs a)) = min 5 (fst (as_clubs a)) \<and>
     length (snd (as_reading_books a)) = min 5 (fst (as_reading_books a)))"
proof -
  have "int (length (snd (preview_reviews u 5 s))) = min 5 (fst (preview_reviews u 5 s))"
    using assms(1) by (simp add: preview_reviews_def repo_list_my_reviews_def count_my_reviews_def length_all_found)
  moreover have "length (snd (preview_highlights u 5 s)) = min 5 (fst (preview_highlights u 5 s))"
    using assms(2) by (simp add: preview_highlights_def list_recent_for_user_def count_by_user_def length_all_found newest_first_def
        explore_row_found)
  moreover have "length (snd (preview_agendas u 5 s)) = min 5 (fst (preview_agendas u 5 s))"
  proof -
    have "length (List.map_filter (\<lambda>a. case club_session_by_id (ag_session_id a) s of None \<Rightarrow> None
          | Some cs \<Rightarrow> map_option (\<lambda>c. \<lparr>ax_agenda = a, ax_club_id = rc_id c, ax_club_name = rc_name c,
              ax_session_title = cs_title cs\<rparr>) (club_by_id (cs_club_id cs) s)) rows) = length rows"
      if "set rows \<subseteq> set (t_session_agendas s)" for rows
      by (rule length_all_found) (use assms(3) that in fastforce)
    then show ?thesis by (simp add: preview_agendas_def list_agendas_by_author_def count_agendas_by_author_def)
  qed
  moreover have "length (snd (preview_clubs u 5 s)) = min 5 (fst (preview_clubs u 5 s))"
    by (simp add: preview_clubs_def Let_def)
  moreover have "length (snd (preview_library u 5 s)) = min 5 (fst (preview_library u 5 s))"
  proof -
    let ?rows = "list_for_user u (Some READING) None 5 s"
    have len: "length ?rows = min 5 (count_for_user u (Some READING) s)"
      by (simp add: list_for_user_def count_for_user_def length_library)
    have "set ?rows \<subseteq> set (t_user_books s)"
      by (auto simp: list_for_user_def library_order_def Let_def dest!: in_set_takeD)
    then have "\<forall>ub \<in> set ?rows. fetch bk_id (ub_book_id ub) (t_books s) \<noteq> None" using assms(4) by blast
    then show ?thesis by (simp add: preview_library_def length_all_found len)
  qed
  ultimately show ?thesis by (simp add: get_my_activity_def ACTIVITY_PREVIEW_SIZE_def preview_reviews_def count_my_reviews_def)
qed

theorem activity_counts_match_witness:
  "length (snd (as_reading_books (get_my_activity 1 demo))) = 1"
  using activity_counts_match [of demo 1] by (simp add: get_my_activity_def preview_library_def count_for_user_def demo_defs demo_def empty_sess_def)

end
