(* ===== verification/Admin.thy ===== *)
theory Admin
  imports Auth Social NotificationBatch
begin

text \<open>
  The console of the administrators (\<open>backend/app/domains/admin\<close>) and the promotion script
  (\<open>backend/scripts/promote_admin.py\<close>). The case-insensitive match and the lower case of the server
  are parameters. A month is the pair of its year and its number, which the code writes as \<open>YYYY-MM\<close>.
\<close>

section \<open>Statistics\<close>

definition active_readers :: "datetime \<Rightarrow> sess \<Rightarrow> nat" where
  "active_readers cutoff s = length (remdups (map rs_user_id (filter (\<lambda>r. cutoff \<le> rs_started_at r) (t_reading_sessions s))))"

definition count_mau :: "datetime \<Rightarrow> sess \<Rightarrow> nat" where
  "count_mau now s = active_readers (now - 30 * day_us) s"

definition count_dau :: "datetime \<Rightarrow> sess \<Rightarrow> nat" where
  "count_dau now s = active_readers (now - day_us) s"

definition count_new_users :: "int \<Rightarrow> datetime \<Rightarrow> sess \<Rightarrow> nat" where
  "count_new_users days now s = length (filter (\<lambda>u. now - days * day_us \<le> us_created_at u \<and> us_deleted_at u = None) (t_users s))"

definition pro_users :: "sess \<Rightarrow> user list" where
  "pro_users s = filter (\<lambda>u. us_is_pro u \<and> us_deleted_at u = None) (t_users s)"

definition count_pro_users :: "sess \<Rightarrow> nat" where
  "count_pro_users s = length (pro_users s)"

definition count_subscription_events :: "string \<Rightarrow> sess \<Rightarrow> nat" where
  "count_subscription_events event_type s = length (filter (\<lambda>e. sb_event_type e = event_type) (t_subscription_events s))"

definition count_churned_since :: "datetime \<Rightarrow> sess \<Rightarrow> nat" where
  "count_churned_since since s =
     length (filter (\<lambda>e. sb_event_type e = ''churn'' \<and> since \<le> sb_created_at e) (t_subscription_events s))"

definition count_active_subscribers_by_product :: "sess \<Rightarrow> (string option \<times> nat) list" where
  "count_active_subscribers_by_product s =
     map (\<lambda>p. (p, length (filter (\<lambda>u. us_pro_product_id u = p) (pro_users s)))) (remdups (map us_pro_product_id (pro_users s)))"

definition sum_active_team_seats :: "datetime \<Rightarrow> sess \<Rightarrow> int" where
  "sum_active_team_seats now s = tsum tm_seat_count (filter (\<lambda>t. tm_valid_from t \<le> now \<and> now < tm_valid_until t) (t_teams s))"

type_synonym month = "int \<times> int"

definition month_at :: "datetime \<Rightarrow> month" where
  "month_at t = (year_of (utc_date t), month_of (utc_date t))"

text \<open>Hundredths of a won.\<close>

definition monthly_subscription_revenue :: "datetime \<Rightarrow> sess \<Rightarrow> month \<Rightarrow> int" where
  "monthly_subscription_revenue since s m =
     tsum sb_revenue_amount (filter (\<lambda>e. sb_event_type e = ''subscription'' \<and> since \<le> sb_created_at e \<and> month_at (sb_created_at e) = m)
       (t_subscription_events s))"

section \<open>Users\<close>

definition admin_matches :: "(pystr \<Rightarrow> pystr \<Rightarrow> bool) \<Rightarrow> pystr option \<Rightarrow> user \<Rightarrow> bool" where
  "admin_matches ilike search u \<longleftrightarrow> us_deleted_at u = None \<and>
     (case search of
        None \<Rightarrow> True
      | Some q \<Rightarrow> q = [] \<or> ilike ([37] @ q @ [37]) (us_nickname u) \<or>
          (case us_email u of None \<Rightarrow> False | Some e \<Rightarrow> ilike ([37] @ q @ [37]) e))"

definition count_users :: "(pystr \<Rightarrow> pystr \<Rightarrow> bool) \<Rightarrow> pystr option \<Rightarrow> sess \<Rightarrow> nat" where
  "count_users ilike search s = length (filter (admin_matches ilike search) (t_users s))"

definition repo_list_users :: "(pystr \<Rightarrow> pystr \<Rightarrow> bool) \<Rightarrow> nat \<Rightarrow> nat \<Rightarrow> pystr option \<Rightarrow> sess \<Rightarrow> user list" where
  "repo_list_users ilike page per_page search s =
     take per_page (drop ((page - 1) * per_page) (order_desc us_created_at (filter (admin_matches ilike search) (t_users s))))"

definition get_user_by_email :: "(pystr \<Rightarrow> pystr) \<Rightarrow> pystr \<Rightarrow> sess \<Rightarrow> user option result" where
  "get_user_by_email lower email s =
     scalar_one_or_none (filter (\<lambda>u. map_option lower (us_email u) = Some (lower email) \<and> us_deleted_at u = None) (t_users s))"

definition count_admins :: "sess \<Rightarrow> nat" where
  "count_admins s = length (filter (\<lambda>u. us_is_admin u \<and> us_deleted_at u = None) (t_users s))"

definition patched :: "bool option \<Rightarrow> bool option \<Rightarrow> user \<Rightarrow> user" where
  "patched is_active is_admin u =
     u\<lparr>us_is_active := (case is_active of None \<Rightarrow> us_is_active u | Some b \<Rightarrow> b),
       us_is_admin := (case is_admin of None \<Rightarrow> us_is_admin u | Some b \<Rightarrow> b)\<rparr>"

definition repo_patch_user :: "uuid \<Rightarrow> bool option \<Rightarrow> bool option \<Rightarrow> sess \<Rightarrow> user option \<times> sess" where
  "repo_patch_user user_id is_active is_admin s =
     (if is_active = None \<and> is_admin = None then (get_user user_id s, s)
      else case get_user user_id s of
             None \<Rightarrow> (None, s)
           | Some u \<Rightarrow> (Some (patched is_active is_admin u),
                        s\<lparr>t_users := amend us_id user_id (patched is_active is_admin) (t_users s)\<rparr>))"

section \<open>Service\<close>

record stats_response =
  sr_mau :: nat
  sr_dau :: nat
  sr_new_users_7d :: nat
  sr_pro_users :: nat

definition get_stats :: "datetime \<Rightarrow> sess \<Rightarrow> stats_response" where
  "get_stats now s = \<lparr>sr_mau = count_mau now s, sr_dau = count_dau now s, sr_new_users_7d = count_new_users 7 now s,
     sr_pro_users = count_pro_users s\<rparr>"

record funnel_response =
  fn_paywall_views :: nat
  fn_paywall_clicks :: nat
  fn_subscriptions :: nat
  fn_conversion_rate :: rat

definition get_conversion_funnel :: "sess \<Rightarrow> funnel_response" where
  "get_conversion_funnel s =
     (let views = count_subscription_events ''paywall_view'' s;
          subscriptions = count_subscription_events ''subscription'' s
      in \<lparr>fn_paywall_views = views, fn_paywall_clicks = count_subscription_events ''paywall_click'' s,
          fn_subscriptions = subscriptions,
          fn_conversion_rate = (if views \<noteq> 0 then true_div (int subscriptions) (int views) else 0)\<rparr>)"

text \<open>
  \<open>Decimal\<close> with the default context: 28 significant digits, half to even. Every amount here is 0 or
  at least 1.
\<close>

fun ndigits :: "nat \<Rightarrow> nat" where
  "ndigits n = (if n < 10 then 1 else 1 + ndigits (n div 10))"

declare ndigits.simps [simp del]

definition decimal28 :: "rat \<Rightarrow> rat" where
  "decimal28 x =
     (if x = 0 then 0
      else let u = 10 powi (28 - int (ndigits (nat \<lfloor>x\<rfloor>))) in of_int (rne (x * u)) / u)"

definition product_monthly_price :: "string option \<Rightarrow> rat" where
  "product_monthly_price product =
     (case product of
        None \<Rightarrow> 0
      | Some p \<Rightarrow>
          if p = ''monthly_pro_6900'' then 6900
          else if p = ''annual_pro_59000'' then decimal28 (59000 / 12)
          else if p = ''annual_pro_53100'' then decimal28 (53100 / 12)
          else 0)"

definition TEAM_SEAT_MONTHLY_PRICE :: rat where "TEAM_SEAT_MONTHLY_PRICE = 99000"
definition TREND_MONTHS :: nat where "TREND_MONTHS = 6"

text \<open>\<open>float(round(x, 2))\<close>.\<close>

definition won :: "rat \<Rightarrow> rat" where
  "won x = fl (of_int (rne (x * 100)) / 100)"

fun months_back :: "nat \<Rightarrow> month \<Rightarrow> month list" where
  "months_back 0 m = []"
| "months_back (Suc k) (year, mon) = (year, mon) # months_back k (if mon - 1 = 0 then (year - 1, 12) else (year, mon - 1))"

definition recent_months :: "datetime \<Rightarrow> nat \<Rightarrow> month list" where
  "recent_months now how_many = rev (months_back how_many (month_at now))"

definition build_monthly_trend :: "datetime \<Rightarrow> sess \<Rightarrow> (string \<times> rat) list" where
  "build_monthly_trend now s =
     (let months = recent_months now TREND_MONTHS;
          since = midnight (ymd2ord (fst (hd months)) (snd (hd months)) 1)
      in map (\<lambda>(y, m). (pad 4 y @ ''-'' @ pad 2 m, fl (of_int (monthly_subscription_revenue since s (y, m)) / 100))) months)"

record revenue_response =
  rm_mrr :: rat
  rm_arr :: rat
  rm_active_subscribers :: nat
  rm_churned_30d :: nat
  rm_team_mrr :: rat
  rm_monthly_trend :: "(string \<times> rat) list"

definition get_revenue_metrics :: "datetime \<Rightarrow> sess \<Rightarrow> revenue_response" where
  "get_revenue_metrics now s =
     (let by_product = count_active_subscribers_by_product s;
          mrr = foldl (\<lambda>a (product, n). decimal28 (a + decimal28 (product_monthly_price product * of_nat n))) 0 by_product
      in \<lparr>rm_mrr = won mrr, rm_arr = won (decimal28 (mrr * 12)),
          rm_active_subscribers = sum_list (map snd by_product),
          rm_churned_30d = count_churned_since (now - 30 * day_us) s,
          rm_team_mrr = won (decimal28 (TEAM_SEAT_MONTHLY_PRICE * of_int (sum_active_team_seats now s))),
          rm_monthly_trend = build_monthly_trend now s\<rparr>)"

definition list_users :: "(pystr \<Rightarrow> pystr \<Rightarrow> bool) \<Rightarrow> nat \<Rightarrow> nat \<Rightarrow> pystr option \<Rightarrow> sess \<Rightarrow> user list \<times> nat" where
  "list_users ilike page per_page search s =
     (repo_list_users ilike page per_page search s, count_users ilike search s)"

definition USER_MISSING :: error where "USER_MISSING = DomainError NotFoundError ''USER_NOT_FOUND''"

definition admin_get_user :: "uuid \<Rightarrow> sess \<Rightarrow> user result" where
  "admin_get_user user_id s = required USER_MISSING (get_user user_id s)"

definition patch_user :: "uuid \<Rightarrow> bool option \<Rightarrow> bool option \<Rightarrow> sess \<Rightarrow> user outcome" where
  "patch_user user_id is_active is_admin s =
     bindE (if is_admin = Some False
            then bindE (required USER_MISSING (get_user user_id s)) (\<lambda>target.
                 guardE (\<not> (us_is_admin target \<and> count_admins s \<le> 1)) (DomainError ConflictError ''LAST_ADMIN_PROTECTED''))
            else Inr ()) (\<lambda>_.
     case repo_patch_user user_id is_active is_admin s of
       (None, _) \<Rightarrow> Inl USER_MISSING
     | (Some user, s') \<Rightarrow> Inr (user, s'))"

section \<open>The promotion script\<close>

definition promote_user :: "(pystr \<Rightarrow> pystr) \<Rightarrow> pystr \<Rightarrow> sess \<Rightarrow> user option outcome" where
  "promote_user lower email s =
     bindE (get_user_by_email lower email s) (\<lambda>found.
     case found of
       None \<Rightarrow> Inr (None, s)
     | Some user \<Rightarrow> if us_is_admin user then Inr (Some user, s) else Inr (repo_patch_user (us_id user) None (Some True) s))"

record bootstrap_report =
  br_promoted :: "pystr list"
  br_already_admin :: "pystr list"
  br_not_found :: "pystr list"

text \<open>\<open>dict.fromkeys\<close> keeps the first of equal keys.\<close>

fun first_of_each :: "'a list \<Rightarrow> 'a list" where
  "first_of_each [] = []"
| "first_of_each (x # xs) = x # filter (\<lambda>y. y \<noteq> x) (first_of_each xs)"

fun bootstrap_loop :: "(pystr \<Rightarrow> pystr) \<Rightarrow> pystr list \<Rightarrow> bootstrap_report \<Rightarrow> sess \<Rightarrow> bootstrap_report outcome" where
  "bootstrap_loop lower [] rep s = Inr (rep, s)"
| "bootstrap_loop lower (email # emails) rep s =
     bindE (get_user_by_email lower email s) (\<lambda>found.
     case found of
       None \<Rightarrow> bootstrap_loop lower emails (rep\<lparr>br_not_found := br_not_found rep @ [email]\<rparr>) s
     | Some user \<Rightarrow>
         if us_is_admin user
         then bootstrap_loop lower emails (rep\<lparr>br_already_admin := br_already_admin rep @ [email]\<rparr>) s
         else bindE (promote_user lower email s) (\<lambda>(_, s').
              bootstrap_loop lower emails (rep\<lparr>br_promoted := br_promoted rep @ [email]\<rparr>) s'))"

definition bootstrap_from_settings :: "(pystr \<Rightarrow> pystr) \<Rightarrow> pystr list \<Rightarrow> sess \<Rightarrow> bootstrap_report outcome" where
  "bootstrap_from_settings lower emails s =
     bootstrap_loop lower (first_of_each (filter (\<lambda>e. e \<noteq> []) (map py_strip emails)))
       \<lparr>br_promoted = [], br_already_admin = [], br_not_found = []\<rparr> s"

end
