(* ===== verification/AdminProps.thy ===== *)
theory AdminProps
  imports Admin ReadingMachine Demo
begin

text \<open>
  The console never removes the last administrator, its pages cut one list, and the months of the
  revenue trend are the last six.
\<close>

section \<open>Administrators\<close>

definition admin_bit :: "user \<Rightarrow> int" where
  "admin_bit u = (if us_is_admin u \<and> us_deleted_at u = None then 1 else 0)"

lemma count_admins_tsum: "int (count_admins s) = tsum admin_bit (t_users s)"
proof -
  have "int (length (filter (\<lambda>u. us_is_admin u \<and> us_deleted_at u = None) us)) = tsum admin_bit us" for us
    by (induction us) (simp_all add: admin_bit_def)
  then show ?thesis by (simp add: count_admins_def)
qed

datatype admin_op =
    PatchUser uuid "bool option" "bool option"
  | PromoteUser "pystr \<Rightarrow> pystr" pystr
  | Bootstrap "pystr \<Rightarrow> pystr" "pystr list"

fun admin_step :: "admin_op \<Rightarrow> sess \<Rightarrow> error + sess" where
  "admin_step (PatchUser u a b) s = ret (patch_user u a b s)"
| "admin_step (PromoteUser f e) s = ret (promote_user f e s)"
| "admin_step (Bootstrap f es) s = ret (bootstrap_from_settings f es s)"

definition admins_ok :: "sess \<Rightarrow> bool" where
  "admins_ok s \<longleftrightarrow> distinct (map us_id (t_users s)) \<and> 1 \<le> count_admins s"

lemma get_user_Some: "get_user i s = Some u \<longleftrightarrow> fetch us_id i (t_users s) = Some u \<and> us_deleted_at u = None"
  by (auto simp: get_user_def split: option.splits)

lemma patch_count:
  assumes "distinct (map us_id (t_users s))" "get_user i s = Some u"
  shows "int (count_admins (s\<lparr>t_users := amend us_id i (patched a b) (t_users s)\<rparr>)) =
    int (count_admins s) + admin_bit (patched a b u) - admin_bit u"
  using tsum_amend [of us_id "t_users s" i u admin_bit "patched a b"] assms
  unfolding count_admins_tsum by (simp add: get_user_Some)

lemma patch_keeps_ids: "map us_id (amend us_id i (patched a b) us) = map us_id us"
  by (rule map_key_amend) (simp add: patched_def)

lemma repo_patch_ok:
  assumes ok: "admins_ok s" and p: "repo_patch_user i a b s = (Some v, s')"
    and keep: "b = Some False \<Longrightarrow> \<forall>u. get_user i s = Some u \<longrightarrow> \<not> us_is_admin u \<or> 1 < count_admins s"
  shows "admins_ok s'"
proof (cases "a = None \<and> b = None")
  case True
  then show ?thesis using p ok by (simp add: repo_patch_user_def)
next
  case False
  then obtain u where u: "get_user i s = Some u" and s': "s' = s\<lparr>t_users := amend us_id i (patched a b) (t_users s)\<rparr>"
    using p by (auto simp: repo_patch_user_def split: option.splits if_splits)
  have d: "distinct (map us_id (t_users s))" using ok by (simp add: admins_ok_def)
  have bit: "admin_bit u = (if us_is_admin u then 1 else 0)" "us_deleted_at u = None"
    using u by (auto simp: get_user_Some admin_bit_def)
  have "int (count_admins s) + admin_bit (patched a b u) - admin_bit u \<ge> 1"
  proof (cases "b = Some False")
    case True
    then show ?thesis using keep u ok bit by (auto simp: admins_ok_def admin_bit_def patched_def)
  next
    case False
    then have "admin_bit u \<le> admin_bit (patched a b u)" using bit by (auto simp: admin_bit_def patched_def split: option.splits)
    then show ?thesis using ok by (simp add: admins_ok_def)
  qed
  then have "1 \<le> count_admins s'" using patch_count [OF d u, of a b] by (simp add: s')
  then show ?thesis using d by (simp add: admins_ok_def s' patch_keeps_ids)
qed

lemma patch_ok: "admins_ok s \<Longrightarrow> patch_user i a b s = Inr (v, s') \<Longrightarrow> admins_ok s'"
  by (rule repo_patch_ok [of s i a b]) (auto simp: patch_user_def split: option.splits if_splits prod.splits)

lemma promote_ok: "admins_ok s \<Longrightarrow> promote_user f e s = Inr (v, s') \<Longrightarrow> admins_ok s'"
proof -
  assume ok: "admins_ok s" and p: "promote_user f e s = Inr (v, s')"
  then obtain found where f: "get_user_by_email f e s = Inr found"
    by (cases "get_user_by_email f e s") (auto simp: promote_user_def)
  show ?thesis
  proof (cases "found = None \<or> us_is_admin (the found)")
    case True
    then show ?thesis using p ok f by (auto simp: promote_user_def split: option.splits)
  next
    case False
    then obtain u where u: "found = Some u" "\<not> us_is_admin u" by auto
    then have r: "repo_patch_user (us_id u) None (Some True) s = (v, s')" using p f by (simp add: promote_user_def)
    show ?thesis
    proof (cases v)
      case None
      then show ?thesis using r ok by (auto simp: repo_patch_user_def split: option.splits)
    next
      case (Some w)
      show ?thesis by (rule repo_patch_ok [OF ok r [unfolded Some]]) simp
    qed
  qed
qed

lemma bootstrap_ok: "admins_ok s \<Longrightarrow> bootstrap_loop f es r s = Inr (v, s') \<Longrightarrow> admins_ok s'"
proof (induction es arbitrary: r s)
  case (Cons e es)
  show ?case
  proof (cases "get_user_by_email f e s")
    case (Inr found)
    then show ?thesis using Cons promote_ok [OF Cons.prems(1), of f e]
      by (auto split: option.splits if_splits)
  qed (use Cons.prems in simp)
qed simp

interpretation console: guarded_machine admin_step admins_ok
proof
  fix s x s'
  assume "admins_ok s" "admin_step x s = Inr s'"
  then show "admins_ok s'"
    by (cases x) (auto simp: ret_Inr bootstrap_from_settings_def intro: patch_ok promote_ok bootstrap_ok)
qed

section \<open>Months\<close>

definition month_index :: "month \<Rightarrow> int" where
  "month_index m = 12 * fst m + snd m"

lemma month_index_mono:
  assumes "a \<le> b"
  shows "month_index (year_of a, month_of a) \<le> month_index (year_of b, month_of b)"
proof (cases "year_of a < year_of b")
  case True
  then show ?thesis using month_of_range [of a] month_of_range [of b] by (simp add: month_index_def)
next
  case False
  have y: "year_of a = year_of b"
  proof (rule ccontr)
    assume "year_of a \<noteq> year_of b"
    then have "year_of b + 1 = year_of a \<or> year_of b + 1 < year_of a" using False by linarith
    then have "days_before_year (year_of b + 1) \<le> days_before_year (year_of a)"
      using days_before_year_less [of "year_of b + 1" "year_of a"] by auto
    then show False using assms year_bounds [of a] year_bounds [of b] by linarith
  qed
  have "\<not> month_of b < month_of a"
    using month_start_mono [of "month_of b" "month_of a" "year_of a"] month_of_bounds [of a] month_of_bounds [of b]
      month_of_range [of a] month_of_range [of b] assms y by auto
  then show ?thesis by (simp add: month_index_def y)
qed

lemma months_back_index:
  "map month_index (months_back k (y, m)) = map (\<lambda>i. month_index (y, m) - int i) [0..<k]"
proof (induction k arbitrary: y m)
  case (Suc k)
  have "map (\<lambda>i. month_index (y, m) - 1 - int i) [0..<k] = map (\<lambda>i. month_index (y, m) - int i) [1..<Suc k]"
    by (rule nth_equalityI) (auto simp del: upt_Suc)
  then show ?case using Suc [of "y - 1" 12] Suc [of y "m - 1"]
    by (cases "m = 1") (simp_all add: month_index_def upt_conv_Cons algebra_simps del: upt_Suc)
qed simp

lemma months_back_range: "1 \<le> m \<Longrightarrow> m \<le> 12 \<Longrightarrow> p \<in> set (months_back k (y, m)) \<Longrightarrow> 1 \<le> snd p \<and> snd p \<le> 12"
proof (induction k arbitrary: y m)
  case (Suc k)
  then show ?case using Suc.IH [of "m - 1" y] Suc.IH [of 12 "y - 1"] by (auto split: if_splits)
qed simp

lemma month_index_inj:
  assumes "month_index p = month_index q" "1 \<le> snd p" "snd p \<le> 12" "1 \<le> snd q" "snd q \<le> 12"
  shows "p = q"
proof -
  have "12 * fst p + snd p = 12 * fst q + snd q" using assms(1) by (simp add: month_index_def)
  then have "fst p = fst q" using assms(2-5) by linarith
  then show ?thesis using assms(1) by (simp add: month_index_def prod_eq_iff)
qed

lemma months_back_hit:
  assumes "1 \<le> m" "m \<le> 12" "1 \<le> snd p" "snd p \<le> 12"
    and "month_index p \<le> month_index (y, m)" "month_index (y, m) < month_index p + int k"
  shows "p \<in> set (months_back k (y, m))"
proof -
  define i where "i = nat (month_index (y, m) - month_index p)"
  have "month_index p = month_index (y, m) - int i" "i < k" using assms(5,6) by (simp_all add: i_def)
  then have "month_index p \<in> set (map month_index (months_back k (y, m)))" by (simp add: months_back_index)
  then obtain q where q: "q \<in> set (months_back k (y, m))" "month_index q = month_index p" by auto
  have "q = p"
    using month_index_inj [OF q(2)] months_back_range [OF assms(1,2) q(1)] assms(3,4) by blast
  then show ?thesis using q(1) by simp
qed

lemma month_at_mono: "t \<le> t' \<Longrightarrow> month_index (month_at t) \<le> month_index (month_at t')"
  unfolding month_at_def by (rule month_index_mono) (simp add: utc_date_def day_us_def zdiv_mono1)

lemma month_at_first: "1 \<le> m \<Longrightarrow> m \<le> 12 \<Longrightarrow> month_at (midnight (ymd2ord y m 1)) = (y, m)"
  using days_in_month_pos [of y m] by (simp add: month_at_def ymd_in_year month_of_ymd)

lemma distinct_months_back: "distinct (months_back k (y, m))"
proof -
  have "distinct (map month_index (months_back k (y, m)))"
    unfolding months_back_index by (simp add: distinct_map inj_on_def)
  then show ?thesis by (simp add: distinct_map)
qed

lemma hd_recent:
  "month_index (hd (recent_months now (Suc k))) = month_index (month_at now) - int k"
  "hd (recent_months now (Suc k)) \<in> set (months_back (Suc k) (month_at now))"
proof -
  obtain y m where ym: "month_at now = (y, m)" by (cases "month_at now")
  have ne: "months_back (Suc k) (y, m) \<noteq> []" by simp
  have "month_index (last (months_back (Suc k) (y, m))) = last (map month_index (months_back (Suc k) (y, m)))"
    by (rule last_map [OF ne, symmetric])
  then show "month_index (hd (recent_months now (Suc k))) = month_index (month_at now) - int k"
    unfolding months_back_index by (simp add: recent_months_def ym hd_rev del: months_back.simps)
  show "hd (recent_months now (Suc k)) \<in> set (months_back (Suc k) (month_at now))"
    using last_in_set [OF ne] by (simp add: recent_months_def ym hd_rev del: months_back.simps)
qed

definition trend_start :: "datetime \<Rightarrow> datetime" where
  "trend_start now = (let m = hd (recent_months now TREND_MONTHS) in midnight (ymd2ord (fst m) (snd m) 1))"

lemma in_trend:
  assumes "trend_start now \<le> t" "t \<le> now"
  shows "month_at t \<in> set (recent_months now TREND_MONTHS)"
proof -
  define h where "h = hd (recent_months now TREND_MONTHS)"
  obtain y m where ym: "month_at now = (y, m)" by (cases "month_at now")
  have r: "1 \<le> m" "m \<le> 12" using month_of_range [of "utc_date now"] ym by (simp_all add: month_at_def)
  have t6: "TREND_MONTHS = Suc 5" by (simp add: TREND_MONTHS_def)
  have h: "month_index h = month_index (y, m) - 5" "h \<in> set (months_back 6 (y, m))"
    using hd_recent [of now 5] by (simp_all add: h_def ym t6 del: months_back.simps)
  have hr: "1 \<le> snd h" "snd h \<le> 12" using months_back_range [OF r h(2)] by simp_all
  have "month_at (trend_start now) = h"
    using month_at_first [OF hr, of "fst h"] by (simp add: trend_start_def Let_def h_def [symmetric])
  then have "month_index h \<le> month_index (month_at t)" using month_at_mono [OF assms(1)] by simp
  moreover have "month_index (month_at t) \<le> month_index (y, m)" using month_at_mono [OF assms(2)] ym by simp
  ultimately have "month_at t \<in> set (months_back 6 (y, m))"
    using h(1) month_of_range [of "utc_date t"] by (intro months_back_hit r) (simp_all add: month_at_def)
  then show ?thesis by (simp add: recent_months_def ym t6 del: months_back.simps)
qed

lemma distinct_recent: "distinct (recent_months now k)"
  using distinct_months_back by (cases "month_at now") (simp add: recent_months_def)

section \<open>Properties\<close>

text \<open>
  C34. The console and the promotion script never leave the service without an administrator: any
  sequence of their requests keeps at least one, and taking the flag from the only one is refused.
  But the only administrator may delete the own account, which leaves none.
\<close>

theorem admins_never_run_out:
  assumes "admins_ok s" and "get_user i s = Some u" "us_is_admin u"
  shows "1 \<le> count_admins (run admin_step s requests) \<and>
    (count_admins s = 1 \<longrightarrow>
       patch_user i a (Some False) s = Inl (DomainError ConflictError ''LAST_ADMIN_PROTECTED'') \<and>
       (\<exists>s'. delete_account now i s = Inr ((), s') \<and> count_admins s' = 0))"
proof (intro conjI impI)
  show "1 \<le> count_admins (run admin_step s requests)"
    using console.run_inv [OF assms(1)] by (simp add: admins_ok_def)
  assume one: "count_admins s = 1"
  show "patch_user i a (Some False) s = Inl (DomainError ConflictError ''LAST_ADMIN_PROTECTED'')"
    using assms(2,3) one by (simp add: patch_user_def)
  have "int (count_admins (soft_delete_user i now s)) = int (count_admins s) - admin_bit u"
    using assms tsum_amend [of us_id "t_users s" i u admin_bit "\<lambda>u. u\<lparr>us_deleted_at := Some now\<rparr>"]
    unfolding count_admins_tsum by (simp add: soft_delete_user_def admins_ok_def get_user_Some admin_bit_def)
  then show "\<exists>s'. delete_account now i s = Inr ((), s') \<and> count_admins s' = 0"
    using assms(2,3) one by (simp add: delete_account_def get_user_Some admin_bit_def)
qed

definition console_state :: sess where
  "console_state = demo\<lparr>t_users := [(demo_user 3)\<lparr>us_is_admin := True, us_email := Some (ascii ''a@b.kr'')\<rparr>, demo_user 2]\<rparr>"

lemma admins_never_run_out_witness:
  "1 \<le> count_admins (run admin_step console_state [PatchUser 3 None (Some False), PatchUser 2 None (Some True),
     PatchUser 3 None (Some False), PromoteUser id (ascii ''a@b.kr''), Bootstrap id [ascii ''a@b.kr'']]) \<and>
   patch_user 3 None (Some False) console_state = Inl (DomainError ConflictError ''LAST_ADMIN_PROTECTED'') \<and>
   count_admins (soft_delete_user 3 t0 console_state) = 0"
proof -
  have ok: "admins_ok console_state" "count_admins console_state = 1"
    by (simp_all add: admins_ok_def count_admins_def console_state_def demo_user_def)
  have u: "get_user 3 console_state = Some ((demo_user 3)\<lparr>us_is_admin := True, us_email := Some (ascii ''a@b.kr'')\<rparr>)"
    by (simp add: get_user_def console_state_def demo_user_def)
  from admins_never_run_out [OF ok(1) u, of "[PatchUser 3 None (Some False), PatchUser 2 None (Some True),
     PatchUser 3 None (Some False), PromoteUser id (ascii ''a@b.kr''), Bootstrap id [ascii ''a@b.kr'']]" None t0] ok(2)
  show ?thesis by (simp add: delete_account_def del: run.simps One_nat_def)
qed

text \<open>
  C32. The revenue trend counts every subscription once: the amounts of its six months add up to the
  revenue of the subscriptions made since the first of the oldest of them.
\<close>

theorem trend_counts_each_once:
  assumes "\<And>e. e \<in> set (t_subscription_events s) \<Longrightarrow> sb_created_at e \<le> now"
  shows "sum_list (map (monthly_subscription_revenue (trend_start now) s) (recent_months now TREND_MONTHS)) =
    tsum sb_revenue_amount (filter (\<lambda>e. sb_event_type e = ''subscription'' \<and> trend_start now \<le> sb_created_at e)
      (t_subscription_events s)) \<and>
    map snd (build_monthly_trend now s) =
      map (\<lambda>m. fl (of_int (monthly_subscription_revenue (trend_start now) s m) / 100)) (recent_months now TREND_MONTHS)"
proof
  have "month_at (sb_created_at e) \<in> set (recent_months now TREND_MONTHS)"
    if "e \<in> set (t_subscription_events s)" "sb_event_type e = ''subscription'' \<and> trend_start now \<le> sb_created_at e" for e
    using in_trend assms that by blast
  from tsum_split_by [where P = "\<lambda>e. sb_event_type e = ''subscription'' \<and> trend_start now \<le> sb_created_at e"
      and key = "\<lambda>e. month_at (sb_created_at e)" and rows = "t_subscription_events s" and g = sb_revenue_amount,
      OF distinct_recent this]
  show "sum_list (map (monthly_subscription_revenue (trend_start now) s) (recent_months now TREND_MONTHS)) =
    tsum sb_revenue_amount (filter (\<lambda>e. sb_event_type e = ''subscription'' \<and> trend_start now \<le> sb_created_at e)
      (t_subscription_events s))"
    by (simp add: monthly_subscription_revenue_def [abs_def] conj_assoc)
  show "map snd (build_monthly_trend now s) =
      map (\<lambda>m. fl (of_int (monthly_subscription_revenue (trend_start now) s m) / 100)) (recent_months now TREND_MONTHS)"
    by (simp add: build_monthly_trend_def trend_start_def Let_def case_prod_beta comp_def)
qed

definition subscribed_at :: "uuid \<Rightarrow> datetime \<Rightarrow> int \<Rightarrow> subscription_event" where
  "subscribed_at i t amount = \<lparr>sb_id = i, sb_user_id = 1, sb_event_type = ''subscription'', sb_product_id = None,
     sb_revenue_amount = amount, sb_created_at = t\<rparr>"

definition paid_state :: sess where
  "paid_state = demo\<lparr>t_subscription_events := [subscribed_at 1 (t0 - 40 * day_us) 690000, subscribed_at 2 t0 5900000]\<rparr>"

lemma trend_counts_each_once_witness:
  "sum_list (map (monthly_subscription_revenue (trend_start t0) paid_state) (recent_months t0 TREND_MONTHS)) = 6590000"
proof -
  have "trend_start t0 = midnight (ymd2ord 2023 6 1)"
    unfolding trend_start_def recent_months_def TREND_MONTHS_def month_at_def by code_simp
  then have le: "trend_start t0 \<le> t0 - 40 * day_us" "trend_start t0 \<le> t0" by (simp_all, code_simp+)
  have rows: "t_subscription_events paid_state = [subscribed_at 1 (t0 - 40 * day_us) 690000, subscribed_at 2 t0 5900000]"
    by (simp add: paid_state_def)
  have "sb_created_at e \<le> t0" if "e \<in> set (t_subscription_events paid_state)" for e
    using that unfolding rows by (auto simp: subscribed_at_def day_us_def)
  from conjunct1 [OF trend_counts_each_once [of paid_state t0, OF this]] show ?thesis
    using le unfolding rows by (simp add: subscribed_at_def)
qed

end
