(* ===== verification/Clients.thy ===== *)
theory Clients
  imports Auth Subscription Digest Social
begin

text \<open>
  The clients of other services: the retrying HTTP client (\<open>core/http/base_client.py\<close>), the adapters of
  the identity providers (\<open>domains/auth/adapters\<close>), of the stores (\<open>domains/subscription/adapters\<close>), of
  the push service (\<open>domains/notification/adapters\<close>) and the rewriting of object URLs
  (\<open>core/storage/r2_client.py\<close>). What a server answers, the Unicode database, \<open>int\<close> and \<open>str\<close> of text,
  the JWT library and \<open>datetime.fromisoformat\<close> are parameters. The pauses between attempts are not modelled.
\<close>

section \<open>JSON as Python reads it\<close>

datatype jvalue =
    JsNull | JsBool bool | JsInt int | JsFloat rat | JsNan | JsInfinite
  | JsText pystr | JsList "jvalue list" | JsDict "(pystr \<times> jvalue) list"

record text_lib =
  tx_word :: "nat \<Rightarrow> bool"
  tx_isdigit :: "pystr \<Rightarrow> bool"
  tx_int :: "pystr \<Rightarrow> int result"
  tx_str :: "jvalue \<Rightarrow> pystr"

fun truthy_value :: "jvalue \<Rightarrow> bool" where
  "truthy_value JsNull = False"
| "truthy_value (JsBool b) = b"
| "truthy_value (JsInt n) = (n \<noteq> 0)"
| "truthy_value (JsFloat x) = (x \<noteq> 0)"
| "truthy_value (JsText t) = (t \<noteq> [])"
| "truthy_value (JsList xs) = (xs \<noteq> [])"
| "truthy_value (JsDict kvs) = (kvs \<noteq> [])"
| "truthy_value _ = True"

text \<open>\<open>v.get(key, default)\<close>; only a dictionary has it.\<close>

fun get_or :: "jvalue \<Rightarrow> string \<Rightarrow> jvalue \<Rightarrow> jvalue result" where
  "get_or (JsDict kvs) k d = Inr (case map_of kvs (ascii k) of None \<Rightarrow> d | Some v \<Rightarrow> v)"
| "get_or _ k d = Inl AttributeError"

definition get_key :: "jvalue \<Rightarrow> string \<Rightarrow> jvalue result" where
  "get_key v key = get_or v key JsNull"

definition or_else :: "jvalue \<Rightarrow> jvalue \<Rightarrow> jvalue" where
  "or_else v d = (if truthy_value v then v else d)"

fun text_of :: "jvalue \<Rightarrow> pystr option" where
  "text_of (JsText t) = Some t"
| "text_of _ = None"

fun int_of_value :: "text_lib \<Rightarrow> jvalue \<Rightarrow> int result" where
  "int_of_value T (JsBool b) = Inr (if b then 1 else 0)"
| "int_of_value T (JsInt n) = Inr n"
| "int_of_value T (JsFloat x) = Inr (if 0 \<le> x then \<lfloor>x\<rfloor> else \<lceil>x\<rceil>)"
| "int_of_value T JsNan = Inl ValueError"
| "int_of_value T JsInfinite = Inl OverflowError"
| "int_of_value T (JsText t) = tx_int T t"
| "int_of_value T _ = Inl TypeError"

text \<open>Iterating over a dictionary yields its keys, over a text its characters.\<close>

fun elements_of :: "jvalue \<Rightarrow> jvalue list result" where
  "elements_of (JsList xs) = Inr xs"
| "elements_of (JsDict kvs) = Inr (map (JsText \<circ> fst) kvs)"
| "elements_of (JsText t) = Inr (map (\<lambda>c. JsText [c]) t)"
| "elements_of _ = Inl TypeError"

section \<open>The HTTP client\<close>

text \<open>
  What one attempt comes to: a response, whose body is \<open>None\<close> when it is not JSON, a timeout, another
  transport error, or an exception that is neither.
\<close>

datatype attempt = Responded nat "jvalue option" | TimedOut | TransportFailed | Failed error

type_synonym response = "nat \<times> jvalue option"

fun retryable :: "attempt \<Rightarrow> bool" where
  "retryable (Responded status body) = (500 \<le> status \<and> status < 600)"
| "retryable TimedOut = True"
| "retryable TransportFailed = True"
| "retryable (Failed e) = False"

definition outcome_of :: "attempt \<Rightarrow> response result" where
  "outcome_of a =
     (case a of
        Responded status body \<Rightarrow>
          if retryable a then Inl (DomainError ExternalServiceError ''UPSTREAM_5XX'') else Inr (status, body)
      | TimedOut \<Rightarrow> Inl (DomainError ExternalServiceError ''UPSTREAM_TIMEOUT'')
      | TransportFailed \<Rightarrow> Inl (DomainError ExternalServiceError ''UPSTREAM_TRANSPORT'')
      | Failed e \<Rightarrow> Inl e)"

text \<open>\<open>send k\<close> is what the k-th attempt comes to; the number of attempts made is part of the value.\<close>

fun attempts_from :: "(nat \<Rightarrow> attempt) \<Rightarrow> nat \<Rightarrow> nat \<Rightarrow> response result \<times> nat" where
  "attempts_from send k 0 = (outcome_of (send k), Suc k)"
| "attempts_from send k (Suc left) =
     (if retryable (send k) then attempts_from send (Suc k) left else (outcome_of (send k), Suc k))"

definition http_request :: "nat \<Rightarrow> (nat \<Rightarrow> attempt) \<Rightarrow> response result \<times> nat" where
  "http_request max_retries send = attempts_from send 0 max_retries"

definition MAX_RETRIES :: nat where "MAX_RETRIES = 2"

definition REDACTED_HEADERS :: "pystr set" where
  "REDACTED_HEADERS = {ascii ''authorization'', ascii ''x-naver-client-secret'', ascii ''cookie'', ascii ''set-cookie''}"

definition redact_headers :: "(pystr \<Rightarrow> pystr) \<Rightarrow> (pystr \<times> pystr) list \<Rightarrow> (pystr \<times> pystr) list" where
  "redact_headers lower headers =
     map (\<lambda>(key, v). (key, if lower key \<in> REDACTED_HEADERS then ascii ''<redacted>'' else v)) headers"

definition json_body :: "jvalue option \<Rightarrow> jvalue result" where
  "json_body body = required ValueError body"

section \<open>Identity providers\<close>

definition KAKAO_DEFAULT_NICKNAME :: pystr where
  "KAKAO_DEFAULT_NICKNAME = [52852, 52852, 50724, 54924, 50896]"

text \<open>A value that is a text with something other than spaces.\<close>

definition solid_text :: "jvalue \<Rightarrow> pystr option" where
  "solid_text v = Option.bind (text_of v) (\<lambda>t. if py_strip t = [] then None else Some t)"

definition kakao_profile :: "text_lib \<Rightarrow> response result \<Rightarrow> external_profile result" where
  "kakao_profile T reply =
     bindE reply (\<lambda>(status, body).
     if status \<in> {401, 403} then Inl (DomainError AuthError ''KAKAO_TOKEN_INVALID'')
     else if 400 \<le> status then Inl (DomainError AuthError ''KAKAO_USER_INFO_FAILED'')
     else bindE (json_body body) (\<lambda>b.
          bindE (get_key b ''id'') (\<lambda>kakao_id.
          if kakao_id = JsNull then Inl (DomainError AuthError ''KAKAO_USER_INFO_MALFORMED'')
          else bindE (get_key b ''kakao_account'') (\<lambda>acc.
               bindE (get_key b ''properties'') (\<lambda>props.
               bindE (get_key (or_else acc (JsDict [])) ''email'') (\<lambda>email.
               bindE (get_key (or_else props (JsDict [])) ''nickname'') (\<lambda>nickname.
               bindE (get_key (or_else props (JsDict [])) ''profile_image'') (\<lambda>image.
               Inr \<lparr>xp_sub = tx_str T kakao_id, xp_email = text_of email,
                    xp_nickname = (case solid_text nickname of None \<Rightarrow> KAKAO_DEFAULT_NICKNAME | Some n \<Rightarrow> n),
                    xp_profile_image_url = solid_text image\<rparr>))))))))"

text \<open>The JWKS clients by URL, each with the time it expires; \<open>fresh\<close> is the client a miss creates.\<close>

definition JWKS_TTL :: int where "JWKS_TTL = 60 * 60 * 1000000"

definition jwks_get :: "int \<Rightarrow> pystr \<Rightarrow> 'c \<Rightarrow> (pystr \<rightharpoonup> 'c \<times> int) \<Rightarrow> 'c \<times> (pystr \<rightharpoonup> 'c \<times> int)" where
  "jwks_get now keys_url fresh clients =
     (case clients keys_url of
        Some (client, expires_at) \<Rightarrow>
          if now < expires_at then (client, clients) else (fresh, clients(keys_url \<mapsto> (fresh, now + JWKS_TTL)))
      | None \<Rightarrow> (fresh, clients(keys_url \<mapsto> (fresh, now + JWKS_TTL))))"

datatype key_failure = KeyUnknown | KeysUnavailable
datatype token_failure = TokenExpired | BadAudience | BadIssuer | TokenRefused

fun key_code :: "key_failure \<Rightarrow> string" where
  "key_code KeyUnknown = ''APPLE_KID_UNKNOWN''"
| "key_code KeysUnavailable = ''APPLE_JWKS_UNAVAILABLE''"

fun token_code :: "token_failure \<Rightarrow> string" where
  "token_code TokenExpired = ''APPLE_TOKEN_EXPIRED''"
| "token_code BadAudience = ''APPLE_BAD_AUDIENCE''"
| "token_code BadIssuer = ''APPLE_BAD_ISSUER''"
| "token_code TokenRefused = ''APPLE_TOKEN_INVALID''"

text \<open>\<open>signing_key\<close> and \<open>decode\<close> are the JWT library's, for the client and the settings in force.\<close>

definition verify_identity_token ::
    "(pystr \<Rightarrow> key_failure + 'k) \<Rightarrow> (pystr \<Rightarrow> 'k \<Rightarrow> token_failure + jvalue) \<Rightarrow> pystr \<Rightarrow> pystr \<Rightarrow> (pystr \<times> pystr option) result" where
  "verify_identity_token signing_key decode identity_token nonce =
     (case signing_key identity_token of
        Inl f \<Rightarrow> Inl (DomainError AuthError (key_code f))
      | Inr key \<Rightarrow>
          (case decode identity_token key of
             Inl f \<Rightarrow> Inl (DomainError AuthError (token_code f))
           | Inr payload \<Rightarrow>
               bindE (get_key payload ''nonce'') (\<lambda>token_nonce.
               bindE (guardE (token_nonce = JsText (hexdigest (sha256 (utf8 nonce)))) (DomainError AuthError ''APPLE_NONCE_MISMATCH'')) (\<lambda>_.
               bindE (get_key payload ''sub'') (\<lambda>sub.
               bindE (get_key payload ''email'') (\<lambda>email.
               case text_of sub of
                 None \<Rightarrow> Inl (DomainError AuthError ''APPLE_TOKEN_MALFORMED'')
               | Some t \<Rightarrow> if t = [] then Inl (DomainError AuthError ''APPLE_TOKEN_MALFORMED'')
                           else Inr (t, text_of email)))))))"

section \<open>Purchases\<close>

definition revenuecat_verify ::
    "(pystr \<Rightarrow> datetime result) \<Rightarrow> (string \<Rightarrow> pystr \<Rightarrow> string \<Rightarrow> response result) \<Rightarrow> string \<Rightarrow> pystr \<Rightarrow> string \<Rightarrow> verification result" where
  "revenuecat_verify fromiso post platform receipt_data product_id =
     bindE (post platform receipt_data product_id) (\<lambda>(status, body).
     if status \<notin> {200, 201} then Inr \<lparr>vf_is_valid = False, vf_product_id = product_id, vf_expires_at = None\<rparr>
     else bindE (json_body body) (\<lambda>data.
          bindE (get_or data ''subscriber'' (JsDict [])) (\<lambda>subscriber.
          bindE (get_or subscriber ''entitlements'' (JsDict [])) (\<lambda>entitlements.
          bindE (get_or entitlements ''pro'' (JsDict [])) (\<lambda>pro.
          bindE (get_key pro ''expires_date'') (\<lambda>expires.
          bindE (if \<not> truthy_value expires then Inr None
                 else case text_of expires of None \<Rightarrow> Inl TypeError | Some t \<Rightarrow> bindE (fromiso t) (\<lambda>d. Inr (Some d))) (\<lambda>expires_at.
          bindE (get_or pro ''is_active'' (JsBool False)) (\<lambda>active.
          Inr \<lparr>vf_is_valid = truthy_value active, vf_product_id = product_id, vf_expires_at = expires_at\<rparr>))))))))"

definition stub_verifier :: "datetime \<Rightarrow> string \<Rightarrow> pystr \<Rightarrow> string \<Rightarrow> verification result" where
  "stub_verifier now platform receipt_data product_id =
     Inr \<lparr>vf_is_valid = True, vf_product_id = product_id, vf_expires_at = Some (now + 365 * day_us)\<rparr>"

section \<open>Pushes\<close>

definition TOKEN_TTL :: int where "TOKEN_TTL = 3600 * 1000000"
definition TOKEN_REFRESH_MARGIN :: int where "TOKEN_REFRESH_MARGIN = 300 * 1000000"
definition BATCH_SIZE :: nat where "BATCH_SIZE = 100"

record fcm =
  fcm_token :: "pystr option"
  fcm_expires_at :: int

text \<open>\<open>refreshed\<close> is the token the credentials hold after a refresh, or what the refresh raises.\<close>

definition fcm_get_token :: "int \<Rightarrow> pystr option result \<Rightarrow> fcm \<Rightarrow> (pystr \<times> fcm) result" where
  "fcm_get_token now refreshed f =
     bindE (if fcm_expires_at f - TOKEN_REFRESH_MARGIN \<le> now
            then bindE refreshed (\<lambda>t. Inr \<lparr>fcm_token = t, fcm_expires_at = now + TOKEN_TTL\<rparr>)
            else Inr f) (\<lambda>f'.
     Inr (case fcm_token f' of None \<Rightarrow> [] | Some t \<Rightarrow> t, f'))"

text \<open>
  One batch after another, the requests of a batch together. The value is the batches that were sent
  with the credential and how many of the sends failed; \<open>delivered t\<close> says whether the one to \<open>t\<close> was
  answered with 200.
\<close>

definition fcm_send :: "int \<Rightarrow> pystr option result \<Rightarrow> (pystr \<Rightarrow> bool) \<Rightarrow> pystr list \<Rightarrow> fcm \<Rightarrow> (pystr list list \<times> nat \<times> fcm) result" where
  "fcm_send now refreshed delivered tokens f =
     (if tokens = [] then Inr ([], 0, f)
      else bindE (fcm_get_token now refreshed f) (\<lambda>(bearer, f').
           Inr (chunks BATCH_SIZE tokens, length (filter (\<lambda>t. \<not> delivered t) tokens), f')))"

section \<open>Object URLs\<close>

definition rstrip_slash :: "pystr \<Rightarrow> pystr" where
  "rstrip_slash u = rev (dropWhile (\<lambda>c. c = 47) (rev u))"

definition presign_endpoint :: "pystr \<Rightarrow> pystr \<Rightarrow> pystr" where
  "presign_endpoint endpoint public_endpoint = (if public_endpoint \<noteq> [] then public_endpoint else endpoint)"

definition rewrite_endpoint :: "pystr \<Rightarrow> pystr \<Rightarrow> pystr \<Rightarrow> pystr" where
  "rewrite_endpoint endpoint public_endpoint url =
     (let internal = rstrip_slash endpoint; pub = rstrip_slash (presign_endpoint endpoint public_endpoint)
      in if internal \<noteq> pub \<and> take (length internal) url = internal then pub @ drop (length internal) url else url)"

end
