(* ===== verification/BookSources.thy ===== *)
theory BookSources
  imports Clients Discovery
begin

text \<open>
  The two catalogues the library searches (\<open>domains/book/adapters\<close>): Naver first, Kakao when it fails or
  finds nothing. An ISBN is looked for among the digits 0 to 9; what counts as a word character is
  Unicode's, a parameter.
\<close>

record source_page =
  sp_items :: "external_book list"
  sp_total :: int
  sp_page :: int
  sp_size :: int

section \<open>Cleaning\<close>

definition bold_tag :: "pystr \<Rightarrow> nat" where
  "bold_tag t =
     (if take 3 t \<in> {[60, 98, 62], [60, 66, 62]} then 3
      else if take 4 t \<in> {[60, 47, 98, 62], [60, 47, 66, 62]} then 4 else 0)"

fun strip_bold :: "pystr \<Rightarrow> pystr" where
  "strip_bold [] = []"
| "strip_bold (c # cs) = (if bold_tag (c # cs) = 0 then c # strip_bold cs else strip_bold (drop (bold_tag (c # cs) - 1) cs))"

definition strip_bold_value :: "jvalue \<Rightarrow> pystr result" where
  "strip_bold_value v = (case text_of v of None \<Rightarrow> Inl TypeError | Some t \<Rightarrow> Inr (strip_bold t))"

definition AUTHOR_SEPARATOR :: pystr where "AUTHOR_SEPARATOR = [32, 183, 32]"
definition UNKNOWN_AUTHOR :: pystr where "UNKNOWN_AUTHOR = [50508, 32, 49688, 32, 50630, 51020]"

fun join_with :: "pystr \<Rightarrow> pystr list \<Rightarrow> pystr" where
  "join_with sep [] = []"
| "join_with sep [p] = p"
| "join_with sep (p # ps) = p @ sep @ join_with sep ps"

definition nonblank :: "pystr list \<Rightarrow> pystr list" where
  "nonblank ps = filter (\<lambda>p. p \<noteq> []) (map py_strip ps)"

definition normalize_authors :: "pystr \<Rightarrow> pystr" where
  "normalize_authors raw =
     (let parts = nonblank (split_on (\<lambda>c. c = 124) raw)
      in if parts \<noteq> [] then join_with AUTHOR_SEPARATOR parts else py_strip raw)"

definition ascii_digit :: "nat \<Rightarrow> bool" where
  "ascii_digit c \<longleftrightarrow> 48 \<le> c \<and> c \<le> 57"

text \<open>\<open>\b\d{13}\b\<close> at the start of \<open>t\<close>, after the character \<open>prev\<close>.\<close>

definition isbn_here :: "text_lib \<Rightarrow> nat option \<Rightarrow> pystr \<Rightarrow> bool" where
  "isbn_here T prev t \<longleftrightarrow>
     13 \<le> length t \<and> list_all ascii_digit (take 13 t) \<and>
     (case prev of None \<Rightarrow> True | Some c \<Rightarrow> \<not> tx_word T c) \<and> (drop 13 t = [] \<or> \<not> tx_word T (hd (drop 13 t)))"

fun find_isbn :: "text_lib \<Rightarrow> nat option \<Rightarrow> pystr \<Rightarrow> pystr option" where
  "find_isbn T prev [] = None"
| "find_isbn T prev (c # cs) = (if isbn_here T prev (c # cs) then Some (take 13 (c # cs)) else find_isbn T (Some c) cs)"

definition extract_isbn13 :: "text_lib \<Rightarrow> jvalue \<Rightarrow> string option result" where
  "extract_isbn13 T raw =
     (if \<not> truthy_value raw then Inr None
      else case text_of raw of None \<Rightarrow> Inl TypeError | Some t \<Rightarrow> Inr (map_option (map char_of) (find_isbn T None t)))"

definition upgrade_to_https :: "pystr \<Rightarrow> pystr" where
  "upgrade_to_https url = (if take 7 url = ascii ''http://'' then ascii ''https://'' @ drop 7 url else url)"

fun page_count_of :: "text_lib \<Rightarrow> jvalue \<Rightarrow> int option result" where
  "page_count_of T (JsInt n) = Inr (if 0 < n then Some n else None)"
| "page_count_of T (JsBool b) = Inr (if b then Some 1 else None)"
| "page_count_of T (JsText t) =
     (if tx_isdigit T (py_strip t) then bindE (tx_int T (py_strip t)) (\<lambda>n. Inr (if 0 < n then Some n else None)) else Inr None)"
| "page_count_of T _ = Inr None"

fun first_page_count :: "text_lib \<Rightarrow> jvalue \<Rightarrow> string list \<Rightarrow> int option result" where
  "first_page_count T raw [] = Inr None"
| "first_page_count T raw (key # keys) =
     bindE (get_key raw key) (\<lambda>v.
     bindE (page_count_of T v) (\<lambda>n.
     case n of Some k \<Rightarrow> Inr (Some k) | None \<Rightarrow> first_page_count T raw keys))"

definition parse_page_count :: "text_lib \<Rightarrow> jvalue \<Rightarrow> int option result" where
  "parse_page_count T raw = first_page_count T raw [''itemPage'', ''page'', ''pages'']"

text \<open>A text that is not empty.\<close>

definition filled :: "pystr \<Rightarrow> pystr option" where
  "filled t = (if t = [] then None else Some t)"

section \<open>Naver\<close>

definition naver_item :: "text_lib \<Rightarrow> jvalue \<Rightarrow> external_book option result" where
  "naver_item T raw =
     bindE (get_key raw ''isbn'') (\<lambda>raw_isbn.
     bindE (extract_isbn13 T raw_isbn) (\<lambda>found.
     case found of
       None \<Rightarrow> Inr None
     | Some isbn13 \<Rightarrow>
         bindE (get_key raw ''title'') (\<lambda>title_raw.
         bindE (get_key raw ''description'') (\<lambda>description_raw.
         bindE (get_key raw ''author'') (\<lambda>author_raw.
         bindE (get_key raw ''publisher'') (\<lambda>publisher_raw.
         bindE (get_key raw ''image'') (\<lambda>image_raw.
         bindE (strip_bold_value (or_else title_raw (JsText []))) (\<lambda>title.
         bindE (strip_bold_value (or_else description_raw (JsText []))) (\<lambda>description.
         bindE (required AttributeError (text_of (or_else author_raw (JsText [])))) (\<lambda>author.
         bindE (parse_page_count T raw) (\<lambda>page_count.
         Inr (Some \<lparr>xb_isbn13 = isbn13, xb_title = py_strip title,
            xb_author = (if normalize_authors author = [] then UNKNOWN_AUTHOR else normalize_authors author),
            xb_publisher = Option.bind (text_of publisher_raw) (\<lambda>t. filled (py_strip t)),
            xb_cover_url = map_option upgrade_to_https (Option.bind (text_of image_raw) filled),
            xb_description = filled (py_strip description), xb_page_count = page_count, xb_source = NAVER\<rparr>))))))))))))"

fun collect_items :: "(jvalue \<Rightarrow> external_book option result) \<Rightarrow> jvalue list \<Rightarrow> external_book list result" where
  "collect_items item [] = Inr []"
| "collect_items item (raw # raws) =
     bindE (item raw) (\<lambda>x. bindE (collect_items item raws) (\<lambda>xs. Inr (case x of None \<Rightarrow> xs | Some b \<Rightarrow> b # xs)))"

text \<open>\<open>get query start display\<close> is the answer to the request with these parameters.\<close>

definition naver_search :: "text_lib \<Rightarrow> (pystr \<Rightarrow> int \<Rightarrow> int \<Rightarrow> response result) \<Rightarrow> pystr \<Rightarrow> int \<Rightarrow> int \<Rightarrow> source_page result" where
  "naver_search T get query page psize =
     bindE (get query ((page - 1) * psize + 1) psize) (\<lambda>(status, body).
     if status \<in> {401, 403} then Inl (DomainError ExternalServiceError ''NAVER_BOOK_AUTH_FAILED'')
     else if 400 \<le> status then Inl (DomainError ExternalServiceError ''NAVER_BOOK_REQUEST_FAILED'')
     else bindE (json_body body) (\<lambda>b.
          bindE (get_key b ''items'') (\<lambda>raw_items.
          bindE (get_key b ''total'') (\<lambda>raw_total.
          bindE (int_of_value T (or_else raw_total (JsInt 0))) (\<lambda>total_hits.
          bindE (elements_of (or_else raw_items (JsList []))) (\<lambda>raws.
          bindE (collect_items (naver_item T) raws) (\<lambda>items.
          Inr \<lparr>sp_items = items, sp_total = total_hits, sp_page = page, sp_size = psize\<rparr>)))))))"

section \<open>Kakao\<close>

definition kakao_title :: "jvalue \<Rightarrow> pystr" where
  "kakao_title v = (case text_of v of None \<Rightarrow> [] | Some t \<Rightarrow> py_strip t)"

definition kakao_author :: "text_lib \<Rightarrow> jvalue \<Rightarrow> pystr" where
  "kakao_author T v =
     (case v of
        JsList (a # as) \<Rightarrow> join_with AUTHOR_SEPARATOR (nonblank (map (tx_str T) (a # as)))
      | _ \<Rightarrow> UNKNOWN_AUTHOR)"

definition kakao_item :: "text_lib \<Rightarrow> jvalue \<Rightarrow> external_book option result" where
  "kakao_item T raw =
     bindE (get_key raw ''isbn'') (\<lambda>raw_isbn.
     bindE (extract_isbn13 T raw_isbn) (\<lambda>found.
     case found of
       None \<Rightarrow> Inr None
     | Some isbn13 \<Rightarrow>
         bindE (get_key raw ''title'') (\<lambda>title_raw.
         bindE (get_key raw ''authors'') (\<lambda>authors_raw.
         bindE (get_key raw ''publisher'') (\<lambda>publisher_raw.
         bindE (get_key raw ''thumbnail'') (\<lambda>thumbnail_raw.
         bindE (get_key raw ''contents'') (\<lambda>contents_raw.
         bindE (parse_page_count T raw) (\<lambda>page_count.
         Inr (Some \<lparr>xb_isbn13 = isbn13,
            xb_title = kakao_title title_raw,
            xb_author = kakao_author T authors_raw,
            xb_publisher = map_option py_strip (Option.bind (text_of publisher_raw) filled),
            xb_cover_url = Option.bind (text_of thumbnail_raw) filled,
            xb_description = map_option py_strip (solid_text contents_raw),
            xb_page_count = page_count, xb_source = KAKAO\<rparr>)))))))))"

definition kakao_search :: "text_lib \<Rightarrow> (pystr \<Rightarrow> int \<Rightarrow> int \<Rightarrow> response result) \<Rightarrow> pystr \<Rightarrow> int \<Rightarrow> int \<Rightarrow> source_page result" where
  "kakao_search T get query page psize =
     bindE (get query page psize) (\<lambda>(status, body).
     if status \<in> {401, 403} then Inl (DomainError ExternalServiceError ''KAKAO_BOOK_AUTH_FAILED'')
     else if 400 \<le> status then Inl (DomainError ExternalServiceError ''KAKAO_BOOK_REQUEST_FAILED'')
     else bindE (json_body body) (\<lambda>b.
          bindE (get_key b ''meta'') (\<lambda>raw_meta.
          bindE (get_key b ''documents'') (\<lambda>raw_docs.
          bindE (get_key (or_else raw_meta (JsDict [])) ''total_count'') (\<lambda>raw_total.
          bindE (int_of_value T (or_else raw_total (JsInt 0))) (\<lambda>total_hits.
          bindE (elements_of (or_else raw_docs (JsList []))) (\<lambda>raws.
          bindE (collect_items (kakao_item T) raws) (\<lambda>items.
          Inr \<lparr>sp_items = items, sp_total = total_hits, sp_page = page, sp_size = psize\<rparr>))))))))"

section \<open>Both\<close>

definition is_external_error :: "error \<Rightarrow> bool" where
  "is_external_error e = (case e of DomainError c _ \<Rightarrow> c = ExternalServiceError | _ \<Rightarrow> False)"

definition composite_search :: "source_page result \<Rightarrow> source_page result \<Rightarrow> source_page result" where
  "composite_search primary fallback =
     (case primary of
        Inl e \<Rightarrow> if is_external_error e then fallback else Inl e
      | Inr r \<Rightarrow> if sp_items r \<noteq> [] then Inr r else fallback)"

text \<open>The search of the library over the two adapters, each attempt of a request numbered.\<close>

definition find_books ::
    "text_lib \<Rightarrow> (pystr \<Rightarrow> int \<Rightarrow> int \<Rightarrow> nat \<Rightarrow> attempt) \<Rightarrow> (pystr \<Rightarrow> int \<Rightarrow> int \<Rightarrow> nat \<Rightarrow> attempt) \<Rightarrow> (nat \<Rightarrow> uuid) \<Rightarrow> datetime \<Rightarrow>
     pystr \<Rightarrow> int \<Rightarrow> int \<Rightarrow> sess \<Rightarrow> (book list \<times> bool) outcome" where
  "find_books T naver kakao ids now query page psize s =
     (let get = (\<lambda>send q a b. fst (http_request MAX_RETRIES (send q a b)))
      in bindE (composite_search (naver_search T (get naver) query page psize) (kakao_search T (get kakao) query page psize)) (\<lambda>r.
         search_books ids now (sp_items r) (sp_total r) page psize s))"

end
