(* ===== verification/ClientsProps.thy ===== *)
theory ClientsProps
  imports BookSources ReadingMachine Demo
begin

text \<open>
  The retries of the HTTP client, what an identity token and a purchase must prove, and what the book
  search makes of the answers of the two catalogues: the library only receives books with a 13-digit
  ISBN, and Kakao answers when Naver cannot.
\<close>

section \<open>Attempts\<close>

lemma attempts_from_props:
  "attempts_from send k left = (r, n) \<Longrightarrow>
     k < n \<and> n \<le> k + left + 1 \<and> r = outcome_of (send (n - 1)) \<and>
     (\<forall>i. k \<le> i \<and> i < n - 1 \<longrightarrow> retryable (send i)) \<and> (retryable (send (n - 1)) \<longrightarrow> n = k + left + 1)"
proof (induction send k left rule: attempts_from.induct)
  case (2 send k left)
  show ?case
  proof (cases "retryable (send k)")
    case True
    then have "attempts_from send (Suc k) left = (r, n)" using 2 by simp
    note ih = 2(1) [OF True this]
    have "retryable (send i)" if "k \<le> i" "i < n - 1" for i
      using that ih True by (cases "i = k") auto
    then show ?thesis using ih by auto
  qed (use 2 in auto)
qed auto

lemma outcome_retryable: "retryable a \<Longrightarrow> \<exists>c. outcome_of a = Inl (DomainError ExternalServiceError c)"
  by (cases a) (auto simp: outcome_of_def)

lemma outcome_Inr: "outcome_of a = Inr (status, body) \<longleftrightarrow> a = Responded status body \<and> \<not> retryable a"
  by (cases a) (auto simp: outcome_of_def)

text \<open>
  C31. A request is tried again exactly while it is answered by a server error, a timeout or a broken
  transport, and never more than \<open>max_retries\<close> times; its result is that of the last attempt, and when
  the retries are used up it is an \<open>ExternalServiceError\<close>, answered as 502.
\<close>
theorem requests_are_retried:
  assumes "http_request max_retries send = (r, n)"
  shows "0 < n \<and> n \<le> max_retries + 1 \<and> r = outcome_of (send (n - 1)) \<and> (\<forall>i < n - 1. retryable (send i)) \<and>
    (if retryable (send (n - 1)) then n = max_retries + 1 \<and> (\<exists>c. r = Inl (DomainError ExternalServiceError c))
     else \<forall>status body. send (n - 1) = Responded status body \<longrightarrow> r = Inr (status, body))"
  using attempts_from_props [OF assms [unfolded http_request_def]] outcome_retryable [of "send (n - 1)"]
  by (auto simp: outcome_of_def)

text \<open>Two server errors and an answer.\<close>

definition third_time :: "nat \<Rightarrow> attempt" where
  "third_time k = (if k < 2 then Responded 503 None else Responded 200 (Some (JsDict [])))"

lemma requests_are_retried_witness:
  "http_request MAX_RETRIES third_time = (Inr (200, Some (JsDict [])), 3) \<and> retryable (third_time 1)"
proof -
  obtain r n where rn: "http_request MAX_RETRIES third_time = (r, n)" by (cases "http_request MAX_RETRIES third_time")
  note p = requests_are_retried [OF rn]
  have "n = 3"
  proof (rule ccontr)
    assume "n \<noteq> 3"
    then have "n - 1 < 2" using p by (auto simp: MAX_RETRIES_def)
    then have "retryable (third_time (n - 1))" by (simp add: third_time_def)
    then show False using p \<open>n \<noteq> 3\<close> by (simp add: MAX_RETRIES_def)
  qed
  then show ?thesis using rn p by (simp add: third_time_def outcome_of_def)
qed

section \<open>Identity tokens\<close>

lemma hex_digit_inj: "a < 16 \<Longrightarrow> b < 16 \<Longrightarrow> hex_digit a = hex_digit b \<Longrightarrow> a = b"
  by (auto simp: hex_digit_def split: if_splits)

lemma hexdigest_inj:
  "list_all (\<lambda>b. b < 256) xs \<Longrightarrow> list_all (\<lambda>b. b < 256) ys \<Longrightarrow> hexdigest xs = hexdigest ys \<Longrightarrow> xs = ys"
proof (induction xs arbitrary: ys)
  case Nil
  then show ?case by (cases ys) (simp_all add: hexdigest_def)
next
  case (Cons x xs)
  then obtain y zs where ys: "ys = y # zs" by (cases ys) (simp_all add: hexdigest_def)
  have "x div 16 = y div 16" "x mod 16 = y mod 16"
    using Cons.prems by (auto simp: ys hexdigest_def intro!: hex_digit_inj)
  then have "x = y" by (metis div_mult_mod_eq)
  then show ?case using Cons by (simp add: ys hexdigest_def)
qed

lemma sha256_bytes: "list_all (\<lambda>b. b < 256) (sha256 m)"
  by (auto simp: sha256_def be_bytes_def list_all_iff)

text \<open>
  An identity token of Apple is accepted for one nonce only: a token that was captured is refused
  with any other nonce, unless the two have the same SHA-256 digest; and what it identifies does not
  depend on the nonce.
\<close>
theorem apple_token_is_bound:
  assumes "verify_identity_token signing_key decode token nonce = Inr a"
    and "verify_identity_token signing_key decode token nonce' = Inr b"
  shows "sha256 (utf8 nonce) = sha256 (utf8 nonce') \<and> a = b"
proof -
  obtain k p where kp: "signing_key token = Inr k" "decode token k = Inr p"
    using assms(1) by (auto simp: verify_identity_token_def split: sum.splits)
  then have "get_key p ''nonce'' = Inr (JsText (hexdigest (sha256 (utf8 nonce))))"
    "get_key p ''nonce'' = Inr (JsText (hexdigest (sha256 (utf8 nonce'))))" "a = b"
    using assms by (auto simp: verify_identity_token_def split: option.splits if_splits)
  then show ?thesis using hexdigest_inj [OF sha256_bytes sha256_bytes] by simp
qed

definition apple_payload :: "pystr \<Rightarrow> jvalue" where
  "apple_payload nonce = JsDict [(ascii ''nonce'', JsText (hexdigest (sha256 (utf8 nonce)))), (ascii ''sub'', JsText (ascii ''001''))]"

lemma apple_token_is_bound_witness:
  "verify_identity_token (\<lambda>t. Inr ()) (\<lambda>t k. Inr (apple_payload (ascii ''n1''))) [] (ascii ''n1'') = Inr (ascii ''001'', None) \<and>
   sha256 (utf8 (ascii ''n1'')) = sha256 (utf8 (ascii ''n1''))"
proof -
  have v: "verify_identity_token (\<lambda>t. Inr ()) (\<lambda>t k. Inr (apple_payload (ascii ''n1''))) [] (ascii ''n1'') = Inr (ascii ''001'', None)"
    by (simp add: verify_identity_token_def get_key_def apple_payload_def ascii_def)
  from apple_token_is_bound [OF v v] v show ?thesis by simp
qed

section \<open>Purchases\<close>

text \<open>
  A purchase makes its buyer Pro only when the store answers 200 or 201 with an entitlement
  \<open>pro\<close> whose \<open>is_active\<close> is set.
\<close>
theorem pro_needs_active_entitlement:
  assumes "verify_and_activate (revenuecat_verify fromiso post) convert user_id platform receipt product_id s = Inr (v, s')"
  shows "\<exists>status data subscriber entitlements pro active. post platform receipt product_id = Inr (status, Some data) \<and> status \<in> {200, 201} \<and>
    get_or data ''subscriber'' (JsDict []) = Inr subscriber \<and> get_or subscriber ''entitlements'' (JsDict []) = Inr entitlements \<and>
    get_or entitlements ''pro'' (JsDict []) = Inr pro \<and> get_or pro ''is_active'' (JsBool False) = Inr active \<and> truthy_value active"
proof -
  obtain r where r: "revenuecat_verify fromiso post platform receipt product_id = Inr r" "vf_is_valid r"
    using assms by (auto simp: verify_and_activate_def split: if_splits)
  then show ?thesis
    by (auto simp: revenuecat_verify_def json_body_def required_def split: if_splits option.splits)
qed

definition active_pro :: jvalue where
  "active_pro = JsDict [(ascii ''subscriber'', JsDict [(ascii ''entitlements'', JsDict [(ascii ''pro'',
     JsDict [(ascii ''is_active'', JsBool True)])])])]"

lemma pro_needs_active_entitlement_witness:
  "\<exists>v s'. verify_and_activate (revenuecat_verify (\<lambda>t. Inl ValueError) (\<lambda>p r i. Inr (200, Some active_pro))) None 1 ''ios'' [] ''monthly_pro_6900'' demo = Inr (v, s') \<and>
     (\<exists>pro active. get_or pro ''is_active'' (JsBool False) = Inr active \<and> truthy_value active)"
proof -
  let ?post = "\<lambda>(p :: string) (r :: pystr) (i :: string). (Inr (200, Some active_pro) :: response result)"
  obtain v s' where v: "verify_and_activate (revenuecat_verify (\<lambda>t. Inl ValueError) ?post) None 1 ''ios'' [] ''monthly_pro_6900'' demo = Inr (v, s')"
    by (simp add: verify_and_activate_def revenuecat_verify_def json_body_def active_pro_def ascii_def get_key_def)
  from pro_needs_active_entitlement [OF v] v show ?thesis by blast
qed

section \<open>Pushes\<close>

lemma chunks_props: "0 < n \<Longrightarrow> concat (chunks n xs) = xs \<and> (\<forall>b \<in> set (chunks n xs). b \<noteq> [] \<and> length b \<le> n)"
proof (induction n xs rule: chunks.induct)
  case (2 n x xs)
  then show ?case by (auto simp: min_def)
qed simp

text \<open>
  A push goes once to every device, in batches of at most a hundred, and the failure of one does
  not keep it from the others; the credential is refreshed only in the last five minutes of its hour.
\<close>
theorem pushes_reach_every_device:
  assumes "fcm_send now refreshed delivered tokens f = Inr (batches, failures, f')"
  shows "concat batches = tokens \<and> (\<forall>b \<in> set batches. length b \<le> 100) \<and>
    failures = length (filter (\<lambda>t. \<not> delivered t) tokens) \<and>
    (now < fcm_expires_at f - TOKEN_REFRESH_MARGIN \<longrightarrow> f' = f)"
proof (cases "tokens = []")
  case False
  then obtain bearer where "fcm_get_token now refreshed f = Inr (bearer, f')" "batches = chunks BATCH_SIZE tokens"
    "failures = length (filter (\<lambda>t. \<not> delivered t) tokens)"
    using assms by (auto simp: fcm_send_def)
  then show ?thesis using chunks_props [of BATCH_SIZE tokens]
    by (auto simp: fcm_get_token_def BATCH_SIZE_def split: if_splits)
qed (use assms in \<open>simp add: fcm_send_def\<close>)

lemma pushes_reach_every_device_witness:
  "\<exists>batches failures f'. fcm_send 0 (Inr (Some (ascii ''key''))) (\<lambda>t. t \<noteq> [1]) (replicate 101 [1]) \<lparr>fcm_token = None, fcm_expires_at = 0\<rparr> =
     Inr (batches, failures, f') \<and> concat batches = replicate 101 [1] \<and> failures = 101"
proof -
  let ?f = "\<lparr>fcm_token = None, fcm_expires_at = 0\<rparr>"
  obtain batches failures f' where s: "fcm_send 0 (Inr (Some (ascii ''key''))) (\<lambda>t. t \<noteq> [1]) (replicate 101 [1]) ?f = Inr (batches, failures, f')"
    by (simp add: fcm_send_def fcm_get_token_def TOKEN_REFRESH_MARGIN_def)
  from pushes_reach_every_device [OF s] s show ?thesis by (auto simp: filter_replicate)
qed

section \<open>ISBNs\<close>

definition isbn_ok :: "string \<Rightarrow> bool" where
  "isbn_ok i \<longleftrightarrow> length i = 13 \<and> list_all is_digit i"

lemma find_isbn_ok: "find_isbn T prev t = Some i \<Longrightarrow> length i = 13 \<and> list_all ascii_digit i"
  by (induction T prev t rule: find_isbn.induct) (auto simp: isbn_here_def split: if_splits)

lemma extract_isbn_ok: "extract_isbn13 T raw = Inr (Some i) \<Longrightarrow> isbn_ok i"
proof -
  assume e: "extract_isbn13 T raw = Inr (Some i)"
  then obtain t j where j: "find_isbn T None t = Some j" "i = map char_of j"
    by (auto simp: extract_isbn13_def split: if_splits option.splits)
  have "is_digit (char_of c)" if "ascii_digit c" for c
    using that by (simp add: is_digit_def ascii_digit_def)
  then show ?thesis using find_isbn_ok [OF j(1)] by (auto simp: isbn_ok_def j(2) list_all_iff)
qed

lemma naver_item_ok: "naver_item T raw = Inr (Some x) \<Longrightarrow> isbn_ok (xb_isbn13 x) \<and> xb_source x = NAVER"
  by (clarsimp simp: naver_item_def dest!: extract_isbn_ok split: option.split_asm)

lemma kakao_item_ok: "kakao_item T raw = Inr (Some x) \<Longrightarrow> isbn_ok (xb_isbn13 x) \<and> xb_source x = KAKAO"
  by (clarsimp simp: kakao_item_def dest!: extract_isbn_ok split: option.split_asm)

lemma collect_items_ok:
  assumes "\<And>raw x. item raw = Inr (Some x) \<Longrightarrow> P x"
  shows "collect_items item raws = Inr xs \<Longrightarrow> list_all P xs \<and> length xs \<le> length raws"
proof (induction raws arbitrary: xs)
  case (Cons raw raws)
  then show ?case using assms [of raw] by (fastforce split: option.splits)
qed simp

lemma naver_search_ok:
  "naver_search T get query page psize = Inr r \<Longrightarrow> list_all (\<lambda>x. isbn_ok (xb_isbn13 x) \<and> xb_source x = NAVER) (sp_items r)"
  using collect_items_ok [of "naver_item T" "\<lambda>x. isbn_ok (xb_isbn13 x) \<and> xb_source x = NAVER"] naver_item_ok
  by (auto simp: naver_search_def split: if_splits)

lemma kakao_search_ok:
  "kakao_search T get query page psize = Inr r \<Longrightarrow> list_all (\<lambda>x. isbn_ok (xb_isbn13 x) \<and> xb_source x = KAKAO) (sp_items r)"
  using collect_items_ok [of "kakao_item T" "\<lambda>x. isbn_ok (xb_isbn13 x) \<and> xb_source x = KAKAO"] kakao_item_ok
  by (auto simp: kakao_search_def split: if_splits)

section \<open>The catalogue\<close>

definition catalog_ok :: "sess \<Rightarrow> bool" where
  "catalog_ok s \<longleftrightarrow> list_all (isbn_ok \<circ> bk_isbn13) (t_books s)"

lemma upsert_catalog:
  "isbn_ok (xb_isbn13 x) \<Longrightarrow> catalog_ok s \<Longrightarrow> upsert_by_isbn i now x s = Inr (b, s') \<Longrightarrow> catalog_ok s' \<and> isbn_ok (bk_isbn13 b)"
  by (auto simp: upsert_by_isbn_def catalog_ok_def list_all_iff amend_def insert_row_def Let_def dest: fetch_SomeD split: option.splits if_splits)

lemma persist_catalog:
  "list_all (isbn_ok \<circ> xb_isbn13) xs \<Longrightarrow> catalog_ok s \<Longrightarrow> persist_items ids now xs s = Inr (bs, s') \<Longrightarrow>
     catalog_ok s' \<and> list_all (isbn_ok \<circ> bk_isbn13) bs \<and> length bs = length xs"
proof (induction ids now xs s arbitrary: bs s' rule: persist_items.induct)
  case (2 ids now x xs s)
  from 2(4) obtain b s1 bs1 where u: "upsert_by_isbn (ids 0) now x s = Inr (b, s1)"
    and p: "persist_items (\<lambda>k. ids (Suc k)) now xs s1 = Inr (bs1, s')" "bs = b # bs1" by auto
  have "catalog_ok s1 \<and> isbn_ok (bk_isbn13 b)" using upsert_catalog [OF _ 2(3) u] 2(2) by simp
  then show ?case using 2(1) [OF _ _ p(1)] 2(2) p(2) by simp
qed simp


definition ascii_lib :: text_lib where
  "ascii_lib = \<lparr>tx_word = (\<lambda>c. ascii_digit c \<or> 65 \<le> c \<and> c \<le> 90 \<or> c = 95 \<or> 97 \<le> c \<and> c \<le> 122),
     tx_isdigit = (\<lambda>t. t \<noteq> [] \<and> list_all ascii_digit t), tx_int = (\<lambda>t. Inr (foldl (\<lambda>n c. 10 * n + int c - 48) 0 t)), tx_str = (\<lambda>v. [])\<rparr>"

definition one_document :: jvalue where
  "one_document = JsDict [(ascii ''documents'', JsList [JsDict [(ascii ''isbn'', JsText [56, 32, 57, 55, 56, 56, 57, 51, 55, 52, 54, 48, 55, 55, 55]),
     (ascii ''title'', JsText (ascii ''Demian''))], JsDict [(ascii ''isbn'', JsText [56])]])]"

definition naver_down :: "pystr \<Rightarrow> int \<Rightarrow> int \<Rightarrow> nat \<Rightarrow> attempt" where
  "naver_down query start display k = TimedOut"

definition kakao_up :: "pystr \<Rightarrow> int \<Rightarrow> int \<Rightarrow> nat \<Rightarrow> attempt" where
  "kakao_up query page psize k = Responded 200 (Some one_document)"

lemma ascii_eq: "ascii a = ascii b \<longleftrightarrow> a = b"
  by (simp add: ascii_def inj_map_eq_map inj_def)

lemma isbn_shapes:
  "extract_isbn13 ascii_lib (JsText [56, 32, 57, 55, 56, 56, 57, 51, 55, 52, 54, 48, 55, 55, 55]) = Inr (Some ''9788937460777'')"
  "extract_isbn13 ascii_lib (JsText [56]) = Inr None"
  "py_strip (ascii ''Demian'') = ascii ''Demian''"
proof -
  have digits: "map char_of [57, 55, 56, 56, 57, 51, 55, 52, 54, 48, 55, 55, 55 :: nat] = ''9788937460777''" by code_simp
  have "find_isbn ascii_lib None [56, 32, 57, 55, 56, 56, 57, 51, 55, 52, 54, 48, 55, 55, 55] = Some [57, 55, 56, 56, 57, 51, 55, 52, 54, 48, 55, 55, 55]"
    by (simp add: isbn_here_def ascii_lib_def ascii_digit_def)
  then show "extract_isbn13 ascii_lib (JsText [56, 32, 57, 55, 56, 56, 57, 51, 55, 52, 54, 48, 55, 55, 55]) = Inr (Some ''9788937460777'')"
    using digits by (simp add: extract_isbn13_def del: find_isbn.simps list.map)
  show "extract_isbn13 ascii_lib (JsText [56]) = Inr None"
    by (simp add: extract_isbn13_def isbn_here_def)
  show "py_strip (ascii ''Demian'') = ascii ''Demian''"
    by (simp add: py_strip_def py_space_def ascii_def)
qed

lemma kakao_finds:
  "kakao_search ascii_lib (\<lambda>q a b. fst (http_request MAX_RETRIES (kakao_up q a b))) [] 1 10 =
     Inr \<lparr>sp_items = [\<lparr>xb_isbn13 = ''9788937460777'', xb_title = ascii ''Demian'', xb_author = UNKNOWN_AUTHOR, xb_publisher = None,
       xb_cover_url = None, xb_description = None, xb_page_count = None, xb_source = KAKAO\<rparr>], sp_total = 0, sp_page = 1, sp_size = 10\<rparr>"
  by (simp add: kakao_search_def http_request_def MAX_RETRIES_def kakao_up_def numeral_2_eq_2 outcome_of_def one_document_def json_body_def
      get_key_def or_else_def ascii_eq kakao_item_def isbn_shapes parse_page_count_def kakao_title_def kakao_author_def solid_text_def)


section \<open>The fallback\<close>

lemma all_retryable:
  assumes "\<And>k. retryable (send k)"
  shows "\<exists>c. fst (http_request m send) = Inl (DomainError ExternalServiceError c)"
proof -
  obtain r n where rn: "http_request m send = (r, n)" by (cases "http_request m send")
  then show ?thesis
    using attempts_from_props [OF rn [unfolded http_request_def]] outcome_retryable [OF assms [of "n - 1"]] by auto
qed

lemma first_answer: "\<not> retryable (send 0) \<Longrightarrow> fst (http_request m send) = outcome_of (send 0)"
  by (cases m) (simp_all add: http_request_def)

lemma not_an_object:
  assumes "\<forall>kvs. body \<noteq> Some (JsDict kvs)"
  obtains e :: error where "e \<in> {ValueError, AttributeError}"
    "\<And>f :: jvalue \<Rightarrow> jvalue \<Rightarrow> source_page result. bindE (json_body body) (\<lambda>b. bindE (get_key b k) (f b)) = Inl e"
proof (cases body)
  case (Some b)
  then show ?thesis using assms that [of AttributeError] by (cases b) (simp_all add: json_body_def get_key_def)
qed (use that [of ValueError] in \<open>simp add: json_body_def\<close>)

text \<open>
  Kakao is asked when Naver is down through all retries or refuses the request, and the search
  then is what Kakao alone gives. But an answer of Naver that is not a JSON object is an error of the
  server, 500, whatever Kakao would have found.
\<close>
theorem fallback_covers_outages_only:
  fixes T naver kakao ids now query page psize s
  defines "alone \<equiv> bindE (kakao_search T (\<lambda>q a b. fst (http_request MAX_RETRIES (kakao q a b))) query page psize)
      (\<lambda>r. search_books ids now (sp_items r) (sp_total r) page psize s)"
  shows "((\<forall>k. retryable (naver query ((page - 1) * psize + 1) psize k)) \<longrightarrow> find_books T naver kakao ids now query page psize s = alone) \<and>
    (naver query ((page - 1) * psize + 1) psize 0 = Responded status body \<longrightarrow>
       (400 \<le> status \<and> status < 500 \<longrightarrow> find_books T naver kakao ids now query page psize s = alone) \<and>
       (status < 400 \<and> (\<forall>kvs. body \<noteq> Some (JsDict kvs)) \<longrightarrow>
          (\<exists>e. find_books T naver kakao ids now query page psize s = Inl e \<and> http_status e = 500)))"
proof (intro conjI impI)
  let ?send = "naver query ((page - 1) * psize + 1) psize"
  assume "\<forall>k. retryable (?send k)"
  then obtain c where "fst (http_request MAX_RETRIES ?send) = Inl (DomainError ExternalServiceError c)"
    using all_retryable [of ?send MAX_RETRIES] by auto
  then show "find_books T naver kakao ids now query page psize s = alone"
    by (simp add: find_books_def alone_def naver_search_def composite_search_def is_external_error_def Let_def)
next
  let ?send = "naver query ((page - 1) * psize + 1) psize"
  assume first: "?send 0 = Responded status body" and st: "400 \<le> status \<and> status < 500"
  then have "fst (http_request MAX_RETRIES ?send) = Inr (status, body)"
    using first_answer [of ?send MAX_RETRIES] by (simp add: outcome_of_def)
  then show "find_books T naver kakao ids now query page psize s = alone"
    using st by (auto simp: find_books_def alone_def naver_search_def composite_search_def is_external_error_def Let_def)
next
  let ?send = "naver query ((page - 1) * psize + 1) psize"
  assume first: "?send 0 = Responded status body"
    and bad: "status < 400 \<and> (\<forall>kvs. body \<noteq> Some (JsDict kvs))"
  then have "fst (http_request MAX_RETRIES ?send) = Inr (status, body)"
    using first_answer [of ?send MAX_RETRIES] by (simp add: outcome_of_def)
  moreover obtain e :: error where "e \<in> {ValueError, AttributeError}"
    "\<And>f :: jvalue \<Rightarrow> jvalue \<Rightarrow> source_page result. bindE (json_body body) (\<lambda>b. bindE (get_key b ''items'') (f b)) = Inl e"
    using bad not_an_object [where k = "''items''"] by blast
  ultimately show "\<exists>e. find_books T naver kakao ids now query page psize s = Inl e \<and> http_status e = 500"
    using bad by (intro exI [of _ e]) (auto simp: find_books_def naver_search_def composite_search_def is_external_error_def Let_def)
qed

lemma fallback_covers_outages_only_witness:
  "find_books ascii_lib naver_down kakao_up (\<lambda>k. 900 + k) t0 [] 1 10 demo =
     bindE (kakao_search ascii_lib (\<lambda>q a b. fst (http_request MAX_RETRIES (kakao_up q a b))) [] 1 10)
       (\<lambda>r. search_books (\<lambda>k. 900 + k) t0 (sp_items r) (sp_total r) 1 10 demo) \<and>
   (\<exists>e. find_books ascii_lib (\<lambda>q a b k. Responded 200 None) kakao_up (\<lambda>k. 900 + k) t0 [] 1 10 demo = Inl e \<and> http_status e = 500)"
  using fallback_covers_outages_only [of naver_down "[]" 1 10 ascii_lib kakao_up "\<lambda>k. 900 + k" t0 demo]
    fallback_covers_outages_only [of "\<lambda>q a b k. Responded 200 None" "[]" 1 10 ascii_lib kakao_up "\<lambda>k. 900 + k" t0 demo 200 None]
  by (simp add: naver_down_def)

end
