(* ===== verification/Gateway.thy ===== *)
theory Gateway
  imports AuthProps Social ClientsProps ChallengeService ReadingService
begin

text \<open>
  What every request passes through (\<open>core/middleware.py\<close>), the catalogue of messages
  (\<open>shared/i18n.py\<close>), and the endpoints that guard themselves: the webhooks of the store
  (\<open>domains/subscription/router.py\<close>) and of refunds (\<open>domains/shield/router.py\<close>) and those behind the
  admin key (\<open>api/admin.py\<close>), and the seeding of test data (\<open>api/dev.py\<close>); with the response that shows the next grade
  (\<open>domains/reading/schemas.py\<close>). Redis is a map from keys to the time they expire, with a flag whether
  it answers; \<open>lower\<close> is Unicode's, and \<open>UUID(text)\<close> a parameter.
\<close>

section \<open>Languages\<close>

datatype lang = KO | EN | JA

fun lang_code :: "lang \<Rightarrow> string" where
  "lang_code KO = ''ko''"
| "lang_code EN = ''en''"
| "lang_code JA = ''ja''"

definition DEFAULT_LANG :: string where "DEFAULT_LANG = ''ko''"

definition SUPPORTED_LANGS :: "string set" where
  "SUPPORTED_LANGS = {''ko'', ''en'', ''ja''}"

definition MESSAGES :: "(string \<times> pystr \<times> pystr \<times> pystr) list" where
  "MESSAGES = [
     (''not_found'', ([52286, 51012, 32, 49688, 32, 50630, 49845, 45768, 45796],
        ascii ''Not found'',
        [35211, 12388, 12363, 12426, 12414, 12379, 12435])),
     (''unauthorized'', ([51064, 51613, 51060, 32, 54596, 50836, 54633, 45768, 45796],
        ascii ''Unauthorized'',
        [35469, 35388, 12364, 24517, 35201, 12391, 12377])),
     (''forbidden'', ([44428, 54620, 51060, 32, 50630, 49845, 45768, 45796],
        ascii ''Forbidden'',
        [27177, 38480, 12364, 12354, 12426, 12414, 12379, 12435])),
     (''pro_required'', ([80, 114, 111, 32, 44396, 46021, 51060, 32, 54596, 50836, 54633, 45768, 45796],
        ascii ''Pro subscription required'',
        [80, 114, 111, 12469, 12502, 12473, 12463, 12522, 12503, 12471, 12519, 12531, 12364, 24517, 35201, 12391, 12377])),
     (''validation_error'', ([51077, 47141, 44050, 51012, 32, 54869, 51064, 54644, 51452, 49464, 50836],
        ascii ''Please check your input'',
        [20837, 21147, 12434, 30906, 35469, 12375, 12390, 12367, 12384, 12373, 12356]))]"

definition lookup_message :: "string \<Rightarrow> string \<Rightarrow> pystr" where
  "lookup_message key lang =
     (case map_of MESSAGES key of
        None \<Rightarrow> ascii key
      | Some (ko, en, ja) \<Rightarrow> if lang = ''en'' then en else if lang = ''ja'' then ja else ko)"

definition request_lang :: "(pystr \<Rightarrow> pystr) \<Rightarrow> pystr option \<Rightarrow> string" where
  "request_lang lower accept_language =
     (let h = (case accept_language of None \<Rightarrow> ascii DEFAULT_LANG | Some h \<Rightarrow> h);
          tag = lower (py_strip (takeWhile (\<lambda>c. c \<noteq> 45) (takeWhile (\<lambda>c. c \<noteq> 44) h)))
      in case List.find (\<lambda>l. tag = ascii l) [''ko'', ''en'', ''ja''] of Some l \<Rightarrow> l | None \<Rightarrow> DEFAULT_LANG)"

section \<open>Last activity\<close>

definition extract_user_id :: "jwt \<Rightarrow> datetime \<Rightarrow> pystr option \<Rightarrow> pystr option" where
  "extract_user_id lib now authorization =
     (case extract_bearer authorization of
        None \<Rightarrow> None
      | Some token \<Rightarrow>
          (case decode_token lib now token of
             Inl _ \<Rightarrow> None
           | Inr payload \<Rightarrow>
               if cl_type payload \<noteq> Some ''access'' then None
               else case cl_sub payload of None \<Rightarrow> None | Some sub \<Rightarrow> if sub = [] then None else Some sub))"

definition DEBOUNCE_TTL :: int where "DEBOUNCE_TTL = 60 * sec_us"

type_synonym gates = "pystr \<rightharpoonup> datetime"

definition write_last_active :: "pystr \<Rightarrow> datetime \<Rightarrow> sess \<Rightarrow> sess" where
  "write_last_active user_id now s =
     (case parse_uuid user_id of
        None \<Rightarrow> s
      | Some parsed \<Rightarrow>
          s\<lparr>t_users := map (\<lambda>u. if us_id u = parsed \<and> us_deleted_at u = None then u\<lparr>us_last_active_at := Some now\<rparr> else u)
             (t_users s)\<rparr>)"

text \<open>\<open>SET key 1 EX 60 NX\<close>; \<open>db\<close> says whether the write succeeds: its failure is only logged.\<close>

definition maybe_update_last_active :: "bool \<Rightarrow> datetime \<Rightarrow> pystr \<Rightarrow> gates \<times> sess \<Rightarrow> gates \<times> sess" where
  "maybe_update_last_active db now user_id st =
     (if (case fst st user_id of None \<Rightarrow> False | Some expires \<Rightarrow> now < expires) then st
      else ((fst st)(user_id \<mapsto> now + DEBOUNCE_TTL), if db then write_last_active user_id now (snd st) else snd st))"

definition last_active_dispatch :: "jwt \<Rightarrow> bool \<Rightarrow> bool \<Rightarrow> datetime \<Rightarrow> pystr option \<Rightarrow> gates \<times> sess \<Rightarrow> gates \<times> sess" where
  "last_active_dispatch lib up db now authorization st =
     (case extract_user_id lib now authorization of
        None \<Rightarrow> st
      | Some user_id \<Rightarrow> if up then maybe_update_last_active db now user_id st else st)"

section \<open>Properties\<close>

definition serve_all :: "jwt \<Rightarrow> (datetime \<times> pystr option) list \<Rightarrow> gates \<times> sess \<Rightarrow> gates \<times> sess" where
  "serve_all lib requests st = foldl (\<lambda>st (now, authorization). last_active_dispatch lib True True now authorization st) st requests"

lemma get_user_write:
  "get_user i (write_last_active uid now s) =
     map_option (\<lambda>u. if parse_uuid uid = Some i then u\<lparr>us_last_active_at := Some now\<rparr> else u) (get_user i s)"
proof (cases "parse_uuid uid")
  case (Some p)
  have "fetch us_id i (t_users (write_last_active uid now s)) =
      map_option (\<lambda>u. if us_id u = p \<and> us_deleted_at u = None then u\<lparr>us_last_active_at := Some now\<rparr> else u) (fetch us_id i (t_users s))"
    by (simp add: write_last_active_def Some fetch_map_key)
  then show ?thesis
  proof (cases "fetch us_id i (t_users s)")
    case found: (Some u)
    then have "us_id u = i" by (rule fetch_Some_key)
    then show ?thesis using \<open>fetch us_id i (t_users (write_last_active uid now s)) = _\<close> found Some
      by (simp add: get_user_def)
  qed (simp add: get_user_def)
qed (simp add: write_last_active_def option.map_ident)

definition gates_ok :: "datetime \<Rightarrow> gates \<times> sess \<Rightarrow> bool" where
  "gates_ok t st \<longleftrightarrow> (\<forall>uid e i u. fst st uid = Some e \<longrightarrow> parse_uuid uid = Some i \<longrightarrow> get_user i (snd st) = Some u \<longrightarrow>
     (\<exists>a. us_last_active_at u = Some a \<and> e - DEBOUNCE_TTL \<le> a \<and> a \<le> t))"

lemma gates_okD:
  "gates_ok t st \<Longrightarrow> fst st uid = Some e \<Longrightarrow> parse_uuid uid = Some i \<Longrightarrow> get_user i (snd st) = Some u \<Longrightarrow>
     \<exists>a. us_last_active_at u = Some a \<and> e - DEBOUNCE_TTL \<le> a \<and> a \<le> t"
  by (auto simp: gates_ok_def)

lemma gates_ok_later: "gates_ok t st \<Longrightarrow> t \<le> now \<Longrightarrow> gates_ok now st"
  by (fastforce simp: gates_ok_def)

lemma gate_opens:
  assumes "gates_ok t (g, s)" "t \<le> now"
  shows "gates_ok now (g(uid \<mapsto> now + DEBOUNCE_TTL), write_last_active uid now s)"
  unfolding gates_ok_def
proof (intro allI impI)
  fix v e i u
  assume v: "fst (g(uid \<mapsto> now + DEBOUNCE_TTL), write_last_active uid now s) v = Some e" and i: "parse_uuid v = Some i"
    and u: "get_user i (snd (g(uid \<mapsto> now + DEBOUNCE_TTL), write_last_active uid now s)) = Some u"
  then obtain u0 where u0: "get_user i s = Some u0"
    "u = (if parse_uuid uid = Some i then u0\<lparr>us_last_active_at := Some now\<rparr> else u0)"
    by (auto simp: get_user_write)
  show "\<exists>a. us_last_active_at u = Some a \<and> e - DEBOUNCE_TTL \<le> a \<and> a \<le> now"
  proof (cases "v = uid")
    case True
    then show ?thesis using v i u0 by simp
  next
    case False
    then have "g v = Some e" using v by simp
    then obtain a where "us_last_active_at u0 = Some a" "e - DEBOUNCE_TTL \<le> a" "a \<le> t"
      using gates_okD [OF assms(1), of v e i u0] i u0(1) by auto
    then show ?thesis using u0(2) assms(2) by auto
  qed
qed

lemma gates_ok_step: "gates_ok t st \<Longrightarrow> t \<le> now \<Longrightarrow> gates_ok now (last_active_dispatch lib True True now authorization st)"
  using gate_opens [of t "fst st" "snd st" now] gates_ok_later [of t st now]
  by (auto simp: last_active_dispatch_def maybe_update_last_active_def split: option.splits)

lemma gates_ok_serve:
  "gates_ok t st \<Longrightarrow> sorted (t # map fst requests) \<Longrightarrow> gates_ok (last (t # map fst requests)) (serve_all lib requests st)"
proof (induction requests arbitrary: t st)
  case (Cons r requests)
  then have "gates_ok (fst r) (last_active_dispatch lib True True (fst r) (snd r) st)"
    using gates_ok_step [of t st "fst r" lib "snd r"] by simp
  from Cons.IH [OF this] Cons.prems(2) show ?case by (simp add: serve_all_def case_prod_beta)
qed (simp add: serve_all_def)

lemma live_dispatch:
  "\<exists>u. get_user i s = Some u \<Longrightarrow> \<exists>u. get_user i (snd (last_active_dispatch lib True True now authorization (g, s))) = Some u"
  by (auto simp: last_active_dispatch_def maybe_update_last_active_def get_user_write split: option.splits)

lemma live_serve: "\<exists>u. get_user i (snd st) = Some u \<Longrightarrow> \<exists>u. get_user i (snd (serve_all lib requests st)) = Some u"
proof (induction requests arbitrary: st)
  case (Cons r requests)
  have "\<exists>u. get_user i (snd (last_active_dispatch lib True True (fst r) (snd r) st)) = Some u"
    using live_dispatch [of i "snd st" lib "fst r" "snd r" "fst st"] Cons.prems by simp
  from Cons.IH [OF this] show ?case by (simp add: serve_all_def case_prod_beta)
qed (simp add: serve_all_def)

text \<open>
  C24. While Redis and the database answer, the last activity of a user lags behind by less than a
  minute: after any requests, right after one with the user's token the column names an instant of the
  last sixty seconds - although only the first request of every minute writes it.
\<close>
theorem last_active_lags_a_minute:
  assumes "sorted (map fst requests @ [now])" "extract_user_id lib now authorization = Some uid" "parse_uuid uid = Some i"
    and "get_user i s = Some u"
  shows "\<exists>v a. get_user i (snd (serve_all lib (requests @ [(now, authorization)]) (Map.empty, s))) = Some v \<and>
    us_last_active_at v = Some a \<and> now - 60 * sec_us < a \<and> a \<le> now"
proof -
  let ?st = "serve_all lib requests (Map.empty, s)"
  define t where "t = last (min now (hd (map fst requests @ [now])) # map fst requests)"
  have ok: "gates_ok t ?st"
    unfolding t_def using assms(1)
    by (intro gates_ok_serve) (cases requests; auto simp: gates_ok_def sorted_append)+
  have t: "t \<le> now"
  proof (cases "requests = []")
    case False
    then have "last (map fst requests) \<in> set (map fst requests)" by (intro last_in_set) simp
    moreover have "\<forall>x \<in> set (map fst requests). x \<le> now" using assms(1) by (simp add: sorted_append)
    ultimately have "last (map fst requests) \<le> now" by blast
    then show ?thesis using False by (simp add: t_def del: last_map)
  qed (simp add: t_def)
  obtain u1 where u1: "get_user i (snd ?st) = Some u1"
    using live_serve [of i "(Map.empty, s)" lib requests] assms(4) by auto
  have end_of: "serve_all lib (requests @ [(now, authorization)]) (Map.empty, s) = maybe_update_last_active True now uid ?st"
    by (simp add: serve_all_def last_active_dispatch_def assms(2))
  show ?thesis
  proof (cases "\<exists>e. fst ?st uid = Some e \<and> now < e")
    case True
    then obtain e where e: "fst ?st uid = Some e" "now < e" by auto
    from gates_okD [OF ok e(1) assms(3) u1] show ?thesis
      using e u1 t by (auto simp: end_of maybe_update_last_active_def DEBOUNCE_TTL_def)
  next
    case False
    then have "maybe_update_last_active True now uid ?st = ((fst ?st)(uid \<mapsto> now + DEBOUNCE_TTL), write_last_active uid now (snd ?st))"
      by (auto simp: maybe_update_last_active_def split: option.splits)
    then show ?thesis using u1 assms(3) by (simp add: end_of get_user_write sec_us_def)
  qed
qed

definition gateway_settings :: auth_settings where
  "gateway_settings = \<lparr>st_access_ttl_seconds = 3600, st_refresh_ttl_seconds = 2592000, st_env = ''dev''\<rparr>"

definition bearer_of :: "uuid \<Rightarrow> pystr option" where
  "bearer_of u = Some (ascii ''Bearer '' @ create_access_token plain_jwt gateway_settings t0 (uuid_str u))"

lemma last_active_lags_a_minute_witness:
  "\<exists>v a. get_user 2 (snd (serve_all plain_jwt ([(t0 + 1, bearer_of 2)] @ [(t0 + 30 * sec_us, bearer_of 2)]) (Map.empty, demo))) = Some v \<and>
     us_last_active_at v = Some a \<and> t0 + 30 * sec_us - 60 * sec_us < a"
proof -
  have e: "extract_user_id plain_jwt (t0 + 30 * sec_us) (bearer_of 2) = Some (uuid_str 2)"
  proof -
    have ne: "uuid_str 2 \<noteq> []" by (simp add: uuid_str_def Let_def)
    have d: "decode_token plain_jwt (t0 + 30 * sec_us) (create_token plain_jwt t0 (uuid_str 2) ''access'' (3600 * sec_us)) =
        Inr \<lparr>cl_sub = Some (uuid_str 2), cl_type = Some ''access'', cl_iat = t0 div sec_us, cl_exp = (t0 + 3600 * sec_us) div sec_us\<rparr>"
      by (subst decode_created [OF plain_signs]) (simp_all add: t0_def live_def sec_us_def)
    have "create_token plain_jwt t0 (uuid_str 2) ''access'' (3600 * sec_us) \<noteq> []"
      using plain_signs by (simp add: create_token_def signs_def)
    then show ?thesis
      by (simp add: extract_user_id_def bearer_of_def gateway_settings_def create_access_token_def bearer_header d ne)
  qed
  have "get_user 2 demo = Some (demo_user 2)" by (simp add: get_user_def demo_user_def demo_def empty_sess_def)
  from last_active_lags_a_minute [of "[(t0 + 1, bearer_of 2)]", OF _ e _ this] show ?thesis
    by (auto simp: sec_us_def parse_uuid_str)
qed

section \<open>The admin key\<close>

text \<open>The key is checked before the body, whose fields pydantic validates (a \<open>ValueError\<close>).\<close>

definition require_admin_key :: "pystr \<Rightarrow> pystr option \<Rightarrow> unit result" where
  "require_admin_key admin_key x_admin_key =
     (if admin_key = [] then Inl (HTTPException 404)
      else if x_admin_key \<noteq> Some admin_key then Inl (HTTPException 403) else Inr ())"

definition post_badge ::
    "pystr \<Rightarrow> pystr option \<Rightarrow> uuid \<Rightarrow> datetime \<Rightarrow> pystr \<Rightarrow> pystr \<Rightarrow> string \<Rightarrow> string \<Rightarrow> sess \<Rightarrow> badge outcome" where
  "post_badge admin_key x_admin_key new_id now nam description category icon_key s =
     bindE (require_admin_key admin_key x_admin_key) (\<lambda>_.
       if length nam \<le> 100 \<and> length icon_key \<le> 500
       then create_badge new_id now nam description category icon_key s else Inl ValueError)"

definition post_challenge ::
    "pystr \<Rightarrow> pystr option \<Rightarrow> uuid \<Rightarrow> datetime \<Rightarrow> pystr \<Rightarrow> pystr option \<Rightarrow> string \<Rightarrow> int \<Rightarrow> pystr option \<Rightarrow> datetime \<Rightarrow> datetime \<Rightarrow>
     uuid option \<Rightarrow> bool \<Rightarrow> datetime option \<Rightarrow> uuid option \<Rightarrow> sess \<Rightarrow> challenge outcome" where
  "post_challenge admin_key x_admin_key new_id now title description ctype target_value genre_filter starts_at ends_at
       badge_id is_limited ends_at_exclusive badge_id_exclusive s =
     bindE (require_admin_key admin_key x_admin_key) (\<lambda>_.
       if length title \<le> 100 \<and> (case genre_filter of None \<Rightarrow> True | Some g \<Rightarrow> length g \<le> 50)
       then admin_create_challenge new_id now title description ctype target_value genre_filter starts_at ends_at
              badge_id is_limited ends_at_exclusive badge_id_exclusive s
       else Inl ValueError)"

section \<open>Webhooks\<close>

definition is_set :: "pystr option \<Rightarrow> bool" where
  "is_set v \<longleftrightarrow> (case v of None \<Rightarrow> False | Some t \<Rightarrow> t \<noteq> [])"

definition shield_refund_webhook :: "pystr option \<Rightarrow> pystr option \<Rightarrow> datetime \<Rightarrow> uuid \<Rightarrow> sess \<Rightarrow> unit outcome" where
  "shield_refund_webhook expected_secret x_secret now purchase_id s =
     (if is_set expected_secret \<and> x_secret \<noteq> expected_secret then Inl (HTTPException 401)
      else handle_refund_webhook now purchase_id s)"

text \<open>
  \<open>hmac.compare_digest\<close> of texts refuses what is not ASCII. The environment variable is encoded as UTF-8.
\<close>

definition check_signature :: "pystr option \<Rightarrow> pystr option \<Rightarrow> bytes \<Rightarrow> unit result" where
  "check_signature webhook_secret signature raw_body =
     (if \<not> is_set webhook_secret then Inr ()
      else if \<not> is_set signature then Inl (HTTPException 401)
      else if \<exists>c \<in> set (the signature). 128 \<le> c then Inl TypeError
      else if hexdigest (hmac_sha256 (utf8 (the webhook_secret)) raw_body) \<noteq> the signature then Inl (HTTPException 401)
      else Inr ())"

text \<open>
  \<open>datetime.fromtimestamp(ms / 1000, tz=UTC)\<close>: the seconds are split into their integral part and their
  fraction, and the fraction is scaled to microseconds and rounded half to even. Years run from 1 to 9999.
\<close>

definition from_timestamp_ms :: "int \<Rightarrow> datetime result" where
  "from_timestamp_ms ms =
     (let x = true_div ms 1000; whole = py_trunc x;
          us = whole * 1000000 + rne (fl ((x - of_int whole) * 1000000))
      in if - 62135596800 * sec_us \<le> us \<and> us < 253402300800 * sec_us then Inr us else Inl ValueError)"

record rc_event =
  rc_event_type :: "string option"
  rc_app_user_id :: "pystr option"
  rc_product_id :: "string option"
  rc_expiration_at_ms :: "int option"

definition or_empty :: "'a list option \<Rightarrow> 'a list" where
  "or_empty v = (case v of None \<Rightarrow> [] | Some t \<Rightarrow> t)"

text \<open>The answer says whether the event was applied or ignored.\<close>

definition revenuecat_webhook ::
    "pystr option \<Rightarrow> pystr option \<Rightarrow> bytes \<Rightarrow> (pystr \<Rightarrow> uuid option) \<Rightarrow> bool \<Rightarrow> rc_event \<Rightarrow> sess \<Rightarrow> bool outcome" where
  "revenuecat_webhook webhook_secret signature raw_body uuid_of gift event s =
     bindE (check_signature webhook_secret signature raw_body) (\<lambda>_.
     bindE (case rc_expiration_at_ms event of
              None \<Rightarrow> Inr None | Some ms \<Rightarrow> bindE (from_timestamp_ms ms) (\<lambda>t. Inr (Some t))) (\<lambda>expires_at.
     case uuid_of (or_empty (rc_app_user_id event)) of
       None \<Rightarrow> Inr (False, s)
     | Some user_id \<Rightarrow>
         bindE (apply_webhook_event gift (or_empty (rc_event_type event)) user_id (or_empty (rc_product_id event)) expires_at s)
           (\<lambda>(_, s'). Inr (True, s'))))"

section \<open>The next grade\<close>

record grade_threshold =
  gh_target_books :: int
  gh_target_seconds :: int
  gh_next_grade :: int
  gh_next_tier :: int

definition next_grade_public :: "grade_summary \<Rightarrow> grade_threshold option" where
  "next_grade_public summary =
     map_option (\<lambda>(books, seconds).
         (case List.find (\<lambda>(g, t, b, sec). b = books \<and> sec = seconds) TIER_THRESHOLDS of
            None \<Rightarrow> \<lparr>gh_target_books = books, gh_target_seconds = seconds, gh_next_grade = gs_grade summary + 1, gh_next_tier = 1\<rparr>
          | Some (g, t, _) \<Rightarrow> \<lparr>gh_target_books = books, gh_target_seconds = seconds, gh_next_grade = g, gh_next_tier = t\<rparr>))
       (gs_next summary)"

section \<open>Doors and instants\<close>

text \<open>
  The doors stay closed: without the admin key, which must be set, no badge and no challenge is
  created; and once its secret is set, a webhook is refused unless it shows the secret, or the HMAC-SHA256
  of its body under it.
\<close>
theorem doors_stay_closed:
  "(require_admin_key admin_key key = Inr () \<longleftrightarrow> admin_key \<noteq> [] \<and> key = Some admin_key) \<and>
   (post_badge admin_key key i now nam d cat icon s = Inr r \<longrightarrow> admin_key \<noteq> [] \<and> key = Some admin_key) \<and>
   (is_set secret \<and> shield_refund_webhook secret shown now p s = Inr r' \<longrightarrow> shown = secret) \<and>
   (is_set secret \<and> revenuecat_webhook secret signature body uuid_of gift event s = Inr r'' \<longrightarrow>
      signature = Some (hexdigest (hmac_sha256 (utf8 (the secret)) body)))"
  by (auto simp: require_admin_key_def post_badge_def shield_refund_webhook_def revenuecat_webhook_def check_signature_def is_set_def
      split: if_splits option.splits)

lemma doors_stay_closed_witness:
  "require_admin_key [] (Some []) \<noteq> Inr () \<and> require_admin_key [107] (Some [107]) = Inr ()"
  using conjunct1 [OF doors_stay_closed [where admin_key = "[]" and key = "Some []"]]
    conjunct1 [OF doors_stay_closed [where admin_key = "[107]" and key = "Some [107]"]]
  by simp

lemma rne_near:
  assumes "\<bar>x - of_int n\<bar> < 1/2"
  shows "rne x = n"
proof -
  have "\<bar>of_int (rne x) - x\<bar> \<le> 1/2" by (rule rne_error)
  with assms have "\<bar>of_int (rne x) - (of_int n :: rat)\<bar> < 1" by linarith
  then have "(of_int \<bar>rne x - n\<bar> :: rat) < of_int 1" by simp
  then have "\<bar>rne x - n\<bar> < 1" by (simp only: of_int_less_iff)
  then show ?thesis by simp
qed

lemma fraction_of_ms:
  assumes "0 \<le> ms" "ms < 2 ^ 42"
  shows "rne (fl ((true_div ms 1000 - of_int (ms div 1000)) * 1000000)) = 1000 * (ms mod 1000)"
proof -
  let ?q = "of_int ms / 1000 :: rat"
  let ?r = "of_int (ms mod 1000) :: rat"
  let ?f = "(true_div ms 1000 - of_int (ms div 1000)) * 1000000"
  have "of_int ms = 1000 * of_int (ms div 1000) + ?r"
    by (metis mult_div_mod_eq of_int_add of_int_mult of_int_numeral)
  then have q: "?q - of_int (ms div 1000) = ?r / 1000" by (simp add: field_simps)
  have "\<bar>true_div ms 1000 - ?q\<bar> \<le> ?q / 2 ^ 53"
    using fl_error [of ?q] assms(1) by (simp add: true_div_def)
  moreover have "(of_int ms :: rat) \<le> of_int (2 ^ 42)" using assms(2) by (simp only: of_int_le_iff)
  then have "?q / 2 ^ 53 \<le> 1 / 2048000" by (simp add: field_simps)
  ultimately have d: "\<bar>true_div ms 1000 - ?q\<bar> \<le> 1 / 2048000" by linarith
  have scale: "y * 1000000 \<le> 1000 / 2048" if "y \<le> 1 / 2048000" for y :: rat using that by simp
  have eq: "?f - 1000 * ?r = (true_div ms 1000 - ?q) * 1000000" using q by (simp add: field_simps)
  have e: "\<bar>?f - 1000 * ?r\<bar> \<le> 1000 / 2048" unfolding eq abs_mult abs_numeral using scale [OF d] .
  have "0 \<le> ms mod 1000" "ms mod 1000 \<le> 1000" by (simp_all add: order_less_imp_le)
  then have r: "0 \<le> ?r" "?r \<le> of_int 1000" by (simp_all only: of_int_0_le_iff of_int_le_iff)
  have "\<bar>?f\<bar> \<le> 2000000" using e r by linarith
  then have "\<bar>fl ?f - ?f\<bar> \<le> 2000000 / 2 ^ 53"
    using fl_error [of ?f] by (meson divide_right_mono order_trans zero_le_numeral zero_le_power)
  also have "2000000 / 2 ^ 53 < (1 / 1000 :: rat)" by simp
  finally have "\<bar>fl ?f - 1000 * ?r\<bar> < 1 / 2" using e by linarith
  then have "\<bar>fl ?f - of_int (1000 * (ms mod 1000))\<bar> < 1 / 2" by simp
  then show ?thesis by (rule rne_near)
qed

text \<open>
  C35. The expiry of a subscription is exact: although the webhook divides the milliseconds of an event in
  floating point, every instant up to the year 2109 reaches the subscription as that number of
  milliseconds, to the microsecond.
\<close>
theorem webhook_expiry_exact:
  assumes "0 \<le> ms" "ms < 2 ^ 42"
  shows "from_timestamp_ms ms = Inr (1000 * ms)"
proof -
  have "py_trunc (true_div ms 1000) = ms div 1000"
    using assms floor_true_div [of ms 1000] true_div_nonneg [of ms 1000] by (simp add: py_trunc_def)
  moreover have "ms div 1000 * 1000000 + 1000 * (ms mod 1000) = 1000 * ms"
    using mult_div_mod_eq [of 1000 ms] by linarith
  ultimately show ?thesis using assms fraction_of_ms [OF assms] by (simp add: from_timestamp_ms_def Let_def sec_us_def)
qed

lemma webhook_expiry_exact_witness: "from_timestamp_ms 1790000000123 = Inr 1790000000123000"
  using webhook_expiry_exact [of 1790000000123] by simp

section \<open>Seeding test data\<close>

text \<open>
  \<open>POST /dev/seed\<close> (\<open>api/dev.py\<close>). \<open>fresh k\<close> is the identifier of the \<open>k\<close>-th new row; the transaction
  time is \<open>now\<close>, and \<open>today\<close> the date of the server.
\<close>

definition SEED_BOOKS :: "(string \<times> pystr \<times> pystr \<times> pystr) list" where
  "SEED_BOOKS =
     [(''TSTSEED000001'', [54028, 52828, 53076], [51060, 48124, 51652], [51064, 54540, 47336, 50644, 49500]),
      (''TSTSEED000002'', [52292, 49885, 51452, 51032, 51088], [54620, 44053], [52285, 48708]),
      (''TSTSEED000003'', [56, 50, 45380, 49373, 32, 44608, 51648, 50689], [51312, 45224, 51452], [48124, 51020, 49324]),
      (''TSTSEED000004'', [50500, 47788, 46300], [49552, 50896, 54217], [52285, 48708])]"

definition seed_book_ids :: "sess \<Rightarrow> uuid list" where
  "seed_book_ids s = map bk_id (filter (\<lambda>b. bk_isbn13 b \<in> set (map fst SEED_BOOKS)) (t_books s))"

definition seed_entries :: "uuid \<Rightarrow> sess \<Rightarrow> user_book list" where
  "seed_entries user_id s =
     filter (\<lambda>ub. ub_user_id ub = user_id \<and> ub_book_id ub \<in> set (seed_book_ids s)) (t_user_books s)"

text \<open>The deletions cascade to bookmarks and highlights, and to the reactions and comments of an event.\<close>

definition clear_tester_data :: "uuid \<Rightarrow> sess \<Rightarrow> sess" where
  "clear_tester_data user_id s =
     (let ub_ids = set (map ub_id (seed_entries user_id s));
          events = set (map fe_id (filter (\<lambda>e. fe_user_id e = user_id) (t_feed_events s)))
      in s\<lparr>t_user_books := discard (\<lambda>ub. ub_id ub \<in> ub_ids) (t_user_books s),
           t_reading_sessions := discard (\<lambda>r. rs_user_book_id r \<in> ub_ids) (t_reading_sessions s),
           t_bookmarks := discard (\<lambda>b. bm_user_book_id b \<in> ub_ids) (t_bookmarks s),
           t_post_highlights := discard (\<lambda>h. ph_user_book_id h \<in> ub_ids) (t_post_highlights s),
           t_goals := discard (\<lambda>g. go_user_id g = user_id) (t_goals s),
           t_feed_events := discard (\<lambda>e. fe_user_id e = user_id) (t_feed_events s),
           t_event_reactions := discard (\<lambda>r. er_feed_event_id r \<in> events) (t_event_reactions s),
           t_feed_comments := discard (\<lambda>c. fc_feed_event_id c \<in> events) (t_feed_comments s),
           t_notifications := discard (\<lambda>n. nt_user_id n = user_id) (t_notifications s)\<rparr>)"

text \<open>The books are looked up by ISBN and created where they are missing.\<close>

definition seed_book :: "uuid \<Rightarrow> datetime \<Rightarrow> string \<times> pystr \<times> pystr \<times> pystr \<Rightarrow> sess \<Rightarrow> book outcome" where
  "seed_book new_id now spec s =
     (case spec of (isbn, title, author, publisher) \<Rightarrow>
        case fetch bk_isbn13 isbn (t_books s) of
          Some b \<Rightarrow> Inr (b, s)
        | None \<Rightarrow>
            let b = \<lparr>bk_id = new_id, bk_isbn13 = isbn, bk_title = title, bk_author = author, bk_publisher = Some publisher,
                     bk_cover_url = None, bk_description = None, bk_page_count = None, bk_source = MANUAL_SOURCE, bk_created_at = now\<rparr>
            in bindE (insert_row bk_id True b (t_books s)) (\<lambda>rows. Inr (b, s\<lparr>t_books := rows\<rparr>)))"

fun seed_books :: "(nat \<Rightarrow> uuid) \<Rightarrow> datetime \<Rightarrow> nat \<Rightarrow> (string \<times> pystr \<times> pystr \<times> pystr) list \<Rightarrow> sess \<Rightarrow> book list outcome" where
  "seed_books fresh now k [] s = Inr ([], s)"
| "seed_books fresh now k (spec # specs) s =
     bindE (seed_book (fresh k) now spec s) (\<lambda>(b, s1).
     bindE (seed_books fresh now (k + 1) specs s1) (\<lambda>(bs, s2). Inr (b # bs, s2)))"

definition seed_user_books :: "(nat \<Rightarrow> uuid) \<Rightarrow> datetime \<Rightarrow> uuid \<Rightarrow> uuid list \<Rightarrow> user_book list" where
  "seed_user_books fresh now user_id books =
     (let entry = (\<lambda>k status started finished rating review.
            \<lparr>ub_id = fresh (4 + k), ub_user_id = user_id, ub_book_id = books ! k, ub_status = status, ub_started_at = started,
             ub_finished_at = finished, ub_rating = rating, ub_one_line_review = review, ub_progress = 0,
             ub_current_chapter = 0, ub_created_at = now\<rparr>)
      in [entry 0 COMPLETED (Some (now - 30 * day_us)) (Some (now - 5 * day_us)) (Some 5) (Some [51069, 45716, 32, 45236, 45236, 32, 44032, 49844, 51060, 32, 47673, 47673, 54664, 45912, 32, 51089, 54408]),
          entry 1 COMPLETED (Some (now - 60 * day_us)) (Some (now - 40 * day_us)) (Some 4) None,
          entry 2 READING (Some (now - 10 * day_us)) None None None,
          entry 3 WISHLIST None None None None])"

text \<open>Which entry, how many days ago, and for how many seconds; each session starts at 20:00 UTC.\<close>

definition SESSION_SPECS :: "(nat \<times> int \<times> int) list" where
  "SESSION_SPECS =
     [(0, 30, 3600), (0, 28, 2700), (0, 25, 4500), (1, 60, 1800), (1, 55, 2400), (2, 7, 3000),
      (2, 6, 1800), (2, 5, 2700), (2, 4, 3600), (2, 3, 1200), (2, 2, 2400), (2, 1, 3000)]"

definition seed_sessions :: "(nat \<Rightarrow> uuid) \<Rightarrow> datetime \<Rightarrow> date \<Rightarrow> uuid \<Rightarrow> user_book list \<Rightarrow> reading_session list" where
  "seed_sessions fresh now today user_id entries =
     map (\<lambda>(k, entry, ago, dur).
         let started = midnight (today - ago) + 20 * 3600 * sec_us
         in \<lparr>rs_id = fresh (8 + k), rs_user_id = user_id, rs_user_book_id = ub_id (entries ! entry), rs_started_at = started,
             rs_ended_at = Some (started + dur * sec_us), rs_duration_sec = Some dur, rs_source = MANUAL, rs_device = None,
             rs_note = None, rs_created_at = now\<rparr>) (enumerate 0 SESSION_SPECS)"

definition seed_goals :: "(nat \<Rightarrow> uuid) \<Rightarrow> datetime \<Rightarrow> date \<Rightarrow> uuid \<Rightarrow> goal list" where
  "seed_goals fresh now today user_id =
     (let y = year_of today; m = month_of today; week_start = today - weekday today;
          goal = (\<lambda>k period books seconds first final.
            \<lparr>go_id = fresh (20 + k), go_user_id = user_id, go_period = period, go_target_books = books,
             go_target_seconds = seconds, go_start_date = first, go_end_date = final, go_created_at = now\<rparr>)
      in [goal 0 WEEKLY 0 (3 * 3600) week_start (week_start + 6),
          goal 1 MONTHLY 2 (15 * 3600) (ymd2ord y m 1) (ymd2ord y m (days_in_month y m)),
          goal 2 YEARLY 12 (100 * 3600) (ymd2ord y 1 1) (ymd2ord y 12 31)])"

definition seed_feed_events :: "(nat \<Rightarrow> uuid) \<Rightarrow> datetime \<Rightarrow> uuid \<Rightarrow> feed_event list" where
  "seed_feed_events fresh now user_id =
     (let event = (\<lambda>k typ metadata. \<lparr>fe_id = fresh (23 + k), fe_user_id = user_id, fe_event_type = typ,
            fe_metadata = metadata, fe_created_at = now\<rparr>)
      in [event 0 ''BOOK_COMPLETED'' [(''book_title'', JText [54028, 52828, 53076]), (''book_author'', JText [51060, 48124, 51652])],
          event 1 ''BOOK_COMPLETED'' [(''book_title'', JText [52292, 49885, 51452, 51032, 51088]), (''book_author'', JText [54620, 44053])],
          event 2 ''STREAK_MILESTONE'' [(''streak_days'', JInt 7)]])"

definition seed_notifications :: "(nat \<Rightarrow> uuid) \<Rightarrow> datetime \<Rightarrow> uuid \<Rightarrow> notification list" where
  "seed_notifications fresh now user_id =
     (let item = (\<lambda>k typ title body read. \<lparr>nt_id = fresh (26 + k), nt_user_id = user_id, nt_ntype = typ, nt_title = title,
            nt_body = body, nt_data = [], nt_read_at = read, nt_created_at = now\<rparr>)
      in [item 0 ''grade_up''
            [46321, 44553, 32, 49345, 49849, 33]
            [46021, 49436, 47049, 51060, 32, 45720, 50612, 32, 46321, 44553, 51060, 32, 50732, 46992, 49845, 45768, 45796, 46, 32, 44228, 49549, 32, 51069, 50612, 48372, 49464, 50836, 33] None,
          item 1 ''streak_warning''
            [49828, 53944, 47533, 32, 50948, 44592, 33]
            [50724, 45720, 32, 46021, 49436, 47484, 32, 44592, 47197, 54616, 51648, 32, 50506, 51004, 47732, 32, 49828, 53944, 47533, 51060, 32, 45130, 44609, 45768, 45796, 46] None,
          item 2 ''weekly_report''
            [51060, 48264, 32, 51452, 32, 46021, 49436, 32, 47532, 54252, 53944]
            [51060, 48264, 32, 51452, 32, 52509, 32, 51, 49884, 44036, 32, 51, 48, 48516, 51012, 32, 51069, 50632, 49845, 45768, 45796, 46, 32, 54988, 47469, 54644, 50836, 33]
            (Some (now - 2 * 3600 * sec_us))])"

definition DEV_ACCOUNT :: pystr where
  "DEV_ACCOUNT = [100, 101, 118, 58, 44060, 48156, 51088]"

text \<open>
  Dates outside the years 1 to 9999 overflow; rows of the same table are inserted together. The caller
  has authenticated, so the user exists.
\<close>

definition add_rows :: "('r \<Rightarrow> 'k) \<Rightarrow> 'r list \<Rightarrow> 'r list \<Rightarrow> 'r list result" where
  "add_rows key new rows = (if distinct (map key (rows @ new)) then Inr (rows @ new) else Inl IntegrityError)"

definition seed_tester_data :: "string \<Rightarrow> (nat \<Rightarrow> uuid) \<Rightarrow> datetime \<Rightarrow> date \<Rightarrow> user \<Rightarrow> sess \<Rightarrow> unit outcome" where
  "seed_tester_data env fresh now today tester s =
     (if env \<noteq> ''dev'' then Inl (HTTPException 404)
      else if us_provider_sub tester = DEV_ACCOUNT then Inl (HTTPException 403)
      else let user_id = us_id tester; s0 = clear_tester_data user_id s
      in bindE (seed_books fresh now 0 SEED_BOOKS s0) (\<lambda>(books, s1).
         let entries = seed_user_books fresh now user_id (map bk_id books)
         in bindE (add_rows ub_id entries (t_user_books s1)) (\<lambda>user_books.
            if \<not> distinct (map (\<lambda>ub. (ub_user_id ub, ub_book_id ub)) (filter (\<lambda>ub. ub_user_id ub = user_id) user_books)) then Inl IntegrityError
            else if today \<le> 60 \<or> max_ordinal < today - weekday today + 6 then Inl OverflowError
            else bindE (add_rows rs_id (seed_sessions fresh now today user_id entries) (t_reading_sessions s1)) (\<lambda>sessions.
                 bindE (add_rows go_id (seed_goals fresh now today user_id) (t_goals s1)) (\<lambda>goals.
                 bindE (add_rows fe_id (seed_feed_events fresh now user_id) (t_feed_events s1)) (\<lambda>events.
                 bindE (add_rows nt_id (seed_notifications fresh now user_id) (t_notifications s1)) (\<lambda>items.
                   Inr ((), s1\<lparr>t_user_books := user_books, t_reading_sessions := sessions, t_goals := goals,
                               t_feed_events := events, t_notifications := items\<rparr>))))))))"

lemma seed_books_frame:
  "seed_books fresh now k specs s = Inr (bs, s') \<Longrightarrow> \<exists>new. s' = s\<lparr>t_books := t_books s @ new\<rparr> \<and> length bs = length specs"
proof (induction specs arbitrary: k s bs s')
  case Nil
  have "s = s\<lparr>t_books := t_books s @ []\<rparr>" by simp
  then show ?case using Nil by (intro exI [of _ "[]"]) auto
next
  case (Cons spec specs)
  obtain b s1 bs' where b: "seed_book (fresh k) now spec s = Inr (b, s1)" "seed_books fresh now (k + 1) specs s1 = Inr (bs', s')" "bs = b # bs'"
    using Cons.prems by (auto simp: bindE_def split: sum.splits)
  have "\<exists>new. s1 = s\<lparr>t_books := t_books s @ new\<rparr>"
  proof (cases "fetch bk_isbn13 (fst spec) (t_books s)")
    case (Some c)
    then have "s1 = s\<lparr>t_books := t_books s @ []\<rparr>" using b(1) by (auto simp: seed_book_def split: prod.splits)
    then show ?thesis by blast
  qed (use b(1) in \<open>auto simp: seed_book_def insert_row_def bindE_def Let_def split: prod.splits if_splits\<close>)
  then show ?case using Cons.IH [OF b(2)] b(3) by auto
qed

lemma discard_own: "filter (\<lambda>r. f r = u) (discard (\<lambda>r. f r = u) rows) = []" "filter (\<lambda>r. f r \<noteq> u) (discard (\<lambda>r. f r = u) rows) = filter (\<lambda>r. f r \<noteq> u) rows"
  by (simp_all add: discard_def)

lemma seeded_rows:
  "filter (\<lambda>g. go_user_id g = u) (seed_goals fresh now today u) = seed_goals fresh now today u"
  "filter (\<lambda>e. fe_user_id e = u) (seed_feed_events fresh now u) = seed_feed_events fresh now u"
  "filter (\<lambda>n. nt_user_id n = u) (seed_notifications fresh now u) = seed_notifications fresh now u"
  "filter (\<lambda>g. go_user_id g \<noteq> u) (seed_goals fresh now today u) = []"
  "filter (\<lambda>e. fe_user_id e \<noteq> u) (seed_feed_events fresh now u) = []"
  "filter (\<lambda>n. nt_user_id n \<noteq> u) (seed_notifications fresh now u) = []"
  by (simp_all add: seed_goals_def seed_feed_events_def seed_notifications_def Let_def)

text \<open>
  Seeding replaces: afterwards the goals, activity and notifications of the tester are exactly the seeded
  ones whatever they were before, those of everybody else are as before, and the seeded library
  entries take the place of the earlier ones. It happens in development only, and to no other account
  than the tester's. The heatmap buckets and the grade snapshot are not written, so they do not show
  the seeded sessions.
\<close>
theorem seeding_replaces:
  assumes "seed_tester_data env fresh now today tester s = Inr (r, s')"
  defines "u \<equiv> us_id tester"
  shows "env = ''dev'' \<and> us_provider_sub tester \<noteq> DEV_ACCOUNT \<and>
    filter (\<lambda>g. go_user_id g = u) (t_goals s') = seed_goals fresh now today u \<and>
    filter (\<lambda>g. go_user_id g \<noteq> u) (t_goals s') = filter (\<lambda>g. go_user_id g \<noteq> u) (t_goals s) \<and>
    filter (\<lambda>e. fe_user_id e = u) (t_feed_events s') = seed_feed_events fresh now u \<and>
    filter (\<lambda>e. fe_user_id e \<noteq> u) (t_feed_events s') = filter (\<lambda>e. fe_user_id e \<noteq> u) (t_feed_events s) \<and>
    filter (\<lambda>n. nt_user_id n = u) (t_notifications s') = seed_notifications fresh now u \<and>
    filter (\<lambda>n. nt_user_id n \<noteq> u) (t_notifications s') = filter (\<lambda>n. nt_user_id n \<noteq> u) (t_notifications s) \<and>
    (\<exists>books. t_user_books s' = discard (\<lambda>ub. ub_id ub \<in> ub_id ` set (seed_entries u s)) (t_user_books s) @ seed_user_books fresh now u books) \<and>
    t_daily_stats s' = t_daily_stats s \<and> t_user_grades s' = t_user_grades s"
proof -
  let ?s0 = "clear_tester_data u s"
  obtain books s1 where b: "seed_books fresh now 0 SEED_BOOKS ?s0 = Inr (books, s1)"
    and s': "s' = s1\<lparr>t_user_books := t_user_books s1 @ seed_user_books fresh now u (map bk_id books),
        t_reading_sessions := t_reading_sessions s1 @ seed_sessions fresh now today u (seed_user_books fresh now u (map bk_id books)),
        t_goals := t_goals s1 @ seed_goals fresh now today u, t_feed_events := t_feed_events s1 @ seed_feed_events fresh now u,
        t_notifications := t_notifications s1 @ seed_notifications fresh now u\<rparr>"
    and g: "env = ''dev''" "us_provider_sub tester \<noteq> DEV_ACCOUNT"
    using assms(1) unfolding seed_tester_data_def u_def
    by (auto simp: bindE_def add_rows_def Let_def split: if_splits sum.splits)
  obtain new where s1: "s1 = ?s0\<lparr>t_books := t_books ?s0 @ new\<rparr>" using seed_books_frame [OF b] by blast
  show ?thesis unfolding s' s1 using g
    by (simp add: clear_tester_data_def Let_def discard_own seeded_rows) blast
qed

definition numbered :: "nat \<Rightarrow> uuid" where
  "numbered k = 1000 + k"

text \<open>Reader 2 of the demonstration, seeded on the first of July 2026.\<close>

theorem seeding_replaces_witness:
  "case seed_tester_data ''dev'' numbered t0 739798 (demo_user 2) demo of
     Inl _ \<Rightarrow> False
   | Inr (_, s') \<Rightarrow> filter (\<lambda>g. go_user_id g = 2) (t_goals s') = seed_goals numbered t0 739798 2 \<and> t_daily_stats s' = []"
proof -
  have c: "clear_tester_data 2 demo = demo"
    by (simp add: clear_tester_data_def seed_entries_def seed_book_ids_def discard_def Let_def SEED_BOOKS_def demo_def empty_sess_def)
  have "\<exists>bs s1. seed_books numbered t0 0 SEED_BOOKS demo = Inr (bs, s1) \<and> map bk_id bs = [1000, 1001, 1002, 1003] \<and>
      t_user_books s1 = [demo_user_book] \<and> t_reading_sessions s1 = [] \<and> t_goals s1 = [] \<and> t_feed_events s1 = [] \<and> t_notifications s1 = []"
    by (simp add: SEED_BOOKS_def seed_book_def fetch_def insert_row_def bindE_def Let_def numbered_def demo_def empty_sess_def)
  then obtain bs s1 where b: "seed_books numbered t0 0 SEED_BOOKS demo = Inr (bs, s1)" "map bk_id bs = [1000, 1001, 1002, 1003]"
      "t_user_books s1 = [demo_user_book]" "t_reading_sessions s1 = []" "t_goals s1 = []" "t_feed_events s1 = []" "t_notifications s1 = []"
    by (elim exE conjE)
  have "\<not> isl (seed_tester_data ''dev'' numbered t0 739798 (demo_user 2) demo)"
    by (simp add: seed_tester_data_def c b bindE_def add_rows_def Let_def DEV_ACCOUNT_def demo_user_def seed_user_books_def demo_user_book_def
        numbered_def seed_sessions_def SESSION_SPECS_def seed_goals_def seed_feed_events_def seed_notifications_def max_ordinal_def weekday_def)
  then obtain s' where s': "seed_tester_data ''dev'' numbered t0 739798 (demo_user 2) demo = Inr ((), s')"
    by (cases "seed_tester_data ''dev'' numbered t0 739798 (demo_user 2) demo") auto
  then show ?thesis using seeding_replaces [OF s'] by simp
qed

end
