(* ===== verification/Search.thy ===== *)
theory Search
  imports ClubRepo Social Demo
begin

text \<open>
  The search domain (\<open>domains/search\<close>). The text search of the server, the similarity of trigrams with
  its threshold, the case-insensitive match and the collation are parameters; \<open>installed\<close> says which text
  search configurations the server has. A statement that fails aborts the transaction: PostgreSQL
  refuses every later statement until it ends.
\<close>

section \<open>Books\<close>

record book_hit =
  bh_id :: uuid
  bh_title :: pystr
  bh_author :: pystr
  bh_thumbnail_url :: "pystr option"

definition book_hit_of :: "book \<Rightarrow> book_hit" where
  "book_hit_of b = \<lparr>bh_id = bk_id b, bh_title = bk_title b, bh_author = bk_author b, bh_thumbnail_url = bk_cover_url b\<rparr>"

definition TS_CONFIGS :: "string list" where "TS_CONFIGS = [''korean'', ''simple'']"

text \<open>\<open>rank config query b\<close> is \<open>None\<close> when the book does not match.\<close>

definition run_text_search ::
    "string set \<Rightarrow> (string \<Rightarrow> pystr \<Rightarrow> book \<Rightarrow> int option) \<Rightarrow> pystr \<Rightarrow> nat \<Rightarrow> sess \<Rightarrow> bool \<Rightarrow> string \<Rightarrow> book list result" where
  "run_text_search installed rank query limit s aborted config =
     (if aborted \<or> config \<notin> installed then Inl ProgrammingError
      else Inr (take limit (order_desc (\<lambda>b. the (rank config query b)) (filter (\<lambda>b. rank config query b \<noteq> None) (t_books s)))))"

fun search_configs ::
    "string set \<Rightarrow> (string \<Rightarrow> pystr \<Rightarrow> book \<Rightarrow> int option) \<Rightarrow> pystr \<Rightarrow> nat \<Rightarrow> sess \<Rightarrow> bool \<Rightarrow> string list \<Rightarrow> book_hit list result" where
  "search_configs installed rank query limit s aborted [] = Inr []"
| "search_configs installed rank query limit s aborted (config # configs) =
     (case run_text_search installed rank query limit s aborted config of
        Inr rows \<Rightarrow> Inr (map book_hit_of rows)
      | Inl e \<Rightarrow> if config = ''simple'' then Inl e else search_configs installed rank query limit s True configs)"

definition search_catalog ::
    "string set \<Rightarrow> (string \<Rightarrow> pystr \<Rightarrow> book \<Rightarrow> int option) \<Rightarrow> pystr \<Rightarrow> nat \<Rightarrow> sess \<Rightarrow> book_hit list result" where
  "search_catalog installed rank query limit s = search_configs installed rank query limit s False TS_CONFIGS"

section \<open>Suggestions\<close>

text \<open>\<open>similarity term query\<close> in some unit; \<open>near\<close> is the operator \<open>percent\<close>.\<close>

definition suggestion_terms :: "(pystr \<Rightarrow> pystr \<Rightarrow> bool) \<Rightarrow> pystr \<Rightarrow> sess \<Rightarrow> pystr list" where
  "suggestion_terms near query s =
     remdups (filter (\<lambda>t. near t query) (map bk_title (t_books s)) @ filter (\<lambda>t. near t query) (map bk_author (t_books s)))"

definition repo_autocomplete ::
    "(pystr \<Rightarrow> pystr \<Rightarrow> bool) \<Rightarrow> (pystr \<Rightarrow> pystr \<Rightarrow> int) \<Rightarrow> (pystr \<Rightarrow> int) \<Rightarrow> pystr \<Rightarrow> nat \<Rightarrow> sess \<Rightarrow> pystr list" where
  "repo_autocomplete near similarity collate query limit s =
     take limit (order_desc (\<lambda>t. similarity t query) (order_asc collate (suggestion_terms near query s)))"

section \<open>Users and clubs\<close>

record user_hit =
  su_id :: uuid
  su_nickname :: pystr
  su_avatar_url :: "pystr option"

definition contains_pattern :: "pystr \<Rightarrow> pystr" where
  "contains_pattern query = [37] @ query @ [37]"

definition search_readers ::
    "(pystr \<Rightarrow> pystr \<Rightarrow> bool) \<Rightarrow> (pystr \<Rightarrow> int) \<Rightarrow> pystr \<Rightarrow> nat \<Rightarrow> sess \<Rightarrow> user_hit list" where
  "search_readers ilike collate query limit s =
     map (\<lambda>u. \<lparr>su_id = us_id u, su_nickname = us_nickname u, su_avatar_url = us_profile_image_url u\<rparr>)
       (take limit (order_asc (\<lambda>u. collate (us_nickname u))
          (filter (\<lambda>u. us_deleted_at u = None \<and> ilike (contains_pattern query) (us_nickname u)) (t_users s))))"

record club_hit =
  sc_id :: uuid
  sc_name :: pystr
  sc_member_count :: nat
  sc_current_book_title :: "pystr option"

definition club_hit_of :: "sess \<Rightarrow> reading_club \<Rightarrow> club_hit" where
  "club_hit_of s c = \<lparr>sc_id = rc_id c, sc_name = rc_name c, sc_member_count = member_count (rc_id c) s,
     sc_current_book_title = Option.bind (rc_book_id c) (\<lambda>b. map_option bk_title (fetch bk_id b (t_books s)))\<rparr>"

definition search_clubs ::
    "(pystr \<Rightarrow> pystr \<Rightarrow> bool) \<Rightarrow> (pystr \<Rightarrow> int) \<Rightarrow> pystr \<Rightarrow> nat \<Rightarrow> sess \<Rightarrow> club_hit list" where
  "search_clubs ilike collate query limit s =
     map (club_hit_of s)
       (take limit (order_desc (\<lambda>c. int (member_count (rc_id c) s)) (order_asc (\<lambda>c. collate (rc_name c))
          (filter (\<lambda>c. rc_is_public c \<and> ilike (contains_pattern query) (rc_name c)) (t_clubs s)))))"

section \<open>The service and its router\<close>

record search_server =
  sv_installed :: "string set"
  sv_rank :: "string \<Rightarrow> pystr \<Rightarrow> book \<Rightarrow> int option"
  sv_ilike :: "pystr \<Rightarrow> pystr \<Rightarrow> bool"
  sv_collate :: "pystr \<Rightarrow> int"
  sv_near :: "pystr \<Rightarrow> pystr \<Rightarrow> bool"
  sv_similarity :: "pystr \<Rightarrow> pystr \<Rightarrow> int"

record search_result =
  sx_books :: "book_hit list"
  sx_users :: "user_hit list"
  sx_clubs :: "club_hit list"

text \<open>
  The three searches read only, so their order does not matter to what they answer. They share one
  session, which the model does not make them contend for.
\<close>

definition search_all :: "search_server \<Rightarrow> pystr \<Rightarrow> bool \<Rightarrow> bool \<Rightarrow> bool \<Rightarrow> nat \<Rightarrow> sess \<Rightarrow> search_result result" where
  "search_all v query include_books include_users include_clubs limit s =
     bindE (if include_books then search_catalog (sv_installed v) (sv_rank v) query limit s else Inr []) (\<lambda>books.
     Inr \<lparr>sx_books = books,
          sx_users = (if include_users then search_readers (sv_ilike v) (sv_collate v) query limit s else []),
          sx_clubs = (if include_clubs then search_clubs (sv_ilike v) (sv_collate v) query limit s else [])\<rparr>)"

datatype search_type = ALL_TYPES | BOOK_TYPE | USER_TYPE | CLUB_TYPE

definition get_search :: "search_server \<Rightarrow> pystr \<Rightarrow> search_type \<Rightarrow> nat \<Rightarrow> sess \<Rightarrow> search_result result" where
  "get_search v q ty limit s =
     search_all v q (ty \<in> {ALL_TYPES, BOOK_TYPE}) (ty \<in> {ALL_TYPES, USER_TYPE}) (ty \<in> {ALL_TYPES, CLUB_TYPE}) limit s"

definition autocomplete :: "search_server \<Rightarrow> pystr \<Rightarrow> nat \<Rightarrow> sess \<Rightarrow> pystr list" where
  "autocomplete v query limit s = repo_autocomplete (sv_near v) (sv_similarity v) (sv_collate v) query limit s"

section \<open>Properties\<close>

lemma search_catalog_eq:
  "search_catalog installed rank query limit s =
     (if ''korean'' \<in> installed
      then Inr (map book_hit_of (take limit (order_desc (\<lambda>b. the (rank ''korean'' query b))
        (filter (\<lambda>b. rank ''korean'' query b \<noteq> None) (t_books s)))))
      else Inl ProgrammingError)"
  by (simp add: search_catalog_def TS_CONFIGS_def run_text_search_def)

lemma readers_ok:
  "length (search_readers ilike collate q limit s) \<le> limit \<and>
   su_id ` set (search_readers ilike collate q limit s) \<subseteq> us_id ` {u \<in> set (t_users s). us_deleted_at u = None}"
  by (auto simp: search_readers_def dest!: in_set_takeD)

lemma clubs_ok:
  "length (search_clubs ilike collate q limit s) \<le> limit \<and>
   sc_id ` set (search_clubs ilike collate q limit s) \<subseteq> rc_id ` {c \<in> set (t_clubs s). rc_is_public c}"
  by (auto simp: search_clubs_def club_hit_of_def dest!: in_set_takeD)

lemma books_ok:
  "search_catalog installed rank q limit s = Inr hits \<Longrightarrow>
     length hits \<le> limit \<and> set hits \<subseteq> book_hit_of ` {b \<in> set (t_books s). rank ''korean'' q b \<noteq> None}"
  by (auto simp: search_catalog_eq dest!: in_set_takeD split: if_splits)

text \<open>
  A search of all kinds or of books fails with 500 exactly where the server lacks the
  configuration \<open>korean\<close>: the first statement aborts the transaction, so the fallback to \<open>simple\<close> fails too.
  What the other searches answer is within the limit for each kind, and only names public clubs, users
  that are not deleted and books that match.
\<close>
theorem search_needs_korean:
  "case get_search v q ty limit s of
     Inl e \<Rightarrow> ''korean'' \<notin> sv_installed v \<and> ty \<in> {ALL_TYPES, BOOK_TYPE} \<and> http_status e = 500
   | Inr r \<Rightarrow> (''korean'' \<in> sv_installed v \<or> ty \<in> {USER_TYPE, CLUB_TYPE}) \<and>
       length (sx_books r) \<le> limit \<and> length (sx_users r) \<le> limit \<and> length (sx_clubs r) \<le> limit \<and>
       set (sx_books r) \<subseteq> book_hit_of ` {b \<in> set (t_books s). sv_rank v ''korean'' q b \<noteq> None} \<and>
       su_id ` set (sx_users r) \<subseteq> us_id ` {u \<in> set (t_users s). us_deleted_at u = None} \<and>
       sc_id ` set (sx_clubs r) \<subseteq> rc_id ` {c \<in> set (t_clubs s). rc_is_public c}"
proof (cases "search_catalog (sv_installed v) (sv_rank v) q limit s")
  case (Inl e)
  then have "''korean'' \<notin> sv_installed v \<and> http_status e = 500" by (auto simp: search_catalog_eq split: if_splits)
  then show ?thesis using Inl readers_ok [of "sv_ilike v" "sv_collate v" q limit s] clubs_ok [of "sv_ilike v" "sv_collate v" q limit s]
    by (cases ty) (simp_all add: get_search_def search_all_def)
next
  case (Inr hits)
  then have "''korean'' \<in> sv_installed v" by (simp add: search_catalog_eq split: if_splits)
  then show ?thesis using Inr books_ok [OF Inr] readers_ok [of "sv_ilike v" "sv_collate v" q limit s] clubs_ok [of "sv_ilike v" "sv_collate v" q limit s]
    by (cases ty) (simp_all add: get_search_def search_all_def)
qed

lemma top_of_sorted:
  assumes "sorted_wrt (\<lambda>x y. f y \<le> f x) xs" "x \<in> set (take n xs)" "y \<in> set xs" "y \<notin> set (take n xs)"
  shows "(f y :: int) \<le> f x"
proof -
  have "y \<in> set (drop n xs)" using assms(3,4) by (metis append_take_drop_id Un_iff set_append)
  moreover have "sorted_wrt (\<lambda>x y. f y \<le> f x) (take n xs @ drop n xs)" using assms(1) by simp
  ultimately show ?thesis using assms(2) unfolding sorted_wrt_append by blast
qed

text \<open>
  The suggestions are distinct titles and authors near to what was typed, as many as there are up
  to the limit, and no term that was left out is more similar than one that is shown.
\<close>
theorem suggestions_are_best:
  fixes v query s
  defines "terms \<equiv> {t \<in> bk_title ` set (t_books s) \<union> bk_author ` set (t_books s). sv_near v t query}"
  shows "distinct (autocomplete v query limit s) \<and> set (autocomplete v query limit s) \<subseteq> terms \<and>
    length (autocomplete v query limit s) = min limit (card terms) \<and>
    (\<forall>x \<in> set (autocomplete v query limit s). \<forall>y \<in> terms - set (autocomplete v query limit s).
       sv_similarity v y query \<le> sv_similarity v x query)"
proof -
  define full where "full = order_desc (\<lambda>t. sv_similarity v t query) (order_asc (sv_collate v) (suggestion_terms (sv_near v) query s))"
  have a: "autocomplete v query limit s = take limit full"
    by (simp add: autocomplete_def repo_autocomplete_def full_def)
  have st: "set full = terms" by (auto simp: full_def suggestion_terms_def terms_def)
  have d: "distinct full" by (simp add: full_def order_desc_def order_asc_def suggestion_terms_def)
  have srt: "sorted_wrt (\<lambda>x y. sv_similarity v y query \<le> sv_similarity v x query) full"
    unfolding full_def by (rule sorted_order_desc)
  show ?thesis
    unfolding a using d st distinct_card [OF d] top_of_sorted [OF srt]
    by (auto simp: min_def dest: in_set_takeD)
qed

definition plain_server :: search_server where
  "plain_server = \<lparr>sv_installed = {''simple''}, sv_rank = (\<lambda>c q b. Some 0), sv_ilike = (\<lambda>p t. True), sv_collate = int \<circ> length,
     sv_near = (\<lambda>t q. t = ascii ''A Book''), sv_similarity = (\<lambda>t q. int (length t))\<rparr>"

lemma suggestions_are_best_witness: "length (autocomplete plain_server [] 5 demo) = 1"
proof -
  have one: "{t \<in> bk_title ` set (t_books demo) \<union> bk_author ` set (t_books demo). sv_near plain_server t []} = {ascii ''A Book''}"
    by (auto simp: plain_server_def demo_book_def)
  from suggestions_are_best [of plain_server "[]" 5 demo] show ?thesis unfolding one by simp
qed

end
