(* ===== verification/LanguageModel.thy ===== *)
theory LanguageModel
  imports Coach ClientsProps
begin

text \<open>
  The clients of the language model (\<open>ai_assistant/adapters\<close>, \<open>discovery/adapters\<close>): what is asked, the
  three attempts, and how an answer is read; and the canned answers used without a key. Prompts, schemas
  and canned texts are those of the code, written as code points where they are not ASCII. What the model
  answers, \<open>json.loads\<close> and \<open>str\<close> are parameters.
\<close>

section \<open>What is asked\<close>

definition MAX_HIGHLIGHTS :: nat where "MAX_HIGHLIGHTS = 10"

definition PREP_SYSTEM :: pystr where
  "PREP_SYSTEM =
     [45817, 49888, 51008, 32, 46384, 46907, 54616, 44256, 32, 53685, 52272, 47141, 32, 51080, 45716, 32, 46021, 49436, 32, 53076, 52824, 51077, 45768,
     45796, 46, 32, 46021, 51088, 44032, 32, 52293, 51012, 32, 54204, 52824, 44592, 32, 51204, 50640, 32, 44592, 45824, 44048, 51012, 32, 44054, 44256, 32,
     45733, 46041, 51201, 51004, 47196, 32, 51069, 46020, 47197, 32, 46037, 49845, 45768, 45796, 46, 32, 50836, 50557, 51060, 32, 50500, 45768, 46972, 32,
     39, 51456, 48708, 39, 50640, 32, 51665, 51473, 54616, 49464, 50836, 46, 32, 47784, 46304, 32, 45813, 48320, 51008, 32, 54620, 44397, 50612, 47196, 32,
     51089, 49457, 54633, 45768, 45796, 46]"

definition REFLECTION_SYSTEM :: pystr where
  "REFLECTION_SYSTEM =
     [45817, 49888, 51008, 32, 46384, 46907, 54616, 44256, 32, 53685, 52272, 47141, 32, 51080, 45716, 32, 46021, 49436, 32, 53076, 52824, 51077, 45768,
     45796, 46, 32, 46021, 51088, 44032, 32, 48169, 44552, 32, 50756, 46021, 54620, 32, 52293, 51012, 32, 51088, 49888, 51032, 32, 49334, 44284, 32, 50672,
     44208, 54644, 32, 49457, 52272, 54616, 46020, 47197, 32, 46037, 49845, 45768, 45796, 46, 32, 46021, 51088, 44032, 32, 51649, 51217, 32, 48145, 51460,
     32, 44536, 51008, 32, 47928, 51109, 50640, 49436, 32, 52636, 48156, 54644, 32, 44618, 51060, 32, 51080, 45716, 32, 53685, 52272, 51012, 32, 45132,
     50612, 45236, 49464, 50836, 46, 32, 47784, 46304, 32, 45813, 48320, 51008, 32, 54620, 44397, 50612, 47196, 32, 51089, 49457, 54633, 45768, 45796, 46]"

definition TOPICS_SYSTEM :: pystr where
  "TOPICS_SYSTEM =
     [45817, 49888, 51008, 32, 46021, 49436, 32, 47784, 51076, 51012, 32, 51060, 45124, 45716, 32, 51652, 54665, 51088, 51077, 45768, 45796, 46, 32, 51060,
     48264, 32, 51452, 32, 51069, 44592, 32, 48276, 50948, 47484, 32, 48148, 53461, 51004, 47196, 32, 47784, 51076, 32, 44396, 49457, 50896, 51060, 32,
     54876, 48156, 55176, 32, 45824, 54868, 54624, 32, 49688, 32, 51080, 45716, 32, 53664, 47200, 32, 51452, 51228, 47484, 32, 51228, 50504, 54633, 45768,
     45796, 46, 32, 47784, 46304, 32, 45813, 48320, 51008, 32, 54620, 44397, 50612, 47196, 32, 51089, 49457, 54633, 45768, 45796, 46]"

definition AGENDA_TOPICS_SYSTEM :: pystr where
  "AGENDA_TOPICS_SYSTEM =
     [45817, 49888, 51008, 32, 46021, 49436, 32, 47784, 51076, 32, 48156, 51228, 51088, 47484, 32, 46037, 45716, 32, 51652, 54665, 51088, 51077, 45768,
     45796, 46, 32, 48156, 51228, 51088, 44032, 32, 51221, 54620, 32, 51060, 48264, 32, 54924, 52264, 51032, 32, 48276, 50948, 47484, 32, 48148, 53461,
     51004, 47196, 44, 32, 47784, 51076, 32, 44396, 49457, 50896, 51060, 32, 54876, 48156, 55176, 32, 53664, 47200, 54624, 32, 49688, 32, 51080, 45716, 32,
     45436, 51228, 32, 52488, 50504, 51012, 32, 51228, 50504, 54633, 45768, 45796, 46, 32, 44033, 32, 45436, 51228, 45716, 32, 52268, 48152, 51060, 32,
     44040, 47532, 44144, 45208, 32, 54644, 49437, 51032, 32, 50668, 51648, 44032, 32, 51080, 45716, 32, 44060, 48169, 54805, 32, 51656, 47928, 51004,
     47196, 32, 51089, 49457, 54616, 49464, 50836, 46, 32, 47784, 46304, 32, 45813, 48320, 51008, 32, 54620, 44397, 50612, 47196, 32, 51089, 49457, 54633,
     45768, 45796, 46]"

definition AUDIO_INTRO_SYSTEM :: pystr where
  "AUDIO_INTRO_SYSTEM =
     [45817, 49888, 51008, 32, 50724, 46356, 50724, 32, 46021, 49436, 32, 53076, 52824, 51077, 45768, 45796, 46, 32, 46021, 51088, 44032, 32, 51060, 50612,
     54256, 51004, 47196, 32, 46308, 51004, 47728, 32, 52293, 50640, 32, 47792, 51077, 54624, 32, 49688, 32, 51080, 46020, 47197, 44, 32, 44480, 47196, 32,
     46307, 44592, 32, 51339, 51008, 32, 51088, 50672, 49828, 47084, 50868, 32, 44396, 50612, 52404, 47196, 32, 52293, 32, 49548, 44060, 47484, 32, 46308,
     47140, 51469, 45768, 45796, 46, 32, 47784, 46304, 32, 45813, 48320, 51008, 32, 54620, 44397, 50612, 47196, 32, 51089, 49457, 54633, 45768, 45796, 46]"

definition PREP_PERSONAS :: "(string \<times> pystr) list" where
  "PREP_PERSONAS = [
     (''motivational'', [46021, 51088, 44032, 32, 52293, 51012, 32, 54204, 52824, 44256, 32, 49910, 50612, 51648, 46020, 47197, 32, 46041, 44592, 47484, 32, 48512, 50668,
     54616, 45716, 32, 55192, 32, 51080, 44256, 32, 46384, 46907, 54620, 32, 50612, 51312, 47196, 32, 47568, 54616, 49464, 50836, 46, 32]),
     (''analytical'', [52293, 51032, 32, 44396, 51312, 50752, 32, 54645, 49900, 32, 45436, 51216, 51012, 32, 46608, 47159, 54616, 44172, 32, 51674, 50612, 32, 51452, 45716,
     32, 48516, 49437, 51201, 51060, 44256, 32, 52264, 48516, 54620, 32, 50612, 51312, 47196, 32, 47568, 54616, 49464, 50836, 46, 32]),
     (''reflective'', [46021, 51088, 44032, 32, 51088, 49888, 51032, 32, 49334, 44284, 32, 50672, 44208, 54644, 32, 44618, 51060, 32, 49324, 49353, 54616, 46020, 47197, 32,
     51060, 45124, 45716, 32, 51092, 51092, 54616, 44256, 32, 49457, 52272, 51201, 51064, 32, 50612, 51312, 47196, 32, 47568, 54616, 49464, 50836, 46, 32])]"

definition RECOMMENDER_SYSTEM :: pystr where
  "RECOMMENDER_SYSTEM =
     [45817, 49888, 51008, 32, 46021, 51088, 51032, 32, 46021, 49436, 32, 51060, 47141, 51012, 32, 48516, 49437, 54644, 32, 45796, 51020, 50640, 32, 51069,
     51004, 47732, 32, 51339, 51012, 32, 52293, 51012, 32, 44264, 46972, 32, 51452, 45716, 32, 52293, 32, 53328, 47112, 51060, 53552, 51077, 45768, 45796,
     46, 32, 46021, 51088, 44032, 32, 52572, 44540, 32, 50756, 46021, 54620, 32, 52293, 46308, 51032, 32, 51452, 51228, 183, 48516, 50948, 44592, 183,
     51200, 51088, 47484, 32, 44256, 47140, 54644, 44, 32, 49352, 47213, 51648, 47564, 32, 52712, 54693, 50640, 32, 47582, 45716, 32, 52293, 51012, 32,
     52628, 52380, 54616, 49464, 50836, 46, 32, 51060, 48120, 32, 51069, 51008, 32, 52293, 51008, 32, 52628, 52380, 54616, 51648, 32, 47560, 49464, 50836,
     46, 32, 47784, 46304, 32, 45813, 48320, 51008, 32, 54620, 44397, 50612, 47196, 32, 51089, 49457, 54633, 45768, 45796, 46]"

definition PREP_SCHEMA :: jvalue where
  "PREP_SCHEMA =
     JsDict [
       (ascii ''type'', JsText (ascii ''object'')),
       (ascii ''properties'', JsDict [
           (ascii ''author_intro'', JsDict [
               (ascii ''type'', JsText (ascii ''string'')),
               (ascii ''description'', JsText ([51200, 51088, 32, 54620, 32, 51460, 32, 49548, 44060, 50752, 32, 51060, 32, 52293, 51060, 32, 53444, 49373, 54620, 32, 48176,
                 44221] @ ascii '' (2~3'' @ [47928, 51109, 41]))]),
           (ascii ''theme_keywords'', JsDict [
               (ascii ''type'', JsText (ascii ''array'')),
               (ascii ''items'', JsDict [
                   (ascii ''type'', JsText (ascii ''string''))]),
               (ascii ''description'', JsText [51060, 32, 52293, 51032, 32, 54645, 49900, 32, 53580, 47560, 32, 53412, 50892, 46300, 32, 51221, 54869, 55176, 32, 51, 44060])]),
           (ascii ''prereading_questions'', JsDict [
               (ascii ''type'', JsText (ascii ''array'')),
               (ascii ''items'', JsDict [
                   (ascii ''type'', JsText (ascii ''string''))]),
               (ascii ''description'', JsText [51069, 44592, 32, 51204, 32, 49373, 44033, 54644, 48380, 32, 51656, 47928, 32, 51221, 54869, 55176, 32, 50, 44060])])]),
       (ascii ''required'', JsList [JsText (ascii ''author_intro''), JsText (ascii ''theme_keywords''), JsText (ascii ''prereading_questions'')]),
       (ascii ''additionalProperties'', JsBool False)]"

definition REFLECTION_SCHEMA :: jvalue where
  "REFLECTION_SCHEMA =
     JsDict [
       (ascii ''type'', JsText (ascii ''object'')),
       (ascii ''properties'', JsDict [
           (ascii ''insights'', JsDict [
               (ascii ''type'', JsText (ascii ''array'')),
               (ascii ''items'', JsDict [
                   (ascii ''type'', JsText (ascii ''string''))]),
               (ascii ''description'', JsText [48145, 51460, 32, 47928, 51109, 46308, 51012, 32, 44288, 53685, 54616, 45716, 32, 54645, 49900, 32, 51064, 49324, 51060, 53944,
                 32, 51221, 54869, 55176, 32, 50, 44060])]),
           (ascii ''action_point'', JsDict [
               (ascii ''type'', JsText (ascii ''string'')),
               (ascii ''description'', JsText [51068, 49345, 50640, 32, 51201, 50857, 32, 44032, 45733, 54620, 32, 49892, 52380, 32, 54252, 51064, 53944, 32, 49, 44032, 51648])]),
           (ascii ''next_books'', JsDict [
               (ascii ''type'', JsText (ascii ''array'')),
               (ascii ''items'', JsDict [
                   (ascii ''type'', JsText (ascii ''object'')),
                   (ascii ''properties'', JsDict [
                       (ascii ''title'', JsDict [
                           (ascii ''type'', JsText (ascii ''string''))]),
                       (ascii ''reason'', JsDict [
                           (ascii ''type'', JsText (ascii ''string'')),
                           (ascii ''description'', JsText [52628, 52380, 32, 51060, 50976, 32, 54620, 32, 47928, 51109])])]),
                   (ascii ''required'', JsList [JsText (ascii ''title''), JsText (ascii ''reason'')]),
                   (ascii ''additionalProperties'', JsBool False)]),
               (ascii ''description'', JsText [51060, 32, 52293, 44284, 32, 50672, 44208, 46108, 32, 45796, 51020, 32, 51069, 51012, 32, 52293, 32, 52628, 52380, 32, 51221,
                 54869, 55176, 32, 50, 44428])])]),
       (ascii ''required'', JsList [JsText (ascii ''insights''), JsText (ascii ''action_point''), JsText (ascii ''next_books'')]),
       (ascii ''additionalProperties'', JsBool False)]"

definition TOPICS_SCHEMA :: jvalue where
  "TOPICS_SCHEMA =
     JsDict [
       (ascii ''type'', JsText (ascii ''object'')),
       (ascii ''properties'', JsDict [
           (ascii ''topics'', JsDict [
               (ascii ''type'', JsText (ascii ''array'')),
               (ascii ''items'', JsDict [
                   (ascii ''type'', JsText (ascii ''string''))]),
               (ascii ''description'', JsText [51060, 48264, 32, 51452, 32, 51069, 44592, 32, 48276, 50948, 32, 53664, 47200, 32, 51452, 51228, 32, 51221, 54869, 55176, 32, 51,
                 44060])])]),
       (ascii ''required'', JsList [JsText (ascii ''topics'')]),
       (ascii ''additionalProperties'', JsBool False)]"

definition AGENDA_TOPICS_SCHEMA :: jvalue where
  "AGENDA_TOPICS_SCHEMA =
     JsDict [
       (ascii ''type'', JsText (ascii ''object'')),
       (ascii ''properties'', JsDict [
           (ascii ''topics'', JsDict [
               (ascii ''type'', JsText (ascii ''array'')),
               (ascii ''items'', JsDict [
                   (ascii ''type'', JsText (ascii ''string''))]),
               (ascii ''minItems'', JsInt 3),
               (ascii ''maxItems'', JsInt 5),
               (ascii ''description'', JsText ([48156, 51228, 32, 48276, 50948, 47484, 32, 48148, 53461, 51004, 47196, 32, 54620, 32, 45436, 51228, 32, 52488, 50504] @ ascii '',
                 3~5'' @ [44060]))])]),
       (ascii ''required'', JsList [JsText (ascii ''topics'')]),
       (ascii ''additionalProperties'', JsBool False)]"

definition AUDIO_INTRO_SCHEMA :: jvalue where
  "AUDIO_INTRO_SCHEMA =
     JsDict [
       (ascii ''type'', JsText (ascii ''object'')),
       (ascii ''properties'', JsDict [
           (ascii ''script'', JsDict [
               (ascii ''type'', JsText (ascii ''string'')),
               (ascii ''description'', JsText ([44480, 47196, 32, 46307, 44592, 32, 51339, 51008, 32, 44396, 50612, 52404, 32, 52293, 32, 49548, 44060, 32, 49828, 53356, 47549,
                 53944, 44, 32, 54620, 44397, 50612, 47196, 32, 50557] @ ascii '' 200'' @ [51088]))])]),
       (ascii ''required'', JsList [JsText (ascii ''script'')]),
       (ascii ''additionalProperties'', JsBool False)]"

definition RECOMMENDER_SCHEMA :: jvalue where
  "RECOMMENDER_SCHEMA =
     JsDict [
       (ascii ''type'', JsText (ascii ''object'')),
       (ascii ''properties'', JsDict [
           (ascii ''recommendations'', JsDict [
               (ascii ''type'', JsText (ascii ''array'')),
               (ascii ''description'', JsText [52628, 52380, 32, 46020, 49436, 32, 51221, 54869, 55176, 32, 51, 44428]),
               (ascii ''items'', JsDict [
                   (ascii ''type'', JsText (ascii ''object'')),
                   (ascii ''properties'', JsDict [
                       (ascii ''title'', JsDict [
                           (ascii ''type'', JsText (ascii ''string'')),
                           (ascii ''description'', JsText [52628, 52380, 32, 46020, 49436, 32, 51228, 47785])]),
                       (ascii ''author'', JsDict [
                           (ascii ''type'', JsText (ascii ''string'')),
                           (ascii ''description'', JsText [52628, 52380, 32, 46020, 49436, 32, 51200, 51088])]),
                       (ascii ''reason'', JsDict [
                           (ascii ''type'', JsText (ascii ''string'')),
                           (ascii ''description'', JsText [51060, 32, 46021, 51088, 50640, 44172, 32, 52628, 52380, 54616, 45716, 32, 51060, 50976, 32, 54620, 32, 47928, 51109])])]),
                   (ascii ''required'', JsList [JsText (ascii ''title''), JsText (ascii ''author''), JsText (ascii ''reason'')]),
                   (ascii ''additionalProperties'', JsBool False)])])]),
       (ascii ''required'', JsList [JsText (ascii ''recommendations'')]),
       (ascii ''additionalProperties'', JsBool False)]"

definition L_TITLE :: pystr where
  "L_TITLE =
     [52293, 32, 51228, 47785, 58, 32]"

definition L_AUTHOR :: pystr where
  "L_AUTHOR =
     [10, 51200, 51088, 58, 32]"

definition L_DESCRIPTION :: pystr where
  "L_DESCRIPTION =
     [10, 52293, 32, 49548, 44060, 58, 32]"

definition NO_DESCRIPTION :: pystr where
  "NO_DESCRIPTION =
     [40, 49444, 47749, 32, 50630, 51020, 41]"

definition PREP_REQUEST :: pystr where
  "PREP_REQUEST =
     [10, 10, 51060, 32, 52293, 51012, 32, 51069, 44592, 32, 51204, 50640, 32, 46020, 50880, 51060, 32, 46112, 32, 51456, 48708, 32, 52852, 46300, 47484,
     32, 47564, 46308, 50612, 32, 51452, 49464, 50836, 46]"

definition L_DAYS :: pystr where
  "L_DAYS =
     [10, 46021, 49436, 32, 44592, 44036, 58, 32]"

definition L_HIGHLIGHTS :: pystr where
  "L_HIGHLIGHTS =
     [51068, 10, 46021, 51088, 44032, 32, 48145, 51460, 32, 44536, 51008, 32, 47928, 51109, 46308, 58, 10]"

definition NO_HIGHLIGHTS :: pystr where
  "NO_HIGHLIGHTS =
     [40, 51200, 51109, 46108, 32, 54616, 51060, 46972, 51060, 53944, 32, 50630, 51020, 41]"

definition REFLECTION_REQUEST :: pystr where
  "REFLECTION_REQUEST =
     [10, 10, 51060, 32, 46021, 51088, 47484, 32, 50948, 54620, 32, 50756, 46021, 32, 49457, 52272, 32, 44032, 51060, 46300, 47484, 32, 47564, 46308,
     50612, 32, 51452, 49464, 50836, 46]"

definition L_RANGE :: pystr where
  "L_RANGE =
     [10, 51060, 48264, 32, 51452, 32, 51069, 44592, 32, 48276, 50948, 58, 32]"

definition TOPICS_REQUEST :: pystr where
  "TOPICS_REQUEST =
     [51901, 10, 10, 51060, 32, 48276, 50948, 47484, 32, 48148, 53461, 51004, 47196, 32, 46021, 49436, 32, 47784, 51076, 32, 53664, 47200, 32, 51452,
     51228, 47484, 32, 47564, 46308, 50612, 32, 51452, 49464, 50836, 46]"

definition L_SCOPE :: pystr where
  "L_SCOPE =
     [10, 51060, 48264, 32, 54924, 52264, 32, 48156, 51228, 32, 48276, 50948, 58, 32]"

definition AGENDA_REQUEST :: pystr where
  "AGENDA_REQUEST =
     [10, 10, 51060, 32, 48276, 50948, 47484, 32, 48148, 53461, 51004, 47196, 32, 46021, 49436, 32, 47784, 51076, 32, 45436, 51228, 32, 52488, 50504] @
     ascii '' 3~5'' @ [44060, 47484, 32, 47564, 46308, 50612, 32, 51452, 49464, 50836, 46]"

definition AUDIO_REQUEST :: pystr where
  "AUDIO_REQUEST =
     [10, 10, 51060, 32, 52293, 51012, 32, 51069, 44592, 32, 51204, 50640, 32, 46308, 47140, 51460, 32, 50557] @ ascii '' 200'' @ [51088, 32, 48516, 47049,
     51032, 32, 50724, 46356, 50724, 32, 49548, 44060, 32, 49828, 53356, 47549, 53944, 47484, 32, 47564, 46308, 50612, 32, 51452, 49464, 50836, 46, 32,
     51060, 50612, 54256, 51004, 47196, 32, 46307, 44592, 32, 51339, 51008, 32, 51088, 50672, 49828, 47084, 50868, 32, 44396, 50612, 52404, 47196, 32,
     51089, 49457, 54616, 49464, 50836, 46]"

definition L_HISTORY :: pystr where
  "L_HISTORY =
     [46021, 51088, 44032, 32, 52572, 44540, 32, 50756, 46021, 54620, 32, 52293, 32, 47785, 47197, 58, 10]"

definition PICKS_REQUEST :: pystr where
  "PICKS_REQUEST =
     [10, 10, 51060, 32, 46021, 51088, 44032, 32, 45796, 51020, 50640, 32, 51069, 51004, 47732, 32, 51339, 51012, 32, 52293, 32, 51, 44428, 51012, 32,
     52628, 52380, 54644, 32, 51452, 49464, 50836, 46]"

section \<open>One generation\<close>

text \<open>
  An attempt is answered by blocks (their type and text) with the tokens of input and output, or it ends
  in an error the code retries, in another error of the API, or in any other exception.
\<close>

datatype llm_attempt = Answered "(string \<times> pystr) list" int int | Transient | ApiFailure | Raised error

definition answer_text :: "(string \<times> pystr) list \<Rightarrow> pystr" where
  "answer_text blocks = (case List.find (\<lambda>b. fst b = ''text'') blocks of None \<Rightarrow> [] | Some b \<Rightarrow> snd b)"

definition read_answer :: "(pystr \<Rightarrow> jvalue option) \<Rightarrow> llm_attempt \<Rightarrow> (jvalue \<times> int) result" where
  "read_answer loads a =
     (case a of
        Answered blocks input_tokens output_tokens \<Rightarrow>
          (case loads (answer_text blocks) of
             None \<Rightarrow> Inl (DomainError ExternalServiceError ''CLAUDE_BAD_RESPONSE'')
           | Some data \<Rightarrow> Inr (data, input_tokens + output_tokens))
      | Transient \<Rightarrow> Inl LibraryError
      | ApiFailure \<Rightarrow> Inl (DomainError ExternalServiceError ''CLAUDE_REQUEST_FAILED'')
      | Raised e \<Rightarrow> Inl e)"

fun llm_attempts :: "(pystr \<Rightarrow> jvalue option) \<Rightarrow> (nat \<Rightarrow> llm_attempt) \<Rightarrow> nat \<Rightarrow> nat \<Rightarrow> (jvalue \<times> int) result" where
  "llm_attempts loads send k 0 = read_answer loads (send k)"
| "llm_attempts loads send k (Suc left) =
     (if send k = Transient then llm_attempts loads send (Suc k) left else read_answer loads (send k))"

text \<open>\<open>send system prompt schema k\<close> is what the k-th of the three attempts comes to.\<close>

type_synonym llm = "pystr \<Rightarrow> pystr \<Rightarrow> jvalue \<Rightarrow> nat \<Rightarrow> llm_attempt"

definition llm_generate :: "(pystr \<Rightarrow> jvalue option) \<Rightarrow> llm \<Rightarrow> pystr \<Rightarrow> pystr \<Rightarrow> jvalue \<Rightarrow> (jvalue \<times> int) result" where
  "llm_generate loads send system prompt schema = llm_attempts loads (send system prompt schema) 0 2"

section \<open>Reading an answer\<close>

fun subscript :: "jvalue \<Rightarrow> string \<Rightarrow> jvalue result" where
  "subscript (JsDict kvs) k = required KeyError (map_of kvs (ascii k))"
| "subscript _ k = Inl TypeError"

definition text_at :: "text_lib \<Rightarrow> string \<Rightarrow> jvalue \<Rightarrow> pystr result" where
  "text_at T k v = bindE (subscript v k) (\<lambda>x. Inr (tx_str T x))"

definition texts_at :: "text_lib \<Rightarrow> string \<Rightarrow> jvalue \<Rightarrow> pystr list result" where
  "texts_at T k v = bindE (subscript v k) (\<lambda>x. bindE (elements_of x) (\<lambda>xs. Inr (map (tx_str T) xs)))"

section \<open>The reading coach\<close>

definition described :: "pystr option \<Rightarrow> pystr" where
  "described description = (case description of None \<Rightarrow> NO_DESCRIPTION | Some t \<Rightarrow> if t = [] then NO_DESCRIPTION else t)"

definition prep_prompt :: "pystr \<Rightarrow> pystr \<Rightarrow> pystr option \<Rightarrow> pystr" where
  "prep_prompt book_title author description =
     L_TITLE @ book_title @ L_AUTHOR @ author @ L_DESCRIPTION @ described description @ PREP_REQUEST"

definition prep_system :: "string \<Rightarrow> pystr" where
  "prep_system style =
     (case map_of PREP_PERSONAS style of Some p \<Rightarrow> p | None \<Rightarrow> the (map_of PREP_PERSONAS ''motivational'')) @ PREP_SYSTEM"

definition claude_prep_card ::
    "text_lib \<Rightarrow> (pystr \<Rightarrow> jvalue option) \<Rightarrow> llm \<Rightarrow> pystr \<Rightarrow> pystr \<Rightarrow> pystr option \<Rightarrow> string \<Rightarrow> prep_card result" where
  "claude_prep_card T loads send book_title author description style =
     bindE (llm_generate loads send (prep_system style) (prep_prompt book_title author description) PREP_SCHEMA) (\<lambda>(data, tokens).
     bindE (text_at T ''author_intro'' data) (\<lambda>intro.
     bindE (texts_at T ''theme_keywords'' data) (\<lambda>keywords.
     bindE (texts_at T ''prereading_questions'' data) (\<lambda>questions.
     Inr \<lparr>pc_author_intro = intro, pc_theme_keywords = keywords, pc_prereading_questions = questions, pc_tokens_used = tokens\<rparr>))))"

definition highlight_block :: "pystr list \<Rightarrow> pystr" where
  "highlight_block highlights =
     (let capped = take MAX_HIGHLIGHTS highlights
      in if capped \<noteq> [] then join_with [10] (map (\<lambda>h. [45, 32] @ h) capped) else NO_HIGHLIGHTS)"

definition reflection_prompt :: "pystr \<Rightarrow> pystr \<Rightarrow> pystr list \<Rightarrow> int \<Rightarrow> pystr" where
  "reflection_prompt book_title author highlights days_read =
     L_TITLE @ book_title @ L_AUTHOR @ author @ L_DAYS @ int_str days_read @ L_HIGHLIGHTS @ highlight_block highlights @ REFLECTION_REQUEST"

definition read_next_book :: "text_lib \<Rightarrow> jvalue \<Rightarrow> next_book result" where
  "read_next_book T b =
     bindE (text_at T ''title'' b) (\<lambda>title. bindE (text_at T ''reason'' b) (\<lambda>reason. Inr \<lparr>nb_title = title, nb_reason = reason\<rparr>))"

definition claude_reflection ::
    "text_lib \<Rightarrow> (pystr \<Rightarrow> jvalue option) \<Rightarrow> llm \<Rightarrow> pystr \<Rightarrow> pystr \<Rightarrow> pystr list \<Rightarrow> int \<Rightarrow> reflection result" where
  "claude_reflection T loads send book_title author highlights days_read =
     bindE (llm_generate loads send REFLECTION_SYSTEM (reflection_prompt book_title author highlights days_read) REFLECTION_SCHEMA)
       (\<lambda>(data, tokens).
     bindE (texts_at T ''insights'' data) (\<lambda>insights.
     bindE (text_at T ''action_point'' data) (\<lambda>action_point.
     bindE (subscript data ''next_books'') (\<lambda>raw.
     bindE (elements_of raw) (\<lambda>bs.
     bindE (each (read_next_book T) bs) (\<lambda>next_books.
     Inr \<lparr>rl_insights = insights, rl_action_point = action_point, rl_next_books = next_books, rl_tokens_used = tokens\<rparr>))))))"

definition claude_topics :: "text_lib \<Rightarrow> (jvalue \<times> int) result \<Rightarrow> (pystr list \<times> int) result" where
  "claude_topics T generated =
     bindE generated (\<lambda>(data, tokens). bindE (texts_at T ''topics'' data) (\<lambda>topics. Inr (topics, tokens)))"

definition claude_club_topics ::
    "text_lib \<Rightarrow> (pystr \<Rightarrow> jvalue option) \<Rightarrow> llm \<Rightarrow> pystr \<Rightarrow> int \<Rightarrow> int \<Rightarrow> (pystr list \<times> int) result" where
  "claude_club_topics T loads send book_title page_start page_end =
     claude_topics T (llm_generate loads send TOPICS_SYSTEM
       (L_TITLE @ book_title @ L_RANGE @ int_str page_start @ [126] @ int_str page_end @ TOPICS_REQUEST) TOPICS_SCHEMA)"

definition claude_agenda_topics ::
    "text_lib \<Rightarrow> (pystr \<Rightarrow> jvalue option) \<Rightarrow> llm \<Rightarrow> pystr \<Rightarrow> pystr \<Rightarrow> pystr \<Rightarrow> (pystr list \<times> int) result" where
  "claude_agenda_topics T loads send book_title author scope =
     claude_topics T (llm_generate loads send AGENDA_TOPICS_SYSTEM
       (L_TITLE @ book_title @ L_AUTHOR @ author @ L_SCOPE @ scope @ AGENDA_REQUEST) AGENDA_TOPICS_SCHEMA)"

definition claude_audio_intro ::
    "text_lib \<Rightarrow> (pystr \<Rightarrow> jvalue option) \<Rightarrow> llm \<Rightarrow> pystr \<Rightarrow> pystr \<Rightarrow> pystr option \<Rightarrow> (pystr \<times> int) result" where
  "claude_audio_intro T loads send book_title author description =
     bindE (llm_generate loads send AUDIO_INTRO_SYSTEM
       (L_TITLE @ book_title @ L_AUTHOR @ author @ L_DESCRIPTION @ described description @ AUDIO_REQUEST) AUDIO_INTRO_SCHEMA)
       (\<lambda>(data, tokens). bindE (text_at T ''script'' data) (\<lambda>script. Inr (script, tokens)))"

definition claude_ai :: "text_lib \<Rightarrow> (pystr \<Rightarrow> jvalue option) \<Rightarrow> llm \<Rightarrow> coach_ai" where
  "claude_ai T loads send =
     \<lparr>generate_prep_card = claude_prep_card T loads send, generate_reflection = claude_reflection T loads send,
      generate_club_topics = claude_club_topics T loads send, generate_agenda_topics = claude_agenda_topics T loads send,
      generate_audio_intro = claude_audio_intro T loads send\<rparr>"

section \<open>Picks of books\<close>

definition read_suggestion :: "text_lib \<Rightarrow> jvalue \<Rightarrow> (pystr \<times> pystr \<times> pystr) result" where
  "read_suggestion T item =
     bindE (text_at T ''title'' item) (\<lambda>title.
     bindE (text_at T ''author'' item) (\<lambda>author.
     bindE (text_at T ''reason'' item) (\<lambda>reason.
     Inr (title, author, reason))))"

definition claude_recommend_books ::
    "text_lib \<Rightarrow> (pystr \<Rightarrow> jvalue option) \<Rightarrow> llm \<Rightarrow> (pystr \<times> pystr) list \<Rightarrow> (pystr \<times> pystr \<times> pystr) list result" where
  "claude_recommend_books T loads send completed_books =
     bindE (llm_generate loads send RECOMMENDER_SYSTEM
       (L_HISTORY @ join_with [10] (map (\<lambda>(t, a). [45, 32] @ t @ [32, 40] @ a @ [41]) completed_books) @ PICKS_REQUEST) RECOMMENDER_SCHEMA)
       (\<lambda>(data, tokens).
     bindE (subscript data ''recommendations'') (\<lambda>raw.
     bindE (elements_of raw) (\<lambda>items. each (read_suggestion T) items)))"

section \<open>Canned answers\<close>

definition stub_prep_card :: "pystr \<Rightarrow> pystr \<Rightarrow> pystr option \<Rightarrow> string \<Rightarrow> prep_card result" where
  "stub_prep_card book_title author description style = Inr \<lparr>
     pc_author_intro = [12298] @ book_title @ [12299, 51032, 32, 51200, 51088, 32] @ author @ [32, 49548, 44060, 32, 40] @ ascii style @ [32, 49368, 54540, 41, 46],
     pc_theme_keywords = [[49457, 51109], [44288, 44228], [49440, 53469]],
     pc_prereading_questions = [
        [51060, 32, 52293, 50640, 49436, 32, 44032, 51109, 32, 44592, 45824, 46104, 45716, 32, 48512, 48516, 51008, 32, 47924, 50631, 51064, 44032, 50836, 63],
        [51648, 44552, 32, 45208, 51032, 32, 50612, 46500, 32, 44256, 48124, 44284, 32, 50672, 44208, 46112, 32, 49688, 32, 51080, 51012, 44620, 50836, 63]],
     pc_tokens_used = 0\<rparr>"

definition stub_reflection :: "pystr \<Rightarrow> pystr \<Rightarrow> pystr list \<Rightarrow> int \<Rightarrow> reflection result" where
  "stub_reflection book_title author highlights days_read = Inr \<lparr>
     rl_insights = [
        [12298] @ book_title @ [12299, 51012, 40, 47484, 41, 32] @ int_str days_read @ [51068, 44036, 32, 51069, 51004, 47728, 32, 50619, 51008, 32, 54645, 49900, 32, 53685, 52272] @ ascii '' 1 ('' @ [49368, 54540, 41, 46],
        [54645, 49900, 32, 53685, 52272] @ ascii '' 2 ('' @ [49368, 54540, 41, 46]],
     rl_action_point =
        [50724, 45720, 32, 54616, 45208, 51032, 32, 51089, 51008, 32, 49892, 52380, 51012, 32, 49884, 51089, 54644, 32, 48372, 49464, 50836, 32, 40, 49368,
        54540, 41, 46],
     rl_next_books = [
        \<lparr>nb_title = [52628, 52380, 32, 46020, 49436, 32, 49], nb_reason = [48708, 49847, 54620, 32, 51452, 51228, 32, 40, 49368, 54540, 41, 46]\<rparr>,
        \<lparr>nb_title = [52628, 52380, 32, 46020, 49436, 32, 50], nb_reason = [54620, 32, 44152, 51020, 32, 45908, 32, 40, 49368, 54540, 41, 46]\<rparr>],
     rl_tokens_used = 0\<rparr>"

definition stub_club_topics :: "pystr \<Rightarrow> int \<Rightarrow> int \<Rightarrow> (pystr list \<times> int) result" where
  "stub_club_topics book_title page_start page_end = Inr ([
        int_str page_start @ [126] @ int_str page_end @ [51901, 50640, 49436, 32, 44032, 51109, 32, 51064, 49345, 32, 44618, 50632, 45912, 32, 51109, 47732, 51008] @ ascii ''? ('' @ [49368, 54540, 41],
        [46321, 51109, 51064, 47932, 51032, 32, 49440, 53469, 50640, 32, 46041, 51032, 54616, 45208, 50836] @ ascii ''? ('' @ [49368, 54540, 41],
        [51060, 48264, 32, 51452, 32, 48276, 50948, 51032, 32, 54645, 49900, 32, 47700, 49884, 51648, 45716] @ ascii ''? ('' @ [49368, 54540, 41]], 0)"

definition stub_agenda_topics :: "pystr \<Rightarrow> pystr \<Rightarrow> pystr \<Rightarrow> (pystr list \<times> int) result" where
  "stub_agenda_topics book_title author scope = Inr ([
        [12298] @ book_title @ [12299, 51032, 32, 39] @ scope @ [39, 32, 48276, 50948, 50640, 49436, 32, 44032, 51109, 32, 45436, 51137, 51201, 51064, 32, 51648, 51216, 51008] @ ascii ''? ('' @ [49368, 54540, 41],
        [51060, 32, 48276, 50948, 50640, 49436, 32, 46321, 51109, 51064, 47932, 51032, 32, 49440, 53469, 50640, 32, 46041, 51032, 54616, 45208, 50836, 44, 32,
        48152, 45824, 54616, 45208, 50836] @ ascii ''? ('' @ [49368, 54540, 41],
        author @ [51032, 32, 44288, 51216, 50640, 49436, 32, 51060, 32, 48276, 50948, 44032, 32, 51204, 54616, 45716, 32, 47700, 49884, 51648, 45716, 32, 47924, 50631,
        51068, 44620, 50836] @ ascii ''? ('' @ [49368, 54540, 41],
        [50864, 47532, 32, 47784, 51076, 44284, 32, 48708, 49847, 54620, 32, 44221, 54744, 51060, 32, 51080, 45796, 47732, 32, 47924, 50631, 51064, 44032,
        50836] @ ascii ''? ('' @ [49368, 54540, 41]], 0)"

definition stub_audio_intro :: "pystr \<Rightarrow> pystr \<Rightarrow> pystr option \<Rightarrow> (pystr \<times> int) result" where
  "stub_audio_intro book_title author description = Inr (
        [50504, 45397, 54616, 49464, 50836, 46, 32, 50724, 45720, 32, 54632, 44760, 32, 51069, 51012, 32, 52293, 51008, 32] @ author @ [51032, 32, 12298] @ book_title @ [12299, 51077, 45768, 45796, 46, 32, 51104, 49884, 32, 54840, 55137, 51012, 32, 44032, 45796, 46316, 44256, 44, 32, 52293, 51109, 51012, 32, 45336,
        44592, 47728, 32, 46496, 50724, 47476, 45716, 32, 49373, 44033, 50640, 32, 44480, 32, 44592, 50872, 50668, 32, 48372, 49464, 50836] @ ascii ''. ('' @
        [49368, 54540, 41], 0)"

definition stub_recommend_books :: "(pystr \<times> pystr) list \<Rightarrow> (pystr \<times> pystr \<times> pystr) list result" where
  "stub_recommend_books completed_books =
     (let seed = (case completed_books of [] \<Rightarrow> [50668, 47084, 32, 51200, 51088] | (t, a) # _ \<Rightarrow> a)
      in Inr (map (\<lambda>i. ([52628, 52380, 32, 46020, 49436, 32] @ int_str i, seed,
           [52572, 44540, 32, 46021, 49436, 32, 51060, 47141, 44284, 32, 44208, 51060, 32, 48708, 49847, 54620, 32, 52293, 51077, 45768, 45796, 32, 40, 49368,
        54540, 32] @ int_str i @ [41, 46])) [1, 2, 3]))"

definition stub_ai :: coach_ai where
  "stub_ai =
     \<lparr>generate_prep_card = stub_prep_card, generate_reflection = stub_reflection, generate_club_topics = stub_club_topics,
      generate_agenda_topics = stub_agenda_topics, generate_audio_intro = stub_audio_intro\<rparr>"

section \<open>Properties\<close>

lemma llm_attempts_cases:
  "(\<exists>i. k \<le> i \<and> i \<le> k + left \<and> (\<forall>j. k \<le> j \<and> j < i \<longrightarrow> send j = Transient) \<and> send i \<noteq> Transient \<and>
      llm_attempts loads send k left = read_answer loads (send i)) \<or>
   ((\<forall>j. k \<le> j \<and> j \<le> k + left \<longrightarrow> send j = Transient) \<and> llm_attempts loads send k left = Inl LibraryError)"
proof (induction left arbitrary: k)
  case 0
  then show ?case by (cases "send k = Transient") (auto simp: read_answer_def le_antisym)
next
  case (Suc left)
  show ?case
  proof (cases "send k = Transient")
    case False
    then show ?thesis by (intro disjI1 exI [of _ k]) auto
  next
    case True
    then have step: "llm_attempts loads send k (Suc left) = llm_attempts loads send (Suc k) left" by simp
    have earlier: "\<forall>j. k \<le> j \<and> P j \<longrightarrow> send j = Transient" if "\<forall>j. Suc k \<le> j \<and> P j \<longrightarrow> send j = Transient" for P
      using that True by (metis le_antisym not_less_eq_eq)
    from Suc.IH [of "Suc k"] show ?thesis
    proof
      assume "\<exists>i. Suc k \<le> i \<and> i \<le> Suc k + left \<and> (\<forall>j. Suc k \<le> j \<and> j < i \<longrightarrow> send j = Transient) \<and> send i \<noteq> Transient \<and>
        llm_attempts loads send (Suc k) left = read_answer loads (send i)"
      then obtain i where "Suc k \<le> i" "i \<le> Suc k + left" "\<forall>j. Suc k \<le> j \<and> j < i \<longrightarrow> send j = Transient" "send i \<noteq> Transient"
        "llm_attempts loads send (Suc k) left = read_answer loads (send i)" by blast
      then show ?thesis using earlier [of "\<lambda>j. j < i"] step by (intro disjI1 exI [of _ i]) simp
    next
      assume "(\<forall>j. Suc k \<le> j \<and> j \<le> Suc k + left \<longrightarrow> send j = Transient) \<and> llm_attempts loads send (Suc k) left = Inl LibraryError"
      then show ?thesis using earlier [of "\<lambda>j. j \<le> Suc k + left"] step by (intro disjI2) simp
    qed
  qed
qed

lemma all_transient: "(\<And>k. send k = Transient) \<Longrightarrow> llm_attempts loads send k left = Inl LibraryError"
  by (induction left arbitrary: k) (simp_all add: read_answer_def)

text \<open>
  A generation is what the first attempt that is not a transient failure comes to, among at most
  three; the transient failures themselves are not mapped: when all three attempts meet one, the
  exception of the library escapes and every request of the coach and of the picks is answered with 500
  and not with the 502 of an \<open>ExternalServiceError\<close>.
\<close>
theorem overload_escapes:
  fixes loads :: "pystr \<Rightarrow> jvalue option" and send :: llm
  shows "((\<exists>i \<le> 2. (\<forall>j < i. send sys prompt schema j = Transient) \<and> send sys prompt schema i \<noteq> Transient \<and>
       llm_generate loads send sys prompt schema = read_answer loads (send sys prompt schema i)) \<or>
     llm_generate loads send sys prompt schema = Inl LibraryError) \<and>
   ((\<forall>a b c k. send a b c k = Transient) \<longrightarrow>
     generate_prep_card (claude_ai T loads send) title author description style = Inl LibraryError \<and>
     generate_reflection (claude_ai T loads send) title author highlights days = Inl LibraryError \<and>
     generate_club_topics (claude_ai T loads send) title p q = Inl LibraryError \<and>
     generate_agenda_topics (claude_ai T loads send) title author scope = Inl LibraryError \<and>
     generate_audio_intro (claude_ai T loads send) title author description = Inl LibraryError \<and>
     claude_recommend_books T loads send history = Inl LibraryError \<and> http_status LibraryError = 500)"
proof (intro conjI impI)
  show "(\<exists>i \<le> 2. (\<forall>j < i. send sys prompt schema j = Transient) \<and> send sys prompt schema i \<noteq> Transient \<and>
       llm_generate loads send sys prompt schema = read_answer loads (send sys prompt schema i)) \<or>
     llm_generate loads send sys prompt schema = Inl LibraryError"
    using llm_attempts_cases [of 0 2 "send sys prompt schema" loads] by (auto simp: llm_generate_def numeral_2_eq_2)
qed (simp_all add: claude_ai_def claude_prep_card_def claude_reflection_def claude_club_topics_def claude_agenda_topics_def
    claude_audio_intro_def claude_topics_def claude_recommend_books_def llm_generate_def all_transient)

definition always_busy :: llm where
  "always_busy sys prompt schema k = Transient"

lemma overload_escapes_witness:
  "generate_prep_card (claude_ai ascii_lib (\<lambda>t. None) always_busy) (ascii ''A Book'') (ascii ''An Author'') None ''analytical'' = Inl LibraryError \<and>
   http_status LibraryError = 500"
  using overload_escapes [of always_busy] by (simp add: always_busy_def)

text \<open>Only the first ten highlights reach the model.\<close>

lemma ten_highlights:
  "claude_reflection T loads send title author highlights days = claude_reflection T loads send title author (take 10 highlights) days"
  by (simp add: claude_reflection_def reflection_prompt_def highlight_block_def MAX_HIGHLIGHTS_def)

end
