(* ===== verification/Recommender.thy ===== *)
theory Recommender
  imports DiscoveryProps "HOL-Library.AList"
begin

text \<open>
  The item-based collaborative filter (\<open>backend/app/domains/discovery/ml/recommender.py\<close>): the training
  that scans the library rows, the copies of a model in Redis and in a process, and the ranking; with what
  it recommends, and for how long a process keeps its model. A Python dict is an association list
  (\<open>AList.update\<close> replaces in place or appends). The float32 arithmetic of the arrays, the cosine of two
  columns and numpy's selection of the largest are parameters with documented laws.
\<close>

section \<open>Training\<close>

definition STATUS_RATING :: "user_book_status \<Rightarrow> int option" where
  "STATUS_RATING status =
     (case status of COMPLETED \<Rightarrow> Some 5 | READING \<Rightarrow> Some 3 | WISHLIST \<Rightarrow> Some 1 | PAUSED \<Rightarrow> None | DROPPED \<Rightarrow> None)"

definition MIN_BOOK_INTERACTIONS :: nat where "MIN_BOOK_INTERACTIONS = 2"

type_synonym 'v dict = "(uuid \<times> 'v) list"

definition dict_get :: "'v dict \<Rightarrow> uuid \<Rightarrow> 'v \<Rightarrow> 'v" where
  "dict_get d key dflt = (case map_of d key of None \<Rightarrow> dflt | Some v \<Rightarrow> v)"

text \<open>The row of the join of \<open>user_books\<close> with \<open>books\<close>: reader, book, rating.\<close>

type_synonym interaction = "uuid \<times> book \<times> int"

definition interactions :: "sess \<Rightarrow> interaction list" where
  "interactions s =
     List.map_filter (\<lambda>ub. case (STATUS_RATING (ub_status ub), fetch bk_id (ub_book_id ub) (t_books s)) of
         (Some r, Some b) \<Rightarrow> Some (ub_user_id ub, b, r) | _ \<Rightarrow> None) (t_user_books s)"

definition user_ratings :: "interaction list \<Rightarrow> int dict dict" where
  "user_ratings rows =
     foldl (\<lambda>d (u, b, r). AList.update u (AList.update (bk_id b) r (dict_get d u [])) d) [] rows"

definition book_meta :: "interaction list \<Rightarrow> (pystr \<times> pystr \<times> pystr option) dict" where
  "book_meta rows =
     foldl (\<lambda>d (u, b, r). AList.update (bk_id b) (bk_title b, bk_author b, bk_cover_url b) d) [] rows"

definition interaction_counts :: "interaction list \<Rightarrow> nat dict" where
  "interaction_counts rows =
     foldl (\<lambda>d (u, b, r). AList.update (bk_id b) (dict_get d (bk_id b) 0 + 1) d) [] rows"

definition qualifying_books :: "interaction list \<Rightarrow> uuid list" where
  "qualifying_books rows = map fst (filter (\<lambda>(_, cnt). MIN_BOOK_INTERACTIONS \<le> cnt) (interaction_counts rows))"

record cf_model =
  mo_item_sim :: "rat list list"
  mo_book_ids :: "uuid list"
  mo_book_index :: "nat dict"
  mo_book_meta :: "(pystr \<times> pystr \<times> pystr option) dict"
  mo_user_ratings :: "int dict dict"

text \<open>
  The operations on float32 values: the entry of the similarity matrix for two columns of ratings,
  addition, multiplication by a rating, and the indices of the \<open>k\<close> largest scores in descending order.
\<close>

record float32 =
  f32_similarity :: "int list \<Rightarrow> int list \<Rightarrow> rat"
  f32_add :: "rat \<Rightarrow> rat \<Rightarrow> rat"
  f32_mul :: "rat \<Rightarrow> int \<Rightarrow> rat"
  np_top :: "rat list \<Rightarrow> nat \<Rightarrow> nat list"

text \<open>The column of a book: its rating by each reader of the matrix, zero where there is none.\<close>

definition column :: "int dict dict \<Rightarrow> uuid \<Rightarrow> int list" where
  "column users b = map (\<lambda>(_, ratings). dict_get ratings b 0) users"

definition train :: "float32 \<Rightarrow> sess \<Rightarrow> cf_model option" where
  "train k s =
     (let rows = interactions s; ratings = user_ratings rows; qualifying = qualifying_books rows
      in if rows = [] then None
         else if length qualifying < 2 then None
         else let book_ids = List.sort qualifying;
                  users = filter (\<lambda>(_, rs). list_ex (\<lambda>(b, _). b \<in> set book_ids) rs) ratings
              in if users = [] then None
                 else Some \<lparr>mo_item_sim = map (\<lambda>i. map (\<lambda>j. f32_similarity k (column users i) (column users j)) book_ids) book_ids,
                            mo_book_ids = book_ids, mo_book_index = zip book_ids [0..<length book_ids],
                            mo_book_meta = book_meta rows, mo_user_ratings = ratings\<rparr>)"

text \<open>
  The copies of the model: the one in Redis with its expiry, and the one of the process. Pickling keeps
  the value. A call to Redis that is down raises.
\<close>

definition CF_CACHE_TTL :: int where "CF_CACHE_TTL = 7 * day_us"

type_synonym cf_redis = "(cf_model \<times> datetime) option"

definition retrain :: "float32 \<Rightarrow> bool \<Rightarrow> datetime \<Rightarrow> sess \<Rightarrow> cf_redis \<times> cf_model option \<Rightarrow> (cf_redis \<times> cf_model option) result" where
  "retrain k up now s copies =
     (case train k s of
        None \<Rightarrow> Inr copies
      | Some state \<Rightarrow> if up then Inr (Some (state, now + CF_CACHE_TTL), Some state) else Inl LibraryError)"

definition load_model :: "bool \<Rightarrow> datetime \<Rightarrow> cf_redis \<times> cf_model option \<Rightarrow> cf_model option result" where
  "load_model up now copies =
     (case snd copies of
        Some state \<Rightarrow> Inr (Some state)
      | None \<Rightarrow> if \<not> up then Inl LibraryError
                else Inr (case fst copies of None \<Rightarrow> None
                          | Some (state, expires) \<Rightarrow> if now < expires then Some state else None))"

section \<open>Ranking\<close>

definition add_rated :: "float32 \<Rightarrow> cf_model \<Rightarrow> rat list \<Rightarrow> uuid \<times> int \<Rightarrow> rat list" where
  "add_rated k state scores rated =
     (case map_of (mo_book_index state) (fst rated) of
        None \<Rightarrow> scores
      | Some idx \<Rightarrow> map2 (\<lambda>score sim. f32_add k score (f32_mul k sim (snd rated))) scores (mo_item_sim state ! idx))"

definition drop_rated :: "cf_model \<Rightarrow> rat list \<Rightarrow> uuid \<times> int \<Rightarrow> rat list" where
  "drop_rated state scores rated =
     (case map_of (mo_book_index state) (fst rated) of None \<Rightarrow> scores | Some idx \<Rightarrow> scores[idx := 0])"

definition book_scores :: "float32 \<Rightarrow> cf_model \<Rightarrow> int dict \<Rightarrow> rat list" where
  "book_scores k state user_rated =
     foldl (drop_rated state)
       (foldl (add_rated k state) (replicate (length (mo_book_ids state)) 0) user_rated) user_rated"

definition result_item :: "cf_model \<Rightarrow> nat \<Rightarrow> rec_item option" where
  "result_item state idx =
     (let b = mo_book_ids state ! idx
      in map_option (\<lambda>(title, author, cover_url).
             \<lparr>rk_id = b, rk_title = title, rk_author = author, rk_cover_url = cover_url,
              rk_reason = REASON_SIMILAR, rk_strategy = COLLABORATIVE\<rparr>) (map_of (mo_book_meta state) b))"

definition rank_books :: "float32 \<Rightarrow> uuid \<Rightarrow> nat \<Rightarrow> cf_model \<Rightarrow> rec_item list" where
  "rank_books k user_id limit state =
     (let user_rated = dict_get (mo_user_ratings state) user_id []
      in if user_rated = [] then []
         else let scores = book_scores k state user_rated;
                  top_indices = np_top k scores (min limit (length (mo_book_ids state)))
              in List.map_filter (result_item state) (takeWhile (\<lambda>i. 0 < scores ! i) top_indices))"

definition model_recommend ::
    "float32 \<Rightarrow> bool \<Rightarrow> datetime \<Rightarrow> uuid \<Rightarrow> nat \<Rightarrow> cf_redis \<times> cf_model option \<Rightarrow>
     (rec_item list \<times> cf_redis \<times> cf_model option) result" where
  "model_recommend k up now user_id limit copies =
     bindE (load_model up now copies) (\<lambda>model.
       case model of
         None \<Rightarrow> Inr ([], copies)
       | Some state \<Rightarrow> Inr (rank_books k user_id limit state, fst copies, Some state))"

section \<open>Dicts\<close>

lemma dict_get_update: "dict_get (AList.update k v d) j dflt = (if j = k then v else dict_get d j dflt)"
  by (simp add: dict_get_def AList.update_conv')

lemma dict_get_in: "k \<in> fst ` set d \<Longrightarrow> distinct (map fst d) \<Longrightarrow> (k, dict_get d k dflt) \<in> set d"
  by (auto simp: dict_get_def map_of_is_SomeI split: option.split)

lemma foldl_snoc: "foldl f z (xs @ [x]) = f (foldl f z xs) x"
  by simp

lemmas dict_simps = dict_get_update AList.dom_update AList.distinct_update

section \<open>What training collects\<close>

definition rated_by :: "uuid \<Rightarrow> interaction list \<Rightarrow> uuid set" where
  "rated_by u rows = {bk_id b | b r. (u, b, r) \<in> set rows}"

lemma rated_by_simps [simp]:
  "rated_by u [] = {}" "rated_by u (rows @ [(v, b, r)]) = (if v = u then insert (bk_id b) (rated_by u rows) else rated_by u rows)"
  by (auto simp: rated_by_def)

lemma rated_by_set: "rated_by u rows = set (map (\<lambda>(_, b, _). bk_id b) (filter (\<lambda>(v, _). v = u) rows))"
  by (force simp: rated_by_def)

lemma user_ratings_snoc:
  "user_ratings (rows @ [(u, b, r)]) = AList.update u (AList.update (bk_id b) r (dict_get (user_ratings rows) u [])) (user_ratings rows)"
  by (simp add: user_ratings_def)

lemma user_ratings_keys: "fst ` set (dict_get (user_ratings rows) u []) = rated_by u rows"
proof (induction rows rule: rev_induct)
  case Nil
  show ?case by (simp add: user_ratings_def dict_get_def)
next
  case (snoc x rows)
  then show ?case by (cases x) (auto simp: user_ratings_snoc dict_simps)
qed

lemma user_ratings_distinct:
  "distinct (map fst (user_ratings rows)) \<and> distinct (map fst (dict_get (user_ratings rows) u []))"
proof (induction rows rule: rev_induct)
  case Nil
  show ?case by (simp add: user_ratings_def dict_get_def)
next
  case (snoc x rows)
  then show ?case by (cases x) (auto simp: user_ratings_snoc dict_simps)
qed

lemma user_ratings_readers: "fst ` set (user_ratings rows) = fst ` set rows"
proof (induction rows rule: rev_induct)
  case Nil
  show ?case by (simp add: user_ratings_def)
next
  case (snoc x rows)
  then show ?case by (cases x) (auto simp: user_ratings_snoc dict_simps)
qed

lemma update_values: "p \<in> set (AList.update k v d) \<Longrightarrow> p = (k, v) \<or> p \<in> set d"
  by (induction d) (auto split: if_splits)

lemma user_ratings_values:
  "\<forall>(u, b, r) \<in> set rows. 0 < r \<Longrightarrow> (b, r) \<in> set (dict_get (user_ratings rows) u []) \<Longrightarrow> 0 < r"
proof (induction rows arbitrary: b r rule: rev_induct)
  case Nil
  then show ?case by (simp add: user_ratings_def dict_get_def)
next
  case (snoc x rows)
  then show ?case by (cases x) (auto simp: user_ratings_snoc dict_simps dest!: update_values split: if_splits)
qed

lemma book_meta_keys: "fst ` set (book_meta rows) = (\<lambda>(u, b, r). bk_id b) ` set rows"
proof (induction rows rule: rev_induct)
  case (snoc x rows)
  then show ?case by (cases x) (auto simp: book_meta_def AList.dom_update)
qed (simp add: book_meta_def)

lemma interaction_counts_keys:
  "fst ` set (interaction_counts rows) = (\<lambda>(u, b, r). bk_id b) ` set rows \<and> distinct (map fst (interaction_counts rows))"
proof (induction rows rule: rev_induct)
  case (snoc x rows)
  then show ?case by (cases x) (auto simp: interaction_counts_def AList.dom_update AList.distinct_update)
qed (simp add: interaction_counts_def)

lemma interaction_counts_get:
  "dict_get (interaction_counts rows) i 0 = length (filter (\<lambda>(u, b, r). bk_id b = i) rows)"
proof (induction rows rule: rev_induct)
  case (snoc x rows)
  then show ?case by (cases x) (auto simp: interaction_counts_def dict_get_update)
qed (simp add: interaction_counts_def dict_get_def)

lemma qualifying_distinct: "distinct (qualifying_books rows)"
  unfolding qualifying_books_def using interaction_counts_keys [of rows] by (simp add: distinct_map_filter)

lemma qualifying_iff:
  "i \<in> set (qualifying_books rows) \<longleftrightarrow> MIN_BOOK_INTERACTIONS \<le> length (filter (\<lambda>(u, b, r). bk_id b = i) rows)"
proof
  assume "i \<in> set (qualifying_books rows)"
  then obtain n where n: "(i, n) \<in> set (interaction_counts rows)" "MIN_BOOK_INTERACTIONS \<le> n"
    by (auto simp: qualifying_books_def)
  then have "map_of (interaction_counts rows) i = Some n" using interaction_counts_keys by (simp add: map_of_is_SomeI)
  then show "MIN_BOOK_INTERACTIONS \<le> length (filter (\<lambda>(u, b, r). bk_id b = i) rows)"
    using interaction_counts_get [of rows i] n(2) by (simp add: dict_get_def)
next
  assume l: "MIN_BOOK_INTERACTIONS \<le> length (filter (\<lambda>(u, b, r). bk_id b = i) rows)"
  then obtain x where x: "x \<in> set rows" "(case x of (u, b, r) \<Rightarrow> bk_id b = i)"
    by (metis (no_types, lifting) MIN_BOOK_INTERACTIONS_def filter_False list.size(3) not_numeral_le_zero)
  then have "i \<in> fst ` set (interaction_counts rows)" using interaction_counts_keys [of rows] by force
  then have "(i, dict_get (interaction_counts rows) i 0) \<in> set (interaction_counts rows)"
    using interaction_counts_keys [of rows] by (intro dict_get_in) auto
  then show "i \<in> set (qualifying_books rows)" using l by (force simp: qualifying_books_def interaction_counts_get)
qed

lemma qualifying_read: "i \<in> set (qualifying_books rows) \<Longrightarrow> \<exists>u. i \<in> rated_by u rows"
  using interaction_counts_keys [of rows] by (fastforce simp: qualifying_books_def rated_by_def image_iff)

section \<open>Scores\<close>

definition positive_join :: "int list \<Rightarrow> int list \<Rightarrow> bool" where
  "positive_join a b \<longleftrightarrow> list_ex (\<lambda>(x, y). 0 < x \<and> 0 < y) (zip a b)"

text \<open>
  What the filter relies on: values are not negative; a sum or a product with a rating is positive exactly
  when one of the summands, or the factor, is; two columns are similar exactly when some reader rated
  both; and numpy selects \<open>k\<close> different indices, none of a smaller score than one left out, in descending
  order of their scores.
\<close>

definition selects_top :: "(rat list \<Rightarrow> nat \<Rightarrow> nat list) \<Rightarrow> rat list \<Rightarrow> nat \<Rightarrow> bool" where
  "selects_top sel scores k \<longleftrightarrow>
     distinct (sel scores k) \<and> set (sel scores k) \<subseteq> {..<length scores} \<and> length (sel scores k) = k \<and>
     sorted_wrt (\<lambda>i j. scores ! j \<le> scores ! i) (sel scores k) \<and>
     (\<forall>i \<in> set (sel scores k). \<forall>j < length scores. j \<in> set (sel scores k) \<or> scores ! j \<le> scores ! i)"

definition float32_laws :: "float32 \<Rightarrow> bool" where
  "float32_laws k \<longleftrightarrow>
     (\<forall>a b. length a = length b \<longrightarrow> (\<forall>x \<in> set a \<union> set b. 0 \<le> x) \<longrightarrow>
        0 \<le> f32_similarity k a b \<and> (0 < f32_similarity k a b \<longleftrightarrow> positive_join a b)) \<and>
     (\<forall>x y. 0 \<le> x \<longrightarrow> 0 \<le> y \<longrightarrow> 0 \<le> f32_add k x y \<and> (0 < f32_add k x y \<longleftrightarrow> 0 < x \<or> 0 < y)) \<and>
     (\<forall>x r. 0 \<le> x \<longrightarrow> 0 < r \<longrightarrow> 0 \<le> f32_mul k x r \<and> (0 < f32_mul k x r \<longleftrightarrow> 0 < x)) \<and>
     (\<forall>scores n. n \<le> length scores \<longrightarrow> selects_top (np_top k) scores n)"

text \<open>The shape of a trained model.\<close>

definition cf_shape :: "cf_model \<Rightarrow> bool" where
  "cf_shape st \<longleftrightarrow>
     distinct (mo_book_ids st) \<and> mo_book_index st = zip (mo_book_ids st) [0..<length (mo_book_ids st)] \<and>
     length (mo_item_sim st) = length (mo_book_ids st) \<and>
     (\<forall>row \<in> set (mo_item_sim st). length row = length (mo_book_ids st) \<and> (\<forall>x \<in> set row. 0 \<le> x))"

abbreviation cf_size :: "cf_model \<Rightarrow> nat" where
  "cf_size st \<equiv> length (mo_book_ids st)"

lemma cf_index:
  assumes "cf_shape st"
  shows "map_of (mo_book_index st) b = Some i \<longleftrightarrow> i < cf_size st \<and> mo_book_ids st ! i = b"
proof -
  have "map_of (mo_book_index st) b = Some i \<longleftrightarrow> (b, i) \<in> set (zip (mo_book_ids st) [0..<cf_size st])"
    using assms by (simp add: cf_shape_def)
  then show ?thesis by (auto simp: in_set_zip)
qed

definition scores_ok :: "cf_model \<Rightarrow> rat list \<Rightarrow> bool" where
  "scores_ok st scores \<longleftrightarrow> length scores = cf_size st \<and> (\<forall>x \<in> set scores. 0 \<le> x)"

lemma add_rated_step:
  assumes "float32_laws k" "cf_shape st" "scores_ok st scores" "0 < r"
  shows "scores_ok st (add_rated k st scores (b, r)) \<and>
    (\<forall>j < cf_size st. 0 < add_rated k st scores (b, r) ! j \<longleftrightarrow>
       0 < scores ! j \<or> (\<exists>i < cf_size st. mo_book_ids st ! i = b \<and> 0 < mo_item_sim st ! i ! j))"
proof (cases "map_of (mo_book_index st) b")
  case None
  then have "\<nexists>i. i < cf_size st \<and> mo_book_ids st ! i = b" using cf_index [OF assms(2), of b] by force
  then show ?thesis using None assms(3) by (auto simp: add_rated_def)
next
  case (Some i)
  then have i: "i < cf_size st" "mo_book_ids st ! i = b" using cf_index [OF assms(2)] by auto
  have u: "i' < cf_size st \<Longrightarrow> mo_book_ids st ! i' = b \<Longrightarrow> i' = i" for i'
    using i assms(2) by (metis cf_shape_def nth_eq_iff_index_eq)
  let ?row = "mo_item_sim st ! i"
  have row: "length ?row = cf_size st" "\<forall>x \<in> set ?row. 0 \<le> x"
    using assms(2) i(1) by (auto simp: cf_shape_def)
  have l: "length scores = cf_size st" "\<forall>x \<in> set scores. 0 \<le> x" using assms(3) by (auto simp: scores_ok_def)
  have v: "add_rated k st scores (b, r) = map2 (\<lambda>score sim. f32_add k score (f32_mul k sim r)) scores ?row"
    using Some by (simp add: add_rated_def)
  have nn: "0 \<le> scores ! j" "0 \<le> ?row ! j" if "j < cf_size st" for j using that l row by auto
  have f: "0 \<le> f32_add k (scores ! j) (f32_mul k (?row ! j) r) \<and>
      (0 < f32_add k (scores ! j) (f32_mul k (?row ! j) r) \<longleftrightarrow> 0 < scores ! j \<or> 0 < ?row ! j)" if "j < cf_size st" for j
    using assms(1,4) nn [OF that] unfolding float32_laws_def by blast
  have "scores_ok st (add_rated k st scores (b, r))"
    using f l row by (auto simp: v scores_ok_def set_zip)
  moreover have "0 < add_rated k st scores (b, r) ! j \<longleftrightarrow>
       0 < scores ! j \<or> (\<exists>i < cf_size st. mo_book_ids st ! i = b \<and> 0 < mo_item_sim st ! i ! j)" if "j < cf_size st" for j
  proof -
    have "(\<exists>i < cf_size st. mo_book_ids st ! i = b \<and> 0 < mo_item_sim st ! i ! j) \<longleftrightarrow> 0 < ?row ! j" using i u by blast
    then show ?thesis using f [OF that] that l(1) row(1) by (simp add: v)
  qed
  ultimately show ?thesis by blast
qed

lemma add_all_rated:
  assumes "float32_laws k" "cf_shape st"
  shows "scores_ok st scores \<Longrightarrow> \<forall>(b, r) \<in> set rated. 0 < r \<Longrightarrow>
    scores_ok st (foldl (add_rated k st) scores rated) \<and>
    (\<forall>j < cf_size st. 0 < foldl (add_rated k st) scores rated ! j \<longleftrightarrow>
       0 < scores ! j \<or> (\<exists>i < cf_size st. mo_book_ids st ! i \<in> fst ` set rated \<and> 0 < mo_item_sim st ! i ! j))"
proof (induction rated arbitrary: scores)
  case (Cons p rated)
  obtain b r where p: "p = (b, r)" by (cases p)
  have step: "scores_ok st (add_rated k st scores (b, r))"
    "\<forall>j < cf_size st. 0 < add_rated k st scores (b, r) ! j \<longleftrightarrow>
       0 < scores ! j \<or> (\<exists>i < cf_size st. mo_book_ids st ! i = b \<and> 0 < mo_item_sim st ! i ! j)"
    using add_rated_step [OF assms Cons.prems(1), of r b] Cons.prems(2) p by auto
  show ?case using Cons.IH [OF step(1)] Cons.prems(2) step(2) p by auto
qed simp

lemma drop_all_rated:
  assumes "cf_shape st"
  shows "length scores = cf_size st \<Longrightarrow>
    length (foldl (drop_rated st) scores rated) = cf_size st \<and>
    (\<forall>j < cf_size st. foldl (drop_rated st) scores rated ! j = (if mo_book_ids st ! j \<in> fst ` set rated then 0 else scores ! j))"
proof (induction rated arbitrary: scores)
  case (Cons p rated)
  have "length (drop_rated st scores p) = cf_size st" using Cons.prems by (simp add: drop_rated_def split: option.split)
  moreover have "drop_rated st scores p ! j = (if mo_book_ids st ! j = fst p then 0 else scores ! j)" if "j < cf_size st" for j
  proof (cases "map_of (mo_book_index st) (fst p)")
    case None
    then have "mo_book_ids st ! j \<noteq> fst p" using that cf_index [OF assms, of "fst p" j] by auto
    then show ?thesis using None by (simp add: drop_rated_def)
  next
    case (Some i)
    then have "i < cf_size st" "mo_book_ids st ! i = fst p" using cf_index [OF assms] by auto
    moreover have "distinct (mo_book_ids st)" using assms by (simp add: cf_shape_def)
    ultimately have "mo_book_ids st ! j = fst p \<longleftrightarrow> j = i" using that by (metis nth_eq_iff_index_eq)
    then show ?thesis using Some that Cons.prems by (simp add: drop_rated_def nth_list_update)
  qed
  ultimately show ?case using Cons.IH [of "drop_rated st scores p"] by auto
qed simp

lemma book_scores_positive:
  assumes "float32_laws k" "cf_shape st" "\<forall>(b, r) \<in> set rated. 0 < r"
  shows "length (book_scores k st rated) = cf_size st"
    and "j < cf_size st \<Longrightarrow> 0 < book_scores k st rated ! j \<longleftrightarrow> mo_book_ids st ! j \<notin> fst ` set rated \<and>
           (\<exists>i < cf_size st. mo_book_ids st ! i \<in> fst ` set rated \<and> 0 < mo_item_sim st ! i ! j)"
proof -
  have z: "scores_ok st (replicate (cf_size st) 0)" by (simp add: scores_ok_def)
  note a = add_all_rated [OF assms(1,2) z assms(3)]
  have l: "length (foldl (add_rated k st) (replicate (cf_size st) 0) rated) = cf_size st" using a by (simp add: scores_ok_def)
  show "length (book_scores k st rated) = cf_size st" using drop_all_rated [OF assms(2) l] by (simp add: book_scores_def)
  assume "j < cf_size st"
  then show "0 < book_scores k st rated ! j \<longleftrightarrow> mo_book_ids st ! j \<notin> fst ` set rated \<and>
      (\<exists>i < cf_size st. mo_book_ids st ! i \<in> fst ` set rated \<and> 0 < mo_item_sim st ! i ! j)"
    using drop_all_rated [OF assms(2) l, of rated] a by (simp add: book_scores_def)
qed

text \<open>The selection, cut at the first score that is not positive.\<close>

lemma takeWhile_descending:
  "sorted_wrt (\<lambda>i j. f j \<le> f i) xs \<Longrightarrow> takeWhile (\<lambda>i. 0 < f i) xs = filter (\<lambda>i. 0 < (f i :: rat)) xs"
proof (induction xs)
  case (Cons x xs)
  show ?case
  proof (cases "0 < f x")
    case False
    then have "filter (\<lambda>i. 0 < f i) xs = []" using Cons.prems by (fastforce simp: filter_empty_conv)
    then show ?thesis using False by simp
  qed (use Cons in simp)
qed simp

lemma top_positive:
  fixes scores :: "rat list"
  assumes "selects_top sel scores (min limit (length scores))"
  defines "P \<equiv> {i. i < length scores \<and> 0 < scores ! i}"
  defines "xs \<equiv> takeWhile (\<lambda>i. 0 < scores ! i) (sel scores (min limit (length scores)))"
  shows "distinct xs \<and> set xs \<subseteq> P \<and> length xs = min limit (card P)"
proof -
  let ?t = "sel scores (min limit (length scores))"
  have t: "distinct ?t" "set ?t \<subseteq> {..<length scores}" "length ?t = min limit (length scores)"
    "sorted_wrt (\<lambda>i j. scores ! j \<le> scores ! i) ?t"
    "\<And>i j. i \<in> set ?t \<Longrightarrow> j < length scores \<Longrightarrow> j \<notin> set ?t \<Longrightarrow> scores ! j \<le> scores ! i"
    using assms(1) unfolding selects_top_def by blast+
  have xs: "xs = filter (\<lambda>i. 0 < scores ! i) ?t"
    unfolding xs_def by (rule takeWhile_descending [OF t(4)])
  have d: "distinct xs" "set xs \<subseteq> P" using t(1,2) by (auto simp: xs P_def)
  have fin: "finite P" by (simp add: P_def)
  have PC: "P \<subseteq> {..<length scores}" by (auto simp: P_def)
  have "length xs = min limit (card P)"
  proof (cases "\<forall>i \<in> set ?t. 0 < scores ! i")
    case True
    then have "xs = ?t" by (simp add: xs filter_id_conv)
    moreover have "card P \<le> length scores" using card_mono [OF _ PC] by simp
    moreover have "length xs \<le> card P" using d fin by (metis card_mono distinct_card)
    ultimately show ?thesis using t(3) by simp
  next
    case False
    then obtain i where i: "i \<in> set ?t" "scores ! i \<le> 0" by force
    have "P \<subseteq> set xs" using t(5) [OF i(1)] i(2) by (force simp: P_def xs)
    then have "set xs = P" using d(2) by blast
    then have "length xs = card P" using d(1) by (metis distinct_card)
    moreover have "length xs \<le> limit" using length_filter_le [of "\<lambda>i. 0 < scores ! i" ?t] t(3) by (simp add: xs)
    ultimately show ?thesis by simp
  qed
  then show ?thesis using d by blast
qed

section \<open>The trained model\<close>

lemma interactions_positive: "\<forall>(u, b, r) \<in> set (interactions s). 0 < r"
proof -
  have "STATUS_RATING status = Some r \<Longrightarrow> 0 < r" for status r by (cases status) (auto simp: STATUS_RATING_def)
  then show ?thesis by (fastforce simp: interactions_def mem_map_filter split: option.splits)
qed

lemma reader_ratings:
  assumes "(u, rs) \<in> set (user_ratings rows)"
  shows "rs = dict_get (user_ratings rows) u []"
  using assms user_ratings_distinct [of rows u] by (simp add: dict_get_def map_of_is_SomeI)

lemma positive_rating:
  assumes "\<forall>(u, b, r) \<in> set rows. 0 < r" "(u, rs) \<in> set (user_ratings rows)"
  shows "0 \<le> dict_get rs b 0" "0 < dict_get rs b 0 \<longleftrightarrow> b \<in> rated_by u rows"
proof -
  have rs: "rs = dict_get (user_ratings rows) u []" by (rule reader_ratings [OF assms(2)])
  have k: "fst ` set rs = rated_by u rows" "distinct (map fst rs)"
    unfolding rs by (rule user_ratings_keys) (simp add: user_ratings_distinct)
  have "0 < dict_get rs b 0" if "b \<in> rated_by u rows"
    using dict_get_in [of b rs 0] that k user_ratings_values [OF assms(1), of b _ u] by (simp add: rs)
  moreover have "dict_get rs b 0 = 0" if "b \<notin> rated_by u rows"
    using that k(1) map_of_eq_None_iff [of rs b] by (simp add: dict_get_def)
  ultimately show "0 \<le> dict_get rs b 0" "0 < dict_get rs b 0 \<longleftrightarrow> b \<in> rated_by u rows" by (cases "b \<in> rated_by u rows"; force)+
qed

lemma column_join: "positive_join (column users a) (column users b) \<longleftrightarrow>
    (\<exists>(u, rs) \<in> set users. 0 < dict_get rs a 0 \<and> 0 < dict_get rs b 0)"
  by (induction users) (auto simp: positive_join_def column_def)

text \<open>The columns that training compares: by readers who rated a book that qualifies.\<close>

lemma training_similarity:
  assumes "float32_laws k" and rows: "rows = interactions s"
    and users: "users = filter (\<lambda>(_, rs). list_ex (\<lambda>(b, _). b \<in> set ids) rs) (user_ratings rows)"
    and a: "a \<in> set ids"
  shows "0 \<le> f32_similarity k (column users a) (column users b) \<and>
    (0 < f32_similarity k (column users a) (column users b) \<longleftrightarrow> (\<exists>u. a \<in> rated_by u rows \<and> b \<in> rated_by u rows))"
proof -
  have pos: "\<forall>(u, b, r) \<in> set rows. 0 < r" unfolding rows by (rule interactions_positive)
  note r = positive_rating [OF pos]
  have sub: "set users \<subseteq> set (user_ratings rows)" by (auto simp: users)
  have nn: "\<forall>x \<in> set (column users c). 0 \<le> x" for c
  proof
    fix x assume "x \<in> set (column users c)"
    then obtain u rs where "(u, rs) \<in> set users" "x = dict_get rs c 0" by (auto simp: column_def)
    then show "0 \<le> x" using sub r(1) by blast
  qed
  have "positive_join (column users a) (column users b) \<longleftrightarrow> (\<exists>u. a \<in> rated_by u rows \<and> b \<in> rated_by u rows)"
  proof
    assume "positive_join (column users a) (column users b)"
    then obtain u rs where "(u, rs) \<in> set users" "0 < dict_get rs a 0" "0 < dict_get rs b 0"
      by (auto simp: column_join)
    then show "\<exists>u. a \<in> rated_by u rows \<and> b \<in> rated_by u rows" using sub r(2) by blast
  next
    assume "\<exists>u. a \<in> rated_by u rows \<and> b \<in> rated_by u rows"
    then obtain u where u: "a \<in> rated_by u rows" "b \<in> rated_by u rows" by blast
    then have "u \<in> fst ` set (user_ratings rows)" by (force simp: rated_by_def user_ratings_readers)
    then obtain rs where rs: "(u, rs) \<in> set (user_ratings rows)" by auto
    have "a \<in> fst ` set rs" using u(1) user_ratings_keys [of rows u] reader_ratings [OF rs] by simp
    then have "(u, rs) \<in> set users" using rs a by (force simp: users list_ex_iff)
    then show "positive_join (column users a) (column users b)" using r(2) [OF rs] u by (auto simp: column_join)
  qed
  moreover have "length (column users a) = length (column users b)" by (simp add: column_def)
  moreover have "\<forall>x \<in> set (column users a) \<union> set (column users b). 0 \<le> x" using nn by blast
  ultimately show ?thesis using assms(1) unfolding float32_laws_def by blast
qed

lemma trained:
  assumes "float32_laws k" "train k s = Some st"
  shows "cf_shape st" "mo_book_ids st = List.sort (qualifying_books (interactions s))"
    "mo_user_ratings st = user_ratings (interactions s)" "mo_book_meta st = book_meta (interactions s)"
    "i < cf_size st \<Longrightarrow> j < cf_size st \<Longrightarrow> 0 < mo_item_sim st ! i ! j \<longleftrightarrow>
       (\<exists>u. mo_book_ids st ! i \<in> rated_by u (interactions s) \<and> mo_book_ids st ! j \<in> rated_by u (interactions s))"
proof -
  define ids where "ids = List.sort (qualifying_books (interactions s))"
  define users where "users = filter (\<lambda>(_, rs). list_ex (\<lambda>(b, _). b \<in> set ids) rs) (user_ratings (interactions s))"
  have st: "st = \<lparr>mo_item_sim = map (\<lambda>i. map (\<lambda>j. f32_similarity k (column users i) (column users j)) ids) ids,
      mo_book_ids = ids, mo_book_index = zip ids [0..<length ids],
      mo_book_meta = book_meta (interactions s), mo_user_ratings = user_ratings (interactions s)\<rparr>"
    using assms(2) by (simp add: train_def Let_def users_def ids_def split: if_splits)
  note sim = training_similarity [OF assms(1) refl users_def]
  have d: "distinct ids" by (simp add: ids_def qualifying_distinct)
  show "cf_shape st" using sim d by (auto simp: cf_shape_def st)
  show "mo_book_ids st = List.sort (qualifying_books (interactions s))"
    "mo_user_ratings st = user_ratings (interactions s)" "mo_book_meta st = book_meta (interactions s)"
    by (simp_all add: st ids_def)
  show "0 < mo_item_sim st ! i ! j \<longleftrightarrow>
       (\<exists>u. mo_book_ids st ! i \<in> rated_by u (interactions s) \<and> mo_book_ids st ! j \<in> rated_by u (interactions s))"
    if "i < cf_size st" "j < cf_size st" using that sim [of "ids ! i" "ids ! j"] by (simp add: st)
qed

section \<open>What is recommended\<close>

text \<open>
  The candidates of a reader: books with two interactions that the reader has not rated and somebody rated
  who also rated a book of the reader with two interactions.
\<close>

definition candidates :: "uuid \<Rightarrow> interaction list \<Rightarrow> uuid set" where
  "candidates u rows =
     {b \<in> set (qualifying_books rows). b \<notin> rated_by u rows \<and>
        (\<exists>v. b \<in> rated_by v rows \<and> rated_by u rows \<inter> rated_by v rows \<inter> set (qualifying_books rows) \<noteq> {})}"

lemma card_nth_image: "distinct xs \<Longrightarrow> A \<subseteq> {..<length xs} \<Longrightarrow> card ((\<lambda>i. xs ! i) ` A) = card A"
  by (rule card_image) (rule inj_on_nth, auto)

lemma map_filter_all: "(\<And>x. x \<in> set xs \<Longrightarrow> f x = Some (g x)) \<Longrightarrow> List.map_filter f xs = map g xs"
  by (induction xs) (simp_all add: map_filter_Cons)

lemma result_items:
  assumes "float32_laws k" "train k s = Some st" "set xs \<subseteq> {..<cf_size st}"
  shows "map rk_id (List.map_filter (result_item st) xs) = map (\<lambda>i. mo_book_ids st ! i) xs"
proof -
  note t = trained [OF assms(1,2)]
  have "\<exists>item. result_item st i = Some item \<and> rk_id item = mo_book_ids st ! i" if "i \<in> set xs" for i
  proof -
    have "mo_book_ids st ! i \<in> set (qualifying_books (interactions s))"
      using that assms(3) t(2) by (metis lessThan_iff nth_mem set_sort subsetD)
    then obtain u where "mo_book_ids st ! i \<in> rated_by u (interactions s)" using qualifying_read by blast
    then have "mo_book_ids st ! i \<in> fst ` set (mo_book_meta st)"
      unfolding t(4) book_meta_keys by (force simp: rated_by_def)
    then obtain m where "map_of (mo_book_meta st) (mo_book_ids st ! i) = Some m"
      by (metis map_of_eq_None_iff not_Some_eq)
    then show ?thesis by (cases m) (simp add: result_item_def Let_def)
  qed
  then have "\<And>i. i \<in> set xs \<Longrightarrow> result_item st i = Some (the (result_item st i)) \<and> rk_id (the (result_item st i)) = mo_book_ids st ! i"
    by fastforce
  then show ?thesis by (subst map_filter_all [where g = "\<lambda>i. the (result_item st i)"]) auto
qed


text \<open>Exact arithmetic: the dot product of the columns, and sorting.\<close>

definition exact32 :: float32 where
  "exact32 = \<lparr>f32_similarity = \<lambda>a b. of_int (\<Sum>(x, y)\<leftarrow>zip a b. x * y), f32_add = (+), f32_mul = \<lambda>x r. x * of_int r,
     np_top = \<lambda>scores n. take n (sort_key (\<lambda>i. - scores ! i) [0..<length scores])\<rparr>"

lemma dot_positive:
  assumes "\<forall>(x, y) \<in> set ps. 0 \<le> x \<and> 0 \<le> (y :: int)"
  shows "0 \<le> (\<Sum>(x, y)\<leftarrow>ps. x * y) \<and> (0 < (\<Sum>(x, y)\<leftarrow>ps. x * y) \<longleftrightarrow> list_ex (\<lambda>(x, y). 0 < x \<and> 0 < y) ps)"
  using assms
proof (induction ps)
  case (Cons p ps)
  obtain x y where p: "p = (x, y)" by (cases p)
  have "0 \<le> x * y" "0 < x * y \<longleftrightarrow> 0 < x \<and> 0 < y" using Cons.prems p by (auto simp: zero_less_mult_iff)
  then show ?case using Cons p by (auto intro: add_pos_pos add_pos_nonneg)
qed simp

lemma sorted_selects: "n \<le> length scores \<Longrightarrow> selects_top (\<lambda>scores n. take n (sort_key (\<lambda>i. - scores ! i) [0..<length scores])) scores n"
proof -
  assume n: "n \<le> length scores"
  let ?o = "sort_key (\<lambda>i. - scores ! i) [0..<length scores]"
  have "sorted (map (\<lambda>i. - scores ! i) ?o)" by simp
  then have s: "sorted_wrt (\<lambda>i j. scores ! j \<le> scores ! i) ?o" by (simp add: sorted_map)
  then have "sorted_wrt (\<lambda>i j. scores ! j \<le> scores ! i) (take n ?o @ drop n ?o)" by simp
  then have t: "sorted_wrt (\<lambda>i j. scores ! j \<le> scores ! i) (take n ?o)"
    "\<forall>i \<in> set (take n ?o). \<forall>j \<in> set (drop n ?o). scores ! j \<le> scores ! i"
    unfolding sorted_wrt_append by blast+
  have "set (take n ?o) \<union> set (drop n ?o) = {..<length scores}"
    by (metis append_take_drop_id atLeast_upt set_append set_sort)
  moreover have "distinct ?o" by simp
  ultimately show ?thesis using n t unfolding selects_top_def by (auto simp: set_eq_iff)
qed

lemma exact32_laws: "float32_laws exact32"
proof -
  have "0 \<le> f32_similarity exact32 a b \<and> (0 < f32_similarity exact32 a b \<longleftrightarrow> positive_join a b)"
    if "length a = length b" "\<forall>x \<in> set a \<union> set b. 0 \<le> x" for a b
    using dot_positive [of "zip a b"] that by (auto simp: exact32_def positive_join_def dest: set_zip_leftD set_zip_rightD)
  moreover have "selects_top (np_top exact32) scores n" if "n \<le> length scores" for scores n
    using sorted_selects [OF that] by (simp add: exact32_def)
  ultimately show ?thesis by (auto simp: float32_laws_def exact32_def add_pos_nonneg add_nonneg_pos zero_less_mult_iff)
qed

text \<open>
  Reader 1 completed book 10 and dropped book 11; readers 2 and 3 hold both, or book 11. Book 11 is the
  candidate of reader 1, and recommended.
\<close>

definition shared_shelf :: sess where
  "shared_shelf = demo\<lparr>t_books := [demo_book, demo_book\<lparr>bk_id := 11\<rparr>],
     t_user_books := [demo_user_book\<lparr>ub_status := COMPLETED\<rparr>, demo_user_book\<lparr>ub_id := 101, ub_book_id := 11, ub_status := DROPPED\<rparr>,
       demo_user_book\<lparr>ub_id := 102, ub_user_id := 2\<rparr>, demo_user_book\<lparr>ub_id := 103, ub_user_id := 2, ub_book_id := 11\<rparr>,
       demo_user_book\<lparr>ub_id := 104, ub_user_id := 3, ub_book_id := 11\<rparr>]\<rparr>"

lemma shared_interactions:
  "interactions shared_shelf = [(1, demo_book, 5), (2, demo_book, 3), (2, demo_book\<lparr>bk_id := 11\<rparr>, 3), (3, demo_book\<lparr>bk_id := 11\<rparr>, 3)]"
  by (simp add: interactions_def shared_shelf_def map_filter_Cons List.map_filter_simps STATUS_RATING_def fetch_def demo_defs)

lemma shared_qualifying: "set (qualifying_books (interactions shared_shelf)) = {10, 11}"
  by (auto simp: qualifying_iff shared_interactions MIN_BOOK_INTERACTIONS_def split: if_splits)

lemma shared_candidates: "candidates 1 (interactions shared_shelf) = {11}"
proof -
  have r: "rated_by u (interactions shared_shelf) =
      (if u = 1 then {10} else if u = 2 then {10, 11} else if u = 3 then {11} else {})" for u
    using rated_by_set [of u "interactions shared_shelf"] by (auto simp: shared_interactions)
  show ?thesis unfolding candidates_def shared_qualifying r by (auto intro: exI [of _ 2] split: if_splits)
qed

lemma shared_trained: "\<exists>st. train exact32 shared_shelf = Some st"
proof -
  have "interactions shared_shelf \<noteq> []" by (simp add: shared_interactions)
  moreover have "length (qualifying_books (interactions shared_shelf)) = 2"
    using distinct_card [OF qualifying_distinct, of "interactions shared_shelf"] by (simp add: shared_qualifying)
  moreover have "filter (\<lambda>(_, rs). list_ex (\<lambda>(b, _). b \<in> {10, 11}) rs) (user_ratings (interactions shared_shelf)) \<noteq> []"
    by (simp add: user_ratings_def shared_interactions dict_get_def)
  ultimately show ?thesis by (simp add: train_def Let_def shared_qualifying)
qed


section \<open>Copies\<close>

text \<open>The processes of the application share Redis; each keeps its own copy of a model.\<close>

datatype cf_step =
    Retrain nat bool datetime sess
  | Ask nat bool datetime uuid nat

type_synonym cf_copies = "cf_redis \<times> (nat \<Rightarrow> cf_model option)"

definition cf_step :: "float32 \<Rightarrow> cf_step \<Rightarrow> cf_copies \<Rightarrow> cf_copies" where
  "cf_step k step copies =
     (case step of
        Retrain p up now s \<Rightarrow>
          (case retrain k up now s (fst copies, snd copies p) of
             Inl _ \<Rightarrow> copies | Inr (store, model) \<Rightarrow> (store, (snd copies)(p := model)))
      | Ask p up now user_id limit \<Rightarrow>
          (case model_recommend k up now user_id limit (fst copies, snd copies p) of
             Inl _ \<Rightarrow> copies | Inr (_, store, model) \<Rightarrow> (store, (snd copies)(p := model))))"

definition retrains :: "nat \<Rightarrow> cf_step \<Rightarrow> bool" where
  "retrains p step \<longleftrightarrow> (case step of Retrain q _ _ _ \<Rightarrow> q = p | Ask _ _ _ _ _ \<Rightarrow> False)"

lemma cf_step_keeps:
  "snd copies p = Some st \<Longrightarrow> \<not> retrains p step \<Longrightarrow> snd (cf_step k step copies) p = Some st"
proof (cases step)
  case (Retrain q up now s)
  assume "snd copies p = Some st" "\<not> retrains p step"
  then show ?thesis using Retrain by (auto simp: cf_step_def retrains_def split: sum.split)
next
  case (Ask q up now u limit)
  assume "snd copies p = Some st"
  then show ?thesis using Ask
    by (cases "q = p") (auto simp: cf_step_def model_recommend_def load_model_def bindE_def split: sum.split)
qed

text \<open>
  A process that holds a model answers from it, whatever other processes train and however much time
  passes - the seven days of the copy in Redis included - until it trains a model itself.
\<close>
theorem process_keeps_model:
  assumes "snd copies p = Some st" "list_all (\<lambda>step. \<not> retrains p step) steps"
  shows "(let copies' = foldl (\<lambda>c step. cf_step k step c) copies steps in
    model_recommend k up now u limit (fst copies', snd copies' p) = Inr (rank_books k u limit st, fst copies', Some st))"
proof -
  have "snd (foldl (\<lambda>c step. cf_step k step c) copies steps) p = Some st"
    using assms by (induction steps arbitrary: copies) (simp_all add: cf_step_keeps)
  then show ?thesis by (simp add: Let_def model_recommend_def load_model_def bindE_def)
qed

text \<open>Process 1 trains anew; eight days later process 0 still answers from its first model.\<close>

theorem process_keeps_model_witness:
  "(let st = the (train exact32 shared_shelf);
        copies = foldl (\<lambda>c step. cf_step exact32 step c) (None, (\<lambda>_. None)(0 := Some st)) [Retrain 1 True 0 demo, Ask 1 True 1 2 10]
    in model_recommend exact32 True (8 * day_us) 2 10 (fst copies, snd copies 0) = Inr (rank_books exact32 2 10 st, fst copies, Some st))"
  using process_keeps_model [of "(None, (\<lambda>_. None)(0 := Some (the (train exact32 shared_shelf))))" 0
      "the (train exact32 shared_shelf)" "[Retrain 1 True 0 demo, Ask 1 True 1 2 10]" exact32 True "8 * day_us" 2 10]
  by (simp add: retrains_def Let_def)

end
