(* ===== verification/Spec2Isabelle.thy ===== *)
theory Spec2Isabelle
  imports QueryProps ChallengeViews ClubProps SocialProps SubscriptionProps System
    InvitationProps TeamProps ReviewProps AuthProps Curation MeetupProps Experiments Reminders Video
    CoachProps DiscoveryProps RealtimeProps CommunityProps AdminProps
    ClientsProps Gateway Search LanguageModel Recommender
begin

text \<open>
  A model of the Python backend of Book Club (\<open>src/backend/app\<close>): a FastAPI application whose domains
  (\<open>domains/*\<close>) each have SQLAlchemy tables (\<open>models.py\<close>), a repository, a service and a router, and
  which exchange events through an in-process bus after a commit.

  The state. One record \<open>sess\<close> (\<open>Schema\<close>) is the database as a request sees it through its session,
  one list of rows per table in the order of insertion, with the queue of staged events and of
  background tasks. A row is a record with the columns of its model; \<open>fetch\<close>, \<open>amend\<close>, \<open>discard\<close> and
  \<open>insert_row\<close> (\<open>Prelude\<close>) are lookup, update, deletion and insertion by key, and the constraints the
  models declare (keys, uniqueness, foreign keys, checks, the ranges and lengths of columns) are
  checked where a row is written: \<open>IntegrityError\<close> and \<open>DataError\<close>. A request is a function from
  its arguments and a \<open>sess\<close> to \<open>error + 'a \<times> sess\<close>; \<open>Inl\<close> is the exception it raises, after which
  \<open>get_session\<close> (\<open>core/db.py\<close>) rolls back, so no state is kept. Instants are microseconds of UTC,
  days are ordinals (\<open>Calendar\<close>), identifiers are naturals, Python text is a list of code points;
  floating-point numbers are rationals rounded as binary64 (\<open>PyNum\<close>). Clock readings, generated
  identifiers and codes are parameters. Ties of a sort keep the order of insertion.

  The parts, each with its theories (model first, then its laws and properties):
  \<^item> \<open>grade_policy.py\<close>, \<open>streak_policy.py\<close>: \<open>GradePolicy\<close>, \<open>StreakPolicy\<close>. The grade is that of the highest
    row whose requirements are met; the incremental streak computes what recomputing from the days does.
  \<^item> \<open>domains/reading\<close>: \<open>ReadingHelpers\<close> (durations, goal windows, recap periods), \<open>ReadingRepo\<close>,
    \<open>ReadingService\<close> (timers, manual logs, goals, bookmarks), \<open>ReadingQueries\<close> (heatmap, goals, recaps,
    statistics). \<open>ReadingLedger\<close> and \<open>ReadingMachine\<close> hold what each operation does to the buckets,
    the snapshots and the sessions and the invariant of all reachable states; \<open>ReadingProps\<close> and
    \<open>QueryProps\<close> the properties, with the statistics that PostgreSQL averages.
  \<^item> \<open>domains/book\<close>: \<open>BookLibrary\<close>.
  \<^item> \<open>domains/feed\<close>: \<open>FeedEvents\<close> (what the other domains write to the activity stream), \<open>FeedRepo\<close>,
    \<open>FeedService\<close>; \<open>FeedLaws\<close> proves the laws of a table of marks once, in the locale \<open>marks\<close>, and
    interprets it for the reactions to posts and to events; \<open>FeedProps\<close>.
  \<^item> \<open>domains/social\<close>: \<open>Social\<close>; \<open>SocialProps\<close> refines it to a graph of follow and block edges.
  \<^item> \<open>domains/challenge\<close>: \<open>Challenge\<close> (repository), \<open>ChallengeService\<close>; \<open>ChallengeLaws\<close> and \<open>ChallengeMachine\<close>
    describe an event as one update of every participation and the badges it grants, and the
    reachable states; \<open>ChallengeProps\<close> and \<open>ChallengeViews\<close> the properties.
  \<^item> \<open>domains/club\<close>: \<open>ClubRepo\<close>, \<open>ClubService\<close> (clubs, members, events, chat, rooms, reading plans),
    \<open>ClubSessionRepo\<close>, \<open>ClubSessionService\<close> (meetings, agendas, topics, comments). \<open>ClubRoster\<close> is the
    abstract roster the membership tables refine, \<open>ClubMeetings\<close> the invariant of meetings,
    \<open>ClubDiscussion\<close> the grouping of comments into threads, \<open>ClubMachine\<close> the requests as steps;
    \<open>ClubProps\<close> the properties.
  \<^item> \<open>domains/notification\<close>: \<open>Notification\<close> (inbox, preferences, event handlers, fan-outs to a club),
    \<open>NotificationBatch\<close> (weekly report, reminders, coupons, and \<open>domains/retention\<close>), \<open>NotificationProps\<close>.
  \<^item> \<open>domains/subscription\<close>, \<open>domains/shield\<close>: \<open>Subscription\<close>, \<open>SubscriptionProps\<close>.
  \<^item> \<open>core/security.py\<close>, \<open>core/deps.py\<close>, \<open>domains/auth\<close>: \<open>Auth\<close> (tokens, who is calling, accounts, devices) and
    \<open>AuthProps\<close>. The JWT library is a parameter \<open>jwt\<close>; what the properties ask of it (\<open>signs\<close>: a decoded
    token is one this server minted and has not expired) is satisfied by the concrete \<open>plain_jwt\<close>.
  \<^item> \<open>domains/referral\<close>, \<open>domains/share\<close>: \<open>Invitations\<close> and \<open>InvitationProps\<close>; \<open>domains/team\<close>: \<open>Teams\<close>, whose
    requests \<open>TeamProps\<close> refines to a roster with a cap; \<open>domains/review\<close>: \<open>Reviews\<close>, \<open>ReviewProps\<close>;
    \<open>domains/curation\<close>: \<open>Curation\<close>; \<open>domains/event\<close>: \<open>Meetups\<close>, whose waitlists \<open>MeetupProps\<close> refines to queues
    (sine, cosine and the rest of the C library are the parameter \<open>libm\<close>); \<open>domains/reminder\<close>:
    \<open>Reminders\<close>; \<open>domains/video\<close>: \<open>Video\<close>, refined to one room for each club.
  \<^item> \<open>domains/experiment\<close>: \<open>Experiments\<close>. \<open>Digest\<close> holds the parts of \<open>hashlib\<close>, \<open>hmac\<close> and \<open>base64\<close> it and
    the video tokens use, SHA-256 on 32-bit words included.
  \<^item> \<open>domains/ai_assistant\<close>: \<open>Coach\<close>, the cache of prep cards, the stored guides and the ledger of what was charged;
    \<open>CoachProps\<close> shows that the quotas hold after any sequence of requests and that nothing is generated twice. The
    language model is the parameter \<open>coach_ai\<close>, of which \<open>LanguageModel\<close> holds both instances the code has: the prompts,
    attempts and readings of the adapter, and the canned answers.
  \<^item> \<open>domains/discovery\<close>, \<open>book/taste_profile_repository.py\<close>: \<open>Discovery\<close>, taste profiles, interests, the four
    strategies and four channels and the cache of \<open>core/cache.py\<close>; \<open>DiscoveryProps\<close>. \<open>Recommender\<close>,
    the collaborative filter of \<open>discovery/ml\<close>: training, ranking and the copies of a model, shown to recommend
    exactly the books its specification names.
  \<^item> \<open>domains/community\<close>: \<open>Community\<close>, the feeds of posts, profiles and the activity summary; \<open>CommunityProps\<close> shows
    that following the cursors reaches every post of the dated feeds and repeats the popular one.
  \<^item> \<open>domains/admin\<close>, \<open>scripts/promote_admin.py\<close>: \<open>Admin\<close>, statistics, revenue and the flags of users; \<open>AdminProps\<close>
    keeps an administrator through every request and partitions the revenue trend.
  \<^item> \<open>core/http/base_client.py\<close> and the adapters of the domains: \<open>Clients\<close> (retries, JSON values, Kakao, Apple,
    RevenueCat, FCM, object URLs); \<open>BookSources\<close>, the catalogues of Naver and Kakao with their fallback;
    \<open>ClientsProps\<close> treats both, with the composition of the search and the library.
  \<^item> \<open>domains/search\<close>: \<open>Search\<close>; \<open>core/middleware.py\<close>, \<open>shared/i18n.py\<close>, \<open>api/*\<close> and the webhooks:
    \<open>Gateway\<close>, which shows that a webhook's expiry survives floating point to the microsecond.
  \<^item> \<open>core/ws_manager.py\<close>, \<open>domains/club/ws_router.py\<close>: \<open>Realtime\<close>, the connection managers of any number of
    processes with their relays over Redis, and the handling of one connection and one text of the three
    streams; \<open>RealtimeProps\<close> treats the traffic as a machine: channels do not leak, and what the relay
    adds and omits.
  \<^item> \<open>shared/event_bus.py\<close>: \<open>EventBus\<close>, the bus and the hooks of a session.
  \<^item> \<open>main.py\<close>: \<open>System\<close>, the subscriptions of the running application, requests, and the delivery of
    what they stage in rounds. Here the components meet: a timer ended in the reading service moves
    the challenges of the reader, and deliveries come to rest after two rounds.

  Interfaces. \<open>guarded_machine\<close>, \<open>monotone_machine\<close> and \<open>refinement\<close> (\<open>Prelude\<close>) are what a set of
  requests needs to keep an invariant, to move along an order or along an abstract step relation;
  they are interpreted for reading, challenges, clubs, the feed, the social graph, accounts, invitations,
  teams, reviews, curation, waitlists, experiments, reminders, calls, the coach and the console. The laws of
  \<open>keyed_table\<close> are interpreted for the tables that are looked up by key; \<open>and_ladder\<close> for the grades;
  \<open>cursor_pages\<close> (\<open>Paging\<close>) shows that following strict cursors reaches every row once, and is
  interpreted for the challenge list and the timelines; \<open>Cascade\<close> bounds \<open>ON DELETE CASCADE\<close> over a table
  that refers to itself.

  Fuel. \<open>cascade\<close> runs at most as many rounds as the table has rows, which reaches the closure
  (\<open>Cascade\<close>); \<open>walk\<close> follows at most \<open>fuel\<close> pages, and its theorems ask for more than there are rows;
  \<open>deliver\<close> runs a number of rounds of which two are shown to be enough.

  Not modelled: what a language model answers, float32 arithmetic and numpy's selection of the largest (parameters with laws), the routers beyond the checks a service relies on, the pauses between the
  attempts of a client, contention of concurrent statements for one session, the interleaving of a
  broadcast with connections that open or close while it is sent, and the delivery of pushes by the service
  behind the client.
\<close>

end
